(* ===== verification/Oore_Prelude.thy ===== *)
theory Oore_Prelude
  imports Complex_Main "HOL-Library.List_Lexorder" "HOL-Library.Char_ord"
begin

text \<open>
  Shared vocabulary of the development: the API error type of the daemon, a
  little result plumbing, Rust string helpers over byte strings, and SQL-style
  operations on tables held as lists of rows, with the lemmas that carry the
  component proofs.

  Text is a HOL \<open>string\<close>, one \<open>char\<close> per byte, so Rust's \<open>len\<close> is \<open>length\<close>.
  Trimming and lower-casing act on the ASCII characters.
\<close>

named_theorems table_simps \<open>rewrite rules for table operations\<close>
named_theorems enum_simps \<open>unfolding rules for enumeration helpers\<close>

subsection \<open>Results and API errors\<close>

text \<open>The HTTP status codes the modelled handlers answer with.\<close>

datatype status_code =
    BAD_REQUEST | UNAUTHORIZED | FORBIDDEN | NOT_FOUND | CONFLICT | GONE | PAYLOAD_TOO_LARGE | TOO_MANY_REQUESTS
  | INTERNAL_SERVER_ERROR | BAD_GATEWAY | SERVICE_UNAVAILABLE

text \<open>An API error: status code, machine-readable code, message.\<close>

datatype api_error = ApiError (err_status: status_code) (err_code: string) (err_message: string)

type_synonym 'a api_result = "api_error + 'a"

text \<open>Rust's question mark: stop at the first error.\<close>

definition and_then :: "'e + 'a \<Rightarrow> ('a \<Rightarrow> 'e + 'b) \<Rightarrow> 'e + 'b" where
  "and_then r f = (case r of Inl e \<Rightarrow> Inl e | Inr a \<Rightarrow> f a)"

lemma and_then_simps [simp]:
  "and_then (Inl e) f = Inl e"
  "and_then (Inr a) f = f a"
  by (simp_all add: and_then_def)

lemma and_then_eq_Inr:
  "and_then r f = Inr b \<longleftrightarrow> (\<exists>a. r = Inr a \<and> f a = Inr b)"
  by (cases r) simp_all

definition is_ok :: "'e + 'a \<Rightarrow> bool" where
  "is_ok r = (case r of Inl _ \<Rightarrow> False | Inr _ \<Rightarrow> True)"

lemma is_ok_simps [simp]: "\<not> is_ok (Inl e)" "is_ok (Inr a)"
  by (simp_all add: is_ok_def)

lemma is_okE:
  assumes "is_ok r"
  obtains a where "r = Inr a"
  using assms by (cases r) simp_all

definition ok_or :: "'e \<Rightarrow> 'a option \<Rightarrow> 'e + 'a" where
  "ok_or e x = (case x of None \<Rightarrow> Inl e | Some a \<Rightarrow> Inr a)"

lemma ok_or_simps [simp]: "ok_or e None = Inl e" "ok_or e (Some a) = Inr a"
  by (simp_all add: ok_or_def)

lemma ok_or_eq_Inr: "ok_or e x = Inr a \<longleftrightarrow> x = Some a"
  by (cases x) simp_all

text \<open>A guard, and Rust's question mark in a handler that also returns the state it reached.\<close>

definition ensure :: "bool \<Rightarrow> 'e \<Rightarrow> 'e + unit" where
  "ensure c e = (if c then Inr () else Inl e)"

lemma ensure_eq_Inr [simp]: "ensure c e = Inr u \<longleftrightarrow> c"
  by (simp add: ensure_def)

lemma ensure_True [simp]: "ensure True e = Inr ()"
  by (simp add: ensure_def)

definition try_in :: "'s \<Rightarrow> 'e + 'a \<Rightarrow> ('a \<Rightarrow> ('e + 'b) \<times> 's) \<Rightarrow> ('e + 'b) \<times> 's" where
  "try_in s r k = (case r of Inl e \<Rightarrow> (Inl e, s) | Inr a \<Rightarrow> k a)"

lemma try_in_simps [simp]: "try_in s (Inl e) k = (Inl e, s)" "try_in s (Inr a) k = k a"
  by (simp_all add: try_in_def)

lemma try_in_eq_Inr:
  "try_in s r k = (Inr b, t) \<longleftrightarrow> (\<exists>a. r = Inr a \<and> k a = (Inr b, t))"
  by (cases r) simp_all

text \<open>A property of the reached state is shown branch by branch: where a step fails the state is kept.\<close>

lemma try_in_state:
  assumes "P s" and "\<And>a. r = Inr a \<Longrightarrow> P (snd (k a))"
  shows "P (snd (try_in s r k))"
  using assms by (cases r) simp_all

definition unwrap_or :: "'a \<Rightarrow> 'a option \<Rightarrow> 'a" where
  "unwrap_or d x = (case x of None \<Rightarrow> d | Some a \<Rightarrow> a)"

lemma unwrap_or_simps [simp]: "unwrap_or d None = d" "unwrap_or d (Some a) = a"
  by (simp_all add: unwrap_or_def)

text \<open>Collecting an iterator of results: the first error, or all the values.\<close>

fun collect_results :: "('a \<Rightarrow> 'e + 'b) \<Rightarrow> 'a list \<Rightarrow> 'e + 'b list" where
  "collect_results f [] = Inr []"
| "collect_results f (x # xs) =
     (case f x of Inl e \<Rightarrow> Inl e
      | Inr y \<Rightarrow> (case collect_results f xs of Inl e \<Rightarrow> Inl e | Inr ys \<Rightarrow> Inr (y # ys)))"

lemma collect_results_Inr:
  "collect_results f xs = Inr ys \<longleftrightarrow> list_all2 (\<lambda>x y. f x = Inr y) xs ys"
proof (induction xs arbitrary: ys)
  case Nil
  then show ?case by auto
next
  case (Cons x xs)
  show ?case
  proof (cases "f x")
    case (Inr y)
    then have "collect_results f (x # xs) = Inr ys \<longleftrightarrow>
        (\<exists>zs. ys = y # zs \<and> collect_results f xs = Inr zs)"
      by (auto split: sum.splits)
    with Inr show ?thesis by (auto simp: Cons.IH list_all2_Cons1)
  qed (auto simp: list_all2_Cons1)
qed

subsection \<open>Byte strings\<close>

definition is_ws :: "char \<Rightarrow> bool" where
  "is_ws c \<longleftrightarrow> c \<in> {CHR '' '', CHR 0x09, CHR 0x0A, CHR 0x0B, CHR 0x0C, CHR 0x0D}"

definition trim_start :: "string \<Rightarrow> string" where
  "trim_start = dropWhile is_ws"

definition trim :: "string \<Rightarrow> string" where
  "trim s = rev (dropWhile is_ws (rev (dropWhile is_ws s)))"

definition is_ascii_lowercase :: "char \<Rightarrow> bool" where
  "is_ascii_lowercase c \<longleftrightarrow> 97 \<le> (of_char c :: nat) \<and> (of_char c :: nat) \<le> 122"

definition is_ascii_uppercase :: "char \<Rightarrow> bool" where
  "is_ascii_uppercase c \<longleftrightarrow> 65 \<le> (of_char c :: nat) \<and> (of_char c :: nat) \<le> 90"

definition is_ascii_digit :: "char \<Rightarrow> bool" where
  "is_ascii_digit c \<longleftrightarrow> 48 \<le> (of_char c :: nat) \<and> (of_char c :: nat) \<le> 57"

definition is_ascii_alphabetic :: "char \<Rightarrow> bool" where
  "is_ascii_alphabetic c \<longleftrightarrow> is_ascii_lowercase c \<or> is_ascii_uppercase c"

definition is_ascii_alphanumeric :: "char \<Rightarrow> bool" where
  "is_ascii_alphanumeric c \<longleftrightarrow> is_ascii_alphabetic c \<or> is_ascii_digit c"

definition to_ascii_lower :: "char \<Rightarrow> char" where
  "to_ascii_lower c = (if is_ascii_uppercase c then char_of ((of_char c :: nat) + 32) else c)"

definition to_ascii_lowercase :: "string \<Rightarrow> string" where
  "to_ascii_lowercase = map to_ascii_lower"

text \<open>Rust's \<open>split\<close> on one character: always at least one part.\<close>

fun split_on :: "char \<Rightarrow> string \<Rightarrow> string list" where
  "split_on c [] = [[]]"
| "split_on c (x # xs) =
     (if x = c then [] # split_on c xs
      else (case split_on c xs of [] \<Rightarrow> [[x]] | p # ps \<Rightarrow> (x # p) # ps))"

definition starts_with :: "string \<Rightarrow> string \<Rightarrow> bool" where
  "starts_with p s \<longleftrightarrow> take (length p) s = p"

definition strip_prefix :: "string \<Rightarrow> string \<Rightarrow> string option" where
  "strip_prefix p s = (if starts_with p s then Some (drop (length p) s) else None)"

lemma strip_prefix_Some: "strip_prefix p s = Some t \<longleftrightarrow> s = p @ t"
  by (auto simp: strip_prefix_def starts_with_def) (metis append_take_drop_id)

lemma split_on_not_Nil [simp]: "split_on c xs \<noteq> []"
  by (induction xs) (auto split: list.splits)

lemma split_on_no_sep: "p \<in> set (split_on c xs) \<Longrightarrow> c \<notin> set p"
proof (induction xs arbitrary: p)
  case Nil
  then show ?case by simp
next
  case (Cons x xs)
  then show ?case
    by (cases "split_on c xs") (auto split: if_splits)
qed

lemma split_on_chars: "p \<in> set (split_on c xs) \<Longrightarrow> set p \<subseteq> set xs"
proof (induction xs arbitrary: p)
  case Nil
  then show ?case by simp
next
  case (Cons x xs)
  show ?case
  proof (cases "split_on c xs")
    case Nil
    then show ?thesis by simp
  next
    case (Cons q qs)
    with Cons.IH Cons.prems show ?thesis
      by (auto split: if_splits) blast+
  qed
qed

lemma split_on_single: "c \<notin> set xs \<Longrightarrow> split_on c xs = [xs]"
  by (induction xs) auto

lemma dropWhile_ws_idem [simp]: "dropWhile P (dropWhile P xs) = dropWhile P xs"
  by (induction xs) auto

lemma set_trim_subset: "set (trim s) \<subseteq> set s"
  unfolding trim_def by (auto dest!: set_dropWhileD)

lemma trim_no_ws: "\<forall>c \<in> set s. \<not> is_ws c \<Longrightarrow> trim s = s"
proof -
  assume a: "\<forall>c \<in> set s. \<not> is_ws c"
  have d: "dropWhile is_ws xs = xs" if "\<forall>c \<in> set xs. \<not> is_ws c" for xs
    using that by (cases xs) auto
  show ?thesis
    unfolding trim_def using a by (simp add: d)
qed

lemma to_ascii_lower_uppercase: "\<not> is_ascii_uppercase c \<Longrightarrow> to_ascii_lower c = c"
  by (simp add: to_ascii_lower_def)

text \<open>Rust's \<open>sort\<close> followed by \<open>dedup\<close> on strings (byte-wise order).\<close>

definition sort_dedup :: "string list \<Rightarrow> string list" where
  "sort_dedup xs = remdups_adj (sort xs)"

lemma set_sort_dedup [simp]: "set (sort_dedup xs) = set xs"
  by (simp add: sort_dedup_def)

lemma sorted_sort_dedup: "sorted (sort_dedup xs)"
  by (simp add: sort_dedup_def sorted_remdups_adj)

lemma distinct_sort_dedup: "distinct (sort_dedup xs)"
proof -
  have "distinct (remdups_adj ys)" if "sorted ys" for ys :: "string list"
    using that by (induction ys rule: remdups_adj.induct) (auto simp: less_le_not_le)
  then show ?thesis by (simp add: sort_dedup_def)
qed

lemma sort_dedup_idem: "sort_dedup (sort_dedup xs) = sort_dedup xs"
  using sorted_sort_dedup[of xs] distinct_sort_dedup[of xs]
  by (metis sort_dedup_def remdups_adj_distinct sorted_sort_id)

lemma sort_dedup_cong: "set xs = set ys \<Longrightarrow> sort_dedup xs = sort_dedup ys"
  by (metis distinct_sort_dedup set_sort_dedup sorted_distinct_set_unique sorted_sort_dedup)

text \<open>Decimal rendering of integers.\<close>

fun show_nat :: "nat \<Rightarrow> string" where
  "show_nat n =
     (if n < 10 then [char_of (48 + n)] else show_nat (n div 10) @ [char_of (48 + n mod 10)])"

declare show_nat.simps [simp del]

definition show_int :: "int \<Rightarrow> string" where
  "show_int i = (if i < 0 then CHR ''-'' # show_nat (nat (- i)) else show_nat (nat i))"

subsection \<open>Floating point values\<close>

text \<open>
  A Rust \<open>f64\<close> as far as the daemon looks at it: its finite values are rationals, and
  the comparisons are the IEEE ones (NaN compares false with everything).
\<close>

datatype f64 = Finite rat | Pos_Inf | Neg_Inf | NaN

fun f64_less :: "f64 \<Rightarrow> f64 \<Rightarrow> bool" where
  "f64_less (Finite x) (Finite y) = (x < y)"
| "f64_less (Finite x) Pos_Inf = True"
| "f64_less Neg_Inf (Finite y) = True"
| "f64_less Neg_Inf Pos_Inf = True"
| "f64_less _ _ = False"

fun f64_le :: "f64 \<Rightarrow> f64 \<Rightarrow> bool" where
  "f64_le (Finite x) (Finite y) = (x \<le> y)"
| "f64_le (Finite x) Pos_Inf = True"
| "f64_le Neg_Inf (Finite y) = True"
| "f64_le Neg_Inf Pos_Inf = True"
| "f64_le Pos_Inf Pos_Inf = True"
| "f64_le Neg_Inf Neg_Inf = True"
| "f64_le _ _ = False"

fun f64_is_finite :: "f64 \<Rightarrow> bool" where
  "f64_is_finite (Finite x) = True"
| "f64_is_finite _ = False"

subsection \<open>Tables as lists of rows\<close>

text \<open>
  \<open>UPDATE t SET f WHERE P\<close>, its number of affected rows, and
  \<open>SELECT \<dots> WHERE P\<close> with \<open>fetch_optional\<close>.
\<close>

definition update_where :: "('a \<Rightarrow> bool) \<Rightarrow> ('a \<Rightarrow> 'a) \<Rightarrow> 'a list \<Rightarrow> 'a list" where
  "update_where P f rows = map (\<lambda>r. if P r then f r else r) rows"

definition rows_affected :: "('a \<Rightarrow> bool) \<Rightarrow> 'a list \<Rightarrow> nat" where
  "rows_affected P rows = length (filter P rows)"

definition fetch_optional :: "('a \<Rightarrow> bool) \<Rightarrow> 'a list \<Rightarrow> 'a option" where
  "fetch_optional P rows = find P rows"

definition exists_row :: "('a \<Rightarrow> bool) \<Rightarrow> 'a list \<Rightarrow> bool" where
  "exists_row P rows \<longleftrightarrow> list_ex P rows"

definition count_rows :: "('a \<Rightarrow> bool) \<Rightarrow> 'a list \<Rightarrow> int" where
  "count_rows P rows = int (length (filter P rows))"

lemma length_update_where [table_simps, simp]: "length (update_where P f rows) = length rows"
  by (simp add: update_where_def)

lemma update_where_Nil [table_simps, simp]: "update_where P f [] = []"
  by (simp add: update_where_def)

lemma update_where_Cons [table_simps, simp]:
  "update_where P f (r # rs) = (if P r then f r else r) # update_where P f rs"
  by (simp add: update_where_def)

lemma in_set_update_where:
  "r \<in> set (update_where P f rows) \<longleftrightarrow> (\<exists>r0 \<in> set rows. r = (if P r0 then f r0 else r0))"
  by (auto simp: update_where_def)

lemma ball_update_where:
  "(\<forall>r \<in> set (update_where P f rows). Q r) \<longleftrightarrow>
   (\<forall>r \<in> set rows. if P r then Q (f r) else Q r)"
  by (auto simp: update_where_def)

lemma map_update_where_same [table_simps]:
  "(\<And>r. g (f r) = g r) \<Longrightarrow> map g (update_where P f rows) = map g rows"
  by (simp add: update_where_def)

lemma rows_affected_0 [table_simps]: "rows_affected P rows = 0 \<longleftrightarrow> (\<forall>r \<in> set rows. \<not> P r)"
  by (simp add: rows_affected_def filter_empty_conv)

lemma exists_row_iff [table_simps]: "exists_row P rows \<longleftrightarrow> (\<exists>r \<in> set rows. P r)"
  by (simp add: exists_row_def list_ex_iff)

lemma fetch_optional_Some:
  "fetch_optional P rows = Some r \<Longrightarrow> r \<in> set rows \<and> P r"
  by (auto simp: fetch_optional_def find_Some_iff) 

lemma fetch_optional_None [table_simps]:
  "fetch_optional P rows = None \<longleftrightarrow> (\<forall>r \<in> set rows. \<not> P r)"
  by (auto simp: fetch_optional_def find_None_iff)

lemma update_where_no_match:
  "(\<And>r. r \<in> set rows \<Longrightarrow> \<not> P r) \<Longrightarrow> update_where P f rows = rows"
  by (induction rows) auto

lemma count_rows_update_le:
  assumes "\<And>r. r \<in> set rows \<Longrightarrow> P r \<Longrightarrow> Q (f r) \<Longrightarrow> Q r"
  shows "count_rows Q (update_where P f rows) \<le> count_rows Q rows"
  using assms
proof (induction rows)
  case Nil
  then show ?case by (simp add: count_rows_def)
next
  case (Cons r rows)
  from Cons have "count_rows Q (update_where P f rows) \<le> count_rows Q rows" by simp
  with Cons.prems[of r] show ?case by (auto simp: count_rows_def)
qed

lemma count_rows_nonneg [simp]: "0 \<le> count_rows Q rows"
  by (simp add: count_rows_def)

lemma count_rows_cong_update:
  assumes "\<And>r. r \<in> set rows \<Longrightarrow> P r \<Longrightarrow> Q (f r) = Q r"
  shows "count_rows Q (update_where P f rows) = count_rows Q rows"
  using assms by (induction rows) (auto simp: count_rows_def)

text \<open>With distinct keys an update by key touches one row.\<close>

lemma count_rows_update_key:
  assumes "distinct (map k rows)" and "r0 \<in> set rows" and "P r0"
    and only: "\<And>r. r \<in> set rows \<Longrightarrow> P r \<Longrightarrow> k r = k r0"
    and "\<not> Q r0" and "Q (f r0)"
  shows "count_rows Q (update_where P f rows) = count_rows Q rows + 1"
  using assms
proof (induction rows)
  case Nil
  then show ?case by simp
next
  case (Cons r rows)
  show ?case
  proof (cases "r = r0")
    case True
    have "\<not> P x" if "x \<in> set rows" for x
    proof -
      from that have "k x \<in> k ` set rows" by (rule imageI)
      with Cons.prems(1) True have "k x \<noteq> k r0" by auto
      with Cons.prems(4)[of x] that show ?thesis by auto
    qed
    then have "update_where P f rows = rows" by (rule update_where_no_match)
    with True Cons.prems(3,5,6) show ?thesis by (simp add: count_rows_def)
  next
    case False
    with Cons.prems have in_rows: "r0 \<in> set rows" by simp
    have "\<not> P r"
    proof -
      from in_rows have "k r0 \<in> k ` set rows" by (rule imageI)
      with Cons.prems(1) have "k r \<noteq> k r0" by auto
      with Cons.prems(4)[of r] show ?thesis by auto
    qed
    moreover have "count_rows Q (update_where P f rows) = count_rows Q rows + 1"
    proof (rule Cons.IH)
      show "distinct (map k rows)" using Cons.prems(1) by simp
      show "k x = k r0" if "x \<in> set rows" "P x" for x
        by (rule Cons.prems(4)) (use that in simp_all)
    qed (use Cons.prems(3,5,6) in_rows in simp_all)
    ultimately show ?thesis by (simp add: count_rows_def)
  qed
qed

lemma fetch_by_key:
  assumes "distinct (map k rows)" and "r \<in> set rows"
  shows "fetch_optional (\<lambda>x. k x = k r) rows = Some r"
  using assms by (induction rows) (auto simp: fetch_optional_def)

lemma key_unique:
  assumes "distinct (map k rows)" and "r \<in> set rows" and "s \<in> set rows" and "k r = k s"
  shows "r = s"
  using assms by (auto simp: distinct_map inj_on_def)

subsection \<open>Rows that share a key and rows that are updated\<close>

lemma filter_key_distinct:
  assumes "distinct (map k rows)" and "r \<in> set rows"
  shows "filter (\<lambda>x. k x = k r) rows = [r]"
  using assms by (induction rows) (auto simp: filter_empty_conv dest: sym intro: rev_image_eqI)

lemma rows_affected_key:
  assumes "distinct (map k rows)" and only: "\<And>r. P r \<Longrightarrow> k r = key"
  shows "rows_affected P rows \<le> 1"
  using assms(1)
proof (induction rows)
  case (Cons x rows)
  have "filter P rows = []" if "P x"
  proof (rule ccontr)
    assume "filter P rows \<noteq> []"
    then obtain y where y: "y \<in> set rows" "P y" by (auto simp: filter_empty_conv)
    from y only[of y] only[of x] that have "k y = k x" by simp
    with y(1) Cons.prems show False by (auto simp: image_iff)
  qed
  then show ?case using Cons by (cases "P x") (auto simp: rows_affected_def)
qed (simp add: rows_affected_def)

lemma fetch_optional_update_key:
  assumes "\<And>r. k (f r) = k r"
  shows "fetch_optional (\<lambda>x. k x = key) (update_where P f rows) =
         map_option (\<lambda>r. if P r then f r else r) (fetch_optional (\<lambda>x. k x = key) rows)"
  by (induction rows) (auto simp: fetch_optional_def assms)

text \<open>A guarded update of one row by its key is the replacement of that row.\<close>

lemma update_where_one:
  assumes "distinct (map k rows)" and "c \<in> set rows" and "P c" and "\<And>x. P x \<Longrightarrow> k x = k c"
  shows "update_where P f rows = update_where (\<lambda>x. k x = k c) (\<lambda>_. f c) rows"
  unfolding update_where_def
proof (rule map_cong[OF refl])
  fix x assume "x \<in> set rows"
  show "(if P x then f x else x) = (if k x = k c then f c else x)"
  proof (cases "k x = k c")
    case True
    with key_unique[OF assms(1) \<open>x \<in> set rows\<close> assms(2)] have "x = c" by simp
    with assms(3) show ?thesis by simp
  next
    case False
    with assms(4) have "\<not> P x" by blast
    with False show ?thesis by simp
  qed
qed

lemma replaced_row:
  "x \<in> set (update_where (\<lambda>x. k x = key) (\<lambda>_. v) rows) \<Longrightarrow> k x = key \<Longrightarrow> x = v"
  by (auto simp: update_where_def split: if_splits)

lemma count_rows_inj:
  assumes "distinct (map k rows')"
    and "\<And>r'. r' \<in> set rows' \<Longrightarrow> Q r' \<Longrightarrow> \<exists>r \<in> set rows. k r = k r' \<and> Q r"
  shows "count_rows Q rows' \<le> count_rows Q rows"
proof -
  have "length (filter Q rows') = card (k ` set (filter Q rows'))"
    using distinct_card[OF distinct_map_filter[OF assms(1), of Q]] by simp
  also have "\<dots> \<le> card (k ` set (filter Q rows))"
  proof (rule card_mono)
    show "k ` set (filter Q rows') \<subseteq> k ` set (filter Q rows)"
    proof
      fix x assume "x \<in> k ` set (filter Q rows')"
      then obtain r' where r': "r' \<in> set rows'" "Q r'" "x = k r'" by auto
      from assms(2)[OF r'(1,2)] obtain r where "r \<in> set rows" "k r = k r'" "Q r" by blast
      with r'(3) show "x \<in> k ` set (filter Q rows)" by (auto intro: rev_image_eqI)
    qed
  qed simp
  also have "\<dots> \<le> length (filter Q rows)"
    by (metis card_length length_map set_map)
  finally show ?thesis by (simp add: count_rows_def)
qed

subsection \<open>Transition systems\<close>

text \<open>
  The two contracts every state machine of the development is proved against: an
  invariant kept by each step, and a reflexive and transitive relation between a
  state and its successors. The client lemmas lift them to runs.
\<close>

locale invariant_of =
  fixes step :: "'s \<Rightarrow> 's \<Rightarrow> bool" and inv :: "'s \<Rightarrow> bool"
  assumes step_inv: "step s t \<Longrightarrow> inv s \<Longrightarrow> inv t"
begin

lemma run_inv:
  assumes "step\<^sup>*\<^sup>* s t" and "inv s"
  shows "inv t"
  using assms by (induction rule: rtranclp_induct) (blast intro: step_inv)+

end

locale progress_of = invariant_of +
  fixes rel :: "'s \<Rightarrow> 's \<Rightarrow> bool"
  assumes rel_refl: "rel s s"
    and rel_trans: "rel s t \<Longrightarrow> rel t u \<Longrightarrow> rel s u"
    and step_rel: "inv s \<Longrightarrow> step s t \<Longrightarrow> rel s t"
begin

lemma run_rel:
  assumes "step\<^sup>*\<^sup>* s t" and "inv s"
  shows "rel s t"
  using assms
proof (induction rule: rtranclp_induct)
  case base
  show ?case by (rule rel_refl)
next
  case (step t u)
  have "inv t" using run_inv[OF step.hyps(1) step.prems] .
  then have "rel t u" using step.hyps(2) by (rule step_rel)
  with step.IH[OF step.prems] show ?case by (rule rel_trans)
qed

end

text \<open>
  A monitor folds a one-row action over the batch it selected. When every action
  is a run of steps on the state part of the accumulator, so is the pass.
\<close>

locale sweep =
  fixes step :: "'s \<Rightarrow> 's \<Rightarrow> bool" and state :: "'acc \<Rightarrow> 's" and one :: "'row \<Rightarrow> 'acc \<Rightarrow> 'acc"
  assumes one_run: "step\<^sup>*\<^sup>* (state acc) (state (one row acc))"
begin

lemma fold_run: "step\<^sup>*\<^sup>* (state acc) (state (fold one rows acc))"
proof (induction rows arbitrary: acc)
  case (Cons row rows)
  have "step\<^sup>*\<^sup>* (state acc) (state (one row acc))" by (rule one_run)
  also have "step\<^sup>*\<^sup>* (state (one row acc)) (state (fold one rows (one row acc)))" by (rule Cons.IH)
  finally show ?case by simp
qed simp

end

end
