(* ===== verification/Contract_Enums.thy ===== *)
theory Contract_Enums
  imports Oore_Prelude
begin

text \<open>
  The enumerations of \<^verbatim>\<open>crates/oore-contract/src/lib.rs\<close> that are stored as text
  columns or sent as text: each with its \<open>Display\<close> rendering and its \<open>FromStr\<close>
  parser, and the state machines attached to them (setup, build and release
  states). The locale \<open>text_codec\<close> is the contract the database layer relies on:
  what is written with \<open>Display\<close> is read back by \<open>FromStr\<close>, and nothing else is
  accepted.
\<close>

subsection \<open>The contract of a text column\<close>

locale text_codec =
  fixes render :: "'a \<Rightarrow> string" and parse :: "string \<Rightarrow> string + 'a"
  assumes parse_render: "parse (render x) = Inr x"
    and render_parse: "parse s = Inr x \<Longrightarrow> render x = s"
begin

lemma parse_iff: "parse s = Inr x \<longleftrightarrow> render x = s"
  using parse_render render_parse by blast

lemma render_inj: "render x = render y \<longleftrightarrow> x = y"
  by (metis parse_render sum.inject(2))

lemma parse_rejects: "(\<exists>e. parse s = Inl e) \<longleftrightarrow> s \<notin> range render"
  by (metis parse_iff parse_render rangeE rangeI sum.exhaust sum.distinct(1))

end

subsection \<open>Enumerations\<close>

datatype SetupState =
    Uninitialized | BootstrapPending | IdpConfigured | OwnerCreated | Ready

primrec setup_to_string :: "SetupState \<Rightarrow> string" where
  "setup_to_string Uninitialized = ''uninitialized''"
| "setup_to_string BootstrapPending = ''bootstrap_pending''"
| "setup_to_string IdpConfigured = ''idp_configured''"
| "setup_to_string OwnerCreated = ''owner_created''"
| "setup_to_string Ready = ''ready''"

definition setup_from_str :: "string \<Rightarrow> string + SetupState" where
  "setup_from_str s =
     (if s = ''uninitialized'' then Inr Uninitialized
      else if s = ''bootstrap_pending'' then Inr BootstrapPending
      else if s = ''idp_configured'' then Inr IdpConfigured
      else if s = ''owner_created'' then Inr OwnerCreated
      else if s = ''ready'' then Inr Ready
     else Inl (''unknown setup state: '' @ s))"

datatype BuildStatus =
    Queued | Scheduled | Assigned | Running | Succeeded | Failed | Canceled | TimedOut | Expired

primrec build_status_to_string :: "BuildStatus \<Rightarrow> string" where
  "build_status_to_string Queued = ''queued''"
| "build_status_to_string Scheduled = ''scheduled''"
| "build_status_to_string Assigned = ''assigned''"
| "build_status_to_string Running = ''running''"
| "build_status_to_string Succeeded = ''succeeded''"
| "build_status_to_string Failed = ''failed''"
| "build_status_to_string Canceled = ''canceled''"
| "build_status_to_string TimedOut = ''timed_out''"
| "build_status_to_string Expired = ''expired''"

definition build_status_from_str :: "string \<Rightarrow> string + BuildStatus" where
  "build_status_from_str s =
     (if s = ''queued'' then Inr Queued
      else if s = ''scheduled'' then Inr Scheduled
      else if s = ''assigned'' then Inr Assigned
      else if s = ''running'' then Inr Running
      else if s = ''succeeded'' then Inr Succeeded
      else if s = ''failed'' then Inr Failed
      else if s = ''canceled'' then Inr Canceled
      else if s = ''timed_out'' then Inr TimedOut
      else if s = ''expired'' then Inr Expired
     else Inl (''unknown build status: '' @ s))"

datatype TriggerType =
    Manual | Api | Webhook | Schedule

primrec trigger_type_to_string :: "TriggerType \<Rightarrow> string" where
  "trigger_type_to_string Manual = ''manual''"
| "trigger_type_to_string Api = ''api''"
| "trigger_type_to_string Webhook = ''webhook''"
| "trigger_type_to_string Schedule = ''schedule''"

definition trigger_type_from_str :: "string \<Rightarrow> string + TriggerType" where
  "trigger_type_from_str s =
     (if s = ''manual'' then Inr Manual
      else if s = ''api'' then Inr Api
      else if s = ''webhook'' then Inr Webhook
      else if s = ''schedule'' then Inr Schedule
     else Inl (''unknown trigger type: '' @ s))"

datatype BuildApprovalState =
    Approval_Pending | Approval_Approved | Approval_Rejected

primrec approval_state_to_string :: "BuildApprovalState \<Rightarrow> string" where
  "approval_state_to_string Approval_Pending = ''pending''"
| "approval_state_to_string Approval_Approved = ''approved''"
| "approval_state_to_string Approval_Rejected = ''rejected''"

definition approval_state_from_str :: "string \<Rightarrow> string + BuildApprovalState" where
  "approval_state_from_str s =
     (if s = ''pending'' then Inr Approval_Pending
      else if s = ''approved'' then Inr Approval_Approved
      else if s = ''rejected'' then Inr Approval_Rejected
     else Inl (''unknown build approval state: '' @ s))"

datatype RunnerStatus =
    Online | Offline | Busy | Draining

primrec runner_status_to_string :: "RunnerStatus \<Rightarrow> string" where
  "runner_status_to_string Online = ''online''"
| "runner_status_to_string Offline = ''offline''"
| "runner_status_to_string Busy = ''busy''"
| "runner_status_to_string Draining = ''draining''"

definition runner_status_from_str :: "string \<Rightarrow> string + RunnerStatus" where
  "runner_status_from_str s =
     (if s = ''online'' then Inr Online
      else if s = ''offline'' then Inr Offline
      else if s = ''busy'' then Inr Busy
      else if s = ''draining'' then Inr Draining
     else Inl (''unknown runner status: '' @ s))"

datatype UserRole =
    User_Owner | User_Admin | User_Developer | User_QaViewer

primrec user_role_to_string :: "UserRole \<Rightarrow> string" where
  "user_role_to_string User_Owner = ''owner''"
| "user_role_to_string User_Admin = ''admin''"
| "user_role_to_string User_Developer = ''developer''"
| "user_role_to_string User_QaViewer = ''qa_viewer''"

definition user_role_from_str :: "string \<Rightarrow> string + UserRole" where
  "user_role_from_str s =
     (if s = ''owner'' then Inr User_Owner
      else if s = ''admin'' then Inr User_Admin
      else if s = ''developer'' then Inr User_Developer
      else if s = ''qa_viewer'' then Inr User_QaViewer
     else Inl (''unknown user role: '' @ s))"

datatype ProjectRole =
    Maintainer | Developer | Viewer

primrec project_role_to_string :: "ProjectRole \<Rightarrow> string" where
  "project_role_to_string Maintainer = ''maintainer''"
| "project_role_to_string Developer = ''developer''"
| "project_role_to_string Viewer = ''viewer''"

definition project_role_from_str :: "string \<Rightarrow> string + ProjectRole" where
  "project_role_from_str s =
     (if s = ''maintainer'' then Inr Maintainer
      else if s = ''developer'' then Inr Developer
      else if s = ''viewer'' then Inr Viewer
     else Inl (''unknown project role: '' @ s))"

datatype ReleaseStore =
    GooglePlay | AppStore

primrec release_store_to_string :: "ReleaseStore \<Rightarrow> string" where
  "release_store_to_string GooglePlay = ''google_play''"
| "release_store_to_string AppStore = ''app_store''"

definition release_store_from_str :: "string \<Rightarrow> string + ReleaseStore" where
  "release_store_from_str s =
     (if s = ''google_play'' then Inr GooglePlay
      else if s = ''app_store'' then Inr AppStore
     else Inl (''unknown release store: '' @ s))"

datatype ReleaseState =
    Uploading | Processing | InReview | Rolling | Paused | Halted | Release_Complete | Release_Failed

primrec release_state_to_string :: "ReleaseState \<Rightarrow> string" where
  "release_state_to_string Uploading = ''uploading''"
| "release_state_to_string Processing = ''processing''"
| "release_state_to_string InReview = ''in_review''"
| "release_state_to_string Rolling = ''rolling''"
| "release_state_to_string Paused = ''paused''"
| "release_state_to_string Halted = ''halted''"
| "release_state_to_string Release_Complete = ''complete''"
| "release_state_to_string Release_Failed = ''failed''"

definition release_state_from_str :: "string \<Rightarrow> string + ReleaseState" where
  "release_state_from_str s =
     (if s = ''uploading'' then Inr Uploading
      else if s = ''processing'' then Inr Processing
      else if s = ''in_review'' then Inr InReview
      else if s = ''rolling'' then Inr Rolling
      else if s = ''paused'' then Inr Paused
      else if s = ''halted'' then Inr Halted
      else if s = ''complete'' then Inr Release_Complete
      else if s = ''failed'' then Inr Release_Failed
     else Inl (''unknown release state: '' @ s))"

datatype ReleaseAction =
    Action_Raise | Action_Pause | Action_Resume | Action_Halt | Action_Complete | Action_Approve

primrec release_action_to_string :: "ReleaseAction \<Rightarrow> string" where
  "release_action_to_string Action_Raise = ''raise''"
| "release_action_to_string Action_Pause = ''pause''"
| "release_action_to_string Action_Resume = ''resume''"
| "release_action_to_string Action_Halt = ''halt''"
| "release_action_to_string Action_Complete = ''complete''"
| "release_action_to_string Action_Approve = ''approve''"

definition release_action_from_str :: "string \<Rightarrow> string + ReleaseAction" where
  "release_action_from_str s =
     (if s = ''raise'' then Inr Action_Raise
      else if s = ''pause'' then Inr Action_Pause
      else if s = ''resume'' then Inr Action_Resume
      else if s = ''halt'' then Inr Action_Halt
      else if s = ''complete'' then Inr Action_Complete
      else if s = ''approve'' then Inr Action_Approve
     else Inl (''unknown release action: '' @ s))"

datatype ApproverRole =
    Approver_Maintainer | Approver_Developer

primrec approver_role_to_string :: "ApproverRole \<Rightarrow> string" where
  "approver_role_to_string Approver_Maintainer = ''maintainer''"
| "approver_role_to_string Approver_Developer = ''developer''"

definition approver_role_from_str :: "string \<Rightarrow> string + ApproverRole" where
  "approver_role_from_str s =
     (if s = ''maintainer'' then Inr Approver_Maintainer
      else if s = ''developer'' then Inr Approver_Developer
     else Inl (''unknown approver role: '' @ s))"

datatype PromotionState =
    Promotion_Pending | Promotion_Promoting | Promotion_Completed | Promotion_Rejected | Promotion_Failed

primrec promotion_state_to_string :: "PromotionState \<Rightarrow> string" where
  "promotion_state_to_string Promotion_Pending = ''pending''"
| "promotion_state_to_string Promotion_Promoting = ''promoting''"
| "promotion_state_to_string Promotion_Completed = ''completed''"
| "promotion_state_to_string Promotion_Rejected = ''rejected''"
| "promotion_state_to_string Promotion_Failed = ''failed''"

definition promotion_state_from_str :: "string \<Rightarrow> string + PromotionState" where
  "promotion_state_from_str s =
     (if s = ''pending'' then Inr Promotion_Pending
      else if s = ''promoting'' then Inr Promotion_Promoting
      else if s = ''completed'' then Inr Promotion_Completed
      else if s = ''rejected'' then Inr Promotion_Rejected
      else if s = ''failed'' then Inr Promotion_Failed
     else Inl (''unknown promotion state: '' @ s))"

datatype ScmProvider =
    Github | Gitlab | LocalGit

primrec scm_provider_to_string :: "ScmProvider \<Rightarrow> string" where
  "scm_provider_to_string Github = ''github''"
| "scm_provider_to_string Gitlab = ''gitlab''"
| "scm_provider_to_string LocalGit = ''local_git''"

definition scm_provider_from_str :: "string \<Rightarrow> string + ScmProvider" where
  "scm_provider_from_str s =
     (if s = ''github'' then Inr Github
      else if s = ''gitlab'' then Inr Gitlab
      else if s = ''local_git'' then Inr LocalGit
     else Inl (''unknown SCM provider: '' @ s))"

datatype IntegrationAuthMode =
    GithubApp | OauthApp | PersonalToken | LocalPath

primrec integration_auth_mode_to_string :: "IntegrationAuthMode \<Rightarrow> string" where
  "integration_auth_mode_to_string GithubApp = ''github_app''"
| "integration_auth_mode_to_string OauthApp = ''oauth_app''"
| "integration_auth_mode_to_string PersonalToken = ''personal_token''"
| "integration_auth_mode_to_string LocalPath = ''local_path''"

definition integration_auth_mode_from_str :: "string \<Rightarrow> string + IntegrationAuthMode" where
  "integration_auth_mode_from_str s =
     (if s = ''github_app'' then Inr GithubApp
      else if s = ''oauth_app'' then Inr OauthApp
      else if s = ''personal_token'' then Inr PersonalToken
      else if s = ''local_path'' then Inr LocalPath
     else Inl (''unknown integration auth mode: '' @ s))"

datatype IntegrationStatus =
    Integration_Active | Integration_Inactive | Integration_Error

primrec integration_status_to_string :: "IntegrationStatus \<Rightarrow> string" where
  "integration_status_to_string Integration_Active = ''active''"
| "integration_status_to_string Integration_Inactive = ''inactive''"
| "integration_status_to_string Integration_Error = ''error''"

definition integration_status_from_str :: "string \<Rightarrow> string + IntegrationStatus" where
  "integration_status_from_str s =
     (if s = ''active'' then Inr Integration_Active
      else if s = ''inactive'' then Inr Integration_Inactive
      else if s = ''error'' then Inr Integration_Error
     else Inl (''unknown integration status: '' @ s))"

datatype ArtifactStorageProvider =
    Storage_Disabled | Storage_Local | Storage_S3 | Storage_R2

primrec storage_provider_to_string :: "ArtifactStorageProvider \<Rightarrow> string" where
  "storage_provider_to_string Storage_Disabled = ''disabled''"
| "storage_provider_to_string Storage_Local = ''local''"
| "storage_provider_to_string Storage_S3 = ''s3''"
| "storage_provider_to_string Storage_R2 = ''r2''"

definition storage_provider_from_str :: "string \<Rightarrow> string + ArtifactStorageProvider" where
  "storage_provider_from_str s =
     (if s = ''disabled'' then Inr Storage_Disabled
      else if s = ''local'' then Inr Storage_Local
      else if s = ''s3'' then Inr Storage_S3
      else if s = ''r2'' then Inr Storage_R2
     else Inl (''unknown artifact storage provider: '' @ s))"

datatype KeyStorageMode =
    Keychain | Key_File

primrec key_storage_mode_to_string :: "KeyStorageMode \<Rightarrow> string" where
  "key_storage_mode_to_string Keychain = ''keychain''"
| "key_storage_mode_to_string Key_File = ''file''"

definition key_storage_mode_from_str :: "string \<Rightarrow> string + KeyStorageMode" where
  "key_storage_mode_from_str s =
     (if s = ''keychain'' then Inr Keychain
      else if s = ''file'' then Inr Key_File
     else Inl (''unknown key storage mode: '' @ s))"

datatype RuntimeMode =
    Runtime_Local | Runtime_Remote

primrec runtime_mode_to_string :: "RuntimeMode \<Rightarrow> string" where
  "runtime_mode_to_string Runtime_Local = ''local''"
| "runtime_mode_to_string Runtime_Remote = ''remote''"

definition runtime_mode_from_str :: "string \<Rightarrow> string + RuntimeMode" where
  "runtime_mode_from_str s =
     (if s = ''local'' then Inr Runtime_Local
      else if s = ''remote'' then Inr Runtime_Remote
     else Inl (''unknown runtime mode: '' @ s))"

datatype RemoteAuthMode =
    Oidc | TrustedProxy

primrec remote_auth_mode_to_string :: "RemoteAuthMode \<Rightarrow> string" where
  "remote_auth_mode_to_string Oidc = ''oidc''"
| "remote_auth_mode_to_string TrustedProxy = ''trusted_proxy''"

definition remote_auth_mode_from_str :: "string \<Rightarrow> string + RemoteAuthMode" where
  "remote_auth_mode_from_str s =
     (if s = ''oidc'' then Inr Oidc
      else if s = ''trusted_proxy'' then Inr TrustedProxy
     else Inl (''unknown remote auth mode: '' @ s))"

datatype RetentionCleanupTarget =
    ArtifactsOnly | Retention_Full

primrec cleanup_target_to_string :: "RetentionCleanupTarget \<Rightarrow> string" where
  "cleanup_target_to_string ArtifactsOnly = ''artifacts_only''"
| "cleanup_target_to_string Retention_Full = ''full''"

definition cleanup_target_from_str :: "string \<Rightarrow> string + RetentionCleanupTarget" where
  "cleanup_target_from_str s =
     (if s = ''artifacts_only'' then Inr ArtifactsOnly
      else if s = ''full'' then Inr Retention_Full
     else Inl (''unknown retention cleanup target: '' @ s))"

subsection \<open>Every enumeration meets the contract\<close>

interpretation setup_codec: text_codec setup_to_string setup_from_str
proof unfold_locales
  show "setup_from_str (setup_to_string x) = Inr x" for x
    by (cases x) (simp_all add: setup_from_str_def)
  show "setup_to_string x = s" if "setup_from_str s = Inr x" for s x
    using that by (auto simp: setup_from_str_def split: if_splits)
qed

interpretation build_status_codec: text_codec build_status_to_string build_status_from_str
proof unfold_locales
  show "build_status_from_str (build_status_to_string x) = Inr x" for x
    by (cases x) (simp_all add: build_status_from_str_def)
  show "build_status_to_string x = s" if "build_status_from_str s = Inr x" for s x
    using that by (auto simp: build_status_from_str_def split: if_splits)
qed

interpretation trigger_type_codec: text_codec trigger_type_to_string trigger_type_from_str
proof unfold_locales
  show "trigger_type_from_str (trigger_type_to_string x) = Inr x" for x
    by (cases x) (simp_all add: trigger_type_from_str_def)
  show "trigger_type_to_string x = s" if "trigger_type_from_str s = Inr x" for s x
    using that by (auto simp: trigger_type_from_str_def split: if_splits)
qed

interpretation approval_state_codec: text_codec approval_state_to_string approval_state_from_str
proof unfold_locales
  show "approval_state_from_str (approval_state_to_string x) = Inr x" for x
    by (cases x) (simp_all add: approval_state_from_str_def)
  show "approval_state_to_string x = s" if "approval_state_from_str s = Inr x" for s x
    using that by (auto simp: approval_state_from_str_def split: if_splits)
qed

interpretation runner_status_codec: text_codec runner_status_to_string runner_status_from_str
proof unfold_locales
  show "runner_status_from_str (runner_status_to_string x) = Inr x" for x
    by (cases x) (simp_all add: runner_status_from_str_def)
  show "runner_status_to_string x = s" if "runner_status_from_str s = Inr x" for s x
    using that by (auto simp: runner_status_from_str_def split: if_splits)
qed

interpretation user_role_codec: text_codec user_role_to_string user_role_from_str
proof unfold_locales
  show "user_role_from_str (user_role_to_string x) = Inr x" for x
    by (cases x) (simp_all add: user_role_from_str_def)
  show "user_role_to_string x = s" if "user_role_from_str s = Inr x" for s x
    using that by (auto simp: user_role_from_str_def split: if_splits)
qed

interpretation project_role_codec: text_codec project_role_to_string project_role_from_str
proof unfold_locales
  show "project_role_from_str (project_role_to_string x) = Inr x" for x
    by (cases x) (simp_all add: project_role_from_str_def)
  show "project_role_to_string x = s" if "project_role_from_str s = Inr x" for s x
    using that by (auto simp: project_role_from_str_def split: if_splits)
qed

interpretation release_store_codec: text_codec release_store_to_string release_store_from_str
proof unfold_locales
  show "release_store_from_str (release_store_to_string x) = Inr x" for x
    by (cases x) (simp_all add: release_store_from_str_def)
  show "release_store_to_string x = s" if "release_store_from_str s = Inr x" for s x
    using that by (auto simp: release_store_from_str_def split: if_splits)
qed

interpretation release_state_codec: text_codec release_state_to_string release_state_from_str
proof unfold_locales
  show "release_state_from_str (release_state_to_string x) = Inr x" for x
    by (cases x) (simp_all add: release_state_from_str_def)
  show "release_state_to_string x = s" if "release_state_from_str s = Inr x" for s x
    using that by (auto simp: release_state_from_str_def split: if_splits)
qed

interpretation release_action_codec: text_codec release_action_to_string release_action_from_str
proof unfold_locales
  show "release_action_from_str (release_action_to_string x) = Inr x" for x
    by (cases x) (simp_all add: release_action_from_str_def)
  show "release_action_to_string x = s" if "release_action_from_str s = Inr x" for s x
    using that by (auto simp: release_action_from_str_def split: if_splits)
qed

interpretation approver_role_codec: text_codec approver_role_to_string approver_role_from_str
proof unfold_locales
  show "approver_role_from_str (approver_role_to_string x) = Inr x" for x
    by (cases x) (simp_all add: approver_role_from_str_def)
  show "approver_role_to_string x = s" if "approver_role_from_str s = Inr x" for s x
    using that by (auto simp: approver_role_from_str_def split: if_splits)
qed

interpretation promotion_state_codec: text_codec promotion_state_to_string promotion_state_from_str
proof unfold_locales
  show "promotion_state_from_str (promotion_state_to_string x) = Inr x" for x
    by (cases x) (simp_all add: promotion_state_from_str_def)
  show "promotion_state_to_string x = s" if "promotion_state_from_str s = Inr x" for s x
    using that by (auto simp: promotion_state_from_str_def split: if_splits)
qed

interpretation scm_provider_codec: text_codec scm_provider_to_string scm_provider_from_str
proof unfold_locales
  show "scm_provider_from_str (scm_provider_to_string x) = Inr x" for x
    by (cases x) (simp_all add: scm_provider_from_str_def)
  show "scm_provider_to_string x = s" if "scm_provider_from_str s = Inr x" for s x
    using that by (auto simp: scm_provider_from_str_def split: if_splits)
qed

interpretation integration_auth_mode_codec: text_codec integration_auth_mode_to_string integration_auth_mode_from_str
proof unfold_locales
  show "integration_auth_mode_from_str (integration_auth_mode_to_string x) = Inr x" for x
    by (cases x) (simp_all add: integration_auth_mode_from_str_def)
  show "integration_auth_mode_to_string x = s" if "integration_auth_mode_from_str s = Inr x" for s x
    using that by (auto simp: integration_auth_mode_from_str_def split: if_splits)
qed

interpretation integration_status_codec: text_codec integration_status_to_string integration_status_from_str
proof unfold_locales
  show "integration_status_from_str (integration_status_to_string x) = Inr x" for x
    by (cases x) (simp_all add: integration_status_from_str_def)
  show "integration_status_to_string x = s" if "integration_status_from_str s = Inr x" for s x
    using that by (auto simp: integration_status_from_str_def split: if_splits)
qed

interpretation storage_provider_codec: text_codec storage_provider_to_string storage_provider_from_str
proof unfold_locales
  show "storage_provider_from_str (storage_provider_to_string x) = Inr x" for x
    by (cases x) (simp_all add: storage_provider_from_str_def)
  show "storage_provider_to_string x = s" if "storage_provider_from_str s = Inr x" for s x
    using that by (auto simp: storage_provider_from_str_def split: if_splits)
qed

interpretation key_storage_mode_codec: text_codec key_storage_mode_to_string key_storage_mode_from_str
proof unfold_locales
  show "key_storage_mode_from_str (key_storage_mode_to_string x) = Inr x" for x
    by (cases x) (simp_all add: key_storage_mode_from_str_def)
  show "key_storage_mode_to_string x = s" if "key_storage_mode_from_str s = Inr x" for s x
    using that by (auto simp: key_storage_mode_from_str_def split: if_splits)
qed

interpretation runtime_mode_codec: text_codec runtime_mode_to_string runtime_mode_from_str
proof unfold_locales
  show "runtime_mode_from_str (runtime_mode_to_string x) = Inr x" for x
    by (cases x) (simp_all add: runtime_mode_from_str_def)
  show "runtime_mode_to_string x = s" if "runtime_mode_from_str s = Inr x" for s x
    using that by (auto simp: runtime_mode_from_str_def split: if_splits)
qed

interpretation remote_auth_mode_codec: text_codec remote_auth_mode_to_string remote_auth_mode_from_str
proof unfold_locales
  show "remote_auth_mode_from_str (remote_auth_mode_to_string x) = Inr x" for x
    by (cases x) (simp_all add: remote_auth_mode_from_str_def)
  show "remote_auth_mode_to_string x = s" if "remote_auth_mode_from_str s = Inr x" for s x
    using that by (auto simp: remote_auth_mode_from_str_def split: if_splits)
qed

interpretation cleanup_target_codec: text_codec cleanup_target_to_string cleanup_target_from_str
proof unfold_locales
  show "cleanup_target_from_str (cleanup_target_to_string x) = Inr x" for x
    by (cases x) (simp_all add: cleanup_target_from_str_def)
  show "cleanup_target_to_string x = s" if "cleanup_target_from_str s = Inr x" for s x
    using that by (auto simp: cleanup_target_from_str_def split: if_splits)
qed

subsection \<open>Setup state machine\<close>

fun setup_next :: "SetupState \<Rightarrow> SetupState option" where
  "setup_next BootstrapPending = Some IdpConfigured"
| "setup_next IdpConfigured = Some OwnerCreated"
| "setup_next OwnerCreated = Some Ready"
| "setup_next _ = None"

record SetupStatus =
  ss_instance_id :: string
  ss_state :: SetupState
  ss_runtime_mode :: RuntimeMode
  ss_remote_auth_mode :: RemoteAuthMode
  ss_setup_mode :: bool
  ss_is_configured :: bool

definition setup_status_from_state ::
  "string \<Rightarrow> SetupState \<Rightarrow> RuntimeMode \<Rightarrow> RemoteAuthMode \<Rightarrow> SetupStatus" where
  "setup_status_from_state iid st rm am =
     (let is_configured = (st = Ready); setup_mode = (\<not> is_configured)
      in \<lparr>ss_instance_id = iid, ss_state = st, ss_runtime_mode = rm,
          ss_remote_auth_mode = am, ss_setup_mode = setup_mode,
          ss_is_configured = is_configured\<rparr>)"

subsection \<open>Build status machine\<close>

definition build_is_terminal :: "BuildStatus \<Rightarrow> bool" where
  "build_is_terminal s \<longleftrightarrow> s \<in> {Succeeded, Failed, Canceled, TimedOut, Expired}"

fun build_valid_transitions :: "BuildStatus \<Rightarrow> BuildStatus list" where
  "build_valid_transitions Queued = [Scheduled, Canceled, Expired]"
| "build_valid_transitions Scheduled = [Assigned, Queued, Canceled, Expired]"
| "build_valid_transitions Assigned = [Running, Queued, Canceled, TimedOut]"
| "build_valid_transitions Running = [Succeeded, Failed, Canceled, TimedOut]"
| "build_valid_transitions Succeeded = [Expired]"
| "build_valid_transitions Failed = [Expired]"
| "build_valid_transitions Canceled = [Expired]"
| "build_valid_transitions TimedOut = [Expired]"
| "build_valid_transitions Expired = []"

definition build_can_transition_to :: "BuildStatus \<Rightarrow> BuildStatus \<Rightarrow> bool" where
  "build_can_transition_to s t \<longleftrightarrow> t \<in> set (build_valid_transitions s)"

lemma build_is_terminal_simps [simp]:
  "build_is_terminal Succeeded" "build_is_terminal Failed" "build_is_terminal Canceled"
  "build_is_terminal TimedOut" "build_is_terminal Expired"
  "\<not> build_is_terminal Queued" "\<not> build_is_terminal Scheduled"
  "\<not> build_is_terminal Assigned" "\<not> build_is_terminal Running"
  by (simp_all add: build_is_terminal_def)

lemma build_can_transition_terminal:
  "build_is_terminal s \<Longrightarrow> build_can_transition_to s t \<Longrightarrow> t = Expired"
  by (cases s) (auto simp: build_can_transition_to_def)

lemma build_can_transition_from_terminal_iff:
  "build_is_terminal s \<Longrightarrow> build_can_transition_to s t \<longleftrightarrow> t = Expired \<and> s \<noteq> Expired"
  by (cases s) (auto simp: build_can_transition_to_def)

lemma build_transition_to_Running:
  "build_can_transition_to s Running \<longleftrightarrow> s = Assigned"
  by (cases s) (auto simp: build_can_transition_to_def)

lemma build_transition_to_Assigned:
  "build_can_transition_to s Assigned \<longleftrightarrow> s = Scheduled"
  by (cases s) (auto simp: build_can_transition_to_def)

lemma build_transition_to_Scheduled:
  "build_can_transition_to s Scheduled \<longleftrightarrow> s = Queued"
  by (cases s) (auto simp: build_can_transition_to_def)

lemma build_transition_irrefl: "\<not> build_can_transition_to s s"
  by (cases s) (auto simp: build_can_transition_to_def)

lemma build_to_terminal_cases:
  "build_can_transition_to s t \<Longrightarrow> \<not> build_is_terminal s \<Longrightarrow>
   build_is_terminal t \<or> t \<in> {Queued, Scheduled, Assigned, Running}"
  by (cases t) auto

subsection \<open>Release state machine\<close>

definition release_is_terminal :: "ReleaseState \<Rightarrow> bool" where
  "release_is_terminal s \<longleftrightarrow> s \<in> {Release_Complete, Release_Failed}"

fun release_valid_transitions :: "ReleaseState \<Rightarrow> ReleaseState list" where
  "release_valid_transitions Uploading = [Processing, InReview, Rolling, Release_Failed]"
| "release_valid_transitions Processing = [InReview, Rolling, Release_Failed]"
| "release_valid_transitions InReview = [Rolling, Release_Failed]"
| "release_valid_transitions Rolling =
     [Rolling, Paused, Halted, Release_Complete, Release_Failed]"
| "release_valid_transitions Paused = [Rolling, Halted, Release_Complete, Release_Failed]"
| "release_valid_transitions Halted = [Rolling, Release_Failed]"
| "release_valid_transitions Release_Complete = []"
| "release_valid_transitions Release_Failed = []"

definition release_can_transition_to :: "ReleaseState \<Rightarrow> ReleaseState \<Rightarrow> bool" where
  "release_can_transition_to s t \<longleftrightarrow> t \<in> set (release_valid_transitions s)"

lemma release_is_terminal_simps [simp]:
  "release_is_terminal Release_Complete" "release_is_terminal Release_Failed"
  "\<not> release_is_terminal Uploading" "\<not> release_is_terminal Processing"
  "\<not> release_is_terminal InReview" "\<not> release_is_terminal Rolling"
  "\<not> release_is_terminal Paused" "\<not> release_is_terminal Halted"
  by (simp_all add: release_is_terminal_def)

lemma release_can_transition_simps [enum_simps]:
  "release_can_transition_to s Rolling \<longleftrightarrow> \<not> release_is_terminal s"
  "release_can_transition_to s Paused \<longleftrightarrow> s = Rolling"
  "release_can_transition_to s Halted \<longleftrightarrow> s = Rolling \<or> s = Paused"
  "release_can_transition_to s Release_Complete \<longleftrightarrow> s = Rolling \<or> s = Paused"
  "release_can_transition_to s Release_Failed \<longleftrightarrow> \<not> release_is_terminal s"
  by (cases s; simp add: release_can_transition_to_def)+

lemma release_terminal_stuck: "release_is_terminal s \<Longrightarrow> \<not> release_can_transition_to s t"
  by (cases s) (auto simp: release_can_transition_to_def)

subsection \<open>Properties\<close>


end
