(* ===== verification/Project_Rbac.thy ===== *)
theory Project_Rbac
  imports Contract_Enums
begin

text \<open>
  Per-project permissions: \<^verbatim>\<open>crates/oored/src/project_rbac.rs\<close>, with the identity
  types of \<^verbatim>\<open>crates/oored/src/session.rs\<close>. The \<open>project_members\<close> and \<open>pipelines\<close>
  tables are the parts of the database the resolution reads.
\<close>

datatype AuthSource = Session | ApiToken

text \<open>A validated caller (\<open>SessionInfo\<close>); the instance role is stored text.\<close>

record SessionInfo =
  au_user_id :: string
  au_email :: string
  au_oidc_subject :: string
  au_role :: string
  au_expires_at :: int
  au_auth_source :: AuthSource

datatype EffectiveProjectRole =
    InstanceAdmin
  | Member ProjectRole
  | No_Role

datatype ProjectPermission =
    Perm_Read | Perm_Write | Perm_Delete | Perm_ManageMembers | Perm_ManagePipelines
  | Perm_TriggerBuild | Perm_CancelBuild | Perm_ReadArtifacts | Perm_WriteArtifacts
  | Perm_DeleteArtifacts | Perm_OperateRelease | Perm_ManageReleases | Perm_ApproveBuild

record project_member =
  pm_project_id :: string
  pm_user_id :: string
  pm_role :: string

definition effective_member_role :: "ProjectRole \<Rightarrow> string \<Rightarrow> AuthSource \<Rightarrow> ProjectRole" where
  "effective_member_role stored_role instance_role auth_source =
     (if instance_role = ''qa_viewer'' then Viewer
      else if auth_source = ApiToken
      then (if instance_role = ''developer'' \<and> (stored_role = Maintainer \<or> stored_role = Developer)
            then Developer else Viewer)
      else stored_role)"

definition resolve_effective_project_role ::
  "project_member list \<Rightarrow> string \<Rightarrow> string \<Rightarrow> string \<Rightarrow> AuthSource \<Rightarrow> EffectiveProjectRole api_result"
where
  "resolve_effective_project_role members user_id instance_role project_id auth_source =
     (if instance_role = ''owner'' \<or> instance_role = ''admin'' then Inr InstanceAdmin
      else (case fetch_optional (\<lambda>m. pm_project_id m = project_id \<and> pm_user_id m = user_id) members of
              Some row \<Rightarrow>
                (case project_role_from_str (pm_role row) of
                   Inl _ \<Rightarrow> Inl (ApiError INTERNAL_SERVER_ERROR ''data_error''
                                  ''Invalid project role in database'')
                 | Inr role \<Rightarrow> Inr (Member (effective_member_role role instance_role auth_source)))
            | None \<Rightarrow> Inr No_Role))"

definition role_has_permission :: "ProjectRole \<Rightarrow> ProjectPermission \<Rightarrow> bool" where
  "role_has_permission role perm =
     (case role of
        Maintainer \<Rightarrow> True
      | Developer \<Rightarrow> perm \<in> {Perm_Read, Perm_ManagePipelines, Perm_TriggerBuild, Perm_CancelBuild,
                             Perm_ReadArtifacts, Perm_WriteArtifacts, Perm_OperateRelease}
      | Viewer \<Rightarrow> perm \<in> {Perm_Read, Perm_ReadArtifacts})"

definition check_project_permission :: "EffectiveProjectRole \<Rightarrow> ProjectPermission \<Rightarrow> bool" where
  "check_project_permission effective permission =
     (case effective of
        InstanceAdmin \<Rightarrow> True
      | Member role \<Rightarrow> role_has_permission role permission
      | No_Role \<Rightarrow> False)"

definition require_project_permission ::
  "EffectiveProjectRole \<Rightarrow> ProjectPermission \<Rightarrow> unit api_result" where
  "require_project_permission effective permission =
     (if effective = No_Role
      then Inl (ApiError NOT_FOUND ''not_found'' ''Project not found'')
      else if check_project_permission effective permission then Inr ()
      else Inl (ApiError FORBIDDEN ''permission_denied''
                  ''You do not have permission to perform this action on this project''))"

text \<open>\<open>pipelines\<close> gives the project of a pipeline id.\<close>

definition require_pipeline_project_permission ::
  "(string \<rightharpoonup> string) \<Rightarrow> project_member list \<Rightarrow> string \<Rightarrow> string \<Rightarrow> AuthSource \<Rightarrow> string \<Rightarrow>
   ProjectPermission \<Rightarrow> string api_result" where
  "require_pipeline_project_permission pipelines members user_id instance_role auth_source
     pipeline_id permission =
     and_then (ok_or (ApiError NOT_FOUND ''not_found'' ''Pipeline not found'') (pipelines pipeline_id))
       (\<lambda>project_id.
          and_then (resolve_effective_project_role members user_id instance_role project_id auth_source)
            (\<lambda>effective. and_then (require_project_permission effective permission)
               (\<lambda>_. Inr project_id)))"

definition effective_role_string :: "EffectiveProjectRole \<Rightarrow> string option" where
  "effective_role_string effective =
     (case effective of
        InstanceAdmin \<Rightarrow> Some ''maintainer''
      | Member role \<Rightarrow> Some (project_role_to_string role)
      | No_Role \<Rightarrow> None)"

subsection \<open>Roles are ordered by what they grant\<close>

lemmas rbac_defs = check_project_permission_def role_has_permission_def

lemma require_project_permission_ok [simp]:
  "require_project_permission r p = Inr u \<longleftrightarrow> check_project_permission r p"
  by (cases r) (auto simp: require_project_permission_def check_project_permission_def)

lemma viewer_developer_maintainer:
  "role_has_permission Viewer p \<Longrightarrow> role_has_permission Developer p"
  "role_has_permission Developer p \<Longrightarrow> role_has_permission Maintainer p"
  by (auto simp: role_has_permission_def)

lemma effective_member_role_bounded:
  "role_has_permission (effective_member_role stored ir src) p \<Longrightarrow> role_has_permission stored p"
  by (cases stored)
    (auto simp: effective_member_role_def role_has_permission_def split: if_splits ProjectRole.splits)

lemma api_token_not_maintainer: "effective_member_role stored ir ApiToken \<noteq> Maintainer"
  by (simp add: effective_member_role_def)

lemma qa_viewer_is_viewer: "effective_member_role stored ''qa_viewer'' src = Viewer"
  by (simp add: effective_member_role_def)

lemma resolve_member:
  "resolve_effective_project_role members uid ir pid src = Inr (Member r) \<longleftrightarrow>
     ir \<noteq> ''owner'' \<and> ir \<noteq> ''admin'' \<and>
     (\<exists>row stored. fetch_optional (\<lambda>m. pm_project_id m = pid \<and> pm_user_id m = uid) members = Some row \<and>
        project_role_from_str (pm_role row) = Inr stored \<and> r = effective_member_role stored ir src)"
  by (auto simp: resolve_effective_project_role_def split: option.splits sum.splits)

lemma resolve_admin:
  "resolve_effective_project_role members uid ir pid src = Inr InstanceAdmin \<longleftrightarrow>
     ir = ''owner'' \<or> ir = ''admin''"
  by (auto simp: resolve_effective_project_role_def split: option.splits sum.splits)

subsection \<open>Properties\<close>

text \<open>
  No project permission without a grant. Whenever the resolution succeeds
  and the permission check passes, the caller's instance role is owner or admin,
  or the caller has a membership row for this very project whose stored role
  grants the permission; a QA viewer is held to reading, and an API token of a
  non-admin is never treated as a maintainer, whatever the membership says.
\<close>

theorem project_permission_needs_grant:
  assumes "resolve_effective_project_role members uid ir pid src = Inr eff"
    and "check_project_permission eff perm"
  shows "ir \<in> {''owner'', ''admin''} \<or>
    (\<exists>row stored. row \<in> set members \<and> pm_project_id row = pid \<and> pm_user_id row = uid \<and>
       pm_role row = project_role_to_string stored \<and> role_has_permission stored perm \<and>
       (ir = ''qa_viewer'' \<longrightarrow> perm \<in> {Perm_Read, Perm_ReadArtifacts}) \<and>
       (src = ApiToken \<longrightarrow> role_has_permission Developer perm))"
proof (cases eff)
  case InstanceAdmin
  with assms(1) show ?thesis by (simp add: resolve_admin)
next
  case No_Role
  with assms(2) show ?thesis by (simp add: check_project_permission_def)
next
  case (Member r)
  with assms(1) obtain row stored where
    row: "fetch_optional (\<lambda>m. pm_project_id m = pid \<and> pm_user_id m = uid) members = Some row"
    and stored: "project_role_from_str (pm_role row) = Inr stored"
    and r: "r = effective_member_role stored ir src"
    by (auto simp: resolve_member)
  from assms(2) Member have p: "role_has_permission r perm"
    by (simp add: check_project_permission_def)
  have "role_has_permission stored perm"
    using p r effective_member_role_bounded by blast
  moreover have "ir = ''qa_viewer'' \<longrightarrow> perm \<in> {Perm_Read, Perm_ReadArtifacts}"
    using p r by (auto simp: qa_viewer_is_viewer role_has_permission_def)
  moreover have "src = ApiToken \<longrightarrow> role_has_permission Developer perm"
    using p r api_token_not_maintainer[of stored ir] viewer_developer_maintainer(1)
    by (cases r) auto
  moreover have "pm_role row = project_role_to_string stored"
    using stored project_role_codec.parse_iff by auto
  ultimately show ?thesis
    using fetch_optional_Some[OF row] by blast
qed

theorem project_permission_needs_grant_witness:
  "resolve_effective_project_role
     [\<lparr>pm_project_id = ''p1'', pm_user_id = ''u1'', pm_role = ''maintainer''\<rparr>]
     ''u1'' ''developer'' ''p1'' ApiToken = Inr (Member Developer) \<and>
   check_project_permission (Member Developer) Perm_TriggerBuild \<and>
   (''developer'' \<in> {''owner'', ''admin''} \<or>
    (\<exists>row stored.
       row \<in> set [\<lparr>pm_project_id = ''p1'', pm_user_id = ''u1'', pm_role = ''maintainer''\<rparr>] \<and>
       pm_project_id row = ''p1'' \<and> pm_user_id row = ''u1'' \<and>
       pm_role row = project_role_to_string stored \<and>
       role_has_permission stored Perm_TriggerBuild \<and>
       (''developer'' = ''qa_viewer'' \<longrightarrow> Perm_TriggerBuild \<in> {Perm_Read, Perm_ReadArtifacts}) \<and>
       (ApiToken = ApiToken \<longrightarrow> role_has_permission Developer Perm_TriggerBuild)))"
proof -
  have a: "resolve_effective_project_role
     [\<lparr>pm_project_id = ''p1'', pm_user_id = ''u1'', pm_role = ''maintainer''\<rparr>]
     ''u1'' ''developer'' ''p1'' ApiToken = Inr (Member Developer)"
    by (simp add: resolve_effective_project_role_def fetch_optional_def project_role_from_str_def
        effective_member_role_def)
  have b: "check_project_permission (Member Developer) Perm_TriggerBuild"
    by (simp add: rbac_defs)
  show ?thesis using a b project_permission_needs_grant[OF a b] by blast
qed

text \<open>
  The answer to an unauthorised caller never reveals a project. A caller
  with no role gets 404 for every permission, exactly as for a project that does
  not exist; a caller with a role but without the permission gets 403; every
  other caller passes.
\<close>

theorem require_project_permission_outcomes:
  "require_project_permission eff perm =
     (if eff = No_Role then Inl (ApiError NOT_FOUND ''not_found'' ''Project not found'')
      else if eff = InstanceAdmin \<or> (\<exists>r. eff = Member r \<and> role_has_permission r perm) then Inr ()
      else Inl (ApiError FORBIDDEN ''permission_denied''
                  ''You do not have permission to perform this action on this project''))"
  by (cases eff) (simp_all add: require_project_permission_def check_project_permission_def)

end
