(* ===== verification/Glob_Match.thy ===== *)
theory Glob_Match
  imports Oore_Prelude "HOL-Library.While_Combinator"
begin

text \<open>
  The two glob matchers of \<^verbatim>\<open>crates/oore-contract/src/lib.rs\<close>: the branch and tag
  matcher \<open>TriggerConfig::glob_match\<close> and the path matcher
  \<open>artifact_pattern_matches\<close>, both greedy loops with one backtracking point. The
  loops are kept as loops (\<open>while_option\<close>), proved to end, and proved equal to
  the declarative relation \<open>glob\<close>.
\<close>

subsection \<open>The loops\<close>

text \<open>
  The loop variables of \<open>glob_match_inner\<close>. \<open>gm_star_pi\<close> starts at the sentinel
  \<open>usize::MAX\<close>; \<open>gm_live\<close> turns false on the early \<open>return false\<close>.
\<close>

record glob_state =
  gm_pi :: nat
  gm_vi :: nat
  gm_star_pi :: nat
  gm_star_vi :: nat
  gm_live :: bool

definition usize_max :: nat where
  "usize_max = 2 ^ 64 - 1"

definition glob_step :: "string \<Rightarrow> string \<Rightarrow> glob_state \<Rightarrow> glob_state" where
  "glob_step pattern v s =
     (if gm_pi s < length pattern \<and>
         (pattern ! gm_pi s = CHR ''?'' \<or> pattern ! gm_pi s = v ! gm_vi s)
      then s\<lparr>gm_pi := gm_pi s + 1, gm_vi := gm_vi s + 1\<rparr>
      else if gm_pi s < length pattern \<and> pattern ! gm_pi s = CHR ''*''
      then s\<lparr>gm_star_pi := gm_pi s, gm_star_vi := gm_vi s, gm_pi := gm_pi s + 1\<rparr>
      else if gm_star_pi s \<noteq> usize_max
      then s\<lparr>gm_pi := gm_star_pi s + 1, gm_star_vi := gm_star_vi s + 1,
             gm_vi := gm_star_vi s + 1\<rparr>
      else s\<lparr>gm_live := False\<rparr>)"

text \<open>The closing loop skips trailing stars.\<close>

fun skip_stars :: "string \<Rightarrow> string" where
  "skip_stars [] = []"
| "skip_stars (c # cs) = (if c = CHR ''*'' then skip_stars cs else c # cs)"

definition glob_match_inner :: "string \<Rightarrow> string \<Rightarrow> bool option" where
  "glob_match_inner pattern v =
     map_option (\<lambda>s. gm_live s \<and> skip_stars (drop (gm_pi s) pattern) = [])
       (while_option (\<lambda>s. gm_live s \<and> gm_vi s < length v) (glob_step pattern v)
          \<lparr>gm_pi = 0, gm_vi = 0, gm_star_pi = usize_max, gm_star_vi = 0, gm_live = True\<rparr>)"

definition glob_match :: "string \<Rightarrow> string \<Rightarrow> bool" where
  "glob_match pattern v \<longleftrightarrow> glob_match_inner pattern v = Some True"

text \<open>\<open>segment_matches\<close>: the same loop with an \<open>Option\<close> for the star position.\<close>

record segment_state =
  sg_p :: nat
  sg_v :: nat
  sg_star :: "nat option"
  sg_retry :: nat
  sg_live :: bool

definition segment_step :: "string \<Rightarrow> string \<Rightarrow> segment_state \<Rightarrow> segment_state" where
  "segment_step pattern v s =
     (if sg_p s < length pattern \<and>
         (pattern ! sg_p s = CHR ''?'' \<or> pattern ! sg_p s = v ! sg_v s)
      then s\<lparr>sg_p := sg_p s + 1, sg_v := sg_v s + 1\<rparr>
      else if sg_p s < length pattern \<and> pattern ! sg_p s = CHR ''*''
      then s\<lparr>sg_star := Some (sg_p s), sg_p := sg_p s + 1, sg_retry := sg_v s\<rparr>
      else (case sg_star s of
              Some star_pos \<Rightarrow>
                s\<lparr>sg_p := star_pos + 1, sg_retry := sg_retry s + 1, sg_v := sg_retry s + 1\<rparr>
            | None \<Rightarrow> s\<lparr>sg_live := False\<rparr>))"

definition segment_loop :: "string \<Rightarrow> string \<Rightarrow> segment_state option" where
  "segment_loop pattern v =
     while_option (\<lambda>s. sg_live s \<and> sg_v s < length v) (segment_step pattern v)
       \<lparr>sg_p = 0, sg_v = 0, sg_star = None, sg_retry = 0, sg_live = True\<rparr>"

definition segment_matches :: "string \<Rightarrow> string \<Rightarrow> bool" where
  "segment_matches pattern v =
     (case segment_loop pattern v of
        None \<Rightarrow> False
      | Some s \<Rightarrow> sg_live s \<and> skip_stars (drop (sg_p s) pattern) = [])"

text \<open>Segment-wise matching, \<open>**\<close> spanning segments.\<close>

fun path_matches :: "string list \<Rightarrow> string list \<Rightarrow> bool" where
  "path_matches [] path \<longleftrightarrow> path = []"
| "path_matches (seg # rest) path \<longleftrightarrow>
     (if seg = ''**''
      then path_matches rest path \<or>
           (case path of [] \<Rightarrow> False | _ # path' \<Rightarrow> path_matches (seg # rest) path')
      else (case path of [] \<Rightarrow> False
            | name # path' \<Rightarrow> segment_matches seg name \<and> path_matches rest path'))"

declare path_matches.simps(2) [simp del]

definition artifact_pattern_matches :: "string \<Rightarrow> string \<Rightarrow> bool" where
  "artifact_pattern_matches pattern relative_path =
     (let pattern = trim pattern
      in if CHR ''/'' \<notin> set pattern
         then segment_matches pattern (last (split_on CHR ''/'' relative_path))
         else path_matches (split_on CHR ''/'' pattern) (split_on CHR ''/'' relative_path))"

subsection \<open>The declarative relation\<close>

text \<open>A star matches any run of characters, a question mark any one character.\<close>

inductive glob :: "string \<Rightarrow> string \<Rightarrow> bool" where
  glob_nil: "glob [] []"
| glob_any: "glob p v \<Longrightarrow> glob (CHR ''?'' # p) (c # v)"
| glob_char: "c \<noteq> CHR ''*'' \<Longrightarrow> glob p v \<Longrightarrow> glob (c # p) (c # v)"
| glob_star: "glob p v \<Longrightarrow> glob (CHR ''*'' # p) (u @ v)"

inductive_simps glob_Nil_iff: "glob [] v"
inductive_simps glob_Cons_iff: "glob (c # p) v"

lemma glob_star_iff: "glob (CHR ''*'' # p) v \<longleftrightarrow> (\<exists>k \<le> length v. glob p (drop k v))"
proof
  assume "glob (CHR ''*'' # p) v"
  then obtain u w where "v = u @ w" "glob p w" by (auto simp: glob_Cons_iff)
  then show "\<exists>k \<le> length v. glob p (drop k v)" by (intro exI[of _ "length u"]) simp
next
  assume "\<exists>k \<le> length v. glob p (drop k v)"
  then obtain k where "glob p (drop k v)" by blast
  then have "glob (CHR ''*'' # p) (take k v @ drop k v)" by (rule glob_star)
  then show "glob (CHR ''*'' # p) v" by simp
qed

lemma glob_nonstar_iff:
  "c \<noteq> CHR ''*'' \<Longrightarrow>
   glob (c # p) v \<longleftrightarrow> (\<exists>d w. v = d # w \<and> (c = CHR ''?'' \<or> c = d) \<and> glob p w)"
  by (auto simp: glob_Cons_iff)

lemma glob_stars_empty: "glob p [] \<longleftrightarrow> skip_stars p = []"
  by (induction p) (auto simp: glob_star_iff glob_nonstar_iff glob_Nil_iff)

lemma glob_star_mono:
  assumes "j \<le> k" and "k \<le> length v" and "glob (CHR ''*'' # p) (drop k v)"
  shows "glob (CHR ''*'' # p) (drop j v)"
proof -
  from assms(3) obtain m where m: "m \<le> length (drop k v)" "glob p (drop m (drop k v))"
    by (auto simp: glob_star_iff)
  have "drop (m + k - j) (drop j v) = drop m (drop k v)"
    using assms(1) by simp
  moreover have "m + k - j \<le> length (drop j v)"
    using m(1) assms(1,2) by (simp only: length_drop)
  ultimately show ?thesis
    using m(2) unfolding glob_star_iff by metis
qed

text \<open>Character-wise matching of a star-free stretch of pattern.\<close>

definition char_ok :: "char \<Rightarrow> char \<Rightarrow> bool" where
  "char_ok c d \<longleftrightarrow> c = CHR ''?'' \<or> c = d"

lemma glob_star_free:
  assumes "CHR ''*'' \<notin> set seg"
  shows "glob (seg @ r) v \<longleftrightarrow>
    length seg \<le> length v \<and> list_all2 char_ok seg (take (length seg) v) \<and>
    glob r (drop (length seg) v)"
  using assms
proof (induction seg arbitrary: v)
  case Nil
  then show ?case by simp
next
  case (Cons c seg)
  then have c: "c \<noteq> CHR ''*''" and seg: "CHR ''*'' \<notin> set seg" by auto
  show ?case
    by (cases v) (simp_all add: glob_nonstar_iff[OF c] Cons.IH[OF seg] char_ok_def conj_ac)
qed

subsection \<open>The loop invariant\<close>

text \<open>
  One backtracking point is enough: when a later star is met, everything before
  it is settled, because any longer run for the earlier star only shortens what
  the later star has to absorb.
\<close>

lemma glob_commit:
  assumes seg: "CHR ''*'' \<notin> set seg" "list_all2 char_ok seg (take (length seg) (drop r v))"
    and i: "length seg = i - r" "r \<le> i" "i \<le> length v"
    and rest: "i = length v \<or> (\<exists>rest'. rest = CHR ''*'' # rest')"
  shows "glob (CHR ''*'' # seg @ rest) (drop r v) \<longleftrightarrow> glob rest (drop i v)"
proof
  assume "glob rest (drop i v)"
  then have "glob (seg @ rest) (drop r v)"
    using seg i by (simp add: glob_star_free)
  then show "glob (CHR ''*'' # seg @ rest) (drop r v)"
    unfolding glob_star_iff by (metis drop0 le0)
next
  assume "glob (CHR ''*'' # seg @ rest) (drop r v)"
  then obtain k where k: "glob (seg @ rest) (drop k (drop r v))"
    by (auto simp: glob_star_iff)
  define m where "m = r + k + length seg"
  from k seg(1) have g: "glob rest (drop m v)"
    by (simp add: glob_star_free m_def ac_simps)
  have m: "i \<le> m" using i by (simp add: m_def)
  show "glob rest (drop i v)"
  proof (cases "m \<le> length v")
    case True
    with rest m i(3) g show ?thesis
      by (elim disjE exE) (auto intro: glob_star_mono)
  next
    case False
    then have "drop m v = drop (length v) v" by simp
    with g rest i(3) show ?thesis
      by (elim disjE exE) (auto intro: glob_star_mono[of i "length v" v])
  qed
qed

lemma glob_retry:
  assumes seg: "CHR ''*'' \<notin> set seg" "list_all2 char_ok seg (take (length seg) (drop r v))"
    and i: "length seg = i - r" "r \<le> i" and r: "r < length v"
    and no: "\<not> glob rest (drop i v)"
  shows "glob (CHR ''*'' # seg @ rest) (drop r v) \<longleftrightarrow>
         glob (CHR ''*'' # seg @ rest) (drop (Suc r) v)"
proof
  assume "glob (CHR ''*'' # seg @ rest) (drop r v)"
  then obtain k where k: "k \<le> length (drop r v)" "glob (seg @ rest) (drop k (drop r v))"
    by (auto simp: glob_star_iff)
  have "k \<noteq> 0"
  proof
    assume "k = 0"
    with k seg i no show False by (simp add: glob_star_free)
  qed
  then obtain k' where k': "k = Suc k'" by (cases k) auto
  with k r have "k' \<le> length (drop (Suc r) v)" "glob (seg @ rest) (drop k' (drop (Suc r) v))"
    by simp_all
  then show "glob (CHR ''*'' # seg @ rest) (drop (Suc r) v)"
    unfolding glob_star_iff by blast
next
  assume "glob (CHR ''*'' # seg @ rest) (drop (Suc r) v)"
  then show "glob (CHR ''*'' # seg @ rest) (drop r v)"
    using r by (intro glob_star_mono[of r "Suc r"]) simp_all
qed

definition seg_bounds :: "string \<Rightarrow> string \<Rightarrow> segment_state \<Rightarrow> bool" where
  "seg_bounds p v s \<longleftrightarrow> sg_p s \<le> length p \<and> sg_v s \<le> length v \<and>
     (\<forall>q. sg_star s = Some q \<longrightarrow> q < sg_p s \<and> sg_retry s \<le> sg_v s)"

lemma seg_bounds_step:
  "seg_bounds p v s \<Longrightarrow> sg_live s \<and> sg_v s < length v \<Longrightarrow> seg_bounds p v (segment_step p v s)"
  by (auto simp: seg_bounds_def segment_step_def split: option.splits)

definition seg_rank :: "string \<Rightarrow> string \<Rightarrow> (segment_state \<times> segment_state) set" where
  "seg_rank p v = measures
     [\<lambda>s. if sg_live s then 1 else 0,
      \<lambda>s. length p + 1 - (case sg_star s of None \<Rightarrow> 0 | Some q \<Rightarrow> Suc q),
      \<lambda>s. length v - sg_retry s,
      \<lambda>s. length v - sg_v s]"

lemma seg_rank_step:
  "seg_bounds p v s \<and> sg_live s \<and> sg_v s < length v \<Longrightarrow> (segment_step p v s, s) \<in> seg_rank p v"
  by (auto simp: seg_bounds_def segment_step_def seg_rank_def split: option.splits)

lemma segment_loop_ends: "\<exists>s. segment_loop p v = Some s"
  unfolding segment_loop_def
proof (rule wf_rel_while_option_Some[where P = "seg_bounds p v" and R = "seg_rank p v"])
  show "wf (seg_rank p v)" by (simp add: seg_rank_def)
qed (auto simp: seg_rank_step seg_bounds_step, simp add: seg_bounds_def)

definition seg_block :: "string \<Rightarrow> string \<Rightarrow> nat \<Rightarrow> nat \<Rightarrow> nat \<Rightarrow> nat \<Rightarrow> bool" where
  "seg_block p v q r i j \<longleftrightarrow>
     (\<exists>seg. drop q p = CHR ''*'' # seg @ drop i p \<and> CHR ''*'' \<notin> set seg \<and>
        length seg = j - r \<and> list_all2 char_ok seg (take (length seg) (drop r v)))"

definition seg_inv :: "string \<Rightarrow> string \<Rightarrow> segment_state \<Rightarrow> bool" where
  "seg_inv p v s \<longleftrightarrow> seg_bounds p v s \<and>
     (if \<not> sg_live s then \<not> glob p v
      else (case sg_star s of
              None \<Rightarrow> glob p v \<longleftrightarrow> glob (drop (sg_p s) p) (drop (sg_v s) v)
            | Some q \<Rightarrow> seg_block p v q (sg_retry s) (sg_p s) (sg_v s) \<and>
                (glob p v \<longleftrightarrow> glob (drop q p) (drop (sg_retry s) v))))"

lemma drop_nth_Suc: "i < length xs \<Longrightarrow> drop i xs = xs ! i # drop (Suc i) xs"
  by (rule Cons_nth_drop_Suc[symmetric])

lemma glob_advance:
  assumes "i < length p" "j < length v" "p ! i \<noteq> CHR ''*''" "char_ok (p ! i) (v ! j)"
  shows "glob (drop i p) (drop j v) \<longleftrightarrow> glob (drop (Suc i) p) (drop (Suc j) v)"
  using assms
  by (simp add: drop_nth_Suc[of i p] drop_nth_Suc[of j v] glob_nonstar_iff char_ok_def)

lemma glob_mismatch:
  assumes "j < length v"
    and "i < length p \<Longrightarrow> p ! i \<noteq> CHR ''*'' \<and> \<not> char_ok (p ! i) (v ! j)"
  shows "\<not> glob (drop i p) (drop j v)"
proof (cases "i < length p")
  case True
  with assms show ?thesis
    by (simp add: drop_nth_Suc[of i p] drop_nth_Suc[of j v] glob_nonstar_iff char_ok_def)
next
  case False
  with assms(1) show ?thesis by (simp add: glob_Nil_iff)
qed

lemma seg_block_advance:
  assumes blk: "seg_block p v q r i j" and "i < length p" "j < length v" "r \<le> j"
    and c: "p ! i \<noteq> CHR ''*''" "char_ok (p ! i) (v ! j)"
  shows "seg_block p v q r (Suc i) (Suc j)"
proof -
  from blk obtain seg where seg: "drop q p = CHR ''*'' # seg @ drop i p"
    "CHR ''*'' \<notin> set seg" "length seg = j - r"
    "list_all2 char_ok seg (take (length seg) (drop r v))"
    by (auto simp: seg_block_def)
  have "drop q p = CHR ''*'' # (seg @ [p ! i]) @ drop (Suc i) p"
    using seg(1) assms(2) by (simp add: drop_nth_Suc[of i p])
  moreover have "take (length (seg @ [p ! i])) (drop r v) = take (length seg) (drop r v) @ [v ! j]"
    using assms(3,4) seg(3) by (simp add: take_Suc_conv_app_nth)
  then have "list_all2 char_ok (seg @ [p ! i]) (take (length (seg @ [p ! i])) (drop r v))"
    using seg(4) c(2) by (simp add: list_all2_appendI)
  moreover have "length (seg @ [p ! i]) = Suc j - r"
    using seg(3) assms(4) by simp
  ultimately show ?thesis
    unfolding seg_block_def using seg(2) c(1) by (intro exI[of _ "seg @ [p ! i]"]) auto
qed

lemma seg_block_start:
  "q < length p \<Longrightarrow> p ! q = CHR ''*'' \<Longrightarrow> seg_block p v q r (Suc q) r"
  by (simp add: seg_block_def drop_nth_Suc[of q p])

lemma seg_block_commit:
  assumes "seg_block p v q r i j" "r \<le> j" "j \<le> length v"
    and "j = length v \<or> (i < length p \<and> p ! i = CHR ''*'')"
  shows "glob (drop q p) (drop r v) \<longleftrightarrow> glob (drop i p) (drop j v)"
proof -
  from assms(1) obtain seg where seg: "drop q p = CHR ''*'' # seg @ drop i p"
    "CHR ''*'' \<notin> set seg" "length seg = j - r"
    "list_all2 char_ok seg (take (length seg) (drop r v))"
    by (auto simp: seg_block_def)
  have "j = length v \<or> (\<exists>rest'. drop i p = CHR ''*'' # rest')"
    using assms(4) drop_nth_Suc[of i p] by auto
  with glob_commit[OF seg(2,4,3) assms(2,3)] seg(1) show ?thesis by simp
qed

lemma seg_block_retry:
  assumes "seg_block p v q r i j" "r \<le> j" "r < length v" "\<not> glob (drop i p) (drop j v)"
  shows "glob (drop q p) (drop r v) \<longleftrightarrow> glob (drop q p) (drop (Suc r) v)"
proof -
  from assms(1) obtain seg where seg: "drop q p = CHR ''*'' # seg @ drop i p"
    "CHR ''*'' \<notin> set seg" "length seg = j - r"
    "list_all2 char_ok seg (take (length seg) (drop r v))"
    by (auto simp: seg_block_def)
  with glob_retry[OF seg(2,4,3) assms(2,3,4)] show ?thesis by simp
qed

lemma seg_block_star:
  "seg_block p v q r i j \<Longrightarrow> q < length p \<and> p ! q = CHR ''*''"
proof -
  assume "seg_block p v q r i j"
  then obtain xs where d: "drop q p = CHR ''*'' # xs" by (auto simp: seg_block_def)
  then have q: "q < length p" by (metis drop_eq_Nil2 leI list.distinct(1))
  with d show ?thesis by (simp add: drop_nth_Suc)
qed

lemma seg_inv_step:
  assumes star_free: "CHR ''*'' \<notin> set v" and inv: "seg_inv p v s"
    and run: "sg_live s" "sg_v s < length v"
  shows "seg_inv p v (segment_step p v s)"
proof -
  let ?i = "sg_p s" and ?j = "sg_v s"
  have b: "seg_bounds p v s" using inv by (simp add: seg_inv_def)
  have b': "seg_bounds p v (segment_step p v s)" using b run by (intro seg_bounds_step) simp_all
  have vj: "v ! ?j \<noteq> CHR ''*''" using star_free run(2) by (metis nth_mem)
  consider (adv) "?i < length p" "char_ok (p ! ?i) (v ! ?j)" "p ! ?i \<noteq> CHR ''*''"
    | (star) "?i < length p" "p ! ?i = CHR ''*''" "\<not> char_ok (p ! ?i) (v ! ?j)"
    | (mis) "?i < length p \<Longrightarrow> p ! ?i \<noteq> CHR ''*'' \<and> \<not> char_ok (p ! ?i) (v ! ?j)"
    using vj by (cases "?i < length p") (auto simp: char_ok_def)
  then show ?thesis
  proof cases
    case adv
    then have e: "segment_step p v s = s\<lparr>sg_p := ?i + 1, sg_v := ?j + 1\<rparr>"
      by (simp add: segment_step_def char_ok_def)
    show ?thesis
      using inv run b b' adv
      by (cases "sg_star s")
        (simp_all add: seg_inv_def e glob_advance seg_block_advance seg_bounds_def)
  next
    case star
    then have e: "segment_step p v s = s\<lparr>sg_star := Some ?i, sg_p := ?i + 1, sg_retry := ?j\<rparr>"
      by (simp add: segment_step_def char_ok_def)
    have "glob p v \<longleftrightarrow> glob (drop ?i p) (drop ?j v)"
      using inv run b star
      by (cases "sg_star s") (auto simp: seg_inv_def seg_bounds_def seg_block_commit)
    then show ?thesis
      using run b' star by (simp add: seg_inv_def e seg_block_start)
  next
    case mis
    then have no: "\<not> glob (drop ?i p) (drop ?j v)"
      using run(2) by (intro glob_mismatch) simp_all
    show ?thesis
    proof (cases "sg_star s")
      case None
      with mis have e: "segment_step p v s = s\<lparr>sg_live := False\<rparr>"
        by (auto simp: segment_step_def char_ok_def)
      show ?thesis
        using inv run b' no None by (simp add: seg_inv_def e)
    next
      case (Some q)
      let ?r = "sg_retry s"
      from mis Some have e: "segment_step p v s =
          s\<lparr>sg_p := q + 1, sg_retry := ?r + 1, sg_v := ?r + 1\<rparr>"
        by (auto simp: segment_step_def char_ok_def)
      from inv run Some have blk: "seg_block p v q ?r ?i ?j"
        and g: "glob p v \<longleftrightarrow> glob (drop q p) (drop ?r v)" by (simp_all add: seg_inv_def)
      from b Some run have r: "?r \<le> ?j" "?r < length v" by (auto simp: seg_bounds_def)
      from seg_block_retry[OF blk r no] g
      have "glob p v \<longleftrightarrow> glob (drop q p) (drop (Suc ?r) v)" by simp
      with run b' Some seg_block_star[OF blk] show ?thesis
        by (simp add: seg_inv_def e seg_block_start)
    qed
  qed
qed

lemma seg_inv_exit:
  assumes inv: "seg_inv p v s" and stop: "\<not> (sg_live s \<and> sg_v s < length v)"
  shows "(sg_live s \<and> skip_stars (drop (sg_p s) p) = []) \<longleftrightarrow> glob p v"
proof (cases "sg_live s")
  case False
  with inv show ?thesis by (simp add: seg_inv_def)
next
  case True
  with stop inv have v: "sg_v s = length v" by (auto simp: seg_inv_def seg_bounds_def)
  have "glob p v \<longleftrightarrow> glob (drop (sg_p s) p) (drop (sg_v s) v)"
    using inv True v
    by (cases "sg_star s") (auto simp: seg_inv_def seg_bounds_def seg_block_commit)
  with True v show ?thesis by (simp add: glob_stars_empty)
qed

text \<open>\<open>segment_matches\<close> decides \<open>glob\<close> on values without a literal star.\<close>

lemma segment_matches_glob:
  assumes "CHR ''*'' \<notin> set v"
  shows "segment_matches p v \<longleftrightarrow> glob p v"
proof -
  obtain s where s: "segment_loop p v = Some s" using segment_loop_ends by blast
  have "seg_inv p v s"
  proof (rule while_option_rule[OF _ s[unfolded segment_loop_def]])
    show "seg_inv p v (segment_step p v t)"
      if "seg_inv p v t" "sg_live t \<and> sg_v t < length v" for t
      using seg_inv_step[OF assms that(1)] that(2) by simp
  qed (simp add: seg_inv_def seg_bounds_def)
  moreover have "\<not> (sg_live s \<and> sg_v s < length v)"
    using while_option_stop[OF s[unfolded segment_loop_def]] .
  ultimately show ?thesis
    using s by (simp add: segment_matches_def seg_inv_exit)
qed

subsection \<open>The branch matcher runs the same loop\<close>

text \<open>The sentinel \<open>usize::MAX\<close> stands for \<open>None\<close>.\<close>

definition seg_of_glob :: "glob_state \<Rightarrow> segment_state" where
  "seg_of_glob s = \<lparr>sg_p = gm_pi s, sg_v = gm_vi s,
     sg_star = (if gm_star_pi s = usize_max then None else Some (gm_star_pi s)),
     sg_retry = gm_star_vi s, sg_live = gm_live s\<rparr>"

lemma seg_of_glob_step:
  assumes "length p < usize_max"
  shows "seg_of_glob (glob_step p v s) = segment_step p v (seg_of_glob s)"
  using assms by (auto simp: seg_of_glob_def glob_step_def segment_step_def)

lemma glob_loop_simulates:
  assumes "length p < usize_max"
  shows "map_option seg_of_glob
      (while_option (\<lambda>s. gm_live s \<and> gm_vi s < length v) (glob_step p v)
        \<lparr>gm_pi = 0, gm_vi = 0, gm_star_pi = usize_max, gm_star_vi = 0, gm_live = True\<rparr>) =
    segment_loop p v"
  unfolding segment_loop_def
  by (subst while_option_commute[where b' = "\<lambda>s. sg_live s \<and> sg_v s < length v"
        and c' = "segment_step p v" and f = seg_of_glob])
    (simp_all add: seg_of_glob_step[OF assms], simp_all add: seg_of_glob_def)

lemma glob_match_inner_eq:
  assumes "length p < usize_max"
  shows "glob_match_inner p v = Some (segment_matches p v)"
proof -
  obtain s where s: "segment_loop p v = Some s" using segment_loop_ends by blast
  with glob_loop_simulates[OF assms, of v] show ?thesis
    by (auto simp: glob_match_inner_def segment_matches_def seg_of_glob_def)
qed

subsection \<open>Paths\<close>

inductive path_glob :: "string list \<Rightarrow> string list \<Rightarrow> bool" where
  path_nil: "path_glob [] []"
| path_segment: "seg \<noteq> ''**'' \<Longrightarrow> glob seg name \<Longrightarrow> path_glob ps names \<Longrightarrow>
     path_glob (seg # ps) (name # names)"
| path_any: "path_glob ps names \<Longrightarrow> path_glob (''**'' # ps) (skipped @ names)"

inductive_simps path_glob_Nil_iff: "path_glob [] names"
inductive_simps path_glob_Cons_iff: "path_glob (p # ps) names"

lemma path_glob_any_iff:
  "path_glob (''**'' # ps) names \<longleftrightarrow>
     path_glob ps names \<or> (\<exists>n ns. names = n # ns \<and> path_glob (''**'' # ps) ns)"
proof
  assume "path_glob (''**'' # ps) names"
  then obtain sk ns where "names = sk @ ns" "path_glob ps ns"
    by (auto simp: path_glob_Cons_iff)
  then show "path_glob ps names \<or> (\<exists>n ns. names = n # ns \<and> path_glob (''**'' # ps) ns)"
    by (cases sk) (auto intro: path_any)
next
  assume "path_glob ps names \<or> (\<exists>n ns. names = n # ns \<and> path_glob (''**'' # ps) ns)"
  then show "path_glob (''**'' # ps) names"
  proof (elim disjE exE conjE)
    assume "path_glob ps names"
    from path_any[OF this, of "[]"] show ?thesis by simp
  next
    fix n ns assume "names = n # ns" "path_glob (''**'' # ps) ns"
    then obtain sk ms where "names = (n # sk) @ ms" "path_glob ps ms"
      by (auto simp: path_glob_Cons_iff)
    then show ?thesis by (metis path_any)
  qed
qed

lemma path_matches_path_glob:
  assumes "\<forall>n \<in> set names. CHR ''*'' \<notin> set n"
  shows "path_matches ps names \<longleftrightarrow> path_glob ps names"
  using assms
proof (induction ps names rule: path_matches.induct)
  case (1 path)
  then show ?case by (auto simp: path_glob_Nil_iff)
next
  case (2 seg rest path)
  show ?case
  proof (cases "seg = ''**''")
    case True
    show ?thesis
    proof (cases path)
      case Nil
      with 2 True show ?thesis
        using path_glob_any_iff[of rest "[]"] path_matches.simps(2)[of seg rest path] by simp
    next
      case (Cons n ns)
      with 2 True show ?thesis
        using path_glob_any_iff[of rest "n # ns"] path_matches.simps(2)[of seg rest path] by simp
    qed
  next
    case False
    then show ?thesis
      using 2 path_matches.simps(2)[of seg rest path]
      by (cases path) (auto simp: path_glob_Cons_iff segment_matches_glob)
  qed
qed

subsection \<open>Properties\<close>

text \<open>
  C39. The branch and tag matcher is correct. For every pattern shorter than the
  \<open>usize::MAX\<close> sentinel and every value without a literal star (no git reference
  holds one), the loop ends and returns exactly whether the value matches the
  glob: \<open>*\<close> any run of characters, \<open>?\<close> any one character, everything else itself.
\<close>

theorem glob_match_correct:
  assumes "length pattern < usize_max" and "CHR ''*'' \<notin> set v"
  shows "glob_match_inner pattern v = Some (glob pattern v)"
  using glob_match_inner_eq[OF assms(1)] segment_matches_glob[OF assms(2)] by simp

theorem glob_match_correct_witness:
  "length ''release/*'' < usize_max \<and> CHR ''*'' \<notin> set ''release/1.2'' \<and>
   glob_match_inner ''release/*'' ''release/1.2'' = Some (glob ''release/*'' ''release/1.2'')"
proof -
  have l: "length ''release/*'' < usize_max" by (simp add: usize_max_def)
  have n: "CHR ''*'' \<notin> set ''release/1.2''" by simp
  show ?thesis using l n glob_match_correct[OF l n] by blast
qed

text \<open>
  Path patterns are correct. For a path whose segments hold no literal star,
  \<open>artifact_pattern_matches\<close> agrees with the declarative reading: a pattern
  without a slash is matched against the file name alone, otherwise segment by
  segment with \<open>**\<close> spanning any number of segments.
\<close>

theorem artifact_pattern_correct:
  assumes "CHR ''*'' \<notin> set path"
  shows "artifact_pattern_matches pattern path \<longleftrightarrow>
    (if CHR ''/'' \<in> set (trim pattern)
     then path_glob (split_on CHR ''/'' (trim pattern)) (split_on CHR ''/'' path)
     else glob (trim pattern) (last (split_on CHR ''/'' path)))"
proof -
  have parts: "\<forall>n \<in> set (split_on CHR ''/'' path). CHR ''*'' \<notin> set n"
    using assms split_on_chars by blast
  then have "CHR ''*'' \<notin> set (last (split_on CHR ''/'' path))"
    by (meson last_in_set split_on_not_Nil)
  with parts show ?thesis
    by (simp add: artifact_pattern_matches_def Let_def path_matches_path_glob
        segment_matches_glob)
qed

theorem artifact_pattern_correct_witness:
  "CHR ''*'' \<notin> set ''build/a.apk'' \<and>
   (artifact_pattern_matches ''build/*.apk'' ''build/a.apk'' \<longleftrightarrow>
    (if CHR ''/'' \<in> set (trim ''build/*.apk'')
     then path_glob (split_on CHR ''/'' (trim ''build/*.apk'')) (split_on CHR ''/'' ''build/a.apk'')
     else glob (trim ''build/*.apk'') (last (split_on CHR ''/'' ''build/a.apk''))))"
proof -
  have n: "CHR ''*'' \<notin> set ''build/a.apk''" by simp
  show ?thesis using n artifact_pattern_correct[OF n] by blast
qed

text \<open>
  A literal star in the value defeats the matcher. On the value \<open>*a\<close> the
  pattern \<open>*\<close>, which the documentation of \<open>glob_match\<close> describes as matching any
  characters, is refused by both loops, although \<open>glob\<close> relates them: the loop
  consumes the star of the pattern as a literal because it compares characters
  before it looks for a wildcard.
\<close>

theorem literal_star_defeats_matcher:
  "glob_match_inner ''*'' ''*a'' = Some False \<and> \<not> segment_matches ''*'' ''*a'' \<and>
   glob ''*'' ''*a''"
proof -
  have loop: "segment_loop ''*'' ''*a'' =
      Some \<lparr>sg_p = 1, sg_v = 1, sg_star = None, sg_retry = 0, sg_live = False\<rparr>"
    by (simp add: segment_loop_def while_option_unfold segment_step_def)
  then have no: "\<not> segment_matches ''*'' ''*a''" by (simp add: segment_matches_def)
  moreover have "glob_match_inner ''*'' ''*a'' = Some False"
    using no by (subst glob_match_inner_eq) (simp_all add: usize_max_def)
  moreover have "glob ''*'' ''*a''"
    using glob_star[OF glob_nil, of "''*a''"] by simp
  ultimately show ?thesis by blast
qed

end
