(* ===== verification/Trigger_Config.thy ===== *)
theory Trigger_Config
  imports Glob_Match
begin

text \<open>
  Which webhook events start a build: \<open>TriggerConfig\<close> and \<open>ApprovalPolicy\<close> of
  \<^verbatim>\<open>crates/oore-contract/src/lib.rs\<close>, and \<open>TriggerSpec\<close>, the \<open>on:\<close> block of a
  version 2 file, of \<^verbatim>\<open>crates/oore-contract/src/pipeline_config.rs\<close>.
\<close>

subsection \<open>Pipeline trigger settings\<close>

record ScheduleTrigger =
  st_cron :: string
  st_branch :: "string option"

record TriggerConfig =
  tc_events :: "string list"
  tc_branches :: "string list"
  tc_tags :: "string list"
  tc_paths :: "string list"
  tc_paths_ignore :: "string list"
  tc_schedules :: "ScheduleTrigger list"

definition normalize_event :: "string \<Rightarrow> string" where
  "normalize_event event_type =
     (if event_type = ''Push Hook'' then ''push''
      else if event_type = ''Merge Request Hook'' then ''pull_request''
      else if event_type = ''Tag Push Hook'' then ''tag_push''
      else to_ascii_lowercase event_type)"

definition should_trigger :: "TriggerConfig \<Rightarrow> string \<Rightarrow> string option \<Rightarrow> string option \<Rightarrow> bool" where
  "should_trigger cfg event_type branch tag =
     (if tc_events cfg \<noteq> [] \<and>
         \<not> list_ex (\<lambda>e. normalize_event e = normalize_event event_type) (tc_events cfg)
      then False
      else if tc_branches cfg = [] \<and> tc_tags cfg = [] then True
      else (let (patterns, reference) =
              (case tag of Some t \<Rightarrow> (tc_tags cfg, Some t) | None \<Rightarrow> (tc_branches cfg, branch))
            in (case reference of
                  None \<Rightarrow> False
                | Some r \<Rightarrow> list_ex (\<lambda>pattern. glob_match pattern r) patterns)))"

text \<open>A pattern that ends in a slash matches everything below that directory.\<close>

definition strip_suffix_char :: "char \<Rightarrow> string \<Rightarrow> string option" where
  "strip_suffix_char c s = (if s \<noteq> [] \<and> last s = c then Some (butlast s) else None)"

definition changed_path_matches :: "string \<Rightarrow> string \<Rightarrow> bool" where
  "changed_path_matches pattern path =
     (let pattern = trim pattern
      in case strip_suffix_char CHR ''/'' pattern of
           Some directory \<Rightarrow> artifact_pattern_matches (directory @ ''/**'') path
         | None \<Rightarrow> artifact_pattern_matches pattern path)"

definition matches_any :: "string list \<Rightarrow> string \<Rightarrow> bool" where
  "matches_any patterns file = list_ex (\<lambda>pattern. changed_path_matches pattern file) patterns"

definition paths_match :: "TriggerConfig \<Rightarrow> string list option \<Rightarrow> bool" where
  "paths_match cfg changed_files =
     (if tc_paths cfg = [] \<and> tc_paths_ignore cfg = [] then True
      else (case changed_files of
              None \<Rightarrow> True
            | Some files \<Rightarrow>
                list_ex (\<lambda>file. (tc_paths cfg = [] \<or> matches_any (tc_paths cfg) file) \<and>
                               \<not> matches_any (tc_paths_ignore cfg) file) files))"

definition has_path_filters :: "TriggerConfig \<Rightarrow> bool" where
  "has_path_filters cfg \<longleftrightarrow> tc_paths cfg \<noteq> [] \<or> tc_paths_ignore cfg \<noteq> []"

subsection \<open>Approval policy\<close>

record ApprovalPolicy =
  ap_required :: bool
  ap_events :: "string list"
  ap_expires_after_hours :: "int option"

definition approval_default_expires_after_hours :: int where
  "approval_default_expires_after_hours = 7 * 24"

definition approval_applies_to :: "ApprovalPolicy \<Rightarrow> string \<Rightarrow> bool" where
  "approval_applies_to p event \<longleftrightarrow>
     ap_required p \<and> (ap_events p = [] \<or> list_ex (\<lambda>e. e = event) (ap_events p))"

subsection \<open>The \<open>on\<close> block of a version 2 file\<close>

datatype BranchTrigger = Trigger_Off | AllBranches | Branches "string list"

datatype TriggerEvent =
    Event_Push string
  | Event_PullRequest "string option"
  | Event_Tag string

record TriggerSpec =
  ts_push :: "BranchTrigger option"
  ts_pull_request :: "BranchTrigger option"
  ts_tag :: "string list"
  ts_paths :: "string list"

fun branch_trigger_matches :: "BranchTrigger \<Rightarrow> string option \<Rightarrow> bool" where
  "branch_trigger_matches Trigger_Off branch = False"
| "branch_trigger_matches AllBranches branch = True"
| "branch_trigger_matches (Branches patterns) branch =
     (case branch of
        None \<Rightarrow> False
      | Some b \<Rightarrow> list_ex (\<lambda>pattern. glob_match (trim pattern) b) patterns)"

fun spec_matches_ref :: "TriggerSpec \<Rightarrow> TriggerEvent \<Rightarrow> bool" where
  "spec_matches_ref spec (Event_Push branch) =
     (case ts_push spec of None \<Rightarrow> False | Some push \<Rightarrow> branch_trigger_matches push (Some branch))"
| "spec_matches_ref spec (Event_PullRequest target) =
     (case ts_pull_request spec of None \<Rightarrow> False | Some pr \<Rightarrow> branch_trigger_matches pr target)"
| "spec_matches_ref spec (Event_Tag tag) =
     list_ex (\<lambda>pattern. glob_match (trim pattern) tag) (ts_tag spec)"

definition spec_has_path_filters :: "TriggerSpec \<Rightarrow> bool" where
  "spec_has_path_filters spec \<longleftrightarrow> ts_paths spec \<noteq> []"

definition spec_paths_match :: "TriggerSpec \<Rightarrow> string list option \<Rightarrow> bool" where
  "spec_paths_match spec changed_files =
     (case changed_files of
        Some files \<Rightarrow>
          if spec_has_path_filters spec
          then list_ex (\<lambda>file. list_ex (\<lambda>pattern. changed_path_matches pattern file) (ts_paths spec)) files
          else True
      | None \<Rightarrow> True)"

fun join :: "string \<Rightarrow> string list \<Rightarrow> string" where
  "join sep [] = []"
| "join sep [x] = x"
| "join sep (x # y # ys) = x @ sep @ join sep (y # ys)"

definition describe_branches :: "BranchTrigger option \<Rightarrow> string \<Rightarrow> string \<Rightarrow> string option" where
  "describe_branches trigger all some =
     (case trigger of
        None \<Rightarrow> None
      | Some Trigger_Off \<Rightarrow> None
      | Some AllBranches \<Rightarrow> Some all
      | Some (Branches names) \<Rightarrow> Some (some @ '' '' @ join '', '' names))"

definition opt_list :: "'a option \<Rightarrow> 'a list" where
  "opt_list x = (case x of None \<Rightarrow> [] | Some a \<Rightarrow> [a])"

definition spec_describe :: "TriggerSpec \<Rightarrow> string list" where
  "spec_describe spec =
     (let lines = opt_list (describe_branches (ts_push spec) ''push to any branch'' ''push to'') @
            opt_list (describe_branches (ts_pull_request spec) ''pull requests'' ''pull requests into'') @
            (if ts_tag spec \<noteq> [] then [''tag '' @ join '', '' (ts_tag spec)] else [])
      in if ts_paths spec \<noteq> [] \<and> lines \<noteq> []
         then lines @ [''only when '' @ join '', '' (ts_paths spec) @ '' change''] else lines)"

subsection \<open>Lemmas\<close>

lemma segment_matches_literal:
  assumes "CHR ''*'' \<notin> set p" "CHR ''?'' \<notin> set p" "CHR ''*'' \<notin> set v"
  shows "segment_matches p v \<longleftrightarrow> v = p"
proof -
  have "glob p v \<longleftrightarrow> v = p"
    using assms(1,2)
  proof (induction p arbitrary: v)
    case Nil
    then show ?case by (auto simp: glob_Nil_iff)
  next
    case (Cons c p)
    then have c: "c \<noteq> CHR ''*''" "c \<noteq> CHR ''?''" by auto
    with Cons show ?case by (auto simp: glob_nonstar_iff[OF c(1)])
  qed
  with segment_matches_glob[OF assms(3)] show ?thesis by simp
qed

lemma path_matches_any: "path_matches [''**''] names"
  by (induction names) (subst path_matches.simps(2), simp)+

lemma split_on_snoc_sep:
  "c \<notin> set d \<Longrightarrow> c \<notin> set e \<Longrightarrow> split_on c (d @ c # e) = [d, e]"
  by (induction d) (auto simp: split_on_single)

lemma matches_any_mono: "set ps \<subseteq> set qs \<Longrightarrow> matches_any ps f \<Longrightarrow> matches_any qs f"
  by (auto simp: matches_any_def list_ex_iff)

subsection \<open>Properties\<close>

text \<open>
  A directory pattern selects its directory. For a plain directory name
  \<open>d\<close> (no wildcard, no slash, no whitespace), the trigger pattern \<open>d/\<close> matches a
  changed path exactly when the first segment of the path is \<open>d\<close>.
\<close>

theorem directory_pattern_matches:
  assumes "d \<noteq> []" and "\<forall>c \<in> set d. \<not> is_ws c \<and> c \<notin> {CHR ''*'', CHR ''?'', CHR ''/''}"
    and "CHR ''*'' \<notin> set path"
  shows "changed_path_matches (d @ ''/'') path \<longleftrightarrow>
         (\<exists>below. split_on CHR ''/'' path = d # below)"
proof -
  have ws: "\<not> is_ws CHR ''/''" "\<not> is_ws CHR ''*''" by (simp_all add: is_ws_def)
  have t1: "trim (d @ ''/'') = d @ ''/''"
    using assms(2) ws by (intro trim_no_ws) auto
  have t2: "trim (d @ ''/**'') = d @ ''/**''"
    using assms(2) ws by (intro trim_no_ws) auto
  have split: "split_on CHR ''/'' (d @ ''/**'') = [d, ''**'']"
    using assms(2) by (intro split_on_snoc_sep) auto
  have d: "d \<noteq> ''**''"
  proof
    assume "d = ''**''"
    then have "CHR ''*'' \<in> set d" by simp
    with assms(2) show False by blast
  qed
  obtain n ns where ns: "split_on CHR ''/'' path = n # ns"
    by (cases "split_on CHR ''/'' path") auto
  with assms(3) split_on_chars[of n "CHR ''/''" path] have "CHR ''*'' \<notin> set n" by auto
  with assms(2) have lit: "segment_matches d n \<longleftrightarrow> n = d"
    by (intro segment_matches_literal) auto
  have "path_matches [d, ''**''] (n # ns) \<longleftrightarrow> n = d"
    using path_matches.simps(2)[of d "[''**'']" "n # ns"] d lit path_matches_any by simp
  then show ?thesis
    by (simp add: changed_path_matches_def Let_def strip_suffix_char_def t1
        artifact_pattern_matches_def t2 split ns)
qed

theorem directory_pattern_matches_witness:
  "changed_path_matches (''docs'' @ ''/'') ''docs/a/b.md'' \<and>
   \<not> changed_path_matches (''docs'' @ ''/'') ''src/docs/b.md''"
proof -
  have a: "(''docs''::string) \<noteq> []" by simp
  have b: "\<forall>c \<in> set ''docs''. \<not> is_ws c \<and> c \<notin> {CHR ''*'', CHR ''?'', CHR ''/''}"
    by (simp add: is_ws_def)
  have c: "CHR ''*'' \<notin> set ''docs/a/b.md''" "CHR ''*'' \<notin> set ''src/docs/b.md''" by simp_all
  show ?thesis
    using directory_pattern_matches[OF a b c(1)] directory_pattern_matches[OF a b c(2)] by simp
qed

text \<open>
  Path filters never lose a relevant change. An unknown change set never
  suppresses a build; enlarging the change set never suppresses a build that a
  smaller one started; and a known change set starts no build exactly when path
  filters are set and each changed file is outside \<open>paths\<close> or inside
  \<open>paths_ignore\<close>.
\<close>

theorem path_filters_monotone:
  "paths_match cfg None \<and>
   (set files \<subseteq> set files2 \<longrightarrow> paths_match cfg (Some files) \<longrightarrow> paths_match cfg (Some files2)) \<and>
   (\<not> paths_match cfg (Some files) \<longleftrightarrow>
      has_path_filters cfg \<and>
      (\<forall>f \<in> set files. (tc_paths cfg \<noteq> [] \<and> \<not> matches_any (tc_paths cfg) f) \<or>
         matches_any (tc_paths_ignore cfg) f))"
  by (auto simp: paths_match_def has_path_filters_def list_ex_iff)

theorem path_filters_monotone_witness:
  "paths_match \<lparr>tc_events = [], tc_branches = [], tc_tags = [], tc_paths = [''docs/''],
      tc_paths_ignore = [], tc_schedules = []\<rparr> (Some [''docs/a'']) \<and>
   paths_match \<lparr>tc_events = [], tc_branches = [], tc_tags = [], tc_paths = [''docs/''],
      tc_paths_ignore = [], tc_schedules = []\<rparr> (Some [''docs/a'', ''lib/b''])"
proof -
  have "paths_match \<lparr>tc_events = [], tc_branches = [], tc_tags = [], tc_paths = [''docs/''],
      tc_paths_ignore = [], tc_schedules = []\<rparr> (Some [''docs/a''])" by code_simp
  with path_filters_monotone[of "\<lparr>tc_events = [], tc_branches = [], tc_tags = [],
      tc_paths = [''docs/''], tc_paths_ignore = [], tc_schedules = []\<rparr>" "[''docs/a'']"
      "[''docs/a'', ''lib/b'']"] show ?thesis by simp
qed

end
