(* ===== verification/Runner_Labels.thy ===== *)
theory Runner_Labels
  imports Contract_Enums
begin

text \<open>
  What a runner tells the daemon about itself, from \<^verbatim>\<open>crates/oore-contract/src/lib.rs\<close>:
  scheduling labels, disk pressure, and the artifact size budgets it sends with a
  build (checked again by \<open>checked_file_size_budgets\<close> of
  \<^verbatim>\<open>crates/oored/src/runners.rs\<close>).
\<close>

subsection \<open>Labels\<close>

definition MAX_RUNNER_LABELS :: nat where
  "MAX_RUNNER_LABELS = 32"

definition MAX_RUNNER_LABEL_LENGTH :: nat where
  "MAX_RUNNER_LABEL_LENGTH = 64"

definition DEFAULT_RUNS_ON :: "string list" where
  "DEFAULT_RUNS_ON = [''macos'']"

definition label_char :: "char \<Rightarrow> bool" where
  "label_char c \<longleftrightarrow> is_ascii_lowercase c \<or> is_ascii_digit c \<or> c \<in> {CHR ''.'', CHR ''_'', CHR ''-''}"

definition normalize_runner_label :: "string \<Rightarrow> string + string" where
  "normalize_runner_label raw =
     (let label = to_ascii_lowercase (trim raw) in
      if label = [] \<or> length label > MAX_RUNNER_LABEL_LENGTH
      then Inl ''label must be between 1 and 64 characters''
      else if \<not> list_all label_char label
      then Inl (''label '' @ [CHR 0x27] @ label @ [CHR 0x27] @
             '' may only contain letters, digits, '' @ [CHR 0x27] @ ''.'' @ [CHR 0x27] @ '', '' @
             [CHR 0x27] @ ''_'' @ [CHR 0x27] @ '' and '' @ [CHR 0x27] @ ''-'' @ [CHR 0x27])
      else Inr label)"

definition normalize_runner_labels :: "string list \<Rightarrow> string + string list" where
  "normalize_runner_labels labels =
     (if length labels > MAX_RUNNER_LABELS then Inl ''at most 32 labels are allowed''
      else and_then (collect_results normalize_runner_label labels)
             (\<lambda>normalized. Inr (sort_dedup normalized)))"

text \<open>
  The host capabilities a runner reports: the text fields the label detection reads,
  whether the JSON object has any field, and the completed cache purge.
\<close>

record capabilities =
  cap_nonempty :: bool
  cap_os :: "string option"
  cap_os_version :: "string option"
  cap_xcode_version :: "string option"
  cap_arch :: "string option"
  cap_caches_purged_at :: "int option"

definition cap_text :: "string option \<Rightarrow> string option" where
  "cap_text value =
     (case value of None \<Rightarrow> None | Some v \<Rightarrow> if trim v = [] then None else Some (trim v))"

text \<open>Rust's \<open>split\<close> with a character predicate.\<close>

fun split_where :: "(char \<Rightarrow> bool) \<Rightarrow> string \<Rightarrow> string list" where
  "split_where P [] = [[]]"
| "split_where P (x # xs) =
     (if P x then [] # split_where P xs
      else (case split_where P xs of [] \<Rightarrow> [[x]] | p # ps \<Rightarrow> (x # p) # ps))"

definition major_version :: "string \<Rightarrow> string option" where
  "major_version version = find (\<lambda>part. part \<noteq> []) (split_where (\<lambda>c. \<not> is_ascii_digit c) version)"

definition detected_runner_labels :: "capabilities \<Rightarrow> string list" where
  "detected_runner_labels caps =
     (let os_labels =
            (case Option.bind (cap_text (cap_os caps))
                    (\<lambda>os. case normalize_runner_label os of Inl _ \<Rightarrow> None | Inr l \<Rightarrow> Some l) of
               None \<Rightarrow> []
             | Some os \<Rightarrow>
                 (case Option.bind (cap_text (cap_os_version caps)) major_version of
                    None \<Rightarrow> [] | Some v \<Rightarrow> [os @ ''-'' @ v]) @ [os]);
          xcode_labels =
            (case Option.bind (cap_text (cap_xcode_version caps)) major_version of
               None \<Rightarrow> [] | Some v \<Rightarrow> [''xcode-'' @ v]);
          arch_labels =
            (case cap_text (cap_arch caps) of
               None \<Rightarrow> []
             | Some a \<Rightarrow>
                 if a = ''aarch64'' \<or> a = ''arm64'' then [''arm64'']
                 else if a = ''x86_64'' \<or> a = ''amd64'' then [''x86_64'']
                 else [])
      in sort_dedup (os_labels @ xcode_labels @ arch_labels))"

definition effective_runner_labels :: "capabilities \<Rightarrow> string list \<Rightarrow> string list" where
  "effective_runner_labels caps custom_labels =
     sort_dedup (detected_runner_labels caps @ custom_labels)"

definition scheduling_labels :: "string list \<Rightarrow> string list" where
  "scheduling_labels runs_on = (if runs_on = [] then DEFAULT_RUNS_ON else runs_on)"

definition missing_runner_labels :: "string list \<Rightarrow> string list \<Rightarrow> string list" where
  "missing_runner_labels required available = filter (\<lambda>label. label \<notin> set available) required"

subsection \<open>Disk pressure\<close>

datatype RunnerDiskPressure = Disk_Warning | Disk_Critical

definition RUNNER_DISK_WARNING_BYTES :: nat where
  "RUNNER_DISK_WARNING_BYTES = 20 * 1024 * 1024 * 1024"

definition RUNNER_DISK_CRITICAL_BYTES :: nat where
  "RUNNER_DISK_CRITICAL_BYTES = 10 * 1024 * 1024 * 1024"

definition runner_disk_pressure :: "nat \<Rightarrow> RunnerDiskPressure option" where
  "runner_disk_pressure disk_free_bytes =
     (if disk_free_bytes < RUNNER_DISK_CRITICAL_BYTES then Some Disk_Critical
      else if disk_free_bytes < RUNNER_DISK_WARNING_BYTES then Some Disk_Warning
      else None)"

subsection \<open>Size budgets\<close>

datatype BuildPlatform = Android | Ios | Macos

datatype SizeBudgetMode = Budget_Warn | Budget_Fail

record SizeBudgetRule =
  br_kind :: string
  br_max_bytes :: "int option"
  br_max_increase_bytes :: "int option"
  br_max_increase_percent :: "f64 option"

record SizeBudget =
  sb_mode :: SizeBudgetMode
  sb_rules :: "SizeBudgetRule list"

record TargetSizeBudget =
  tb_platform :: BuildPlatform
  tb_source :: string
  tb_budget :: SizeBudget

definition has_limit :: "SizeBudgetRule \<Rightarrow> bool" where
  "has_limit rule \<longleftrightarrow> br_max_bytes rule \<noteq> None \<or> br_max_increase_bytes rule \<noteq> None \<or>
     br_max_increase_percent rule \<noteq> None"

definition quoted :: "string \<Rightarrow> string" where
  "quoted s = [CHR 0x27] @ s @ [CHR 0x27]"

definition is_some_and :: "('a \<Rightarrow> bool) \<Rightarrow> 'a option \<Rightarrow> bool" where
  "is_some_and P x = (case x of None \<Rightarrow> False | Some a \<Rightarrow> P a)"

definition valid_budget_kind :: "string \<Rightarrow> bool" where
  "valid_budget_kind kind \<longleftrightarrow>
     kind \<noteq> [] \<and> length kind \<le> 16 \<and> list_all (\<lambda>c. is_ascii_lowercase c \<or> is_ascii_digit c) kind"

text \<open>The checks of one rule whose kind is well formed; \<open>seen\<close> holds the kinds before it.\<close>

definition rule_errors :: "string \<Rightarrow> string set \<Rightarrow> SizeBudgetRule \<Rightarrow> string list" where
  "rule_errors field seen rule =
     (let kind = quoted (br_kind rule) in
      (if br_kind rule \<in> seen then [field @ '' lists kind '' @ kind @ '' more than once''] else []) @
      (if \<not> has_limit rule then [field @ '' rule for '' @ kind @ '' needs a limit''] else []) @
      (if is_some_and (\<lambda>bytes. bytes \<le> 0) (br_max_bytes rule)
       then [field @ '' max_bytes for '' @ kind @ '' must be greater than 0''] else []) @
      (if is_some_and (\<lambda>bytes. bytes < 0) (br_max_increase_bytes rule)
       then [field @ '' max_increase_bytes for '' @ kind @ '' must be 0 or more''] else []) @
      (if is_some_and (\<lambda>p. \<not> f64_is_finite p \<or> f64_less p (Finite 0)) (br_max_increase_percent rule)
       then [field @ '' max_increase_percent for '' @ kind @ '' must be 0 or more''] else []))"

fun rules_errors :: "string \<Rightarrow> string set \<Rightarrow> SizeBudgetRule list \<Rightarrow> string list" where
  "rules_errors field seen [] = []"
| "rules_errors field seen (rule # rules) =
     (if \<not> valid_budget_kind (br_kind rule)
      then (field @ '' kind '' @ quoted (br_kind rule) @
            '' must be a lowercase file extension such as aab, apk or ipa'') #
           rules_errors field seen rules
      else rule_errors field seen rule @ rules_errors field (insert (br_kind rule) seen) rules)"

definition validate_at :: "SizeBudget \<Rightarrow> string \<Rightarrow> string list" where
  "validate_at budget field =
     (if length (sb_rules budget) > 20 then [field @ '' allows at most 20 rules''] else []) @
     rules_errors field {} (sb_rules budget)"

definition MAX_BUDGET_SOURCE_CHARS :: nat where
  "MAX_BUDGET_SOURCE_CHARS = 128"

definition is_control :: "char \<Rightarrow> bool" where
  "is_control c \<longleftrightarrow> (of_char c :: nat) < 32 \<or> (of_char c :: nat) = 127"

definition budget_source :: "string \<Rightarrow> string" where
  "budget_source raw =
     (let source = take MAX_BUDGET_SOURCE_CHARS (map (\<lambda>c. if is_control c then CHR '' '' else c) raw)
      in if trim source = [] then ''.oore.yaml'' else source)"

fun keep_budgets :: "TargetSizeBudget list \<Rightarrow> TargetSizeBudget list \<Rightarrow> TargetSizeBudget list" where
  "keep_budgets kept [] = kept"
| "keep_budgets kept (b # bs) =
     (let source = budget_source (tb_source b) in
      if validate_at (tb_budget b) source \<noteq> [] then keep_budgets kept bs
      else if list_ex (\<lambda>seen. tb_platform seen = tb_platform b) kept then keep_budgets kept bs
      else keep_budgets (kept @ [b\<lparr>tb_source := source\<rparr>]) bs)"

definition checked_file_size_budgets :: "TargetSizeBudget list \<Rightarrow> TargetSizeBudget list" where
  "checked_file_size_budgets budgets = keep_budgets [] budgets"

subsection \<open>Labels are canonical\<close>

lemma label_char_not_ws: "label_char c \<Longrightarrow> \<not> is_ws c"
  by (auto simp: label_char_def is_ws_def is_ascii_lowercase_def is_ascii_digit_def)

lemma label_char_lower: "label_char c \<Longrightarrow> to_ascii_lower c = c"
  by (rule to_ascii_lower_uppercase)
    (auto simp: label_char_def is_ascii_lowercase_def is_ascii_digit_def is_ascii_uppercase_def)

definition valid_label :: "string \<Rightarrow> bool" where
  "valid_label l \<longleftrightarrow> l \<noteq> [] \<and> length l \<le> MAX_RUNNER_LABEL_LENGTH \<and> list_all label_char l"

lemma normalize_runner_label_valid: "normalize_runner_label raw = Inr l \<Longrightarrow> valid_label l"
  by (auto simp: normalize_runner_label_def valid_label_def Let_def split: if_splits)

lemma normalize_valid_label: "valid_label l \<Longrightarrow> normalize_runner_label l = Inr l"
proof -
  assume v: "valid_label l"
  have "trim l = l"
    using v by (intro trim_no_ws) (auto simp: valid_label_def list_all_iff label_char_not_ws)
  moreover have "to_ascii_lowercase l = l"
    using v by (auto simp: to_ascii_lowercase_def valid_label_def list_all_iff label_char_lower
        intro: map_idI)
  ultimately show ?thesis
    using v by (simp add: normalize_runner_label_def valid_label_def Let_def)
qed

lemma collect_normalized:
  "collect_results normalize_runner_label xs = Inr ys \<Longrightarrow> list_all valid_label ys \<and> length ys = length xs"
  by (auto simp: collect_results_Inr list_all_length list_all2_conv_all_nth normalize_runner_label_valid)

lemma collect_valid: "list_all valid_label ys \<Longrightarrow> collect_results normalize_runner_label ys = Inr ys"
  by (auto simp: collect_results_Inr list_all2_same list_all_iff normalize_valid_label)

lemma length_sort_dedup: "length (sort_dedup xs) \<le> length xs"
  by (metis sort_dedup_def remdups_adj_length length_sort)

lemma normalized_labels_canonical:
  assumes "normalize_runner_labels labels = Inr ls"
  shows "sorted ls \<and> distinct ls \<and> length ls \<le> MAX_RUNNER_LABELS \<and> list_all valid_label ls \<and>
         normalize_runner_labels ls = Inr ls"
proof -
  from assms obtain ys where len: "length labels \<le> MAX_RUNNER_LABELS"
    and ys: "collect_results normalize_runner_label labels = Inr ys" and ls: "ls = sort_dedup ys"
    by (auto simp: normalize_runner_labels_def and_then_eq_Inr split: if_splits)
  from collect_normalized[OF ys] have v: "list_all valid_label ls" and "length ys = length labels"
    by (auto simp: ls list_all_iff)
  with len length_sort_dedup[of ys] have l: "length ls \<le> MAX_RUNNER_LABELS" by (simp add: ls)
  from v l show ?thesis
    by (simp add: normalize_runner_labels_def collect_valid ls sorted_sort_dedup distinct_sort_dedup
        sort_dedup_idem)
qed

lemma set_effective_labels:
  "set (effective_runner_labels caps custom) = set (detected_runner_labels caps) \<union> set custom"
  by (simp add: effective_runner_labels_def)

lemma no_missing_labels:
  "missing_runner_labels required available = [] \<longleftrightarrow> set required \<subseteq> set available"
  by (auto simp: missing_runner_labels_def filter_empty_conv)

subsection \<open>Budgets a runner sends\<close>

lemma budget_source_short:
  "length (budget_source raw) \<le> MAX_BUDGET_SOURCE_CHARS \<and> trim (budget_source raw) \<noteq> [] \<and>
   list_all (\<lambda>c. \<not> is_control c) (budget_source raw)"
proof -
  have "list_all (\<lambda>c. \<not> is_control c) (take n (map (\<lambda>c. if is_control c then CHR '' '' else c) raw))" for n
    by (auto simp: list_all_iff is_control_def dest!: in_set_takeD)
  then show ?thesis
    by (auto simp: budget_source_def Let_def MAX_BUDGET_SOURCE_CHARS_def is_control_def trim_def is_ws_def)
qed

definition budget_ok :: "TargetSizeBudget \<Rightarrow> bool" where
  "budget_ok b \<longleftrightarrow> validate_at (tb_budget b) (tb_source b) = [] \<and>
     length (tb_source b) \<le> MAX_BUDGET_SOURCE_CHARS \<and> list_all (\<lambda>c. \<not> is_control c) (tb_source b)"

lemma platform_kept:
  "list_ex (\<lambda>seen. tb_platform seen = p) kept \<longleftrightarrow> p \<in> tb_platform ` set kept"
  by (induction kept) auto

lemma keep_budgets_ok:
  assumes "list_all budget_ok kept" and "distinct (map tb_platform kept)"
  shows "list_all budget_ok (keep_budgets kept bs) \<and> distinct (map tb_platform (keep_budgets kept bs))"
  using assms
proof (induction kept bs rule: keep_budgets.induct)
  case (2 kept b bs)
  show ?case
    using 2 budget_source_short[of "tb_source b"]
    by (simp add: Let_def budget_ok_def platform_kept)
qed auto

lemma keep_budgets_prefix: "\<exists>more_b. keep_budgets kept bs = kept @ more_b"
  by (induction kept bs rule: keep_budgets.induct) (auto simp: Let_def)

lemma keep_budgets_platforms:
  "tb_platform ` set (keep_budgets kept bs) =
   tb_platform ` set kept \<union>
   tb_platform ` {b \<in> set bs. validate_at (tb_budget b) (budget_source (tb_source b)) = []}"
proof (induction kept bs rule: keep_budgets.induct)
  case (2 kept b bs)
  show ?case
  proof (cases "validate_at (tb_budget b) (budget_source (tb_source b)) = []")
    case True
    then show ?thesis
      using 2 by (auto simp: Let_def platform_kept)
  next
    case False
    then show ?thesis using 2 by (auto simp: Let_def)
  qed
qed simp

text \<open>
  A budget list passes \<open>validate_at\<close> exactly when it has at most twenty rules with
  distinct, well-formed kinds, each with at least one limit and every limit in range.
\<close>

definition rule_in_range :: "SizeBudgetRule \<Rightarrow> bool" where
  "rule_in_range r \<longleftrightarrow> valid_budget_kind (br_kind r) \<and> has_limit r \<and>
     (\<forall>n. br_max_bytes r = Some n \<longrightarrow> 0 < n) \<and>
     (\<forall>n. br_max_increase_bytes r = Some n \<longrightarrow> 0 \<le> n) \<and>
     (\<forall>p. br_max_increase_percent r = Some p \<longrightarrow> (\<exists>q. p = Finite q \<and> 0 \<le> q))"

lemma rule_errors_Nil:
  assumes "valid_budget_kind (br_kind r)"
  shows "rule_errors field seen r = [] \<longleftrightarrow> br_kind r \<notin> seen \<and> rule_in_range r"
proof -
  have "is_some_and (\<lambda>p. \<not> f64_is_finite p \<or> f64_less p (Finite 0)) x \<longleftrightarrow>
        \<not> (\<forall>p. x = Some p \<longrightarrow> (\<exists>q. p = Finite q \<and> 0 \<le> q))" for x
  proof (cases x)
    case (Some p)
    then show ?thesis by (cases p) (auto simp: is_some_and_def)
  qed (simp add: is_some_and_def)
  moreover have "is_some_and (\<lambda>b. b \<le> 0) x \<longleftrightarrow> \<not> (\<forall>n. x = Some n \<longrightarrow> 0 < n)" for x :: "int option"
    by (cases x) (auto simp: is_some_and_def)
  moreover have "is_some_and (\<lambda>b. b < 0) x \<longleftrightarrow> \<not> (\<forall>n. x = Some n \<longrightarrow> 0 \<le> n)" for x :: "int option"
    by (cases x) (auto simp: is_some_and_def)
  ultimately show ?thesis
    using assms by (simp add: rule_errors_def rule_in_range_def Let_def)
qed

lemma rules_errors_Nil:
  "rules_errors field seen rules = [] \<longleftrightarrow>
   list_all rule_in_range rules \<and> distinct (map br_kind rules) \<and> seen \<inter> br_kind ` set rules = {}"
proof (induction rules arbitrary: seen)
  case (Cons r rules)
  show ?case
  proof (cases "valid_budget_kind (br_kind r)")
    case True
    then show ?thesis by (auto simp: rule_errors_Nil Cons.IH)
  next
    case False
    then show ?thesis by (simp add: rule_in_range_def)
  qed
qed simp

text \<open>Size budgets are validated exactly: a budget is accepted if and only if it has at most
  twenty rules, their kinds are distinct and well formed, every rule sets a limit and every
  limit is in range.\<close>

theorem size_budget_valid_iff:
  "validate_at budget field = [] \<longleftrightarrow>
     length (sb_rules budget) \<le> 20 \<and> distinct (map br_kind (sb_rules budget)) \<and>
     list_all rule_in_range (sb_rules budget)"
  by (auto simp: validate_at_def rules_errors_Nil)

text \<open>What the daemon keeps of the budgets a runner sends is valid, has a short single-line
  source, at most one budget per platform, and covers every platform for which the runner
  sent a valid one.\<close>

theorem checked_budgets_sound:
  "(let kept = checked_file_size_budgets budgets in
     list_all (\<lambda>b. validate_at (tb_budget b) (tb_source b) = [] \<and>
        length (tb_source b) \<le> 128 \<and> list_all (\<lambda>c. \<not> is_control c) (tb_source b)) kept \<and>
     distinct (map tb_platform kept) \<and>
     tb_platform ` set kept =
       tb_platform ` {b \<in> set budgets. validate_at (tb_budget b) (budget_source (tb_source b)) = []})"
  using keep_budgets_ok[of "[]" budgets] keep_budgets_platforms[of "[]" budgets]
  by (simp add: checked_file_size_budgets_def Let_def budget_ok_def[abs_def] MAX_BUDGET_SOURCE_CHARS_def)

text \<open>Label normalisation is canonical: its result is sorted, free of duplicates, within the
  limits, made of lower-case label characters only, and normalising it again changes nothing.\<close>

theorem runner_labels_canonical:
  assumes "normalize_runner_labels labels = Inr ls"
  shows "sorted ls \<and> distinct ls \<and> length ls \<le> 32 \<and>
         list_all (\<lambda>l. 1 \<le> length l \<and> length l \<le> 64 \<and> list_all label_char l) ls \<and>
         normalize_runner_labels ls = Inr ls"
  using normalized_labels_canonical[OF assms]
  by (auto simp: valid_label_def[abs_def] MAX_RUNNER_LABELS_def MAX_RUNNER_LABEL_LENGTH_def list_all_iff
      Suc_le_eq)

theorem runner_labels_canonical_witness:
  "normalize_runner_labels [''Xcode-16'', '' macos '', ''MACOS''] = Inr [''macos'', ''xcode-16''] \<and>
   normalize_runner_labels [''macos'', ''xcode-16''] = Inr [''macos'', ''xcode-16'']"
proof -
  have "normalize_runner_labels [''Xcode-16'', '' macos '', ''MACOS''] = Inr [''macos'', ''xcode-16'']"
    by code_simp
  with runner_labels_canonical[OF this] show ?thesis by simp
qed

end
