(* ===== verification/Build_Store.thy ===== *)
theory Build_Store
  imports Project_Rbac Trigger_Config Runner_Labels
begin

text \<open>
  The build tables of the daemon and the operations of \<^verbatim>\<open>crates/oored/src/builds.rs\<close>
  that change them: the optimistic status transition, the insert with its
  superseding rule and retry loop, cancellation and the approval gate.

  A table is a list of rows in insertion order. The \<open>status\<close> column is typed
  by its CHECK constraint, so the parse of a stored status cannot fail. The random
  primary key of an event row is represented by the row's position. Every statement
  sees the database as it is at that moment; a handler that reads first and writes
  later is split at that point, so that other steps may come in between. A failing
  SQLite statement aborts the handler with 500 before anything is committed and
  is not a separate branch.
\<close>

subsection \<open>Rows\<close>

text \<open>The parts of the JSON snapshot the control plane itself reads.\<close>

record config_snapshot =
  cs_repository_id :: "string option"
  cs_runs_on :: "string list"
  cs_timeout_secs :: "int option"
  cs_workflow :: "string option"
  cs_retry_steps :: "string list option"
  cs_file_size_budgets :: "TargetSizeBudget list option"

record build =
  b_id :: string
  b_project_id :: string
  b_pipeline_id :: string
  b_build_number :: int
  b_status :: BuildStatus
  b_trigger_type :: string
  b_trigger_actor :: "string option"
  b_trigger_event :: "string option"
  b_trigger_ref :: "string option"
  b_commit_sha :: "string option"
  b_branch :: "string option"
  b_changelog :: "string option"
  b_snapshot :: config_snapshot
  b_webhook_id :: "string option"
  b_source_build_id :: "string option"
  b_runner_id :: "string option"
  b_ran_on_runner_id :: "string option"
  b_signing_token_hash :: "string option"
  b_step_results :: "string list option"
  b_exit_code :: "int option"
  b_approval_state :: "BuildApprovalState option"
  b_approval_requested_at :: "int option"
  b_approval_decided_by :: "string option"
  b_approval_decided_at :: "int option"
  b_approval_reason :: "string option"
  b_expired_from :: "BuildStatus option"
  b_queued_at :: int
  b_started_at :: "int option"
  b_finished_at :: "int option"
  b_created_at :: int
  b_updated_at :: int

record build_event =
  be_build_id :: string
  be_from_status :: "BuildStatus option"
  be_to_status :: BuildStatus
  be_actor :: "string option"
  be_reason :: "string option"
  be_created_at :: int

text \<open>Host utilisation of the latest heartbeat that carried metrics.\<close>

record RunnerMetrics =
  rm_cpu_percent :: f64
  rm_memory_used_bytes :: nat
  rm_memory_total_bytes :: nat
  rm_disk_free_bytes :: nat
  rm_disk_total_bytes :: nat
  rm_cache_bytes :: "nat option"
  rm_collected_at :: "int option"

record runner =
  r_id :: string
  r_name :: string
  r_token_hash :: string
  r_status :: RunnerStatus
  r_capabilities :: capabilities
  r_metrics :: "RunnerMetrics option"
  r_labels :: "string list"
  r_custom_labels :: "string list"
  r_last_heartbeat_at :: "int option"
  r_registered_by :: "string option"
  r_cache_purge_requested_at :: "int option"
  r_max_concurrent_builds :: int
  r_updated_at :: int

record pipeline =
  pl_id :: string
  pl_project_id :: string
  pl_max_concurrent :: "int option"
  pl_cancel_previous :: bool
  pl_timeout_minutes :: int
  pl_approval :: ApprovalPolicy

record project =
  p_id :: string
  p_repository_id :: "string option"
  p_default_branch :: "string option"

text \<open>An \<open>integration_repositories\<close> row joined with its installation and integration.\<close>

record source_repo =
  sr_id :: string
  sr_integration_id :: string
  sr_provider :: ScmProvider
  sr_full_name :: string

record incident =
  in_key :: string
  in_open :: bool
  in_severity :: string
  in_reason :: string
  in_resource_kind :: string
  in_resource_id :: string
  in_repair_url :: string
  in_occurrence_count :: int

text \<open>A published \<open>BuildStateEvent\<close> and an audit log row.\<close>

record state_event =
  se_build_id :: string
  se_from_status :: "string option"
  se_to_status :: string
  se_actor :: "string option"
  se_reason :: "string option"
  se_timestamp :: int

record runner_event =
  re_runner_id :: string
  re_runner_name :: string
  re_from_status :: string
  re_to_status :: string
  re_timestamp :: int

record audit_row =
  al_actor_id :: "string option"
  al_action :: string
  al_resource_type :: string
  al_resource_id :: "string option"
  al_details :: "(string \<times> string option) list"

record webhook_claim =
  wc_webhook_id :: string
  wc_pipeline_id :: string
  wc_workflow :: string
  wc_build_id :: string

text \<open>
  The daemon's database and its event channels. \<open>transition_lease\<close> is the row of
  \<open>runner_service_transition_lease\<close>, token and expiry.
\<close>

record daemon =
  builds :: "build list"
  build_events :: "build_event list"
  runners :: "runner list"
  pipelines :: "pipeline list"
  projects :: "project list"
  project_members :: "project_member list"
  repositories :: "source_repo list"
  incidents :: "incident list"
  direct_macos_runner_paused :: "int option"
  webhook_build_claims :: "webhook_claim list"
  audit_logs :: "audit_row list"
  published :: "state_event list"
  runner_published :: "runner_event list"
  transition_lease :: "(string \<times> int) option"

text \<open>A fresh instance.\<close>

definition empty_core :: daemon where
  "empty_core = \<lparr>builds = [], build_events = [], runners = [], pipelines = [], projects = [],
     project_members = [], repositories = [], incidents = [], direct_macos_runner_paused = None,
     webhook_build_claims = [], audit_logs = [], published = [], runner_published = [], transition_lease = None\<rparr>"

abbreviation terminal_status :: "build \<Rightarrow> bool" where
  "terminal_status b \<equiv> build_is_terminal (b_status b)"

definition build_event_row ::
  "string \<Rightarrow> BuildStatus option \<Rightarrow> BuildStatus \<Rightarrow> string option \<Rightarrow> string option \<Rightarrow> int \<Rightarrow> build_event"
where
  "build_event_row bid frm to actor reason now =
     \<lparr>be_build_id = bid, be_from_status = frm, be_to_status = to, be_actor = actor,
      be_reason = reason, be_created_at = now\<rparr>"

definition find_build :: "daemon \<Rightarrow> string \<Rightarrow> build option" where
  "find_build db bid = fetch_optional (\<lambda>b. b_id b = bid) (builds db)"

definition publish_event :: "state_event \<Rightarrow> daemon \<Rightarrow> daemon" where
  "publish_event e db = db\<lparr>published := published db @ [e]\<rparr>"

definition write_audit_log ::
  "string option \<Rightarrow> string \<Rightarrow> string \<Rightarrow> string option \<Rightarrow> (string \<times> string option) list \<Rightarrow> daemon \<Rightarrow> daemon"
where
  "write_audit_log actor action kind rid details db =
     db\<lparr>audit_logs := audit_logs db @
        [\<lparr>al_actor_id = actor, al_action = action, al_resource_type = kind,
          al_resource_id = rid, al_details = details\<rparr>]\<rparr>"

subsection \<open>The optimistic status transition\<close>

text \<open>Results a runner reports with a status change.\<close>

record runner_results =
  rr_step_results :: "string list option"
  rr_exit_code :: "int option"
  rr_file_size_budgets :: "TargetSizeBudget list option"

text \<open>The read phase: load the build and check the transition against what was read.\<close>

definition check_transition :: "daemon \<Rightarrow> string \<Rightarrow> BuildStatus \<Rightarrow> BuildStatus api_result" where
  "check_transition db bid target =
     (case find_build db bid of
        None \<Rightarrow> Inl (ApiError NOT_FOUND ''not_found'' ''Build not found'')
      | Some b \<Rightarrow>
          if \<not> build_can_transition_to (b_status b) target
          then Inl (ApiError CONFLICT ''invalid_transition''
                 (''Cannot transition from '' @ build_status_to_string (b_status b) @ '' to '' @
                  build_status_to_string target))
          else Inr (b_status b))"

text \<open>The columns the guarded UPDATE sets.\<close>

definition transition_columns :: "int \<Rightarrow> BuildStatus \<Rightarrow> BuildStatus \<Rightarrow> build \<Rightarrow> build" where
  "transition_columns now current target b =
     b\<lparr>b_status := target,
       b_started_at := (if target = Running then Some now else b_started_at b),
       b_finished_at :=
         (if build_is_terminal target \<and> \<not> build_is_terminal current then Some now
          else b_finished_at b),
       b_runner_id :=
         (if build_is_terminal target \<or> target = Queued then None else b_runner_id b),
       b_signing_token_hash :=
         (if build_is_terminal target \<or> target = Queued then None else b_signing_token_hash b),
       b_updated_at := now\<rparr>"

definition store_results :: "runner_results \<Rightarrow> build \<Rightarrow> build" where
  "store_results rr b =
     (let b1 = b\<lparr>b_step_results := rr_step_results rr, b_exit_code := rr_exit_code rr\<rparr>
      in case rr_file_size_budgets rr of
           None \<Rightarrow> b1
         | Some budgets \<Rightarrow>
             b1\<lparr>b_snapshot := (b_snapshot b1)\<lparr>cs_file_size_budgets :=
                 (if budgets \<noteq> [] then Some budgets else None)\<rparr>\<rparr>)"

text \<open>
  The write phase, one transaction: the UPDATE guarded by the status that was
  read, the runner's results, the build event.
\<close>

definition commit_transition ::
  "int \<Rightarrow> string \<Rightarrow> BuildStatus \<Rightarrow> BuildStatus \<Rightarrow> string option \<Rightarrow> string option \<Rightarrow>
   runner_results option \<Rightarrow> daemon \<Rightarrow> daemon api_result" where
  "commit_transition now bid current target actor reason results db =
     (let guard = (\<lambda>b. b_id b = bid \<and> b_status b = current)
      in if rows_affected guard (builds db) = 0
         then Inl (ApiError CONFLICT ''concurrent_modification''
                ''Build status was modified concurrently'')
         else let rows1 = update_where guard (transition_columns now current target) (builds db);
                  rows2 = (case results of
                             None \<Rightarrow> rows1
                           | Some rr \<Rightarrow> update_where (\<lambda>b. b_id b = bid) (store_results rr) rows1)
              in Inr (db\<lparr>builds := rows2,
                    build_events := build_events db @
                      [build_event_row bid (Some current) target actor reason now]\<rparr>))"

definition transition_build_with_results ::
  "int \<Rightarrow> string \<Rightarrow> BuildStatus \<Rightarrow> string option \<Rightarrow> string option \<Rightarrow> runner_results option \<Rightarrow>
   daemon \<Rightarrow> daemon api_result" where
  "transition_build_with_results now bid target actor reason results db =
     and_then (check_transition db bid target)
       (\<lambda>current. commit_transition now bid current target actor reason results db)"

definition transition_build ::
  "int \<Rightarrow> string \<Rightarrow> BuildStatus \<Rightarrow> string option \<Rightarrow> string option \<Rightarrow> daemon \<Rightarrow> daemon api_result" where
  "transition_build now bid target actor reason db =
     transition_build_with_results now bid target actor reason None db"

subsection \<open>Creating a build\<close>

record build_insert_binds =
  bi_build_id :: string
  bi_project_id :: string
  bi_pipeline_id :: string
  bi_actor :: "string option"
  bi_event_type :: "string option"
  bi_trigger_ref :: "string option"
  bi_commit_sha :: "string option"
  bi_branch :: "string option"
  bi_changelog :: "string option"
  bi_config_snapshot :: config_snapshot
  bi_webhook_id :: "string option"
  bi_now :: int
  bi_trigger_type :: string
  bi_source_build_id :: "string option"
  bi_cancel_previous :: bool
  bi_approval_required :: bool

text \<open>SQL equality of two nullable values: false when either is NULL.\<close>

definition sql_eq :: "'a option \<Rightarrow> 'a option \<Rightarrow> bool" where
  "sql_eq x y \<longleftrightarrow> x \<noteq> None \<and> x = y"

definition next_build_number :: "string \<Rightarrow> build list \<Rightarrow> int" where
  "next_build_number pid rows =
     (let ns = map b_build_number (filter (\<lambda>b. b_project_id b = pid) rows)
      in (if ns = [] then 0 else Max (set ns)) + 1)"

definition inserted_row :: "build_insert_binds \<Rightarrow> build list \<Rightarrow> build" where
  "inserted_row b rows =
     \<lparr>b_id = bi_build_id b, b_project_id = bi_project_id b, b_pipeline_id = bi_pipeline_id b,
      b_build_number = next_build_number (bi_project_id b) rows,
      b_status = Queued, b_trigger_type = bi_trigger_type b, b_trigger_actor = bi_actor b,
      b_trigger_event = bi_event_type b, b_trigger_ref = bi_trigger_ref b,
      b_commit_sha = bi_commit_sha b, b_branch = bi_branch b, b_changelog = bi_changelog b,
      b_snapshot = bi_config_snapshot b, b_webhook_id = bi_webhook_id b,
      b_source_build_id = bi_source_build_id b,
      b_runner_id = None, b_ran_on_runner_id = None, b_signing_token_hash = None,
      b_step_results = None, b_exit_code = None,
      b_approval_state = (if bi_approval_required b then Some Approval_Pending else None),
      b_approval_requested_at = (if bi_approval_required b then Some (bi_now b) else None),
      b_approval_decided_by = None, b_approval_decided_at = None, b_approval_reason = None,
      b_expired_from = None, b_queued_at = bi_now b, b_started_at = None, b_finished_at = None,
      b_created_at = bi_now b, b_updated_at = bi_now b\<rparr>"

definition insert_allowed :: "build_insert_binds \<Rightarrow> daemon \<Rightarrow> bool" where
  "insert_allowed b db \<longleftrightarrow>
     exists_row (\<lambda>p. p_id p = bi_project_id b \<and>
         exists_row (\<lambda>r. p_repository_id p = Some (sr_id r)) (repositories db) \<and>
         sql_eq (p_repository_id p) (cs_repository_id (bi_config_snapshot b))) (projects db) \<and>
     \<not> exists_row (\<lambda>other. sql_eq (b_source_build_id other) (bi_source_build_id b) \<and>
         \<not> build_is_terminal (b_status other) \<and>
         list_ex (\<lambda>step. step \<in> set (unwrap_or [] (cs_retry_steps (bi_config_snapshot b))))
           (unwrap_or [] (cs_retry_steps (b_snapshot other)))) (builds db)"

text \<open>Builds the new one supersedes: same pipeline, branch and source, still unfinished.\<close>

definition superseded :: "build_insert_binds \<Rightarrow> string \<Rightarrow> int \<Rightarrow> build \<Rightarrow> bool" where
  "superseded b branch new_number o_b \<longleftrightarrow>
     b_pipeline_id o_b = bi_pipeline_id b \<and> b_branch o_b = Some branch \<and>
     b_id o_b \<noteq> bi_build_id b \<and> b_build_number o_b < new_number \<and>
     sql_eq (cs_repository_id (b_snapshot o_b)) (cs_repository_id (bi_config_snapshot b)) \<and>
     \<not> build_is_terminal (b_status o_b)"

definition cancel_columns :: "int \<Rightarrow> build \<Rightarrow> build" where
  "cancel_columns now b = b\<lparr>b_status := Canceled, b_runner_id := None, b_signing_token_hash := None,
     b_finished_at := Some now, b_updated_at := now\<rparr>"

definition cancel_rows :: "int \<Rightarrow> (build \<Rightarrow> bool) \<Rightarrow> string option \<Rightarrow> string \<Rightarrow> daemon \<Rightarrow> daemon" where
  "cancel_rows now sel actor reason db =
     db\<lparr>builds := update_where sel (cancel_columns now) (builds db),
        build_events := build_events db @
          map (\<lambda>b. build_event_row (b_id b) (Some (b_status b)) Canceled actor (Some reason) now)
            (filter sel (builds db))\<rparr>"

text \<open>With \<open>cancel_previous\<close> and a branch, the new row supersedes older builds.\<close>

definition supersede :: "build_insert_binds \<Rightarrow> build \<Rightarrow> daemon \<Rightarrow> daemon" where
  "supersede b row db =
     (if bi_cancel_previous b
      then (case bi_branch b of
              None \<Rightarrow> db
            | Some branch \<Rightarrow>
                if branch = [] then db
                else cancel_rows (bi_now b) (superseded b branch (b_build_number row)) (bi_actor b)
                       ''superseded by new build'' db)
      else db)"

text \<open>
  The errors SQLite answers with, as far as the retry loop tells them apart. A
  taken primary key is \<open>SQLITE_CONSTRAINT_PRIMARYKEY\<close> (1555), which is neither of
  the two retryable codes.
\<close>

datatype sqlite_error = Sqlite_Busy | Sqlite_Unique | Sqlite_Other

text \<open>One insert transaction; \<open>Inr (False, _)\<close> is the rolled-back one.\<close>

definition execute_build_insert ::
  "build_insert_binds \<Rightarrow> daemon \<Rightarrow> sqlite_error + (bool \<times> daemon)" where
  "execute_build_insert b db =
     (if \<not> insert_allowed b db then Inr (False, db)
      else if exists_row (\<lambda>r. b_id r = bi_build_id b) (builds db) then Inl Sqlite_Other
      else
        let row = inserted_row b (builds db);
            db1 = db\<lparr>builds := builds db @ [row]\<rparr>;
            workflow = unwrap_or [] (cs_workflow (bi_config_snapshot b))
        in case bi_webhook_id b of
             Some wid \<Rightarrow>
               if exists_row (\<lambda>c. wc_webhook_id c = wid \<and> wc_pipeline_id c = bi_pipeline_id b \<and>
                    wc_workflow c = workflow) (webhook_build_claims db)
               then Inr (False, db)
               else Inr (True, supersede b row (db1\<lparr>webhook_build_claims := webhook_build_claims db @
                      [\<lparr>wc_webhook_id = wid, wc_pipeline_id = bi_pipeline_id b,
                        wc_workflow = workflow, wc_build_id = bi_build_id b\<rparr>]\<rparr>))
           | None \<Rightarrow> Inr (True, supersede b row db1))"

definition BUILD_INSERT_MAX_RETRIES :: nat where
  "BUILD_INSERT_MAX_RETRIES = 10"

definition is_retryable :: "sqlite_error \<Rightarrow> bool" where
  "is_retryable e \<longleftrightarrow> e = Sqlite_Busy \<or> e = Sqlite_Unique"

text \<open>
  The retry loop from attempt \<open>attempt\<close> on. \<open>interrupt n\<close> is the error SQLite itself
  gives attempt \<open>n\<close>, if any, and \<open>seen n\<close> the database that attempt runs on: other
  steps may come in while the loop sleeps.
\<close>

function insert_attempts ::
  "(nat \<Rightarrow> sqlite_error option) \<Rightarrow> (nat \<Rightarrow> daemon) \<Rightarrow> build_insert_binds \<Rightarrow> nat \<Rightarrow>
   (bool \<times> daemon) api_result" where
  "insert_attempts interrupt seen b attempt =
     (case (case interrupt attempt of
              Some e \<Rightarrow> Inl e
            | None \<Rightarrow> execute_build_insert b (seen attempt)) of
        Inr r \<Rightarrow> Inr r
      | Inl e \<Rightarrow>
          if is_retryable e \<and> attempt < BUILD_INSERT_MAX_RETRIES
          then insert_attempts interrupt seen b (attempt + 1)
          else Inl (ApiError INTERNAL_SERVER_ERROR ''store_error'' ''Failed to create build''))"
  by pat_completeness auto
termination
  by (relation "measure (\<lambda>(_, _, _, attempt). BUILD_INSERT_MAX_RETRIES - attempt)") auto

declare insert_attempts.simps [simp del]

definition insert_build_with_retry ::
  "(nat \<Rightarrow> sqlite_error option) \<Rightarrow> (nat \<Rightarrow> daemon) \<Rightarrow> build_insert_binds \<Rightarrow>
   (bool \<times> daemon) api_result" where
  "insert_build_with_retry interrupt seen b = insert_attempts interrupt seen b 1"

record BuildApproval =
  ba_state :: BuildApprovalState
  ba_requested_at :: int
  ba_decided_by :: "string option"
  ba_decided_at :: "int option"
  ba_reason :: "string option"

definition pending_approval :: "bool \<Rightarrow> int \<Rightarrow> BuildApproval option" where
  "pending_approval approval_required now =
     (if approval_required
      then Some \<lparr>ba_state = Approval_Pending, ba_requested_at = now, ba_decided_by = None,
                 ba_decided_at = None, ba_reason = None\<rparr>
      else None)"

definition initial_event_reason :: "string \<Rightarrow> bool \<Rightarrow> string" where
  "initial_event_reason reason approval_required =
     (if approval_required then reason @ ''; waiting for approval'' else reason)"

text \<open>The first event of a new build, a statement of its own after the insert.\<close>

definition record_initial_event ::
  "int \<Rightarrow> string \<Rightarrow> string option \<Rightarrow> string \<Rightarrow> daemon \<Rightarrow> daemon" where
  "record_initial_event now bid actor reason db =
     db\<lparr>build_events := build_events db @ [build_event_row bid None Queued actor (Some reason) now]\<rparr>"

definition normalize_optional :: "string option \<Rightarrow> string option" where
  "normalize_optional value =
     (case value of
        None \<Rightarrow> None
      | Some raw \<Rightarrow> let trimmed = trim raw in if trimmed = [] then None else Some trimmed)"

text \<open>The timeout column as read from a \<open>pipelines\<close> row (a \<open>u32\<close>, zero meaning unset).\<close>

definition DEFAULT_BUILD_TIMEOUT_MINUTES :: int where
  "DEFAULT_BUILD_TIMEOUT_MINUTES = 60"

definition gate_timeout_minutes :: "int option \<Rightarrow> int" where
  "gate_timeout_minutes minutes =
     (case minutes of
        None \<Rightarrow> DEFAULT_BUILD_TIMEOUT_MINUTES
      | Some m \<Rightarrow> if 0 < m \<and> m < 2 ^ 32 then m else DEFAULT_BUILD_TIMEOUT_MINUTES)"

text \<open>\<open>validate_selected_platforms\<close>: the requested platforms in the configured order.\<close>

definition validate_selected_platforms ::
  "BuildPlatform list option \<Rightarrow> BuildPlatform list \<Rightarrow> BuildPlatform list option api_result" where
  "validate_selected_platforms requested configured =
     (case requested of
        None \<Rightarrow> Inr None
      | Some req \<Rightarrow>
          if req = [] then
            Inl (ApiError BAD_REQUEST ''invalid_input'' ''Select at least one platform for this build.'')
          else
            let selected = filter (\<lambda>platform. platform \<in> set req) configured in
            if \<not> distinct req \<or> length selected \<noteq> length req
            then Inl (ApiError BAD_REQUEST ''invalid_input''
                   ''Selected platforms must be unique and configured on this pipeline.'')
            else Inr (Some selected))"

subsection \<open>Cancellation and approval\<close>

definition cancel_build :: "int \<Rightarrow> SessionInfo \<Rightarrow> string \<Rightarrow> daemon \<Rightarrow> (build \<times> daemon) api_result" where
  "cancel_build now auth bid db =
     and_then (ok_or (ApiError NOT_FOUND ''not_found'' ''Build not found'')
                 (map_option b_project_id (find_build db bid)))
      (\<lambda>project_id.
     and_then (resolve_effective_project_role (project_members db) (au_user_id auth) (au_role auth)
                 project_id (au_auth_source auth))
      (\<lambda>effective.
     and_then (require_project_permission effective Perm_CancelBuild)
      (\<lambda>_.
     and_then (transition_build now bid Canceled (Some (au_email auth)) (Some ''canceled by user'') db)
      (\<lambda>db1.
     and_then (ok_or (ApiError INTERNAL_SERVER_ERROR ''store_error'' ''Failed to reload build'')
                 (find_build db1 bid))
      (\<lambda>updated.
         let db2 = write_audit_log (Some (au_user_id auth)) ''build_canceled'' ''build'' (Some bid)
                     [(''canceled_by'', Some (au_email auth)),
                      (''from_status'', Some (build_status_to_string (b_status updated)))] db1
         in Inr (updated, publish_event
              \<lparr>se_build_id = bid, se_from_status = None, se_to_status = ''canceled'',
               se_actor = Some (au_email auth), se_reason = Some ''canceled by user'',
               se_timestamp = now\<rparr> db2))))))"

definition MAX_APPROVAL_REASON_LENGTH :: nat where
  "MAX_APPROVAL_REASON_LENGTH = 1000"

definition approval_guard :: "string \<Rightarrow> build \<Rightarrow> bool" where
  "approval_guard bid b \<longleftrightarrow>
     b_id b = bid \<and> b_status b = Queued \<and> b_approval_state b = Some Approval_Pending"

definition approval_columns ::
  "int \<Rightarrow> BuildStatus \<Rightarrow> BuildApprovalState \<Rightarrow> string \<Rightarrow> string option \<Rightarrow> build \<Rightarrow> build" where
  "approval_columns now to_status decision actor reason b =
     b\<lparr>b_status := to_status, b_approval_state := Some decision,
       b_approval_decided_by := Some actor, b_approval_decided_at := Some now,
       b_approval_reason := reason, b_updated_at := now,
       b_finished_at := (if to_status = Canceled then Some now else b_finished_at b)\<rparr>"

definition record_build_approval ::
  "string \<Rightarrow> string \<Rightarrow> BuildApprovalState \<Rightarrow> string option \<Rightarrow> int \<Rightarrow> daemon \<Rightarrow>
   (BuildStatus \<times> string \<times> daemon) api_result" where
  "record_build_approval bid actor decision reason now db =
     and_then (case decision of
                 Approval_Approved \<Rightarrow> Inr (Queued, ''approved'')
               | Approval_Rejected \<Rightarrow> Inr (Canceled, ''rejected'')
               | Approval_Pending \<Rightarrow>
                   Inl (ApiError BAD_REQUEST ''invalid_input'' ''Pending is not an approval decision''))
      (\<lambda>(to_status, verb).
         let event_reason = (case reason of
                               Some r \<Rightarrow> verb @ '' by '' @ actor @ '': '' @ r
                             | None \<Rightarrow> verb @ '' by '' @ actor)
         in if rows_affected (approval_guard bid) (builds db) = 0
            then Inl (ApiError CONFLICT ''not_awaiting_approval''
                   ''This build is not waiting for approval'')
            else Inr (to_status, event_reason,
                   db\<lparr>builds := update_where (approval_guard bid)
                        (approval_columns now to_status decision actor reason) (builds db),
                      build_events := build_events db @
                        [build_event_row bid (Some Queued) to_status (Some actor)
                           (Some event_reason) now]\<rparr>))"

definition decide_build_approval ::
  "int \<Rightarrow> SessionInfo \<Rightarrow> string \<Rightarrow> string option \<Rightarrow> BuildApprovalState \<Rightarrow> daemon \<Rightarrow>
   daemon api_result" where
  "decide_build_approval now auth bid body_reason decision db =
     (let reason = normalize_optional body_reason in
      if (case reason of None \<Rightarrow> False | Some r \<Rightarrow> length r > MAX_APPROVAL_REASON_LENGTH)
      then Inl (ApiError BAD_REQUEST ''invalid_input'' ''Reason must be 1000 characters or fewer'')
      else
        and_then (ok_or (ApiError NOT_FOUND ''not_found'' ''Build not found'')
                    (map_option b_project_id (find_build db bid)))
         (\<lambda>project_id.
        and_then (resolve_effective_project_role (project_members db) (au_user_id auth) (au_role auth)
                    project_id (au_auth_source auth))
         (\<lambda>effective.
        and_then (require_project_permission effective Perm_ApproveBuild)
         (\<lambda>_.
        and_then (record_build_approval bid (au_email auth) decision reason now db)
         (\<lambda>(to_status, event_reason, db1).
            Inr (publish_event
              \<lparr>se_build_id = bid, se_from_status = Some ''queued'',
               se_to_status = build_status_to_string to_status,
               se_actor = Some (au_email auth), se_reason = Some event_reason, se_timestamp = now\<rparr>
              (write_audit_log (Some (au_user_id auth))
                 (if decision = Approval_Rejected then ''build_rejected'' else ''build_approved'')
                 ''build'' (Some bid)
                 [(''project_id'', Some project_id), (''decided_by'', Some (au_email auth)),
                  (''reason'', reason)]
                 db1)))))))"

end
