(* ===== verification/Runner_Claims.thy ===== *)
theory Runner_Claims
  imports Build_Store "HOL-Library.Product_Lexorder"
begin

text \<open>
  The runner side of the daemon, \<^verbatim>\<open>crates/oored/src/runners.rs\<close>: authentication of
  a runner by its token, heartbeats, the claim of the next build, status reports and
  the administration of runners.

  Token hashing (SHA-256), the Casbin enforcer and URL encoding are third-party code:
  \<open>hash_token\<close>, \<open>enforce\<close> and \<open>url_encode\<close> are parameters. Random tokens and identifiers
  are arguments. One \<open>now\<close> stands for the clock readings of a handler.
\<close>

definition check_permission ::
  "(string \<Rightarrow> string \<Rightarrow> string \<Rightarrow> bool) \<Rightarrow> string \<Rightarrow> string \<Rightarrow> string \<Rightarrow> unit api_result" where
  "check_permission enforce role resource action =
     (if enforce role resource action then Inr ()
      else Inl (ApiError FORBIDDEN ''permission_denied''
             ''You do not have permission to perform this action''))"

subsection \<open>Runner identity and the signing grant\<close>

record RunnerAuth =
  ra_runner_id :: string
  ra_runner_name :: string

definition runner_auth :: "(string \<Rightarrow> string) \<Rightarrow> daemon \<Rightarrow> string option \<Rightarrow> RunnerAuth api_result" where
  "runner_auth hash_token db bearer =
     and_then (ok_or (ApiError UNAUTHORIZED ''missing_auth'' ''Authorization header required'') bearer)
      (\<lambda>token.
     and_then (ok_or (ApiError UNAUTHORIZED ''invalid_token'' ''Invalid runner token'')
                 (fetch_optional (\<lambda>r. r_token_hash r = hash_token token) (runners db)))
      (\<lambda>r. Inr \<lparr>ra_runner_id = r_id r, ra_runner_name = r_name r\<rparr>))"

definition require_active_job_signing_grant ::
  "(string \<Rightarrow> string) \<Rightarrow> daemon \<Rightarrow> string \<Rightarrow> string \<Rightarrow> string option \<Rightarrow> string api_result" where
  "require_active_job_signing_grant hash_token db job_id runner_id header =
     and_then (ok_or (ApiError NOT_FOUND ''not_found'' ''Build not found'') (find_build db job_id))
      (\<lambda>b. if b_status b \<noteq> Assigned \<and> b_status b \<noteq> Running
           then Inl (ApiError CONFLICT ''job_not_active''
                  ''Signing material is available only while the job is active'')
           else if b_runner_id b \<noteq> Some runner_id
           then Inl (ApiError FORBIDDEN ''runner_mismatch'' ''This build is not assigned to your runner'')
           else
             and_then (ok_or (ApiError UNAUTHORIZED ''signing_grant_required''
                           ''A job-scoped signing grant is required'')
                         (case header of None \<Rightarrow> None | Some v \<Rightarrow> if v = [] then None else Some v))
              (\<lambda>supplied.
                 if b_signing_token_hash b \<noteq> Some (hash_token supplied)
                 then Inl (ApiError UNAUTHORIZED ''invalid_signing_grant''
                        ''The job-scoped signing grant is invalid or expired'')
                 else Inr (b_pipeline_id b)))"

definition runner_mismatch :: api_error where
  "runner_mismatch = ApiError FORBIDDEN ''runner_mismatch''
     ''Runner token does not match the requested runner ID''"

definition runner_actor :: "string \<Rightarrow> string" where
  "runner_actor rid = ''runner:'' @ rid"

subsection \<open>Incidents\<close>

record incident_input =
  ii_key :: string
  ii_severity :: string
  ii_reason :: string
  ii_resource_kind :: string
  ii_resource_id :: string
  ii_repair_url :: string

text \<open>\<open>INSERT ... ON CONFLICT(deduplication_key) DO UPDATE\<close>: one row per key.\<close>

definition open_incident :: "incident_input \<Rightarrow> daemon \<Rightarrow> daemon" where
  "open_incident i db =
     (if exists_row (\<lambda>x. in_key x = ii_key i) (incidents db)
      then db\<lparr>incidents := update_where (\<lambda>x. in_key x = ii_key i)
             (\<lambda>x. x\<lparr>in_open := True, in_severity := ii_severity i, in_reason := ii_reason i,
                   in_repair_url := ii_repair_url i,
                   in_occurrence_count := in_occurrence_count x + 1\<rparr>) (incidents db)\<rparr>
      else db\<lparr>incidents := incidents db @
             [\<lparr>in_key = ii_key i, in_open = True, in_severity = ii_severity i, in_reason = ii_reason i,
               in_resource_kind = ii_resource_kind i, in_resource_id = ii_resource_id i,
               in_repair_url = ii_repair_url i, in_occurrence_count = 1\<rparr>]\<rparr>)"

definition resolve_incident :: "string \<Rightarrow> daemon \<Rightarrow> daemon" where
  "resolve_incident key db =
     db\<lparr>incidents := update_where (\<lambda>x. in_key x = key \<and> in_open x) (\<lambda>x. x\<lparr>in_open := False\<rparr>)
          (incidents db)\<rparr>"

subsection \<open>Registration and heartbeat\<close>

definition register_runner ::
  "(string \<Rightarrow> string) \<Rightarrow> (string \<Rightarrow> string \<Rightarrow> string \<Rightarrow> bool) \<Rightarrow> int \<Rightarrow> SessionInfo \<Rightarrow> string \<Rightarrow> string \<Rightarrow>
   string \<Rightarrow> string list \<Rightarrow> capabilities \<Rightarrow> daemon \<Rightarrow> (runner \<times> daemon) api_result" where
  "register_runner hash_token enforce now auth rid token raw_name req_labels caps db =
     and_then (check_permission enforce (au_role auth) ''runners'' ''write'')
      (\<lambda>_. let name = trim raw_name in
           if name = [] \<or> length name > 255
           then Inl (ApiError BAD_REQUEST ''invalid_name''
                  ''Runner name must be between 1 and 255 characters'')
           else (case normalize_runner_labels req_labels of
                   Inl e \<Rightarrow> Inl (ApiError BAD_REQUEST ''invalid_labels'' e)
                 | Inr custom \<Rightarrow>
                     if exists_row (\<lambda>r. r_id r = rid \<or> r_token_hash r = hash_token token) (runners db)
                     then Inl (ApiError INTERNAL_SERVER_ERROR ''store_error'' ''Failed to register runner'')
                     else
                       let row = \<lparr>r_id = rid, r_name = name, r_token_hash = hash_token token,
                             r_status = Offline, r_capabilities = caps, r_metrics = None,
                             r_labels = effective_runner_labels caps custom, r_custom_labels = custom,
                             r_last_heartbeat_at = None, r_registered_by = Some (au_user_id auth),
                             r_cache_purge_requested_at = None, r_max_concurrent_builds = 1,
                             r_updated_at = now\<rparr>
                       in Inr (row, write_audit_log (Some (au_user_id auth)) ''runner_registered'' ''runner''
                            (Some rid)
                            [(''runner_id'', Some rid), (''runner_name'', Some name),
                             (''registered_by'', Some (au_email auth))]
                            (db\<lparr>runners := runners db @ [row]\<rparr>))))"

record heartbeat_request =
  hb_status :: string
  hb_capabilities :: capabilities
  hb_metrics :: "RunnerMetrics option"

definition MAX_RUNNER_CONCURRENT_BUILDS :: int where
  "MAX_RUNNER_CONCURRENT_BUILDS = 8"

definition record_disk_pressure :: "string \<Rightarrow> RunnerDiskPressure option \<Rightarrow> daemon \<Rightarrow> daemon" where
  "record_disk_pressure rid pressure db =
     (case pressure of
        None \<Rightarrow> resolve_incident (''runner-disk:'' @ rid) db
      | Some p \<Rightarrow>
          open_incident
            \<lparr>ii_key = ''runner-disk:'' @ rid,
             ii_severity = (case p of Disk_Warning \<Rightarrow> ''warning'' | Disk_Critical \<Rightarrow> ''critical''),
             ii_reason = ''low_disk'', ii_resource_kind = ''runner'', ii_resource_id = rid,
             ii_repair_url = ''/settings/runners''\<rparr> db)"

definition settle_columns :: "int option \<Rightarrow> runner \<Rightarrow> runner" where
  "settle_columns purged_at r =
     r\<lparr>r_cache_purge_requested_at :=
         (case (r_cache_purge_requested_at r, purged_at) of
            (Some requested, Some purged) \<Rightarrow> if requested \<le> purged then None else Some requested
          | (requested, _) \<Rightarrow> requested)\<rparr>"

definition settle_cache_purge_request ::
  "string \<Rightarrow> int option \<Rightarrow> daemon \<Rightarrow> (int option \<times> daemon) api_result" where
  "settle_cache_purge_request rid purged_at db =
     (let db1 = db\<lparr>runners := update_where (\<lambda>r. r_id r = rid) (settle_columns purged_at) (runners db)\<rparr>
      in case fetch_optional (\<lambda>r. r_id r = rid) (runners db1) of
           None \<Rightarrow> Inl (ApiError INTERNAL_SERVER_ERROR ''store_error'' ''Failed to update runner'')
         | Some r \<Rightarrow> Inr (r_cache_purge_requested_at r, db1))"

definition heartbeat_columns :: "int \<Rightarrow> RunnerStatus \<Rightarrow> heartbeat_request \<Rightarrow> runner \<Rightarrow> runner" where
  "heartbeat_columns now status req r =
     (let r1 = r\<lparr>r_status := status, r_last_heartbeat_at := Some now, r_updated_at := now\<rparr>;
          r2 = (if cap_nonempty (hb_capabilities req)
                then r1\<lparr>r_capabilities := hb_capabilities req,
                       r_labels := effective_runner_labels (hb_capabilities req) (r_custom_labels r)\<rparr>
                else r1)
      in case hb_metrics req of
           None \<Rightarrow> r2
         | Some m \<Rightarrow> r2\<lparr>r_metrics := Some (m\<lparr>rm_collected_at := Some now\<rparr>)\<rparr>)"

definition runner_heartbeat ::
  "int \<Rightarrow> string \<Rightarrow> RunnerAuth \<Rightarrow> heartbeat_request \<Rightarrow> daemon \<Rightarrow>
   (int option \<times> int \<times> daemon) api_result" where
  "runner_heartbeat now rid auth req db =
     (if ra_runner_id auth \<noteq> rid then Inl runner_mismatch
      else
        case runner_status_from_str (hb_status req) of
          Inl _ \<Rightarrow> Inl (ApiError BAD_REQUEST ''invalid_status''
                     ''Status must be one of: online, offline, busy, draining'')
        | Inr status \<Rightarrow>
            and_then (ok_or (ApiError NOT_FOUND ''not_found'' ''Runner not found'')
                        (fetch_optional (\<lambda>r. r_id r = rid) (runners db)))
             (\<lambda>previous.
                let previous_pressure =
                      Option.bind (r_metrics previous) (\<lambda>m. runner_disk_pressure (rm_disk_free_bytes m));
                    db1 = db\<lparr>runners := update_where (\<lambda>r. r_id r = rid)
                            (heartbeat_columns now status req) (runners db)\<rparr>;
                    db2 = (case hb_metrics req of
                             None \<Rightarrow> db1
                           | Some m \<Rightarrow>
                               let pressure = runner_disk_pressure (rm_disk_free_bytes m) in
                               if pressure \<noteq> previous_pressure
                               then record_disk_pressure rid pressure db1 else db1)
                in and_then (settle_cache_purge_request rid
                               (cap_caches_purged_at (hb_capabilities req)) db2)
                    (\<lambda>(pending, db3).
                   and_then (ok_or (ApiError INTERNAL_SERVER_ERROR ''store_error''
                                      ''Failed to update runner'')
                               (fetch_optional (\<lambda>r. r_id r = rid) (runners db3)))
                    (\<lambda>r. Inr (pending,
                       max 1 (min (r_max_concurrent_builds r) MAX_RUNNER_CONCURRENT_BUILDS), db3)))))"

definition purge_runner_caches ::
  "(string \<Rightarrow> string \<Rightarrow> string \<Rightarrow> bool) \<Rightarrow> int \<Rightarrow> SessionInfo \<Rightarrow> string \<Rightarrow> daemon \<Rightarrow> daemon api_result"
where
  "purge_runner_caches enforce now auth rid db =
     and_then (check_permission enforce (au_role auth) ''runners'' ''write'')
      (\<lambda>_. if rows_affected (\<lambda>r. r_id r = rid) (runners db) = 0
           then Inl (ApiError NOT_FOUND ''not_found'' ''Runner not found'')
           else Inr (write_audit_log (Some (au_user_id auth)) ''runner_cache_purge_requested'' ''runner''
                  (Some rid) [(''requested_by'', Some (au_email auth))]
                  (db\<lparr>runners := update_where (\<lambda>r. r_id r = rid)
                     (\<lambda>r. r\<lparr>r_cache_purge_requested_at := Some now, r_updated_at := now\<rparr>)
                     (runners db)\<rparr>)))"

subsection \<open>Eligibility\<close>

definition takes_slot :: "BuildStatus \<Rightarrow> bool" where
  "takes_slot s \<longleftrightarrow> s = Scheduled \<or> s = Assigned \<or> s = Running"

definition pipeline_load :: "string \<Rightarrow> build list \<Rightarrow> int" where
  "pipeline_load plid rows = count_rows (\<lambda>a. b_pipeline_id a = plid \<and> takes_slot (b_status a)) rows"

definition pipeline_has_free_slot :: "daemon \<Rightarrow> build \<Rightarrow> bool" where
  "pipeline_has_free_slot db b \<longleftrightarrow>
     \<not> exists_row (\<lambda>pl. pl_id pl = b_pipeline_id b \<and>
         (case pl_max_concurrent pl of
            None \<Rightarrow> False
          | Some m \<Rightarrow> 0 < m \<and> m \<le> pipeline_load (pl_id pl) (builds db))) (pipelines db)"

definition holds_build :: "string \<Rightarrow> build \<Rightarrow> bool" where
  "holds_build rid b \<longleftrightarrow> b_runner_id b = Some rid \<and> (b_status b = Assigned \<or> b_status b = Running)"

definition runner_load :: "string \<Rightarrow> build list \<Rightarrow> int" where
  "runner_load rid rows = count_rows (holds_build rid) rows"

definition runner_can_take :: "daemon \<Rightarrow> string \<Rightarrow> build \<Rightarrow> bool" where
  "runner_can_take db rid b \<longleftrightarrow>
     exists_row (\<lambda>runner. r_id runner = rid \<and>
         list_all (\<lambda>required. required \<in> set (r_labels runner)) (cs_runs_on (b_snapshot b)) \<and>
         runner_load (r_id runner) (builds db) < max (r_max_concurrent_builds runner) 1) (runners db)"

definition blocking_incident :: "string \<Rightarrow> incident \<Rightarrow> bool" where
  "blocking_incident integration_id i \<longleftrightarrow>
     in_open i \<and> in_resource_kind i = ''source'' \<and> in_resource_id i = integration_id \<and>
     in_reason i \<in> {''expired'', ''rejected'', ''refresh_failed''}"

definition source_ready :: "daemon \<Rightarrow> build \<Rightarrow> bool" where
  "source_ready db b \<longleftrightarrow>
     exists_row (\<lambda>p. p_id p = b_project_id b \<and>
         sql_eq (cs_repository_id (b_snapshot b)) (p_repository_id p) \<and>
         exists_row (\<lambda>r. p_repository_id p = Some (sr_id r) \<and>
             \<not> exists_row (blocking_incident (sr_integration_id r)) (incidents db)) (repositories db))
       (projects db) \<and>
     unwrap_or 0 (direct_macos_runner_paused db) = 0"

definition approved :: "build \<Rightarrow> bool" where
  "approved b \<longleftrightarrow> b_approval_state b \<noteq> Some Approval_Pending"

definition eligible :: "daemon \<Rightarrow> string \<Rightarrow> build \<Rightarrow> bool" where
  "eligible db rid b \<longleftrightarrow>
     b_status b = Queued \<and> approved b \<and> pipeline_has_free_slot db b \<and> runner_can_take db rid b \<and>
     source_ready db b"

text \<open>\<open>ORDER BY key LIMIT 1\<close>.\<close>

definition fetch_first :: "('a \<Rightarrow> 'k::linorder) \<Rightarrow> ('a \<Rightarrow> bool) \<Rightarrow> 'a list \<Rightarrow> 'a option" where
  "fetch_first key P rows = (case sort_key key (filter P rows) of [] \<Rightarrow> None | r # _ \<Rightarrow> Some r)"

definition next_eligible_build :: "daemon \<Rightarrow> string \<Rightarrow> build option" where
  "next_eligible_build db rid =
     fetch_first (\<lambda>b. (b_queued_at b, b_id b)) (eligible db rid) (builds db)"

subsection \<open>The claim\<close>

definition lease_active :: "int \<Rightarrow> daemon \<Rightarrow> bool" where
  "lease_active now db = (case transition_lease db of None \<Rightarrow> False | Some (_, e) \<Rightarrow> now \<le> e)"

definition assign_columns :: "int \<Rightarrow> string \<Rightarrow> string \<Rightarrow> build \<Rightarrow> build" where
  "assign_columns now rid token_hash b =
     b\<lparr>b_status := Assigned, b_runner_id := Some rid, b_ran_on_runner_id := Some rid,
       b_signing_token_hash := Some token_hash, b_updated_at := now\<rparr>"

definition assignable :: "string \<Rightarrow> build \<Rightarrow> bool" where
  "assignable bid b \<longleftrightarrow> b_id b = bid \<and> b_status b = Scheduled \<and> b_runner_id b = None"

text \<open>
  One transaction: queued to scheduled under every gate, then scheduled to assigned. The
  trigger of the maintenance barrier aborts the first UPDATE while a lease is active.
\<close>

definition claim_eligible_direct_runner_build ::
  "int \<Rightarrow> string \<Rightarrow> string \<Rightarrow> string \<Rightarrow> string \<Rightarrow> daemon \<Rightarrow> (bool \<times> daemon) api_result" where
  "claim_eligible_direct_runner_build now bid rid actor token_hash db =
     (let guard = (\<lambda>b. b_id b = bid \<and> eligible db rid b) in
      if rows_affected guard (builds db) = 0 then Inr (False, db)
      else if lease_active now db
      then Inl (ApiError INTERNAL_SERVER_ERROR ''store_error'' ''Failed to claim build'')
      else
        let rows1 = update_where guard (\<lambda>b. b\<lparr>b_status := Scheduled, b_updated_at := now\<rparr>) (builds db) in
        if rows_affected (assignable bid) rows1 \<noteq> 1 then Inr (False, db)
        else Inr (True,
          db\<lparr>builds := update_where (assignable bid) (assign_columns now rid token_hash) rows1,
             build_events := build_events db @
               [build_event_row bid (Some Queued) Scheduled (Some actor) (Some ''claimed by runner'') now,
                build_event_row bid (Some Scheduled) Assigned (Some actor)
                  (Some ''assigned to runner'') now]\<rparr>))"

text \<open>Queued builds whose source needs new credentials, with the link that repairs it.\<close>

definition blocked_builds :: "daemon \<Rightarrow> (string \<times> string) list" where
  "blocked_builds db =
     concat (map (\<lambda>b. concat (map (\<lambda>p. concat (map (\<lambda>r.
         map (\<lambda>i. (b_id b, in_repair_url i))
           (filter (blocking_incident (sr_integration_id r)) (incidents db)))
         (filter (\<lambda>r. p_repository_id p = Some (sr_id r)) (repositories db))))
       (filter (\<lambda>p. p_id p = b_project_id b \<and>
            sql_eq (cs_repository_id (b_snapshot b)) (p_repository_id p)) (projects db))))
     (filter (\<lambda>b. b_status b = Queued) (builds db)))"

definition fail_blocked_build :: "int \<Rightarrow> string \<times> string \<Rightarrow> daemon \<Rightarrow> daemon" where
  "fail_blocked_build now blocked db =
     (let (bid, repair_url) = blocked;
          guard = (\<lambda>b. b_id b = bid \<and> b_status b = Queued);
          reason = ''Source credentials require action. Repair: '' @ repair_url
      in db\<lparr>builds := update_where guard
               (\<lambda>b. b\<lparr>b_status := Failed, b_finished_at := Some now, b_updated_at := now\<rparr>) (builds db),
            build_events := build_events db @
              (if rows_affected guard (builds db) = 1
               then [build_event_row bid (Some Queued) Failed (Some ''system:credential-preflight'')
                       (Some reason) now]
               else [])\<rparr>)"

definition fail_credential_blocked_builds :: "int \<Rightarrow> daemon \<Rightarrow> daemon" where
  "fail_credential_blocked_builds now db = fold (fail_blocked_build now) (blocked_builds db) db"

subsection \<open>Releasing builds a runner holds\<close>

definition release_one ::
  "int \<Rightarrow> string \<Rightarrow> string \<times> BuildStatus \<Rightarrow> string list \<times> daemon \<Rightarrow> string list \<times> daemon" where
  "release_one now reason row acc =
     (let (bid, from_status) = row; (failed, db) = acc;
          target = (if from_status = Running then Failed else Queued)
      in case transition_build now bid target (Some ''system'') (Some reason) db of
           Inl _ \<Rightarrow> (failed, db)
         | Inr db1 \<Rightarrow>
             if target = Failed
             then (failed @ [bid],
                   publish_event \<lparr>se_build_id = bid,
                     se_from_status = Some (build_status_to_string from_status),
                     se_to_status = build_status_to_string target, se_actor = Some ''system'',
                     se_reason = Some reason, se_timestamp = now\<rparr> db1)
             else (failed, db1))"

definition release_runner_builds_except ::
  "int \<Rightarrow> string \<Rightarrow> string list \<Rightarrow> string \<Rightarrow> daemon \<Rightarrow> string list \<times> daemon" where
  "release_runner_builds_except now rid active reason db =
     fold (release_one now reason)
       (filter (\<lambda>(bid, _). bid \<notin> set active)
          (map (\<lambda>b. (b_id b, b_status b)) (filter (holds_build rid) (builds db))))
       ([], db)"

definition release_runner_builds ::
  "int \<Rightarrow> string \<Rightarrow> string \<Rightarrow> daemon \<Rightarrow> string list \<times> daemon" where
  "release_runner_builds now rid reason db = release_runner_builds_except now rid [] reason db"

subsection \<open>The claim endpoint\<close>

definition RUNNER_PROTOCOL_VERSION :: int where
  "RUNNER_PROTOCOL_VERSION = 6"

record claim_request =
  cr_protocol_version :: int
  cr_active_build_ids :: "string list"

record ClaimedJob =
  cj_build_id :: string
  cj_project_id :: string
  cj_pipeline_id :: string
  cj_build_number :: int
  cj_snapshot :: config_snapshot
  cj_checkout_proxy_path :: "string option"
  cj_runner_labels :: "string list"
  cj_commit_sha :: "string option"
  cj_branch :: "string option"
  cj_lease_expires_at :: int
  cj_signing_token :: string
  cj_retry_steps :: "string list option"

definition retry_steps_from_snapshot :: "config_snapshot \<Rightarrow> string list option" where
  "retry_steps_from_snapshot snapshot =
     (case cs_retry_steps snapshot of None \<Rightarrow> None | Some steps \<Rightarrow> if steps = [] then None else Some steps)"

definition checkout_proxy_path ::
  "(string \<Rightarrow> string) \<Rightarrow> daemon \<Rightarrow> string \<Rightarrow> build \<Rightarrow> string option" where
  "checkout_proxy_path url_encode db rid b =
     (case fetch_optional (\<lambda>r. cs_repository_id (b_snapshot b) = Some (sr_id r)) (repositories db) of
        None \<Rightarrow> None
      | Some source \<Rightarrow>
          if sr_provider source = Gitlab
          then Some (''/v1/runners/'' @ rid @ ''/jobs/'' @ b_id b @ ''/gitlab/'' @
                     join ''/'' (map url_encode (split_on CHR ''/'' (sr_full_name source))) @ ''.git'')
          else None)"

definition claimed_job ::
  "(string \<Rightarrow> string) \<Rightarrow> int \<Rightarrow> daemon \<Rightarrow> string \<Rightarrow> string \<Rightarrow> build \<Rightarrow> ClaimedJob" where
  "claimed_job url_encode now db rid token b =
     \<lparr>cj_build_id = b_id b, cj_project_id = b_project_id b, cj_pipeline_id = b_pipeline_id b,
      cj_build_number = b_build_number b, cj_snapshot = b_snapshot b,
      cj_checkout_proxy_path = checkout_proxy_path url_encode db rid b,
      cj_runner_labels = (case fetch_optional (\<lambda>r. r_id r = rid) (runners db) of
                            None \<Rightarrow> [] | Some r \<Rightarrow> r_labels r),
      cj_commit_sha = b_commit_sha b, cj_branch = b_branch b,
      cj_lease_expires_at = now + 300, cj_signing_token = token,
      cj_retry_steps = retry_steps_from_snapshot (b_snapshot b)\<rparr>"

text \<open>
  The handler up to the choice of a build. It writes (releases and credential
  failures) even when no build is handed out.
\<close>

definition claim_prepare :: "int \<Rightarrow> string \<Rightarrow> claim_request \<Rightarrow> daemon \<Rightarrow> daemon" where
  "claim_prepare now rid req db =
     fail_credential_blocked_builds now
       (snd (release_runner_builds_except now rid (cr_active_build_ids req)
          ''The runner restarted or moved on without reporting this build's result'' db))"

definition claim_job ::
  "(string \<Rightarrow> string) \<Rightarrow> (string \<Rightarrow> string) \<Rightarrow> int \<Rightarrow> string \<Rightarrow> RunnerAuth \<Rightarrow> claim_request \<Rightarrow>
   string \<Rightarrow> daemon \<Rightarrow> (ClaimedJob option) api_result \<times> daemon" where
  "claim_job hash_token url_encode now rid auth req token db =
     (if ra_runner_id auth \<noteq> rid then (Inl runner_mismatch, db)
      else if cr_protocol_version req \<noteq> RUNNER_PROTOCOL_VERSION
      then (Inl (ApiError CONFLICT ''runner_protocol_mismatch''
              (''Runner protocol '' @ show_int (cr_protocol_version req) @ '' is unsupported; expected '' @
               show_int RUNNER_PROTOCOL_VERSION)), db)
      else
        let db1 = claim_prepare now rid req db in
        case next_eligible_build db1 rid of
          None \<Rightarrow> (Inr None, db1)
        | Some b \<Rightarrow>
            (case claim_eligible_direct_runner_build now (b_id b) rid (runner_actor rid)
                    (hash_token token) db1 of
               Inl e \<Rightarrow> (Inl e, db1)
             | Inr (False, db2) \<Rightarrow> (Inr None, db2)
             | Inr (True, db2) \<Rightarrow> (Inr (Some (claimed_job url_encode now db1 rid token b)), db2)))"

subsection \<open>Status reports\<close>

record job_update =
  ju_status :: string
  ju_error_message :: "string option"
  ju_steps :: "string list"
  ju_exit_code :: "int option"
  ju_size_budgets :: "TargetSizeBudget list option"

definition update_results :: "job_update \<Rightarrow> runner_results option" where
  "update_results req =
     (let budgets = map_option checked_file_size_budgets (ju_size_budgets req) in
      if ju_steps req \<noteq> [] \<or> ju_exit_code req \<noteq> None \<or> budgets \<noteq> None
      then Some \<lparr>rr_step_results = (if ju_steps req = [] then None else Some (ju_steps req)),
                 rr_exit_code = ju_exit_code req, rr_file_size_budgets = budgets\<rparr>
      else None)"

text \<open>The checks of the handler before the transition.\<close>

definition check_job_update ::
  "string \<Rightarrow> string \<Rightarrow> RunnerAuth \<Rightarrow> job_update \<Rightarrow> daemon \<Rightarrow> BuildStatus api_result" where
  "check_job_update rid job_id auth req db =
     (if ra_runner_id auth \<noteq> rid then Inl runner_mismatch
      else
        and_then (ok_or (ApiError NOT_FOUND ''not_found'' ''Build not found'') (find_build db job_id))
         (\<lambda>b. if b_runner_id b \<noteq> Some rid
              then Inl (ApiError FORBIDDEN ''runner_mismatch''
                     ''This build is not assigned to your runner'')
              else
                case build_status_from_str (ju_status req) of
                  Inl _ \<Rightarrow> Inl (ApiError BAD_REQUEST ''invalid_status''
                             (''Unknown build status: '' @ ju_status req))
                | Inr target \<Rightarrow>
                    if target \<notin> {Running, Succeeded, Failed}
                    then Inl (ApiError BAD_REQUEST ''invalid_runner_status''
                           (''Runners can only set status to running, succeeded, or failed (got: '' @
                            ju_status req @ '')''))
                    else Inr target))"

definition report_reason :: "job_update \<Rightarrow> string" where
  "report_reason req = unwrap_or ''status update from runner'' (ju_error_message req)"

definition update_job_status ::
  "int \<Rightarrow> string \<Rightarrow> string \<Rightarrow> RunnerAuth \<Rightarrow> job_update \<Rightarrow> daemon \<Rightarrow> daemon api_result" where
  "update_job_status now rid job_id auth req db =
     and_then (check_job_update rid job_id auth req db)
      (\<lambda>target.
     and_then (transition_build_with_results now job_id target (Some (runner_actor rid))
                 (Some (report_reason req)) (update_results req) db)
      (\<lambda>db1.
         if build_is_terminal target
         then Inr (publish_event \<lparr>se_build_id = job_id, se_from_status = None,
                se_to_status = build_status_to_string target, se_actor = Some (runner_actor rid),
                se_reason = Some (report_reason req), se_timestamp = now\<rparr> db1)
         else Inr db1))"

subsection \<open>Administration\<close>

record update_runner_request =
  ur_name :: "string option"
  ur_custom_labels :: "string list option"
  ur_max_concurrent_builds :: "int option"

definition check_update_runner :: "update_runner_request \<Rightarrow> (string list option) api_result" where
  "check_update_runner req =
     (if ur_name req = None \<and> ur_custom_labels req = None \<and> ur_max_concurrent_builds req = None
      then Inl (ApiError BAD_REQUEST ''invalid_input''
             ''Provide a runner name, custom labels or a concurrent build limit'')
      else if is_some_and (\<lambda>m. \<not> (1 \<le> m \<and> m \<le> MAX_RUNNER_CONCURRENT_BUILDS)) (ur_max_concurrent_builds req)
      then Inl (ApiError BAD_REQUEST ''invalid_max_concurrent_builds''
             ''Concurrent builds must be between 1 and 8'')
      else if is_some_and (\<lambda>n. trim n = [] \<or> length (trim n) > 255) (ur_name req)
      then Inl (ApiError BAD_REQUEST ''invalid_name''
             ''Runner name must be between 1 and 255 characters'')
      else case ur_custom_labels req of
             None \<Rightarrow> Inr None
           | Some ls \<Rightarrow>
               (case normalize_runner_labels ls of
                  Inl e \<Rightarrow> Inl (ApiError BAD_REQUEST ''invalid_labels'' e)
                | Inr custom \<Rightarrow> Inr (Some custom)))"

definition set_runner :: "string \<Rightarrow> (runner \<Rightarrow> runner) \<Rightarrow> daemon \<Rightarrow> daemon" where
  "set_runner rid f db = db\<lparr>runners := update_where (\<lambda>r. r_id r = rid) f (runners db)\<rparr>"

definition rename_runner ::
  "int \<Rightarrow> SessionInfo \<Rightarrow> string \<Rightarrow> runner \<Rightarrow> string option \<Rightarrow> daemon \<Rightarrow> daemon api_result" where
  "rename_runner now auth rid existing name db =
     (case name of
        None \<Rightarrow> Inr db
      | Some raw \<Rightarrow>
          let new_name = trim raw in
          if r_name existing = new_name then Inr db
          else if r_registered_by existing = None
          then Inl (ApiError CONFLICT ''managed_runner_locked'' ''Managed runner name cannot be changed'')
          else Inr (write_audit_log (Some (au_user_id auth)) ''runner_renamed'' ''runner'' (Some rid)
                 [(''previous_name'', Some (r_name existing)), (''new_name'', Some new_name),
                  (''updated_by'', Some (au_email auth))]
                 (set_runner rid (\<lambda>r. r\<lparr>r_name := new_name, r_updated_at := now\<rparr>) db)))"

definition relabel_runner ::
  "int \<Rightarrow> SessionInfo \<Rightarrow> string \<Rightarrow> runner \<Rightarrow> string list option \<Rightarrow> daemon \<Rightarrow> daemon" where
  "relabel_runner now auth rid existing custom db =
     (case custom of
        None \<Rightarrow> db
      | Some ls \<Rightarrow>
          if ls = r_custom_labels existing then db
          else write_audit_log (Some (au_user_id auth)) ''runner_labels_updated'' ''runner'' (Some rid)
                 [(''previous_labels'', Some (join '','' (r_custom_labels existing))),
                  (''new_labels'', Some (join '','' ls)), (''updated_by'', Some (au_email auth))]
                 (set_runner rid (\<lambda>r. r\<lparr>r_custom_labels := ls,
                    r_labels := effective_runner_labels (r_capabilities existing) ls,
                    r_updated_at := now\<rparr>) db))"

definition limit_runner ::
  "int \<Rightarrow> SessionInfo \<Rightarrow> string \<Rightarrow> runner \<Rightarrow> int option \<Rightarrow> daemon \<Rightarrow> daemon" where
  "limit_runner now auth rid existing max_builds db =
     (case max_builds of
        None \<Rightarrow> db
      | Some m \<Rightarrow>
          if m = r_max_concurrent_builds existing then db
          else write_audit_log (Some (au_user_id auth)) ''runner_concurrency_updated'' ''runner'' (Some rid)
                 [(''previous_max_concurrent_builds'', Some (show_int (r_max_concurrent_builds existing))),
                  (''new_max_concurrent_builds'', Some (show_int m)),
                  (''updated_by'', Some (au_email auth))]
                 (set_runner rid (\<lambda>r. r\<lparr>r_max_concurrent_builds := m, r_updated_at := now\<rparr>) db))"

definition update_runner ::
  "(string \<Rightarrow> string \<Rightarrow> string \<Rightarrow> bool) \<Rightarrow> int \<Rightarrow> SessionInfo \<Rightarrow> string \<Rightarrow> update_runner_request \<Rightarrow> daemon \<Rightarrow>
   daemon api_result" where
  "update_runner enforce now auth rid req db =
     and_then (check_permission enforce (au_role auth) ''runners'' ''write'')
      (\<lambda>_.
     and_then (check_update_runner req)
      (\<lambda>custom.
     and_then (ok_or (ApiError NOT_FOUND ''not_found'' ''Runner not found'')
                 (fetch_optional (\<lambda>r. r_id r = rid) (runners db)))
      (\<lambda>existing.
     and_then (rename_runner now auth rid existing (ur_name req) db)
      (\<lambda>db1. Inr (limit_runner now auth rid existing (ur_max_concurrent_builds req)
               (relabel_runner now auth rid existing custom db1))))))"

definition runner_has_builds :: "daemon \<Rightarrow> string \<Rightarrow> bool" where
  "runner_has_builds db rid \<longleftrightarrow>
     exists_row (\<lambda>b. b_runner_id b = Some rid) (builds db) \<or>
     exists_row (\<lambda>e. be_actor e = Some (runner_actor rid)) (build_events db)"

definition delete_runner ::
  "(string \<Rightarrow> string \<Rightarrow> string \<Rightarrow> bool) \<Rightarrow> SessionInfo \<Rightarrow> string \<Rightarrow> daemon \<Rightarrow> daemon api_result" where
  "delete_runner enforce auth rid db =
     and_then (check_permission enforce (au_role auth) ''runners'' ''delete'')
      (\<lambda>_. let doomed = (\<lambda>r. r_id r = rid \<and> r_registered_by r \<noteq> None \<and> \<not> runner_has_builds db rid) in
           if rows_affected doomed (runners db) = 0 then
             (case fetch_optional (\<lambda>r. r_id r = rid) (runners db) of
                None \<Rightarrow> Inl (ApiError NOT_FOUND ''not_found'' ''Runner not found'')
              | Some r \<Rightarrow>
                  if r_registered_by r = None
                  then Inl (ApiError CONFLICT ''managed_runner_locked''
                         ''Managed runners cannot be deleted through this endpoint'')
                  else if runner_has_builds db rid
                  then Inl (ApiError CONFLICT ''runner_has_builds''
                         ''Runners with builds cannot be deleted'')
                  else Inl (ApiError CONFLICT ''runner_delete_conflict''
                         ''Runner state changed before it could be deleted''))
           else Inr (resolve_incident (''runner-disk:'' @ rid)
                  (write_audit_log (Some (au_user_id auth)) ''runner_deleted'' ''runner'' (Some rid)
                     [(''deleted_by'', Some (au_email auth))]
                     (db\<lparr>runners := filter (\<lambda>r. \<not> doomed r) (runners db)\<rparr>))))"

end
