(* ===== verification/Build_Monitors.thy ===== *)
theory Build_Monitors
  imports Runner_Claims
begin

text \<open>
  The background monitors of \<^verbatim>\<open>crates/oored/src/background.rs\<close> that move builds and
  runners, the recovery on startup (\<^verbatim>\<open>scheduler.rs\<close>), the cancellations that follow a
  change of source (\<^verbatim>\<open>integrations/mod.rs\<close>, \<^verbatim>\<open>projects.rs\<close>), the removal of finished
  builds, and the maintenance barrier of \<^verbatim>\<open>operator.rs\<close>. One definition is one pass of
  a monitor; the sleeping loop around it is not modelled.
\<close>

definition LEASE_TIMEOUT_SECS :: int where "LEASE_TIMEOUT_SECS = 300"
definition SCHEDULED_TIMEOUT_SECS :: int where "SCHEDULED_TIMEOUT_SECS = 60"
definition HEARTBEAT_STALE_SECS :: int where "HEARTBEAT_STALE_SECS = 120"
definition RUNNER_LOST_SECS :: int where "RUNNER_LOST_SECS = 300"
definition MONITOR_BATCH_SIZE :: nat where "MONITOR_BATCH_SIZE = 100"
definition DEFAULT_BUILD_TIMEOUT_SECS :: int where
  "DEFAULT_BUILD_TIMEOUT_SECS = DEFAULT_BUILD_TIMEOUT_MINUTES * 60"
definition BARRIER_LEASE_SECS :: int where "BARRIER_LEASE_SECS = 300"

text \<open>\<open>ORDER BY key LIMIT n\<close>.\<close>

definition fetch_batch :: "('a \<Rightarrow> 'k::linorder) \<Rightarrow> ('a \<Rightarrow> bool) \<Rightarrow> 'a list \<Rightarrow> 'a list" where
  "fetch_batch key P rows = take MONITOR_BATCH_SIZE (sort_key key (filter P rows))"

subsection \<open>Claims that never started\<close>

definition claim_expired :: "int \<Rightarrow> build \<Rightarrow> bool" where
  "claim_expired now b \<longleftrightarrow>
     (b_status b = Assigned \<and> b_updated_at b < now - LEASE_TIMEOUT_SECS) \<or>
     (b_status b = Scheduled \<and> b_updated_at b < now - SCHEDULED_TIMEOUT_SECS)"

definition requeue_one ::
  "int \<Rightarrow> string \<times> BuildStatus \<Rightarrow> string list \<times> daemon \<Rightarrow> string list \<times> daemon" where
  "requeue_one now row acc =
     (let (bid, status) = row; (requeued, db) = acc;
          reason = (if status = Scheduled then ''runner claim was interrupted'' else ''lease timeout'')
      in case transition_build now bid Queued None (Some reason) db of
           Inl _ \<Rightarrow> (requeued, db)
         | Inr db1 \<Rightarrow> (requeued @ [bid], db1))"

definition requeue_expired_claims :: "int \<Rightarrow> daemon \<Rightarrow> string list \<times> daemon" where
  "requeue_expired_claims now db =
     fold (requeue_one now)
       (map (\<lambda>b. (b_id b, b_status b)) (fetch_batch b_updated_at (claim_expired now) (builds db)))
       ([], db)"

subsection \<open>Approval requests nobody decided\<close>

definition approval_ttl :: "daemon \<Rightarrow> build \<Rightarrow> int" where
  "approval_ttl db b =
     (case fetch_optional (\<lambda>pl. pl_id pl = b_pipeline_id b) (pipelines db) of
        None \<Rightarrow> approval_default_expires_after_hours
      | Some pl \<Rightarrow> unwrap_or approval_default_expires_after_hours
                   (ap_expires_after_hours (pl_approval pl))) * 3600"

definition approval_expired :: "int \<Rightarrow> daemon \<Rightarrow> build \<Rightarrow> bool" where
  "approval_expired now db b \<longleftrightarrow>
     b_status b = Queued \<and> b_approval_state b = Some Approval_Pending \<and>
     (case b_approval_requested_at b of None \<Rightarrow> False | Some t \<Rightarrow> t + approval_ttl db b \<le> now)"

definition approval_expiry_reason :: "int \<Rightarrow> string" where
  "approval_expiry_reason ttl =
     (let hours = ttl div 3600 in
      if hours mod 24 = 0 then ''approval request expired after '' @ show_int (hours div 24) @ '' days''
      else ''approval request expired after '' @ show_int hours @ '' hours'')"

definition expire_approval_one ::
  "int \<Rightarrow> string \<times> int \<Rightarrow> string list \<times> daemon \<Rightarrow> string list \<times> daemon" where
  "expire_approval_one now row acc =
     (let (bid, ttl) = row; (expired, db) = acc; reason = approval_expiry_reason ttl
      in case transition_build now bid Canceled None (Some reason) db of
           Inl _ \<Rightarrow> (expired, db)
         | Inr db1 \<Rightarrow>
             (expired @ [bid],
              publish_event \<lparr>se_build_id = bid, se_from_status = Some ''queued'',
                se_to_status = ''canceled'', se_actor = None, se_reason = Some reason,
                se_timestamp = now\<rparr> db1))"

definition expire_pending_approvals :: "int \<Rightarrow> daemon \<Rightarrow> string list \<times> daemon" where
  "expire_pending_approvals now db =
     fold (expire_approval_one now)
       (map (\<lambda>b. (b_id b, approval_ttl db b))
          (fetch_batch (\<lambda>b. unwrap_or 0 (b_approval_requested_at b)) (approval_expired now db) (builds db)))
       ([], db)"

subsection \<open>Builds past their timeout\<close>

definition build_timeout_secs :: "build \<Rightarrow> int" where
  "build_timeout_secs b = unwrap_or DEFAULT_BUILD_TIMEOUT_SECS (cs_timeout_secs (b_snapshot b))"

definition build_overdue :: "int \<Rightarrow> build \<Rightarrow> bool" where
  "build_overdue now b \<longleftrightarrow>
     b_status b = Running \<and>
     (case b_started_at b of None \<Rightarrow> False | Some t \<Rightarrow> t + build_timeout_secs b \<le> now)"

definition time_out_one ::
  "int \<Rightarrow> string \<times> int \<Rightarrow> string list \<times> daemon \<Rightarrow> string list \<times> daemon" where
  "time_out_one now row acc =
     (let (bid, timeout_secs) = row; (timed_out, db) = acc;
          reason = ''build timeout of '' @ show_int (timeout_secs div 60) @ '' minutes exceeded''
      in case transition_build now bid TimedOut None (Some reason) db of
           Inl _ \<Rightarrow> (timed_out, db)
         | Inr db1 \<Rightarrow>
             (timed_out @ [bid],
              publish_event \<lparr>se_build_id = bid, se_from_status = Some ''running'',
                se_to_status = ''timed_out'', se_actor = None, se_reason = Some reason,
                se_timestamp = now\<rparr> db1))"

definition time_out_overdue_builds :: "int \<Rightarrow> daemon \<Rightarrow> string list \<times> daemon" where
  "time_out_overdue_builds now db =
     fold (time_out_one now)
       (map (\<lambda>b. (b_id b, build_timeout_secs b))
          (fetch_batch (\<lambda>b. unwrap_or 0 (b_started_at b)) (build_overdue now) (builds db)))
       ([], db)"

subsection \<open>Lost runners\<close>

definition answers :: "RunnerStatus \<Rightarrow> bool" where
  "answers s \<longleftrightarrow> s = Online \<or> s = Busy \<or> s = Draining"

definition heartbeat_stale :: "int \<Rightarrow> runner \<Rightarrow> bool" where
  "heartbeat_stale now r \<longleftrightarrow>
     answers (r_status r) \<and>
     (case r_last_heartbeat_at r of None \<Rightarrow> False | Some t \<Rightarrow> t < now - HEARTBEAT_STALE_SECS)"

definition mark_offline :: "int \<Rightarrow> runner \<Rightarrow> daemon \<Rightarrow> daemon" where
  "mark_offline now row db =
     (let guard = (\<lambda>r. r_id r = r_id row \<and> answers (r_status r)) in
      if rows_affected guard (runners db) = 0 then db
      else db\<lparr>runners := update_where guard (\<lambda>r. r\<lparr>r_status := Offline, r_updated_at := now\<rparr>) (runners db),
              runner_published := runner_published db @
                [\<lparr>re_runner_id = r_id row, re_runner_name = r_name row,
                  re_from_status = runner_status_to_string (r_status row),
                  re_to_status = ''offline'', re_timestamp = now\<rparr>]\<rparr>)"

definition lost_runners :: "int \<Rightarrow> daemon \<Rightarrow> string list" where
  "lost_runners now db =
     take MONITOR_BATCH_SIZE (remdups (map r_id (filter (\<lambda>r.
        exists_row (holds_build (r_id r)) (builds db) \<and>
        unwrap_or 0 (r_last_heartbeat_at r) < now - RUNNER_LOST_SECS) (runners db))))"

definition fail_builds_of_lost_runners :: "int \<Rightarrow> daemon \<Rightarrow> string list \<times> daemon" where
  "fail_builds_of_lost_runners now db =
     fold (\<lambda>rid (failed, d).
             let (more_failed, d1) = release_runner_builds now rid
                   ''Lost contact with the runner: it stopped sending heartbeats'' d
             in (failed @ more_failed, d1))
       (lost_runners now db) ([], db)"

text \<open>One pass of the monitor; \<open>elapsed\<close> is the number of seconds since the daemon started.\<close>

definition runner_heartbeat_tick :: "int \<Rightarrow> int \<Rightarrow> daemon \<Rightarrow> daemon" where
  "runner_heartbeat_tick elapsed now db =
     (let db1 = (if RUNNER_LOST_SECS \<le> elapsed then snd (fail_builds_of_lost_runners now db) else db)
      in fold (mark_offline now)
           (fetch_batch (\<lambda>r. unwrap_or 0 (r_last_heartbeat_at r)) (heartbeat_stale now) (runners db1)) db1)"

subsection \<open>Recovery on startup\<close>

definition recover_one :: "int \<Rightarrow> string \<Rightarrow> daemon \<Rightarrow> daemon" where
  "recover_one now bid db =
     (case transition_build now bid Queued None (Some ''daemon restart recovery'') db of
        Inl _ \<Rightarrow> db | Inr db1 \<Rightarrow> db1)"

definition reload_pending :: "int \<Rightarrow> daemon \<Rightarrow> nat \<times> daemon" where
  "reload_pending now db =
     (let ids = map b_id (filter (\<lambda>b. b_status b = Scheduled) (builds db))
      in (length ids, fold (recover_one now) ids db))"

subsection \<open>A source that changed or went away\<close>

definition unassigned :: "build \<Rightarrow> bool" where
  "unassigned b \<longleftrightarrow> b_status b = Queued \<or> b_status b = Scheduled"

definition cancel_unassigned_builds_for_removed_repositories ::
  "int \<Rightarrow> string list \<Rightarrow> daemon \<Rightarrow> daemon" where
  "cancel_unassigned_builds_for_removed_repositories now repository_ids db =
     (if repository_ids = [] then db
      else cancel_rows now
             (\<lambda>b. unassigned b \<and>
                exists_row (\<lambda>p. p_id p = b_project_id b \<and>
                   (case p_repository_id p of None \<Rightarrow> False | Some r \<Rightarrow> r \<in> set repository_ids))
                  (projects db))
             (Some ''system'')
             ''Canceled because the project source became unavailable; choose a source and trigger a new build''
             db)"

text \<open>
  The part of \<open>update_project\<close> that links another repository: one transaction with
  the cancellation of the project's unassigned builds.
\<close>

definition change_project_source ::
  "int \<Rightarrow> SessionInfo \<Rightarrow> string \<Rightarrow> string \<Rightarrow> daemon \<Rightarrow> daemon api_result" where
  "change_project_source now auth pid repository_id db =
     (let changed = rows_affected (\<lambda>p. p_id p = pid \<and> p_repository_id p \<noteq> Some repository_id) (projects db) = 1;
          db1 = (if changed
                 then cancel_rows now (\<lambda>b. b_project_id b = pid \<and> unassigned b) (Some (au_email auth))
                        ''Canceled because the project source changed; trigger a new build from the new source''
                        (write_audit_log (Some (au_user_id auth)) ''project_source_link_updated'' ''project''
                           (Some pid) [(''repository_id'', Some repository_id),
                                       (''updated_by'', Some (au_email auth))] db)
                 else db)
      in if rows_affected (\<lambda>p. p_id p = pid) (projects db) \<noteq> 1
         then Inl (ApiError NOT_FOUND ''not_found'' ''Project not found'')
         else Inr (db1\<lparr>projects := update_where (\<lambda>p. p_id p = pid)
                (\<lambda>p. p\<lparr>p_repository_id := Some repository_id\<rparr>) (projects db1)\<rparr>))"

subsection \<open>Removing finished builds\<close>

text \<open>
  \<open>DELETE FROM builds\<close> with its foreign keys: events go with the build, and a
  rerun forgets the build it came from.
\<close>

definition delete_builds :: "(build \<Rightarrow> bool) \<Rightarrow> daemon \<Rightarrow> daemon" where
  "delete_builds P db =
     (let gone = map b_id (filter P (builds db)) in
      db\<lparr>builds := map (\<lambda>b. b\<lparr>b_source_build_id :=
             (case b_source_build_id b of
                None \<Rightarrow> None | Some s \<Rightarrow> if s \<in> set gone then None else Some s)\<rparr>)
             (filter (\<lambda>b. \<not> P b) (builds db)),
         build_events := filter (\<lambda>e. be_build_id e \<notin> set gone) (build_events db)\<rparr>)"

definition delete_terminal_builds_of_pipeline :: "string \<Rightarrow> daemon \<Rightarrow> daemon" where
  "delete_terminal_builds_of_pipeline plid db =
     delete_builds (\<lambda>b. b_pipeline_id b = plid \<and> terminal_status b) db"

definition delete_terminal_builds_of_project :: "string \<Rightarrow> daemon \<Rightarrow> daemon" where
  "delete_terminal_builds_of_project pid db =
     delete_builds (\<lambda>b. b_project_id b = pid \<and> terminal_status b) db"

definition remember_outcome :: "string \<Rightarrow> daemon \<Rightarrow> daemon" where
  "remember_outcome bid db =
     db\<lparr>builds := update_where (\<lambda>b. b_id b = bid \<and> b_status b \<noteq> Expired)
          (\<lambda>b. b\<lparr>b_expired_from := Some (b_status b)\<rparr>) (builds db)\<rparr>"

definition expire_build_artifacts :: "int \<Rightarrow> string \<Rightarrow> daemon \<Rightarrow> daemon api_result" where
  "expire_build_artifacts now bid db =
     transition_build now bid Expired None (Some ''retention policy cleanup'') (remember_outcome bid db)"

text \<open>\<open>released\<close> lists the builds that a release row refers to.\<close>

definition cleanup_build_record ::
  "int \<Rightarrow> string list \<Rightarrow> string \<Rightarrow> RetentionCleanupTarget \<Rightarrow> daemon \<Rightarrow> bool \<times> daemon" where
  "cleanup_build_record now released bid target db =
     (let expire = (case expire_build_artifacts now bid db of
                      Inl _ \<Rightarrow> (False, remember_outcome bid db) | Inr db1 \<Rightarrow> (True, db1))
      in case target of
           ArtifactsOnly \<Rightarrow> expire
         | Retention_Full \<Rightarrow>
             let doomed = (\<lambda>b. b_id b = bid \<and> bid \<notin> set released) in
             if rows_affected doomed (builds db) = 0 then expire
             else (True, delete_builds doomed db))"

subsection \<open>The maintenance barrier\<close>

definition acquire_barrier :: "int \<Rightarrow> string \<Rightarrow> daemon \<Rightarrow> daemon option" where
  "acquire_barrier now lease_token db =
     (if lease_active now db then None
      else
        let requeued = (\<lambda>b. b_status b = Scheduled \<and> b_runner_id b = None)
        in Some (db\<lparr>transition_lease := Some (lease_token, now + BARRIER_LEASE_SECS),
             build_events := build_events db @
               map (\<lambda>b. build_event_row (b_id b) (Some Scheduled) Queued (Some ''system'')
                   (Some ''Requeued before a maintenance drain because no runner had accepted the build'')
                   now) (filter requeued (builds db)),
             builds := update_where requeued (\<lambda>b. b\<lparr>b_status := Queued, b_updated_at := now\<rparr>)
               (builds db)\<rparr>))"

definition renew_barrier :: "int \<Rightarrow> string \<Rightarrow> daemon \<Rightarrow> daemon option" where
  "renew_barrier now token db =
     (case transition_lease db of
        None \<Rightarrow> None
      | Some (t, e) \<Rightarrow>
          if t = token \<and> now \<le> e
          then Some (db\<lparr>transition_lease := Some (t, now + BARRIER_LEASE_SECS)\<rparr>) else None)"

definition wait_for_work :: "string option \<Rightarrow> daemon \<Rightarrow> bool" where
  "wait_for_work runner_id db =
     (case runner_id of
        Some rid \<Rightarrow> exists_row (\<lambda>b. holds_build rid b \<or> (b_runner_id b = None \<and> b_status b = Assigned))
                     (builds db)
      | None \<Rightarrow> exists_row (\<lambda>b. b_status b = Assigned \<or> b_status b = Running) (builds db))"

definition release_barrier :: "string \<Rightarrow> daemon \<Rightarrow> daemon option" where
  "release_barrier token db =
     (case transition_lease db of
        None \<Rightarrow> None
      | Some (t, _) \<Rightarrow> if t = token then Some (db\<lparr>transition_lease := None\<rparr>) else None)"

end
