(* ===== verification/Build_Lifecycle.thy ===== *)
theory Build_Lifecycle
  imports Build_Monitors
begin

text \<open>
  The build tables as a transition system. A step is one committed transaction of
  the handlers and monitors, at any moment and with any earlier read: the optimistic
  transition commits with the status its handler read some time ago. Every handler and
  every monitor pass is then a run of steps (\<open>daemon_step\<^sup>*\<^sup>*\<close>), and the invariant and
  the progress relation proved for one step hold for all interleavings.
\<close>

subsection \<open>Steps\<close>

text \<open>The statuses handlers pass to \<open>transition_build\<close>: never scheduled or assigned.\<close>

definition requested_status :: "BuildStatus \<Rightarrow> bool" where
  "requested_status s \<longleftrightarrow> s \<notin> {Scheduled, Assigned}"

text \<open>Every transaction but the claim: no build comes to a runner by these.\<close>

inductive quiet_step :: "daemon \<Rightarrow> daemon \<Rightarrow> bool" where
  insert: "execute_build_insert b db = Inr (ok, db') \<Longrightarrow> quiet_step db db'"
| initial_event:
    "exists_row (\<lambda>b. b_id b = bid) (builds db) \<Longrightarrow>
     quiet_step db (record_initial_event now bid actor reason db)"
| commit:
    "build_can_transition_to current target \<Longrightarrow> requested_status target \<Longrightarrow>
     commit_transition now bid current target actor reason results db = Inr db' \<Longrightarrow>
     quiet_step db db'"
| decide: "record_build_approval bid actor decision reason now db = Inr (s, r, db') \<Longrightarrow> quiet_step db db'"
| credential: "quiet_step db (fail_blocked_build now blocked db)"
| source_removed: "quiet_step db (cancel_unassigned_builds_for_removed_repositories now ids db)"
| source_changed: "change_project_source now auth pid rid db = Inr db' \<Longrightarrow> quiet_step db db'"
| remember: "quiet_step db (remember_outcome bid db)"
| delete: "(\<And>b. P b \<Longrightarrow> terminal_status b) \<Longrightarrow> quiet_step db (delete_builds P db)"
| barrier: "acquire_barrier now token db = Some db' \<Longrightarrow> quiet_step db db'"
| other: "builds db' = builds db \<Longrightarrow> build_events db' = build_events db \<Longrightarrow> quiet_step db db'"

inductive daemon_step :: "daemon \<Rightarrow> daemon \<Rightarrow> bool" where
  quiet: "quiet_step db db' \<Longrightarrow> daemon_step db db'"
| claim:
    "claim_eligible_direct_runner_build now bid rid actor token_hash db = Inr (ok, db') \<Longrightarrow>
     daemon_step db db'"

inductive_cases quiet_stepE: "quiet_step db db'"
inductive_cases daemon_stepE: "daemon_step db db'"

subsection \<open>The audit trail of a build\<close>

definition moves :: "string \<Rightarrow> build_event list \<Rightarrow> (BuildStatus \<times> BuildStatus) list" where
  "moves bid es =
     List.map_filter (\<lambda>e. if be_build_id e = bid
        then map_option (\<lambda>s. (s, be_to_status e)) (be_from_status e) else None) es"

fun run_trail :: "BuildStatus \<Rightarrow> (BuildStatus \<times> BuildStatus) list \<Rightarrow> BuildStatus option" where
  "run_trail s [] = Some s"
| "run_trail s ((a, b) # ms) = (if a = s then run_trail b ms else None)"

text \<open>The moves a build may make: those of the status machine, the approval that
  leaves it queued, and the credential preflight that fails it in the queue.\<close>

definition allowed_move :: "BuildStatus \<times> BuildStatus \<Rightarrow> bool" where
  "allowed_move m \<longleftrightarrow>
     build_can_transition_to (fst m) (snd m) \<or> m = (Queued, Queued) \<or> m = (Queued, Failed)"

lemma moves_append [simp]: "moves bid (xs @ ys) = moves bid xs @ moves bid ys"
  by (simp add: moves_def map_filter_def)

lemma moves_Nil [simp]: "moves bid [] = []"
  by (simp add: moves_def map_filter_def)

lemma moves_Cons [simp]:
  "moves bid (build_event_row i (Some s) t a r n # es) =
   (if i = bid then (s, t) # moves bid es else moves bid es)"
  "moves bid (build_event_row i None t a r n # es) = moves bid es"
  by (simp_all add: moves_def map_filter_def build_event_row_def)

lemma build_event_row_id [simp]: "be_build_id (build_event_row i s t a r n) = i"
  by (simp add: build_event_row_def)

lemma run_trail_append:
  "run_trail s (xs @ ys) = Option.bind (run_trail s xs) (\<lambda>t. run_trail t ys)"
  by (induction s xs rule: run_trail.induct) auto

lemma moves_none:
  "(\<And>e. e \<in> set es \<Longrightarrow> be_build_id e \<noteq> bid) \<Longrightarrow> moves bid es = []"
  by (induction es) (auto simp: moves_def map_filter_def)

lemma moves_per_row:
  assumes "distinct (map b_id rows)" and "b \<in> set rows"
  shows "moves (b_id b)
           (map (\<lambda>x. build_event_row (b_id x) (Some (f x)) t actor reason now) (filter P rows)) =
         (if P b then [(f b, t)] else [])"
  using assms
proof (induction rows)
  case (Cons x rows)
  have other: "moves (b_id b) (map (\<lambda>x. build_event_row (b_id x) (Some (f x)) t actor reason now)
      (filter P rows)) = []" if "b_id b \<notin> b_id ` set rows"
    using that by (intro moves_none) (auto simp: build_event_row_def dest: sym intro: rev_image_eqI)
  show ?case
  proof (cases "b = x")
    case True
    with Cons.prems have "b_id b \<notin> b_id ` set rows" by auto
    with other True show ?thesis by simp
  next
    case False
    with Cons.prems have "b \<in> set rows" by simp
    with Cons.prems(1) have "b_id b \<noteq> b_id x" by (auto intro: rev_image_eqI)
    with Cons \<open>b \<in> set rows\<close> show ?thesis by simp
  qed
qed simp

subsection \<open>The invariant\<close>

definition bound_to_runner :: "BuildStatus \<Rightarrow> bool" where
  "bound_to_runner s \<longleftrightarrow> s = Assigned \<or> s = Running"

definition approval_ok :: "build \<Rightarrow> bool" where
  "approval_ok b \<longleftrightarrow>
     (b_approval_requested_at b \<noteq> None \<longleftrightarrow> b_approval_state b \<noteq> None) \<and>
     (b_approval_state b = Some Approval_Pending \<longrightarrow> b_status b = Queued \<or> terminal_status b) \<and>
     (b_approval_state b = Some Approval_Rejected \<longrightarrow> terminal_status b) \<and>
     (b_approval_state b = Some Approval_Approved \<longrightarrow>
        b_approval_decided_by b \<noteq> None \<and> b_approval_decided_at b \<noteq> None)"

definition row_ok :: "build \<Rightarrow> bool" where
  "row_ok b \<longleftrightarrow>
     (b_runner_id b \<noteq> None \<longleftrightarrow> bound_to_runner (b_status b)) \<and>
     (b_signing_token_hash b \<noteq> None \<longleftrightarrow> bound_to_runner (b_status b)) \<and>
     (b_finished_at b \<noteq> None \<longleftrightarrow> terminal_status b) \<and>
     (b_status b = Running \<longrightarrow> b_started_at b \<noteq> None) \<and>
     approval_ok b"

definition trail_ok :: "daemon \<Rightarrow> build \<Rightarrow> bool" where
  "trail_ok db b \<longleftrightarrow> run_trail Queued (moves (b_id b) (build_events db)) = Some (b_status b)"

definition store_inv :: "daemon \<Rightarrow> bool" where
  "store_inv db \<longleftrightarrow>
     distinct (map b_id (builds db)) \<and>
     distinct (map (\<lambda>b. (b_project_id b, b_build_number b)) (builds db)) \<and>
     (\<forall>b \<in> set (builds db). row_ok b \<and> trail_ok db b) \<and>
     (\<forall>e \<in> set (build_events db). be_build_id e \<in> b_id ` set (builds db)) \<and>
     (\<forall>b \<in> set (builds db). list_all allowed_move (moves (b_id b) (build_events db)))"

lemmas row_defs = row_ok_def approval_ok_def bound_to_runner_def

lemma store_invD:
  assumes "store_inv db"
  shows "distinct (map b_id (builds db))"
    and "distinct (map (\<lambda>b. (b_project_id b, b_build_number b)) (builds db))"
    and "b \<in> set (builds db) \<Longrightarrow> row_ok b"
    and "b \<in> set (builds db) \<Longrightarrow> trail_ok db b"
    and "e \<in> set (build_events db) \<Longrightarrow> be_build_id e \<in> b_id ` set (builds db)"
    and "b \<in> set (builds db) \<Longrightarrow> list_all allowed_move (moves (b_id b) (build_events db))"
  using assms by (auto simp: store_inv_def)

text \<open>
  What an update of rows with appended events has to show: it keeps the keys, each new
  event names a stored build, each changed row stays well formed, and for every row
  the new events lead from its old to its new status by allowed moves.
\<close>

definition keeps_key :: "(build \<Rightarrow> build) \<Rightarrow> bool" where
  "keeps_key f \<longleftrightarrow> (\<forall>b. b_id (f b) = b_id b \<and> b_project_id (f b) = b_project_id b \<and>
     b_build_number (f b) = b_build_number b)"

lemma update_keys:
  assumes "keeps_key f"
  shows "map b_id (update_where P f rows) = map b_id rows"
    and "map (\<lambda>b. (b_project_id b, b_build_number b)) (update_where P f rows) =
         map (\<lambda>b. (b_project_id b, b_build_number b)) rows"
  using assms by (auto simp: keeps_key_def update_where_def)

lemma store_inv_update:
  assumes inv: "store_inv db"
    and rows: "builds db' = update_where P f (builds db)"
    and events: "build_events db' = build_events db @ es"
    and key: "keeps_key f"
    and refs: "\<And>e. e \<in> set es \<Longrightarrow> be_build_id e \<in> b_id ` set (builds db)"
    and ok: "\<And>b. b \<in> set (builds db) \<Longrightarrow> P b \<Longrightarrow> row_ok b \<Longrightarrow> row_ok (f b)"
    and trail: "\<And>b. b \<in> set (builds db) \<Longrightarrow>
        run_trail (b_status b) (moves (b_id b) es) = Some (b_status (if P b then f b else b)) \<and>
        list_all allowed_move (moves (b_id b) es)"
  shows "store_inv db'"
proof -
  let ?u = "\<lambda>b. if P b then f b else b"
  have ids: "b_id ` set (builds db') = b_id ` set (builds db)"
    using arg_cong[OF update_keys(1)[OF key, of P "builds db"], of set] by (simp add: rows)
  have idu: "b_id (?u b) = b_id b" for b using key by (simp add: keeps_key_def)
  have each: "row_ok (?u b) \<and> trail_ok db' (?u b) \<and>
      list_all allowed_move (moves (b_id (?u b)) (build_events db'))"
    if b: "b \<in> set (builds db)" for b
  proof -
    note I = store_invD(3,4,6)[OF inv b]
    have "row_ok (?u b)" using ok[OF b] I(1) by simp
    moreover have "trail_ok db' (?u b)"
      using I(2) trail[OF b] idu[of b] by (simp add: trail_ok_def events run_trail_append)
    ultimately show ?thesis
      using I(3) trail[OF b] idu[of b] by (simp add: events)
  qed
  have all: "row_ok b' \<and> trail_ok db' b' \<and> list_all allowed_move (moves (b_id b') (build_events db'))"
    if "b' \<in> set (builds db')" for b'
  proof -
    from that obtain b where "b \<in> set (builds db)" and "b' = ?u b"
      unfolding rows by (auto simp only: in_set_update_where)
    with each[of b] show ?thesis by simp
  qed
  have refs': "be_build_id e \<in> b_id ` set (builds db')" if "e \<in> set (build_events db')" for e
    using that store_invD(5)[OF inv] refs unfolding ids events by auto
  have keys: "distinct (map b_id (builds db'))"
    "distinct (map (\<lambda>b. (b_project_id b, b_build_number b)) (builds db'))"
    unfolding rows update_keys[OF key] using store_invD(1,2)[OF inv] by simp_all
  show ?thesis
    unfolding store_inv_def using keys all refs' by blast
qed

lemma store_inv_cong:
  assumes "store_inv db" and "builds db' = builds db" and "build_events db' = build_events db"
  shows "store_inv db'"
  using assms by (simp add: store_inv_def trail_ok_def)

subsection \<open>Every step keeps the invariant\<close>

lemma key_row_unique:
  assumes "store_inv db" and "b \<in> set (builds db)" and "c \<in> set (builds db)" and "b_id b = b_id c"
  shows "b = c"
  using key_unique[OF store_invD(1)[OF assms(1)] assms(2-4)] .

lemma store_inv_no_events:
  assumes "store_inv db" and "builds db' = update_where P f (builds db)"
    and "build_events db' = build_events db" and "keeps_key f"
    and "\<And>b. b \<in> set (builds db) \<Longrightarrow> P b \<Longrightarrow> row_ok b \<Longrightarrow> row_ok (f b)"
    and "\<And>b. b \<in> set (builds db) \<Longrightarrow> P b \<Longrightarrow> b_status (f b) = b_status b"
  shows "store_inv db'"
  by (rule store_inv_update[OF assms(1,2), where es = "[]"]) (use assms in auto)

text \<open>A guarded update of the one row named \<open>bid\<close>, with one event for its move.\<close>

lemma store_inv_one_row:
  assumes inv: "store_inv db"
    and rows: "builds db' = update_where P f (builds db)"
    and events: "build_events db' = build_events db @ [build_event_row bid (Some s) t actor reason now]"
    and key: "keeps_key f"
    and row: "r \<in> set (builds db)" "P r"
    and guard: "\<And>b. P b \<Longrightarrow> b_id b = bid \<and> b_status b = s"
    and target: "\<And>b. b_status (f b) = t"
    and move: "allowed_move (s, t)"
    and ok: "\<And>b. P b \<Longrightarrow> row_ok b \<Longrightarrow> row_ok (f b)"
  shows "store_inv db'"
proof (rule store_inv_update[OF inv rows events key])
  show "be_build_id e \<in> b_id ` set (builds db)"
    if "e \<in> set [build_event_row bid (Some s) t actor reason now]" for e
    using that row guard[OF row(2)] by (auto simp: build_event_row_def intro: rev_image_eqI)
  show "row_ok (f b)" if "P b" "row_ok b" for b using that by (rule ok)
  show "run_trail (b_status b) (moves (b_id b) [build_event_row bid (Some s) t actor reason now]) =
        Some (b_status (if P b then f b else b)) \<and>
        list_all allowed_move (moves (b_id b) [build_event_row bid (Some s) t actor reason now])"
    if "b \<in> set (builds db)" for b
  proof (cases "b_id b = bid")
    case True
    with guard[OF row(2)] have "b = r" using key_row_unique[OF inv that row(1)] by simp
    with row(2) guard[OF row(2)] target[of r] move show ?thesis by simp
  next
    case False
    then have "\<not> P b" using guard[of b] by blast
    with False show ?thesis by simp
  qed
qed

lemma keeps_key_columns:
  "keeps_key (transition_columns now s t)"
  "keeps_key (store_results rr)"
  "keeps_key (cancel_columns now)"
  "keeps_key (assign_columns now rid h)"
  "keeps_key (approval_columns now t d a r)"
  "keeps_key (\<lambda>b. b\<lparr>b_status := x, b_finished_at := y, b_updated_at := z\<rparr>)"
  "keeps_key (\<lambda>b. b\<lparr>b_status := x, b_updated_at := z\<rparr>)"
  "keeps_key (\<lambda>b. b\<lparr>b_expired_from := Some (b_status b)\<rparr>)"
  by (simp_all add: keeps_key_def transition_columns_def store_results_def cancel_columns_def
      assign_columns_def approval_columns_def Let_def split: option.splits)

lemma status_columns [simp]:
  "b_status (transition_columns now s t b) = t"
  "b_status (cancel_columns now b) = Canceled"
  "b_status (assign_columns now rid h b) = Assigned"
  "b_status (approval_columns now t d a r b) = t"
  by (simp_all add: transition_columns_def cancel_columns_def assign_columns_def approval_columns_def)

lemma row_ok_transition:
  assumes "build_can_transition_to (b_status b) t" and "requested_status t" and "row_ok b"
  shows "row_ok (transition_columns now (b_status b) t b)"
  using assms
  by (cases t; cases "b_status b")
    (auto simp: row_defs transition_columns_def requested_status_def build_can_transition_to_def)

lemma row_ok_results: "row_ok (store_results rr b) = row_ok b" "b_status (store_results rr b) = b_status b"
  by (simp_all add: row_defs store_results_def Let_def split: option.splits)

lemma row_ok_cancel: "row_ok b \<Longrightarrow> row_ok (cancel_columns now b)"
  by (auto simp: row_defs cancel_columns_def)

lemma rows_affected_obtain:
  assumes "rows_affected P rows \<noteq> 0"
  obtains r where "r \<in> set rows" and "P r"
  using assms by (auto simp: rows_affected_0)

lemma commit_transition_inv:
  assumes inv: "store_inv db" and can: "build_can_transition_to s t" and req: "requested_status t"
    and run: "commit_transition now bid s t actor reason results db = Inr db'"
  shows "store_inv db'"
proof -
  let ?g = "\<lambda>b. b_id b = bid \<and> b_status b = s"
  let ?db1 = "db\<lparr>builds := update_where ?g (transition_columns now s t) (builds db),
      build_events := build_events db @ [build_event_row bid (Some s) t actor reason now]\<rparr>"
  from run have aff: "rows_affected ?g (builds db) \<noteq> 0"
    by (auto simp: commit_transition_def Let_def split: if_splits)
  then obtain r where r: "r \<in> set (builds db)" "?g r" by (rule rows_affected_obtain)
  have db1: "store_inv ?db1"
    by (rule store_inv_one_row[where P = ?g and r = r, OF inv _ _ keeps_key_columns(1)[of now s t] r])
      (use can req in \<open>auto simp: allowed_move_def row_ok_transition\<close>)
  show ?thesis
  proof (cases results)
    case None
    with run aff have "db' = ?db1" by (simp add: commit_transition_def Let_def)
    with db1 show ?thesis by simp
  next
    case (Some rr)
    with run aff have "builds db' = update_where (\<lambda>b. b_id b = bid) (store_results rr) (builds ?db1)"
      "build_events db' = build_events ?db1"
      by (auto simp: commit_transition_def Let_def)
    then show ?thesis
      by (rule store_inv_no_events[OF db1 _ _ keeps_key_columns(2)]) (simp_all add: row_ok_results)
  qed
qed

lemma cancel_rows_inv:
  assumes inv: "store_inv db" and sel: "\<And>b. sel b \<Longrightarrow> \<not> terminal_status b"
  shows "store_inv (cancel_rows now sel actor reason db)"
proof (rule store_inv_update[OF inv _ _ keeps_key_columns(3)[of now]])
  let ?es = "map (\<lambda>b. build_event_row (b_id b) (Some (b_status b)) Canceled actor (Some reason) now)
      (filter sel (builds db))"
  show "build_events (cancel_rows now sel actor reason db) = build_events db @ ?es"
    and "builds (cancel_rows now sel actor reason db) = update_where sel (cancel_columns now) (builds db)"
    by (simp_all add: cancel_rows_def)
  show "be_build_id e \<in> b_id ` set (builds db)" if "e \<in> set ?es" for e
    using that by (auto simp: build_event_row_def)
  show "run_trail (b_status b) (moves (b_id b) ?es) =
        Some (b_status (if sel b then cancel_columns now b else b)) \<and>
        list_all allowed_move (moves (b_id b) ?es)" if "b \<in> set (builds db)" for b
  proof (cases "sel b")
    case True
    have "allowed_move (b_status b, Canceled)"
      using sel[OF True] by (cases "b_status b") (auto simp: allowed_move_def build_can_transition_to_def)
    with True show ?thesis
      by (simp add: moves_per_row[OF store_invD(1)[OF inv] that] cancel_columns_def)
  qed (simp add: moves_per_row[OF store_invD(1)[OF inv] that])
qed (simp add: row_ok_cancel)

lemma record_build_approval_inv:
  assumes inv: "store_inv db"
    and run: "record_build_approval bid actor decision reason now db = Inr (s, ev, db')"
  shows "store_inv db'"
proof -
  from run have aff: "rows_affected (approval_guard bid) (builds db) \<noteq> 0"
    by (auto simp: record_build_approval_def Let_def and_then_eq_Inr split: if_splits BuildApprovalState.splits)
  then obtain r where r: "r \<in> set (builds db)" "approval_guard bid r" by (rule rows_affected_obtain)
  have st: "s = Queued \<and> decision = Approval_Approved \<or> s = Canceled \<and> decision = Approval_Rejected"
    and rows: "builds db' = update_where (approval_guard bid)
        (approval_columns now s decision actor reason) (builds db)"
    and events: "build_events db' = build_events db @
        [build_event_row bid (Some Queued) s (Some actor) (Some ev) now]"
    using run aff by (auto simp: record_build_approval_def Let_def and_then_eq_Inr
        split: if_splits BuildApprovalState.splits)
  show ?thesis
    by (rule store_inv_one_row[OF inv rows events keeps_key_columns(5) r])
      (use st in \<open>auto simp: approval_guard_def approval_columns_def allowed_move_def row_defs
          build_can_transition_to_def\<close>)
qed

lemma next_build_number_greater:
  assumes "b \<in> set rows" and "b_project_id b = pid"
  shows "b_build_number b < next_build_number pid rows"
proof -
  let ?ns = "map b_build_number (filter (\<lambda>b. b_project_id b = pid) rows)"
  have "b_build_number b \<in> set ?ns" using assms by auto
  then have "?ns \<noteq> [] \<and> b_build_number b \<le> Max (set ?ns)" by (auto simp del: set_map)
  then show ?thesis by (simp add: next_build_number_def Let_def)
qed

lemma append_row_inv:
  assumes inv: "store_inv db" and fresh: "bi_build_id b \<notin> b_id ` set (builds db)"
    and rows: "builds db' = builds db @ [inserted_row b (builds db)]"
    and events: "build_events db' = build_events db"
  shows "store_inv db'"
proof -
  let ?row = "inserted_row b (builds db)"
  have row: "b_id ?row = bi_build_id b" "b_status ?row = Queued" "row_ok ?row"
    "b_project_id ?row = bi_project_id b"
    "b_build_number ?row = next_build_number (bi_project_id b) (builds db)"
    by (auto simp: inserted_row_def row_defs)
  have "moves (bi_build_id b) (build_events db) = []"
  proof (rule moves_none)
    fix e assume "e \<in> set (build_events db)"
    from store_invD(5)[OF inv this] fresh show "be_build_id e \<noteq> bi_build_id b" by auto
  qed
  then have "trail_ok db' ?row" by (simp add: trail_ok_def events row)
  moreover have "trail_ok db' r" if "r \<in> set (builds db)" for r
    using store_invD(4)[OF inv that] by (simp add: trail_ok_def events)
  moreover have "(b_project_id ?row, b_build_number ?row) \<notin>
      (\<lambda>r. (b_project_id r, b_build_number r)) ` set (builds db)"
  proof
    assume "(b_project_id ?row, b_build_number ?row) \<in>
      (\<lambda>r. (b_project_id r, b_build_number r)) ` set (builds db)"
    then obtain r where "r \<in> set (builds db)" "b_project_id r = bi_project_id b"
      "b_build_number r = next_build_number (bi_project_id b) (builds db)"
      by (auto simp: row)
    with next_build_number_greater[of r "builds db" "bi_project_id b"] show False by simp
  qed
  moreover have "list_all allowed_move (moves (b_id ?row) (build_events db))"
    by (simp add: row \<open>moves (bi_build_id b) (build_events db) = []\<close>)
  ultimately show ?thesis
    using store_invD[OF inv] fresh row(1,3)
    unfolding store_inv_def rows events by (simp add: image_iff)
qed

lemma supersede_inv: "store_inv db \<Longrightarrow> store_inv (supersede b row db)"
  by (auto simp: supersede_def superseded_def split: option.splits intro!: cancel_rows_inv)

lemma execute_insert_cases:
  assumes run: "execute_build_insert b db = Inr (ok, db')"
  shows "\<not> ok \<and> db' = db \<or>
     ok \<and> insert_allowed b db \<and> bi_build_id b \<notin> b_id ` set (builds db) \<and>
     (\<exists>w. db' = supersede b (inserted_row b (builds db))
        (db\<lparr>builds := builds db @ [inserted_row b (builds db)], webhook_build_claims := w\<rparr>))"
proof (cases "insert_allowed b db \<and> \<not> exists_row (\<lambda>r. b_id r = bi_build_id b) (builds db)")
  case False
  with run show ?thesis by (auto simp: execute_build_insert_def split: if_splits)
next
  case True
  then have fresh: "bi_build_id b \<notin> b_id ` set (builds db)" by (auto simp: exists_row_iff)
  show ?thesis
  proof (cases "bi_webhook_id b")
    case None
    have "db\<lparr>builds := rows\<rparr> = db\<lparr>builds := rows, webhook_build_claims := webhook_build_claims db\<rparr>"
      for rows by simp
    with True run None have "ok \<and> db' = supersede b (inserted_row b (builds db))
        (db\<lparr>builds := builds db @ [inserted_row b (builds db)],
           webhook_build_claims := webhook_build_claims db\<rparr>)"
      by (simp add: execute_build_insert_def Let_def)
    with True fresh show ?thesis by blast
  next
    case (Some wid)
    with True run fresh show ?thesis
      by (simp add: execute_build_insert_def Let_def split: if_splits) blast
  qed
qed

lemma execute_build_insert_inv:
  assumes inv: "store_inv db" and run: "execute_build_insert b db = Inr (ok, db')"
  shows "store_inv db'"
proof (cases ok)
  case False
  with execute_insert_cases[OF run] inv show ?thesis by simp
next
  case True
  let ?row = "inserted_row b (builds db)"
  from execute_insert_cases[OF run] True obtain w where fresh: "bi_build_id b \<notin> b_id ` set (builds db)"
    and db': "db' = supersede b ?row (db\<lparr>builds := builds db @ [?row], webhook_build_claims := w\<rparr>)"
    by blast
  have "store_inv (db\<lparr>builds := builds db @ [?row], webhook_build_claims := w\<rparr>)"
    by (rule append_row_inv[OF inv fresh]) simp_all
  then show ?thesis unfolding db' by (rule supersede_inv)
qed

text \<open>Under the invariant a successful claim is one update from queued to assigned.\<close>

lemma claim_effect:
  assumes inv: "store_inv db"
    and run: "claim_eligible_direct_runner_build now bid rid actor h db = Inr (True, db')"
  obtains r where "r \<in> set (builds db)" and "b_id r = bid" and "eligible db rid r"
    and "\<not> lease_active now db"
    and "builds db' = update_where (\<lambda>b. b_id b = bid \<and> eligible db rid b) (assign_columns now rid h) (builds db)"
    and "build_events db' = build_events db @
           [build_event_row bid (Some Queued) Scheduled (Some actor) (Some ''claimed by runner'') now,
            build_event_row bid (Some Scheduled) Assigned (Some actor) (Some ''assigned to runner'') now]"
    and "db' = db\<lparr>builds := builds db', build_events := build_events db'\<rparr>"
proof -
  let ?g = "\<lambda>b. b_id b = bid \<and> eligible db rid b"
  let ?f = "\<lambda>b. b\<lparr>b_status := Scheduled, b_updated_at := now\<rparr>"
  let ?rows1 = "update_where ?g ?f (builds db)"
  from run have aff: "rows_affected ?g (builds db) \<noteq> 0" and lease: "\<not> lease_active now db"
    by (auto simp: claim_eligible_direct_runner_build_def Let_def split: if_splits)
  from aff obtain r where r: "r \<in> set (builds db)" "?g r" by (rule rows_affected_obtain)
  from run aff lease have db': "db' = db\<lparr>
      builds := update_where (assignable bid) (assign_columns now rid h) ?rows1,
      build_events := build_events db @
        [build_event_row bid (Some Queued) Scheduled (Some actor) (Some ''claimed by runner'') now,
         build_event_row bid (Some Scheduled) Assigned (Some actor) (Some ''assigned to runner'') now]\<rparr>"
    by (auto simp: claim_eligible_direct_runner_build_def Let_def split: if_splits)
  have pointwise: "(if assignable bid (if ?g b then ?f b else b)
        then assign_columns now rid h (if ?g b then ?f b else b) else (if ?g b then ?f b else b)) =
      (if ?g b then assign_columns now rid h b else b)" if b: "b \<in> set (builds db)" for b
  proof (cases "?g b")
    case True
    then have "b_status b = Queued" by (simp add: eligible_def)
    with store_invD(3)[OF inv b] have "b_runner_id b = None" by (auto simp: row_defs)
    with True show ?thesis by (simp add: assignable_def assign_columns_def)
  next
    case False
    with key_row_unique[OF inv b r(1)] r(2) have "b_id b \<noteq> bid" by auto
    with False show ?thesis by (simp add: assignable_def)
  qed
  have rows: "update_where (assignable bid) (assign_columns now rid h) ?rows1 =
      update_where ?g (assign_columns now rid h) (builds db)"
    using pointwise unfolding update_where_def map_map comp_def by (intro map_cong[OF refl]) simp
  from r lease show thesis
    by (intro that[of r]) (simp_all add: db' rows)
qed

lemma row_ok_assign: "row_ok b \<Longrightarrow> eligible db rid b \<Longrightarrow> row_ok (assign_columns now rid h b)"
  by (auto simp: row_defs eligible_def approved_def assign_columns_def)

lemma claim_inv:
  assumes inv: "store_inv db"
    and run: "claim_eligible_direct_runner_build now bid rid actor h db = Inr (ok, db')"
  shows "store_inv db'"
proof (cases ok)
  case False
  with run have "db' = db"
    by (auto simp: claim_eligible_direct_runner_build_def Let_def split: if_splits)
  with inv show ?thesis by simp
next
  case True
  let ?g = "\<lambda>b. b_id b = bid \<and> eligible db rid b"
  from run True have run': "claim_eligible_direct_runner_build now bid rid actor h db = Inr (True, db')"
    by simp
  obtain r where r: "r \<in> set (builds db)" "b_id r = bid" "eligible db rid r"
    and rows: "builds db' = update_where ?g (assign_columns now rid h) (builds db)"
    and events: "build_events db' = build_events db @
       [build_event_row bid (Some Queued) Scheduled (Some actor) (Some ''claimed by runner'') now,
        build_event_row bid (Some Scheduled) Assigned (Some actor) (Some ''assigned to runner'') now]"
    by (rule claim_effect[OF inv run'])
  show ?thesis
  proof (rule store_inv_update[OF inv rows events keeps_key_columns(4)])
    fix e assume "e \<in> set [build_event_row bid (Some Queued) Scheduled (Some actor) (Some ''claimed by runner'') now,
        build_event_row bid (Some Scheduled) Assigned (Some actor) (Some ''assigned to runner'') now]"
    with r(1,2) show "be_build_id e \<in> b_id ` set (builds db)"
      by (auto simp: build_event_row_def intro: rev_image_eqI)
  next
    fix b assume b: "b \<in> set (builds db)"
    show "run_trail (b_status b) (moves (b_id b)
          [build_event_row bid (Some Queued) Scheduled (Some actor) (Some ''claimed by runner'') now,
           build_event_row bid (Some Scheduled) Assigned (Some actor) (Some ''assigned to runner'') now]) =
          Some (b_status (if ?g b then assign_columns now rid h b else b)) \<and>
        list_all allowed_move (moves (b_id b)
          [build_event_row bid (Some Queued) Scheduled (Some actor) (Some ''claimed by runner'') now,
           build_event_row bid (Some Scheduled) Assigned (Some actor) (Some ''assigned to runner'') now])"
    proof (cases "b_id b = bid")
      case True
      then have "b = r" using key_row_unique[OF inv b r(1)] r(2) by simp
      moreover have "b_status r = Queued" using r(3) by (simp add: eligible_def)
      ultimately show ?thesis
        using True r(3) by (simp add: allowed_move_def build_can_transition_to_def)
    qed simp
  qed (auto intro: row_ok_assign)
qed

lemma fail_blocked_build_inv:
  assumes inv: "store_inv db"
  shows "store_inv (fail_blocked_build now blocked db)"
proof -
  obtain bid url where b: "blocked = (bid, url)" by (cases blocked)
  let ?g = "\<lambda>b. b_id b = bid \<and> b_status b = Queued"
  let ?f = "\<lambda>b. b\<lparr>b_status := Failed, b_finished_at := Some now, b_updated_at := now\<rparr>"
  have le: "rows_affected ?g (builds db) \<le> 1"
    by (rule rows_affected_key[OF store_invD(1)[OF inv]]) simp
  show ?thesis
  proof (cases "rows_affected ?g (builds db) = 0")
    case True
    then have "update_where ?g ?f (builds db) = builds db"
      by (intro update_where_no_match) (auto simp: rows_affected_0)
    with True show ?thesis
      by (intro store_inv_cong[OF inv]) (simp_all add: fail_blocked_build_def b Let_def)
  next
    case False
    then obtain r where r: "r \<in> set (builds db)" "?g r" by (rule rows_affected_obtain)
    from False le have one: "rows_affected ?g (builds db) = 1" by simp
    show ?thesis
      by (rule store_inv_one_row[where P = ?g and r = r, OF inv _ _ keeps_key_columns(6)[where x = Failed and y = "Some now" and z = now] r])
        (use one in \<open>auto simp: fail_blocked_build_def b Let_def allowed_move_def row_defs\<close>)
  qed
qed

lemma remember_outcome_inv: "store_inv db \<Longrightarrow> store_inv (remember_outcome bid db)"
  by (rule store_inv_no_events[OF _ _ _ keeps_key_columns(8)])
    (auto simp: remember_outcome_def row_defs)

lemma record_initial_event_inv:
  assumes "store_inv db" and "exists_row (\<lambda>b. b_id b = bid) (builds db)"
  shows "store_inv (record_initial_event now bid actor reason db)"
proof (rule store_inv_update[OF assms(1), where P = "\<lambda>_. False" and f = id])
  show "builds (record_initial_event now bid actor reason db) = update_where (\<lambda>_. False) id (builds db)"
    by (simp add: record_initial_event_def update_where_def)
  show "build_events (record_initial_event now bid actor reason db) =
      build_events db @ [build_event_row bid None Queued actor (Some reason) now]"
    by (simp add: record_initial_event_def)
qed (use assms(2) in \<open>auto simp: keeps_key_def exists_row_iff\<close>)

lemma change_project_source_inv:
  assumes "store_inv db" and "change_project_source now auth pid rid db = Inr db'"
  shows "store_inv db'"
proof -
  let ?db0 = "write_audit_log (Some (au_user_id auth)) ''project_source_link_updated'' ''project''
      (Some pid) [(''repository_id'', Some rid), (''updated_by'', Some (au_email auth))] db"
  let ?db1 = "cancel_rows now (\<lambda>b. b_project_id b = pid \<and> unassigned b) (Some (au_email auth))
      ''Canceled because the project source changed; trigger a new build from the new source'' ?db0"
  have "store_inv ?db0"
    by (rule store_inv_cong[OF assms(1)]) (simp_all add: write_audit_log_def)
  then have "store_inv ?db1"
    by (rule cancel_rows_inv) (auto simp: unassigned_def)
  moreover from assms(2) have "\<exists>d \<in> {db, ?db1}. builds db' = builds d \<and> build_events db' = build_events d"
    unfolding change_project_source_def Let_def by (auto split: if_splits)
  ultimately show ?thesis using assms(1) by (auto intro: store_inv_cong)
qed

lemma acquire_barrier_inv:
  assumes inv: "store_inv db" and run: "acquire_barrier now token db = Some db'"
  shows "store_inv db'"
proof -
  let ?g = "\<lambda>b. b_status b = Scheduled \<and> b_runner_id b = None"
  let ?es = "map (\<lambda>b. build_event_row (b_id b) (Some Scheduled) Queued (Some ''system'')
      (Some ''Requeued before a maintenance drain because no runner had accepted the build'') now)
      (filter ?g (builds db))"
  show ?thesis
  proof (rule store_inv_update[OF inv, where P = ?g and f = "\<lambda>b. b\<lparr>b_status := Queued, b_updated_at := now\<rparr>" and es = ?es])
    fix b assume "b \<in> set (builds db)"
    from moves_per_row[OF store_invD(1)[OF inv] this, of "\<lambda>_. Scheduled" Queued "Some ''system''" _ now ?g]
    show "run_trail (b_status b) (moves (b_id b) ?es) =
        Some (b_status (if ?g b then b\<lparr>b_status := Queued, b_updated_at := now\<rparr> else b)) \<and>
        list_all allowed_move (moves (b_id b) ?es)"
      by (auto simp: allowed_move_def build_can_transition_to_def)
  qed (use run in \<open>auto simp: acquire_barrier_def Let_def keeps_key_def row_defs
        split: if_splits\<close>)
qed

lemma moves_filter: "(\<And>e. be_build_id e = bid \<Longrightarrow> Q e) \<Longrightarrow> moves bid (filter Q es) = moves bid es"
  by (induction es) (auto simp: moves_def map_filter_def)

lemma delete_builds_rows:
  "r' \<in> set (builds (delete_builds P db)) \<Longrightarrow>
   \<exists>r \<in> set (builds db). \<not> P r \<and> r' = r\<lparr>b_source_build_id := b_source_build_id r'\<rparr>"
  by (auto simp: delete_builds_def Let_def)

lemma delete_builds_inv:
  assumes inv: "store_inv db"
  shows "store_inv (delete_builds P db)"
proof -
  let ?gone = "map b_id (filter P (builds db))"
  let ?es = "filter (\<lambda>e. be_build_id e \<notin> set ?gone) (build_events db)"
  let ?u = "\<lambda>b. b\<lparr>b_source_build_id := (case b_source_build_id b of
      None \<Rightarrow> None | Some s \<Rightarrow> if s \<in> set ?gone then None else Some s)\<rparr>"
  have rows: "builds (delete_builds P db) = map ?u (filter (\<lambda>b. \<not> P b) (builds db))"
    and events: "build_events (delete_builds P db) = ?es"
    by (simp_all add: delete_builds_def Let_def)
  have keep: "b_id r \<notin> set ?gone" if "r \<in> set (builds db)" "\<not> P r" for r
    using key_row_unique[OF inv that(1)] that(2) by auto
  have moves: "moves (b_id r) ?es = moves (b_id r) (build_events db)"
    if "r \<in> set (builds db)" "\<not> P r" for r
    by (rule moves_filter) (use keep[OF that] in auto)
  have rows_fine: "row_ok (?u r) \<and> trail_ok (delete_builds P db) (?u r) \<and>
      list_all allowed_move (moves (b_id (?u r)) (build_events (delete_builds P db)))"
    if "r \<in> set (builds db)" "\<not> P r" for r
    using store_invD(3,4,6)[OF inv that(1)] moves[OF that]
    by (simp add: row_defs trail_ok_def events)
  have refs: "be_build_id e \<in> b_id ` set (builds (delete_builds P db))"
    if "e \<in> set (build_events (delete_builds P db))" for e
  proof -
    from that have "e \<in> set (build_events db)" "be_build_id e \<notin> set ?gone" by (simp_all add: events)
    with store_invD(5)[OF inv] obtain r where "r \<in> set (builds db)" "be_build_id e = b_id r" "\<not> P r" by force
    then have member: "?u r \<in> set (builds (delete_builds P db))" unfolding rows set_map set_filter by blast
    have "be_build_id e = b_id (?u r)" using \<open>be_build_id e = b_id r\<close> by simp
    then show ?thesis using member by (rule image_eqI)
  qed
  have keys: "distinct (map b_id (builds (delete_builds P db)))"
    "distinct (map (\<lambda>b. (b_project_id b, b_build_number b)) (builds (delete_builds P db)))"
    using store_invD(1,2)[OF inv] by (simp_all add: rows comp_def distinct_map_filter)
  show ?thesis
    unfolding store_inv_def
  proof (intro conjI ballI keys refs)
    fix b assume "b \<in> set (builds (delete_builds P db))"
    then obtain r where "r \<in> set (builds db)" "\<not> P r" "b = ?u r" unfolding rows by auto
    with rows_fine[of r] show "row_ok b" "trail_ok (delete_builds P db) b"
      "list_all allowed_move (moves (b_id b) (build_events (delete_builds P db)))" by blast+
  qed
qed

lemma quiet_step_inv: "quiet_step db db' \<Longrightarrow> store_inv db \<Longrightarrow> store_inv db'"
proof (induction rule: quiet_step.induct)
  case (source_removed db now ids)
  then show ?case
    unfolding cancel_unassigned_builds_for_removed_repositories_def
    by (auto simp: unassigned_def intro!: cancel_rows_inv)
qed (blast intro: execute_build_insert_inv record_initial_event_inv commit_transition_inv
      record_build_approval_inv fail_blocked_build_inv change_project_source_inv remember_outcome_inv
      delete_builds_inv acquire_barrier_inv store_inv_cong)+

lemma daemon_step_inv: "daemon_step db db' \<Longrightarrow> store_inv db \<Longrightarrow> store_inv db'"
  by (erule daemon_stepE) (blast intro: quiet_step_inv claim_inv)+

interpretation lifecycle: invariant_of daemon_step store_inv
  by unfold_locales (rule daemon_step_inv)

subsection \<open>Handlers and monitors are runs of steps\<close>

named_theorems run_intros \<open>one step or one handler as a run\<close>

lemma transition_step:
  assumes "transition_build_with_results now bid t actor reason results db = Inr db'"
    and "requested_status t"
  shows "quiet_step db db'"
proof -
  from assms(1) obtain s where "check_transition db bid t = Inr s"
    and run: "commit_transition now bid s t actor reason results db = Inr db'"
    by (auto simp: transition_build_with_results_def and_then_eq_Inr)
  then have "build_can_transition_to s t"
    by (auto simp: check_transition_def split: option.splits if_splits)
  from quiet_step.commit[OF this assms(2) run] show ?thesis .
qed

lemma transition_build_step:
  "transition_build now bid t actor reason db = Inr db' \<Longrightarrow> requested_status t \<Longrightarrow> quiet_step db db'"
  unfolding transition_build_def by (rule transition_step)

lemma publish_quiet [run_intros]: "quiet_step\<^sup>*\<^sup>* db (publish_event e db)"
  by (rule r_into_rtranclp, rule quiet_step.other) (simp_all add: publish_event_def)

lemma audit_quiet [run_intros]: "quiet_step\<^sup>*\<^sup>* db (write_audit_log a b c d e db)"
  by (rule r_into_rtranclp, rule quiet_step.other) (simp_all add: write_audit_log_def)

lemma requested_simps [simp]:
  "requested_status Queued" "requested_status Running" "requested_status Succeeded"
  "requested_status Failed" "requested_status Canceled" "requested_status TimedOut"
  "requested_status Expired"
  by (simp_all add: requested_status_def)

lemma transition_then [run_intros]:
  assumes "transition_build now bid t actor reason db = Inr db1" and "requested_status t"
    and "quiet_step\<^sup>*\<^sup>* db1 db2"
  shows "quiet_step\<^sup>*\<^sup>* db db2"
  using transition_build_step[OF assms(1,2)] assms(3) by (rule converse_rtranclp_into_rtranclp)

interpretation releases: sweep quiet_step snd "release_one now reason" for now reason
proof
  show "quiet_step\<^sup>*\<^sup>* (snd acc) (snd (release_one now reason row acc))" for acc row
    by (cases row; cases acc)
      (auto simp: release_one_def Let_def split: sum.splits if_splits
        intro: transition_then publish_quiet transition_then[OF _ _ rtranclp.rtrancl_refl])
qed

interpretation requeues: sweep quiet_step snd "requeue_one now" for now
proof
  show "quiet_step\<^sup>*\<^sup>* (snd acc) (snd (requeue_one now row acc))" for acc row
    by (cases row; cases acc)
      (auto simp: requeue_one_def Let_def split: sum.splits if_splits
        intro: transition_then[OF _ _ rtranclp.rtrancl_refl])
qed

interpretation expiries: sweep quiet_step snd "expire_approval_one now" for now
proof
  show "quiet_step\<^sup>*\<^sup>* (snd acc) (snd (expire_approval_one now row acc))" for acc row
    by (cases row; cases acc)
      (auto simp: expire_approval_one_def Let_def split: sum.splits
        intro: transition_then publish_quiet)
qed

interpretation timeouts: sweep quiet_step snd "time_out_one now" for now
proof
  show "quiet_step\<^sup>*\<^sup>* (snd acc) (snd (time_out_one now row acc))" for acc row
    by (cases row; cases acc)
      (auto simp: time_out_one_def Let_def split: sum.splits intro: transition_then publish_quiet)
qed

interpretation recoveries: sweep quiet_step "\<lambda>db. db" "recover_one now" for now
proof
  show "quiet_step\<^sup>*\<^sup>* db (recover_one now bid db)" for db bid
    by (auto simp: recover_one_def split: sum.splits
        intro: transition_then[OF _ _ rtranclp.rtrancl_refl])
qed

interpretation credentials: sweep quiet_step "\<lambda>db. db" "fail_blocked_build now" for now
  by unfold_locales (blast intro: quiet_step.credential)

interpretation offline: sweep quiet_step "\<lambda>db. db" "mark_offline now" for now
  by unfold_locales (rule r_into_rtranclp, rule quiet_step.other, simp_all add: mark_offline_def Let_def)

lemma release_run [run_intros]: "quiet_step\<^sup>*\<^sup>* db (snd (release_runner_builds_except now rid active reason db))"
  using releases.fold_run[of "([], db)"] by (simp add: release_runner_builds_except_def)

interpretation lost: sweep quiet_step snd
  "\<lambda>rid (failed, d). let (more_failed, d1) = release_runner_builds now rid
     ''Lost contact with the runner: it stopped sending heartbeats'' d in (failed @ more_failed, d1)" for now
proof
  fix acc :: "string list \<times> daemon" and rid
  obtain failed d where acc: "acc = (failed, d)" by (cases acc)
  show "quiet_step\<^sup>*\<^sup>* (snd acc) (snd (case acc of (failed, d) \<Rightarrow>
     let (more_failed, d1) = release_runner_builds now rid
       ''Lost contact with the runner: it stopped sending heartbeats'' d in (failed @ more_failed, d1)))"
    using release_run[of d now rid "[]" "''Lost contact with the runner: it stopped sending heartbeats''"]
    by (simp add: acc release_runner_builds_def case_prod_beta Let_def)
qed

lemma monitor_runs:
  "quiet_step\<^sup>*\<^sup>* db (snd (requeue_expired_claims now db))"
  "quiet_step\<^sup>*\<^sup>* db (snd (expire_pending_approvals now db))"
  "quiet_step\<^sup>*\<^sup>* db (snd (time_out_overdue_builds now db))"
  "quiet_step\<^sup>*\<^sup>* db (snd (fail_builds_of_lost_runners now db))"
  "quiet_step\<^sup>*\<^sup>* db (snd (reload_pending now db))"
  "quiet_step\<^sup>*\<^sup>* db (fail_credential_blocked_builds now db)"
  using requeues.fold_run[of "([], db)"] expiries.fold_run[of "([], db)"]
    timeouts.fold_run[of "([], db)"] lost.fold_run[of "([], db)"] recoveries.fold_run credentials.fold_run
  by (simp_all add: requeue_expired_claims_def expire_pending_approvals_def time_out_overdue_builds_def
      fail_builds_of_lost_runners_def reload_pending_def fail_credential_blocked_builds_def Let_def)

lemma heartbeat_tick_run: "quiet_step\<^sup>*\<^sup>* db (runner_heartbeat_tick elapsed now db)"
proof -
  let ?db1 = "if RUNNER_LOST_SECS \<le> elapsed then snd (fail_builds_of_lost_runners now db) else db"
  have "quiet_step\<^sup>*\<^sup>* db ?db1" using monitor_runs(4) by auto
  also have "quiet_step\<^sup>*\<^sup>* ?db1 (runner_heartbeat_tick elapsed now db)"
    unfolding runner_heartbeat_tick_def Let_def by (rule offline.fold_run)
  finally show ?thesis .
qed

lemma claim_prepare_run: "quiet_step\<^sup>*\<^sup>* db (claim_prepare now rid req db)"
  unfolding claim_prepare_def using release_run monitor_runs(6) by (rule rtranclp_trans)

lemma quiet_runs_daemon: "quiet_step\<^sup>*\<^sup>* db db' \<Longrightarrow> daemon_step\<^sup>*\<^sup>* db db'"
  by (induction rule: rtranclp_induct) (auto intro: rtranclp.rtrancl_into_rtrancl daemon_step.quiet)

lemma claim_job_run: "daemon_step\<^sup>*\<^sup>* db (snd (claim_job hash enc now rid auth req token db))"
proof -
  note prep = quiet_runs_daemon[OF claim_prepare_run[of db now rid req]]
  show ?thesis
    using prep
    by (auto simp: claim_job_def Let_def split: option.splits sum.splits bool.splits
        intro: rtranclp.rtrancl_into_rtrancl daemon_step.claim)
qed

lemma cancel_build_run:
  assumes "cancel_build now auth bid db = Inr (b, db')"
  shows "quiet_step\<^sup>*\<^sup>* db db'"
proof -
  from assms obtain db1 d e f where t: "transition_build now bid Canceled (Some (au_email auth))
      (Some ''canceled by user'') db = Inr db1"
    and db': "db' = publish_event e (write_audit_log (Some (au_user_id auth)) ''build_canceled'' ''build''
      (Some bid) d db1)"
    by (auto simp: cancel_build_def and_then_eq_Inr Let_def)
  have "quiet_step\<^sup>*\<^sup>* db1 db'"
    unfolding db' using audit_quiet publish_quiet by (rule rtranclp_trans)
  with t show ?thesis by (intro transition_then[OF t]) simp_all
qed

lemma decide_run:
  assumes "decide_build_approval now auth bid reason decision db = Inr db'"
  shows "quiet_step\<^sup>*\<^sup>* db db'"
proof -
  from assms obtain s ev db1 e a k d r where
    t: "record_build_approval bid (au_email auth) decision (normalize_optional reason) now db = Inr (s, ev, db1)"
    and db': "db' = publish_event e (write_audit_log a k ''build'' r d db1)"
    by (auto simp: decide_build_approval_def and_then_eq_Inr Let_def split: if_splits)
  have "quiet_step\<^sup>*\<^sup>* db1 db'"
    unfolding db' using audit_quiet publish_quiet by (rule rtranclp_trans)
  with quiet_step.decide[OF t] show ?thesis by (rule converse_rtranclp_into_rtranclp)
qed

lemma update_job_status_run:
  assumes "update_job_status now rid job auth req db = Inr db'"
  shows "quiet_step\<^sup>*\<^sup>* db db'"
proof -
  from assms obtain t db1 where chk: "check_job_update rid job auth req db = Inr t"
    and tr: "transition_build_with_results now job t (Some (runner_actor rid)) (Some (report_reason req))
        (update_results req) db = Inr db1"
    and db': "db' = db1 \<or> (\<exists>e. db' = publish_event e db1)"
    by (auto simp: update_job_status_def and_then_eq_Inr split: if_splits)
  from chk have "requested_status t"
    by (auto simp: check_job_update_def and_then_eq_Inr split: if_splits sum.splits)
  from transition_step[OF tr this] db' publish_quiet[of db1] show ?thesis
    by (auto intro: converse_rtranclp_into_rtranclp)
qed

lemma cleanup_run:
  assumes "\<And>b. b \<in> set (builds db) \<Longrightarrow> b_id b = bid \<Longrightarrow> terminal_status b"
  shows "quiet_step\<^sup>*\<^sup>* db (snd (cleanup_build_record now released bid target db))"
proof -
  have rem: "quiet_step db (remember_outcome bid db)" by (rule quiet_step.remember)
  have expire: "quiet_step\<^sup>*\<^sup>* db (snd (case expire_build_artifacts now bid db of
      Inl _ \<Rightarrow> (False, remember_outcome bid db) | Inr db1 \<Rightarrow> (True, db1)))"
  proof (cases "expire_build_artifacts now bid db")
    case (Inr db1)
    then have "quiet_step (remember_outcome bid db) db1"
      by (simp add: expire_build_artifacts_def transition_build_step)
    with rem Inr show ?thesis by (simp add: rtranclp.rtrancl_into_rtrancl)
  qed (use rem in \<open>simp add: r_into_rtranclp\<close>)
  have delete: "quiet_step db (delete_builds (\<lambda>b. b_id b = bid \<and> bid \<notin> set released) db)"
  proof -
    let ?P = "\<lambda>b. b \<in> set (builds db) \<and> b_id b = bid \<and> bid \<notin> set released"
    have "delete_builds (\<lambda>b. b_id b = bid \<and> bid \<notin> set released) db = delete_builds ?P db"
      by (auto simp: delete_builds_def Let_def cong: filter_cong)
    with quiet_step.delete[of ?P db] assms show ?thesis by auto
  qed
  show ?thesis
    using expire delete by (cases target) (auto simp: cleanup_build_record_def Let_def)
qed

end
