(* ===== verification/Queue_Guarantees.thy ===== *)
theory Queue_Guarantees
  imports Build_Guarantees
begin

text \<open>
  The queue from the outside: who gets the next build, what the signing grant of a claim
  is good for, what a new build supersedes, how the sweeps end, what the maintenance
  barrier guarantees, and three behaviours of the handlers that differ from what
  their documentation says.
\<close>

subsection \<open>The next build\<close>

lemma fetch_first_Some:
  assumes "fetch_first key P rows = Some r"
  shows "r \<in> set rows \<and> P r" and "x \<in> set rows \<Longrightarrow> P x \<Longrightarrow> key r \<le> key x"
proof -
  from assms obtain rs where s: "sort_key key (filter P rows) = r # rs"
    by (auto simp: fetch_first_def split: list.splits)
  then have "set (filter P rows) = set (r # rs)" by (metis set_sort)
  then show "r \<in> set rows \<and> P r" by auto
  have "sorted (map key (r # rs))" by (metis s sorted_sort_key)
  moreover assume "x \<in> set rows" "P x"
  ultimately show "key r \<le> key x"
    using \<open>set (filter P rows) = set (r # rs)\<close> by (auto simp: set_eq_iff)
qed

lemma fetch_first_None: "fetch_first key P rows = None \<longleftrightarrow> (\<forall>x \<in> set rows. \<not> P x)"
proof -
  have "sort_key key (filter P rows) = [] \<longleftrightarrow> filter P rows = []"
    by (metis set_empty set_sort)
  then show ?thesis
    by (auto simp: fetch_first_def filter_empty_conv split: list.splits)
qed

lemma claim_succeeds:
  assumes inv: "store_inv db" and r: "r \<in> set (builds db)" "eligible db rid r"
    and lease: "\<not> lease_active now db"
  shows "\<exists>db'. claim_eligible_direct_runner_build now (b_id r) rid actor h db = Inr (True, db')"
proof -
  let ?g = "\<lambda>b. b_id b = b_id r \<and> eligible db rid b"
  let ?f = "\<lambda>b. b\<lparr>b_status := Scheduled, b_updated_at := now\<rparr>"
  let ?rows1 = "update_where ?g ?f (builds db)"
  have aff: "rows_affected ?g (builds db) \<noteq> 0" using r by (auto simp: rows_affected_0)
  have "b_runner_id r = None"
    using store_invD(3)[OF inv r(1)] r(2) by (auto simp: row_defs eligible_def)
  then have "assignable (b_id r) (?f r)" by (simp add: assignable_def)
  moreover have "?f r \<in> set ?rows1"
    using r unfolding in_set_update_where by (intro bexI[of _ r]) simp_all
  ultimately have "rows_affected (assignable (b_id r)) ?rows1 \<noteq> 0" by (auto simp: rows_affected_0)
  moreover have "rows_affected (assignable (b_id r)) ?rows1 \<le> 1"
  proof (rule rows_affected_key[where k = b_id])
    show "distinct (map b_id ?rows1)"
      using store_invD(1)[OF inv] by (simp only: update_keys(1)[OF keeps_key_columns(7)])
  qed (simp add: assignable_def)
  ultimately have "rows_affected (assignable (b_id r)) ?rows1 = 1" by simp
  with aff lease show ?thesis by (simp add: claim_eligible_direct_runner_build_def Let_def)
qed

lemma find_build_update:
  assumes "store_inv db" and "keeps_key f" and "builds db' = update_where P f (builds db)"
    and "b \<in> set (builds db)"
  shows "find_build db' (b_id b) = Some (if P b then f b else b)"
proof -
  have "fetch_optional (\<lambda>x. b_id x = b_id b) (update_where P f (builds db)) =
      map_option (\<lambda>r. if P r then f r else r) (fetch_optional (\<lambda>x. b_id x = b_id b) (builds db))"
    by (rule fetch_optional_update_key) (use assms(2) in \<open>simp add: keeps_key_def\<close>)
  then show ?thesis
    using fetch_by_key[OF store_invD(1)[OF assms(1)] assms(4)] by (simp add: find_build_def assms(3))
qed

text \<open>The preparation of a claim leaves the lease alone.\<close>

definition same_lease :: "daemon \<Rightarrow> daemon \<Rightarrow> bool" where
  "same_lease db db' \<longleftrightarrow> transition_lease db' = transition_lease db"

lemma transition_lease_kept:
  "transition_build now bid t actor reason db = Inr db' \<Longrightarrow> transition_lease db' = transition_lease db"
  by (auto simp: transition_build_def transition_build_with_results_def and_then_eq_Inr
      commit_transition_def Let_def split: if_splits)

interpretation release_lease: sweep same_lease snd "release_one now reason" for now reason
proof
  show "same_lease\<^sup>*\<^sup>* (snd acc) (snd (release_one now reason row acc))" for acc row
    by (rule r_into_rtranclp, cases row, cases acc)
      (auto simp: same_lease_def release_one_def Let_def publish_event_def transition_lease_kept
        split: sum.splits)
qed

interpretation credential_lease: sweep same_lease "\<lambda>db. db" "fail_blocked_build now" for now
  by unfold_locales
    (rule r_into_rtranclp, simp add: same_lease_def fail_blocked_build_def case_prod_beta Let_def)

lemma same_lease_run: "same_lease\<^sup>*\<^sup>* db db' \<Longrightarrow> transition_lease db' = transition_lease db"
  by (induction rule: rtranclp_induct) (auto simp: same_lease_def)

lemma claim_prepare_lease: "transition_lease (claim_prepare now rid req db) = transition_lease db"
proof -
  have "same_lease\<^sup>*\<^sup>* db (snd (release_runner_builds_except now rid active reason db))" for active reason
    using release_lease.fold_run[of "([], db)"] by (simp add: release_runner_builds_except_def)
  moreover have "same_lease\<^sup>*\<^sup>* d (fail_credential_blocked_builds now d)" for d
    unfolding fail_credential_blocked_builds_def by (rule credential_lease.fold_run)
  ultimately have "same_lease\<^sup>*\<^sup>* db (claim_prepare now rid req db)"
    unfolding claim_prepare_def by (blast intro: rtranclp_trans)
  then show ?thesis by (rule same_lease_run)
qed

lemma claim_prepare_inv: "store_inv db \<Longrightarrow> store_inv (claim_prepare now rid req db)"
  using lifecycle.run_inv[OF quiet_runs_daemon[OF claim_prepare_run]] .


definition sample_auth :: RunnerAuth where
  "sample_auth = \<lparr>ra_runner_id = ''m1'', ra_runner_name = ''m1''\<rparr>"

definition sample_claim_request :: claim_request where
  "sample_claim_request = \<lparr>cr_protocol_version = 6, cr_active_build_ids = []\<rparr>"


subsection \<open>Signing grants\<close>

text \<open>A claim issues exactly one signing grant: right after it the build's signing material is
  released to the claiming runner presenting a token with the claim's hash and to nobody else,
  so every grant of an earlier claim is void. Once a transition takes the build back to the
  queue or to a terminal status, no token releases it.\<close>

theorem signing_grant_is_exclusive:
  assumes "store_inv db"
    and "claim_eligible_direct_runner_build now bid rid actor h db = Inr (True, db')"
    and "transition_build now2 bid target actor2 reason db' = Inr db''"
    and "target = Queued \<or> build_is_terminal target"
  shows "((\<exists>pl. require_active_job_signing_grant hash db' bid x (Some t) = Inr pl) \<longleftrightarrow>
            x = rid \<and> t \<noteq> [] \<and> hash t = h) \<and>
         (\<exists>e. require_active_job_signing_grant hash db'' bid x header = Inl e \<and>
            err_code e = ''job_not_active'')"
proof -
  obtain r where r: "r \<in> set (builds db)" "b_id r = bid" "eligible db rid r"
    and rows: "builds db' = update_where (\<lambda>b. b_id b = bid \<and> eligible db rid b)
      (assign_columns now rid h) (builds db)"
    by (rule claim_effect[OF assms(1,2)])
  have found: "find_build db' bid = Some (assign_columns now rid h r)"
    using find_build_update[OF assms(1) keeps_key_columns(4) rows r(1)] r by simp
  have issued: "(\<exists>pl. require_active_job_signing_grant hash db' bid x (Some t) = Inr pl) \<longleftrightarrow>
      x = rid \<and> t \<noteq> [] \<and> hash t = h"
    by (auto simp: require_active_job_signing_grant_def found assign_columns_def and_then_eq_Inr
        split: if_splits)
  have inv': "store_inv db'" using claim_inv[OF assms(1,2)] .
  from assms(3) obtain s where "commit_transition now2 bid s target actor2 reason None db' = Inr db''"
    by (auto simp: transition_build_def transition_build_with_results_def and_then_eq_Inr)
  then have s: "rows_affected (\<lambda>b. b_id b = bid \<and> b_status b = s) (builds db') \<noteq> 0"
    and rows2: "builds db'' = update_where (\<lambda>b. b_id b = bid \<and> b_status b = s)
      (transition_columns now2 s target) (builds db')"
    by (auto simp: commit_transition_def Let_def split: if_splits)
  from found find_build_Some[OF inv'] have b: "assign_columns now rid h r \<in> set (builds db')"
    "b_id (assign_columns now rid h r) = bid" by auto
  from s obtain q where q: "q \<in> set (builds db')" "b_id q = bid" "b_status q = s"
    by (auto simp: rows_affected_0)
  with key_row_unique[OF inv' q(1) b(1)] b(2) have "b_status (assign_columns now rid h r) = s" by simp
  with find_build_update[OF inv' keeps_key_columns(1) rows2 b(1)] b(2)
  have "find_build db'' bid = Some (transition_columns now2 s target (assign_columns now rid h r))" by simp
  with assms(4) have "\<exists>e. require_active_job_signing_grant hash db'' bid x header = Inl e \<and>
      err_code e = ''job_not_active''"
    by (auto simp: require_active_job_signing_grant_def transition_columns_def)
  with issued show ?thesis by blast
qed

definition sample_canceled :: daemon where
  "sample_canceled = (case transition_build 1020 ''b1'' Canceled None None sample_assigned of
     Inl _ \<Rightarrow> sample_db | Inr d \<Rightarrow> d)"

lemma sample_cancel: "transition_build 1020 ''b1'' Canceled None None sample_assigned = Inr sample_canceled"
  by code_simp

theorem signing_grant_is_exclusive_witness:
  "(\<exists>pl. require_active_job_signing_grant (\<lambda>t. t) sample_assigned ''b1'' ''m1'' (Some ''secret'') = Inr pl) \<and>
   \<not> (\<exists>pl. require_active_job_signing_grant (\<lambda>t. t) sample_assigned ''b1'' ''m2'' (Some ''secret'') = Inr pl) \<and>
   (\<exists>e. require_active_job_signing_grant (\<lambda>t. t) sample_canceled ''b1'' ''m1'' (Some ''secret'') = Inl e \<and>
      err_code e = ''job_not_active'')"
proof -
  have inv: "store_inv (sample_queued False)" using daemon_step_inv[OF sample_run(1) sample_inv(1)] .
  have "Canceled = Queued \<or> build_is_terminal Canceled" by simp
  note grant = signing_grant_is_exclusive[OF inv sample_claim sample_cancel this, of "\<lambda>t. t"]
  from grant[of "''m1''" "''secret''" "Some ''secret''"] grant[of "''m2''" "''secret''" None]
  show ?thesis by simp
qed

subsection \<open>Creating builds\<close>

lemma superseded_effect:
  assumes inv: "store_inv db" and run: "execute_build_insert b db = Inr (True, db')"
  shows "find_build db' (bi_build_id b) = Some (inserted_row b (builds db))"
    and "o_b \<in> set (builds db) \<Longrightarrow>
      find_build db' (b_id o_b) = Some
        (if bi_cancel_previous b \<and> (\<exists>br. bi_branch b = Some br \<and> br \<noteq> [] \<and>
              superseded b br (next_build_number (bi_project_id b) (builds db)) o_b)
         then cancel_columns (bi_now b) o_b else o_b)"
proof -
  let ?row = "inserted_row b (builds db)"
  let ?P = "\<lambda>x. bi_cancel_previous b \<and> (\<exists>br. bi_branch b = Some br \<and> br \<noteq> [] \<and>
      superseded b br (next_build_number (bi_project_id b) (builds db)) x)"
  from execute_insert_cases[OF run] obtain w where fresh: "bi_build_id b \<notin> b_id ` set (builds db)"
    and db': "db' = supersede b ?row (db\<lparr>builds := builds db @ [?row], webhook_build_claims := w\<rparr>)"
    by blast
  let ?db1 = "db\<lparr>builds := builds db @ [?row], webhook_build_claims := w\<rparr>"
  have row: "b_id ?row = bi_build_id b" "b_build_number ?row = next_build_number (bi_project_id b) (builds db)"
    by (simp_all add: inserted_row_def)
  have inv1: "store_inv ?db1" by (rule append_row_inv[OF inv fresh]) simp_all
  have rows: "builds db' = update_where ?P (cancel_columns (bi_now b)) (builds ?db1)"
  proof (cases "bi_cancel_previous b \<and> (\<exists>br. bi_branch b = Some br \<and> br \<noteq> [])")
    case True
    then obtain br where "bi_branch b = Some br" "br \<noteq> []" "bi_cancel_previous b" by blast
    moreover from this have "?P = superseded b br (b_build_number ?row)" by (auto simp: row)
    ultimately show ?thesis by (simp add: db' supersede_def cancel_rows_def)
  next
    case False
    then have "update_where ?P (cancel_columns (bi_now b)) (builds ?db1) = builds ?db1"
      by (intro update_where_no_match) auto
    moreover from False have "db' = ?db1" by (auto simp: db' supersede_def split: option.splits)
    ultimately show ?thesis by simp
  qed
  have "\<not> ?P ?row" by (auto simp: superseded_def inserted_row_def)
  with find_build_update[OF inv1 keeps_key_columns(3) rows, of ?row] row(1)
  show "find_build db' (bi_build_id b) = Some ?row" by simp
  show "find_build db' (b_id o_b) = Some (if ?P o_b then cancel_columns (bi_now b) o_b else o_b)"
    if "o_b \<in> set (builds db)"
    using find_build_update[OF inv1 keeps_key_columns(3) rows, of o_b] that by simp
qed

text \<open>A new build gets the project's next number and, when its pipeline cancels previous
  builds, exactly the unfinished older builds of the same pipeline, branch and source are
  canceled; every other build keeps its row.\<close>

theorem insert_supersedes_exactly:
  assumes "store_inv db" and "execute_build_insert b db = Inr (True, db')"
    and "o_b \<in> set (builds db)"
  shows "find_build db' (bi_build_id b) = Some (inserted_row b (builds db)) \<and>
    b_build_number (inserted_row b (builds db)) = next_build_number (bi_project_id b) (builds db) \<and>
    (b_project_id o_b \<noteq> bi_project_id b \<or>
       b_build_number o_b < next_build_number (bi_project_id b) (builds db)) \<and>
    find_build db' (b_id o_b) = Some
      (if bi_cancel_previous b \<and> (\<exists>br. bi_branch b = Some br \<and> br \<noteq> [] \<and> b_branch o_b = Some br) \<and>
          b_pipeline_id o_b = bi_pipeline_id b \<and>
          b_build_number o_b < next_build_number (bi_project_id b) (builds db) \<and>
          cs_repository_id (b_snapshot o_b) \<noteq> None \<and>
          cs_repository_id (b_snapshot o_b) = cs_repository_id (bi_config_snapshot b) \<and>
          \<not> build_is_terminal (b_status o_b)
       then cancel_columns (bi_now b) o_b else o_b)"
proof -
  from execute_insert_cases[OF assms(2)] have "bi_build_id b \<notin> b_id ` set (builds db)" by blast
  with assms(3) have "b_id o_b \<noteq> bi_build_id b" by (metis imageI)
  then have "(\<exists>br. bi_branch b = Some br \<and> br \<noteq> [] \<and>
      superseded b br (next_build_number (bi_project_id b) (builds db)) o_b) \<longleftrightarrow>
      (\<exists>br. bi_branch b = Some br \<and> br \<noteq> [] \<and> b_branch o_b = Some br) \<and>
          b_pipeline_id o_b = bi_pipeline_id b \<and>
          b_build_number o_b < next_build_number (bi_project_id b) (builds db) \<and>
          cs_repository_id (b_snapshot o_b) \<noteq> None \<and>
          cs_repository_id (b_snapshot o_b) = cs_repository_id (bi_config_snapshot b) \<and>
          \<not> build_is_terminal (b_status o_b)"
    by (auto simp: superseded_def sql_eq_def)
  with superseded_effect[OF assms(1,2)] assms(3) next_build_number_greater[OF assms(3)]
  show ?thesis by (auto simp: inserted_row_def)
qed

theorem insert_supersedes_exactly_witness:
  "execute_build_insert (sample_binds ''b2'' False) (sample_queued False) \<noteq> Inr (False, sample_queued False) \<and>
   map_option b_status (find_build (outcome_db (execute_build_insert (sample_binds ''b2'' False)
     (sample_queued False))) ''b1'') = Some Canceled \<and>
   map_option b_build_number (find_build (outcome_db (execute_build_insert (sample_binds ''b2'' False)
     (sample_queued False))) ''b2'') = Some 2"
proof -
  let ?db = "sample_queued False"
  let ?o = "hd (builds ?db)"
  let ?b = "sample_binds ''b2'' False"
  have inv: "store_inv ?db" using daemon_step_inv[OF sample_run(1) sample_inv(1)] .
  have run: "execute_build_insert ?b ?db = Inr (True, outcome_db (execute_build_insert ?b ?db))"
    and o_in: "builds ?db = [?o]" and o_id: "b_id ?o = ''b1''"
    and facts: "bi_cancel_previous ?b" "bi_branch ?b = Some ''main''" "b_branch ?o = Some ''main''"
      "b_pipeline_id ?o = bi_pipeline_id ?b" "b_build_number ?o = 1"
      "next_build_number (bi_project_id ?b) (builds ?db) = 2" "bi_build_id ?b = ''b2''"
      "cs_repository_id (b_snapshot ?o) = Some ''r1''" "cs_repository_id (bi_config_snapshot ?b) = Some ''r1''"
      "b_status ?o = Queued"
    by code_simp+
  have "?o \<in> set (builds ?db)" by (subst (2) o_in) simp
  from insert_supersedes_exactly[OF inv run this] o_id facts run show ?thesis
    by (auto simp: cancel_columns_def)
qed

text \<open>The answer of one attempt of the retry loop.\<close>

definition attempt_outcome ::
  "(nat \<Rightarrow> sqlite_error option) \<Rightarrow> (nat \<Rightarrow> daemon) \<Rightarrow> build_insert_binds \<Rightarrow> nat \<Rightarrow> sqlite_error + (bool \<times> daemon)"
where
  "attempt_outcome interrupt seen b n =
     (case interrupt n of Some e \<Rightarrow> Inl e | None \<Rightarrow> execute_build_insert b (seen n))"

lemma insert_attempts_step:
  "insert_attempts interrupt seen b n =
     (case attempt_outcome interrupt seen b n of
        Inr r \<Rightarrow> Inr r
      | Inl e \<Rightarrow>
          if is_retryable e \<and> n < BUILD_INSERT_MAX_RETRIES then insert_attempts interrupt seen b (n + 1)
          else Inl (ApiError INTERNAL_SERVER_ERROR ''store_error'' ''Failed to create build''))"
  by (subst insert_attempts.simps) (simp only: attempt_outcome_def)

lemma insert_attempts_skip:
  assumes "\<And>i. n \<le> i \<Longrightarrow> i < n + k \<Longrightarrow>
      \<exists>e. attempt_outcome interrupt seen b i = Inl e \<and> is_retryable e"
    and "n + k \<le> BUILD_INSERT_MAX_RETRIES"
  shows "insert_attempts interrupt seen b n = insert_attempts interrupt seen b (n + k)"
  using assms
proof (induction k arbitrary: n)
  case (Suc k)
  from Suc.prems(1)[of n] obtain e where "attempt_outcome interrupt seen b n = Inl e" "is_retryable e" by auto
  with Suc.prems(2) have "insert_attempts interrupt seen b n = insert_attempts interrupt seen b (Suc n)"
    by (subst insert_attempts_step) simp
  also have "\<dots> = insert_attempts interrupt seen b (Suc n + k)"
    by (rule Suc.IH) (use Suc.prems in auto)
  finally show ?case by simp
qed simp

text \<open>Inserting a build rides out contention: when an attempt among the first ten answers and every
  attempt before it failed with a busy or unique-constraint error, the insert returns that
  attempt's answer, computed on the database that attempt saw; when all ten fail that way
  the caller gets a store error.\<close>

theorem insert_retries_until_answer:
  assumes "1 \<le> k" and "k \<le> 10"
    and "\<forall>i \<in> {1..<k}. interrupt i = Some Sqlite_Busy \<or> interrupt i = Some Sqlite_Unique"
    and "interrupt k = None"
  shows "insert_build_with_retry interrupt seen b =
           (case execute_build_insert b (seen k) of
              Inr r \<Rightarrow> Inr r
            | Inl e \<Rightarrow> Inl (ApiError INTERNAL_SERVER_ERROR ''store_error'' ''Failed to create build'')) \<and>
         ((\<forall>i \<in> {1..10}. interrupt2 i = Some Sqlite_Busy \<or> interrupt2 i = Some Sqlite_Unique) \<longrightarrow>
          insert_build_with_retry interrupt2 seen b =
            Inl (ApiError INTERNAL_SERVER_ERROR ''store_error'' ''Failed to create build''))"
proof -
  have max: "BUILD_INSERT_MAX_RETRIES = 10" by (simp add: BUILD_INSERT_MAX_RETRIES_def)
  have skip: "insert_attempts it seen b 1 = insert_attempts it seen b k'"
    if busy: "\<forall>i \<in> {1..<k'}. it i = Some Sqlite_Busy \<or> it i = Some Sqlite_Unique" and k': "1 \<le> k'" "k' \<le> 10"
    for it k'
  proof -
    have "\<exists>e. attempt_outcome it seen b i = Inl e \<and> is_retryable e" if "1 \<le> i" "i < 1 + (k' - 1)" for i
    proof -
      have "it i = Some Sqlite_Busy \<or> it i = Some Sqlite_Unique" using busy that k' by auto
      then show ?thesis by (auto simp: attempt_outcome_def is_retryable_def)
    qed
    from insert_attempts_skip[of 1 "k' - 1", OF this] k' show ?thesis by (simp add: max)
  qed
  have other: "e = Sqlite_Other" if "execute_build_insert b d = Inl e" for d e
    using that by (auto simp: execute_build_insert_def Let_def split: if_splits option.splits)
  have "insert_build_with_retry interrupt seen b =
      (case execute_build_insert b (seen k) of
         Inr r \<Rightarrow> Inr r
       | Inl e \<Rightarrow> Inl (ApiError INTERNAL_SERVER_ERROR ''store_error'' ''Failed to create build''))"
    unfolding insert_build_with_retry_def skip[OF assms(3,1,2)]
    by (subst insert_attempts_step)
      (auto simp: attempt_outcome_def assms(4) is_retryable_def dest: other split: sum.splits)
  moreover have "insert_build_with_retry interrupt2 seen b =
      Inl (ApiError INTERNAL_SERVER_ERROR ''store_error'' ''Failed to create build'')"
    if all: "\<forall>i \<in> {1..10}. interrupt2 i = Some Sqlite_Busy \<or> interrupt2 i = Some Sqlite_Unique"
  proof -
    from all have "insert_attempts interrupt2 seen b 1 = insert_attempts interrupt2 seen b 10"
      by (intro skip) auto
    moreover from all have "interrupt2 10 = Some Sqlite_Busy \<or> interrupt2 10 = Some Sqlite_Unique" by simp
    ultimately show ?thesis
      unfolding insert_build_with_retry_def
      by (subst (asm) (2) insert_attempts_step) (auto simp: attempt_outcome_def max)
  qed
  ultimately show ?thesis by blast
qed

theorem insert_retries_until_answer_witness:
  "insert_build_with_retry (\<lambda>n. if n < 3 then Some Sqlite_Busy else None) (\<lambda>_. sample_db)
     (sample_binds ''b1'' False) = Inr (True, sample_queued False) \<and>
   insert_build_with_retry (\<lambda>n. Some Sqlite_Busy) (\<lambda>_. sample_db) (sample_binds ''b1'' False) =
     Inl (ApiError INTERNAL_SERVER_ERROR ''store_error'' ''Failed to create build'')"
  using insert_retries_until_answer[of 3 "\<lambda>n. if n < 3 then Some Sqlite_Busy else None" "\<lambda>_. sample_db"
      "sample_binds ''b1'' False" "\<lambda>n. Some Sqlite_Busy"]
  by (simp add: sample_insert)

subsection \<open>Approval decisions\<close>

text \<open>An approval decision is taken once: after a decision on a build succeeds, approval leaves it
  queued and free to be claimed, rejection leaves it canceled, and every later decision on it is
  refused as not awaiting approval.\<close>

theorem approval_decided_once:
  assumes "store_inv db" and "record_build_approval bid actor decision reason now db = Inr (s, ev, db')"
  shows "(\<exists>b. find_build db' bid = Some b \<and> b_status b = s \<and> b_approval_state b = Some decision \<and>
            b_approval_decided_by b = Some actor) \<and>
         (s = Queued \<and> decision = Approval_Approved \<or> s = Canceled \<and> decision = Approval_Rejected) \<and>
         (\<exists>e. record_build_approval bid actor2 Approval_Approved reason2 now2 db' = Inl e \<and>
            err_code e = ''not_awaiting_approval'') \<and>
         (\<exists>e. record_build_approval bid actor2 Approval_Rejected reason2 now2 db' = Inl e \<and>
            err_code e = ''not_awaiting_approval'')"
proof -
  from assms(2) have aff: "rows_affected (approval_guard bid) (builds db) \<noteq> 0"
    by (auto simp: record_build_approval_def Let_def and_then_eq_Inr split: if_splits BuildApprovalState.splits)
  then obtain r where r: "r \<in> set (builds db)" "approval_guard bid r" by (rule rows_affected_obtain)
  have sd: "s = Queued \<and> decision = Approval_Approved \<or> s = Canceled \<and> decision = Approval_Rejected"
    and rows: "builds db' = update_where (approval_guard bid)
        (approval_columns now s decision actor reason) (builds db)"
    using assms(2) aff by (auto simp: record_build_approval_def Let_def and_then_eq_Inr
        split: if_splits BuildApprovalState.splits)
  have id: "b_id r = bid" using r(2) by (simp add: approval_guard_def)
  have found: "find_build db' bid = Some (approval_columns now s decision actor reason r)"
    using find_build_update[OF assms(1) keeps_key_columns(5) rows r(1)] r(2) id by simp
  have "\<not> approval_guard bid b" if "b \<in> set (builds db')" for b
  proof
    assume g: "approval_guard bid b"
    from that obtain c where c: "c \<in> set (builds db)"
      "b = (if approval_guard bid c then approval_columns now s decision actor reason c else c)"
      unfolding rows by (auto simp only: in_set_update_where)
    with g have "approval_guard bid c"
      by (auto split: if_splits)
    with c g sd show False by (auto simp: approval_guard_def approval_columns_def)
  qed
  then have none: "rows_affected (approval_guard bid) (builds db') = 0" by (simp add: rows_affected_0)
  from found have "\<exists>b. find_build db' bid = Some b \<and> b_status b = s \<and> b_approval_state b = Some decision \<and>
      b_approval_decided_by b = Some actor"
    by (simp add: approval_columns_def)
  moreover have "\<exists>e. record_build_approval bid actor2 d reason2 now2 db' = Inl e \<and>
      err_code e = ''not_awaiting_approval''" if "d \<noteq> Approval_Pending" for d
    using that none by (cases d) (auto simp: record_build_approval_def Let_def)
  ultimately show ?thesis using sd by blast
qed

theorem approval_decided_once_witness:
  "\<exists>s ev db'. record_build_approval ''b1'' ''lead'' Approval_Approved None 1005 (sample_queued True) =
      Inr (s, ev, db') \<and> s = Queued \<and>
      (\<exists>e. record_build_approval ''b1'' ''lead'' Approval_Rejected None 1006 db' = Inl e \<and>
         err_code e = ''not_awaiting_approval'')"
proof -
  have inv: "store_inv (sample_queued True)" using daemon_step_inv[OF sample_run(1) sample_inv(1)] .
  have "is_ok (record_build_approval ''b1'' ''lead'' Approval_Approved None 1005 (sample_queued True))"
    by code_simp
  then obtain x where x: "record_build_approval ''b1'' ''lead'' Approval_Approved None 1005
      (sample_queued True) = Inr x" by (rule is_okE)
  obtain s ev db' where "x = (s, ev, db')" by (cases x)
  note run = x[unfolded this]
  from approval_decided_once[OF inv run, of "''lead''" None 1006] have "s = Queued" and
    "\<exists>e. record_build_approval ''b1'' ''lead'' Approval_Rejected None 1006 db' = Inl e \<and>
       err_code e = ''not_awaiting_approval''" by simp_all
  with run show ?thesis by blast
qed

end
