(* ===== verification/Sweep_Guarantees.thy ===== *)
theory Sweep_Guarantees
  imports Queue_Guarantees
begin

text \<open>
  What one pass of a monitor does to every build, what the maintenance barrier
  guarantees, and the behaviours of the handlers that differ from their documentation.
\<close>

subsection \<open>Sweeps of guarded transitions\<close>

text \<open>
  The contract of a monitor's one-row action: it requests one transition and, whatever
  else it records, leaves the builds as that transition does.
\<close>

locale transition_sweep =
  fixes now :: int and ident :: "'row \<Rightarrow> string" and target :: "'row \<Rightarrow> BuildStatus"
    and actor reason :: "'row \<Rightarrow> string option"
    and one :: "'row \<Rightarrow> string list \<times> daemon \<Rightarrow> string list \<times> daemon"
  assumes one_effect: "
      (case transition_build now (ident row) (target row) (actor row) (reason row) (snd acc) of
         Inl _ \<Rightarrow> builds (snd (one row acc)) = builds (snd acc) \<and>
                 build_events (snd (one row acc)) = build_events (snd acc)
       | Inr d \<Rightarrow> builds (snd (one row acc)) = builds d \<and>
                 build_events (snd (one row acc)) = build_events d)"
    and target_requested: "requested_status (target row)"
begin

lemma one_inv:
  assumes "store_inv (snd acc)"
  shows "store_inv (snd (one row acc))"
proof -
  have eff: "case transition_build now (ident row) (target row) (actor row) (reason row) (snd acc) of
         Inl _ \<Rightarrow> builds (snd (one row acc)) = builds (snd acc) \<and>
                 build_events (snd (one row acc)) = build_events (snd acc)
       | Inr d \<Rightarrow> builds (snd (one row acc)) = builds d \<and>
                 build_events (snd (one row acc)) = build_events d"
    by (rule one_effect)
  show ?thesis
  proof (cases "transition_build now (ident row) (target row) (actor row) (reason row) (snd acc)")
    case (Inl e)
    with eff assms show ?thesis by (auto intro: store_inv_cong)
  next
    case (Inr d)
    from transition_build_step[OF Inr target_requested] have "store_inv d"
      using assms by (rule quiet_step_inv)
    with Inr eff show ?thesis by (auto intro: store_inv_cong)
  qed
qed

lemma one_find:
  assumes inv: "store_inv (snd acc)" and b: "b \<in> set (builds (snd acc))"
    and can: "b_id b = ident row \<Longrightarrow> build_can_transition_to (b_status b) (target row)"
    and found: "\<exists>c \<in> set (builds (snd acc)). b_id c = ident row"
  shows "find_build (snd (one row acc)) (b_id b) =
     Some (if b_id b = ident row then transition_columns now (b_status b) (target row) b else b)"
proof -
  let ?db = "snd acc"
  have eff: "case transition_build now (ident row) (target row) (actor row) (reason row) ?db of
         Inl _ \<Rightarrow> builds (snd (one row acc)) = builds ?db \<and>
                 build_events (snd (one row acc)) = build_events ?db
       | Inr d \<Rightarrow> builds (snd (one row acc)) = builds d \<and>
                 build_events (snd (one row acc)) = build_events d"
    by (rule one_effect)
  have same: "find_build d x = find_build ?db x" if "builds d = builds ?db" for d x
    using that by (simp add: find_build_def)
  from found obtain c where c: "c \<in> set (builds ?db)" "b_id c = ident row" by blast
  then have fc: "find_build ?db (ident row) = Some c" using find_build_Some[OF inv] by blast
  show ?thesis
  proof (cases "build_can_transition_to (b_status c) (target row)")
    case False
    with fc have "transition_build now (ident row) (target row) (actor row) (reason row) ?db =
        Inl (ApiError CONFLICT ''invalid_transition'' (''Cannot transition from '' @
          build_status_to_string (b_status c) @ '' to '' @ build_status_to_string (target row)))"
      by (simp add: transition_build_def transition_build_with_results_def check_transition_def)
    with eff have "find_build (snd (one row acc)) (b_id b) = find_build ?db (b_id b)"
      by (simp add: find_build_def)
    moreover have "b_id b \<noteq> ident row"
      using False can key_row_unique[OF inv b c(1)] c(2) by auto
    ultimately show ?thesis using find_build_Some[OF inv] b by simp
  next
    case True
    let ?g = "\<lambda>x. b_id x = ident row \<and> b_status x = b_status c"
    have "rows_affected ?g (builds ?db) \<noteq> 0" using c by (auto simp: rows_affected_0)
    with fc True have run: "transition_build now (ident row) (target row) (actor row) (reason row) ?db = Inr
        (?db\<lparr>builds := update_where ?g (transition_columns now (b_status c) (target row)) (builds ?db),
            build_events := build_events ?db @
              [build_event_row (ident row) (Some (b_status c)) (target row) (actor row) (reason row) now]\<rparr>)"
      by (simp add: transition_build_def transition_build_with_results_def check_transition_def
          commit_transition_def Let_def)
    with eff have rows: "builds (snd (one row acc)) =
        update_where ?g (transition_columns now (b_status c) (target row)) (builds ?db)" by simp
    have "?g b \<longleftrightarrow> b_id b = ident row"
      using key_row_unique[OF inv b c(1)] c(2) by auto
    moreover have "b_status c = b_status b" if "b_id b = ident row"
      using key_row_unique[OF inv b c(1)] c(2) that by simp
    ultimately show ?thesis
      using find_build_update[OF inv keeps_key_columns(1) rows b] by auto
  qed
qed

lemma fold_inv: "store_inv (snd acc) \<Longrightarrow> store_inv (snd (fold one rows acc))"
proof (induction rows arbitrary: acc)
  case (Cons row rows)
  from Cons.IH[OF one_inv[OF Cons.prems]] show ?case by simp
qed simp

lemma fold_find:
  assumes "store_inv (snd acc)" and "b \<in> set (builds (snd acc))" and "distinct (map ident rows)"
    and "\<And>row. row \<in> set rows \<Longrightarrow> \<exists>c \<in> set (builds (snd acc)). b_id c = ident row \<and>
           build_can_transition_to (b_status c) (target row)"
  shows "find_build (snd (fold one rows acc)) (b_id b) =
     Some (case find (\<lambda>row. ident row = b_id b) rows of
             None \<Rightarrow> b | Some row \<Rightarrow> transition_columns now (b_status b) (target row) b)"
  using assms
proof (induction rows arbitrary: acc b)
  case Nil
  then show ?case using find_build_Some[of "snd acc" "b_id b" b] by simp
next
  case (Cons row rows)
  let ?acc1 = "one row acc"
  let ?u = "\<lambda>x. if b_id x = ident row then transition_columns now (b_status x) (target row) x else x"
  have inv1: "store_inv (snd ?acc1)" using Cons.prems(1) by (rule one_inv)
  have uid: "b_id (?u x) = b_id x" for x by (simp add: transition_columns_def)
  have step: "?u x \<in> set (builds (snd ?acc1))" if x: "x \<in> set (builds (snd acc))" for x
  proof -
    from Cons.prems(4)[of row] obtain c where c: "c \<in> set (builds (snd acc))" "b_id c = ident row"
      "build_can_transition_to (b_status c) (target row)" by auto
    have can: "build_can_transition_to (b_status x) (target row)" if "b_id x = ident row"
      using c key_row_unique[OF Cons.prems(1) x c(1)] that by simp
    have "\<exists>c \<in> set (builds (snd acc)). b_id c = ident row" using c by blast
    from one_find[OF Cons.prems(1) x can this] find_build_Some[OF inv1] show ?thesis by blast
  qed
  have "find_build (snd (fold one rows ?acc1)) (b_id (?u b)) =
     Some (case find (\<lambda>r. ident r = b_id (?u b)) rows of
             None \<Rightarrow> ?u b | Some r \<Rightarrow> transition_columns now (b_status (?u b)) (target r) (?u b))"
  proof (rule Cons.IH[OF inv1 step[OF Cons.prems(2)]])
    show "distinct (map ident rows)" using Cons.prems(3) by simp
    fix r assume r: "r \<in> set rows"
    with Cons.prems(4)[of r] obtain c where c: "c \<in> set (builds (snd acc))" "b_id c = ident r"
      "build_can_transition_to (b_status c) (target r)" by auto
    from Cons.prems(3) r have "ident r \<noteq> ident row" by (auto intro: rev_image_eqI)
    then have "?u c = c" using c(2) by simp
    with step[OF c(1)] c(2,3) show "\<exists>c \<in> set (builds (snd ?acc1)). b_id c = ident r \<and>
        build_can_transition_to (b_status c) (target r)" by metis
  qed
  moreover have "find (\<lambda>r. ident r = b_id b) rows = None" if "b_id b = ident row"
    using Cons.prems(3) that by (auto simp: find_None_iff dest: sym intro: rev_image_eqI)
  ultimately show ?case by (auto simp: uid transition_columns_def split: option.splits)
qed

end

interpretation requeue_sweep: transition_sweep now fst "\<lambda>_. Queued" "\<lambda>_. None"
  "\<lambda>row. Some (if snd row = Scheduled then ''runner claim was interrupted'' else ''lease timeout'')"
  "requeue_one now" for now
  by unfold_locales (auto simp: requeue_one_def case_prod_beta Let_def split: sum.splits)

interpretation approval_sweep: transition_sweep now fst "\<lambda>_. Canceled" "\<lambda>_. None"
  "\<lambda>row. Some (approval_expiry_reason (snd row))" "expire_approval_one now" for now
  by unfold_locales
    (auto simp: expire_approval_one_def publish_event_def case_prod_beta Let_def split: sum.splits)

interpretation timeout_sweep: transition_sweep now fst "\<lambda>_. TimedOut" "\<lambda>_. None"
  "\<lambda>row. Some (''build timeout of '' @ show_int (snd row div 60) @ '' minutes exceeded'')" "time_out_one now" for now
  by unfold_locales
    (auto simp: time_out_one_def publish_event_def case_prod_beta Let_def split: sum.splits)

interpretation release_sweep:
  transition_sweep now fst "\<lambda>row. if snd row = Running then Failed else Queued" "\<lambda>_. Some ''system''"
    "\<lambda>_. Some reason" "release_one now reason" for now reason
  by unfold_locales
    (auto simp: release_one_def publish_event_def case_prod_beta Let_def split: sum.splits)

lemma sweep_rows:
  assumes "distinct (map b_id rows)" and "set batch \<subseteq> set rows" and "distinct batch" and "b \<in> set rows"
  shows "find (\<lambda>row. fst row = b_id b) (map (\<lambda>b. (b_id b, f b)) batch) =
     (if b \<in> set batch then Some (b_id b, f b) else None)"
  using assms
proof (induction batch)
  case (Cons x xs)
  have "b_id x = b_id b \<longleftrightarrow> x = b" using key_unique[OF Cons.prems(1), of x b] Cons.prems(2,4) by auto
  with Cons show ?case by auto
qed simp

lemma fetch_batch_all:
  assumes "rows_affected P rows \<le> MONITOR_BATCH_SIZE"
  shows "fetch_batch key P rows = sort_key key (filter P rows)"
  using assms by (simp add: fetch_batch_def rows_affected_def)

lemma distinct_builds: "store_inv db \<Longrightarrow> distinct (builds db)"
  using store_invD(1) distinct_map by blast

text \<open>One pass of a monitor settles exactly the builds it is for (as long as they fit its batch of
  100): expired claims go back to the queue without a runner, undecided approvals past their
  deadline are canceled, overdue builds time out, and releasing a runner requeues what was only
  assigned to it and fails what it was running. Every other build keeps its row.\<close>

theorem monitors_settle_exactly:
  assumes "store_inv db" and "b \<in> set (builds db)"
    and "rows_affected (claim_expired now) (builds db) \<le> 100"
    and "rows_affected (approval_expired now db) (builds db) \<le> 100"
    and "rows_affected (build_overdue now) (builds db) \<le> 100"
  shows "find_build (snd (requeue_expired_claims now db)) (b_id b) =
           Some (if claim_expired now b then transition_columns now (b_status b) Queued b else b) \<and>
         find_build (snd (expire_pending_approvals now db)) (b_id b) =
           Some (if approval_expired now db b then transition_columns now (b_status b) Canceled b else b) \<and>
         find_build (snd (time_out_overdue_builds now db)) (b_id b) =
           Some (if build_overdue now b then transition_columns now (b_status b) TimedOut b else b) \<and>
         find_build (snd (release_runner_builds now rid reason db)) (b_id b) =
           Some (if holds_build rid b
                 then transition_columns now (b_status b) (if b_status b = Running then Failed else Queued) b
                 else b)"
proof -
  note dist = store_invD(1)[OF assms(1)] and dist2 = distinct_builds[OF assms(1)]
  have batch: "fetch_batch key P (builds db) = sort_key key (filter P (builds db))"
    if "rows_affected P (builds db) \<le> 100" for key :: "build \<Rightarrow> int" and P
    using that by (intro fetch_batch_all) (simp add: MONITOR_BATCH_SIZE_def)
  have rows: "find (\<lambda>row. fst row = b_id b) (map (\<lambda>b. (b_id b, f b)) (sort_key key (filter P (builds db)))) =
      (if P b then Some (b_id b, f b) else None)" for f :: "build \<Rightarrow> 'x" and key :: "build \<Rightarrow> int" and P
    using sweep_rows[OF dist, of "sort_key key (filter P (builds db))" b f] assms(2) dist2 by auto
  have ids: "distinct (map fst (map (\<lambda>b. (b_id b, f b)) (sort_key key (filter P (builds db)))))"
    for f :: "build \<Rightarrow> 'x" and key :: "build \<Rightarrow> int" and P
    using dist dist2 by (auto simp: comp_def distinct_map inj_on_def)
  have 1: "find_build (snd (requeue_expired_claims now db)) (b_id b) =
      Some (if claim_expired now b then transition_columns now (b_status b) Queued b else b)"
    unfolding requeue_expired_claims_def batch[OF assms(3)]
    by (subst requeue_sweep.fold_find[OF _ _ ids])
      (auto simp: assms(1,2) rows claim_expired_def build_can_transition_to_def)
  have 2: "find_build (snd (expire_pending_approvals now db)) (b_id b) =
      Some (if approval_expired now db b then transition_columns now (b_status b) Canceled b else b)"
    unfolding expire_pending_approvals_def batch[OF assms(4)]
    by (subst approval_sweep.fold_find[OF _ _ ids])
      (auto simp: assms(1,2) rows approval_expired_def build_can_transition_to_def)
  have 3: "find_build (snd (time_out_overdue_builds now db)) (b_id b) =
      Some (if build_overdue now b then transition_columns now (b_status b) TimedOut b else b)"
    unfolding time_out_overdue_builds_def batch[OF assms(5)]
    by (subst timeout_sweep.fold_find[OF _ _ ids])
      (auto simp: assms(1,2) rows build_overdue_def build_can_transition_to_def)
  have rows4: "find (\<lambda>row. fst row = b_id b) (map (\<lambda>b. (b_id b, b_status b)) (filter (holds_build rid) (builds db))) =
      (if holds_build rid b then Some (b_id b, b_status b) else None)"
    using sweep_rows[OF dist, of "filter (holds_build rid) (builds db)" b b_status] assms(2) dist2 by auto
  have ids4: "distinct (map fst (map (\<lambda>b. (b_id b, b_status b)) (filter (holds_build rid) (builds db))))"
    using dist by (simp add: comp_def distinct_map_filter)
  have can4: "\<exists>c \<in> set (builds db). b_id c = fst row \<and> build_can_transition_to (b_status c)
      (if snd row = Running then Failed else Queued)"
    if "row \<in> set (map (\<lambda>b. (b_id b, b_status b)) (filter (holds_build rid) (builds db)))" for row
    using that by (auto simp: holds_build_def build_can_transition_to_def)
  have 4: "find_build (snd (release_runner_builds now rid reason db)) (b_id b) =
      Some (if holds_build rid b
            then transition_columns now (b_status b) (if b_status b = Running then Failed else Queued) b else b)"
    using release_sweep.fold_find[of "([], db)" b "map (\<lambda>b. (b_id b, b_status b)) (filter (holds_build rid) (builds db))"
        now reason] assms(1,2) ids4 can4
    by (simp add: release_runner_builds_def release_runner_builds_except_def rows4)
  from 1 2 3 4 show ?thesis by blast
qed

theorem monitors_settle_exactly_witness:
  "find_build (snd (requeue_expired_claims 1400 sample_assigned)) ''b1'' \<noteq> None \<and>
   map_option b_status (find_build (snd (requeue_expired_claims 1400 sample_assigned)) ''b1'') = Some Queued \<and>
   map_option b_status (find_build (snd (time_out_overdue_builds 1400 sample_assigned)) ''b1'') = Some Assigned"
proof -
  let ?b = "hd (builds sample_assigned)"
  have inv: "store_inv sample_assigned" using lifecycle.run_inv[OF sample_run(3) sample_inv(1)] .
  have one: "builds sample_assigned = [?b]" and i: "b_id ?b = ''b1''" and st: "b_status ?b = Assigned"
    and ex: "claim_expired 1400 ?b" and no: "\<not> build_overdue 1400 ?b"
    and n: "rows_affected (claim_expired 1400) (builds sample_assigned) \<le> 100"
      "rows_affected (approval_expired 1400 sample_assigned) (builds sample_assigned) \<le> 100"
      "rows_affected (build_overdue 1400) (builds sample_assigned) \<le> 100"
    by code_simp+
  have "?b \<in> set (builds sample_assigned)" by (subst (2) one) simp
  from monitors_settle_exactly[OF inv this n, of "''m1''" "[]"] ex no i st show ?thesis
    by (simp add: transition_columns_def)
qed

subsection \<open>The maintenance barrier\<close>

text \<open>Steps while the barrier's lease is active: claims are attempted, everything else goes on.\<close>

inductive barrier_step :: "daemon \<Rightarrow> daemon \<Rightarrow> bool" where
  quiet: "quiet_step db db' \<Longrightarrow> barrier_step db db'"
| claim:
    "lease_active now db \<Longrightarrow>
     claim_eligible_direct_runner_build now bid rid actor h db = Inr (ok, db') \<Longrightarrow> barrier_step db db'"

lemma lease_blocks_claim:
  "lease_active now db \<Longrightarrow> claim_eligible_direct_runner_build now bid rid actor h db \<noteq> Inr (True, db')"
  by (auto simp: claim_eligible_direct_runner_build_def Let_def)

lemma barrier_step_quiet: "barrier_step db db' \<Longrightarrow> quiet_step db db'"
proof (induction rule: barrier_step.induct)
  case (claim now db bid rid actor h ok db')
  then have "db' = db"
    by (auto simp: claim_eligible_direct_runner_build_def Let_def split: if_splits)
  then show ?case by (auto intro: quiet_step.other)
qed

lemma row_step_bound: "row_step\<^sup>*\<^sup>* b b' \<Longrightarrow> bound_to_runner (b_status b') \<Longrightarrow> bound_to_runner (b_status b)"
proof (induction rule: rtranclp_induct)
  case (step b1 b2)
  have "bound_to_runner (b_status b1)"
    using step.hyps(2) step.prems
  proof cases
    case (transition t now)
    with step.prems show ?thesis
      by (cases t; cases "b_status b1")
        (auto simp: bound_to_runner_def requested_status_def build_can_transition_to_def)
  qed (auto simp: bound_to_runner_def store_results_def Let_def split: option.splits)
  then show ?case by (rule step.IH)
qed

definition drained :: "daemon \<Rightarrow> bool" where
  "drained db \<longleftrightarrow> store_inv db \<and> \<not> wait_for_work None db"

lemma drained_iff: "drained db \<longleftrightarrow> store_inv db \<and> (\<forall>b \<in> set (builds db). \<not> bound_to_runner (b_status b))"
  by (auto simp: drained_def wait_for_work_def exists_row_iff bound_to_runner_def)

interpretation barrier: invariant_of barrier_step drained
proof
  fix db db' assume step: "barrier_step db db'" and d: "drained db"
  note q = barrier_step_quiet[OF step]
  have "\<not> bound_to_runner (b_status b')" if "b' \<in> set (builds db')" for b'
    using quiet_step_rows[OF q that] d row_step_bound
    by (auto simp: drained_iff from_row_def new_row_def bound_to_runner_def)
  with quiet_step_inv[OF q] d show "drained db'" by (simp add: drained_iff)
qed

text \<open>The maintenance barrier holds: while its lease is active no claim succeeds, so once the
  runners have drained, no handler or monitor makes a build active again. Acquiring the barrier
  also leaves no unassigned build in \<open>scheduled\<close>.\<close>

theorem maintenance_barrier_holds:
  assumes "barrier_step\<^sup>*\<^sup>* db db'" and "store_inv db" and "\<not> wait_for_work None db"
    and "acquire_barrier now token db0 = Some db1"
  shows "\<not> wait_for_work None db' \<and> store_inv db' \<and> lease_active now db1 \<and>
         \<not> list_ex (\<lambda>b. b_status b = Scheduled \<and> b_runner_id b = None) (builds db1) \<and>
         (\<forall>bid rid actor h d. claim_eligible_direct_runner_build now bid rid actor h db1 \<noteq> Inr (True, d))"
proof -
  have "drained db" using assms(2,3) by (simp add: drained_def)
  with assms(1) have "drained db'" by (rule barrier.run_inv)
  moreover from assms(4) have token: "transition_lease db1 = Some (token, now + BARRIER_LEASE_SECS)"
    and rows: "builds db1 = update_where (\<lambda>b. b_status b = Scheduled \<and> b_runner_id b = None)
      (\<lambda>b. b\<lparr>b_status := Queued, b_updated_at := now\<rparr>) (builds db0)"
    by (auto simp: acquire_barrier_def Let_def split: if_splits)
  from token have lease: "lease_active now db1" by (simp add: lease_active_def BARRIER_LEASE_SECS_def)
  moreover have "\<not> list_ex (\<lambda>b. b_status b = Scheduled \<and> b_runner_id b = None) (builds db1)"
    unfolding rows by (auto simp: list_ex_iff update_where_def)
  ultimately show ?thesis using lease_blocks_claim[OF lease] by (simp add: drained_def)
qed

theorem maintenance_barrier_holds_witness:
  "\<exists>db1. acquire_barrier 1005 ''lease'' (sample_queued False) = Some db1 \<and> \<not> wait_for_work None db1 \<and>
     claim_eligible_direct_runner_build 1010 ''b1'' ''m1'' ''runner:m1'' ''secret'' db1 \<noteq> Inr (True, db1) \<and>
     lease_active 1005 db1"
proof -
  let ?db1 = "the (acquire_barrier 1005 ''lease'' (sample_queued False))"
  have acq: "acquire_barrier 1005 ''lease'' (sample_queued False) = Some ?db1"
    and idle: "\<not> wait_for_work None (sample_queued False)"
    and lease: "lease_active 1010 ?db1"
    by code_simp+
  have inv: "store_inv (sample_queued False)" using daemon_step_inv[OF sample_run(1) sample_inv(1)] .
  have run: "barrier_step\<^sup>*\<^sup>* (sample_queued False) ?db1"
    using acq by (intro r_into_rtranclp barrier_step.quiet quiet_step.barrier)
  from maintenance_barrier_holds[OF run inv idle acq] acq lease_blocks_claim[OF lease] show ?thesis by blast
qed

subsection \<open>Differences between code and documentation\<close>

definition sample_report :: job_update where
  "sample_report = \<lparr>ju_status = ''running'', ju_error_message = None, ju_steps = [], ju_exit_code = None,
     ju_size_budgets = None\<rparr>"

definition sample_reclaimed :: daemon where
  "sample_reclaimed = result_db (claim_eligible_direct_runner_build 1410 ''b1'' ''m2'' ''runner:m2'' ''other''
     (snd (requeue_expired_claims 1400 sample_assigned)))"

text \<open>C38. A runner's report can land on another runner's claim. \<open>update_job_status\<close> checks that the
  build belongs to the reporting runner and then runs a transition guarded by the status only:
  when the lease expires and another runner claims the build in between, the first runner's
  \<open>running\<close> report is committed to the second runner's build.\<close>

theorem stale_report_reaches_next_claim:
  "\<exists>db1 db2 db3 b. daemon_step\<^sup>*\<^sup>* sample_db db1 \<and> daemon_step\<^sup>*\<^sup>* db1 db2 \<and>
     check_job_update ''m1'' ''b1'' sample_auth sample_report db1 = Inr Running \<and>
     transition_build_with_results 1420 ''b1'' Running (Some (runner_actor ''m1''))
       (Some (report_reason sample_report)) (update_results sample_report) db2 = Inr db3 \<and>
     find_build db3 ''b1'' = Some b \<and> b_status b = Running \<and> b_runner_id b = Some ''m2''"
proof -
  let ?db2 = "sample_reclaimed"
  let ?r = "transition_build_with_results 1420 ''b1'' Running (Some (runner_actor ''m1''))
       (Some (report_reason sample_report)) (update_results sample_report) ?db2"
  have claim: "claim_eligible_direct_runner_build 1410 ''b1'' ''m2'' ''runner:m2'' ''other''
      (snd (requeue_expired_claims 1400 sample_assigned)) = Inr (True, sample_reclaimed)"
    and chk: "check_job_update ''m1'' ''b1'' sample_auth sample_report sample_assigned = Inr Running"
    and ok: "is_ok ?r"
    and res: "map_option (\<lambda>b. (b_status b, b_runner_id b)) (find_build (case ?r of Inl _ \<Rightarrow> sample_db | Inr d \<Rightarrow> d) ''b1'')
        = Some (Running, Some ''m2'')"
    by code_simp+
  from ok obtain db3 where db3: "?r = Inr db3" by (rule is_okE)
  from res db3 obtain b where "find_build db3 ''b1'' = Some b" "b_status b = Running" "b_runner_id b = Some ''m2''"
    by auto
  moreover have "daemon_step\<^sup>*\<^sup>* sample_assigned ?db2"
    using quiet_runs_daemon[OF monitor_runs(1)] daemon_step.claim[OF claim]
    by (rule rtranclp.rtrancl_into_rtrancl)
  ultimately show ?thesis using sample_run(3) chk db3 by blast
qed

text \<open>The audit entry of a cancellation loses the status the build was canceled from: its
  \<open>from_status\<close> is taken from the build returned by the transition, so it always reads
  \<open>canceled\<close>, whatever the build was doing.\<close>

theorem cancel_audit_records_new_status:
  assumes "store_inv db" and "cancel_build now auth bid db = Inr (b, db')"
  shows "al_details (last (audit_logs db')) =
           [(''canceled_by'', Some (au_email auth)), (''from_status'', Some ''canceled'')] \<and>
         (\<exists>b0. find_build db bid = Some b0 \<and> \<not> build_is_terminal (b_status b0))"
proof -
  from assms(2) obtain db1 where
    t: "transition_build now bid Canceled (Some (au_email auth)) (Some ''canceled by user'') db = Inr db1"
    and f: "find_build db1 bid = Some b"
    and db': "db' = publish_event \<lparr>se_build_id = bid, se_from_status = None, se_to_status = ''canceled'',
               se_actor = Some (au_email auth), se_reason = Some ''canceled by user'', se_timestamp = now\<rparr>
        (write_audit_log (Some (au_user_id auth)) ''build_canceled'' ''build'' (Some bid)
          [(''canceled_by'', Some (au_email auth)),
           (''from_status'', Some (build_status_to_string (b_status b)))] db1)"
    unfolding cancel_build_def and_then_eq_Inr Let_def ok_or_eq_Inr by blast
  have d: "al_details (last (audit_logs db')) =
      [(''canceled_by'', Some (au_email auth)), (''from_status'', Some (build_status_to_string (b_status b)))]"
    by (simp add: db' publish_event_def write_audit_log_def)
  from t obtain s where chk: "check_transition db bid Canceled = Inr s"
    and com: "commit_transition now bid s Canceled (Some (au_email auth)) (Some ''canceled by user'') None db = Inr db1"
    by (auto simp: transition_build_def transition_build_with_results_def and_then_eq_Inr)
  from chk obtain b0 where b0: "find_build db bid = Some b0" "b_status b0 = s" "build_can_transition_to s Canceled"
    by (auto simp: check_transition_def split: option.splits if_splits)
  from b0(1) find_build_Some[OF assms(1)] have in0: "b0 \<in> set (builds db)" "b_id b0 = bid" by auto
  from com have rows: "builds db1 = update_where (\<lambda>b. b_id b = bid \<and> b_status b = s)
      (transition_columns now s Canceled) (builds db)"
    by (auto simp: commit_transition_def Let_def split: if_splits)
  from find_build_update[OF assms(1) keeps_key_columns(1) rows in0(1)] in0(2) b0(2) f
  have "b_status b = Canceled" by simp
  moreover have "\<not> build_is_terminal s"
    using b0(3) by (cases s) (auto simp: build_can_transition_to_def)
  ultimately show ?thesis using d b0(1,2) by auto
qed

definition sample_user :: SessionInfo where
  "sample_user = \<lparr>au_user_id = ''u1'', au_email = ''lead@example.com'', au_oidc_subject = ''s'',
     au_role = ''developer'', au_expires_at = 9999, au_auth_source = Session\<rparr>"

theorem cancel_audit_records_new_status_witness:
  "\<exists>b db'. cancel_build 1020 sample_user ''b1'' sample_assigned = Inr (b, db') \<and>
     al_details (last (audit_logs db')) =
       [(''canceled_by'', Some ''lead@example.com''), (''from_status'', Some ''canceled'')]"
proof -
  have inv: "store_inv sample_assigned" using lifecycle.run_inv[OF sample_run(3) sample_inv(1)] .
  have "is_ok (cancel_build 1020 sample_user ''b1'' sample_assigned)" by code_simp
  then obtain x where x: "cancel_build 1020 sample_user ''b1'' sample_assigned = Inr x" by (rule is_okE)
  obtain b db' where "x = (b, db')" by (cases x)
  note run = x[unfolded this]
  have "au_email sample_user = ''lead@example.com''" by (simp add: sample_user_def)
  with cancel_audit_records_new_status[OF inv run] run show ?thesis by auto
qed

text \<open>The credential preflight moves a build where the status machine has no edge: a queued
  build becomes \<open>failed\<close> directly, although \<open>valid_transitions\<close> lists no such move and
  \<open>transition_build\<close> refuses it.\<close>

theorem preflight_bypasses_status_machine:
  assumes "store_inv db" and "b \<in> set (builds db)" and "b_status b = Queued"
  shows "map_option b_status (find_build (fail_blocked_build now (b_id b, url) db) (b_id b)) = Some Failed \<and>
         \<not> build_can_transition_to Queued Failed \<and>
         (\<exists>e. transition_build now (b_id b) Failed actor reason db = Inl e \<and> err_code e = ''invalid_transition'')"
proof -
  have "builds (fail_blocked_build now (b_id b, url) db) = update_where (\<lambda>x. b_id x = b_id b \<and> b_status x = Queued)
      (\<lambda>x. x\<lparr>b_status := Failed, b_finished_at := Some now, b_updated_at := now\<rparr>) (builds db)"
    by (simp add: fail_blocked_build_def Let_def)
  from find_build_update[OF assms(1) keeps_key_columns(6) this assms(2)] assms(3)
  have "map_option b_status (find_build (fail_blocked_build now (b_id b, url) db) (b_id b)) = Some Failed" by simp
  moreover have no: "\<not> build_can_transition_to Queued Failed" by (simp add: build_can_transition_to_def)
  moreover have "find_build db (b_id b) = Some b" using find_build_Some[OF assms(1)] assms(2) by blast
  ultimately show ?thesis
    using assms(3) by (simp add: transition_build_def transition_build_with_results_def check_transition_def)
qed

theorem preflight_bypasses_status_machine_witness:
  "map_option b_status (find_build (fail_blocked_build 1005 (''b1'', ''/repair'') (sample_queued False)) ''b1'') =
     Some Failed"
proof -
  let ?b = "hd (builds (sample_queued False))"
  have inv: "store_inv (sample_queued False)" using daemon_step_inv[OF sample_run(1) sample_inv(1)] .
  have one: "builds (sample_queued False) = [?b]" and i: "b_id ?b = ''b1''" and st: "b_status ?b = Queued"
    by code_simp+
  have "?b \<in> set (builds (sample_queued False))" by (subst (2) one) simp
  from preflight_bypasses_status_machine[OF inv this st, of 1005 "''/repair''"] i show ?thesis by simp
qed

end
