(* ===== verification/Ieee_Float.thy ===== *)
theory Ieee_Float
  imports Oore_Prelude
begin

text \<open>
  The floating point arithmetic the daemon uses on rollout fractions, crash rates and
  intervals. A finite \<open>f64\<close> is the rational it denotes; every operation computes the
  exact result and rounds it to the nearest double, ties to even, as IEEE 754 does, with
  subnormals down to \<open>2 ^ -1074\<close> and overflow to infinity. The sign of zero is not
  represented: no comparison of the daemon can see it.
\<close>

subsection \<open>Rounding\<close>

function bit_length :: "int \<Rightarrow> int" where
  "bit_length n = (if n \<le> 0 then 0 else 1 + bit_length (n div 2))"
  by auto
termination by (relation "measure nat") auto

declare bit_length.simps [simp del]

function two_to :: "int \<Rightarrow> int" where
  "two_to n =
     (if n \<le> 0 then 1
      else let h = two_to (n div 2) in if even n then h * h else 2 * (h * h))"
  by auto
termination by (relation "measure nat") auto

declare two_to.simps [simp del]

lemma two_to_power: "two_to n = 2 ^ nat n"
proof (induction n rule: two_to.induct)
  case (1 n)
  show ?case
  proof (cases "n \<le> 0")
    case False
    then have h: "two_to (n div 2) = 2 ^ nat (n div 2)" using "1.IH" by simp
    have "n = n div 2 + n div 2 + n mod 2" by simp
    moreover have "0 \<le> n div 2" "0 \<le> n mod 2" using False by auto
    ultimately have "nat n = nat (n div 2) + nat (n div 2) + nat (n mod 2)"
      by (metis add_nonneg_nonneg nat_add_distrib)
    then have "(2 :: int) ^ nat n = 2 ^ nat (n div 2) * 2 ^ nat (n div 2) * 2 ^ nat (n mod 2)"
      by (simp add: power_add)
    moreover have "n mod 2 = (if even n then 0 else 1)" by (simp add: mod_2_eq_odd)
    ultimately show ?thesis using False h by (subst two_to.simps) (simp add: Let_def)
  qed (simp add: two_to.simps)
qed

definition pow2 :: "int \<Rightarrow> rat" where
  "pow2 e = (if 0 \<le> e then of_int (two_to e) else 1 / of_int (two_to (- e)))"

definition round_half_even :: "rat \<Rightarrow> int" where
  "round_half_even y =
     (let f = \<lfloor>y\<rfloor>; r = y - of_int f
      in if r < 1 / 2 \<or> r = 1 / 2 \<and> even f then f else f + 1)"

text \<open>\<open>e\<close> with \<open>2 ^ e \<le> x < 2 ^ (e + 1)\<close>, for positive \<open>x\<close>.\<close>

definition binary_exponent :: "rat \<Rightarrow> int" where
  "binary_exponent x =
     (let (n, d) = quotient_of x; e = bit_length n - bit_length d
      in if pow2 e \<le> x then e else e - 1)"

definition round_positive :: "rat \<Rightarrow> rat" where
  "round_positive x =
     (let q = max (binary_exponent x - 52) (- 1074)
      in of_int (round_half_even (x / pow2 q)) * pow2 q)"

definition round64 :: "rat \<Rightarrow> f64" where
  "round64 x =
     (if x = 0 then Finite 0
      else let m = round_positive \<bar>x\<bar>
           in if 1024 \<le> binary_exponent m then (if 0 < x then Pos_Inf else Neg_Inf)
              else Finite (if 0 < x then m else - m))"

subsection \<open>Operations\<close>

fun f64_neg :: "f64 \<Rightarrow> f64" where
  "f64_neg (Finite x) = Finite (- x)"
| "f64_neg Pos_Inf = Neg_Inf"
| "f64_neg Neg_Inf = Pos_Inf"
| "f64_neg NaN = NaN"

fun f64_add :: "f64 \<Rightarrow> f64 \<Rightarrow> f64" where
  "f64_add (Finite x) (Finite y) = round64 (x + y)"
| "f64_add NaN _ = NaN"
| "f64_add _ NaN = NaN"
| "f64_add Pos_Inf Neg_Inf = NaN"
| "f64_add Neg_Inf Pos_Inf = NaN"
| "f64_add Pos_Inf _ = Pos_Inf"
| "f64_add Neg_Inf _ = Neg_Inf"
| "f64_add (Finite _) y = y"

definition f64_sub :: "f64 \<Rightarrow> f64 \<Rightarrow> f64" where
  "f64_sub x y = f64_add x (f64_neg y)"

fun f64_abs :: "f64 \<Rightarrow> f64" where
  "f64_abs (Finite x) = Finite \<bar>x\<bar>"
| "f64_abs NaN = NaN"
| "f64_abs _ = Pos_Inf"

text \<open>Multiplication by a positive finite constant, the only product the daemon forms.\<close>

fun f64_scale :: "rat \<Rightarrow> f64 \<Rightarrow> f64" where
  "f64_scale c (Finite x) = round64 (x * c)"
| "f64_scale c Pos_Inf = Pos_Inf"
| "f64_scale c Neg_Inf = Neg_Inf"
| "f64_scale c NaN = NaN"

text \<open>\<open>==\<close> of Rust: NaN differs from itself.\<close>

definition f64_eq :: "f64 \<Rightarrow> f64 \<Rightarrow> bool" where
  "f64_eq x y \<longleftrightarrow> x = y \<and> x \<noteq> NaN"

text \<open>\<open>f64::max\<close>: a NaN argument is ignored.\<close>

definition f64_max :: "f64 \<Rightarrow> f64 \<Rightarrow> f64" where
  "f64_max x y = (if x = NaN then y else if y = NaN then x else if f64_less x y then y else x)"

text \<open>\<open>f64::round\<close> (half away from zero) followed by the saturating cast \<open>as i64\<close>.\<close>

definition I64_MAX :: int where
  "I64_MAX = 2 ^ 63 - 1"

definition I64_MIN :: int where
  "I64_MIN = - (2 ^ 63)"

definition round_half_away :: "rat \<Rightarrow> int" where
  "round_half_away x = (if 0 \<le> x then \<lfloor>x + 1 / 2\<rfloor> else - \<lfloor>1 / 2 - x\<rfloor>)"

fun round_as_i64 :: "f64 \<Rightarrow> int" where
  "round_as_i64 (Finite x) = max I64_MIN (min I64_MAX (round_half_away x))"
| "round_as_i64 Pos_Inf = I64_MAX"
| "round_as_i64 Neg_Inf = I64_MIN"
| "round_as_i64 NaN = 0"

text \<open>Addition of two \<open>i64\<close> values without overflow checks.\<close>

definition i64_add :: "int \<Rightarrow> int \<Rightarrow> int" where
  "i64_add x y = (x + y - I64_MIN) mod 2 ^ 64 + I64_MIN"

text \<open>\<open>{:.2}\<close>: the exact value with two decimals, ties to even.\<close>

definition show_rat2 :: "rat \<Rightarrow> string" where
  "show_rat2 x =
     (let n = \<bar>round_half_even (x * 100)\<bar>; frac = n mod 100
      in (if x < 0 then ''-'' else '''') @ show_int (n div 100) @ ''.'' @
         (if frac < 10 then ''0'' else '''') @ show_int frac)"

fun show_f64_2 :: "f64 \<Rightarrow> string" where
  "show_f64_2 (Finite x) = show_rat2 x"
| "show_f64_2 Pos_Inf = ''inf''"
| "show_f64_2 Neg_Inf = ''-inf''"
| "show_f64_2 NaN = ''NaN''"

subsection \<open>Order\<close>

lemma f64_less_le: "f64_less x y \<Longrightarrow> f64_le x y"
  by (cases x; cases y) auto

lemma f64_le_trans: "f64_le x y \<Longrightarrow> f64_le y z \<Longrightarrow> f64_le x z"
  by (cases x; cases y; cases z) auto

lemma f64_less_irrefl [simp]: "\<not> f64_less x x"
  by (cases x) auto

lemma f64_less_trans: "f64_less x y \<Longrightarrow> f64_less y z \<Longrightarrow> f64_less x z"
  by (cases x; cases y; cases z) auto

lemma f64_not_le: "f64_is_finite x \<Longrightarrow> f64_is_finite y \<Longrightarrow> \<not> f64_le x y \<longleftrightarrow> f64_less y x"
  by (cases x; cases y) auto

lemma f64_le_refl_finite: "f64_is_finite x \<Longrightarrow> f64_le x x"
  by (cases x) auto

lemma f64_eq_finite [simp]: "f64_is_finite x \<Longrightarrow> f64_eq x x"
  by (cases x) (auto simp: f64_eq_def)

lemma f64_max_le:
  assumes "f64_is_finite y"
  shows "f64_le y (f64_max x y)"
  using assms by (cases x; cases y) (auto simp: f64_max_def)

lemma f64_sub_self [simp]: "f64_is_finite x \<Longrightarrow> f64_sub x x = Finite 0"
  by (cases x) (auto simp: f64_sub_def round64_def)

lemma i64_add_exact: "I64_MIN \<le> x + y \<Longrightarrow> x + y \<le> I64_MAX \<Longrightarrow> i64_add x y = x + y"
  by (simp add: i64_add_def I64_MIN_def I64_MAX_def mod_pos_pos_trivial)

lemma round_as_i64_range: "I64_MIN \<le> round_as_i64 x \<and> round_as_i64 x \<le> I64_MAX"
  by (cases x) (auto simp: I64_MIN_def I64_MAX_def)

end
