(* ===== verification/Releases.thy ===== *)
theory Releases
  imports Build_Store Ieee_Float "HOL-Library.Product_Lexorder"
begin

text \<open>
  Store releases, \<^verbatim>\<open>crates/oored/src/releases.rs\<close>, with the policy and state types of
  \<^verbatim>\<open>crates/oore-contract/src/lib.rs\<close>: creation, the one operation every state or
  fraction change goes through, approval, the sync with the store, the rollout monitor and
  the two handlers that change releases.

  The typed columns of a row (\<open>store\<close>, \<open>state\<close>, \<open>policy_json\<close>) are read as their
  types. The calls to the store are the functions of a \<open>store_client\<close>. One lock per release
  is held from the read through the store call to the row update, and no other code writes
  \<open>state\<close>, \<open>rollout_fraction\<close> or \<open>approved_at\<close>, so \<open>transition_release\<close> and
  \<open>approve_release\<close> are single steps on those columns.
\<close>

subsection \<open>Rollout policies\<close>

datatype ReleaseHealth = Health_Unknown | Healthy | Health_Warning | Breached

definition from_crash_rate :: "f64 option \<Rightarrow> f64 option \<Rightarrow> ReleaseHealth" where
  "from_crash_rate crash_rate threshold =
     (case (crash_rate, threshold) of
        (Some rate, Some limit) \<Rightarrow>
          if f64_le limit rate then Breached
          else if f64_le (f64_scale (3 / 4) limit) rate then Health_Warning
          else Healthy
      | _ \<Rightarrow> Health_Unknown)"

datatype ReleaseApprovalGate = Gate_None | BeforeUpload | BeforeProduction

record ReleasePolicy =
  po_steps :: "f64 list"
  po_interval_hours :: f64
  po_crash_rate_threshold :: "f64 option"
  po_approval :: ReleaseApprovalGate

definition default_release_steps :: "f64 list" where
  "default_release_steps = [round64 (1 / 100), round64 (5 / 100), round64 (2 / 10), round64 (5 / 10), Finite 1]"

definition default_release_interval_hours :: f64 where
  "default_release_interval_hours = Finite 24"

definition default_policy :: ReleasePolicy where
  "default_policy = \<lparr>po_steps = default_release_steps, po_interval_hours = default_release_interval_hours,
     po_crash_rate_threshold = None, po_approval = Gate_None\<rparr>"

definition outside_unit :: "f64 \<Rightarrow> bool" where
  "outside_unit x \<longleftrightarrow> \<not> f64_is_finite x \<or> f64_le x (Finite 0) \<or> f64_less (Finite 1) x"

fun any_pair :: "('a \<Rightarrow> 'a \<Rightarrow> bool) \<Rightarrow> 'a list \<Rightarrow> bool" where
  "any_pair P (x # y # zs) = (P x y \<or> any_pair P (y # zs))"
| "any_pair P _ = False"

definition policy_validate :: "ReleasePolicy \<Rightarrow> string + unit" where
  "policy_validate p =
     (if po_steps p = [] then Inl ''policy.steps must not be empty''
      else if list_ex outside_unit (po_steps p) then Inl ''policy.steps must be fractions in (0, 1]''
      else if any_pair (\<lambda>x y. f64_le y x) (po_steps p)
      then Inl ''policy.steps must be strictly ascending''
      else if \<not> f64_eq (last (po_steps p)) (Finite 1) then Inl ''policy.steps must end at 1''
      else if \<not> f64_is_finite (po_interval_hours p) \<or> f64_le (po_interval_hours p) (Finite 0)
      then Inl ''policy.interval_hours must be greater than zero''
      else if (case po_crash_rate_threshold p of None \<Rightarrow> False | Some limit \<Rightarrow> outside_unit limit)
      then Inl ''policy.crash_rate_threshold must be a fraction in (0, 1]''
      else Inr ())"

definition policy_validate_gate :: "ReleasePolicy \<Rightarrow> string + unit" where
  "policy_validate_gate p =
     (if po_approval p = BeforeUpload
      then Inl (''policy.approval before_upload is not supported; require build approval on '' @
                ''the pipeline or use before_production'')
      else Inr ())"

text \<open>First policy step above \<open>fraction\<close>.\<close>

definition policy_next_step :: "ReleasePolicy \<Rightarrow> f64 \<Rightarrow> f64 option" where
  "policy_next_step p fraction = find (f64_less fraction) (po_steps p)"

definition policy_interval_secs :: "ReleasePolicy \<Rightarrow> int" where
  "policy_interval_secs p = round_as_i64 (f64_scale 3600 (po_interval_hours p))"

subsection \<open>Rows\<close>

record release =
  rl_id :: string
  rl_project_id :: string
  rl_build_id :: string
  rl_artifact_id :: "string option"
  rl_store :: ReleaseStore
  rl_track :: string
  rl_package_name :: "string option"
  rl_version_name :: "string option"
  rl_version_code :: "int option"
  rl_state :: ReleaseState
  rl_rollout_fraction :: f64
  rl_next_step_at :: "int option"
  rl_policy :: ReleasePolicy
  rl_crash_rate :: "f64 option"
  rl_crash_rate_checked_at :: "int option"
  rl_health_error :: "string option"
  rl_store_checked_at :: "int option"
  rl_approved_at :: "int option"
  rl_approved_by :: "string option"
  rl_created_by :: "string option"
  rl_environment_id :: "string option"
  rl_promoted_from_release_id :: "string option"
  rl_created_at :: int
  rl_updated_at :: int

record release_history_entry =
  rh_release_id :: string
  rh_actor_id :: "string option"
  rh_actor_email :: "string option"
  rh_from_state :: "ReleaseState option"
  rh_to_state :: ReleaseState
  rh_from_fraction :: "f64 option"
  rh_to_fraction :: "f64 option"
  rh_reason :: "string option"
  rh_at :: int

datatype ReleaseEventKind =
    Created | Uploaded | RolloutStepRaised | RolloutPaused | RolloutResumed | RolloutHalted
  | RolloutCompleted | ApprovalNeeded | Event_Approved | Event_Failed

record ReleaseEvent =
  ev_kind :: ReleaseEventKind
  ev_project_id :: string
  ev_release_id :: string
  ev_build_id :: "string option"
  ev_version_name :: "string option"
  ev_version_code :: "int option"
  ev_track :: "string option"
  ev_rollout_percent :: "f64 option"
  ev_actor :: "string option"
  ev_reason :: "string option"
  ev_timestamp :: int

text \<open>A JSON value of an audit entry.\<close>

datatype audit_value = Json_Null | Json_Text string | Json_Number f64

record release_audit_row =
  ra_actor_id :: "string option"
  ra_action :: string
  ra_release_id :: string
  ra_details :: "(string \<times> audit_value) list"

text \<open>The environment columns an upload is matched against.\<close>

record environment_target =
  et_id :: string
  et_project_id :: string
  et_store :: ReleaseStore
  et_track :: string

text \<open>
  The release tables, next to the daemon's own. \<open>release_artifacts\<close> lists the artifact
  ids with their builds.
\<close>

record release_db =
  core :: daemon
  releases :: "release list"
  release_history :: "release_history_entry list"
  release_events :: "ReleaseEvent list"
  release_audit :: "release_audit_row list"
  release_artifacts :: "(string \<times> string) list"
  environment_targets :: "environment_target list"

subsection \<open>The store client\<close>

datatype StoreChange = Change_Rollout f64 | Change_Pause | Change_Resume f64 | Change_Halt | Change_Complete

datatype StoreObservation = Obs_Missing | Obs_Rolling f64 | Obs_Halted | Obs_Completed | Obs_Other

text \<open>The outbound calls of \<open>ReleaseStoreClient\<close>; an error is the store's message.\<close>

record store_client =
  sc_observe :: "release \<Rightarrow> string + StoreObservation option"
  sc_apply :: "release \<Rightarrow> StoreChange \<Rightarrow> string + unit"
  sc_crash_rate :: "release \<Rightarrow> string + f64 option"

definition noop_client :: store_client where
  "noop_client = \<lparr>sc_observe = (\<lambda>_. Inr None), sc_apply = (\<lambda>_ _. Inr ()), sc_crash_rate = (\<lambda>_. Inr None)\<rparr>"

subsection \<open>Errors and actors\<close>

datatype ReleaseActor = System | User string string

primrec actor_user_id :: "ReleaseActor \<Rightarrow> string option" where
  "actor_user_id System = None"
| "actor_user_id (User user_id email) = Some user_id"

primrec actor_email :: "ReleaseActor \<Rightarrow> string option" where
  "actor_email System = None"
| "actor_email (User user_id email) = Some email"

datatype ReleaseError =
  Err_NotFound | Err_Invalid string | Err_Conflict string | Err_Store string | Err_Db string

definition MAX_REASON_LEN :: nat where
  "MAX_REASON_LEN = 500"

text \<open>Rust's \<open>split_whitespace\<close> on ASCII white space: the non-empty runs between white space.\<close>

function split_whitespace :: "string \<Rightarrow> string list" where
  "split_whitespace s =
     (let t = dropWhile is_ws s
      in if t = [] then [] else takeWhile (\<lambda>c. \<not> is_ws c) t # split_whitespace (dropWhile (\<lambda>c. \<not> is_ws c) t))"
  by auto
termination
proof (relation "measure length")
  fix s t :: string
  assume t: "t = dropWhile is_ws s" and ne: "t \<noteq> []"
  from ne obtain c r where c: "t = c # r" by (cases t) simp_all
  with hd_dropWhile[of is_ws s, folded t, OF ne] have "\<not> is_ws c" by simp
  then have "length (dropWhile (\<lambda>c. \<not> is_ws c) t) \<le> length r"
    by (simp add: c length_dropWhile_le)
  also have "\<dots> < length t" by (simp add: c)
  also have "\<dots> \<le> length s" by (simp add: t length_dropWhile_le)
  finally show "(dropWhile (\<lambda>c. \<not> is_ws c) t, s) \<in> measure length" by simp
qed simp

declare split_whitespace.simps [simp del]

fun join_with :: "string \<Rightarrow> string list \<Rightarrow> string" where
  "join_with sep [] = []"
| "join_with sep [x] = x"
| "join_with sep (x # y # zs) = x @ sep @ join_with sep (y # zs)"

definition store_rejection_message :: "string \<Rightarrow> string" where
  "store_rejection_message error =
     (let detail = take MAX_REASON_LEN (join_with '' '' (split_whitespace error))
      in if detail = [] then ''The store did not accept the change''
         else ''The store did not accept the change: '' @ detail)"

definition into_api :: "ReleaseError \<Rightarrow> api_error" where
  "into_api e =
     (case e of
        Err_NotFound \<Rightarrow> ApiError NOT_FOUND ''not_found'' ''Release not found''
      | Err_Invalid message \<Rightarrow> ApiError BAD_REQUEST ''invalid_input'' message
      | Err_Conflict message \<Rightarrow> ApiError CONFLICT ''invalid_release_state'' message
      | Err_Store error \<Rightarrow> ApiError BAD_GATEWAY ''store_rejected'' (store_rejection_message error)
      | Err_Db error \<Rightarrow> ApiError INTERNAL_SERVER_ERROR ''store_error'' ''Failed to update release'')"

definition map_err :: "('e \<Rightarrow> 'f) \<Rightarrow> 'e + 'a \<Rightarrow> 'f + 'a" where
  "map_err f r = (case r of Inl e \<Rightarrow> Inl (f e) | Inr a \<Rightarrow> Inr a)"

lemma map_err_simps [simp]: "map_err f (Inl e) = Inl (f e)" "map_err f (Inr a) = Inr a"
  by (simp_all add: map_err_def)

lemma map_err_eq_Inr [simp]: "map_err f r = Inr a \<longleftrightarrow> r = Inr a"
  by (cases r) simp_all

subsection \<open>What a release allows\<close>

definition awaiting_approval :: "release \<Rightarrow> bool" where
  "awaiting_approval r =
     (if rl_approved_at r \<noteq> None \<or> release_is_terminal (rl_state r) then False
      else (case po_approval (rl_policy r) of
              Gate_None \<Rightarrow> False
            | BeforeUpload \<Rightarrow> rl_state r = Uploading
            | BeforeProduction \<Rightarrow> rl_track r = ''production''))"

definition next_step_at :: "release \<Rightarrow> int \<Rightarrow> int option" where
  "next_step_at r now =
     (if rl_store r = GooglePlay \<and> rl_state r = Rolling \<and> \<not> awaiting_approval r \<and>
         policy_next_step (rl_policy r) (rl_rollout_fraction r) \<noteq> None
      then Some (i64_add now (policy_interval_secs (rl_policy r))) else None)"

definition store_change :: "ReleaseState \<Rightarrow> ReleaseState \<Rightarrow> f64 \<Rightarrow> StoreChange option" where
  "store_change from to fraction =
     (if from = Rolling \<and> to = Rolling then Some (Change_Rollout fraction)
      else if (from = Paused \<or> from = Halted) \<and> to = Rolling then Some (Change_Resume fraction)
      else if to = Paused then Some Change_Pause
      else if to = Halted then Some Change_Halt
      else if (from = Rolling \<or> from = Paused) \<and> to = Release_Complete then Some Change_Complete
      else None)"

definition event_kind :: "ReleaseState \<Rightarrow> ReleaseState \<Rightarrow> ReleaseEventKind" where
  "event_kind from to =
     (if to = Release_Failed then Event_Failed
      else if to = Release_Complete then RolloutCompleted
      else if to = Halted then RolloutHalted
      else if to = Paused then RolloutPaused
      else if from = Rolling \<and> to = Rolling then RolloutStepRaised
      else if (from = Paused \<or> from = Halted) \<and> to = Rolling then RolloutResumed
      else Uploaded)"

definition allowed_actions :: "EffectiveProjectRole \<Rightarrow> release \<Rightarrow> ReleaseAction list" where
  "allowed_actions role r =
     (let operate = check_project_permission role Perm_OperateRelease;
          manage = check_project_permission role Perm_ManageReleases;
          awaiting = awaiting_approval r;
          state = rl_state r;
          app_store = (rl_store r = AppStore);
          play_draft = (rl_store r = GooglePlay \<and> state = Paused \<and> f64_eq (rl_rollout_fraction r) (Finite 0))
      in (if manage \<and> \<not> app_store \<and> state = Rolling \<and> \<not> awaiting \<and>
             f64_less (rl_rollout_fraction r) (Finite 1)
          then [Action_Raise] else []) @
         (if operate \<and> state = Rolling then [Action_Pause] else []) @
         (if manage \<and> (state = Paused \<or> state = Halted) \<and> \<not> awaiting then [Action_Resume] else []) @
         (if operate \<and> \<not> app_store \<and> \<not> play_draft \<and> (state = Rolling \<or> state = Paused)
          then [Action_Halt] else []) @
         (if manage \<and> (state = Rolling \<or> state = Paused) \<and> \<not> awaiting then [Action_Complete] else []) @
         (if manage \<and> awaiting then [Action_Approve] else []))"

definition validate_fraction :: "f64 \<Rightarrow> ReleaseError + unit" where
  "validate_fraction fraction =
     (if f64_is_finite fraction \<and> f64_le (Finite 0) fraction \<and> f64_le fraction (Finite 1) then Inr ()
      else Inl (Err_Invalid ''fraction must be between 0 and 1''))"

definition clean_reason :: "string option \<Rightarrow> string option" where
  "clean_reason reason =
     (case reason of None \<Rightarrow> None
      | Some r \<Rightarrow> if trim r = [] then None else Some (take MAX_REASON_LEN (trim r)))"

subsection \<open>Rows, history, events and audit\<close>

definition load_release :: "release_db \<Rightarrow> string \<Rightarrow> ReleaseError + release" where
  "load_release db release_id = ok_or Err_NotFound (fetch_optional (\<lambda>r. rl_id r = release_id) (releases db))"

definition update_releases :: "(release \<Rightarrow> bool) \<Rightarrow> (release \<Rightarrow> release) \<Rightarrow> release_db \<Rightarrow> release_db" where
  "update_releases P f db = db\<lparr>releases := update_where P f (releases db)\<rparr>"

definition publish ::
  "release \<Rightarrow> ReleaseEventKind \<Rightarrow> ReleaseActor \<Rightarrow> string option \<Rightarrow> int \<Rightarrow> release_db \<Rightarrow> release_db" where
  "publish r kind actor reason now db =
     db\<lparr>release_events := release_events db @
        [\<lparr>ev_kind = kind, ev_project_id = rl_project_id r, ev_release_id = rl_id r,
          ev_build_id = Some (rl_build_id r), ev_version_name = rl_version_name r,
          ev_version_code = rl_version_code r, ev_track = Some (rl_track r),
          ev_rollout_percent = Some (f64_scale 100 (rl_rollout_fraction r)),
          ev_actor = actor_email actor, ev_reason = reason, ev_timestamp = now\<rparr>]\<rparr>"

definition audit ::
  "string \<Rightarrow> string \<Rightarrow> ReleaseActor \<Rightarrow> (string \<times> audit_value) list \<Rightarrow> release_db \<Rightarrow> release_db" where
  "audit action release_id actor details db =
     db\<lparr>release_audit := release_audit db @
        [\<lparr>ra_actor_id = actor_user_id actor, ra_action = action, ra_release_id = release_id,
          ra_details = details\<rparr>]\<rparr>"

definition json_opt :: "string option \<Rightarrow> audit_value" where
  "json_opt x = (case x of None \<Rightarrow> Json_Null | Some s \<Rightarrow> Json_Text s)"

definition insert_history ::
  "string \<Rightarrow> ReleaseActor \<Rightarrow> ReleaseState option \<Rightarrow> ReleaseState \<Rightarrow> f64 option \<Rightarrow> f64 option \<Rightarrow>
   string option \<Rightarrow> int \<Rightarrow> release_db \<Rightarrow> release_db" where
  "insert_history release_id actor from_state to_state from_fraction to_fraction reason at_time db =
     db\<lparr>release_history := release_history db @
        [\<lparr>rh_release_id = release_id, rh_actor_id = actor_user_id actor, rh_actor_email = actor_email actor,
          rh_from_state = from_state, rh_to_state = to_state, rh_from_fraction = from_fraction,
          rh_to_fraction = to_fraction, rh_reason = reason, rh_at = at_time\<rparr>]\<rparr>"

subsection \<open>Creating a release\<close>

record NewRelease =
  nr_project_id :: string
  nr_build_id :: string
  nr_artifact_id :: "string option"
  nr_store :: ReleaseStore
  nr_track :: string
  nr_package_name :: "string option"
  nr_version_name :: "string option"
  nr_version_code :: "int option"
  nr_state :: ReleaseState
  nr_rollout_fraction :: f64
  nr_policy :: ReleasePolicy
  nr_environment_id :: "string option"
  nr_promoted_from_release_id :: "string option"

definition environment_for :: "release_db \<Rightarrow> NewRelease \<Rightarrow> string option" where
  "environment_for db input =
     (case nr_environment_id input of
        Some e \<Rightarrow> Some e
      | None \<Rightarrow> map_option et_id (fetch_optional (\<lambda>e. et_project_id e = nr_project_id input \<and>
          et_store e = nr_store input \<and> et_track e = trim (nr_track input)) (environment_targets db)))"

text \<open>The inserted row, before its schedule is set. \<open>id\<close> is the fresh UUID.\<close>

definition new_release_row :: "string \<Rightarrow> int \<Rightarrow> NewRelease \<Rightarrow> ReleaseActor \<Rightarrow> string option \<Rightarrow> release" where
  "new_release_row rid now input actor environment_id =
     \<lparr>rl_id = rid, rl_project_id = nr_project_id input, rl_build_id = nr_build_id input,
      rl_artifact_id = nr_artifact_id input, rl_store = nr_store input, rl_track = trim (nr_track input),
      rl_package_name = nr_package_name input, rl_version_name = nr_version_name input,
      rl_version_code = nr_version_code input, rl_state = nr_state input,
      rl_rollout_fraction = nr_rollout_fraction input, rl_next_step_at = None, rl_policy = nr_policy input,
      rl_crash_rate = None, rl_crash_rate_checked_at = None, rl_health_error = None,
      rl_store_checked_at = None, rl_approved_at = None, rl_approved_by = None,
      rl_created_by = actor_user_id actor, rl_environment_id = environment_id,
      rl_promoted_from_release_id = nr_promoted_from_release_id input, rl_created_at = now,
      rl_updated_at = now\<rparr>"

definition insert_release ::
  "string \<Rightarrow> int \<Rightarrow> NewRelease \<Rightarrow> ReleaseActor \<Rightarrow> string option \<Rightarrow> release_db \<Rightarrow>
   ReleaseError + (release \<times> string option \<times> release_db)" where
  "insert_release rid now input actor reason db =
     and_then (map_err Err_Invalid (policy_validate (nr_policy input)))
      (\<lambda>_.
     and_then (validate_fraction (nr_rollout_fraction input))
      (\<lambda>_.
     if trim (nr_track input) = [] then Inl (Err_Invalid ''track must not be empty'')
     else if nr_state input = Halted \<or> nr_state input = Release_Failed
     then Inl (Err_Invalid ''a release cannot start halted or failed'')
     else if exists_row (\<lambda>r. rl_id r = rid) (releases db)
     then Inl (Err_Db ''UNIQUE constraint failed: releases.id'')
     else
       let reason = clean_reason reason;
           row = new_release_row rid now input actor (environment_for db input);
           scheduled = row\<lparr>rl_next_step_at := next_step_at row now\<rparr>;
           db1 = db\<lparr>releases := releases db @ [scheduled]\<rparr>;
           db2 = insert_history rid actor None (nr_state input) None (Some (nr_rollout_fraction input))
                   reason now db1
       in Inr (scheduled, reason, db2)))"

definition finish_create :: "release \<Rightarrow> string option \<Rightarrow> ReleaseActor \<Rightarrow> int \<Rightarrow> release_db \<Rightarrow> release_db" where
  "finish_create r reason actor now db =
     (let db1 = audit ''release_created'' (rl_id r) actor
            [(''actor_email'', json_opt (actor_email actor)),
             (''store'', Json_Text (release_store_to_string (rl_store r))),
             (''track'', Json_Text (rl_track r)),
             (''state'', Json_Text (release_state_to_string (rl_state r))),
             (''rollout_fraction'', Json_Number (rl_rollout_fraction r)),
             (''reason'', json_opt reason)] db;
          db2 = publish r Created actor reason now db1;
          db3 = (if rl_state r = Rolling \<or> rl_state r = Release_Complete
                 then publish r Uploaded actor reason now db2 else db2)
      in if awaiting_approval r then publish r ApprovalNeeded actor reason now db3 else db3)"

definition create_release ::
  "string \<Rightarrow> int \<Rightarrow> NewRelease \<Rightarrow> ReleaseActor \<Rightarrow> string option \<Rightarrow> release_db \<Rightarrow>
   ReleaseError + (release \<times> release_db)" where
  "create_release rid now input actor reason db =
     and_then (insert_release rid now input actor reason db)
       (\<lambda>(r, reason, db1). Inr (r, finish_create r reason actor now db1))"

subsection \<open>Changing a release\<close>

record ReleaseChange =
  ch_to_state :: ReleaseState
  ch_to_fraction :: "f64 option"
  ch_audit_action :: string
  ch_expect :: "(ReleaseState \<times> f64) option"
  ch_from_store :: bool

text \<open>The literal \<open>1e-9\<close>.\<close>

definition fraction_tolerance :: f64 where
  "fraction_tolerance = round64 (1 / 10 ^ 9)"

definition unexpected :: "ReleaseChange \<Rightarrow> release \<Rightarrow> bool" where
  "unexpected change current =
     (case ch_expect change of
        None \<Rightarrow> False
      | Some (state, fraction) \<Rightarrow> state \<noteq> rl_state current \<or>
          f64_less fraction_tolerance (f64_abs (f64_sub fraction (rl_rollout_fraction current))))"

definition target_fraction :: "ReleaseChange \<Rightarrow> release \<Rightarrow> f64" where
  "target_fraction change current =
     (if ch_to_state change = Release_Complete then Finite 1
      else unwrap_or (rl_rollout_fraction current) (ch_to_fraction change))"

text \<open>The checks before the store is called; the value is the fraction to move to.\<close>

definition check_change :: "ReleaseChange \<Rightarrow> release \<Rightarrow> ReleaseError + f64" where
  "check_change change current =
     (let from = rl_state current; to = ch_to_state change; to_fraction = target_fraction change current
      in if unexpected change current
         then Inl (Err_Conflict ''release changed, reload and try again'')
         else if \<not> release_can_transition_to from to
         then Inl (Err_Conflict (''release is '' @ release_state_to_string from @ '' and cannot move to '' @
                     release_state_to_string to))
         else and_then (validate_fraction to_fraction)
          (\<lambda>_. if from = Rolling \<and> to = Rolling \<and> f64_le to_fraction (rl_rollout_fraction current)
               then Inl (Err_Invalid ''rollout fraction can only increase'')
               else if \<not> ch_from_store change \<and> awaiting_approval current \<and>
                  (from = Rolling \<or> from = Paused \<or> from = Halted) \<and>
                  (to = Rolling \<or> to = Release_Complete)
               then Inl (Err_Conflict ''release is waiting for approval'')
               else Inr to_fraction))"

definition change_columns :: "int \<Rightarrow> ReleaseState \<Rightarrow> f64 \<Rightarrow> int option \<Rightarrow> release \<Rightarrow> release" where
  "change_columns now to to_fraction next_at r =
     r\<lparr>rl_state := to, rl_rollout_fraction := to_fraction, rl_next_step_at := next_at, rl_updated_at := now\<rparr>"

definition call_store ::
  "store_client \<Rightarrow> release \<Rightarrow> ReleaseChange \<Rightarrow> f64 \<Rightarrow> ReleaseError + unit" where
  "call_store client current change to_fraction =
     (if ch_from_store change then Inr ()
      else (case store_change (rl_state current) (ch_to_state change) to_fraction of
              None \<Rightarrow> Inr ()
            | Some c \<Rightarrow> map_err Err_Store (sc_apply client current c)))"

text \<open>The transaction after the store accepted the change, with the audit entry and the event.\<close>

definition commit_change ::
  "int \<Rightarrow> string \<Rightarrow> ReleaseChange \<Rightarrow> release \<Rightarrow> f64 \<Rightarrow> ReleaseActor \<Rightarrow> string option \<Rightarrow> release_db \<Rightarrow>
   ReleaseError + (release \<times> release_db)" where
  "commit_change now release_id change current to_fraction actor reason db =
     (let from = rl_state current; to = ch_to_state change;
          next_at = next_step_at (current\<lparr>rl_state := to, rl_rollout_fraction := to_fraction\<rparr>) now;
          guard = (\<lambda>r. rl_id r = release_id \<and> rl_state r = from \<and>
                    f64_eq (rl_rollout_fraction r) (rl_rollout_fraction current))
      in if rows_affected guard (releases db) = 0
         then Inl (Err_Conflict ''release changed, reload and try again'')
         else
           let db1 = update_releases guard (change_columns now to to_fraction next_at) db;
               db2 = insert_history release_id actor (Some from) to (Some (rl_rollout_fraction current))
                       (Some to_fraction) reason now db1
           in and_then (load_release db2 release_id)
               (\<lambda>r.
                  let db3 = audit (ch_audit_action change) release_id actor
                        [(''actor_email'', json_opt (actor_email actor)),
                         (''from_state'', Json_Text (release_state_to_string from)),
                         (''to_state'', Json_Text (release_state_to_string to)),
                         (''from_fraction'', Json_Number (rl_rollout_fraction current)),
                         (''to_fraction'', Json_Number to_fraction),
                         (''reason'', json_opt reason)] db2
                  in Inr (r, publish r (event_kind from to) actor reason now db3)))"

definition transition_release ::
  "store_client \<Rightarrow> int \<Rightarrow> string \<Rightarrow> ReleaseChange \<Rightarrow> ReleaseActor \<Rightarrow> string option \<Rightarrow> release_db \<Rightarrow>
   ReleaseError + (release \<times> release_db)" where
  "transition_release client now release_id change actor reason db =
     and_then (load_release db release_id)
      (\<lambda>current.
     and_then (check_change change current)
      (\<lambda>to_fraction.
     and_then (call_store client current change to_fraction)
      (\<lambda>_. commit_change now release_id change current to_fraction actor (clean_reason reason) db)))"

definition gate_to_string :: "ReleaseApprovalGate \<Rightarrow> string" where
  "gate_to_string g =
     (case g of Gate_None \<Rightarrow> ''none'' | BeforeUpload \<Rightarrow> ''before_upload'' | BeforeProduction \<Rightarrow> ''before_production'')"

definition approve_columns :: "int \<Rightarrow> ReleaseActor \<Rightarrow> int option \<Rightarrow> release \<Rightarrow> release" where
  "approve_columns now actor next_at r =
     r\<lparr>rl_approved_at := Some now, rl_approved_by := actor_user_id actor, rl_next_step_at := next_at,
       rl_updated_at := now\<rparr>"

definition commit_approval ::
  "int \<Rightarrow> string \<Rightarrow> release \<Rightarrow> ReleaseActor \<Rightarrow> string option \<Rightarrow> release_db \<Rightarrow>
   ReleaseError + (release \<times> release_db)" where
  "commit_approval now release_id current actor reason db =
     (let next_at = map_option (\<lambda>t. if f64_eq (rl_rollout_fraction current) (Finite 0) then now else t)
            (next_step_at (current\<lparr>rl_approved_at := Some now\<rparr>) now);
          guard = (\<lambda>r. rl_id r = release_id \<and> rl_approved_at r = None \<and> rl_state r = rl_state current)
      in if rows_affected guard (releases db) = 0
         then Inl (Err_Conflict ''release changed, reload and try again'')
         else
           let db1 = update_releases guard (approve_columns now actor next_at) db;
               db2 = insert_history release_id actor (Some (rl_state current)) (rl_state current)
                       (Some (rl_rollout_fraction current)) (Some (rl_rollout_fraction current))
                       (Some (unwrap_or ''approved'' reason)) now db1
           in and_then (load_release db2 release_id)
               (\<lambda>r.
                  let db3 = audit ''release_approved'' release_id actor
                        [(''actor_email'', json_opt (actor_email actor)),
                         (''state'', Json_Text (release_state_to_string (rl_state r))),
                         (''gate'', Json_Text (gate_to_string (po_approval (rl_policy r)))),
                         (''reason'', json_opt reason)] db2
                  in Inr (r, publish r Event_Approved actor reason now db3)))"

definition approve_release ::
  "int \<Rightarrow> string \<Rightarrow> ReleaseActor \<Rightarrow> string option \<Rightarrow> release_db \<Rightarrow> ReleaseError + (release \<times> release_db)" where
  "approve_release now release_id actor reason db =
     and_then (load_release db release_id)
      (\<lambda>current.
         if \<not> awaiting_approval current then Inl (Err_Conflict ''release is not waiting for approval'')
         else commit_approval now release_id current actor (clean_reason reason) db)"

subsection \<open>Sync with the store\<close>

definition store_sync_changes ::
  "ReleaseState \<Rightarrow> f64 \<Rightarrow> StoreObservation \<Rightarrow> (ReleaseState \<times> f64 option) list" where
  "store_sync_changes state fraction observed =
     (case observed of
        Obs_Missing \<Rightarrow>
          if state = Rolling \<or> state = Paused \<or> state = Halted then [(Release_Failed, None)] else []
      | Obs_Completed \<Rightarrow>
          if state = Rolling \<or> state = Paused then [(Release_Complete, None)]
          else if state = Halted then [(Rolling, Some (Finite 1)), (Release_Complete, None)] else []
      | Obs_Halted \<Rightarrow> if state = Rolling \<or> state = Paused then [(Halted, None)] else []
      | Obs_Rolling st \<Rightarrow>
          if state = Rolling \<and> f64_less (f64_add fraction fraction_tolerance) st then [(Rolling, Some st)]
          else if state = Halted then [(Rolling, Some (f64_max st fraction))] else []
      | Obs_Other \<Rightarrow> [])"

definition store_sync_reason :: "release \<Rightarrow> StoreObservation \<Rightarrow> string" where
  "store_sync_reason r observed =
     (case observed of
        Obs_Missing \<Rightarrow> ''No longer on the '' @ rl_track r @ '' track in Play Console: discarded or replaced there''
      | Obs_Completed \<Rightarrow> ''Completed in Play Console''
      | Obs_Halted \<Rightarrow> ''Halted in Play Console''
      | _ \<Rightarrow> ''Rollout changed in Play Console'')"

text \<open>
  The loop over the changes: the first carries the expectation, an error ends it. The database
  keeps the changes made before the error.
\<close>

fun sync_changes ::
  "store_client \<Rightarrow> int \<Rightarrow> string \<Rightarrow> string \<Rightarrow> (ReleaseState \<times> f64) option \<Rightarrow>
   (ReleaseState \<times> f64 option) list \<Rightarrow> release_db \<Rightarrow> (ReleaseError + unit) \<times> release_db" where
  "sync_changes client now release_id reason expect [] db = (Inr (), db)"
| "sync_changes client now release_id reason expect ((to_state, to_fraction) # changes) db =
     (case transition_release client now release_id
             \<lparr>ch_to_state = to_state, ch_to_fraction = to_fraction,
              ch_audit_action = ''release_synced_from_store'', ch_expect = expect, ch_from_store = True\<rparr>
             System (Some reason) db of
        Inl e \<Rightarrow> (Inl e, db)
      | Inr (_, db1) \<Rightarrow> sync_changes client now release_id reason None changes db1)"

definition sync_release_with_store ::
  "store_client \<Rightarrow> release \<Rightarrow> int \<Rightarrow> release_db \<Rightarrow> (ReleaseError + release) \<times> release_db" where
  "sync_release_with_store client r now db =
     (let observed = sc_observe client r;
          db1 = update_releases (\<lambda>x. rl_id x = rl_id r) (\<lambda>x. x\<lparr>rl_store_checked_at := Some now\<rparr>) db
      in case observed of
           Inl e \<Rightarrow> (Inl (Err_Store e), db1)
         | Inr None \<Rightarrow> (Inr r, db1)
         | Inr (Some obs) \<Rightarrow>
             let changes = store_sync_changes (rl_state r) (rl_rollout_fraction r) obs
             in if changes = [] then (Inr r, db1)
                else (case sync_changes client now (rl_id r) (store_sync_reason r obs)
                             (Some (rl_state r, rl_rollout_fraction r)) changes db1 of
                        (Inl e, db2) \<Rightarrow> (Inl e, db2)
                      | (Inr _, db2) \<Rightarrow> (load_release db2 (rl_id r), db2)))"

subsection \<open>The rollout monitor\<close>

definition HEALTH_CHECK_INTERVAL_SECS :: int where
  "HEALTH_CHECK_INTERVAL_SECS = 15 * 60"

definition note_rollout_hold :: "release \<Rightarrow> string \<Rightarrow> int \<Rightarrow> release_db \<Rightarrow> release_db" where
  "note_rollout_hold r reason now db =
     insert_history (rl_id r) System (Some (rl_state r)) (rl_state r) (Some (rl_rollout_fraction r))
       (Some (rl_rollout_fraction r)) (Some reason) now db"

definition check_due :: "int \<Rightarrow> int option \<Rightarrow> bool" where
  "check_due now checked_at =
     (case checked_at of None \<Rightarrow> True | Some t \<Rightarrow> HEALTH_CHECK_INTERVAL_SECS \<le> now - t)"

definition step_due :: "int \<Rightarrow> release \<Rightarrow> bool" where
  "step_due now r = (case rl_next_step_at r of None \<Rightarrow> False | Some t \<Rightarrow> t \<le> now)"

definition percent2 :: "f64 \<Rightarrow> string" where
  "percent2 x = show_f64_2 (f64_scale 100 x) @ ''%''"

definition breach_reason :: "f64 \<Rightarrow> f64 \<Rightarrow> string" where
  "breach_reason rate threshold =
     ''crash rate '' @ percent2 rate @ '' reached the '' @ percent2 threshold @ '' threshold''"

definition halt_change :: ReleaseChange where
  "halt_change = \<lparr>ch_to_state = Halted, ch_to_fraction = None, ch_audit_action = ''release_halted'',
     ch_expect = None, ch_from_store = False\<rparr>"

text \<open>A change whose failure is only logged.\<close>

definition try_transition ::
  "store_client \<Rightarrow> int \<Rightarrow> string \<Rightarrow> ReleaseChange \<Rightarrow> string \<Rightarrow> release_db \<Rightarrow> release_db" where
  "try_transition client now release_id change reason db =
     (case transition_release client now release_id change System (Some reason) db of
        Inl _ \<Rightarrow> db | Inr (_, db1) \<Rightarrow> db1)"

definition rate_columns :: "int \<Rightarrow> f64 option \<Rightarrow> release \<Rightarrow> release" where
  "rate_columns now rate x =
     x\<lparr>rl_crash_rate := (case rate of None \<Rightarrow> rl_crash_rate x | Some v \<Rightarrow> Some v),
       rl_crash_rate_checked_at := Some now, rl_health_error := None\<rparr>"

definition rate_error_columns :: "int \<Rightarrow> string \<Rightarrow> release \<Rightarrow> release" where
  "rate_error_columns now message x =
     x\<lparr>rl_crash_rate_checked_at := Some now, rl_health_error := Some message\<rparr>"

text \<open>Record the outcome of a crash rate check, with a note when the hold begins or ends.\<close>

definition record_rate :: "int \<Rightarrow> release \<Rightarrow> f64 option \<Rightarrow> release_db \<Rightarrow> release_db" where
  "record_rate now r rate db =
     (let db1 = update_releases (\<lambda>x. rl_id x = rl_id r) (rate_columns now rate) db
      in if rl_health_error r \<noteq> None
         then note_rollout_hold r ''Crash rate available again; scheduled rollout continues'' now db1
         else db1)"

definition record_rate_error :: "int \<Rightarrow> release \<Rightarrow> string \<Rightarrow> release_db \<Rightarrow> release_db" where
  "record_rate_error now r error db =
     (let message = take MAX_REASON_LEN error;
          db1 = update_releases (\<lambda>x. rl_id x = rl_id r) (rate_error_columns now message) db
      in if rl_health_error r = None
         then note_rollout_hold r (''Rollout held: crash rate unavailable ('' @ message @ '')'') now db1
         else db1)"

text \<open>
  The health check of one rolling release. The flag says whether the tick goes on to the step
  for this release.
\<close>

definition health_check ::
  "store_client \<Rightarrow> int \<Rightarrow> release \<Rightarrow> release_db \<Rightarrow> bool \<times> release_db" where
  "health_check client now r db =
     (case po_crash_rate_threshold (rl_policy r) of
        None \<Rightarrow> (True, db)
      | Some threshold \<Rightarrow>
          if \<not> check_due now (rl_crash_rate_checked_at r) then (rl_health_error r = None, db)
          else (case sc_crash_rate client r of
                  Inl error \<Rightarrow> (False, record_rate_error now r error db)
                | Inr None \<Rightarrow> (True, record_rate now r None db)
                | Inr (Some rate) \<Rightarrow>
                    if f64_le threshold rate
                    then (False, try_transition client now (rl_id r) halt_change
                            (breach_reason rate threshold) (record_rate now r (Some rate) db))
                    else (True, record_rate now r (Some rate) db)))"

definition advance_change :: "release \<Rightarrow> f64 \<Rightarrow> ReleaseChange" where
  "advance_change r fraction =
     \<lparr>ch_to_state = (if f64_le (Finite 1) fraction then Release_Complete else Rolling),
      ch_to_fraction = Some fraction, ch_audit_action = ''release_advanced'',
      ch_expect = Some (Rolling, rl_rollout_fraction r), ch_from_store = False\<rparr>"

definition take_step :: "store_client \<Rightarrow> int \<Rightarrow> release \<Rightarrow> release_db \<Rightarrow> release_db" where
  "take_step client now r db =
     (if \<not> step_due now r \<or> awaiting_approval r then db
      else (case policy_next_step (rl_policy r) (rl_rollout_fraction r) of
              None \<Rightarrow> db
            | Some fraction \<Rightarrow>
                try_transition client now (rl_id r) (advance_change r fraction) ''scheduled rollout step'' db))"

text \<open>Whether the monitor goes on with this release after comparing it with the store.\<close>

definition sync_first ::
  "store_client \<Rightarrow> int \<Rightarrow> release \<Rightarrow> release_db \<Rightarrow> bool \<times> release_db" where
  "sync_first client now r db =
     (let due = (rl_state r = Rolling \<and> step_due now r)
      in if due \<or> check_due now (rl_store_checked_at r)
         then (case sync_release_with_store client r now db of
                 (Inr synced, db1) \<Rightarrow>
                   (rl_state synced = rl_state r \<and> f64_eq (rl_rollout_fraction synced) (rl_rollout_fraction r), db1)
               | (Inl _, db1) \<Rightarrow> (\<not> due, db1))
         else (True, db))"

definition tick_one :: "store_client \<Rightarrow> int \<Rightarrow> release \<Rightarrow> release_db \<Rightarrow> release_db" where
  "tick_one client now r db =
     (case sync_first client now r db of
        (go, db1) \<Rightarrow>
          if \<not> go \<or> rl_state r \<noteq> Rolling then db1
          else (case health_check client now r db1 of
                  (step, db2) \<Rightarrow> if step then take_step client now r db2 else db2))"

definition tick_selected :: "release \<Rightarrow> bool" where
  "tick_selected r \<longleftrightarrow>
     (rl_state r = Rolling \<or> rl_state r = Paused \<or> rl_state r = Halted) \<and> rl_store r = GooglePlay"

definition tick_order :: "int \<Rightarrow> release \<Rightarrow> int \<times> int" where
  "tick_order now r =
     (if rl_state r = Rolling \<and> step_due now r then 0 else 1, unwrap_or 0 (rl_store_checked_at r))"

definition run_rollout_tick :: "store_client \<Rightarrow> int \<Rightarrow> nat \<Rightarrow> release_db \<Rightarrow> release_db" where
  "run_rollout_tick client now batch db =
     fold (tick_one client now) (take batch (sort_key (tick_order now) (filter tick_selected (releases db)))) db"

subsection \<open>Handlers\<close>

definition user_actor :: "SessionInfo \<Rightarrow> ReleaseActor" where
  "user_actor auth = User (au_user_id auth) (au_email auth)"

definition project_role :: "release_db \<Rightarrow> SessionInfo \<Rightarrow> string \<Rightarrow> EffectiveProjectRole api_result" where
  "project_role db auth project_id =
     resolve_effective_project_role (project_members (core db)) (au_user_id auth) (au_role auth)
       project_id (au_auth_source auth)"

record CreateReleaseRequest =
  crr_build_id :: string
  crr_artifact_id :: "string option"
  crr_store :: ReleaseStore
  crr_track :: string
  crr_package_name :: "string option"
  crr_version_name :: "string option"
  crr_version_code :: "int option"
  crr_state :: "ReleaseState option"
  crr_rollout_fraction :: "f64 option"
  crr_policy :: "ReleasePolicy option"
  crr_reason :: "string option"

definition initial_fraction :: "CreateReleaseRequest \<Rightarrow> ReleasePolicy \<Rightarrow> f64" where
  "initial_fraction req policy =
     (case crr_rollout_fraction req of
        Some f \<Rightarrow> f
      | None \<Rightarrow>
          if unwrap_or Rolling (crr_state req) = Rolling
          then (case po_steps policy of [] \<Rightarrow> Finite 0 | x # _ \<Rightarrow> x) else Finite 0)"

definition create_release_handler ::
  "string \<Rightarrow> int \<Rightarrow> SessionInfo \<Rightarrow> CreateReleaseRequest \<Rightarrow> release_db \<Rightarrow> (release \<times> release_db) api_result" where
  "create_release_handler rid now auth req db =
     and_then (ok_or (ApiError NOT_FOUND ''not_found'' ''Build not found'')
                 (find_build (core db) (crr_build_id req)))
      (\<lambda>b.
     and_then (project_role db auth (b_project_id b))
      (\<lambda>role.
     and_then (require_project_permission role Perm_ManageReleases)
      (\<lambda>_.
     if b_status b \<noteq> Succeeded
     then Inl (ApiError CONFLICT ''build_not_succeeded'' ''Only a succeeded build can be released'')
     else if (case crr_artifact_id req of None \<Rightarrow> False
              | Some a \<Rightarrow> (a, crr_build_id req) \<notin> set (release_artifacts db))
     then Inl (ApiError BAD_REQUEST ''invalid_input'' ''artifact_id does not belong to the build'')
     else if (case crr_version_code req of None \<Rightarrow> False | Some c \<Rightarrow> c < 0)
     then Inl (ApiError BAD_REQUEST ''invalid_input'' ''version_code must not be negative'')
     else
       let policy = unwrap_or default_policy (crr_policy req)
       in and_then (map_err (ApiError BAD_REQUEST ''invalid_input'') (policy_validate_gate policy))
           (\<lambda>_. map_err into_api (create_release rid now
                \<lparr>nr_project_id = b_project_id b, nr_build_id = crr_build_id req,
                 nr_artifact_id = crr_artifact_id req, nr_store = crr_store req, nr_track = crr_track req,
                 nr_package_name = crr_package_name req, nr_version_name = crr_version_name req,
                 nr_version_code = crr_version_code req, nr_state = unwrap_or Rolling (crr_state req),
                 nr_rollout_fraction = initial_fraction req policy, nr_policy = policy,
                 nr_environment_id = None, nr_promoted_from_release_id = None\<rparr>
                (user_actor auth) (crr_reason req) db)))))"

record ReleaseActionRequest =
  rar_reason :: "string option"
  rar_fraction :: "f64 option"

definition action_permission :: "ReleaseAction \<Rightarrow> ProjectPermission" where
  "action_permission action =
     (if action = Action_Pause \<or> action = Action_Halt then Perm_OperateRelease else Perm_ManageReleases)"

text \<open>
  The change of each action, for the release as it was last seen. \<open>approve\<close> is handled before
  this match in \<open>apply_action\<close>; its branch here is never reached.
\<close>

definition action_change ::
  "ReleaseAction \<Rightarrow> ReleaseActionRequest \<Rightarrow> release \<Rightarrow> ReleaseChange api_result" where
  "action_change action req current =
     (let seen = (rl_state current, rl_rollout_fraction current);
          change = (\<lambda>to fraction name expect. \<lparr>ch_to_state = to, ch_to_fraction = fraction,
            ch_audit_action = name, ch_expect = expect, ch_from_store = False\<rparr>)
      in case action of
           Action_Raise \<Rightarrow>
             let fraction = (case rar_fraction req of
                   Some f \<Rightarrow> f
                 | None \<Rightarrow> unwrap_or (Finite 1)
                     (policy_next_step (rl_policy current) (rl_rollout_fraction current)))
             in if \<not> f64_is_finite fraction \<or> f64_le fraction (rl_rollout_fraction current) \<or>
                   f64_less (Finite 1) fraction
                then Inl (ApiError BAD_REQUEST ''invalid_input''
                       ''fraction must be above the current rollout and at most 1'')
                else Inr (change (if f64_le (Finite 1) fraction then Release_Complete else Rolling)
                       (Some fraction) ''release_raised'' (Some seen))
         | Action_Pause \<Rightarrow> Inr (change Paused None ''release_paused'' None)
         | Action_Resume \<Rightarrow> Inr (change Rolling
             (if f64_eq (rl_rollout_fraction current) (Finite 0)
              then (case po_steps (rl_policy current) of [] \<Rightarrow> None | x # _ \<Rightarrow> Some x) else None)
             ''release_resumed'' (Some seen))
         | Action_Halt \<Rightarrow> Inr (change Halted None ''release_halted'' None)
         | Action_Complete \<Rightarrow> Inr (change Release_Complete (Some (Finite 1)) ''release_completed'' (Some seen))
         | Action_Approve \<Rightarrow> Inr (change (rl_state current) None ''release_approved'' None))"

text \<open>
  \<open>POST /v1/releases/{release_id}/{action}\<close>. The database is part of the answer on the error
  paths too: the sync with the store happens before the action is refused.
\<close>

definition apply_action ::
  "store_client \<Rightarrow> int \<Rightarrow> SessionInfo \<Rightarrow> string \<Rightarrow> ReleaseAction \<Rightarrow> ReleaseActionRequest \<Rightarrow> release \<Rightarrow>
   release_db \<Rightarrow> release api_result \<times> release_db" where
  "apply_action client now auth release_id action req current db =
     (let actor = user_actor auth;
          finish = (\<lambda>res. case res of Inl e \<Rightarrow> (Inl (into_api e), db) | Inr (r, db1) \<Rightarrow> (Inr r, db1))
      in if action = Action_Approve then finish (approve_release now release_id actor (rar_reason req) db)
         else (case action_change action req current of
                 Inl e \<Rightarrow> (Inl e, db)
               | Inr change \<Rightarrow>
                   finish (transition_release client now release_id change actor (rar_reason req) db)))"

definition sync_before_action ::
  "store_client \<Rightarrow> int \<Rightarrow> release \<Rightarrow> release_db \<Rightarrow> release \<times> release_db" where
  "sync_before_action client now current db =
     (if rl_store current = GooglePlay \<and> \<not> release_is_terminal (rl_state current)
      then (case sync_release_with_store client current now db of
              (Inr synced, db1) \<Rightarrow> (synced, db1)
            | (Inl _, db1) \<Rightarrow> (current, db1))
      else (current, db))"

definition check_action ::
  "SessionInfo \<Rightarrow> string \<Rightarrow> string \<Rightarrow> ReleaseActionRequest \<Rightarrow> release_db \<Rightarrow>
   (ReleaseAction \<times> release \<times> EffectiveProjectRole) api_result" where
  "check_action auth release_id action_text req db =
     and_then (map_err (\<lambda>_. ApiError NOT_FOUND ''not_found'' ''Unknown release action'')
                 (release_action_from_str action_text))
      (\<lambda>action.
     and_then (map_err into_api (load_release db release_id))
      (\<lambda>current.
     and_then (project_role db auth (rl_project_id current))
      (\<lambda>role.
     and_then (map_err (\<lambda>_. ApiError NOT_FOUND ''not_found'' ''Release not found'')
                 (require_project_permission role Perm_Read))
      (\<lambda>_.
     and_then (require_project_permission role (action_permission action))
      (\<lambda>_.
     if rar_fraction req \<noteq> None \<and> action \<noteq> Action_Raise
     then Inl (ApiError BAD_REQUEST ''invalid_input'' ''fraction is only accepted by raise'')
     else if action \<notin> set (allowed_actions role current)
     then Inl (ApiError CONFLICT ''invalid_release_state''
            (''Cannot '' @ release_action_to_string action @ '' a release that is '' @
             release_state_to_string (rl_state current)))
     else Inr (action, current, role))))))"

definition release_action ::
  "store_client \<Rightarrow> int \<Rightarrow> SessionInfo \<Rightarrow> string \<Rightarrow> string \<Rightarrow> ReleaseActionRequest \<Rightarrow> release_db \<Rightarrow>
   release api_result \<times> release_db" where
  "release_action client now auth release_id action_text req db =
     (case check_action auth release_id action_text req db of
        Inl e \<Rightarrow> (Inl e, db)
      | Inr (action, current, role) \<Rightarrow>
          let (seen, db1) = sync_before_action client now current db
          in if action \<notin> set (allowed_actions role seen)
             then (Inl (ApiError CONFLICT ''invalid_release_state''
                    (''Cannot '' @ release_action_to_string action @
                     '' this release: Play Console shows it as '' @
                     release_state_to_string (rl_state seen) @ '' now'')), db1)
             else apply_action client now auth release_id action req seen db1)"

end
