(* ===== verification/App_Store_Connect.thy ===== *)
theory App_Store_Connect
  imports Ieee_Float
begin

text \<open>
  The App Store Connect client, \<^verbatim>\<open>crates/oored/src/app_store_connect.rs\<close>. Apple's service is a
  parameter, an \<open>'w apple\<close> over a state \<open>'w\<close> the code cannot see: a GET reads the state, a
  POST, PATCH or DELETE may change it, and either may answer with an error message. Every method of
  the client is a function on that state, so a theorem about a method holds for any service.
\<close>

subsection \<open>Requests and resources\<close>

text \<open>A resource of Apple's JSON API. \<open>res_version_ref\<close> is \<open>relationships.appStoreVersion.data.id\<close>.\<close>

datatype attribute = Attr_Str string | Attr_Bool bool | Attr_Int int | Attr_Other

record Resource =
  res_id :: string
  res_attributes :: "(string \<times> attribute) list"
  res_version_ref :: "string option"

text \<open>The GET requests, each with the parameters that go into its path and its filters.\<close>

datatype asc_query =
    Get_apps string
  | Get_builds string string string
  | Get_betaGroups string
  | Get_buildBetaDetail string
  | Get_betaBuildLocalizations string
  | Get_appStoreVersions string string
  | Get_editable_appStoreVersions string
  | Get_appStoreVersion string
  | Get_appStoreVersionLocalizations string
  | Get_appStoreVersionPhasedRelease string
  | Get_reviewSubmissions string
  | Get_reviewSubmission_items string

text \<open>The POST, PATCH and DELETE requests with their bodies.\<close>

datatype asc_request =
    Patch_build_encryption string bool
  | Post_build_betaGroups string "string list"
  | Post_betaAppReviewSubmission string
  | Patch_betaBuildLocalization string string
  | Post_betaBuildLocalization string string string
  | Patch_appStoreVersion_string string string
  | Post_appStoreVersion string string
  | Patch_appStoreVersion_build string string
  | Patch_appStoreVersionLocalization string string
  | Post_appStoreVersionLocalization string string string
  | Post_phasedRelease string
  | Delete_phasedRelease string
  | Patch_phasedRelease string string
  | Post_reviewSubmission string
  | Post_reviewSubmissionItem string string
  | Patch_reviewSubmission_submitted string

record 'w apple =
  ap_get :: "asc_query \<Rightarrow> 'w \<Rightarrow> string + Resource list"
  ap_send :: "asc_request \<Rightarrow> 'w \<Rightarrow> (string + Resource option) \<times> 'w"

text \<open>A computation against the service with errors in \<open>'e\<close>; those of the client are messages.\<close>

type_synonym ('w, 'e, 'a) remote = "'w \<Rightarrow> ('e + 'a) \<times> 'w"

type_synonym ('w, 'a) asc = "('w, string, 'a) remote"

definition asc_bind ::
  "('w, 'e, 'a) remote \<Rightarrow> ('a \<Rightarrow> ('w, 'e, 'b) remote) \<Rightarrow> ('w, 'e, 'b) remote" where
  "asc_bind m f w = (case m w of (Inl e, w1) \<Rightarrow> (Inl e, w1) | (Inr a, w1) \<Rightarrow> f a w1)"

definition asc_lift :: "'e + 'a \<Rightarrow> ('w, 'e, 'a) remote" where
  "asc_lift r w = (r, w)"

definition asc_map_err :: "('e \<Rightarrow> 'f) \<Rightarrow> ('w, 'e, 'a) remote \<Rightarrow> ('w, 'f, 'a) remote" where
  "asc_map_err f m w = (case m w of (Inl e, w1) \<Rightarrow> (Inl (f e), w1) | (Inr a, w1) \<Rightarrow> (Inr a, w1))"

abbreviation asc_return :: "'a \<Rightarrow> ('w, 'e, 'a) remote" where
  "asc_return a \<equiv> asc_lift (Inr a)"

abbreviation asc_fail :: "'e \<Rightarrow> ('w, 'e, 'a) remote" where
  "asc_fail e \<equiv> asc_lift (Inl e)"

definition asc_get :: "'w apple \<Rightarrow> asc_query \<Rightarrow> ('w, Resource list) asc" where
  "asc_get asc q w = (ap_get asc q w, w)"

definition asc_post :: "'w apple \<Rightarrow> asc_request \<Rightarrow> ('w, Resource option) asc" where
  "asc_post asc req = ap_send asc req"

definition asc_patch :: "'w apple \<Rightarrow> asc_request \<Rightarrow> ('w, unit) asc" where
  "asc_patch asc req = asc_bind (ap_send asc req) (\<lambda>_. asc_return ())"

lemma asc_lift_apply [simp]: "asc_lift r w = (r, w)"
  by (simp add: asc_lift_def)

lemma asc_get_snd [simp]: "snd (asc_get asc q w) = w"
  by (simp add: asc_get_def)

text \<open>A computation that only reads leaves the service as it was.\<close>

definition asc_reads :: "('w, 'e, 'a) remote \<Rightarrow> bool" where
  "asc_reads m \<longleftrightarrow> (\<forall>w. snd (m w) = w)"

named_theorems asc_read_intros \<open>computations that only read\<close>

lemma asc_reads_lift [asc_read_intros]: "asc_reads (asc_lift r)"
  by (simp add: asc_reads_def)

lemma asc_reads_get [asc_read_intros]: "asc_reads (asc_get asc q)"
  by (simp add: asc_reads_def)

lemma asc_reads_bind [asc_read_intros]:
  "asc_reads m \<Longrightarrow> (\<And>a. asc_reads (f a)) \<Longrightarrow> asc_reads (asc_bind m f)"
  by (auto simp: asc_reads_def asc_bind_def split: prod.splits sum.splits) (metis snd_conv)+

lemma asc_reads_map_err [asc_read_intros]: "asc_reads m \<Longrightarrow> asc_reads (asc_map_err f m)"
  by (auto simp: asc_reads_def asc_map_err_def split: prod.splits sum.splits) (metis snd_conv)+

lemma asc_readsD: "asc_reads m \<Longrightarrow> snd (m w) = w"
  by (simp add: asc_reads_def)

subsection \<open>Attributes\<close>

definition attr_str :: "Resource \<Rightarrow> string \<Rightarrow> string option" where
  "attr_str r key = (case map_of (res_attributes r) key of Some (Attr_Str s) \<Rightarrow> Some s | _ \<Rightarrow> None)"

definition attr_bool :: "Resource \<Rightarrow> string \<Rightarrow> bool option" where
  "attr_bool r key = (case map_of (res_attributes r) key of Some (Attr_Bool b) \<Rightarrow> Some b | _ \<Rightarrow> None)"

definition attr_int :: "Resource \<Rightarrow> string \<Rightarrow> int option" where
  "attr_int r key = (case map_of (res_attributes r) key of Some (Attr_Int i) \<Rightarrow> Some i | _ \<Rightarrow> None)"

definition or_else :: "'a option \<Rightarrow> 'a option \<Rightarrow> 'a option" where
  "or_else x y = (case x of None \<Rightarrow> y | Some a \<Rightarrow> Some a)"

definition first_of :: "'a list \<Rightarrow> 'a option" where
  "first_of xs = (case xs of [] \<Rightarrow> None | x # _ \<Rightarrow> Some x)"

datatype BuildProcessing = Build_Processing | Build_Valid | Build_Failed

definition parse_processing :: "string option \<Rightarrow> BuildProcessing" where
  "parse_processing raw =
     (if raw = Some ''VALID'' then Build_Valid
      else if raw = Some ''FAILED'' \<or> raw = Some ''INVALID'' then Build_Failed
      else Build_Processing)"

record AscBuild =
  ab_id :: string
  ab_processing :: BuildProcessing
  ab_uses_non_exempt_encryption :: "bool option"

record AscBetaGroup =
  bg_id :: string
  bg_name :: string
  bg_is_internal :: bool
  bg_has_access_to_all_builds :: bool

record AscBetaDetail =
  bd_internal :: "string option"
  bd_external :: "string option"

record AscVersion =
  av_id :: string
  av_version_string :: "string option"
  av_state :: "string option"

record AscPhasedRelease =
  pr_id :: string
  pr_state :: string
  pr_current_day_number :: "int option"

definition version_from_resource :: "Resource \<Rightarrow> AscVersion" where
  "version_from_resource r =
     \<lparr>av_id = res_id r, av_version_string = attr_str r ''versionString'',
      av_state = or_else (attr_str r ''appVersionState'') (attr_str r ''appStoreState'')\<rparr>"

definition EDITABLE_VERSION_STATES :: string where
  "EDITABLE_VERSION_STATES =
     ''PREPARE_FOR_SUBMISSION,DEVELOPER_REJECTED,REJECTED,METADATA_REJECTED,INVALID_BINARY''"

definition version_is_editable :: "string \<Rightarrow> bool" where
  "version_is_editable state \<longleftrightarrow> list_ex (\<lambda>editable. editable = state) (split_on CHR '','' EDITABLE_VERSION_STATES)"

definition version_is_submitted :: "string \<Rightarrow> bool" where
  "version_is_submitted state \<longleftrightarrow> state = ''WAITING_FOR_REVIEW'' \<or> state = ''IN_REVIEW''"

definition submission_item_versions :: "Resource list \<Rightarrow> string option list" where
  "submission_item_versions items = map res_version_ref items"

subsection \<open>Builds and TestFlight\<close>

definition find_app_id :: "'w apple \<Rightarrow> string \<Rightarrow> ('w, string option) asc" where
  "find_app_id asc bundle_id =
     asc_bind (asc_get asc (Get_apps bundle_id))
       (\<lambda>apps. asc_return (map_option res_id
          (find (\<lambda>app. attr_str app ''bundleId'' = Some bundle_id) apps)))"

definition find_asc_build :: "'w apple \<Rightarrow> string \<Rightarrow> string \<Rightarrow> string \<Rightarrow> ('w, AscBuild option) asc" where
  "find_asc_build asc app_id version build_number =
     asc_bind (asc_get asc (Get_builds app_id version build_number))
       (\<lambda>builds. asc_return (map_option (\<lambda>build.
          \<lparr>ab_id = res_id build, ab_processing = parse_processing (attr_str build ''processingState''),
           ab_uses_non_exempt_encryption = attr_bool build ''usesNonExemptEncryption''\<rparr>)
          (first_of builds)))"

definition set_export_compliance :: "'w apple \<Rightarrow> string \<Rightarrow> bool \<Rightarrow> ('w, unit) asc" where
  "set_export_compliance asc build_id uses_non_exempt_encryption =
     asc_patch asc (Patch_build_encryption build_id uses_non_exempt_encryption)"

definition list_beta_groups :: "'w apple \<Rightarrow> string \<Rightarrow> ('w, AscBetaGroup list) asc" where
  "list_beta_groups asc app_id =
     asc_bind (asc_get asc (Get_betaGroups app_id))
       (\<lambda>groups. asc_return (map (\<lambda>group.
          \<lparr>bg_id = res_id group, bg_name = unwrap_or [] (attr_str group ''name''),
           bg_is_internal = unwrap_or False (attr_bool group ''isInternalGroup''),
           bg_has_access_to_all_builds = unwrap_or False (attr_bool group ''hasAccessToAllBuilds'')\<rparr>) groups))"

definition add_build_to_groups :: "'w apple \<Rightarrow> string \<Rightarrow> string list \<Rightarrow> ('w, unit) asc" where
  "add_build_to_groups asc build_id group_ids =
     (if group_ids = [] then asc_return ()
      else asc_bind (asc_post asc (Post_build_betaGroups build_id group_ids)) (\<lambda>_. asc_return ()))"

definition submit_for_beta_review :: "'w apple \<Rightarrow> string \<Rightarrow> ('w, unit) asc" where
  "submit_for_beta_review asc build_id =
     asc_bind (asc_post asc (Post_betaAppReviewSubmission build_id)) (\<lambda>_. asc_return ())"

definition beta_detail :: "'w apple \<Rightarrow> string \<Rightarrow> ('w, AscBetaDetail) asc" where
  "beta_detail asc build_id =
     asc_bind (asc_get asc (Get_buildBetaDetail build_id))
       (\<lambda>detail. asc_return (case first_of detail of
            None \<Rightarrow> \<lparr>bd_internal = None, bd_external = None\<rparr>
          | Some d \<Rightarrow> \<lparr>bd_internal = attr_str d ''internalBuildState'',
                       bd_external = attr_str d ''externalBuildState''\<rparr>))"

definition set_beta_whats_new :: "'w apple \<Rightarrow> string \<Rightarrow> string \<Rightarrow> string \<Rightarrow> ('w, unit) asc" where
  "set_beta_whats_new asc build_id locale whats_new =
     asc_bind (asc_get asc (Get_betaBuildLocalizations build_id))
       (\<lambda>existing. case find (\<lambda>item. attr_str item ''locale'' = Some locale) existing of
            Some localization \<Rightarrow> asc_patch asc (Patch_betaBuildLocalization (res_id localization) whats_new)
          | None \<Rightarrow> asc_bind (asc_post asc (Post_betaBuildLocalization build_id locale whats_new))
                      (\<lambda>_. asc_return ()))"

subsection \<open>App Store versions\<close>

definition find_or_create_version :: "'w apple \<Rightarrow> string \<Rightarrow> string \<Rightarrow> ('w, string) asc" where
  "find_or_create_version asc app_id version =
     asc_bind (asc_get asc (Get_appStoreVersions app_id version))
       (\<lambda>versions. case versions of
            existing # _ \<Rightarrow> asc_return (res_id existing)
          | [] \<Rightarrow>
     asc_bind (asc_get asc (Get_editable_appStoreVersions app_id))
       (\<lambda>editable. case editable of
            existing # _ \<Rightarrow>
              asc_bind (asc_patch asc (Patch_appStoreVersion_string (res_id existing) version))
                (\<lambda>_. asc_return (res_id existing))
          | [] \<Rightarrow>
     asc_bind (asc_post asc (Post_appStoreVersion app_id version))
       (\<lambda>created. asc_lift (ok_or ''App Store version creation returned no version''
                     (map_option res_id created)))))"

definition find_version :: "'w apple \<Rightarrow> string \<Rightarrow> string \<Rightarrow> ('w, AscVersion option) asc" where
  "find_version asc app_id version =
     asc_bind (asc_get asc (Get_appStoreVersions app_id version))
       (\<lambda>versions. asc_return (map_option version_from_resource (first_of versions)))"

definition find_editable_version :: "'w apple \<Rightarrow> string \<Rightarrow> ('w, AscVersion option) asc" where
  "find_editable_version asc app_id =
     asc_bind (asc_get asc (Get_editable_appStoreVersions app_id))
       (\<lambda>editable. asc_return (map_option version_from_resource (first_of editable)))"

definition attach_build_to_version :: "'w apple \<Rightarrow> string \<Rightarrow> string \<Rightarrow> ('w, unit) asc" where
  "attach_build_to_version asc version_id build_id =
     asc_patch asc (Patch_appStoreVersion_build version_id build_id)"

definition set_version_whats_new :: "'w apple \<Rightarrow> string \<Rightarrow> string \<Rightarrow> string \<Rightarrow> ('w, unit) asc" where
  "set_version_whats_new asc version_id locale whats_new =
     asc_bind (asc_get asc (Get_appStoreVersionLocalizations version_id))
       (\<lambda>existing. case find (\<lambda>item. attr_str item ''locale'' = Some locale) existing of
            Some localization \<Rightarrow> asc_patch asc (Patch_appStoreVersionLocalization (res_id localization) whats_new)
          | None \<Rightarrow> asc_bind (asc_post asc (Post_appStoreVersionLocalization version_id locale whats_new))
                      (\<lambda>_. asc_return ()))"

definition phased_release :: "'w apple \<Rightarrow> string \<Rightarrow> ('w, AscPhasedRelease option) asc" where
  "phased_release asc version_id =
     asc_bind (asc_get asc (Get_appStoreVersionPhasedRelease version_id))
       (\<lambda>phased. asc_return (map_option (\<lambda>p.
          \<lparr>pr_id = res_id p, pr_state = unwrap_or [] (attr_str p ''phasedReleaseState''),
           pr_current_day_number = attr_int p ''currentDayNumber''\<rparr>) (first_of phased)))"

definition enable_phased_release :: "'w apple \<Rightarrow> string \<Rightarrow> ('w, unit) asc" where
  "enable_phased_release asc version_id =
     asc_bind (phased_release asc version_id)
       (\<lambda>phased. if phased \<noteq> None then asc_return ()
                  else asc_bind (asc_post asc (Post_phasedRelease version_id)) (\<lambda>_. asc_return ()))"

definition disable_phased_release :: "'w apple \<Rightarrow> string \<Rightarrow> ('w, unit) asc" where
  "disable_phased_release asc version_id =
     asc_bind (phased_release asc version_id)
       (\<lambda>phased. case phased of
            Some p \<Rightarrow> if pr_state p = ''INACTIVE'' then asc_patch asc (Delete_phasedRelease (pr_id p))
                       else asc_return ()
          | None \<Rightarrow> asc_return ())"

definition set_phased_release_state :: "'w apple \<Rightarrow> string \<Rightarrow> string \<Rightarrow> ('w, unit) asc" where
  "set_phased_release_state asc phased_id state = asc_patch asc (Patch_phasedRelease phased_id state)"

text \<open>
  The answer to a single resource GET must hold that resource: an empty one does not parse as
  \<open>OneEnvelope\<close>.
\<close>

definition asc_version_state :: "'w apple \<Rightarrow> string \<Rightarrow> ('w, string) asc" where
  "asc_version_state asc version_id =
     asc_bind (asc_get asc (Get_appStoreVersion version_id))
       (\<lambda>version. case version of
            [] \<Rightarrow> asc_fail ''App Store version state lookup returned an invalid response''
          | r # _ \<Rightarrow> asc_lift (ok_or ''App Store version has no state''
              (or_else (attr_str r ''appVersionState'') (attr_str r ''appStoreState''))))"

subsection \<open>Submitting a version for review\<close>

text \<open>The open review submission of the app, or a new one.\<close>

definition open_submission :: "'w apple \<Rightarrow> string \<Rightarrow> ('w, string) asc" where
  "open_submission asc app_id =
     asc_bind (asc_get asc (Get_reviewSubmissions app_id))
       (\<lambda>submissions. case submissions of
            existing # _ \<Rightarrow> asc_return (res_id existing)
          | [] \<Rightarrow> asc_bind (asc_post asc (Post_reviewSubmission app_id))
              (\<lambda>submission. asc_lift (ok_or ''Review submission creation returned no submission''
                               (map_option res_id submission))))"

definition other_items_message :: string where
  "other_items_message =
     ''App Store Connect already has a draft review submission with other items; submit or remove it '' @
     ''in App Store Connect, then Oore retries''"

definition submit_for_review :: "'w apple \<Rightarrow> string \<Rightarrow> string \<Rightarrow> ('w, unit) asc" where
  "submit_for_review asc app_id version_id =
     asc_bind (asc_version_state asc version_id)
      (\<lambda>state. if version_is_submitted state then asc_return ()
      else
     asc_bind (open_submission asc app_id)
      (\<lambda>submission_id.
     asc_bind (asc_get asc (Get_reviewSubmission_items submission_id))
      (\<lambda>items.
         let item_versions = submission_item_versions items
         in if list_ex (\<lambda>item. item \<noteq> Some version_id) item_versions then asc_fail other_items_message
            else
     asc_bind (if item_versions = []
               then asc_bind (asc_post asc (Post_reviewSubmissionItem submission_id version_id)) (\<lambda>_. asc_return ())
               else asc_return ())
      (\<lambda>_. asc_patch asc (Patch_reviewSubmission_submitted submission_id)))))"

text \<open>Share of users Apple's phased release has reached on a given day.\<close>

definition phased_release_fraction :: "int option \<Rightarrow> f64" where
  "phased_release_fraction day =
     (let d = unwrap_or 1 day
      in if d \<le> 1 then round64 (1 / 100)
         else if d = 2 then round64 (2 / 100)
         else if d = 3 then round64 (5 / 100)
         else if d = 4 then round64 (10 / 100)
         else if d = 5 then round64 (20 / 100)
         else if d = 6 then round64 (50 / 100)
         else Finite 1)"

lemma reading_calls [asc_read_intros]:
  "asc_reads (find_app_id asc bundle_id)"
  "asc_reads (find_asc_build asc app_id version build_number)"
  "asc_reads (list_beta_groups asc app_id)"
  "asc_reads (beta_detail asc build_id)"
  "asc_reads (find_version asc app_id version)"
  "asc_reads (find_editable_version asc app_id)"
  "asc_reads (phased_release asc version_id)"
  "asc_reads (asc_version_state asc version_id)"
  unfolding find_app_id_def find_asc_build_def list_beta_groups_def beta_detail_def find_version_def
    find_editable_version_def phased_release_def asc_version_state_def
  by (auto intro!: asc_read_intros split: list.splits)

end
