(* ===== verification/App_Store.thy ===== *)
theory App_Store
  imports Releases App_Store_Connect
begin

text \<open>
  App Store releases, \<^verbatim>\<open>crates/oored/src/app_store_publish.rs\<close>: the publish settings and
  their handlers, the record of an upload, the monitor that follows Apple's processing, review and
  phased release, the release controls and the promotion of a TestFlight build.

  The stored JSON of a config column is read as its type. Decryption of a stored API key is a
  parameter \<open>decrypt\<close>; the connection an API key opens is a parameter \<open>connect\<close>.
\<close>

subsection \<open>Settings\<close>

definition quoted :: "string \<Rightarrow> string" where
  "quoted s = CHR 0x27 # s @ [CHR 0x27]"

datatype AppStoreDestination = Testflight | Dest_AppStore

definition destination_as_str :: "AppStoreDestination \<Rightarrow> string" where
  "destination_as_str d = (case d of Testflight \<Rightarrow> ''testflight'' | Dest_AppStore \<Rightarrow> ''app_store'')"

record AppStoreReleaseNote =
  note_locale :: string
  note_whats_new :: string

record AppStorePublishConfig =
  ac_enabled :: bool
  ac_destination :: AppStoreDestination
  ac_testflight_groups :: "string list"
  ac_release_notes :: "AppStoreReleaseNote list"
  ac_uses_non_exempt_encryption :: bool
  ac_submit_for_review :: bool
  ac_phased_release :: bool

definition default_config :: AppStorePublishConfig where
  "default_config = \<lparr>ac_enabled = False, ac_destination = Testflight, ac_testflight_groups = [],
     ac_release_notes = [], ac_uses_non_exempt_encryption = False, ac_submit_for_review = False,
     ac_phased_release = False\<rparr>"

definition MAX_GROUPS :: nat where "MAX_GROUPS = 20"
definition MAX_GROUP_NAME_LEN :: nat where "MAX_GROUP_NAME_LEN = 128"
definition MAX_NOTES :: nat where "MAX_NOTES = 40"
definition MAX_LOCALE_LEN :: nat where "MAX_LOCALE_LEN = 16"
definition MAX_WHATS_NEW_CHARS :: nat where "MAX_WHATS_NEW_CHARS = 4000"

definition is_valid_locale :: "string \<Rightarrow> bool" where
  "is_valid_locale locale \<longleftrightarrow> locale \<noteq> [] \<and> length locale \<le> MAX_LOCALE_LEN \<and>
     list_all (\<lambda>part. part \<noteq> [] \<and> list_all is_ascii_alphanumeric part) (split_on CHR ''-'' locale)"

text \<open>One pass of each loop of \<open>normalize_config\<close>: the accepted entries and the errors so far.\<close>

definition add_group :: "string \<Rightarrow> string list \<times> string list \<Rightarrow> string list \<times> string list" where
  "add_group raw acc =
     (let (groups, errors) = acc; group = trim raw
      in if group = [] then (groups, errors)
         else if MAX_GROUP_NAME_LEN < length group
         then (groups, errors @ [''TestFlight group '' @ quoted group @ '' is too long''])
         else if group \<in> set groups then (groups, errors)
         else (groups @ [group], errors))"

definition add_note ::
  "AppStoreReleaseNote \<Rightarrow> AppStoreReleaseNote list \<times> string list \<Rightarrow> AppStoreReleaseNote list \<times> string list" where
  "add_note raw acc =
     (let (notes, errors) = acc; locale = trim (note_locale raw); whats_new = trim (note_whats_new raw)
      in if locale = [] \<and> whats_new = [] then (notes, errors)
         else if \<not> is_valid_locale locale
         then (notes, errors @ [quoted locale @ '' is not an App Store Connect locale such as en-US''])
         else
           let errors = (if MAX_WHATS_NEW_CHARS < length whats_new
                 then errors @ [''Release notes for '' @ locale @ '' are longer than 4000 characters''] else errors)
           in if locale \<in> note_locale ` set notes
              then (notes, errors @ [''Release notes for '' @ locale @ '' are listed twice''])
              else (notes @ [\<lparr>note_locale = locale, note_whats_new = whats_new\<rparr>], errors))"

definition normalize_config :: "AppStorePublishConfig \<Rightarrow> string list + AppStorePublishConfig" where
  "normalize_config config =
     (let (groups, errors1) = fold add_group (ac_testflight_groups config) ([], []);
          errors2 = errors1 @ (if MAX_GROUPS < length groups
            then [''At most 20 TestFlight groups are allowed''] else []) @
            (if ac_enabled config \<and> ac_destination config = Testflight \<and> groups = []
             then [''TestFlight publishing needs at least one group''] else []);
          (notes, errors3) = fold add_note (ac_release_notes config) ([], errors2);
          errors4 = errors3 @ (if MAX_NOTES < length notes
            then [''At most 40 release note locales are allowed''] else []);
          testflight = (ac_destination config = Testflight);
          config' = config\<lparr>ac_testflight_groups := groups, ac_release_notes := notes,
            ac_submit_for_review := ac_submit_for_review config \<and> \<not> testflight,
            ac_phased_release := ac_phased_release config \<and> \<not> testflight\<rparr>
      in if errors4 = [] then Inr config' else Inl errors4)"

definition settings_track :: "AppStorePublishConfig \<Rightarrow> string" where
  "settings_track config =
     (case ac_destination config of
        Testflight \<Rightarrow> join_with '', '' (ac_testflight_groups config)
      | Dest_AppStore \<Rightarrow> ''app_store'')"

text \<open>\<open>split(", ")\<close>.\<close>

fun split_comma :: "string \<Rightarrow> string \<Rightarrow> string list" where
  "split_comma acc [] = [rev acc]"
| "split_comma acc [x] = [rev (x # acc)]"
| "split_comma acc (x # y # zs) =
     (if x = CHR '','' \<and> y = CHR '' '' then rev acc # split_comma [] zs else split_comma (x # acc) (y # zs))"

definition track_groups :: "string \<Rightarrow> string list" where
  "track_groups track = filter (\<lambda>g. g \<noteq> []) (map trim (split_comma [] track))"

record RunnerPublishResult =
  rp_track :: string
  rp_package_name :: string
  rp_version_code :: int
  rp_version_name :: "string option"
  rp_rollout_fraction :: "f64 option"
  rp_status :: string
  rp_testflight_groups :: "string list option"

definition uploaded_config :: "AppStorePublishConfig \<Rightarrow> RunnerPublishResult \<Rightarrow> AppStorePublishConfig" where
  "uploaded_config config reported =
     (let groups = (case rp_testflight_groups reported of
            Some gs \<Rightarrow> filter (\<lambda>g. g \<noteq> []) (map trim gs)
          | None \<Rightarrow>
              let track = trim (rp_track reported)
              in if track = [] \<or> track = ''app_store'' \<or> track = settings_track config then []
                 else track_groups track)
      in if groups = [] then config
         else config\<lparr>ac_destination := Testflight, ac_testflight_groups := groups,
                ac_submit_for_review := False, ac_phased_release := False\<rparr>)"

subsection \<open>Tables\<close>

datatype IosExportMethod = AdHoc | Export_AppStore

definition export_method_from_stored :: "string \<Rightarrow> IosExportMethod" where
  "export_method_from_stored raw = (if raw = ''app_store'' then Export_AppStore else AdHoc)"

record publish_target =
  pt_pipeline_id :: string
  pt_enabled :: bool
  pt_config :: AppStorePublishConfig
  pt_created_by :: string
  pt_updated_by :: string
  pt_created_at :: int
  pt_updated_at :: int

record signing_settings =
  ss_pipeline_id :: string
  ss_enabled :: bool
  ss_export_method :: string
  ss_api_key_id :: "string option"
  ss_api_issuer_id :: "string option"
  ss_api_private_key_encrypted :: "string option"
  ss_shared_api_key_id :: "string option"

record shared_api_key =
  sk_id :: string
  sk_key_id :: string
  sk_issuer_id :: string
  sk_private_key_encrypted :: string

text \<open>
  An IPA row of \<open>artifacts\<close> with what the code reads of its metadata; \<open>ia_metadata\<close> is \<open>None\<close> when
  the metadata is not JSON.
\<close>

record ios_metadata =
  im_effective_export_method :: "string option"
  im_bundle_identifier :: "string option"
  im_version :: "string option"
  im_build_number :: "string option"

record ipa_artifact =
  ia_id :: string
  ia_build_id :: string
  ia_available :: bool
  ia_metadata :: "ios_metadata option"
  ia_created_at :: int

record release_link =
  ln_release_id :: string
  ln_pipeline_id :: string
  ln_bundle_id :: string
  ln_version :: string
  ln_build_number :: string
  ln_config :: AppStorePublishConfig
  ln_stage :: string
  ln_asc_app_id :: "string option"
  ln_asc_build_id :: "string option"
  ln_asc_version_id :: "string option"
  ln_store_status :: "string option"
  ln_last_error :: "string option"
  ln_failing_since :: "int option"
  ln_next_poll_at :: int
  ln_created_at :: int
  ln_updated_at :: int

text \<open>The tables of this component, next to the release tables. \<open>publish_targets\<close> holds the App Store rows.\<close>

record app_store_db =
  rdb :: release_db
  publish_targets :: "publish_target list"
  signing :: "signing_settings list"
  shared_keys :: "shared_api_key list"
  ipa_artifacts :: "ipa_artifact list"
  links :: "release_link list"

abbreviation set_rdb :: "release_db \<Rightarrow> app_store_db \<Rightarrow> app_store_db" where
  "set_rdb d db \<equiv> db\<lparr>rdb := d\<rparr>"

subsection \<open>Settings in the database\<close>

definition load_config :: "app_store_db \<Rightarrow> string \<Rightarrow> (AppStorePublishConfig \<times> int) option" where
  "load_config db pipeline_id =
     map_option (\<lambda>row. ((pt_config row)\<lparr>ac_enabled := pt_enabled row\<rparr>, pt_updated_at row))
       (fetch_optional (\<lambda>row. pt_pipeline_id row = pipeline_id) (publish_targets db))"

record SigningKeyRow =
  kr_enabled :: bool
  kr_export_method :: string
  kr_api_key_id :: "string option"
  kr_api_issuer_id :: "string option"
  kr_api_private_key_encrypted :: "string option"

definition load_signing_key_row :: "app_store_db \<Rightarrow> string \<Rightarrow> SigningKeyRow option" where
  "load_signing_key_row db pipeline_id =
     map_option (\<lambda>s.
       case (case ss_shared_api_key_id s of None \<Rightarrow> None
             | Some shared \<Rightarrow> fetch_optional (\<lambda>k. sk_id k = shared) (shared_keys db)) of
         None \<Rightarrow> \<lparr>kr_enabled = ss_enabled s, kr_export_method = ss_export_method s,
           kr_api_key_id = ss_api_key_id s, kr_api_issuer_id = ss_api_issuer_id s,
           kr_api_private_key_encrypted = ss_api_private_key_encrypted s\<rparr>
       | Some k \<Rightarrow> \<lparr>kr_enabled = ss_enabled s, kr_export_method = ss_export_method s,
           kr_api_key_id = Some (sk_key_id k), kr_api_issuer_id = Some (sk_issuer_id k),
           kr_api_private_key_encrypted = Some (sk_private_key_encrypted k)\<rparr>)
       (fetch_optional (\<lambda>s. ss_pipeline_id s = pipeline_id) (signing db))"

record AppleApiCredentials =
  cr_key_id :: string
  cr_issuer_id :: string
  cr_private_key_pem :: string

definition decrypt_credentials ::
  "(string \<Rightarrow> string + string) \<Rightarrow> SigningKeyRow \<Rightarrow> string + AppleApiCredentials option" where
  "decrypt_credentials decrypt row =
     (case (kr_api_key_id row, kr_api_issuer_id row, kr_api_private_key_encrypted row) of
        (Some key_id, Some issuer_id, Some encrypted) \<Rightarrow>
          and_then (decrypt encrypted)
            (\<lambda>pem. Inr (Some \<lparr>cr_key_id = key_id, cr_issuer_id = issuer_id, cr_private_key_pem = pem\<rparr>))
      | _ \<Rightarrow> Inr None)"

record PipelineAppStorePublishResponse =
  ps_pipeline_id :: string
  ps_config :: AppStorePublishConfig
  ps_has_api_key :: bool
  ps_app_store_export :: bool
  ps_updated_at :: "int option"

definition exports_app_store :: "SigningKeyRow \<Rightarrow> bool" where
  "exports_app_store row \<longleftrightarrow> export_method_from_stored (kr_export_method row) = Export_AppStore"

definition build_response :: "app_store_db \<Rightarrow> string \<Rightarrow> PipelineAppStorePublishResponse" where
  "build_response db pipeline_id =
     (let stored = load_config db pipeline_id; key_row = load_signing_key_row db pipeline_id
      in \<lparr>ps_pipeline_id = pipeline_id,
          ps_config = (case stored of None \<Rightarrow> default_config | Some (config, _) \<Rightarrow> config),
          ps_has_api_key = (case key_row of None \<Rightarrow> False | Some r \<Rightarrow> kr_api_private_key_encrypted r \<noteq> None),
          ps_app_store_export = (case key_row of None \<Rightarrow> False | Some r \<Rightarrow> exports_app_store r),
          ps_updated_at = map_option snd stored\<rparr>)"

definition project_of_pipeline :: "app_store_db \<Rightarrow> string \<Rightarrow> string option" where
  "project_of_pipeline db pipeline_id =
     map_option pl_project_id (fetch_optional (\<lambda>p. pl_id p = pipeline_id) (pipelines (core (rdb db))))"

definition pipeline_permission ::
  "app_store_db \<Rightarrow> SessionInfo \<Rightarrow> string \<Rightarrow> ProjectPermission \<Rightarrow> string api_result" where
  "pipeline_permission db auth pipeline_id permission =
     require_pipeline_project_permission (project_of_pipeline db) (project_members (core (rdb db)))
       (au_user_id auth) (au_role auth) (au_auth_source auth) pipeline_id permission"

definition ensure_pipeline_exists :: "app_store_db \<Rightarrow> string \<Rightarrow> unit api_result" where
  "ensure_pipeline_exists db pipeline_id =
     (if exists_row (\<lambda>p. pl_id p = pipeline_id) (pipelines (core (rdb db))) then Inr ()
      else Inl (ApiError NOT_FOUND ''not_found'' ''Pipeline not found''))"

definition get_pipeline_app_store_publish ::
  "SessionInfo \<Rightarrow> string \<Rightarrow> app_store_db \<Rightarrow> PipelineAppStorePublishResponse api_result" where
  "get_pipeline_app_store_publish auth pipeline_id db =
     and_then (pipeline_permission db auth pipeline_id Perm_Read)
      (\<lambda>_. and_then (ensure_pipeline_exists db pipeline_id)
      (\<lambda>_. Inr (build_response db pipeline_id)))"

abbreviation invalid_publish_config :: "string \<Rightarrow> api_error" where
  "invalid_publish_config message \<equiv> ApiError BAD_REQUEST ''invalid_publish_config'' message"

text \<open>What an enabled target needs of the pipeline's signing settings.\<close>

definition check_publish_signing :: "app_store_db \<Rightarrow> string \<Rightarrow> AppStorePublishConfig \<Rightarrow> unit api_result" where
  "check_publish_signing db pipeline_id config =
     (if \<not> ac_enabled config then Inr ()
      else (case load_signing_key_row db pipeline_id of
              None \<Rightarrow> Inl (invalid_publish_config
                ''Turn on iOS signing for this pipeline before publishing to App Store Connect'')
            | Some row \<Rightarrow>
                if \<not> kr_enabled row then Inl (invalid_publish_config
                  ''Turn on iOS signing for this pipeline before publishing to App Store Connect'')
                else if \<not> exports_app_store row then Inl (invalid_publish_config
                  ''Set the iOS export method to App Store before publishing to App Store Connect'')
                else if kr_api_private_key_encrypted row = None then Inl (invalid_publish_config
                  ''Add an App Store Connect API key in iOS signing before publishing'')
                else Inr ()))"

text \<open>The upsert on \<open>(pipeline_id, store)\<close>.\<close>

definition upsert_target ::
  "string \<Rightarrow> AppStorePublishConfig \<Rightarrow> string \<Rightarrow> int \<Rightarrow> publish_target list \<Rightarrow> publish_target list" where
  "upsert_target pipeline_id config user now rows =
     (if exists_row (\<lambda>row. pt_pipeline_id row = pipeline_id) rows
      then update_where (\<lambda>row. pt_pipeline_id row = pipeline_id)
             (\<lambda>row. row\<lparr>pt_enabled := ac_enabled config, pt_config := config, pt_updated_by := user,
                pt_updated_at := now\<rparr>) rows
      else rows @ [\<lparr>pt_pipeline_id = pipeline_id, pt_enabled = ac_enabled config, pt_config = config,
              pt_created_by = user, pt_updated_by = user, pt_created_at = now, pt_updated_at = now\<rparr>])"

definition show_bool :: "bool \<Rightarrow> string" where
  "show_bool b = (if b then ''true'' else ''false'')"

text \<open>The audit details; the array of groups is one entry per group.\<close>

definition publish_audit ::
  "SessionInfo \<Rightarrow> string \<Rightarrow> AppStorePublishConfig \<Rightarrow> daemon \<Rightarrow> daemon" where
  "publish_audit auth pipeline_id config =
     write_audit_log (Some (au_user_id auth)) ''pipeline_app_store_publish_updated'' ''pipeline'' (Some pipeline_id)
       ([(''pipeline_id'', Some pipeline_id), (''enabled'', Some (show_bool (ac_enabled config))),
         (''destination'', Some (destination_as_str (ac_destination config)))] @
        map (\<lambda>g. (''testflight_groups'', Some g)) (ac_testflight_groups config) @
        [(''submit_for_review'', Some (show_bool (ac_submit_for_review config))),
         (''phased_release'', Some (show_bool (ac_phased_release config)))])"

definition update_pipeline_app_store_publish ::
  "int \<Rightarrow> SessionInfo \<Rightarrow> string \<Rightarrow> AppStorePublishConfig \<Rightarrow> app_store_db \<Rightarrow>
   (PipelineAppStorePublishResponse \<times> app_store_db) api_result" where
  "update_pipeline_app_store_publish now auth pipeline_id request db =
     and_then (pipeline_permission db auth pipeline_id Perm_ManagePipelines)
      (\<lambda>_. and_then (ensure_pipeline_exists db pipeline_id)
      (\<lambda>_. and_then (map_err (\<lambda>errors. invalid_publish_config (join_with ''; '' errors)) (normalize_config request))
      (\<lambda>config. and_then (check_publish_signing db pipeline_id config)
      (\<lambda>_.
         let db1 = db\<lparr>publish_targets := upsert_target pipeline_id config (au_user_id auth) now (publish_targets db)\<rparr>;
             db2 = set_rdb ((rdb db1)\<lparr>core := publish_audit auth pipeline_id config (core (rdb db1))\<rparr>) db1
         in Inr (build_response db2 pipeline_id, db2)))))"

record RunnerAppStorePublishPlan =
  pp_config :: AppStorePublishConfig
  pp_credentials :: AppleApiCredentials

definition runner_plan ::
  "(string \<Rightarrow> string + string) \<Rightarrow> app_store_db \<Rightarrow> string \<Rightarrow> string + RunnerAppStorePublishPlan option" where
  "runner_plan decrypt db pipeline_id =
     (case load_config db pipeline_id of
        None \<Rightarrow> Inr None
      | Some (config, _) \<Rightarrow>
          if \<not> ac_enabled config then Inr None
          else (case load_signing_key_row db pipeline_id of
                  None \<Rightarrow> Inr None
                | Some row \<Rightarrow>
                    if \<not> kr_enabled row \<or> \<not> exports_app_store row then Inr None
                    else and_then (decrypt_credentials decrypt row)
                      (\<lambda>creds. case creds of
                          None \<Rightarrow> Inl (''App Store publishing is on but the pipeline has no '' @
                                        ''App Store Connect API key'')
                        | Some c \<Rightarrow> Inr (Some \<lparr>pp_config = config, pp_credentials = c\<rparr>))))"

definition publishing_enabled :: "app_store_db \<Rightarrow> string \<Rightarrow> bool" where
  "publishing_enabled db pipeline_id \<longleftrightarrow>
     (case load_config db pipeline_id of None \<Rightarrow> False | Some (config, _) \<Rightarrow> ac_enabled config) \<and>
     (case load_signing_key_row db pipeline_id of None \<Rightarrow> False
      | Some row \<Rightarrow> kr_enabled row \<and> exports_app_store row)"

subsection \<open>Recording an upload\<close>

record UploadedIpa =
  ui_artifact_id :: string
  ui_bundle_id :: string
  ui_version :: string
  ui_build_number :: string

definition metadata_field :: "string option \<Rightarrow> string option" where
  "metadata_field raw = (case raw of None \<Rightarrow> None | Some v \<Rightarrow> if trim v = [] then None else Some (trim v))"

definition uploaded_ipa_from_metadata :: "string \<Rightarrow> ios_metadata \<Rightarrow> UploadedIpa option" where
  "uploaded_ipa_from_metadata artifact_id metadata =
     (if im_effective_export_method metadata \<noteq> Some ''app-store-connect'' \<and>
         im_effective_export_method metadata \<noteq> Some ''app-store'' then None
      else (case (metadata_field (im_bundle_identifier metadata), metadata_field (im_version metadata),
                  metadata_field (im_build_number metadata)) of
              (Some bundle_id, Some version, Some build_number) \<Rightarrow>
                Some \<lparr>ui_artifact_id = artifact_id, ui_bundle_id = bundle_id, ui_version = version,
                  ui_build_number = build_number\<rparr>
            | _ \<Rightarrow> None))"

fun find_map :: "('a \<Rightarrow> 'b option) \<Rightarrow> 'a list \<Rightarrow> 'b option" where
  "find_map f [] = None"
| "find_map f (x # xs) = (case f x of None \<Rightarrow> find_map f xs | Some y \<Rightarrow> Some y)"

definition find_uploaded_ipa :: "app_store_db \<Rightarrow> string \<Rightarrow> UploadedIpa option" where
  "find_uploaded_ipa db build_id =
     find_map (\<lambda>row. Option.bind (ia_metadata row) (uploaded_ipa_from_metadata (ia_id row)))
       (sort_key (\<lambda>row. - ia_created_at row)
         (filter (\<lambda>row. ia_build_id row = build_id \<and> ia_available row) (ipa_artifacts db)))"

definition load_uploaded_ipa :: "app_store_db \<Rightarrow> string \<Rightarrow> string + UploadedIpa" where
  "load_uploaded_ipa db build_id =
     ok_or ''build has no App Store IPA artifact'' (find_uploaded_ipa db build_id)"

definition find_build_release :: "release_db \<Rightarrow> string \<Rightarrow> ReleaseStore \<Rightarrow> string option" where
  "find_build_release db build_id store =
     map_option rl_id (first_of (sort_key rl_created_at
       (filter (\<lambda>r. rl_build_id r = build_id \<and> rl_store r = store \<and> rl_promoted_from_release_id r = None)
          (releases db))))"

text \<open>\<open>str::parse\<close> to \<open>i64\<close>.\<close>

definition digit_value :: "char \<Rightarrow> int" where
  "digit_value c = int (of_char c) - 48"

definition parse_i64 :: "string \<Rightarrow> int option" where
  "parse_i64 s =
     (let (sign, digits) = (case s of [] \<Rightarrow> (1, [])
            | c # rest \<Rightarrow> if c = CHR ''-'' then (- 1, rest) else if c = CHR ''+'' then (1, rest) else (1, s));
          value = sign * foldl (\<lambda>acc c. acc * 10 + digit_value c) 0 digits
      in if digits = [] \<or> \<not> list_all is_ascii_digit digits \<or> value < - (2 ^ 63) \<or> 2 ^ 63 \<le> value then None
         else Some value)"

text \<open>The \<open>Debug\<close> rendering of a release error.\<close>

definition debug_str :: "string \<Rightarrow> string" where
  "debug_str s = CHR 0x22 # s @ [CHR 0x22]"

definition debug_release_error :: "ReleaseError \<Rightarrow> string" where
  "debug_release_error e =
     (case e of
        Err_NotFound \<Rightarrow> ''NotFound''
      | Err_Invalid message \<Rightarrow> ''Invalid('' @ debug_str message @ '')''
      | Err_Conflict message \<Rightarrow> ''Conflict('' @ debug_str message @ '')''
      | Err_Store error \<Rightarrow> ''Store('' @ error @ '')''
      | Err_Db error \<Rightarrow> ''Db('' @ error @ '')'')"

definition insert_release_link ::
  "int \<Rightarrow> string \<Rightarrow> string \<Rightarrow> UploadedIpa \<Rightarrow> AppStorePublishConfig \<Rightarrow> app_store_db \<Rightarrow> string + app_store_db" where
  "insert_release_link now release_id pipeline_id ipa config db =
     (if exists_row (\<lambda>l. ln_release_id l = release_id) (links db)
      then Inl ''UNIQUE constraint failed: app_store_release_links.release_id''
      else Inr (db\<lparr>links := links db @
        [\<lparr>ln_release_id = release_id, ln_pipeline_id = pipeline_id, ln_bundle_id = ui_bundle_id ipa,
          ln_version = ui_version ipa, ln_build_number = ui_build_number ipa, ln_config = config,
          ln_stage = ''awaiting_build'', ln_asc_app_id = None, ln_asc_build_id = None,
          ln_asc_version_id = None, ln_store_status = None, ln_last_error = None, ln_failing_since = None,
          ln_next_poll_at = now, ln_created_at = now, ln_updated_at = now\<rparr>]\<rparr>))"

definition uploaded_release :: "build \<Rightarrow> UploadedIpa \<Rightarrow> AppStorePublishConfig \<Rightarrow> NewRelease" where
  "uploaded_release b ipa config =
     \<lparr>nr_project_id = b_project_id b, nr_build_id = b_id b, nr_artifact_id = Some (ui_artifact_id ipa),
      nr_store = AppStore, nr_track = settings_track config, nr_package_name = Some (ui_bundle_id ipa),
      nr_version_name = Some (ui_version ipa), nr_version_code = parse_i64 (ui_build_number ipa),
      nr_state = Processing, nr_rollout_fraction = Finite 0, nr_policy = default_policy,
      nr_environment_id = None, nr_promoted_from_release_id = None\<rparr>"

definition uploaded_reason :: string where
  "uploaded_reason = ''Uploaded to App Store Connect; waiting for Apple to process the build''"

text \<open>The transaction: release and link commit together, or neither does.\<close>

definition commit_upload ::
  "string \<Rightarrow> int \<Rightarrow> build \<Rightarrow> UploadedIpa \<Rightarrow> AppStorePublishConfig \<Rightarrow> app_store_db \<Rightarrow>
   string + (string option \<times> app_store_db)" where
  "commit_upload rid now b ipa config db =
     (if find_build_release (rdb db) (b_id b) AppStore \<noteq> None then Inr (None, db)
      else (case insert_release rid now (uploaded_release b ipa config) System (Some uploaded_reason) (rdb db) of
              Inl e \<Rightarrow> Inl (''failed to create App Store release: '' @ debug_release_error e)
            | Inr (r, reason, rdb1) \<Rightarrow>
                and_then (insert_release_link now (rl_id r) (b_pipeline_id b) ipa config (set_rdb rdb1 db))
                  (\<lambda>db1. Inr (Some (rl_id r), set_rdb (finish_create r reason System now (rdb db1)) db1))))"

definition record_upload ::
  "string \<Rightarrow> int \<Rightarrow> string \<Rightarrow> RunnerPublishResult \<Rightarrow> app_store_db \<Rightarrow>
   string + (string option \<times> app_store_db)" where
  "record_upload rid now build_id reported db =
     and_then (ok_or ''no rows returned by a query that expected to return at least one row''
                (find_build (core (rdb db)) build_id))
      (\<lambda>b.
     and_then (ok_or ''pipeline has no App Store publish settings'' (load_config db (b_pipeline_id b)))
      (\<lambda>(config, _).
     and_then (load_uploaded_ipa db build_id)
      (\<lambda>ipa. commit_upload rid now b ipa (uploaded_config config reported) db)))"

subsection \<open>What Apple's states mean\<close>

datatype Stage = AwaitingBuild | Distribute | BetaReview | Review | Live | Done

definition stage_as_str :: "Stage \<Rightarrow> string" where
  "stage_as_str s =
     (case s of AwaitingBuild \<Rightarrow> ''awaiting_build'' | Distribute \<Rightarrow> ''distribute'' | BetaReview \<Rightarrow> ''beta_review''
      | Review \<Rightarrow> ''review'' | Live \<Rightarrow> ''live'' | Done \<Rightarrow> ''done'')"

definition stage_parse :: "string \<Rightarrow> Stage" where
  "stage_parse raw =
     (if raw = ''distribute'' then Distribute
      else if raw = ''beta_review'' then BetaReview
      else if raw = ''review'' then Review
      else if raw = ''live'' then Live
      else if raw = ''done'' then Done
      else AwaitingBuild)"

definition review_outcome :: "string \<Rightarrow> (ReleaseState \<times> string) option" where
  "review_outcome version_state =
     (if version_state \<in> {''READY_FOR_SALE'', ''READY_FOR_DISTRIBUTION''} then None
      else if version_state \<in> {''PREPARE_FOR_SUBMISSION'', ''READY_FOR_REVIEW''}
      then Some (InReview, ''Build attached; submit the version for review in App Store Connect'')
      else if version_state = ''PENDING_DEVELOPER_RELEASE''
      then Some (InReview, ''Approved by Apple; release the version in App Store Connect'')
      else if version_state \<in> {''REJECTED'', ''METADATA_REJECTED'', ''INVALID_BINARY''}
      then Some (Release_Failed, ''Rejected in App Store review'')
      else if version_state = ''DEVELOPER_REJECTED''
      then Some (Release_Failed, ''Withdrawn from review in App Store Connect'')
      else if version_state \<in> {''REMOVED_FROM_SALE'', ''DEVELOPER_REMOVED_FROM_SALE'', ''REPLACED_WITH_NEW_VERSION''}
      then Some (Halted, ''Version is no longer on the App Store'')
      else Some (InReview, ''In App Store review''))"

definition live_outcome :: "string option \<Rightarrow> int option \<Rightarrow> ReleaseState \<times> f64 \<times> string" where
  "live_outcome phased_state day =
     (if phased_state = Some ''ACTIVE'' then (Rolling, phased_release_fraction day, ''Phased release in progress'')
      else if phased_state = Some ''PAUSED'' then (Paused, phased_release_fraction day, ''Phased release paused'')
      else if phased_state = Some ''INACTIVE'' then (Rolling, Finite 0, ''Phased release waiting to start'')
      else (Release_Complete, Finite 1, ''Live for all users on the App Store''))"

definition beta_review_outcome :: "string option \<Rightarrow> (ReleaseState \<times> string) option" where
  "beta_review_outcome external_state =
     (if external_state = Some ''BETA_APPROVED'' \<or> external_state = Some ''IN_BETA_TESTING''
      then Some (Release_Complete, ''Available to external TestFlight testers'')
      else if external_state = Some ''BETA_REJECTED''
      then Some (Release_Failed, ''Rejected in TestFlight beta review'')
      else if external_state = Some ''EXPIRED'' then Some (Halted, ''TestFlight build expired'')
      else None)"

definition BUILD_DISCOVERY_TIMEOUT_SECS :: int where "BUILD_DISCOVERY_TIMEOUT_SECS = 3 * 60 * 60"
definition POLL_PROCESSING_SECS :: int where "POLL_PROCESSING_SECS = 60"
definition POLL_REVIEW_SECS :: int where "POLL_REVIEW_SECS = 5 * 60"
definition POLL_LIVE_SECS :: int where "POLL_LIVE_SECS = 15 * 60"
definition POLL_ERROR_SECS :: int where "POLL_ERROR_SECS = 5 * 60"
definition GIVE_UP_AFTER_SECS :: int where "GIVE_UP_AFTER_SECS = 24 * 60 * 60"

datatype BetaReadiness = Ready | Wait | Readiness_Failed string

definition beta_readiness :: "AscBetaDetail \<Rightarrow> int \<Rightarrow> BetaReadiness" where
  "beta_readiness detail waited_secs =
     (if bd_internal detail = Some ''PROCESSING_EXCEPTION''
      then Readiness_Failed ''Apple could not prepare the build for TestFlight; check App Store Connect''
      else if bd_internal detail = Some ''MISSING_EXPORT_COMPLIANCE'' \<and> BUILD_DISCOVERY_TIMEOUT_SECS < waited_secs
      then Readiness_Failed (''Apple still needs export compliance for this build; answer it in '' @
             ''App Store Connect or set ITSAppUsesNonExemptEncryption in Info.plist'')
      else if bd_internal detail = Some ''PROCESSING'' \<and> BUILD_DISCOVERY_TIMEOUT_SECS < waited_secs
      then Readiness_Failed ''Apple did not finish processing the build for TestFlight within three hours''
      else if bd_internal detail = Some ''PROCESSING'' \<or> bd_internal detail = Some ''MISSING_EXPORT_COMPLIANCE''
      then Wait
      else Ready)"

definition beta_review_already_submitted :: "string option \<Rightarrow> bool" where
  "beta_review_already_submitted external_state \<longleftrightarrow>
     external_state \<in> Some ` {''WAITING_FOR_BETA_REVIEW'', ''IN_BETA_REVIEW'', ''BETA_APPROVED'',
       ''IN_BETA_TESTING'', ''BETA_REJECTED''}"

subsection \<open>One pass of the monitor over a release\<close>

record LinkRow =
  lr_link :: release_link
  lr_release_state :: ReleaseState
  lr_rollout_fraction :: f64

datatype StepRefusal = TestflightGroupNotFound

record step =
  sp_stage :: "Stage option"
  sp_refusal :: "StepRefusal option"
  sp_transition :: "(ReleaseState \<times> f64 option \<times> string) option"
  sp_next_poll_in :: int
  sp_asc_app_id :: "string option"
  sp_asc_build_id :: "string option"
  sp_asc_version_id :: "string option"
  sp_store_status :: "string option"

definition step_wait :: "int \<Rightarrow> step" where
  "step_wait seconds = \<lparr>sp_stage = None, sp_refusal = None, sp_transition = None, sp_next_poll_in = seconds,
     sp_asc_app_id = None, sp_asc_build_id = None, sp_asc_version_id = None, sp_store_status = None\<rparr>"

text \<open>A step that ends the release's flow with a failure.\<close>

definition step_failed :: "step \<Rightarrow> string \<Rightarrow> step" where
  "step_failed s reason = s\<lparr>sp_stage := Some Done, sp_transition := Some (Release_Failed, None, reason)\<rparr>"

text \<open>The loops that set the release notes: a failed call is kept as a warning, the last one wins.\<close>

fun set_notes ::
  "(string \<Rightarrow> string \<Rightarrow> ('w, unit) asc) \<Rightarrow> AppStoreReleaseNote list \<Rightarrow> string option \<Rightarrow> 'w \<Rightarrow> string option \<times> 'w" where
  "set_notes call [] warning w = (warning, w)"
| "set_notes call (note # notes) warning w =
     (case call (note_locale note) (note_whats_new note) w of
        (Inl error, w1) \<Rightarrow> set_notes call notes (Some error) w1
      | (Inr _, w1) \<Rightarrow> set_notes call notes warning w1)"

definition asc_notes ::
  "(string \<Rightarrow> string \<Rightarrow> ('w, unit) asc) \<Rightarrow> AppStoreReleaseNote list \<Rightarrow> ('w, string option) asc" where
  "asc_notes call notes w = (case set_notes call notes None w of (warning, w1) \<Rightarrow> (Inr warning, w1))"

definition notes_suffix :: "string option \<Rightarrow> string" where
  "notes_suffix warning = (case warning of None \<Rightarrow> [] | Some m \<Rightarrow> '' (notes not set: '' @ m @ '')'')"

definition find_group :: "AscBetaGroup list \<Rightarrow> string \<Rightarrow> AscBetaGroup option" where
  "find_group groups name =
     or_else (find (\<lambda>g. bg_name g = name) groups)
       (find (\<lambda>g. to_ascii_lowercase (bg_name g) = to_ascii_lowercase name) groups)"

definition distribute_testflight ::
  "'w apple \<Rightarrow> string \<Rightarrow> string \<Rightarrow> AscBetaDetail \<Rightarrow> AppStorePublishConfig \<Rightarrow> step \<Rightarrow> ('w, step) asc" where
  "distribute_testflight asc app_id build_id beta config s =
     asc_bind (asc_notes (set_beta_whats_new asc build_id) (ac_release_notes config))
      (\<lambda>notes_warning.
     asc_bind (list_beta_groups asc app_id)
      (\<lambda>groups.
         let missing = filter (\<lambda>name. find_group groups name = None) (ac_testflight_groups config);
             selected = List.map_filter (find_group groups) (ac_testflight_groups config);
             group_ids = map bg_id (filter (\<lambda>g. \<not> (bg_is_internal g \<and> bg_has_access_to_all_builds g)) selected);
             names = join_with '', '' (ac_testflight_groups config);
             suffix = notes_suffix notes_warning
         in if missing \<noteq> []
            then asc_return ((step_failed s (''TestFlight group not found: '' @ join_with '', '' missing))
                   \<lparr>sp_refusal := Some TestflightGroupNotFound\<rparr>)
            else
     asc_bind (add_build_to_groups asc build_id group_ids)
      (\<lambda>_.
         if list_ex (\<lambda>g. \<not> bg_is_internal g) selected
         then asc_bind (if beta_review_already_submitted (bd_external beta) then asc_return ()
                        else submit_for_beta_review asc build_id)
           (\<lambda>_. asc_return (s\<lparr>sp_stage := Some BetaReview, sp_next_poll_in := POLL_REVIEW_SECS,
              sp_transition := Some (InReview, None,
                ''Added to '' @ names @ ''; waiting for TestFlight beta review'' @ suffix)\<rparr>))
         else asc_return (s\<lparr>sp_stage := Some Done,
              sp_transition := Some (Release_Complete, Some (Finite 1),
                ''Available in TestFlight to '' @ names @ suffix)\<rparr>))))"

definition distribute_app_store ::
  "'w apple \<Rightarrow> string \<Rightarrow> string \<Rightarrow> release_link \<Rightarrow> AppStorePublishConfig \<Rightarrow> step \<Rightarrow> ('w, step) asc" where
  "distribute_app_store asc app_id build_id link config s =
     asc_bind (case ln_asc_version_id link of
                 Some version_id \<Rightarrow> asc_return (version_id, s)
               | None \<Rightarrow> asc_bind (find_or_create_version asc app_id (ln_version link))
                   (\<lambda>version_id. asc_return (version_id, s\<lparr>sp_asc_version_id := Some version_id\<rparr>)))
      (\<lambda>(version_id, s).
     asc_bind (attach_build_to_version asc version_id build_id)
      (\<lambda>_.
     asc_bind (asc_notes (set_version_whats_new asc version_id) (ac_release_notes config))
      (\<lambda>notes_warning.
     asc_bind (if ac_phased_release config then enable_phased_release asc version_id
               else disable_phased_release asc version_id)
      (\<lambda>_.
         let suffix = notes_suffix notes_warning;
             s = s\<lparr>sp_stage := Some Review, sp_next_poll_in := POLL_REVIEW_SECS\<rparr>
         in if ac_submit_for_review config
            then asc_bind (submit_for_review asc app_id version_id)
                   (\<lambda>_. asc_return (s\<lparr>sp_transition := Some (InReview, None,
                      ''Submitted version '' @ ln_version link @ '' for App Store review'' @ suffix)\<rparr>))
            else asc_return (s\<lparr>sp_transition := Some (InReview, None,
                   ''Build attached to version '' @ ln_version link @
                   ''; submit it for review in App Store Connect'' @ suffix)\<rparr>)))))"


text \<open>The stages of \<open>advance\<close>, each with the step it starts from.\<close>

definition listed_step :: "'w apple \<Rightarrow> release_link \<Rightarrow> step \<Rightarrow> AscBuild \<Rightarrow> ('w, step) asc" where
  "listed_step asc link s build =
     (let s = s\<lparr>sp_asc_build_id := Some (ab_id build)\<rparr>
      in case ab_processing build of
           Build_Processing \<Rightarrow> asc_return s
         | Build_Failed \<Rightarrow> asc_return (step_failed s
             ''Apple could not process the build; check the email App Store Connect sent'')
         | Build_Valid \<Rightarrow>
             asc_bind (if ab_uses_non_exempt_encryption build = None
                       then set_export_compliance asc (ab_id build) (ac_uses_non_exempt_encryption (ln_config link))
                       else asc_return ())
               (\<lambda>_. asc_return (s\<lparr>sp_stage := Some Distribute, sp_next_poll_in := 0\<rparr>)))"

definition awaiting_step ::
  "'w apple \<Rightarrow> int \<Rightarrow> release_link \<Rightarrow> string \<Rightarrow> step \<Rightarrow> ('w, step) asc" where
  "awaiting_step asc now link app_id s =
     asc_bind (find_asc_build asc app_id (ln_version link) (ln_build_number link))
      (\<lambda>found. case found of
         None \<Rightarrow>
           asc_return (if BUILD_DISCOVERY_TIMEOUT_SECS < now - ln_created_at link
             then step_failed s (''App Store Connect did not list build '' @ ln_version link @ '' ('' @
                    ln_build_number link @ '') within three hours'')
             else s)
       | Some build \<Rightarrow> listed_step asc link s build)"

definition distribute_step ::
  "'w apple \<Rightarrow> int \<Rightarrow> release_link \<Rightarrow> string \<Rightarrow> step \<Rightarrow> ('w, step) asc" where
  "distribute_step asc now link app_id s =
     asc_bind (asc_lift (ok_or ''App Store build ID was not recorded'' (ln_asc_build_id link)))
      (\<lambda>build_id.
     asc_bind (beta_detail asc build_id)
      (\<lambda>beta. case beta_readiness beta (now - ln_created_at link) of
         Wait \<Rightarrow> asc_return s
       | Readiness_Failed reason \<Rightarrow> asc_return (step_failed s reason)
       | Ready \<Rightarrow>
           (case ac_destination (ln_config link) of
              Testflight \<Rightarrow> distribute_testflight asc app_id build_id beta (ln_config link) s
            | Dest_AppStore \<Rightarrow> distribute_app_store asc app_id build_id link (ln_config link) s)))"

definition beta_review_step :: "'w apple \<Rightarrow> release_link \<Rightarrow> step \<Rightarrow> ('w, step) asc" where
  "beta_review_step asc link s =
     asc_bind (asc_lift (ok_or ''App Store build ID was not recorded'' (ln_asc_build_id link)))
      (\<lambda>build_id.
     asc_bind (beta_detail asc build_id)
      (\<lambda>beta.
         let s = s\<lparr>sp_next_poll_in := POLL_REVIEW_SECS, sp_store_status := bd_external beta\<rparr>
         in case beta_review_outcome (bd_external beta) of
              None \<Rightarrow> asc_return s
            | Some (state, reason) \<Rightarrow>
                asc_return (s\<lparr>sp_stage := Some Done, sp_transition := Some (state,
                   if state = Release_Complete then Some (Finite 1) else None, reason)\<rparr>)))"

definition review_step :: "'w apple \<Rightarrow> release_link \<Rightarrow> step \<Rightarrow> ('w, step) asc" where
  "review_step asc link s =
     asc_bind (asc_lift (ok_or ''App Store version ID was not recorded'' (ln_asc_version_id link)))
      (\<lambda>version_id.
     asc_bind (asc_version_state asc version_id)
      (\<lambda>version_state.
         let s = s\<lparr>sp_next_poll_in := POLL_REVIEW_SECS, sp_store_status := Some version_state\<rparr>
         in asc_return (case review_outcome version_state of
              Some (state, reason) \<Rightarrow>
                s\<lparr>sp_stage := if state = Release_Failed \<or> state = Halted then Some Done else sp_stage s,
                  sp_transition := Some (state, None, reason)\<rparr>
            | None \<Rightarrow> s\<lparr>sp_stage := Some Live, sp_next_poll_in := 0\<rparr>)))"

definition live_step :: "'w apple \<Rightarrow> release_link \<Rightarrow> step \<Rightarrow> ('w, step) asc" where
  "live_step asc link s =
     asc_bind (asc_lift (ok_or ''App Store version ID was not recorded'' (ln_asc_version_id link)))
      (\<lambda>version_id.
     asc_bind (phased_release asc version_id)
      (\<lambda>phased.
         let (state, fraction, reason) = live_outcome (map_option pr_state phased)
               (Option.bind phased pr_current_day_number)
         in asc_return (s\<lparr>sp_next_poll_in := POLL_LIVE_SECS,
              sp_stage := if state = Release_Complete then Some Done else sp_stage s,
              sp_transition := Some (state, Some fraction, reason)\<rparr>)))"

text \<open>The app id, from the link or looked up, with the step that records a new one.\<close>

definition app_id_step :: "'w apple \<Rightarrow> release_link \<Rightarrow> ('w, string option \<times> step) asc" where
  "app_id_step asc link =
     (let s = step_wait POLL_PROCESSING_SECS
      in case ln_asc_app_id link of
           Some app_id \<Rightarrow> asc_return (Some app_id, s)
         | None \<Rightarrow> asc_bind (find_app_id asc (ln_bundle_id link))
             (\<lambda>found. asc_return (case found of
                Some app_id \<Rightarrow> (Some app_id, s\<lparr>sp_asc_app_id := Some app_id\<rparr>)
              | None \<Rightarrow> (None, step_failed s
                  (''App Store Connect has no app with bundle ID '' @ ln_bundle_id link)))))"

definition advance :: "'w apple \<Rightarrow> int \<Rightarrow> release_link \<Rightarrow> ('w, step) asc" where
  "advance asc now link =
     asc_bind (app_id_step asc link)
      (\<lambda>(app, s). case app of
         None \<Rightarrow> asc_return s
       | Some app_id \<Rightarrow>
           (case stage_parse (ln_stage link) of
              AwaitingBuild \<Rightarrow> awaiting_step asc now link app_id s
            | Distribute \<Rightarrow> distribute_step asc now link app_id s
            | BetaReview \<Rightarrow> beta_review_step asc link s
            | Review \<Rightarrow> review_step asc link s
            | Live \<Rightarrow> live_step asc link s
            | Done \<Rightarrow> asc_return (step_wait POLL_LIVE_SECS)))"

subsection \<open>Recording a step\<close>

definition transition_path :: "ReleaseState \<Rightarrow> ReleaseState \<Rightarrow> ReleaseState list" where
  "transition_path from target =
     (if release_can_transition_to from target then [target]
      else if (target = Release_Complete \<or> target = Paused) \<and> release_can_transition_to from Rolling
      then [Rolling, target]
      else if target = Halted \<and> release_can_transition_to from Release_Failed then [Release_Failed]
      else [])"

text \<open>\<open>f64::EPSILON\<close>.\<close>

definition f64_EPSILON :: f64 where
  "f64_EPSILON = Finite (1 / 2 ^ 52)"

definition state_matches :: "ReleaseState \<Rightarrow> f64 \<Rightarrow> ReleaseState \<Rightarrow> f64 option \<Rightarrow> bool" where
  "state_matches current fraction next next_fraction \<longleftrightarrow>
     current = next \<and>
     (case next_fraction of None \<Rightarrow> True
      | Some nf \<Rightarrow> f64_less (f64_abs (f64_sub nf fraction)) f64_EPSILON)"

definition hop_fraction :: "ReleaseState \<Rightarrow> f64 option \<Rightarrow> ReleaseState \<Rightarrow> f64 option" where
  "hop_fraction target tfraction to_state =
     (if to_state = Rolling \<and> target \<noteq> Rolling then or_else tfraction (Some (Finite 1)) else tfraction)"

text \<open>Apple only raises phased releases; a step down is never recorded.\<close>

definition skips_hop :: "ReleaseState \<Rightarrow> f64 \<Rightarrow> ReleaseState \<Rightarrow> f64 option \<Rightarrow> bool" where
  "skips_hop from link_fraction to_state to_fraction \<longleftrightarrow>
     from = Rolling \<and> to_state = Rolling \<and>
     (case to_fraction of None \<Rightarrow> False | Some f \<Rightarrow> f64_le f link_fraction)"

definition store_update :: "ReleaseState \<Rightarrow> f64 option \<Rightarrow> (ReleaseState \<times> f64) option \<Rightarrow> ReleaseChange" where
  "store_update to_state to_fraction expect =
     \<lparr>ch_to_state = to_state, ch_to_fraction = to_fraction, ch_audit_action = ''app_store_release_updated'',
      ch_expect = expect, ch_from_store = True\<rparr>"

datatype hops_outcome = Hops_Done | Hops_Stale | Hops_Failed string

fun apply_hops ::
  "store_client \<Rightarrow> int \<Rightarrow> LinkRow \<Rightarrow> ReleaseState \<Rightarrow> f64 option \<Rightarrow> string \<Rightarrow> (ReleaseState \<times> f64) option \<Rightarrow>
   ReleaseState list \<Rightarrow> release_db \<Rightarrow> hops_outcome \<times> release_db" where
  "apply_hops client now link target tfraction reason expect [] db = (Hops_Done, db)"
| "apply_hops client now link target tfraction reason expect (to_state # path) db =
     (let to_fraction = hop_fraction target tfraction to_state
      in if skips_hop (lr_release_state link) (lr_rollout_fraction link) to_state to_fraction
         then apply_hops client now link target tfraction reason expect path db
         else (case transition_release client now (ln_release_id (lr_link link))
                      (store_update to_state to_fraction expect) System (Some reason) db of
                 Inr (_, db1) \<Rightarrow> apply_hops client now link target tfraction reason None path db1
               | Inl (Err_Conflict _) \<Rightarrow> (Hops_Stale, db)
               | Inl error \<Rightarrow>
                   (Hops_Failed (''failed to update App Store release: '' @ debug_release_error error), db)))"

definition apply_transition ::
  "store_client \<Rightarrow> int \<Rightarrow> LinkRow \<Rightarrow> step \<Rightarrow> release_db \<Rightarrow> hops_outcome \<times> release_db" where
  "apply_transition client now link s db =
     (case sp_transition s of
        None \<Rightarrow> (Hops_Done, db)
      | Some (target, tfraction, reason) \<Rightarrow>
          if state_matches (lr_release_state link) (lr_rollout_fraction link) target tfraction
          then (Hops_Done, db)
          else apply_hops client now link target tfraction reason
                 (Some (lr_release_state link, lr_rollout_fraction link))
                 (transition_path (lr_release_state link) target) db)"

definition step_columns :: "int \<Rightarrow> Stage option \<Rightarrow> int \<Rightarrow> step \<Rightarrow> release_link \<Rightarrow> release_link" where
  "step_columns now stage next_poll_in s l =
     l\<lparr>ln_stage := unwrap_or (ln_stage l) (map_option stage_as_str stage),
       ln_asc_app_id := or_else (sp_asc_app_id s) (ln_asc_app_id l),
       ln_asc_build_id := or_else (sp_asc_build_id s) (ln_asc_build_id l),
       ln_asc_version_id := or_else (sp_asc_version_id s) (ln_asc_version_id l),
       ln_store_status := or_else (sp_store_status s) (ln_store_status l),
       ln_last_error := None, ln_failing_since := None, ln_next_poll_at := now + next_poll_in,
       ln_updated_at := now\<rparr>"

definition update_links ::
  "(release_link \<Rightarrow> bool) \<Rightarrow> (release_link \<Rightarrow> release_link) \<Rightarrow> app_store_db \<Rightarrow> app_store_db" where
  "update_links P f db = db\<lparr>links := update_where P f (links db)\<rparr>"

definition apply_step ::
  "store_client \<Rightarrow> int \<Rightarrow> LinkRow \<Rightarrow> step \<Rightarrow> app_store_db \<Rightarrow> (string + unit) \<times> app_store_db" where
  "apply_step client now link s db =
     (let rid = ln_release_id (lr_link link)
      in case apply_transition client now link s (rdb db) of
           (Hops_Failed message, d) \<Rightarrow> (Inl message, set_rdb d db)
         | (Hops_Done, d) \<Rightarrow>
             (Inr (), update_links (\<lambda>l. ln_release_id l = rid)
                (step_columns now (sp_stage s) (sp_next_poll_in s) s) (set_rdb d db))
         | (Hops_Stale, d) \<Rightarrow>
             (Inr (), update_links (\<lambda>l. ln_release_id l = rid) (step_columns now None 0 s) (set_rdb d db)))"

subsection \<open>Failing polls\<close>

definition error_columns :: "int \<Rightarrow> string \<Rightarrow> release_link \<Rightarrow> release_link" where
  "error_columns now message l =
     l\<lparr>ln_last_error := Some message, ln_next_poll_at := now + POLL_ERROR_SECS, ln_updated_at := now,
       ln_failing_since := or_else (ln_failing_since l) (Some now)\<rparr>"

definition give_up_reason :: "string \<Rightarrow> string" where
  "give_up_reason message =
     take 500 (''App Store Connect kept failing for 24 hours; last error: '' @ message)"

text \<open>The changes that mark the release failed; an error ends the loop and keeps those made.\<close>

fun fail_hops ::
  "store_client \<Rightarrow> int \<Rightarrow> string \<Rightarrow> string \<Rightarrow> ReleaseState list \<Rightarrow> release_db \<Rightarrow> bool \<times> release_db" where
  "fail_hops client now release_id reason [] db = (True, db)"
| "fail_hops client now release_id reason (to_state # path) db =
     (case transition_release client now release_id (store_update to_state None None) System (Some reason) db of
        Inl _ \<Rightarrow> (False, db)
      | Inr (_, db1) \<Rightarrow> fail_hops client now release_id reason path db1)"

definition give_up ::
  "store_client \<Rightarrow> int \<Rightarrow> string \<Rightarrow> string \<Rightarrow> app_store_db \<Rightarrow> app_store_db" where
  "give_up client now release_id message db =
     (case load_release (rdb db) release_id of
        Inl _ \<Rightarrow> db
      | Inr r \<Rightarrow>
          (case fail_hops client now release_id (give_up_reason message)
                  (transition_path (rl_state r) Release_Failed) (rdb db) of
             (False, d) \<Rightarrow> set_rdb d db
           | (True, d) \<Rightarrow> update_links (\<lambda>l. ln_release_id l = release_id)
               (\<lambda>l. l\<lparr>ln_stage := ''done'', ln_updated_at := now\<rparr>) (set_rdb d db)))"

definition record_poll_error ::
  "store_client \<Rightarrow> int \<Rightarrow> string \<Rightarrow> string \<Rightarrow> app_store_db \<Rightarrow> app_store_db" where
  "record_poll_error client now release_id message db =
     (let db1 = update_links (\<lambda>l. ln_release_id l = release_id) (error_columns now message) db
      in case Option.bind (fetch_optional (\<lambda>l. ln_release_id l = release_id) (links db1)) ln_failing_since of
           None \<Rightarrow> db1
         | Some since \<Rightarrow>
             if now - since < GIVE_UP_AFTER_SECS then db1 else give_up client now release_id message db1)"

subsection \<open>The monitor\<close>

definition load_credentials ::
  "(string \<Rightarrow> string + string) \<Rightarrow> app_store_db \<Rightarrow> string \<Rightarrow> string + AppleApiCredentials" where
  "load_credentials decrypt db pipeline_id =
     and_then (ok_or ''pipeline has no iOS signing settings'' (load_signing_key_row db pipeline_id))
      (\<lambda>row. and_then (decrypt_credentials decrypt row)
      (\<lambda>creds. ok_or ''pipeline has no App Store Connect API key'' creds))"

definition link_row :: "release_db \<Rightarrow> release_link \<Rightarrow> LinkRow option" where
  "link_row db l =
     map_option (\<lambda>r. \<lparr>lr_link = l, lr_release_state = rl_state r, lr_rollout_fraction = rl_rollout_fraction r\<rparr>)
       (fetch_optional (\<lambda>r. rl_id r = ln_release_id l) (releases db))"

definition link_due :: "int \<Rightarrow> LinkRow \<Rightarrow> bool" where
  "link_due now row \<longleftrightarrow>
     ln_stage (lr_link row) \<noteq> ''done'' \<and>
     lr_release_state row \<notin> {Release_Complete, Release_Failed, Halted} \<and>
     ln_next_poll_at (lr_link row) \<le> now"

definition due_links :: "int \<Rightarrow> app_store_db \<Rightarrow> LinkRow list" where
  "due_links now db =
     take 50 (sort_key (\<lambda>row. ln_next_poll_at (lr_link row))
       (filter (link_due now) (List.map_filter (link_row (rdb db)) (links db))))"

text \<open>The row the second round of a poll goes on with.\<close>

definition moved_row :: "step \<Rightarrow> LinkRow \<Rightarrow> LinkRow" where
  "moved_row s row =
     row\<lparr>lr_link := (lr_link row)\<lparr>
       ln_stage := unwrap_or (ln_stage (lr_link row)) (map_option stage_as_str (sp_stage s)),
       ln_asc_app_id := or_else (sp_asc_app_id s) (ln_asc_app_id (lr_link row)),
       ln_asc_build_id := or_else (sp_asc_build_id s) (ln_asc_build_id (lr_link row)),
       ln_asc_version_id := or_else (sp_asc_version_id s) (ln_asc_version_id (lr_link row))\<rparr>\<rparr>"

fun poll_rounds ::
  "nat \<Rightarrow> store_client \<Rightarrow> 'w apple \<Rightarrow> int \<Rightarrow> LinkRow \<Rightarrow> app_store_db \<times> 'w \<Rightarrow> app_store_db \<times> 'w" where
  "poll_rounds 0 client asc now row (db, w) = (db, w)"
| "poll_rounds (Suc n) client asc now row (db, w) =
     (let rid = ln_release_id (lr_link row)
      in case advance asc now (lr_link row) w of
           (Inl error, w1) \<Rightarrow> (record_poll_error client now rid error db, w1)
         | (Inr s, w1) \<Rightarrow>
             (case apply_step client now row s db of
                (Inl error, db1) \<Rightarrow> (record_poll_error client now rid error db1, w1)
              | (Inr _, db1) \<Rightarrow>
                  if sp_next_poll_in s \<noteq> 0 then (db1, w1)
                  else poll_rounds n client asc now (moved_row s row) (db1, w1)))"

definition poll_one ::
  "(string \<Rightarrow> string + string) \<Rightarrow> (AppleApiCredentials \<Rightarrow> 'w apple) \<Rightarrow> store_client \<Rightarrow> int \<Rightarrow> LinkRow \<Rightarrow>
   app_store_db \<times> 'w \<Rightarrow> app_store_db \<times> 'w" where
  "poll_one decrypt connect client now row acc =
     (case load_credentials decrypt (fst acc) (ln_pipeline_id (lr_link row)) of
        Inl error \<Rightarrow> (record_poll_error client now (ln_release_id (lr_link row)) error (fst acc), snd acc)
      | Inr creds \<Rightarrow> poll_rounds 2 client (connect creds) now row acc)"

definition poll_releases ::
  "(string \<Rightarrow> string + string) \<Rightarrow> (AppleApiCredentials \<Rightarrow> 'w apple) \<Rightarrow> store_client \<Rightarrow> int \<Rightarrow>
   app_store_db \<times> 'w \<Rightarrow> app_store_db \<times> 'w" where
  "poll_releases decrypt connect client now acc =
     fold (poll_one decrypt connect client now) (due_links now (fst acc)) acc"

subsection \<open>Release controls\<close>

definition control_target :: "StoreChange \<Rightarrow> string + string option" where
  "control_target change =
     (case change of
        Change_Rollout _ \<Rightarrow> Inr None
      | Change_Pause \<Rightarrow> Inr (Some ''PAUSED'')
      | Change_Resume _ \<Rightarrow> Inr (Some ''ACTIVE'')
      | Change_Complete \<Rightarrow> Inr (Some ''COMPLETE'')
      | Change_Halt \<Rightarrow> Inl (''App Store releases cannot be halted from Oore; pause the phased release or '' @
                             ''remove the version from sale in App Store Connect''))"

text \<open>Set the phased release of a version; the flag says whether Apple was asked to change it.\<close>

definition control_phased :: "'w apple \<Rightarrow> string \<Rightarrow> string \<Rightarrow> ('w, bool) asc" where
  "control_phased asc version_id target =
     asc_bind (phased_release asc version_id)
      (\<lambda>phased. case phased of
         None \<Rightarrow> if target = ''COMPLETE'' then asc_return False
                 else asc_fail ''This App Store version does not use phased release''
       | Some p \<Rightarrow>
           if pr_state p = target \<or> pr_state p = ''COMPLETE'' then asc_return False
           else asc_bind (set_phased_release_state asc (pr_id p) target) (\<lambda>_. asc_return True))"

definition apply_change ::
  "(string \<Rightarrow> string + string) \<Rightarrow> (AppleApiCredentials \<Rightarrow> 'w apple) \<Rightarrow> int \<Rightarrow> release \<Rightarrow> StoreChange \<Rightarrow>
   app_store_db \<times> 'w \<Rightarrow> (string + unit) \<times> app_store_db \<times> 'w" where
  "apply_change decrypt connect now r change acc =
     (let (db, w) = acc
      in case control_target change of
           Inl e \<Rightarrow> (Inl e, db, w)
         | Inr None \<Rightarrow> (Inr (), db, w)
         | Inr (Some target) \<Rightarrow>
             (case fetch_optional (\<lambda>l. ln_release_id l = rl_id r) (links db) of
                None \<Rightarrow> (Inr (), db, w)
              | Some l \<Rightarrow>
                  (case ln_asc_version_id l of
                     None \<Rightarrow> (Inr (), db, w)
                   | Some version_id \<Rightarrow>
                       if stage_parse (ln_stage l) \<notin> {Live, Done} then (Inr (), db, w)
                       else (case load_credentials decrypt db (ln_pipeline_id l) of
                               Inl e \<Rightarrow> (Inl e, db, w)
                             | Inr creds \<Rightarrow>
                                 (case control_phased (connect creds) version_id target w of
                                    (Inl e, w1) \<Rightarrow> (Inl e, db, w1)
                                  | (Inr False, w1) \<Rightarrow> (Inr (), db, w1)
                                  | (Inr True, w1) \<Rightarrow>
                                      (Inr (), update_links (\<lambda>l. ln_release_id l = rl_id r)
                                         (\<lambda>l. l\<lparr>ln_next_poll_at := now\<rparr>) db, w1))))))"

subsection \<open>Promotion\<close>

record PromotionTarget =
  pg_track :: string
  pg_fraction :: "f64 option"
  pg_phased_release :: bool
  pg_submit_for_review :: bool

record PromotedLink =
  pk_pipeline_id :: string
  pk_bundle_id :: string
  pk_version :: string
  pk_build_number :: string
  pk_config :: AppStorePublishConfig
  pk_stage :: Stage
  pk_asc_app_id :: string
  pk_asc_build_id :: string
  pk_asc_version_id :: "string option"
  pk_next_poll_in :: int

record Promoted =
  pd_start :: "(ReleaseState \<times> f64) option"
  pd_detail :: "string option"
  pd_app_store_link :: "PromotedLink option"

text \<open>An error of a promotion: refused with a code, or any other failure.\<close>

datatype promote_error = Refused string string | Promote_Failed string

definition APP_STORE_TRACK :: string where
  "APP_STORE_TRACK = ''app_store''"

definition testflight_expired :: "AscBetaDetail \<Rightarrow> bool" where
  "testflight_expired beta \<longleftrightarrow> bd_internal beta = Some ''EXPIRED'' \<or> bd_external beta = Some ''EXPIRED''"

definition promotion_version :: "'w apple \<Rightarrow> string \<Rightarrow> string \<Rightarrow> ('w, promote_error, string) remote" where
  "promotion_version asc app_id version =
     asc_bind (asc_map_err Promote_Failed (find_version asc app_id version))
      (\<lambda>found. case found of
         Some existing \<Rightarrow>
           let state = unwrap_or ''UNKNOWN'' (av_state existing)
           in if version_is_editable state then asc_return (av_id existing)
              else asc_fail (Refused ''version_not_editable''
                (''App Store version '' @ version @ '' is '' @ state @
                 '' in App Store Connect, so no other build can be attached to it''))
       | None \<Rightarrow>
     asc_bind (asc_map_err Promote_Failed (find_editable_version asc app_id))
      (\<lambda>editable. case editable of
         Some e \<Rightarrow> asc_fail (Refused ''version_mismatch''
           (''The editable App Store version is '' @ unwrap_or ''unnamed'' (av_version_string e) @
            '', but the build is '' @ version @ ''. Change the version in App Store Connect to '' @ version @
            '', then promote again.''))
       | None \<Rightarrow> asc_fail (Refused ''no_editable_version''
           (''App Store Connect has no editable App Store version for this app. Create version '' @ version @
            '' in App Store Connect, then promote again.''))))"

definition holds_version :: "app_store_db \<Rightarrow> string \<Rightarrow> string \<Rightarrow> release_link \<Rightarrow> bool" where
  "holds_version db version_id build_id l \<longleftrightarrow>
     ln_asc_version_id l = Some version_id \<and> (ln_stage l = ''review'' \<or> ln_stage l = ''live'') \<and>
     exists_row (\<lambda>r. rl_id r = ln_release_id l \<and> rl_state r \<noteq> Release_Failed \<and> rl_build_id r \<noteq> build_id)
       (releases (rdb db))"

definition ensure_version_free :: "app_store_db \<Rightarrow> string \<Rightarrow> string \<Rightarrow> promote_error + unit" where
  "ensure_version_free db version_id build_id =
     (case fetch_optional (holds_version db version_id build_id) (links db) of
        Some l \<Rightarrow> Inl (Refused ''version_held_by_other_build''
          (''App Store version '' @ ln_version l @ '' already has build '' @ ln_version l @ '' ('' @
           ln_build_number l @ '') attached, in review or releasing. '' @
           ''Wait until that release finishes or fails, then promote again.''))
      | None \<Rightarrow> Inr ())"

text \<open>The link, the app and the build of the source release, checked before anything is changed.\<close>

definition promotion_source ::
  "'w apple \<Rightarrow> app_store_db \<Rightarrow> release \<Rightarrow> ('w, promote_error, release_link \<times> string \<times> string \<times> AscBetaDetail) remote" where
  "promotion_source asc db source =
     (if rl_track source = APP_STORE_TRACK
      then asc_fail (Refused ''promotion_unsupported''
        ''A release on the App Store cannot be promoted further; promote from a TestFlight release'')
      else (case fetch_optional (\<lambda>l. ln_release_id l = rl_id source) (links db) of
        None \<Rightarrow> asc_fail (Refused ''no_source_release''
          (''Oore did not upload this release to App Store Connect, '' @ ''so it cannot find its build there''))
      | Some link \<Rightarrow>
          (case ln_asc_build_id link of
             None \<Rightarrow> asc_fail (Refused ''no_source_release''
               (''App Store Connect has not listed this build yet; '' @ ''promote it once it is in TestFlight''))
           | Some build_id \<Rightarrow>
     asc_bind (case ln_asc_app_id link of
                 Some app_id \<Rightarrow> asc_return app_id
               | None \<Rightarrow> asc_bind (asc_map_err Promote_Failed (find_app_id asc (ln_bundle_id link)))
                   (\<lambda>found. asc_lift (ok_or (Refused ''no_source_release''
                      (''App Store Connect has no app with bundle ID '' @ ln_bundle_id link)) found)))
      (\<lambda>app_id.
     asc_bind (asc_map_err Promote_Failed (beta_detail asc build_id))
      (\<lambda>beta.
         if testflight_expired beta
         then asc_fail (Refused ''build_expired''
           (''Build '' @ ln_version link @ '' ('' @ ln_build_number link @
            '') has expired in TestFlight, so it can no longer be promoted. Upload a new build.''))
         else asc_return (link, app_id, build_id, beta))))))"

definition promoted_config :: "release_link \<Rightarrow> PromotionTarget \<Rightarrow> AppStorePublishConfig" where
  "promoted_config link target =
     (let config = default_config\<lparr>ac_enabled := True,
            ac_uses_non_exempt_encryption := ac_uses_non_exempt_encryption (ln_config link)\<rparr>
      in if pg_track target = APP_STORE_TRACK
         then config\<lparr>ac_destination := Dest_AppStore, ac_submit_for_review := pg_submit_for_review target,
                ac_phased_release := pg_phased_release target\<rparr>
         else config\<lparr>ac_destination := Testflight, ac_testflight_groups := track_groups (pg_track target)\<rparr>)"

text \<open>The distribution of the build, with the App Store version it is attached to.\<close>

definition promotion_step ::
  "'w apple \<Rightarrow> app_store_db \<Rightarrow> release \<Rightarrow> PromotionTarget \<Rightarrow> release_link \<Rightarrow> string \<Rightarrow> string \<Rightarrow> AscBetaDetail \<Rightarrow>
   ('w, promote_error, step \<times> string option) remote" where
  "promotion_step asc db source target link app_id build_id beta =
     (let config = promoted_config link target
      in if pg_track target = APP_STORE_TRACK
         then asc_bind (promotion_version asc app_id (ln_version link))
           (\<lambda>version_id. asc_bind (asc_lift (ensure_version_free db version_id (rl_build_id source)))
           (\<lambda>_. asc_bind (asc_map_err Promote_Failed (distribute_app_store asc app_id build_id
                    (link\<lparr>ln_asc_version_id := Some version_id\<rparr>) config (step_wait 0)))
           (\<lambda>s. asc_return (s, Some version_id))))
         else asc_bind (asc_map_err Promote_Failed
                (distribute_testflight asc app_id build_id beta config (step_wait 0)))
           (\<lambda>s. asc_return (s, None)))"

definition promotion_result ::
  "PromotionTarget \<Rightarrow> release_link \<Rightarrow> string \<Rightarrow> string \<Rightarrow> step \<Rightarrow> string option \<Rightarrow> promote_error + Promoted" where
  "promotion_result target link app_id build_id s version_id =
     (case sp_transition s of
        None \<Rightarrow> Inl (Promote_Failed ''App Store Connect distribution returned no outcome'')
      | Some (state, fraction, detail) \<Rightarrow>
          if sp_refusal s = Some TestflightGroupNotFound
          then Inl (Refused ''testflight_group_not_found'' detail)
          else if state = Release_Failed then Inl (Promote_Failed detail)
          else Inr \<lparr>pd_start = Some (state, unwrap_or (Finite 0) fraction), pd_detail = Some detail,
                 pd_app_store_link = Some \<lparr>pk_pipeline_id = ln_pipeline_id link, pk_bundle_id = ln_bundle_id link,
                   pk_version = ln_version link, pk_build_number = ln_build_number link,
                   pk_config = promoted_config link target, pk_stage = unwrap_or Done (sp_stage s),
                   pk_asc_app_id = app_id, pk_asc_build_id = build_id,
                   pk_asc_version_id = or_else (sp_asc_version_id s) version_id,
                   pk_next_poll_in = sp_next_poll_in s\<rparr>\<rparr>)"

definition promote_with ::
  "'w apple \<Rightarrow> app_store_db \<Rightarrow> release \<Rightarrow> PromotionTarget \<Rightarrow> ('w, promote_error, Promoted) remote" where
  "promote_with asc db source target =
     asc_bind (promotion_source asc db source)
      (\<lambda>(link, app_id, build_id, beta).
     asc_bind (promotion_step asc db source target link app_id build_id beta)
      (\<lambda>(s, version_id). asc_lift (promotion_result target link app_id build_id s version_id)))"

definition promote_app_store ::
  "(string \<Rightarrow> string + string) \<Rightarrow> (AppleApiCredentials \<Rightarrow> 'w apple) \<Rightarrow> app_store_db \<Rightarrow> release \<Rightarrow>
   PromotionTarget \<Rightarrow> ('w, promote_error, Promoted) remote" where
  "promote_app_store decrypt connect db source target =
     asc_bind (asc_lift (ok_or (Promote_Failed (''the release'' @ [CHR 0x27] @ ''s build no longer exists''))
                 (find_build (core (rdb db)) (rl_build_id source))))
      (\<lambda>b. asc_bind (asc_lift (ok_or (Promote_Failed (''the build'' @ [CHR 0x27] @ ''s pipeline has no iOS signing settings''))
                 (load_signing_key_row db (b_pipeline_id b))))
      (\<lambda>row. asc_bind (asc_lift (map_err Promote_Failed (decrypt_credentials decrypt row)))
      (\<lambda>creds. asc_bind (asc_lift (ok_or
                 (Promote_Failed (''the build'' @ [CHR 0x27] @ ''s pipeline has no App Store Connect API key'')) creds))
      (\<lambda>c. promote_with (connect c) db source target))))"

definition record_promoted_link ::
  "int \<Rightarrow> string \<Rightarrow> PromotedLink \<Rightarrow> app_store_db \<Rightarrow> string + app_store_db" where
  "record_promoted_link now release_id link db =
     (if exists_row (\<lambda>l. ln_release_id l = release_id) (links db)
      then Inl ''UNIQUE constraint failed: app_store_release_links.release_id''
      else Inr (db\<lparr>links := links db @
        [\<lparr>ln_release_id = release_id, ln_pipeline_id = pk_pipeline_id link, ln_bundle_id = pk_bundle_id link,
          ln_version = pk_version link, ln_build_number = pk_build_number link, ln_config = pk_config link,
          ln_stage = stage_as_str (pk_stage link), ln_asc_app_id = Some (pk_asc_app_id link),
          ln_asc_build_id = Some (pk_asc_build_id link), ln_asc_version_id = pk_asc_version_id link,
          ln_store_status = None, ln_last_error = None, ln_failing_since = None,
          ln_next_poll_at = now + pk_next_poll_in link, ln_created_at = now, ln_updated_at = now\<rparr>]\<rparr>))"

text \<open>
  The client of the release operations: App Store releases go to App Store Connect, every other
  store to \<open>other\<close>. \<open>acc\<close> is the state the calls of one operation see.
\<close>

definition store_router ::
  "(string \<Rightarrow> string + string) \<Rightarrow> (AppleApiCredentials \<Rightarrow> 'w apple) \<Rightarrow> int \<Rightarrow> app_store_db \<times> 'w \<Rightarrow>
   store_client \<Rightarrow> store_client" where
  "store_router decrypt connect now acc other =
     \<lparr>sc_observe = (\<lambda>r. if rl_store r = AppStore then Inr None else sc_observe other r),
      sc_apply = (\<lambda>r change. if rl_store r = AppStore then fst (apply_change decrypt connect now r change acc)
                   else sc_apply other r change),
      sc_crash_rate = (\<lambda>r. if rl_store r = AppStore then Inr None else sc_crash_rate other r)\<rparr>"

end
