(* ===== verification/Release_Lifecycle.thy ===== *)
theory Release_Lifecycle
  imports Releases
begin

text \<open>
  Releases as a transition system: the steps that write the release tables, the invariant they
  keep (unique ids, fractions in range, valid policies, and a history that replays to the row),
  and the handlers and the monitor of \<^verbatim>\<open>releases.rs\<close> as runs of these steps.
\<close>

subsection \<open>Successful operations\<close>

lemma load_release_Inr:
  "load_release db rid = Inr r \<longleftrightarrow> fetch_optional (\<lambda>x. rl_id x = rid) (releases db) = Some r"
  by (simp add: load_release_def ok_or_eq_Inr)

lemma load_release_in:
  "load_release db rid = Inr r \<Longrightarrow> r \<in> set (releases db) \<and> rl_id r = rid"
  unfolding load_release_Inr by (drule fetch_optional_Some) simp

lemma load_release_row:
  "distinct (map rl_id (releases db)) \<Longrightarrow> r \<in> set (releases db) \<Longrightarrow> load_release db (rl_id r) = Inr r"
  unfolding load_release_Inr by (rule fetch_by_key)

lemma release_frame [simp]:
  "releases (audit a rid actor d db) = releases db"
  "release_history (audit a rid actor d db) = release_history db"
  "releases (publish r k actor reason now db) = releases db"
  "release_history (publish r k actor reason now db) = release_history db"
  "releases (insert_history rid actor fs ts ff tf reason now db) = releases db"
  "releases (update_releases P f db) = update_where P f (releases db)"
  "release_history (update_releases P f db) = release_history db"
  by (simp_all add: audit_def publish_def insert_history_def update_releases_def)

lemma validate_fraction_Inr:
  "validate_fraction f = Inr u \<longleftrightarrow> f64_is_finite f \<and> f64_le (Finite 0) f \<and> f64_le f (Finite 1)"
  by (simp add: validate_fraction_def)

definition in_unit :: "f64 \<Rightarrow> bool" where
  "in_unit f \<longleftrightarrow> f64_is_finite f \<and> f64_le (Finite 0) f \<and> f64_le f (Finite 1)"

lemma in_unit_finite [dest]: "in_unit f \<Longrightarrow> f64_is_finite f"
  by (simp add: in_unit_def)

lemma check_change_Inr:
  "check_change change cur = Inr f \<longleftrightarrow>
     f = target_fraction change cur \<and> \<not> unexpected change cur \<and>
     release_can_transition_to (rl_state cur) (ch_to_state change) \<and> in_unit f \<and>
     \<not> (rl_state cur = Rolling \<and> ch_to_state change = Rolling \<and> f64_le f (rl_rollout_fraction cur)) \<and>
     \<not> (\<not> ch_from_store change \<and> awaiting_approval cur \<and>
        (rl_state cur = Rolling \<or> rl_state cur = Paused \<or> rl_state cur = Halted) \<and>
        (ch_to_state change = Rolling \<or> ch_to_state change = Release_Complete))"
  by (auto simp: check_change_def Let_def and_then_eq_Inr validate_fraction_Inr in_unit_def)

definition change_entry ::
  "string \<Rightarrow> ReleaseActor \<Rightarrow> (ReleaseState \<times> f64) option \<Rightarrow> ReleaseState \<times> f64 \<Rightarrow> string option \<Rightarrow> int \<Rightarrow>
   release_history_entry" where
  "change_entry rid actor from to reason now =
     \<lparr>rh_release_id = rid, rh_actor_id = actor_user_id actor, rh_actor_email = actor_email actor,
      rh_from_state = map_option fst from, rh_to_state = fst to, rh_from_fraction = map_option snd from,
      rh_to_fraction = Some (snd to), rh_reason = reason, rh_at = now\<rparr>"

lemma change_entry_release [simp]: "rh_release_id (change_entry rid actor frm to reason now) = rid"
  by (simp add: change_entry_def)

lemma insert_history_entry:
  "release_history (insert_history rid actor (map_option fst from) (fst to) (map_option snd from)
     (Some (snd to)) reason now db) = release_history db @ [change_entry rid actor from to reason now]"
  by (simp add: insert_history_def change_entry_def)

lemmas insert_history_entries [simp] =
  insert_history_entry[of _ _ None "(s, f)" for s f, simplified]
  insert_history_entry[of _ _ "Some (s, f)" "(s', f')" for s f s' f', simplified]

text \<open>What a successful change did.\<close>

lemma transition_release_Inr:
  assumes ids: "distinct (map rl_id (releases db))"
    and ok: "transition_release client now rid change actor reason db = Inr (r, db')"
  obtains cur f where "load_release db rid = Inr cur" and "check_change change cur = Inr f"
    and "call_store client cur change f = Inr ()"
    and "r = change_columns now (ch_to_state change) f
           (next_step_at (cur\<lparr>rl_state := ch_to_state change, rl_rollout_fraction := f\<rparr>) now) cur"
    and "releases db' = update_where (\<lambda>x. rl_id x = rid) (\<lambda>_. r) (releases db)"
    and "release_history db' = release_history db @
           [change_entry rid actor (Some (rl_state cur, rl_rollout_fraction cur)) (ch_to_state change, f)
              (clean_reason reason) now]"
proof -
  from ok obtain cur f where cur: "load_release db rid = Inr cur" and f: "check_change change cur = Inr f"
    and acc: "call_store client cur change f = Inr ()"
    and com: "commit_change now rid change cur f actor (clean_reason reason) db = Inr (r, db')"
    by (auto simp: transition_release_def and_then_eq_Inr)
  let ?to = "ch_to_state change"
  let ?next = "next_step_at (cur\<lparr>rl_state := ?to, rl_rollout_fraction := f\<rparr>) now"
  let ?guard = "\<lambda>x. rl_id x = rid \<and> rl_state x = rl_state cur \<and>
      f64_eq (rl_rollout_fraction x) (rl_rollout_fraction cur)"
  let ?db2 = "insert_history rid actor (Some (rl_state cur)) ?to (Some (rl_rollout_fraction cur)) (Some f)
      (clean_reason reason) now (update_releases ?guard (change_columns now ?to f ?next) db)"
  from com have some: "rows_affected ?guard (releases db) \<noteq> 0"
    unfolding commit_change_def Let_def by (rule contrapos_pn) simp
  with com obtain a b where "load_release ?db2 rid = Inr r" and "db' = publish r a actor b now
      (audit (ch_audit_action change) rid actor
        [(''actor_email'', json_opt (actor_email actor)),
         (''from_state'', Json_Text (release_state_to_string (rl_state cur))),
         (''to_state'', Json_Text (release_state_to_string ?to)),
         (''from_fraction'', Json_Number (rl_rollout_fraction cur)),
         (''to_fraction'', Json_Number f),
         (''reason'', json_opt (clean_reason reason))] ?db2)"
    unfolding commit_change_def Let_def by (simp only: if_False and_then_eq_Inr) blast
  then have load: "load_release ?db2 rid = Inr r"
    and hist: "release_history db' = release_history ?db2" and rows: "releases db' = releases ?db2"
    by simp_all
  from load_release_in[OF cur] have in_cur: "cur \<in> set (releases db)" "rl_id cur = rid" by auto
  have only: "x = cur" if "x \<in> set (releases db)" "rl_id x = rid" for x
    using key_unique[OF ids that(1) in_cur(1)] that(2) in_cur(2) by simp
  from some obtain x where x: "x \<in> set (releases db)" "?guard x" by (auto simp: rows_affected_0)
  with only have "x = cur" by blast
  with x have eq: "f64_eq (rl_rollout_fraction cur) (rl_rollout_fraction cur)" by simp
  let ?r = "change_columns now ?to f ?next cur"
  have upd: "update_where ?guard (change_columns now ?to f ?next) (releases db) =
      update_where (\<lambda>x. rl_id x = rid) (\<lambda>_. ?r) (releases db)"
    using update_where_one[OF ids in_cur(1), of ?guard] eq in_cur(2) by simp
  have "fetch_optional (\<lambda>x. rl_id x = rid) (update_where (\<lambda>x. rl_id x = rid) (\<lambda>_. ?r) (releases db)) = Some r"
    using load upd by (simp add: load_release_Inr)
  then have "r \<in> set (update_where (\<lambda>x. rl_id x = rid) (\<lambda>_. ?r) (releases db))" "rl_id r = rid"
    by (auto dest: fetch_optional_Some)
  then have "r = ?r" by (rule replaced_row)
  with that[of cur f] cur f acc hist rows upd show thesis by simp
qed

lemma approve_release_Inr:
  assumes ids: "distinct (map rl_id (releases db))"
    and ok: "approve_release now rid actor reason db = Inr (r, db')"
  obtains cur next_at where "load_release db rid = Inr cur" and "awaiting_approval cur"
    and "r = approve_columns now actor next_at cur"
    and "releases db' = update_where (\<lambda>x. rl_id x = rid) (\<lambda>_. r) (releases db)"
    and "release_history db' = release_history db @
           [change_entry rid actor (Some (rl_state cur, rl_rollout_fraction cur))
              (rl_state cur, rl_rollout_fraction cur) (Some (unwrap_or ''approved'' (clean_reason reason))) now]"
proof -
  from ok obtain cur where cur: "load_release db rid = Inr cur" and aw: "awaiting_approval cur"
    and com: "commit_approval now rid cur actor (clean_reason reason) db = Inr (r, db')"
    by (auto simp: approve_release_def and_then_eq_Inr split: if_splits)
  let ?next = "map_option (\<lambda>t. if f64_eq (rl_rollout_fraction cur) (Finite 0) then now else t)
      (next_step_at (cur\<lparr>rl_approved_at := Some now\<rparr>) now)"
  let ?guard = "\<lambda>x. rl_id x = rid \<and> rl_approved_at x = None \<and> rl_state x = rl_state cur"
  let ?db2 = "insert_history rid actor (Some (rl_state cur)) (rl_state cur) (Some (rl_rollout_fraction cur))
      (Some (rl_rollout_fraction cur)) (Some (unwrap_or ''approved'' (clean_reason reason))) now
      (update_releases ?guard (approve_columns now actor ?next) db)"
  from com have some: "rows_affected ?guard (releases db) \<noteq> 0"
    unfolding commit_approval_def Let_def by (rule contrapos_pn) simp
  with com obtain d where "load_release ?db2 rid = Inr r"
    and "db' = publish r Event_Approved actor (clean_reason reason) now (audit ''release_approved'' rid actor d ?db2)"
    unfolding commit_approval_def Let_def by (simp only: if_False and_then_eq_Inr) blast
  then have load: "load_release ?db2 rid = Inr r"
    and hist: "release_history db' = release_history ?db2" and rows: "releases db' = releases ?db2"
    by simp_all
  from load_release_in[OF cur] have in_cur: "cur \<in> set (releases db)" "rl_id cur = rid" by auto
  from aw have na: "rl_approved_at cur = None" by (simp add: awaiting_approval_def split: if_splits)
  let ?r = "approve_columns now actor ?next cur"
  have upd: "update_where ?guard (approve_columns now actor ?next) (releases db) =
      update_where (\<lambda>x. rl_id x = rid) (\<lambda>_. ?r) (releases db)"
    using update_where_one[OF ids in_cur(1), of ?guard] na in_cur(2) by simp
  have "r \<in> set (update_where (\<lambda>x. rl_id x = rid) (\<lambda>_. ?r) (releases db))" "rl_id r = rid"
    using load upd by (auto simp: load_release_Inr dest: fetch_optional_Some)
  then have "r = ?r" by (rule replaced_row)
  with that[of cur ?next] cur aw hist rows upd show thesis by simp
qed

lemma insert_release_Inr:
  assumes "insert_release rid now input actor reason db = Inr (r, why, db')"
  shows "policy_validate (nr_policy input) = Inr ()" and "in_unit (nr_rollout_fraction input)"
    and "rid \<notin> rl_id ` set (releases db)" and "rl_id r = rid" and "rl_state r = nr_state input"
    and "rl_rollout_fraction r = nr_rollout_fraction input" and "rl_policy r = nr_policy input"
    and "rl_approved_at r = None" and "rl_state r \<notin> {Halted, Release_Failed}"
    and "releases db' = releases db @ [r]"
    and "release_history db' = release_history db @
           [change_entry rid actor None (nr_state input, nr_rollout_fraction input) why now]"
  using assms
  by (auto simp: insert_release_def and_then_eq_Inr validate_fraction_Inr in_unit_def Let_def
      exists_row_iff new_release_row_def split: if_splits)

subsection \<open>The invariant\<close>

text \<open>
  Entries that record no change (approvals and notes of the monitor) repeat one state and
  fraction. The other entries of a release replay its life.
\<close>

definition is_note :: "release_history_entry \<Rightarrow> bool" where
  "is_note h \<longleftrightarrow> rh_from_state h = Some (rh_to_state h) \<and> rh_from_fraction h = rh_to_fraction h"

definition changes_of :: "string \<Rightarrow> release_history_entry list \<Rightarrow> release_history_entry list" where
  "changes_of rid hs = filter (\<lambda>h. rh_release_id h = rid \<and> \<not> is_note h) hs"

definition follows :: "(ReleaseState \<times> f64) option \<Rightarrow> release_history_entry \<Rightarrow> bool" where
  "follows cur h \<longleftrightarrow> rh_from_state h = map_option fst cur \<and> rh_from_fraction h = map_option snd cur \<and>
     (case cur of None \<Rightarrow> True | Some (s, _) \<Rightarrow> release_can_transition_to s (rh_to_state h))"

fun replay :: "(ReleaseState \<times> f64) option \<Rightarrow> release_history_entry list \<Rightarrow> (ReleaseState \<times> f64) option" where
  "replay cur [] = cur"
| "replay cur (h # hs) =
     (case rh_to_fraction h of
        None \<Rightarrow> None
      | Some f \<Rightarrow> if follows cur h then replay (Some (rh_to_state h, f)) hs else None)"

definition release_ok :: "release_history_entry list \<Rightarrow> release \<Rightarrow> bool" where
  "release_ok hs r \<longleftrightarrow> in_unit (rl_rollout_fraction r) \<and> policy_validate (rl_policy r) = Inr () \<and>
     replay None (changes_of (rl_id r) hs) = Some (rl_state r, rl_rollout_fraction r)"

definition rel_inv :: "release_db \<Rightarrow> bool" where
  "rel_inv db \<longleftrightarrow> distinct (map rl_id (releases db)) \<and>
     (\<forall>r \<in> set (releases db). release_ok (release_history db) r) \<and>
     rh_release_id ` set (release_history db) \<subseteq> rl_id ` set (releases db)"

lemma rel_invD:
  assumes "rel_inv db"
  shows "distinct (map rl_id (releases db))"
    and "r \<in> set (releases db) \<Longrightarrow> release_ok (release_history db) r"
    and "h \<in> set (release_history db) \<Longrightarrow> rh_release_id h \<in> rl_id ` set (releases db)"
  using assms unfolding rel_inv_def by blast+

lemma replay_append: "replay cur hs = Some c \<Longrightarrow> replay cur (hs @ gs) = replay (Some c) gs"
  by (induction cur hs rule: replay.induct) (auto split: option.splits if_splits)

lemma changes_of_append [simp]: "changes_of rid (hs @ gs) = changes_of rid hs @ changes_of rid gs"
  by (simp add: changes_of_def)

lemma changes_of_other [simp]:
  "rid' \<noteq> rid \<Longrightarrow> changes_of rid [change_entry rid' actor frm to reason now] = []"
  by (simp add: changes_of_def change_entry_def)

lemma changes_of_note [simp]: "changes_of rid' [change_entry rid actor (Some c) c reason now] = []"
  by (simp add: changes_of_def change_entry_def is_note_def)

lemma changes_of_change:
  "frm \<noteq> Some to \<Longrightarrow>
   changes_of rid [change_entry rid actor frm to reason now] = [change_entry rid actor frm to reason now]"
  by (cases frm; cases to) (auto simp: changes_of_def change_entry_def is_note_def)

lemma release_ok_other:
  "rl_id r \<noteq> rid \<Longrightarrow> release_ok (hs @ [change_entry rid actor frm to reason now]) r = release_ok hs r"
  by (simp add: release_ok_def)

text \<open>Replacing one row and appending one entry for it keeps the invariant.\<close>

lemma rel_inv_replace:
  assumes inv: "rel_inv db" and cur: "load_release db rid = Inr cur"
    and rows: "releases db' = update_where (\<lambda>x. rl_id x = rid) (\<lambda>_. r) (releases db)"
    and hist: "release_history db' = release_history db @ [change_entry rid actor (Some from) to reason now]"
    and id: "rl_id r = rid" and ok: "release_ok (release_history db') r"
  shows "rel_inv db'"
proof -
  note d = rel_invD[OF inv]
  have "rl_id (if rl_id x = rid then r else x) = rl_id x" for x using id by simp
  then have ids: "map rl_id (releases db') = map rl_id (releases db)"
    by (simp add: rows update_where_def)
  have "release_ok (release_history db') x" if "x \<in> set (releases db')" for x
  proof (cases "rl_id x = rid")
    case True
    with replaced_row[OF that[unfolded rows]] ok show ?thesis by simp
  next
    case False
    with that have "x \<in> set (releases db)" by (auto simp: rows in_set_update_where split: if_splits simp: id)
    with d(2) False show ?thesis by (auto simp: hist release_ok_other)
  qed
  moreover have "rh_release_id ` set (release_history db') \<subseteq> rl_id ` set (releases db')"
  proof -
    have "rid \<in> rl_id ` set (releases db)" using load_release_in[OF cur] by blast
    with d(3) have "rh_release_id ` set (release_history db') \<subseteq> rl_id ` set (releases db)"
      by (auto simp: hist change_entry_def)
    then show ?thesis using ids by (metis set_map)
  qed
  ultimately show ?thesis using d(1) ids by (simp add: rel_inv_def)
qed

lemma release_ok_change:
  assumes "release_ok hs cur" and "rl_id cur = rid" and "rl_id r = rid" and "rl_policy r = rl_policy cur"
    and "in_unit (rl_rollout_fraction r)"
    and "(rl_state cur, rl_rollout_fraction cur) = (rl_state r, rl_rollout_fraction r) \<or>
         release_can_transition_to (rl_state cur) (rl_state r)"
  shows "release_ok (hs @ [change_entry rid actor (Some (rl_state cur, rl_rollout_fraction cur))
           (rl_state r, rl_rollout_fraction r) reason now]) r"
proof (cases "(rl_state cur, rl_rollout_fraction cur) = (rl_state r, rl_rollout_fraction r)")
  case True
  with assms show ?thesis by (simp add: release_ok_def)
next
  case False
  let ?e = "change_entry rid actor (Some (rl_state cur, rl_rollout_fraction cur))
      (rl_state r, rl_rollout_fraction r) reason now"
  from assms have rep: "replay None (changes_of rid hs) = Some (rl_state cur, rl_rollout_fraction cur)"
    by (simp add: release_ok_def)
  from False have "changes_of rid [?e] = [?e]" by (simp add: changes_of_change)
  moreover have "replay (Some (rl_state cur, rl_rollout_fraction cur)) [?e] = Some (rl_state r, rl_rollout_fraction r)"
    using assms(6) False by (auto simp: follows_def change_entry_def)
  ultimately have "replay None (changes_of rid (hs @ [?e])) = Some (rl_state r, rl_rollout_fraction r)"
    using replay_append[OF rep] by simp
  with assms show ?thesis by (simp add: release_ok_def)
qed

subsection \<open>Steps\<close>

text \<open>The columns that only the modelled operations write.\<close>

definition core_of ::
  "release \<Rightarrow> string \<times> ReleaseStore \<times> string \<times> ReleaseState \<times> f64 \<times> ReleasePolicy \<times> int option" where
  "core_of r = (rl_id r, rl_store r, rl_track r, rl_state r, rl_rollout_fraction r, rl_policy r, rl_approved_at r)"

text \<open>
  A step on release \<open>rid\<close>. \<open>remark\<close> may carry a state the monitor read earlier; \<open>touch\<close> writes
  other columns; \<open>quiet\<close> leaves rows and history alone.
\<close>

inductive release_step :: "string \<Rightarrow> release_db \<Rightarrow> release_db \<Rightarrow> bool" for rid where
  insert: "insert_release rid now input actor reason db = Inr (r, why, db') \<Longrightarrow> release_step rid db db'"
| change: "transition_release client now rid change actor reason db = Inr (r, db') \<Longrightarrow> release_step rid db db'"
| approve: "approve_release now rid actor reason db = Inr (r, db') \<Longrightarrow> release_step rid db db'"
| remark: "load_release db rid = Inr r \<Longrightarrow>
    db' = db\<lparr>release_history := release_history db @ [change_entry rid System (Some c) c reason now]\<rparr> \<Longrightarrow>
    release_step rid db db'"
| touch: "(\<And>x. core_of (f x) = core_of x) \<Longrightarrow>
    db' = update_releases (\<lambda>x. rl_id x = rid) f db \<Longrightarrow> release_step rid db db'"
| quiet: "releases db' = releases db \<Longrightarrow> release_history db' = release_history db \<Longrightarrow> release_step rid db db'"

lemma release_step_inv:
  assumes "release_step rid db db'" and "rel_inv db"
  shows "rel_inv db'"
  using assms
proof (induction rule: release_step.induct)
  case (insert now input actor reason db r why db')
  note i = insert_release_Inr[OF insert.hyps] and d = rel_invD[OF insert.prems]
  have none: "changes_of rid (release_history db) = []"
    using d(3) i(3) by (auto simp: changes_of_def filter_empty_conv)
  have "release_ok (release_history db') r"
    using i none by (simp add: release_ok_def changes_of_change follows_def) (simp add: change_entry_def follows_def)
  moreover have "release_ok (release_history db') x" if "x \<in> set (releases db)" for x
  proof -
    from that i(3) have "rl_id x \<noteq> rid" by auto
    with d(2)[OF that] show ?thesis by (simp add: i(11) release_ok_other)
  qed
  moreover have "rh_release_id ` set (release_history db') \<subseteq> rl_id ` set (releases db')"
    using d(3) i(4) by (auto simp: i(10,11) change_entry_def)
  ultimately show ?case using d(1) i(3,4) by (simp add: rel_inv_def i(10))
next
  case (change client now change actor reason db r db')
  note d = rel_invD[OF change.prems]
  from transition_release_Inr[OF d(1) change.hyps] obtain cur f where
    cur: "load_release db rid = Inr cur" and f: "check_change change cur = Inr f"
    and r: "r = change_columns now (ch_to_state change) f
           (next_step_at (cur\<lparr>rl_state := ch_to_state change, rl_rollout_fraction := f\<rparr>) now) cur"
    and rows: "releases db' = update_where (\<lambda>x. rl_id x = rid) (\<lambda>_. r) (releases db)"
    and hist: "release_history db' = release_history db @
           [change_entry rid actor (Some (rl_state cur, rl_rollout_fraction cur)) (ch_to_state change, f)
              (clean_reason reason) now]" by metis
  note c = load_release_in[OF cur]
  have e: "rl_state r = ch_to_state change" "rl_rollout_fraction r = f" "rl_id r = rid" "rl_policy r = rl_policy cur"
    using c by (simp_all add: r change_columns_def)
  have "release_ok (release_history db') r"
    using release_ok_change[OF d(2) _ e(3,4), of actor "clean_reason reason" now] c f
    unfolding hist e(1,2) check_change_Inr by blast
  then show ?case by (rule rel_inv_replace[OF change.prems cur rows hist e(3)])
next
  case (approve now actor reason db r db')
  note d = rel_invD[OF approve.prems]
  from approve_release_Inr[OF d(1) approve.hyps] obtain cur next_at where
    cur: "load_release db rid = Inr cur" and r: "r = approve_columns now actor next_at cur"
    and rows: "releases db' = update_where (\<lambda>x. rl_id x = rid) (\<lambda>_. r) (releases db)"
    and hist: "release_history db' = release_history db @
           [change_entry rid actor (Some (rl_state cur, rl_rollout_fraction cur))
              (rl_state cur, rl_rollout_fraction cur) (Some (unwrap_or ''approved'' (clean_reason reason))) now]"
    by metis
  note c = load_release_in[OF cur]
  from c have "release_ok (release_history db) cur" using d(2) by blast
  then have "release_ok (release_history db') r"
    using c by (simp add: r hist release_ok_def approve_columns_def)
  then show ?case
    using rel_inv_replace[OF approve.prems cur rows hist] c by (simp add: r approve_columns_def)
next
  case (remark db r db' c reason now)
  note d = rel_invD[OF remark.prems]
  from load_release_in[OF remark.hyps(1)] have "rid \<in> rl_id ` set (releases db)" by blast
  then show ?case using d unfolding remark.hyps(2)
    by (auto simp: rel_inv_def release_ok_def)
next
  case (touch f db' db)
  note d = rel_invD[OF touch.prems]
  have k: "rl_id (f x) = rl_id x" "rl_state (f x) = rl_state x" "rl_rollout_fraction (f x) = rl_rollout_fraction x"
    "rl_policy (f x) = rl_policy x" for x using touch.hyps(1)[of x] by (simp_all add: core_of_def)
  have ids: "map rl_id (releases db') = map rl_id (releases db)"
    unfolding touch.hyps(2) by (simp add: map_update_where_same k)
  have "release_ok (release_history db') x" if "x \<in> set (releases db')" for x
    using that d(2) unfolding touch.hyps(2) by (auto simp: in_set_update_where release_ok_def k split: if_splits)
  moreover have "rh_release_id ` set (release_history db') \<subseteq> rl_id ` set (releases db')"
    using d(3) ids unfolding touch.hyps(2) by (metis image_subset_iff release_frame(7) set_map)
  ultimately show ?case using d(1) ids by (simp add: rel_inv_def)
next
  case (quiet db' db)
  then show ?case by (simp add: rel_inv_def)
qed

interpretation release_life: invariant_of "release_step rid" rel_inv for rid
  by unfold_locales (rule release_step_inv)

subsection \<open>How a row may change\<close>

definition rises :: "f64 \<Rightarrow> f64 \<Rightarrow> bool" where
  "rises x y \<longleftrightarrow> x = y \<or> f64_le x y"

lemma rises_refl [simp]: "rises x x"
  by (simp add: rises_def)

lemma rises_trans: "rises x y \<Longrightarrow> rises y z \<Longrightarrow> rises x z"
  by (auto simp: rises_def intro: f64_le_trans)

text \<open>
  \<open>evolved r r'\<close>: the identity of a release is fixed, a terminal release keeps its state and
  fraction, and an approval is never withdrawn. \<open>grown r r'\<close> adds that the rollout of a Google
  Play release does not shrink.
\<close>

definition evolved :: "release \<Rightarrow> release \<Rightarrow> bool" where
  "evolved r r' \<longleftrightarrow> rl_id r' = rl_id r \<and> rl_store r' = rl_store r \<and> rl_track r' = rl_track r \<and>
     rl_policy r' = rl_policy r \<and>
     (release_is_terminal (rl_state r) \<longrightarrow>
        rl_state r' = rl_state r \<and> rl_rollout_fraction r' = rl_rollout_fraction r) \<and>
     (rl_approved_at r \<noteq> None \<longrightarrow> rl_approved_at r' = rl_approved_at r)"

definition grown :: "release \<Rightarrow> release \<Rightarrow> bool" where
  "grown r r' \<longleftrightarrow> evolved r r' \<and>
     (rl_store r = GooglePlay \<longrightarrow> rises (rl_rollout_fraction r) (rl_rollout_fraction r'))"

lemma evolved_trans: "evolved r s \<Longrightarrow> evolved s t \<Longrightarrow> evolved r t"
  by (auto simp: evolved_def)

lemma grown_trans: "grown r s \<Longrightarrow> grown s t \<Longrightarrow> grown r t"
  unfolding grown_def by (metis evolved_def evolved_trans rises_trans)

lemma grown_core: "core_of r = core_of r' \<Longrightarrow> grown r r'"
  by (auto simp: grown_def evolved_def core_of_def)

definition rows_rel :: "(release \<Rightarrow> release \<Rightarrow> bool) \<Rightarrow> release_db \<Rightarrow> release_db \<Rightarrow> bool" where
  "rows_rel R db db' \<longleftrightarrow> (\<forall>r \<in> set (releases db). \<exists>r' \<in> set (releases db'). R r r')"

lemma rows_rel_replace:
  assumes "distinct (map rl_id (releases db))" and "load_release db rid = Inr cur" and "R cur r"
    and "\<And>x. R x x"
    and "releases db' = update_where (\<lambda>x. rl_id x = rid) (\<lambda>_. r) (releases db)"
  shows "rows_rel R db db'"
  unfolding rows_rel_def
proof
  fix x assume x: "x \<in> set (releases db)"
  show "\<exists>r' \<in> set (releases db'). R x r'"
  proof (cases "rl_id x = rid")
    case True
    with load_release_row[OF assms(1) x] assms(2) have "x = cur" by simp
    moreover from x True have "r \<in> set (releases db')"
      unfolding assms(5) in_set_update_where by (intro bexI[of _ x]) simp_all
    ultimately show ?thesis using assms(3) by blast
  next
    case False
    with x have "x \<in> set (releases db')"
      unfolding assms(5) in_set_update_where by (intro bexI[of _ x]) simp_all
    with assms(4) show ?thesis by blast
  qed
qed

lemma evolved_refl [simp]: "evolved r r" and grown_refl [simp]: "grown r r"
  by (simp_all add: evolved_def grown_def)

text \<open>A change is a growth when it keeps the fraction, completes, or steps a rolling release.\<close>

definition raising :: "ReleaseChange \<Rightarrow> release \<Rightarrow> bool" where
  "raising change cur \<longleftrightarrow> rises (rl_rollout_fraction cur) (target_fraction change cur)"

lemma raising_None: "in_unit (rl_rollout_fraction cur) \<Longrightarrow> ch_to_fraction change = None \<Longrightarrow> raising change cur"
  by (auto simp: raising_def target_fraction_def rises_def in_unit_def)

lemma raising_complete:
  "in_unit (rl_rollout_fraction cur) \<Longrightarrow> ch_to_state change = Release_Complete \<Longrightarrow> raising change cur"
  by (auto simp: raising_def target_fraction_def rises_def in_unit_def)

lemma raising_rolling:
  assumes "check_change change cur = Inr f" and "in_unit (rl_rollout_fraction cur)"
    and "rl_state cur = Rolling" and "ch_to_state change = Rolling"
  shows "raising change cur"
proof -
  from assms have "in_unit f" "\<not> f64_le f (rl_rollout_fraction cur)" "f = target_fraction change cur"
    by (auto simp: check_change_Inr)
  with assms(2) have "f64_less (rl_rollout_fraction cur) f" by (auto simp: in_unit_def f64_not_le)
  with \<open>f = _\<close> show ?thesis by (auto simp: raising_def rises_def intro: f64_less_le)
qed

lemma transition_release_rows:
  assumes inv: "rel_inv db" and ok: "transition_release client now rid change actor reason db = Inr (r, db')"
    and cur: "load_release db rid = Inr cur"
  shows "rows_rel evolved db db'" and "raising change cur \<Longrightarrow> rows_rel grown db db'"
proof -
  note ids = rel_invD(1)[OF inv]
  from transition_release_Inr[OF ids ok] cur obtain f where f: "check_change change cur = Inr f"
    and r: "r = change_columns now (ch_to_state change) f
           (next_step_at (cur\<lparr>rl_state := ch_to_state change, rl_rollout_fraction := f\<rparr>) now) cur"
    and rows: "releases db' = update_where (\<lambda>x. rl_id x = rid) (\<lambda>_. r) (releases db)" by (metis sum.inject(2))
  from f have c: "release_can_transition_to (rl_state cur) (ch_to_state change)" "f = target_fraction change cur"
    by (auto simp: check_change_Inr)
  then have "\<not> release_is_terminal (rl_state cur)"
    by (cases "rl_state cur") (simp_all add: release_can_transition_to_def)
  then have ev: "evolved cur r" by (auto simp: r evolved_def change_columns_def)
  show "rows_rel evolved db db'" by (rule rows_rel_replace[OF ids cur ev evolved_refl rows])
  assume "raising change cur"
  with ev c(2) have "grown cur r" by (simp add: grown_def raising_def r change_columns_def)
  then show "rows_rel grown db db'" by (rule rows_rel_replace[OF ids cur _ grown_refl rows])
qed

subsection \<open>Advancing steps\<close>

definition advance_step :: "string \<Rightarrow> release_db \<Rightarrow> release_db \<Rightarrow> bool" where
  "advance_step rid db db' \<longleftrightarrow> release_step rid db db' \<and> (rel_inv db \<longrightarrow> rows_rel grown db db')"

lemma rows_rel_same: "releases db' = releases db \<Longrightarrow> (\<And>x. R x x) \<Longrightarrow> rows_rel R db db'"
  by (auto simp: rows_rel_def)

lemma advance_quiet: "releases db' = releases db \<Longrightarrow> release_history db' = release_history db \<Longrightarrow> advance_step rid db db'"
  by (auto simp: advance_step_def intro: release_step.quiet rows_rel_same)

lemma advance_touch:
  assumes "\<And>x. core_of (f x) = core_of x"
  shows "advance_step rid db (update_releases (\<lambda>x. rl_id x = rid) f db)"
proof -
  have "rows_rel grown db (update_releases (\<lambda>x. rl_id x = rid) f db)"
    unfolding rows_rel_def
  proof
    fix r assume r: "r \<in> set (releases db)"
    let ?r = "if rl_id r = rid then f r else r"
    have "?r \<in> set (releases (update_releases (\<lambda>x. rl_id x = rid) f db))"
      using r by (auto simp: in_set_update_where)
    moreover have "grown r ?r" using assms[of r] by (auto intro: grown_core)
    ultimately show "\<exists>r' \<in> set (releases (update_releases (\<lambda>x. rl_id x = rid) f db)). grown r r'" by blast
  qed
  with release_step.touch[OF assms refl] show ?thesis by (simp add: advance_step_def)
qed

lemma advance_remark:
  assumes "load_release db rid = Inr x" and "rl_id r = rid"
  shows "advance_step rid db (note_rollout_hold r reason now db)"
proof -
  have "note_rollout_hold r reason now db = db\<lparr>release_history := release_history db @
      [change_entry rid System (Some (rl_state r, rl_rollout_fraction r)) (rl_state r, rl_rollout_fraction r)
         (Some reason) now]\<rparr>"
    using assms(2) by (simp add: note_rollout_hold_def insert_history_def change_entry_def)
  from release_step.remark[OF assms(1) this] show ?thesis
    by (auto simp: advance_step_def note_rollout_hold_def intro: rows_rel_same)
qed

lemma advance_change:
  assumes ok: "transition_release client now rid change actor reason db = Inr (r, db')"
    and raise: "\<And>cur f. load_release db rid = Inr cur \<Longrightarrow> check_change change cur = Inr f \<Longrightarrow>
      rel_inv db \<Longrightarrow> in_unit (rl_rollout_fraction cur) \<Longrightarrow> raising change cur"
  shows "advance_step rid db db'"
proof -
  have "rows_rel grown db db'" if inv: "rel_inv db"
  proof -
    from transition_release_Inr[OF rel_invD(1)[OF inv] ok] obtain cur f where
      cur: "load_release db rid = Inr cur" and f: "check_change change cur = Inr f" by metis
    from rel_invD(2)[OF inv] load_release_in[OF cur] have "in_unit (rl_rollout_fraction cur)"
      by (simp add: release_ok_def)
    from transition_release_rows(2)[OF inv ok cur raise[OF cur f inv this]] show ?thesis .
  qed
  with release_step.change[OF ok] show ?thesis by (simp add: advance_step_def)
qed

lemma advance_approve:
  assumes ok: "approve_release now rid actor reason db = Inr (r, db')"
  shows "advance_step rid db db'"
proof -
  have "rows_rel grown db db'" if inv: "rel_inv db"
  proof -
    from approve_release_Inr[OF rel_invD(1)[OF inv] ok] obtain cur next_at where
      cur: "load_release db rid = Inr cur" and aw: "awaiting_approval cur"
      and r: "r = approve_columns now actor next_at cur"
      and rows: "releases db' = update_where (\<lambda>x. rl_id x = rid) (\<lambda>_. r) (releases db)" by metis
    from aw have "grown cur r"
      by (auto simp: r grown_def evolved_def approve_columns_def awaiting_approval_def split: if_splits)
    then show ?thesis by (rule rows_rel_replace[OF rel_invD(1)[OF inv] cur _ grown_refl rows])
  qed
  with release_step.approve[OF ok] show ?thesis by (simp add: advance_step_def)
qed

lemma advance_insert:
  "insert_release rid now input actor reason db = Inr (r, why, db') \<Longrightarrow> advance_step rid db db'"
  by (auto simp: advance_step_def rows_rel_def insert_release_Inr(10)
      intro: release_step.insert intro!: bexI[of _ "x" for x])

interpretation advancing: progress_of "advance_step rid" rel_inv "rows_rel grown" for rid
proof
  show "rel_inv t" if "advance_step rid s t" "rel_inv s" for s t
    using that release_step_inv by (auto simp: advance_step_def)
  show "rows_rel grown s s" for s by (rule rows_rel_same) simp_all
  show "rows_rel grown s u" if "rows_rel grown s t" "rows_rel grown t u" for s t u
    using that unfolding rows_rel_def by (meson grown_trans)
  show "rows_rel grown s t" if "rel_inv s" "advance_step rid s t" for s t
    using that by (simp add: advance_step_def)
qed

subsection \<open>The sync and the monitor as runs\<close>

text \<open>A release read earlier agrees with its row on the protected columns.\<close>

definition agrees :: "release \<Rightarrow> release_db \<Rightarrow> bool" where
  "agrees r db \<longleftrightarrow> (\<exists>cur. load_release db (rl_id r) = Inr cur \<and> core_of cur = core_of r)"

lemma agrees_row: "rel_inv db \<Longrightarrow> r \<in> set (releases db) \<Longrightarrow> agrees r db"
  unfolding agrees_def using load_release_row rel_invD(1) by blast

lemma agreesD:
  assumes "agrees r db" and "load_release db (rl_id r) = Inr cur"
  shows "rl_state cur = rl_state r" and "rl_rollout_fraction cur = rl_rollout_fraction r"
    and "rl_policy cur = rl_policy r" and "rl_track cur = rl_track r" and "rl_store cur = rl_store r"
    and "rl_approved_at cur = rl_approved_at r"
  using assms by (auto simp: agrees_def core_of_def)

lemma agrees_touch:
  assumes "agrees r db" and core: "\<And>x. core_of (f x) = core_of x"
  shows "agrees r (update_releases (\<lambda>x. rl_id x = rid) f db)"
proof -
  from assms(1) obtain cur where cur: "fetch_optional (\<lambda>x. rl_id x = rl_id r) (releases db) = Some cur"
    and eq: "core_of cur = core_of r" by (auto simp: agrees_def load_release_Inr)
  have "rl_id (f x) = rl_id x" for x using core[of x] by (simp add: core_of_def)
  from fetch_optional_update_key[of rl_id f, OF this] cur
  have "fetch_optional (\<lambda>x. rl_id x = rl_id r) (update_where (\<lambda>x. rl_id x = rid) f (releases db)) =
      Some (if rl_id cur = rid then f cur else cur)" by simp
  with eq core[of cur] show ?thesis unfolding agrees_def load_release_Inr by auto
qed

lemma agrees_quiet: "releases db' = releases db \<Longrightarrow> agrees r db' = agrees r db"
  by (simp add: agrees_def load_release_def)

lemma release_step_others:
  assumes "release_step rid db db'" and "rel_inv db" and "x \<in> set (releases db)" and "rl_id x \<noteq> rid"
  shows "x \<in> set (releases db')"
  using assms(1)
proof cases
  case (insert now input actor reason r why)
  with assms(3) show ?thesis by (simp add: insert_release_Inr(10))
next
  case (change client now change actor reason r)
  from transition_release_Inr[OF rel_invD(1)[OF assms(2)] this]
  have "releases db' = update_where (\<lambda>x. rl_id x = rid) (\<lambda>_. r) (releases db)" by metis
  with assms(3,4) show ?thesis by (auto simp: update_where_def)
next
  case (approve now actor reason r)
  from approve_release_Inr[OF rel_invD(1)[OF assms(2)] this]
  have "releases db' = update_where (\<lambda>x. rl_id x = rid) (\<lambda>_. r) (releases db)" by metis
  with assms(3,4) show ?thesis by (auto simp: update_where_def)
next
  case (touch f)
  with assms(3,4) show ?thesis by (auto simp: update_where_def)
qed (use assms(3) in simp_all)

lemma run_others:
  assumes "(advance_step rid)\<^sup>*\<^sup>* db db'" and "rel_inv db" and "x \<in> set (releases db)" and "rl_id x \<noteq> rid"
  shows "x \<in> set (releases db')"
  using assms(1)
proof (induction rule: rtranclp_induct)
  case (step t u)
  from step.hyps(1) assms(2) have "rel_inv t" by (rule advancing.run_inv)
  with step.hyps(2) step.IH assms(4) show ?case by (auto simp: advance_step_def dest: release_step_others)
qed (rule assms(3))

text \<open>The changes of one sync: later ones carry no fraction, the first one raises the release.\<close>

lemma sync_changes_run:
  assumes "\<forall>c \<in> set (tl changes). snd c = None"
    and "\<And>to tf cur f. changes \<noteq> [] \<Longrightarrow> hd changes = (to, tf) \<Longrightarrow> tf \<noteq> None \<Longrightarrow>
      load_release db rid = Inr cur \<Longrightarrow> in_unit (rl_rollout_fraction cur) \<Longrightarrow>
      check_change \<lparr>ch_to_state = to, ch_to_fraction = tf, ch_audit_action = ''release_synced_from_store'',
        ch_expect = expect, ch_from_store = True\<rparr> cur = Inr f \<Longrightarrow>
      raising \<lparr>ch_to_state = to, ch_to_fraction = tf, ch_audit_action = ''release_synced_from_store'',
        ch_expect = expect, ch_from_store = True\<rparr> cur"
  shows "(advance_step rid)\<^sup>*\<^sup>* db (snd (sync_changes client now rid reason expect changes db))"
  using assms
proof (induction changes arbitrary: db expect)
  case (Cons c changes)
  obtain to tf where c: "c = (to, tf)" by (cases c)
  let ?change = "\<lparr>ch_to_state = to, ch_to_fraction = tf, ch_audit_action = ''release_synced_from_store'',
        ch_expect = expect, ch_from_store = True\<rparr>"
  show ?case
  proof (cases "transition_release client now rid ?change System (Some reason) db")
    case (Inr x)
    then obtain r db1 where ok: "transition_release client now rid ?change System (Some reason) db = Inr (r, db1)"
      by (cases x) auto
    have "advance_step rid db db1"
    proof (rule advance_change[OF ok])
      fix cur f
      assume "load_release db rid = Inr cur" "check_change ?change cur = Inr f" "in_unit (rl_rollout_fraction cur)"
      then show "raising ?change cur" using Cons.prems(2)[of to tf cur f] c
        by (cases tf) (simp_all add: raising_None)
    qed
    moreover have "(advance_step rid)\<^sup>*\<^sup>* db1 (snd (sync_changes client now rid reason None changes db1))"
    proof (rule Cons.IH)
      show "\<forall>c \<in> set (tl changes). snd c = None" using Cons.prems(1) by (cases changes) auto
    qed (use Cons.prems(1) hd_in_set in fastforce)
    ultimately show ?thesis by (simp add: c ok)
  qed (simp add: c)
qed simp

lemma store_sync_changes_shape:
  assumes "changes = store_sync_changes state fraction obs"
  shows "\<forall>c \<in> set (tl changes). snd c = None"
    and "hd changes = (to, Some f) \<Longrightarrow> changes \<noteq> [] \<Longrightarrow>
      to = Rolling \<and> (state = Rolling \<or> state = Halted \<and> (f = Finite 1 \<or> (\<exists>st. f = f64_max st fraction)))"
  using assms by (auto simp: store_sync_changes_def split: StoreObservation.splits if_splits)

lemma sync_release_with_store_run:
  assumes "agrees r db"
  shows "(advance_step (rl_id r))\<^sup>*\<^sup>* db (snd (sync_release_with_store client r now db))"
proof -
  let ?db1 = "update_releases (\<lambda>x. rl_id x = rl_id r) (\<lambda>x. x\<lparr>rl_store_checked_at := Some now\<rparr>) db"
  have core: "core_of (x\<lparr>rl_store_checked_at := Some now\<rparr>) = core_of x" for x by (simp add: core_of_def)
  have touch: "advance_step (rl_id r) db ?db1" using core by (rule advance_touch)
  have ag: "agrees r ?db1" using assms core by (rule agrees_touch)
  have run: "(advance_step (rl_id r))\<^sup>*\<^sup>* ?db1 (snd (sync_changes client now (rl_id r) reason
      (Some (rl_state r, rl_rollout_fraction r))
      (store_sync_changes (rl_state r) (rl_rollout_fraction r) obs) ?db1))" for obs reason
  proof (rule sync_changes_run)
    show "\<forall>c \<in> set (tl (store_sync_changes (rl_state r) (rl_rollout_fraction r) obs)). snd c = None"
      by (rule store_sync_changes_shape(1)[OF refl])
  next
    fix to tf cur f
    assume ne: "store_sync_changes (rl_state r) (rl_rollout_fraction r) obs \<noteq> []"
      and hd: "hd (store_sync_changes (rl_state r) (rl_rollout_fraction r) obs) = (to, tf)" and "tf \<noteq> None"
      and cur: "load_release ?db1 (rl_id r) = Inr cur" and unit: "in_unit (rl_rollout_fraction cur)"
      and chk: "check_change \<lparr>ch_to_state = to, ch_to_fraction = tf,
        ch_audit_action = ''release_synced_from_store'',
        ch_expect = Some (rl_state r, rl_rollout_fraction r), ch_from_store = True\<rparr> cur = Inr f"
        (is "check_change ?c cur = _")
    from \<open>tf \<noteq> None\<close> obtain g where tf: "tf = Some g" by blast
    note ag' = agreesD[OF ag cur]
    from store_sync_changes_shape(2)[OF refl hd[unfolded tf] ne] have to: "to = Rolling"
      and cases: "rl_state cur = Rolling \<or> rl_state cur = Halted \<and>
        (g = Finite 1 \<or> (\<exists>st. g = f64_max st (rl_rollout_fraction cur)))"
      using ag' by auto
    from cases show "raising ?c cur"
    proof
      assume "rl_state cur = Rolling"
      with chk unit to show ?thesis by (auto intro: raising_rolling)
    next
      assume "rl_state cur = Halted \<and> (g = Finite 1 \<or> (\<exists>st. g = f64_max st (rl_rollout_fraction cur)))"
      with unit show ?thesis
        by (auto simp: raising_def target_fraction_def to tf rises_def in_unit_def f64_max_le)
    qed
  qed
  have "(advance_step (rl_id r))\<^sup>*\<^sup>* ?db1 (snd (sync_release_with_store client r now db))"
    unfolding sync_release_with_store_def Let_def
    by (auto split: sum.splits option.splits prod.splits) (metis run snd_conv)+
  with touch show ?thesis by (rule converse_rtranclp_into_rtranclp)
qed

lemma try_transition_run:
  assumes "\<And>cur f. load_release db rid = Inr cur \<Longrightarrow> check_change change cur = Inr f \<Longrightarrow>
      in_unit (rl_rollout_fraction cur) \<Longrightarrow> raising change cur"
  shows "(advance_step rid)\<^sup>*\<^sup>* db (try_transition client now rid change reason db)"
  using assms
  by (auto simp: try_transition_def intro!: r_into_rtranclp advance_change split: sum.splits)

lemma check_change_expect:
  "check_change change cur = Inr f \<Longrightarrow> ch_expect change = Some (st, x) \<Longrightarrow> rl_state cur = st"
  by (auto simp: check_change_Inr unexpected_def)

lemma take_step_run: "(advance_step (rl_id r))\<^sup>*\<^sup>* db (take_step client now r db)"
proof -
  have "(advance_step (rl_id r))\<^sup>*\<^sup>* db
      (try_transition client now (rl_id r) (advance_change r fraction) reason db)" for fraction reason
  proof (rule try_transition_run)
    fix cur f
    assume chk: "check_change (advance_change r fraction) cur = Inr f" and unit: "in_unit (rl_rollout_fraction cur)"
    from check_change_expect[OF chk] have "rl_state cur = Rolling" by (simp add: advance_change_def)
    with chk unit show "raising (advance_change r fraction) cur"
      by (cases "f64_le (Finite 1) fraction")
        (auto simp: advance_change_def intro: raising_complete raising_rolling)
  qed
  then show ?thesis by (auto simp: take_step_def split: option.splits)
qed

lemma recorded_run:
  assumes "load_release db (rl_id r) = Inr x"
  shows "(advance_step (rl_id r))\<^sup>*\<^sup>* db (record_rate now r rate db)"
    and "(advance_step (rl_id r))\<^sup>*\<^sup>* db (record_rate_error now r error db)"
proof -
  have run: "(advance_step (rl_id r))\<^sup>*\<^sup>* db (if b then note_rollout_hold r reason now
      (update_releases (\<lambda>x. rl_id x = rl_id r) f db) else update_releases (\<lambda>x. rl_id x = rl_id r) f db)"
    if core: "\<And>x. core_of (f x) = core_of x" for f b reason
  proof -
    let ?db1 = "update_releases (\<lambda>x. rl_id x = rl_id r) f db"
    have touch: "advance_step (rl_id r) db ?db1" using core by (rule advance_touch)
    have "agrees x db" using assms load_release_in[OF assms] by (auto simp: agrees_def)
    from agrees_touch[OF this core] load_release_in[OF assms]
    obtain y where "load_release ?db1 (rl_id r) = Inr y" by (auto simp: agrees_def)
    then have "advance_step (rl_id r) ?db1 (note_rollout_hold r reason now ?db1)" by (rule advance_remark) simp
    with touch show ?thesis by auto
  qed
  show "(advance_step (rl_id r))\<^sup>*\<^sup>* db (record_rate now r rate db)"
    unfolding record_rate_def Let_def by (rule run) (simp add: rate_columns_def core_of_def)
  show "(advance_step (rl_id r))\<^sup>*\<^sup>* db (record_rate_error now r error db)"
    unfolding record_rate_error_def Let_def by (rule run) (simp add: rate_error_columns_def core_of_def)
qed

lemma halt_run: "(advance_step rid)\<^sup>*\<^sup>* db (try_transition client now rid halt_change reason db)"
  by (rule try_transition_run) (simp add: raising_None halt_change_def)

lemma health_check_run:
  assumes "load_release db (rl_id r) = Inr x"
  shows "(advance_step (rl_id r))\<^sup>*\<^sup>* db (snd (health_check client now r db))"
  unfolding health_check_def
  using recorded_run[OF assms] rtranclp_trans[OF recorded_run(1)[OF assms] halt_run]
  by (simp split: option.split sum.split)

lemma rows_rel_load:
  assumes "rows_rel grown db db'" and "rel_inv db'" and "load_release db rid = Inr r"
  obtains r' where "load_release db' rid = Inr r'" and "grown r r'"
proof -
  from load_release_in[OF assms(3)] assms(1) obtain r' where "r' \<in> set (releases db')" "grown r r'"
    by (auto simp: rows_rel_def)
  moreover from \<open>grown r r'\<close> load_release_in[OF assms(3)] have "rl_id r' = rid" by (simp add: grown_def evolved_def)
  ultimately show thesis using that load_release_row[OF rel_invD(1)[OF assms(2)]] by blast
qed

lemma tick_one_run:
  assumes inv: "rel_inv db" and ag: "agrees r db"
  shows "(advance_step (rl_id r))\<^sup>*\<^sup>* db (tick_one client now r db)"
proof -
  obtain go db1 where s: "sync_first client now r db = (go, db1)" by (cases "sync_first client now r db")
  have "db1 = db \<or> db1 = snd (sync_release_with_store client r now db)"
    using s by (auto simp: sync_first_def Let_def split: if_splits prod.splits sum.splits)
  with sync_release_with_store_run[OF ag] have run1: "(advance_step (rl_id r))\<^sup>*\<^sup>* db db1" by auto
  obtain go2 db2 where h: "health_check client now r db1 = (go2, db2)" by (cases "health_check client now r db1")
  from ag obtain x where "load_release db (rl_id r) = Inr x" by (auto simp: agrees_def)
  from rows_rel_load[OF advancing.run_rel[OF run1 inv] advancing.run_inv[OF run1 inv] this]
  obtain y where "load_release db1 (rl_id r) = Inr y" .
  from health_check_run[OF this, of client now] h have run2: "(advance_step (rl_id r))\<^sup>*\<^sup>* db1 db2" by simp
  have "(advance_step (rl_id r))\<^sup>*\<^sup>* db1 (tick_one client now r db)"
    using run2 rtranclp_trans[OF run2 take_step_run] by (simp add: tick_one_def s h)
  with run1 show ?thesis by (rule rtranclp_trans)
qed

text \<open>Steps on any release, and the whole tick.\<close>

definition any_advance :: "release_db \<Rightarrow> release_db \<Rightarrow> bool" where
  "any_advance db db' \<longleftrightarrow> (\<exists>rid. advance_step rid db db')"

lemma any_advance_run: "(advance_step rid)\<^sup>*\<^sup>* db db' \<Longrightarrow> any_advance\<^sup>*\<^sup>* db db'"
  by (induction rule: rtranclp_induct) (auto simp: any_advance_def intro: rtranclp.rtrancl_into_rtrancl)

interpretation releases_advance: progress_of any_advance rel_inv "rows_rel grown"
  using advancing.step_inv advancing.step_rel advancing.rel_refl advancing.rel_trans
  by unfold_locales (auto simp: any_advance_def)

lemma tick_one_agrees:
  assumes inv: "rel_inv db" and dist: "distinct (map rl_id (r # rs))" and ag: "\<forall>x \<in> set (r # rs). agrees x db"
  shows "\<forall>x \<in> set rs. agrees x (tick_one client now r db)"
proof
  fix x assume x: "x \<in> set rs"
  have run: "(advance_step (rl_id r))\<^sup>*\<^sup>* db (tick_one client now r db)"
    using inv ag by (intro tick_one_run) simp_all
  have inv': "rel_inv (tick_one client now r db)" using run inv by (rule advancing.run_inv)
  from x have "rl_id x \<in> rl_id ` set rs" by (rule imageI)
  with dist have "rl_id x \<noteq> rl_id r" by auto
  moreover from x ag obtain cur where cur: "load_release db (rl_id x) = Inr cur"
    and eq: "core_of cur = core_of x" by (auto simp: agrees_def)
  ultimately have "cur \<in> set (releases (tick_one client now r db))" "rl_id cur = rl_id x"
    using run_others[OF run inv] load_release_in[OF cur] by auto
  with load_release_row[OF rel_invD(1)[OF inv']] eq show "agrees x (tick_one client now r db)"
    by (metis agrees_def)
qed

lemma tick_fold_run:
  assumes "rel_inv db" and "distinct (map rl_id rs)" and "\<forall>r \<in> set rs. agrees r db"
  shows "any_advance\<^sup>*\<^sup>* db (fold (tick_one client now) rs db)"
  using assms
proof (induction rs arbitrary: db)
  case (Cons r rs)
  have run: "(advance_step (rl_id r))\<^sup>*\<^sup>* db (tick_one client now r db)"
    using Cons.prems by (intro tick_one_run) simp_all
  have inv: "rel_inv (tick_one client now r db)" using run Cons.prems(1) by (rule advancing.run_inv)
  have "\<forall>x \<in> set rs. agrees x (tick_one client now r db)"
    using Cons.prems by (rule tick_one_agrees)
  with Cons.IH[OF inv] Cons.prems(2) have "any_advance\<^sup>*\<^sup>* (tick_one client now r db)
      (fold (tick_one client now) rs (tick_one client now r db))" by simp
  with any_advance_run[OF run] show ?case by (simp add: rtranclp_trans)
qed simp

lemma run_rollout_tick_run:
  assumes "rel_inv db"
  shows "any_advance\<^sup>*\<^sup>* db (run_rollout_tick client now batch db)"
  unfolding run_rollout_tick_def
proof (rule tick_fold_run[OF assms])
  let ?rs = "take batch (sort_key (tick_order now) (filter tick_selected (releases db)))"
  have "distinct (map rl_id (filter tick_selected (releases db)))"
    using rel_invD(1)[OF assms] by (simp add: distinct_map_filter)
  then have "distinct (map rl_id (sort_key (tick_order now) (filter tick_selected (releases db))))"
    by (simp add: distinct_map)
  then show "distinct (map rl_id ?rs)" by (simp add: take_map[symmetric])
  show "\<forall>r \<in> set ?rs. agrees r db"
    using agrees_row[OF assms] by (auto dest!: in_set_takeD)
qed

subsection \<open>The handlers as runs\<close>

lemma create_release_run:
  assumes "create_release rid now input actor reason db = Inr (r, db')"
  shows "(advance_step rid)\<^sup>*\<^sup>* db db'"
proof -
  from assms obtain why db1 where ins: "insert_release rid now input actor reason db = Inr (r, why, db1)"
    and fin: "db' = finish_create r why actor now db1"
    by (auto simp: create_release_def and_then_eq_Inr)
  have "advance_step rid db1 db'" by (rule advance_quiet) (simp_all add: fin finish_create_def Let_def)
  with advance_insert[OF ins] show ?thesis by auto
qed

lemma create_release_handler_run:
  assumes "create_release_handler rid now auth req db = Inr (r, db')"
  shows "(advance_step rid)\<^sup>*\<^sup>* db db'"
proof -
  from assms obtain input where "create_release rid now input (user_actor auth) (crr_reason req) db = Inr (r, db')"
    by (auto simp: create_release_handler_def and_then_eq_Inr Let_def split: if_splits)
  then show ?thesis by (rule create_release_run)
qed

lemma action_change_raising:
  assumes ch: "action_change action req cur = Inr change" and act: "action \<in> set (allowed_actions role cur)"
    and chk: "check_change change cur = Inr f" and unit: "in_unit (rl_rollout_fraction cur)"
  shows "raising change cur"
proof (cases action)
  case Action_Raise
  with act have "rl_state cur = Rolling" by (auto simp: allowed_actions_def Let_def split: if_splits)
  moreover from ch Action_Raise have "ch_to_state change = Rolling \<or> ch_to_state change = Release_Complete"
    by (auto simp: action_change_def Let_def split: if_splits)
  ultimately show ?thesis using chk unit by (auto intro: raising_rolling raising_complete)
next
  case Action_Resume
  with ch have to: "ch_to_state change = Rolling"
    and fr: "ch_to_fraction change = None \<or> rl_rollout_fraction cur = Finite 0"
    by (auto simp: action_change_def Let_def f64_eq_def split: if_splits)
  from fr show ?thesis
  proof
    assume "rl_rollout_fraction cur = Finite 0"
    with chk show ?thesis by (auto simp: raising_def rises_def check_change_Inr in_unit_def)
  qed (rule raising_None[OF unit])
qed (use ch unit in \<open>auto simp: action_change_def Let_def intro: raising_None raising_complete\<close>)

lemma sync_before_action_run:
  assumes inv: "rel_inv db" and cur: "load_release db rid = Inr cur"
    and s: "sync_before_action client now cur db = (seen, db1)"
  shows "(advance_step rid)\<^sup>*\<^sup>* db db1"
proof -
  from load_release_in[OF cur] have "cur \<in> set (releases db)" "rl_id cur = rid" by auto
  with agrees_row[OF inv] sync_release_with_store_run[of cur db client now]
  have "(advance_step rid)\<^sup>*\<^sup>* db (snd (sync_release_with_store client cur now db))" by auto
  moreover have "db1 = db \<or> db1 = snd (sync_release_with_store client cur now db)"
    using s by (auto simp: sync_before_action_def split: if_splits prod.splits sum.splits)
  ultimately show ?thesis by auto
qed

text \<open>After the sync, the release acted on is the row, unless the sync failed half way.\<close>

lemma apply_action_run:
  assumes act: "action \<in> set (allowed_actions role seen)" and ag: "agrees seen db" and id: "rl_id seen = rid"
  shows "(advance_step rid)\<^sup>*\<^sup>* db (snd (apply_action client now auth rid action req seen db))"
proof (cases "action = Action_Approve")
  case True
  then show ?thesis
    by (auto simp: apply_action_def Let_def split: sum.splits intro: advance_approve)
next
  case False
  have "(advance_step rid)\<^sup>*\<^sup>* db db'"
    if ok: "transition_release client now rid change (user_actor auth) (rar_reason req) db = Inr (r, db')"
      and ch: "action_change action req seen = Inr change" for change r db'
  proof (rule r_into_rtranclp, rule advance_change[OF ok])
    fix cur f
    assume cur: "load_release db rid = Inr cur" and chk: "check_change change cur = Inr f"
      and unit: "in_unit (rl_rollout_fraction cur)"
    note e = agreesD[OF ag, unfolded id, OF cur]
    have aw: "awaiting_approval cur = awaiting_approval seen" unfolding awaiting_approval_def e ..
    have "action \<in> set (allowed_actions role cur)"
      using act unfolding allowed_actions_def e aw .
    moreover have "action_change action req cur = Inr change"
      using ch unfolding action_change_def e .
    ultimately show "raising change cur" using chk unit by (intro action_change_raising)
  qed
  with False show ?thesis by (auto simp: apply_action_def Let_def split: sum.splits)
qed

text \<open>A change that passes its checks and is accepted by the store is recorded.\<close>

lemma transition_release_ok:
  assumes inv: "rel_inv db" and cur: "load_release db rid = Inr cur"
    and chk: "check_change change cur = Inr f" and st: "call_store client cur change f = Inr ()"
  obtains r db' where "transition_release client now rid change actor reason db = Inr (r, db')"
    and "r = change_columns now (ch_to_state change) f
           (next_step_at (cur\<lparr>rl_state := ch_to_state change, rl_rollout_fraction := f\<rparr>) now) cur"
    and "load_release db' rid = Inr r"
proof -
  let ?to = "ch_to_state change"
  let ?next = "next_step_at (cur\<lparr>rl_state := ?to, rl_rollout_fraction := f\<rparr>) now"
  let ?guard = "\<lambda>x. rl_id x = rid \<and> rl_state x = rl_state cur \<and>
      f64_eq (rl_rollout_fraction x) (rl_rollout_fraction cur)"
  note ids = rel_invD(1)[OF inv]
  from load_release_in[OF cur] have in_cur: "cur \<in> set (releases db)" "rl_id cur = rid" by auto
  from rel_invD(2)[OF inv in_cur(1)] have "f64_is_finite (rl_rollout_fraction cur)"
    by (auto simp: release_ok_def)
  then have g: "?guard cur" using in_cur(2) by simp
  then have "rows_affected ?guard (releases db) \<noteq> 0" using in_cur(1) by (auto simp: rows_affected_0)
  then have some: "(rows_affected ?guard (releases db) = 0) = False" by simp
  let ?r = "change_columns now ?to f ?next cur"
  have "update_where ?guard (change_columns now ?to f ?next) (releases db) =
      update_where (\<lambda>x. rl_id x = rl_id cur) (\<lambda>_. ?r) (releases db)"
    by (rule update_where_one[OF ids in_cur(1)]) (use g in_cur(2) in simp_all)
  then have upd: "update_where ?guard (change_columns now ?to f ?next) (releases db) =
      update_where (\<lambda>x. rl_id x = rid) (\<lambda>_. ?r) (releases db)" using in_cur(2) by simp
  have idr: "rl_id ?r = rid" by (simp add: change_columns_def in_cur(2))
  have fetch: "fetch_optional (\<lambda>x. rl_id x = rid) (update_where (\<lambda>x. rl_id x = rid) (\<lambda>_. ?r) (releases db)) = Some ?r"
    (is "fetch_optional ?P ?rows = _")
  proof (cases "fetch_optional ?P ?rows")
    case None
    moreover have "?r \<in> set ?rows" using in_cur unfolding in_set_update_where by (intro bexI[of _ cur]) simp_all
    ultimately show ?thesis using idr by (simp add: fetch_optional_None)
  next
    case (Some x)
    from fetch_optional_Some[OF this] replaced_row[of x rl_id rid ?r "releases db"] Some show ?thesis by simp
  qed
  have "\<exists>db'. commit_change now rid change cur f actor (clean_reason reason) db = Inr (?r, db') \<and>
      releases db' = ?rows"
    unfolding commit_change_def Let_def some if_False load_release_def
    by (simp add: upd fetch)
  then obtain db' where com: "commit_change now rid change cur f actor (clean_reason reason) db = Inr (?r, db')"
    and rows: "releases db' = ?rows" by blast
  have "load_release db' rid = Inr ?r" using fetch rows by (simp add: load_release_def)
  moreover have "transition_release client now rid change actor reason db = Inr (?r, db')"
    by (simp add: transition_release_def cur chk st com)
  ultimately show thesis using that by blast
qed

lemma transition_release_loads:
  assumes inv: "rel_inv db" and ok: "transition_release client now rid change actor reason db = Inr (r, db')"
  shows "load_release db' rid = Inr r" and "rl_state r = ch_to_state change"
proof -
  from transition_release_Inr[OF rel_invD(1)[OF inv] ok] obtain cur f where
    cur: "load_release db rid = Inr cur"
    and r: "r = change_columns now (ch_to_state change) f
           (next_step_at (cur\<lparr>rl_state := ch_to_state change, rl_rollout_fraction := f\<rparr>) now) cur"
    and rows: "releases db' = update_where (\<lambda>x. rl_id x = rid) (\<lambda>_. r) (releases db)" by metis
  show "rl_state r = ch_to_state change" by (simp add: r change_columns_def)
  from load_release_in[OF cur] have id: "rl_id r = rid" and mem: "r \<in> set (releases db')"
    unfolding rows in_set_update_where by (auto simp: r change_columns_def intro!: bexI[of _ cur])
  have "rel_inv db'" using release_step.change[OF ok] inv by (rule release_step_inv)
  from load_release_row[OF rel_invD(1)[OF this] mem] id show "load_release db' rid = Inr r" by simp
qed

lemma sync_complete_ok:
  assumes inv: "rel_inv db" and cur: "load_release db rid = Inr cur" and st: "rl_state cur = Rolling"
  shows "fst (sync_changes client now rid reason None [(Release_Complete, None)] db) = Inr ()"
proof -
  let ?c = "\<lparr>ch_to_state = Release_Complete, ch_to_fraction = None,
      ch_audit_action = ''release_synced_from_store'', ch_expect = None, ch_from_store = True\<rparr>"
  have "check_change ?c cur = Inr (Finite 1)"
    using st by (simp add: check_change_Inr target_fraction_def unexpected_def in_unit_def release_can_transition_to_def)
  from transition_release_ok[OF inv cur this] obtain r db' where
    "transition_release client now rid ?c System (Some reason) db = Inr (r, db')"
    by (metis call_store_def ReleaseChange.select_convs(5))
  then show ?thesis by simp
qed

lemma agrees_load: "load_release db rid = Inr x \<Longrightarrow> agrees x db"
  using load_release_in[of db rid x] by (auto simp: agrees_def)

lemma sync_release_agrees:
  assumes inv: "rel_inv db" and ag: "agrees r db"
    and s: "sync_release_with_store client r now db = (res, db1)"
  shows "case res of Inr x \<Rightarrow> agrees x db1 \<and> rl_id x = rl_id r | Inl _ \<Rightarrow> agrees r db1"
proof -
  let ?db0 = "update_releases (\<lambda>x. rl_id x = rl_id r) (\<lambda>x. x\<lparr>rl_store_checked_at := Some now\<rparr>) db"
  have core: "core_of (x\<lparr>rl_store_checked_at := Some now\<rparr>) = core_of x" for x by (simp add: core_of_def)
  have ag0: "agrees r ?db0" using ag core by (rule agrees_touch)
  have inv0: "rel_inv ?db0" using advance_touch[OF core] inv by (rule advancing.step_inv)
  consider "db1 = ?db0" "res = Inr r \<or> (\<exists>e. res = Inl e)"
    | obs changes r1 where "changes = store_sync_changes (rl_state r) (rl_rollout_fraction r) obs" "changes \<noteq> []"
      "sync_changes client now (rl_id r) (store_sync_reason r obs) (Some (rl_state r, rl_rollout_fraction r))
         changes ?db0 = (r1, db1)"
      "res = (case r1 of Inl e \<Rightarrow> Inl e | Inr _ \<Rightarrow> load_release db1 (rl_id r))"
    using s by (auto simp: sync_release_with_store_def Let_def split: sum.splits option.splits prod.splits if_splits)
  then show ?thesis
  proof cases
    case 1
    with ag0 show ?thesis by (auto split: sum.split)
  next
    case 2
    show ?thesis
    proof (cases r1)
      case (Inr u)
      with 2(4) have "res = load_release db1 (rl_id r)" by simp
      moreover have "(advance_step (rl_id r))\<^sup>*\<^sup>* db db1" using sync_release_with_store_run[OF ag, of client now] s by simp
      from rows_rel_load[OF advancing.run_rel[OF this inv] advancing.run_inv[OF this inv]] ag
      obtain y where "load_release db1 (rl_id r) = Inr y" by (metis agrees_def)
      ultimately show ?thesis using load_release_in by (auto intro: agrees_load)
    next
      case (Inl e)
      have "db1 = ?db0"
      proof (cases "\<exists>c. changes = [c]")
        case True
        with 2(3) Inl show ?thesis by (auto split: sum.splits)
      next
        case False
        with 2(1,2) have ch: "changes = [(Rolling, Some (Finite 1)), (Release_Complete, None)]"
          by (auto simp: store_sync_changes_def split: StoreObservation.splits if_splits)
        let ?c = "\<lparr>ch_to_state = Rolling, ch_to_fraction = Some (Finite 1),
            ch_audit_action = ''release_synced_from_store'',
            ch_expect = Some (rl_state r, rl_rollout_fraction r), ch_from_store = True\<rparr>"
        show ?thesis
        proof (cases "transition_release client now (rl_id r) ?c System (Some (store_sync_reason r obs)) ?db0")
          case (Inl e)
          with 2(3) show ?thesis by (simp add: ch)
        next
          case (Inr p)
          then obtain r2 db2 where ok: "transition_release client now (rl_id r) ?c System
              (Some (store_sync_reason r obs)) ?db0 = Inr (r2, db2)" by (cases p) auto
          have inv2: "rel_inv db2" using release_step.change[OF ok] inv0 by (rule release_step_inv)
          from transition_release_loads[OF inv0 ok] have loaded: "load_release db2 (rl_id r) = Inr r2"
            and r2: "rl_state r2 = Rolling" by simp_all
          from sync_complete_ok[OF inv2 loaded r2, of client now "store_sync_reason r obs"] 2(3) \<open>r1 = Inl e\<close> show ?thesis
            by (simp add: ch ok del: sync_changes.simps(2)) (simp add: ok)
        qed
      qed
      with 2(4) Inl ag0 show ?thesis by simp
    qed
  qed
qed

lemma release_action_run:
  assumes inv: "rel_inv db"
  shows "(advance_step rid)\<^sup>*\<^sup>* db (snd (release_action client now auth rid action_text req db))"
proof (cases "check_action auth rid action_text req db")
  case (Inr x)
  then obtain action cur role where chk: "check_action auth rid action_text req db = Inr (action, cur, role)"
    by (cases x) auto
  then have cur: "load_release db rid = Inr cur"
    by (auto simp: check_action_def and_then_eq_Inr split: if_splits)
  obtain seen db1 where s: "sync_before_action client now cur db = (seen, db1)"
    by (cases "sync_before_action client now cur db")
  note run1 = sync_before_action_run[OF inv cur s]
  note c = load_release_in[OF cur]
  have ag: "agrees seen db1 \<and> rl_id seen = rid"
  proof (cases "rl_store cur = GooglePlay \<and> \<not> release_is_terminal (rl_state cur)")
    case True
    obtain res db2 where w: "sync_release_with_store client cur now db = (res, db2)"
      by (cases "sync_release_with_store client cur now db")
    from sync_release_agrees[OF inv agrees_load[OF cur] w] s True w c show ?thesis
      by (auto simp: sync_before_action_def split: sum.splits)
  next
    case False
    with s c agrees_load[OF cur] show ?thesis by (auto simp: sync_before_action_def)
  qed
  show ?thesis
  proof (cases "action \<in> set (allowed_actions role seen)")
    case True
    with apply_action_run[OF True] ag
    have "(advance_step rid)\<^sup>*\<^sup>* db1 (snd (apply_action client now auth rid action req seen db1))" by blast
    with run1 True show ?thesis by (simp add: release_action_def chk s)
  next
    case False
    with run1 show ?thesis by (simp add: release_action_def chk s)
  qed
qed (simp add: release_action_def)

end
