(* ===== verification/Release_Guarantees.thy ===== *)
theory Release_Guarantees
  imports Release_Lifecycle
begin

text \<open>
  What the release component guarantees: a history that replays, rollouts that never shrink, an
  approval gate that holds, a crash-rate guard that halts, schedules that reach 100%, and the
  refinement of an abstract machine of states and fractions by \<open>transition_release\<close>.
\<close>

subsection \<open>Interleaved steps keep the history\<close>

definition any_release_step :: "release_db \<Rightarrow> release_db \<Rightarrow> bool" where
  "any_release_step db db' \<longleftrightarrow> (\<exists>rid. release_step rid db db')"

interpretation release_system: invariant_of any_release_step rel_inv
  by unfold_locales (auto simp: any_release_step_def intro: release_step_inv)

text \<open>A sample: one Google Play release on the production track, rolling at one quarter.\<close>

definition sample_policy :: ReleasePolicy where
  "sample_policy = \<lparr>po_steps = [Finite (1 / 4), Finite (1 / 2), Finite 1], po_interval_hours = Finite 1,
     po_crash_rate_threshold = Some (Finite (1 / 50)), po_approval = BeforeProduction\<rparr>"

definition sample_new :: "ReleasePolicy \<Rightarrow> NewRelease" where
  "sample_new policy = \<lparr>nr_project_id = ''p1'', nr_build_id = ''b1'', nr_artifact_id = None, nr_store = GooglePlay,
     nr_track = ''production'', nr_package_name = None, nr_version_name = None, nr_version_code = Some 7,
     nr_state = Rolling, nr_rollout_fraction = Finite (1 / 4), nr_policy = policy,
     nr_environment_id = None, nr_promoted_from_release_id = None\<rparr>"

definition no_releases :: release_db where
  "no_releases = \<lparr>core = empty_core, releases = [], release_history = [], release_events = [],
     release_audit = [], release_artifacts = [], environment_targets = []\<rparr>"

definition sample_created :: "ReleasePolicy \<Rightarrow> ReleaseError + (release \<times> release_db)" where
  "sample_created policy = create_release ''r1'' 1000 (sample_new policy) System None no_releases"

definition created_db :: "ReleasePolicy \<Rightarrow> release_db" where
  "created_db policy = (case sample_created policy of Inl _ \<Rightarrow> no_releases | Inr (_, db) \<Rightarrow> db)"

lemma no_releases_inv: "rel_inv no_releases"
  by (simp add: rel_inv_def no_releases_def)

lemma created_run:
  assumes "is_ok (sample_created policy)"
  shows "(advance_step ''r1'')\<^sup>*\<^sup>* no_releases (created_db policy)" and "rel_inv (created_db policy)"
proof -
  from assms obtain x where "sample_created policy = Inr x" by (rule is_okE)
  then obtain r db where ok: "sample_created policy = Inr (r, db)" by (cases x) auto
  show run: "(advance_step ''r1'')\<^sup>*\<^sup>* no_releases (created_db policy)"
    using create_release_run[OF ok[unfolded sample_created_def]] by (simp add: created_db_def ok)
  from run no_releases_inv show "rel_inv (created_db policy)" by (rule advancing.run_inv)
qed

lemma advance_is_step: "(advance_step rid)\<^sup>*\<^sup>* db db' \<Longrightarrow> any_release_step\<^sup>*\<^sup>* db db'"
  by (induction rule: rtranclp_induct)
    (auto simp: advance_step_def any_release_step_def intro: rtranclp.rtrancl_into_rtrancl)

text \<open>C6. Whatever order creations, store-confirmed changes, approvals, monitor notes and other
  updates of releases interleave in, every release keeps a unique id, a valid policy and a
  fraction between 0 and 1, and the changes in its history replay, each from where the last one
  ended and along an allowed edge, to exactly the state and fraction of its row.\<close>

theorem release_history_replays:
  assumes "any_release_step\<^sup>*\<^sup>* db db'" and "rel_inv db" and "r \<in> set (releases db')"
  shows "replay None (changes_of (rl_id r) (release_history db')) = Some (rl_state r, rl_rollout_fraction r) \<and>
         in_unit (rl_rollout_fraction r) \<and> policy_validate (rl_policy r) = Inr () \<and>
         load_release db' (rl_id r) = Inr r"
proof -
  have inv: "rel_inv db'" using assms(1,2) by (rule release_system.run_inv)
  from rel_invD(2)[OF this assms(3)] load_release_row[OF rel_invD(1)[OF inv] assms(3)]
  show ?thesis by (simp add: release_ok_def)
qed

theorem release_history_replays_witness:
  "\<exists>r. r \<in> set (releases (created_db sample_policy)) \<and>
     replay None (changes_of (rl_id r) (release_history (created_db sample_policy))) =
       Some (rl_state r, rl_rollout_fraction r)"
proof -
  let ?db = "created_db sample_policy"
  have ok: "is_ok (sample_created sample_policy)" and ne: "releases ?db \<noteq> []" by code_simp+
  from ne have "hd (releases ?db) \<in> set (releases ?db)" by simp
  from release_history_replays[OF advance_is_step[OF created_run(1)[OF ok]] no_releases_inv this] this
  show ?thesis by blast
qed

subsection \<open>Rollouts never shrink\<close>

inductive release_handler :: "release_db \<Rightarrow> release_db \<Rightarrow> bool" where
  create: "create_release_handler rid now auth req db = Inr (r, db') \<Longrightarrow> release_handler db db'"
| action: "release_action client now auth rid action_text req db = (res, db') \<Longrightarrow> release_handler db db'"
| tick: "release_handler db (run_rollout_tick client now batch db)"

interpretation release_handlers: progress_of release_handler rel_inv "rows_rel grown"
proof
  have run: "any_advance\<^sup>*\<^sup>* s t" if "release_handler s t" "rel_inv s" for s t
    using that(1)
  proof cases
    case create
    then show ?thesis by (blast intro: any_advance_run create_release_handler_run)
  next
    case (action client now auth rid action_text req res)
    with release_action_run[OF that(2), of rid client now auth action_text req] show ?thesis
      by (simp add: any_advance_run)
  next
    case tick
    with run_rollout_tick_run[OF that(2)] show ?thesis by simp
  qed
  show "rel_inv t" if "release_handler s t" "rel_inv s" for s t
    using releases_advance.run_inv[OF run[OF that] that(2)] .
  show "rows_rel grown s t" if "rel_inv s" "release_handler s t" for s t
    using releases_advance.run_rel[OF run[OF that(2,1)] that(1)] .
qed (rule releases_advance.rel_refl, rule releases_advance.rel_trans)

text \<open>C7. Over any sequence of create requests, release actions and monitor ticks, whatever the store
  answers, a release keeps its id, store, track and policy; the rollout fraction of a Google Play
  release never decreases; a completed or failed release never changes state or fraction again;
  and an approval is never withdrawn.\<close>

theorem rollout_never_shrinks:
  assumes "release_handler\<^sup>*\<^sup>* db db'" and "rel_inv db" and "load_release db rid = Inr r"
  shows "\<exists>r'. load_release db' rid = Inr r' \<and> rl_store r' = rl_store r \<and> rl_track r' = rl_track r \<and>
           rl_policy r' = rl_policy r \<and> in_unit (rl_rollout_fraction r') \<and>
           (rl_store r = GooglePlay \<longrightarrow> f64_le (rl_rollout_fraction r) (rl_rollout_fraction r')) \<and>
           (release_is_terminal (rl_state r) \<longrightarrow>
              rl_state r' = rl_state r \<and> rl_rollout_fraction r' = rl_rollout_fraction r) \<and>
           (rl_approved_at r \<noteq> None \<longrightarrow> rl_approved_at r' = rl_approved_at r)"
proof -
  have inv: "rel_inv db'" using assms(1,2) by (rule release_handlers.run_inv)
  have rel: "rows_rel grown db db'" using assms(1,2) by (rule release_handlers.run_rel)
  from rows_rel_load[OF rel inv assms(3)] obtain r' where r': "load_release db' rid = Inr r'" and g: "grown r r'" .
  from rel_invD(2)[OF assms(2)] load_release_in[OF assms(3)] have u: "in_unit (rl_rollout_fraction r)"
    by (simp add: release_ok_def)
  from rel_invD(2)[OF inv] load_release_in[OF r'] have u': "in_unit (rl_rollout_fraction r')"
    by (simp add: release_ok_def)
  have "f64_le (rl_rollout_fraction r) (rl_rollout_fraction r')" if "rl_store r = GooglePlay"
    using g that u by (auto simp: grown_def rises_def in_unit_def f64_le_refl_finite)
  with r' g u' show ?thesis by (auto simp: grown_def evolved_def)
qed

theorem rollout_never_shrinks_witness:
  "\<exists>r r'. load_release (created_db sample_policy) ''r1'' = Inr r \<and>
     load_release (run_rollout_tick noop_client 9000 100 (created_db sample_policy)) ''r1'' = Inr r' \<and>
     f64_le (rl_rollout_fraction r) (rl_rollout_fraction r')"
proof -
  let ?db = "created_db sample_policy"
  have ok: "is_ok (sample_created sample_policy)" and l: "is_ok (load_release ?db ''r1'')"
    and play: "list_all (\<lambda>r. rl_store r = GooglePlay) (releases ?db)" by code_simp+
  from l obtain r where r: "load_release ?db ''r1'' = Inr r" by (rule is_okE)
  with play load_release_in[OF r] have "rl_store r = GooglePlay" by (auto simp: list_all_iff)
  moreover have "release_handler\<^sup>*\<^sup>* ?db (run_rollout_tick noop_client 9000 100 ?db)"
    by (intro r_into_rtranclp release_handler.tick)
  ultimately show ?thesis using rollout_never_shrinks[OF _ created_run(2)[OF ok] r] r
    by blast
qed

subsection \<open>One release in a tick\<close>

text \<open>The store is not read: the sync only stamps the row.\<close>

definition unread :: "store_client \<Rightarrow> bool" where
  "unread client \<longleftrightarrow> (\<forall>x. sc_observe client x = Inr None)"

abbreviation stamped :: "int \<Rightarrow> release \<Rightarrow> release_db \<Rightarrow> release_db" where
  "stamped now r db \<equiv>
     update_releases (\<lambda>x. rl_id x = rl_id r) (\<lambda>x. x\<lparr>rl_store_checked_at := Some now\<rparr>) db"

lemma sync_unread:
  "unread client \<Longrightarrow> sync_release_with_store client r now db = (Inr r, stamped now r db)"
  by (simp add: sync_release_with_store_def unread_def)

lemma sync_first_unread:
  assumes "unread client" and "f64_is_finite (rl_rollout_fraction r)"
  shows "\<exists>db1. sync_first client now r db = (True, db1) \<and> (db1 = db \<or> db1 = stamped now r db)"
  using assms by (auto simp: sync_first_def Let_def sync_unread)

lemma stamped_load:
  assumes "load_release db (rl_id r) = Inr cur"
  shows "\<exists>cur'. load_release (stamped now r db) (rl_id r) = Inr cur' \<and> core_of cur' = core_of cur \<and>
     rl_next_step_at cur' = rl_next_step_at cur"
proof -
  have "fetch_optional (\<lambda>x. rl_id x = rl_id r) (releases (stamped now r db)) =
      Some (cur\<lparr>rl_store_checked_at := Some now\<rparr>)"
    using assms load_release_in[OF assms]
    by (simp add: fetch_optional_update_key[of rl_id] load_release_Inr)
  then show ?thesis by (simp add: load_release_Inr core_of_def)
qed

text \<open>The tick treats one selected release, in some state of the tables that agrees with its row.\<close>

lemma tick_splits:
  assumes inv: "rel_inv db" and r: "r \<in> set (releases db)" and sel: "tick_selected r"
    and n: "length (releases db) \<le> batch"
  obtains db1 rs where "rel_inv db1" and "r \<in> set (releases db1)" and "rel_inv (tick_one client now r db1)"
    and "run_rollout_tick client now batch db = fold (tick_one client now) rs (tick_one client now r db1)"
    and "\<And>x. x \<in> set (releases (tick_one client now r db1)) \<Longrightarrow> rl_id x = rl_id r \<Longrightarrow>
           x \<in> set (releases (run_rollout_tick client now batch db))"
proof -
  let ?sorted = "sort_key (tick_order now) (filter tick_selected (releases db))"
  have len: "length ?sorted \<le> batch" using n by (simp add: order.trans[OF length_filter_le])
  have "r \<in> set ?sorted" using r sel by simp
  then obtain ps rs where split: "?sorted = ps @ r # rs" by (meson split_list)
  have "distinct (map rl_id ?sorted)"
    using rel_invD(1)[OF inv] by (simp add: distinct_map inj_on_def)
  then have dist: "distinct (map rl_id ps)" "rl_id r \<notin> rl_id ` set ps" "rl_id r \<notin> rl_id ` set rs"
    "distinct (map rl_id rs)" "rl_id ` set ps \<inter> rl_id ` set rs = {}" by (auto simp: split)
  have in_db: "set ?sorted \<subseteq> set (releases db)" by auto
  let ?db1 = "fold (tick_one client now) ps db"
  have run: "rel_inv (fold (tick_one client now) qs d) \<and>
      (\<forall>x \<in> set (releases d). rl_id x \<notin> rl_id ` set qs \<longrightarrow> x \<in> set (releases (fold (tick_one client now) qs d)))"
    if "rel_inv d" "distinct (map rl_id qs)" "set qs \<subseteq> set (releases d)" for qs d
    using that
  proof (induction qs arbitrary: d)
    case (Cons q qs)
    have ag: "agrees q d" using Cons.prems by (intro agrees_row) auto
    note step = tick_one_run[OF Cons.prems(1) ag, of client now]
    have inv': "rel_inv (tick_one client now q d)" using step Cons.prems(1) by (rule advancing.run_inv)
    have keep: "x \<in> set (releases (tick_one client now q d))" if "x \<in> set (releases d)" "rl_id x \<noteq> rl_id q" for x
      using run_others[OF step Cons.prems(1) that] .
    have "set qs \<subseteq> set (releases (tick_one client now q d))"
    proof
      fix x assume x: "x \<in> set qs"
      then have "rl_id x \<in> rl_id ` set qs" by (rule imageI)
      with Cons.prems(2) have "rl_id x \<noteq> rl_id q" by auto
      with keep Cons.prems(3) x show "x \<in> set (releases (tick_one client now q d))" by auto
    qed
    from Cons.IH[OF inv' _ this] Cons.prems(2) keep show ?case by simp
  qed simp
  have "set ps \<subseteq> set (releases db)" using in_db by (auto simp: split)
  note r1 = run[OF inv dist(1) this]
  have inv1: "rel_inv ?db1" and in1: "r \<in> set (releases ?db1)" using r1 r dist(2) by auto
  note one = tick_one_run[OF inv1 agrees_row[OF inv1 in1], of client now]
  have inv2: "rel_inv (tick_one client now r ?db1)" using one inv1 by (rule advancing.run_inv)
  have "set rs \<subseteq> set (releases (tick_one client now r ?db1))"
  proof
    fix x assume x: "x \<in> set rs"
    then have idx: "rl_id x \<in> rl_id ` set rs" by (rule imageI)
    with dist(3) have "rl_id x \<noteq> rl_id r" by auto
    moreover from idx dist(5) have "rl_id x \<notin> rl_id ` set ps" by blast
    with r1 in_db x have "x \<in> set (releases ?db1)" by (auto simp: split)
    ultimately show "x \<in> set (releases (tick_one client now r ?db1))"
      using run_others[OF one inv1] by blast
  qed
  note r2 = run[OF inv2 dist(4) this]
  have tick: "run_rollout_tick client now batch db = fold (tick_one client now) rs (tick_one client now r ?db1)"
    using len by (simp add: run_rollout_tick_def split)
  show thesis
    by (rule that[OF inv1 in1 inv2 tick]) (use r2 dist(3) tick in auto)
qed

text \<open>So what the tick does to one release is what \<open>tick_one\<close> does to it.\<close>

lemma tick_release:
  assumes inv: "rel_inv db" and r: "r \<in> set (releases db)" and sel: "tick_selected r"
    and n: "length (releases db) \<le> batch"
    and one: "\<And>db1. rel_inv db1 \<Longrightarrow> load_release db1 (rl_id r) = Inr r \<Longrightarrow>
      \<exists>x. load_release (tick_one client now r db1) (rl_id r) = Inr x \<and> P x"
  shows "\<exists>x. load_release (run_rollout_tick client now batch db) (rl_id r) = Inr x \<and> P x"
proof -
  from tick_splits[OF inv r sel n, of client now] obtain db1 rs where
    inv1: "rel_inv db1" and in1: "r \<in> set (releases db1)"
    and last: "\<And>x. x \<in> set (releases (tick_one client now r db1)) \<Longrightarrow> rl_id x = rl_id r \<Longrightarrow>
           x \<in> set (releases (run_rollout_tick client now batch db))" by metis
  from one[OF inv1 load_release_row[OF rel_invD(1)[OF inv1] in1]] obtain x where
    x: "load_release (tick_one client now r db1) (rl_id r) = Inr x" "P x" by blast
  from load_release_in[OF x(1)] last have "x \<in> set (releases (run_rollout_tick client now batch db))" "rl_id x = rl_id r"
    by blast+
  moreover have "rel_inv (run_rollout_tick client now batch db)"
    using run_rollout_tick_run[OF inv] inv by (rule releases_advance.run_inv)
  ultimately show ?thesis using load_release_row[OF rel_invD(1)] x(2) by metis
qed

lemma load_after_touch:
  assumes "load_release db rid = Inr cur" and "\<And>x. core_of (f x) = core_of x"
  shows "load_release (update_releases (\<lambda>x. rl_id x = rid) f db) rid = Inr (f cur)"
proof -
  have "rl_id (f x) = rl_id x" for x using assms(2)[of x] by (simp add: core_of_def)
  then show ?thesis using assms(1) load_release_in[OF assms(1)]
    by (simp add: fetch_optional_update_key[of rl_id] load_release_Inr)
qed

lemma load_frame [simp]:
  "load_release (note_rollout_hold r reason now db) rid = load_release db rid"
  by (simp add: load_release_def note_rollout_hold_def)

lemma record_rate_load:
  assumes "load_release db (rl_id r) = Inr cur"
  shows "load_release (record_rate now r rate db) (rl_id r) = Inr (rate_columns now rate cur)"
    and "load_release (record_rate_error now r e db) (rl_id r) =
           Inr (rate_error_columns now (take MAX_REASON_LEN e) cur)"
  using load_after_touch[OF assms, of "rate_columns now rate"]
    load_after_touch[OF assms, of "rate_error_columns now (take MAX_REASON_LEN e)"]
  by (simp_all add: record_rate_def record_rate_error_def Let_def core_of_def rate_columns_def rate_error_columns_def)

lemma rate_columns_core [simp]:
  "core_of (rate_columns now rate x) = core_of x" "core_of (rate_error_columns now e x) = core_of x"
  by (simp_all add: core_of_def rate_columns_def rate_error_columns_def)

text \<open>Halting keeps the fraction; the change is refused or recorded.\<close>

lemma try_halt_load:
  assumes inv: "rel_inv db" and cur: "load_release db rid = Inr cur"
  shows "\<exists>x. load_release (try_transition client now rid halt_change reason db) rid = Inr x \<and>
           rl_rollout_fraction x = rl_rollout_fraction cur \<and> rl_approved_at x = rl_approved_at cur \<and>
           rl_policy x = rl_policy cur \<and> rl_track x = rl_track cur \<and> rl_store x = rl_store cur \<and>
           (rl_state x = rl_state cur \<or> rl_state x = Halted)"
    and "rl_state cur = Rolling \<Longrightarrow> sc_apply client cur Change_Halt = Inr () \<Longrightarrow>
         \<exists>x. load_release (try_transition client now rid halt_change reason db) rid = Inr x \<and>
           rl_rollout_fraction x = rl_rollout_fraction cur \<and> rl_state x = Halted \<and> rl_next_step_at x = None"
proof -
  have unit: "in_unit (rl_rollout_fraction cur)"
    using rel_invD(2)[OF inv] load_release_in[OF cur] by (simp add: release_ok_def)
  show "\<exists>x. load_release (try_transition client now rid halt_change reason db) rid = Inr x \<and>
           rl_rollout_fraction x = rl_rollout_fraction cur \<and> rl_approved_at x = rl_approved_at cur \<and>
           rl_policy x = rl_policy cur \<and> rl_track x = rl_track cur \<and> rl_store x = rl_store cur \<and>
           (rl_state x = rl_state cur \<or> rl_state x = Halted)"
  proof (cases "transition_release client now rid halt_change System (Some reason) db")
    case (Inl e)
    with cur show ?thesis by (simp add: try_transition_def)
  next
    case (Inr p)
    then obtain r db' where ok: "transition_release client now rid halt_change System (Some reason) db = Inr (r, db')"
      by (cases p) auto
    from transition_release_Inr[OF rel_invD(1)[OF inv] ok] cur obtain f nxt where
      "check_change halt_change cur = Inr f" "r = change_columns now Halted f nxt cur"
      by (metis ReleaseChange.select_convs(1) halt_change_def sum.inject(2))
    with transition_release_loads[OF inv ok] ok show ?thesis
      by (auto simp: try_transition_def change_columns_def check_change_Inr target_fraction_def halt_change_def)
  qed
  assume st: "rl_state cur = Rolling" and acc: "sc_apply client cur Change_Halt = Inr ()"
  have "check_change halt_change cur = Inr (rl_rollout_fraction cur)"
    using unit st by (simp add: check_change_Inr target_fraction_def halt_change_def unexpected_def
        release_can_transition_to_def)
  moreover have "call_store client cur halt_change (rl_rollout_fraction cur) = Inr ()"
    using st acc by (simp add: call_store_def store_change_def halt_change_def)
  ultimately obtain r db' where ok: "transition_release client now rid halt_change System (Some reason) db = Inr (r, db')"
    and r: "r = change_columns now Halted (rl_rollout_fraction cur)
           (next_step_at (cur\<lparr>rl_state := Halted, rl_rollout_fraction := rl_rollout_fraction cur\<rparr>) now) cur"
    using transition_release_ok[OF inv cur] by (metis ReleaseChange.select_convs(1) halt_change_def)
  with transition_release_loads(1)[OF inv ok]
  show "\<exists>x. load_release (try_transition client now rid halt_change reason db) rid = Inr x \<and>
           rl_rollout_fraction x = rl_rollout_fraction cur \<and> rl_state x = Halted \<and> rl_next_step_at x = None"
    by (auto simp: try_transition_def change_columns_def next_step_at_def)
qed

lemma tick_one_unread:
  assumes un: "unread client" and fin: "f64_is_finite (rl_rollout_fraction r)"
    and inv: "rel_inv db" and cur: "load_release db (rl_id r) = Inr cur"
  obtains db1 cur1 where "rel_inv db1" and "load_release db1 (rl_id r) = Inr cur1"
    and "core_of cur1 = core_of cur" and "rl_next_step_at cur1 = rl_next_step_at cur"
    and "tick_one client now r db =
      (if rl_state r \<noteq> Rolling then db1
       else (case health_check client now r db1 of (step, db2) \<Rightarrow> if step then take_step client now r db2 else db2))"
proof -
  from sync_first_unread[OF un fin, of now db] obtain db1 where s: "sync_first client now r db = (True, db1)"
    and d: "db1 = db \<or> db1 = stamped now r db" by blast
  have "rel_inv (stamped now r db)"
    using advance_touch[of "\<lambda>x. x\<lparr>rl_store_checked_at := Some now\<rparr>"] inv
    by (rule advancing.step_inv) (simp add: core_of_def)
  with d inv have "rel_inv db1" by blast
  moreover from d stamped_load[OF cur, of now] cur obtain cur1 where "load_release db1 (rl_id r) = Inr cur1"
    "core_of cur1 = core_of cur" "rl_next_step_at cur1 = rl_next_step_at cur" by blast
  ultimately show thesis using that[of db1 cur1] s by (simp add: tick_one_def)
qed

lemma core_eqD:
  assumes "core_of x = core_of y"
  shows "rl_id x = rl_id y" "rl_store x = rl_store y" "rl_track x = rl_track y" "rl_state x = rl_state y"
    "rl_rollout_fraction x = rl_rollout_fraction y" "rl_policy x = rl_policy y" "rl_approved_at x = rl_approved_at y"
  using assms by (simp_all add: core_of_def)

lemma tick_one_awaiting:
  assumes un: "unread client" and inv: "rel_inv db" and r: "load_release db (rl_id r) = Inr r"
    and aw: "awaiting_approval r"
  shows "\<exists>x. load_release (tick_one client now r db) (rl_id r) = Inr x \<and>
           rl_rollout_fraction x = rl_rollout_fraction r \<and> rl_approved_at x = None \<and>
           (rl_state x = rl_state r \<or> rl_state x = Halted)"
proof -
  have na: "rl_approved_at r = None" using aw by (simp add: awaiting_approval_def split: if_splits)
  have fin: "f64_is_finite (rl_rollout_fraction r)"
    using rel_invD(2)[OF inv] load_release_in[OF r] by (auto simp: release_ok_def)
  from tick_one_unread[OF un fin inv r, of now] obtain db1 cur1 where
    inv1: "rel_inv db1" and cur1: "load_release db1 (rl_id r) = Inr cur1" and core: "core_of cur1 = core_of r"
    and "rl_next_step_at cur1 = rl_next_step_at r" and tick: "tick_one client now r db = (if rl_state r \<noteq> Rolling then db1
       else (case health_check client now r db1 of (step, db2) \<Rightarrow> if step then take_step client now r db2 else db2))" .
  note e = core_eqD[OF core]
  have step: "take_step client now r db2 = db2" for db2 by (simp add: take_step_def aw)
  have rec: "rel_inv (record_rate now r rate db1)" for rate
    using recorded_run(1)[OF cur1] inv1 by (rule advancing.run_inv)
  have halt: "\<exists>x. load_release (try_transition client now (rl_id r) halt_change reason (record_rate now r rate db1))
        (rl_id r) = Inr x \<and> rl_rollout_fraction x = rl_rollout_fraction r \<and> rl_approved_at x = None \<and>
           (rl_state x = rl_state r \<or> rl_state x = Halted)" for rate reason
    using try_halt_load(1)[OF rec[of rate] record_rate_load(1)[OF cur1], of client now reason] e na
    by (simp add: rate_columns_def) metis
  have "\<exists>x. load_release (snd (health_check client now r db1)) (rl_id r) = Inr x \<and>
           rl_rollout_fraction x = rl_rollout_fraction r \<and> rl_approved_at x = None \<and>
           (rl_state x = rl_state r \<or> rl_state x = Halted)"
    using halt record_rate_load[OF cur1] cur1 e na
    by (auto simp: health_check_def rate_columns_def rate_error_columns_def split: option.split sum.split)
  then have "\<exists>x. load_release (case health_check client now r db1 of (step, db2) \<Rightarrow>
        if step then take_step client now r db2 else db2) (rl_id r) = Inr x \<and>
           rl_rollout_fraction x = rl_rollout_fraction r \<and> rl_approved_at x = None \<and>
           (rl_state x = rl_state r \<or> rl_state x = Halted)"
    by (cases "health_check client now r db1") (simp add: step)
  then show ?thesis using cur1 e na by (auto simp: tick)
qed

lemma awaiting_actions:
  "awaiting_approval r \<Longrightarrow> set (allowed_actions role r) \<subseteq> {Action_Pause, Action_Halt, Action_Approve}"
  by (auto simp: allowed_actions_def Let_def)

text \<open>A release that needs approval is held until it is approved. While it waits, and the store
  reports no change of its own, a monitor tick and every action except \<open>approve\<close> leave its fraction
  as it is, and can only pause or halt it; and every attempt to record a resume, a step or a
  completion of it that does not come from the store is refused.\<close>

theorem unapproved_release_is_held:
  assumes "rel_inv db" and "load_release db rid = Inr r" and "awaiting_approval r"
    and "tick_selected r" and "unread client" and "length (releases db) \<le> batch"
  shows "(\<exists>x. load_release (run_rollout_tick client now batch db) rid = Inr x \<and>
            rl_rollout_fraction x = rl_rollout_fraction r \<and> rl_approved_at x = None \<and>
            (rl_state x = rl_state r \<or> rl_state x = Halted)) \<and>
         (\<forall>role. set (allowed_actions role r) \<subseteq> {Action_Pause, Action_Halt, Action_Approve}) \<and>
         (\<forall>change actor reason. \<not> ch_from_store change \<and>
            (ch_to_state change = Rolling \<or> ch_to_state change = Release_Complete) \<longrightarrow>
            \<not> is_ok (transition_release client now rid change actor reason db))"
proof -
  from load_release_in[OF assms(2)] have r: "r \<in> set (releases db)" "rl_id r = rid" by auto
  have tick: "\<exists>x. load_release (run_rollout_tick client now batch db) (rl_id r) = Inr x \<and>
            (rl_rollout_fraction x = rl_rollout_fraction r \<and> rl_approved_at x = None \<and>
            (rl_state x = rl_state r \<or> rl_state x = Halted))"
    using tick_one_awaiting[OF assms(5) _ _ assms(3)]
    by (rule tick_release[OF assms(1) r(1) assms(4,6)])
  have refused: "\<not> is_ok (transition_release client now rid change actor reason db)"
    if "\<not> ch_from_store change" "ch_to_state change = Rolling \<or> ch_to_state change = Release_Complete"
    for change actor reason
  proof
    assume "is_ok (transition_release client now rid change actor reason db)"
    then obtain p where "transition_release client now rid change actor reason db = Inr p" by (rule is_okE)
    then obtain x d where "transition_release client now rid change actor reason db = Inr (x, d)" by (cases p) auto
    from transition_release_Inr[OF rel_invD(1)[OF assms(1)] this] assms(2) obtain f
      where "check_change change r = Inr f" by (metis sum.inject(2))
    with that assms(3,4) show False by (auto simp: check_change_Inr tick_selected_def)
  qed
  show ?thesis using tick r(2) refused awaiting_actions[OF assms(3)] by simp
qed

lemma noop_unread: "unread noop_client"
  by (simp add: unread_def noop_client_def)

theorem unapproved_release_is_held_witness:
  "\<exists>r x. load_release (created_db sample_policy) ''r1'' = Inr r \<and> awaiting_approval r \<and>
     load_release (run_rollout_tick noop_client 9000 100 (created_db sample_policy)) ''r1'' = Inr x \<and>
     rl_rollout_fraction x = rl_rollout_fraction r"
proof -
  let ?db = "created_db sample_policy"
  have ok: "is_ok (sample_created sample_policy)" and l: "is_ok (load_release ?db ''r1'')"
    and all: "list_all (\<lambda>r. awaiting_approval r \<and> tick_selected r) (releases ?db)"
    and n: "length (releases ?db) \<le> 100" by code_simp+
  from l obtain r where r: "load_release ?db ''r1'' = Inr r" by (rule is_okE)
  with all load_release_in[OF r] have "awaiting_approval r" "tick_selected r" by (auto simp: list_all_iff)
  with unapproved_release_is_held[OF created_run(2)[OF ok] r _ _ noop_unread n, of 9000] r show ?thesis by blast
qed

subsection \<open>The crash-rate guard\<close>

text \<open>The crash-rate guard halts a rollout. When a rolling Google Play release has a threshold, its
  check is due, the store reports a rate at or above the threshold and accepts the halt, the tick
  leaves the release halted at its current fraction with no step scheduled, even when a step was
  due; when the rate cannot be read, the release keeps its fraction and state.\<close>

theorem crash_breach_halts:
  assumes "rel_inv db" and "load_release db rid = Inr r" and "rl_store r = GooglePlay" and "rl_state r = Rolling"
    and "unread client" and "length (releases db) \<le> batch"
    and "po_crash_rate_threshold (rl_policy r) = Some threshold"
    and "check_due now (rl_crash_rate_checked_at r)"
    and "\<And>x. sc_apply client x Change_Halt = Inr ()"
  shows "(sc_crash_rate client r = Inr (Some rate) \<and> f64_le threshold rate \<longrightarrow>
            (\<exists>x. load_release (run_rollout_tick client now batch db) rid = Inr x \<and> rl_state x = Halted \<and>
               rl_rollout_fraction x = rl_rollout_fraction r \<and> rl_next_step_at x = None)) \<and>
         (sc_crash_rate client r = Inl message \<longrightarrow>
            (\<exists>x. load_release (run_rollout_tick client now batch db) rid = Inr x \<and> rl_state x = Rolling \<and>
               rl_rollout_fraction x = rl_rollout_fraction r \<and>
               rl_health_error x = Some (take MAX_REASON_LEN message)))"
proof -
  from load_release_in[OF assms(2)] have r: "r \<in> set (releases db)" "rl_id r = rid" by auto
  have sel: "tick_selected r" using assms(3,4) by (simp add: tick_selected_def)
  have fin: "f64_is_finite (rl_rollout_fraction r)"
    using rel_invD(2)[OF assms(1) r(1)] by (auto simp: release_ok_def)
  have halted: "\<exists>x. load_release (tick_one client now r d) (rl_id r) = Inr x \<and> (rl_state x = Halted \<and>
      rl_rollout_fraction x = rl_rollout_fraction r \<and> rl_next_step_at x = None)"
    if rate: "sc_crash_rate client r = Inr (Some rate)" "f64_le threshold rate"
      and d: "rel_inv d" "load_release d (rl_id r) = Inr r" for d
  proof -
    from tick_one_unread[OF assms(5) fin d, of now] obtain db1 cur1 where
      inv1: "rel_inv db1" and cur1: "load_release db1 (rl_id r) = Inr cur1" and core: "core_of cur1 = core_of r"
      and "rl_next_step_at cur1 = rl_next_step_at r" and tick: "tick_one client now r d = (if rl_state r \<noteq> Rolling then db1
       else (case health_check client now r db1 of (step, db2) \<Rightarrow> if step then take_step client now r db2 else db2))" .
    have rec: "rel_inv (record_rate now r (Some rate) db1)"
      using recorded_run(1)[OF cur1] inv1 by (rule advancing.run_inv)
    have "tick_one client now r d = try_transition client now (rl_id r) halt_change
        (breach_reason rate threshold) (record_rate now r (Some rate) db1)"
      using assms(4,7,8) rate by (simp add: tick health_check_def)
    with try_halt_load(2)[OF rec record_rate_load(1)[OF cur1], of client now "breach_reason rate threshold"]
      assms(4,9) core_eqD[OF core] show ?thesis by (simp add: rate_columns_def) blast
  qed
  have held: "\<exists>x. load_release (tick_one client now r d) (rl_id r) = Inr x \<and> (rl_state x = Rolling \<and>
      rl_rollout_fraction x = rl_rollout_fraction r \<and> rl_health_error x = Some (take MAX_REASON_LEN message))"
    if err: "sc_crash_rate client r = Inl message"
      and d: "rel_inv d" "load_release d (rl_id r) = Inr r" for d
  proof -
    from tick_one_unread[OF assms(5) fin d, of now] obtain db1 cur1 where
      inv1: "rel_inv db1" and cur1: "load_release db1 (rl_id r) = Inr cur1" and core: "core_of cur1 = core_of r"
      and "rl_next_step_at cur1 = rl_next_step_at r" and tick: "tick_one client now r d = (if rl_state r \<noteq> Rolling then db1
       else (case health_check client now r db1 of (step, db2) \<Rightarrow> if step then take_step client now r db2 else db2))" .
    have "tick_one client now r d = record_rate_error now r message db1"
      using assms(4,7,8) err by (simp add: tick health_check_def)
    with record_rate_load(2)[OF cur1] assms(4) core_eqD[OF core] show ?thesis by (simp add: rate_error_columns_def)
  qed
  show ?thesis
    using tick_release[OF assms(1) r(1) sel assms(6) halted] tick_release[OF assms(1) r(1) sel assms(6) held] r(2)
    by auto
qed

definition crashing_client :: store_client where
  "crashing_client = noop_client\<lparr>sc_crash_rate := (\<lambda>_. Inr (Some (Finite (1 / 20))))\<rparr>"

theorem crash_breach_halts_witness:
  "\<exists>x. load_release (run_rollout_tick crashing_client 9000 100 (created_db sample_policy)) ''r1'' = Inr x \<and>
     rl_state x = Halted"
proof -
  let ?db = "created_db sample_policy"
  have ok: "is_ok (sample_created sample_policy)" and l: "is_ok (load_release ?db ''r1'')"
    and all: "list_all (\<lambda>r. rl_store r = GooglePlay \<and> rl_state r = Rolling \<and>
        po_crash_rate_threshold (rl_policy r) = Some (Finite (1 / 50)) \<and> check_due 9000 (rl_crash_rate_checked_at r))
      (releases ?db)"
    and n: "length (releases ?db) \<le> 100" and le: "f64_le (Finite (1 / 50)) (Finite (1 / 20))" by code_simp+
  from l obtain r where r: "load_release ?db ''r1'' = Inr r" by (rule is_okE)
  with all load_release_in[OF r] have "rl_store r = GooglePlay" "rl_state r = Rolling"
    "po_crash_rate_threshold (rl_policy r) = Some (Finite (1 / 50))" "check_due 9000 (rl_crash_rate_checked_at r)"
    by (auto simp: list_all_iff)
  moreover have "unread crashing_client" by (simp add: unread_def crashing_client_def noop_client_def)
  moreover have "sc_apply crashing_client x Change_Halt = Inr ()" for x
    by (simp add: crashing_client_def noop_client_def)
  moreover have "sc_crash_rate crashing_client r = Inr (Some (Finite (1 / 20)))" by (simp add: crashing_client_def)
  ultimately show ?thesis using crash_breach_halts[OF created_run(2)[OF ok] r, of crashing_client 100
      "Finite (1 / 50)" 9000 "Finite (1 / 20)"] n le by blast
qed

subsection \<open>Schedules reach 100%\<close>

definition accepting :: "store_client \<Rightarrow> bool" where
  "accepting client \<longleftrightarrow> (\<forall>x c. sc_apply client x c = Inr ())"

definition remaining_steps :: "ReleasePolicy \<Rightarrow> f64 \<Rightarrow> nat" where
  "remaining_steps p f = length (filter (f64_less f) (po_steps p))"

lemma policy_valid_steps:
  assumes "policy_validate p = Inr ()"
  shows "Finite 1 \<in> set (po_steps p)" and "s \<in> set (po_steps p) \<Longrightarrow> in_unit s"
proof -
  from assms have ne: "po_steps p \<noteq> []" and last: "f64_eq (last (po_steps p)) (Finite 1)"
    and all: "\<not> list_ex outside_unit (po_steps p)"
    by (auto simp: policy_validate_def split: if_splits)
  from last_in_set[OF ne] last show "Finite 1 \<in> set (po_steps p)" by (simp add: f64_eq_def)
  show "s \<in> set (po_steps p) \<Longrightarrow> in_unit s"
    using all by (cases s) (auto simp: list_ex_iff outside_unit_def in_unit_def)
qed

lemma policy_next_step_Some:
  assumes "policy_next_step p f = Some g"
  shows "f64_less f g" and "g \<in> set (po_steps p)" and "remaining_steps p g < remaining_steps p f"
proof -
  show lt: "f64_less f g" and g: "g \<in> set (po_steps p)"
    using assms by (auto simp: policy_next_step_def find_Some_iff)
  have eq: "filter (f64_less g) (po_steps p) = filter (f64_less g) (filter (f64_less f) (po_steps p))"
    by (auto simp: filter_filter intro!: filter_cong f64_less_trans[OF lt])
  have "length (filter (f64_less g) (filter (f64_less f) (po_steps p))) < length (filter (f64_less f) (po_steps p))"
    using lt g by (intro length_filter_less[of g]) simp_all
  with eq show "remaining_steps p g < remaining_steps p f" by (simp add: remaining_steps_def)
qed

lemma policy_next_step_exists:
  assumes "policy_validate p = Inr ()" and "f64_less f (Finite 1)"
  obtains g where "policy_next_step p f = Some g"
proof -
  have "policy_next_step p f \<noteq> None"
    using policy_valid_steps(1)[OF assms(1)] assms(2) by (auto simp: policy_next_step_def find_None_iff)
  with that show thesis by blast
qed

lemma awaiting_approval_cong:
  assumes "rl_approved_at x = rl_approved_at y" "rl_state x = rl_state y" "rl_policy x = rl_policy y"
    "rl_track x = rl_track y"
  shows "awaiting_approval x = awaiting_approval y"
  unfolding awaiting_approval_def assms ..

lemma next_step_at_cong:
  assumes "rl_approved_at x = rl_approved_at y" "rl_state x = rl_state y" "rl_policy x = rl_policy y"
    "rl_track x = rl_track y" "rl_store x = rl_store y" "rl_rollout_fraction x = rl_rollout_fraction y"
  shows "next_step_at x now = next_step_at y now"
  unfolding next_step_at_def awaiting_approval_cong[OF assms(1-4)] assms(2,3,5,6) ..

text \<open>The scheduled step of one due release.\<close>

lemma tick_one_step:
  assumes un: "unread client" and acc: "accepting client" and inv: "rel_inv db"
    and r: "load_release db (rl_id r) = Inr r" and roll: "rl_state r = Rolling" and noaw: "\<not> awaiting_approval r"
    and nothr: "po_crash_rate_threshold (rl_policy r) = None" and due: "step_due now r"
    and next_g: "policy_next_step (rl_policy r) (rl_rollout_fraction r) = Some g"
  shows "\<exists>x. load_release (tick_one client now r db) (rl_id r) = Inr x \<and>
      (if f64_le (Finite 1) g then rl_state x = Release_Complete \<and> rl_rollout_fraction x = Finite 1
       else rl_state x = Rolling \<and> rl_rollout_fraction x = g \<and> rl_store x = rl_store r \<and>
         rl_policy x = rl_policy r \<and> \<not> awaiting_approval x \<and> rl_next_step_at x = next_step_at x now)"
proof -
  have unit: "in_unit (rl_rollout_fraction r)" and pol: "policy_validate (rl_policy r) = Inr ()"
    using rel_invD(2)[OF inv] load_release_in[OF r] by (auto simp: release_ok_def)
  from unit have fin: "f64_is_finite (rl_rollout_fraction r)" by blast
  from tick_one_unread[OF un fin inv r, of now] obtain db1 cur where
    inv1: "rel_inv db1" and cur: "load_release db1 (rl_id r) = Inr cur" and core: "core_of cur = core_of r"
    and "rl_next_step_at cur = rl_next_step_at r" and tick: "tick_one client now r db = (if rl_state r \<noteq> Rolling then db1
       else (case health_check client now r db1 of (step, db2) \<Rightarrow> if step then take_step client now r db2 else db2))" .
  note e = core_eqD[OF core]
  let ?c = "advance_change r g"
  let ?f = "if f64_le (Finite 1) g then Finite 1 else g"
  have t: "tick_one client now r db = try_transition client now (rl_id r) ?c ''scheduled rollout step'' db1"
    using roll due noaw next_g nothr by (simp add: tick health_check_def take_step_def)
  have g: "in_unit g" "f64_less (rl_rollout_fraction r) g"
    using policy_next_step_Some(1,2)[OF next_g] policy_valid_steps(2)[OF pol] by auto
  have tol: "\<not> f64_less fraction_tolerance (Finite 0)"
    unfolding fraction_tolerance_def by code_simp
  have nle: "\<not> f64_le g (rl_rollout_fraction r)"
    using g unit f64_not_le[of g "rl_rollout_fraction r"] by (auto simp: in_unit_def)
  have aw: "awaiting_approval cur = awaiting_approval r" unfolding awaiting_approval_def e ..
  have "check_change ?c cur = Inr ?f"
    using g nle noaw roll fin tol
    by (auto simp: check_change_Inr advance_change_def target_fraction_def unexpected_def e aw in_unit_def
        release_can_transition_to_def)
  moreover have "call_store client cur ?c ?f = Inr ()"
    using acc by (simp add: call_store_def accepting_def split: option.split)
  ultimately obtain x db' where ok: "transition_release client now (rl_id r) ?c System
        (Some ''scheduled rollout step'') db1 = Inr (x, db')"
    and x: "x = change_columns now (ch_to_state ?c) ?f
           (next_step_at (cur\<lparr>rl_state := ch_to_state ?c, rl_rollout_fraction := ?f\<rparr>) now) cur"
    using transition_release_ok[OF inv1 cur] by metis
  have load: "load_release (tick_one client now r db) (rl_id r) = Inr x"
    using transition_release_loads(1)[OF inv1 ok] ok by (simp add: t try_transition_def)
  show ?thesis
  proof (cases "f64_le (Finite 1) g")
    case True
    with load show ?thesis by (auto simp: x change_columns_def advance_change_def)
  next
    case False
    have aw': "awaiting_approval x = awaiting_approval r"
      by (rule awaiting_approval_cong) (simp_all add: x change_columns_def advance_change_def False e roll)
    have "rl_next_step_at x = next_step_at (cur\<lparr>rl_state := Rolling, rl_rollout_fraction := g\<rparr>) now"
      by (simp add: x change_columns_def advance_change_def False)
    also have "\<dots> = next_step_at x now"
      by (rule next_step_at_cong) (simp_all add: x change_columns_def advance_change_def False)
    finally have "rl_next_step_at x = next_step_at x now" .
    with load False noaw aw' show ?thesis by (auto simp: x change_columns_def advance_change_def e)
  qed
qed

text \<open>Steps on existing releases keep the list of ids.\<close>

lemma release_step_ids:
  assumes "release_step rid db db'" and inv: "rel_inv db" and old: "rid \<in> rl_id ` set (releases db)"
  shows "map rl_id (releases db') = map rl_id (releases db)"
  using assms(1)
proof cases
  case (insert now input actor reason r why)
  from insert_release_Inr(3)[OF this] old show ?thesis by simp
next
  case (change client now change actor reason r)
  from transition_release_Inr[OF rel_invD(1)[OF inv] this]
  have rows: "releases db' = update_where (\<lambda>x. rl_id x = rid) (\<lambda>_. r) (releases db)" by metis
  from transition_release_loads(1)[OF inv change] have "rl_id r = rid" by (auto dest: load_release_in)
  then show ?thesis by (simp add: rows update_where_def)
next
  case (approve now actor reason r)
  from approve_release_Inr[OF rel_invD(1)[OF inv] this] obtain cur next_at where
    "load_release db rid = Inr cur" "r = approve_columns now actor next_at cur"
    and rows: "releases db' = update_where (\<lambda>x. rl_id x = rid) (\<lambda>_. r) (releases db)" by metis
  then have "rl_id r = rid" by (auto simp: approve_columns_def dest: load_release_in)
  then show ?thesis by (simp add: rows update_where_def)
next
  case (touch f)
  have "rl_id (f x) = rl_id x" for x using touch(1)[of x] by (simp add: core_of_def)
  then show ?thesis by (simp add: touch(2) map_update_where_same)
qed simp_all

lemma advance_run_ids:
  assumes "(advance_step rid)\<^sup>*\<^sup>* db db'" and "rel_inv db" and "rid \<in> rl_id ` set (releases db)"
  shows "map rl_id (releases db') = map rl_id (releases db)"
  using assms(1)
proof (induction rule: rtranclp_induct)
  case (step t u)
  from step.hyps(1) assms(2) have "rel_inv t" by (rule advancing.run_inv)
  moreover have "rid \<in> rl_id ` set (releases t)" using step.IH assms(3) by (metis set_map)
  ultimately show ?case using step.hyps(2) step.IH release_step_ids[of rid t u] by (simp add: advance_step_def)
qed simp

lemma tick_ids:
  assumes inv: "rel_inv db"
  shows "map rl_id (releases (run_rollout_tick client now batch db)) = map rl_id (releases db)"
proof -
  let ?rs = "take batch (sort_key (tick_order now) (filter tick_selected (releases db)))"
  have "distinct (map rl_id (sort_key (tick_order now) (filter tick_selected (releases db))))"
    using rel_invD(1)[OF inv] by (simp add: distinct_map inj_on_def)
  then have "distinct (map rl_id ?rs)" by (simp add: take_map[symmetric])
  moreover have "\<forall>r \<in> set ?rs. agrees r db" using agrees_row[OF inv] by (auto dest!: in_set_takeD)
  moreover have "map rl_id (releases (fold (tick_one client now) rs d)) = map rl_id (releases d)"
    if "rel_inv d" "distinct (map rl_id rs)" "\<forall>r \<in> set rs. agrees r d" for rs d
    using that
  proof (induction rs arbitrary: d)
    case (Cons r rs)
    have ag: "agrees r d" using Cons.prems(3) by simp
    note run = tick_one_run[OF Cons.prems(1) ag, of client now]
    have inv1: "rel_inv (tick_one client now r d)" using run Cons.prems(1) by (rule advancing.run_inv)
    from ag obtain cur where "load_release d (rl_id r) = Inr cur" by (auto simp: agrees_def)
    with load_release_in have "rl_id r \<in> rl_id ` set (releases d)" by (metis imageI)
    from advance_run_ids[OF run Cons.prems(1) this]
    have ids: "map rl_id (releases (tick_one client now r d)) = map rl_id (releases d)" .
    have "\<forall>x \<in> set rs. agrees x (tick_one client now r d)" using Cons.prems by (rule tick_one_agrees)
    with Cons.IH[OF inv1] Cons.prems(2) ids show ?case by simp
  qed simp
  ultimately show ?thesis using inv by (simp add: run_rollout_tick_def)
qed

fun paced :: "int \<Rightarrow> int \<Rightarrow> int list \<Rightarrow> bool" where
  "paced gap t [] = True"
| "paced gap t (x # xs) = (t \<le> x \<and> paced gap (x + gap) xs)"

definition run_ticks :: "store_client \<Rightarrow> nat \<Rightarrow> int list \<Rightarrow> release_db \<Rightarrow> release_db" where
  "run_ticks client batch ts db = fold (\<lambda>t. run_rollout_tick client t batch) ts db"

lemma ticks_run: "release_handler\<^sup>*\<^sup>* db (run_ticks client batch ts db)"
proof (induction ts arbitrary: db)
  case (Cons t ts)
  from converse_rtranclp_into_rtranclp[OF release_handler.tick Cons.IH] show ?case by (simp add: run_ticks_def)
qed (simp add: run_ticks_def)

lemma next_step_at_rolling:
  assumes "rl_store x = GooglePlay" "rl_state x = Rolling" "\<not> awaiting_approval x"
    "policy_validate (rl_policy x) = Inr ()" "f64_less (rl_rollout_fraction x) (Finite 1)"
  shows "next_step_at x now = Some (i64_add now (policy_interval_secs (rl_policy x)))"
  using policy_next_step_exists[OF assms(4,5)] assms(1-3) by (auto simp: next_step_at_def)

lemma rollout_ticks:
  assumes "unread client" and "accepting client" and "rel_inv db" and "load_release db rid = Inr r"
    and "rl_store r = GooglePlay" and "rl_state r = Rolling" and "\<not> awaiting_approval r"
    and "po_crash_rate_threshold (rl_policy r) = None" and "f64_less (rl_rollout_fraction r) (Finite 1)"
    and "rl_next_step_at r = Some t0" and "paced (policy_interval_secs (rl_policy r)) t0 ts"
    and "\<forall>t \<in> set ts. I64_MIN \<le> t + policy_interval_secs (rl_policy r) \<and> t + policy_interval_secs (rl_policy r) \<le> I64_MAX"
    and "remaining_steps (rl_policy r) (rl_rollout_fraction r) \<le> length ts" and "length (releases db) \<le> batch"
  shows "\<exists>x. load_release (run_ticks client batch ts db) rid = Inr x \<and> rl_state x = Release_Complete \<and>
           rl_rollout_fraction x = Finite 1"
  using assms
proof (induction ts arbitrary: db r t0)
  case Nil
  have "policy_validate (rl_policy r) = Inr ()"
    using rel_invD(2)[OF Nil.prems(3)] load_release_in[OF Nil.prems(4)] by (simp add: release_ok_def)
  from policy_next_step_exists[OF this Nil.prems(9)] policy_next_step_Some(3) Nil.prems(13) show ?case
    by (metis le_zero_eq list.size(3) not_less_zero)
next
  case (Cons t ts)
  note inv = Cons.prems(3) and r = Cons.prems(4)
  from load_release_in[OF r] have in_db: "r \<in> set (releases db)" "rl_id r = rid" by auto
  have pol: "policy_validate (rl_policy r) = Inr ()"
    using rel_invD(2)[OF inv in_db(1)] by (simp add: release_ok_def)
  from policy_next_step_exists[OF pol Cons.prems(9)] obtain g
    where g: "policy_next_step (rl_policy r) (rl_rollout_fraction r) = Some g" .
  have due: "step_due t r" using Cons.prems(10,11) by (simp add: step_due_def)
  have sel: "tick_selected r" using Cons.prems(5,6) by (simp add: tick_selected_def)
  let ?db1 = "run_rollout_tick client t batch db"
  have "\<exists>x. load_release ?db1 (rl_id r) = Inr x \<and>
      (if f64_le (Finite 1) g then rl_state x = Release_Complete \<and> rl_rollout_fraction x = Finite 1
       else rl_state x = Rolling \<and> rl_rollout_fraction x = g \<and> rl_store x = rl_store r \<and>
         rl_policy x = rl_policy r \<and> \<not> awaiting_approval x \<and> rl_next_step_at x = next_step_at x t)"
    using tick_one_step[OF Cons.prems(1,2) _ _ Cons.prems(6,7,8) due g]
    by (rule tick_release[OF inv in_db(1) sel Cons.prems(14)])
  then obtain x where x: "load_release ?db1 rid = Inr x"
    and res: "if f64_le (Finite 1) g then rl_state x = Release_Complete \<and> rl_rollout_fraction x = Finite 1
       else rl_state x = Rolling \<and> rl_rollout_fraction x = g \<and> rl_store x = rl_store r \<and>
         rl_policy x = rl_policy r \<and> \<not> awaiting_approval x \<and> rl_next_step_at x = next_step_at x t"
    using in_db(2) by blast
  have inv1: "rel_inv ?db1" using release_handler.tick inv by (rule release_handlers.step_inv)
  have n1: "length (releases ?db1) \<le> batch"
    using Cons.prems(14) tick_ids[OF inv, of client t batch] by (metis length_map)
  have unfold: "run_ticks client batch (t # ts) db = run_ticks client batch ts ?db1" by (simp add: run_ticks_def)
  show ?case
  proof (cases "f64_le (Finite 1) g")
    case True
    from rows_rel_load[OF release_handlers.run_rel[OF ticks_run inv1] release_handlers.run_inv[OF ticks_run inv1] x]
    obtain y where "load_release (run_ticks client batch ts ?db1) rid = Inr y" "grown x y" .
    with res True show ?thesis unfolding unfold by (auto simp: grown_def evolved_def)
  next
    case False
    with res have x': "rl_state x = Rolling" "rl_rollout_fraction x = g" "rl_store x = GooglePlay"
      "rl_policy x = rl_policy r" "\<not> awaiting_approval x" "rl_next_step_at x = next_step_at x t"
      using Cons.prems(5) by auto
    have "in_unit g" using policy_valid_steps(2)[OF pol] policy_next_step_Some(2)[OF g] .
    then have less: "f64_less (rl_rollout_fraction x) (Finite 1)"
      using False x'(2) f64_not_le[of "Finite 1" g] by (auto simp: in_unit_def)
    have "rl_next_step_at x = Some (t + policy_interval_secs (rl_policy x))"
      using next_step_at_rolling[OF x'(3,1,5) _ less] x'(4,6) pol Cons.prems(12) by (simp add: i64_add_exact)
    moreover have "remaining_steps (rl_policy x) (rl_rollout_fraction x) \<le> length ts"
      using policy_next_step_Some(3)[OF g] Cons.prems(13) x'(2,4) by simp
    ultimately show ?thesis unfolding unfold
      using Cons.IH[OF Cons.prems(1,2) inv1 x x'(3,1,5) _ less] Cons.prems(8,11,12) x'(4) n1 by simp
  qed
qed


definition plain_policy :: ReleasePolicy where
  "plain_policy = sample_policy\<lparr>po_crash_rate_threshold := None, po_approval := Gate_None\<rparr>"


subsection \<open>The abstract machine of states and fractions\<close>

text \<open>A release seen from outside is a state and a fraction. A move is allowed along an edge of the
  state machine, to a fraction between 0 and 1, upwards while rolling, and not past a pending
  approval unless the store made it.\<close>

definition rollout_view :: "release_db \<Rightarrow> string \<rightharpoonup> ReleaseState \<times> f64" where
  "rollout_view db rid = (case load_release db rid of Inl _ \<Rightarrow> None | Inr r \<Rightarrow> Some (rl_state r, rl_rollout_fraction r))"

definition abstract_move ::
  "bool \<Rightarrow> bool \<Rightarrow> ReleaseState \<Rightarrow> f64 option \<Rightarrow> ReleaseState \<times> f64 \<Rightarrow> (ReleaseState \<times> f64) option" where
  "abstract_move from_store held to wanted here =
     (let (s, f) = here; g = (if to = Release_Complete then Finite 1 else unwrap_or f wanted)
      in if to \<in> set (release_valid_transitions s) \<and> in_unit g \<and> (s = Rolling \<and> to = Rolling \<longrightarrow> f64_less f g) \<and>
            (held \<and> \<not> from_store \<longrightarrow> s \<notin> {Rolling, Paused, Halted} \<or> to \<notin> {Rolling, Release_Complete})
         then Some (to, g) else None)"

lemma check_change_abstract:
  assumes "in_unit (rl_rollout_fraction cur)" and "\<not> unexpected change cur"
  shows "check_change change cur = Inr f \<longleftrightarrow>
     abstract_move (ch_from_store change) (awaiting_approval cur) (ch_to_state change) (ch_to_fraction change)
       (rl_state cur, rl_rollout_fraction cur) = Some (ch_to_state change, f)"
proof -
  have "f64_less (rl_rollout_fraction cur) (target_fraction change cur) \<longleftrightarrow>
      \<not> f64_le (target_fraction change cur) (rl_rollout_fraction cur)" if "in_unit (target_fraction change cur)"
    using that assms(1) f64_not_le by (auto simp: in_unit_def)
  with assms(2) show ?thesis
    by (auto simp: check_change_Inr abstract_move_def Let_def target_fraction_def release_can_transition_to_def)
qed

lemma check_change_error:
  assumes "check_change change cur = Inl e"
  shows "(\<exists>m. e = Err_Conflict m) \<or> (\<exists>m. e = Err_Invalid m)"
  using assms
  by (auto simp: check_change_def Let_def and_then_def validate_fraction_def split: if_splits sum.splits)

text \<open>C8. \<open>transition_release\<close> refines the abstract machine. On success the abstract machine makes the same
  move for this release, the store accepted the change unless it made it, and no other release
  is touched. On failure nothing was changed and the error says why: the release does not exist,
  the caller's expectation or the abstract machine refuses the move, or the store refused it.\<close>

theorem transition_release_refines:
  assumes "rel_inv db"
  shows "case transition_release client now rid change actor reason db of
           Inr (r, db') \<Rightarrow> (\<exists>cur to.
             load_release db rid = Inr cur \<and> \<not> unexpected change cur \<and>
             abstract_move (ch_from_store change) (awaiting_approval cur) (ch_to_state change) (ch_to_fraction change)
               (rl_state cur, rl_rollout_fraction cur) = Some to \<and>
             rollout_view db' = (rollout_view db)(rid \<mapsto> to) \<and>
             (ch_from_store change \<or> (case store_change (rl_state cur) (fst to) (snd to) of
                None \<Rightarrow> True | Some c \<Rightarrow> sc_apply client cur c = Inr ())))
         | Inl Err_NotFound \<Rightarrow> rollout_view db rid = None
         | Inl (Err_Store m) \<Rightarrow> \<not> ch_from_store change \<and> (\<exists>cur c.
             load_release db rid = Inr cur \<and> sc_apply client cur c = Inl m)
         | Inl (Err_Db m) \<Rightarrow> False
         | Inl _ \<Rightarrow> (\<exists>cur. load_release db rid = Inr cur \<and> (unexpected change cur \<or>
             abstract_move (ch_from_store change) (awaiting_approval cur) (ch_to_state change) (ch_to_fraction change)
               (rl_state cur, rl_rollout_fraction cur) = None))"
proof (cases "load_release db rid")
  case (Inl e)
  then have "e = Err_NotFound" by (auto simp: load_release_def ok_or_def split: option.splits)
  with Inl show ?thesis by (simp add: transition_release_def rollout_view_def)
next
  case (Inr cur)
  have unit: "in_unit (rl_rollout_fraction cur)"
    using rel_invD(2)[OF assms] load_release_in[OF Inr] by (simp add: release_ok_def)
  let ?move = "abstract_move (ch_from_store change) (awaiting_approval cur) (ch_to_state change) (ch_to_fraction change)
      (rl_state cur, rl_rollout_fraction cur)"
  show ?thesis
  proof (cases "check_change change cur")
    case (Inl e)
    have "unexpected change cur \<or> ?move = None"
    proof (rule ccontr)
      assume "\<not> (unexpected change cur \<or> ?move = None)"
      then obtain to where ex: "\<not> unexpected change cur" and to: "?move = Some to" by blast
      then have "fst to = ch_to_state change" by (auto simp: abstract_move_def Let_def split: if_splits)
      with to check_change_abstract[OF unit ex, of "snd to"] Inl show False by (cases to) simp
    qed
    moreover have "transition_release client now rid change actor reason db = Inl e"
      by (simp add: transition_release_def \<open>load_release db rid = Inr cur\<close> Inl)
    ultimately show ?thesis using check_change_error[OF Inl] \<open>load_release db rid = Inr cur\<close> by auto
  next
    case (Inr f)
    then have ex: "\<not> unexpected change cur" by (simp add: check_change_Inr)
    with Inr check_change_abstract[OF unit] have move: "?move = Some (ch_to_state change, f)" by blast
    show ?thesis
    proof (cases "call_store client cur change f")
      case (Inl e)
      then obtain m c where "e = Err_Store m" "\<not> ch_from_store change" "sc_apply client cur c = Inl m"
        by (auto simp: call_store_def map_err_def split: if_splits option.splits sum.splits)
      moreover have "transition_release client now rid change actor reason db = Inl e"
        by (simp add: transition_release_def \<open>load_release db rid = Inr cur\<close> Inr Inl)
      ultimately show ?thesis using \<open>load_release db rid = Inr cur\<close> by auto
    next
      case (Inr u)
      then have acc: "call_store client cur change f = Inr ()" by simp
      from transition_release_ok[OF assms \<open>load_release db rid = Inr cur\<close> \<open>check_change change cur = Inr f\<close> acc]
      obtain r db' where ok: "transition_release client now rid change actor reason db = Inr (r, db')"
        and r: "r = change_columns now (ch_to_state change) f
           (next_step_at (cur\<lparr>rl_state := ch_to_state change, rl_rollout_fraction := f\<rparr>) now) cur"
        and load: "load_release db' rid = Inr r" by metis
      have inv': "rel_inv db'" using release_step.change[OF ok] assms by (rule release_step_inv)
      have other: "load_release db' x = load_release db x" if "x \<noteq> rid" for x
      proof -
        from transition_release_Inr[OF rel_invD(1)[OF assms] ok]
        have rows: "releases db' = update_where (\<lambda>y. rl_id y = rid) (\<lambda>_. r) (releases db)" by metis
        have "find (\<lambda>y. rl_id y = x) (map (\<lambda>y. if rl_id y = rid then r else y) ys) = find (\<lambda>y. rl_id y = x) ys" for ys
          using that load_release_in[OF load] by (induction ys) auto
        then show ?thesis by (simp add: load_release_def rows fetch_optional_def update_where_def)
      qed
      have "rollout_view db' = (rollout_view db)(rid \<mapsto> (ch_to_state change, f))"
        by (rule ext) (simp add: rollout_view_def load r change_columns_def other)
      moreover have "ch_from_store change \<or> (case store_change (rl_state cur) (ch_to_state change) f of
            None \<Rightarrow> True | Some c \<Rightarrow> sc_apply client cur c = Inr ())"
        using acc by (auto simp: call_store_def split: option.splits if_splits)
      ultimately show ?thesis using ok ex move \<open>load_release db rid = Inr cur\<close> by auto
    qed
  qed
qed

definition pause_change :: ReleaseChange where
  "pause_change = \<lparr>ch_to_state = Paused, ch_to_fraction = None, ch_audit_action = ''release_paused'',
     ch_expect = None, ch_from_store = False\<rparr>"

theorem transition_release_refines_witness:
  "\<exists>r db'. transition_release noop_client 2000 ''r1'' pause_change System None (created_db sample_policy) = Inr (r, db') \<and>
     rollout_view db' ''r1'' = Some (Paused, Finite (1 / 4))"
proof -
  let ?db = "created_db sample_policy"
  have ok: "is_ok (sample_created sample_policy)"
    and t: "is_ok (transition_release noop_client 2000 ''r1'' pause_change System None ?db)"
    and v: "rollout_view ?db ''r1'' = Some (Rolling, Finite (1 / 4))" by code_simp+
  from t obtain p where "transition_release noop_client 2000 ''r1'' pause_change System None ?db = Inr p" by (rule is_okE)
  then obtain r db' where tr: "transition_release noop_client 2000 ''r1'' pause_change System None ?db = Inr (r, db')"
    by (cases p) auto
  from transition_release_refines[OF created_run(2)[OF ok], where rid = "''r1''" and client = noop_client
      and now = 2000 and change = pause_change and actor = System and reason = None] tr
  obtain cur to where cur: "load_release ?db ''r1'' = Inr cur"
    and view: "rollout_view db' = (rollout_view ?db)(''r1'' \<mapsto> to)"
    and move: "abstract_move (ch_from_store pause_change) (awaiting_approval cur) (ch_to_state pause_change)
       (ch_to_fraction pause_change) (rl_state cur, rl_rollout_fraction cur) = Some to" by auto
  from cur v have "rl_state cur = Rolling" "rl_rollout_fraction cur = Finite (1 / 4)"
    by (simp_all add: rollout_view_def)
  with move have "to = (Paused, Finite (1 / 4))"
    by (auto simp: abstract_move_def Let_def pause_change_def split: if_splits)
  with view tr show ?thesis by auto
qed

subsection \<open>Differences between code and intent\<close>

definition owner_session :: SessionInfo where
  "owner_session = \<lparr>au_user_id = ''u1'', au_email = ''owner@example.com'', au_oidc_subject = ''s'',
     au_role = ''owner'', au_expires_at = 9999, au_auth_source = Session\<rparr>"

text \<open>A release can be recorded as complete at 0%. The create handler defaults the fraction to 0 for
  every initial state but \<open>rolling\<close>, so a request with state \<open>complete\<close> and no fraction is
  stored as a finished release that nobody received, and no later change is possible.\<close>

theorem complete_release_at_zero:
  assumes "find_build (core db) (crr_build_id req) = Some b" and "b_status b = Succeeded"
    and "crr_state req = Some Release_Complete" and "crr_rollout_fraction req = None"
    and "create_release_handler rid now owner_session req db = Inr (r, db')" and "rel_inv db"
  shows "rl_state r = Release_Complete \<and> rl_rollout_fraction r = Finite 0 \<and>
         (\<forall>client t batch. \<exists>x. load_release (run_rollout_tick client t batch db') rid = Inr x \<and>
            rl_state x = Release_Complete \<and> rl_rollout_fraction x = Finite 0)"
proof -
  let ?policy = "unwrap_or default_policy (crr_policy req)"
  from assms(5) obtain input where cr: "create_release rid now input (user_actor owner_session) (crr_reason req) db = Inr (r, db')"
    and st: "nr_state input = unwrap_or Rolling (crr_state req)"
    and fr: "nr_rollout_fraction input = initial_fraction req ?policy"
    by (auto simp: create_release_handler_def and_then_eq_Inr Let_def split: if_splits)
  from cr obtain why db1 where ins: "insert_release rid now input (user_actor owner_session) (crr_reason req) db = Inr (r, why, db1)"
    and fin: "db' = finish_create r why (user_actor owner_session) now db1"
    by (auto simp: create_release_def and_then_eq_Inr)
  note i = insert_release_Inr[OF ins]
  have s: "rl_state r = Release_Complete" using i(5) st assms(3) by simp
  have f: "rl_rollout_fraction r = Finite 0" using i(6) fr assms(3,4) by (simp add: initial_fraction_def)
  have inv: "rel_inv db'" using create_release_run[OF cr] assms(6) by (rule advancing.run_inv)
  have "r \<in> set (releases db')" by (simp add: fin finish_create_def Let_def i(10))
  from load_release_row[OF rel_invD(1)[OF inv] this] i(4) have l: "load_release db' rid = Inr r" by simp
  have "\<exists>x. load_release (run_rollout_tick client t batch db') rid = Inr x \<and>
            rl_state x = Release_Complete \<and> rl_rollout_fraction x = Finite 0" for client t batch
  proof -
    have step: "release_handler db' (run_rollout_tick client t batch db')" by (rule release_handler.tick)
    from rows_rel_load[OF release_handlers.step_rel[OF inv step] release_handlers.step_inv[OF step inv] l]
    obtain x where "load_release (run_rollout_tick client t batch db') rid = Inr x" "grown r x" .
    with s f show ?thesis by (auto simp: grown_def evolved_def)
  qed
  with s f show ?thesis by blast
qed

definition released_build :: build where
  "released_build = \<lparr>b_id = ''b1'', b_project_id = ''p1'', b_pipeline_id = ''pl1'', b_build_number = 1,
     b_status = Succeeded, b_trigger_type = ''manual'', b_trigger_actor = None, b_trigger_event = None,
     b_trigger_ref = None, b_commit_sha = None, b_branch = None, b_changelog = None,
     b_snapshot = \<lparr>cs_repository_id = None, cs_runs_on = [], cs_timeout_secs = None, cs_workflow = None,
       cs_retry_steps = None, cs_file_size_budgets = None\<rparr>,
     b_webhook_id = None, b_source_build_id = None, b_runner_id = None, b_ran_on_runner_id = None,
     b_signing_token_hash = None, b_step_results = None, b_exit_code = None, b_approval_state = None,
     b_approval_requested_at = None, b_approval_decided_by = None, b_approval_decided_at = None,
     b_approval_reason = None, b_expired_from = None, b_queued_at = 0, b_started_at = None,
     b_finished_at = Some 10, b_created_at = 0, b_updated_at = 10\<rparr>"

definition built_db :: release_db where
  "built_db = no_releases\<lparr>core := empty_core\<lparr>builds := [released_build]\<rparr>\<rparr>"

definition complete_request :: CreateReleaseRequest where
  "complete_request = \<lparr>crr_build_id = ''b1'', crr_artifact_id = None, crr_store = GooglePlay,
     crr_track = ''production'', crr_package_name = None, crr_version_name = None, crr_version_code = None,
     crr_state = Some Release_Complete, crr_rollout_fraction = None, crr_policy = None, crr_reason = None\<rparr>"

theorem complete_release_at_zero_witness:
  "\<exists>r db'. create_release_handler ''r1'' 1000 owner_session complete_request built_db = Inr (r, db') \<and>
     rl_state r = Release_Complete \<and> rl_rollout_fraction r = Finite 0"
proof -
  have ok: "is_ok (create_release_handler ''r1'' 1000 owner_session complete_request built_db)"
    and b: "find_build (core built_db) (crr_build_id complete_request) = Some released_build"
    and st: "b_status released_build = Succeeded"
    and rq: "crr_state complete_request = Some Release_Complete" "crr_rollout_fraction complete_request = None"
    by code_simp+
  from ok obtain p where "create_release_handler ''r1'' 1000 owner_session complete_request built_db = Inr p"
    by (rule is_okE)
  then obtain r db' where cr: "create_release_handler ''r1'' 1000 owner_session complete_request built_db = Inr (r, db')"
    by (cases p) auto
  have "rel_inv built_db" by (simp add: built_db_def no_releases_def rel_inv_def)
  from complete_release_at_zero[OF b st rq cr this] cr show ?thesis by blast
qed

text \<open>A very long step interval makes the schedule due at once. The policy accepts every positive
  finite interval; the interval in seconds saturates at the largest 64-bit integer, the addition to
  the current time wraps around, and the next step is scheduled in the past, so the very next
  tick takes it.\<close>

theorem long_interval_wraps:
  assumes "policy_validate (rl_policy r) = Inr ()" and "policy_interval_secs (rl_policy r) = I64_MAX"
    and "0 < now" and "now \<le> I64_MAX" and "rl_store r = GooglePlay" and "rl_state r = Rolling"
    and "\<not> awaiting_approval r" and "f64_less (rl_rollout_fraction r) (Finite 1)"
  shows "\<exists>t. next_step_at r now = Some t \<and> t < 0 \<and> step_due now (r\<lparr>rl_next_step_at := next_step_at r now\<rparr>)"
proof -
  have n: "next_step_at r now = Some (i64_add now I64_MAX)"
    using next_step_at_rolling[OF assms(5-7,1,8)] assms(2) by simp
  have "now + I64_MAX - I64_MIN = (now - 1) + 2 ^ 64" by (simp add: I64_MAX_def I64_MIN_def)
  moreover have "(now - 1) mod 2 ^ 64 = now - 1"
    using assms(3,4) by (intro mod_pos_pos_trivial) (simp_all add: I64_MAX_def)
  ultimately have "(now + I64_MAX - I64_MIN) mod 2 ^ 64 = now - 1" by (metis mod_add_self2)
  then have "i64_add now I64_MAX = now - 1 + I64_MIN" by (simp add: i64_add_def)
  with assms(3,4) n show ?thesis by (auto simp: step_due_def I64_MIN_def I64_MAX_def)
qed

definition slow_policy :: ReleasePolicy where
  "slow_policy = plain_policy\<lparr>po_interval_hours := Finite (2 ^ 100)\<rparr>"

theorem long_interval_wraps_witness:
  "\<exists>t. next_step_at (hd (releases (created_db slow_policy))) 1000 = Some t \<and> t < 0"
proof -
  let ?r = "hd (releases (created_db slow_policy))"
  have "policy_validate (rl_policy ?r) = Inr ()" "policy_interval_secs (rl_policy ?r) = I64_MAX"
    "(1000 :: int) \<le> I64_MAX" "rl_store ?r = GooglePlay" "rl_state ?r = Rolling" "\<not> awaiting_approval ?r"
    "f64_less (rl_rollout_fraction ?r) (Finite 1)" by code_simp+
  then show ?thesis using long_interval_wraps[of ?r 1000] by auto
qed

end
