(* ===== verification/App_Store_Guarantees.thy ===== *)
theory App_Store_Guarantees
  imports App_Store Release_Guarantees
begin

text \<open>
  What the App Store component guarantees: its writes to releases are release steps, so histories
  and fractions stay sound; links and settings stay consistent; an upload is recorded once and then
  polled; what a poll read is what the release shows afterwards; a release Apple keeps failing is
  given up after a day; and a refused promotion has changed nothing at Apple.
\<close>

subsection \<open>Writes to releases are release steps\<close>

lemma any_release_run: "(release_step rid)\<^sup>*\<^sup>* db db' \<Longrightarrow> any_release_step\<^sup>*\<^sup>* db db'"
  by (induction rule: rtranclp_induct) (auto simp: any_release_step_def intro: rtranclp.rtrancl_into_rtrancl)

lemma apply_hops_run:
  "(release_step (ln_release_id (lr_link link)))\<^sup>*\<^sup>* db
     (snd (apply_hops client now link target tf reason expect path db))"
proof (induction path arbitrary: expect db)
  case (Cons to_state path)
  let ?f = "hop_fraction target tf to_state"
  show ?case
  proof (cases "skips_hop (lr_release_state link) (lr_rollout_fraction link) to_state ?f")
    case True
    with Cons.IH show ?thesis by (simp add: Let_def)
  next
    case False
    show ?thesis
    proof (cases "transition_release client now (ln_release_id (lr_link link))
        (store_update to_state ?f expect) System (Some reason) db")
      case (Inl e)
      with False show ?thesis by (cases e) (simp_all add: Let_def)
    next
      case (Inr x)
      obtain r db1 where x: "x = (r, db1)" by (cases x)
      have "release_step (ln_release_id (lr_link link)) db db1"
        using Inr x by (auto intro: release_step.change)
      with Cons.IH[of db1 None] False Inr x show ?thesis
        by (simp add: Let_def converse_rtranclp_into_rtranclp)
    qed
  qed
qed simp

lemma apply_transition_run:
  "(release_step (ln_release_id (lr_link link)))\<^sup>*\<^sup>* db (snd (apply_transition client now link s db))"
  by (auto simp: apply_transition_def apply_hops_run split: option.splits prod.splits)

lemma fail_hops_run:
  "(release_step rid)\<^sup>*\<^sup>* db (snd (fail_hops client now rid reason path db))"
proof (induction path arbitrary: db)
  case (Cons to_state path)
  show ?case
  proof (cases "transition_release client now rid (store_update to_state None None) System (Some reason) db")
    case (Inr x)
    obtain r db1 where x: "x = (r, db1)" by (cases x)
    have "release_step rid db db1" using Inr x by (auto intro: release_step.change)
    with Cons.IH[of db1] Inr x show ?thesis by (simp add: converse_rtranclp_into_rtranclp)
  qed simp
qed simp

subsection \<open>What the monitor may touch\<close>

text \<open>
  The monitor writes releases by release steps, keeps the links in place with valid stages, and
  writes nothing else.
\<close>

definition stage_kept :: "release_link \<Rightarrow> release_link \<Rightarrow> bool" where
  "stage_kept l l' \<longleftrightarrow> ln_release_id l' = ln_release_id l \<and>
     (ln_stage l \<in> range stage_as_str \<longrightarrow> ln_stage l' \<in> range stage_as_str)"

definition app_frame :: "app_store_db \<Rightarrow> app_store_db \<Rightarrow> bool" where
  "app_frame db db' \<longleftrightarrow> any_release_step\<^sup>*\<^sup>* (rdb db) (rdb db') \<and>
     list_all2 stage_kept (links db) (links db') \<and> publish_targets db' = publish_targets db"

lemma stage_kept_refl [simp]: "stage_kept l l"
  by (simp add: stage_kept_def)

lemma app_frame_refl [simp]: "app_frame db db"
  by (simp add: app_frame_def list_all2_same)

lemma app_frame_trans [trans]: "app_frame a b \<Longrightarrow> app_frame b c \<Longrightarrow> app_frame a c"
proof -
  assume ab: "app_frame a b" and bc: "app_frame b c"
  have "stage_kept l n" if "stage_kept l m" "stage_kept m n" for l m n using that by (auto simp: stage_kept_def)
  then have "list_all2 stage_kept (links a) (links c)"
    using list_all2_trans[of stage_kept stage_kept stage_kept "links a" "links b" "links c"] ab bc
    unfolding app_frame_def by blast
  with ab bc show ?thesis by (auto simp: app_frame_def)
qed

lemma app_frame_rdb: "(release_step rid)\<^sup>*\<^sup>* (rdb db) d \<Longrightarrow> app_frame db (set_rdb d db)"
  by (simp add: app_frame_def list_all2_same any_release_run)

lemma app_frame_links:
  assumes "\<And>l. stage_kept l (f l)"
  shows "app_frame db (update_links P f db)"
  using assms by (simp add: app_frame_def update_links_def update_where_def list_all2_map2 list_all2_same)

lemma step_columns_kept: "stage_kept l (step_columns now stage next_poll_in s l)"
  by (cases stage) (simp_all add: stage_kept_def step_columns_def)

lemma error_columns_kept: "stage_kept l (error_columns now message l)"
  by (simp add: stage_kept_def error_columns_def)

lemma done_kept: "stage_kept l (l\<lparr>ln_stage := ''done'', ln_updated_at := now\<rparr>)"
proof -
  have "''done'' = stage_as_str Done" by (simp add: stage_as_str_def)
  then show ?thesis unfolding stage_kept_def by (simp add: rangeI)
qed

lemma apply_step_frame: "app_frame db (snd (apply_step client now link s db))"
proof -
  obtain out d where t: "apply_transition client now link s (rdb db) = (out, d)"
    by (cases "apply_transition client now link s (rdb db)")
  have "app_frame db (set_rdb d db)"
    using apply_transition_run[of link "rdb db" client now s] by (simp add: t app_frame_rdb)
  also have "app_frame (set_rdb d db) (snd (apply_step client now link s db))"
    by (cases out) (simp_all add: apply_step_def Let_def t app_frame_links step_columns_kept)
  finally show ?thesis .
qed

lemma give_up_frame: "app_frame db (give_up client now rid message db)"
proof (cases "load_release (rdb db) rid")
  case (Inr r)
  obtain ok d where h: "fail_hops client now rid (give_up_reason message)
      (transition_path (rl_state r) Release_Failed) (rdb db) = (ok, d)"
    by (cases "fail_hops client now rid (give_up_reason message) (transition_path (rl_state r) Release_Failed) (rdb db)")
  have "app_frame db (set_rdb d db)"
    using fail_hops_run[of rid "rdb db" client now "give_up_reason message"
        "transition_path (rl_state r) Release_Failed"] by (simp add: h app_frame_rdb)
  also have "app_frame (set_rdb d db) (give_up client now rid message db)"
    by (cases ok) (simp_all add: give_up_def Inr h app_frame_links done_kept)
  finally show ?thesis .
qed (simp add: give_up_def)

lemma record_poll_error_frame: "app_frame db (record_poll_error client now rid message db)"
proof -
  let ?db1 = "update_links (\<lambda>l. ln_release_id l = rid) (error_columns now message) db"
  have "app_frame db ?db1" by (rule app_frame_links) (rule error_columns_kept)
  also have "app_frame ?db1 (record_poll_error client now rid message db)"
    by (auto simp: record_poll_error_def Let_def give_up_frame split: option.splits)
  finally show ?thesis .
qed

lemma poll_rounds_frame: "app_frame (fst acc) (fst (poll_rounds n client asc now row acc))"
proof (induction n arbitrary: row acc)
  case 0
  then show ?case by (cases acc) simp
next
  case (Suc n)
  obtain db w where acc: "acc = (db, w)" by (cases acc)
  let ?rid = "ln_release_id (lr_link row)"
  obtain res w1 where adv: "advance asc now (lr_link row) w = (res, w1)" by (cases "advance asc now (lr_link row) w")
  show ?case
  proof (cases res)
    case (Inl e)
    with adv acc show ?thesis by (simp add: record_poll_error_frame)
  next
    case (Inr s)
    obtain out db1 where app: "apply_step client now row s db = (out, db1)" by (cases "apply_step client now row s db")
    have fr: "app_frame db db1" using apply_step_frame[of db client now row s] by (simp add: app)
    show ?thesis
    proof (cases out)
      case (Inl e)
      with fr have "app_frame db (record_poll_error client now ?rid e db1)"
        by (blast intro: app_frame_trans record_poll_error_frame)
      with adv acc Inr app Inl show ?thesis by simp
    next
      case (Inr u)
      have "app_frame db (fst (poll_rounds n client asc now (moved_row s row) (db1, w1)))"
        using fr Suc.IH[of "(db1, w1)" "moved_row s row"] by (auto intro: app_frame_trans)
      with adv acc \<open>res = Inr s\<close> app Inr fr show ?thesis by simp
    qed
  qed
qed

interpretation poll_sweep: sweep app_frame fst "poll_one decrypt connect client now"
  for decrypt and connect :: "AppleApiCredentials \<Rightarrow> 'w apple" and client now
proof
  fix acc :: "app_store_db \<times> 'w" and row
  have "app_frame (fst acc) (fst (poll_one decrypt connect client now row acc))"
    by (auto simp: poll_one_def record_poll_error_frame poll_rounds_frame split: sum.splits)
  then show "app_frame\<^sup>*\<^sup>* (fst acc) (fst (poll_one decrypt connect client now row acc))" by (rule r_into_rtranclp)
qed

lemma app_frame_run: "app_frame\<^sup>*\<^sup>* a b \<Longrightarrow> app_frame a b"
  by (induction rule: rtranclp_induct) (auto intro: app_frame_trans)

lemma poll_releases_frame: "app_frame (fst acc) (fst (poll_releases decrypt connect client now acc))"
  unfolding poll_releases_def by (rule app_frame_run) (rule poll_sweep.fold_run)

lemma apply_change_frame: "app_frame db (fst (snd (apply_change decrypt connect now r change (db, w))))"
proof -
  have "stage_kept l (l\<lparr>ln_next_poll_at := now\<rparr>)" for l by (simp add: stage_kept_def)
  from app_frame_links[OF this] show ?thesis
    by (auto simp: apply_change_def split: sum.splits option.splits prod.splits bool.splits)
qed

subsection \<open>Settings are stored in normal form\<close>

lemma last_dropWhile_eq: "dropWhile P xs \<noteq> [] \<Longrightarrow> last (dropWhile P xs) = last xs"
  by (induction xs) auto

lemma dropWhile_fixed: "(xs \<noteq> [] \<Longrightarrow> \<not> P (hd xs)) \<Longrightarrow> dropWhile P xs = xs"
  by (cases xs) auto

lemma trim_idem [simp]: "trim (trim s) = trim s"
proof -
  let ?t = "dropWhile is_ws s"
  have "\<not> is_ws (hd (trim s))" if "trim s \<noteq> []"
  proof -
    from that have ne: "dropWhile is_ws (rev ?t) \<noteq> []" by (simp add: trim_def)
    then have "last (dropWhile is_ws (rev ?t)) = last (rev ?t)" by (rule last_dropWhile_eq)
    moreover have "?t \<noteq> []" using ne by (metis dropWhile.simps(1) rev.simps(1))
    ultimately have "hd (trim s) = hd ?t" using ne by (simp add: trim_def hd_rev last_rev)
    with hd_dropWhile[OF \<open>?t \<noteq> []\<close>] show ?thesis by simp
  qed
  then have "dropWhile is_ws (trim s) = trim s" by (rule dropWhile_fixed)
  then show ?thesis by (simp add: trim_def)
qed

definition group_ok :: "string \<Rightarrow> bool" where
  "group_ok g \<longleftrightarrow> trim g = g \<and> g \<noteq> [] \<and> length g \<le> MAX_GROUP_NAME_LEN"

lemma group_ok_trim: "trim g \<noteq> [] \<Longrightarrow> \<not> MAX_GROUP_NAME_LEN < length (trim g) \<Longrightarrow> group_ok (trim g)"
  by (simp add: group_ok_def)

definition note_ok :: "AppStoreReleaseNote \<Rightarrow> bool" where
  "note_ok n \<longleftrightarrow> trim (note_locale n) = note_locale n \<and> is_valid_locale (note_locale n) \<and>
     trim (note_whats_new n) = note_whats_new n \<and> length (note_whats_new n) \<le> MAX_WHATS_NEW_CHARS"

definition config_ok :: "AppStorePublishConfig \<Rightarrow> bool" where
  "config_ok c \<longleftrightarrow>
     list_all group_ok (ac_testflight_groups c) \<and> distinct (ac_testflight_groups c) \<and>
     length (ac_testflight_groups c) \<le> MAX_GROUPS \<and>
     list_all note_ok (ac_release_notes c) \<and> distinct (map note_locale (ac_release_notes c)) \<and>
     length (ac_release_notes c) \<le> MAX_NOTES \<and>
     (ac_destination c = Testflight \<longrightarrow> \<not> ac_submit_for_review c \<and> \<not> ac_phased_release c) \<and>
     (ac_enabled c \<and> ac_destination c = Testflight \<longrightarrow> ac_testflight_groups c \<noteq> [])"

lemma add_groups_ok:
  "list_all group_ok gs \<and> distinct gs \<Longrightarrow>
   list_all group_ok (fst (fold add_group raw (gs, es))) \<and> distinct (fst (fold add_group raw (gs, es)))"
proof (induction raw arbitrary: gs es)
  case (Cons g raw)
  obtain gs1 es1 where one: "add_group g (gs, es) = (gs1, es1)" by (cases "add_group g (gs, es)")
  then have "list_all group_ok gs1 \<and> distinct gs1"
    using Cons.prems by (auto simp: add_group_def Let_def group_ok_trim split: if_splits)
  with Cons.IH[of gs1 es1] one show ?case by simp
qed simp

lemma add_groups_fixed:
  "list_all group_ok new \<Longrightarrow> distinct (gs @ new) \<Longrightarrow> fold add_group new (gs, es) = (gs @ new, es)"
proof (induction new arbitrary: gs)
  case (Cons g new)
  then have "add_group g (gs, es) = (gs @ [g], es)"
    by (auto simp: add_group_def Let_def group_ok_def)
  with Cons.IH[of "gs @ [g]"] Cons.prems show ?case by simp
qed simp

definition notes_so_far :: "AppStoreReleaseNote list \<times> string list \<Rightarrow> bool" where
  "notes_so_far acc \<longleftrightarrow> distinct (map note_locale (fst acc)) \<and> (snd acc = [] \<longrightarrow> list_all note_ok (fst acc))"

lemma note_ok_trim:
  "is_valid_locale (trim l) \<Longrightarrow> \<not> MAX_WHATS_NEW_CHARS < length (trim t) \<Longrightarrow>
   note_ok \<lparr>note_locale = trim l, note_whats_new = trim t\<rparr>"
  by (simp add: note_ok_def)

lemma add_note_ok: "notes_so_far acc \<Longrightarrow> notes_so_far (add_note n acc)"
  by (cases acc) (auto simp: add_note_def Let_def notes_so_far_def note_ok_trim)

lemma add_note_errors: "snd (add_note n acc) = [] \<Longrightarrow> snd acc = []"
  by (cases acc) (auto simp: add_note_def Let_def split: if_splits)

lemma add_notes_ok: "notes_so_far acc \<Longrightarrow> notes_so_far (fold add_note raw acc)"
  by (induction raw arbitrary: acc) (simp_all add: add_note_ok)

lemma add_notes_errors: "snd (fold add_note raw acc) = [] \<Longrightarrow> snd acc = []"
proof (induction raw arbitrary: acc)
  case (Cons n raw)
  from Cons.IH[of "add_note n acc"] Cons.prems have "snd (add_note n acc) = []" by simp
  then show ?case by (rule add_note_errors)
qed simp

lemma add_notes_fixed:
  "list_all note_ok new \<Longrightarrow> distinct (map note_locale (ns @ new)) \<Longrightarrow> fold add_note new (ns, []) = (ns @ new, [])"
proof (induction new arbitrary: ns)
  case (Cons n new)
  then have "add_note n (ns, []) = (ns @ [n], [])"
    by (auto simp: add_note_def Let_def note_ok_def is_valid_locale_def image_iff)
  with Cons.IH[of "ns @ [n]"] Cons.prems show ?case by simp
qed simp

lemma normalize_config_ok:
  assumes "normalize_config c = Inr c'"
  shows "config_ok c'"
proof -
  obtain gs e1 where g: "fold add_group (ac_testflight_groups c) ([], []) = (gs, e1)"
    by (cases "fold add_group (ac_testflight_groups c) ([], [])")
  let ?e2 = "e1 @ (if MAX_GROUPS < length gs then [''At most 20 TestFlight groups are allowed''] else []) @
      (if ac_enabled c \<and> ac_destination c = Testflight \<and> gs = []
       then [''TestFlight publishing needs at least one group''] else [])"
  obtain ns e3 where n: "fold add_note (ac_release_notes c) ([], ?e2) = (ns, e3)"
    by (cases "fold add_note (ac_release_notes c) ([], ?e2)")
  from assms g n have e: "e3 = []" "length ns \<le> MAX_NOTES"
    and c': "c' = c\<lparr>ac_testflight_groups := gs, ac_release_notes := ns,
       ac_submit_for_review := ac_submit_for_review c \<and> ac_destination c \<noteq> Testflight,
       ac_phased_release := ac_phased_release c \<and> ac_destination c \<noteq> Testflight\<rparr>"
    by (auto simp: normalize_config_def Let_def split: if_splits)
  from add_notes_errors[of "ac_release_notes c" "([], ?e2)"] n e(1)
  have e2: "length gs \<le> MAX_GROUPS" "ac_enabled c \<and> ac_destination c = Testflight \<longrightarrow> gs \<noteq> []"
    by (auto split: if_splits)
  have "notes_so_far (ns, e3)"
    using add_notes_ok[of "([], ?e2)" "ac_release_notes c"] n by (simp add: notes_so_far_def)
  moreover have "list_all group_ok gs \<and> distinct gs"
    using add_groups_ok[of "[]" "ac_testflight_groups c" "[]"] g by simp
  ultimately show ?thesis using e e2 by (auto simp: c' config_ok_def notes_so_far_def)
qed

lemma normalize_config_fixed: "config_ok c \<Longrightarrow> normalize_config c = Inr c"
  using add_groups_fixed[of "ac_testflight_groups c" "[]" "[]"]
    add_notes_fixed[of "ac_release_notes c" "[]"]
  by (cases c) (auto simp: config_ok_def normalize_config_def Let_def)

subsection \<open>The state of the component stays consistent\<close>

lemma release_step_evolved:
  assumes "release_step rid db db'" and "rel_inv db"
  shows "rows_rel evolved db db'"
proof -
  have g: "rows_rel evolved db db'" if "advance_step rid db db'"
    using that assms(2) by (fastforce simp: advance_step_def rows_rel_def grown_def)
  from assms(1) show ?thesis
  proof cases
    case insert
    then show ?thesis by (rule g[OF advance_insert])
  next
    case (change client now change actor reason r)
    from transition_release_Inr[OF rel_invD(1)[OF assms(2)] this] obtain cur where
      "load_release db rid = Inr cur" by metis
    from transition_release_rows(1)[OF assms(2) change this] show ?thesis .
  next
    case approve
    then show ?thesis by (rule g[OF advance_approve])
  next
    case remark
    then show ?thesis by (simp add: rows_rel_same)
  next
    case (touch f)
    have "advance_step rid db db'" unfolding touch(2) by (rule advance_touch) (rule touch(1))
    then show ?thesis by (rule g)
  next
    case quiet
    then show ?thesis by (rule g[OF advance_quiet])
  qed
qed

interpretation release_rows: progress_of any_release_step rel_inv "rows_rel evolved"
proof
  show "rows_rel evolved s s" for s by (simp add: rows_rel_same)
  show "rows_rel evolved s u" if "rows_rel evolved s t" "rows_rel evolved t u" for s t u
    using that unfolding rows_rel_def by (meson evolved_trans)
  show "rows_rel evolved s t" if "rel_inv s" "any_release_step s t" for s t
    using that release_step_evolved by (auto simp: any_release_step_def)
qed

definition link_ok :: "release_db \<Rightarrow> release_link \<Rightarrow> bool" where
  "link_ok d l \<longleftrightarrow> (\<exists>r \<in> set (releases d). rl_id r = ln_release_id l \<and> rl_store r = AppStore) \<and>
     ln_stage l \<in> range stage_as_str"

definition target_ok :: "publish_target \<Rightarrow> bool" where
  "target_ok t \<longleftrightarrow> config_ok (pt_config t) \<and> pt_enabled t = ac_enabled (pt_config t)"

definition app_inv :: "app_store_db \<Rightarrow> bool" where
  "app_inv db \<longleftrightarrow> rel_inv (rdb db) \<and> distinct (map ln_release_id (links db)) \<and>
     (\<forall>l \<in> set (links db). link_ok (rdb db) l) \<and>
     distinct (map pt_pipeline_id (publish_targets db)) \<and> list_all target_ok (publish_targets db)"

lemma link_ok_step:
  assumes "link_ok d l" and "stage_kept l l'" and "any_release_step\<^sup>*\<^sup>* d d'" and "rel_inv d"
  shows "link_ok d' l'"
proof -
  from assms(1) obtain r where r: "r \<in> set (releases d)" "rl_id r = ln_release_id l" "rl_store r = AppStore"
    and st: "ln_stage l \<in> range stage_as_str" unfolding link_ok_def by blast
  from release_rows.run_rel[OF assms(3,4)] r(1) obtain r' where "r' \<in> set (releases d')" "evolved r r'"
    unfolding rows_rel_def by blast
  with r st assms(2) show ?thesis unfolding link_ok_def by (auto simp: evolved_def stage_kept_def)
qed

lemma app_frame_inv:
  assumes fr: "app_frame db db'" and inv: "app_inv db"
  shows "app_inv db'"
proof -
  from fr have run: "any_release_step\<^sup>*\<^sup>* (rdb db) (rdb db')"
    and ls: "list_all2 stage_kept (links db) (links db')" by (auto simp: app_frame_def)
  from inv have ri: "rel_inv (rdb db)" by (simp add: app_inv_def)
  have "map ln_release_id (links db') = map ln_release_id (links db)"
    using ls by (induction rule: list_all2_induct) (simp_all add: stage_kept_def)
  moreover have "link_ok (rdb db') l'" if "l' \<in> set (links db')" for l'
  proof -
    from ls that obtain l where "l \<in> set (links db)" "stage_kept l l'"
      by (metis in_set_conv_nth list_all2_conv_all_nth)
    with inv link_ok_step[OF _ _ run ri] show ?thesis by (auto simp: app_inv_def)
  qed
  moreover have "rel_inv (rdb db')" using run ri by (rule release_system.run_inv)
  ultimately show ?thesis using inv fr by (simp add: app_inv_def app_frame_def)
qed

text \<open>
  The steps of the component on the tables and Apple's state: a settings request, an upload
  report, a monitor pass, a release control, a promoted link, any step of the release component,
  and whatever Apple does on its own.
\<close>

inductive app_store_step :: "app_store_db \<times> 'w \<Rightarrow> app_store_db \<times> 'w \<Rightarrow> bool" where
  settings: "update_pipeline_app_store_publish now auth pipeline_id request db = Inr (resp, db') \<Longrightarrow>
    app_store_step (db, w) (db', w)"
| upload: "record_upload rid now build_id reported db = Inr (res, db') \<Longrightarrow> app_store_step (db, w) (db', w)"
| poll: "poll_releases decrypt connect client now acc = acc' \<Longrightarrow> app_store_step acc acc'"
| control: "apply_change decrypt connect now r change (db, w) = (res, db', w') \<Longrightarrow>
    app_store_step (db, w) (db', w')"
| promoted: "load_release (rdb db) rid = Inr r \<Longrightarrow> rl_store r = AppStore \<Longrightarrow>
    record_promoted_link now rid link db = Inr db' \<Longrightarrow> app_store_step (db, w) (db', w)"
| other_release: "any_release_step (rdb db) d \<Longrightarrow> app_store_step (db, w) (set_rdb d db, w)"
| apple: "app_store_step (db, w) (db, w')"

lemma upsert_target_ok:
  assumes "distinct (map pt_pipeline_id ts)" and "list_all target_ok ts" and "config_ok c"
  shows "distinct (map pt_pipeline_id (upsert_target pid c user now ts))"
    and "list_all target_ok (upsert_target pid c user now ts)"
  using assms
  by (auto simp: upsert_target_def map_update_where_same exists_row_iff list_all_iff in_set_update_where target_ok_def)

lemma add_link_inv:
  assumes "app_inv db" and "(release_step rid)\<^sup>*\<^sup>* (rdb db) d"
    and "r \<in> set (releases d)" and "rl_id r = ln_release_id l" and "rl_store r = AppStore"
    and "ln_stage l \<in> range stage_as_str" and "\<not> exists_row (\<lambda>x. ln_release_id x = ln_release_id l) (links db)"
  shows "app_inv (db\<lparr>rdb := d, links := links db @ [l]\<rparr>)"
proof -
  have "app_inv (set_rdb d db)" using app_frame_rdb[OF assms(2)] assms(1) by (rule app_frame_inv)
  moreover have "link_ok d l" using assms(3-6) by (auto simp: link_ok_def)
  ultimately show ?thesis using assms(7) by (auto simp: app_inv_def exists_row_iff)
qed

lemma record_upload_Inr:
  assumes "record_upload rid now build_id reported db = Inr (Some rid', db')"
  obtains b ipa config d r where "find_build (core (rdb db)) build_id = Some b"
    and "find_build_release (rdb db) (b_id b) AppStore = None"
    and "create_release rid now (uploaded_release b ipa config) System (Some uploaded_reason) (rdb db) = Inr (r, d)"
    and "rid' = rid"
    and "insert_release_link now rid (b_pipeline_id b) ipa config (set_rdb d db) = Inr db'"
proof -
  from assms obtain b config ipa where b: "find_build (core (rdb db)) build_id = Some b"
    and com: "commit_upload rid now b ipa config db = Inr (Some rid', db')"
    by (auto simp: record_upload_def and_then_eq_Inr ok_or_eq_Inr)
  from com have none: "find_build_release (rdb db) (b_id b) AppStore = None"
    by (auto simp: commit_upload_def split: if_splits)
  from com none obtain r why d1 where
    ins: "insert_release rid now (uploaded_release b ipa config) System (Some uploaded_reason) (rdb db) = Inr (r, why, d1)"
    and link: "and_then (insert_release_link now (rl_id r) (b_pipeline_id b) ipa config (set_rdb d1 db))
      (\<lambda>db1. Inr (Some (rl_id r), set_rdb (finish_create r why System now (rdb db1)) db1)) = Inr (Some rid', db')"
    by (auto simp: commit_upload_def split: sum.splits)
  have "rl_id r = rid" using insert_release_Inr(4)[OF ins] .
  then show thesis
    using that[OF b none, of ipa config r "finish_create r why System now d1"] ins link
    by (auto simp: create_release_def and_then_eq_Inr insert_release_link_def split: if_splits)
qed

lemma record_upload_None: "record_upload rid now build_id reported db = Inr (None, db') \<Longrightarrow> db' = db"
  by (auto simp: record_upload_def commit_upload_def and_then_eq_Inr split: if_splits sum.splits)

lemma create_release_row:
  assumes "create_release rid now input actor reason db = Inr (r, db')"
  shows "releases db' = releases db @ [r]" and "rl_id r = rid" and "rl_state r = nr_state input"
    and "rl_rollout_fraction r = nr_rollout_fraction input" and "rl_build_id r = nr_build_id input"
    and "rl_store r = nr_store input" and "rl_promoted_from_release_id r = nr_promoted_from_release_id input"
    and "core db' = core db" and "rl_created_at r = now"
proof -
  from assms obtain why db1 where ins: "insert_release rid now input actor reason db = Inr (r, why, db1)"
    and fin: "db' = finish_create r why actor now db1" by (auto simp: create_release_def and_then_eq_Inr)
  note i = insert_release_Inr[OF ins]
  show "releases db' = releases db @ [r]" using i(10) by (simp add: fin finish_create_def Let_def)
  show "rl_id r = rid" "rl_state r = nr_state input" "rl_rollout_fraction r = nr_rollout_fraction input"
    using i by simp_all
  show "rl_build_id r = nr_build_id input" "rl_store r = nr_store input"
    "rl_promoted_from_release_id r = nr_promoted_from_release_id input" "rl_created_at r = now"
    using ins by (auto simp: insert_release_def and_then_eq_Inr Let_def new_release_row_def split: if_splits)
  have "core db1 = core db"
    using ins by (auto simp: insert_release_def and_then_eq_Inr Let_def insert_history_def split: if_splits)
  then show "core db' = core db" by (simp add: fin finish_create_def Let_def audit_def publish_def)
qed

lemma create_release_fresh:
  "create_release rid now input actor reason db = Inr (r, db') \<Longrightarrow> rid \<notin> rl_id ` set (releases db)"
  by (auto simp: create_release_def and_then_eq_Inr dest!: insert_release_Inr(3))

lemma awaiting_stage: "''awaiting_build'' \<in> range stage_as_str"
proof -
  have "''awaiting_build'' = stage_as_str AwaitingBuild" by (simp add: stage_as_str_def)
  then show ?thesis by simp
qed

lemma advance_release_run: "(advance_step rid)\<^sup>*\<^sup>* db db' \<Longrightarrow> (release_step rid)\<^sup>*\<^sup>* db db'"
  by (induction rule: rtranclp_induct) (auto simp: advance_step_def intro: rtranclp.rtrancl_into_rtrancl)

lemma record_upload_inv:
  assumes "record_upload rid now build_id reported db = Inr (res, db')" and "app_inv db"
  shows "app_inv db'"
proof (cases res)
  case None
  with assms show ?thesis by (auto dest: record_upload_None)
next
  case (Some rid')
  from record_upload_Inr[OF assms(1)[unfolded Some]] obtain b ipa config d r where
    cr: "create_release rid now (uploaded_release b ipa config) System (Some uploaded_reason) (rdb db) = Inr (r, d)"
    and li: "insert_release_link now rid (b_pipeline_id b) ipa config (set_rdb d db) = Inr db'" by metis
  note c = create_release_row[OF cr]
  from li obtain l where db': "db' = db\<lparr>rdb := d, links := links db @ [l]\<rparr>" and l: "ln_release_id l = rid"
    "ln_stage l = ''awaiting_build''" "\<not> exists_row (\<lambda>x. ln_release_id x = rid) (links db)"
    by (auto simp: insert_release_link_def split: if_splits)
  have "(release_step rid)\<^sup>*\<^sup>* (rdb db) d" by (rule advance_release_run[OF create_release_run[OF cr]])
  from add_link_inv[OF assms(2) this, of r l] c l awaiting_stage show ?thesis
    by (simp add: db' uploaded_release_def)
qed

lemma settings_inv:
  assumes "update_pipeline_app_store_publish now auth pid request db = Inr (resp, db')" and "app_inv db"
  shows "app_inv db'"
proof -
  from assms(1) obtain c where c: "normalize_config request = Inr c"
    and d: "links db' = links db" "rdb db' = (rdb db)\<lparr>core := publish_audit auth pid c (core (rdb db))\<rparr>"
      "publish_targets db' = upsert_target pid c (au_user_id auth) now (publish_targets db)"
    by (auto simp: update_pipeline_app_store_publish_def and_then_eq_Inr Let_def)
  have "rel_inv (rdb db') = rel_inv (rdb db)" by (simp add: d rel_inv_def)
  moreover have "link_ok (rdb db') = link_ok (rdb db)" by (simp add: d link_ok_def fun_eq_iff)
  ultimately show ?thesis
    using assms(2) upsert_target_ok[OF _ _ normalize_config_ok[OF c]] by (simp add: app_inv_def d)
qed

lemma promoted_inv:
  assumes "load_release (rdb db) rid = Inr r" and "rl_store r = AppStore"
    and "record_promoted_link now rid link db = Inr db'" and "app_inv db"
  shows "app_inv db'"
proof -
  from assms(3) obtain l where db': "db' = db\<lparr>rdb := rdb db, links := links db @ [l]\<rparr>" and l: "ln_release_id l = rid"
    "ln_stage l = stage_as_str (pk_stage link)" "\<not> exists_row (\<lambda>x. ln_release_id x = rid) (links db)"
    by (auto simp: record_promoted_link_def split: if_splits)
  from add_link_inv[OF assms(4) rtranclp.rtrancl_refl, of r l] load_release_in[OF assms(1)] assms(2) l
  show ?thesis by (simp add: db')
qed

interpretation app_store: invariant_of app_store_step "\<lambda>acc. app_inv (fst acc)"
proof
  show "app_inv (fst t)" if "app_store_step s t" "app_inv (fst s)" for s t :: "app_store_db \<times> 'w"
    using that
  proof (induction rule: app_store_step.induct)
    case (settings now auth pipeline_id request db resp db' w)
    from settings_inv[OF settings.hyps] settings.prems show ?case by simp
  next
    case (upload rid now build_id reported db res db' w)
    from record_upload_inv[OF upload.hyps] upload.prems show ?case by simp
  next
    case (poll decrypt connect client now acc acc')
    from app_frame_inv[OF poll_releases_frame poll.prems] poll.hyps show ?case by blast
  next
    case (control decrypt connect now r change db w res db' w')
    from app_frame_inv[OF apply_change_frame[of db decrypt connect now r change w]] control show ?case by simp
  next
    case (promoted db rid r now link db' w)
    from promoted_inv[OF promoted.hyps] promoted.prems show ?case by simp
  next
    case (other_release db d w)
    then have "app_frame db (set_rdb d db)" by (simp add: app_frame_def list_all2_same r_into_rtranclp)
    from app_frame_inv[OF this] other_release.prems show ?case by simp
  qed simp
qed

subsection \<open>Links and settings stay consistent\<close>

lemma stage_parse_as_str [simp]: "stage_parse (stage_as_str st) = st"
  by (cases st) (simp_all add: stage_parse_def stage_as_str_def)

text \<open>A sample: a pipeline that publishes to TestFlight, a finished build and its signed IPA.\<close>

definition sample_config :: AppStorePublishConfig where
  "sample_config = default_config\<lparr>ac_enabled := True, ac_testflight_groups := [''QA'']\<rparr>"

definition sample_build :: build where
  "sample_build = \<lparr>b_id = ''b1'', b_project_id = ''p1'', b_pipeline_id = ''pl1'', b_build_number = 1,
     b_status = Succeeded, b_trigger_type = ''manual'', b_trigger_actor = None, b_trigger_event = None,
     b_trigger_ref = None, b_commit_sha = None, b_branch = None, b_changelog = None,
     b_snapshot = undefined, b_webhook_id = None, b_source_build_id = None, b_runner_id = None,
     b_ran_on_runner_id = None, b_signing_token_hash = None, b_step_results = None, b_exit_code = None,
     b_approval_state = None, b_approval_requested_at = None, b_approval_decided_by = None,
     b_approval_decided_at = None, b_approval_reason = None, b_expired_from = None, b_queued_at = 0,
     b_started_at = None, b_finished_at = None, b_created_at = 0, b_updated_at = 0\<rparr>"

definition sample_app_db :: app_store_db where
  "sample_app_db = \<lparr>rdb = no_releases\<lparr>core := empty_core\<lparr>builds := [sample_build]\<rparr>\<rparr>,
     publish_targets = [\<lparr>pt_pipeline_id = ''pl1'', pt_enabled = True, pt_config = sample_config,
       pt_created_by = ''u1'', pt_updated_by = ''u1'', pt_created_at = 0, pt_updated_at = 0\<rparr>],
     signing = [\<lparr>ss_pipeline_id = ''pl1'', ss_enabled = True, ss_export_method = ''app_store'',
       ss_api_key_id = Some ''K'', ss_api_issuer_id = Some ''I'', ss_api_private_key_encrypted = Some ''E'',
       ss_shared_api_key_id = None\<rparr>],
     shared_keys = [],
     ipa_artifacts = [\<lparr>ia_id = ''a1'', ia_build_id = ''b1'', ia_available = True,
       ia_metadata = Some \<lparr>im_effective_export_method = Some ''app-store'', im_bundle_identifier = Some ''com.x'',
         im_version = Some ''1.2'', im_build_number = Some ''7''\<rparr>, ia_created_at = 0\<rparr>],
     links = []\<rparr>"

definition sample_report :: RunnerPublishResult where
  "sample_report = \<lparr>rp_track = ''QA'', rp_package_name = ''com.x'', rp_version_code = 7, rp_version_name = None,
     rp_rollout_fraction = None, rp_status = ''completed'', rp_testflight_groups = None\<rparr>"

definition uploaded_db :: app_store_db where
  "uploaded_db = (case record_upload ''r1'' 1000 ''b1'' sample_report sample_app_db of
     Inl _ \<Rightarrow> sample_app_db | Inr (_, db) \<Rightarrow> db)"

lemma sample_app_inv: "app_inv sample_app_db"
proof -
  have "normalize_config sample_config = Inr sample_config" by code_simp
  from normalize_config_ok[OF this] show ?thesis
    by (simp add: app_inv_def sample_app_db_def rel_inv_def no_releases_def target_ok_def)
      (simp add: sample_config_def)
qed

lemma sample_uploaded:
  "record_upload ''r1'' 1000 ''b1'' sample_report sample_app_db = Inr (Some ''r1'', uploaded_db)"
proof -
  have "map_sum id fst (record_upload ''r1'' 1000 ''b1'' sample_report sample_app_db) = Inr (Some ''r1'')"
    by code_simp
  then show ?thesis by (cases "record_upload ''r1'' 1000 ''b1'' sample_report sample_app_db")
    (auto simp: uploaded_db_def)
qed

text \<open>C11. Whatever order settings requests, upload reports, monitor passes, release controls,
  promotions and other release operations come in, and whatever Apple answers: every monitored link
  belongs to exactly one App Store release whose history replays to its state, its stored stage is
  one the monitor understands, and the stored publish settings are in normal form, so that
  normalising them again changes nothing.\<close>

theorem app_store_state_consistent:
  assumes "app_store_step\<^sup>*\<^sup>* (db, w) (db', w')" and "app_inv db"
  shows "(\<forall>l \<in> set (links db'). \<exists>r. load_release (rdb db') (ln_release_id l) = Inr r \<and> rl_store r = AppStore \<and>
            replay None (changes_of (rl_id r) (release_history (rdb db'))) = Some (rl_state r, rl_rollout_fraction r) \<and>
            fetch_optional (\<lambda>x. ln_release_id x = ln_release_id l) (links db') = Some l \<and>
            stage_as_str (stage_parse (ln_stage l)) = ln_stage l) \<and>
         (\<forall>t \<in> set (publish_targets db'). normalize_config (pt_config t) = Inr (pt_config t))"
proof -
  have inv: "app_inv db'" using app_store.run_inv[OF assms(1)] assms(2) by simp
  then have ri: "rel_inv (rdb db')" by (simp add: app_inv_def)
  have "\<exists>r. load_release (rdb db') (ln_release_id l) = Inr r \<and> rl_store r = AppStore \<and>
      replay None (changes_of (rl_id r) (release_history (rdb db'))) = Some (rl_state r, rl_rollout_fraction r) \<and>
      fetch_optional (\<lambda>x. ln_release_id x = ln_release_id l) (links db') = Some l \<and>
      stage_as_str (stage_parse (ln_stage l)) = ln_stage l" if l: "l \<in> set (links db')" for l
  proof -
    from inv l obtain r where r: "r \<in> set (releases (rdb db'))" "rl_id r = ln_release_id l" "rl_store r = AppStore"
      and st: "ln_stage l \<in> range stage_as_str" by (auto simp: app_inv_def link_ok_def)
    have "load_release (rdb db') (rl_id r) = Inr r" by (rule load_release_row[OF rel_invD(1)[OF ri] r(1)])
    moreover have "fetch_optional (\<lambda>x. ln_release_id x = ln_release_id l) (links db') = Some l"
      using inv l by (intro fetch_by_key) (simp_all add: app_inv_def)
    ultimately show ?thesis using r rel_invD(2)[OF ri r(1)] st by (auto simp: release_ok_def)
  qed
  moreover have "\<forall>t \<in> set (publish_targets db'). normalize_config (pt_config t) = Inr (pt_config t)"
    using inv by (auto simp: app_inv_def list_all_iff target_ok_def normalize_config_fixed)
  ultimately show ?thesis by blast
qed

theorem app_store_state_consistent_witness:
  "(\<exists>l \<in> set (links uploaded_db). stage_as_str (stage_parse (ln_stage l)) = ln_stage l) \<and>
   list_all (\<lambda>t. normalize_config (pt_config t) = Inr (pt_config t)) (publish_targets uploaded_db)"
proof -
  have "app_store_step (sample_app_db, ()) (uploaded_db, ())" by (rule app_store_step.upload[OF sample_uploaded])
  note c = app_store_state_consistent[OF r_into_rtranclp[of app_store_step, OF this] sample_app_inv]
  have "links uploaded_db \<noteq> []" by code_simp
  then have "hd (links uploaded_db) \<in> set (links uploaded_db)" by simp
  with c show ?thesis unfolding list_all_iff by blast
qed

subsection \<open>An upload is recorded once and then polled\<close>

lemma sort_key_eq_Nil [simp]: "sort_key f xs = [] \<longleftrightarrow> xs = []"
  by (metis set_empty set_sort)

lemma fetch_optional_snoc:
  "\<forall>x \<in> set xs. \<not> P x \<Longrightarrow> fetch_optional P (xs @ [y]) = (if P y then Some y else None)"
  by (induction xs) (auto simp: fetch_optional_def)

lemma find_build_release_Some:
  assumes "r \<in> set (releases db)" and "rl_build_id r = bid" and "rl_store r = st"
    and "rl_promoted_from_release_id r = None"
  shows "find_build_release db bid st \<noteq> None"
proof -
  have "filter (\<lambda>r. rl_build_id r = bid \<and> rl_store r = st \<and> rl_promoted_from_release_id r = None) (releases db) \<noteq> []"
    using assms by (auto simp: filter_empty_conv)
  then have "sort_key rl_created_at (filter (\<lambda>r. rl_build_id r = bid \<and> rl_store r = st \<and>
      rl_promoted_from_release_id r = None) (releases db)) \<noteq> []" by simp
  then show ?thesis by (auto simp: find_build_release_def first_of_def split: list.splits)
qed

text \<open>A reported upload is recorded exactly once: the release starts in processing at 0% with a
  link the monitor picks up in its next pass, and any later report for the same build, whatever it
  says, answers that there is nothing to record and changes no table.\<close>

theorem upload_recorded_once:
  assumes "record_upload rid now build_id reported db = Inr (Some rid', db')"
  shows "(\<exists>l row. l \<in> set (links db') \<and> ln_release_id l = rid' \<and> stage_parse (ln_stage l) = AwaitingBuild \<and>
            link_row (rdb db') l = Some row \<and> lr_release_state row = Processing \<and>
            lr_rollout_fraction row = Finite 0 \<and> link_due now row) \<and>
         record_upload rid2 now2 build_id reported2 db' = Inr (None, db')"
proof -
  from record_upload_Inr[OF assms] obtain b ipa config d r where
    b: "find_build (core (rdb db)) build_id = Some b"
    and cr: "create_release rid now (uploaded_release b ipa config) System (Some uploaded_reason) (rdb db) = Inr (r, d)"
    and eq: "rid' = rid"
    and li: "insert_release_link now rid (b_pipeline_id b) ipa config (set_rdb d db) = Inr db'" by metis
  note c = create_release_row[OF cr]
  from create_release_fresh[OF cr] have fresh: "rid \<notin> rl_id ` set (releases (rdb db))" .
  from li obtain l where db': "db' = db\<lparr>rdb := d, links := links db @ [l]\<rparr>" and l: "ln_release_id l = rid"
    "ln_stage l = ''awaiting_build''" "ln_next_poll_at l = now"
    by (auto simp: insert_release_link_def split: if_splits)
  have "fetch_optional (\<lambda>x. rl_id x = rid) (releases d) = Some r"
    unfolding c(1) by (subst fetch_optional_snoc) (use fresh c(2) in \<open>auto simp: image_iff\<close>)
  then have row: "link_row d l = Some \<lparr>lr_link = l, lr_release_state = Processing, lr_rollout_fraction = Finite 0\<rparr>"
    using c(3,4) l(1) by (simp add: link_row_def uploaded_release_def)
  have "find_build_release d (b_id b) AppStore \<noteq> None"
    by (rule find_build_release_Some[of r]) (simp_all add: c uploaded_release_def)
  moreover have "find_build (core d) build_id = Some b" using b by (simp add: c(8))
  ultimately have "record_upload rid2 now2 build_id reported2 db' = Inr (None, db')"
    using assms b by (auto simp: record_upload_def commit_upload_def and_then_eq_Inr ok_or_eq_Inr db'
        load_config_def load_uploaded_ipa_def find_uploaded_ipa_def)
  with row l show ?thesis
    by (intro conjI exI[of _ l] exI[of _ "\<lparr>lr_link = l, lr_release_state = Processing, lr_rollout_fraction = Finite 0\<rparr>"])
      (simp_all add: db' eq link_due_def stage_parse_def)
qed

theorem upload_recorded_once_witness:
  "record_upload ''r2'' 2000 ''b1'' sample_report uploaded_db = Inr (None, uploaded_db)"
  using upload_recorded_once[OF sample_uploaded] by blast

subsection \<open>A poll records what Apple reported\<close>

lemma fraction_tolerance_positive: "\<not> f64_less fraction_tolerance (Finite 0)"
  unfolding fraction_tolerance_def by code_simp

lemma store_hop_ok:
  assumes inv: "rel_inv db" and cur: "load_release db rid = Inr cur"
    and can: "release_can_transition_to (rl_state cur) to"
    and tf: "case tf of None \<Rightarrow> True | Some f \<Rightarrow> in_unit f"
    and up: "rl_state cur = Rolling \<Longrightarrow> to = Rolling \<Longrightarrow>
      \<exists>f. tf = Some f \<and> \<not> f64_le f (rl_rollout_fraction cur)"
    and ex: "expect = None \<or> expect = Some (rl_state cur, rl_rollout_fraction cur)"
  obtains r db' where "transition_release client now rid (store_update to tf expect) System reason db = Inr (r, db')"
    and "load_release db' rid = Inr r" and "rel_inv db'" and "rl_state r = to"
    and "rl_rollout_fraction r = (if to = Release_Complete then Finite 1 else unwrap_or (rl_rollout_fraction cur) tf)"
proof -
  let ?c = "store_update to tf expect"
  from rel_invD(2)[OF inv] load_release_in[OF cur] have unit: "in_unit (rl_rollout_fraction cur)"
    by (simp add: release_ok_def)
  have un: "\<not> unexpected ?c cur"
    using ex in_unit_finite[OF unit] by (auto simp: unexpected_def store_update_def fraction_tolerance_positive)
  have fr: "target_fraction ?c cur = (if to = Release_Complete then Finite 1 else unwrap_or (rl_rollout_fraction cur) tf)"
    by (simp add: target_fraction_def store_update_def)
  have one: "in_unit (Finite 1)" by (simp add: in_unit_def)
  have "in_unit (target_fraction ?c cur)" using tf unit one unfolding fr by (cases tf) simp_all
  then have chk: "check_change ?c cur = Inr (target_fraction ?c cur)"
    using un can up by (auto simp: check_change_Inr store_update_def target_fraction_def)
  have "call_store client cur ?c (target_fraction ?c cur) = Inr ()" by (simp add: call_store_def store_update_def)
  from transition_release_ok[OF inv cur chk this, of now System reason] obtain r db' where
    ok: "transition_release client now rid ?c System reason db = Inr (r, db')"
    and r: "r = change_columns now (ch_to_state ?c) (target_fraction ?c cur)
      (next_step_at (cur\<lparr>rl_state := ch_to_state ?c, rl_rollout_fraction := target_fraction ?c cur\<rparr>) now) cur"
    and ld: "load_release db' rid = Inr r" .
  have "rel_inv db'" using release_step.change[OF ok] inv by (rule release_step_inv)
  moreover have "rl_state r = to" "rl_rollout_fraction r = target_fraction ?c cur"
    by (simp_all add: r change_columns_def store_update_def)
  ultimately show thesis using that[OF ok ld] fr by simp
qed

text \<open>The state and the fraction a poll leaves: Apple's, 100% when the release completes, never a step down.\<close>

definition recorded_fraction :: "release \<Rightarrow> ReleaseState \<Rightarrow> f64 option \<Rightarrow> f64" where
  "recorded_fraction r target tf =
     (let old = rl_rollout_fraction r; path = transition_path (rl_state r) target
      in if state_matches (rl_state r) old target tf \<or> skips_hop (rl_state r) old target tf then old
         else if last path = Release_Complete then Finite 1
         else (case tf of Some f \<Rightarrow> f | None \<Rightarrow> if length path = 2 then Finite 1 else old))"

definition recorded_state :: "release \<Rightarrow> ReleaseState \<Rightarrow> f64 option \<Rightarrow> ReleaseState" where
  "recorded_state r target tf =
     (if state_matches (rl_state r) (rl_rollout_fraction r) target tf then rl_state r
      else last (transition_path (rl_state r) target))"

abbreviation row_of :: "release_link \<Rightarrow> release \<Rightarrow> LinkRow" where
  "row_of l r \<equiv> \<lparr>lr_link = l, lr_release_state = rl_state r, lr_rollout_fraction = rl_rollout_fraction r\<rparr>"

lemma transition_path_cases:
  assumes "transition_path from target \<noteq> []"
  obtains (direct) "transition_path from target = [target]" "release_can_transition_to from target"
  | (through) "transition_path from target = [Rolling, target]" "target = Release_Complete \<or> target = Paused"
      "release_can_transition_to from Rolling" "\<not> release_can_transition_to from target"
  | (failed) "transition_path from target = [Release_Failed]" "target = Halted"
      "release_can_transition_to from Release_Failed"
  using assms that by (auto simp: transition_path_def split: if_splits)

lemma apply_hops_one:
  assumes inv: "rel_inv db" and cur: "load_release db (ln_release_id l) = Inr r"
    and can: "release_can_transition_to (rl_state r) to" and hf: "hop_fraction target tf to = tf"
    and tf: "case tf of None \<Rightarrow> to \<noteq> Rolling | Some f \<Rightarrow> in_unit f"
    and skip: "\<not> skips_hop (rl_state r) (rl_rollout_fraction r) to tf"
  obtains d r' where "apply_hops client now (row_of l r) target tf reason
      (Some (rl_state r, rl_rollout_fraction r)) [to] db = (Hops_Done, d)"
    and "load_release d (ln_release_id l) = Inr r'" and "rl_state r' = to"
    and "rl_rollout_fraction r' = (if to = Release_Complete then Finite 1 else unwrap_or (rl_rollout_fraction r) tf)"
proof -
  have up: "\<exists>f. tf = Some f \<and> \<not> f64_le f (rl_rollout_fraction r)" if "rl_state r = Rolling" "to = Rolling"
    using skip tf that by (cases tf) (auto simp: skips_hop_def)
  have tf': "case tf of None \<Rightarrow> True | Some f \<Rightarrow> in_unit f" using tf by (cases tf) simp_all
  from store_hop_ok[OF inv cur can tf' up, of "Some (rl_state r, rl_rollout_fraction r)" client now "Some reason"]
  obtain r' d where "transition_release client now (ln_release_id l)
      (store_update to tf (Some (rl_state r, rl_rollout_fraction r))) System (Some reason) db = Inr (r', d)"
    "load_release d (ln_release_id l) = Inr r'" "rel_inv d" "rl_state r' = to"
    "rl_rollout_fraction r' = (if to = Release_Complete then Finite 1 else unwrap_or (rl_rollout_fraction r) tf)" by blast
  then show thesis using that[of d r'] skip by (simp add: hf)
qed

lemma apply_hops_two:
  assumes inv: "rel_inv db" and cur: "load_release db (ln_release_id l) = Inr r"
    and can: "release_can_transition_to (rl_state r) Rolling" and nr: "rl_state r \<noteq> Rolling"
    and target: "target = Release_Complete \<or> target = Paused"
    and tf: "case tf of None \<Rightarrow> True | Some f \<Rightarrow> in_unit f"
  obtains d r' where "apply_hops client now (row_of l r) target tf reason
      (Some (rl_state r, rl_rollout_fraction r)) [Rolling, target] db = (Hops_Done, d)"
    and "load_release d (ln_release_id l) = Inr r'" and "rl_state r' = target"
    and "rl_rollout_fraction r' = (if target = Release_Complete then Finite 1 else unwrap_or (Finite 1) tf)"
proof -
  let ?hf = "hop_fraction target tf Rolling"
  have hf: "?hf = Some (unwrap_or (Finite 1) tf)" using target by (cases tf) (auto simp: hop_fraction_def or_else_def)
  have one: "in_unit (Finite 1)" by (simp add: in_unit_def)
  have hf': "case ?hf of None \<Rightarrow> True | Some f \<Rightarrow> in_unit f" using tf one unfolding hf by (cases tf) simp_all
  from store_hop_ok[OF inv cur can hf', of "Some (rl_state r, rl_rollout_fraction r)" client now "Some reason"] nr
  obtain r1 d1 where h1: "transition_release client now (ln_release_id l)
      (store_update Rolling ?hf (Some (rl_state r, rl_rollout_fraction r))) System (Some reason) db = Inr (r1, d1)"
    "load_release d1 (ln_release_id l) = Inr r1" "rel_inv d1" "rl_state r1 = Rolling"
    "rl_rollout_fraction r1 = unwrap_or (Finite 1) tf" unfolding hf by (auto simp del: One_nat_def)
  have can2: "release_can_transition_to (rl_state r1) target" using h1(4) target by (auto simp: enum_simps)
  have hf2: "hop_fraction target tf target = tf" using target by (auto simp: hop_fraction_def)
  have nt: "target \<noteq> Rolling" using target by auto
  from store_hop_ok[OF h1(3,2) can2 tf, of None client now "Some reason"] nt
  obtain r' d where h2: "transition_release client now (ln_release_id l) (store_update target tf None) System
      (Some reason) d1 = Inr (r', d)" "load_release d (ln_release_id l) = Inr r'" "rl_state r' = target"
    "rl_rollout_fraction r' = (if target = Release_Complete then Finite 1 else unwrap_or (rl_rollout_fraction r1) tf)"
    by blast
  have "\<not> skips_hop (rl_state r) x y z" for x y z using nr by (simp add: skips_hop_def)
  then have "apply_hops client now (row_of l r) target tf reason (Some (rl_state r, rl_rollout_fraction r))
      [Rolling, target] db = (Hops_Done, d)" using h1(1) h2(1) by (simp add: Let_def hf2)
  then show thesis using that h2(2-4) h1(5) by (cases tf) simp_all
qed

lemma recorded_settled:
  assumes cur: "load_release d (ln_release_id l) = Inr r" and tr: "sp_transition s = Some (target, tf, reason)"
    and settled: "state_matches (rl_state r) (rl_rollout_fraction r) target tf \<or>
      skips_hop (rl_state r) (rl_rollout_fraction r) target tf"
  shows "apply_transition client now (row_of l r) s d = (Hops_Done, d)"
    and "recorded_state r target tf = rl_state r" and "recorded_fraction r target tf = rl_rollout_fraction r"
proof -
  show "recorded_state r target tf = rl_state r"
    using settled by (auto simp: recorded_state_def skips_hop_def transition_path_def enum_simps)
  show "recorded_fraction r target tf = rl_rollout_fraction r"
    using settled by (simp add: recorded_fraction_def Let_def)
  show "apply_transition client now (row_of l r) s d = (Hops_Done, d)"
  proof (cases "state_matches (rl_state r) (rl_rollout_fraction r) target tf")
    case False
    with settled have sk: "skips_hop (rl_state r) (rl_rollout_fraction r) target tf" by simp
    then have "rl_state r = Rolling" "target = Rolling" by (auto simp: skips_hop_def)
    moreover from this have "transition_path (rl_state r) target = [Rolling]"
      by (simp add: transition_path_def enum_simps)
    ultimately show ?thesis using False sk tr by (simp add: apply_transition_def hop_fraction_def)
  qed (simp add: apply_transition_def tr)
qed

lemma recorded_by_hops:
  assumes inv: "rel_inv db" and cur: "load_release db (ln_release_id l) = Inr r"
    and tf: "case tf of None \<Rightarrow> target \<noteq> Rolling | Some f \<Rightarrow> in_unit f"
    and path: "transition_path (rl_state r) target \<noteq> []"
    and skip: "\<not> skips_hop (rl_state r) (rl_rollout_fraction r) target tf"
  obtains d r' where "apply_hops client now (row_of l r) target tf reason (Some (rl_state r, rl_rollout_fraction r))
      (transition_path (rl_state r) target) db = (Hops_Done, d)"
    and "load_release d (ln_release_id l) = Inr r'" and "rl_state r' = last (transition_path (rl_state r) target)"
    and "rl_rollout_fraction r' = (if last (transition_path (rl_state r) target) = Release_Complete then Finite 1
      else (case tf of Some f \<Rightarrow> f
            | None \<Rightarrow> if length (transition_path (rl_state r) target) = 2 then Finite 1 else rl_rollout_fraction r))"
  using path
proof (cases rule: transition_path_cases)
  case direct
  have "hop_fraction target tf target = tf" by (simp add: hop_fraction_def)
  from apply_hops_one[OF inv cur direct(2) this tf skip] obtain d r' where
    "apply_hops client now (row_of l r) target tf reason (Some (rl_state r, rl_rollout_fraction r)) [target] db = (Hops_Done, d)"
    "load_release d (ln_release_id l) = Inr r'" "rl_state r' = target"
    "rl_rollout_fraction r' = (if target = Release_Complete then Finite 1 else unwrap_or (rl_rollout_fraction r) tf)" .
  then show thesis using that[of d r'] unfolding direct(1) by (simp add: unwrap_or_def split: option.splits)
next
  case through
  have tf': "case tf of None \<Rightarrow> True | Some f \<Rightarrow> in_unit f" using tf by (cases tf) simp_all
  have nr: "rl_state r \<noteq> Rolling" using through(2,4) by (auto simp: enum_simps)
  from apply_hops_two[OF inv cur through(3) nr through(2) tf'] obtain d r' where
    "apply_hops client now (row_of l r) target tf reason (Some (rl_state r, rl_rollout_fraction r)) [Rolling, target] db = (Hops_Done, d)"
    "load_release d (ln_release_id l) = Inr r'" "rl_state r' = target"
    "rl_rollout_fraction r' = (if target = Release_Complete then Finite 1 else unwrap_or (Finite 1) tf)" .
  then show thesis using that[of d r'] unfolding through(1) by (simp add: unwrap_or_def split: option.splits)
next
  case failed
  have hf: "hop_fraction target tf Release_Failed = tf" by (simp add: hop_fraction_def)
  have tf': "case tf of None \<Rightarrow> Release_Failed \<noteq> Rolling | Some f \<Rightarrow> in_unit f" using tf by (cases tf) simp_all
  have "\<not> skips_hop (rl_state r) (rl_rollout_fraction r) Release_Failed tf" by (simp add: skips_hop_def)
  from apply_hops_one[OF inv cur failed(3) hf tf' this] obtain d r' where
    "apply_hops client now (row_of l r) target tf reason (Some (rl_state r, rl_rollout_fraction r)) [Release_Failed] db = (Hops_Done, d)"
    "load_release d (ln_release_id l) = Inr r'" "rl_state r' = Release_Failed"
    "rl_rollout_fraction r' = (if Release_Failed = Release_Complete then Finite 1 else unwrap_or (rl_rollout_fraction r) tf)" .
  then show thesis using that[of d r'] unfolding failed(1) by (simp add: unwrap_or_def split: option.splits)
qed

text \<open>When a poll of an unchanged release reports a state the release can move to, recording it
  always succeeds: the release ends in that state (failed, where Apple withdrew a version that can
  no longer be halted), at Apple's fraction and never below the recorded one while rolling, and the
  link takes over the stage, the ids and the next poll time of the step. No call to Apple is needed.\<close>

theorem poll_records_apple_state:
  assumes inv: "rel_inv (rdb db)" and cur: "load_release (rdb db) (ln_release_id l) = Inr r"
    and tr: "sp_transition s = Some (target, tf, reason)"
    and tf: "case tf of None \<Rightarrow> target \<noteq> Rolling | Some f \<Rightarrow> in_unit f"
    and path: "transition_path (rl_state r) target \<noteq> []"
  shows "\<exists>db' r'. apply_step client now (row_of l r) s db = (Inr (), db') \<and>
           load_release (rdb db') (ln_release_id l) = Inr r' \<and>
           rl_state r' = recorded_state r target tf \<and>
           rl_rollout_fraction r' = recorded_fraction r target tf \<and>
           links db' = update_where (\<lambda>x. ln_release_id x = ln_release_id l)
             (step_columns now (sp_stage s) (sp_next_poll_in s) s) (links db)"
proof -
  let ?old = "rl_rollout_fraction r"
  let ?settled = "state_matches (rl_state r) ?old target tf \<or> skips_hop (rl_state r) ?old target tf"
  have "\<exists>d r'. apply_transition client now (row_of l r) s (rdb db) = (Hops_Done, d) \<and>
      load_release d (ln_release_id l) = Inr r' \<and> rl_state r' = recorded_state r target tf \<and>
      rl_rollout_fraction r' = recorded_fraction r target tf"
  proof (cases ?settled)
    case True
    from recorded_settled[OF cur tr this] cur show ?thesis by simp
  next
    case False
    then have skip: "\<not> skips_hop (rl_state r) ?old target tf" by simp
    from recorded_by_hops[OF inv cur tf path skip, of client now reason] obtain d r' where
      "apply_hops client now (row_of l r) target tf reason (Some (rl_state r, ?old))
         (transition_path (rl_state r) target) (rdb db) = (Hops_Done, d)"
      "load_release d (ln_release_id l) = Inr r'" "rl_state r' = last (transition_path (rl_state r) target)"
      "rl_rollout_fraction r' = (if last (transition_path (rl_state r) target) = Release_Complete then Finite 1
        else (case tf of Some f \<Rightarrow> f
              | None \<Rightarrow> if length (transition_path (rl_state r) target) = 2 then Finite 1 else ?old))" by blast
    with False tr show ?thesis
      by (simp add: apply_transition_def recorded_state_def recorded_fraction_def Let_def)
  qed
  then obtain d r' where "apply_transition client now (row_of l r) s (rdb db) = (Hops_Done, d)"
    "load_release d (ln_release_id l) = Inr r'" "rl_state r' = recorded_state r target tf"
    "rl_rollout_fraction r' = recorded_fraction r target tf" by blast
  then show ?thesis by (intro exI[of _ "snd (apply_step client now (row_of l r) s db)"] exI[of _ r'])
      (simp add: apply_step_def Let_def update_links_def)
qed

definition phased_step :: step where
  "phased_step = (step_wait POLL_LIVE_SECS)\<lparr>sp_transition := Some (Paused, Some (Finite (1 / 4)), ''Phased release paused'')\<rparr>"

definition uploaded_link :: release_link where
  "uploaded_link = hd (links uploaded_db)"

definition uploaded_row :: release where
  "uploaded_row = hd (releases (rdb uploaded_db))"

theorem poll_records_apple_state_witness:
  "\<exists>db' r'. apply_step noop_client 2000 (row_of uploaded_link uploaded_row) phased_step uploaded_db = (Inr (), db') \<and>
     load_release (rdb db') ''r1'' = Inr r' \<and> rl_state r' = Paused \<and> rl_rollout_fraction r' = Finite (1 / 4)"
proof -
  have "app_inv uploaded_db" using record_upload_inv[OF sample_uploaded sample_app_inv] .
  then have inv: "rel_inv (rdb uploaded_db)" by (simp add: app_inv_def)
  have ne: "releases (rdb uploaded_db) \<noteq> []" and st: "rl_state uploaded_row = Processing"
    and ids: "ln_release_id uploaded_link = ''r1''" "rl_id uploaded_row = ''r1''" by code_simp+
  from ne have "uploaded_row \<in> set (releases (rdb uploaded_db))" by (simp add: uploaded_row_def)
  from load_release_row[OF rel_invD(1)[OF inv] this] ids
  have cur: "load_release (rdb uploaded_db) (ln_release_id uploaded_link) = Inr uploaded_row" by simp
  have tr: "sp_transition phased_step = Some (Paused, Some (Finite (1 / 4)), ''Phased release paused'')"
    by (simp add: phased_step_def)
  have tf: "case Some (Finite (1 / 4)) of None \<Rightarrow> Paused \<noteq> Rolling | Some f \<Rightarrow> in_unit f" by (simp add: in_unit_def)
  have path: "transition_path (rl_state uploaded_row) Paused \<noteq> []" by (simp add: st transition_path_def enum_simps)
  have "recorded_state uploaded_row Paused (Some (Finite (1 / 4))) = Paused"
    and "recorded_fraction uploaded_row Paused (Some (Finite (1 / 4))) = Finite (1 / 4)" by code_simp+
  with poll_records_apple_state[OF inv cur tr tf path, of noop_client 2000] ids show ?thesis by auto
qed

subsection \<open>A release Apple keeps failing is given up\<close>

lemma transition_path_to_failed:
  "transition_path st Release_Failed = (if release_is_terminal st then [] else [Release_Failed])"
  by (simp add: transition_path_def enum_simps)

lemma give_up_fails:
  assumes inv: "rel_inv (rdb db)" and cur: "load_release (rdb db) rid = Inr r"
    and live: "\<not> release_is_terminal (rl_state r)"
  obtains r' where "load_release (rdb (give_up client now rid message db)) rid = Inr r'"
    and "rl_state r' = Release_Failed"
    and "links (give_up client now rid message db) = update_where (\<lambda>l. ln_release_id l = rid)
           (\<lambda>l. l\<lparr>ln_stage := ''done'', ln_updated_at := now\<rparr>) (links db)"
proof -
  have can: "release_can_transition_to (rl_state r) Release_Failed" using live by (simp add: enum_simps)
  have h1: "case (None :: f64 option) of None \<Rightarrow> True | Some f \<Rightarrow> in_unit f" by simp
  have h2: "\<exists>f. None = Some f \<and> \<not> f64_le f (rl_rollout_fraction r)"
    if "rl_state r = Rolling" "Release_Failed = Rolling" using that by simp
  from store_hop_ok[OF inv cur can h1 h2, of None client now "Some (give_up_reason message)"]
  obtain r' d where ok: "transition_release client now rid (store_update Release_Failed None None) System
      (Some (give_up_reason message)) (rdb db) = Inr (r', d)" "load_release d rid = Inr r'" "rl_state r' = Release_Failed"
    by blast
  then have "give_up client now rid message db = update_links (\<lambda>l. ln_release_id l = rid)
      (\<lambda>l. l\<lparr>ln_stage := ''done'', ln_updated_at := now\<rparr>) (set_rdb d db)"
    using live by (simp add: give_up_def cur transition_path_to_failed)
  with ok that show thesis by (simp add: update_links_def)
qed

lemma failing_since_after:
  assumes "fetch_optional (\<lambda>l. ln_release_id l = rid) (links db) = Some l"
  shows "fetch_optional (\<lambda>l. ln_release_id l = rid)
           (update_where (\<lambda>l. ln_release_id l = rid) (error_columns now message) (links db)) =
         Some (error_columns now message l)"
proof -
  have "ln_release_id (error_columns now message x) = ln_release_id x" for x by (simp add: error_columns_def)
  from fetch_optional_update_key[of ln_release_id, OF this] assms fetch_optional_Some[OF assms]
  show ?thesis by simp
qed

text \<open>A failed poll only records the error and backs off for five minutes, leaving the release as
  it is, until the release has been failing for a whole day: then the release is marked failed and
  its link is done, so the monitor never picks it up again.\<close>

theorem failing_release_given_up:
  assumes inv: "rel_inv (rdb db)" and link: "fetch_optional (\<lambda>l. ln_release_id l = rid) (links db) = Some l"
    and cur: "load_release (rdb db) rid = Inr r" and live: "\<not> release_is_terminal (rl_state r)"
  shows "let since = unwrap_or now (ln_failing_since l); db' = record_poll_error client now rid message db
         in if now - since < 24 * 60 * 60
            then rdb db' = rdb db \<and>
              fetch_optional (\<lambda>l. ln_release_id l = rid) (links db') =
                Some (l\<lparr>ln_last_error := Some message, ln_next_poll_at := now + 5 * 60, ln_updated_at := now,
                        ln_failing_since := Some since\<rparr>)
            else (\<exists>r' l'. load_release (rdb db') rid = Inr r' \<and> rl_state r' = Release_Failed \<and>
              fetch_optional (\<lambda>l. ln_release_id l = rid) (links db') = Some l' \<and> ln_stage l' = ''done'' \<and>
              ln_last_error l' = Some message)"
proof -
  let ?since = "unwrap_or now (ln_failing_since l)"
  let ?db1 = "update_links (\<lambda>l. ln_release_id l = rid) (error_columns now message) db"
  let ?l1 = "error_columns now message l"
  have l1: "fetch_optional (\<lambda>l. ln_release_id l = rid) (links ?db1) = Some ?l1"
    using failing_since_after[OF link] by (simp add: update_links_def)
  have fs: "ln_failing_since ?l1 = Some ?since"
    by (cases "ln_failing_since l") (simp_all add: error_columns_def or_else_def)
  have eq: "record_poll_error client now rid message db =
      (if now - ?since < GIVE_UP_AFTER_SECS then ?db1 else give_up client now rid message ?db1)"
    using l1 fs by (simp add: record_poll_error_def)
  have r1: "rdb ?db1 = rdb db" by (simp add: update_links_def)
  show ?thesis
  proof (cases "now - ?since < 24 * 60 * 60")
    case True
    then have "record_poll_error client now rid message db = ?db1" by (simp add: eq GIVE_UP_AFTER_SECS_def)
    with True l1 r1 fs show ?thesis by (simp add: Let_def) (simp add: error_columns_def POLL_ERROR_SECS_def)
  next
    case False
    then have e: "record_poll_error client now rid message db = give_up client now rid message ?db1"
      by (simp add: eq GIVE_UP_AFTER_SECS_def)
    from give_up_fails[of ?db1 rid r client now message] inv cur live obtain r' where
      r': "load_release (rdb (give_up client now rid message ?db1)) rid = Inr r'" "rl_state r' = Release_Failed"
      and ls: "links (give_up client now rid message ?db1) = update_where (\<lambda>l. ln_release_id l = rid)
           (\<lambda>l. l\<lparr>ln_stage := ''done'', ln_updated_at := now\<rparr>) (links ?db1)" unfolding r1 by blast
    from fetch_optional_update_key[of ln_release_id "\<lambda>l. l\<lparr>ln_stage := ''done'', ln_updated_at := now\<rparr>" rid
        "\<lambda>l. ln_release_id l = rid" "links ?db1"] l1 fetch_optional_Some[OF l1] ls
    have "fetch_optional (\<lambda>l. ln_release_id l = rid) (links (give_up client now rid message ?db1)) =
        Some (?l1\<lparr>ln_stage := ''done'', ln_updated_at := now\<rparr>)" by simp
    with False r' show ?thesis by (simp add: Let_def e) (simp add: error_columns_def)
  qed
qed

definition failing_db :: app_store_db where
  "failing_db = update_links (\<lambda>_. True) (\<lambda>l. l\<lparr>ln_failing_since := Some 1000\<rparr>) uploaded_db"

theorem failing_release_given_up_witness:
  "\<exists>r' l'. load_release (rdb (record_poll_error noop_client 90000 ''r1'' ''401'' failing_db)) ''r1'' = Inr r' \<and>
     rl_state r' = Release_Failed \<and>
     fetch_optional (\<lambda>l. ln_release_id l = ''r1'') (links (record_poll_error noop_client 90000 ''r1'' ''401'' failing_db)) =
       Some l' \<and> ln_stage l' = ''done''"
proof -
  have "app_inv uploaded_db" using record_upload_inv[OF sample_uploaded sample_app_inv] .
  then have inv: "rel_inv (rdb failing_db)" by (simp add: app_inv_def failing_db_def update_links_def)
  let ?l = "uploaded_link\<lparr>ln_failing_since := Some 1000\<rparr>"
  have "links uploaded_db = [uploaded_link]" and id: "ln_release_id uploaded_link = ''r1''" by code_simp+
  then have link: "fetch_optional (\<lambda>l. ln_release_id l = ''r1'') (links failing_db) = Some ?l"
    by (simp add: failing_db_def update_links_def fetch_optional_def)
  have "releases (rdb uploaded_db) = [uploaded_row]" and st: "rl_state uploaded_row = Processing"
    and id': "rl_id uploaded_row = ''r1''" by code_simp+
  then have cur: "load_release (rdb failing_db) ''r1'' = Inr uploaded_row"
    by (simp add: failing_db_def update_links_def load_release_def fetch_optional_def)
  have "\<not> release_is_terminal (rl_state uploaded_row)" by (simp add: st)
  from failing_release_given_up[OF inv link cur this, of 90000 noop_client "''401''"]
  show ?thesis by (auto simp: Let_def)
qed

subsection \<open>Refused promotions\<close>

lemma asc_bind_Inl:
  "asc_bind m f w = (Inl e, w') \<longleftrightarrow> m w = (Inl e, w') \<or> (\<exists>a w1. m w = (Inr a, w1) \<and> f a w1 = (Inl e, w'))"
  by (auto simp: asc_bind_def split: prod.splits sum.splits)

lemma asc_bind_Inr:
  "asc_bind m f w = (Inr b, w') \<longleftrightarrow> (\<exists>a w1. m w = (Inr a, w1) \<and> f a w1 = (Inr b, w'))"
  by (auto simp: asc_bind_def split: prod.splits sum.splits)

lemma asc_map_err_Inr: "asc_map_err f m w = (Inr a, w') \<longleftrightarrow> m w = (Inr a, w')"
  by (auto simp: asc_map_err_def split: prod.splits sum.splits)

lemma asc_map_err_Inl: "asc_map_err f m w = (Inl e, w') \<longleftrightarrow> (\<exists>e'. m w = (Inl e', w') \<and> e = f e')"
  by (auto simp: asc_map_err_def split: prod.splits sum.splits)

lemma asc_reads_same: "asc_reads m \<Longrightarrow> m w = (x, w') \<Longrightarrow> w' = w"
  using asc_readsD[of m w] by simp

lemma promotion_reads:
  "asc_reads (promotion_source asc db source)" "asc_reads (promotion_version asc app_id version)"
  unfolding promotion_source_def promotion_version_def Let_def
  by (auto intro!: asc_read_intros split: option.splits)

lemma app_store_no_refusal:
  assumes "distribute_app_store asc app_id build_id link config s w = (Inr s', w')"
  shows "sp_refusal s' = sp_refusal s"
  using assms
  by (auto simp: distribute_app_store_def asc_bind_Inr Let_def split: option.splits if_splits)

lemma testflight_refusal:
  assumes "distribute_testflight asc app_id build_id beta config s w = (Inr s', w')"
    and "ac_release_notes config = []" and "sp_refusal s = None" and "sp_refusal s' \<noteq> None"
  shows "w' = w"
proof -
  from assms(1,2) obtain groups w1 where g: "list_beta_groups asc app_id w = (Inr groups, w1)"
    and out: "s' = (step_failed s (''TestFlight group not found: '' @
          join_with '', '' (filter (\<lambda>name. find_group groups name = None) (ac_testflight_groups config))))
        \<lparr>sp_refusal := Some TestflightGroupNotFound\<rparr> \<and> w' = w1 \<or> sp_refusal s' = sp_refusal s"
    by (auto simp: distribute_testflight_def asc_bind_Inr asc_notes_def Let_def split: if_splits)
  have "w1 = w" using reading_calls(3) g by (rule asc_reads_same)
  with out assms(3,4) show ?thesis by auto
qed

lemma promotion_result_refused:
  "promotion_result target link app_id build_id s version_id = Inl (Refused code message) \<Longrightarrow> sp_refusal s \<noteq> None"
  by (auto simp: promotion_result_def split: option.splits if_splits)

lemma refused_step_reads:
  assumes "asc_bind (promotion_step asc db source target link app_id build_id beta)
      (\<lambda>(s, version_id). asc_lift (promotion_result target link app_id build_id s version_id)) w =
      (Inl (Refused code message), w')"
  shows "w' = w"
proof -
  have cfg: "ac_release_notes (promoted_config link target) = []"
    by (simp add: promoted_config_def default_config_def Let_def)
  let ?step = "promotion_step asc db source target link app_id build_id beta"
  from assms consider (step) "?step w = (Inl (Refused code message), w')"
    | (result) s version_id where "?step w = (Inr (s, version_id), w')" "sp_refusal s \<noteq> None"
    by (auto simp: asc_bind_Inl dest: promotion_result_refused)
  then show ?thesis
  proof cases
    case step
    then show ?thesis
      using asc_reads_same[OF promotion_reads(2)[of asc app_id "ln_version link"]]
      by (auto simp: promotion_step_def asc_bind_Inl asc_bind_Inr asc_map_err_Inl Let_def split: if_splits)
  next
    case result
    show ?thesis
    proof (cases "pg_track target = APP_STORE_TRACK")
      case True
      with result app_store_no_refusal show ?thesis
        by (fastforce simp: promotion_step_def asc_bind_Inr asc_map_err_Inr Let_def step_wait_def)
    next
      case False
      with result(1) have "distribute_testflight asc app_id build_id beta (promoted_config link target) (step_wait 0) w = (Inr s, w')"
        by (auto simp: promotion_step_def asc_bind_Inr asc_map_err_Inr Let_def)
      from testflight_refusal[OF this cfg _ result(2)] show ?thesis by (simp add: step_wait_def)
    qed
  qed
qed

text \<open>When a promotion is refused with a code the user can act on, nothing was changed at Apple:
  the service is in the state it was in before the request, whatever it answered.\<close>

theorem refused_promotion_changes_nothing:
  assumes "promote_with asc db source target w = (Inl (Refused code message), w')"
  shows "w' = w"
proof -
  let ?src = "promotion_source asc db source"
  from assms consider (source) "?src w = (Inl (Refused code message), w')"
    | (step) link app_id build_id beta w1 where "?src w = (Inr (link, app_id, build_id, beta), w1)"
      and "asc_bind (promotion_step asc db source target link app_id build_id beta)
        (\<lambda>(s, version_id). asc_lift (promotion_result target link app_id build_id s version_id)) w1 =
        (Inl (Refused code message), w')"
    unfolding promote_with_def asc_bind_Inl[of ?src] by auto
  then show ?thesis
  proof cases
    case source
    then show ?thesis by (rule asc_reads_same[OF promotion_reads(1)])
  next
    case step
    from asc_reads_same[OF promotion_reads(1) step(1)] refused_step_reads[OF step(2)] show ?thesis by simp
  qed
qed

text \<open>A service that counts the changes it was asked for and knows one TestFlight group.\<close>

definition counting_apple :: "nat apple" where
  "counting_apple = \<lparr>ap_get = (\<lambda>q _. Inr (case q of
       Get_betaGroups _ \<Rightarrow> [\<lparr>res_id = ''g1'', res_attributes = [(''name'', Attr_Str ''QA'')], res_version_ref = None\<rparr>]
     | _ \<Rightarrow> [])),
     ap_send = (\<lambda>_ n. (Inr None, n + 1))\<rparr>"

definition listed_db :: app_store_db where
  "listed_db = update_links (\<lambda>_. True) (\<lambda>l. l\<lparr>ln_asc_app_id := Some ''app'', ln_asc_build_id := Some ''bld''\<rparr>) uploaded_db"

definition group_target :: "string \<Rightarrow> PromotionTarget" where
  "group_target track = \<lparr>pg_track = track, pg_fraction = None, pg_phased_release = False, pg_submit_for_review = False\<rparr>"

theorem refused_promotion_changes_nothing_witness:
  "\<exists>code message. promote_with counting_apple listed_db uploaded_row (group_target ''Beta'') 5 =
     (Inl (Refused code message), 5)"
proof -
  let ?p = "promote_with counting_apple listed_db uploaded_row (group_target ''Beta'') 5"
  have "(case fst ?p of Inl (Refused _ _) \<Rightarrow> True | _ \<Rightarrow> False)" by code_simp
  then obtain code message where "fst ?p = Inl (Refused code message)"
    by (auto split: sum.splits promote_error.splits)
  then have p: "?p = (Inl (Refused code message), snd ?p)" by (metis prod.collapse)
  from refused_promotion_changes_nothing[OF p] p show ?thesis by metis
qed

subsection \<open>The monitor's stages only move forward\<close>

definition stage_rank :: "Stage \<Rightarrow> nat" where
  "stage_rank st = (case st of AwaitingBuild \<Rightarrow> 0 | Distribute \<Rightarrow> 1 | BetaReview \<Rightarrow> 2 | Review \<Rightarrow> 2 | Live \<Rightarrow> 3 | Done \<Rightarrow> 4)"

definition step_sound :: "Stage \<Rightarrow> step \<Rightarrow> bool" where
  "step_sound from s \<longleftrightarrow>
     (case sp_stage s of None \<Rightarrow> True | Some st \<Rightarrow> stage_rank from < stage_rank st) \<and>
     (sp_next_poll_in s = 0 \<longrightarrow> sp_transition s = None \<and> sp_stage s \<noteq> None) \<and> 0 \<le> sp_next_poll_in s \<and>
     (case sp_transition s of None \<Rightarrow> sp_stage s \<noteq> Some Done
      | Some (target, tf, _) \<Rightarrow>
          (sp_stage s = Some Done \<longleftrightarrow> target \<in> {Release_Complete, Release_Failed, Halted}) \<and>
          (case tf of None \<Rightarrow> target \<noteq> Rolling | Some f \<Rightarrow> in_unit f))"

definition fresh_step :: "step \<Rightarrow> bool" where
  "fresh_step s \<longleftrightarrow> sp_stage s = None \<and> sp_transition s = None \<and> sp_next_poll_in s = POLL_PROCESSING_SECS"

lemmas poll_secs = POLL_PROCESSING_SECS_def POLL_REVIEW_SECS_def POLL_LIVE_SECS_def

lemma fresh_sound: "fresh_step s \<Longrightarrow> step_sound st s"
  by (simp add: fresh_step_def step_sound_def poll_secs)

lemma failed_sound: "fresh_step s \<Longrightarrow> st \<noteq> Done \<Longrightarrow> step_sound st (step_failed s reason)"
  by (cases st) (simp_all add: fresh_step_def step_sound_def step_failed_def poll_secs stage_rank_def)

lemma unit_fractions: "in_unit (Finite 0)" "in_unit (Finite 1)"
  "in_unit (round64 (1 / 100))" "in_unit (round64 (2 / 100))" "in_unit (round64 (5 / 100))"
  "in_unit (round64 (10 / 100))" "in_unit (round64 (20 / 100))" "in_unit (round64 (50 / 100))"
  by code_simp+

lemma phased_fraction_unit: "in_unit (phased_release_fraction day)"
  by (simp only: phased_release_fraction_def Let_def unit_fractions simp_thms split: if_split)

lemma listed_sound:
  assumes "listed_step asc link s build w = (Inr s', w')" and "fresh_step s"
  shows "step_sound AwaitingBuild s'"
proof -
  let ?s = "s\<lparr>sp_asc_build_id := Some (ab_id build)\<rparr>"
  have f: "fresh_step ?s" using assms(2) by (simp add: fresh_step_def)
  have d: "step_sound AwaitingBuild (?s\<lparr>sp_stage := Some Distribute, sp_next_poll_in := 0\<rparr>)"
    using assms(2) by (simp add: fresh_step_def step_sound_def stage_rank_def)
  show ?thesis
  proof (cases "ab_processing build")
    case Build_Processing
    with assms(1) fresh_sound[OF f] show ?thesis by (simp add: listed_step_def)
  next
    case Build_Valid
    with assms(1) d show ?thesis by (auto simp: listed_step_def asc_bind_Inr Let_def)
  next
    case Build_Failed
    with assms(1) failed_sound[OF f] show ?thesis by (auto simp: listed_step_def)
  qed
qed

lemma awaiting_sound:
  assumes "awaiting_step asc now link app_id s w = (Inr s', w')" and "fresh_step s"
  shows "step_sound AwaitingBuild s'"
proof -
  from assms(1) obtain found w1 where
    "(case found of None \<Rightarrow> asc_return (if BUILD_DISCOVERY_TIMEOUT_SECS < now - ln_created_at link
        then step_failed s (''App Store Connect did not list build '' @ ln_version link @ '' ('' @
          ln_build_number link @ '') within three hours'') else s)
      | Some build \<Rightarrow> listed_step asc link s build) w1 = (Inr s', w')"
    unfolding awaiting_step_def asc_bind_Inr by blast
  then show ?thesis
    using listed_sound[OF _ assms(2)] fresh_sound[OF assms(2)] failed_sound[OF assms(2), of AwaitingBuild]
    by (cases found) (auto split: if_split_asm)
qed

lemma testflight_sound:
  assumes "distribute_testflight asc app_id build_id beta config s w = (Inr s', w')" and "fresh_step s"
  shows "step_sound Distribute s'"
proof -
  have r: "step_sound Distribute ((step_failed s m)\<lparr>sp_refusal := x\<rparr>)" for m x
    using assms(2) by (simp add: fresh_step_def step_sound_def step_failed_def poll_secs stage_rank_def)
  have b: "step_sound Distribute (s\<lparr>sp_stage := Some BetaReview, sp_next_poll_in := POLL_REVIEW_SECS,
      sp_transition := Some (InReview, None, m)\<rparr>)"
    and d: "step_sound Distribute (s\<lparr>sp_stage := Some Done,
      sp_transition := Some (Release_Complete, Some (Finite 1), m)\<rparr>)" for m
    using assms(2) by (simp_all add: fresh_step_def step_sound_def stage_rank_def poll_secs unit_fractions)
  from assms(1) show ?thesis
    by (auto simp: distribute_testflight_def asc_bind_Inr Let_def r b d split: if_splits)
qed

lemma app_store_sound:
  assumes "distribute_app_store asc app_id build_id link config s w = (Inr s', w')" and "fresh_step s"
  shows "step_sound Distribute s'"
proof -
  have r: "step_sound Distribute (t\<lparr>sp_stage := Some Review, sp_next_poll_in := POLL_REVIEW_SECS,
      sp_transition := Some (InReview, None, m)\<rparr>)" for t m
    by (simp add: step_sound_def stage_rank_def poll_secs)
  from assms(1) show ?thesis
    by (auto simp: distribute_app_store_def asc_bind_Inr Let_def r split: option.splits if_splits)
qed

lemma distribute_sound:
  assumes "distribute_step asc now link app_id s w = (Inr s', w')" and "fresh_step s"
  shows "step_sound Distribute s'"
proof -
  from assms(1) obtain build_id beta w1 where out:
    "(case beta_readiness beta (now - ln_created_at link) of
         Wait \<Rightarrow> asc_return s
       | Readiness_Failed reason \<Rightarrow> asc_return (step_failed s reason)
       | Ready \<Rightarrow>
           (case ac_destination (ln_config link) of
              Testflight \<Rightarrow> distribute_testflight asc app_id build_id beta (ln_config link) s
            | Dest_AppStore \<Rightarrow> distribute_app_store asc app_id build_id link (ln_config link) s)) w1 = (Inr s', w')"
    unfolding distribute_step_def asc_bind_Inr by blast
  show ?thesis
  proof (cases "beta_readiness beta (now - ln_created_at link)")
    case Ready
    with out testflight_sound[OF _ assms(2)] app_store_sound[OF _ assms(2)] show ?thesis
      by (cases "ac_destination (ln_config link)") auto
  next
    case Wait
    with out fresh_sound[OF assms(2)] show ?thesis by simp
  next
    case (Readiness_Failed reason)
    with out failed_sound[OF assms(2)] show ?thesis by auto
  qed
qed

lemma beta_review_sound:
  assumes "beta_review_step asc link s w = (Inr s', w')" and "fresh_step s"
  shows "step_sound BetaReview s'"
  using assms
  by (auto simp: beta_review_step_def asc_bind_Inr Let_def fresh_step_def step_sound_def stage_rank_def poll_secs
      beta_review_outcome_def unit_fractions split: option.splits if_splits)

lemma review_outcome_states:
  "review_outcome v = Some (st, reason) \<Longrightarrow> st \<in> {InReview, Release_Failed, Halted}"
  by (auto simp: review_outcome_def split: if_splits)

lemma review_sound:
  assumes "review_step asc link s w = (Inr s', w')" and "fresh_step s"
  shows "step_sound Review s'"
proof -
  from assms(1) obtain v where s': "s' = (let s = s\<lparr>sp_next_poll_in := POLL_REVIEW_SECS, sp_store_status := Some v\<rparr>
      in case review_outcome v of
              Some (state, reason) \<Rightarrow>
                s\<lparr>sp_stage := if state = Release_Failed \<or> state = Halted then Some Done else sp_stage s,
                  sp_transition := Some (state, None, reason)\<rparr>
            | None \<Rightarrow> s\<lparr>sp_stage := Some Live, sp_next_poll_in := 0\<rparr>)"
    by (auto simp: review_step_def asc_bind_Inr Let_def)
  show ?thesis
  proof (cases "review_outcome v")
    case None
    then show ?thesis using assms(2) by (simp add: s' fresh_step_def step_sound_def stage_rank_def)
  next
    case (Some p)
    obtain st reason where p: "p = (st, reason)" by (cases p)
    from review_outcome_states Some p have "st \<in> {InReview, Release_Failed, Halted}" by simp
    then show ?thesis using assms(2) Some p
      by (auto simp: s' fresh_step_def step_sound_def stage_rank_def poll_secs)
  qed
qed

lemma live_sound:
  assumes "live_step asc link s w = (Inr s', w')" and "fresh_step s"
  shows "step_sound Live s'"
  using assms phased_fraction_unit
  by (auto simp: live_step_def asc_bind_Inr live_outcome_def fresh_step_def step_sound_def stage_rank_def poll_secs
      unit_fractions split: if_splits)

text \<open>What one look at Apple decides is always sound: the stage only moves forward, so a link is
  done after at most four changes of stage; the flow ends exactly when the release completes, fails
  or is halted; every fraction is between 0 and 1; and a step that asks for an immediate second look
  changes only the stage, so that second look starts from a release state that is still right.\<close>

theorem stage_moves_forward:
  assumes "advance asc now link w = (Inr s, w')" and "stage_parse (ln_stage link) \<noteq> Done"
  shows "step_sound (stage_parse (ln_stage link)) s"
proof -
  from assms(1) obtain app t w1 where a: "app_id_step asc link w = (Inr (app, t), w1)"
    and b: "(case app of None \<Rightarrow> asc_return t
      | Some app_id \<Rightarrow> (case stage_parse (ln_stage link) of
              AwaitingBuild \<Rightarrow> awaiting_step asc now link app_id t
            | Distribute \<Rightarrow> distribute_step asc now link app_id t
            | BetaReview \<Rightarrow> beta_review_step asc link t
            | Review \<Rightarrow> review_step asc link t
            | Live \<Rightarrow> live_step asc link t
            | Done \<Rightarrow> asc_return (step_wait POLL_LIVE_SECS))) w1 = (Inr s, w')"
    by (auto simp: advance_def asc_bind_Inr)
  have fresh: "fresh_step (step_wait POLL_PROCESSING_SECS)" by (simp add: fresh_step_def step_wait_def)
  then have fresh': "fresh_step ((step_wait POLL_PROCESSING_SECS)\<lparr>sp_asc_app_id := x\<rparr>)" for x
    by (simp add: fresh_step_def)
  from a have none: "app = None \<Longrightarrow> \<exists>m. t = step_failed (step_wait POLL_PROCESSING_SECS) m"
    and some: "app \<noteq> None \<Longrightarrow> fresh_step t"
    using fresh fresh' by (auto simp: app_id_step_def Let_def asc_bind_Inr split: option.splits)
  show ?thesis
  proof (cases app)
    case None
    with b none failed_sound[OF fresh assms(2)] show ?thesis by auto
  next
    case (Some app_id)
    with some have "fresh_step t" by simp
    then show ?thesis using b Some assms(2) awaiting_sound distribute_sound beta_review_sound review_sound live_sound
      by (cases "stage_parse (ln_stage link)") auto
  qed
qed

definition processed_apple :: "nat apple" where
  "processed_apple = \<lparr>ap_get = (\<lambda>q _. Inr (case q of
       Get_apps b \<Rightarrow> [\<lparr>res_id = ''app'', res_attributes = [(''bundleId'', Attr_Str b)], res_version_ref = None\<rparr>]
     | Get_builds _ _ _ \<Rightarrow> [\<lparr>res_id = ''bld'', res_attributes = [(''processingState'', Attr_Str ''VALID'')],
         res_version_ref = None\<rparr>]
     | _ \<Rightarrow> [])),
     ap_send = (\<lambda>_ n. (Inr None, n + 1))\<rparr>"

theorem stage_moves_forward_witness:
  "\<exists>s w'. advance processed_apple 2000 uploaded_link 0 = (Inr s, w') \<and> sp_stage s = Some Distribute \<and>
     step_sound AwaitingBuild s"
proof -
  let ?a = "advance processed_apple 2000 uploaded_link 0"
  have "(case fst ?a of Inl _ \<Rightarrow> False | Inr s \<Rightarrow> sp_stage s = Some Distribute)" by code_simp
  then obtain s where s: "fst ?a = Inr s" "sp_stage s = Some Distribute" by (auto split: sum.splits)
  then have a: "?a = (Inr s, snd ?a)" by (metis prod.collapse)
  have st: "stage_parse (ln_stage uploaded_link) = AwaitingBuild" by code_simp
  from stage_moves_forward[OF a] st s a show ?thesis by auto
qed

text \<open>
  A TestFlight distribution that is refused because a group is missing has already sent the
  release notes to Apple, although \<open>StepRefusal\<close> says nothing was changed.
\<close>

lemma refusal_after_notes:
  "\<exists>s. distribute_testflight counting_apple ''app'' ''bld'' \<lparr>bd_internal = None, bd_external = None\<rparr>
     (sample_config\<lparr>ac_testflight_groups := [''Beta''],
        ac_release_notes := [\<lparr>note_locale = ''en-US'', note_whats_new = ''x''\<rparr>]\<rparr>) (step_wait 60) 0 = (Inr s, 1) \<and>
     sp_refusal s = Some TestflightGroupNotFound"
proof -
  let ?d = "distribute_testflight counting_apple ''app'' ''bld'' \<lparr>bd_internal = None, bd_external = None\<rparr>
     (sample_config\<lparr>ac_testflight_groups := [''Beta''],
        ac_release_notes := [\<lparr>note_locale = ''en-US'', note_whats_new = ''x''\<rparr>]\<rparr>) (step_wait 60) 0"
  have "snd ?d = 1 \<and> (case fst ?d of Inl _ \<Rightarrow> False | Inr s \<Rightarrow> sp_refusal s = Some TestflightGroupNotFound)" by code_simp
  then show ?thesis by (cases ?d) (auto split: sum.splits)
qed

end
