(* ===== verification/Environments.thy ===== *)
theory Environments
  imports App_Store
begin

text \<open>
  Project environments and promotions, \<^verbatim>\<open>crates/oored/src/environments.rs\<close>: the checks and
  handlers of environments, who may approve, and the promotion of a build from one store track to
  another.

  The store is a \<open>promoter\<close> over a state \<open>'w\<close> the code cannot see, as in \<open>App_Store_Connect\<close>. One
  lock per build and environment is held from the checks through the store call to the recorded
  outcome, so \<open>request_promotion\<close> and \<open>decide_promotion\<close> are single steps on the rows of their build
  and environment; \<open>locked\<close> tells \<open>delete_environment\<close> which of these locks are held. Cascades of the
  schema (promotions and approvers of a deleted environment, its releases' \<open>environment_id\<close>) are
  part of the operations.
\<close>

subsection \<open>Errors\<close>

datatype EnvironmentError =
    Env_NotFound string
  | Env_Invalid string
  | Env_Forbidden string
  | Env_Conflict string string
  | Env_Store string
  | Env_Db string

definition from_release_error :: "ReleaseError \<Rightarrow> EnvironmentError" where
  "from_release_error e =
     (case e of
        Err_NotFound \<Rightarrow> Env_NotFound ''Release not found''
      | Err_Invalid message \<Rightarrow> Env_Invalid message
      | Err_Conflict message \<Rightarrow> Env_Conflict ''invalid_release_state'' message
      | Err_Store error \<Rightarrow> Env_Store error
      | Err_Db error \<Rightarrow> Env_Db error)"

definition short :: "string \<Rightarrow> string" where
  "short error = take MAX_REASON_LEN (join_with '' '' (split_whitespace error))"

definition env_into_api :: "EnvironmentError \<Rightarrow> api_error" where
  "env_into_api e =
     (case e of
        Env_NotFound message \<Rightarrow> ApiError NOT_FOUND ''not_found'' message
      | Env_Invalid message \<Rightarrow> ApiError BAD_REQUEST ''invalid_input'' message
      | Env_Forbidden message \<Rightarrow> ApiError FORBIDDEN ''permission_denied'' message
      | Env_Conflict code message \<Rightarrow> ApiError CONFLICT code message
      | Env_Store error \<Rightarrow>
          ApiError BAD_GATEWAY ''store_rejected'' (''The store did not accept the promotion: '' @ short error)
      | Env_Db error \<Rightarrow> ApiError INTERNAL_SERVER_ERROR ''store_error'' ''Failed to update environments'')"

subsection \<open>Validation\<close>

definition MAX_ENVIRONMENTS :: nat where "MAX_ENVIRONMENTS = 12"
definition MAX_NAME_LEN :: nat where "MAX_NAME_LEN = 64"
definition MAX_KEY_LEN :: nat where "MAX_KEY_LEN = 32"
definition MAX_APPROVERS :: nat where "MAX_APPROVERS = 20"

definition validate_key :: "string \<Rightarrow> EnvironmentError + string" where
  "validate_key raw =
     (let key = trim raw
      in if key \<noteq> [] \<and> length key \<le> MAX_KEY_LEN \<and> is_ascii_lowercase (hd key) \<and>
            list_all (\<lambda>c. is_ascii_lowercase c \<or> is_ascii_digit c \<or> c = CHR ''-'') key
         then Inr key
         else Inl (Env_Invalid
           ''key must be 1 to 32 lowercase letters, digits or dashes, starting with a letter''))"

definition validate_name :: "string \<Rightarrow> EnvironmentError + string" where
  "validate_name raw =
     (let name = trim raw
      in if name = [] \<or> MAX_NAME_LEN < length name then Inl (Env_Invalid ''name must be 1 to 64 characters'')
         else Inr name)"

definition validate_track :: "ReleaseStore \<Rightarrow> string \<Rightarrow> EnvironmentError + string" where
  "validate_track store raw =
     (let track = trim raw;
          valid = (case store of
              GooglePlay \<Rightarrow> track \<noteq> [] \<and> length track \<le> 128 \<and>
                list_all (\<lambda>c. is_ascii_alphanumeric c \<or> c = CHR ''-'' \<or> c = CHR ''_'' \<or> c = CHR '':'') track
            | AppStore \<Rightarrow> track \<noteq> [] \<and> length track \<le> 256)
      in if valid then Inr track
         else Inl (Env_Invalid (case store of
              GooglePlay \<Rightarrow> ''track must be internal, closed, open, production, or a custom track name''
            | AppStore \<Rightarrow> ''track must name the App Store track, such as app_store or a TestFlight group'')))"

definition validate_submit_for_review :: "ReleaseStore \<Rightarrow> string \<Rightarrow> bool \<Rightarrow> EnvironmentError + unit" where
  "validate_submit_for_review store track submit =
     (if submit \<and> (store \<noteq> AppStore \<or> track \<noteq> APP_STORE_TRACK)
      then Inl (Env_Invalid ''submit_for_review applies only to App Store environments on the app_store track'')
      else Inr ())"

text \<open>Every message of \<open>policy_validate\<close> begins with \<open>policy.\<close>, which the code renames.\<close>

definition validate_policy :: "ReleasePolicy \<Rightarrow> EnvironmentError + unit" where
  "validate_policy policy =
     and_then (map_err (\<lambda>message. Env_Invalid (''rollout_'' @ message)) (policy_validate policy))
      (\<lambda>_. if po_approval policy \<noteq> Gate_None
           then Inl (Env_Invalid
             ''rollout_policy.approval must be none; use approval_required on the environment'')
           else Inr ())"

record EnvironmentApproversInput =
  ai_role :: "ApproverRole option"
  ai_user_ids :: "string list"

fun dedup_ids :: "string list \<Rightarrow> string list \<Rightarrow> EnvironmentError + string list" where
  "dedup_ids seen [] = Inr seen"
| "dedup_ids seen (raw # rest) =
     (let user_id = trim raw
      in if user_id = [] then Inl (Env_Invalid ''approvers.user_ids must not contain empty ids'')
         else dedup_ids (if user_id \<in> set seen then seen else seen @ [user_id]) rest)"

definition normalize_approvers ::
  "EnvironmentApproversInput \<Rightarrow> EnvironmentError + (ApproverRole option \<times> string list)" where
  "normalize_approvers input =
     and_then (dedup_ids [] (ai_user_ids input))
      (\<lambda>user_ids.
         if MAX_APPROVERS < length user_ids
         then Inl (Env_Invalid ''an environment can name at most 20 approvers'')
         else Inr (if ai_role input = Some Approver_Maintainer \<and> user_ids = [] then None else ai_role input, user_ids))"

subsection \<open>Tables\<close>

record environment =
  en_id :: string
  en_project_id :: string
  en_key :: string
  en_name :: string
  en_position :: int
  en_store :: ReleaseStore
  en_track :: string
  en_approval_required :: bool
  en_policy :: ReleasePolicy
  en_submit_for_review :: bool
  en_approver_role :: "ApproverRole option"
  en_created_by :: "string option"
  en_updated_by :: "string option"
  en_created_at :: int
  en_updated_at :: int

record promotion =
  pn_id :: string
  pn_project_id :: string
  pn_build_id :: string
  pn_environment_id :: string
  pn_source_release_id :: string
  pn_release_id :: "string option"
  pn_state :: PromotionState
  pn_reason :: "string option"
  pn_decision_reason :: "string option"
  pn_error :: "string option"
  pn_requested_by :: "string option"
  pn_decided_by :: "string option"
  pn_decided_at :: "int option"
  pn_created_at :: int
  pn_updated_at :: int

text \<open>The values an environment audit entry carries.\<close>

datatype env_detail =
    Detail_Text "string option"
  | Detail_Bool bool
  | Detail_Number f64
  | Detail_Int int
  | Detail_Approvers "ApproverRole option" "string list" "string list"
  | Detail_Policy ReleasePolicy

record env_audit_row =
  ea_actor_id :: "string option"
  ea_action :: string
  ea_resource_type :: string
  ea_resource_id :: string
  ea_details :: "(string \<times> env_detail) list"

record env_db =
  adb :: app_store_db
  environments :: "environment list"
  approver_rows :: "(string \<times> string) list"
  users :: "(string \<times> string) list"
  promotions :: "promotion list"
  env_audit :: "env_audit_row list"

abbreviation release_tables :: "env_db \<Rightarrow> release_db" where
  "release_tables db \<equiv> rdb (adb db)"

text \<open>The columns of the environments that an insert of a release reads.\<close>

definition target_of :: "environment \<Rightarrow> environment_target" where
  "target_of e = \<lparr>et_id = en_id e, et_project_id = en_project_id e, et_store = en_store e, et_track = en_track e\<rparr>"

definition set_environments :: "environment list \<Rightarrow> env_db \<Rightarrow> env_db" where
  "set_environments es db =
     db\<lparr>environments := es, adb := set_rdb ((release_tables db)\<lparr>environment_targets := map target_of es\<rparr>) (adb db)\<rparr>"

definition audit_env ::
  "ReleaseActor \<Rightarrow> string \<Rightarrow> string \<Rightarrow> string \<Rightarrow> (string \<times> env_detail) list \<Rightarrow> env_db \<Rightarrow> env_db" where
  "audit_env actor action resource_type resource_id details db =
     db\<lparr>env_audit := env_audit db @ [\<lparr>ea_actor_id = actor_user_id actor, ea_action = action,
          ea_resource_type = resource_type, ea_resource_id = resource_id, ea_details = details\<rparr>]\<rparr>"

subsection \<open>Approvers\<close>

text \<open>An environment as loaded, with the named approvers who still count.\<close>

record EnvironmentApprovers =
  ap_role :: "ApproverRole option"
  ap_users :: "(string \<times> string) list"

definition member_role :: "env_db \<Rightarrow> string \<Rightarrow> string \<Rightarrow> string option" where
  "member_role db project_id user_id =
     map_option pm_role (fetch_optional (\<lambda>m. pm_project_id m = project_id \<and> pm_user_id m = user_id)
       (project_members (core (release_tables db))))"

definition user_email :: "env_db \<Rightarrow> string \<Rightarrow> string option" where
  "user_email db user_id = map_option snd (fetch_optional (\<lambda>u. fst u = user_id) (users db))"

definition fill_approvers :: "env_db \<Rightarrow> environment \<Rightarrow> EnvironmentApprovers" where
  "fill_approvers db e =
     \<lparr>ap_role = en_approver_role e,
      ap_users = sort_key snd (List.map_filter (\<lambda>(env, user_id).
        if env = en_id e \<and> member_role db (en_project_id e) user_id \<in> {Some ''maintainer'', Some ''developer''}
        then map_option (Pair user_id) (user_email db user_id) else None) (approver_rows db))\<rparr>"

definition load_environment :: "env_db \<Rightarrow> string \<Rightarrow> string \<Rightarrow> EnvironmentError + environment" where
  "load_environment db project_id environment_id =
     ok_or (Env_NotFound ''Environment not found'')
       (fetch_optional (\<lambda>e. en_id e = environment_id \<and> en_project_id e = project_id) (environments db))"

definition check_approver_member :: "env_db \<Rightarrow> string \<Rightarrow> string \<Rightarrow> EnvironmentError + unit" where
  "check_approver_member db project_id user_id =
     (case (member_role db project_id user_id, user_email db user_id) of
        (Some role, Some email) \<Rightarrow>
          if role = project_role_to_string Viewer
          then Inl (Env_Invalid (''approvers.user_ids: '' @ email @
                 '' is a viewer; approvers must be developers or maintainers''))
          else Inr ()
      | _ \<Rightarrow> Inl (Env_Invalid (''approvers.user_ids: '' @ user_id @ '' is not a member of this project'')))"

definition check_approver_members :: "env_db \<Rightarrow> string \<Rightarrow> string list \<Rightarrow> EnvironmentError + unit" where
  "check_approver_members db project_id user_ids =
     and_then (collect_results (check_approver_member db project_id) user_ids) (\<lambda>_. Inr ())"

definition store_approvers :: "string \<Rightarrow> string list \<Rightarrow> env_db \<Rightarrow> env_db" where
  "store_approvers environment_id user_ids db =
     db\<lparr>approver_rows := filter (\<lambda>(env, _). env \<noteq> environment_id) (approver_rows db) @
          map (Pair environment_id) user_ids\<rparr>"

definition forget_approver :: "string \<Rightarrow> string \<Rightarrow> env_db \<Rightarrow> env_db" where
  "forget_approver project_id user_id db =
     db\<lparr>approver_rows := filter (\<lambda>(env, user). \<not> (user = user_id \<and>
          exists_row (\<lambda>e. en_id e = env \<and> en_project_id e = project_id) (environments db))) (approver_rows db)\<rparr>"

datatype ApprovalBasis = Basis_InstanceAdmin | Basis_Maintainer | Basis_ApproverRole | Basis_NamedApprover

definition basis_as_str :: "ApprovalBasis \<Rightarrow> string" where
  "basis_as_str b =
     (case b of Basis_InstanceAdmin \<Rightarrow> ''instance_admin'' | Basis_Maintainer \<Rightarrow> ''maintainer''
      | Basis_ApproverRole \<Rightarrow> ''approver_role'' | Basis_NamedApprover \<Rightarrow> ''named_approver'')"

definition role_meets :: "ProjectRole \<Rightarrow> ApproverRole \<Rightarrow> bool" where
  "role_meets role least =
     (case least of Approver_Maintainer \<Rightarrow> role = Maintainer
      | Approver_Developer \<Rightarrow> role = Maintainer \<or> role = Developer)"

definition approvers_set :: "EnvironmentApprovers \<Rightarrow> bool" where
  "approvers_set approvers \<longleftrightarrow> ap_role approvers \<noteq> None \<or> ap_users approvers \<noteq> []"

definition approval_basis ::
  "EffectiveProjectRole \<Rightarrow> string option \<Rightarrow> EnvironmentApprovers \<Rightarrow> ApprovalBasis option" where
  "approval_basis role user_id approvers =
     (case role of
        InstanceAdmin \<Rightarrow> Some Basis_InstanceAdmin
      | No_Role \<Rightarrow> None
      | Member m \<Rightarrow>
          if \<not> approvers_set approvers
          then (if check_project_permission role Perm_ManageReleases then Some Basis_Maintainer else None)
          else if (case ap_role approvers of None \<Rightarrow> False | Some least \<Rightarrow> role_meets m least)
          then Some Basis_ApproverRole
          else if (case user_id of None \<Rightarrow> False | Some u \<Rightarrow> list_ex (\<lambda>a. fst a = u) (ap_users approvers)) \<and>
                  check_project_permission role Perm_OperateRelease
          then Some Basis_NamedApprover else None)"

definition describe_approvers :: "EnvironmentApprovers \<Rightarrow> string" where
  "describe_approvers approvers =
     join_with '', or '' ((case ap_role approvers of
         None \<Rightarrow> if ap_users approvers = [] then [''maintainers''] else []
       | Some Approver_Maintainer \<Rightarrow> [''maintainers'']
       | Some Approver_Developer \<Rightarrow> [''developers and maintainers'']) @ map snd (ap_users approvers))"

definition approvers_audit :: "EnvironmentApprovers \<Rightarrow> env_detail" where
  "approvers_audit approvers =
     Detail_Approvers (ap_role approvers) (map fst (ap_users approvers)) (map snd (ap_users approvers))"

subsection \<open>Environment settings\<close>

record CreateProjectEnvironmentRequest =
  ce_key :: string
  ce_name :: string
  ce_store :: ReleaseStore
  ce_track :: string
  ce_approval_required :: bool
  ce_rollout_policy :: "ReleasePolicy option"
  ce_submit_for_review :: bool
  ce_approvers :: "EnvironmentApproversInput option"

record UpdateProjectEnvironmentRequest =
  ue_name :: "string option"
  ue_track :: "string option"
  ue_approval_required :: "bool option"
  ue_rollout_policy :: "ReleasePolicy option"
  ue_submit_for_review :: "bool option"
  ue_position :: "int option"
  ue_approvers :: "EnvironmentApproversInput option"

text \<open>The unique constraints \<open>(project_id, env_key)\<close> and \<open>(project_id, store, track)\<close>.\<close>

definition env_clash :: "environment \<Rightarrow> environment \<Rightarrow> bool" where
  "env_clash a b \<longleftrightarrow> en_id a = en_id b \<or>
     en_project_id a = en_project_id b \<and>
       (en_key a = en_key b \<or> en_store a = en_store b \<and> en_track a = en_track b)"

definition next_position :: "env_db \<Rightarrow> string \<Rightarrow> int" where
  "next_position db project_id =
     (case filter (\<lambda>e. en_project_id e = project_id) (environments db) of
        [] \<Rightarrow> 0 | e # es \<Rightarrow> fold (\<lambda>x m. max m (en_position x)) es (en_position e) + 1)"

text \<open>The \<open>before\<close> and \<open>after\<close> of an update's audit entry.\<close>

definition env_details :: "env_db \<Rightarrow> environment \<Rightarrow> (string \<times> env_detail) list" where
  "env_details db e =
     [(''name'', Detail_Text (Some (en_name e))), (''track'', Detail_Text (Some (en_track e))),
      (''approval_required'', Detail_Bool (en_approval_required e)),
      (''approvers'', approvers_audit (fill_approvers db e)),
      (''rollout_policy'', Detail_Policy (en_policy e)),
      (''submit_for_review'', Detail_Bool (en_submit_for_review e)),
      (''position'', Detail_Int (en_position e))]"

text \<open>The checks of a create request, before the transaction.\<close>

definition checked_environment ::
  "string \<Rightarrow> int \<Rightarrow> string \<Rightarrow> ReleaseActor \<Rightarrow> CreateProjectEnvironmentRequest \<Rightarrow>
   EnvironmentError + (environment \<times> string list)" where
  "checked_environment eid now project_id actor req =
     and_then (validate_key (ce_key req))
      (\<lambda>key. and_then (validate_name (ce_name req))
      (\<lambda>name. and_then (validate_track (ce_store req) (ce_track req))
      (\<lambda>track.
     let policy = unwrap_or default_policy (ce_rollout_policy req)
     in and_then (validate_policy policy)
      (\<lambda>_. and_then (validate_submit_for_review (ce_store req) track (ce_submit_for_review req))
      (\<lambda>_. and_then (case ce_approvers req of None \<Rightarrow> Inr (None, []) | Some a \<Rightarrow> normalize_approvers a)
      (\<lambda>(role, ids). Inr
         (\<lparr>en_id = eid, en_project_id = project_id, en_key = key, en_name = name, en_position = 0,
           en_store = ce_store req, en_track = track, en_approval_required = ce_approval_required req,
           en_policy = policy, en_submit_for_review = ce_submit_for_review req, en_approver_role = role,
           en_created_by = actor_user_id actor, en_updated_by = actor_user_id actor,
           en_created_at = now, en_updated_at = now\<rparr>, ids)))))))"

definition create_environment ::
  "string \<Rightarrow> int \<Rightarrow> string \<Rightarrow> ReleaseActor \<Rightarrow> CreateProjectEnvironmentRequest \<Rightarrow> env_db \<Rightarrow>
   EnvironmentError + (environment \<times> env_db)" where
  "create_environment eid now project_id actor req db =
     and_then (checked_environment eid now project_id actor req)
      (\<lambda>(checked, approver_ids).
     if MAX_ENVIRONMENTS \<le> length (filter (\<lambda>e. en_project_id e = project_id) (environments db))
     then Inl (Env_Invalid ''a project can have at most 12 environments'')
     else and_then (check_approver_members db project_id approver_ids)
      (\<lambda>_.
     let e = checked\<lparr>en_position := next_position db project_id\<rparr>
     in if exists_row (env_clash e) (environments db)
        then Inl (Env_Conflict ''environment_exists''
               ''Another environment already uses this key, or this store and track'')
        else
          let db1 = store_approvers eid approver_ids (set_environments (environments db @ [e]) db)
          in Inr (e, audit_env actor ''environment_created'' ''project_environment'' eid
               ([(''actor_email'', Detail_Text (actor_email actor)), (''project_id'', Detail_Text (Some project_id)),
                 (''key'', Detail_Text (Some (en_key e))),
                 (''store'', Detail_Text (Some (release_store_to_string (en_store e)))),
                 (''track'', Detail_Text (Some (en_track e))),
                 (''approval_required'', Detail_Bool (en_approval_required e)),
                 (''approvers'', approvers_audit (fill_approvers db1 e)),
                 (''rollout_policy'', Detail_Policy (en_policy e)),
                 (''submit_for_review'', Detail_Bool (en_submit_for_review e))]) db1)))"

text \<open>The updated row, or the first check that fails.\<close>

definition updated_environment ::
  "int \<Rightarrow> ReleaseActor \<Rightarrow> UpdateProjectEnvironmentRequest \<Rightarrow> environment \<Rightarrow> env_db \<Rightarrow>
   EnvironmentError + (environment \<times> string list option)" where
  "updated_environment now actor req current db =
     and_then (case ue_name req of None \<Rightarrow> Inr (en_name current) | Some n \<Rightarrow> validate_name n)
      (\<lambda>name. and_then (case ue_track req of None \<Rightarrow> Inr (en_track current)
                 | Some t \<Rightarrow> validate_track (en_store current) t)
      (\<lambda>track.
     if track \<noteq> en_track current \<and>
        exists_row (\<lambda>r. rl_environment_id r = Some (en_id current)) (releases (release_tables db))
     then Inl (Env_Invalid (en_name current @ '' already has releases on the '' @ en_track current @
            '' track, so its track cannot change. Add a new environment for the '' @ track @ '' track instead.''))
     else
       let policy = unwrap_or (en_policy current) (ue_rollout_policy req);
           submit = unwrap_or (en_submit_for_review current) (ue_submit_for_review req);
           position = unwrap_or (en_position current) (ue_position req)
       in and_then (validate_policy policy)
      (\<lambda>_. and_then (validate_submit_for_review (en_store current) track submit)
      (\<lambda>_. if position < 0 then Inl (Env_Invalid ''position must not be negative'')
     else and_then (case ue_approvers req of None \<Rightarrow> Inr (en_approver_role current, None)
             | Some a \<Rightarrow> and_then (normalize_approvers a) (\<lambda>(role, ids). Inr (role, Some ids)))
      (\<lambda>(role, ids). Inr (current\<lparr>en_name := name, en_track := track,
          en_approval_required := unwrap_or (en_approval_required current) (ue_approval_required req),
          en_policy := policy, en_position := position, en_submit_for_review := submit,
          en_approver_role := role, en_updated_by := actor_user_id actor, en_updated_at := now\<rparr>, ids))))))"

definition update_environment ::
  "int \<Rightarrow> string \<Rightarrow> string \<Rightarrow> ReleaseActor \<Rightarrow> UpdateProjectEnvironmentRequest \<Rightarrow> env_db \<Rightarrow>
   EnvironmentError + (environment \<times> env_db)" where
  "update_environment now project_id environment_id actor req db =
     and_then (load_environment db project_id environment_id)
      (\<lambda>current. and_then (updated_environment now actor req current db)
      (\<lambda>(e, ids). and_then (case ids of None \<Rightarrow> Inr () | Some us \<Rightarrow> check_approver_members db project_id us)
      (\<lambda>_.
     if exists_row (\<lambda>x. en_id x \<noteq> environment_id \<and> env_clash e x) (environments db)
     then Inl (Env_Conflict ''environment_exists'' ''Another environment already uses this store and track'')
     else
       let db1 = set_environments (update_where
             (\<lambda>x. en_id x = environment_id \<and> en_project_id x = project_id) (\<lambda>_. e) (environments db)) db;
           db2 = (case ids of None \<Rightarrow> db1 | Some us \<Rightarrow> store_approvers environment_id us db1)
       in Inr (e, audit_env actor ''environment_updated'' ''project_environment'' environment_id
            ([(''actor_email'', Detail_Text (actor_email actor)), (''project_id'', Detail_Text (Some project_id)),
              (''key'', Detail_Text (Some (en_key e)))] @
             map (\<lambda>(k, v). (''before.'' @ k, v)) (env_details db current) @
             map (\<lambda>(k, v). (''after.'' @ k, v)) (env_details db2 e)) db2))))"

subsection \<open>Promotion rows\<close>

record EnvironmentPromotion =
  ep_row :: promotion
  ep_build_number :: "int option"
  ep_version_name :: "string option"
  ep_version_code :: "int option"
  ep_environment_name :: string
  ep_source_environment_name :: "string option"
  ep_source_track :: string
  ep_requested_by_email :: "string option"
  ep_decided_by_email :: "string option"
  ep_can_decide :: bool

record Viewer =
  vw_role :: EffectiveProjectRole
  vw_user_id :: "string option"

definition environment_name :: "env_db \<Rightarrow> release \<Rightarrow> string option" where
  "environment_name db r =
     Option.bind (rl_environment_id r)
       (\<lambda>eid. map_option en_name (fetch_optional (\<lambda>e. en_id e = eid) (environments db)))"

text \<open>The joined row: the environment and the source release must exist.\<close>

definition row_to_promotion ::
  "env_db \<Rightarrow> Viewer \<Rightarrow> EnvironmentApprovers \<Rightarrow> environment \<Rightarrow> release \<Rightarrow> promotion \<Rightarrow> EnvironmentPromotion" where
  "row_to_promotion db viewer approvers e source p =
     \<lparr>ep_row = p, ep_build_number = map_option b_build_number (find_build (core (release_tables db)) (pn_build_id p)),
      ep_version_name = rl_version_name source, ep_version_code = rl_version_code source,
      ep_environment_name = en_name e, ep_source_environment_name = environment_name db source,
      ep_source_track = rl_track source,
      ep_requested_by_email = Option.bind (pn_requested_by p) (user_email db),
      ep_decided_by_email = Option.bind (pn_decided_by p) (user_email db),
      ep_can_decide = (pn_state p = Promotion_Pending \<and>
        approval_basis (vw_role viewer) (vw_user_id viewer) approvers \<noteq> None)\<rparr>"

definition find_promotion :: "env_db \<Rightarrow> string \<Rightarrow> promotion option" where
  "find_promotion db promotion_id = fetch_optional (\<lambda>p. pn_id p = promotion_id) (promotions db)"

definition load_promotion_with_environment ::
  "env_db \<Rightarrow> string \<Rightarrow> string \<Rightarrow> Viewer \<Rightarrow> EnvironmentError + (EnvironmentPromotion \<times> environment)" where
  "load_promotion_with_environment db project_id promotion_id viewer =
     (case fetch_optional (\<lambda>p. pn_id p = promotion_id \<and> pn_project_id p = project_id) (promotions db) of
        None \<Rightarrow> Inl (Env_NotFound ''Promotion not found'')
      | Some p \<Rightarrow>
          (case fetch_optional (\<lambda>r. rl_id r = pn_source_release_id p) (releases (release_tables db)) of
             None \<Rightarrow> Inl (Env_NotFound ''Promotion not found'')
           | Some source \<Rightarrow>
               if \<not> exists_row (\<lambda>e. en_id e = pn_environment_id p) (environments db)
               then Inl (Env_NotFound ''Promotion not found'')
               else and_then (load_environment db project_id (pn_environment_id p))
                 (\<lambda>e. Inr (row_to_promotion db viewer (fill_approvers db e) e source p, e))))"

definition update_promotions ::
  "(promotion \<Rightarrow> bool) \<Rightarrow> (promotion \<Rightarrow> promotion) \<Rightarrow> env_db \<Rightarrow> env_db" where
  "update_promotions P f db = db\<lparr>promotions := update_where P f (promotions db)\<rparr>"

definition mark_failed :: "int \<Rightarrow> string \<Rightarrow> string \<Rightarrow> env_db \<Rightarrow> env_db" where
  "mark_failed now promotion_id message =
     update_promotions (\<lambda>p. pn_id p = promotion_id)
       (\<lambda>p. p\<lparr>pn_state := Promotion_Failed, pn_error := Some message, pn_updated_at := now\<rparr>)"

definition STALE_PROMOTING :: string where
  "STALE_PROMOTING = ''Oore stopped before it recorded the outcome; check Play Console or App Store Connect''"

definition ENVIRONMENT_DELETED :: string where
  "ENVIRONMENT_DELETED = ''environment deleted''"

definition INTERRUPTED_BY_RESTART :: string where
  "INTERRUPTED_BY_RESTART =
     ''Interrupted by daemon restart; check Play Console or App Store Connect before promoting again''"

definition fail_interrupted_promotions :: "int \<Rightarrow> env_db \<Rightarrow> nat \<times> env_db" where
  "fail_interrupted_promotions now db =
     (let ids = map pn_id (filter (\<lambda>p. pn_state p = Promotion_Promoting) (promotions db))
      in (length ids, fold (\<lambda>i d. audit_env System ''promotion_failed'' ''environment_promotion'' i
            [(''error'', Detail_Text (Some INTERRUPTED_BY_RESTART))] (mark_failed now i INTERRUPTED_BY_RESTART d)) ids db))"

definition open_promotion :: "promotion \<Rightarrow> bool" where
  "open_promotion p \<longleftrightarrow> pn_state p = Promotion_Pending \<or> pn_state p = Promotion_Promoting"

subsection \<open>Deleting an environment\<close>

definition reject_for_delete :: "int \<Rightarrow> ReleaseActor \<Rightarrow> environment \<Rightarrow> promotion \<Rightarrow> env_db \<Rightarrow> env_db" where
  "reject_for_delete now actor current p db =
     audit_env actor ''promotion_rejected'' ''environment_promotion'' (pn_id p)
       [(''actor_email'', Detail_Text (actor_email actor)), (''project_id'', Detail_Text (Some (en_project_id current))),
        (''build_id'', Detail_Text (Some (pn_build_id p))), (''environment'', Detail_Text (Some (en_key current))),
        (''reason'', Detail_Text (Some ENVIRONMENT_DELETED))]
       (update_promotions (\<lambda>x. pn_id x = pn_id p \<and> pn_state x = Promotion_Pending)
         (\<lambda>x. x\<lparr>pn_state := Promotion_Rejected, pn_decided_by := actor_user_id actor, pn_decided_at := Some now,
           pn_decision_reason := Some ENVIRONMENT_DELETED, pn_updated_at := now\<rparr>) db)"

definition fail_for_delete :: "int \<Rightarrow> ReleaseActor \<Rightarrow> environment \<Rightarrow> promotion \<Rightarrow> env_db \<Rightarrow> env_db" where
  "fail_for_delete now actor current p db =
     audit_env actor ''promotion_failed'' ''environment_promotion'' (pn_id p)
       [(''actor_email'', Detail_Text (actor_email actor)), (''project_id'', Detail_Text (Some (en_project_id current))),
        (''build_id'', Detail_Text (Some (pn_build_id p))), (''environment'', Detail_Text (Some (en_key current))),
        (''error'', Detail_Text (Some STALE_PROMOTING)),
        (''previous_state'', Detail_Text (Some (promotion_state_to_string (pn_state p))))]
       (mark_failed now (pn_id p) STALE_PROMOTING db)"

text \<open>
  The loop over the open promotions. A held lock ends it with a conflict, and what was settled
  before stays settled.
\<close>

fun settle_open ::
  "(string \<Rightarrow> string \<Rightarrow> bool) \<Rightarrow> int \<Rightarrow> ReleaseActor \<Rightarrow> environment \<Rightarrow> promotion list \<Rightarrow> env_db \<Rightarrow> bool \<times> env_db" where
  "settle_open locked now actor current [] db = (True, db)"
| "settle_open locked now actor current (p # ps) db =
     (if locked (pn_build_id p) (en_id current) then (False, db)
      else settle_open locked now actor current ps
        (case map_option pn_state (find_promotion db (pn_id p)) of
           Some Promotion_Pending \<Rightarrow> reject_for_delete now actor current p db
         | Some Promotion_Promoting \<Rightarrow> fail_for_delete now actor current p db
         | _ \<Rightarrow> db))"

text \<open>The \<open>DELETE\<close> with the cascades of the schema.\<close>

definition drop_environment :: "string \<Rightarrow> env_db \<Rightarrow> env_db" where
  "drop_environment eid db =
     (let db1 = set_environments (filter (\<lambda>e. en_id e \<noteq> eid) (environments db)) db
      in db1\<lparr>approver_rows := filter (\<lambda>(env, _). env \<noteq> eid) (approver_rows db1),
             promotions := filter (\<lambda>p. pn_environment_id p \<noteq> eid) (promotions db1),
             adb := set_rdb (update_releases (\<lambda>r. rl_environment_id r = Some eid)
               (\<lambda>r. r\<lparr>rl_environment_id := None\<rparr>) (release_tables db1)) (adb db1)\<rparr>)"

definition delete_environment ::
  "(string \<Rightarrow> string \<Rightarrow> bool) \<Rightarrow> int \<Rightarrow> string \<Rightarrow> string \<Rightarrow> ReleaseActor \<Rightarrow> env_db \<Rightarrow>
   (EnvironmentError + unit) \<times> env_db" where
  "delete_environment locked now project_id environment_id actor db =
     (case load_environment db project_id environment_id of
        Inl e \<Rightarrow> (Inl e, db)
      | Inr current \<Rightarrow>
          (case settle_open locked now actor current
                  (filter (\<lambda>p. pn_environment_id p = environment_id \<and> open_promotion p) (promotions db)) db of
             (False, db1) \<Rightarrow> (Inl (Env_Conflict ''promotion_in_progress''
               ''A promotion into this environment is in progress; try again when it finishes''), db1)
           | (True, db1) \<Rightarrow>
               (Inr (), audit_env actor ''environment_deleted'' ''project_environment'' environment_id
                  [(''actor_email'', Detail_Text (actor_email actor)), (''project_id'', Detail_Text (Some project_id)),
                   (''key'', Detail_Text (Some (en_key current))),
                   (''store'', Detail_Text (Some (release_store_to_string (en_store current)))),
                   (''track'', Detail_Text (Some (en_track current)))] (drop_environment environment_id db1))))"

subsection \<open>Promoting a build\<close>

definition initial_rollout :: "environment \<Rightarrow> ReleaseState \<times> f64 \<times> f64 option" where
  "initial_rollout e =
     (let first = (case po_steps (en_policy e) of [] \<Rightarrow> Finite 1 | x # _ \<Rightarrow> x)
      in if en_track e = ''internal'' \<or> f64_le (Finite 1) first then (Release_Complete, Finite 1, None)
         else (Rolling, first, Some first))"

definition live_source :: "release \<Rightarrow> bool" where
  "live_source r \<longleftrightarrow> rl_state r = Rolling \<or> rl_state r = Paused \<or> rl_state r = Release_Complete"

definition is_source :: "env_db \<Rightarrow> string \<Rightarrow> environment \<Rightarrow> release \<Rightarrow> bool" where
  "is_source db build_id e r \<longleftrightarrow>
     rl_build_id r = build_id \<and> rl_store r = en_store e \<and>
     (case en_store e of
        GooglePlay \<Rightarrow> rl_version_code r \<noteq> None
      | AppStore \<Rightarrow> rl_track r \<noteq> APP_STORE_TRACK \<and>
          exists_row (\<lambda>l. ln_release_id l = rl_id r \<and> ln_asc_build_id l \<noteq> None) (links (adb db))) \<and>
     live_source r \<and> rl_environment_id r \<noteq> Some (en_id e)"

text \<open>\<open>ORDER BY created_at DESC, id LIMIT 1\<close>.\<close>

definition find_source_release :: "env_db \<Rightarrow> string \<Rightarrow> environment \<Rightarrow> release option" where
  "find_source_release db build_id e =
     first_of (sort_key (\<lambda>r. (- rl_created_at r, rl_id r)) (filter (is_source db build_id e) (releases (release_tables db))))"

text \<open>
  Refuse a build that is already in, or on its way into, the environment; a \<open>promoting\<close> row that
  no call works on is marked failed. The rows marked before a refusal stay marked.
\<close>

fun settle_stale ::
  "int \<Rightarrow> environment \<Rightarrow> string option \<Rightarrow> promotion list \<Rightarrow> env_db \<Rightarrow> (EnvironmentError + unit) \<times> env_db" where
  "settle_stale now e skip [] db = (Inr (), db)"
| "settle_stale now e skip (p # ps) db =
     (if skip = Some (pn_id p) then settle_stale now e skip ps db
      else if pn_state p = Promotion_Pending
      then (Inl (Env_Conflict ''promotion_pending''
              (''A promotion of this build into '' @ en_name e @ '' is already waiting for approval'')), db)
      else settle_stale now e skip ps (mark_failed now (pn_id p) STALE_PROMOTING db))"

definition ensure_not_promoted ::
  "int \<Rightarrow> string \<Rightarrow> environment \<Rightarrow> string option \<Rightarrow> env_db \<Rightarrow> (EnvironmentError + unit) \<times> env_db" where
  "ensure_not_promoted now build_id e skip db =
     (if \<not> exists_row (\<lambda>x. en_id x = en_id e) (environments db)
      then (Inl (Env_NotFound ''Environment not found''), db)
      else if exists_row (\<lambda>r. rl_build_id r = build_id \<and> rl_environment_id r = Some (en_id e) \<and>
                rl_state r \<noteq> Release_Failed) (releases (release_tables db))
      then (Inl (Env_Conflict ''already_in_environment''
              (''This build already has a release in '' @ en_name e)), db)
      else settle_stale now e skip (filter (\<lambda>p. pn_build_id p = build_id \<and> pn_environment_id p = en_id e \<and>
             open_promotion p) (promotions db)) db)"

type_synonym 'w promoter = "env_db \<Rightarrow> release \<Rightarrow> PromotionTarget \<Rightarrow> ('w, promote_error, Promoted) remote"

definition promotion_target :: "environment \<Rightarrow> PromotionTarget" where
  "promotion_target e =
     \<lparr>pg_track = en_track e, pg_fraction = snd (snd (initial_rollout e)),
      pg_phased_release = (case po_steps (en_policy e) of [] \<Rightarrow> False | first # _ \<Rightarrow> f64_less first (Finite 1)),
      pg_submit_for_review = en_submit_for_review e\<rparr>"

definition promotion_note :: "env_db \<Rightarrow> release \<Rightarrow> string option \<Rightarrow> string option \<Rightarrow> string" where
  "promotion_note db source reason detail =
     (let from = (case environment_name db source of Some n \<Rightarrow> n | None \<Rightarrow> ''the '' @ rl_track source @ '' track'');
          note = ''Promoted from '' @ from @ '' without a new build'' @
            (case reason of None \<Rightarrow> [] | Some r \<Rightarrow> '': '' @ r)
      in case detail of None \<Rightarrow> note | Some d \<Rightarrow> note @ ''. '' @ d)"

definition promoted_release :: "environment \<Rightarrow> release \<Rightarrow> ReleaseState \<Rightarrow> f64 \<Rightarrow> NewRelease" where
  "promoted_release e source state fraction =
     \<lparr>nr_project_id = rl_project_id source, nr_build_id = rl_build_id source, nr_artifact_id = rl_artifact_id source,
      nr_store = rl_store source, nr_track = en_track e, nr_package_name = rl_package_name source,
      nr_version_name = rl_version_name source, nr_version_code = rl_version_code source,
      nr_state = state, nr_rollout_fraction = fraction, nr_policy = en_policy e,
      nr_environment_id = Some (en_id e), nr_promoted_from_release_id = Some (rl_id source)\<rparr>"

definition completed_columns :: "int \<Rightarrow> string \<Rightarrow> promotion \<Rightarrow> promotion" where
  "completed_columns now release_id p =
     p\<lparr>pn_state := Promotion_Completed, pn_release_id := Some release_id, pn_error := None, pn_updated_at := now\<rparr>"

text \<open>The transaction: the release, its monitor link and the completed promotion, or none of them.\<close>

definition record_promotion ::
  "string \<Rightarrow> int \<Rightarrow> string \<Rightarrow> environment \<Rightarrow> release \<Rightarrow> ReleaseActor \<Rightarrow> string option \<Rightarrow> Promoted \<Rightarrow> env_db \<Rightarrow>
   EnvironmentError + (release \<times> env_db)" where
  "record_promotion rid now promotion_id e source actor reason promoted db =
     (let (state, fraction, _) = initial_rollout e;
          (state, fraction) = unwrap_or (state, fraction) (pd_start promoted);
          note = promotion_note db source reason (pd_detail promoted)
      in case insert_release rid now (promoted_release e source state fraction) actor (Some note) (release_tables db) of
           Inl error \<Rightarrow> Inl (from_release_error error)
         | Inr (r, why, d) \<Rightarrow>
             and_then (case pd_app_store_link promoted of
                         None \<Rightarrow> Inr (set_rdb d (adb db))
                       | Some link \<Rightarrow> map_err Env_Db (record_promoted_link now (rl_id r) link (set_rdb d (adb db))))
               (\<lambda>a. Inr (r, update_promotions (\<lambda>p. pn_id p = promotion_id) (completed_columns now (rl_id r))
                        (db\<lparr>adb := set_rdb (finish_create r why actor now (rdb a)) a\<rparr>))))"

definition unrecorded_message :: "environment \<Rightarrow> release \<Rightarrow> string" where
  "unrecorded_message e source =
     (case rl_store source of
        GooglePlay \<Rightarrow> ''Play now has version code '' @ show_int (unwrap_or 0 (rl_version_code source)) @
          '' on the '' @ en_track e @ '' track, but Oore could not record the release''
      | AppStore \<Rightarrow> ''App Store Connect now has this build in '' @ en_name e @
          '', but Oore could not record the release'')"

definition execute_promotion ::
  "'w promoter \<Rightarrow> string \<Rightarrow> int \<Rightarrow> string \<Rightarrow> environment \<Rightarrow> release \<Rightarrow> ReleaseActor \<Rightarrow> string option \<Rightarrow>
   env_db \<times> 'w \<Rightarrow> (EnvironmentError + release) \<times> env_db \<times> 'w" where
  "execute_promotion promote rid now promotion_id e source actor reason acc =
     (let (db, w) = acc
      in case promote db source (promotion_target e) w of
           (Inl error, w1) \<Rightarrow>
             let message = (case error of Refused _ m \<Rightarrow> m | Promote_Failed m \<Rightarrow> short m);
                 code = (case error of Refused c _ \<Rightarrow> Some c | Promote_Failed _ \<Rightarrow> None);
                 db1 = audit_env actor ''promotion_failed'' ''environment_promotion'' promotion_id
                   [(''actor_email'', Detail_Text (actor_email actor)),
                    (''build_id'', Detail_Text (Some (rl_build_id source))),
                    (''environment'', Detail_Text (Some (en_key e))), (''code'', Detail_Text code),
                    (''error'', Detail_Text (Some message))] (mark_failed now promotion_id message db)
             in (Inl (case error of Refused c m \<Rightarrow> Env_Conflict c m | Promote_Failed m \<Rightarrow> Env_Store m), db1, w1)
         | (Inr promoted, w1) \<Rightarrow>
             (case record_promotion rid now promotion_id e source actor reason promoted db of
                Inl error \<Rightarrow> (Inl error, mark_failed now promotion_id (unrecorded_message e source) db, w1)
              | Inr (r, db1) \<Rightarrow>
                  (Inr r, audit_env actor ''promotion_completed'' ''environment_promotion'' promotion_id
                     [(''actor_email'', Detail_Text (actor_email actor)),
                      (''build_id'', Detail_Text (Some (rl_build_id source))),
                      (''environment'', Detail_Text (Some (en_key e))),
                      (''source_release_id'', Detail_Text (Some (rl_id source))),
                      (''release_id'', Detail_Text (Some (rl_id r))), (''track'', Detail_Text (Some (rl_track r))),
                      (''state'', Detail_Text (Some (release_state_to_string (rl_state r)))),
                      (''rollout_fraction'', Detail_Number (rl_rollout_fraction r))] db1, w1)))"

record CreatePromotionRequest =
  pq_build_id :: string
  pq_environment_id :: string
  pq_reason :: "string option"

definition no_source :: "environment \<Rightarrow> EnvironmentError" where
  "no_source e =
     Env_Conflict ''no_source_release'' (case en_store e of
        GooglePlay \<Rightarrow> ''This build has no live Google Play release to promote. Publish it to a track first.''
      | AppStore \<Rightarrow> ''This build has no TestFlight release to promote. '' @
          ''Upload it to TestFlight with Oore and wait until testers have it.'')"

text \<open>The checks before the lock: the environment, the caller's permission and the build.\<close>

definition check_promotion_request ::
  "string \<Rightarrow> EffectiveProjectRole \<Rightarrow> CreatePromotionRequest \<Rightarrow> env_db \<Rightarrow> EnvironmentError + environment" where
  "check_promotion_request project_id role req db =
     and_then (load_environment db project_id (pq_environment_id req))
      (\<lambda>e.
     if \<not> check_project_permission role
          (if en_approval_required e then Perm_OperateRelease else Perm_ManageReleases)
     then Inl (Env_Forbidden (if en_approval_required e
            then ''You do not have permission to promote builds in this project''
            else ''Promoting into '' @ en_name e @ '' takes the maintainer role. '' @
                 ''A maintainer can require approval on it so developers can ask.''))
     else (case fetch_optional (\<lambda>b. b_id b = pq_build_id req \<and> b_project_id b = project_id)
                  (builds (core (release_tables db))) of
             None \<Rightarrow> Inl (Env_NotFound ''Build not found'')
           | Some b \<Rightarrow>
               if b_status b \<noteq> Succeeded
               then Inl (Env_Conflict ''build_not_succeeded'' ''Only a succeeded build can be promoted'')
               else Inr e))"

definition new_promotion ::
  "string \<Rightarrow> int \<Rightarrow> string \<Rightarrow> environment \<Rightarrow> release \<Rightarrow> ReleaseActor \<Rightarrow> CreatePromotionRequest \<Rightarrow> promotion" where
  "new_promotion pid now project_id e source actor req =
     \<lparr>pn_id = pid, pn_project_id = project_id, pn_build_id = pq_build_id req, pn_environment_id = en_id e,
      pn_source_release_id = rl_id source, pn_release_id = None,
      pn_state = (if en_approval_required e then Promotion_Pending else Promotion_Promoting),
      pn_reason = clean_reason (pq_reason req), pn_decision_reason = None, pn_error = None,
      pn_requested_by = actor_user_id actor, pn_decided_by = None, pn_decided_at = None,
      pn_created_at = now, pn_updated_at = now\<rparr>"

definition insert_promotion ::
  "string \<Rightarrow> promotion \<Rightarrow> environment \<Rightarrow> release \<Rightarrow> ReleaseActor \<Rightarrow> env_db \<Rightarrow> EnvironmentError + env_db" where
  "insert_promotion project_id p e source actor db =
     (if exists_row (\<lambda>x. pn_id x = pn_id p) (promotions db)
      then Inl (Env_Db ''UNIQUE constraint failed: environment_promotions.id'')
      else Inr (audit_env actor ''promotion_requested'' ''environment_promotion'' (pn_id p)
        [(''actor_email'', Detail_Text (actor_email actor)), (''project_id'', Detail_Text (Some project_id)),
         (''build_id'', Detail_Text (Some (pn_build_id p))), (''environment'', Detail_Text (Some (en_key e))),
         (''source_release_id'', Detail_Text (Some (rl_id source))), (''source_track'', Detail_Text (Some (rl_track source))),
         (''approval_required'', Detail_Bool (en_approval_required e)), (''reason'', Detail_Text (pn_reason p))]
        (db\<lparr>promotions := promotions db @ [p]\<rparr>)))"

text \<open>Up to the store call: the promotion row is inserted, pending or promoting.\<close>

definition begin_promotion ::
  "string \<Rightarrow> int \<Rightarrow> string \<Rightarrow> EffectiveProjectRole \<Rightarrow> ReleaseActor \<Rightarrow> CreatePromotionRequest \<Rightarrow> env_db \<Rightarrow>
   (EnvironmentError + (environment \<times> release)) \<times> env_db" where
  "begin_promotion pid now project_id role actor req db =
     (case check_promotion_request project_id role req db of
        Inl error \<Rightarrow> (Inl error, db)
      | Inr e \<Rightarrow>
          (case ensure_not_promoted now (pq_build_id req) e None db of
             (Inl error, db1) \<Rightarrow> (Inl error, db1)
           | (Inr _, db1) \<Rightarrow>
               (case find_source_release db1 (pq_build_id req) e of
                  None \<Rightarrow> (Inl (no_source e), db1)
                | Some source \<Rightarrow>
                    (case insert_promotion project_id (new_promotion pid now project_id e source actor req) e source
                            actor db1 of
                       Inl error \<Rightarrow> (Inl error, db1)
                     | Inr db2 \<Rightarrow> (Inr (e, source), db2)))))"

definition request_promotion ::
  "'w promoter \<Rightarrow> string \<Rightarrow> string \<Rightarrow> int \<Rightarrow> string \<Rightarrow> EffectiveProjectRole \<Rightarrow> ReleaseActor \<Rightarrow>
   CreatePromotionRequest \<Rightarrow> env_db \<times> 'w \<Rightarrow> (EnvironmentError + EnvironmentPromotion) \<times> env_db \<times> 'w" where
  "request_promotion promote pid rid now project_id role actor req acc =
     (let (db, w) = acc;
          viewer = \<lparr>vw_role = role, vw_user_id = actor_user_id actor\<rparr>;
          view = (\<lambda>d. map_sum id fst (load_promotion_with_environment d project_id pid viewer))
      in case begin_promotion pid now project_id role actor req db of
           (Inl error, db1) \<Rightarrow> (Inl error, db1, w)
         | (Inr (e, source), db1) \<Rightarrow>
             if en_approval_required e then (view db1, db1, w)
             else (case execute_promotion promote rid now pid e source actor (clean_reason (pq_reason req)) (db1, w) of
                     (Inl error, db2, w2) \<Rightarrow> (Inl error, db2, w2)
                   | (Inr _, db2, w2) \<Rightarrow> (view db2, db2, w2)))"

subsection \<open>Deciding a promotion\<close>

definition decided_columns ::
  "int \<Rightarrow> bool \<Rightarrow> ReleaseActor \<Rightarrow> string option \<Rightarrow> promotion \<Rightarrow> promotion" where
  "decided_columns now approve actor reason p =
     p\<lparr>pn_state := (if approve then Promotion_Promoting else Promotion_Rejected),
       pn_decided_by := actor_user_id actor, pn_decided_at := Some now, pn_decision_reason := reason,
       pn_updated_at := now\<rparr>"

definition record_decision ::
  "int \<Rightarrow> string \<Rightarrow> EnvironmentPromotion \<Rightarrow> environment \<Rightarrow> ApprovalBasis \<Rightarrow> ReleaseActor \<Rightarrow> bool \<Rightarrow> string option \<Rightarrow>
   env_db \<Rightarrow> EnvironmentError + env_db" where
  "record_decision now project_id promotion e basis actor approve reason db =
     (let pid = pn_id (ep_row promotion); guard = (\<lambda>p. pn_id p = pid \<and> pn_state p = Promotion_Pending)
      in if rows_affected guard (promotions db) = 0
         then Inl (Env_Conflict ''promotion_not_pending'' ''This promotion is not waiting for approval'')
         else
           let db1 = update_promotions guard (decided_columns now approve actor reason) db;
               requested_by = Option.bind (find_promotion db1 pid) pn_requested_by;
               self = (requested_by \<noteq> None \<and> requested_by = actor_user_id actor)
           in Inr (audit_env actor (if approve then ''promotion_approved'' else ''promotion_rejected'')
                ''environment_promotion'' pid
                [(''actor_email'', Detail_Text (actor_email actor)), (''project_id'', Detail_Text (Some project_id)),
                 (''build_id'', Detail_Text (Some (pn_build_id (ep_row promotion)))),
                 (''environment'', Detail_Text (Some (en_key e))),
                 (''requested_by'', Detail_Text (ep_requested_by_email promotion)),
                 (''requested_by_id'', Detail_Text requested_by),
                 (''decided_by_id'', Detail_Text (actor_user_id actor)),
                 (''self_approval'', Detail_Bool (approve \<and> self)), (''self_decided'', Detail_Bool self),
                 (''decided_as'', Detail_Text (Some (basis_as_str basis))),
                 (''approvers'', approvers_audit (fill_approvers db1 e)), (''reason'', Detail_Text reason)] db1))"

text \<open>The build may have changed while the promotion waited.\<close>

definition recheck_source ::
  "int \<Rightarrow> promotion \<Rightarrow> environment \<Rightarrow> env_db \<Rightarrow> (EnvironmentError + release) \<times> env_db" where
  "recheck_source now p e db =
     (case ensure_not_promoted now (pn_build_id p) e (Some (pn_id p)) db of
        (Inl error, db1) \<Rightarrow> (Inl error, db1)
      | (Inr _, db1) \<Rightarrow>
          (case load_release (release_tables db1) (pn_source_release_id p) of
             Inl error \<Rightarrow> (Inl (from_release_error error), db1)
           | Inr source \<Rightarrow>
               if \<not> live_source source
               then (Inl (Env_Conflict ''source_release_not_live''
                       (''The release this promotion starts from is '' @ release_state_to_string (rl_state source) @ '' now'')), db1)
               else (Inr source, db1)))"

definition recheck_message :: "EnvironmentError \<Rightarrow> string" where
  "recheck_message error =
     (case error of Env_Conflict _ message \<Rightarrow> message | _ \<Rightarrow> ''Oore could not check the build before promoting it'')"

text \<open>Who may decide; checked before anything is changed.\<close>

definition check_decision ::
  "string \<Rightarrow> string \<Rightarrow> EffectiveProjectRole \<Rightarrow> ReleaseActor \<Rightarrow> env_db \<Rightarrow>
   EnvironmentError + (EnvironmentPromotion \<times> environment \<times> ApprovalBasis)" where
  "check_decision project_id promotion_id role actor db =
     (if \<not> check_project_permission role Perm_OperateRelease
      then Inl (Env_Forbidden ''You do not have permission to approve promotions in this project'')
      else and_then (load_promotion_with_environment db project_id promotion_id
                       \<lparr>vw_role = role, vw_user_id = actor_user_id actor\<rparr>)
        (\<lambda>(promotion, e).
           case approval_basis role (actor_user_id actor) (fill_approvers db e) of
             None \<Rightarrow> Inl (Env_Forbidden (''Only '' @ describe_approvers (fill_approvers db e) @
               '' can approve or reject promotions into '' @ en_name e))
           | Some basis \<Rightarrow> Inr (promotion, e, basis)))"

definition decide_promotion ::
  "'w promoter \<Rightarrow> string \<Rightarrow> int \<Rightarrow> string \<Rightarrow> string \<Rightarrow> EffectiveProjectRole \<Rightarrow> ReleaseActor \<Rightarrow> bool \<Rightarrow>
   string option \<Rightarrow> env_db \<times> 'w \<Rightarrow> (EnvironmentError + EnvironmentPromotion) \<times> env_db \<times> 'w" where
  "decide_promotion promote rid now project_id promotion_id role actor approve raw_reason acc =
     (let (db, w) = acc;
          reason = clean_reason raw_reason;
          viewer = \<lparr>vw_role = role, vw_user_id = actor_user_id actor\<rparr>;
          view = (\<lambda>d. map_sum id fst (load_promotion_with_environment d project_id promotion_id viewer))
      in case check_decision project_id promotion_id role actor db of
           Inl error \<Rightarrow> (Inl error, db, w)
         | Inr (promotion, e, basis) \<Rightarrow>
             (case record_decision now project_id promotion e basis actor approve reason db of
                Inl error \<Rightarrow> (Inl error, db, w)
              | Inr db1 \<Rightarrow>
                  if \<not> approve then (view db1, db1, w)
                  else (case recheck_source now (ep_row promotion) e db1 of
                          (Inl error, db2) \<Rightarrow> (Inl error, mark_failed now promotion_id (recheck_message error) db2, w)
                        | (Inr source, db2) \<Rightarrow>
                            (case execute_promotion promote rid now promotion_id e source actor
                                    (or_else reason (pn_reason (ep_row promotion))) (db2, w) of
                               (Inl error, db3, w3) \<Rightarrow> (Inl error, db3, w3)
                             | (Inr _, db3, w3) \<Rightarrow> (view db3, db3, w3)))))"

subsection \<open>Handlers\<close>

definition role_with ::
  "env_db \<Rightarrow> SessionInfo \<Rightarrow> string \<Rightarrow> ProjectPermission \<Rightarrow> EffectiveProjectRole api_result" where
  "role_with db auth project_id permission =
     and_then (project_role (release_tables db) auth project_id)
      (\<lambda>role. and_then (require_project_permission role Perm_Read)
      (\<lambda>_. if \<not> exists_row (\<lambda>p. p_id p = project_id) (projects (core (release_tables db)))
            then Inl (ApiError NOT_FOUND ''not_found'' ''Project not found'')
            else and_then (require_project_permission role permission) (\<lambda>_. Inr role)))"

definition create_project_environment ::
  "string \<Rightarrow> int \<Rightarrow> SessionInfo \<Rightarrow> string \<Rightarrow> CreateProjectEnvironmentRequest \<Rightarrow> env_db \<Rightarrow>
   (environment \<times> env_db) api_result" where
  "create_project_environment eid now auth project_id req db =
     and_then (role_with db auth project_id Perm_ManageReleases)
      (\<lambda>_. map_err env_into_api (create_environment eid now project_id (user_actor auth) req db))"

definition update_project_environment ::
  "int \<Rightarrow> SessionInfo \<Rightarrow> string \<Rightarrow> string \<Rightarrow> UpdateProjectEnvironmentRequest \<Rightarrow> env_db \<Rightarrow>
   (environment \<times> env_db) api_result" where
  "update_project_environment now auth project_id environment_id req db =
     and_then (role_with db auth project_id Perm_ManageReleases)
      (\<lambda>_. map_err env_into_api (update_environment now project_id environment_id (user_actor auth) req db))"

definition delete_project_environment ::
  "(string \<Rightarrow> string \<Rightarrow> bool) \<Rightarrow> int \<Rightarrow> SessionInfo \<Rightarrow> string \<Rightarrow> string \<Rightarrow> env_db \<Rightarrow> unit api_result \<times> env_db" where
  "delete_project_environment locked now auth project_id environment_id db =
     (case role_with db auth project_id Perm_ManageReleases of
        Inl e \<Rightarrow> (Inl e, db)
      | Inr _ \<Rightarrow>
          (case delete_environment locked now project_id environment_id (user_actor auth) db of
             (res, db1) \<Rightarrow> (map_err env_into_api res, db1)))"

definition promote_build ::
  "'w promoter \<Rightarrow> string \<Rightarrow> string \<Rightarrow> int \<Rightarrow> SessionInfo \<Rightarrow> string \<Rightarrow> CreatePromotionRequest \<Rightarrow>
   env_db \<times> 'w \<Rightarrow> EnvironmentPromotion api_result \<times> env_db \<times> 'w" where
  "promote_build promote pid rid now auth project_id req acc =
     (case role_with (fst acc) auth project_id Perm_Read of
        Inl e \<Rightarrow> (Inl e, acc)
      | Inr role \<Rightarrow>
          (case request_promotion promote pid rid now project_id role (user_actor auth) req acc of
             (res, acc1) \<Rightarrow> (map_err env_into_api res, acc1)))"

definition refuse_api_token :: "AuthSource \<Rightarrow> EnvironmentError + unit" where
  "refuse_api_token auth_source =
     (case auth_source of
        ApiToken \<Rightarrow> Inl (Env_Forbidden ''API tokens cannot approve or reject promotions. Sign in to Oore to decide.'')
      | Session \<Rightarrow> Inr ())"

definition decide ::
  "'w promoter \<Rightarrow> string \<Rightarrow> int \<Rightarrow> SessionInfo \<Rightarrow> string \<Rightarrow> string \<Rightarrow> bool \<Rightarrow> string option \<Rightarrow>
   env_db \<times> 'w \<Rightarrow> EnvironmentPromotion api_result \<times> env_db \<times> 'w" where
  "decide promote rid now auth project_id promotion_id approve reason acc =
     (case role_with (fst acc) auth project_id Perm_Read of
        Inl e \<Rightarrow> (Inl e, acc)
      | Inr role \<Rightarrow>
          (case refuse_api_token (au_auth_source auth) of
             Inl e \<Rightarrow> (Inl (env_into_api e), acc)
           | Inr _ \<Rightarrow>
               (case decide_promotion promote rid now project_id promotion_id role (user_actor auth) approve reason acc of
                  (res, acc1) \<Rightarrow> (map_err env_into_api res, acc1))))"

text \<open>
  The store as the daemon wires it: App Store releases are promoted through App Store Connect,
  every other store through \<open>other\<close>.
\<close>

definition routed_promoter ::
  "(string \<Rightarrow> string + string) \<Rightarrow> (AppleApiCredentials \<Rightarrow> 'w apple) \<Rightarrow> 'w promoter \<Rightarrow> 'w promoter" where
  "routed_promoter decrypt connect other db source target =
     (if rl_store source = AppStore then promote_app_store decrypt connect (adb db) source target
      else other db source target)"

end
