(* ===== verification/Environment_Guarantees.thy ===== *)
theory Environment_Guarantees
  imports Environments App_Store_Guarantees
begin

text \<open>
  What environments guarantee: into an environment that asks for approval nothing reaches the store
  before an allowed approver approved; a promotion is decided once; and a promotion that was started
  ends completed with its release or failed and free to be tried again.
\<close>

subsection \<open>What the steps before the store call touch\<close>

lemma env_frame [simp]:
  "adb (audit_env actor action kind rid details db) = adb db"
  "environments (audit_env actor action kind rid details db) = environments db"
  "promotions (audit_env actor action kind rid details db) = promotions db"
  "adb (update_promotions P f db) = adb db"
  "environments (update_promotions P f db) = environments db"
  "promotions (update_promotions P f db) = update_where P f (promotions db)"
  "adb (mark_failed now pid message db) = adb db"
  "environments (mark_failed now pid message db) = environments db"
  by (simp_all add: audit_env_def update_promotions_def mark_failed_def)

lemma settle_stale_frame [simp]:
  "adb (snd (settle_stale now e skip ps db)) = adb db"
  "environments (snd (settle_stale now e skip ps db)) = environments db"
  by (induction ps arbitrary: db) auto

lemma ensure_not_promoted_frame [simp]:
  "adb (snd (ensure_not_promoted now build_id e skip db)) = adb db"
  "environments (snd (ensure_not_promoted now build_id e skip db)) = environments db"
  by (simp_all add: ensure_not_promoted_def)

lemma insert_promotion_Inr:
  assumes "insert_promotion project_id p e source actor db = Inr db'"
  shows "adb db' = adb db" and "environments db' = environments db" and "promotions db' = promotions db @ [p]"
    and "find_promotion db' (pn_id p) = Some p"
proof -
  from assms have fresh: "\<forall>x \<in> set (promotions db). pn_id x \<noteq> pn_id p"
    by (auto simp: insert_promotion_def exists_row_iff split: if_splits)
  show p: "promotions db' = promotions db @ [p]" and "adb db' = adb db" and "environments db' = environments db"
    using assms by (auto simp: insert_promotion_def split: if_splits)
  show "find_promotion db' (pn_id p) = Some p"
    unfolding find_promotion_def p by (subst fetch_optional_snoc) (use fresh in auto)
qed

lemma begin_promotion_Inr:
  assumes "begin_promotion pid now project_id role actor req db = (Inr (e, source), db')"
  obtains db1 where "check_promotion_request project_id role req db = Inr e"
    and "ensure_not_promoted now (pq_build_id req) e None db = (Inr (), db1)"
    and "find_source_release db1 (pq_build_id req) e = Some source"
    and "insert_promotion project_id (new_promotion pid now project_id e source actor req) e source actor db1 = Inr db'"
  using assms by (auto simp: begin_promotion_def split: sum.splits prod.splits option.splits)

lemma begin_promotion_frame: "adb (snd (begin_promotion pid now project_id role actor req db)) = adb db"
proof -
  have e: "adb db1 = adb db" if "ensure_not_promoted now b e s db = (r, db1)" for b e s r db1
    using ensure_not_promoted_frame(1)[of now b e s db] that by simp
  show ?thesis
    by (auto simp: begin_promotion_def dest!: e insert_promotion_Inr(1) split: sum.splits prod.splits option.splits)
qed

lemma check_request_environment:
  "check_promotion_request project_id role req db = Inr e \<Longrightarrow>
   load_environment db project_id (pq_environment_id req) = Inr e"
  by (auto simp: check_promotion_request_def and_then_eq_Inr split: if_splits option.splits)

subsection \<open>Nothing reaches the store without approval\<close>

lemma surjective_triple: "x = (fst x, fst (snd x), snd (snd x))"
  by simp

lemma request_pending:
  assumes req: "request_promotion promote pid rid now project_id role actor req (db, w) = (res, db', w')"
    and env: "load_environment db project_id (pq_environment_id req) = Inr e" and ap: "en_approval_required e"
  shows "w' = w \<and> adb db' = adb db \<and>
    (is_ok res \<longrightarrow> (\<exists>p. find_promotion db' pid = Some p \<and> pn_state p = Promotion_Pending))"
proof -
  obtain out db1 where b: "begin_promotion pid now project_id role actor req db = (out, db1)"
    by (cases "begin_promotion pid now project_id role actor req db")
  have fr: "adb db1 = adb db" using begin_promotion_frame[of pid now project_id role actor req db] by (simp add: b)
  show ?thesis
  proof (cases out)
    case (Inl error)
    with req fr b show ?thesis by (auto simp: request_promotion_def)
  next
    case (Inr x)
    obtain e' source where x: "x = (e', source)" by (cases x)
    from begin_promotion_Inr[OF b[unfolded Inr x]] obtain db0 where
      c: "check_promotion_request project_id role req db = Inr e'"
      and i: "insert_promotion project_id (new_promotion pid now project_id e' source actor req) e' source actor db0 =
        Inr db1" by metis
    from check_request_environment[OF c] env have "e' = e" by simp
    with req b Inr x ap have "db' = db1" "w' = w" by (auto simp: request_promotion_def)
    with fr insert_promotion_Inr(4)[OF i] ap \<open>e' = e\<close> show ?thesis by (simp add: new_promotion_def)
  qed
qed

subsection \<open>Deciding\<close>

definition not_pending :: "string \<Rightarrow> env_db \<Rightarrow> bool" where
  "not_pending pid db \<longleftrightarrow> (\<forall>p \<in> set (promotions db). pn_id p = pid \<longrightarrow> pn_state p \<noteq> Promotion_Pending)"

lemma not_pending_update:
  assumes "not_pending pid db" and "\<And>p. pn_id (f p) = pn_id p" and "\<And>p. pn_state (f p) \<noteq> Promotion_Pending"
    and "promotions db' = update_where P f (promotions db)"
  shows "not_pending pid db'"
  using assms(1) unfolding not_pending_def assms(4) ball_update_where by (simp add: assms(2,3))

lemma not_pending_mark [simp]: "not_pending pid db \<Longrightarrow> not_pending pid (mark_failed now x message db)"
  by (erule not_pending_update) (simp_all add: mark_failed_def update_promotions_def)

lemma not_pending_audit [simp]: "not_pending pid (audit_env a b c d f db) = not_pending pid db"
  by (simp add: not_pending_def)

lemma not_pending_settle: "not_pending pid db \<Longrightarrow> not_pending pid (snd (settle_stale now e skip ps db))"
  by (induction ps arbitrary: db) auto

lemma not_pending_ensure: "not_pending pid db \<Longrightarrow> not_pending pid (snd (ensure_not_promoted now b e skip db))"
  by (simp add: ensure_not_promoted_def not_pending_settle)

lemma recheck_source_state: "snd (recheck_source now p e db) = snd (ensure_not_promoted now (pn_build_id p) e (Some (pn_id p)) db)"
  by (auto simp: recheck_source_def split: sum.splits prod.splits)

lemma record_promotion_promotions:
  "record_promotion rid now pid e source actor reason promoted db = Inr (r, db') \<Longrightarrow>
   promotions db' = update_where (\<lambda>p. pn_id p = pid) (completed_columns now (rl_id r)) (promotions db) \<and>
   environments db' = environments db"
  by (auto simp: record_promotion_def and_then_eq_Inr update_promotions_def split: prod.splits sum.splits)

lemma not_pending_execute:
  assumes "not_pending pid db"
  shows "not_pending pid (fst (snd (execute_promotion promote rid now x e source actor reason (db, w))))"
proof -
  have "not_pending pid db1" if "record_promotion rid now x e source actor reason promoted db = Inr (r, db1)"
    for promoted r db1
    by (rule not_pending_update[OF assms _ _ conjunct1[OF record_promotion_promotions[OF that]]])
      (simp_all add: completed_columns_def)
  then show ?thesis using assms
    by (auto simp: execute_promotion_def Let_def split: prod.splits sum.splits)
qed

lemma record_decision_Inr:
  assumes "record_decision now project_id promotion e basis actor approve reason db = Inr db'"
  shows "adb db' = adb db" and "not_pending (pn_id (ep_row promotion)) db'" and "db' \<noteq> db"
    and "\<exists>p \<in> set (promotions db). pn_id p = pn_id (ep_row promotion) \<and> pn_state p = Promotion_Pending"
proof -
  let ?g = "\<lambda>p. pn_id p = pn_id (ep_row promotion) \<and> pn_state p = Promotion_Pending"
  from assms have g: "rows_affected ?g (promotions db) \<noteq> 0"
    unfolding record_decision_def Let_def by (auto split: if_splits)
  then show "\<exists>p \<in> set (promotions db). pn_id p = pn_id (ep_row promotion) \<and> pn_state p = Promotion_Pending"
    by (auto simp: rows_affected_0)
  from assms obtain action details where
    d: "db' = audit_env actor action ''environment_promotion'' (pn_id (ep_row promotion)) details
      (update_promotions ?g (decided_columns now approve actor reason) db)"
    unfolding record_decision_def Let_def by (auto split: if_splits)
  show "adb db' = adb db" by (simp add: d)
  show "not_pending (pn_id (ep_row promotion)) db'"
    unfolding d not_pending_audit unfolding not_pending_def
    by (simp add: ball_update_where) (simp add: decided_columns_def)
  have "length (env_audit db') = length (env_audit db) + 1" by (simp add: d audit_env_def update_promotions_def)
  then show "db' \<noteq> db" by auto
qed

lemma check_decision_Inr:
  assumes "check_decision project_id promotion_id role actor db = Inr (promotion, e, basis)"
  shows "pn_id (ep_row promotion) = promotion_id" and "ep_row promotion \<in> set (promotions db)"
    and "load_environment db project_id (pn_environment_id (ep_row promotion)) = Inr e"
    and "approval_basis role (actor_user_id actor) (fill_approvers db e) = Some basis"
    and "check_project_permission role Perm_OperateRelease"
  using assms
  by (auto simp: check_decision_def load_promotion_with_environment_def and_then_eq_Inr row_to_promotion_def
      dest!: fetch_optional_Some split: if_splits option.splits)

lemma env_audit_frame [simp]:
  "env_audit (update_promotions P f db) = env_audit db"
  "env_audit (mark_failed now pid message db) = env_audit db"
  "env_audit (audit_env actor action kind rid details db) =
     env_audit db @ [\<lparr>ea_actor_id = actor_user_id actor, ea_action = action, ea_resource_type = kind,
       ea_resource_id = rid, ea_details = details\<rparr>]"
  by (simp_all add: update_promotions_def mark_failed_def audit_env_def)

lemma settle_stale_audit: "env_audit (snd (settle_stale now e skip ps db)) = env_audit db"
  by (induction ps arbitrary: db) auto

lemma ensure_audit: "env_audit (snd (ensure_not_promoted now b e skip db)) = env_audit db"
  by (simp add: ensure_not_promoted_def settle_stale_audit)

lemma execute_audit:
  "length (env_audit db) \<le> length (env_audit (fst (snd (execute_promotion promote rid now x e source actor reason (db, w)))))"
proof -
  have "env_audit db1 = env_audit db" if "record_promotion rid now x e source actor reason promoted db = Inr (r, db1)"
    for promoted r db1
    using that by (auto simp: record_promotion_def and_then_eq_Inr update_promotions_def split: prod.splits sum.splits)
  then show ?thesis by (auto simp: execute_promotion_def Let_def split: prod.splits sum.splits)
qed

text \<open>The decision and what follows it.\<close>

definition after_decision ::
  "'w promoter \<Rightarrow> string \<Rightarrow> int \<Rightarrow> EnvironmentPromotion \<Rightarrow> environment \<Rightarrow> ReleaseActor \<Rightarrow> bool \<Rightarrow> string option \<Rightarrow>
   env_db \<times> 'w \<Rightarrow> env_db \<times> 'w" where
  "after_decision promote rid now promotion e actor approve reason acc =
     (let (db, w) = acc
      in if \<not> approve then (db, w)
         else (case recheck_source now (ep_row promotion) e db of
                 (Inl error, db2) \<Rightarrow> (mark_failed now (pn_id (ep_row promotion)) (recheck_message error) db2, w)
               | (Inr source, db2) \<Rightarrow> snd (execute_promotion promote rid now (pn_id (ep_row promotion)) e source actor
                   (or_else reason (pn_reason (ep_row promotion))) (db2, w))))"

lemma decide_refused_or_recorded:
  assumes "decide_promotion promote rid now project_id promotion_id role actor approve raw (db, w) = (res, db', w')"
  obtains (refused) error where "res = Inl error" "db' = db" "w' = w"
  | (recorded) promotion e basis db1 where
      "check_decision project_id promotion_id role actor db = Inr (promotion, e, basis)"
      "record_decision now project_id promotion e basis actor approve (clean_reason raw) db = Inr db1"
      "(db', w') = after_decision promote rid now promotion e actor approve (clean_reason raw) (db1, w)"
proof (cases "check_decision project_id promotion_id role actor db")
  case (Inl error)
  with assms refused show thesis by (auto simp: decide_promotion_def Let_def)
next
  case (Inr x)
  obtain promotion e basis where x: "x = (promotion, e, basis)" by (cases x)
  note id = check_decision_Inr(1)[OF Inr[unfolded x]]
  show thesis
  proof (cases "record_decision now project_id promotion e basis actor approve (clean_reason raw) db")
    case (Inl error)
    with assms Inr x refused show thesis by (auto simp: decide_promotion_def Let_def)
  next
    case (Inr db1)
    have "(db', w') = after_decision promote rid now promotion e actor approve (clean_reason raw) (db1, w)"
      using assms Inr \<open>check_decision _ _ _ _ _ = _\<close> x id
      by (auto simp: decide_promotion_def Let_def after_decision_def split: if_splits prod.splits sum.splits)
    from recorded[OF \<open>check_decision _ _ _ _ _ = _\<close>[unfolded x] Inr this] show thesis .
  qed
qed

lemma after_decision_cases:
  assumes "(db', w') = after_decision promote rid now promotion e actor approve reason (db, w)"
  obtains (rejected) "\<not> approve" "db' = db" "w' = w"
  | (unsound) db2 message where "approve" "snd (recheck_source now (ep_row promotion) e db) = db2"
      "db' = mark_failed now (pn_id (ep_row promotion)) message db2" "w' = w"
  | (executed) db2 source why where "approve" "snd (recheck_source now (ep_row promotion) e db) = db2"
      "(db', w') = snd (execute_promotion promote rid now (pn_id (ep_row promotion)) e source actor why (db2, w))"
proof (cases approve)
  case False
  with assms rejected show thesis by (simp add: after_decision_def)
next
  case True
  obtain out db2 where c: "recheck_source now (ep_row promotion) e db = (out, db2)"
    by (cases "recheck_source now (ep_row promotion) e db")
  show thesis
  proof (cases out)
    case (Inl error)
    with assms True c show thesis by (intro unsound) (simp_all add: after_decision_def)
  next
    case (Inr source)
    with assms True c show thesis by (intro executed[of db2 source]) (simp_all add: after_decision_def)
  qed
qed

lemma after_decision_state:
  assumes "(db', w') = after_decision promote rid now promotion e actor approve reason (db, w)"
  shows "not_pending pid db \<Longrightarrow> not_pending pid db'"
    and "length (env_audit db) \<le> length (env_audit db')"
    and "\<not> approve \<Longrightarrow> db' = db \<and> w' = w"
proof -
  let ?c = "recheck_source now (ep_row promotion) e db"
  have a: "env_audit (snd ?c) = env_audit db" by (simp add: recheck_source_state ensure_audit)
  have n: "not_pending pid (snd ?c)" if "not_pending pid db" using that by (simp add: recheck_source_state not_pending_ensure)
  show "\<not> approve \<Longrightarrow> db' = db \<and> w' = w" using assms by (simp add: after_decision_def)
  show "not_pending pid db'" if "not_pending pid db"
    using assms
  proof (cases rule: after_decision_cases)
    case (executed db2 source why)
    from not_pending_execute[OF n[OF that], of promote rid now "pn_id (ep_row promotion)" e source actor why w]
    show ?thesis using executed(2,3) by (metis fst_conv)
  qed (use n[OF that] that in simp_all)
  show "length (env_audit db) \<le> length (env_audit db')"
    using assms
  proof (cases rule: after_decision_cases)
    case (executed db2 source why)
    from execute_audit[of "snd ?c" promote rid now "pn_id (ep_row promotion)" e source actor why w] a
    show ?thesis using executed(2,3) by (metis fst_conv)
  qed (use a in auto)
qed

text \<open>C10. Into an environment that requires approval, a request leaves the store and every release,
  link and setting untouched and waits as pending. A decision changes the store or these tables only
  when it approves a promotion that was pending, by a caller the environment's approvers allow: an
  instance admin, a member of the approver role, a named approver, or a maintainer where no approver
  is set.\<close>

theorem store_reached_only_with_approval:
  fixes promote :: "'w promoter"
  assumes "load_environment db project_id (pq_environment_id req) = Inr e" and "en_approval_required e"
    and "distinct (map pn_id (promotions db))"
  shows "(case request_promotion promote pid rid now project_id role actor req (db, w) of
            (res, db', w') \<Rightarrow> w' = w \<and> adb db' = adb db \<and>
              (is_ok res \<longrightarrow> (\<exists>p. find_promotion db' pid = Some p \<and> pn_state p = Promotion_Pending))) \<and>
         (case decide_promotion promote rid now project_id promotion_id role actor approve reason (db, w) of
            (res, db', w') \<Rightarrow> w' = w \<and> adb db' = adb db \<or>
              approve \<and> (\<exists>p t basis. find_promotion db promotion_id = Some p \<and> pn_state p = Promotion_Pending \<and>
                load_environment db project_id (pn_environment_id p) = Inr t \<and>
                approval_basis role (actor_user_id actor) (fill_approvers db t) = Some basis))"
proof
  show "case request_promotion promote pid rid now project_id role actor req (db, w) of
      (res, db', w') \<Rightarrow> w' = w \<and> adb db' = adb db \<and>
        (is_ok res \<longrightarrow> (\<exists>p. find_promotion db' pid = Some p \<and> pn_state p = Promotion_Pending))"
    using request_pending[OF surjective_triple assms(1,2), of promote pid rid now role actor w]
    by (simp add: split_beta)
  obtain res db' w' where d:
    "decide_promotion promote rid now project_id promotion_id role actor approve reason (db, w) = (res, db', w')"
    by (metis prod_cases3)
  from d have "w' = w \<and> adb db' = adb db \<or>
      approve \<and> (\<exists>p t basis. find_promotion db promotion_id = Some p \<and> pn_state p = Promotion_Pending \<and>
        load_environment db project_id (pn_environment_id p) = Inr t \<and>
        approval_basis role (actor_user_id actor) (fill_approvers db t) = Some basis)"
  proof (cases rule: decide_refused_or_recorded)
    case (recorded promotion t basis db1)
    note c = check_decision_Inr[OF recorded(1)] and r = record_decision_Inr[OF recorded(2)]
    show ?thesis
    proof (cases approve)
      case False
      with after_decision_state(3)[OF recorded(3)] r(1) show ?thesis by simp
    next
      case True
      from r(4) obtain p where p: "p \<in> set (promotions db)" "pn_id p = pn_id (ep_row promotion)"
        "pn_state p = Promotion_Pending" by blast
      from key_unique[OF assms(3) p(1) c(2) p(2)] have "p = ep_row promotion" .
      moreover from fetch_by_key[OF assms(3) c(2)] c(1) have "find_promotion db promotion_id = Some (ep_row promotion)"
        by (simp add: find_promotion_def)
      ultimately show ?thesis using True p(3) c(3,4) by blast
    qed
  qed simp
  with d show "case decide_promotion promote rid now project_id promotion_id role actor approve reason (db, w) of
      (res, db', w') \<Rightarrow> w' = w \<and> adb db' = adb db \<or>
        approve \<and> (\<exists>p t basis. find_promotion db promotion_id = Some p \<and> pn_state p = Promotion_Pending \<and>
          load_environment db project_id (pn_environment_id p) = Inr t \<and>
          approval_basis role (actor_user_id actor) (fill_approvers db t) = Some basis)" by simp
qed

text \<open>A promotion is decided once: when a decision changed anything, no later decision of anyone,
  for whatever reason and at whatever store, is accepted or changes anything.\<close>

theorem promotion_decided_once:
  fixes promote :: "'w promoter"
  assumes "decide_promotion promote rid now project_id promotion_id role actor approve reason (db, w) = (res, db', w')"
    and "db' \<noteq> db \<or> w' \<noteq> w"
  shows "\<exists>error. decide_promotion promote2 rid2 now2 project_id2 promotion_id role2 actor2 approve2 reason2 (db', w2) =
           (Inl error, db', w2)"
  using assms(1)
proof (cases rule: decide_refused_or_recorded)
  case refused
  with assms(2) show ?thesis by simp
next
  case (recorded promotion t basis db1)
  have np: "not_pending promotion_id db'"
    using after_decision_state(1)[OF recorded(3)] record_decision_Inr(2)[OF recorded(2)]
      check_decision_Inr(1)[OF recorded(1)] by simp
  obtain res2 db2 w3 where d: "decide_promotion promote2 rid2 now2 project_id2 promotion_id role2 actor2 approve2
      reason2 (db', w2) = (res2, db2, w3)" by (metis prod_cases3)
  then show ?thesis
  proof (cases rule: decide_refused_or_recorded)
    case (recorded promotion2 t2 basis2 db3)
    from record_decision_Inr(4)[OF recorded(2)] check_decision_Inr(1)[OF recorded(1)] np
    show ?thesis by (auto simp: not_pending_def)
  qed (simp add: d)
qed

text \<open>A sample: a Google Play environment that asks for approval, and a store that counts its calls.\<close>

definition sample_environment :: "bool \<Rightarrow> environment" where
  "sample_environment approval = \<lparr>en_id = ''e1'', en_project_id = ''p1'', en_key = ''beta'', en_name = ''Beta'',
     en_position = 0, en_store = GooglePlay, en_track = ''beta'', en_approval_required = approval,
     en_policy = sample_policy\<lparr>po_approval := Gate_None\<rparr>, en_submit_for_review = False, en_approver_role = None,
     en_created_by = None, en_updated_by = None, en_created_at = 0, en_updated_at = 0\<rparr>"

definition sample_env_db :: "bool \<Rightarrow> env_db" where
  "sample_env_db approval = \<lparr>adb = sample_app_db\<lparr>rdb := (created_db sample_policy)\<lparr>core :=
       empty_core\<lparr>builds := [sample_build], projects := [\<lparr>p_id = ''p1'', p_repository_id = None, p_default_branch = None\<rparr>]\<rparr>\<rparr>\<rparr>,
     environments = [sample_environment approval], approver_rows = [], users = [(''u1'', ''m@x''), (''u2'', ''d@x'')],
     promotions = [], env_audit = []\<rparr>"

definition sample_request :: CreatePromotionRequest where
  "sample_request = \<lparr>pq_build_id = ''b1'', pq_environment_id = ''e1'', pq_reason = None\<rparr>"

definition counting_store :: "nat promoter" where
  "counting_store db source target n = (Inr \<lparr>pd_start = None, pd_detail = None, pd_app_store_link = None\<rparr>, n + 1)"

definition refusing_store :: "nat promoter" where
  "refusing_store db source target n = (Inl (Refused ''build_expired'' ''expired''), n)"

definition sample_asked where
  "sample_asked = request_promotion counting_store ''pr1'' ''r2'' 2000 ''p1'' (Member Developer) (User ''u2'' ''d@x'')
     sample_request (sample_env_db True, 0)"

definition asked_db :: env_db where
  "asked_db = fst (snd sample_asked)"

definition sample_approved where
  "sample_approved = decide_promotion counting_store ''r2'' 3000 ''p1'' ''pr1'' (Member Maintainer) (User ''u1'' ''m@x'')
     True None (asked_db, 0)"

theorem store_reached_only_with_approval_witness:
  "snd (snd sample_asked) = 0 \<and> (\<exists>p. find_promotion asked_db ''pr1'' = Some p \<and> pn_state p = Promotion_Pending)"
proof -
  have env: "load_environment (sample_env_db True) ''p1'' (pq_environment_id sample_request) = Inr (sample_environment True)"
    and ap: "en_approval_required (sample_environment True)"
    and ids: "distinct (map pn_id (promotions (sample_env_db True)))"
    by (simp_all add: load_environment_def sample_env_db_def sample_request_def sample_environment_def fetch_optional_def)
  have ok: "is_ok (fst sample_asked)" by code_simp
  show ?thesis
    using store_reached_only_with_approval[OF env ap ids, where promote = counting_store and pid = "''pr1''" and
        rid = "''r2''" and now = 2000 and role = "Member Developer" and actor = "User ''u2'' ''d@x''" and w = 0] ok
    unfolding asked_db_def sample_asked_def by (auto simp: split_beta)
qed

theorem promotion_decided_once_witness:
  "\<exists>error. decide_promotion refusing_store ''r3'' 4000 ''p1'' ''pr1'' InstanceAdmin (User ''u1'' ''m@x'') False None
     (fst (snd sample_approved), 7) = (Inl error, fst (snd sample_approved), 7)"
proof -
  have "snd (snd sample_approved) = 1" by code_simp
  then have w: "fst (snd sample_approved) \<noteq> asked_db \<or> snd (snd sample_approved) \<noteq> 0" by simp
  have d: "decide_promotion counting_store ''r2'' 3000 ''p1'' ''pr1'' (Member Maintainer) (User ''u1'' ''m@x'')
     True None (asked_db, 0) = (fst sample_approved, fst (snd sample_approved), snd (snd sample_approved))"
    by (simp add: sample_approved_def)
  from promotion_decided_once[OF d w] show ?thesis .
qed

subsection \<open>A started promotion settles\<close>

lemma fetch_after_update:
  assumes "find_promotion db pid = Some p" and "\<And>p. pn_id (f p) = pn_id p"
    and "promotions db' = update_where (\<lambda>p. pn_id p = pid) f (promotions db)"
  shows "find_promotion db' pid = Some (f p)"
  using fetch_optional_update_key[of pn_id f pid "\<lambda>p. pn_id p = pid" "promotions db"] assms
    fetch_optional_Some[OF assms(1)[unfolded find_promotion_def]]
  by (simp add: find_promotion_def)

text \<open>The open promotions of a build into an environment have their ids in \<open>ids\<close>.\<close>

definition open_in :: "string \<Rightarrow> string \<Rightarrow> string set \<Rightarrow> env_db \<Rightarrow> bool" where
  "open_in build_id eid ids db \<longleftrightarrow>
     (\<forall>p \<in> set (promotions db). pn_build_id p = build_id \<and> pn_environment_id p = eid \<and> open_promotion p \<longrightarrow>
        pn_id p \<in> ids)"

abbreviation no_open :: "string \<Rightarrow> string \<Rightarrow> env_db \<Rightarrow> bool" where
  "no_open build_id eid db \<equiv> open_in build_id eid {} db"

lemma open_in_mark: "open_in b eid (insert x ids) db \<Longrightarrow> open_in b eid ids (mark_failed now x message db)"
  unfolding open_in_def mark_failed_def env_frame ball_update_where by (simp add: open_promotion_def) blast

lemma settle_stale_closes:
  assumes "settle_stale now e None ps db = (Inr (), db')" and "open_in b eid (pn_id ` set ps) db"
  shows "no_open b eid db'"
  using assms
proof (induction ps arbitrary: db)
  case (Cons q ps)
  from Cons.prems(1) have st: "settle_stale now e None ps (mark_failed now (pn_id q) STALE_PROMOTING db) = (Inr (), db')"
    by (simp split: if_splits)
  from Cons.prems(2) show ?case by (intro Cons.IH[OF st] open_in_mark) simp
qed simp

lemma ensure_closes:
  assumes "ensure_not_promoted now b e None db = (Inr (), db')"
  shows "no_open b (en_id e) db'" and "exists_row (\<lambda>x. en_id x = en_id e) (environments db')"
    and "\<not> exists_row (\<lambda>r. rl_build_id r = b \<and> rl_environment_id r = Some (en_id e) \<and> rl_state r \<noteq> Release_Failed)
      (releases (release_tables db'))"
proof -
  let ?ps = "filter (\<lambda>p. pn_build_id p = b \<and> pn_environment_id p = en_id e \<and> open_promotion p) (promotions db)"
  from assms have st: "settle_stale now e None ?ps db = (Inr (), db')"
    and ex: "exists_row (\<lambda>x. en_id x = en_id e) (environments db)"
    and no: "\<not> exists_row (\<lambda>r. rl_build_id r = b \<and> rl_environment_id r = Some (en_id e) \<and> rl_state r \<noteq> Release_Failed)
      (releases (release_tables db))"
    by (auto simp: ensure_not_promoted_def split: if_splits)
  show "no_open b (en_id e) db'" by (rule settle_stale_closes[OF st]) (auto simp: open_in_def)
  from settle_stale_frame[of now e None ?ps db] st ex no
  show "exists_row (\<lambda>x. en_id x = en_id e) (environments db')"
    and "\<not> exists_row (\<lambda>r. rl_build_id r = b \<and> rl_environment_id r = Some (en_id e) \<and> rl_state r \<noteq> Release_Failed)
      (releases (release_tables db'))" by simp_all
qed

lemma ensure_ok:
  assumes "no_open b (en_id e) db" and "exists_row (\<lambda>x. en_id x = en_id e) (environments db)"
    and "\<not> exists_row (\<lambda>r. rl_build_id r = b \<and> rl_environment_id r = Some (en_id e) \<and> rl_state r \<noteq> Release_Failed)
      (releases (release_tables db))"
  shows "ensure_not_promoted now b e None db = (Inr (), db)"
proof -
  have "filter (\<lambda>p. pn_build_id p = b \<and> pn_environment_id p = en_id e \<and> open_promotion p) (promotions db) = []"
    using assms(1) by (auto simp: open_in_def filter_empty_conv)
  with assms(2,3) show ?thesis by (simp add: ensure_not_promoted_def)
qed

lemma insert_release_identity:
  assumes "insert_release rid now input actor reason db = Inr (r, why, db')"
  shows "rl_build_id r = nr_build_id input" and "rl_promoted_from_release_id r = nr_promoted_from_release_id input"
    and "nr_environment_id input = Some eid \<Longrightarrow> rl_environment_id r = Some eid"
  using assms
  by (auto simp: insert_release_def and_then_eq_Inr Let_def new_release_row_def environment_for_def split: if_splits)

lemma record_promotion_row:
  assumes "record_promotion rid now pid e source actor reason promoted db = Inr (r, db')"
  shows "r \<in> set (releases (release_tables db'))" and "rl_build_id r = rl_build_id source"
    and "rl_environment_id r = Some (en_id e)" and "rl_promoted_from_release_id r = Some (rl_id source)"
proof -
  from assms obtain state fraction msg why d where
    i: "insert_release rid now (promoted_release e source state fraction) actor (Some msg) (release_tables db) =
      Inr (r, why, d)"
    and db': "release_tables db' = finish_create r why actor now d"
    by (auto simp: record_promotion_def and_then_eq_Inr record_promoted_link_def
        split: prod.splits sum.splits option.splits if_splits)
  have "releases (release_tables db') = releases d" by (simp add: db' finish_create_def Let_def)
  with insert_release_Inr(10)[OF i] show "r \<in> set (releases (release_tables db'))" by simp
  show "rl_build_id r = rl_build_id source" "rl_environment_id r = Some (en_id e)"
    "rl_promoted_from_release_id r = Some (rl_id source)"
    using insert_release_identity[OF i] by (simp_all add: promoted_release_def)
qed

lemma source_in_set:
  assumes "find_source_release db b e = Some source"
  shows "source \<in> set (releases (release_tables db)) \<and> is_source db b e source"
proof -
  let ?xs = "filter (is_source db b e) (releases (release_tables db))"
  from assms obtain rest where "sort_key (\<lambda>r. (- rl_created_at r, rl_id r)) ?xs = source # rest"
    by (auto simp: find_source_release_def first_of_def split: list.splits)
  then have "source \<in> set ?xs" by (metis list.set_intros(1) set_sort)
  then show ?thesis by simp
qed

lemma execute_settles:
  fixes w :: 'w
  assumes ex: "execute_promotion promote rid now pid e source actor reason (db, w) = (res, db', w')"
    and p: "find_promotion db pid = Some p"
  shows "w' = snd (promote db source (promotion_target e) w) \<and>
    (\<exists>p'. find_promotion db' pid = Some p' \<and>
      (is_ok (fst (promote db source (promotion_target e) w)) \<and> pn_state p' = Promotion_Completed \<and>
       (\<exists>r \<in> set (releases (release_tables db')). pn_release_id p' = Some (rl_id r) \<and>
          rl_build_id r = rl_build_id source \<and> rl_environment_id r = Some (en_id e) \<and>
          rl_promoted_from_release_id r = Some (rl_id source)) \<or>
       pn_state p' = Promotion_Failed \<and> pn_error p' \<noteq> None \<and>
       adb db' = adb db \<and> environments db' = environments db \<and>
       (\<exists>message. promotions db' = promotions (mark_failed now pid message db))))"
proof -
  have failed: "find_promotion d pid = Some (p\<lparr>pn_state := Promotion_Failed, pn_error := Some m, pn_updated_at := now\<rparr>)"
    if "promotions d = promotions (mark_failed now pid m db)" for d m
    by (rule fetch_after_update[OF p]) (simp_all add: that mark_failed_def)
  show ?thesis
  proof (cases "promote db source (promotion_target e) w")
    case (Pair out w1)
    show ?thesis
    proof (cases out)
      case (Inl error)
      let ?m = "case error of Refused _ m \<Rightarrow> m | Promote_Failed m \<Rightarrow> short m"
      from ex Pair Inl have d: "w' = w1" "promotions db' = promotions (mark_failed now pid ?m db)"
        "adb db' = adb db" "environments db' = environments db"
        by (auto simp: execute_promotion_def Let_def)
      with failed[OF d(2)] Pair show ?thesis by auto
    next
      case (Inr promoted)
      show ?thesis
      proof (cases "record_promotion rid now pid e source actor reason promoted db")
        case (Inl error)
        with ex Pair Inr have "w' = w1" "db' = mark_failed now pid (unrecorded_message e source) db"
          by (auto simp: execute_promotion_def)
        with failed[of db'] Pair show ?thesis by auto
      next
        case (Inr x)
        obtain r db1 where x: "x = (r, db1)" by (cases x)
        note rec = Inr[unfolded x]
        from ex Pair \<open>out = Inr promoted\<close> rec have d: "w' = w1" "promotions db' = promotions db1" "adb db' = adb db1"
          by (auto simp: execute_promotion_def)
        have "find_promotion db' pid = Some (completed_columns now (rl_id r) p)"
          by (rule fetch_after_update[OF p, of "completed_columns now (rl_id r)"])
            (use record_promotion_promotions[OF rec] d(2) in \<open>simp_all only: conjunct1\<close>, simp add: completed_columns_def)
        with record_promotion_row[OF rec] d Pair \<open>out = Inr promoted\<close> show ?thesis
          by (auto simp: completed_columns_def)
      qed
    qed
  qed
qed

text \<open>A promotion that needs no approval and passed its checks never stays open: when the store
  accepted it and the outcome was recorded it is completed and names a new release of that build in the
  environment, promoted from the source; otherwise it is failed with a reason, no release, link or
  setting has changed, and the same promotion may be asked for again at once.\<close>

theorem started_promotion_settles:
  fixes promote :: "'w promoter"
  assumes b: "begin_promotion pid now project_id role actor req db = (Inr (e, source), db1)"
    and na: "\<not> en_approval_required e"
  shows "case request_promotion promote pid rid now project_id role actor req (db, w) of (res, db', w') \<Rightarrow>
     w' = snd (promote db1 source (promotion_target e) w) \<and>
     (\<exists>p. find_promotion db' pid = Some p \<and>
       (is_ok (fst (promote db1 source (promotion_target e) w)) \<and> pn_state p = Promotion_Completed \<and>
        (\<exists>r \<in> set (releases (release_tables db')). pn_release_id p = Some (rl_id r) \<and>
           rl_build_id r = pq_build_id req \<and> rl_environment_id r = Some (en_id e) \<and>
           rl_promoted_from_release_id r = Some (rl_id source)) \<or>
        pn_state p = Promotion_Failed \<and> pn_error p \<noteq> None \<and> adb db' = adb db \<and>
        ensure_not_promoted later (pq_build_id req) e None db' = (Inr (), db')))"
proof -
  from begin_promotion_Inr[OF b] obtain db0 where
    en: "ensure_not_promoted now (pq_build_id req) e None db = (Inr (), db0)"
    and src: "find_source_release db0 (pq_build_id req) e = Some source"
    and ins: "insert_promotion project_id (new_promotion pid now project_id e source actor req) e source actor db0 = Inr db1"
    by metis
  note i = insert_promotion_Inr[OF ins] and closed = ensure_closes[OF en]
  have fr: "adb db1 = adb db" using begin_promotion_frame[of pid now project_id role actor req db] by (simp add: b)
  have fp: "find_promotion db1 pid = Some (new_promotion pid now project_id e source actor req)"
    using i(4) by (simp add: new_promotion_def)
  have sb: "rl_build_id source = pq_build_id req" using source_in_set[OF src] by (simp add: is_source_def)
  obtain out db' w' where ex: "execute_promotion promote rid now pid e source actor (clean_reason (pq_reason req)) (db1, w) =
      (out, db', w')" by (metis prod_cases3)
  have "open_in (pq_build_id req) (en_id e) {pid} db1"
    using closed(1) unfolding open_in_def i(3) by (auto simp: new_promotion_def)
  then have op: "open_in (pq_build_id req) (en_id e) {} (mark_failed now pid m db1)" for m by (rule open_in_mark)
  have retry: "ensure_not_promoted later (pq_build_id req) e None db' = (Inr (), db')"
    if "adb db' = adb db1" "environments db' = environments db1"
      "promotions db' = promotions (mark_failed now pid m db1)" for m
  proof -
    have "no_open (pq_build_id req) (en_id e) db'" using op[of m] that(3) by (simp add: open_in_def)
    from ensure_ok[OF this, of later] closed(2,3) that i(1,2) show ?thesis by simp
  qed
  have "request_promotion promote pid rid now project_id role actor req (db, w) =
      (fst (request_promotion promote pid rid now project_id role actor req (db, w)), db', w')"
    using na ex by (cases out) (simp_all add: request_promotion_def b)
  then obtain res where r: "request_promotion promote pid rid now project_id role actor req (db, w) = (res, db', w')"
    by blast
  from execute_settles[OF ex fp] show ?thesis unfolding r prod.case sb fr using retry[unfolded fr] by blast
qed

definition sample_direct where
  "sample_direct = request_promotion refusing_store ''pr1'' ''r2'' 2000 ''p1'' (Member Maintainer) (User ''u1'' ''m@x'')
     sample_request (sample_env_db False, 0 :: nat)"

definition sample_begun where
  "sample_begun = begin_promotion ''pr1'' 2000 ''p1'' (Member Maintainer) (User ''u1'' ''m@x'') sample_request
     (sample_env_db False)"

theorem started_promotion_settles_witness:
  "snd (snd sample_direct) = 0 \<and> (\<exists>p. find_promotion (fst (snd sample_direct)) ''pr1'' = Some p \<and>
     pn_state p = Promotion_Failed \<and> adb (fst (snd sample_direct)) = adb (sample_env_db False))"
proof -
  have "(case fst sample_begun of Inr (e, _) \<Rightarrow> \<not> en_approval_required e | Inl _ \<Rightarrow> False)" by code_simp
  then obtain e source where "fst sample_begun = Inr (e, source)" and na: "\<not> en_approval_required e"
    by (auto split: sum.splits)
  then have b: "begin_promotion ''pr1'' 2000 ''p1'' (Member Maintainer) (User ''u1'' ''m@x'') sample_request
     (sample_env_db False) = (Inr (e, source), snd sample_begun)" by (metis prod.collapse sample_begun_def)
  have "\<not> is_ok (fst (refusing_store d source t w))" "snd (refusing_store d source t w) = w" for d t and w :: nat
    by (simp_all add: refusing_store_def)
  with started_promotion_settles[OF b na, where promote = refusing_store and rid = "''r2''" and w = "0 :: nat" and later = 3000] show ?thesis
    unfolding sample_direct_def by (auto simp: split_beta)
qed

end
