(* ===== verification/Accounts.thy ===== *)
theory Accounts
  imports Runner_Claims "HOL-Library.Word"
begin

text \<open>
  Accounts and credentials: \<^verbatim>\<open>session.rs\<close>, \<^verbatim>\<open>api_tokens.rs\<close>, \<^verbatim>\<open>users.rs\<close>,
  \<^verbatim>\<open>extractors.rs\<close>, the recovery capabilities of \<^verbatim>\<open>local_recovery.rs\<close> and the three
  logins of \<^verbatim>\<open>auth.rs\<close> (all under \<^verbatim>\<open>crates/oored/src\<close>).

  The state is the \<open>users\<close>, \<open>sessions\<close> and \<open>api_tokens\<close> tables with the setup state and the
  in-memory recovery capabilities. \<open>hash_token\<close> (SHA-256) and the Casbin decision \<open>enforce\<close> are
  parameters; a generated token or identifier is an argument of the operation that generates it, and
  an insert whose key is taken answers with the error the handler turns a database error into.
\<close>

subsection \<open>Tables\<close>

record user_row =
  us_id :: string
  us_email :: string
  us_oidc_subject :: string
  us_display_name :: "string option"
  us_role :: string
  us_status :: string
  us_avatar_url :: "string option"
  us_invited_by :: "string option"
  us_created_at :: int
  us_updated_at :: int

record session_row =
  sn_token_hash :: string
  sn_user_id :: string
  sn_created_at :: int
  sn_expires_at :: int

record api_token =
  tk_id :: string
  tk_name :: string
  tk_token_hash :: string
  tk_prefix :: string
  tk_created_by :: string
  tk_role :: string
  tk_expires_at :: "int option"
  tk_created_at :: int
  tk_last_used_at :: "int option"
  tk_revoked_at :: "int option"

record RecoveryCapability =
  rc_token_hash :: string
  rc_id :: string
  rc_user_id :: string
  rc_user_email :: string
  rc_expires_at :: int

record OwnerRecord =
  ow_email :: string
  ow_oidc_subject :: "string option"
  ow_created_at :: int

record account_db =
  user_rows :: "user_row list"
  sessions :: "session_row list"
  api_tokens :: "api_token list"
  recovery :: "RecoveryCapability list"
  setup_ready :: bool
  setup_owner :: "OwnerRecord option"
  account_audit :: "audit_row list"

definition audit_account ::
  "string option \<Rightarrow> string \<Rightarrow> string \<Rightarrow> string option \<Rightarrow> (string \<times> string option) list \<Rightarrow> account_db \<Rightarrow> account_db"
where
  "audit_account actor action kind rid details db =
     db\<lparr>account_audit := account_audit db @
        [\<lparr>al_actor_id = actor, al_action = action, al_resource_type = kind,
          al_resource_id = rid, al_details = details\<rparr>]\<rparr>"

definition update_users :: "(user_row \<Rightarrow> bool) \<Rightarrow> (user_row \<Rightarrow> user_row) \<Rightarrow> account_db \<Rightarrow> account_db" where
  "update_users P f db = db\<lparr>user_rows := update_where P f (user_rows db)\<rparr>"

abbreviation user_by_id :: "account_db \<Rightarrow> string \<Rightarrow> user_row option" where
  "user_by_id db user_id \<equiv> fetch_optional (\<lambda>u. us_id u = user_id) (user_rows db)"

subsection \<open>Sessions\<close>

definition DEFAULT_SESSION_TTL :: int where "DEFAULT_SESSION_TTL = 86400"

text \<open>\<open>None\<close> is the constraint violation of a taken token hash or an unknown user.\<close>

definition create_session ::
  "(string \<Rightarrow> string) \<Rightarrow> int \<Rightarrow> string \<Rightarrow> string \<Rightarrow> int \<Rightarrow> account_db \<Rightarrow> account_db option" where
  "create_session hash_token now token user_id ttl_secs db =
     (if exists_row (\<lambda>s. sn_token_hash s = hash_token token) (sessions db) \<or> user_by_id db user_id = None
      then None
      else Some (db\<lparr>sessions := sessions db @
        [\<lparr>sn_token_hash = hash_token token, sn_user_id = user_id, sn_created_at = now,
          sn_expires_at = now + ttl_secs\<rparr>]\<rparr>))"

text \<open>The join of a session with its user, for the \<open>WHERE\<close> clause of the lookup.\<close>

definition session_joins :: "int \<Rightarrow> string \<Rightarrow> account_db \<Rightarrow> (session_row \<times> user_row) list" where
  "session_joins now hash db =
     filter (\<lambda>(s, u). us_id u = sn_user_id s \<and> sn_token_hash s = hash \<and> now < sn_expires_at s \<and>
        us_status u = ''active'')
       (List.product (sessions db) (user_rows db))"

definition validate_session ::
  "(string \<Rightarrow> string) \<Rightarrow> int \<Rightarrow> string \<Rightarrow> account_db \<Rightarrow> SessionInfo option" where
  "validate_session hash_token now token db =
     (case session_joins now (hash_token token) db of
        [] \<Rightarrow> None
      | (s, u) # _ \<Rightarrow>
          Some \<lparr>au_user_id = us_id u, au_email = us_email u, au_oidc_subject = us_oidc_subject u,
            au_role = us_role u, au_expires_at = sn_expires_at s, au_auth_source = Session\<rparr>)"

definition delete_sessions :: "(session_row \<Rightarrow> bool) \<Rightarrow> account_db \<Rightarrow> nat \<times> account_db" where
  "delete_sessions P db = (rows_affected P (sessions db), db\<lparr>sessions := filter (\<lambda>s. \<not> P s) (sessions db)\<rparr>)"

definition revoke_session :: "(string \<Rightarrow> string) \<Rightarrow> string \<Rightarrow> account_db \<Rightarrow> bool \<times> account_db" where
  "revoke_session hash_token token db =
     (case delete_sessions (\<lambda>s. sn_token_hash s = hash_token token) db of (n, db1) \<Rightarrow> (0 < n, db1))"

definition revoke_user_sessions :: "string \<Rightarrow> account_db \<Rightarrow> nat \<times> account_db" where
  "revoke_user_sessions user_id = delete_sessions (\<lambda>s. sn_user_id s = user_id)"

definition revoke_all_sessions :: "account_db \<Rightarrow> nat \<times> account_db" where
  "revoke_all_sessions = delete_sessions (\<lambda>_. True)"

definition cleanup_expired :: "int \<Rightarrow> account_db \<Rightarrow> nat \<times> account_db" where
  "cleanup_expired now = delete_sessions (\<lambda>s. sn_expires_at s \<le> now)"

subsection \<open>API tokens\<close>

definition role_level :: "string \<Rightarrow> nat" where
  "role_level role =
     (if role = ''owner'' then 4 else if role = ''admin'' then 3 else if role = ''developer'' then 2
      else if role = ''qa_viewer'' then 1 else 0)"

definition VALID_ROLES :: "string list" where
  "VALID_ROLES = [''owner'', ''admin'', ''developer'', ''qa_viewer'']"

definition effective_token_role :: "string \<Rightarrow> string \<Rightarrow> string option" where
  "effective_token_role token_role current_role =
     (if token_role \<notin> set VALID_ROLES \<or> current_role \<notin> set VALID_ROLES then None
      else Some (if role_level token_role \<le> role_level current_role then token_role else current_role))"

definition create_api_token ::
  "(string \<Rightarrow> string) \<Rightarrow> int \<Rightarrow> string \<Rightarrow> string \<Rightarrow> string \<Rightarrow> string \<Rightarrow> string \<Rightarrow> int option \<Rightarrow> account_db \<Rightarrow> account_db option"
where
  "create_api_token hash_token now tid token created_by name role expires_at db =
     (if exists_row (\<lambda>t. tk_id t = tid \<or> tk_token_hash t = hash_token token) (api_tokens db) \<or>
         user_by_id db created_by = None \<or> role \<notin> set VALID_ROLES
      then None
      else Some (db\<lparr>api_tokens := api_tokens db @
        [\<lparr>tk_id = tid, tk_name = name, tk_token_hash = hash_token token, tk_prefix = take 8 token,
          tk_created_by = created_by, tk_role = role, tk_expires_at = expires_at, tk_created_at = now,
          tk_last_used_at = None, tk_revoked_at = None\<rparr>]\<rparr>))"

definition I64_MAX :: int where "I64_MAX = 9223372036854775807"

definition token_joins :: "int \<Rightarrow> string \<Rightarrow> account_db \<Rightarrow> (api_token \<times> user_row) list" where
  "token_joins now hash db =
     filter (\<lambda>(t, u). us_id u = tk_created_by t \<and> tk_token_hash t = hash \<and> tk_revoked_at t = None \<and>
        (case tk_expires_at t of None \<Rightarrow> True | Some ends \<Rightarrow> now < ends) \<and> us_status u = ''active'')
       (List.product (api_tokens db) (user_rows db))"

definition validate_api_token_hash :: "int \<Rightarrow> string \<Rightarrow> account_db \<Rightarrow> SessionInfo option" where
  "validate_api_token_hash now token_hash db =
     (case token_joins now token_hash db of
        [] \<Rightarrow> None
      | (t, u) # _ \<Rightarrow>
          map_option (\<lambda>role. \<lparr>au_user_id = us_id u, au_email = us_email u, au_oidc_subject = us_oidc_subject u,
              au_role = role, au_expires_at = unwrap_or I64_MAX (tk_expires_at t), au_auth_source = ApiToken\<rparr>)
            (effective_token_role (tk_role t) (us_role u)))"

definition validate_api_token ::
  "(string \<Rightarrow> string) \<Rightarrow> int \<Rightarrow> string \<Rightarrow> account_db \<Rightarrow> SessionInfo option" where
  "validate_api_token hash_token now token db = validate_api_token_hash now (hash_token token) db"

definition update_last_used :: "int \<Rightarrow> string \<Rightarrow> account_db \<Rightarrow> account_db" where
  "update_last_used now token_hash db =
     db\<lparr>api_tokens := update_where (\<lambda>t. tk_token_hash t = token_hash) (\<lambda>t. t\<lparr>tk_last_used_at := Some now\<rparr>)
        (api_tokens db)\<rparr>"

subsection \<open>Authenticating a request\<close>

definition extract_bearer :: "string option \<Rightarrow> string option" where
  "extract_bearer header = Option.bind header (strip_prefix ''Bearer '')"

text \<open>
  The \<open>AuthUser\<close> extractor: a session first, then an API token, whose last use is recorded.
\<close>

definition auth_user ::
  "(string \<Rightarrow> string) \<Rightarrow> int \<Rightarrow> string option \<Rightarrow> account_db \<Rightarrow> SessionInfo api_result \<times> account_db" where
  "auth_user hash_token now header db =
     (case extract_bearer header of
        None \<Rightarrow> (Inl (ApiError UNAUTHORIZED ''missing_auth'' ''Authorization header required''), db)
      | Some token \<Rightarrow>
          (case validate_session hash_token now token db of
             Some info \<Rightarrow> (Inr info, db)
           | None \<Rightarrow>
               (case validate_api_token hash_token now token db of
                  Some info \<Rightarrow> (Inr info, update_last_used now (hash_token token) db)
                | None \<Rightarrow> (Inl (ApiError UNAUTHORIZED ''invalid_session'' ''Invalid or expired token''), db))))"

definition require_role :: "SessionInfo \<Rightarrow> string list \<Rightarrow> unit api_result" where
  "require_role auth allowed =
     ensure (au_role auth \<in> set allowed)
       (ApiError FORBIDDEN ''insufficient_role'' ''You do not have permission to perform this action'')"

definition require_owner :: "SessionInfo \<Rightarrow> unit api_result" where
  "require_owner auth = require_role auth [''owner'']"

definition require_admin_or_above :: "SessionInfo \<Rightarrow> unit api_result" where
  "require_admin_or_above auth = require_role auth [''owner'', ''admin'']"

definition is_admin :: "SessionInfo \<Rightarrow> bool" where
  "is_admin auth \<longleftrightarrow> au_role auth = ''owner'' \<or> au_role auth = ''admin''"

subsection \<open>Handlers of API tokens\<close>

record CreateApiTokenRequest =
  ct_name :: string
  ct_role :: string
  ct_expires_at :: "int option"

definition create_api_token_handler ::
  "(string \<Rightarrow> string) \<Rightarrow> (string \<Rightarrow> string \<Rightarrow> string \<Rightarrow> bool) \<Rightarrow> int \<Rightarrow> SessionInfo \<Rightarrow> string \<Rightarrow> string \<Rightarrow>
   CreateApiTokenRequest \<Rightarrow> account_db \<Rightarrow> string api_result \<times> account_db" where
  "create_api_token_handler hash_token enforce now auth tid token req db =
     try_in db (check_permission enforce (au_role auth) ''api_tokens'' ''write'')
      (\<lambda>_. try_in db (ensure (trim (ct_name req) \<noteq> [])
             (ApiError BAD_REQUEST ''invalid_name'' ''Token name must not be empty''))
      (\<lambda>_. try_in db (ensure (ct_role req \<in> set VALID_ROLES)
             (ApiError BAD_REQUEST ''invalid_role'' (''Invalid role '' @ [CHR 0x27] @ ct_role req @ [CHR 0x27] @
                ''. Must be one of: owner, admin, developer, qa_viewer'')))
      (\<lambda>_. try_in db (ensure (role_level (ct_role req) \<le> role_level (au_role auth))
             (ApiError FORBIDDEN ''role_escalation'' ''Cannot create a token with a higher role than your own''))
      (\<lambda>_. case create_api_token hash_token now tid token (au_user_id auth) (trim (ct_name req)) (ct_role req)
               (ct_expires_at req) db of
             None \<Rightarrow> (Inl (ApiError INTERNAL_SERVER_ERROR ''db_error'' ''Failed to create API token''), db)
           | Some db1 \<Rightarrow> (Inr token, audit_account (Some (au_user_id auth)) ''api_token_created'' ''api_token'' (Some tid)
               [(''details'', Some (''name='' @ trim (ct_name req) @ '', role='' @ ct_role req @ '', prefix='' @
                  take 8 token))] db1)))))"

definition revoke_api_token_handler ::
  "(string \<Rightarrow> string \<Rightarrow> string \<Rightarrow> bool) \<Rightarrow> int \<Rightarrow> SessionInfo \<Rightarrow> string \<Rightarrow> account_db \<Rightarrow> bool api_result \<times> account_db" where
  "revoke_api_token_handler enforce now auth token_id db =
     try_in db (check_permission enforce (au_role auth) ''api_tokens'' ''delete'')
      (\<lambda>_. try_in db (ok_or (ApiError NOT_FOUND ''not_found'' ''API token not found'')
             (fetch_optional (\<lambda>t. tk_id t = token_id) (api_tokens db)))
      (\<lambda>row. if tk_revoked_at row \<noteq> None then (Inr True, db)
             else if \<not> is_admin auth \<and> tk_created_by row \<noteq> au_user_id auth
             then (Inl (ApiError FORBIDDEN ''permission_denied'' ''You can only revoke your own API tokens''), db)
             else (Inr True, audit_account (Some (au_user_id auth)) ''api_token_revoked'' ''api_token'' (Some token_id) []
                    (db\<lparr>api_tokens := update_where (\<lambda>t. tk_id t = token_id) (\<lambda>t. t\<lparr>tk_revoked_at := Some now\<rparr>)
                       (api_tokens db)\<rparr>))))"

subsection \<open>Handlers of users\<close>

definition fetch_user_by_id :: "account_db \<Rightarrow> string \<Rightarrow> user_row api_result" where
  "fetch_user_by_id db user_id = ok_or (ApiError NOT_FOUND ''user_not_found'' ''User not found'') (user_by_id db user_id)"

definition assignable_role :: "string \<Rightarrow> bool" where
  "assignable_role role \<longleftrightarrow> role \<in> {''admin'', ''developer'', ''qa_viewer''}"

definition invited_user :: "string \<Rightarrow> int \<Rightarrow> string \<Rightarrow> string \<Rightarrow> string \<Rightarrow> user_row" where
  "invited_user user_id now email role invited_by =
     \<lparr>us_id = user_id, us_email = email, us_oidc_subject = ''pending-'' @ user_id, us_display_name = Some email,
      us_role = role, us_status = ''invited'', us_avatar_url = None, us_invited_by = Some invited_by,
      us_created_at = now, us_updated_at = now\<rparr>"

definition invite_user ::
  "(string \<Rightarrow> string \<Rightarrow> string \<Rightarrow> bool) \<Rightarrow> int \<Rightarrow> SessionInfo \<Rightarrow> string \<Rightarrow> string \<Rightarrow> string \<Rightarrow> account_db \<Rightarrow>
   user_row api_result \<times> account_db" where
  "invite_user enforce now auth user_id email role db =
     try_in db (check_permission enforce (au_role auth) ''users'' ''invite'')
      (\<lambda>_. try_in db (ensure (email \<noteq> [] \<and> CHR ''@'' \<in> set email \<and> length email \<le> 256)
             (ApiError BAD_REQUEST ''invalid_email'' ''Invalid email address''))
      (\<lambda>_. try_in db (ensure (assignable_role role)
             (ApiError BAD_REQUEST ''invalid_role'' ''Role must be admin, developer, or qa_viewer''))
      (\<lambda>_. try_in db (ensure (\<not> exists_row (\<lambda>u. us_email u = email) (user_rows db))
             (ApiError CONFLICT ''email_exists'' ''A user with this email already exists''))
      (\<lambda>_. let row = invited_user user_id now email role (au_user_id auth)
            in if exists_row (\<lambda>u. us_id u = user_id \<or> us_oidc_subject u = us_oidc_subject row) (user_rows db)
               then (Inl (ApiError INTERNAL_SERVER_ERROR ''store_error'' ''Failed to create user''), db)
               else (Inr (row\<lparr>us_display_name := None\<rparr>),
                     audit_account (Some (au_user_id auth)) ''user_invited'' ''user'' (Some user_id)
                       [(''email'', Some email), (''role'', Some role), (''invited_by'', Some (au_email auth))]
                       (db\<lparr>user_rows := user_rows db @ [row]\<rparr>))))))"

definition update_user_role ::
  "(string \<Rightarrow> string \<Rightarrow> string \<Rightarrow> bool) \<Rightarrow> int \<Rightarrow> SessionInfo \<Rightarrow> string \<Rightarrow> string \<Rightarrow> account_db \<Rightarrow>
   user_row api_result \<times> account_db" where
  "update_user_role enforce now auth user_id role db =
     try_in db (check_permission enforce (au_role auth) ''users'' ''write'')
      (\<lambda>_. try_in db (ensure (assignable_role role)
             (ApiError BAD_REQUEST ''invalid_role'' ''Role must be admin, developer, or qa_viewer''))
      (\<lambda>_. try_in db (if role = ''admin'' then require_owner auth else Inr ())
      (\<lambda>_. try_in db (fetch_user_by_id db user_id)
      (\<lambda>target. try_in db (ensure (us_role target \<noteq> ''owner'')
             (ApiError FORBIDDEN ''cannot_change_owner'' ''The owner role cannot be changed''))
      (\<lambda>_. try_in db (if us_role target = ''admin'' then require_owner auth else Inr ())
      (\<lambda>_. let db1 = audit_account (Some (au_user_id auth)) ''role_changed'' ''user'' (Some user_id)
                 [(''from_role'', Some (us_role target)), (''to_role'', Some role), (''changed_by'', Some (au_email auth))]
                 (update_users (\<lambda>u. us_id u = user_id) (\<lambda>u. u\<lparr>us_role := role, us_updated_at := now\<rparr>) db)
            in (fetch_user_by_id db1 user_id, db1)))))))"

text \<open>The transaction of \<open>delete_user\<close>, with the numbers of revoked API tokens and sessions.\<close>

definition disable_account :: "int \<Rightarrow> string \<Rightarrow> account_db \<Rightarrow> nat \<times> nat \<times> account_db" where
  "disable_account now user_id db =
     (let db1 = update_users (\<lambda>u. us_id u = user_id) (\<lambda>u. u\<lparr>us_status := ''disabled'', us_updated_at := now\<rparr>) db;
          live = (\<lambda>t. tk_created_by t = user_id \<and> tk_revoked_at t = None);
          db2 = db1\<lparr>api_tokens := update_where live (\<lambda>t. t\<lparr>tk_revoked_at := Some now\<rparr>) (api_tokens db1)\<rparr>
      in (rows_affected live (api_tokens db1), revoke_user_sessions user_id db2))"

definition delete_user ::
  "(string \<Rightarrow> string \<Rightarrow> string \<Rightarrow> bool) \<Rightarrow> int \<Rightarrow> SessionInfo \<Rightarrow> string \<Rightarrow> account_db \<Rightarrow> unit api_result \<times> account_db" where
  "delete_user enforce now auth user_id db =
     try_in db (check_permission enforce (au_role auth) ''users'' ''delete'')
      (\<lambda>_. try_in db (ensure (au_user_id auth \<noteq> user_id)
             (ApiError BAD_REQUEST ''cannot_delete_self'' ''You cannot disable your own account''))
      (\<lambda>_. try_in db (fetch_user_by_id db user_id)
      (\<lambda>target. try_in db (ensure (us_role target \<noteq> ''owner'')
             (ApiError FORBIDDEN ''cannot_delete_owner'' ''The owner account cannot be disabled''))
      (\<lambda>_. try_in db (if us_role target = ''admin'' then require_owner auth else Inr ())
      (\<lambda>_. case disable_account now user_id db of
             (revoked_tokens, revoked_sessions, db1) \<Rightarrow>
               (Inr (), audit_account (Some (au_user_id auth)) ''user_disabled'' ''user'' (Some user_id)
                  [(''disabled_by'', Some (au_email auth)), (''revoked_api_tokens'', Some (show_nat revoked_tokens)),
                   (''revoked_sessions'', Some (show_nat revoked_sessions))] db1))))))"

definition re_enable_user ::
  "(string \<Rightarrow> string \<Rightarrow> string \<Rightarrow> bool) \<Rightarrow> int \<Rightarrow> SessionInfo \<Rightarrow> string \<Rightarrow> account_db \<Rightarrow> user_row api_result \<times> account_db" where
  "re_enable_user enforce now auth user_id db =
     try_in db (check_permission enforce (au_role auth) ''users'' ''enable'')
      (\<lambda>_. try_in db (ensure (au_user_id auth \<noteq> user_id)
             (ApiError BAD_REQUEST ''cannot_enable_self'' ''You cannot re-enable your own account''))
      (\<lambda>_. try_in db (fetch_user_by_id db user_id)
      (\<lambda>target. try_in db (ensure (us_role target \<noteq> ''owner'')
             (ApiError FORBIDDEN ''cannot_enable_owner'' ''The owner account cannot be re-enabled this way''))
      (\<lambda>_. try_in db (if us_role target = ''admin'' then require_owner auth else Inr ())
      (\<lambda>_. try_in db (ensure (us_status target = ''disabled'')
             (ApiError CONFLICT ''not_disabled'' ''User is not currently disabled''))
      (\<lambda>_. let db1 = audit_account (Some (au_user_id auth)) ''user_enabled'' ''user'' (Some user_id)
                 [(''enabled_by'', Some (au_email auth))]
                 (update_users (\<lambda>u. us_id u = user_id) (\<lambda>u. u\<lparr>us_status := ''active'', us_updated_at := now\<rparr>) db)
            in (fetch_user_by_id db1 user_id, db1)))))))"

end
