(* ===== verification/Byte_Compare.thy ===== *)
theory Byte_Compare
  imports Oore_Prelude "HOL-Library.Word"
begin

text \<open>
  Comparing secrets without an early exit, as \<^verbatim>\<open>instance_settings.rs\<close> and \<^verbatim>\<open>integrations/webhooks.rs\<close>
  do: the differences of all byte pairs are collected in one byte. It is equality.
\<close>

definition constant_time_eq :: "8 word list \<Rightarrow> 8 word list \<Rightarrow> bool" where
  "constant_time_eq a b \<longleftrightarrow>
     length a = length b \<and> fold (\<lambda>(x, y) acc. or acc (xor x y)) (zip a b) 0 = 0"

definition as_bytes :: "string \<Rightarrow> 8 word list" where
  "as_bytes = map (\<lambda>c. of_nat (of_char c))"

lemma fold_or_zero:
  "fold (\<lambda>(x, y) acc. or acc (xor x y)) ps (a :: 8 word) = 0 \<longleftrightarrow> a = 0 \<and> (\<forall>(x, y) \<in> set ps. x = y)"
proof (induction ps arbitrary: a)
  case (Cons p ps)
  have "or a (xor x y) = 0 \<longleftrightarrow> a = 0 \<and> x = y" for x y :: "8 word"
    by (auto simp: bit_eq_iff bit_simps)
  then show ?case by (cases p) (auto simp: Cons.IH)
qed simp

lemma constant_time_eq_iff: "constant_time_eq a b \<longleftrightarrow> a = b"
proof -
  have "(\<forall>(x, y) \<in> set (zip a b). x = y) \<longleftrightarrow> a = b" if "length a = length b"
    using that by (induction rule: list_induct2) auto
  then show ?thesis by (auto simp: constant_time_eq_def fold_or_zero)
qed

lemma as_bytes_inj: "as_bytes a = as_bytes b \<longleftrightarrow> a = b"
proof -
  have "inj (\<lambda>c. of_nat (of_char c) :: 8 word)"
  proof (rule injI)
    fix x y :: char
    assume "(of_nat (of_char x) :: 8 word) = of_nat (of_char y)"
    then have "take_bit 8 (of_char x :: nat) = take_bit 8 (of_char y)" by (simp add: word_of_nat_eq_iff)
    then show "x = y" by (simp add: take_bit_eq_mod)
  qed
  then show ?thesis unfolding as_bytes_def by (metis inj_map_eq_map)
qed

end
