(* ===== verification/Logins.thy ===== *)
theory Logins
  imports Accounts Byte_Compare
begin

text \<open>
  The ways to a session: \<^verbatim>\<open>auth.rs\<close> after the identity provider answered, the local login with
  the recovery capabilities of \<^verbatim>\<open>local_recovery.rs\<close>, the trusted proxy login with the checks of
  \<^verbatim>\<open>instance_settings.rs\<close>, and the logout.

  The claims of a verified ID token are an argument, as are the facts of a request the handlers look
  at. Decryption, the membership of an address in a network and the parsing of a header name are
  parameters. Failures of the database other than violated constraints are not modelled.
\<close>

subsection \<open>Starting a session\<close>

record LoginResponse =
  lr_session_token :: string
  lr_expires_at :: int
  lr_email :: string
  lr_oidc_subject :: string
  lr_user_id :: string
  lr_role :: string
  lr_avatar_url :: "string option"

abbreviation session_error :: "string \<Rightarrow> api_error" where
  "session_error \<equiv> ApiError INTERNAL_SERVER_ERROR ''session_error''"

text \<open>The end of every login: the session is created and read back for its expiry.\<close>

definition start_session ::
  "(string \<Rightarrow> string) \<Rightarrow> int \<Rightarrow> string \<Rightarrow> string \<Rightarrow> account_db \<Rightarrow> int api_result \<times> account_db" where
  "start_session hash_token now token user_id db =
     (case create_session hash_token now token user_id DEFAULT_SESSION_TTL db of
        None \<Rightarrow> (Inl (session_error ''Failed to create session''), db)
      | Some db1 \<Rightarrow>
          (case validate_session hash_token now token db1 of
             None \<Rightarrow> (Inl (session_error ''Session created but could not be validated''), db1)
           | Some info \<Rightarrow> (Inr (au_expires_at info), db1)))"

definition login_as ::
  "(string \<Rightarrow> string) \<Rightarrow> int \<Rightarrow> string \<Rightarrow> user_row \<Rightarrow> account_db \<Rightarrow> LoginResponse api_result \<times> account_db" where
  "login_as hash_token now token u db =
     (case start_session hash_token now token (us_id u) db of
        (Inl e, db1) \<Rightarrow> (Inl e, db1)
      | (Inr expires_at, db1) \<Rightarrow>
          (Inr \<lparr>lr_session_token = token, lr_expires_at = expires_at, lr_email = us_email u,
             lr_oidc_subject = us_oidc_subject u, lr_user_id = us_id u, lr_role = us_role u,
             lr_avatar_url = us_avatar_url u\<rparr>, db1))"

definition local_subject_for_email :: "string \<Rightarrow> string" where
  "local_subject_for_email email = ''local::'' @ to_ascii_lowercase (trim email)"

definition trusted_proxy_subject_for_email :: "string \<Rightarrow> string" where
  "trusted_proxy_subject_for_email email = ''trusted-proxy::'' @ to_ascii_lowercase (trim email)"

text \<open>Setting the subject of an invited user fails when another account has it.\<close>

definition activate ::
  "int \<Rightarrow> string \<Rightarrow> (user_row \<Rightarrow> user_row) \<Rightarrow> string \<Rightarrow> account_db \<Rightarrow> account_db api_result" where
  "activate now user_id columns subject db =
     (if exists_row (\<lambda>u. us_id u \<noteq> user_id \<and> us_oidc_subject u = subject) (user_rows db)
      then Inl (ApiError INTERNAL_SERVER_ERROR ''store_error'' ''Failed to activate user'')
      else Inr (audit_account (Some user_id) ''user_activated'' ''user'' (Some user_id) []
             (update_users (\<lambda>u. us_id u = user_id)
                (\<lambda>u. (columns u)\<lparr>us_oidc_subject := subject, us_status := ''active'', us_updated_at := now\<rparr>) db)))"

subsection \<open>The identity provider\<close>

record id_claims =
  cl_subject :: string
  cl_email :: string
  cl_email_verified :: "bool option"
  cl_picture :: "string option"

definition require_verified_invitation_email :: "bool option \<Rightarrow> unit api_result" where
  "require_verified_invitation_email verified =
     ensure (verified = Some True)
       (ApiError FORBIDDEN ''unverified_email'' ''Identity provider did not verify the invited email address'')"

text \<open>The account of the claims: by subject, else an invitation of the verified email address.\<close>

definition oidc_account :: "int \<Rightarrow> id_claims \<Rightarrow> account_db \<Rightarrow> user_row api_result \<times> account_db" where
  "oidc_account now claims db =
     (case fetch_optional (\<lambda>u. us_oidc_subject u = cl_subject claims \<and> us_status u = ''active'') (user_rows db) of
        Some u \<Rightarrow>
          (Inr (u\<lparr>us_avatar_url := (case cl_picture claims of None \<Rightarrow> us_avatar_url u | Some p \<Rightarrow> Some p)\<rparr>),
           if cl_picture claims \<noteq> None \<and> cl_picture claims \<noteq> us_avatar_url u
           then update_users (\<lambda>x. us_id x = us_id u) (\<lambda>x. x\<lparr>us_avatar_url := cl_picture claims, us_updated_at := now\<rparr>) db
           else db)
      | None \<Rightarrow>
          try_in db (require_verified_invitation_email (cl_email_verified claims))
           (\<lambda>_. case fetch_optional (\<lambda>u. to_ascii_lowercase (us_email u) = to_ascii_lowercase (cl_email claims) \<and>
                       us_status u = ''invited'') (user_rows db) of
                  None \<Rightarrow> (Inl (ApiError FORBIDDEN ''user_not_found''
                             ''No user account exists for this identity. Contact an administrator.''), db)
                | Some u \<Rightarrow>
                    try_in db (activate now (us_id u) (\<lambda>x. x\<lparr>us_avatar_url := cl_picture claims\<rparr>) (cl_subject claims) db)
                     (\<lambda>db1. (Inr (u\<lparr>us_avatar_url := cl_picture claims\<rparr>), db1))))"

definition oidc_login ::
  "(string \<Rightarrow> string) \<Rightarrow> int \<Rightarrow> string \<Rightarrow> id_claims \<Rightarrow> account_db \<Rightarrow> LoginResponse api_result \<times> account_db" where
  "oidc_login hash_token now token claims db =
     (case oidc_account now claims db of
        (Inl e, db1) \<Rightarrow> (Inl e, db1)
      | (Inr u, db1) \<Rightarrow> login_as hash_token now token (u\<lparr>us_oidc_subject := cl_subject claims\<rparr>) db1)"

definition logout :: "(string \<Rightarrow> string) \<Rightarrow> int \<Rightarrow> string option \<Rightarrow> account_db \<Rightarrow> unit api_result \<times> account_db" where
  "logout hash_token now header db =
     try_in db (ok_or (ApiError UNAUTHORIZED ''missing_auth'' ''Authorization header required'') (extract_bearer header))
      (\<lambda>token. try_in db (ok_or (ApiError UNAUTHORIZED ''invalid_session'' ''Invalid or expired session token'')
             (validate_session hash_token now token db))
      (\<lambda>_. (Inr (), snd (revoke_session hash_token token db))))"

subsection \<open>Recovery capabilities\<close>

definition LOCAL_RECOVERY_MIN_TTL_SECS :: int where "LOCAL_RECOVERY_MIN_TTL_SECS = 1"
definition LOCAL_RECOVERY_MAX_TTL_SECS :: int where "LOCAL_RECOVERY_MAX_TTL_SECS = 5 * 60"
definition MAX_CAPABILITIES :: nat where "MAX_CAPABILITIES = 32"
definition CAPABILITY_PREFIX :: string where "CAPABILITY_PREFIX = ''oore_recovery_''"

datatype ConsumeError = Malformed | UnknownOrExpired | AccountMismatch

definition consume_reason :: "ConsumeError \<Rightarrow> string" where
  "consume_reason e =
     (case e of Malformed \<Rightarrow> ''malformed'' | UnknownOrExpired \<Rightarrow> ''unknown_or_expired''
      | AccountMismatch \<Rightarrow> ''account_mismatch'')"

definition is_ascii_hexdigit :: "char \<Rightarrow> bool" where
  "is_ascii_hexdigit c \<longleftrightarrow> is_ascii_digit c \<or> to_ascii_lower c \<in> set ''abcdef''"

definition valid_capability_format :: "string \<Rightarrow> bool" where
  "valid_capability_format raw \<longleftrightarrow>
     length raw = length CAPABILITY_PREFIX + 64 \<and> starts_with CAPABILITY_PREFIX raw \<and>
     list_all is_ascii_hexdigit (drop (length CAPABILITY_PREFIX) raw)"

definition live_capabilities :: "int \<Rightarrow> RecoveryCapability list \<Rightarrow> RecoveryCapability list" where
  "live_capabilities now = filter (\<lambda>c. now < rc_expires_at c)"

text \<open>\<open>raw\<close> is the prefix with a generated token; \<open>None\<close> answers that the request is refused.\<close>

definition mint ::
  "(string \<Rightarrow> string) \<Rightarrow> int \<Rightarrow> string \<Rightarrow> string \<Rightarrow> string \<Rightarrow> string \<Rightarrow> int \<Rightarrow> account_db \<Rightarrow> int option \<times> account_db" where
  "mint hash_token now cid raw user_id email ttl_seconds db =
     (if ttl_seconds < LOCAL_RECOVERY_MIN_TTL_SECS \<or> LOCAL_RECOVERY_MAX_TTL_SECS < ttl_seconds then (None, db)
      else
        let kept = live_capabilities now (recovery db)
        in if MAX_CAPABILITIES \<le> length kept then (None, db\<lparr>recovery := kept\<rparr>)
           else (Some (now + ttl_seconds),
             db\<lparr>recovery := filter (\<lambda>c. rc_token_hash c \<noteq> hash_token raw) kept @
               [\<lparr>rc_token_hash = hash_token raw, rc_id = cid, rc_user_id = user_id, rc_user_email = email,
                 rc_expires_at = now + ttl_seconds\<rparr>]\<rparr>))"

definition consume ::
  "(string \<Rightarrow> string) \<Rightarrow> int \<Rightarrow> string \<Rightarrow> string option \<Rightarrow> account_db \<Rightarrow>
   (ConsumeError + RecoveryCapability) \<times> account_db" where
  "consume hash_token now raw requested_email db =
     (if \<not> valid_capability_format raw then (Inl Malformed, db)
      else
        let kept = live_capabilities now (recovery db);
            db1 = db\<lparr>recovery := filter (\<lambda>c. rc_token_hash c \<noteq> hash_token raw) kept\<rparr>
        in (case fetch_optional (\<lambda>c. rc_token_hash c = hash_token raw) kept of
              None \<Rightarrow> (Inl UnknownOrExpired, db1)
            | Some c \<Rightarrow>
                if (case requested_email of None \<Rightarrow> False
                    | Some email \<Rightarrow> to_ascii_lowercase (trim email) \<noteq> to_ascii_lowercase (rc_user_email c))
                then (Inl AccountMismatch, db1) else (Inr c, db1)))"

text \<open>The timer that a minted capability starts removes it.\<close>

definition expire_capability :: "string \<Rightarrow> account_db \<Rightarrow> account_db" where
  "expire_capability token_hash db = db\<lparr>recovery := filter (\<lambda>c. rc_token_hash c \<noteq> token_hash) (recovery db)\<rparr>"

definition requested :: "string option \<Rightarrow> string option" where
  "requested email = (case email of None \<Rightarrow> None
     | Some e \<Rightarrow> if to_ascii_lowercase (trim e) = [] then None else Some (to_ascii_lowercase (trim e)))"

text \<open>The account a local login or a recovery request means.\<close>

definition active_account :: "string option \<Rightarrow> account_db \<Rightarrow> unit + user_row option" where
  "active_account email db =
     (case email of
        Some e \<Rightarrow> Inr (fetch_optional (\<lambda>u. to_ascii_lowercase (us_email u) = e \<and> us_status u = ''active'') (user_rows db))
      | None \<Rightarrow> if rows_affected (\<lambda>u. us_status u = ''active'') (user_rows db) \<noteq> 1 then Inl ()
               else Inr (fetch_optional (\<lambda>u. us_status u = ''active'') (user_rows db)))"

definition try_mint_capability ::
  "(string \<Rightarrow> string) \<Rightarrow> RuntimeMode \<Rightarrow> int \<Rightarrow> string \<Rightarrow> string \<Rightarrow> string option \<Rightarrow> int \<Rightarrow> account_db \<Rightarrow>
   (string + int) \<times> account_db" where
  "try_mint_capability hash_token mode now cid raw email ttl_seconds db =
     try_in db (ensure (LOCAL_RECOVERY_MIN_TTL_SECS \<le> ttl_seconds \<and> ttl_seconds \<le> LOCAL_RECOVERY_MAX_TTL_SECS) ''invalid_ttl'')
      (\<lambda>_. try_in db (ensure (setup_ready db) ''setup_incomplete'')
      (\<lambda>_. try_in db (ensure (mode = Runtime_Remote) ''mode_restricted'')
      (\<lambda>_. try_in db (ensure (case requested email of None \<Rightarrow> True
             | Some e \<Rightarrow> length e \<le> 256 \<and> CHR ''@'' \<in> set e) ''invalid_email'')
      (\<lambda>_. try_in db (case active_account (requested email) db of Inl _ \<Rightarrow> Inl ''email_required''
             | Inr row \<Rightarrow> ok_or ''user_not_found'' row)
      (\<lambda>u. case mint hash_token now cid raw (us_id u) (us_email u) ttl_seconds db of
             (None, db1) \<Rightarrow> (Inl ''recovery_capacity_exhausted'', db1)
           | (Some expires_at, db1) \<Rightarrow> (Inr expires_at, db1))))))"

subsection \<open>The local login\<close>

definition AUTO_LOCAL_OWNER_EMAIL :: string where "AUTO_LOCAL_OWNER_EMAIL = ''owner@local''"

definition upsert_owner :: "int \<Rightarrow> string \<Rightarrow> string \<Rightarrow> string \<Rightarrow> account_db \<Rightarrow> account_db api_result" where
  "upsert_owner now uid email subject db =
     (if exists_row (\<lambda>u. us_email u \<noteq> email \<and> (us_oidc_subject u = subject \<or> us_id u = uid)) (user_rows db)
      then Inl (ApiError INTERNAL_SERVER_ERROR ''store_error'' ''Failed to create local owner'')
      else if exists_row (\<lambda>u. us_email u = email) (user_rows db)
      then Inr (update_users (\<lambda>u. us_email u = email)
             (\<lambda>u. u\<lparr>us_oidc_subject := subject, us_display_name := Some email, us_role := ''owner'',
                us_status := ''active'', us_updated_at := now\<rparr>) db)
      else Inr (db\<lparr>user_rows := user_rows db @
             [\<lparr>us_id = uid, us_email = email, us_oidc_subject = subject, us_display_name = Some email,
               us_role = ''owner'', us_status = ''active'', us_avatar_url = None, us_invited_by = None,
               us_created_at = now, us_updated_at = now\<rparr>]\<rparr>))"

definition auto_complete_local_setup_if_needed ::
  "int \<Rightarrow> string \<Rightarrow> account_db \<Rightarrow> account_db api_result" where
  "auto_complete_local_setup_if_needed now uid db =
     (if setup_ready db then Inr db
      else
        let owner_email = (case setup_owner db of None \<Rightarrow> AUTO_LOCAL_OWNER_EMAIL
              | Some o_r \<Rightarrow> let e = to_ascii_lowercase (trim (ow_email o_r)) in if e = [] then AUTO_LOCAL_OWNER_EMAIL else e);
            subject = (case Option.bind (setup_owner db) ow_oidc_subject of None \<Rightarrow> local_subject_for_email owner_email
              | Some sub \<Rightarrow> if trim sub = [] then local_subject_for_email owner_email else sub);
            created_at = (case setup_owner db of None \<Rightarrow> now | Some o_r \<Rightarrow> ow_created_at o_r)
        in and_then (upsert_owner now uid owner_email subject db)
             (\<lambda>db1. let owner_id = map_option us_id (fetch_optional
                        (\<lambda>u. to_ascii_lowercase (us_email u) = to_ascii_lowercase owner_email) (user_rows db1))
                in Inr ((audit_account owner_id ''owner_created_auto_local'' ''user'' owner_id
                      [(''details'', Some ''auto-bootstrap on first local login'')] db1)
                     \<lparr>setup_ready := True,
                      setup_owner := Some \<lparr>ow_email = owner_email, ow_oidc_subject = Some subject, ow_created_at = created_at\<rparr>\<rparr>)))"

text \<open>What the handler looks at of a request, and its body.\<close>

record LocalLoginRequest =
  ll_client_loopback :: bool
  ll_peer_loopback :: bool
  ll_forwarded :: bool
  ll_email :: "string option"
  ll_capability :: "string option"

definition show_flag :: "bool \<Rightarrow> string" where
  "show_flag b = (if b then ''true'' else ''false'')"

definition audit_recovery_failure :: "string \<Rightarrow> LocalLoginRequest \<Rightarrow> account_db \<Rightarrow> account_db" where
  "audit_recovery_failure reason req =
     audit_account None ''local_recovery_login_failed'' ''local_recovery_capability'' None
       [(''reason'', Some reason), (''peer_loopback'', Some (show_flag (ll_peer_loopback req))),
        (''forwarding_metadata_present'', Some (show_flag (ll_forwarded req)))]"

definition nonempty_trim :: "string option \<Rightarrow> string option" where
  "nonempty_trim x = (case x of None \<Rightarrow> None | Some v \<Rightarrow> if trim v = [] then None else Some (trim v))"

text \<open>Outside the local mode a login needs a recovery capability, which is spent by the attempt.\<close>

definition spend_capability ::
  "(string \<Rightarrow> string) \<Rightarrow> int \<Rightarrow> LocalLoginRequest \<Rightarrow> account_db \<Rightarrow> RecoveryCapability api_result \<times> account_db" where
  "spend_capability hash_token now req db =
     (case nonempty_trim (ll_capability req) of
        None \<Rightarrow> (Inl (ApiError FORBIDDEN ''local_recovery_capability_required''
                   ''External Access local recovery requires a capability minted by oore recovery''),
                 audit_recovery_failure ''capability_required'' req db)
      | Some raw \<Rightarrow>
          (case consume hash_token now raw (requested (ll_email req)) db of
             (Inr c, db1) \<Rightarrow> (Inr c, db1)
           | (Inl reason, db1) \<Rightarrow>
               (Inl (if reason = AccountMismatch
                     then ApiError FORBIDDEN ''local_recovery_account_mismatch''
                            ''Recovery capability is not valid for the requested account''
                     else ApiError FORBIDDEN ''local_recovery_capability_invalid''
                            ''Recovery capability is invalid, expired, or already used''),
                audit_recovery_failure (consume_reason reason) req db1)))"

abbreviation no_local_user :: api_error where
  "no_local_user \<equiv> ApiError FORBIDDEN ''user_not_found'' ''No active local user found for login''"

definition recovery_login ::
  "(string \<Rightarrow> string) \<Rightarrow> int \<Rightarrow> string \<Rightarrow> LocalLoginRequest \<Rightarrow> account_db \<Rightarrow> LoginResponse api_result \<times> account_db" where
  "recovery_login hash_token now token req db =
     (case spend_capability hash_token now req db of
        (Inl e, db1) \<Rightarrow> (Inl e, db1)
      | (Inr c, db1) \<Rightarrow>
          try_in db1 (ok_or no_local_user
             (fetch_optional (\<lambda>u. us_id u = rc_user_id c \<and> us_status u = ''active'') (user_rows db1)))
           (\<lambda>u. case login_as hash_token now token u db1 of
                  (Inl e, db2) \<Rightarrow> (Inl e, db2)
                | (Inr r, db2) \<Rightarrow>
                    (Inr r, audit_account (Some (us_id u)) ''local_recovery_login_succeeded'' ''local_recovery_capability''
                       (Some (rc_id c))
                       [(''capability_id'', Some (rc_id c)), (''peer_loopback'', Some (show_flag (ll_peer_loopback req))),
                        (''forwarding_metadata_present'', Some (show_flag (ll_forwarded req)))] db2)))"

definition passwordless_login ::
  "(string \<Rightarrow> string) \<Rightarrow> int \<Rightarrow> string \<Rightarrow> LocalLoginRequest \<Rightarrow> account_db \<Rightarrow> LoginResponse api_result \<times> account_db" where
  "passwordless_login hash_token now token req db =
     try_in db (case active_account (requested (ll_email req)) db of
         Inl _ \<Rightarrow> Inl (ApiError BAD_REQUEST ''email_required'' ''Specify email when multiple active users exist'')
       | Inr row \<Rightarrow> ok_or no_local_user row)
      (\<lambda>u. login_as hash_token now token u db)"

definition local_login ::
  "(string \<Rightarrow> string) \<Rightarrow> RuntimeMode \<Rightarrow> int \<Rightarrow> string \<Rightarrow> string \<Rightarrow> LocalLoginRequest \<Rightarrow> account_db \<Rightarrow>
   LoginResponse api_result \<times> account_db" where
  "local_login hash_token mode now uid token req db =
     try_in db (ensure (\<not> (mode = Runtime_Local \<and> \<not> ll_client_loopback req))
         (ApiError FORBIDDEN ''local_login_loopback_required'' ''Local login is only available from loopback clients''))
      (\<lambda>_. try_in db (ensure (setup_ready db \<or> mode = Runtime_Local)
         (ApiError FORBIDDEN ''mode_restricted'' ''Local login during setup is only available in Local Only mode''))
      (\<lambda>_. try_in db (auto_complete_local_setup_if_needed now uid db)
      (\<lambda>db1. if mode = Runtime_Remote then recovery_login hash_token now token req db1
              else passwordless_login hash_token now token req db1)))"

subsection \<open>The trusted proxy\<close>

definition TRUSTED_PROXY_SHARED_SECRET_HEADER :: string where
  "TRUSTED_PROXY_SHARED_SECRET_HEADER = ''x-oore-trusted-proxy-secret''"

record trusted_proxy_settings =
  tp_user_email_header :: string
  tp_networks :: "string list"
  tp_encrypted_shared_secret :: "string option"

definition is_trusted_proxy_peer ::
  "(string \<Rightarrow> string \<Rightarrow> bool) \<Rightarrow> string \<Rightarrow> bool \<Rightarrow> trusted_proxy_settings \<Rightarrow> bool" where
  "is_trusted_proxy_peer contains peer loopback settings \<longleftrightarrow>
     loopback \<or> list_ex (\<lambda>cidr. contains cidr peer) (tp_networks settings)"

definition verify_trusted_proxy_shared_secret ::
  "(string \<Rightarrow> string + string) \<Rightarrow> string option \<Rightarrow> trusted_proxy_settings \<Rightarrow> unit api_result" where
  "verify_trusted_proxy_shared_secret decrypt header settings =
     and_then (ok_or (ApiError SERVICE_UNAVAILABLE ''trusted_proxy_config_invalid''
         ''Trusted proxy shared secret is not configured'') (tp_encrypted_shared_secret settings))
      (\<lambda>encrypted. case decrypt encrypted of
         Inl _ \<Rightarrow> Inl (ApiError INTERNAL_SERVER_ERROR ''decryption_error''
                    ''Failed to verify trusted proxy shared secret'')
       | Inr expected \<Rightarrow>
           and_then (ok_or (ApiError UNAUTHORIZED ''trusted_proxy_shared_secret_missing''
               ''Trusted proxy shared secret header is missing'') (nonempty_trim header))
            (\<lambda>provided. ensure (constant_time_eq (as_bytes provided) (as_bytes expected))
               (ApiError UNAUTHORIZED ''trusted_proxy_shared_secret_invalid''
                  ''Trusted proxy shared secret header is invalid'')))"

definition normalize_email_value :: "string \<Rightarrow> string option" where
  "normalize_email_value raw =
     (let e = to_ascii_lowercase (trim raw)
      in if e = [] \<or> 256 < length e \<or> CHR ''@'' \<notin> set e then None else Some e)"

definition extract_trusted_proxy_email ::
  "(string \<Rightarrow> bool) \<Rightarrow> (string \<Rightarrow> string option) \<Rightarrow> trusted_proxy_settings \<Rightarrow> string api_result" where
  "extract_trusted_proxy_email valid_name headers settings =
     and_then (ensure (valid_name (tp_user_email_header settings))
         (ApiError INTERNAL_SERVER_ERROR ''trusted_proxy_config_invalid''
            ''Trusted proxy email header configuration is invalid''))
      (\<lambda>_. and_then (ok_or (ApiError UNAUTHORIZED ''trusted_proxy_identity_missing''
            ''Trusted proxy identity header is missing. Configure the upstream proxy to forward user identity.'')
           (headers (tp_user_email_header settings)))
      (\<lambda>raw. ok_or (ApiError UNAUTHORIZED ''trusted_proxy_identity_invalid''
            ''Trusted proxy identity must be an email address. Configure the upstream proxy to forward an email identity.'')
           (normalize_email_value raw)))"

record proxy_request =
  px_peer :: string
  px_peer_loopback :: bool
  px_headers :: "string \<Rightarrow> string option"

definition proxy_account :: "int \<Rightarrow> string \<Rightarrow> account_db \<Rightarrow> user_row api_result \<times> account_db" where
  "proxy_account now email db =
     try_in db (ok_or (ApiError FORBIDDEN ''user_not_found''
         ''No user account exists for this identity. Contact an administrator.'')
        (fetch_optional (\<lambda>u. to_ascii_lowercase (us_email u) = to_ascii_lowercase email) (user_rows db)))
      (\<lambda>u. if us_status u = ''disabled''
           then (Inl (ApiError FORBIDDEN ''user_disabled'' ''This user account is disabled''), db)
           else if us_status u = ''invited''
           then try_in db (activate now (us_id u) id (trusted_proxy_subject_for_email email) db)
                 (\<lambda>db1. (Inr (u\<lparr>us_oidc_subject := trusted_proxy_subject_for_email email\<rparr>), db1))
           else (Inr u, db))"

definition proxy_session ::
  "(string \<Rightarrow> string) \<Rightarrow> int \<Rightarrow> string \<Rightarrow> string \<Rightarrow> string \<Rightarrow> account_db \<Rightarrow> LoginResponse api_result \<times> account_db" where
  "proxy_session hash_token now token peer email db =
     (case proxy_account now email db of
        (Inl e, db1) \<Rightarrow> (Inl e, db1)
      | (Inr u, db1) \<Rightarrow>
          (case login_as hash_token now token u db1 of
             (Inl e, db2) \<Rightarrow> (Inl e, db2)
           | (Inr r, db2) \<Rightarrow>
               (Inr r, audit_account (Some (us_id u)) ''trusted_proxy_login_succeeded'' ''auth'' (Some (us_id u))
                  [(''email'', Some (us_email u)), (''peer_ip'', Some peer)] db2)))"

definition trusted_proxy_login ::
  "(string \<Rightarrow> string) \<Rightarrow> (string \<Rightarrow> string + string) \<Rightarrow> (string \<Rightarrow> string \<Rightarrow> bool) \<Rightarrow> (string \<Rightarrow> bool) \<Rightarrow>
   RuntimeMode \<Rightarrow> RemoteAuthMode \<Rightarrow> trusted_proxy_settings \<Rightarrow> int \<Rightarrow> string \<Rightarrow> proxy_request \<Rightarrow> account_db \<Rightarrow>
   LoginResponse api_result \<times> account_db" where
  "trusted_proxy_login hash_token decrypt contains valid_name mode remote_mode settings now token req db =
     try_in db (ensure (setup_ready db)
         (ApiError CONFLICT ''setup_incomplete'' ''Auth endpoints are only available after setup is complete''))
      (\<lambda>_. try_in db (ensure (mode = Runtime_Remote)
         (ApiError FORBIDDEN ''mode_restricted'' ''Trusted proxy login is only available in External Access mode''))
      (\<lambda>_. try_in db (ensure (remote_mode = TrustedProxy)
         (ApiError FORBIDDEN ''mode_restricted'' ''Trusted proxy login is not enabled for this instance''))
      (\<lambda>_. if \<not> is_trusted_proxy_peer contains (px_peer req) (px_peer_loopback req) settings
            then (Inl (ApiError FORBIDDEN ''trusted_proxy_peer_not_allowed''
                    ''Trusted proxy login requests must come from an allowlisted proxy peer''),
                  audit_account None ''trusted_proxy_login_blocked_untrusted_peer'' ''auth'' None
                    [(''peer_ip'', Some (px_peer req))] db)
            else
      try_in db (verify_trusted_proxy_shared_secret decrypt
         (px_headers req TRUSTED_PROXY_SHARED_SECRET_HEADER) settings)
      (\<lambda>_. try_in db (extract_trusted_proxy_email valid_name (px_headers req) settings)
      (\<lambda>email. proxy_session hash_token now token (px_peer req) email db)))))"

end
