(* ===== verification/Account_Guarantees.thy ===== *)
theory Account_Guarantees
  imports Logins
begin

text \<open>
  What the account operations guarantee together. \<open>account_step\<close> is one operation in any order: every
  handler, every login, and on their own the two inserts a handler makes after its checks, so that a
  credential may also be created for a caller whose account changed in between. The parameter \<open>h\<close> is
  a token hash that no later operation generates again.
\<close>

inductive account_step ::
  "(string \<Rightarrow> string) \<Rightarrow> (string \<Rightarrow> string \<Rightarrow> string \<Rightarrow> bool) \<Rightarrow> string \<Rightarrow> account_db \<Rightarrow> account_db \<Rightarrow> bool"
for hash_token enforce h where
  oidc: "hash_token token \<noteq> h \<Longrightarrow> account_step hash_token enforce h db (snd (oidc_login hash_token now token claims db))"
| local: "hash_token token \<noteq> h \<Longrightarrow> setup_ready db \<Longrightarrow>
    account_step hash_token enforce h db (snd (local_login hash_token mode now uid token req db))"
| proxy: "hash_token token \<noteq> h \<Longrightarrow> account_step hash_token enforce h db
    (snd (trusted_proxy_login hash_token decrypt contains valid_name mode remote_mode settings now token preq db))"
| session: "hash_token token \<noteq> h \<Longrightarrow> create_session hash_token now token user_id ttl db = Some db' \<Longrightarrow>
    account_step hash_token enforce h db db'"
| token: "hash_token token \<noteq> h \<Longrightarrow>
    create_api_token hash_token now tid token created_by name role expires_at db = Some db' \<Longrightarrow>
    account_step hash_token enforce h db db'"
| create_token: "hash_token token \<noteq> h \<Longrightarrow>
    account_step hash_token enforce h db (snd (create_api_token_handler hash_token enforce now auth tid token treq db))"
| revoke_token: "account_step hash_token enforce h db (snd (revoke_api_token_handler enforce now auth token_id db))"
| request: "account_step hash_token enforce h db (snd (auth_user hash_token now header db))"
| logout: "account_step hash_token enforce h db (snd (logout hash_token now header db))"
| invite: "account_step hash_token enforce h db (snd (invite_user enforce now auth user_id email role db))"
| change_role: "account_step hash_token enforce h db (snd (update_user_role enforce now auth user_id role db))"
| disable: "account_step hash_token enforce h db (snd (delete_user enforce now auth user_id db))"
| enable: "account_step hash_token enforce h db (snd (re_enable_user enforce now auth user_id db))"
| revoke_all: "account_step hash_token enforce h db (snd (revoke_all_sessions db))"
| cleanup: "account_step hash_token enforce h db (snd (cleanup_expired now db))"
| mint: "hash_token raw \<noteq> h \<Longrightarrow> account_step hash_token enforce h db
    (snd (try_mint_capability hash_token mode now cid raw email_opt ttl db))"
| expire: "account_step hash_token enforce h db (expire_capability token_hash db)"

subsection \<open>What each operation leaves alone\<close>

lemma audit_account_frame [simp]:
  "user_rows (audit_account a b c d e db) = user_rows db" "sessions (audit_account a b c d e db) = sessions db"
  "api_tokens (audit_account a b c d e db) = api_tokens db" "setup_ready (audit_account a b c d e db) = setup_ready db"
  "recovery (audit_account a b c d e db) = recovery db"
  by (simp_all add: audit_account_def)

lemma update_users_frame [simp]:
  "user_rows (update_users P f db) = update_where P f (user_rows db)" "sessions (update_users P f db) = sessions db"
  "api_tokens (update_users P f db) = api_tokens db" "setup_ready (update_users P f db) = setup_ready db"
  "recovery (update_users P f db) = recovery db"
  by (simp_all add: update_users_def)

text \<open>A credential is dead when no session has its hash and every API token with it is revoked.\<close>

definition dead :: "string \<Rightarrow> account_db \<Rightarrow> bool" where
  "dead h db \<longleftrightarrow> (\<forall>s \<in> set (sessions db). sn_token_hash s \<noteq> h) \<and>
     (\<forall>t \<in> set (api_tokens db). tk_token_hash t = h \<longrightarrow> tk_revoked_at t \<noteq> None)"

lemma dead_cong: "sessions db' = sessions db \<Longrightarrow> api_tokens db' = api_tokens db \<Longrightarrow> dead h db' = dead h db"
  by (simp add: dead_def)

lemma dead_audit [simp]: "dead h (audit_account a b c d e db) = dead h db"
  by (rule dead_cong) simp_all

lemma dead_users [simp]: "dead h (update_users P f db) = dead h db" "dead h (user_rows_update g db) = dead h db"
  by (rule dead_cong; simp)+

lemma dead_recovery [simp]: "dead h (recovery_update f db) = dead h db"
  by (rule dead_cong) simp_all

lemma dead_rejected:
  assumes "dead h db" and "hash_token token = h"
  shows "auth_user hash_token now (Some (''Bearer '' @ token)) db =
    (Inl (ApiError UNAUTHORIZED ''invalid_session'' ''Invalid or expired token''), db)"
proof -
  have "session_joins now h db = []" "token_joins now h db = []"
    using assms(1) by (auto simp: session_joins_def token_joins_def dead_def filter_empty_conv)
  then have "validate_session hash_token now token db = None" "validate_api_token hash_token now token db = None"
    using assms(2) by (simp_all add: validate_session_def validate_api_token_def validate_api_token_hash_def)
  moreover have "extract_bearer (Some (''Bearer '' @ token)) = Some token"
    unfolding extract_bearer_def bind.bind_lunit strip_prefix_Some by simp
  ultimately show ?thesis by (simp only: auth_user_def option.case)
qed

lemma create_session_dead:
  "create_session hash_token now token user_id ttl db = Some db' \<Longrightarrow> hash_token token \<noteq> h \<Longrightarrow> dead h db' = dead h db"
  by (auto simp: create_session_def dead_def split: if_splits)

lemma create_api_token_dead:
  "create_api_token hash_token now tid token by_user name role ends db = Some db' \<Longrightarrow> hash_token token \<noteq> h \<Longrightarrow>
   dead h db' = dead h db"
  by (auto simp: create_api_token_def dead_def split: if_splits)

lemma delete_sessions_dead: "dead h db \<Longrightarrow> dead h (snd (delete_sessions P db))"
  by (auto simp: delete_sessions_def dead_def)

lemma revoke_tokens_dead:
  "dead h db \<Longrightarrow> dead h (db\<lparr>api_tokens := update_where P (\<lambda>t. t\<lparr>tk_revoked_at := Some now\<rparr>) (api_tokens db)\<rparr>)"
  by (simp add: dead_def ball_update_where)

lemma update_last_used_dead: "dead h (update_last_used now x db) = dead h db"
  by (auto simp: dead_def update_last_used_def ball_update_where in_set_update_where split: if_splits)

lemma start_session_dead:
  "dead h db \<Longrightarrow> hash_token token \<noteq> h \<Longrightarrow> dead h (snd (start_session hash_token now token uid db))"
  by (auto simp: start_session_def create_session_dead split: option.splits)

lemma login_as_dead:
  "dead h db \<Longrightarrow> hash_token token \<noteq> h \<Longrightarrow> dead h (snd (login_as hash_token now token u db))"
  using start_session_dead[of h db hash_token token now "us_id u"]
  by (auto simp: login_as_def split: prod.splits sum.splits)

lemma login_as_dead':
  "login_as hash_token now token u db = (r, db') \<Longrightarrow> hash_token token \<noteq> h \<Longrightarrow> dead h db \<Longrightarrow> dead h db'"
  using login_as_dead[of h db hash_token token now u] by simp

lemmas dead_try = try_in_state[where P = "dead h" for h]

lemma activate_dead: "activate now uid f sub db = Inr db' \<Longrightarrow> dead h db' = dead h db"
  by (auto simp: activate_def split: if_splits)

lemmas account_frames = audit_account_frame update_users_frame

lemma oidc_account_dead: "dead h (snd (oidc_account now claims db)) = dead h db"
  by (auto simp: oidc_account_def try_in_def activate_def split: option.splits sum.splits)

lemma oidc_login_dead:
  assumes "dead h db" and "hash_token token \<noteq> h"
  shows "dead h (snd (oidc_login hash_token now token claims db))"
  using assms oidc_account_dead[of h now claims db]
  by (auto simp: oidc_login_def login_as_dead split: prod.splits sum.splits)

lemma spend_capability_dead: "dead h (snd (spend_capability hash_token now req db)) = dead h db"
  by (auto simp: spend_capability_def consume_def Let_def audit_recovery_failure_def split: prod.splits sum.splits option.splits if_splits)

lemma recovery_login_dead:
  assumes "dead h db" and "hash_token token \<noteq> h"
  shows "dead h (snd (recovery_login hash_token now token req db))"
  using assms spend_capability_dead[of h hash_token now req db]
  by (auto simp: recovery_login_def try_in_def dest: login_as_dead' split: prod.splits sum.splits)

lemma local_login_dead:
  assumes "dead h db" and "hash_token token \<noteq> h" and "setup_ready db"
  shows "dead h (snd (local_login hash_token mode now uid token req db))"
  using assms recovery_login_dead[of h db hash_token token] login_as_dead[of h db hash_token token]
  by (auto simp: local_login_def passwordless_login_def auto_complete_local_setup_if_needed_def try_in_def split: sum.splits)

lemma proxy_account_dead: "dead h (snd (proxy_account now email db)) = dead h db"
  by (auto simp: proxy_account_def try_in_def activate_def split: sum.splits)

lemma trusted_proxy_login_dead:
  assumes "dead h db" and "hash_token token \<noteq> h"
  shows "dead h (snd (trusted_proxy_login hash_token decrypt contains valid_name mode remote_mode settings now token req db))"
proof -
  have "dead h (snd (proxy_session hash_token now token peer email db))" for peer email
    using assms proxy_account_dead[of h now email db]
    by (auto simp: proxy_session_def dest: login_as_dead' split: prod.splits sum.splits)
  with assms(1) show ?thesis unfolding trusted_proxy_login_def by (auto intro!: dead_try)
qed

lemma handlers_dead:
  assumes "dead h db"
  shows "dead h (snd (revoke_api_token_handler enforce now auth token_id db))"
    and "dead h (snd (auth_user hash_token now header db))"
    and "dead h (snd (logout hash_token now header db))"
    and "dead h (snd (invite_user enforce now auth user_id email role db))"
    and "dead h (snd (update_user_role enforce now auth user_id role db))"
    and "dead h (snd (delete_user enforce now auth user_id db))"
    and "dead h (snd (re_enable_user enforce now auth user_id db))"
    and "dead h (snd (try_mint_capability hash_token mode now cid raw email_opt ttl db))"
    and "dead h (expire_capability token_hash db)"
proof -
  note rv = revoke_tokens_dead[of h db, OF assms]
  show "dead h (snd (revoke_api_token_handler enforce now auth token_id db))"
    unfolding revoke_api_token_handler_def by (intro dead_try) (simp_all add: assms rv)
  show "dead h (snd (auth_user hash_token now header db))"
    using assms by (auto simp: auth_user_def update_last_used_dead split: option.splits)
  show "dead h (snd (logout hash_token now header db))"
    unfolding logout_def revoke_session_def
    by (intro dead_try) (simp_all add: assms delete_sessions_dead split_beta)
  show "dead h (snd (invite_user enforce now auth user_id email role db))"
    unfolding invite_user_def Let_def by (intro dead_try) (simp_all add: assms)
  show "dead h (snd (update_user_role enforce now auth user_id role db))"
    unfolding update_user_role_def Let_def by (intro dead_try) (simp_all add: assms)
  have "dead h (snd (snd (disable_account now user_id db)))"
    unfolding disable_account_def Let_def snd_conv revoke_user_sessions_def
    by (rule delete_sessions_dead) (use assms in \<open>simp add: dead_def ball_update_where\<close>)
  then show "dead h (snd (delete_user enforce now auth user_id db))"
    unfolding delete_user_def by (intro dead_try) (simp_all add: assms split_beta)
  show "dead h (snd (re_enable_user enforce now auth user_id db))"
    unfolding re_enable_user_def Let_def by (intro dead_try) (simp_all add: assms)
  have "dead h db'" if "mint hash_token now cid raw uid em ttl db = (r, db')" for uid em r db'
    using assms that by (auto simp: mint_def Let_def split: if_splits)
  then show "dead h (snd (try_mint_capability hash_token mode now cid raw email_opt ttl db))"
    unfolding try_mint_capability_def by (intro dead_try) (auto simp: assms split: prod.splits option.splits)
  show "dead h (expire_capability token_hash db)" using assms by (simp add: expire_capability_def)
qed

lemma create_token_dead:
  assumes "dead h db" and "hash_token token \<noteq> h"
  shows "dead h (snd (create_api_token_handler hash_token enforce now auth tid token req db))"
  unfolding create_api_token_handler_def
  by (intro dead_try) (auto simp: assms create_api_token_dead split: option.splits)

lemma account_step_dead: "account_step hash_token enforce h db db' \<Longrightarrow> dead h db \<Longrightarrow> dead h db'"
proof (induction rule: account_step.induct)
  case (session token now user_id ttl db db')
  then show ?case using create_session_dead[of hash_token now token user_id ttl db db' h] by simp
next
  case (token token now tid created_by name role expires_at db db')
  then show ?case
    using create_api_token_dead[of hash_token now tid token created_by name role expires_at db db' h] by simp
qed (simp_all add: oidc_login_dead local_login_dead trusted_proxy_login_dead create_token_dead handlers_dead
    delete_sessions_dead revoke_all_sessions_def cleanup_expired_def)

interpretation credentials: invariant_of "account_step hash_token enforce h" "dead h" for hash_token enforce h
  by unfold_locales (rule account_step_dead)

text \<open>Disabling an account kills what was issued to it.\<close>

lemma disable_account_rows:
  "sessions (snd (snd (disable_account now user_id db))) = filter (\<lambda>s. sn_user_id s \<noteq> user_id) (sessions db)"
  "api_tokens (snd (snd (disable_account now user_id db))) =
     update_where (\<lambda>t. tk_created_by t = user_id \<and> tk_revoked_at t = None) (\<lambda>t. t\<lparr>tk_revoked_at := Some now\<rparr>)
       (api_tokens db)"
  "user_rows (snd (snd (disable_account now user_id db))) =
     update_where (\<lambda>u. us_id u = user_id) (\<lambda>u. u\<lparr>us_status := ''disabled'', us_updated_at := now\<rparr>) (user_rows db)"
  "setup_ready (snd (snd (disable_account now user_id db))) = setup_ready db"
  by (simp_all add: disable_account_def Let_def revoke_user_sessions_def delete_sessions_def)

lemma delete_user_Inr:
  assumes "delete_user enforce now auth user_id db = (Inr (), db')"
  shows "sessions db' = sessions (snd (snd (disable_account now user_id db)))"
    and "api_tokens db' = api_tokens (snd (snd (disable_account now user_id db)))"
    and "user_rows db' = user_rows (snd (snd (disable_account now user_id db)))"
  using assms unfolding delete_user_def try_in_eq_Inr split_beta by auto

definition issued_to :: "string \<Rightarrow> string \<Rightarrow> account_db \<Rightarrow> bool" where
  "issued_to user_id h db \<longleftrightarrow> (\<forall>s \<in> set (sessions db). sn_token_hash s = h \<longrightarrow> sn_user_id s = user_id) \<and>
     (\<forall>t \<in> set (api_tokens db). tk_token_hash t = h \<longrightarrow> tk_created_by t = user_id)"

text \<open>C12. Disabling a user ends every session and API token that was issued to them, for good: whatever
  happens afterwards, including that the account is enabled again, promoted, or signs in anew, a
  request with the old credential is answered as unauthenticated. (Generated tokens do not repeat:
  no later operation creates a credential with the same hash.)\<close>

theorem disabled_credentials_stay_dead:
  assumes "delete_user enforce now auth user_id db = (Inr (), db1)"
    and "issued_to user_id (hash_token old_token) db"
    and "(account_step hash_token enforce (hash_token old_token))\<^sup>*\<^sup>* db1 db2"
  shows "auth_user hash_token later (Some (''Bearer '' @ old_token)) db2 =
    (Inl (ApiError UNAUTHORIZED ''invalid_session'' ''Invalid or expired token''), db2)"
proof -
  have "dead (hash_token old_token) db1"
    using assms(2) unfolding issued_to_def dead_def delete_user_Inr(1,2)[OF assms(1)] disable_account_rows
    by (simp add: ball_update_where) blast
  with assms(3) have "dead (hash_token old_token) db2" by (rule credentials.run_inv)
  then show ?thesis by (rule dead_rejected) simp
qed

subsection \<open>The owner\<close>

text \<open>What identifies an owner, and that owners are active and user ids unique.\<close>

definition identity :: "user_row \<Rightarrow> string \<times> string \<times> string \<times> string \<times> string" where
  "identity u = (us_id u, us_email u, us_oidc_subject u, us_role u, us_status u)"

definition owners :: "account_db \<Rightarrow> (string \<times> string \<times> string \<times> string \<times> string) list" where
  "owners db = map identity (filter (\<lambda>u. us_role u = ''owner'') (user_rows db))"

definition accounts_ok :: "account_db \<Rightarrow> bool" where
  "accounts_ok db \<longleftrightarrow> setup_ready db \<and> distinct (map us_id (user_rows db)) \<and>
     (\<forall>u \<in> set (user_rows db). us_role u = ''owner'' \<longrightarrow> us_status u = ''active'')"

text \<open>
  A change of users keeps the owners when it adds a row that is none, or updates rows that are none
  into rows that are none, or keeps the identity.
\<close>

definition spares_owner :: "(user_row \<Rightarrow> bool) \<Rightarrow> (user_row \<Rightarrow> user_row) \<Rightarrow> user_row list \<Rightarrow> bool" where
  "spares_owner P f rows \<longleftrightarrow> (\<forall>u \<in> set rows. us_id (f u) = us_id u \<and>
     (P u \<longrightarrow> identity (f u) = identity u \<or> us_role u \<noteq> ''owner'' \<and> us_role (f u) \<noteq> ''owner''))"

lemma owners_update:
  assumes "spares_owner P f (user_rows db)"
  shows "owners (update_users P f db) = owners db"
proof -
  have "map identity (filter (\<lambda>u. us_role u = ''owner'') (update_where P f rows)) =
      map identity (filter (\<lambda>u. us_role u = ''owner'') rows)" if "spares_owner P f rows" for rows
    using that by (induction rows) (auto simp: spares_owner_def identity_def)
  with assms show ?thesis by (simp add: owners_def)
qed

lemma accounts_ok_update:
  assumes "accounts_ok db" and "spares_owner P f (user_rows db)"
  shows "accounts_ok (update_users P f db)"
proof -
  have "map us_id (update_where P f rows) = map us_id rows" if "spares_owner P f rows" for rows
    using that by (induction rows) (auto simp: spares_owner_def)
  then have d: "map us_id (update_where P f (user_rows db)) = map us_id (user_rows db)" using assms(2) .
  have "us_status (f u) = ''active''" if "u \<in> set (user_rows db)" "P u" "us_role (f u) = ''owner''" for u
    using assms that unfolding accounts_ok_def spares_owner_def identity_def by (metis prod.inject)
  with assms(1) d show ?thesis by (simp add: accounts_ok_def ball_update_where)
qed

text \<open>The relation every step is in: setup and invariant stay, and so do the owners.\<close>

definition keeps_owner :: "account_db \<Rightarrow> account_db \<Rightarrow> bool" where
  "keeps_owner db db' \<longleftrightarrow> (accounts_ok db \<longrightarrow> accounts_ok db' \<and> owners db' = owners db)"

lemma keeps_owner_refl [simp]: "keeps_owner db db"
  by (simp add: keeps_owner_def)

lemma keeps_owner_trans: "keeps_owner db db1 \<Longrightarrow> keeps_owner db1 db2 \<Longrightarrow> keeps_owner db db2"
  by (simp add: keeps_owner_def)

lemma keeps_owner_same:
  "user_rows db' = user_rows db \<Longrightarrow> setup_ready db' = setup_ready db \<Longrightarrow> keeps_owner db db'"
  by (simp add: keeps_owner_def accounts_ok_def owners_def)

lemma keeps_owner_audit [simp]: "keeps_owner db (audit_account a b c d e db') = keeps_owner db db'"
  by (simp add: keeps_owner_def accounts_ok_def owners_def)

lemma keeps_owner_update:
  "(accounts_ok db \<Longrightarrow> spares_owner P f (user_rows db)) \<Longrightarrow> keeps_owner db (update_users P f db)"
  by (simp add: keeps_owner_def owners_update accounts_ok_update)

lemmas keeps_try = try_in_state[where P = "keeps_owner db" for db]

lemma keeps_owner_session:
  "create_session hash_token now token user_id ttl db = Some db' \<Longrightarrow> keeps_owner db db'"
  by (auto simp: create_session_def intro: keeps_owner_same split: if_splits)

lemma keeps_owner_token:
  "create_api_token hash_token now tid token by_user name role ends db = Some db' \<Longrightarrow> keeps_owner db db'"
  by (auto simp: create_api_token_def intro: keeps_owner_same split: if_splits)

lemma login_as_keeps: "keeps_owner db' (snd (login_as hash_token now token u db)) = keeps_owner db' db"
proof -
  have "user_rows (snd (login_as hash_token now token u db)) = user_rows db"
    "setup_ready (snd (login_as hash_token now token u db)) = setup_ready db"
    by (auto simp: login_as_def start_session_def create_session_def split: option.splits if_splits)
  then show ?thesis by (simp add: keeps_owner_def accounts_ok_def owners_def)
qed

lemma login_as_keeps':
  "login_as hash_token now token u db = (r, db1) \<Longrightarrow> keeps_owner db' db1 = keeps_owner db' db"
  using login_as_keeps[of db' hash_token now token u db] by simp

text \<open>Only an invited account is activated, and no owner is invited.\<close>

lemma activate_keeps:
  assumes "activate now (us_id u) f subject db = Inr db'" and "u \<in> set (user_rows db)" and "us_status u = ''invited''"
    and f: "\<And>x. us_id (f x) = us_id x" "\<And>x. us_role (f x) = us_role x"
  shows "keeps_owner db db'"
proof -
  have "spares_owner (\<lambda>x. us_id x = us_id u)
      (\<lambda>x. (f x)\<lparr>us_oidc_subject := subject, us_status := ''active'', us_updated_at := now\<rparr>) (user_rows db)"
    if ok: "accounts_ok db"
  proof -
    from ok have d: "distinct (map us_id (user_rows db))" by (simp add: accounts_ok_def)
    from ok assms(2,3) have "us_role u \<noteq> ''owner''" by (auto simp: accounts_ok_def)
    moreover have "x = u" if "x \<in> set (user_rows db)" "us_id x = us_id u" for x
      using key_unique[OF d that(1) assms(2) that(2)] .
    ultimately show ?thesis by (auto simp: spares_owner_def f)
  qed
  then show ?thesis
    using assms(1) keeps_owner_update[of db] by (auto simp: activate_def split: if_splits)
qed

lemma oidc_account_keeps: "keeps_owner db (snd (oidc_account now claims db))"
proof (cases "fetch_optional (\<lambda>u. us_oidc_subject u = cl_subject claims \<and> us_status u = ''active'') (user_rows db)")
  case (Some u)
  have "spares_owner P (\<lambda>x. x\<lparr>us_avatar_url := cl_picture claims, us_updated_at := now\<rparr>) (user_rows db)" for P
    by (simp add: spares_owner_def identity_def)
  with Some show ?thesis by (auto simp: oidc_account_def intro!: keeps_owner_update)
next
  case None
  show ?thesis
  proof (cases "fetch_optional (\<lambda>u. to_ascii_lowercase (us_email u) = to_ascii_lowercase (cl_email claims) \<and>
      us_status u = ''invited'') (user_rows db)")
    case (Some u)
    from fetch_optional_Some[OF this] have u: "u \<in> set (user_rows db)" "us_status u = ''invited''" by simp_all
    have "keeps_owner db db'"
      if "activate now (us_id u) (\<lambda>x. x\<lparr>us_avatar_url := cl_picture claims\<rparr>) (cl_subject claims) db = Inr db'" for db'
      by (rule activate_keeps[OF that u]) simp_all
    with None Some show ?thesis by (auto simp: oidc_account_def intro!: keeps_try)
  qed (use None in \<open>auto simp: oidc_account_def intro!: keeps_try\<close>)
qed

lemma proxy_account_keeps: "keeps_owner db (snd (proxy_account now email db))"
proof (cases "fetch_optional (\<lambda>u. to_ascii_lowercase (us_email u) = to_ascii_lowercase email) (user_rows db)")
  case (Some u)
  have "keeps_owner db db'" if "activate now (us_id u) id (trusted_proxy_subject_for_email email) db = Inr db'"
    and "us_status u = ''invited''" for db'
    using activate_keeps[OF that(1) _ that(2)] fetch_optional_Some[OF Some] by simp
  with Some show ?thesis by (auto simp: proxy_account_def intro!: keeps_try)
qed (simp add: proxy_account_def)

lemma oidc_login_keeps: "keeps_owner db (snd (oidc_login hash_token now token claims db))"
  using oidc_account_keeps[of db now claims]
  by (auto simp: oidc_login_def login_as_keeps split: prod.splits sum.splits)

lemma spend_capability_keeps: "keeps_owner db (snd (spend_capability hash_token now req db))"
proof -
  have "keeps_owner db db'" if "consume hash_token now raw em db = (r, db')" for raw em r db'
    using that by (auto simp: consume_def Let_def intro!: keeps_owner_same split: if_splits option.splits)
  then show ?thesis
    by (auto simp: spend_capability_def audit_recovery_failure_def split: prod.splits sum.splits option.splits)
qed

lemma local_login_keeps:
  assumes "setup_ready db"
  shows "keeps_owner db (snd (local_login hash_token mode now uid token req db))"
proof -
  have "keeps_owner db (snd (recovery_login hash_token now token req db))"
    using spend_capability_keeps[of db hash_token now req]
    by (auto simp: recovery_login_def login_as_keeps' intro!: keeps_try split: prod.splits sum.splits)
  moreover have "keeps_owner db (snd (passwordless_login hash_token now token req db))"
    unfolding passwordless_login_def by (auto simp: login_as_keeps intro!: keeps_try)
  ultimately show ?thesis
    unfolding local_login_def using assms
    by (intro keeps_try) (auto simp: auto_complete_local_setup_if_needed_def)
qed

lemma trusted_proxy_login_keeps:
  "keeps_owner db (snd (trusted_proxy_login hash_token decrypt contains valid_name mode remote_mode settings now token req db))"
proof -
  have "keeps_owner db (snd (proxy_session hash_token now token peer email db))" for peer email
    using proxy_account_keeps[of db now email]
    by (auto simp: proxy_session_def login_as_keeps' split: prod.splits sum.splits)
  then show ?thesis unfolding trusted_proxy_login_def by (auto intro!: keeps_try)
qed

text \<open>A handler that changes one account by its id has looked at that account's role first.\<close>

lemma target_spared:
  assumes "accounts_ok db" and "fetch_user_by_id db user_id = Inr target" and "us_role target \<noteq> ''owner''"
    and "\<And>u. us_id (f u) = us_id u" and "\<And>u. us_role (f u) = us_role u \<or> us_role (f u) \<noteq> ''owner''"
  shows "spares_owner (\<lambda>u. us_id u = user_id) f (user_rows db)"
proof -
  from assms(2) have t: "target \<in> set (user_rows db)" "us_id target = user_id"
    by (auto simp: fetch_user_by_id_def ok_or_eq_Inr dest: fetch_optional_Some)
  have "u = target" if "u \<in> set (user_rows db)" "us_id u = user_id" for u
    using key_unique[of us_id "user_rows db" u target] assms(1) that t by (simp add: accounts_ok_def)
  then show ?thesis using assms(3-5) by (auto simp: spares_owner_def) (metis assms(5))
qed

lemma handlers_keep_owner:
  shows "keeps_owner db (snd (create_api_token_handler hash_token enforce now auth tid token treq db))"
    and "keeps_owner db (snd (revoke_api_token_handler enforce now auth token_id db))"
    and "keeps_owner db (snd (auth_user hash_token now header db))"
    and "keeps_owner db (snd (logout hash_token now header db))"
    and "keeps_owner db (snd (invite_user enforce now auth user_id email role db))"
    and "keeps_owner db (snd (update_user_role enforce now auth user_id role db))"
    and "keeps_owner db (snd (delete_user enforce now auth user_id db))"
    and "keeps_owner db (snd (re_enable_user enforce now auth user_id db))"
    and "keeps_owner db (snd (try_mint_capability hash_token mode now cid raw email_opt ttl db))"
proof -
  show "keeps_owner db (snd (create_api_token_handler hash_token enforce now auth tid token treq db))"
    unfolding create_api_token_handler_def
    by (intro keeps_try) (auto dest: keeps_owner_token split: option.splits)
  show "keeps_owner db (snd (revoke_api_token_handler enforce now auth token_id db))"
    unfolding revoke_api_token_handler_def by (intro keeps_try) (auto intro: keeps_owner_same)
  show "keeps_owner db (snd (auth_user hash_token now header db))"
    by (auto simp: auth_user_def update_last_used_def intro: keeps_owner_same split: option.splits)
  show "keeps_owner db (snd (logout hash_token now header db))"
    unfolding logout_def revoke_session_def delete_sessions_def by (intro keeps_try) (auto intro: keeps_owner_same)
  show "keeps_owner db (snd (invite_user enforce now auth user_id email role db))"
    unfolding invite_user_def Let_def
    by (intro keeps_try)
      (auto simp: keeps_owner_def accounts_ok_def owners_def invited_user_def assignable_role_def exists_row_iff)
  show "keeps_owner db (snd (update_user_role enforce now auth user_id role db))"
    unfolding update_user_role_def Let_def
    by (intro keeps_try) (auto intro!: keeps_owner_update target_spared simp: assignable_role_def)
  show "keeps_owner db (snd (re_enable_user enforce now auth user_id db))"
    unfolding re_enable_user_def Let_def by (intro keeps_try) (auto intro!: keeps_owner_update target_spared)
  have "keeps_owner db (snd (snd (disable_account now user_id db)))"
    if "fetch_user_by_id db user_id = Inr target" "us_role target \<noteq> ''owner''" for target
  proof -
    have "keeps_owner db (update_users (\<lambda>u. us_id u = user_id)
        (\<lambda>u. u\<lparr>us_status := ''disabled'', us_updated_at := now\<rparr>) db)"
      by (auto intro!: keeps_owner_update target_spared simp: that)
    then show ?thesis
      by (simp add: keeps_owner_def accounts_ok_def owners_def disable_account_rows)
  qed
  then show "keeps_owner db (snd (delete_user enforce now auth user_id db))"
    unfolding delete_user_def by (intro keeps_try) (auto simp: split_beta)
  have "keeps_owner db db'" if "mint hash_token now cid raw uid em ttl db = (r, db')" for uid em r db'
    using that by (auto simp: mint_def Let_def intro: keeps_owner_same split: if_splits)
  then show "keeps_owner db (snd (try_mint_capability hash_token mode now cid raw email_opt ttl db))"
    unfolding try_mint_capability_def by (intro keeps_try) (auto split: prod.splits option.splits)
qed

lemma account_step_keeps: "account_step hash_token enforce h db db' \<Longrightarrow> keeps_owner db db'"
  by (induction rule: account_step.induct)
    (auto simp: oidc_login_keeps local_login_keeps trusted_proxy_login_keeps handlers_keep_owner
      keeps_owner_session keeps_owner_token revoke_all_sessions_def cleanup_expired_def delete_sessions_def
      expire_capability_def intro: keeps_owner_same)

interpretation owners: progress_of "account_step hash_token enforce h" accounts_ok "\<lambda>db db'. owners db' = owners db"
  for hash_token enforce h
  by unfold_locales (use account_step_keeps in \<open>auto simp: keeps_owner_def\<close>)

text \<open>C13. Once an instance is set up, no request, sign-in or token of anyone, in whatever order, changes who
  the owner is: the owner's account keeps its id, email address, login subject and role and stays
  active, and no other account ever becomes an owner.\<close>

theorem owner_never_changes:
  assumes "accounts_ok db" and "(account_step hash_token enforce h)\<^sup>*\<^sup>* db db'"
  shows "owners db' = owners db \<and> list_all (\<lambda>(_, _, _, _, status). status = ''active'') (owners db')"
proof -
  from owners.run_inv[OF assms(2,1)] have "accounts_ok db'" .
  then have "list_all (\<lambda>(_, _, _, _, status). status = ''active'') (owners db')"
    by (auto simp: owners_def identity_def accounts_ok_def list_all_iff)
  with owners.run_rel[OF assms(2,1)] show ?thesis by simp
qed

subsection \<open>What a request is authenticated as\<close>

lemma effective_token_role_level:
  "effective_token_role token_role current_role = Some role \<Longrightarrow>
   role_level role = min (role_level token_role) (role_level current_role)"
  by (auto simp: effective_token_role_def split: if_splits)

lemma validate_session_Some:
  assumes "validate_session hash_token now token db = Some info"
  obtains s u where "s \<in> set (sessions db)" "u \<in> set (user_rows db)" "us_id u = sn_user_id s"
    "sn_token_hash s = hash_token token" "now < sn_expires_at s" "us_status u = ''active''"
    "au_user_id info = us_id u" "au_role info = us_role u" "au_auth_source info = Session"
proof -
  from assms obtain s u rest where j: "session_joins now (hash_token token) db = (s, u) # rest"
    and i: "au_user_id info = us_id u" "au_role info = us_role u" "au_auth_source info = Session"
    by (auto simp: validate_session_def split: list.splits)
  from j have "(s, u) \<in> set (session_joins now (hash_token token) db)" by simp
  then show ?thesis by (intro that[of s u]) (auto simp: session_joins_def i)
qed

lemma validate_api_token_Some:
  assumes "validate_api_token hash_token now token db = Some info"
  obtains t u where "t \<in> set (api_tokens db)" "u \<in> set (user_rows db)" "us_id u = tk_created_by t"
    "tk_token_hash t = hash_token token" "tk_revoked_at t = None" "tk_expires_at t = None \<or> now < the (tk_expires_at t)"
    "us_status u = ''active''" "au_user_id info = us_id u"
    "role_level (au_role info) = min (role_level (tk_role t)) (role_level (us_role u))" "au_auth_source info = ApiToken"
proof -
  from assms obtain t u rest role where j: "token_joins now (hash_token token) db = (t, u) # rest"
    and r: "effective_token_role (tk_role t) (us_role u) = Some role"
    and i: "au_user_id info = us_id u" "au_role info = role" "au_auth_source info = ApiToken"
    by (auto simp: validate_api_token_def validate_api_token_hash_def split: list.splits)
  from j have "(t, u) \<in> set (token_joins now (hash_token token) db)" by simp
  then show ?thesis
    by (intro that[of t u]) (auto simp: token_joins_def i effective_token_role_level[OF r] split: option.splits)
qed

text \<open>C14. A request acts as nobody but an active account, and with no more than that account may do at
  this moment: a session carries the account's current role, an API token the lower of its own role
  and the current role, and only while it is neither revoked nor expired. Demoting or disabling an
  account therefore takes effect on every credential at the next request.\<close>

theorem authentication_sound:
  assumes "auth_user hash_token now header db = (Inr info, db')"
  shows "\<exists>token u. header = Some (''Bearer '' @ token) \<and> u \<in> set (user_rows db) \<and> us_id u = au_user_id info \<and>
    us_status u = ''active'' \<and>
    (case au_auth_source info of
       Session \<Rightarrow> au_role info = us_role u \<and>
         (\<exists>s \<in> set (sessions db). sn_token_hash s = hash_token token \<and> sn_user_id s = us_id u \<and> now < sn_expires_at s)
     | ApiToken \<Rightarrow>
         (\<exists>t \<in> set (api_tokens db). tk_token_hash t = hash_token token \<and> tk_created_by t = us_id u \<and>
            tk_revoked_at t = None \<and> (tk_expires_at t = None \<or> now < the (tk_expires_at t)) \<and>
            role_level (au_role info) = min (role_level (tk_role t)) (role_level (us_role u))))"
proof -
  from assms obtain token where h: "header = Some (''Bearer '' @ token)"
    and v: "validate_session hash_token now token db = Some info \<or> validate_api_token hash_token now token db = Some info"
    by (auto simp: auth_user_def extract_bearer_def strip_prefix_Some bind_eq_Some_conv split: option.splits)
  from v show ?thesis
  proof
    assume "validate_session hash_token now token db = Some info"
    then show ?thesis
      by (rule validate_session_Some) (rule exI[of _ token], rule exI, use h in force)
  next
    assume "validate_api_token hash_token now token db = Some info"
    then show ?thesis
    proof (rule validate_api_token_Some)
      fix t u
      assume "t \<in> set (api_tokens db)" "u \<in> set (user_rows db)" "us_id u = tk_created_by t"
        "tk_token_hash t = hash_token token" "tk_revoked_at t = None"
        "tk_expires_at t = None \<or> now < the (tk_expires_at t)" "us_status u = ''active''" "au_user_id info = us_id u"
        "role_level (au_role info) = min (role_level (tk_role t)) (role_level (us_role u))"
        "au_auth_source info = ApiToken"
      with h show ?thesis by (intro exI[of _ token] exI[of _ u] conjI) (simp_all, metis)
    qed
  qed
qed

subsection \<open>Recovery capabilities are spent once\<close>

definition spent :: "string \<Rightarrow> account_db \<Rightarrow> bool" where
  "spent h db \<longleftrightarrow> (\<forall>c \<in> set (recovery db). rc_token_hash c \<noteq> h)"

lemma spent_cong: "recovery db' = recovery db \<Longrightarrow> spent h db' = spent h db"
  by (simp add: spent_def)

lemma spent_frame [simp]:
  "spent h (audit_account a b c d e db) = spent h db" "spent h (update_users P f db) = spent h db"
  "spent h (sessions_update g db) = spent h db" "spent h (api_tokens_update k db) = spent h db"
  "spent h (user_rows_update l db) = spent h db"
  by (rule spent_cong; simp)+

lemmas spent_try = try_in_state[where P = "spent h" for h]

lemma spent_filter: "spent h db \<Longrightarrow> spent h (db\<lparr>recovery := filter P (filter Q (recovery db))\<rparr>)"
  by (simp add: spent_def)

lemma login_as_recovery [simp]: "spent h (snd (login_as hash_token now token u db)) = spent h db"
  by (rule spent_cong) (auto simp: login_as_def start_session_def create_session_def split: option.splits if_splits)

lemma login_as_recovery': "login_as hash_token now token u db = (r, db1) \<Longrightarrow> spent h db1 = spent h db"
  using login_as_recovery[of h hash_token now token u db] by simp

lemma account_recovery:
  "spent h (snd (oidc_account now claims db)) = spent h db" "spent h (snd (proxy_account now email db)) = spent h db"
  by (auto simp: oidc_account_def proxy_account_def try_in_def activate_def split: option.splits sum.splits)

lemma spend_capability_spent: "spent h db \<Longrightarrow> spent h (snd (spend_capability hash_token now req db))"
  by (auto simp: spend_capability_def consume_def Let_def audit_recovery_failure_def live_capabilities_def spent_def
      split: prod.splits sum.splits option.splits if_splits)

lemma logins_spent:
  assumes "spent h db"
  shows "spent h (snd (oidc_login hash_token now token claims db))"
    and "setup_ready db \<Longrightarrow> spent h (snd (local_login hash_token mode now uid token req db))"
    and "spent h (snd (trusted_proxy_login hash_token decrypt contains valid_name mode remote_mode settings now token preq db))"
proof -
  show "spent h (snd (oidc_login hash_token now token claims db))"
    using assms account_recovery(1)[of h now claims db] by (auto simp: oidc_login_def split: prod.splits sum.splits)
  have "spent h (snd (recovery_login hash_token now token req db))"
    using spend_capability_spent[OF assms, of hash_token now req]
    by (auto simp: recovery_login_def login_as_recovery' intro!: spent_try split: prod.splits sum.splits)
  moreover have "spent h (snd (passwordless_login hash_token now token req db))"
    unfolding passwordless_login_def by (auto simp: assms intro!: spent_try)
  ultimately show "spent h (snd (local_login hash_token mode now uid token req db))" if "setup_ready db"
    unfolding local_login_def using that assms
    by (intro spent_try) (auto simp: auto_complete_local_setup_if_needed_def)
  have "spent h (snd (proxy_session hash_token now token peer email db))" for peer email
    using assms account_recovery(2)[of h now email db]
    by (auto simp: proxy_session_def login_as_recovery' split: prod.splits sum.splits)
  with assms show "spent h (snd (trusted_proxy_login hash_token decrypt contains valid_name mode remote_mode settings now token preq db))"
    unfolding trusted_proxy_login_def by (auto intro!: spent_try)
qed

lemma mint_spent:
  assumes "spent h db" and "hash_token raw \<noteq> h"
  shows "spent h (snd (try_mint_capability hash_token mode now cid raw email_opt ttl db))"
proof -
  have "spent h db'" if "mint hash_token now cid raw uid em ttl db = (r, db')" for uid em r db'
    using assms that by (auto simp: mint_def Let_def spent_def live_capabilities_def split: if_splits)
  then show ?thesis
    unfolding try_mint_capability_def by (intro spent_try) (auto simp: assms split: prod.splits option.splits)
qed

lemma handlers_spent:
  assumes "spent h db"
  shows "spent h (snd (create_api_token_handler hash_token enforce now auth tid token treq db))"
    and "spent h (snd (revoke_api_token_handler enforce now auth token_id db))"
    and "spent h (snd (auth_user hash_token now header db))"
    and "spent h (snd (logout hash_token now header db))"
    and "spent h (snd (invite_user enforce now auth user_id email role db))"
    and "spent h (snd (update_user_role enforce now auth user_id role db))"
    and "spent h (snd (delete_user enforce now auth user_id db))"
    and "spent h (snd (re_enable_user enforce now auth user_id db))"
proof -
  show "spent h (snd (create_api_token_handler hash_token enforce now auth tid token treq db))"
    unfolding create_api_token_handler_def create_api_token_def
    by (intro spent_try) (auto simp: assms split: option.splits if_splits)
  show "spent h (snd (revoke_api_token_handler enforce now auth token_id db))"
    unfolding revoke_api_token_handler_def by (intro spent_try) (simp_all add: assms)
  show "spent h (snd (auth_user hash_token now header db))"
    by (auto simp: auth_user_def update_last_used_def assms split: option.splits)
  show "spent h (snd (logout hash_token now header db))"
    unfolding logout_def revoke_session_def delete_sessions_def by (intro spent_try) (simp_all add: assms)
  show "spent h (snd (invite_user enforce now auth user_id email role db))"
    unfolding invite_user_def Let_def by (intro spent_try) (simp_all add: assms)
  show "spent h (snd (update_user_role enforce now auth user_id role db))"
    unfolding update_user_role_def Let_def by (intro spent_try) (simp_all add: assms)
  have "spent h (snd (snd (disable_account now user_id db)))"
    by (simp add: disable_account_def Let_def revoke_user_sessions_def delete_sessions_def assms)
  then show "spent h (snd (delete_user enforce now auth user_id db))"
    unfolding delete_user_def by (intro spent_try) (simp_all add: assms split_beta)
  show "spent h (snd (re_enable_user enforce now auth user_id db))"
    unfolding re_enable_user_def Let_def by (intro spent_try) (simp_all add: assms)
qed

lemma expire_spent: "spent h db \<Longrightarrow> spent h (expire_capability x db)"
  by (simp add: spent_def expire_capability_def)

lemma account_step_spent: "account_step hash_token enforce h db db' \<Longrightarrow> spent h db \<Longrightarrow> spent h db'"
  by (induction rule: account_step.induct)
    (auto simp: logins_spent handlers_spent mint_spent revoke_all_sessions_def cleanup_expired_def
      delete_sessions_def create_session_def create_api_token_def expire_spent split: if_splits)

interpretation capabilities: invariant_of "account_step hash_token enforce h" "spent h" for hash_token enforce h
  by unfold_locales (rule account_step_spent)

lemma consume_Inr:
  assumes "consume hash_token now raw email db = (Inr c, db')"
  shows "c \<in> set (recovery db)" and "now < rc_expires_at c" and "rc_token_hash c = hash_token raw"
    and "spent (hash_token raw) db'" and "user_rows db' = user_rows db"
  using assms
  by (auto simp: consume_def Let_def live_capabilities_def spent_def dest!: fetch_optional_Some
      split: if_splits option.splits)

lemma spent_refused: "spent (hash_token raw) db \<Longrightarrow> \<exists>e db'. consume hash_token now raw email db = (Inl e, db')"
proof -
  assume "spent (hash_token raw) db"
  then have "fetch_optional (\<lambda>c. rc_token_hash c = hash_token raw) (live_capabilities now (recovery db)) = None"
    by (auto simp: spent_def live_capabilities_def fetch_optional_None)
  then show ?thesis by (simp add: consume_def Let_def)
qed

text \<open>Outside the local mode a local login succeeds only with a recovery capability that is live, and only
  as the active account it was minted for; and a capability that was accepted once is never accepted
  again, whatever happens in between.\<close>

theorem recovery_capability_once:
  assumes login: "local_login hash_token Runtime_Remote now uid token req db = (Inr r, db1)"
    and raw: "nonempty_trim (ll_capability req) = Some raw"
    and run: "(account_step hash_token enforce (hash_token raw))\<^sup>*\<^sup>* db1 db2"
    and raw': "nonempty_trim (ll_capability req') = Some raw"
  shows "(\<exists>c u. c \<in> set (recovery db) \<and> now < rc_expires_at c \<and> rc_token_hash c = hash_token raw \<and>
      u \<in> set (user_rows db) \<and> us_id u = rc_user_id c \<and> us_status u = ''active'' \<and> lr_user_id r = us_id u) \<and>
    \<not> is_ok (fst (local_login hash_token Runtime_Remote later uid' token' req' db2))"
proof -
  from login obtain db0 where ready: "setup_ready db" and "auto_complete_local_setup_if_needed now uid db = Inr db0"
    and rl: "recovery_login hash_token now token req db0 = (Inr r, db1)"
    unfolding local_login_def try_in_eq_Inr by auto
  then have "db0 = db" by (simp add: auto_complete_local_setup_if_needed_def)
  with rl raw obtain c db' u where c: "consume hash_token now raw (requested (ll_email req)) db = (Inr c, db')"
    and u: "fetch_optional (\<lambda>u. us_id u = rc_user_id c \<and> us_status u = ''active'') (user_rows db') = Some u"
    and r: "lr_user_id r = us_id u" and db1: "recovery db1 = recovery db'"
    by (auto simp: recovery_login_def spend_capability_def try_in_def login_as_def start_session_def create_session_def
        ok_or_eq_Inr split: prod.splits sum.splits option.splits if_splits)
  note c' = consume_Inr[OF c]
  have "spent (hash_token raw) db1" using c'(4) db1 by (simp add: spent_def)
  with run have "spent (hash_token raw) db2" by (rule capabilities.run_inv)
  then have "\<not> is_ok (fst (recovery_login hash_token later token' req' db2))"
    using spent_refused[of hash_token raw db2 later "requested (ll_email req')"] raw'
    by (auto simp: recovery_login_def spend_capability_def)
  then have "\<not> is_ok (fst (local_login hash_token Runtime_Remote later uid' token' req' db2))"
    by (auto simp: local_login_def try_in_def ensure_def auto_complete_local_setup_if_needed_def)
  with fetch_optional_Some[OF u] c' r show ?thesis by (intro conjI exI[of _ c] exI[of _ u]) simp_all
qed

subsection \<open>The trusted proxy\<close>

lemma activate_user_ids: "activate now uid f sub db = Inr db' \<Longrightarrow> (\<And>u. us_id (f u) = us_id u) \<Longrightarrow>
    map us_id (user_rows db') = map us_id (user_rows db)"
  by (auto simp: activate_def map_update_where_same split: if_splits)

text \<open>A sign-in through the trusted proxy succeeds only on a ready instance in that mode, from this machine
  or an allowlisted network, with exactly the configured shared secret, and only as an account with
  the forwarded email address that is not disabled. (The comparison of the secrets without early exit
  is equality.)\<close>

theorem proxy_login_admitted:
  assumes "trusted_proxy_login hash_token decrypt contains valid_name mode remote_mode settings now token req db = (Inr r, db')"
  shows "setup_ready db \<and> mode = Runtime_Remote \<and> remote_mode = TrustedProxy \<and>
    (px_peer_loopback req \<or> list_ex (\<lambda>cidr. contains cidr (px_peer req)) (tp_networks settings)) \<and>
    (\<exists>encrypted secret. tp_encrypted_shared_secret settings = Some encrypted \<and> decrypt encrypted = Inr secret \<and>
       nonempty_trim (px_headers req TRUSTED_PROXY_SHARED_SECRET_HEADER) = Some secret) \<and>
    (\<exists>raw u. px_headers req (tp_user_email_header settings) = Some raw \<and> u \<in> set (user_rows db) \<and>
       to_ascii_lowercase (us_email u) = to_ascii_lowercase (to_ascii_lowercase (trim raw)) \<and>
       us_status u \<noteq> ''disabled'' \<and> lr_user_id r = us_id u)"
proof -
  from assms obtain email where g: "setup_ready db" "mode = Runtime_Remote" "remote_mode = TrustedProxy"
      "is_trusted_proxy_peer contains (px_peer req) (px_peer_loopback req) settings"
      "verify_trusted_proxy_shared_secret decrypt (px_headers req TRUSTED_PROXY_SHARED_SECRET_HEADER) settings = Inr ()"
      "extract_trusted_proxy_email valid_name (px_headers req) settings = Inr email"
    and s: "proxy_session hash_token now token (px_peer req) email db = (Inr r, db')"
    unfolding trusted_proxy_login_def try_in_eq_Inr by (auto simp: try_in_eq_Inr split: if_splits)
  from g(5) obtain encrypted where en: "tp_encrypted_shared_secret settings = Some encrypted"
    by (auto simp: verify_trusted_proxy_shared_secret_def and_then_eq_Inr ok_or_eq_Inr)
  moreover obtain secret where "decrypt encrypted = Inr secret"
      "nonempty_trim (px_headers req TRUSTED_PROXY_SHARED_SECRET_HEADER) = Some secret"
    using g(5) en by (cases "decrypt encrypted")
      (auto simp: verify_trusted_proxy_shared_secret_def and_then_eq_Inr ok_or_eq_Inr constant_time_eq_iff as_bytes_inj)
  moreover from g(6) obtain raw where "px_headers req (tp_user_email_header settings) = Some raw"
      and e: "email = to_ascii_lowercase (trim raw)"
    by (auto simp: extract_trusted_proxy_email_def and_then_eq_Inr ok_or_eq_Inr normalize_email_value_def Let_def
        split: if_splits)
  moreover from s obtain u where "fetch_optional (\<lambda>u. to_ascii_lowercase (us_email u) = to_ascii_lowercase email) (user_rows db) = Some u"
      and "us_status u \<noteq> ''disabled''" "lr_user_id r = us_id u"
    by (auto simp: proxy_session_def proxy_account_def try_in_def login_as_def ok_or_eq_Inr
        split: prod.splits sum.splits if_splits)
  ultimately show ?thesis
    using g(1-4) fetch_optional_Some[of _ "user_rows db" u] unfolding is_trusted_proxy_peer_def e by blast
qed

subsection \<open>An invitation that was disabled and enabled again\<close>

lemma fetch_updated_status:
  assumes "fetch_user_by_id db uid = Inr u"
  shows "u \<in> set (user_rows db)" "us_id u = uid"
  using assms by (auto simp: fetch_user_by_id_def ok_or_eq_Inr dest: fetch_optional_Some)

lemma re_enable_rows:
  assumes "re_enable_user enforce now auth user_id db = (Inr u, db')"
  shows "user_rows db' = update_where (\<lambda>u. us_id u = user_id) (\<lambda>u. u\<lparr>us_status := ''active'', us_updated_at := now\<rparr>)
    (user_rows db)"
  using assms unfolding re_enable_user_def try_in_eq_Inr by (auto simp: Let_def)

lemma invite_rows:
  assumes "invite_user enforce now auth user_id email role db = (Inr u, db')"
  shows "user_rows db' = user_rows db @ [invited_user user_id now email role (au_user_id auth)]"
    and "user_id \<notin> us_id ` set (user_rows db)"
  using assms unfolding invite_user_def try_in_eq_Inr by (auto simp: Let_def exists_row_iff split: if_splits)

text \<open>An invited user whose account is disabled before the first sign-in and enabled again is locked out:
  the account is active with the placeholder subject it was invited with, so the identity provider's
  subject does not find it and the invitation is no longer open. Every sign-in with the verified
  email address is refused as an unknown user.\<close>

theorem reenabled_invitee_locked_out:
  assumes inv: "invite_user enforce t1 auth user_id email role db = (Inr u, db1)"
    and del: "delete_user enforce t2 auth user_id db1 = (Inr (), db2)"
    and ren: "re_enable_user enforce t3 auth user_id db2 = (Inr u', db3)"
    and new: "\<not> exists_row (\<lambda>x. to_ascii_lowercase (us_email x) = to_ascii_lowercase email \<or>
        us_oidc_subject x = cl_subject claims) (user_rows db)"
    and claims: "cl_email claims = email" "cl_email_verified claims = Some True" "cl_subject claims \<noteq> ''pending-'' @ user_id"
  shows "oidc_login hash_token t4 token claims db3 =
    (Inl (ApiError FORBIDDEN ''user_not_found'' ''No user account exists for this identity. Contact an administrator.''), db3)"
proof -
  have rows: "user_rows db3 = user_rows db @ [(invited_user user_id t1 email role (au_user_id auth))
      \<lparr>us_status := ''active'', us_updated_at := t3\<rparr>]"
    using invite_rows[OF inv] unfolding re_enable_rows[OF ren] delete_user_Inr(3)[OF del] disable_account_rows
    by (auto simp: update_where_def invited_user_def intro!: map_idI)
  have "fetch_optional (\<lambda>u. us_oidc_subject u = cl_subject claims \<and> us_status u = ''active'') (user_rows db3) = None"
    using new claims(3) unfolding rows by (auto simp: fetch_optional_None exists_row_iff invited_user_def)
  moreover have "fetch_optional (\<lambda>u. to_ascii_lowercase (us_email u) = to_ascii_lowercase (cl_email claims) \<and>
      us_status u = ''invited'') (user_rows db3) = None"
    using new claims(1) unfolding rows by (auto simp: fetch_optional_None exists_row_iff)
  ultimately show ?thesis
    using claims(2) by (simp add: oidc_login_def oidc_account_def require_verified_invitation_email_def)
qed

subsection \<open>Witnesses\<close>

definition sample_user :: "string \<Rightarrow> string \<Rightarrow> string \<Rightarrow> user_row" where
  "sample_user uid role status =
     \<lparr>us_id = uid, us_email = uid @ ''@x'', us_oidc_subject = ''sub-'' @ uid, us_display_name = None, us_role = role,
      us_status = status, us_avatar_url = None, us_invited_by = None, us_created_at = 1, us_updated_at = 1\<rparr>"

definition sample_accounts :: account_db where
  "sample_accounts =
     \<lparr>user_rows = [sample_user ''o'' ''owner'' ''active'', sample_user ''d'' ''developer'' ''active''],
      sessions = [\<lparr>sn_token_hash = ''sd'', sn_user_id = ''d'', sn_created_at = 1, sn_expires_at = 90000\<rparr>],
      api_tokens = [\<lparr>tk_id = ''t1'', tk_name = ''ci'', tk_token_hash = ''td'', tk_prefix = ''td'', tk_created_by = ''d'',
         tk_role = ''developer'', tk_expires_at = None, tk_created_at = 1, tk_last_used_at = None, tk_revoked_at = None\<rparr>],
      recovery = [], setup_ready = True, setup_owner = None, account_audit = []\<rparr>"

definition owner_session :: SessionInfo where
  "owner_session = \<lparr>au_user_id = ''o'', au_email = ''o@x'', au_oidc_subject = ''sub-o'', au_role = ''owner'',
     au_expires_at = 90000, au_auth_source = Session\<rparr>"

definition allow_all :: "string \<Rightarrow> string \<Rightarrow> string \<Rightarrow> bool" where
  "allow_all _ _ _ = True"

definition sample_disabled where
  "sample_disabled = delete_user allow_all 100 owner_session ''d'' sample_accounts"

definition sample_enabled where
  "sample_enabled = re_enable_user allow_all 200 owner_session ''d'' (snd sample_disabled)"

theorem disabled_credentials_stay_dead_witness:
  "fst (auth_user id 50 (Some ''Bearer td'') sample_accounts) \<noteq>
     Inl (ApiError UNAUTHORIZED ''invalid_session'' ''Invalid or expired token'') \<and>
   fst (auth_user id 300 (Some ''Bearer td'') (snd sample_enabled)) =
     Inl (ApiError UNAUTHORIZED ''invalid_session'' ''Invalid or expired token'')"
proof -
  have "fst sample_disabled = Inr ()" by code_simp
  then have del: "delete_user allow_all 100 owner_session ''d'' sample_accounts = (Inr (), snd sample_disabled)"
    by (metis prod.collapse sample_disabled_def)
  have iss: "issued_to ''d'' (id ''td'') sample_accounts" by (simp add: issued_to_def sample_accounts_def)
  have "account_step id allow_all (id ''td'') (snd sample_disabled) (snd sample_enabled)"
    unfolding sample_enabled_def by (rule account_step.enable)
  from disabled_credentials_stay_dead[OF del iss r_into_rtranclp[of "account_step id allow_all (id ''td'')", OF this], of 300]
  have "fst (auth_user id 300 (Some ''Bearer td'') (snd sample_enabled)) =
      Inl (ApiError UNAUTHORIZED ''invalid_session'' ''Invalid or expired token'')" by simp
  moreover have "fst (auth_user id 50 (Some ''Bearer td'') sample_accounts) \<noteq>
      Inl (ApiError UNAUTHORIZED ''invalid_session'' ''Invalid or expired token'')" by code_simp
  ultimately show ?thesis by simp
qed

theorem owner_never_changes_witness:
  "owners (snd sample_disabled) = [(''o'', ''o@x'', ''sub-o'', ''owner'', ''active'')]"
proof -
  have ok: "accounts_ok sample_accounts" by (simp add: accounts_ok_def sample_accounts_def sample_user_def)
  have "account_step id allow_all h sample_accounts (snd sample_disabled)" for h
    unfolding sample_disabled_def by (rule account_step.disable)
  from owner_never_changes[OF ok r_into_rtranclp[of "account_step id allow_all []", OF this]]
  show ?thesis by (simp add: owners_def sample_accounts_def sample_user_def identity_def)
qed

theorem authentication_sound_witness:
  "\<exists>u \<in> set (user_rows sample_accounts). us_id u = ''d'' \<and> us_status u = ''active''"
proof -
  let ?a = "auth_user id 50 (Some ''Bearer td'') sample_accounts"
  have "is_ok (fst ?a)" by code_simp
  then obtain info where i: "fst ?a = Inr info" by (rule is_okE)
  then have a: "?a = (Inr info, snd ?a)" by (metis prod.collapse)
  have "map_sum id au_user_id (fst ?a) = Inr ''d''" by code_simp
  with i have "au_user_id info = ''d''" by simp
  with authentication_sound[OF a] show ?thesis by auto
qed

definition sample_capability :: string where
  "sample_capability = CAPABILITY_PREFIX @ replicate 64 CHR ''a''"

definition sample_recovery :: account_db where
  "sample_recovery = sample_accounts\<lparr>recovery :=
     [\<lparr>rc_token_hash = sample_capability, rc_id = ''c1'', rc_user_id = ''o'', rc_user_email = ''o@x'', rc_expires_at = 160\<rparr>]\<rparr>"

definition sample_login :: LocalLoginRequest where
  "sample_login = \<lparr>ll_client_loopback = True, ll_peer_loopback = True, ll_forwarded = False, ll_email = None,
     ll_capability = Some sample_capability\<rparr>"

definition sample_recovered where
  "sample_recovered = local_login id Runtime_Remote 100 ''u'' ''s1'' sample_login sample_recovery"

theorem recovery_capability_once_witness:
  "is_ok (fst sample_recovered) \<and>
   \<not> is_ok (fst (local_login id Runtime_Remote 101 ''u'' ''s2'' sample_login (snd sample_recovered)))"
proof -
  have ok: "is_ok (fst sample_recovered)" by code_simp
  then obtain r where "fst sample_recovered = Inr r" by (rule is_okE)
  then have l: "local_login id Runtime_Remote 100 ''u'' ''s1'' sample_login sample_recovery = (Inr r, snd sample_recovered)"
    by (metis prod.collapse sample_recovered_def)
  have raw: "nonempty_trim (ll_capability sample_login) = Some sample_capability" by code_simp
  from recovery_capability_once[OF l raw rtranclp.rtrancl_refl raw] ok show ?thesis by blast
qed

definition sample_proxy :: trusted_proxy_settings where
  "sample_proxy = \<lparr>tp_user_email_header = ''x-email'', tp_networks = [''10.0.0.0/8''], tp_encrypted_shared_secret = Some ''k''\<rparr>"

definition sample_proxy_request :: proxy_request where
  "sample_proxy_request = \<lparr>px_peer = ''10.1.2.3'', px_peer_loopback = False,
     px_headers = (\<lambda>name. if name = ''x-email'' then Some ''D@x'' else Some '' k '')\<rparr>"

definition sample_network :: "string \<Rightarrow> string \<Rightarrow> bool" where
  "sample_network cidr peer \<longleftrightarrow> cidr = ''10.0.0.0/8'' \<and> starts_with ''10.'' peer"

definition sample_proxied where
  "sample_proxied = trusted_proxy_login id Inr sample_network (\<lambda>_. True) Runtime_Remote TrustedProxy sample_proxy 100 ''s3''
     sample_proxy_request sample_accounts"

theorem proxy_login_admitted_witness:
  "\<exists>u \<in> set (user_rows sample_accounts). to_ascii_lowercase (us_email u) = ''d@x'' \<and> us_status u \<noteq> ''disabled''"
proof -
  have "is_ok (fst sample_proxied)" by code_simp
  then obtain r where "fst sample_proxied = Inr r" by (rule is_okE)
  then have p: "trusted_proxy_login id Inr sample_network (\<lambda>_. True) Runtime_Remote TrustedProxy sample_proxy 100 ''s3''
      sample_proxy_request sample_accounts = (Inr r, snd sample_proxied)"
    by (metis prod.collapse sample_proxied_def)
  have "to_ascii_lowercase (to_ascii_lowercase (trim ''D@x'')) = ''d@x''" by code_simp
  with proxy_login_admitted[OF p] show ?thesis
    by (auto simp: sample_proxy_def sample_proxy_request_def)
qed

definition invitee_claims :: id_claims where
  "invitee_claims = \<lparr>cl_subject = ''idp|7'', cl_email = ''new@x'', cl_email_verified = Some True, cl_picture = None\<rparr>"

definition invited where "invited = invite_user allow_all 100 owner_session ''n'' ''new@x'' ''developer'' sample_accounts"
definition invited_disabled where "invited_disabled = delete_user allow_all 110 owner_session ''n'' (snd invited)"
definition invited_enabled where "invited_enabled = re_enable_user allow_all 120 owner_session ''n'' (snd invited_disabled)"

theorem reenabled_invitee_locked_out_witness:
  "is_ok (fst (oidc_login id 130 ''s4'' invitee_claims (snd invited))) \<and>
   \<not> is_ok (fst (oidc_login id 130 ''s4'' invitee_claims (snd invited_enabled)))"
proof -
  have "is_ok (fst invited)" "is_ok (fst invited_enabled)" and d: "fst invited_disabled = Inr ()" by code_simp+
  then obtain u u' where u: "fst invited = Inr u" "fst invited_enabled = Inr u'" by (metis is_okE)
  have i: "invite_user allow_all 100 owner_session ''n'' ''new@x'' ''developer'' sample_accounts = (Inr u, snd invited)"
    by (metis u(1) prod.collapse invited_def)
  have d': "delete_user allow_all 110 owner_session ''n'' (snd invited) = (Inr (), snd invited_disabled)"
    by (metis d prod.collapse invited_disabled_def)
  have e: "re_enable_user allow_all 120 owner_session ''n'' (snd invited_disabled) = (Inr u', snd invited_enabled)"
    by (metis u(2) prod.collapse invited_enabled_def)
  have new: "\<not> exists_row (\<lambda>x. to_ascii_lowercase (us_email x) = to_ascii_lowercase ''new@x'' \<or>
      us_oidc_subject x = cl_subject invitee_claims) (user_rows sample_accounts)" by code_simp
  have c: "cl_email invitee_claims = ''new@x''" "cl_email_verified invitee_claims = Some True"
    "cl_subject invitee_claims \<noteq> ''pending-'' @ ''n''" by (simp_all add: invitee_claims_def)
  have "is_ok (fst (oidc_login id 130 ''s4'' invitee_claims (snd invited)))" by code_simp
  with reenabled_invitee_locked_out[OF i d' e new c, of id 130 "''s4''"] show ?thesis by simp
qed

end
