(* ===== verification/Artifact_Tokens.thy ===== *)
theory Artifact_Tokens
  imports Logins
begin

text \<open>
  Scoped download tokens: \<^verbatim>\<open>crates/oored/src/artifact_tokens.rs\<close>. The state is the
  \<open>artifact_download_tokens\<close> table with the columns of \<open>artifacts\<close> the code reads, next to the
  daemon's tables. Whether the storage backend can hand out a URL for a stored file is a parameter.
  A download reads the token, then claims a single-use token in a second statement, then asks the
  storage; \<open>download_step\<close> interleaves these between any number of requests.
\<close>

subsection \<open>Tables and lookups\<close>

record stored_artifact =
  sa_id :: string
  sa_build_id :: string
  sa_available :: bool
  sa_expires_at :: "int option"
  sa_artifact_type :: string
  sa_file_path :: string
  sa_name :: string

record download_token =
  dt_id :: string
  dt_artifact_id :: string
  dt_token_hash :: string
  dt_prefix :: string
  dt_created_by :: string
  dt_expires_at :: int
  dt_single_use :: bool
  dt_used_at :: "int option"
  dt_revoked_at :: "int option"
  dt_created_at :: int

record artifact_db =
  dcore :: daemon
  stored_artifacts :: "stored_artifact list"
  download_tokens :: "download_token list"

definition DEFAULT_TTL_SECS :: int where "DEFAULT_TTL_SECS = 86400"
definition MAX_TTL_SECS :: int where "MAX_TTL_SECS = 604800"

definition require_project_artifact_write :: "artifact_db \<Rightarrow> SessionInfo \<Rightarrow> string \<Rightarrow> unit api_result" where
  "require_project_artifact_write db auth project_id =
     and_then (resolve_effective_project_role (project_members (dcore db)) (au_user_id auth) (au_role auth) project_id
         (au_auth_source auth))
      (\<lambda>effective. require_project_permission effective Perm_WriteArtifacts)"

definition artifact_project :: "artifact_db \<Rightarrow> stored_artifact \<Rightarrow> string option" where
  "artifact_project db a = map_option b_project_id (fetch_optional (\<lambda>b. b_id b = sa_build_id a) (builds (dcore db)))"

text \<open>The join of an available artifact with its build.\<close>

definition load_artifact_access :: "artifact_db \<Rightarrow> string \<Rightarrow> (int option \<times> string) api_result" where
  "load_artifact_access db artifact_id =
     ok_or (ApiError NOT_FOUND ''not_found'' ''Artifact not found'')
       (Option.bind (fetch_optional (\<lambda>a. sa_id a = artifact_id \<and> sa_available a) (stored_artifacts db))
         (\<lambda>a. map_option (Pair (sa_expires_at a)) (artifact_project db a)))"

definition create_download_token ::
  "(string \<Rightarrow> string) \<Rightarrow> int \<Rightarrow> string \<Rightarrow> string \<Rightarrow> string \<Rightarrow> string \<Rightarrow> int \<Rightarrow> bool \<Rightarrow> artifact_db \<Rightarrow> artifact_db option" where
  "create_download_token hash_token now tid token artifact_id created_by ttl_secs single_use db =
     (if exists_row (\<lambda>t. dt_id t = tid \<or> dt_token_hash t = hash_token token) (download_tokens db) then None
      else Some (db\<lparr>download_tokens := download_tokens db @
        [\<lparr>dt_id = tid, dt_artifact_id = artifact_id, dt_token_hash = hash_token token, dt_prefix = take 8 token,
          dt_created_by = created_by, dt_expires_at = now + ttl_secs, dt_single_use = single_use,
          dt_used_at = None, dt_revoked_at = None, dt_created_at = now\<rparr>]\<rparr>))"

record ValidatedDownloadToken =
  vd_token_hash :: string
  vd_artifact_id :: string
  vd_artifact_type :: string
  vd_file_path :: string
  vd_artifact_name :: string
  vd_single_use :: bool

definition download_joins :: "int \<Rightarrow> string \<Rightarrow> artifact_db \<Rightarrow> (download_token \<times> stored_artifact) list" where
  "download_joins now hash db =
     filter (\<lambda>(t, a). sa_id a = dt_artifact_id t \<and> dt_token_hash t = hash \<and> sa_available a \<and> dt_revoked_at t = None \<and>
        now < dt_expires_at t \<and> (\<not> dt_single_use t \<or> dt_used_at t = None))
       (List.product (download_tokens db) (stored_artifacts db))"

definition validate_download_token ::
  "(string \<Rightarrow> string) \<Rightarrow> int \<Rightarrow> string \<Rightarrow> artifact_db \<Rightarrow> ValidatedDownloadToken option" where
  "validate_download_token hash_token now raw_token db =
     (case download_joins now (hash_token raw_token) db of
        [] \<Rightarrow> None
      | (t, a) # _ \<Rightarrow>
          Some \<lparr>vd_token_hash = dt_token_hash t, vd_artifact_id = dt_artifact_id t, vd_artifact_type = sa_artifact_type a,
            vd_file_path = sa_file_path a, vd_artifact_name = sa_name a, vd_single_use = dt_single_use t\<rparr>)"

definition claim_single_use_token :: "int \<Rightarrow> string \<Rightarrow> artifact_db \<Rightarrow> bool \<times> artifact_db" where
  "claim_single_use_token now token_hash db =
     (let unused = (\<lambda>t. dt_token_hash t = token_hash \<and> dt_used_at t = None)
      in (0 < rows_affected unused (download_tokens db),
          db\<lparr>download_tokens := update_where unused (\<lambda>t. t\<lparr>dt_used_at := Some now\<rparr>) (download_tokens db)\<rparr>))"

subsection \<open>Handlers\<close>

record CreateScopedDownloadTokenRequest =
  sd_ttl_secs :: "int option"
  sd_single_use :: bool

definition artifact_expired :: "int \<Rightarrow> int option \<Rightarrow> bool" where
  "artifact_expired now expires_at = (case expires_at of None \<Rightarrow> False | Some ends \<Rightarrow> ends \<le> now)"

abbreviation gone :: api_error where
  "gone \<equiv> ApiError GONE ''artifact_expired'' ''This artifact has expired''"

definition create_scoped_token_handler ::
  "(string \<Rightarrow> string) \<Rightarrow> int \<Rightarrow> SessionInfo \<Rightarrow> string \<Rightarrow> string \<Rightarrow> string \<Rightarrow> CreateScopedDownloadTokenRequest \<Rightarrow>
   artifact_db \<Rightarrow> string api_result \<times> artifact_db" where
  "create_scoped_token_handler hash_token now auth tid token artifact_id req db =
     (let ttl = unwrap_or DEFAULT_TTL_SECS (sd_ttl_secs req)
      in try_in db (ensure (60 \<le> ttl) (ApiError BAD_REQUEST ''validation_error'' ''TTL must be at least 60 seconds''))
      (\<lambda>_. try_in db (ensure (ttl \<le> MAX_TTL_SECS)
             (ApiError BAD_REQUEST ''validation_error'' ''TTL must not exceed 604800 seconds (7 days)''))
      (\<lambda>_. try_in db (load_artifact_access db artifact_id)
      (\<lambda>(artifact_expires_at, project_id). try_in db (require_project_artifact_write db auth project_id)
      (\<lambda>_. try_in db (ensure (\<not> artifact_expired now artifact_expires_at) gone)
      (\<lambda>_. case create_download_token hash_token now tid token artifact_id (au_user_id auth) ttl (sd_single_use req) db of
             None \<Rightarrow> (Inl (ApiError INTERNAL_SERVER_ERROR ''db_error'' ''Failed to create download token''), db)
           | Some db1 \<Rightarrow>
               (Inr token, db1\<lparr>dcore := write_audit_log (Some (au_user_id auth)) ''scoped_download_token_created''
                  ''artifact_download_token'' (Some tid)
                  [(''artifact_id'', Some artifact_id), (''token_prefix'', Some (take 8 token)),
                   (''single_use'', Some (show_flag (sd_single_use req))), (''ttl_secs'', Some (show_int ttl)),
                   (''expires_at'', Some (show_int (now + ttl)))] (dcore db1)\<rparr>)))))))"

definition revoke_scoped_token_handler ::
  "int \<Rightarrow> SessionInfo \<Rightarrow> string \<Rightarrow> artifact_db \<Rightarrow> bool api_result \<times> artifact_db" where
  "revoke_scoped_token_handler now auth token_id db =
     try_in db (ok_or (ApiError NOT_FOUND ''not_found'' ''Download token not found'')
         (Option.bind (fetch_optional (\<lambda>t. dt_id t = token_id) (download_tokens db))
           (\<lambda>t. Option.bind (fetch_optional (\<lambda>a. sa_id a = dt_artifact_id t) (stored_artifacts db))
             (\<lambda>a. map_option (Pair t) (artifact_project db a)))))
      (\<lambda>(row, project_id). try_in db (require_project_artifact_write db auth project_id)
      (\<lambda>_. if dt_revoked_at row \<noteq> None then (Inr True, db)
            else if \<not> is_admin auth \<and> dt_created_by row \<noteq> au_user_id auth
            then (Inl (ApiError FORBIDDEN ''permission_denied'' ''You can only revoke your own download tokens''), db)
            else (Inr True,
              db\<lparr>download_tokens := update_where (\<lambda>t. dt_id t = token_id) (\<lambda>t. t\<lparr>dt_revoked_at := Some now\<rparr>) (download_tokens db),
                 dcore := write_audit_log (Some (au_user_id auth)) ''scoped_download_token_revoked''
                   ''artifact_download_token'' (Some token_id) [] (dcore db)\<rparr>)))"

abbreviation invalid_token :: api_error where
  "invalid_token \<equiv> ApiError UNAUTHORIZED ''invalid_token'' ''Download token is invalid, expired, or already used''"

text \<open>The download up to the claim: the token and then the artifact's own expiry.\<close>

definition check_download ::
  "(string \<Rightarrow> string) \<Rightarrow> int \<Rightarrow> string \<Rightarrow> artifact_db \<Rightarrow> ValidatedDownloadToken api_result" where
  "check_download hash_token now token db =
     and_then (ok_or invalid_token (validate_download_token hash_token now token db))
      (\<lambda>v. if (case fetch_optional (\<lambda>a. sa_id a = vd_artifact_id v) (stored_artifacts db) of
                 None \<Rightarrow> False | Some a \<Rightarrow> artifact_expired now (sa_expires_at a))
           then Inl gone else Inr v)"

definition claim_download :: "int \<Rightarrow> ValidatedDownloadToken \<Rightarrow> artifact_db \<Rightarrow> unit api_result \<times> artifact_db" where
  "claim_download now v db =
     (if vd_single_use v
      then (case claim_single_use_token now (vd_token_hash v) db of (won, db1) \<Rightarrow> (ensure won invalid_token, db1))
      else (Inr (), db))"

text \<open>\<open>download_url\<close> is the storage backend: a failure, no configured storage, or a URL.\<close>

definition deliver :: "(string \<Rightarrow> unit + string option) \<Rightarrow> ValidatedDownloadToken \<Rightarrow> string api_result" where
  "deliver download_url v =
     (case download_url (vd_file_path v) of
        Inl _ \<Rightarrow> Inl (ApiError INTERNAL_SERVER_ERROR ''storage_error'' ''Failed to generate download URL'')
      | Inr None \<Rightarrow> Inl (ApiError SERVICE_UNAVAILABLE ''storage_not_configured''
                      ''Artifact storage backend is not configured'')
      | Inr (Some url) \<Rightarrow> Inr url)"

definition download_via_scoped_token ::
  "(string \<Rightarrow> string) \<Rightarrow> (string \<Rightarrow> unit + string option) \<Rightarrow> int \<Rightarrow> string \<Rightarrow> artifact_db \<Rightarrow> string api_result \<times> artifact_db"
where
  "download_via_scoped_token hash_token download_url now token db =
     try_in db (check_download hash_token now token db)
      (\<lambda>v. case claim_download now v db of
             (Inl e, db1) \<Rightarrow> (Inl e, db1)
           | (Inr _, db1) \<Rightarrow> (deliver download_url v, db1))"

subsection \<open>Concurrent downloads\<close>

text \<open>
  A state of the service: the tables, the requests that were checked and not yet claimed, and the
  downloads that were let through. Tokens are removed with their artifact, and a
  generated token is not one that was let through before.
\<close>

record download_state =
  ds_db :: artifact_db
  ds_checked :: "ValidatedDownloadToken list"
  ds_served :: "ValidatedDownloadToken list"

inductive download_step :: "(string \<Rightarrow> string) \<Rightarrow> download_state \<Rightarrow> download_state \<Rightarrow> bool"
for hash_token where
  check: "check_download hash_token now token (ds_db s) = Inr v \<Longrightarrow>
    download_step hash_token s (s\<lparr>ds_checked := v # ds_checked s\<rparr>)"
| pass: "v \<in> set (ds_checked s) \<Longrightarrow> claim_download now v (ds_db s) = (Inr (), db1) \<Longrightarrow>
    download_step hash_token s
      (s\<lparr>ds_db := db1, ds_checked := remove1 v (ds_checked s), ds_served := v # ds_served s\<rparr>)"
| refuse: "v \<in> set (ds_checked s) \<Longrightarrow> claim_download now v (ds_db s) = (Inl e, db1) \<Longrightarrow>
    download_step hash_token s (s\<lparr>ds_db := db1, ds_checked := remove1 v (ds_checked s)\<rparr>)"
| create: "hash_token token \<notin> vd_token_hash ` set (ds_served s) \<Longrightarrow>
    download_step hash_token s
      (s\<lparr>ds_db := snd (create_scoped_token_handler hash_token now auth tid token artifact_id req (ds_db s))\<rparr>)"
| revoke: "download_step hash_token s (s\<lparr>ds_db := snd (revoke_scoped_token_handler now auth token_id (ds_db s))\<rparr>)"
| remove: "download_step hash_token s (s\<lparr>ds_db := (ds_db s)\<lparr>download_tokens := filter P (download_tokens (ds_db s)),
      stored_artifacts := rows, dcore := core'\<rparr>\<rparr>)"

subsection \<open>What a let-through download means\<close>

definition used_up :: "ValidatedDownloadToken list \<Rightarrow> artifact_db \<Rightarrow> bool" where
  "used_up served db \<longleftrightarrow> (\<forall>t \<in> set (download_tokens db).
     dt_token_hash t \<in> vd_token_hash ` set (filter vd_single_use served) \<longrightarrow> dt_used_at t \<noteq> None)"

definition downloads_ok :: "download_state \<Rightarrow> bool" where
  "downloads_ok s \<longleftrightarrow> distinct (map vd_token_hash (filter vd_single_use (ds_served s))) \<and> used_up (ds_served s) (ds_db s)"

lemma used_up_update:
  assumes "used_up served db" and "\<And>t. dt_token_hash (f t) = dt_token_hash t"
    and "\<And>t. dt_used_at t \<noteq> None \<Longrightarrow> dt_used_at (f t) \<noteq> None"
  shows "used_up served (db\<lparr>download_tokens := update_where P f (download_tokens db)\<rparr>)"
  using assms by (simp add: used_up_def ball_update_where)

lemma used_up_frame [simp]: "used_up served (dcore_update f db) = used_up served db"
  by (simp add: used_up_def)

lemmas used_up_try = try_in_state[where P = "used_up served" for served]

lemma create_scoped_used_up:
  assumes "used_up served db" and "hash_token token \<notin> vd_token_hash ` set served"
  shows "used_up served (snd (create_scoped_token_handler hash_token now auth tid token artifact_id req db))"
proof -
  have "used_up served db'" if "create_download_token hash_token now tid token artifact_id by_user ttl single db = Some db'"
    for by_user ttl single db'
    using assms that by (auto simp: create_download_token_def used_up_def split: if_splits)
  then show ?thesis
    unfolding create_scoped_token_handler_def Let_def
    by (intro used_up_try) (auto simp: assms(1) intro!: used_up_try split: option.splits)
qed

lemma revoke_scoped_used_up:
  assumes "used_up served db"
  shows "used_up served (snd (revoke_scoped_token_handler now auth token_id db))"
proof -
  have "used_up served (db\<lparr>download_tokens := update_where P (\<lambda>t. t\<lparr>dt_revoked_at := Some now\<rparr>) (download_tokens db),
      dcore := c\<rparr>)" for P c
    using assms by (simp add: used_up_def ball_update_where)
  then show ?thesis
    unfolding revoke_scoped_token_handler_def by (intro used_up_try) (auto simp: assms intro!: used_up_try)
qed

lemma claim_download_cases:
  assumes "claim_download now v db = (r, db1)" and "vd_single_use v"
  shows "db1 = db\<lparr>download_tokens := update_where (\<lambda>t. dt_token_hash t = vd_token_hash v \<and> dt_used_at t = None)
      (\<lambda>t. t\<lparr>dt_used_at := Some now\<rparr>) (download_tokens db)\<rparr>"
    and "is_ok r \<Longrightarrow> \<exists>t \<in> set (download_tokens db). dt_token_hash t = vd_token_hash v \<and> dt_used_at t = None"
  using assms by (auto simp: claim_download_def claim_single_use_token_def Let_def ensure_def rows_affected_def
      filter_empty_conv split: if_splits)

lemma claim_download_multi: "claim_download now v db = (r, db1) \<Longrightarrow> \<not> vd_single_use v \<Longrightarrow> db1 = db"
  by (simp add: claim_download_def)

lemma claim_download_used_up:
  assumes "claim_download now v db = (r, db1)" and "used_up served db"
  shows "used_up served db1" and "is_ok r \<Longrightarrow> used_up (v # served) db1"
proof -
  show u: "used_up served db1"
    using assms claim_download_cases(1)[OF assms(1)] claim_download_multi[OF assms(1)] used_up_update
    by (cases "vd_single_use v") auto
  show "used_up (v # served) db1" if "is_ok r"
  proof (cases "vd_single_use v")
    case True
    have "\<forall>t \<in> set (download_tokens db1). dt_token_hash t = vd_token_hash v \<longrightarrow> dt_used_at t \<noteq> None"
      unfolding claim_download_cases(1)[OF assms(1) True] by (simp add: ball_update_where)
    with u True show ?thesis by (auto simp: used_up_def)
  next
    case False
    with u show ?thesis by (simp add: used_up_def)
  qed
qed

lemma download_step_ok: "download_step hash_token s s' \<Longrightarrow> downloads_ok s \<Longrightarrow> downloads_ok s'"
proof (induction rule: download_step.induct)
  case (pass v s now db1)
  from pass(3) have d: "distinct (map vd_token_hash (filter vd_single_use (ds_served s)))"
    and u: "used_up (ds_served s) (ds_db s)" by (simp_all add: downloads_ok_def)
  have "vd_token_hash v \<notin> vd_token_hash ` set (filter vd_single_use (ds_served s))" if "vd_single_use v"
    using claim_download_cases(2)[OF pass(2) that] u by (auto simp: used_up_def)
  with d claim_download_used_up(2)[OF pass(2) u] show ?case by (simp add: downloads_ok_def)
next
  case (refuse v s now e db1)
  then show ?case using claim_download_used_up(1)[OF refuse(2)] by (simp add: downloads_ok_def)
next
  case (create token s now auth tid artifact_id req)
  then show ?case by (simp add: downloads_ok_def create_scoped_used_up)
next
  case (revoke s now auth token_id)
  then show ?case by (simp add: downloads_ok_def revoke_scoped_used_up)
next
  case (remove s P rows core')
  then show ?case by (simp add: downloads_ok_def used_up_def)
qed (simp add: downloads_ok_def)

interpretation downloads: invariant_of "download_step hash_token" downloads_ok for hash_token
  by unfold_locales (rule download_step_ok)

text \<open>C15. A single-use download link lets one download through, however many requests race for it: over any
  interleaving of checks, claims, new tokens, revocations and removed artifacts no single-use token
  is let through twice.\<close>

theorem single_use_served_once:
  assumes "(download_step hash_token)\<^sup>*\<^sup>* s s'" and "ds_served s = []"
  shows "distinct (map vd_token_hash (filter vd_single_use (ds_served s')))"
proof -
  from assms(2) have "downloads_ok s" by (simp add: downloads_ok_def used_up_def)
  from downloads.run_inv[OF assms(1) this] show ?thesis by (simp add: downloads_ok_def)
qed

lemma validate_download_Some:
  assumes "validate_download_token hash_token now token db = Some v"
  obtains t a where "t \<in> set (download_tokens db)" "a \<in> set (stored_artifacts db)" "sa_id a = dt_artifact_id t"
    "dt_token_hash t = hash_token token" "sa_available a" "dt_revoked_at t = None" "now < dt_expires_at t"
    "\<not> dt_single_use t \<or> dt_used_at t = None" "vd_token_hash v = hash_token token" "vd_single_use v = dt_single_use t"
    "vd_artifact_id v = sa_id a" "vd_file_path v = sa_file_path a"
proof -
  from assms obtain t a rest where j: "download_joins now (hash_token token) db = (t, a) # rest"
    and v: "vd_token_hash v = dt_token_hash t" "vd_single_use v = dt_single_use t" "vd_artifact_id v = dt_artifact_id t"
      "vd_file_path v = sa_file_path a"
    by (auto simp: validate_download_token_def split: list.splits)
  from j have "(t, a) \<in> set (download_joins now (hash_token token) db)" by simp
  then show ?thesis by (intro that[of t a]) (auto simp: download_joins_def v)
qed

text \<open>A scoped link gives out only the file of its own artifact, while the link is neither revoked nor
  expired and the artifact is available and not expired; and when it is a single-use link the same
  link is refused from then on.\<close>

theorem scoped_download_guarded:
  assumes "download_via_scoped_token hash_token download_url now token db = (Inr url, db')"
    and "distinct (map sa_id (stored_artifacts db))" and "distinct (map dt_token_hash (download_tokens db))"
  shows "\<exists>t a. t \<in> set (download_tokens db) \<and> a \<in> set (stored_artifacts db) \<and> dt_token_hash t = hash_token token \<and>
     sa_id a = dt_artifact_id t \<and> dt_revoked_at t = None \<and> now < dt_expires_at t \<and> sa_available a \<and>
     \<not> artifact_expired now (sa_expires_at a) \<and> download_url (sa_file_path a) = Inr (Some url) \<and>
     (dt_single_use t \<longrightarrow> download_via_scoped_token hash_token download_url' later token db' = (Inl invalid_token, db'))"
proof -
  from assms(1) obtain v where c: "check_download hash_token now token db = Inr v"
    by (auto simp: download_via_scoped_token_def try_in_eq_Inr)
  with assms(1) have cl: "claim_download now v db = (Inr (), db')" and d: "deliver download_url v = Inr url"
    by (auto simp: download_via_scoped_token_def split: prod.splits sum.splits)
  from c have v: "validate_download_token hash_token now token db = Some v"
    and live: "\<And>a. fetch_optional (\<lambda>a. sa_id a = vd_artifact_id v) (stored_artifacts db) = Some a \<Longrightarrow>
      \<not> artifact_expired now (sa_expires_at a)"
    by (auto simp: check_download_def and_then_eq_Inr ok_or_eq_Inr split: if_splits)
  from v obtain t a where ta: "t \<in> set (download_tokens db)" "a \<in> set (stored_artifacts db)" "sa_id a = dt_artifact_id t"
    "dt_token_hash t = hash_token token" "sa_available a" "dt_revoked_at t = None" "now < dt_expires_at t"
    and h: "vd_token_hash v = hash_token token" "vd_single_use v = dt_single_use t" "vd_artifact_id v = sa_id a"
      "vd_file_path v = sa_file_path a"
    by (rule validate_download_Some)
  have ne: "\<not> artifact_expired now (sa_expires_at a)"
    using live[of a] fetch_by_key[OF assms(2) ta(2)] by (simp add: h)
  have url: "download_url (sa_file_path a) = Inr (Some url)"
    using d by (auto simp: deliver_def h split: sum.splits option.splits)
  have "download_via_scoped_token hash_token download_url' later token db' = (Inl invalid_token, db')" if "dt_single_use t"
  proof -
    have su: "vd_single_use v" using that h by simp
    have "dt_single_use x" if "x \<in> set (download_tokens db)" "dt_token_hash x = hash_token token" for x
      using key_unique[OF assms(3) that(1) ta(1)] that(2) ta(4) \<open>dt_single_use t\<close> by simp
    then have "\<forall>x \<in> set (download_tokens db'). dt_token_hash x = hash_token token \<longrightarrow> dt_single_use x \<and> dt_used_at x \<noteq> None"
      unfolding claim_download_cases(1)[OF cl su] by (simp add: ball_update_where h)
    then have "download_joins later (hash_token token) db' = []"
      by (auto simp: download_joins_def filter_empty_conv)
    then show ?thesis by (simp add: download_via_scoped_token_def check_download_def validate_download_token_def)
  qed
  with ta ne url show ?thesis by blast
qed

subsection \<open>Witnesses\<close>

definition sample_link :: download_token where
  "sample_link = \<lparr>dt_id = ''k1'', dt_artifact_id = ''a1'', dt_token_hash = ''h1'', dt_prefix = ''h1'', dt_created_by = ''u1'',
     dt_expires_at = 1000, dt_single_use = True, dt_used_at = None, dt_revoked_at = None, dt_created_at = 1\<rparr>"

definition sample_artifacts :: artifact_db where
  "sample_artifacts = \<lparr>dcore = empty_core,
     stored_artifacts = [\<lparr>sa_id = ''a1'', sa_build_id = ''b1'', sa_available = True, sa_expires_at = None,
       sa_artifact_type = ''apk'', sa_file_path = ''f1'', sa_name = ''app.apk''\<rparr>],
     download_tokens = [sample_link]\<rparr>"

definition sample_checked :: ValidatedDownloadToken where
  "sample_checked = \<lparr>vd_token_hash = ''h1'', vd_artifact_id = ''a1'', vd_artifact_type = ''apk'', vd_file_path = ''f1'',
     vd_artifact_name = ''app.apk'', vd_single_use = True\<rparr>"

text \<open>Two requests are checked before either claims the link; the first claim is let through.\<close>

theorem single_use_served_once_witness:
  "\<exists>s'. (download_step id)\<^sup>*\<^sup>* \<lparr>ds_db = sample_artifacts, ds_checked = [], ds_served = []\<rparr> s' \<and>
     ds_checked s' = [sample_checked] \<and> ds_served s' = [sample_checked] \<and>
     distinct (map vd_token_hash (filter vd_single_use (ds_served s')))"
proof -
  let ?s0 = "\<lparr>ds_db = sample_artifacts, ds_checked = [], ds_served = []\<rparr>"
  let ?s1 = "?s0\<lparr>ds_checked := sample_checked # ds_checked ?s0\<rparr>"
  let ?s2 = "?s1\<lparr>ds_checked := sample_checked # ds_checked ?s1\<rparr>"
  let ?db = "snd (claim_download 5 sample_checked sample_artifacts)"
  let ?s3 = "?s2\<lparr>ds_db := ?db, ds_checked := remove1 sample_checked (ds_checked ?s2), ds_served := sample_checked # ds_served ?s2\<rparr>"
  have c: "check_download id 4 ''h1'' sample_artifacts = Inr sample_checked" by code_simp
  have "fst (claim_download 5 sample_checked sample_artifacts) = Inr ()" by code_simp
  then have cl: "claim_download 5 sample_checked sample_artifacts = (Inr (), ?db)" by (metis prod.collapse)
  have "download_step id ?s0 ?s1" by (rule download_step.check[of id 4 "''h1''"]) (simp add: c[simplified])
  moreover have "download_step id ?s1 ?s2" by (rule download_step.check[of id 4 "''h1''"]) (simp add: c[simplified])
  moreover have "download_step id ?s2 ?s3" by (rule download_step.pass[of _ _ 5]) (simp_all add: cl[symmetric])
  ultimately have run: "(download_step id)\<^sup>*\<^sup>* ?s0 ?s3" by (meson rtranclp.rtrancl_into_rtrancl rtranclp.rtrancl_refl)
  from single_use_served_once[OF this] run show ?thesis by (intro exI[of _ ?s3]) simp
qed

theorem scoped_download_guarded_witness:
  "\<exists>db'. download_via_scoped_token id (\<lambda>f. Inr (Some f)) 5 ''h1'' sample_artifacts = (Inr ''f1'', db') \<and>
     download_via_scoped_token id (\<lambda>f. Inr (Some f)) 6 ''h1'' db' = (Inl invalid_token, db')"
proof -
  let ?d = "download_via_scoped_token id (\<lambda>f. Inr (Some f)) 5 ''h1'' sample_artifacts"
  have "fst ?d = Inr ''f1''" by code_simp
  then have d: "?d = (Inr ''f1'', snd ?d)" by (metis prod.collapse)
  have k: "distinct (map sa_id (stored_artifacts sample_artifacts))"
    "distinct (map dt_token_hash (download_tokens sample_artifacts))" by code_simp+
  from scoped_download_guarded[OF d k, of "\<lambda>f. Inr (Some f)" 6] d show ?thesis
    by (auto simp: sample_artifacts_def sample_link_def)
qed

end
