(* ===== verification/Oidc_Admission.thy ===== *)
theory Oidc_Admission
  imports Logins "HOL-Library.AList"
begin

text \<open>
  The in-memory store of started identity provider logins, \<open>PendingAuthStore\<close> of
  \<^verbatim>\<open>crates/oored/src/auth.rs\<close>: reservations before the discovery of the provider, pending
  authorizations afterwards, and the counters of the start rate per source address.

  A hash map is an association list with distinct keys, changed with the operations of
  \<open>HOL-Library.AList\<close>; an address is text. Discovery and the exchange with the provider happen
  between the operations and outside the lock. A store operation and the clock it was given count as one
  moment.
\<close>

subsection \<open>The store\<close>

definition PENDING_AUTH_TTL_SECS :: int where "PENDING_AUTH_TTL_SECS = 600"
definition MAX_PENDING_AUTH :: nat where "MAX_PENDING_AUTH = 1000"
definition OIDC_START_RATE_WINDOW_SECS :: int where "OIDC_START_RATE_WINDOW_SECS = 60"
definition MAX_GLOBAL_OIDC_STARTS_PER_WINDOW :: nat where "MAX_GLOBAL_OIDC_STARTS_PER_WINDOW = 120"
definition MAX_SOURCE_OIDC_STARTS_PER_WINDOW :: nat where "MAX_SOURCE_OIDC_STARTS_PER_WINDOW = 20"

text \<open>The provider settings of the setup state file.\<close>

record OidcConfigRecord =
  oc_issuer_url :: string
  oc_client_id :: string
  oc_has_client_secret :: bool
  oc_authorization_endpoint :: string
  oc_token_endpoint :: string
  oc_userinfo_endpoint :: "string option"
  oc_jwks_uri :: string
  oc_configured_at :: int

record OidcSecretRecord =
  os_encrypted_client_secret :: string
  os_stored_at :: int

record SetupStateFile =
  sf_instance_id :: string
  sf_oidc_config :: "OidcConfigRecord option"
  sf_oidc_secret :: "OidcSecretRecord option"

text \<open>
  What a setup login was started with. The provider's columns are kept as one record and the stored
  secret as another, each compared field by field.
\<close>

record SetupOidcAuthorization =
  so_generation :: string
  so_instance_id :: string
  so_session_hash :: string
  so_config :: OidcConfigRecord
  so_secret :: "OidcSecretRecord option"
  so_redirect_uri :: string

definition setup_authorization ::
  "SetupStateFile \<Rightarrow> string \<Rightarrow> string \<Rightarrow> string \<Rightarrow> SetupOidcAuthorization option" where
  "setup_authorization sf generation session_hash redirect_uri =
     map_option (\<lambda>config. \<lparr>so_generation = generation, so_instance_id = sf_instance_id sf,
         so_session_hash = session_hash, so_config = config, so_secret = sf_oidc_secret sf,
         so_redirect_uri = redirect_uri\<rparr>)
       (sf_oidc_config sf)"

definition authorization_matches ::
  "SetupOidcAuthorization \<Rightarrow> SetupStateFile \<Rightarrow> string \<Rightarrow> RuntimeMode \<Rightarrow> RemoteAuthMode \<Rightarrow> string \<Rightarrow> bool" where
  "authorization_matches a sf generation mode remote_mode redirect_uri \<longleftrightarrow>
     (case sf_oidc_config sf of None \<Rightarrow> False
      | Some config \<Rightarrow>
          so_generation a = generation \<and> so_instance_id a = sf_instance_id sf \<and>
          mode = Runtime_Remote \<and> remote_mode = RemoteAuthMode.Oidc \<and>
          oc_issuer_url (so_config a) = oc_issuer_url config \<and>
          oc_client_id (so_config a) = oc_client_id config \<and>
          oc_has_client_secret (so_config a) = oc_has_client_secret config \<and>
          oc_authorization_endpoint (so_config a) = oc_authorization_endpoint config \<and>
          oc_token_endpoint (so_config a) = oc_token_endpoint config \<and>
          oc_userinfo_endpoint (so_config a) = oc_userinfo_endpoint config \<and>
          oc_jwks_uri (so_config a) = oc_jwks_uri config \<and>
          oc_configured_at (so_config a) = oc_configured_at config \<and>
          map_option os_encrypted_client_secret (so_secret a) =
            map_option os_encrypted_client_secret (sf_oidc_secret sf) \<and>
          map_option os_stored_at (so_secret a) = map_option os_stored_at (sf_oidc_secret sf) \<and>
          so_redirect_uri a = redirect_uri)"

record PendingAuth =
  pa_pkce_verifier :: string
  pa_nonce :: string
  pa_redirect_uri :: string
  pa_created_at :: int
  pa_setup :: "SetupOidcAuthorization option"

datatype OidcAdmissionError = Capacity | GlobalRate | SourceRate | ReservationExpired

record PendingAuthStore =
  pending :: "(string \<times> PendingAuth) list"
  reservations :: "(string \<times> int) list"
  global_starts :: "int list"
  source_starts :: "(string \<times> int list) list"
  setup_generation :: string

definition default_store :: "string \<Rightarrow> PendingAuthStore" where
  "default_store generation =
     \<lparr>pending = [], reservations = [], global_starts = [], source_starts = [], setup_generation = generation\<rparr>"

definition pop_starts :: "int \<Rightarrow> int list \<Rightarrow> int list" where
  "pop_starts cutoff = dropWhile (\<lambda>start. start \<le> cutoff)"

definition cleanup :: "int \<Rightarrow> PendingAuthStore \<Rightarrow> PendingAuthStore" where
  "cleanup now st =
     (let cutoff = now - OIDC_START_RATE_WINDOW_SECS
      in st\<lparr>pending := filter (\<lambda>(_, p). now - pa_created_at p < PENDING_AUTH_TTL_SECS) (pending st),
            reservations := filter (\<lambda>(_, created_at). now - created_at < PENDING_AUTH_TTL_SECS) (reservations st),
            global_starts := pop_starts cutoff (global_starts st),
            source_starts := filter (\<lambda>(_, starts). starts \<noteq> [])
              (map (\<lambda>(source, starts). (source, pop_starts cutoff starts)) (source_starts st))\<rparr>)"

abbreviation starts_of :: "PendingAuthStore \<Rightarrow> string \<Rightarrow> int list" where
  "starts_of st source \<equiv> unwrap_or [] (map_of (source_starts st) source)"

definition reserve_public ::
  "string \<Rightarrow> string \<Rightarrow> int \<Rightarrow> PendingAuthStore \<Rightarrow> (OidcAdmissionError + unit) \<times> PendingAuthStore" where
  "reserve_public reservation_id source now st0 =
     (let st = cleanup now st0
      in if MAX_PENDING_AUTH \<le> length (pending st) + length (reservations st) then (Inl Capacity, st)
         else if MAX_GLOBAL_OIDC_STARTS_PER_WINDOW \<le> length (global_starts st) then (Inl GlobalRate, st)
         else if MAX_SOURCE_OIDC_STARTS_PER_WINDOW \<le> length (starts_of st source) then (Inl SourceRate, st)
         else (Inr (), st\<lparr>global_starts := global_starts st @ [now],
                source_starts := AList.update source (starts_of st source @ [now]) (source_starts st),
                reservations := AList.update reservation_id now (reservations st)\<rparr>))"

definition commit_public ::
  "string \<Rightarrow> string \<Rightarrow> PendingAuth \<Rightarrow> PendingAuthStore \<Rightarrow> (OidcAdmissionError + unit) \<times> PendingAuthStore" where
  "commit_public reservation_id state p st0 =
     (let st = cleanup (pa_created_at p) st0
      in if map_of (reservations st) reservation_id = None then (Inl ReservationExpired, st)
         else (Inr (), st\<lparr>reservations := AList.delete reservation_id (reservations st),
                pending := AList.update state p (pending st)\<rparr>))"

definition cancel_public :: "string \<Rightarrow> PendingAuthStore \<Rightarrow> PendingAuthStore" where
  "cancel_public reservation_id st = st\<lparr>reservations := AList.delete reservation_id (reservations st)\<rparr>"

definition insert_setup ::
  "string \<Rightarrow> PendingAuth \<Rightarrow> int \<Rightarrow> PendingAuthStore \<Rightarrow> (OidcAdmissionError + unit) \<times> PendingAuthStore" where
  "insert_setup state p now st0 =
     (let st = cleanup now st0
      in if MAX_PENDING_AUTH \<le> length (pending st) + length (reservations st) then (Inl Capacity, st)
         else (Inr (), st\<lparr>pending := AList.update state p (pending st)\<rparr>))"

definition remove_pending :: "string \<Rightarrow> PendingAuthStore \<Rightarrow> PendingAuth option \<times> PendingAuthStore" where
  "remove_pending state st = (map_of (pending st) state, st\<lparr>pending := AList.delete state (pending st)\<rparr>)"

definition invalidate_setup :: "string \<Rightarrow> PendingAuthStore \<Rightarrow> PendingAuthStore" where
  "invalidate_setup generation st =
     st\<lparr>setup_generation := generation, pending := filter (\<lambda>(_, p). pa_setup p = None) (pending st)\<rparr>"

definition clear_store :: "PendingAuthStore \<Rightarrow> PendingAuthStore" where
  "clear_store st = st\<lparr>pending := [], reservations := [], global_starts := [], source_starts := []\<rparr>"

definition oidc_admission_error :: "OidcAdmissionError \<Rightarrow> api_error" where
  "oidc_admission_error e =
     (case e of
        Capacity \<Rightarrow> ApiError TOO_MANY_REQUESTS ''too_many_pending'' ''Too many pending authentication requests''
      | ReservationExpired \<Rightarrow>
          ApiError SERVICE_UNAVAILABLE ''oidc_start_expired'' ''OIDC discovery took too long; retry authentication''
      | _ \<Rightarrow> ApiError TOO_MANY_REQUESTS ''oidc_start_rate_limited'' ''Too many authentication starts; retry later'')"

text \<open>The callback before it talks to the provider: the state is taken, then its age and flow are checked.\<close>

definition take_pending :: "int \<Rightarrow> string \<Rightarrow> PendingAuthStore \<Rightarrow> PendingAuth api_result \<times> PendingAuthStore" where
  "take_pending now state st =
     (case remove_pending state st of
        (None, st1) \<Rightarrow> (Inl (ApiError BAD_REQUEST ''invalid_state''
            ''Unknown or expired OIDC state parameter (possible CSRF attempt)''), st1)
      | (Some p, st1) \<Rightarrow>
          (if PENDING_AUTH_TTL_SECS \<le> now - pa_created_at p
           then Inl (ApiError BAD_REQUEST ''auth_expired'' ''OIDC authorization request has expired'')
           else if pa_setup p \<noteq> None
           then Inl (ApiError BAD_REQUEST ''invalid_state'' ''OIDC state belongs to a setup flow'')
           else Inr p, st1))"

subsection \<open>Any sequence of requests\<close>

text \<open>
  A state of the daemon: the store, the largest clock reading so far, and the starts that were admitted
  since the store was last cleared, as source and time. A committed authorization carries an
  earlier clock reading.
\<close>

record admission =
  ad_store :: PendingAuthStore
  ad_clock :: int
  ad_log :: "(string \<times> int) list"

inductive admission_step :: "admission \<Rightarrow> admission \<Rightarrow> bool" where
  reserve: "ad_clock s \<le> now \<Longrightarrow> reserve_public rid source now (ad_store s) = (Inr u, st) \<Longrightarrow>
    admission_step s \<lparr>ad_store = st, ad_clock = now, ad_log = ad_log s @ [(source, now)]\<rparr>"
| refuse: "ad_clock s \<le> now \<Longrightarrow> reserve_public rid source now (ad_store s) = (Inl e, st) \<Longrightarrow>
    admission_step s (s\<lparr>ad_store := st, ad_clock := now\<rparr>)"
| commit: "pa_created_at p \<le> ad_clock s \<Longrightarrow>
    admission_step s (s\<lparr>ad_store := snd (commit_public rid key p (ad_store s))\<rparr>)"
| cancel: "admission_step s (s\<lparr>ad_store := cancel_public rid (ad_store s)\<rparr>)"
| setup_login: "now \<le> ad_clock s \<Longrightarrow> admission_step s (s\<lparr>ad_store := snd (insert_setup key p now (ad_store s))\<rparr>)"
| tick: "ad_clock s \<le> now \<Longrightarrow> admission_step s (s\<lparr>ad_clock := now\<rparr>)"
| callback: "admission_step s (s\<lparr>ad_store := snd (take_pending now key (ad_store s))\<rparr>)"
| invalidate: "admission_step s (s\<lparr>ad_store := invalidate_setup generation (ad_store s)\<rparr>)"
| clear: "admission_step s (s\<lparr>ad_store := clear_store (ad_store s), ad_log := []\<rparr>)"

text \<open>Admitted starts in the window that ends at a time, of one source and of all.\<close>

definition starts_in_window :: "int \<Rightarrow> (string \<times> int) list \<Rightarrow> nat" where
  "starts_in_window t admitted =
     length (filter (\<lambda>(_, start). t - OIDC_START_RATE_WINDOW_SECS < start \<and> start \<le> t) admitted)"

definition source_log :: "string \<Rightarrow> (string \<times> int) list \<Rightarrow> (string \<times> int) list" where
  "source_log source = filter (\<lambda>(src, _). src = source)"

definition recent :: "int \<Rightarrow> (string \<times> int) list \<Rightarrow> int list" where
  "recent c admitted = filter (\<lambda>start. c < start) (map snd admitted)"

lemmas window_defs = OIDC_START_RATE_WINDOW_SECS_def MAX_GLOBAL_OIDC_STARTS_PER_WINDOW_def
  MAX_SOURCE_OIDC_STARTS_PER_WINDOW_def MAX_PENDING_AUTH_def

subsection \<open>The counters count the admitted starts\<close>

lemma dropWhile_sorted:
  fixes xs :: "int list"
  assumes "sorted xs"
  shows "dropWhile (\<lambda>x. x \<le> k) xs = filter (\<lambda>x. k < x) xs"
  using assms
proof (induction xs)
  case (Cons a xs)
  then show ?case by (cases "a \<le> k") (force intro: filter_True[symmetric])+
qed simp

lemma pop_recent:
  assumes "sorted (map snd l)"
  shows "pop_starts k (recent c l) = recent (max c k) l"
  using assms by (simp add: pop_starts_def recent_def dropWhile_sorted sorted_filter[where f = id, simplified] conj_commute)

lemma recent_append: "recent c (l @ [(src, t)]) = recent c l @ (if c < t then [t] else [])"
  by (simp add: recent_def)

lemma source_log_append: "source_log src (l @ [(s, t)]) = source_log src l @ (if s = src then [(s, t)] else [])"
  by (simp add: source_log_def)

lemma sorted_source_log: "sorted (map snd l) \<Longrightarrow> sorted (map snd (source_log src l))"
  unfolding source_log_def by (rule sorted_filter)

lemma set_source_log: "set (source_log src l) \<subseteq> set l"
  by (auto simp: source_log_def)

lemma map_of_filter_map:
  assumes "distinct (map fst xs)"
  shows "map_of (filter (\<lambda>(_, v). P v) (map (\<lambda>(k, v). (k, f v)) xs)) k =
    (case map_of xs k of None \<Rightarrow> None | Some v \<Rightarrow> if P (f v) then Some (f v) else None)"
  using assms
proof (induction xs)
  case (Cons a xs)
  have "k \<notin> fst ` set xs \<Longrightarrow> map_of xs k = None" by (simp add: map_of_eq_None_iff)
  with Cons show ?case by (cases a) (auto split: option.splits)
qed simp

lemma starts_of_cleanup:
  assumes "distinct (map fst (source_starts st))"
  shows "starts_of (cleanup now st) src = pop_starts (now - OIDC_START_RATE_WINDOW_SECS) (starts_of st src)"
  by (simp add: cleanup_def Let_def map_of_filter_map[OF assms] unwrap_or_def split: option.split)
    (simp add: pop_starts_def)

lemma length_filter_mono:
  "(\<And>x. x \<in> set xs \<Longrightarrow> P x \<Longrightarrow> Q x) \<Longrightarrow> length (filter P xs) \<le> length (filter Q xs)"
  by (induction xs) (auto intro: le_SucI)

lemma window_append:
  assumes "\<And>x. x \<in> snd ` set l \<Longrightarrow> x \<le> now"
    and "length (recent (now - OIDC_START_RATE_WINDOW_SECS) l) < m" and "\<And>t. starts_in_window t l \<le> m"
  shows "starts_in_window t (l @ [(src, now)]) \<le> m"
proof (cases "now \<le> t")
  case True
  have "starts_in_window t l \<le> length (recent (now - OIDC_START_RATE_WINDOW_SECS) l)"
    unfolding starts_in_window_def recent_def filter_map length_map
    by (rule length_filter_mono) (use True in auto)
  with assms(2) show ?thesis by (simp add: starts_in_window_def)
next
  case False
  with assms(3)[of t] show ?thesis by (simp add: starts_in_window_def)
qed

subsection \<open>The invariant\<close>

definition counted :: "int \<Rightarrow> PendingAuthStore \<Rightarrow> (string \<times> int) list \<Rightarrow> bool" where
  "counted c st l \<longleftrightarrow> global_starts st = recent c l \<and> (\<forall>src. starts_of st src = recent c (source_log src l))"

definition limited :: "(string \<times> int) list \<Rightarrow> bool" where
  "limited l \<longleftrightarrow> (\<forall>t. starts_in_window t l \<le> MAX_GLOBAL_OIDC_STARTS_PER_WINDOW \<and>
     (\<forall>src. starts_in_window t (source_log src l) \<le> MAX_SOURCE_OIDC_STARTS_PER_WINDOW))"

definition store_ok :: "PendingAuthStore \<Rightarrow> bool" where
  "store_ok st \<longleftrightarrow> length (pending st) + length (reservations st) \<le> MAX_PENDING_AUTH \<and>
     distinct (map fst (source_starts st))"

definition admission_ok :: "admission \<Rightarrow> bool" where
  "admission_ok s \<longleftrightarrow> store_ok (ad_store s) \<and> sorted (map snd (ad_log s)) \<and>
     (\<forall>x \<in> snd ` set (ad_log s). x \<le> ad_clock s) \<and> limited (ad_log s) \<and>
     (\<exists>c \<le> ad_clock s - OIDC_START_RATE_WINDOW_SECS. counted c (ad_store s) (ad_log s))"

lemma counted_frame [simp]:
  "counted c (pending_update f st) l = counted c st l"
  "counted c (reservations_update g st) l = counted c st l"
  "counted c (setup_generation_update h st) l = counted c st l"
  by (simp_all add: counted_def)

lemma distinct_fst_filter: "distinct (map fst xs) \<Longrightarrow> distinct (map fst (filter P xs))"
  by (rule distinct_map_filter)

lemma length_update_le: "length (AList.update k v xs) \<le> Suc (length xs)"
  by (induction xs) auto

lemma length_delete_le: "length (AList.delete k xs) \<le> length xs"
  by (simp add: AList.delete_eq)

lemma length_delete_less: "map_of xs k \<noteq> None \<Longrightarrow> length (AList.delete k xs) < length xs"
proof (induction xs)
  case (Cons a xs)
  then show ?case using length_delete_le[of k xs] by (auto split: if_splits)
qed simp

lemma cleanup_ok:
  assumes "store_ok st"
  shows "store_ok (cleanup now st)"
proof -
  have keys: "map fst (map (\<lambda>(source, starts). (source, pop_starts k starts)) xs) = map fst xs" for k xs
    by (induction xs) auto
  have "distinct (map fst (filter (\<lambda>(_, starts). starts \<noteq> [])
      (map (\<lambda>(source, starts). (source, pop_starts k starts)) (source_starts st))))" for k
    by (rule distinct_fst_filter) (use assms in \<open>simp only: keys store_ok_def\<close>)
  then have "distinct (map fst (source_starts (cleanup now st)))"
    by (simp add: cleanup_def Let_def)
  moreover have "length (pending (cleanup now st)) \<le> length (pending st)"
    "length (reservations (cleanup now st)) \<le> length (reservations st)"
    by (simp_all add: cleanup_def Let_def)
  ultimately show ?thesis using assms by (simp add: store_ok_def)
qed

lemma cleanup_counted:
  assumes "store_ok st" "sorted (map snd l)" "counted c st l"
  shows "counted (max c (now - OIDC_START_RATE_WINDOW_SECS)) (cleanup now st) l"
proof -
  have "global_starts (cleanup now st) = pop_starts (now - OIDC_START_RATE_WINDOW_SECS) (global_starts st)"
    by (simp add: cleanup_def Let_def)
  with assms show ?thesis
    by (simp add: counted_def store_ok_def starts_of_cleanup pop_recent sorted_source_log)
qed

lemma admission_okI:
  assumes "admission_ok s" "store_ok st" "counted c st (ad_log s)" "c \<le> now - OIDC_START_RATE_WINDOW_SECS"
    "ad_clock s \<le> now"
  shows "admission_ok (s\<lparr>ad_store := st, ad_clock := now\<rparr>)"
  using assms unfolding admission_ok_def by force

lemma reserve_public_cases:
  assumes "reserve_public rid source now st0 = (r, st)"
  obtains e where "r = Inl e" and "st = cleanup now st0"
  | u where "r = Inr u" and "length (pending (cleanup now st0)) + length (reservations (cleanup now st0)) < MAX_PENDING_AUTH"
      and "length (global_starts (cleanup now st0)) < MAX_GLOBAL_OIDC_STARTS_PER_WINDOW"
      and "length (starts_of (cleanup now st0) source) < MAX_SOURCE_OIDC_STARTS_PER_WINDOW"
      and "st = (cleanup now st0)\<lparr>global_starts := global_starts (cleanup now st0) @ [now],
        source_starts := AList.update source (starts_of (cleanup now st0) source @ [now]) (source_starts (cleanup now st0)),
        reservations := AList.update rid now (reservations (cleanup now st0))\<rparr>"
  using assms by (auto simp: reserve_public_def Let_def split: if_splits)

lemma reserve_ok:
  assumes ok: "admission_ok s" and now: "ad_clock s \<le> now"
    and r: "reserve_public rid source now (ad_store s) = (Inr u, st)"
  shows "admission_ok \<lparr>ad_store = st, ad_clock = now, ad_log = ad_log s @ [(source, now)]\<rparr>"
proof -
  let ?st = "cleanup now (ad_store s)" and ?k = "now - OIDC_START_RATE_WINDOW_SECS"
  obtain c where st_ok: "store_ok (ad_store s)" and sorted: "sorted (map snd (ad_log s))"
    and before: "\<forall>x \<in> snd ` set (ad_log s). x \<le> ad_clock s" and lim: "limited (ad_log s)"
    and c: "c \<le> ad_clock s - OIDC_START_RATE_WINDOW_SECS" "counted c (ad_store s) (ad_log s)"
    using ok by (auto simp: admission_ok_def)
  from c now have "max c ?k = ?k" by simp
  with cleanup_counted[OF st_ok sorted c(2), of now] have cnt: "counted ?k ?st (ad_log s)" by simp
  from r obtain small: "length (pending ?st) + length (reservations ?st) < MAX_PENDING_AUTH"
    and few: "length (global_starts ?st) < MAX_GLOBAL_OIDC_STARTS_PER_WINDOW"
      "length (starts_of ?st source) < MAX_SOURCE_OIDC_STARTS_PER_WINDOW"
    and st: "st = ?st\<lparr>global_starts := global_starts ?st @ [now],
        source_starts := AList.update source (starts_of ?st source @ [now]) (source_starts ?st),
        reservations := AList.update rid now (reservations ?st)\<rparr>"
    by (cases rule: reserve_public_cases) auto
  have "store_ok st"
    using small cleanup_ok[OF st_ok, of now] length_update_le[of rid now "reservations ?st"]
    by (auto simp: st store_ok_def distinct_update)
  moreover have "counted ?k st (ad_log s @ [(source, now)])"
    using cnt by (simp add: st counted_def recent_append source_log_append window_defs AList.update_conv' unwrap_or_def)
  moreover have "limited (ad_log s @ [(source, now)])"
  proof -
    have "starts_in_window t (ad_log s @ [(source, now)]) \<le> MAX_GLOBAL_OIDC_STARTS_PER_WINDOW" for t
      by (rule window_append) (use before now few cnt lim in \<open>auto simp: counted_def limited_def\<close>)
    moreover have "starts_in_window t (source_log source (ad_log s) @ [(source, now)]) \<le> MAX_SOURCE_OIDC_STARTS_PER_WINDOW" for t
      by (rule window_append)
        (use before now few cnt lim set_source_log in \<open>fastforce simp: counted_def limited_def\<close>)+
    ultimately show ?thesis using lim by (auto simp: limited_def source_log_append)
  qed
  moreover have "sorted (map snd (ad_log s @ [(source, now)]))"
    using sorted before now by (fastforce simp: sorted_append)
  ultimately show ?thesis using before now by (fastforce simp: admission_ok_def)
qed

lemma cleaned_ok:
  assumes ok: "admission_ok s" and old: "at_time \<le> now" and now: "ad_clock s \<le> now"
  shows "\<exists>c \<le> now - OIDC_START_RATE_WINDOW_SECS. store_ok (cleanup at_time (ad_store s)) \<and>
    counted c (cleanup at_time (ad_store s)) (ad_log s)"
proof -
  from ok obtain c where "store_ok (ad_store s)" "sorted (map snd (ad_log s))"
    "c \<le> ad_clock s - OIDC_START_RATE_WINDOW_SECS" "counted c (ad_store s) (ad_log s)"
    by (auto simp: admission_ok_def)
  with old now show ?thesis
    by (intro exI[of _ "max c (at_time - OIDC_START_RATE_WINDOW_SECS)"]) (auto simp: cleanup_ok cleanup_counted)
qed

lemma admission_kept:
  assumes ok: "admission_ok s" and st: "store_ok st" and same: "\<And>c. counted c (ad_store s) (ad_log s) \<Longrightarrow> counted c st (ad_log s)"
  shows "admission_ok (s\<lparr>ad_store := st\<rparr>)"
  using assms by (auto simp: admission_ok_def)

lemma commit_ok:
  assumes ok: "admission_ok s" and p: "pa_created_at p \<le> ad_clock s"
  shows "admission_ok (s\<lparr>ad_store := snd (commit_public rid key p (ad_store s))\<rparr>)"
proof -
  let ?st = "cleanup (pa_created_at p) (ad_store s)"
  obtain c where c: "c \<le> ad_clock s - OIDC_START_RATE_WINDOW_SECS" "store_ok ?st" "counted c ?st (ad_log s)"
    using cleaned_ok[OF ok p order.refl] by blast
  have "store_ok (snd (commit_public rid key p (ad_store s)))"
    using c(2) length_delete_less[of "reservations ?st" rid] length_update_le[of key p "pending ?st"]
    by (auto simp: commit_public_def Let_def store_ok_def)
  moreover have "counted c (snd (commit_public rid key p (ad_store s))) (ad_log s)"
    using c(3) by (simp add: commit_public_def Let_def)
  ultimately show ?thesis using admission_okI[OF ok _ _ c(1) order.refl] by simp
qed

lemma insert_setup_ok:
  assumes ok: "admission_ok s" and now: "now \<le> ad_clock s"
  shows "admission_ok (s\<lparr>ad_store := snd (insert_setup key p now (ad_store s))\<rparr>)"
proof -
  let ?st = "cleanup now (ad_store s)"
  obtain c where c: "c \<le> ad_clock s - OIDC_START_RATE_WINDOW_SECS" "store_ok ?st" "counted c ?st (ad_log s)"
    using cleaned_ok[OF ok now order.refl] by blast
  have "store_ok (snd (insert_setup key p now (ad_store s)))"
    using c(2) length_update_le[of key p "pending ?st"] by (auto simp: insert_setup_def Let_def store_ok_def)
  moreover have "counted c (snd (insert_setup key p now (ad_store s))) (ad_log s)"
    using c(3) by (simp add: insert_setup_def Let_def)
  ultimately show ?thesis using admission_okI[OF ok _ _ c(1) order.refl] by simp
qed

lemma dropped_ok:
  assumes "store_ok st" "length ps \<le> length (pending st)" "length rs \<le> length (reservations st)"
  shows "store_ok (st\<lparr>pending := ps, reservations := rs\<rparr>)"
  using assms by (auto simp: store_ok_def)

lemma take_pending_store: "snd (take_pending now key st) = st\<lparr>pending := AList.delete key (pending st)\<rparr>"
  by (auto simp: take_pending_def remove_pending_def split: option.split)

lemma admission_step_ok:
  assumes "admission_step s t" and "admission_ok s"
  shows "admission_ok t"
  using assms
proof (induction rule: admission_step.induct)
  case (reserve s now rid source u st)
  then show ?case by (blast intro: reserve_ok)
next
  case (refuse s now rid source e st)
  then have "st = cleanup now (ad_store s)" by (auto elim: reserve_public_cases)
  with cleaned_ok[OF refuse.prems order.refl refuse.hyps(1)] refuse show ?case by (blast intro: admission_okI)
next
  case (commit p s rid key)
  then show ?case by (simp add: commit_ok)
next
  case (cancel s rid)
  then show ?case
    by (intro admission_kept) (auto simp: cancel_public_def admission_ok_def store_ok_def intro: order.trans[OF add_left_mono[OF length_delete_le]])
next
  case (setup_login now s key p)
  then show ?case by (simp add: insert_setup_ok)
next
  case (tick s now)
  from tick.prems obtain c where "c \<le> ad_clock s - OIDC_START_RATE_WINDOW_SECS" "counted c (ad_store s) (ad_log s)"
    "store_ok (ad_store s)"
    by (auto simp: admission_ok_def)
  with admission_okI[OF tick.prems, of "ad_store s" c now] tick.hyps show ?case by simp
next
  case (callback s now key)
  then show ?case
    by (intro admission_kept) (auto simp: take_pending_store admission_ok_def store_ok_def intro: order.trans[OF add_right_mono[OF length_delete_le]])
next
  case (invalidate s generation)
  then show ?case
    by (intro admission_kept) (auto simp: invalidate_setup_def admission_ok_def store_ok_def intro: order.trans[OF add_right_mono[OF length_filter_le]])
next
  case (clear s)
  have "counted c (clear_store st) []" for c st
    by (simp add: counted_def clear_store_def recent_def source_log_def unwrap_or_def)
  then show ?case
    by (auto simp: admission_ok_def store_ok_def clear_store_def limited_def starts_in_window_def source_log_def)
qed

interpretation admissions: invariant_of admission_step admission_ok
  by unfold_locales (rule admission_step_ok)

definition fresh_admission :: "string \<Rightarrow> int \<Rightarrow> admission" where
  "fresh_admission generation now = \<lparr>ad_store = default_store generation, ad_clock = now, ad_log = []\<rparr>"

lemma fresh_admission_ok: "admission_ok (fresh_admission generation now)"
  by (auto simp: admission_ok_def fresh_admission_def store_ok_def default_store_def limited_def starts_in_window_def
      source_log_def counted_def recent_def unwrap_or_def)

lemma recent_window:
  assumes "\<And>x. x \<in> snd ` set l \<Longrightarrow> x \<le> now"
  shows "length (recent (now - OIDC_START_RATE_WINDOW_SECS) l) = starts_in_window now l"
proof -
  have "filter (\<lambda>(_, x). now - OIDC_START_RATE_WINDOW_SECS < x \<and> x \<le> now) l =
      filter (\<lambda>(_, x). now - OIDC_START_RATE_WINDOW_SECS < x) l"
    using assms by (intro filter_cong) force+
  then show ?thesis by (simp add: starts_in_window_def recent_def filter_map comp_def case_prod_unfold)
qed

lemma cleaned_windows:
  assumes ok: "admission_ok s" and now: "ad_clock s \<le> now"
  shows "length (global_starts (cleanup now (ad_store s))) = starts_in_window now (ad_log s)"
    and "length (starts_of (cleanup now (ad_store s)) src) = starts_in_window now (source_log src (ad_log s))"
proof -
  obtain c where c: "c \<le> ad_clock s - OIDC_START_RATE_WINDOW_SECS" "counted c (ad_store s) (ad_log s)"
    and st: "store_ok (ad_store s)" "sorted (map snd (ad_log s))" and le: "\<forall>x \<in> snd ` set (ad_log s). x \<le> ad_clock s"
    using ok by (auto simp: admission_ok_def)
  from c(1) now have "max c (now - OIDC_START_RATE_WINDOW_SECS) = now - OIDC_START_RATE_WINDOW_SECS" by simp
  with cleanup_counted[OF st c(2), of now]
  have "counted (now - OIDC_START_RATE_WINDOW_SECS) (cleanup now (ad_store s)) (ad_log s)" by simp
  moreover have "length (recent (now - OIDC_START_RATE_WINDOW_SECS) (ad_log s)) = starts_in_window now (ad_log s)"
    by (rule recent_window) (use le now in force)
  moreover have "length (recent (now - OIDC_START_RATE_WINDOW_SECS) (source_log src (ad_log s))) =
      starts_in_window now (source_log src (ad_log s))"
    by (rule recent_window) (use le now set_source_log in force)
  ultimately show "length (global_starts (cleanup now (ad_store s))) = starts_in_window now (ad_log s)"
    and "length (starts_of (cleanup now (ad_store s)) src) = starts_in_window now (source_log src (ad_log s))"
    by (simp_all add: counted_def)
qed



text \<open>Once setup is invalidated, no setup login that was started before is still accepted.\<close>

lemma invalidated_setup_refused:
  assumes "(key, p) \<in> set (pending (invalidate_setup generation st))"
  shows "pa_setup p = None"
  using assms by (auto simp: invalidate_setup_def)

text \<open>A setup login matches the state it was started with, until the generation changes.\<close>

lemma authorization_matches_generation:
  assumes "setup_authorization sf generation session_hash redirect_uri = Some a"
  shows "authorization_matches a sf generation' Runtime_Remote RemoteAuthMode.Oidc redirect_uri \<longleftrightarrow> generation' = generation"
  using assms by (auto simp: setup_authorization_def authorization_matches_def)

end
