(* ===== verification/Project_Members.thy ===== *)
theory Project_Members
  imports Environments Accounts
begin

text \<open>
  Project members, \<^verbatim>\<open>crates/oored/src/project_members.rs\<close>: adding a member, changing a role and
  removing a member, next to the named approvers of the project's environments
  (\<^verbatim>\<open>environments.rs\<close>). The \<open>users\<close> table is an argument: these handlers only read it.

  Changing and removing check the last maintainer with reads of their own and then
  change the rows in a transaction; the two parts are separate definitions, so that other requests may come
  in between.
\<close>

subsection \<open>Rows\<close>

definition update_members :: "(project_member list \<Rightarrow> project_member list) \<Rightarrow> env_db \<Rightarrow> env_db" where
  "update_members f db =
     db\<lparr>adb := set_rdb ((release_tables db)\<lparr>core := (core (release_tables db))
        \<lparr>project_members := f (project_members (core (release_tables db)))\<rparr>\<rparr>) (adb db)\<rparr>"

definition audit_project :: "SessionInfo \<Rightarrow> string \<Rightarrow> string \<Rightarrow> (string \<times> string option) list \<Rightarrow> env_db \<Rightarrow> env_db" where
  "audit_project auth action project_id details db =
     db\<lparr>adb := set_rdb ((release_tables db)\<lparr>core := write_audit_log (Some (au_user_id auth)) action ''project''
        (Some project_id) details (core (release_tables db))\<rparr>) (adb db)\<rparr>"

abbreviation members :: "env_db \<Rightarrow> project_member list" where
  "members db \<equiv> project_members (core (release_tables db))"

definition is_member :: "string \<Rightarrow> string \<Rightarrow> project_member \<Rightarrow> bool" where
  "is_member project_id user_id m \<longleftrightarrow> pm_project_id m = project_id \<and> pm_user_id m = user_id"

definition maintainer_of :: "string \<Rightarrow> project_member \<Rightarrow> bool" where
  "maintainer_of project_id m \<longleftrightarrow> pm_project_id m = project_id \<and> pm_role m = ''maintainer''"

record ProjectMember =
  mb_project_id :: string
  mb_user_id :: string
  mb_role :: ProjectRole
  mb_user_email :: string
  mb_user_role :: string
  mb_user_display_name :: "string option"
  mb_user_avatar_url :: "string option"

definition row_to_project_member :: "project_member \<Rightarrow> user_row \<Rightarrow> string + ProjectMember" where
  "row_to_project_member m u =
     and_then (project_role_from_str (pm_role m))
      (\<lambda>role. Inr \<lparr>mb_project_id = pm_project_id m, mb_user_id = pm_user_id m, mb_role = role,
        mb_user_email = us_email u, mb_user_role = us_role u, mb_user_display_name = us_display_name u,
        mb_user_avatar_url = us_avatar_url u\<rparr>)"

definition require_manage_members :: "SessionInfo \<Rightarrow> string \<Rightarrow> env_db \<Rightarrow> unit api_result" where
  "require_manage_members auth project_id db =
     and_then (resolve_effective_project_role (members db) (au_user_id auth) (au_role auth) project_id (au_auth_source auth))
      (\<lambda>effective. require_project_permission effective Perm_ManageMembers)"

subsection \<open>Handlers\<close>

definition check_new_member :: "user_row list \<Rightarrow> string \<Rightarrow> string \<Rightarrow> ProjectRole \<Rightarrow> env_db \<Rightarrow> user_row api_result" where
  "check_new_member accounts project_id user_id role db =
     and_then (ensure (exists_row (\<lambda>p. p_id p = project_id) (projects (core (release_tables db))))
         (ApiError NOT_FOUND ''not_found'' ''Project not found''))
      (\<lambda>_. and_then (ok_or (ApiError BAD_REQUEST ''invalid_user'' ''User not found or not eligible for project access'')
             (fetch_optional (\<lambda>u. us_id u = user_id \<and> us_status u \<in> {''active'', ''invited''}) accounts))
      (\<lambda>u. and_then (ensure (us_role u \<noteq> ''owner'' \<and> us_role u \<noteq> ''admin'')
             (ApiError BAD_REQUEST ''invalid_user'' ''Owner and admin users already have full access to all projects''))
      (\<lambda>_. and_then (ensure (\<not> (us_role u = ''qa_viewer'' \<and> role \<noteq> Viewer))
             (ApiError BAD_REQUEST ''invalid_project_role'' ''QA Viewer users can only be assigned the Viewer project role''))
      (\<lambda>_. and_then (ensure (\<not> exists_row (is_member project_id user_id) (members db))
             (ApiError CONFLICT ''already_member'' ''User is already a member of this project''))
      (\<lambda>_. Inr u)))))"

text \<open>A membership that appeared after the check violates the unique key of the table.\<close>

definition insert_member :: "string \<Rightarrow> string \<Rightarrow> ProjectRole \<Rightarrow> env_db \<Rightarrow> env_db option" where
  "insert_member project_id user_id role db =
     (if exists_row (is_member project_id user_id) (members db) then None
      else Some (update_members (\<lambda>ms. ms @ [\<lparr>pm_project_id = project_id, pm_user_id = user_id,
             pm_role = project_role_to_string role\<rparr>]) db))"

definition add_project_member ::
  "user_row list \<Rightarrow> SessionInfo \<Rightarrow> string \<Rightarrow> string \<Rightarrow> ProjectRole \<Rightarrow> env_db \<Rightarrow> ProjectMember api_result \<times> env_db" where
  "add_project_member accounts auth project_id user_id role db =
     try_in db (require_manage_members auth project_id db)
      (\<lambda>_. try_in db (check_new_member accounts project_id user_id role db)
      (\<lambda>u. case insert_member project_id user_id role db of
             None \<Rightarrow> (Inl (ApiError INTERNAL_SERVER_ERROR ''store_error'' ''Failed to add project member''), db)
           | Some db1 \<Rightarrow>
               (Inr \<lparr>mb_project_id = project_id, mb_user_id = user_id, mb_role = role, mb_user_email = us_email u,
                  mb_user_role = us_role u, mb_user_display_name = us_display_name u, mb_user_avatar_url = us_avatar_url u\<rparr>,
                audit_project auth ''project_member_added'' project_id
                  [(''added_user_id'', Some user_id), (''role'', Some (project_role_to_string role)),
                   (''added_by'', Some (au_email auth))] db1)))"

definition keeps_a_maintainer :: "string \<Rightarrow> string \<Rightarrow> string \<Rightarrow> env_db \<Rightarrow> unit api_result" where
  "keeps_a_maintainer verb project_id user_id db =
     ensure (\<not> (member_role db project_id user_id = Some ''maintainer'' \<and>
           rows_affected (maintainer_of project_id) (members db) \<le> 1))
       (ApiError CONFLICT ''last_maintainer''
          (''Cannot '' @ verb @ '' the last maintainer '' @ [CHR 0xE2, CHR 0x80, CHR 0x94] @
           '' project would become unmanageable''))"

definition check_member_update ::
  "user_row list \<Rightarrow> SessionInfo \<Rightarrow> string \<Rightarrow> string \<Rightarrow> ProjectRole \<Rightarrow> env_db \<Rightarrow> unit api_result" where
  "check_member_update accounts auth project_id user_id role db =
     and_then (require_manage_members auth project_id db)
      (\<lambda>_. and_then (ensure (\<not> (map_option us_role (fetch_optional (\<lambda>u. us_id u = user_id) accounts) = Some ''qa_viewer'' \<and>
               role \<noteq> Viewer))
             (ApiError BAD_REQUEST ''invalid_project_role'' ''QA Viewer users can only be assigned the Viewer project role''))
      (\<lambda>_. if role = Maintainer then Inr () else keeps_a_maintainer ''demote'' project_id user_id db))"

definition member_not_found :: api_error where
  "member_not_found = ApiError NOT_FOUND ''not_found'' ''Project member not found''"

definition commit_member_update :: "string \<Rightarrow> string \<Rightarrow> ProjectRole \<Rightarrow> env_db \<Rightarrow> env_db api_result" where
  "commit_member_update project_id user_id role db =
     (if rows_affected (is_member project_id user_id) (members db) = 0 then Inl member_not_found
      else
        let db1 = update_members (update_where (is_member project_id user_id)
                    (\<lambda>m. m\<lparr>pm_role := project_role_to_string role\<rparr>)) db
        in Inr (if role = Viewer then forget_approver project_id user_id db1 else db1))"

text \<open>The member as read back after the change.\<close>

definition fetch_member :: "user_row list \<Rightarrow> string \<Rightarrow> string \<Rightarrow> env_db \<Rightarrow> ProjectMember api_result" where
  "fetch_member accounts project_id user_id db =
     (case (fetch_optional (is_member project_id user_id) (members db), fetch_optional (\<lambda>u. us_id u = user_id) accounts) of
        (Some m, Some u) \<Rightarrow>
          (case row_to_project_member m u of
             Inl _ \<Rightarrow> Inl (ApiError INTERNAL_SERVER_ERROR ''data_error'' ''Invalid project role in database'')
           | Inr row \<Rightarrow> Inr row)
      | _ \<Rightarrow> Inl (ApiError INTERNAL_SERVER_ERROR ''store_error'' ''Failed to fetch updated member''))"

definition update_project_member ::
  "user_row list \<Rightarrow> SessionInfo \<Rightarrow> string \<Rightarrow> string \<Rightarrow> ProjectRole \<Rightarrow> env_db \<Rightarrow> ProjectMember api_result \<times> env_db" where
  "update_project_member accounts auth project_id user_id role db =
     try_in db (check_member_update accounts auth project_id user_id role db)
      (\<lambda>_. try_in db (commit_member_update project_id user_id role db)
      (\<lambda>db1. let db2 = audit_project auth ''project_member_role_updated'' project_id
                  [(''target_user_id'', Some user_id), (''new_role'', Some (project_role_to_string role)),
                   (''updated_by'', Some (au_email auth))] db1
              in (fetch_member accounts project_id user_id db2, db2)))"

definition check_member_removal :: "SessionInfo \<Rightarrow> string \<Rightarrow> string \<Rightarrow> env_db \<Rightarrow> unit api_result" where
  "check_member_removal auth project_id user_id db =
     and_then (require_manage_members auth project_id db)
      (\<lambda>_. keeps_a_maintainer ''remove'' project_id user_id db)"

definition commit_member_removal :: "string \<Rightarrow> string \<Rightarrow> env_db \<Rightarrow> env_db api_result" where
  "commit_member_removal project_id user_id db =
     (if rows_affected (is_member project_id user_id) (members db) = 0 then Inl member_not_found
      else Inr (forget_approver project_id user_id
             (update_members (filter (\<lambda>m. \<not> is_member project_id user_id m)) db)))"

definition remove_project_member ::
  "SessionInfo \<Rightarrow> string \<Rightarrow> string \<Rightarrow> env_db \<Rightarrow> unit api_result \<times> env_db" where
  "remove_project_member auth project_id user_id db =
     try_in db (check_member_removal auth project_id user_id db)
      (\<lambda>_. try_in db (commit_member_removal project_id user_id db)
      (\<lambda>db1. (Inr (), audit_project auth ''project_member_removed'' project_id
          [(''removed_user_id'', Some user_id), (''removed_by'', Some (au_email auth))] db1)))"

subsection \<open>Members as a table of roles\<close>

lemma members_simps [simp]:
  "members (update_members f db) = f (members db)"
  "members (audit_project auth action project_id details db) = members db"
  "members (forget_approver project_id user_id db) = members db"
  "members (store_approvers eid ids db) = members db"
  "members (set_environments es db) = members db"
  "members (audit_env actor action kind rid ds db) = members db"
  by (simp_all add: update_members_def audit_project_def write_audit_log_def forget_approver_def store_approvers_def
      set_environments_def audit_env_def)

lemma member_tables_simps [simp]:
  "environments (update_members f db) = environments db"
  "approver_rows (update_members f db) = approver_rows db"
  "environments (audit_project auth action project_id details db) = environments db"
  "approver_rows (audit_project auth action project_id details db) = approver_rows db"
  "environments (forget_approver project_id user_id db) = environments db"
  "environments (store_approvers eid ids db) = environments db"
  "environments (set_environments es db) = es"
  "approver_rows (set_environments es db) = approver_rows db"
  "environments (audit_env actor action kind rid ds db) = environments db"
  "approver_rows (audit_env actor action kind rid ds db) = approver_rows db"
  by (simp_all add: update_members_def audit_project_def forget_approver_def store_approvers_def set_environments_def
      audit_env_def)

definition role_in :: "project_member list \<Rightarrow> string \<Rightarrow> string \<Rightarrow> string option" where
  "role_in ms project_id user_id = map_option pm_role (fetch_optional (is_member project_id user_id) ms)"

lemma member_role_in: "member_role db = role_in (members db)"
  by (simp add: fun_eq_iff member_role_def role_in_def is_member_def[abs_def])

lemma role_in_append:
  "role_in (ms @ [m]) p u = (case role_in ms p u of Some r \<Rightarrow> Some r | None \<Rightarrow> role_in [m] p u)"
  by (induction ms) (auto simp: role_in_def fetch_optional_def)

lemma role_in_update:
  "role_in (update_where (is_member p u) (\<lambda>m. m\<lparr>pm_role := r\<rparr>) ms) p' u' =
     (if p' = p \<and> u' = u then map_option (\<lambda>_. r) (role_in ms p u) else role_in ms p' u')"
  by (induction ms) (auto simp: role_in_def fetch_optional_def is_member_def)

lemma role_in_remove:
  "role_in (filter (\<lambda>m. \<not> is_member p u m) ms) p' u' = (if p' = p \<and> u' = u then None else role_in ms p' u')"
  by (induction ms) (auto simp: role_in_def fetch_optional_def is_member_def)

lemma role_in_None: "role_in ms p u = None \<longleftrightarrow> \<not> exists_row (is_member p u) ms"
  by (induction ms) (auto simp: role_in_def fetch_optional_def exists_row_def)

subsection \<open>Named approvers stay members who may approve\<close>

abbreviation may_approve :: "string option \<Rightarrow> bool" where
  "may_approve r \<equiv> r = Some ''maintainer'' \<or> r = Some ''developer''"

definition approvers_ok :: "env_db \<Rightarrow> bool" where
  "approvers_ok db \<longleftrightarrow> (\<forall>m \<in> set (members db). pm_role m \<in> {''maintainer'', ''developer'', ''viewer''}) \<and>
     (\<forall>(env, user) \<in> set (approver_rows db). \<forall>e \<in> set (environments db).
        en_id e = env \<longrightarrow> may_approve (role_in (members db) (en_project_id e) user))"

lemma approvers_okI:
  assumes "\<And>m. m \<in> set (members db) \<Longrightarrow> pm_role m \<in> {''maintainer'', ''developer'', ''viewer''}"
    and "\<And>e user. (en_id e, user) \<in> set (approver_rows db) \<Longrightarrow> e \<in> set (environments db) \<Longrightarrow>
      may_approve (role_in (members db) (en_project_id e) user)"
  shows "approvers_ok db"
  using assms unfolding approvers_ok_def by blast

lemma approvers_okD:
  assumes "approvers_ok db"
  shows "m \<in> set (members db) \<Longrightarrow> pm_role m \<in> {''maintainer'', ''developer'', ''viewer''}"
    and "(en_id e, user) \<in> set (approver_rows db) \<Longrightarrow> e \<in> set (environments db) \<Longrightarrow>
      may_approve (role_in (members db) (en_project_id e) user)"
  using assms unfolding approvers_ok_def by blast+

lemma forgotten_approver:
  "(env, user) \<in> set (approver_rows (forget_approver p u db)) \<longleftrightarrow> (env, user) \<in> set (approver_rows db) \<and>
     (user = u \<longrightarrow> (\<forall>e \<in> set (environments db). en_id e = env \<longrightarrow> en_project_id e \<noteq> p))"
  by (auto simp: forget_approver_def exists_row_def list_ex_iff)

lemma project_role_stored: "project_role_to_string r \<in> {''maintainer'', ''developer'', ''viewer''}"
  by (cases r) (simp_all add: project_role_to_string_def)

lemma viewer_stored: "project_role_to_string r = ''viewer'' \<longleftrightarrow> r = Viewer"
  by (cases r) (simp_all add: project_role_to_string_def)

lemma insert_member_ok:
  assumes "approvers_ok db" and "insert_member p u role db = Some db'"
  shows "approvers_ok db'"
proof -
  from assms(2) have db': "db' = update_members (\<lambda>ms. ms @ [\<lparr>pm_project_id = p, pm_user_id = u,
      pm_role = project_role_to_string role\<rparr>]) db"
    by (auto simp: insert_member_def split: if_splits)
  show ?thesis
  proof (rule approvers_okI)
    fix m assume "m \<in> set (members db')"
    then show "pm_role m \<in> {''maintainer'', ''developer'', ''viewer''}"
      using approvers_okD(1)[OF assms(1)] project_role_stored[of role] by (auto simp: db')
  next
    fix e user assume "(en_id e, user) \<in> set (approver_rows db')" "e \<in> set (environments db')"
    with approvers_okD(2)[OF assms(1)] show "may_approve (role_in (members db') (en_project_id e) user)"
      by (fastforce simp: db' role_in_append)
  qed
qed

lemma commit_member_update_ok:
  assumes ok: "approvers_ok db" and upd: "commit_member_update p u role db = Inr db'"
  shows "approvers_ok db'"
proof -
  let ?ms = "update_where (is_member p u) (\<lambda>m. m\<lparr>pm_role := project_role_to_string role\<rparr>) (members db)"
  have roles: "\<forall>m \<in> set ?ms. pm_role m \<in> {''maintainer'', ''developer'', ''viewer''}"
    using ok project_role_stored[of role] by (auto simp: approvers_ok_def ball_update_where)
  have keep: "may_approve (role_in ?ms (en_project_id e) user)"
    if "(en_id e, user) \<in> set (approver_rows db)" "e \<in> set (environments db)"
      "role \<noteq> Viewer \<or> \<not> (user = u \<and> en_project_id e = p)" for e user
  proof -
    have "may_approve (role_in (members db) (en_project_id e) user)" using approvers_okD(2)[OF ok that(1,2)] .
    then show ?thesis using that(3) by (cases role) (auto simp: role_in_update project_role_to_string_def)
  qed
  have mem: "members db' = ?ms" and envs: "environments db' = environments db"
    and rows: "\<And>e user. (en_id e, user) \<in> set (approver_rows db') \<Longrightarrow> e \<in> set (environments db) \<Longrightarrow>
       (en_id e, user) \<in> set (approver_rows db) \<and> (role \<noteq> Viewer \<or> \<not> (user = u \<and> en_project_id e = p))"
    using upd by (auto simp: commit_member_update_def Let_def forgotten_approver split: if_splits)
  show ?thesis
  proof (rule approvers_okI)
    show "pm_role m \<in> {''maintainer'', ''developer'', ''viewer''}" if "m \<in> set (members db')" for m
      using roles that by (simp add: mem)
  next
    fix e user assume r: "(en_id e, user) \<in> set (approver_rows db')" and "e \<in> set (environments db')"
    then have e: "e \<in> set (environments db)" by (simp add: envs)
    note r' = rows[OF r e]
    show "may_approve (role_in (members db') (en_project_id e) user)"
      unfolding mem by (rule keep[OF conjunct1[OF r'] e conjunct2[OF r']])
  qed
qed

lemma commit_member_removal_ok:
  assumes ok: "approvers_ok db" and "commit_member_removal p u db = Inr db'"
  shows "approvers_ok db'"
proof -
  from assms(2) have db': "db' = forget_approver p u (update_members (filter (\<lambda>m. \<not> is_member p u m)) db)"
    by (auto simp: commit_member_removal_def split: if_splits)
  show ?thesis
  proof (rule approvers_okI)
    fix m assume "m \<in> set (members db')"
    then show "pm_role m \<in> {''maintainer'', ''developer'', ''viewer''}"
      using approvers_okD(1)[OF ok] by (simp add: db')
  next
    fix e user assume "(en_id e, user) \<in> set (approver_rows db')" "e \<in> set (environments db')"
    then have "(en_id e, user) \<in> set (approver_rows db)" "e \<in> set (environments db)" "\<not> (en_project_id e = p \<and> user = u)"
      by (auto simp: db' forgotten_approver)
    with approvers_okD(2)[OF ok] show "may_approve (role_in (members db') (en_project_id e) user)"
      by (auto simp: db' role_in_remove)
  qed
qed

lemma check_approver_members_Inr:
  assumes "check_approver_members db p ids = Inr u" and "user \<in> set ids" and "approvers_ok db"
  shows "may_approve (role_in (members db) p user)"
proof -
  from assms(1) obtain us where "collect_results (check_approver_member db p) ids = Inr us"
    by (auto simp: check_approver_members_def and_then_def split: sum.splits)
  then have "\<exists>x. check_approver_member db p user = Inr x"
    using assms(2) by (induction ids arbitrary: us) (auto simp: and_then_def split: sum.splits)
  then obtain r where r: "role_in (members db) p user = Some r" "r \<noteq> ''viewer''"
    by (auto simp: check_approver_member_def member_role_in viewer_stored project_role_to_string_def split: option.splits if_splits)
  from r(1) obtain m where "m \<in> set (members db)" "pm_role m = r"
    by (auto simp: role_in_def dest: fetch_optional_Some)
  with r assms(3) show ?thesis by (auto simp: approvers_ok_def)
qed

lemma create_environment_Inr:
  assumes "create_environment eid now p actor req db = Inr (e, db')"
  obtains ids ds where "check_approver_members db p ids = Inr ()" "en_id e = eid" "en_project_id e = p"
    "\<forall>x \<in> set (environments db). en_id x \<noteq> eid"
    "db' = audit_env actor ''environment_created'' ''project_environment'' eid ds
       (store_approvers eid ids (set_environments (environments db @ [e]) db))"
proof -
  from assms obtain checked ids where c: "checked_environment eid now p actor req = Inr (checked, ids)"
    and k: "check_approver_members db p ids = Inr ()" and e: "e = checked\<lparr>en_position := next_position db p\<rparr>"
    and clash: "\<not> exists_row (env_clash e) (environments db)"
    and db': "\<exists>ds. db' = audit_env actor ''environment_created'' ''project_environment'' eid ds
       (store_approvers eid ids (set_environments (environments db @ [e]) db))"
    unfolding create_environment_def and_then_eq_Inr by (auto simp: and_then_eq_Inr Let_def split: if_splits)
  from c have "en_id checked = eid" "en_project_id checked = p"
    by (auto simp: checked_environment_def and_then_eq_Inr Let_def)
  then have "en_id e = eid" "en_project_id e = p" by (simp_all add: e)
  moreover from this clash have "\<forall>x \<in> set (environments db). en_id x \<noteq> eid"
    by (auto simp: exists_row_def list_ex_iff env_clash_def)
  moreover from db' obtain ds where "db' = audit_env actor ''environment_created'' ''project_environment'' eid ds
       (store_approvers eid ids (set_environments (environments db @ [e]) db))" ..
  ultimately show ?thesis using k by (intro that)
qed

lemma approvers_ok_audit [simp]: "approvers_ok (audit_env actor action kind rid ds db) = approvers_ok db"
  by (simp add: approvers_ok_def)

lemma update_environment_Inr:
  assumes "update_environment now p eid actor req db = Inr (e, db')"
  obtains ids ds where "case ids of None \<Rightarrow> True | Some us \<Rightarrow> check_approver_members db p us = Inr ()"
    "en_id e = eid" "en_project_id e = p" "\<exists>y \<in> set (environments db). en_id y = eid \<and> en_project_id y = p"
    "db' = audit_env actor ''environment_updated'' ''project_environment'' eid ds
       (let db1 = set_environments (update_where (\<lambda>x. en_id x = eid \<and> en_project_id x = p) (\<lambda>_. e) (environments db)) db
        in case ids of None \<Rightarrow> db1 | Some us \<Rightarrow> store_approvers eid us db1)"
proof -
  from assms obtain current ids where l: "load_environment db p eid = Inr current"
    and u: "updated_environment now actor req current db = Inr (e, ids)"
    and k: "(case ids of None \<Rightarrow> Inr () | Some us \<Rightarrow> check_approver_members db p us) = Inr ()"
    and db': "\<exists>ds. db' = audit_env actor ''environment_updated'' ''project_environment'' eid ds
       (let db1 = set_environments (update_where (\<lambda>x. en_id x = eid \<and> en_project_id x = p) (\<lambda>_. e) (environments db)) db
        in case ids of None \<Rightarrow> db1 | Some us \<Rightarrow> store_approvers eid us db1)"
    unfolding update_environment_def and_then_eq_Inr by (auto simp: and_then_eq_Inr Let_def split: if_splits)
  from u have "en_id e = en_id current" "en_project_id e = en_project_id current"
    by (auto simp: updated_environment_def and_then_eq_Inr Let_def split: if_splits)
  moreover from l have "current \<in> set (environments db)" "en_id current = eid" "en_project_id current = p"
    by (auto simp: load_environment_def ok_or_eq_Inr dest: fetch_optional_Some)
  moreover from db' obtain ds where "db' = audit_env actor ''environment_updated'' ''project_environment'' eid ds
       (let db1 = set_environments (update_where (\<lambda>x. en_id x = eid \<and> en_project_id x = p) (\<lambda>_. e) (environments db)) db
        in case ids of None \<Rightarrow> db1 | Some us \<Rightarrow> store_approvers eid us db1)" ..
  moreover from k have "case ids of None \<Rightarrow> True | Some us \<Rightarrow> check_approver_members db p us = Inr ()" by (cases ids) auto
  ultimately show ?thesis by (intro that[of ids ds]) auto
qed

lemma check_approver_members_frame: "check_approver_members (set_environments es db) = check_approver_members db"
proof -
  have "users (set_environments es db) = users db" by (simp add: set_environments_def)
  then have "check_approver_member (set_environments es db) = check_approver_member db"
    by (simp add: fun_eq_iff check_approver_member_def member_role_in user_email_def)
  then show ?thesis by (intro ext) (simp add: check_approver_members_def)
qed

lemma store_approvers_ok:
  assumes ok: "approvers_ok db" and ids: "check_approver_members db p ids = Inr ()"
    and own: "\<And>x. x \<in> set (environments db) \<Longrightarrow> en_id x = eid \<Longrightarrow> en_project_id x = p"
  shows "approvers_ok (store_approvers eid ids db)"
proof (rule approvers_okI)
  fix x user assume "(en_id x, user) \<in> set (approver_rows (store_approvers eid ids db))" "x \<in> set (environments (store_approvers eid ids db))"
  then have "(en_id x = eid \<and> user \<in> set ids \<or> (en_id x, user) \<in> set (approver_rows db)) \<and> x \<in> set (environments db)"
    by (auto simp: store_approvers_def)
  with approvers_okD(2)[OF ok] check_approver_members_Inr[OF ids _ ok] own
  show "may_approve (role_in (members (store_approvers eid ids db)) (en_project_id x) user)" by auto
qed (use approvers_okD(1)[OF ok] in simp)

text \<open>Environment ids are a primary key.\<close>

definition env_ids_unique :: "env_db \<Rightarrow> bool" where
  "env_ids_unique db \<longleftrightarrow> distinct (map en_id (environments db))"

lemma create_environment_ok:
  assumes ok: "approvers_ok db" and uniq: "env_ids_unique db" and c: "create_environment eid now p actor req db = Inr (e, db')"
  shows "approvers_ok db'" and "env_ids_unique db'"
proof -
  let ?db1 = "set_environments (environments db @ [e]) db"
  from c obtain ids ds where ids: "check_approver_members db p ids = Inr ()" and e: "en_id e = eid" "en_project_id e = p"
    and new: "\<forall>x \<in> set (environments db). en_id x \<noteq> eid"
    and db': "db' = audit_env actor ''environment_created'' ''project_environment'' eid ds (store_approvers eid ids ?db1)"
    by (rule create_environment_Inr)
  show "env_ids_unique db'" using uniq new e by (auto simp: db' env_ids_unique_def)
  have "approvers_ok (store_approvers eid ids ?db1)"
  proof (rule approvers_okI)
    fix x user assume "(en_id x, user) \<in> set (approver_rows (store_approvers eid ids ?db1))"
      "x \<in> set (environments (store_approvers eid ids ?db1))"
    with new e have "x = e \<and> user \<in> set ids \<or> (en_id x, user) \<in> set (approver_rows db) \<and> x \<in> set (environments db)"
      by (auto simp: store_approvers_def set_environments_def)
    with approvers_okD(2)[OF ok] check_approver_members_Inr[OF ids _ ok] e
    show "may_approve (role_in (members (store_approvers eid ids ?db1)) (en_project_id x) user)" by auto
  qed (use approvers_okD(1)[OF ok] in simp)
  then show "approvers_ok db'" by (simp add: db')
qed

lemma update_environment_ok:
  assumes ok: "approvers_ok db" and uniq: "env_ids_unique db"
    and u: "update_environment now p eid actor req db = Inr (e, db')"
  shows "approvers_ok db'" and "env_ids_unique db'"
proof -
  let ?es = "update_where (\<lambda>x. en_id x = eid \<and> en_project_id x = p) (\<lambda>_. e) (environments db)"
  let ?db1 = "set_environments ?es db"
  from u obtain ids ds where ids: "case ids of None \<Rightarrow> True | Some us \<Rightarrow> check_approver_members db p us = Inr ()"
    and e: "en_id e = eid" "en_project_id e = p" and cur: "\<exists>y \<in> set (environments db). en_id y = eid \<and> en_project_id y = p"
    and db': "db' = audit_env actor ''environment_updated'' ''project_environment'' eid ds
       (let db1 = ?db1 in case ids of None \<Rightarrow> db1 | Some us \<Rightarrow> store_approvers eid us db1)"
    by (rule update_environment_Inr)
  have same: "\<exists>y \<in> set (environments db). en_id y = en_id x \<and> en_project_id y = en_project_id x" if "x \<in> set ?es" for x
    using that e by (auto simp: update_where_def)
  have ok1: "approvers_ok ?db1"
  proof (rule approvers_okI)
    fix x user assume a: "(en_id x, user) \<in> set (approver_rows ?db1)" and "x \<in> set (environments ?db1)"
    then obtain y where "y \<in> set (environments db)" "en_id y = en_id x" "en_project_id y = en_project_id x"
      using same by auto
    with a approvers_okD(2)[OF ok, of y user] show "may_approve (role_in (members ?db1) (en_project_id x) user)" by simp
  qed (use approvers_okD(1)[OF ok] in simp)
  have "map en_id ?es = map en_id (environments db)"
    using e by (auto simp: update_where_def)
  then have uniq1: "env_ids_unique ?db1" using uniq by (simp add: env_ids_unique_def)
  then show "env_ids_unique db'" unfolding db' by (simp add: env_ids_unique_def Let_def split: option.split)
  show "approvers_ok db'"
  proof (cases ids)
    case None
    with ok1 show ?thesis by (simp add: db')
  next
    case (Some us)
    with ids have "check_approver_members ?db1 p us = Inr ()"
      by (simp add: check_approver_members_frame)
    moreover have "en_project_id x = p" if "x \<in> set (environments ?db1)" "en_id x = eid" for x
    proof -
      from that same obtain y where "y \<in> set (environments db)" "en_id y = eid" "en_project_id y = en_project_id x" by auto
      moreover from cur obtain z where "z \<in> set (environments db)" "en_id z = eid" "en_project_id z = p" by blast
      moreover from uniq have "inj_on en_id (set (environments db))" by (simp add: env_ids_unique_def distinct_map)
      ultimately show ?thesis using inj_onD[of en_id "set (environments db)" y z] by simp
    qed
    ultimately have "approvers_ok (store_approvers eid us ?db1)" using ok1 by (intro store_approvers_ok)
    with Some show ?thesis by (simp add: db')
  qed
qed

lemma settle_open_frame:
  "settle_open locked now actor current ps db = (r, db') \<Longrightarrow>
     members db' = members db \<and> environments db' = environments db \<and> approver_rows db' = approver_rows db"
proof (induction locked now actor current ps db arbitrary: r db' rule: settle_open.induct)
  case (2 locked now actor current p ps db)
  have "members (reject_for_delete now actor current p db) = members db \<and>
      environments (reject_for_delete now actor current p db) = environments db \<and>
      approver_rows (reject_for_delete now actor current p db) = approver_rows db"
    "members (fail_for_delete now actor current p db) = members db \<and>
      environments (fail_for_delete now actor current p db) = environments db \<and>
      approver_rows (fail_for_delete now actor current p db) = approver_rows db"
    by (simp_all add: reject_for_delete_def fail_for_delete_def update_promotions_def mark_failed_def Let_def)
  with 2 show ?case by (auto split: if_splits option.splits PromotionState.splits)
qed auto

lemma delete_environment_ok:
  assumes "approvers_ok db" and "env_ids_unique db"
  shows "approvers_ok (snd (delete_environment locked now p eid actor db))"
    and "env_ids_unique (snd (delete_environment locked now p eid actor db))"
proof -
  let ?db' = "snd (delete_environment locked now p eid actor db)"
  consider "members ?db' = members db" "approver_rows ?db' = approver_rows db" "environments ?db' = environments db"
    | "members ?db' = members db" "approver_rows ?db' = filter (\<lambda>(env, _). env \<noteq> eid) (approver_rows db)"
      "environments ?db' = filter (\<lambda>e. en_id e \<noteq> eid) (environments db)"
  proof (cases "load_environment db p eid")
    case (Inl e)
    then show ?thesis by (intro that(1)) (simp_all add: delete_environment_def)
  next
    case (Inr current)
    obtain finished db1 where settle: "settle_open locked now actor current
        (filter (\<lambda>p. pn_environment_id p = eid \<and> open_promotion p) (promotions db)) db = (finished, db1)"
      by (cases "settle_open locked now actor current
        (filter (\<lambda>p. pn_environment_id p = eid \<and> open_promotion p) (promotions db)) db") auto
    note frame = settle_open_frame[OF settle]
    show ?thesis
    proof (cases finished)
      case True
      with Inr settle frame show ?thesis
        by (intro that(2)) (simp_all add: delete_environment_def drop_environment_def Let_def update_releases_def set_environments_def)
    next
      case False
      with Inr settle frame show ?thesis by (intro that(1)) (simp_all add: delete_environment_def)
    qed
  qed
  then have "approvers_ok ?db' \<and> env_ids_unique ?db'"
  proof cases
    case 1
    with assms show ?thesis by (simp add: approvers_ok_def env_ids_unique_def)
  next
    case 2
    with assms show ?thesis
      by (auto simp: env_ids_unique_def distinct_map_filter intro!: approvers_okI dest: approvers_okD(1) approvers_okD(2))
  qed
  then show "approvers_ok ?db'" "env_ids_unique ?db'" by auto
qed

text \<open>One committed transaction, by whatever handler and after whatever checks.\<close>

inductive membership_step :: "env_db \<Rightarrow> env_db \<Rightarrow> bool" where
  add: "insert_member p u role db = Some db' \<Longrightarrow> membership_step db db'"
| update_role: "commit_member_update p u role db = Inr db' \<Longrightarrow> membership_step db db'"
| remove: "commit_member_removal p u db = Inr db' \<Longrightarrow> membership_step db db'"
| create: "create_environment eid now p actor req db = Inr (e, db') \<Longrightarrow> membership_step db db'"
| edit: "update_environment now p eid actor req db = Inr (e, db') \<Longrightarrow> membership_step db db'"
| delete: "membership_step db (snd (delete_environment locked now p eid actor db))"

lemma member_rows_frame:
  "insert_member p u role db = Some db' \<Longrightarrow> environments db' = environments db"
  "commit_member_update p u role db = Inr db' \<Longrightarrow> environments db' = environments db"
  "commit_member_removal p u db = Inr db' \<Longrightarrow> environments db' = environments db"
  by (auto simp: insert_member_def commit_member_update_def commit_member_removal_def Let_def split: if_splits)

lemma membership_step_ok:
  assumes "membership_step db db'" and "approvers_ok db \<and> env_ids_unique db"
  shows "approvers_ok db' \<and> env_ids_unique db'"
  using assms
proof (induction rule: membership_step.induct)
  case (add p u role db db')
  then show ?case by (auto simp: env_ids_unique_def member_rows_frame intro: insert_member_ok)
next
  case (update_role p u role db db')
  then show ?case by (auto simp: env_ids_unique_def member_rows_frame intro: commit_member_update_ok)
next
  case (remove p u db db')
  then show ?case by (auto simp: env_ids_unique_def member_rows_frame intro: commit_member_removal_ok)
next
  case (create eid now p actor req db e db')
  then show ?case using create_environment_ok by blast
next
  case (edit now p eid actor req db e db')
  then show ?case using update_environment_ok by blast
next
  case (delete db locked now p eid actor)
  then show ?case by (simp add: delete_environment_ok)
qed

interpretation memberships: invariant_of membership_step "\<lambda>db. approvers_ok db \<and> env_ids_unique db"
  by unfold_locales (rule membership_step_ok)

text \<open>C18. Named approvers never go stale. Whatever members and environments are added, changed and removed,
  every named approver of an environment is a developer or maintainer of its project at that
  time, so the list an environment shows leaves out no stored approver.\<close>

theorem named_approvers_current:
  assumes "membership_step\<^sup>*\<^sup>* db db'" and "approver_rows db = []" and "environments db = []"
    and "list_all (\<lambda>m. pm_role m \<in> {''maintainer'', ''developer'', ''viewer''}) (members db)"
    and "e \<in> set (environments db')" and "(en_id e, user) \<in> set (approver_rows db')"
  shows "member_role db' (en_project_id e) user \<in> {Some ''maintainer'', Some ''developer''}"
proof -
  have "approvers_ok db \<and> env_ids_unique db"
    using assms(2-4) by (auto simp: approvers_ok_def env_ids_unique_def list_all_iff)
  from memberships.run_inv[OF assms(1) this] assms(5,6) show ?thesis
    by (auto simp: member_role_in dest: approvers_okD(2))
qed

subsection \<open>The last maintainer\<close>

definition members_unique :: "env_db \<Rightarrow> bool" where
  "members_unique db \<longleftrightarrow> distinct (map (\<lambda>m. (pm_project_id m, pm_user_id m)) (members db))"

lemma two_maintainers:
  assumes "distinct (map (\<lambda>m. (pm_project_id m, pm_user_id m)) ms)" and "1 < rows_affected (maintainer_of p) ms"
  shows "\<exists>m \<in> set ms. maintainer_of p m \<and> \<not> is_member p u m"
proof (rule ccontr)
  assume "\<not> ?thesis"
  then have all: "\<forall>m \<in> set (filter (maintainer_of p) ms). (pm_project_id m, pm_user_id m) = (p, u)"
    by (auto simp: is_member_def)
  have "distinct (map (\<lambda>m. (pm_project_id m, pm_user_id m)) (filter (maintainer_of p) ms))"
    using assms(1) by (rule distinct_map_filter)
  from distinct_card[OF this] have "rows_affected (maintainer_of p) ms =
      card (set (map (\<lambda>m. (pm_project_id m, pm_user_id m)) (filter (maintainer_of p) ms)))"
    by (simp add: rows_affected_def)
  also have "\<dots> \<le> card {(p, u)}" using all by (intro card_mono) auto
  finally show False using assms(2) by simp
qed

lemma maintainer_survives:
  assumes uniq: "members_unique db" and some: "exists_row (maintainer_of q) (members db)"
    and keep: "keeps_a_maintainer verb p u db = Inr ()"
  shows "\<exists>m \<in> set (members db). maintainer_of q m \<and> \<not> is_member p u m"
proof (cases "\<exists>m \<in> set (members db). maintainer_of q m \<and> is_member p u m")
  case False
  with some show ?thesis by (auto simp: exists_row_def list_ex_iff)
next
  case True
  then obtain m where m: "m \<in> set (members db)" "maintainer_of q m" "is_member p u m" by blast
  then have "q = p" "pm_role m = ''maintainer''" by (simp_all add: maintainer_of_def is_member_def)
  have "is_member p u = (\<lambda>x. (pm_project_id x, pm_user_id x) = (pm_project_id m, pm_user_id m))"
    using m(3) by (auto simp: is_member_def)
  with fetch_by_key[OF uniq[unfolded members_unique_def] m(1)] have "fetch_optional (is_member p u) (members db) = Some m"
    by simp
  with keep \<open>pm_role m = _\<close> have "1 < rows_affected (maintainer_of p) (members db)"
    by (auto simp: keeps_a_maintainer_def member_role_in role_in_def ensure_def split: if_splits)
  with two_maintainers uniq \<open>q = p\<close> show ?thesis by (simp add: members_unique_def)
qed

definition managed :: "string \<Rightarrow> env_db \<Rightarrow> bool" where
  "managed project_id db \<longleftrightarrow> exists_row (maintainer_of project_id) (members db)"

lemma managed_iff: "managed q db \<longleftrightarrow> (\<exists>m \<in> set (members db). maintainer_of q m)"
  by (simp add: managed_def exists_row_def list_ex_iff)

lemmas managed_try = try_in_state[where P = "managed q" for q]

lemma managed_audit [simp]: "managed q (audit_project auth action project_id details db) = managed q db"
  by (simp add: managed_def)

lemma update_keeps_maintainer:
  assumes uniq: "members_unique db" and some: "managed q db"
  shows "managed q (snd (update_project_member accounts auth p u role db))"
proof -
  have "managed q db'" if check: "check_member_update accounts auth p u role db = Inr v"
    and upd: "commit_member_update p u role db = Inr db'" for db' v
  proof -
    from upd have ms: "members db' = update_where (is_member p u) (\<lambda>m. m\<lparr>pm_role := project_role_to_string role\<rparr>) (members db)"
      by (auto simp: commit_member_update_def Let_def split: if_splits)
    show ?thesis
    proof (cases "role = Maintainer")
      case True
      from some obtain m where "m \<in> set (members db)" "maintainer_of q m" by (auto simp: managed_iff)
      then show ?thesis using True
        by (auto simp: managed_iff ms in_set_update_where maintainer_of_def project_role_to_string_def
            intro!: bexI[of _ m] exI[of _ "if is_member p u m then m\<lparr>pm_role := ''maintainer''\<rparr> else m"])
    next
      case False
      with check have "keeps_a_maintainer ''demote'' p u db = Inr ()"
        by (auto simp: check_member_update_def and_then_eq_Inr)
      from maintainer_survives[OF uniq some[unfolded managed_def] this]
      show ?thesis by (force simp: managed_iff ms in_set_update_where)
    qed
  qed
  then show ?thesis
    unfolding update_project_member_def using some
    by (intro managed_try) (auto simp: Let_def intro!: managed_try)
qed

lemma remove_keeps_maintainer:
  assumes uniq: "members_unique db" and some: "managed q db"
  shows "managed q (snd (remove_project_member auth p u db))"
proof -
  have "managed q db'" if check: "check_member_removal auth p u db = Inr v" and rem: "commit_member_removal p u db = Inr db'" for db' v
  proof -
    from rem have ms: "members db' = filter (\<lambda>m. \<not> is_member p u m) (members db)"
      by (auto simp: commit_member_removal_def split: if_splits)
    from check have "keeps_a_maintainer ''remove'' p u db = Inr ()"
      by (auto simp: check_member_removal_def and_then_eq_Inr)
    from maintainer_survives[OF uniq some[unfolded managed_def] this] show ?thesis by (auto simp: managed_iff ms)
  qed
  then show ?thesis
    unfolding remove_project_member_def using some by (intro managed_try) (auto intro!: managed_try)
qed

text \<open>Requests that do not overlap keep a project manageable: after any request to change a role or to
  remove a member, a project that had a maintainer has one.\<close>

theorem project_stays_managed:
  assumes "members_unique db" and "managed q db"
  shows "managed q (snd (update_project_member accounts auth p u role db)) \<and>
    managed q (snd (remove_project_member auth p u db))"
  using update_keeps_maintainer[OF assms] remove_keeps_maintainer[OF assms] by simp

text \<open>C19. Two overlapping requests can remove the last maintainers of a project. When a project's only two
  maintainers remove each other at the same time, both checks pass before either row is removed, and
  both removals are committed.\<close>

theorem maintainers_remove_each_other:
  assumes "members_unique db" and "a \<noteq> b"
    and "filter (maintainer_of p) (members db) = [\<lparr>pm_project_id = p, pm_user_id = a, pm_role = ''maintainer''\<rparr>,
      \<lparr>pm_project_id = p, pm_user_id = b, pm_role = ''maintainer''\<rparr>]"
    and "au_user_id auth_a = a" "au_role auth_a = ''developer''" "au_auth_source auth_a = Session"
    and "au_user_id auth_b = b" "au_role auth_b = ''developer''" "au_auth_source auth_b = Session"
  shows "check_member_removal auth_a p b db = Inr () \<and> check_member_removal auth_b p a db = Inr () \<and>
    (\<exists>db1 db2. commit_member_removal p b db = Inr db1 \<and> commit_member_removal p a db1 = Inr db2 \<and> \<not> managed p db2)"
proof -
  let ?row = "\<lambda>u. \<lparr>pm_project_id = p, pm_user_id = u, pm_role = ''maintainer''\<rparr>"
  have "set (filter (maintainer_of p) (members db)) = {?row a, ?row b}" using assms(3) by simp
  then have rows: "?row a \<in> set (members db)" "?row b \<in> set (members db)"
    and only: "\<And>m. m \<in> set (members db) \<Longrightarrow> maintainer_of p m \<Longrightarrow> m = ?row a \<or> m = ?row b"
    by auto
  have fetch: "fetch_optional (is_member p u) (members db) = Some (?row u)" if "?row u \<in> set (members db)" for u
  proof -
    have "is_member p u = (\<lambda>x. (pm_project_id x, pm_user_id x) = (pm_project_id (?row u), pm_user_id (?row u)))"
      by (auto simp: is_member_def)
    with fetch_by_key[OF assms(1)[unfolded members_unique_def] that] show ?thesis by simp
  qed
  have manage: "require_manage_members auth p db = Inr ()"
    if "?row (au_user_id auth) \<in> set (members db)" "au_role auth = ''developer''" "au_auth_source auth = Session" for auth
    using fetch[OF that(1)] that(2,3)
    by (simp add: require_manage_members_def resolve_effective_project_role_def is_member_def[abs_def]
        effective_member_role_def project_role_from_str_def check_project_permission_def role_has_permission_def
        require_project_permission_def)
  have "rows_affected (maintainer_of p) (members db) = 2" using assms(3) by (simp add: rows_affected_def)
  then have keep: "keeps_a_maintainer verb p u db = Inr ()" for verb u
    by (simp add: keeps_a_maintainer_def)
  have checks: "check_member_removal auth_a p b db = Inr ()" "check_member_removal auth_b p a db = Inr ()"
    using manage[of auth_a] manage[of auth_b] rows assms(4-9) keep by (simp_all add: check_member_removal_def)
  have found: "rows_affected (is_member p u) ms \<noteq> 0" if "?row u \<in> set ms" for u ms
    using that by (force simp: rows_affected_def filter_empty_conv is_member_def)
  define db1 where "db1 = forget_approver p b (update_members (filter (\<lambda>m. \<not> is_member p b m)) db)"
  have c1: "commit_member_removal p b db = Inr db1"
    using found[OF rows(2)] by (simp add: commit_member_removal_def db1_def)
  have in1: "?row a \<in> set (members db1)" using rows(1) assms(2) by (simp add: db1_def is_member_def)
  define db2 where "db2 = forget_approver p a (update_members (filter (\<lambda>m. \<not> is_member p a m)) db1)"
  have c2: "commit_member_removal p a db1 = Inr db2"
    using found[OF in1] by (simp add: commit_member_removal_def db2_def)
  have "\<not> managed p db2"
    using only by (fastforce simp: managed_iff db2_def db1_def is_member_def)
  with checks c1 c2 show ?thesis by blast
qed

subsection \<open>Examples\<close>

definition sample_db :: env_db where
  "sample_db = \<lparr>adb = \<lparr>rdb = \<lparr>core = empty_core\<lparr>project_members :=
         [\<lparr>pm_project_id = ''p'', pm_user_id = ''a'', pm_role = ''maintainer''\<rparr>,
          \<lparr>pm_project_id = ''p'', pm_user_id = ''b'', pm_role = ''maintainer''\<rparr>]\<rparr>,
         releases = [], release_history = [], release_events = [], release_audit = [], release_artifacts = [],
         environment_targets = []\<rparr>,
       publish_targets = [], signing = [], shared_keys = [], ipa_artifacts = [], links = []\<rparr>,
     environments = [], approver_rows = [], users = [(''a'', ''a@x''), (''b'', ''b@x'')], promotions = [], env_audit = []\<rparr>"

definition sample_caller :: "string \<Rightarrow> SessionInfo" where
  "sample_caller user = \<lparr>au_user_id = user, au_email = user @ ''@x'', au_oidc_subject = user, au_role = ''developer'',
     au_expires_at = 1000, au_auth_source = Session\<rparr>"

theorem project_stays_managed_witness:
  "managed ''p'' sample_db \<and> managed ''p'' (snd (remove_project_member (sample_caller ''a'') ''p'' ''b'' sample_db))"
proof -
  have m: "managed ''p'' sample_db" "members_unique sample_db" by code_simp+
  from project_stays_managed[OF m(2,1), of undefined "sample_caller ''a''" "''p''" "''b''" Viewer] m(1) show ?thesis by simp
qed

theorem maintainers_remove_each_other_witness:
  "\<exists>db1 db2. commit_member_removal ''p'' ''b'' sample_db = Inr db1 \<and> commit_member_removal ''p'' ''a'' db1 = Inr db2 \<and>
     \<not> managed ''p'' db2"
proof -
  have "members_unique sample_db" "''a'' \<noteq> ''b''"
    "filter (maintainer_of ''p'') (members sample_db) = [\<lparr>pm_project_id = ''p'', pm_user_id = ''a'', pm_role = ''maintainer''\<rparr>,
      \<lparr>pm_project_id = ''p'', pm_user_id = ''b'', pm_role = ''maintainer''\<rparr>]"
    by code_simp+
  from maintainers_remove_each_other[OF this, of "sample_caller ''a''" "sample_caller ''b''"] show ?thesis
    by (simp add: sample_caller_def)
qed

definition sample_request :: CreateProjectEnvironmentRequest where
  "sample_request = \<lparr>ce_key = ''beta'', ce_name = ''Beta'', ce_store = GooglePlay, ce_track = ''beta'',
     ce_approval_required = True, ce_rollout_policy = None, ce_submit_for_review = False,
     ce_approvers = Some \<lparr>ai_role = None, ai_user_ids = [''b'']\<rparr>\<rparr>"

definition sample_created :: "EnvironmentError + (environment \<times> env_db)" where
  "sample_created = create_environment ''e1'' 100 ''p'' (User ''a'' ''a@x'') sample_request sample_db"

theorem named_approvers_current_witness:
  "\<exists>e db'. sample_created = Inr (e, db') \<and> member_role db' (en_project_id e) ''b'' \<in> {Some ''maintainer'', Some ''developer''}"
proof -
  have "(case sample_created of Inl _ \<Rightarrow> False
      | Inr (e, db') \<Rightarrow> map en_id (environments db') = [en_id e] \<and> environments db' = [e] \<and> (en_id e, ''b'') \<in> set (approver_rows db'))"
    by code_simp
  then obtain e db' where c: "sample_created = Inr (e, db')" and e: "e \<in> set (environments db')"
    and row: "(en_id e, ''b'') \<in> set (approver_rows db')"
    by (auto split: sum.splits)
  have start: "approver_rows sample_db = []" "environments sample_db = []"
    "list_all (\<lambda>m. pm_role m \<in> {''maintainer'', ''developer'', ''viewer''}) (members sample_db)"
    by code_simp+
  from c have "membership_step sample_db db'" unfolding sample_created_def by (rule membership_step.create)
  from named_approvers_current[OF r_into_rtranclp[of membership_step, OF this] start e row] c show ?thesis by blast
qed

end
