(* ===== verification/Cron_Schedules.thy ===== *)
theory Cron_Schedules
  imports Runner_Labels Trigger_Config "HOL-Library.Word" "HOL-Library.Signed_Division"
begin

text \<open>
  Cron expressions, the first half of \<^verbatim>\<open>crates/oored/src/pipeline_schedules.rs\<close>: parsing five
  fields into bit sets, matching a minute, and looking for a due minute in a span of time. The calendar is
  \<open>chrono\<close>'s: \<open>from_timestamp\<close> is a parameter that gives the fields of a UTC time. Sets are 64-bit and
  field values 32-bit words, so that the loop over a range wraps as the compiled code does; a
  loop that would not end has no result.
\<close>

unbundle bit_operations_syntax

subsection \<open>Parsing\<close>

definition split_whitespace :: "string \<Rightarrow> string list" where
  "split_whitespace s = filter (\<lambda>p. p \<noteq> []) (split_where is_ws s)"

definition split_once :: "char \<Rightarrow> string \<Rightarrow> (string \<times> string) option" where
  "split_once c s =
     (if c \<in> set s then Some (takeWhile (\<lambda>x. x \<noteq> c) s, tl (dropWhile (\<lambda>x. x \<noteq> c) s)) else None)"

definition digits_value :: "string \<Rightarrow> nat" where
  "digits_value ds = foldl (\<lambda>n c. n * 10 + (of_char c - 48)) 0 ds"

definition parse_u32 :: "string \<Rightarrow> 32 word option" where
  "parse_u32 raw =
     (let ds = (case raw of c # cs \<Rightarrow> if c = CHR ''+'' then cs else raw | [] \<Rightarrow> [])
      in if ds = [] \<or> \<not> list_all is_ascii_digit ds \<or> 2 ^ 32 \<le> digits_value ds then None
         else Some (word_of_nat (digits_value ds)))"

definition quote_text :: "string \<Rightarrow> string" where
  "quote_text s = CHR 0x27 # s @ [CHR 0x27]"

definition parse_value :: "string \<Rightarrow> 32 word \<Rightarrow> 32 word \<Rightarrow> string \<Rightarrow> string + 32 word" where
  "parse_value raw low high name =
     (case parse_u32 raw of
        Some v \<Rightarrow> if low \<le> v \<and> v \<le> high then Inr v
          else Inl (name @ '' value '' @ quote_text raw @ '' must be between '' @ show_nat (unat low) @ '' and '' @ show_nat (unat high))
      | None \<Rightarrow> Inl (name @ '' value '' @ quote_text raw @ '' must be between '' @ show_nat (unat low) @ '' and '' @ show_nat (unat high)))"

text \<open>One part of a field: its first and last value and its step.\<close>

definition part_step :: "string \<Rightarrow> string \<Rightarrow> string + (string \<times> 32 word)" where
  "part_step part name =
     (case split_once (CHR ''/'') part of
        None \<Rightarrow> Inr (part, 1)
      | Some (rng, step) \<Rightarrow>
          (case parse_u32 step of
             Some s \<Rightarrow> if 0 < s then Inr (rng, s)
               else Inl (name @ '' step '' @ quote_text step @ '' must be a positive number'')
           | None \<Rightarrow> Inl (name @ '' step '' @ quote_text step @ '' must be a positive number'')))"

definition part_ends :: "string \<Rightarrow> string \<Rightarrow> 32 word \<Rightarrow> 32 word \<Rightarrow> string \<Rightarrow> string + (32 word \<times> 32 word)" where
  "part_ends part rng low high name =
     (if rng = ''*'' then Inr (low, high)
      else (case split_once (CHR ''-'') rng of
          Some (a, b) \<Rightarrow>
            and_then (parse_value a low high name) (\<lambda>start. and_then (parse_value b low high name) (\<lambda>stop. Inr (start, stop)))
        | None \<Rightarrow>
            and_then (parse_value rng low high name)
              (\<lambda>value. Inr (value, if CHR ''/'' \<in> set part then high else value))))"

definition part_range ::
  "string \<Rightarrow> 32 word \<Rightarrow> 32 word \<Rightarrow> string \<Rightarrow> string + (32 word \<times> 32 word \<times> 32 word)" where
  "part_range part low high name =
     and_then (part_step part name)
      (\<lambda>(rng, step). and_then (part_ends part rng low high name)
      (\<lambda>(start, stop).
         if stop < start then Inl (name @ '' range '' @ quote_text rng @ '' runs backwards'')
         else Inr (start, stop, step)))"

text \<open>The loop over a range, on the words of the compiled code: the step may wrap.\<close>

partial_function (option) fill_range :: "32 word \<Rightarrow> 32 word \<Rightarrow> 32 word \<Rightarrow> 64 word \<Rightarrow> 64 word option" where
  "fill_range value stop step bits =
     (if value \<le> stop then fill_range (value + step) stop step (bits OR push_bit (unat value) 1) else Some bits)"

declare fill_range.simps [code]

fun parse_parts :: "string list \<Rightarrow> 32 word \<Rightarrow> 32 word \<Rightarrow> string \<Rightarrow> 64 word \<Rightarrow> (string + 64 word) option" where
  "parse_parts [] low high name bits = Some (Inr bits)"
| "parse_parts (part # parts) low high name bits =
     (case part_range part low high name of
        Inl e \<Rightarrow> Some (Inl e)
      | Inr (start, stop, step) \<Rightarrow>
          (case fill_range start stop step bits of
             None \<Rightarrow> None
           | Some bits1 \<Rightarrow> parse_parts parts low high name bits1))"

definition parse_field :: "string \<Rightarrow> 32 word \<Rightarrow> 32 word \<Rightarrow> string \<Rightarrow> (string + 64 word) option" where
  "parse_field field low high name = parse_parts (split_on (CHR '','') field) low high name 0"

record Cron =
  minutes :: "64 word"
  hours :: "64 word"
  days_of_month :: "64 word"
  months :: "64 word"
  days_of_week :: "64 word"
  day_of_month_any :: bool
  day_of_week_any :: bool

definition expand_alias :: "string \<Rightarrow> string" where
  "expand_alias expression =
     (if expression = ''@hourly'' then ''0 * * * *''
      else if expression = ''@daily'' \<or> expression = ''@midnight'' then ''0 0 * * *''
      else if expression = ''@weekly'' then ''0 0 * * 0''
      else if expression = ''@monthly'' then ''0 0 1 * *''
      else if expression = ''@yearly'' \<or> expression = ''@annually'' then ''0 0 1 1 *''
      else expression)"

definition sunday_is_zero :: "64 word \<Rightarrow> 64 word" where
  "sunday_is_zero days =
     (if days AND push_bit 7 1 \<noteq> 0 then (days AND NOT (push_bit 7 1)) OR 1 else days)"

text \<open>The question mark of a computation that may also fail to return.\<close>

definition bind_parsed :: "('e + 'a) option \<Rightarrow> ('a \<Rightarrow> ('e + 'b) option) \<Rightarrow> ('e + 'b) option" where
  "bind_parsed r k = (case r of None \<Rightarrow> None | Some (Inl e) \<Rightarrow> Some (Inl e) | Some (Inr a) \<Rightarrow> k a)"

definition cron_parse :: "string \<Rightarrow> (string + Cron) option" where
  "cron_parse expression =
     (case split_whitespace (expand_alias (trim expression)) of
        [minute, hour, day_of_month, month, day_of_week] \<Rightarrow>
          bind_parsed (parse_field day_of_week 0 7 ''day-of-week'')
           (\<lambda>wdays. bind_parsed (parse_field minute 0 59 ''minute'')
           (\<lambda>ms. bind_parsed (parse_field hour 0 23 ''hour'')
           (\<lambda>hs. bind_parsed (parse_field day_of_month 1 31 ''day-of-month'')
           (\<lambda>mdays. bind_parsed (parse_field month 1 12 ''month'')
           (\<lambda>mons. Some (Inr \<lparr>minutes = ms, hours = hs, days_of_month = mdays, months = mons,
               days_of_week = sunday_is_zero wdays, day_of_month_any = (day_of_month = ''*''),
               day_of_week_any = (day_of_week = ''*'')\<rparr>))))))
      | _ \<Rightarrow> Some (Inl ''must have five fields: minute hour day-of-month month day-of-week''))"

subsection \<open>Matching\<close>

text \<open>The fields of a UTC time as \<open>chrono\<close> gives them.\<close>

record utc_time =
  ut_minute :: nat
  ut_hour :: nat
  ut_day :: nat
  ut_month :: nat
  ut_weekday :: nat

definition has_bit :: "64 word \<Rightarrow> nat \<Rightarrow> bool" where
  "has_bit bits v \<longleftrightarrow> bits AND push_bit v 1 \<noteq> 0"

definition cron_matches :: "Cron \<Rightarrow> utc_time \<Rightarrow> bool" where
  "cron_matches c t =
     (let day_of_month = has_bit (days_of_month c) (ut_day t);
          day_of_week = has_bit (days_of_week c) (ut_weekday t);
          day = (case (day_of_month_any c, day_of_week_any c) of
                   (True, True) \<Rightarrow> True | (True, False) \<Rightarrow> day_of_week | (False, True) \<Rightarrow> day_of_month
                 | (False, False) \<Rightarrow> day_of_month \<or> day_of_week)
      in day \<and> has_bit (minutes c) (ut_minute t) \<and> has_bit (hours c) (ut_hour t) \<and> has_bit (months c) (ut_month t))"

function due_from :: "(int \<Rightarrow> utc_time option) \<Rightarrow> Cron \<Rightarrow> int \<Rightarrow> int \<Rightarrow> bool" where
  "due_from from_timestamp c minute until =
     (if minute \<le> until
      then if (case from_timestamp minute of None \<Rightarrow> False | Some t \<Rightarrow> cron_matches c t) then True
           else due_from from_timestamp c (minute + 60) until
      else False)"
  by pat_completeness auto
termination
  by (relation "measure (\<lambda>(_, _, minute, until). nat (until - minute + 60))") auto

declare due_from.simps [simp del]

definition due_between :: "(int \<Rightarrow> utc_time option) \<Rightarrow> Cron \<Rightarrow> int \<Rightarrow> int \<Rightarrow> bool" where
  "due_between from_timestamp c after until = due_from from_timestamp c ((after sdiv 60 + 1) * 60) until"

subsection \<open>Validation\<close>

definition MAX_SCHEDULES :: nat where "MAX_SCHEDULES = 10"

definition schedule_errors :: "nat \<times> ScheduleTrigger \<Rightarrow> string list" where
  "schedule_errors = (\<lambda>(index, schedule).
     (case cron_parse (st_cron schedule) of
        Some (Inl e) \<Rightarrow> [''trigger_config.schedules['' @ show_nat index @ ''].cron '' @ e]
      | _ \<Rightarrow> []) @
     (case st_branch schedule of
        Some branch \<Rightarrow>
          if trim branch = []
          then [''trigger_config.schedules['' @ show_nat index @ ''].branch must not be empty when provided''] else []
      | None \<Rightarrow> []))"

definition validate_schedules :: "ScheduleTrigger list \<Rightarrow> string list" where
  "validate_schedules schedules =
     (if MAX_SCHEDULES < length schedules
      then [''trigger_config.schedules has too many entries (max 10)''] else []) @
     concat (map schedule_errors (enumerate 0 schedules))"

definition schedule_key :: "ScheduleTrigger \<Rightarrow> string" where
  "schedule_key schedule = trim (st_cron schedule) @ ''|'' @ trim (unwrap_or [] (st_branch schedule))"

subsection \<open>The loop over a range\<close>

lemma has_bit_iff: "has_bit bits v \<longleftrightarrow> bit bits v"
  by (simp add: has_bit_def push_bit_eq_mult and_exp_eq_0_iff_not_bit)

lemma u32_bound: "unat (v :: 32 word) < 2 ^ 32"
  using unsigned_less[of v, where 'a = nat] by simp

lemma bit_added: "n < 64 \<Longrightarrow> i < 64 \<Longrightarrow> bit (bits OR push_bit n 1 :: 64 word) i \<longleftrightarrow> bit bits i \<or> n = i"
  by (auto simp: bit_or_iff bit_exp_iff)

lemma unat_step:
  fixes v s :: "32 word"
  assumes "unat v + unat s < 2 ^ 32"
  shows "unat (v + s) = unat v + unat s"
  using assms by (simp add: unat_word_ariths)

lemma unat_step_wraps:
  fixes v s :: "32 word"
  assumes "2 ^ 32 \<le> unat v + unat s"
  shows "unat (v + s) = unat v + unat s - 2 ^ 32"
proof -
  have "unat v < 2 ^ 32" "unat s < 2 ^ 32" by (rule u32_bound)+
  with assms show ?thesis by (simp add: unat_word_ariths mod_if)
qed

text \<open>A step that cannot wrap sets exactly the values of the progression.\<close>

lemma fill_range_bits:
  assumes "0 < unat step" and "unat step + 64 \<le> 2 ^ 32" and "unat stop < 64"
  shows "\<exists>b. fill_range v stop step bits = Some b \<and>
    (\<forall>i < 64. bit b i \<longleftrightarrow> bit bits i \<or> unat v \<le> i \<and> i \<le> unat stop \<and> unat step dvd (i - unat v))"
  using assms
proof (induction "64 - unat v" arbitrary: v bits rule: less_induct)
  case less
  show ?case
  proof (cases "v \<le> stop")
    case False
    then have "unat stop < unat v" by (simp add: word_less_nat_alt not_le)
    then show ?thesis using False by (subst fill_range.simps) auto
  next
    case True
    then have v: "unat v \<le> unat stop" "unat v < 64" using less.prems(3) by (simp_all add: word_le_nat_alt)
    then have next_v: "unat (v + step) = unat v + unat step" using less.prems(2) by (intro unat_step) simp
    then have "64 - unat (v + step) < 64 - unat v" using v less.prems(1) by simp
    from less.hyps[OF this less.prems, of "bits OR push_bit (unat v) 1"]
    obtain b where b: "fill_range (v + step) stop step (bits OR push_bit (unat v) 1) = Some b"
      and bits: "\<And>i. i < 64 \<Longrightarrow> bit b i \<longleftrightarrow> bit (bits OR push_bit (unat v) 1) i \<or>
        unat v + unat step \<le> i \<and> i \<le> unat stop \<and> unat step dvd (i - (unat v + unat step))"
      using next_v by auto
    have "fill_range v stop step bits = Some b" using True b by (subst fill_range.simps) simp
    moreover have "bit b i \<longleftrightarrow> bit bits i \<or> unat v \<le> i \<and> i \<le> unat stop \<and> unat step dvd (i - unat v)" if "i < 64" for i
    proof -
      have "i = unat v \<or> unat v + unat step \<le> i \<and> unat step dvd (i - (unat v + unat step)) \<longleftrightarrow>
          unat v \<le> i \<and> unat step dvd (i - unat v)"
      proof (cases "unat v < i")
        case True
        then have "unat step dvd (i - unat v) \<longleftrightarrow> unat v + unat step \<le> i \<and> unat step dvd (i - (unat v + unat step))"
          using less.prems(1) by (metis add_leD1 diff_diff_left dvd_imp_le dvd_minus_self le_diff_conv2 less_imp_le_nat not_less zero_less_diff add.commute)
        with True show ?thesis by auto
      qed auto
      with bits[OF that] v that show ?thesis by (auto simp only: bit_added)
    qed
    ultimately show ?thesis by blast
  qed
qed

text \<open>A larger step wraps and the loop runs downwards; it ends too.\<close>

lemma fill_range_returns:
  assumes "0 < unat step" and "unat stop < 64"
  shows "\<exists>b. fill_range v stop step bits = Some b"
proof (cases "unat step + 64 \<le> 2 ^ 32")
  case True
  then show ?thesis using fill_range_bits[OF assms(1) True assms(2)] by blast
next
  case False
  show ?thesis
    using False assms
  proof (induction "unat v" arbitrary: v bits rule: less_induct)
    case less
    show ?case
    proof (cases "v \<le> stop")
      case False
      then show ?thesis by (subst fill_range.simps) simp
    next
      case True
      show ?thesis
      proof (cases "2 ^ 32 \<le> unat v + unat step")
        case wraps: True
        have "unat step < 2 ^ 32" by (rule u32_bound)
        then have "unat (v + step) < unat v" using unat_step_wraps[OF wraps] less.prems(2) wraps by linarith
        from less.hyps[OF this less.prems] True show ?thesis by (subst fill_range.simps) simp
      next
        case False
        then have "unat (v + step) = unat v + unat step" by (intro unat_step) simp
        then have "\<not> v + step \<le> stop" using less.prems(1,3) by (simp add: word_le_nat_alt)
        with True show ?thesis by (subst fill_range.simps, subst fill_range.simps) simp
      qed
    qed
  qed
qed

subsection \<open>What a field means\<close>

lemma parse_value_Inr: "parse_value raw low high name = Inr v \<Longrightarrow> low \<le> v \<and> v \<le> high"
  by (auto simp: parse_value_def split: option.splits if_splits)

lemma part_range_Inr:
  assumes "part_range part low high name = Inr (start, stop, step)" and "low \<le> high"
  shows "low \<le> start \<and> start \<le> stop \<and> stop \<le> high \<and> 0 < step"
proof -
  from assms(1) obtain rng where first: "part_step part name = Inr (rng, step)"
    and r: "part_ends part rng low high name = Inr (start, stop)" and order: "\<not> stop < start"
    by (auto simp: part_range_def and_then_eq_Inr split: if_splits)
  from first have step: "0 < step" by (auto simp: part_step_def split: option.splits if_splits)
  from r assms(2) have "low \<le> start \<and> stop \<le> high"
    by (auto simp: part_ends_def and_then_eq_Inr split: if_splits option.splits dest!: parse_value_Inr)
  with order step show ?thesis by auto
qed

text \<open>The values of a field: of each part the progression from its first to its last value.\<close>

definition field_values :: "string \<Rightarrow> 32 word \<Rightarrow> 32 word \<Rightarrow> string \<Rightarrow> nat set" where
  "field_values field low high name =
     {i. \<exists>part \<in> set (split_on (CHR '','') field). \<exists>start stop step. part_range part low high name = Inr (start, stop, step) \<and>
        unat start \<le> i \<and> i \<le> unat stop \<and> unat step dvd (i - unat start)}"

text \<open>No step of the field is so large that adding it wraps.\<close>

definition small_steps :: "string \<Rightarrow> 32 word \<Rightarrow> 32 word \<Rightarrow> string \<Rightarrow> bool" where
  "small_steps field low high name \<longleftrightarrow> list_all (\<lambda>part. case part_range part low high name of
     Inl _ \<Rightarrow> True | Inr (_, _, step) \<Rightarrow> unat step + 64 \<le> 2 ^ 32) (split_on (CHR '','') field)"

lemma parse_parts_returns:
  assumes "low \<le> high" and "unat high < 64"
  shows "\<exists>r. parse_parts parts low high name bits = Some r"
proof (induction parts arbitrary: bits)
  case (Cons part parts)
  show ?case
  proof (cases "part_range part low high name")
    case (Inr r)
    then obtain start stop step where pr: "part_range part low high name = Inr (start, stop, step)" by (cases r) auto
    from part_range_Inr[OF this assms(1)] assms(2) have "0 < unat step" "unat stop < 64"
      by (auto simp: word_le_nat_alt word_less_nat_alt)
    from fill_range_returns[OF this, of start bits] Cons.IH pr show ?thesis by auto
  qed simp
qed simp

lemma parse_parts_bits:
  assumes "low \<le> high" and "unat high < 64" and "parse_parts parts low high name bits = Some (Inr w)"
    and "list_all (\<lambda>part. case part_range part low high name of
       Inl _ \<Rightarrow> True | Inr (_, _, step) \<Rightarrow> unat step + 64 \<le> 2 ^ 32) parts" and "i < 64"
  shows "bit w i \<longleftrightarrow> bit bits i \<or> (\<exists>part \<in> set parts. \<exists>start stop step. part_range part low high name = Inr (start, stop, step) \<and>
        unat start \<le> i \<and> i \<le> unat stop \<and> unat step dvd (i - unat start))"
  using assms(3,4)
proof (induction parts arbitrary: bits)
  case (Cons part parts)
  from Cons.prems(1) obtain start stop step b where pr: "part_range part low high name = Inr (start, stop, step)"
    and b: "fill_range start stop step bits = Some b" and rest: "parse_parts parts low high name b = Some (Inr w)"
    by (auto split: sum.splits option.splits)
  from part_range_Inr[OF pr assms(1)] assms(2) have "0 < unat step" "unat stop < 64"
    by (auto simp: word_le_nat_alt word_less_nat_alt)
  moreover from Cons.prems(2) pr have "unat step + 64 \<le> 2 ^ 32" by simp
  ultimately have "bit b i \<longleftrightarrow> bit bits i \<or> unat start \<le> i \<and> i \<le> unat stop \<and> unat step dvd (i - unat start)"
    using fill_range_bits[of step stop start bits] b assms(5) by auto
  with Cons.IH[OF rest] Cons.prems(2) pr show ?case by auto
qed simp

lemma parse_field_returns:
  "low \<le> high \<Longrightarrow> unat high < 64 \<Longrightarrow> \<exists>r. parse_field field low high name = Some r"
  unfolding parse_field_def by (rule parse_parts_returns)

lemma parse_field_bits:
  assumes "low \<le> high" and "unat high < 64" and "parse_field field low high name = Some (Inr w)"
    and "small_steps field low high name"
  shows "has_bit w i \<longleftrightarrow> i \<in> field_values field low high name"
proof (cases "i < 64")
  case True
  with parse_parts_bits[OF assms(1,2) assms(3)[unfolded parse_field_def] assms(4)[unfolded small_steps_def] True]
  show ?thesis by (simp add: has_bit_iff field_values_def)
next
  case False
  have "\<not> bit w i" using False by (auto dest: bit_imp_possible_bit simp: possible_bit_def)
  moreover have "i \<notin> field_values field low high name"
    using False assms(1,2) by (fastforce simp: field_values_def word_le_nat_alt dest!: part_range_Inr)
  ultimately show ?thesis by (simp add: has_bit_iff)
qed

lemma bind_parsed_eq: "bind_parsed r k = Some (Inr b) \<longleftrightarrow> (\<exists>a. r = Some (Inr a) \<and> k a = Some (Inr b))"
  by (auto simp: bind_parsed_def split: option.splits sum.splits)

lemma bind_parsed_returns: "\<exists>x. r = Some x \<Longrightarrow> (\<And>a. \<exists>x. k a = Some x) \<Longrightarrow> \<exists>x. bind_parsed r k = Some x"
  by (auto simp: bind_parsed_def split: sum.splits)

text \<open>Parsing always returns, also when a step makes the loop wrap.\<close>

lemma cron_parse_returns: "\<exists>r. cron_parse expression = Some r"
  unfolding cron_parse_def
  by (auto split: list.split intro!: bind_parsed_returns parse_field_returns simp: word_le_nat_alt)

subsection \<open>What a due schedule means\<close>

lemma due_from_iff:
  "due_from from_timestamp c minute until \<longleftrightarrow>
     (\<exists>k \<ge> 0. minute + 60 * k \<le> until \<and> (\<exists>t. from_timestamp (minute + 60 * k) = Some t \<and> cron_matches c t))"
proof (induction from_timestamp c minute until rule: due_from.induct)
  case (1 from_timestamp c minute until)
  let ?hit = "\<lambda>m. \<exists>t. from_timestamp m = Some t \<and> cron_matches c t"
  have shift: "(\<exists>k \<ge> 0. minute + 60 * k \<le> until \<and> ?hit (minute + 60 * k)) \<longleftrightarrow>
      minute \<le> until \<and> ?hit minute \<or> (\<exists>k \<ge> 0. minute + 60 + 60 * k \<le> until \<and> ?hit (minute + 60 + 60 * k))"
  proof
    assume "\<exists>k \<ge> 0. minute + 60 * k \<le> until \<and> ?hit (minute + 60 * k)"
    then obtain k where k: "0 \<le> k" "minute + 60 * k \<le> until" "?hit (minute + 60 * k)" by blast
    show "minute \<le> until \<and> ?hit minute \<or> (\<exists>k \<ge> 0. minute + 60 + 60 * k \<le> until \<and> ?hit (minute + 60 + 60 * k))"
    proof (cases "k = 0")
      case False
      with k show ?thesis by (intro disjI2 exI[of _ "k - 1"]) (auto simp: algebra_simps)
    qed (use k in simp)
  next
    assume "minute \<le> until \<and> ?hit minute \<or> (\<exists>k \<ge> 0. minute + 60 + 60 * k \<le> until \<and> ?hit (minute + 60 + 60 * k))"
    then show "\<exists>k \<ge> 0. minute + 60 * k \<le> until \<and> ?hit (minute + 60 * k)"
    proof
      assume "minute \<le> until \<and> ?hit minute"
      then show ?thesis by (intro exI[of _ 0]) simp
    next
      assume "\<exists>k \<ge> 0. minute + 60 + 60 * k \<le> until \<and> ?hit (minute + 60 + 60 * k)"
      then obtain k where "0 \<le> k" "minute + 60 + 60 * k \<le> until" "?hit (minute + 60 + 60 * k)" by blast
      then show ?thesis by (intro exI[of _ "k + 1"]) (simp add: algebra_simps)
    qed
  qed
  show ?case
  proof (cases "minute \<le> until \<and> \<not> (case from_timestamp minute of None \<Rightarrow> False | Some t \<Rightarrow> cron_matches c t)")
    case True
    with 1 shift show ?thesis by (subst due_from.simps) (auto split: option.splits)
  next
    case False
    moreover have "\<not> (\<exists>k \<ge> 0. minute + 60 + 60 * k \<le> until)" if "\<not> minute \<le> until" using that by auto
    ultimately show ?thesis by (subst due_from.simps) (auto simp: shift split: option.splits)
  qed
qed

lemma due_between_iff:
  assumes "0 \<le> after"
  shows "due_between from_timestamp c after until \<longleftrightarrow>
     (\<exists>m t. after < 60 * m \<and> 60 * m \<le> until \<and> from_timestamp (60 * m) = Some t \<and> cron_matches c t)"
proof -
  have d: "after sdiv 60 = after div 60" using assms by (simp add: signed_divide_int_def sgn_if)
  show ?thesis unfolding due_between_def due_from_iff d
  proof
    assume "\<exists>k\<ge>0. (after div 60 + 1) * 60 + 60 * k \<le> until \<and>
      (\<exists>t. from_timestamp ((after div 60 + 1) * 60 + 60 * k) = Some t \<and> cron_matches c t)"
    then obtain k t where "0 \<le> k" "(after div 60 + 1) * 60 + 60 * k \<le> until"
      "from_timestamp ((after div 60 + 1) * 60 + 60 * k) = Some t" "cron_matches c t" by blast
    moreover have "(after div 60 + 1) * 60 + 60 * k = 60 * (after div 60 + 1 + k)" by simp
    ultimately show "\<exists>m t. after < 60 * m \<and> 60 * m \<le> until \<and> from_timestamp (60 * m) = Some t \<and> cron_matches c t"
      by (intro exI[of _ "after div 60 + 1 + k"] exI[of _ t]) (auto simp: algebra_simps)
  next
    assume "\<exists>m t. after < 60 * m \<and> 60 * m \<le> until \<and> from_timestamp (60 * m) = Some t \<and> cron_matches c t"
    then obtain m t where m: "after < 60 * m" "60 * m \<le> until" "from_timestamp (60 * m) = Some t" "cron_matches c t" by blast
    then have "after div 60 + 1 \<le> m" by (simp add: div_less_iff_less_mult flip: zle_add1_eq_le)
    moreover have "(after div 60 + 1) * 60 + 60 * (m - (after div 60 + 1)) = 60 * m" by (simp add: algebra_simps)
    ultimately show "\<exists>k\<ge>0. (after div 60 + 1) * 60 + 60 * k \<le> until \<and>
      (\<exists>t. from_timestamp ((after div 60 + 1) * 60 + 60 * k) = Some t \<and> cron_matches c t)"
      using m by (intro exI[of _ "m - (after div 60 + 1)"]) auto
  qed
qed

lemma sunday_bits:
  assumes "i < 7"
  shows "has_bit (sunday_is_zero days) i \<longleftrightarrow> has_bit days i \<or> i = 0 \<and> has_bit days 7"
proof -
  have i: "i \<in> {0, 1, 2, 3, 4, 5, 6}" using assms by auto
  have "sunday_is_zero days = (if bit days 7 then (days AND NOT (push_bit 7 1)) OR 1 else days)"
    by (simp add: sunday_is_zero_def flip: has_bit_iff) (simp add: has_bit_def)
  moreover have "bit (NOT (push_bit 7 1) :: 64 word) i" "bit (1 :: 64 word) i \<longleftrightarrow> i = 0"
    using i by (auto simp: bit_1_iff)
  ultimately show ?thesis using i by (auto simp: has_bit_iff bit_or_iff bit_and_iff)
qed

text \<open>The day fields as the documentation of cron has it: when both are restricted, either may match.\<close>

definition day_allowed :: "string \<Rightarrow> string \<Rightarrow> utc_time \<Rightarrow> bool" where
  "day_allowed day_of_month day_of_week t =
     (let by_month = ut_day t \<in> field_values day_of_month 1 31 ''day-of-month'';
          by_week = (ut_weekday t \<in> field_values day_of_week 0 7 ''day-of-week'' \<or>
                     ut_weekday t = 0 \<and> 7 \<in> field_values day_of_week 0 7 ''day-of-week'')
      in if day_of_month = ''*'' then day_of_week = ''*'' \<or> by_week
         else if day_of_week = ''*'' then by_month else by_month \<or> by_week)"

definition minute_allowed :: "string list \<Rightarrow> utc_time \<Rightarrow> bool" where
  "minute_allowed parts t \<longleftrightarrow>
     (case parts of
        [minute, hour, day_of_month, month, day_of_week] \<Rightarrow>
          ut_minute t \<in> field_values minute 0 59 ''minute'' \<and> ut_hour t \<in> field_values hour 0 23 ''hour'' \<and>
          ut_month t \<in> field_values month 1 12 ''month'' \<and> day_allowed day_of_month day_of_week t
      | _ \<Rightarrow> False)"

definition steps_small :: "string list \<Rightarrow> bool" where
  "steps_small parts \<longleftrightarrow>
     (case parts of
        [minute, hour, day_of_month, month, day_of_week] \<Rightarrow>
          small_steps minute 0 59 ''minute'' \<and> small_steps hour 0 23 ''hour'' \<and>
          small_steps day_of_month 1 31 ''day-of-month'' \<and> small_steps month 1 12 ''month'' \<and>
          small_steps day_of_week 0 7 ''day-of-week''
      | _ \<Rightarrow> True)"

lemma cron_matches_iff:
  assumes "cron_parse expression = Some (Inr c)" and "ut_weekday t < 7"
    and "steps_small (split_whitespace (expand_alias (trim expression)))"
  shows "cron_matches c t \<longleftrightarrow> minute_allowed (split_whitespace (expand_alias (trim expression))) t"
proof -
  from assms(1) obtain mi h d mo w where parts: "split_whitespace (expand_alias (trim expression)) = [mi, h, d, mo, w]"
    by (auto simp: cron_parse_def split: list.splits)
  with assms(1) obtain wd where wd: "parse_field w 0 7 ''day-of-week'' = Some (Inr wd)"
    and mi: "parse_field mi 0 59 ''minute'' = Some (Inr (minutes c))"
    and h: "parse_field h 0 23 ''hour'' = Some (Inr (hours c))"
    and d: "parse_field d 1 31 ''day-of-month'' = Some (Inr (days_of_month c))"
    and mo: "parse_field mo 1 12 ''month'' = Some (Inr (months c))"
    and rest: "days_of_week c = sunday_is_zero wd" "day_of_month_any c \<longleftrightarrow> d = ''*''" "day_of_week_any c \<longleftrightarrow> w = ''*''"
    by (auto simp: cron_parse_def bind_parsed_eq)
  from assms(3) parts have small: "small_steps mi 0 59 ''minute''" "small_steps h 0 23 ''hour''"
    "small_steps d 1 31 ''day-of-month''" "small_steps mo 1 12 ''month''" "small_steps w 0 7 ''day-of-week''"
    by (simp_all add: steps_small_def)
  have b: "has_bit (minutes c) i \<longleftrightarrow> i \<in> field_values mi 0 59 ''minute''"
    "has_bit (hours c) i \<longleftrightarrow> i \<in> field_values h 0 23 ''hour''"
    "has_bit (days_of_month c) i \<longleftrightarrow> i \<in> field_values d 1 31 ''day-of-month''"
    "has_bit (months c) i \<longleftrightarrow> i \<in> field_values mo 1 12 ''month''"
    "has_bit wd i \<longleftrightarrow> i \<in> field_values w 0 7 ''day-of-week''" for i
    by (rule parse_field_bits; (rule mi h d mo wd small | simp add: word_le_nat_alt))+
  show ?thesis
    using sunday_bits[OF assms(2), of wd]
    by (auto simp: cron_matches_def minute_allowed_def day_allowed_def parts rest b Let_def split: bool.splits)
qed

text \<open>C17. A schedule is due exactly when one of its minutes lies in the span: for an expression that parses,
  the loop over the minutes after \<open>after\<close> and up to \<open>until\<close> answers yes exactly when the span has the
  start of a minute whose fields are all among the values the expression lists, with the day rule of cron.
  The expression's steps are below 4294967233; larger ones wrap.\<close>

theorem cron_due_exact:
  assumes "cron_parse expression = Some (Inr c)" and "0 \<le> after"
    and "steps_small (split_whitespace (expand_alias (trim expression)))"
    and "\<And>secs t. from_timestamp secs = Some t \<Longrightarrow> ut_weekday t < 7"
  shows "due_between from_timestamp c after until \<longleftrightarrow>
    (\<exists>m t. after < 60 * m \<and> 60 * m \<le> until \<and> from_timestamp (60 * m) = Some t \<and>
       minute_allowed (split_whitespace (expand_alias (trim expression))) t)"
  using cron_matches_iff[OF assms(1) _ assms(3)] assms(4) unfolding due_between_iff[OF assms(2)] by blast

definition sample_calendar :: "int \<Rightarrow> utc_time option" where
  "sample_calendar secs = Some \<lparr>ut_minute = nat (secs div 60 mod 60), ut_hour = nat (secs div 3600 mod 24), ut_day = 1,
     ut_month = 1, ut_weekday = 4\<rparr>"

lemma parse_parts_ok:
  assumes "low \<le> high" and "unat high < 64" and "list_all (\<lambda>part. \<exists>r. part_range part low high name = Inr r) parts"
  shows "\<exists>w. parse_parts parts low high name bits = Some (Inr w)"
  using assms(3)
proof (induction parts arbitrary: bits)
  case (Cons part parts)
  then obtain start stop step where pr: "part_range part low high name = Inr (start, stop, step)" by auto
  from part_range_Inr[OF this assms(1)] assms(2) have "0 < unat step" "unat stop < 64"
    by (auto simp: word_le_nat_alt word_less_nat_alt)
  from fill_range_returns[OF this, of start bits] Cons pr show ?case by auto
qed simp

lemmas parse_eval = part_range_def part_step_def part_ends_def split_once_def parse_u32_def digits_value_def
  parse_value_def is_ascii_digit_def

lemma sample_parts:
  "part_range ''*'' low high name = (if high < low then Inl (name @ '' range '' @ quote_text ''*'' @ '' runs backwards'')
     else Inr (low, high, 1))"
  "part_range ''*/15'' 0 59 ''minute'' = Inr (0, 59, 15)" "part_range ''3'' 0 23 ''hour'' = Inr (3, 3, 1)"
  by (simp_all add: parse_eval)

lemma sample_split:
  "split_on (CHR '','') ''*'' = [''*'']" "split_on (CHR '','') ''*/15'' = [''*/15'']" "split_on (CHR '','') ''3'' = [''3'']"
  "split_whitespace (expand_alias (trim ''*/15 3 * * *'')) = [''*/15'', ''3'', ''*'', ''*'', ''*'']"
  by code_simp+

theorem cron_due_exact_witness:
  "\<exists>c. cron_parse ''*/15 3 * * *'' = Some (Inr c) \<and>
     (due_between sample_calendar c 10700 10900 \<longleftrightarrow> (\<exists>m t. 10700 < 60 * m \<and> 60 * m \<le> 10900 \<and>
        sample_calendar (60 * m) = Some t \<and> minute_allowed (split_whitespace (expand_alias (trim ''*/15 3 * * *''))) t))"
proof -
  have f: "\<exists>w. parse_field ''*'' low high name = Some (Inr w)" if "low \<le> high" "unat high < 64" for low high name
    unfolding parse_field_def sample_split by (rule parse_parts_ok) (use that in \<open>simp_all add: sample_parts\<close>)
  have "\<exists>w. parse_field ''*/15'' 0 59 ''minute'' = Some (Inr w)" "\<exists>w. parse_field ''3'' 0 23 ''hour'' = Some (Inr w)"
    unfolding parse_field_def sample_split by (rule parse_parts_ok; simp add: sample_parts word_le_nat_alt)+
  then obtain mi h where "parse_field ''*/15'' 0 59 ''minute'' = Some (Inr mi)" "parse_field ''3'' 0 23 ''hour'' = Some (Inr h)"
    by blast
  moreover obtain w where "parse_field ''*'' 0 7 ''day-of-week'' = Some (Inr w)" using f[of 0 7] by (auto simp: word_le_nat_alt)
  moreover obtain d where "parse_field ''*'' 1 31 ''day-of-month'' = Some (Inr d)" using f[of 1 31] by (auto simp: word_le_nat_alt)
  moreover obtain mo where "parse_field ''*'' 1 12 ''month'' = Some (Inr mo)" using f[of 1 12] by (auto simp: word_le_nat_alt)
  ultimately obtain c where c: "cron_parse ''*/15 3 * * *'' = Some (Inr c)"
    by (simp add: cron_parse_def sample_split bind_parsed_def)
  have "steps_small (split_whitespace (expand_alias (trim ''*/15 3 * * *'')))"
    by (simp add: sample_split steps_small_def small_steps_def sample_parts)
  moreover have "ut_weekday t < 7" if "sample_calendar secs = Some t" for secs t
    using that by (auto simp: sample_calendar_def)
  ultimately show ?thesis using c cron_due_exact[OF c, of 10700 sample_calendar 10900] by auto
qed

text \<open>
  A step close to the largest 32-bit number wraps: the part names one minute, the parsed field six.
\<close>

lemma large_step_wraps: "parse_field ''5/4294967295'' 0 59 ''minute'' = Some (Inr 63)"
proof -
  have "split_on (CHR '','') ''5/4294967295'' = [''5/4294967295'']" by code_simp
  moreover have "part_range ''5/4294967295'' 0 59 ''minute'' = Inr (5, 59, 4294967295)" by (simp add: parse_eval)
  moreover have "fill_range 5 59 4294967295 0 = Some 63"
    by (subst fill_range.simps, simp)+
  ultimately show ?thesis by (simp add: parse_field_def)
qed

end
