(* ===== verification/Schedule_Runs.thy ===== *)
theory Schedule_Runs
  imports Build_Lifecycle Cron_Schedules
begin

text \<open>
  Scheduled builds: the tick of \<^verbatim>\<open>crates/oored/src/pipeline_schedules.rs\<close> that claims due runs in
  \<open>pipeline_schedule_runs\<close>, and \<open>create_scheduled_build\<close> of \<^verbatim>\<open>builds.rs\<close>. The \<open>pipelines\<close> columns only
  this code reads are in \<open>schedule_rows\<close>; \<open>trigger_config\<close> is \<open>None\<close> when its JSON does not parse.
  \<open>clone_urls\<close> is the joined URL of each repository. Looking up a branch at its host is a parameter
  \<open>resolve_commit\<close>, the calendar is \<open>from_timestamp\<close>.

  A claim reads the checkpoint and moves it in a second statement that
  compares it; \<open>schedule_step\<close> interleaves the statements of any number of ticks.
\<close>

subsection \<open>State\<close>

record schedule_row =
  sw_id :: string
  sw_enabled :: bool
  sw_trigger_config :: "TriggerConfig option"
  sw_workflow :: "string option"
  sw_runs_on :: "string list"

record schedule_db =
  score :: daemon
  schedule_rows :: "schedule_row list"
  clone_urls :: "(string \<times> string) list"
  schedule_runs :: "((string \<times> string) \<times> int) list"

definition CATCH_UP_SECS :: int where "CATCH_UP_SECS = 5 * 60"

subsection \<open>Claims\<close>

definition last_checked_at :: "schedule_db \<Rightarrow> string \<Rightarrow> string \<Rightarrow> int option" where
  "last_checked_at db pipeline_id key = map_of (schedule_runs db) (pipeline_id, key)"

definition set_checkpoint :: "string \<Rightarrow> string \<Rightarrow> int \<Rightarrow> schedule_db \<Rightarrow> schedule_db" where
  "set_checkpoint pipeline_id key secs db =
     db\<lparr>schedule_runs := map (\<lambda>(k, v). if k = (pipeline_id, key) then (k, secs) else (k, v)) (schedule_runs db)\<rparr>"

text \<open>\<open>last_checked\<close> is the checkpoint as it was read; it may have moved since.\<close>

definition claim_due_run ::
  "(int \<Rightarrow> utc_time option) \<Rightarrow> string \<Rightarrow> ScheduleTrigger \<Rightarrow> Cron \<Rightarrow> int \<Rightarrow> int option \<Rightarrow> schedule_db \<Rightarrow>
   int option \<times> schedule_db" where
  "claim_due_run from_timestamp pipeline_id schedule c now last_checked db =
     (let key = schedule_key schedule
      in case last_checked of
           None \<Rightarrow>
             (None, if last_checked_at db pipeline_id key = None
                    then db\<lparr>schedule_runs := schedule_runs db @ [((pipeline_id, key), now)]\<rparr> else db)
         | Some previous \<Rightarrow>
             if now sdiv 60 \<le> previous sdiv 60 then (None, db)
             else
               let claimed = (last_checked_at db pipeline_id key = Some previous)
               in (if claimed \<and> due_between from_timestamp c (max previous (now - CATCH_UP_SECS)) now
                   then Some previous else None,
                   if claimed then set_checkpoint pipeline_id key now db else db))"

definition scheduled_since :: "string \<Rightarrow> int \<Rightarrow> daemon \<Rightarrow> bool" where
  "scheduled_since pipeline_id secs core =
     exists_row (\<lambda>b. b_pipeline_id b = pipeline_id \<and> b_trigger_type b = ''schedule'' \<and> secs \<le> b_created_at b) (builds core)"

definition release_claim :: "string \<Rightarrow> ScheduleTrigger \<Rightarrow> int \<Rightarrow> int \<Rightarrow> schedule_db \<Rightarrow> bool \<times> schedule_db" where
  "release_claim pipeline_id schedule previous now db =
     (let key = schedule_key schedule
      in if last_checked_at db pipeline_id key = Some now \<and> \<not> scheduled_since pipeline_id now (score db)
         then (True, set_checkpoint pipeline_id key previous db) else (False, db))"

subsection \<open>The build of a run\<close>

definition resolve_repository_clone_url :: "schedule_db \<Rightarrow> string \<Rightarrow> string option" where
  "resolve_repository_clone_url db repository_id =
     (case map_of (clone_urls db) repository_id of
        None \<Rightarrow> None | Some raw \<Rightarrow> if trim raw = [] then None else Some (trim raw))"

definition scheduled_snapshot :: "schedule_row \<Rightarrow> pipeline \<Rightarrow> string \<Rightarrow> config_snapshot" where
  "scheduled_snapshot row pl repository_id =
     \<lparr>cs_repository_id = Some repository_id, cs_runs_on = scheduling_labels (sw_runs_on row),
      cs_timeout_secs = Some (gate_timeout_minutes (Some (pl_timeout_minutes pl)) * 60), cs_workflow = sw_workflow row,
      cs_retry_steps = None, cs_file_size_budgets = None\<rparr>"

text \<open>What the insert binds, or the reason there is no build.\<close>

definition scheduled_binds ::
  "(string \<Rightarrow> string \<Rightarrow> string api_result) \<Rightarrow> int \<Rightarrow> string \<Rightarrow> string \<Rightarrow> ScheduleTrigger \<Rightarrow> schedule_db \<Rightarrow>
   build_insert_binds api_result" where
  "scheduled_binds resolve_commit now build_id pipeline_id schedule db =
     and_then (ok_or (ApiError NOT_FOUND ''not_found'' ''Pipeline not found or disabled'')
         (Option.bind (fetch_optional (\<lambda>w. sw_id w = pipeline_id \<and> sw_enabled w) (schedule_rows db))
           (\<lambda>w. Option.bind (fetch_optional (\<lambda>pl. pl_id pl = pipeline_id) (pipelines (score db)))
             (\<lambda>pl. map_option (\<lambda>p. (w, pl, p)) (fetch_optional (\<lambda>p. p_id p = pl_project_id pl) (projects (score db)))))))
      (\<lambda>(w, pl, p). and_then (ok_or (ApiError CONFLICT ''source_not_configured'' ''Project is not linked to a source repository'')
             (p_repository_id p))
      (\<lambda>repository_id. and_then (ok_or (ApiError CONFLICT ''invalid_input''
               ''The schedule has no branch and the project has no default branch'')
             (case normalize_optional (st_branch schedule) of
                Some b \<Rightarrow> Some b | None \<Rightarrow> normalize_optional (p_default_branch p)))
      (\<lambda>branch. and_then (ok_or (ApiError CONFLICT ''source_unresolvable'' ''Project source repository could not be resolved'')
             (resolve_repository_clone_url db repository_id))
      (\<lambda>_. and_then (resolve_commit repository_id branch)
      (\<lambda>commit. Inr
         \<lparr>bi_build_id = build_id, bi_project_id = p_id p, bi_pipeline_id = pipeline_id,
          bi_actor = Some (''schedule: '' @ trim (st_cron schedule)), bi_event_type = Some ''schedule'',
          bi_trigger_ref = Some branch, bi_commit_sha = Some commit, bi_branch = Some branch, bi_changelog = None,
          bi_config_snapshot = scheduled_snapshot w pl repository_id, bi_webhook_id = None, bi_now = now,
          bi_trigger_type = ''schedule'', bi_source_build_id = None, bi_cancel_previous = pl_cancel_previous pl,
          bi_approval_required = approval_applies_to (pl_approval pl) ''schedule''\<rparr>)))))"

text \<open>
  The insert and the first event, which is a statement of its own: \<open>event_fails\<close> is its database error,
  after which the build exists all the same.
\<close>

definition create_scheduled_build ::
  "(string \<Rightarrow> string \<Rightarrow> string api_result) \<Rightarrow> (nat \<Rightarrow> sqlite_error option) \<Rightarrow> bool \<Rightarrow> int \<Rightarrow> string \<Rightarrow> string \<Rightarrow>
   ScheduleTrigger \<Rightarrow> schedule_db \<Rightarrow> string api_result \<times> schedule_db" where
  "create_scheduled_build resolve_commit interrupt event_fails now build_id pipeline_id schedule db =
     try_in db (scheduled_binds resolve_commit now build_id pipeline_id schedule db)
      (\<lambda>binds. try_in db (insert_build_with_retry interrupt (\<lambda>_. score db) binds)
      (\<lambda>(inserted, core).
         if \<not> inserted
         then (Inl (ApiError CONFLICT ''source_changed''
                 ''The project source changed while the scheduled build was being created''), db\<lparr>score := core\<rparr>)
         else if event_fails
         then (Inl (ApiError INTERNAL_SERVER_ERROR ''store_error'' ''Failed to record build event''), db\<lparr>score := core\<rparr>)
         else
           let core1 = record_initial_event now build_id (bi_actor binds)
                 (initial_event_reason ''scheduled'' (bi_approval_required binds)) core;
               core2 = (if bi_approval_required binds
                 then write_audit_log None ''build_approval_requested'' ''build'' (Some build_id) [(''build_id'', Some build_id)] core1
                 else core1)
           in (Inr build_id, db\<lparr>score := core2\<rparr>)))"

subsection \<open>The tick\<close>

definition is_server_error :: "status_code \<Rightarrow> bool" where
  "is_server_error status \<longleftrightarrow> status \<in> {INTERNAL_SERVER_ERROR, BAD_GATEWAY, SERVICE_UNAVAILABLE}"

text \<open>
  The world a tick runs in: the calendar, the hosts, the errors of the database, the generated identifiers
  and the clock when a build is created.
\<close>

record tick_env =
  te_from_timestamp :: "int \<Rightarrow> utc_time option"
  te_resolve_commit :: "string \<Rightarrow> string \<Rightarrow> string api_result"
  te_interrupt :: "nat \<Rightarrow> sqlite_error option"
  te_event_fails :: bool
  te_new_id :: "string \<Rightarrow> ScheduleTrigger \<Rightarrow> string"
  te_created :: int

definition run_schedule ::
  "tick_env \<Rightarrow> int \<Rightarrow> string \<Rightarrow> ScheduleTrigger \<Rightarrow> string list \<times> schedule_db \<Rightarrow> string list \<times> schedule_db" where
  "run_schedule env now pipeline_id schedule = (\<lambda>(started, db).
     case cron_parse (st_cron schedule) of
       Some (Inr c) \<Rightarrow>
         (case claim_due_run (te_from_timestamp env) pipeline_id schedule c now
                 (last_checked_at db pipeline_id (schedule_key schedule)) db of
            (None, db1) \<Rightarrow> (started, db1)
          | (Some previous, db1) \<Rightarrow>
              (case create_scheduled_build (te_resolve_commit env) (te_interrupt env) (te_event_fails env) (te_created env)
                      (te_new_id env pipeline_id schedule) pipeline_id schedule db1 of
                 (Inr build_id, db2) \<Rightarrow> (started @ [build_id], db2)
               | (Inl e, db2) \<Rightarrow>
                   (started, if is_server_error (err_status e)
                             then snd (release_claim pipeline_id schedule previous now db2) else db2)))
     | _ \<Rightarrow> (started, db))"

definition run_schedule_tick :: "tick_env \<Rightarrow> int \<Rightarrow> schedule_db \<Rightarrow> string list \<times> schedule_db" where
  "run_schedule_tick env now db =
     fold (\<lambda>w. case sw_trigger_config w of
             None \<Rightarrow> id
           | Some tc \<Rightarrow> fold (run_schedule env now (sw_id w)) (tc_schedules tc))
       (filter sw_enabled (schedule_rows db)) ([], db)"

subsection \<open>Ticks that overlap\<close>

record due_run =
  dr_pipeline :: string
  dr_schedule :: ScheduleTrigger
  dr_previous :: int
  dr_now :: int

definition run_key :: "due_run \<Rightarrow> string \<times> string" where
  "run_key r = (dr_pipeline r, schedule_key (dr_schedule r))"

text \<open>The seconds a claim covers.\<close>

definition covers :: "due_run \<Rightarrow> int \<Rightarrow> bool" where
  "covers r secs \<longleftrightarrow> dr_previous r < secs \<and> secs \<le> dr_now r"

record schedule_state =
  ss_db :: schedule_db
  ss_open :: "due_run list"
  ss_built :: "due_run list"

text \<open>
  \<open>ss_open\<close> holds the claimed runs whose build was not inserted, \<open>ss_built\<close> those whose build was. A run
  is created at or after the time of its claim. Other parts of the daemon change the tables as they
  like, but do not delete a build scheduled since a time another one was claimed at.
\<close>

inductive schedule_step :: "(int \<Rightarrow> utc_time option) \<Rightarrow> schedule_state \<Rightarrow> schedule_state \<Rightarrow> bool"
for from_timestamp where
  claim: "claim_due_run from_timestamp pid sch c now seen (ss_db s) = (Some previous, db1) \<Longrightarrow>
    schedule_step from_timestamp s (s\<lparr>ss_db := db1,
      ss_open := \<lparr>dr_pipeline = pid, dr_schedule = sch, dr_previous = previous, dr_now = now\<rparr> # ss_open s\<rparr>)"
| pass: "claim_due_run from_timestamp pid sch c now seen (ss_db s) = (None, db1) \<Longrightarrow>
    schedule_step from_timestamp s (s\<lparr>ss_db := db1\<rparr>)"
| start: "r \<in> set (ss_open s) \<Longrightarrow> dr_now r \<le> now \<Longrightarrow> \<not> exists_row (\<lambda>b. b_id b = bid) (builds (score (ss_db s))) \<Longrightarrow>
    create_scheduled_build resolve_commit interrupt event_fails now bid (dr_pipeline r) (dr_schedule r) (ss_db s) = (answer, db1) \<Longrightarrow>
    exists_row (\<lambda>b. b_id b = bid) (builds (score db1)) \<Longrightarrow>
    schedule_step from_timestamp s (s\<lparr>ss_db := db1, ss_open := remove1 r (ss_open s), ss_built := r # ss_built s\<rparr>)"
| not_started: "\<not> exists_row (\<lambda>b. b_id b = bid) (builds (score (ss_db s))) \<Longrightarrow>
    create_scheduled_build resolve_commit interrupt event_fails now bid pid sch (ss_db s) = (answer, db1) \<Longrightarrow>
    \<not> exists_row (\<lambda>b. b_id b = bid) (builds (score db1)) \<Longrightarrow>
    schedule_step from_timestamp s (s\<lparr>ss_db := db1\<rparr>)"
| release: "r \<in> set (ss_open s) \<union> set (ss_built s) \<Longrightarrow>
    release_claim (dr_pipeline r) (dr_schedule r) (dr_previous r) (dr_now r) (ss_db s) = (released, db1) \<Longrightarrow>
    schedule_step from_timestamp s (s\<lparr>ss_db := db1, ss_open := remove1 r (ss_open s)\<rparr>)"
| give_up: "schedule_step from_timestamp s (s\<lparr>ss_open := remove1 r (ss_open s)\<rparr>)"
| other: "schedule_runs db1 = schedule_runs (ss_db s) \<Longrightarrow>
    (\<And>pid secs. scheduled_since pid secs (score (ss_db s)) \<Longrightarrow> scheduled_since pid secs (score db1)) \<Longrightarrow>
    schedule_step from_timestamp s (s\<lparr>ss_db := db1\<rparr>)"

subsection \<open>No minute fires twice\<close>

definition covering :: "string \<times> string \<Rightarrow> int \<Rightarrow> due_run list \<Rightarrow> due_run list" where
  "covering key secs = filter (\<lambda>r. run_key r = key \<and> covers r secs)"

definition runs_ok :: "due_run list \<Rightarrow> schedule_db \<Rightarrow> bool" where
  "runs_ok runs db \<longleftrightarrow>
     (\<forall>r \<in> set runs. dr_previous r < dr_now r \<and>
        (\<exists>c. map_of (schedule_runs db) (run_key r) = Some c \<and> dr_now r \<le> c)) \<and>
     (\<forall>key secs. length (covering key secs runs) \<le> 1)"

definition schedules_ok :: "schedule_state \<Rightarrow> bool" where
  "schedules_ok s \<longleftrightarrow> runs_ok (ss_open s @ ss_built s) (ss_db s) \<and>
     (\<forall>r \<in> set (ss_built s). scheduled_since (dr_pipeline r) (dr_now r) (score (ss_db s)))"

lemma sdiv60_less: "a sdiv 60 < b sdiv 60 \<Longrightarrow> a < (b :: int)"
proof (rule ccontr)
  assume "a sdiv 60 < b sdiv 60" "\<not> a < b"
  moreover have "b sdiv 60 \<le> a sdiv 60" if "b \<le> a"
    using that pos_imp_zdiv_nonneg_iff[of 60 a] pos_imp_zdiv_nonneg_iff[of 60 "- b"]
    by (auto simp: signed_divide_int_def sgn_if zdiv_mono1 abs_if)
  ultimately show False by simp
qed

lemma map_of_set_checkpoint:
  "map_of (schedule_runs (set_checkpoint pid key secs db)) k =
     (if k = (pid, key) then map_option (\<lambda>_. secs) (map_of (schedule_runs db) k) else map_of (schedule_runs db) k)"
proof -
  have "map_of (map (\<lambda>(k, v). if k = j then (k, secs) else (k, v)) xs) k =
      (if k = j then map_option (\<lambda>_. secs) (map_of xs k) else map_of xs k)" for j and xs :: "((string \<times> string) \<times> int) list"
    by (induction xs) auto
  then show ?thesis by (simp add: set_checkpoint_def)
qed

lemma score_set_checkpoint [simp]: "score (set_checkpoint pid key secs db) = score db"
  by (simp add: set_checkpoint_def)

lemma runs_ok_checkpoint:
  assumes "runs_ok runs db" and "r \<in> set runs"
  obtains c where "map_of (schedule_runs db) (run_key r) = Some c" "dr_now r \<le> c" "dr_previous r < dr_now r"
  using assms by (auto simp: runs_ok_def)

text \<open>Moving checkpoints forward keeps the runs, and so does adding one that starts at the checkpoint.\<close>

lemma runs_ok_forward:
  assumes "runs_ok runs db"
    and "\<And>k c. map_of (schedule_runs db) k = Some c \<Longrightarrow> \<exists>c'. map_of (schedule_runs db') k = Some c' \<and> c \<le> c'"
  shows "runs_ok runs db'"
  unfolding runs_ok_def
proof (intro conjI ballI)
  fix r assume "r \<in> set runs"
  then obtain c where c: "map_of (schedule_runs db) (run_key r) = Some c" "dr_now r \<le> c" and "dr_previous r < dr_now r"
    using runs_ok_checkpoint[OF assms(1)] by blast
  then show "dr_previous r < dr_now r" by simp
  from assms(2)[OF c(1)] c(2) show "\<exists>c'. map_of (schedule_runs db') (run_key r) = Some c' \<and> dr_now r \<le> c'"
    by (blast intro: order.trans)
qed (use assms(1) in \<open>simp add: runs_ok_def\<close>)

lemma runs_ok_add:
  assumes ok: "runs_ok runs db" and at_prev: "map_of (schedule_runs db) (run_key r) = Some (dr_previous r)"
    and less: "dr_previous r < dr_now r"
  shows "runs_ok (r # runs) (set_checkpoint (dr_pipeline r) (schedule_key (dr_schedule r)) (dr_now r) db)"
proof -
  have old: "runs_ok runs (set_checkpoint (dr_pipeline r) (schedule_key (dr_schedule r)) (dr_now r) db)"
    using at_prev less by (intro runs_ok_forward[OF ok]) (auto simp: map_of_set_checkpoint run_key_def)
  have "covering key secs runs = []" if "run_key r = key" "covers r secs" for key secs
  proof -
    have "\<not> (run_key x = key \<and> covers x secs)" if "x \<in> set runs" for x
      using runs_ok_checkpoint[OF ok that] at_prev \<open>run_key r = key\<close> \<open>covers r secs\<close>
      by (metis covers_def not_less option.inject order.trans)
    then show ?thesis by (auto simp: covering_def filter_empty_conv)
  qed
  moreover have "length (covering key secs runs) \<le> 1" for key secs
    using ok unfolding runs_ok_def by blast
  ultimately have one: "length (covering key secs (r # runs)) \<le> 1" for key secs
    by (cases "run_key r = key \<and> covers r secs") (simp_all add: covering_def)
  have "map_of (schedule_runs (set_checkpoint (dr_pipeline r) (schedule_key (dr_schedule r)) (dr_now r) db)) (run_key r) = Some (dr_now r)"
    using at_prev by (simp add: map_of_set_checkpoint run_key_def)
  with old one less show ?thesis unfolding runs_ok_def by simp
qed

lemma covering_append: "length (covering key secs (xs @ ys)) = length (covering key secs xs) + length (covering key secs ys)"
  by (simp add: covering_def)

lemma covering_remove1:
  assumes "r \<in> set xs"
  shows "length (covering key secs xs) = length (covering key secs (remove1 r xs)) + length (covering key secs [r])"
  using assms by (induction xs) (auto simp: covering_def)

lemma runs_ok_sub:
  assumes "runs_ok runs db" and "set runs' \<subseteq> set runs" and "\<And>key secs. length (covering key secs runs') \<le> length (covering key secs runs)"
  shows "runs_ok runs' db"
  using assms unfolding runs_ok_def by (meson order.trans subsetD)

text \<open>A claim that is released covers every second between its two ends, so no other run ends there.\<close>

lemma runs_ok_release:
  assumes ok: "runs_ok runs db" and r: "r \<in> set runs" and at_now: "map_of (schedule_runs db) (run_key r) = Some (dr_now r)"
  shows "runs_ok (remove1 r runs) (set_checkpoint (dr_pipeline r) (schedule_key (dr_schedule r)) (dr_previous r) db)"
  unfolding runs_ok_def
proof (intro conjI ballI allI)
  fix x assume x: "x \<in> set (remove1 r runs)"
  then have "x \<in> set runs" by (meson notin_set_remove1)
  then obtain c where c: "map_of (schedule_runs db) (run_key x) = Some c" "dr_now x \<le> c" and less: "dr_previous x < dr_now x"
    using runs_ok_checkpoint[OF ok] by blast
  then show "dr_previous x < dr_now x" by simp
  show "\<exists>c. map_of (schedule_runs (set_checkpoint (dr_pipeline r) (schedule_key (dr_schedule r)) (dr_previous r) db)) (run_key x) =
      Some c \<and> dr_now x \<le> c"
  proof (cases "run_key x = run_key r")
    case True
    have "dr_now x \<le> dr_previous r"
    proof (rule ccontr)
      assume "\<not> dr_now x \<le> dr_previous r"
      with c(1,2) at_now True have "covers r (dr_now x)" by (simp add: covers_def)
      then have "length (covering (run_key r) (dr_now x) [r]) = 1" by (simp add: covering_def)
      moreover have "covers x (dr_now x)" using less by (simp add: covers_def)
      with x True have "covering (run_key r) (dr_now x) (remove1 r runs) \<noteq> []" by (auto simp: covering_def filter_empty_conv)
      ultimately have "2 \<le> length (covering (run_key r) (dr_now x) runs)"
        unfolding covering_remove1[OF r] by (cases "covering (run_key r) (dr_now x) (remove1 r runs)") auto
      with ok show False unfolding runs_ok_def by (metis not_less_eq_eq numeral_2_eq_2 One_nat_def order.trans)
    qed
    with True at_now show ?thesis by (simp add: map_of_set_checkpoint run_key_def)
  next
    case False
    with c show ?thesis by (auto simp: map_of_set_checkpoint run_key_def)
  qed
next
  fix key secs
  show "length (covering key secs (remove1 r runs)) \<le> 1"
    using ok covering_remove1[OF r, of key secs] unfolding runs_ok_def by (metis add_leD1)
qed

subsection \<open>Each step keeps the runs apart\<close>

lemma insert_attempts_Inr:
  assumes "insert_attempts interrupt (\<lambda>_. db) b n = Inr (ok, db')"
  shows "execute_build_insert b db = Inr (ok, db')"
  using assms
proof (induction interrupt "\<lambda>_ :: nat. db" b n rule: insert_attempts.induct)
  case (1 interrupt b n)
  show ?case
  proof (cases "case interrupt n of Some e \<Rightarrow> Inl e | None \<Rightarrow> execute_build_insert b db")
    case (Inr r)
    with 1(2) show ?thesis by (subst (asm) insert_attempts.simps) (auto split: option.splits)
  next
    case (Inl e)
    with 1(2) have "is_retryable e \<and> n < BUILD_INSERT_MAX_RETRIES" "insert_attempts interrupt (\<lambda>_. db) b (n + 1) = Inr (ok, db')"
      by (subst (asm) insert_attempts.simps, simp split: if_splits)+
    with 1(1)[OF Inl] show ?thesis by simp
  qed
qed

lemma supersede_rows:
  "\<exists>P. builds (supersede b row db) = update_where P (cancel_columns (bi_now b)) (builds db)"
proof -
  have "update_where (\<lambda>_. False) f rows = rows" for f and rows :: "build list" by (simp add: update_where_def)
  then show ?thesis
    by (cases "bi_branch b") (auto simp: supersede_def cancel_rows_def intro: exI[of _ "\<lambda>_. False"] sym)
qed

lemma cancel_columns_keep [simp]:
  "b_id (cancel_columns now b) = b_id b" "b_pipeline_id (cancel_columns now b) = b_pipeline_id b"
  "b_trigger_type (cancel_columns now b) = b_trigger_type b" "b_created_at (cancel_columns now b) = b_created_at b"
  by (simp_all add: cancel_columns_def)

lemma exists_row_update:
  assumes "\<And>r. P (f r) = P r"
  shows "exists_row P (update_where Q f rows) = exists_row P rows"
  using assms by (induction rows) (auto simp: exists_row_def)

lemma scheduled_binds_Inr:
  assumes "scheduled_binds resolve_commit now bid pid sch db = Inr binds"
  shows "bi_build_id binds = bid \<and> bi_pipeline_id binds = pid \<and> bi_trigger_type binds = ''schedule'' \<and> bi_now binds = now"
  using assms by (auto simp: scheduled_binds_def and_then_eq_Inr)

lemma execute_insert_rows:
  assumes "execute_build_insert b db = Inr (ok, db')"
  shows "exists_row (\<lambda>r. b_id r = bi_build_id b) (builds db') \<longleftrightarrow> ok \<or> exists_row (\<lambda>r. b_id r = bi_build_id b) (builds db)"
    and "scheduled_since pid secs db \<Longrightarrow> scheduled_since pid secs db'"
    and "ok \<Longrightarrow> bi_trigger_type b = ''schedule'' \<Longrightarrow> secs \<le> bi_now b \<Longrightarrow> scheduled_since (bi_pipeline_id b) secs db'"
proof -
  let ?rows = "builds db @ [inserted_row b (builds db)]"
  from execute_insert_cases[OF assms] consider "\<not> ok" "db' = db" | w where "ok"
    "db' = supersede b (inserted_row b (builds db)) (db\<lparr>builds := ?rows, webhook_build_claims := w\<rparr>)" by blast
  then have "(\<not> ok \<and> db' = db) \<or> (ok \<and> (\<exists>P. builds db' = update_where P (cancel_columns (bi_now b)) ?rows))"
  proof cases
    case (2 w)
    with supersede_rows[of b "inserted_row b (builds db)" "db\<lparr>builds := ?rows, webhook_build_claims := w\<rparr>"] show ?thesis by auto
  qed simp
  moreover have "b_id (inserted_row b rows) = bi_build_id b" "b_pipeline_id (inserted_row b rows) = bi_pipeline_id b"
    "b_trigger_type (inserted_row b rows) = bi_trigger_type b" "b_created_at (inserted_row b rows) = bi_now b" for rows
    by (simp_all add: inserted_row_def Let_def)
  ultimately show "exists_row (\<lambda>r. b_id r = bi_build_id b) (builds db') \<longleftrightarrow> ok \<or> exists_row (\<lambda>r. b_id r = bi_build_id b) (builds db)"
    and "scheduled_since pid secs db \<Longrightarrow> scheduled_since pid secs db'"
    and "ok \<Longrightarrow> bi_trigger_type b = ''schedule'' \<Longrightarrow> secs \<le> bi_now b \<Longrightarrow> scheduled_since (bi_pipeline_id b) secs db'"
    by (auto simp: scheduled_since_def exists_row_update) (auto simp: exists_row_def)
qed

lemma create_scheduled_rows:
  assumes "create_scheduled_build resolve_commit interrupt fails now bid pid sch db = (answer, db')"
  shows "schedule_runs db' = schedule_runs db"
    and "scheduled_since p secs (score db) \<Longrightarrow> scheduled_since p secs (score db')"
    and "\<not> exists_row (\<lambda>b. b_id b = bid) (builds (score db)) \<Longrightarrow> exists_row (\<lambda>b. b_id b = bid) (builds (score db')) \<Longrightarrow>
      secs \<le> now \<Longrightarrow> scheduled_since pid secs (score db')"
proof -
  have same: "builds (record_initial_event t x a rs c) = builds c" "builds (write_audit_log ac an k rid ds c) = builds c"
    for t x a rs c ac an k rid ds
    by (simp_all add: record_initial_event_def write_audit_log_def)
  consider "db' = db" | binds ok core where "scheduled_binds resolve_commit now bid pid sch db = Inr binds"
      "insert_build_with_retry interrupt (\<lambda>_. score db) binds = Inr (ok, core)"
      "schedule_runs db' = schedule_runs db" "builds (score db') = builds core"
    using assms
    by (cases "scheduled_binds resolve_commit now bid pid sch db")
      (auto simp: create_scheduled_build_def Let_def try_in_def same split: sum.splits if_splits prod.splits)
  then have "schedule_runs db' = schedule_runs db \<and> (scheduled_since p secs (score db) \<longrightarrow> scheduled_since p secs (score db')) \<and>
    (\<not> exists_row (\<lambda>b. b_id b = bid) (builds (score db)) \<longrightarrow> exists_row (\<lambda>b. b_id b = bid) (builds (score db')) \<longrightarrow>
      secs \<le> now \<longrightarrow> scheduled_since pid secs (score db'))" for p secs
  proof cases
    case (2 binds ok core)
    note b = scheduled_binds_Inr[OF 2(1)]
    have e: "execute_build_insert binds (score db) = Inr (ok, core)"
      using insert_attempts_Inr[OF 2(2)[unfolded insert_build_with_retry_def]] .
    have "scheduled_since q t (score db') = scheduled_since q t core" for q t
      using 2(4) by (simp add: scheduled_since_def)
    with execute_insert_rows[OF e] b 2(3,4) show ?thesis by metis
  qed simp
  then show "schedule_runs db' = schedule_runs db"
    and "scheduled_since p secs (score db) \<Longrightarrow> scheduled_since p secs (score db')"
    and "\<not> exists_row (\<lambda>b. b_id b = bid) (builds (score db)) \<Longrightarrow> exists_row (\<lambda>b. b_id b = bid) (builds (score db')) \<Longrightarrow>
      secs \<le> now \<Longrightarrow> scheduled_since pid secs (score db')" by blast+
qed

lemma claim_due_run_cases:
  assumes "claim_due_run from_timestamp pid sch c now seen db = (r, db1)"
  shows "score db1 = score db"
    and "r = None \<Longrightarrow> map_of (schedule_runs db) k = Some t \<Longrightarrow> \<exists>t'. map_of (schedule_runs db1) k = Some t' \<and> t \<le> t'"
    and "r = Some previous \<Longrightarrow> map_of (schedule_runs db) (pid, schedule_key sch) = Some previous \<and> previous < now \<and>
      db1 = set_checkpoint pid (schedule_key sch) now db"
proof -
  have new: "map_of (xs @ [(j, v)]) k = Some t" if "map_of xs k = Some t" for xs :: "((string \<times> string) \<times> int) list" and j v
    using that by (simp add: map_add_def)
  show "score db1 = score db"
    using assms by (auto simp: claim_due_run_def Let_def split: option.splits if_splits)
  show "r = None \<Longrightarrow> map_of (schedule_runs db) k = Some t \<Longrightarrow> \<exists>t'. map_of (schedule_runs db1) k = Some t' \<and> t \<le> t'"
    using assms sdiv60_less
    by (auto simp: claim_due_run_def Let_def last_checked_at_def map_of_set_checkpoint new not_le less_imp_le
        split: option.splits if_splits)
  show "r = Some previous \<Longrightarrow> map_of (schedule_runs db) (pid, schedule_key sch) = Some previous \<and> previous < now \<and>
      db1 = set_checkpoint pid (schedule_key sch) now db"
    using assms sdiv60_less by (auto simp: claim_due_run_def Let_def last_checked_at_def not_le split: option.splits if_splits)
qed

lemma schedule_step_ok:
  assumes "schedule_step from_timestamp s t" and "schedules_ok s"
  shows "schedules_ok t"
  using assms
proof (induction rule: schedule_step.induct)
  case (claim pid sch c now seen s previous db1)
  let ?r = "\<lparr>dr_pipeline = pid, dr_schedule = sch, dr_previous = previous, dr_now = now\<rparr>"
  note e = claim_due_run_cases(3)[OF claim.hyps refl]
  from runs_ok_add[of "ss_open s @ ss_built s" "ss_db s" ?r] e claim.prems
  have "runs_ok (?r # ss_open s @ ss_built s) db1" by (simp add: schedules_ok_def run_key_def)
  with claim.prems claim_due_run_cases(1)[OF claim.hyps] show ?case by (simp add: schedules_ok_def)
next
  case (pass pid sch c now seen s db1)
  have "runs_ok (ss_open s @ ss_built s) db1"
    by (rule runs_ok_forward[of _ "ss_db s"])
      (use pass.prems claim_due_run_cases(2)[OF pass.hyps refl] in \<open>auto simp: schedules_ok_def\<close>)
  with pass.prems claim_due_run_cases(1)[OF pass.hyps] show ?case by (simp add: schedules_ok_def)
next
  case (start r s now bid resolve_commit interrupt event_fails answer db1)
  note rows = create_scheduled_rows[OF start.hyps(4)]
  have "runs_ok (remove1 r (ss_open s) @ r # ss_built s) db1"
  proof (rule runs_ok_sub[of "ss_open s @ ss_built s"])
    show "runs_ok (ss_open s @ ss_built s) db1"
      using start.prems rows(1) by (simp add: schedules_ok_def runs_ok_def)
    show "set (remove1 r (ss_open s) @ r # ss_built s) \<subseteq> set (ss_open s @ ss_built s)"
      using start.hyps(1) set_remove1_subset by fastforce
    show "length (covering key secs (remove1 r (ss_open s) @ r # ss_built s)) \<le> length (covering key secs (ss_open s @ ss_built s))" for key secs
      using covering_remove1[OF start.hyps(1), of key secs] by (simp add: covering_def)
  qed
  moreover have "scheduled_since (dr_pipeline r) (dr_now r) (score db1)"
    using rows(3)[OF start.hyps(3,5,2)] .
  ultimately show ?case using start.prems rows(2) by (auto simp: schedules_ok_def)
next
  case (not_started bid s resolve_commit interrupt event_fails now pid sch answer db1)
  note rows = create_scheduled_rows[OF not_started.hyps(2)]
  from not_started.prems rows show ?case by (auto simp: schedules_ok_def runs_ok_def)
next
  case (release r s released db1)
  let ?runs = "ss_open s @ ss_built s"
  have sub: "runs_ok (remove1 r (ss_open s) @ ss_built s) db" if "runs_ok ?runs db" for db
    by (rule runs_ok_sub[OF that]) (use set_remove1_subset in fastforce, simp add: covering_def filter_remove1 length_remove1)
  show ?case
  proof (cases released)
    case False
    with release.hyps(2) have "db1 = ss_db s" by (auto simp: release_claim_def Let_def split: if_splits)
    with sub release.prems show ?thesis by (simp add: schedules_ok_def)
  next
    case True
    with release.hyps(2) have at_now: "map_of (schedule_runs (ss_db s)) (run_key r) = Some (dr_now r)"
      and none: "\<not> scheduled_since (dr_pipeline r) (dr_now r) (score (ss_db s))"
      and db1: "db1 = set_checkpoint (dr_pipeline r) (schedule_key (dr_schedule r)) (dr_previous r) (ss_db s)"
      by (auto simp: release_claim_def Let_def last_checked_at_def run_key_def split: if_splits)
    from none release.prems have "r \<notin> set (ss_built s)" by (auto simp: schedules_ok_def)
    with release.hyps(1) have r: "r \<in> set (ss_open s)" by simp
    then have "remove1 r ?runs = remove1 r (ss_open s) @ ss_built s" by (simp add: remove1_append)
    with runs_ok_release[of ?runs "ss_db s" r] release.prems r at_now
    have "runs_ok (remove1 r (ss_open s) @ ss_built s) db1" by (simp add: schedules_ok_def db1)
    with release.prems show ?thesis by (simp add: schedules_ok_def db1)
  qed
next
  case (give_up s r)
  have "runs_ok (remove1 r (ss_open s) @ ss_built s) (ss_db s)"
    by (rule runs_ok_sub[of "ss_open s @ ss_built s"])
      (use give_up.prems set_remove1_subset in \<open>fastforce simp: schedules_ok_def\<close>, use set_remove1_subset in fastforce,
       simp add: covering_def filter_remove1 length_remove1)
  with give_up.prems show ?case by (simp add: schedules_ok_def)
next
  case (other db1 s)
  then show ?case by (auto simp: schedules_ok_def runs_ok_def)
qed

interpretation schedules: invariant_of "schedule_step from_timestamp" schedules_ok for from_timestamp
  by unfold_locales (rule schedule_step_ok)

text \<open>C16. No minute starts two builds of one schedule. However ticks overlap, builds fail to be recorded
  and claims are handed back, every minute is covered by at most one claim of the schedule
  whose build was inserted.\<close>

theorem scheduled_minute_once:
  assumes "(schedule_step from_timestamp)\<^sup>*\<^sup>* s s'" and "ss_open s = []" and "ss_built s = []"
  shows "length (filter (\<lambda>r. run_key r = key \<and> covers r (60 * m)) (ss_built s')) \<le> 1"
proof -
  from assms(2,3) have "schedules_ok s" by (simp add: schedules_ok_def runs_ok_def covering_def)
  from schedules.run_inv[OF assms(1) this] have "length (covering key (60 * m) (ss_open s' @ ss_built s')) \<le> 1"
    unfolding schedules_ok_def runs_ok_def by blast
  then show ?thesis by (simp add: covering_def)
qed

text \<open>A run that could not start is not lost. When the tick at \<open>now\<close> claims a due run, its build fails with a
  server error and no build of the pipeline was scheduled since, the claim is handed back, and
  any later tick within the catch-up window claims the run again.\<close>

theorem failed_run_claimed_again:
  assumes "claim_due_run from_timestamp pid sch c now (last_checked_at db pid (schedule_key sch)) db = (Some previous, db1)"
    and "\<not> scheduled_since pid now (score db1)" and "0 \<le> previous"
    and "max previous (later - CATCH_UP_SECS) < 60 * m" and "60 * m \<le> now" and "now \<le> later"
    and "from_timestamp (60 * m) = Some t" and "cron_matches c t"
  shows "let db2 = snd (release_claim pid sch previous now db1)
    in fst (claim_due_run from_timestamp pid sch c later (last_checked_at db2 pid (schedule_key sch)) db2) = Some previous"
proof -
  note e = claim_due_run_cases(3)[OF assms(1) refl]
  define db2 where "db2 = snd (release_claim pid sch previous now db1)"
  have "last_checked_at db1 pid (schedule_key sch) = Some now" using e by (simp add: last_checked_at_def map_of_set_checkpoint)
  with assms(2) have "db2 = set_checkpoint pid (schedule_key sch) previous db1"
    by (simp add: db2_def release_claim_def Let_def)
  with e have at: "last_checked_at db2 pid (schedule_key sch) = Some previous" by (simp add: last_checked_at_def map_of_set_checkpoint)
  from assms(4) have "previous < 60 * m" by simp
  then have "previous div 60 < m" by arith
  also have "m \<le> later div 60" using assms(5,6) zdiv_mono1[of "60 * m" later 60] by simp
  finally have "previous div 60 < later div 60" .
  moreover have "x sdiv 60 = x div 60" if "0 \<le> x" for x :: int using that by (simp add: signed_divide_int_def sgn_if)
  ultimately have "\<not> later sdiv 60 \<le> previous sdiv 60" using assms(3-6) by simp
  moreover have "due_between from_timestamp c (max previous (later - CATCH_UP_SECS)) later"
    using assms(3-8) by (subst due_between_iff) auto
  ultimately show ?thesis using at by (simp add: claim_due_run_def Let_def flip: db2_def)
qed

subsection \<open>Examples\<close>

definition every_minute :: Cron where
  "every_minute = \<lparr>minutes = - 1, hours = - 1, days_of_month = - 1, months = - 1, days_of_week = - 1,
     day_of_month_any = True, day_of_week_any = True\<rparr>"

definition sample_schedule :: ScheduleTrigger where
  "sample_schedule = \<lparr>st_cron = ''* * * * *'', st_branch = Some ''main''\<rparr>"

definition sample_core :: daemon where
  "sample_core = empty_core\<lparr>
     pipelines := [\<lparr>pl_id = ''pl'', pl_project_id = ''p'', pl_max_concurrent = None, pl_cancel_previous = False,
       pl_timeout_minutes = 60, pl_approval = \<lparr>ap_required = False, ap_events = [], ap_expires_after_hours = None\<rparr>\<rparr>],
     projects := [\<lparr>p_id = ''p'', p_repository_id = Some ''r'', p_default_branch = None\<rparr>],
     repositories := [\<lparr>sr_id = ''r'', sr_integration_id = ''i'', sr_provider = ScmProvider.Github, sr_full_name = ''o/n''\<rparr>]\<rparr>"

definition sample_db :: "int \<Rightarrow> schedule_db" where
  "sample_db checkpoint = \<lparr>score = sample_core,
     schedule_rows = [\<lparr>sw_id = ''pl'', sw_enabled = True, sw_trigger_config = None, sw_workflow = None, sw_runs_on = []\<rparr>],
     clone_urls = [(''r'', ''https://x/o/n.git'')],
     schedule_runs = [((''pl'', schedule_key sample_schedule), checkpoint)]\<rparr>"

lemma every_minute_matches: "cron_matches every_minute t \<longleftrightarrow> ut_minute t < 64 \<and> ut_hour t < 64 \<and> ut_month t < 64"
  by (simp add: cron_matches_def every_minute_def has_bit_iff bit_minus_1_iff possible_bit_def)

lemma sample_due_claim:
  "claim_due_run sample_calendar ''pl'' sample_schedule every_minute 130 (Some 50) (sample_db 50) =
     (Some 50, set_checkpoint ''pl'' (schedule_key sample_schedule) 130 (sample_db 50))"
proof -
  have "due_between sample_calendar every_minute 50 130"
    by (subst due_between_iff) (auto simp: sample_calendar_def every_minute_matches intro!: exI[of _ 1])
  then show ?thesis
    by (simp add: claim_due_run_def Let_def last_checked_at_def sample_db_def CATCH_UP_SECS_def signed_divide_int_def)
qed

definition sample_run :: due_run where
  "sample_run = \<lparr>dr_pipeline = ''pl'', dr_schedule = sample_schedule, dr_previous = 50, dr_now = 130\<rparr>"

definition sample_start :: "string api_result \<times> schedule_db" where
  "sample_start = create_scheduled_build (\<lambda>_ _. Inr ''abc'') (\<lambda>_. None) False 131 ''b1'' ''pl'' sample_schedule
     (set_checkpoint ''pl'' (schedule_key sample_schedule) 130 (sample_db 50))"

theorem scheduled_minute_once_witness:
  "exists_row (\<lambda>b. b_id b = ''b1'') (builds (score (snd sample_start))) \<and> covers sample_run (60 * 2) \<and>
   length (filter (\<lambda>r. run_key r = run_key sample_run \<and> covers r (60 * 2)) [sample_run]) \<le> 1"
proof -
  let ?db1 = "set_checkpoint ''pl'' (schedule_key sample_schedule) 130 (sample_db 50)"
  define s0 where "s0 = \<lparr>ss_db = sample_db 50, ss_open = [], ss_built = []\<rparr>"
  define s1 where "s1 = \<lparr>ss_db = ?db1, ss_open = [sample_run], ss_built = []\<rparr>"
  define s2 where "s2 = \<lparr>ss_db = snd sample_start, ss_open = [], ss_built = [sample_run]\<rparr>"
  have 1: "schedule_step sample_calendar s0 s1"
    using schedule_step.claim[of sample_calendar "''pl''" sample_schedule every_minute 130 "Some 50" s0 50 ?db1] sample_due_claim
    by (simp add: s0_def s1_def sample_run_def)
  have built: "exists_row (\<lambda>b. b_id b = ''b1'') (builds (score (snd sample_start)))"
    "\<not> exists_row (\<lambda>b. b_id b = ''b1'') (builds (score ?db1))"
    by code_simp+
  have 2: "schedule_step sample_calendar s1 s2"
    using schedule_step.start[of sample_run s1 131 "''b1''" "\<lambda>_ _. Inr ''abc''" "\<lambda>_. None" False "fst sample_start" "snd sample_start" sample_calendar]
      built by (simp add: s1_def s2_def sample_run_def flip: sample_start_def)
  have "(schedule_step sample_calendar)\<^sup>*\<^sup>* s0 s2" using 1 2 by (meson converse_rtranclp_into_rtranclp rtranclp.rtrancl_refl)
  from scheduled_minute_once[OF this, of "run_key sample_run" 2] built(1) show ?thesis
    by (simp add: s0_def s2_def covers_def sample_run_def)
qed

theorem failed_run_claimed_again_witness:
  "fst (claim_due_run sample_calendar ''pl'' sample_schedule every_minute 140
     (last_checked_at (snd (release_claim ''pl'' sample_schedule 50 130 (set_checkpoint ''pl'' (schedule_key sample_schedule) 130 (sample_db 50))))
        ''pl'' (schedule_key sample_schedule))
     (snd (release_claim ''pl'' sample_schedule 50 130 (set_checkpoint ''pl'' (schedule_key sample_schedule) 130 (sample_db 50))))) = Some 50"
proof -
  have c: "claim_due_run sample_calendar ''pl'' sample_schedule every_minute 130
      (last_checked_at (sample_db 50) ''pl'' (schedule_key sample_schedule)) (sample_db 50) =
     (Some 50, set_checkpoint ''pl'' (schedule_key sample_schedule) 130 (sample_db 50))"
    using sample_due_claim by (simp add: last_checked_at_def sample_db_def)
  have n: "\<not> scheduled_since ''pl'' 130 (score (set_checkpoint ''pl'' (schedule_key sample_schedule) 130 (sample_db 50)))"
    by code_simp
  have "cron_matches every_minute (the (sample_calendar 120))" by (simp add: sample_calendar_def every_minute_matches)
  with failed_run_claimed_again[OF c n, of 140 2 "the (sample_calendar 120)"] show ?thesis
    by (simp add: Let_def CATCH_UP_SECS_def sample_calendar_def)
qed

end
