(* ===== verification/Webhook_Events.thy ===== *)
theory Webhook_Events
  imports Build_Store
begin

text \<open>
  What a webhook delivery says: the normalisation of GitHub and GitLab payloads and the decision whether an
  event names a revision that may be built (\<^verbatim>\<open>integrations/webhooks.rs\<close>).

  A payload is a decoded JSON value. Numbers are kept the way \<open>serde_json\<close> keeps them; a float, which no
  id is, carries the text it prints as. The paths given to \<open>pointer\<close> are constants, so they are lists of keys.
\<close>

subsection \<open>JSON values\<close>

datatype json_number = PosInt nat | NegInt int | FloatText string

datatype json =
    JNull | JBool bool | JNum json_number | JStr string | JArr "json list" | JObj "(string \<times> json) list"

fun number_text :: "json_number \<Rightarrow> string" where
  "number_text (PosInt n) = show_nat n"
| "number_text (NegInt i) = show_int i"
| "number_text (FloatText s) = s"

fun jget :: "string \<Rightarrow> json \<Rightarrow> json option" where
  "jget key (JObj members) = map_of members key"
| "jget key _ = None"

fun pointer :: "string list \<Rightarrow> json \<Rightarrow> json option" where
  "pointer [] v = Some v"
| "pointer (key # keys) v = Option.bind (jget key v) (pointer keys)"

fun as_str :: "json \<Rightarrow> string option" where
  "as_str (JStr s) = Some s"
| "as_str _ = None"

fun as_bool :: "json \<Rightarrow> bool option" where
  "as_bool (JBool b) = Some b"
| "as_bool _ = None"

fun as_array :: "json \<Rightarrow> json list option" where
  "as_array (JArr xs) = Some xs"
| "as_array _ = None"

fun as_u64 :: "json \<Rightarrow> nat option" where
  "as_u64 (JNum (PosInt n)) = Some n"
| "as_u64 _ = None"

fun as_i64 :: "json \<Rightarrow> int option" where
  "as_i64 (JNum (PosInt n)) = (if int n < 2 ^ 63 then Some (int n) else None)"
| "as_i64 (JNum (NegInt i)) = Some i"
| "as_i64 _ = None"

text \<open>A member that is a string.\<close>

definition jstr :: "string list \<Rightarrow> json \<Rightarrow> string option" where
  "jstr keys v = Option.bind (pointer keys v) as_str"

definition json_id :: "json option \<Rightarrow> string option" where
  "json_id value =
     (let id = (case value of Some (JStr s) \<Rightarrow> Some s | Some (JNum n) \<Rightarrow> Some (number_text n) | _ \<Rightarrow> None)
      in case id of None \<Rightarrow> None | Some s \<Rightarrow> if trim s = [] then None else Some (trim s))"

definition json_non_empty_string :: "json option \<Rightarrow> string option" where
  "json_non_empty_string value =
     (case Option.bind value as_str of None \<Rightarrow> None | Some s \<Rightarrow> if trim s = [] then None else Some (trim s))"

subsection \<open>Normalised events\<close>

record NormalizedWebhookEvent =
  we_provider :: string
  we_event_type :: string
  we_delivery_id :: string
  we_integration_id :: string
  we_repository_full_name :: "string option"
  we_repository_external_id :: "string option"
  we_source_repository_external_id :: "string option"
  we_target_repository_external_id :: "string option"
  we_action :: "string option"
  we_change_number :: "string option"
  we_branch :: "string option"
  we_tag :: "string option"
  we_commit_sha :: "string option"
  we_previous_commit_sha :: "string option"
  we_changed_files :: "string list option"
  we_compare_base :: "string option"
  we_target_branch :: "string option"
  we_actor :: "string option"
  we_payload :: json

text \<open>All or nothing, as the question mark in a loop over options.\<close>

fun collect_options :: "'a option list \<Rightarrow> 'a list option" where
  "collect_options [] = Some []"
| "collect_options (x # xs) = Option.bind x (\<lambda>a. map_option (\<lambda>as. a # as) (collect_options xs))"

definition commit_files :: "json \<Rightarrow> string list option" where
  "commit_files commit =
     map_option concat (collect_options (map (\<lambda>key.
        Option.bind (jget key commit) (\<lambda>v. Option.bind (as_array v) (\<lambda>xs. collect_options (map as_str xs))))
       [''added'', ''modified'', ''removed'']))"

definition push_changed_files :: "json \<Rightarrow> nat option \<Rightarrow> string list option" where
  "push_changed_files payload total_commits =
     Option.bind (Option.bind (jget ''commits'' payload) as_array)
      (\<lambda>commits.
         if commits = [] \<or> 2048 \<le> length commits \<or> (case total_commits of None \<Rightarrow> False | Some expected \<Rightarrow> length commits < expected)
         then None
         else map_option (\<lambda>files. sort_dedup (concat files)) (collect_options (map commit_files commits)))"

abbreviation only_if :: "bool \<Rightarrow> 'a option \<Rightarrow> 'a option" where
  "only_if c x \<equiv> (if c then x else None)"

definition git_ref :: "json \<Rightarrow> string" where
  "git_ref payload = unwrap_or [] (jstr [''ref''] payload)"

definition normalize_github_event :: "string \<Rightarrow> string \<Rightarrow> string \<Rightarrow> json \<Rightarrow> NormalizedWebhookEvent" where
  "normalize_github_event event_type delivery_id integration_id payload =
     (let push = (event_type = ''push''); pr = (event_type = ''pull_request'') in
     \<lparr>we_provider = ''github'', we_event_type = event_type, we_delivery_id = delivery_id,
      we_integration_id = integration_id,
      we_repository_full_name = jstr [''repository'', ''full_name''] payload,
      we_repository_external_id = json_id (pointer [''repository'', ''id''] payload),
      we_source_repository_external_id = only_if pr (json_id (pointer [''pull_request'', ''head'', ''repo'', ''id''] payload)),
      we_target_repository_external_id = only_if pr (json_id (pointer [''pull_request'', ''base'', ''repo'', ''id''] payload)),
      we_action = only_if pr (json_non_empty_string (jget ''action'' payload)),
      we_change_number = only_if pr (json_id (jget ''number'' payload)),
      we_branch =
        (if push then strip_prefix ''refs/heads/'' (git_ref payload)
         else only_if pr (jstr [''pull_request'', ''head'', ''ref''] payload)),
      we_tag = only_if push (strip_prefix ''refs/tags/'' (git_ref payload)),
      we_commit_sha =
        (if push then jstr [''after''] payload
         else only_if pr (json_non_empty_string (pointer [''pull_request'', ''head'', ''sha''] payload))),
      we_previous_commit_sha = None,
      we_changed_files = only_if push (push_changed_files payload None),
      we_compare_base = only_if pr (json_non_empty_string (pointer [''pull_request'', ''base'', ''sha''] payload)),
      we_target_branch = only_if pr (json_non_empty_string (pointer [''pull_request'', ''base'', ''ref''] payload)),
      we_actor = jstr [''sender'', ''login''] payload,
      we_payload = payload\<rparr>)"

definition normalize_gitlab_event :: "string \<Rightarrow> string \<Rightarrow> string \<Rightarrow> string \<Rightarrow> json \<Rightarrow> NormalizedWebhookEvent" where
  "normalize_gitlab_event event_type delivery_id integration_id repository_full_name payload =
     (let push = (event_type = ''Push Hook''); tag_push = (event_type = ''Tag Push Hook'');
          mr = (event_type = ''Merge Request Hook'');
          attribute = (\<lambda>key. pointer [''object_attributes'', key] payload) in
     \<lparr>we_provider = ''gitlab'', we_event_type = event_type, we_delivery_id = delivery_id,
      we_integration_id = integration_id, we_repository_full_name = Some repository_full_name,
      we_repository_external_id = json_id (pointer [''project'', ''id''] payload),
      we_source_repository_external_id = only_if mr (json_id (attribute ''source_project_id'')),
      we_target_repository_external_id = only_if mr (json_id (attribute ''target_project_id'')),
      we_action = only_if mr (json_non_empty_string (attribute ''action'')),
      we_change_number = only_if mr (json_id (attribute ''iid'')),
      we_branch =
        (if push \<or> tag_push then strip_prefix ''refs/heads/'' (git_ref payload)
         else only_if mr (jstr [''object_attributes'', ''source_branch''] payload)),
      we_tag = only_if tag_push (strip_prefix ''refs/tags/'' (git_ref payload)),
      we_commit_sha =
        (if push \<or> tag_push then jstr [''checkout_sha''] payload
         else only_if mr (json_non_empty_string (pointer [''object_attributes'', ''last_commit'', ''id''] payload))),
      we_previous_commit_sha = only_if mr (json_non_empty_string (attribute ''oldrev'')),
      we_changed_files =
        only_if push (push_changed_files payload (Option.bind (jget ''total_commits_count'' payload) as_u64)),
      we_compare_base = only_if mr (json_non_empty_string (attribute ''target_branch'')),
      we_target_branch = only_if mr (json_non_empty_string (attribute ''target_branch'')),
      we_actor = (case jstr [''user'', ''username''] payload of
                    Some u \<Rightarrow> Some u | None \<Rightarrow> jstr [''user_username''] payload),
      we_payload = payload\<rparr>)"

subsection \<open>Which events name a revision\<close>

datatype WebhookTriggerDecision = Trigger | Ignore string | NotActionable

definition is_ref_deletion :: "json \<Rightarrow> bool" where
  "is_ref_deletion payload \<longleftrightarrow>
     Option.bind (jget ''deleted'' payload) as_bool = Some True \<or>
     (case jstr [''after''] payload of
        None \<Rightarrow> False | Some after \<Rightarrow> after \<noteq> [] \<and> list_all (\<lambda>c. c = CHR ''0'') after)"

definition no_revision :: "string option \<Rightarrow> bool" where
  "no_revision sha \<longleftrightarrow> sha = None \<or> sha = Some []"

text \<open>\<open>registered\<close> answers \<open>registered_target_repository_matches\<close> for the integration of the event.\<close>

definition push_decision :: "(string \<Rightarrow> string \<Rightarrow> bool) \<Rightarrow> NormalizedWebhookEvent \<Rightarrow> WebhookTriggerDecision" where
  "push_decision registered event =
     (if is_ref_deletion (we_payload event) then Ignore ''ref deletion does not introduce a revision''
      else if no_revision (we_commit_sha event) then Ignore ''push has no revision to build''
      else case (we_repository_external_id event, we_repository_full_name event) of
             (Some external_id, Some full_name) \<Rightarrow>
               if registered external_id full_name then Trigger
               else Ignore ''target repository does not match the integration''
           | _ \<Rightarrow> Trigger)"

text \<open>The checks a pull request and a merge request share; \<open>what\<close> names the kind in the messages.\<close>

definition change_decision ::
  "(string \<Rightarrow> string \<Rightarrow> bool) \<Rightarrow> string \<Rightarrow> NormalizedWebhookEvent \<Rightarrow> WebhookTriggerDecision" where
  "change_decision registered what event =
     (if we_change_number event = None \<or> no_revision (we_commit_sha event)
      then Ignore (what @ '' revision identity is incomplete'')
      else case (we_repository_external_id event, we_source_repository_external_id event,
                 we_target_repository_external_id event) of
             (Some repository_id, Some source_id, Some target_id) \<Rightarrow>
               if repository_id \<noteq> target_id then Ignore (what @ '' target repository is ambiguous'')
               else if source_id \<noteq> target_id
               then Ignore (''external-fork '' @ what @ '' revisions are blocked by policy'')
               else (case we_repository_full_name event of
                       None \<Rightarrow> Ignore (what @ '' target repository name is missing'')
                     | Some full_name \<Rightarrow>
                         if registered target_id full_name then Trigger
                         else Ignore ''target repository does not match the integration'')
           | _ \<Rightarrow> Ignore (what @ '' repository identity is incomplete''))"

definition merge_request_revised :: "NormalizedWebhookEvent \<Rightarrow> bool" where
  "merge_request_revised event \<longleftrightarrow>
     we_action event \<in> {Some ''open'', Some ''reopen''} \<or>
     we_action event = Some ''update'' \<and> \<not> no_revision (we_previous_commit_sha event) \<and>
       \<not> no_revision (we_commit_sha event) \<and> we_previous_commit_sha event \<noteq> we_commit_sha event"

definition webhook_trigger_decision ::
  "(string \<Rightarrow> string \<Rightarrow> bool) \<Rightarrow> NormalizedWebhookEvent \<Rightarrow> WebhookTriggerDecision" where
  "webhook_trigger_decision registered event =
     (if we_event_type event \<in> {''push'', ''Push Hook'', ''Tag Push Hook''} then push_decision registered event
      else if we_event_type event = ''pull_request''
      then (if we_action event \<in> {Some ''opened'', Some ''reopened'', Some ''synchronize''}
            then change_decision registered ''pull request'' event
            else Ignore ''pull request action does not introduce a revision'')
      else if we_event_type event = ''Merge Request Hook''
      then (if merge_request_revised event then change_decision registered ''merge request'' event
            else Ignore ''merge request action does not prove a new revision'')
      else NotActionable)"

end
