(* ===== verification/Webhook_Intake.thy ===== *)
theory Webhook_Intake
  imports Webhook_Events Byte_Compare
begin

text \<open>
  Receiving webhook deliveries (\<^verbatim>\<open>integrations/webhooks.rs\<close>): the cache of decrypted webhook secrets, the
  verification of GitHub signatures and GitLab tokens, the check for repeated deliveries and the stored row,
  and the lease of the rows that wait to be processed.

  Parameters are third-party code: JSON decoding, HMAC and SHA-256 in hexadecimal, decryption, and the
  parsing of RFC 3339 timestamps. A header value that is not readable text counts as missing. The stored
  payload is the decoded value. \<open>repo_details\<close> adds to the repositories of the build tables the columns
  only this part reads; the clone URL is the expression the queries select.
\<close>

subsection \<open>Tables\<close>

record integration_row =
  ig_id :: string
  ig_provider :: ScmProvider
  ig_status :: string

record credential_row =
  cr_integration_id :: string
  cr_type :: string
  cr_encrypted_value :: string

record repo_detail =
  rd_external_id :: string
  rd_repo_url :: "string option"

datatype webhook_status = Hook_Received | Hook_Processed | Hook_Ignored | Hook_Failed

record webhook_row =
  wh_id :: string
  wh_integration_id :: string
  wh_delivery_id :: string
  wh_event_type :: string
  wh_payload :: json
  wh_status :: webhook_status
  wh_processing_error :: "string option"
  wh_received_at :: int
  wh_processed_at :: "int option"
  wh_processing_attempts :: int
  wh_processing_started_at :: "int option"
  wh_next_attempt_at :: "int option"

record CachedWebhookSecret =
  cw_integration_id :: string
  cw_repository_id :: "string option"
  cw_repository_external_id :: "string option"
  cw_repository_full_name :: "string option"
  cw_secret :: "8 word list"

record ProviderSecretCache =
  pc_refreshed_at :: int
  pc_entries :: "CachedWebhookSecret list"

datatype WebhookProvider = Hook_Github | Hook_Gitlab

record hook_db =
  hcore :: daemon
  integration_rows :: "integration_row list"
  credential_rows :: "credential_row list"
  repo_details :: "(string \<times> repo_detail) list"
  repository_secrets :: "(string \<times> string) list"
  hook_rows :: "webhook_row list"
  secret_cache :: "WebhookProvider \<Rightarrow> ProviderSecretCache"
  hook_mode :: RuntimeMode
  wake_open :: bool
  wake_pending :: bool

definition MAX_WEBHOOK_BODY_SIZE :: nat where "MAX_WEBHOOK_BODY_SIZE = 1048576"
definition MAX_WEBHOOK_AGE_SECS :: int where "MAX_WEBHOOK_AGE_SECS = 300"
definition WEBHOOK_SECRET_CACHE_TTL_SECS :: int where "WEBHOOK_SECRET_CACHE_TTL_SECS = 60"
definition WEBHOOK_RECOVERY_INTERVAL_SECS :: int where "WEBHOOK_RECOVERY_INTERVAL_SECS = 30"
definition WEBHOOK_PROCESSING_LEASE_SECS :: int where "WEBHOOK_PROCESSING_LEASE_SECS = 5 * 60"
definition MAX_WEBHOOK_PROCESSING_ATTEMPTS :: int where "MAX_WEBHOOK_PROCESSING_ATTEMPTS = 5"

text \<open>The code this part calls and does not contain.\<close>

record hook_env =
  he_from_slice :: "string \<Rightarrow> json option"
  he_hmac_hex :: "8 word list \<Rightarrow> string \<Rightarrow> string"
  he_sha256_hex :: "string \<Rightarrow> string"
  he_decrypt :: "string \<Rightarrow> string option"
  he_parse_rfc3339 :: "string \<Rightarrow> int option"

subsection \<open>Secrets\<close>

definition empty_cache :: ProviderSecretCache where
  "empty_cache = \<lparr>pc_refreshed_at = 0, pc_entries = []\<rparr>"

definition invalidate_webhook_secret_cache :: "WebhookProvider \<Rightarrow> hook_db \<Rightarrow> hook_db" where
  "invalidate_webhook_secret_cache provider db = db\<lparr>secret_cache := (secret_cache db)(provider := empty_cache)\<rparr>"

definition active_integration :: "ScmProvider \<Rightarrow> string \<Rightarrow> hook_db \<Rightarrow> bool" where
  "active_integration provider iid db =
     exists_row (\<lambda>i. ig_id i = iid \<and> ig_provider i = provider \<and> ig_status i = ''active'') (integration_rows db)"

text \<open>The rows of the two queries, decrypted; a secret that cannot be decrypted is left out.\<close>

fun load_secrets :: "(string \<Rightarrow> string option) \<Rightarrow> WebhookProvider \<Rightarrow> hook_db \<Rightarrow> CachedWebhookSecret list" where
  "load_secrets decrypt Hook_Github db =
     List.map_filter (\<lambda>c.
       if active_integration Github (cr_integration_id c) db \<and> cr_type c = ''webhook_secret''
       then map_option (\<lambda>secret. \<lparr>cw_integration_id = cr_integration_id c, cw_repository_id = None,
              cw_repository_external_id = None, cw_repository_full_name = None, cw_secret = as_bytes secret\<rparr>)
              (decrypt (cr_encrypted_value c))
       else None) (credential_rows db)"
| "load_secrets decrypt Hook_Gitlab db =
     List.map_filter (\<lambda>(rid, encrypted).
       case (fetch_optional (\<lambda>r. sr_id r = rid) (repositories (hcore db)), map_of (repo_details db) rid) of
         (Some r, Some d) \<Rightarrow>
           if active_integration Gitlab (sr_integration_id r) db
           then map_option (\<lambda>secret. \<lparr>cw_integration_id = sr_integration_id r, cw_repository_id = Some rid,
                  cw_repository_external_id = Some (rd_external_id d), cw_repository_full_name = Some (sr_full_name r),
                  cw_secret = as_bytes secret\<rparr>) (decrypt encrypted)
           else None
       | _ \<Rightarrow> None) (repository_secrets db)"

definition get_webhook_secrets ::
  "(string \<Rightarrow> string option) \<Rightarrow> int \<Rightarrow> WebhookProvider \<Rightarrow> bool \<Rightarrow> hook_db \<Rightarrow> CachedWebhookSecret list \<times> hook_db" where
  "get_webhook_secrets decrypt now provider force_refresh db =
     (let slot = secret_cache db provider
      in if \<not> force_refresh \<and> now - pc_refreshed_at slot \<le> WEBHOOK_SECRET_CACHE_TTL_SECS then (pc_entries slot, db)
         else
           let entries = load_secrets decrypt provider db
           in (entries, db\<lparr>secret_cache := (secret_cache db)
                 (provider := \<lparr>pc_refreshed_at = now, pc_entries = entries\<rparr>)\<rparr>))"

text \<open>
  The first entry that verifies, after one forced refresh if none of the cached ones does. A refresh
  always builds a new list, so the two are never the same allocation.
\<close>

definition match_secret ::
  "(string \<Rightarrow> string option) \<Rightarrow> int \<Rightarrow> WebhookProvider \<Rightarrow> (CachedWebhookSecret \<Rightarrow> bool) \<Rightarrow> hook_db \<Rightarrow>
   CachedWebhookSecret option \<times> hook_db" where
  "match_secret decrypt now provider verifies db =
     (case get_webhook_secrets decrypt now provider False db of
        (secrets, db1) \<Rightarrow>
          (case find verifies secrets of
             Some c \<Rightarrow> (Some c, db1)
           | None \<Rightarrow>
               (case get_webhook_secrets decrypt now provider True db1 of
                  (refreshed, db2) \<Rightarrow> (find verifies refreshed, db2))))"

definition verify_github_signature :: "(8 word list \<Rightarrow> string \<Rightarrow> string) \<Rightarrow> string \<Rightarrow> string \<Rightarrow> 8 word list \<Rightarrow> bool" where
  "verify_github_signature hmac_hex signature_header body secret =
     (case strip_prefix ''sha256='' signature_header of
        None \<Rightarrow> False
      | Some expected \<Rightarrow> constant_time_eq (as_bytes (hmac_hex secret body)) (as_bytes expected))"

subsection \<open>Storing a delivery\<close>

definition require_remote_mode :: "hook_db \<Rightarrow> unit api_result" where
  "require_remote_mode db = ensure (hook_mode db = Runtime_Remote)
     (ApiError FORBIDDEN ''mode_restricted'' ''Remote mode is required for GitHub/GitLab integrations'')"

text \<open>The wake-up channel holds one signal; a second one is dropped, a closed channel is an error.\<close>

definition wake_webhook_processor :: "hook_db \<Rightarrow> unit api_result \<times> hook_db" where
  "wake_webhook_processor db =
     (if wake_open db then (Inr (), db\<lparr>wake_pending := True\<rparr>)
      else (Inl (ApiError SERVICE_UNAVAILABLE ''webhook_queue_unavailable'' ''Webhook processing is unavailable''), db))"

definition same_delivery :: "string \<Rightarrow> string \<Rightarrow> webhook_row \<Rightarrow> bool" where
  "same_delivery integration_id delivery_id w \<longleftrightarrow>
     wh_integration_id w = integration_id \<and> wh_delivery_id w = delivery_id"

definition received_row :: "string \<Rightarrow> string \<Rightarrow> string \<Rightarrow> string \<Rightarrow> json \<Rightarrow> int \<Rightarrow> webhook_row" where
  "received_row webhook_id integration_id delivery_id event_type payload now =
     \<lparr>wh_id = webhook_id, wh_integration_id = integration_id, wh_delivery_id = delivery_id,
      wh_event_type = event_type, wh_payload = payload, wh_status = Hook_Received, wh_processing_error = None,
      wh_received_at = now, wh_processed_at = None, wh_processing_attempts = 0,
      wh_processing_started_at = None, wh_next_attempt_at = None\<rparr>"

text \<open>The insert, with the primary key and the unique constraint of the table.\<close>

definition store_webhook :: "webhook_row \<Rightarrow> hook_db \<Rightarrow> hook_db api_result" where
  "store_webhook row db =
     (if exists_row (\<lambda>w. wh_id w = wh_id row \<or> same_delivery (wh_integration_id row) (wh_delivery_id row) w) (hook_rows db)
      then Inl (ApiError INTERNAL_SERVER_ERROR ''store_error'' ''Failed to store webhook'')
      else Inr (db\<lparr>hook_rows := hook_rows db @ [row]\<rparr>))"

text \<open>The answer: whether the delivery was a duplicate.\<close>

definition acknowledge :: "bool \<Rightarrow> hook_db \<Rightarrow> bool api_result \<times> hook_db" where
  "acknowledge duplicate db =
     (case wake_webhook_processor db of (r, db1) \<Rightarrow> try_in db1 r (\<lambda>_. (Inr duplicate, db1)))"

definition accept_delivery :: "webhook_row \<Rightarrow> hook_db \<Rightarrow> bool api_result \<times> hook_db" where
  "accept_delivery row db = try_in db (store_webhook row db) (acknowledge False)"

definition check_body :: "hook_env \<Rightarrow> string \<Rightarrow> string option \<Rightarrow> api_error \<Rightarrow> (string \<times> json) api_result" where
  "check_body env body credential missing =
     and_then (ensure (length body \<le> MAX_WEBHOOK_BODY_SIZE)
         (ApiError PAYLOAD_TOO_LARGE ''payload_too_large'' ''Webhook payload exceeds size limit''))
      (\<lambda>_. and_then (ok_or missing credential)
      (\<lambda>c. and_then (ok_or (ApiError BAD_REQUEST ''invalid_payload'' ''Invalid JSON payload'') (he_from_slice env body))
      (\<lambda>payload. Inr (c, payload))))"

definition github_webhook ::
  "hook_env \<Rightarrow> int \<Rightarrow> string \<Rightarrow> (string \<Rightarrow> string option) \<Rightarrow> string \<Rightarrow> hook_db \<Rightarrow> bool api_result \<times> hook_db" where
  "github_webhook env now webhook_id headers body db =
     (let delivery_id = unwrap_or [] (headers ''x-github-delivery'');
          event_type = unwrap_or ''unknown'' (headers ''x-github-event'')
      in try_in db (check_body env body (headers ''x-hub-signature-256'')
           (ApiError UNAUTHORIZED ''missing_signature'' ''X-Hub-Signature-256 header required''))
      (\<lambda>(signature, payload). try_in db (require_remote_mode db)
      (\<lambda>_. case match_secret (he_decrypt env) now Hook_Github
                  (\<lambda>c. verify_github_signature (he_hmac_hex env) signature body (cw_secret c)) db of
        (matched, db1) \<Rightarrow>
          try_in db1 (ok_or (ApiError UNAUTHORIZED ''invalid_signature'' ''Webhook signature verification failed'') matched)
      (\<lambda>c. if delivery_id \<noteq> [] \<and> exists_row (same_delivery (cw_integration_id c) delivery_id) (hook_rows db1)
            then acknowledge True db1
            else accept_delivery (received_row webhook_id (cw_integration_id c) delivery_id event_type payload now) db1))))"

text \<open>GitLab: one secret per repository, and no delivery id of its own when the header is missing.\<close>

definition project_id_text :: "json \<Rightarrow> string option" where
  "project_id_text payload =
     Option.bind (pointer [''project'', ''id''] payload)
      (\<lambda>v. case as_str v of Some s \<Rightarrow> Some s
           | None \<Rightarrow> (case as_i64 v of Some i \<Rightarrow> Some (show_int i) | None \<Rightarrow> map_option show_nat (as_u64 v)))"

definition gitlab_delivery_id :: "hook_env \<Rightarrow> string \<Rightarrow> string \<Rightarrow> string \<Rightarrow> string \<Rightarrow> string" where
  "gitlab_delivery_id env event_uuid integration_id event_type body =
     (if event_uuid = []
      then ''sha256:'' @ he_sha256_hex env (integration_id @ [CHR 0x00] @ event_type @ [CHR 0x00] @ body)
      else event_uuid)"

definition stale_event :: "hook_env \<Rightarrow> int \<Rightarrow> json \<Rightarrow> bool" where
  "stale_event env now payload =
     (case Option.bind (jstr [''created_at''] payload) (he_parse_rfc3339 env) of
        None \<Rightarrow> False | Some event_unix \<Rightarrow> MAX_WEBHOOK_AGE_SECS < now - event_unix)"

definition invalid_token :: api_error where
  "invalid_token = ApiError UNAUTHORIZED ''invalid_token'' ''Webhook token verification failed''"

definition gitlab_webhook ::
  "hook_env \<Rightarrow> int \<Rightarrow> string \<Rightarrow> (string \<Rightarrow> string option) \<Rightarrow> string \<Rightarrow> hook_db \<Rightarrow> bool api_result \<times> hook_db" where
  "gitlab_webhook env now webhook_id headers body db =
     (let event_type = unwrap_or ''unknown'' (headers ''x-gitlab-event'')
      in try_in db (check_body env body (headers ''x-gitlab-token'')
           (ApiError UNAUTHORIZED ''missing_token'' ''X-Gitlab-Token header required''))
      (\<lambda>(gitlab_token, payload). try_in db (require_remote_mode db)
      (\<lambda>_. try_in db (ok_or invalid_token (project_id_text payload))
      (\<lambda>project_id. case match_secret (he_decrypt env) now Hook_Gitlab
                  (\<lambda>c. cw_repository_external_id c = Some project_id \<and>
                       constant_time_eq (as_bytes gitlab_token) (cw_secret c)) db of
        (matched, db1) \<Rightarrow> try_in db1 (ok_or invalid_token matched)
      (\<lambda>c. try_in db1 (ok_or invalid_token (cw_repository_id c))
      (\<lambda>_. try_in db1 (ok_or invalid_token (cw_repository_full_name c))
      (\<lambda>_. let delivery_id = gitlab_delivery_id env (unwrap_or [] (headers ''x-gitlab-event-uuid''))
                (cw_integration_id c) event_type body
            in if exists_row (same_delivery (cw_integration_id c) delivery_id) (hook_rows db1)
               then acknowledge True db1
               else try_in db1 (ensure (\<not> stale_event env now payload)
                      (ApiError BAD_REQUEST ''stale_event'' ''Webhook event is too old''))
      (\<lambda>_. accept_delivery (received_row webhook_id (cw_integration_id c) delivery_id event_type payload now) db1))))))))"

end
