(* ===== verification/Webhook_Queue.thy ===== *)
theory Webhook_Queue
  imports Webhook_Intake
begin

text \<open>
  The queue of stored deliveries (\<^verbatim>\<open>integrations/webhooks.rs\<close>): the lease a worker takes on the oldest
  delivery, the outcomes it records and the sweep over expired leases, as steps in any order; and what
  the two receiving handlers let into the queue.
\<close>

subsection \<open>Leases and outcomes\<close>

definition hook_claimable :: "int \<Rightarrow> webhook_row \<Rightarrow> bool" where
  "hook_claimable now w \<longleftrightarrow>
     wh_status w = Hook_Received \<and> wh_processing_attempts w < MAX_WEBHOOK_PROCESSING_ATTEMPTS \<and>
     (case wh_next_attempt_at w of None \<Rightarrow> True | Some t \<Rightarrow> t \<le> now) \<and>
     (case wh_processing_started_at w of None \<Rightarrow> True | Some t \<Rightarrow> t < now - WEBHOOK_PROCESSING_LEASE_SECS)"

definition update_hooks :: "(webhook_row \<Rightarrow> bool) \<Rightarrow> (webhook_row \<Rightarrow> webhook_row) \<Rightarrow> hook_db \<Rightarrow> hook_db" where
  "update_hooks P f db = db\<lparr>hook_rows := update_where P f (hook_rows db)\<rparr>"

definition claim_next_webhook :: "int \<Rightarrow> hook_db \<Rightarrow> string option \<times> hook_db" where
  "claim_next_webhook now db =
     (case sort_key wh_received_at (filter (hook_claimable now) (hook_rows db)) of
        [] \<Rightarrow> (None, db)
      | w # _ \<Rightarrow>
          (Some (wh_id w),
           update_hooks (\<lambda>x. wh_id x = wh_id w)
             (\<lambda>x. x\<lparr>wh_processing_started_at := Some now, wh_processing_attempts := wh_processing_attempts x + 1\<rparr>) db))"

text \<open>The columns of an outcome: nobody works on the row any more and nobody will.\<close>

definition settled_columns :: "int \<Rightarrow> webhook_status \<Rightarrow> webhook_row \<Rightarrow> webhook_row" where
  "settled_columns now status w = w\<lparr>wh_status := status, wh_processing_started_at := None,
     wh_next_attempt_at := None, wh_processed_at := Some now\<rparr>"

definition lease_exhausted :: "int \<Rightarrow> webhook_row \<Rightarrow> bool" where
  "lease_exhausted now w \<longleftrightarrow>
     wh_status w = Hook_Received \<and> MAX_WEBHOOK_PROCESSING_ATTEMPTS \<le> wh_processing_attempts w \<and>
     (case wh_processing_started_at w of None \<Rightarrow> False | Some t \<Rightarrow> t < now - WEBHOOK_PROCESSING_LEASE_SECS)"

definition fail_exhausted_webhook_leases :: "int \<Rightarrow> hook_db \<Rightarrow> nat \<times> hook_db" where
  "fail_exhausted_webhook_leases now db =
     (rows_affected (lease_exhausted now) (hook_rows db),
      update_hooks (lease_exhausted now)
        (\<lambda>w. settled_columns now Hook_Failed
           (w\<lparr>wh_processing_error := Some (unwrap_or ''processing lease expired'' (wh_processing_error w))\<rparr>)) db)"

definition unsettled :: "string \<Rightarrow> webhook_row \<Rightarrow> bool" where
  "unsettled webhook_id w \<longleftrightarrow> wh_id w = webhook_id \<and> wh_status w = Hook_Received"

definition retry_columns :: "int \<Rightarrow> string \<Rightarrow> webhook_row \<Rightarrow> webhook_row" where
  "retry_columns now message w =
     (let w1 = w\<lparr>wh_processing_error := Some message\<rparr>
      in if MAX_WEBHOOK_PROCESSING_ATTEMPTS \<le> wh_processing_attempts w then settled_columns now Hook_Failed w1
         else w1\<lparr>wh_processing_started_at := None,
                 wh_next_attempt_at := Some (now + WEBHOOK_RECOVERY_INTERVAL_SECS), wh_processed_at := None\<rparr>)"

definition record_webhook_processing_error :: "int \<Rightarrow> string \<Rightarrow> string \<Rightarrow> hook_db \<Rightarrow> hook_db" where
  "record_webhook_processing_error now webhook_id message =
     update_hooks (unsettled webhook_id) (retry_columns now message)"

text \<open>The three outcomes \<open>process_webhook_event\<close> records; a processed row keeps an earlier error.\<close>

definition mark_ignored :: "int \<Rightarrow> string \<Rightarrow> string \<Rightarrow> hook_db \<Rightarrow> hook_db" where
  "mark_ignored now webhook_id reason =
     update_hooks (unsettled webhook_id) (\<lambda>w. settled_columns now Hook_Ignored (w\<lparr>wh_processing_error := Some reason\<rparr>))"

definition mark_failed :: "int \<Rightarrow> string \<Rightarrow> string \<Rightarrow> hook_db \<Rightarrow> hook_db" where
  "mark_failed now webhook_id message =
     update_hooks (unsettled webhook_id) (\<lambda>w. settled_columns now Hook_Failed (w\<lparr>wh_processing_error := Some message\<rparr>))"

definition mark_processed :: "int \<Rightarrow> string \<Rightarrow> hook_db \<Rightarrow> hook_db" where
  "mark_processed now webhook_id = update_hooks (unsettled webhook_id) (settled_columns now Hook_Processed)"

subsection \<open>Every order of steps\<close>

inductive hook_step :: "hook_db \<Rightarrow> hook_db \<Rightarrow> bool" where
  deliver: "store_webhook (received_row wid iid did event payload now) db = Inr db' \<Longrightarrow> hook_step db db'"
| claim: "claim_next_webhook now db = (taken, db') \<Longrightarrow> hook_step db db'"
| expire: "fail_exhausted_webhook_leases now db = (n, db') \<Longrightarrow> hook_step db db'"
| error: "hook_step db (record_webhook_processing_error now wid message db)"
| ignored: "hook_step db (mark_ignored now wid reason db)"
| failed: "hook_step db (mark_failed now wid message db)"
| processed: "hook_step db (mark_processed now wid db)"
| other: "hook_rows db' = hook_rows db \<Longrightarrow> hook_step db db'"

definition hook_ok :: "webhook_row \<Rightarrow> bool" where
  "hook_ok w \<longleftrightarrow>
     0 \<le> wh_processing_attempts w \<and> wh_processing_attempts w \<le> MAX_WEBHOOK_PROCESSING_ATTEMPTS \<and>
     (if wh_status w = Hook_Received
      then wh_processed_at w = None \<and>
        (wh_processing_attempts w = MAX_WEBHOOK_PROCESSING_ATTEMPTS \<longrightarrow> wh_processing_started_at w \<noteq> None)
      else wh_processed_at w \<noteq> None \<and> wh_processing_started_at w = None \<and> wh_next_attempt_at w = None)"

definition hook_key :: "webhook_row \<Rightarrow> string \<times> string" where
  "hook_key w = (wh_integration_id w, wh_delivery_id w)"

definition hooks_ok :: "hook_db \<Rightarrow> bool" where
  "hooks_ok db \<longleftrightarrow> distinct (map wh_id (hook_rows db)) \<and> distinct (map hook_key (hook_rows db)) \<and>
     list_all hook_ok (hook_rows db)"

text \<open>A settled delivery stays as it is; an unsettled one keeps what was received and its attempts only grow.\<close>

definition hook_later :: "webhook_row \<Rightarrow> webhook_row \<Rightarrow> bool" where
  "hook_later w w' \<longleftrightarrow>
     wh_id w' = wh_id w \<and> hook_key w' = hook_key w \<and> wh_event_type w' = wh_event_type w \<and>
     wh_payload w' = wh_payload w \<and> wh_processing_attempts w \<le> wh_processing_attempts w' \<and>
     (wh_status w \<noteq> Hook_Received \<longrightarrow> w' = w)"

definition hooks_kept :: "hook_db \<Rightarrow> hook_db \<Rightarrow> bool" where
  "hooks_kept db db' \<longleftrightarrow> (\<forall>w \<in> set (hook_rows db). \<exists>w' \<in> set (hook_rows db'). hook_later w w')"

lemma hook_later_trans: "hook_later a b \<Longrightarrow> hook_later b c \<Longrightarrow> hook_later a c"
  by (auto simp: hook_later_def)

lemma updated_row: "r \<in> set rows \<Longrightarrow> (if P r then f r else r) \<in> set (update_where P f rows)"
  by (auto simp: update_where_def)

text \<open>Every update of the queue is one of rows still received, and keeps each of them well formed.\<close>

lemma update_hooks_ok:
  assumes "hooks_ok db"
    and "\<And>w. w \<in> set (hook_rows db) \<Longrightarrow> P w \<Longrightarrow> hook_ok w \<Longrightarrow> hook_ok (f w) \<and> hook_later w (f w)"
    and same: "\<And>w. wh_id (f w) = wh_id w \<and> hook_key (f w) = hook_key w"
  shows "hooks_ok (update_hooks P f db) \<and> hooks_kept db (update_hooks P f db)"
proof -
  have "map wh_id (update_where P f rows) = map wh_id rows" "map hook_key (update_where P f rows) = map hook_key rows" for rows
    by (rule map_update_where_same, simp add: same)+
  with assms(1,2) have "hooks_ok (update_hooks P f db)"
    by (auto simp: hooks_ok_def update_hooks_def list_all_iff ball_update_where)
  moreover have "hook_later w (if P w then f w else w)" if "w \<in> set (hook_rows db)" for w
    using assms(1,2) that by (simp add: hooks_ok_def list_all_iff hook_later_def)
  then have "hooks_kept db (update_hooks P f db)"
    unfolding hooks_kept_def update_hooks_def by (auto intro: bexI[OF _ updated_row])
  ultimately show ?thesis ..
qed

lemmas hook_columns = hook_ok_def hook_later_def hook_key_def settled_columns_def unsettled_def

lemma hook_step_ok:
  assumes step: "hook_step db db'" and ok: "hooks_ok db"
  shows "hooks_ok db' \<and> hooks_kept db db'"
  using step
proof cases
  case (deliver wid iid did event payload now)
  then have fresh: "wid \<notin> wh_id ` set (hook_rows db)" "(iid, did) \<notin> hook_key ` set (hook_rows db)"
    and db': "db' = db\<lparr>hook_rows := hook_rows db @ [received_row wid iid did event payload now]\<rparr>"
    by (auto simp: store_webhook_def exists_row_iff received_row_def same_delivery_def hook_key_def split: if_splits)
  then show ?thesis using ok
    by (auto simp: hooks_ok_def hooks_kept_def received_row_def hook_columns MAX_WEBHOOK_PROCESSING_ATTEMPTS_def)
next
  case (claim now taken)
  show ?thesis
  proof (cases "sort_key wh_received_at (filter (hook_claimable now) (hook_rows db))")
    case Nil
    with claim ok show ?thesis by (auto simp: claim_next_webhook_def hooks_kept_def hook_later_def)
  next
    case (Cons w ws)
    then have "w \<in> set (sort_key wh_received_at (filter (hook_claimable now) (hook_rows db)))" by simp
    then have w: "w \<in> set (hook_rows db)" "hook_claimable now w" by simp_all
    with ok have "x = w" if "x \<in> set (hook_rows db)" "wh_id x = wh_id w" for x
      using that by (metis hooks_ok_def key_unique)
    with w(2) have *: "hook_claimable now x" if "x \<in> set (hook_rows db)" "wh_id x = wh_id w" for x using that by blast
    from claim Cons have "db' = update_hooks (\<lambda>x. wh_id x = wh_id w)
       (\<lambda>x. x\<lparr>wh_processing_started_at := Some now, wh_processing_attempts := wh_processing_attempts x + 1\<rparr>) db"
      by (simp add: claim_next_webhook_def)
    then show ?thesis by (simp only:) (rule update_hooks_ok[OF ok], auto dest: * simp: hook_columns hook_claimable_def)
  qed
next
  case (expire now n)
  then have db': "db' = snd (fail_exhausted_webhook_leases now db)" by simp
  show ?thesis unfolding db' fail_exhausted_webhook_leases_def snd_conv
    by (rule update_hooks_ok[OF ok]) (auto simp: hook_columns lease_exhausted_def)
next
  case (error now wid message)
  show ?thesis unfolding error record_webhook_processing_error_def
    by (rule update_hooks_ok[OF ok]) (auto simp: hook_columns retry_columns_def Let_def)
next
  case (ignored now wid reason)
  show ?thesis unfolding ignored mark_ignored_def by (rule update_hooks_ok[OF ok]) (auto simp: hook_columns)
next
  case (failed now wid message)
  show ?thesis unfolding failed mark_failed_def by (rule update_hooks_ok[OF ok]) (auto simp: hook_columns)
next
  case (processed now wid)
  show ?thesis unfolding processed mark_processed_def by (rule update_hooks_ok[OF ok]) (auto simp: hook_columns)
next
  case other
  with ok show ?thesis by (auto simp: hooks_ok_def hooks_kept_def hook_later_def)
qed

interpretation deliveries: progress_of hook_step hooks_ok hooks_kept
proof
  show "hooks_ok t" if "hook_step s t" "hooks_ok s" for s t using hook_step_ok[OF that] ..
  show "hooks_kept s t" if "hooks_ok s" "hook_step s t" for s t using hook_step_ok[OF that(2,1)] ..
  show "hooks_kept s s" for s by (auto simp: hooks_kept_def hook_later_def)
  show "hooks_kept s u" if "hooks_kept s t" "hooks_kept t u" for s t u
    using that unfolding hooks_kept_def by (meson hook_later_trans)
qed

subsection \<open>What the queue guarantees\<close>

lemma claim_takes_oldest:
  assumes "w \<in> set (hook_rows db)" and "hook_claimable now w"
  shows "\<exists>c \<in> set (hook_rows db). fst (claim_next_webhook now db) = Some (wh_id c) \<and> hook_claimable now c \<and>
    wh_received_at c \<le> wh_received_at w"
proof -
  let ?q = "sort_key wh_received_at (filter (hook_claimable now) (hook_rows db))"
  have "w \<in> set ?q" using assms by simp
  then obtain c cs where q: "?q = c # cs" by (cases ?q) auto
  have "sorted (map wh_received_at ?q)" by simp
  with q \<open>w \<in> set ?q\<close> have "wh_received_at c \<le> wh_received_at w" by auto
  moreover have "c \<in> set ?q" unfolding q by simp
  then have "c \<in> set (hook_rows db)" "hook_claimable now c" by simp_all
  ultimately show ?thesis using q by (intro bexI[of _ c]) (simp_all add: claim_next_webhook_def)
qed

lemma exhausted_fails:
  assumes "w \<in> set (hook_rows db)" and "lease_exhausted now w"
  shows "\<exists>c \<in> set (hook_rows (snd (fail_exhausted_webhook_leases now db))). wh_id c = wh_id w \<and> wh_status c = Hook_Failed"
proof -
  have "(if lease_exhausted now w then f w else w) = f w" for f :: "webhook_row \<Rightarrow> webhook_row" using assms(2) by simp
  then have "f w \<in> set (update_where (lease_exhausted now) f (hook_rows db))" for f
    using updated_row[OF assms(1), of "lease_exhausted now" f] by simp
  then show ?thesis
    unfolding fail_exhausted_webhook_leases_def update_hooks_def
    by (intro bexI[where x = "settled_columns now Hook_Failed (w\<lparr>wh_processing_error :=
        Some (unwrap_or ''processing lease expired'' (wh_processing_error w))\<rparr>)"]) (simp_all add: settled_columns_def)
qed

text \<open>C23. The queue neither loses nor repeats a delivery. Whatever the workers, the sweeps and the receivers do in any
  order, a delivery of an integration is stored once, what was received never changes, no delivery
  is claimed more than five times, and one that was settled stays exactly as it was settled; and a delivery
  that is not settled never gets stuck: once its retry time is reached and its lease has run out, either
  the next claim takes it or one that is at least as old, or the sweep marks it failed.\<close>

theorem deliveries_settle:
  assumes "hooks_ok db" and "hook_step\<^sup>*\<^sup>* db db'"
    and w: "w \<in> set (hook_rows db')" "wh_status w = Hook_Received"
    and lease: "\<And>t. wh_processing_started_at w = Some t \<Longrightarrow> t + 300 < now"
    and retry: "\<And>t. wh_next_attempt_at w = Some t \<Longrightarrow> t \<le> now"
  shows "distinct (map hook_key (hook_rows db')) \<and>
    (\<forall>x \<in> set (hook_rows db'). wh_processing_attempts x \<le> 5) \<and>
    (\<forall>x \<in> set (hook_rows db). \<exists>x' \<in> set (hook_rows db'). hook_later x x') \<and>
    ((\<exists>c \<in> set (hook_rows db'). fst (claim_next_webhook now db') = Some (wh_id c) \<and>
        wh_received_at c \<le> wh_received_at w) \<or>
     (\<exists>c \<in> set (hook_rows (snd (fail_exhausted_webhook_leases now db'))).
        wh_id c = wh_id w \<and> wh_status c = Hook_Failed))"
proof -
  have ok: "hooks_ok db'" using deliveries.run_inv[OF assms(2,1)] .
  then have "distinct (map hook_key (hook_rows db'))" "\<forall>x \<in> set (hook_rows db'). wh_processing_attempts x \<le> 5"
    by (auto simp: hooks_ok_def list_all_iff hook_ok_def MAX_WEBHOOK_PROCESSING_ATTEMPTS_def)
  moreover have "\<forall>x \<in> set (hook_rows db). \<exists>x' \<in> set (hook_rows db'). hook_later x x'"
    using deliveries.run_rel[OF assms(2,1)] by (simp add: hooks_kept_def)
  moreover have "hook_claimable now w \<or> lease_exhausted now w"
    using ok w lease retry
    by (force simp: hooks_ok_def list_all_iff hook_ok_def hook_claimable_def lease_exhausted_def
        WEBHOOK_PROCESSING_LEASE_SECS_def split: option.splits)
  then have "(\<exists>c \<in> set (hook_rows db'). fst (claim_next_webhook now db') = Some (wh_id c) \<and>
        wh_received_at c \<le> wh_received_at w) \<or>
     (\<exists>c \<in> set (hook_rows (snd (fail_exhausted_webhook_leases now db'))).
        wh_id c = wh_id w \<and> wh_status c = Hook_Failed)"
    using claim_takes_oldest[OF w(1)] exhausted_fails[OF w(1)] by blast
  ultimately show ?thesis by blast
qed

subsection \<open>What is let into the queue\<close>

lemma verify_github_signature_iff:
  "verify_github_signature hmac_hex header body secret \<longleftrightarrow> header = ''sha256='' @ hmac_hex secret body"
proof (cases "strip_prefix ''sha256='' header")
  case None
  then have "header \<noteq> ''sha256='' @ t" for t using strip_prefix_Some[of "''sha256=''" header] by auto
  with None show ?thesis unfolding verify_github_signature_def by simp
next
  case (Some expected)
  then have "header = ''sha256='' @ expected" by (simp only: strip_prefix_Some)
  with Some show ?thesis unfolding verify_github_signature_def by (auto simp: constant_time_eq_iff as_bytes_inj)
qed

text \<open>The secrets a request may be verified with: cached for at most a minute, or read for it.\<close>

definition known_secret :: "(string \<Rightarrow> string option) \<Rightarrow> int \<Rightarrow> WebhookProvider \<Rightarrow> hook_db \<Rightarrow> CachedWebhookSecret \<Rightarrow> bool" where
  "known_secret decrypt now provider db c \<longleftrightarrow>
     c \<in> set (load_secrets decrypt provider db) \<or>
     c \<in> set (pc_entries (secret_cache db provider)) \<and> now - pc_refreshed_at (secret_cache db provider) \<le> 60"

lemma load_secrets_cache [simp]:
  "load_secrets decrypt provider (db\<lparr>secret_cache := x\<rparr>) = load_secrets decrypt provider db"
  by (cases provider) (simp_all add: active_integration_def cong: option.case_cong if_cong)

lemma match_secret_known:
  assumes "match_secret decrypt now provider verifies db = (m, db1)"
  shows "hook_rows db1 = hook_rows db" and "m = Some c \<Longrightarrow> verifies c \<and> known_secret decrypt now provider db c"
proof -
  have rows: "hook_rows (snd (get_webhook_secrets decrypt now provider force d)) = hook_rows d" for force d
    by (simp add: get_webhook_secrets_def Let_def)
  then show "hook_rows db1 = hook_rows db"
    using assms by (auto simp: match_secret_def split: prod.splits option.splits) (metis snd_conv)+
  have first: "set (fst (get_webhook_secrets decrypt now provider False db)) \<subseteq> Collect (known_secret decrypt now provider db)"
    by (auto simp: get_webhook_secrets_def Let_def known_secret_def WEBHOOK_SECRET_CACHE_TTL_SECS_def)
  have second: "fst (get_webhook_secrets decrypt now provider True (snd (get_webhook_secrets decrypt now provider False db))) =
      load_secrets decrypt provider db"
    by (simp add: get_webhook_secrets_def Let_def)
  assume "m = Some c"
  with assms consider "find verifies (fst (get_webhook_secrets decrypt now provider False db)) = Some c"
    | "find verifies (fst (get_webhook_secrets decrypt now provider True (snd (get_webhook_secrets decrypt now provider False db)))) = Some c"
    by (auto simp: match_secret_def split: prod.splits option.splits)
  then show "verifies c \<and> known_secret decrypt now provider db c"
  proof cases
    case 1
    with first show ?thesis by (auto simp: find_Some_iff dest!: subsetD[OF _ nth_mem])
  next
    case 2
    then show ?thesis unfolding second by (auto simp: find_Some_iff known_secret_def)
  qed
qed

lemma accepted_rows:
  assumes "w \<in> set (hook_rows (snd (accept_delivery row db)))"
  shows "w \<in> set (hook_rows db) \<or> w = row \<and> \<not> exists_row (same_delivery (wh_integration_id row) (wh_delivery_id row)) (hook_rows db)"
  using assms
  by (auto simp: accept_delivery_def acknowledge_def wake_webhook_processor_def store_webhook_def try_in_def
      exists_row_iff split: if_splits)

lemma acknowledged_rows [simp]: "hook_rows (snd (acknowledge d db)) = hook_rows db"
  by (simp add: acknowledge_def wake_webhook_processor_def)

lemma check_body_Inr:
  "check_body env body credential missing = Inr (c, payload) \<longleftrightarrow>
     length body \<le> MAX_WEBHOOK_BODY_SIZE \<and> credential = Some c \<and> he_from_slice env body = Some payload"
  by (auto simp: check_body_def and_then_eq_Inr ok_or_eq_Inr)

text \<open>What a handler added to the queue, once it got past its checks.\<close>

lemma new_github_row:
  assumes "w \<in> set (hook_rows (snd (github_webhook env now wid headers body db)))" and "w \<notin> set (hook_rows db)"
  obtains signature c where "check_body env body (headers ''x-hub-signature-256'')
      (ApiError UNAUTHORIZED ''missing_signature'' ''X-Hub-Signature-256 header required'') = Inr (signature, wh_payload w)"
    and "hook_mode db = Runtime_Remote" and "known_secret (he_decrypt env) now Hook_Github db c"
    and "signature = ''sha256='' @ he_hmac_hex env (cw_secret c) body" and "wh_integration_id w = cw_integration_id c"
    and "\<not> exists_row (same_delivery (wh_integration_id w) (wh_delivery_id w)) (hook_rows db)"
proof -
  let ?missing = "ApiError UNAUTHORIZED ''missing_signature'' ''X-Hub-Signature-256 header required''"
  let ?verifies = "\<lambda>signature c. verify_github_signature (he_hmac_hex env) signature body (cw_secret c)"
  obtain signature payload where body: "check_body env body (headers ''x-hub-signature-256'') ?missing = Inr (signature, payload)"
    and mode: "hook_mode db = Runtime_Remote"
    using assms by (cases "check_body env body (headers ''x-hub-signature-256'') ?missing")
      (auto simp: github_webhook_def require_remote_mode_def ensure_def split: if_splits)
  obtain m db1 where m: "match_secret (he_decrypt env) now Hook_Github (?verifies signature) db = (m, db1)" by fastforce
  note known = match_secret_known[OF m]
  from assms body mode m known(1) obtain c where c: "m = Some c"
    by (cases m) (auto simp: github_webhook_def require_remote_mode_def Let_def)
  let ?row = "received_row wid (cw_integration_id c) (unwrap_or [] (headers ''x-github-delivery''))
    (unwrap_or ''unknown'' (headers ''x-github-event'')) payload now"
  from assms body mode m c known(1) have "w \<in> set (hook_rows (snd (accept_delivery ?row db1)))" "w \<notin> set (hook_rows db1)"
    by (auto simp: github_webhook_def require_remote_mode_def Let_def split: if_splits)
  with accepted_rows[of w ?row db1] have w: "w = ?row"
    "\<not> exists_row (same_delivery (wh_integration_id ?row) (wh_delivery_id ?row)) (hook_rows db1)" by blast+
  show thesis
    using that[of signature c] body mode w known(1) known(2)[OF c] verify_github_signature_iff
    by (simp add: received_row_def)
qed

lemma new_gitlab_row:
  assumes "w \<in> set (hook_rows (snd (gitlab_webhook env now wid headers body db)))" and "w \<notin> set (hook_rows db)"
  obtains gitlab_token project_id c where "check_body env body (headers ''x-gitlab-token'')
      (ApiError UNAUTHORIZED ''missing_token'' ''X-Gitlab-Token header required'') = Inr (gitlab_token, wh_payload w)"
    and "hook_mode db = Runtime_Remote" and "known_secret (he_decrypt env) now Hook_Gitlab db c"
    and "cw_secret c = as_bytes gitlab_token" and "project_id_text (wh_payload w) = Some project_id"
    and "cw_repository_external_id c = Some project_id" and "wh_integration_id w = cw_integration_id c"
    and "\<not> exists_row (same_delivery (wh_integration_id w) (wh_delivery_id w)) (hook_rows db)"
proof -
  let ?missing = "ApiError UNAUTHORIZED ''missing_token'' ''X-Gitlab-Token header required''"
  let ?verifies = "\<lambda>project_id gitlab_token c. cw_repository_external_id c = Some project_id \<and>
    constant_time_eq (as_bytes gitlab_token) (cw_secret c)"
  obtain gitlab_token payload where body: "check_body env body (headers ''x-gitlab-token'') ?missing = Inr (gitlab_token, payload)"
    and mode: "hook_mode db = Runtime_Remote"
    using assms by (cases "check_body env body (headers ''x-gitlab-token'') ?missing")
      (auto simp: gitlab_webhook_def require_remote_mode_def ensure_def split: if_splits)
  from assms body mode obtain project_id where project: "project_id_text payload = Some project_id"
    by (cases "project_id_text payload") (auto simp: gitlab_webhook_def require_remote_mode_def Let_def)
  obtain m db1 where m: "match_secret (he_decrypt env) now Hook_Gitlab (?verifies project_id gitlab_token) db = (m, db1)" by fastforce
  note known = match_secret_known[OF m]
  from assms body mode project m known(1) obtain c where c: "m = Some c"
    by (cases m) (auto simp: gitlab_webhook_def require_remote_mode_def Let_def)
  obtain row where row: "wh_payload row = payload" "wh_integration_id row = cw_integration_id c"
    and in_row: "w \<in> set (hook_rows (snd (accept_delivery row db1)))" "w \<notin> set (hook_rows db1)"
    using assms body mode project m c known(1)
    by (cases "cw_repository_id c"; cases "cw_repository_full_name c")
      (force simp: gitlab_webhook_def require_remote_mode_def Let_def ensure_def received_row_def split: if_splits)+
  with accepted_rows[of w row db1] have w: "w = row"
    "\<not> exists_row (same_delivery (wh_integration_id row) (wh_delivery_id row)) (hook_rows db1)" by blast+
  show thesis
    using that[of gitlab_token c project_id] body mode project row w known(1) known(2)[OF c]
    by (simp add: constant_time_eq_iff)
qed

text \<open>C24. Only verified deliveries enter the queue. A delivery either handler added came in remote mode in a body of
  at most a mebibyte, was not stored before, and carries the decoded body. From GitHub its signature is the
  HMAC of that body under a webhook secret of the integration it is stored for; from GitLab its token is
  the secret of the very repository the payload names. The secret was read at that request or cached no longer
  than a minute.\<close>

theorem deliveries_verified:
  assumes "handler = github_webhook \<and> provider = Hook_Github \<or> handler = gitlab_webhook \<and> provider = Hook_Gitlab"
    and "w \<in> set (hook_rows (snd (handler env now wid headers body db)))" and "w \<notin> set (hook_rows db)"
  shows "\<exists>c. known_secret (he_decrypt env) now provider db c \<and> wh_integration_id w = cw_integration_id c \<and>
    hook_mode db = Runtime_Remote \<and> length body \<le> 1048576 \<and> he_from_slice env body = Some (wh_payload w) \<and>
    \<not> exists_row (same_delivery (wh_integration_id w) (wh_delivery_id w)) (hook_rows db) \<and>
    (if provider = Hook_Github
     then headers ''x-hub-signature-256'' = Some (''sha256='' @ he_hmac_hex env (cw_secret c) body)
     else cw_repository_external_id c = project_id_text (wh_payload w) \<and>
       map_option as_bytes (headers ''x-gitlab-token'') = Some (cw_secret c))"
  using assms(1)
proof
  assume h: "handler = github_webhook \<and> provider = Hook_Github"
  with assms(2,3) show ?thesis
    by - (rule new_github_row[of w env now wid headers body db],
      auto simp: check_body_Inr MAX_WEBHOOK_BODY_SIZE_def)
next
  assume h: "handler = gitlab_webhook \<and> provider = Hook_Gitlab"
  with assms(2,3) show ?thesis
    by - (rule new_gitlab_row[of w env now wid headers body db],
      auto simp: check_body_Inr MAX_WEBHOOK_BODY_SIZE_def)
qed

subsection \<open>Witnesses\<close>

definition sample_payload :: json where
  "sample_payload = JObj [(''ref'', JStr ''refs/heads/main''), (''after'', JStr ''abc''),
     (''repository'', JObj [(''id'', JNum (PosInt 7)), (''full_name'', JStr ''acme/app'')])]"

definition sample_hook_env :: hook_env where
  "sample_hook_env = \<lparr>he_from_slice = (\<lambda>b. if b = ''push'' then Some sample_payload else None),
     he_hmac_hex = (\<lambda>secret body. if secret = as_bytes ''s3cret'' then ''5f'' else ''00''), he_sha256_hex = (\<lambda>b. ''aa''),
     he_decrypt = Some, he_parse_rfc3339 = (\<lambda>_. None)\<rparr>"

definition sample_hooks :: hook_db where
  "sample_hooks = \<lparr>hcore = empty_core, integration_rows = [\<lparr>ig_id = ''i1'', ig_provider = Github, ig_status = ''active''\<rparr>],
     credential_rows = [\<lparr>cr_integration_id = ''i1'', cr_type = ''webhook_secret'', cr_encrypted_value = ''s3cret''\<rparr>],
     repo_details = [], repository_secrets = [], hook_rows = [], secret_cache = (\<lambda>_. empty_cache),
     hook_mode = Runtime_Remote, wake_open = True, wake_pending = False\<rparr>"

definition sample_headers :: "string \<Rightarrow> string option" where
  "sample_headers = map_of [(''x-hub-signature-256'', ''sha256=5f''), (''x-github-delivery'', ''d1''), (''x-github-event'', ''push'')]"

lemma sample_delivery:
  "hook_rows (snd (github_webhook sample_hook_env 1000 ''w1'' sample_headers ''push'' sample_hooks)) =
     [received_row ''w1'' ''i1'' ''d1'' ''push'' sample_payload 1000]"
proof -
  have hmac: "verify_github_signature (he_hmac_hex sample_hook_env) ''sha256=5f'' ''push'' (as_bytes ''s3cret'')"
    by (simp add: verify_github_signature_iff sample_hook_env_def)
  have "fst (get_webhook_secrets Some 1000 Hook_Github False sample_hooks) =
      [\<lparr>cw_integration_id = ''i1'', cw_repository_id = None, cw_repository_external_id = None,
        cw_repository_full_name = None, cw_secret = as_bytes ''s3cret''\<rparr>]"
    by (simp add: get_webhook_secrets_def Let_def sample_hooks_def empty_cache_def WEBHOOK_SECRET_CACHE_TTL_SECS_def
        active_integration_def exists_row_iff map_filter_simps)
  then have match: "fst (match_secret (he_decrypt sample_hook_env) 1000 Hook_Github
      (\<lambda>c. verify_github_signature (he_hmac_hex sample_hook_env) ''sha256=5f'' ''push'' (cw_secret c)) sample_hooks) =
      Some \<lparr>cw_integration_id = ''i1'', cw_repository_id = None, cw_repository_external_id = None,
        cw_repository_full_name = None, cw_secret = as_bytes ''s3cret''\<rparr>" (is "fst ?m = Some ?c")
    by (cases "get_webhook_secrets Some 1000 Hook_Github False sample_hooks")
      (simp add: match_secret_def sample_hook_env_def[THEN arg_cong, of he_decrypt, simplified] hmac)
  obtain db1 where m: "?m = (Some ?c, db1)" using match by (cases ?m) simp
  then have "hook_rows db1 = []" using match_secret_known(1)[OF m] by (simp add: sample_hooks_def)
  moreover have "check_body sample_hook_env ''push'' (sample_headers ''x-hub-signature-256'') e = Inr (''sha256=5f'', sample_payload)" for e
    by (simp add: check_body_Inr sample_headers_def sample_hook_env_def MAX_WEBHOOK_BODY_SIZE_def)
  moreover have "require_remote_mode sample_hooks = Inr ()" by (simp add: require_remote_mode_def sample_hooks_def)
  ultimately show ?thesis using m
    by (simp add: github_webhook_def Let_def exists_row_iff sample_headers_def accept_delivery_def acknowledge_def
        wake_webhook_processor_def store_webhook_def)
qed

theorem deliveries_verified_witness:
  "\<exists>c. known_secret (he_decrypt sample_hook_env) 1000 Hook_Github sample_hooks c \<and> ''i1'' = cw_integration_id c \<and>
     sample_headers ''x-hub-signature-256'' = Some (''sha256='' @ he_hmac_hex sample_hook_env (cw_secret c) ''push'')"
  using deliveries_verified[of github_webhook Hook_Github "received_row ''w1'' ''i1'' ''d1'' ''push'' sample_payload 1000"
    sample_hook_env 1000 "''w1''" sample_headers "''push''" sample_hooks, unfolded sample_delivery]
  by (auto simp: sample_hooks_def received_row_def)

definition sample_queue :: hook_db where
  "sample_queue = sample_hooks\<lparr>hook_rows := [received_row ''w1'' ''i1'' ''d1'' ''push'' sample_payload 1000]\<rparr>"

theorem deliveries_settle_witness:
  "let db' = snd (claim_next_webhook 1001 sample_queue)
   in fst (claim_next_webhook 1001 sample_queue) = Some ''w1'' \<and>
      fst (claim_next_webhook 1301 db') = None \<and> fst (claim_next_webhook 1302 db') = Some ''w1'' \<and>
      (\<forall>x \<in> set (hook_rows db'). wh_processing_attempts x \<le> 5)"
proof -
  let ?w = "received_row ''w1'' ''i1'' ''d1'' ''push'' sample_payload 1000"
  let ?claimed = "?w\<lparr>wh_processing_started_at := Some 1001, wh_processing_attempts := 1\<rparr>"
  have claim: "claim_next_webhook 1001 sample_queue = (Some ''w1'', sample_queue\<lparr>hook_rows := [?claimed]\<rparr>)"
    by (simp add: claim_next_webhook_def sample_queue_def hook_claimable_def received_row_def update_hooks_def
        MAX_WEBHOOK_PROCESSING_ATTEMPTS_def)
  have ok: "hooks_ok sample_queue"
    by (simp add: hooks_ok_def sample_queue_def hook_ok_def received_row_def MAX_WEBHOOK_PROCESSING_ATTEMPTS_def)
  have run: "hook_step\<^sup>*\<^sup>* sample_queue (sample_queue\<lparr>hook_rows := [?claimed]\<rparr>)"
    using hook_step.claim[OF claim] by blast
  have later: "fst (claim_next_webhook 1301 (sample_queue\<lparr>hook_rows := [?claimed]\<rparr>)) = None"
    "fst (claim_next_webhook 1302 (sample_queue\<lparr>hook_rows := [?claimed]\<rparr>)) = Some ''w1''"
    by (simp_all add: claim_next_webhook_def sample_queue_def hook_claimable_def received_row_def update_hooks_def
        MAX_WEBHOOK_PROCESSING_ATTEMPTS_def WEBHOOK_PROCESSING_LEASE_SECS_def)
  from deliveries_settle[OF ok run, of ?claimed 1302] claim later show ?thesis
    by (simp add: received_row_def)
qed

end
