(* ===== verification/Signing_Library.thy ===== *)
theory Signing_Library
  imports App_Store "HOL-Library.AList"
begin

text \<open>
  The project credential library (\<^verbatim>\<open>signing_identities.rs\<close>): named signing identities, the settings of a
  pipeline's workflows that pick them, and what a build of a workflow is bound to when it is created.

  Base64 and encryption are third-party code and parameters, as is what the certificate tools report of
  a PKCS12 file or a provisioning profile. \<open>pipeline_names\<close> adds the name column of the pipelines;
  \<open>build_bindings\<close> holds the keys \<open>signing_error\<close>, \<open>signing_identities\<close> and \<open>publish_disabled\<close> of a build's snapshot.
\<close>

subsection \<open>Data\<close>

datatype SigningIdentityKind = AndroidKeystore | IosDistribution

primrec kind_str :: "SigningIdentityKind \<Rightarrow> string" where
  "kind_str AndroidKeystore = ''android_keystore''"
| "kind_str IosDistribution = ''ios_distribution''"

definition parse_kind :: "string \<Rightarrow> SigningIdentityKind" where
  "parse_kind raw = (if raw = ''ios_distribution'' then IosDistribution else AndroidKeystore)"

record AndroidKeystoreInput =
  ak_keystore_filename :: string
  ak_keystore_base64 :: string
  ak_store_password :: string
  ak_key_alias :: string
  ak_key_password :: string

record IosProfileInput =
  ip_profile_filename :: string
  ip_profile_base64 :: string

record IosDistributionInput =
  io_p12_filename :: string
  io_p12_base64 :: string
  io_p12_password :: string
  io_profiles :: "IosProfileInput list"

record RunnerIosProvisioningProfile =
  rp_bundle_id :: string
  rp_profile_filename :: string
  rp_profile_base64 :: string
  rp_profile_uuid :: "string option"
  rp_profile_name :: "string option"

record SigningIdentityProfile =
  sp_bundle_id :: string
  sp_profile_name :: "string option"
  sp_profile_uuid :: "string option"
  sp_expires_at :: "int option"

record InspectedProfile =
  in_bundle_id :: string
  in_profile_uuid :: "string option"
  in_profile_name :: "string option"
  in_team_id :: "string option"
  in_expires_at :: "int option"
  in_export_method :: "IosExportMethod option"
  in_distribution :: string

datatype Material =
    Material_Android AndroidKeystoreInput
  | Material_Ios (mi_team_id: string) (mi_export_method: IosExportMethod) (mi_p12_filename: string)
      (mi_p12_base64: string) (mi_p12_password: string) (mi_profiles: "RunnerIosProvisioningProfile list")

record Summary =
  su_filename :: "string option"
  su_key_alias :: "string option"
  su_team_id :: "string option"
  su_export_method :: "IosExportMethod option"
  su_expires_at :: "int option"
  su_profiles :: "SigningIdentityProfile list"

record identity_row =
  id_id :: string
  id_project_id :: string
  id_name :: string
  id_kind :: string
  id_summary :: Summary
  id_material_encrypted :: string
  id_created_by :: string
  id_updated_by :: string
  id_created_at :: int
  id_updated_at :: int

record PipelineWorkflowSettings =
  ws_android_identity_id :: "string option"
  ws_ios_identity_id :: "string option"
  ws_publish_enabled :: "bool option"
  ws_approval_required :: "bool option"

record WorkflowBinding =
  wb_android_identity_id :: "string option"
  wb_ios_identity_id :: "string option"
  wb_publish_disabled :: bool
  wb_approval_required :: "bool option"

definition default_binding :: WorkflowBinding where
  "default_binding = \<lparr>wb_android_identity_id = None, wb_ios_identity_id = None, wb_publish_disabled = False,
     wb_approval_required = None\<rparr>"

definition default_settings :: PipelineWorkflowSettings where
  "default_settings = \<lparr>ws_android_identity_id = None, ws_ios_identity_id = None, ws_publish_enabled = None,
     ws_approval_required = None\<rparr>"

record library_db =
  lcore :: daemon
  identities :: "identity_row list"
  workflow_settings :: "((string \<times> string) \<times> PipelineWorkflowSettings) list"
  pipeline_names :: "(string \<times> string) list"
  build_bindings :: "(string \<times> (string option \<times> WorkflowBinding)) list"

record library_env =
  le_base64 :: "string \<Rightarrow> string option"
  le_encrypt :: "Material \<Rightarrow> string option"
  le_decrypt :: "string \<Rightarrow> Material api_result"
  le_inspect_p12 :: "string \<Rightarrow> string \<Rightarrow> string + int option"
  le_inspect_profile :: "string \<Rightarrow> string + InspectedProfile"

definition MAX_NAME_LEN :: nat where "MAX_NAME_LEN = 64"
definition MAX_KEYSTORE_BYTES :: nat where "MAX_KEYSTORE_BYTES = 1024 * 1024"
definition MAX_P12_BYTES :: nat where "MAX_P12_BYTES = 256 * 1024"
definition MAX_PROFILE_BYTES :: nat where "MAX_PROFILE_BYTES = 256 * 1024"
definition MAX_PROFILES :: nat where "MAX_PROFILES = 32"

subsection \<open>Checking the input\<close>

abbreviation invalid :: "string \<Rightarrow> api_error" where
  "invalid message \<equiv> ApiError BAD_REQUEST ''invalid_input'' message"

abbreviation library_store_error :: "string \<Rightarrow> api_error" where
  "library_store_error message \<equiv> ApiError INTERNAL_SERVER_ERROR ''store_error'' message"

definition is_valid_identifier :: "string \<Rightarrow> bool" where
  "is_valid_identifier name \<longleftrightarrow>
     (case name of [] \<Rightarrow> False
      | c # cs \<Rightarrow> is_ascii_alphanumeric c \<and>
          list_all (\<lambda>c. is_ascii_alphanumeric c \<or> c = CHR ''_'' \<or> c = CHR ''-'') cs) \<and> length name \<le> 64"

definition is_valid_workflow_name :: "string \<Rightarrow> bool" where
  "is_valid_workflow_name = is_valid_identifier"

definition normalize_name :: "string \<Rightarrow> string api_result" where
  "normalize_name name =
     (let name = trim name
      in if \<not> is_valid_workflow_name name \<or> MAX_NAME_LEN < length name
         then Inl (invalid ''name must start with a letter or digit and use only letters, digits, '-' and '_' (max 64 chars)'')
         else Inr name)"

definition decode :: "library_env \<Rightarrow> string \<Rightarrow> string \<Rightarrow> nat \<Rightarrow> string api_result" where
  "decode env value field maximum =
     and_then (ok_or (invalid (field @ '' must be base64'')) (le_base64 env (trim value)))
      (\<lambda>bytes. if bytes = [] then Inl (invalid (field @ '' must not be empty''))
               else if maximum < length bytes
               then Inl (invalid (field @ '' is larger than '' @ show_nat maximum @ '' bytes'')) else Inr bytes)"

definition required :: "string \<Rightarrow> string \<Rightarrow> string api_result" where
  "required value field = (if trim value = [] then Inl (invalid (field @ '' is required'')) else Inr (trim value))"

definition android_material :: "library_env \<Rightarrow> AndroidKeystoreInput \<Rightarrow> (Material \<times> Summary) api_result" where
  "android_material env input =
     and_then (decode env (ak_keystore_base64 input) ''android.keystore_base64'' MAX_KEYSTORE_BYTES)
      (\<lambda>_. and_then (required (ak_keystore_filename input) ''android.keystore_filename'')
      (\<lambda>filename. and_then (required (ak_store_password input) ''android.store_password'')
      (\<lambda>store_password. and_then (required (ak_key_alias input) ''android.key_alias'')
      (\<lambda>key_alias. and_then (required (ak_key_password input) ''android.key_password'')
      (\<lambda>key_password. Inr
         (Material_Android \<lparr>ak_keystore_filename = filename, ak_keystore_base64 = trim (ak_keystore_base64 input),
            ak_store_password = store_password, ak_key_alias = key_alias, ak_key_password = key_password\<rparr>,
          \<lparr>su_filename = Some filename, su_key_alias = Some key_alias, su_team_id = None, su_export_method = None,
           su_expires_at = None, su_profiles = []\<rparr>))))))"

text \<open>One profile of the list, added to what the earlier ones gave: team, the export kind and both lists.\<close>

definition add_profile ::
  "library_env \<Rightarrow> nat \<times> IosProfileInput \<Rightarrow>
   string option \<times> IosExportMethod option \<times> RunnerIosProvisioningProfile list \<times> SigningIdentityProfile list \<Rightarrow>
   (string option \<times> IosExportMethod option \<times> RunnerIosProvisioningProfile list \<times> SigningIdentityProfile list) api_result" where
  "add_profile env = (\<lambda>(index, profile) (team_id, export_method, profiles, summaries).
     let field = ''ios.profiles['' @ show_nat index @ '']'' in
     and_then (decode env (ip_profile_base64 profile) (field @ ''.profile_base64'') MAX_PROFILE_BYTES)
      (\<lambda>bytes. and_then (case le_inspect_profile env bytes of
            Inl e \<Rightarrow> Inl (invalid (field @ '' is not a provisioning profile: '' @ e)) | Inr i \<Rightarrow> Inr i)
      (\<lambda>inspected. and_then (ok_or (invalid (field @ '' is a '' @ in_distribution inspected @
            '' profile; use an ad hoc or App Store distribution profile'')) (in_export_method inspected))
      (\<lambda>how. and_then (ensure (export_method \<in> {None, Some how})
            (invalid ''ios.profiles mixes ad hoc and App Store profiles; one identity exports one way''))
      (\<lambda>_. and_then (ensure (in_team_id inspected = None \<or> team_id = None \<or> team_id = in_team_id inspected)
            (invalid ''ios.profiles belong to different Apple teams''))
      (\<lambda>_. and_then (ensure (\<not> list_ex (\<lambda>s. sp_bundle_id s = in_bundle_id inspected) summaries)
            (invalid (''ios.profiles has two profiles for '' @ in_bundle_id inspected)))
      (\<lambda>_. and_then (required (ip_profile_filename profile) (field @ ''.profile_filename''))
      (\<lambda>filename. Inr
         (if in_team_id inspected = None then team_id else in_team_id inspected, Some how,
          profiles @ [\<lparr>rp_bundle_id = in_bundle_id inspected, rp_profile_filename = filename,
            rp_profile_base64 = trim (ip_profile_base64 profile), rp_profile_uuid = in_profile_uuid inspected,
            rp_profile_name = in_profile_name inspected\<rparr>],
          summaries @ [\<lparr>sp_bundle_id = in_bundle_id inspected, sp_profile_name = in_profile_name inspected,
            sp_profile_uuid = in_profile_uuid inspected, sp_expires_at = in_expires_at inspected\<rparr>])))))))))"

fun add_profiles ::
  "library_env \<Rightarrow> (nat \<times> IosProfileInput) list \<Rightarrow>
   string option \<times> IosExportMethod option \<times> RunnerIosProvisioningProfile list \<times> SigningIdentityProfile list \<Rightarrow>
   (string option \<times> IosExportMethod option \<times> RunnerIosProvisioningProfile list \<times> SigningIdentityProfile list) api_result" where
  "add_profiles env [] acc = Inr acc"
| "add_profiles env (p # ps) acc = and_then (add_profile env p acc) (add_profiles env ps)"

text \<open>With at least one profile accepted, the way of exporting is known: the \<open>expect\<close> of the code cannot fail.\<close>

definition ios_material :: "library_env \<Rightarrow> IosDistributionInput \<Rightarrow> (Material \<times> Summary) api_result" where
  "ios_material env input =
     and_then (decode env (io_p12_base64 input) ''ios.p12_base64'' MAX_P12_BYTES)
      (\<lambda>p12. and_then (required (io_p12_filename input) ''ios.p12_filename'')
      (\<lambda>p12_filename. and_then (ensure (io_profiles input \<noteq> [])
            (invalid ''ios.profiles needs at least one provisioning profile''))
      (\<lambda>_. and_then (ensure (length (io_profiles input) \<le> MAX_PROFILES)
            (invalid (''ios.profiles holds at most '' @ show_nat MAX_PROFILES @ '' profiles'')))
      (\<lambda>_. and_then (case le_inspect_p12 env p12 (io_p12_password input) of
            Inl e \<Rightarrow> Inl (invalid (''The certificate could not be opened with that password: '' @ e)) | Inr t \<Rightarrow> Inr t)
      (\<lambda>expires_at. and_then (add_profiles env (enumerate 0 (io_profiles input)) (None, None, [], []))
      (\<lambda>(team, export, profiles, summaries). and_then (ok_or (invalid ''ios.profiles do not name an Apple team'') team)
      (\<lambda>team_id. let export_method = unwrap_or AdHoc export in Inr
         (Material_Ios team_id export_method p12_filename (trim (io_p12_base64 input)) (io_p12_password input) profiles,
          \<lparr>su_filename = Some p12_filename, su_key_alias = None, su_team_id = Some team_id,
           su_export_method = Some export_method, su_expires_at = expires_at, su_profiles = summaries\<rparr>))))))))"

definition material_for ::
  "library_env \<Rightarrow> SigningIdentityKind \<Rightarrow> AndroidKeystoreInput option \<Rightarrow> IosDistributionInput option \<Rightarrow>
   (Material \<times> Summary) api_result" where
  "material_for env kind android ios =
     (case (kind, android, ios) of
        (AndroidKeystore, Some input, None) \<Rightarrow> android_material env input
      | (IosDistribution, None, Some input) \<Rightarrow> ios_material env input
      | (AndroidKeystore, _, _) \<Rightarrow> Inl (invalid ''an android_keystore identity takes `android` and no `ios`'')
      | (IosDistribution, _, _) \<Rightarrow> Inl (invalid ''an ios_distribution identity takes `ios` and no `android`''))"

subsection \<open>Identities\<close>

record SigningIdentityUse =
  iu_pipeline_id :: string
  iu_pipeline_name :: string
  iu_workflow :: string

definition picks :: "string \<Rightarrow> PipelineWorkflowSettings \<Rightarrow> bool" where
  "picks identity_id ws \<longleftrightarrow> ws_android_identity_id ws = Some identity_id \<or> ws_ios_identity_id ws = Some identity_id"

text \<open>The settings that pick an identity, by pipeline name and workflow.\<close>

definition uses_of :: "string \<Rightarrow> library_db \<Rightarrow> SigningIdentityUse list" where
  "uses_of identity_id db =
     sort_key iu_pipeline_name (sort_key iu_workflow
       (List.map_filter (\<lambda>((pipeline_id, workflow), ws).
          if picks identity_id ws
          then map_option (\<lambda>name. \<lparr>iu_pipeline_id = pipeline_id, iu_pipeline_name = name, iu_workflow = workflow\<rparr>)
                 (map_of (pipeline_names db) pipeline_id)
          else None) (workflow_settings db)))"

definition load_identity_row :: "string \<Rightarrow> string \<Rightarrow> library_db \<Rightarrow> identity_row api_result" where
  "load_identity_row project_id identity_id db =
     ok_or (ApiError NOT_FOUND ''not_found'' ''Signing identity not found'')
       (fetch_optional (\<lambda>r. id_id r = identity_id \<and> id_project_id r = project_id) (identities db))"

definition require_project :: "library_db \<Rightarrow> SessionInfo \<Rightarrow> string \<Rightarrow> ProjectPermission \<Rightarrow> unit api_result" where
  "require_project db auth project_id permission =
     and_then (resolve_effective_project_role (project_members (lcore db)) (au_user_id auth) (au_role auth) project_id
         (au_auth_source auth))
      (\<lambda>effective. require_project_permission effective permission)"

definition name_taken :: "string \<Rightarrow> api_error" where
  "name_taken name = ApiError CONFLICT ''name_taken'' (''This project already has a signing identity named '' @ name)"

text \<open>The unique constraint on project and name.\<close>

definition name_free :: "string \<Rightarrow> string \<Rightarrow> string \<Rightarrow> library_db \<Rightarrow> bool" where
  "name_free identity_id project_id name db =
     (\<not> exists_row (\<lambda>r. id_project_id r = project_id \<and> id_name r = name \<and> id_id r \<noteq> identity_id) (identities db))"

record CreateSigningIdentityRequest =
  ci_name :: string
  ci_kind :: SigningIdentityKind
  ci_android :: "AndroidKeystoreInput option"
  ci_ios :: "IosDistributionInput option"

definition insert_identity :: "identity_row \<Rightarrow> library_db \<Rightarrow> library_db api_result" where
  "insert_identity row db =
     (if exists_row (\<lambda>r. id_id r = id_id row) (identities db)
      then Inl (library_store_error ''Failed to save the signing identity'')
      else if \<not> name_free (id_id row) (id_project_id row) (id_name row) db then Inl (name_taken (id_name row))
      else Inr (db\<lparr>identities := identities db @ [row]\<rparr>))"

definition create_signing_identity ::
  "library_env \<Rightarrow> int \<Rightarrow> string \<Rightarrow> SessionInfo \<Rightarrow> string \<Rightarrow> CreateSigningIdentityRequest \<Rightarrow> library_db \<Rightarrow>
   identity_row api_result \<times> library_db" where
  "create_signing_identity env now new_id auth project_id req db =
     try_in db (require_project db auth project_id Perm_ManagePipelines)
      (\<lambda>_. try_in db (normalize_name (ci_name req))
      (\<lambda>name. try_in db (material_for env (ci_kind req) (ci_android req) (ci_ios req))
      (\<lambda>(material, summary). try_in db (ok_or (library_store_error ''Failed to encrypt the signing identity'')
             (le_encrypt env material))
      (\<lambda>encrypted. try_in db (insert_identity
             \<lparr>id_id = new_id, id_project_id = project_id, id_name = name, id_kind = kind_str (ci_kind req),
              id_summary = summary, id_material_encrypted = encrypted, id_created_by = au_user_id auth,
              id_updated_by = au_user_id auth, id_created_at = now, id_updated_at = now\<rparr> db)
      (\<lambda>db1. (load_identity_row project_id new_id db1, db1))))))"

record UpdateSigningIdentityRequest =
  ui_name :: "string option"
  ui_android :: "AndroidKeystoreInput option"
  ui_ios :: "IosDistributionInput option"

definition replaced_material ::
  "library_env \<Rightarrow> UpdateSigningIdentityRequest \<Rightarrow> identity_row \<Rightarrow> (string \<times> Summary) api_result" where
  "replaced_material env req row =
     (if ui_android req \<noteq> None \<or> ui_ios req \<noteq> None
      then and_then (material_for env (parse_kind (id_kind row)) (ui_android req) (ui_ios req))
        (\<lambda>(material, summary). and_then (ok_or (library_store_error ''Failed to encrypt the signing identity'')
               (le_encrypt env material))
        (\<lambda>encrypted. Inr (encrypted, summary)))
      else Inr (id_material_encrypted row, id_summary row))"

definition save_identity :: "int \<Rightarrow> string \<Rightarrow> string \<Rightarrow> string \<Rightarrow> string \<Rightarrow> string \<times> Summary \<Rightarrow> library_db \<Rightarrow> library_db api_result" where
  "save_identity now user_id project_id identity_id name = (\<lambda>(encrypted, summary) db.
     if exists_row (\<lambda>r. id_id r = identity_id) (identities db) \<and> \<not> name_free identity_id project_id name db
     then Inl (name_taken name)
     else Inr (db\<lparr>identities := update_where (\<lambda>r. id_id r = identity_id)
            (\<lambda>r. r\<lparr>id_name := name, id_summary := summary, id_material_encrypted := encrypted,
                   id_updated_by := user_id, id_updated_at := now\<rparr>) (identities db)\<rparr>))"

definition update_signing_identity ::
  "library_env \<Rightarrow> int \<Rightarrow> SessionInfo \<Rightarrow> string \<Rightarrow> string \<Rightarrow> UpdateSigningIdentityRequest \<Rightarrow> library_db \<Rightarrow>
   identity_row api_result \<times> library_db" where
  "update_signing_identity env now auth project_id identity_id req db =
     try_in db (require_project db auth project_id Perm_ManagePipelines)
      (\<lambda>_. try_in db (load_identity_row project_id identity_id db)
      (\<lambda>row. try_in db (case ui_name req of Some name \<Rightarrow> normalize_name name | None \<Rightarrow> Inr (id_name row))
      (\<lambda>name. try_in db (replaced_material env req row)
      (\<lambda>replaced. try_in db (save_identity now (au_user_id auth) project_id identity_id name replaced db)
      (\<lambda>db1. (load_identity_row project_id identity_id db1, db1))))))"

text \<open>The foreign keys of the settings restrict the deletion.\<close>

definition delete_identity_row :: "string \<Rightarrow> library_db \<Rightarrow> library_db api_result" where
  "delete_identity_row identity_id db =
     (if list_ex (\<lambda>(_, ws). picks identity_id ws) (workflow_settings db)
      then Inl (library_store_error ''Failed to delete the signing identity'')
      else Inr (db\<lparr>identities := filter (\<lambda>r. id_id r \<noteq> identity_id) (identities db)\<rparr>))"

definition delete_signing_identity ::
  "SessionInfo \<Rightarrow> string \<Rightarrow> string \<Rightarrow> library_db \<Rightarrow> unit api_result \<times> library_db" where
  "delete_signing_identity auth project_id identity_id db =
     try_in db (require_project db auth project_id Perm_ManagePipelines)
      (\<lambda>_. try_in db (load_identity_row project_id identity_id db)
      (\<lambda>_. try_in db (ensure (uses_of identity_id db = []) (ApiError CONFLICT ''identity_in_use''
             (''Workflow settings use this identity: '' @
              join '', '' (map (\<lambda>u. iu_pipeline_name u @ '' ('' @ iu_workflow u @ '')'') (uses_of identity_id db)) @
              ''. Pick another there first.'')))
      (\<lambda>_. try_in db (delete_identity_row identity_id db) (\<lambda>db1. (Inr (), db1)))))"

subsection \<open>Workflow settings\<close>

definition load_workflow_settings :: "string \<Rightarrow> string \<Rightarrow> library_db \<Rightarrow> PipelineWorkflowSettings option" where
  "load_workflow_settings pipeline_id workflow db = map_of (workflow_settings db) (pipeline_id, workflow)"

definition check_identity ::
  "string \<Rightarrow> string option \<Rightarrow> SigningIdentityKind \<Rightarrow> string \<Rightarrow> library_db \<Rightarrow> unit api_result" where
  "check_identity project_id identity kind field db =
     (case identity of
        None \<Rightarrow> Inr ()
      | Some identity_id \<Rightarrow>
          (case fetch_optional (\<lambda>r. id_id r = identity_id \<and> id_project_id r = project_id) (identities db) of
             None \<Rightarrow> Inl (invalid (field @ '' is not a signing identity of this project''))
           | Some r \<Rightarrow> ensure (parse_kind (id_kind r) = kind) (invalid (field @ '' must be an '' @ kind_str kind @ '' identity''))))"

text \<open>The insert or update, with its foreign keys.\<close>

definition identity_exists :: "string option \<Rightarrow> library_db \<Rightarrow> bool" where
  "identity_exists identity db =
     (case identity of None \<Rightarrow> True | Some i \<Rightarrow> exists_row (\<lambda>r. id_id r = i) (identities db))"

definition save_settings :: "string \<Rightarrow> string \<Rightarrow> PipelineWorkflowSettings \<Rightarrow> library_db \<Rightarrow> library_db api_result" where
  "save_settings pipeline_id workflow ws db =
     (if ws = default_settings
      then Inr (db\<lparr>workflow_settings := filter (\<lambda>(k, _). k \<noteq> (pipeline_id, workflow)) (workflow_settings db)\<rparr>)
      else if exists_row (\<lambda>p. pl_id p = pipeline_id) (pipelines (lcore db)) \<and>
        identity_exists (ws_android_identity_id ws) db \<and> identity_exists (ws_ios_identity_id ws) db
      then Inr (db\<lparr>workflow_settings := AList.update (pipeline_id, workflow) ws (workflow_settings db)\<rparr>)
      else Inl (library_store_error ''Failed to save workflow settings''))"

definition library_pipeline_project :: "library_db \<Rightarrow> string \<Rightarrow> string option" where
  "library_pipeline_project db pipeline_id =
     map_option pl_project_id (fetch_optional (\<lambda>p. pl_id p = pipeline_id) (pipelines (lcore db)))"

definition check_settings ::
  "SessionInfo \<Rightarrow> string \<Rightarrow> string \<Rightarrow> PipelineWorkflowSettings \<Rightarrow> library_db \<Rightarrow> unit api_result" where
  "check_settings auth pipeline_id workflow req db =
     and_then (require_pipeline_project_permission (library_pipeline_project db) (project_members (lcore db))
         (au_user_id auth) (au_role auth) (au_auth_source auth) pipeline_id Perm_ManagePipelines)
      (\<lambda>project_id. and_then (ensure (is_valid_workflow_name workflow) (invalid ''workflow is not a valid workflow name''))
      (\<lambda>_. and_then (if Option.bind (load_workflow_settings pipeline_id workflow db) ws_approval_required \<noteq> ws_approval_required req
              then require_project db auth project_id Perm_ApproveBuild else Inr ())
      (\<lambda>_. and_then (check_identity project_id (ws_android_identity_id req) AndroidKeystore ''android_identity_id'' db)
      (\<lambda>_. check_identity project_id (ws_ios_identity_id req) IosDistribution ''ios_identity_id'' db))))"

definition update_pipeline_workflow_settings ::
  "SessionInfo \<Rightarrow> string \<Rightarrow> string \<Rightarrow> PipelineWorkflowSettings \<Rightarrow> library_db \<Rightarrow>
   PipelineWorkflowSettings api_result \<times> library_db" where
  "update_pipeline_workflow_settings auth pipeline_id workflow req db =
     try_in db (check_settings auth pipeline_id workflow req db)
      (\<lambda>_. try_in db (save_settings pipeline_id workflow req db)
      (\<lambda>db1. (Inr (unwrap_or default_settings (load_workflow_settings pipeline_id workflow db1)), db1)))"

subsection \<open>What a build is bound to\<close>

record SigningSpec =
  sg_android :: "string option"
  sg_ios :: "string option"

definition binding_scope :: "string option \<Rightarrow> string" where
  "binding_scope workflow = (case workflow of Some name \<Rightarrow> ''workflow '' @ name | None \<Rightarrow> ''this build'')"

text \<open>One platform of the loop: the identity picked in the settings, else the one the file names.\<close>

definition bind_identity ::
  "string \<Rightarrow> string option \<Rightarrow> string \<Rightarrow> SigningIdentityKind \<Rightarrow> string option \<Rightarrow> string option \<Rightarrow> bool \<Rightarrow> library_db \<Rightarrow>
   string + string option" where
  "bind_identity project_id workflow platform kind picked named ad_hoc_refused db =
     (case (picked, named) of
        (None, None) \<Rightarrow> Inr None
      | _ \<Rightarrow>
          (case fetch_optional (\<lambda>r. id_project_id r = project_id \<and>
                  (case picked of Some i \<Rightarrow> id_id r = i | None \<Rightarrow> named \<noteq> None \<and> id_name r = trim (the named))) (identities db) of
             None \<Rightarrow>
               Inl (case (picked, named) of
                      (None, Some name) \<Rightarrow> binding_scope workflow @ '' signs '' @ platform @ '' with '' @ CHR 0x27 # name @
                        CHR 0x27 # '', which is not in the project'' @ CHR 0x27 #
                        ''s signing identities; add it under Project settings > Signing, or fix signing.'' @ platform
                    | _ \<Rightarrow> binding_scope workflow @ CHR 0x27 # ''s '' @ platform @
                        '' signing identity was deleted; pick another in the pipeline'' @ CHR 0x27 # ''s workflow settings'')
           | Some r \<Rightarrow>
               if parse_kind (id_kind r) \<noteq> kind
               then Inl (binding_scope workflow @ '' signs '' @ platform @ '' with '' @ CHR 0x27 #
                      unwrap_or ''the picked identity'' named @ CHR 0x27 # '', which is an '' @
                      kind_str (parse_kind (id_kind r)) @ '' identity'')
               else if kind = IosDistribution \<and> ad_hoc_refused \<and> su_export_method (id_summary r) = Some AdHoc
               then Inl (binding_scope workflow @
                      '' uploads to App Store Connect, but its iOS signing identity holds ad hoc profiles; use an identity with App Store profiles'')
               else Inr (Some (id_id r))))"

definition resolve_workflow_binding ::
  "string \<Rightarrow> string \<Rightarrow> string option \<Rightarrow> SigningSpec \<Rightarrow> bool \<Rightarrow> library_db \<Rightarrow> string + WorkflowBinding" where
  "resolve_workflow_binding project_id pipeline_id workflow file_signing needs_app_store_export db =
     (let ws = unwrap_or default_settings (Option.bind workflow (\<lambda>w. load_workflow_settings pipeline_id w db));
          publish_disabled = (ws_publish_enabled ws = Some False)
      in and_then (bind_identity project_id workflow ''android'' AndroidKeystore (ws_android_identity_id ws)
            (sg_android file_signing) False db)
         (\<lambda>android. and_then (bind_identity project_id workflow ''ios'' IosDistribution (ws_ios_identity_id ws)
            (sg_ios file_signing) (needs_app_store_export \<and> \<not> publish_disabled) db)
         (\<lambda>ios. Inr \<lparr>wb_android_identity_id = android, wb_ios_identity_id = ios, wb_publish_disabled = publish_disabled,
                      wb_approval_required = ws_approval_required ws\<rparr>)))"

subsection \<open>What a runner is given\<close>

definition snapshot_identity :: "library_env \<Rightarrow> string \<Rightarrow> string \<Rightarrow> library_db \<Rightarrow> Material option api_result" where
  "snapshot_identity env job_id platform db =
     (case map_of (build_bindings db) job_id of
        None \<Rightarrow> Inr None
      | Some (Some message, _) \<Rightarrow> Inl (ApiError CONFLICT ''invalid_signing'' message)
      | Some (None, binding) \<Rightarrow>
          (case (if platform = ''android'' then wb_android_identity_id binding else wb_ios_identity_id binding) of
             None \<Rightarrow> Inr None
           | Some identity_id \<Rightarrow>
               and_then (ok_or (ApiError CONFLICT ''signing_identity_missing''
                    (''The '' @ platform @ '' signing identity this build was created with was deleted''))
                  (fetch_optional (\<lambda>r. id_id r = identity_id \<and>
                     exists_row (\<lambda>b. b_id b = job_id \<and> b_project_id b = id_project_id r) (builds (lcore db))) (identities db)))
                (\<lambda>r. and_then (le_decrypt env (id_material_encrypted r)) (\<lambda>m. Inr (Some m)))))"

definition job_android_release_profile :: "library_env \<Rightarrow> string \<Rightarrow> library_db \<Rightarrow> AndroidKeystoreInput option api_result" where
  "job_android_release_profile env job_id db =
     and_then (snapshot_identity env job_id ''android'' db)
      (\<lambda>m. Inr (case m of Some (Material_Android keystore) \<Rightarrow> Some keystore | _ \<Rightarrow> None))"

definition job_ios_bundle :: "library_env \<Rightarrow> string \<Rightarrow> library_db \<Rightarrow> Material option api_result" where
  "job_ios_bundle env job_id db =
     and_then (snapshot_identity env job_id ''ios'' db)
      (\<lambda>m. Inr (case m of Some (Material_Ios t e f b p ps) \<Rightarrow> Some (Material_Ios t e f b p ps) | _ \<Rightarrow> None))"

definition job_publish_disabled :: "string \<Rightarrow> library_db \<Rightarrow> bool" where
  "job_publish_disabled job_id db =
     (case map_of (build_bindings db) job_id of None \<Rightarrow> False | Some (_, binding) \<Rightarrow> wb_publish_disabled binding)"

subsection \<open>References stay well typed\<close>

text \<open>
  Requests and, on its own, the statement that saves settings after its checks were made in an earlier state:
  an identity keeps its project and kind for life and its id is never given out again, so what was checked
  then still holds of the row if it exists. Deleting a pipeline takes its settings along.
\<close>

inductive library_step :: "library_db \<Rightarrow> library_db \<Rightarrow> bool" where
  create: "create_signing_identity env now new_id auth project_id req db = (answer, db') \<Longrightarrow> library_step db db'"
| update: "update_signing_identity env now auth project_id identity_id req db = (answer1, db') \<Longrightarrow> library_step db db'"
| delete: "delete_identity_row identity_id db = Inr db' \<Longrightarrow> library_step db db'"
| settings: "update_pipeline_workflow_settings auth pipeline_id workflow ws db = (answer2, db') \<Longrightarrow> library_step db db'"
| drop_pipeline: "library_step db (db\<lparr>lcore := (lcore db)\<lparr>pipelines := filter (\<lambda>p. pl_id p \<noteq> pid) (pipelines (lcore db))\<rparr>,
    workflow_settings := filter (\<lambda>((p, _), _). p \<noteq> pid) (workflow_settings db)\<rparr>)"
| other: "pipelines (lcore db) = pipelines (lcore db') \<Longrightarrow> identities db' = identities db \<Longrightarrow>
    workflow_settings db' = workflow_settings db \<Longrightarrow> library_step db db'"

definition well_typed :: "string \<Rightarrow> SigningIdentityKind \<Rightarrow> string option \<Rightarrow> library_db \<Rightarrow> bool" where
  "well_typed project_id kind identity db \<longleftrightarrow>
     (\<forall>i. identity = Some i \<longrightarrow>
        (\<exists>r \<in> set (identities db). id_id r = i \<and> id_project_id r = project_id \<and> parse_kind (id_kind r) = kind))"

definition settings_typed :: "library_db \<Rightarrow> string \<times> string \<Rightarrow> PipelineWorkflowSettings \<Rightarrow> bool" where
  "settings_typed db key ws \<longleftrightarrow>
     (\<exists>project_id. library_pipeline_project db (fst key) = Some project_id \<and>
        well_typed project_id AndroidKeystore (ws_android_identity_id ws) db \<and>
        well_typed project_id IosDistribution (ws_ios_identity_id ws) db)"

definition library_ok :: "library_db \<Rightarrow> bool" where
  "library_ok db \<longleftrightarrow>
     distinct (map id_id (identities db)) \<and> distinct (map (\<lambda>r. (id_project_id r, id_name r)) (identities db)) \<and>
     distinct (map fst (workflow_settings db)) \<and>
     (\<forall>(key, ws) \<in> set (workflow_settings db). settings_typed db key ws)"

lemma well_typed_mono:
  assumes "well_typed p k i db"
    and "\<And>r. r \<in> set (identities db) \<Longrightarrow> i = Some (id_id r) \<Longrightarrow>
      \<exists>r' \<in> set (identities db'). id_id r' = id_id r \<and> id_project_id r' = id_project_id r \<and> id_kind r' = id_kind r"
  shows "well_typed p k i db'"
  using assms unfolding well_typed_def by metis

lemma settings_typed_mono:
  assumes "settings_typed db key ws" and "pipelines (lcore db') = pipelines (lcore db)"
    and "\<And>r. r \<in> set (identities db) \<Longrightarrow> picks (id_id r) ws \<Longrightarrow>
      \<exists>r' \<in> set (identities db'). id_id r' = id_id r \<and> id_project_id r' = id_project_id r \<and> id_kind r' = id_kind r"
  shows "settings_typed db' key ws"
proof -
  from assms(1) obtain project_id where "library_pipeline_project db (fst key) = Some project_id"
    and "well_typed project_id AndroidKeystore (ws_android_identity_id ws) db"
    and "well_typed project_id IosDistribution (ws_ios_identity_id ws) db"
    by (auto simp: settings_typed_def)
  with assms(2,3) show ?thesis
    unfolding settings_typed_def
    by (intro exI[of _ project_id] conjI) (auto simp: library_pipeline_project_def picks_def elim!: well_typed_mono)
qed

lemma library_ok_rows:
  assumes ok: "library_ok db" and "pipelines (lcore db') = pipelines (lcore db)" and "workflow_settings db' = workflow_settings db"
    and "distinct (map id_id (identities db'))" and "distinct (map (\<lambda>r. (id_project_id r, id_name r)) (identities db'))"
    and "\<And>r. r \<in> set (identities db) \<Longrightarrow> (\<exists>(_, ws) \<in> set (workflow_settings db). picks (id_id r) ws) \<Longrightarrow>
      \<exists>r' \<in> set (identities db'). id_id r' = id_id r \<and> id_project_id r' = id_project_id r \<and> id_kind r' = id_kind r"
  shows "library_ok db'"
  using assms(1,4,5) unfolding library_ok_def assms(3)
  by (auto intro!: settings_typed_mono[of db _ _ db', OF _ assms(2)] assms(6) elim!: ballE)

lemma insert_identity_ok:
  assumes "library_ok db" and "insert_identity row db = Inr db'"
  shows "library_ok db'"
proof -
  from assms(2) have fresh: "id_id row \<notin> id_id ` set (identities db)"
    and name: "(id_project_id row, id_name row) \<notin> (\<lambda>r. (id_project_id r, id_name r)) ` set (identities db)"
    and db': "db' = db\<lparr>identities := identities db @ [row]\<rparr>"
    by (auto simp: insert_identity_def name_free_def exists_row_iff split: if_splits)
  show ?thesis unfolding db'
    by (rule library_ok_rows[OF assms(1)]) (use assms(1) fresh name in \<open>auto simp: library_ok_def\<close>)
qed

lemma save_identity_ok:
  assumes ok: "library_ok db" and row: "load_identity_row project_id identity_id db = Inr row"
    and saved: "save_identity now uid project_id identity_id name replaced db = Inr db'"
  shows "library_ok db'"
proof -
  obtain encrypted summary where r: "replaced = (encrypted, summary)" by fastforce
  let ?f = "\<lambda>r. r\<lparr>id_name := name, id_summary := summary, id_material_encrypted := encrypted, id_updated_by := uid, id_updated_at := now\<rparr>"
  from row have in_rows: "row \<in> set (identities db)" "id_id row = identity_id" "id_project_id row = project_id"
    by (auto simp: load_identity_row_def ok_or_eq_Inr dest!: fetch_optional_Some)
  with saved r have db': "db' = db\<lparr>identities := update_where (\<lambda>r. id_id r = identity_id) ?f (identities db)\<rparr>"
    and free: "name_free identity_id project_id name db"
    by (auto simp: save_identity_def exists_row_iff split: if_splits)
  have ids: "map id_id (identities db') = map id_id (identities db)"
    unfolding db' by (simp add: map_update_where_same)
  have same: "r = row" if "r \<in> set (identities db)" "id_id r = identity_id" for r
    using ok that in_rows by (metis key_unique library_ok_def)
  have "distinct (map id_id (identities db'))" using ok ids by (simp add: library_ok_def)
  then have "distinct (identities db')" by (simp add: distinct_map)
  moreover have "inj_on (\<lambda>r. (id_project_id r, id_name r)) (set (identities db'))"
  proof (rule inj_onI)
    fix a b assume "a \<in> set (identities db')" "b \<in> set (identities db')"
      and eq: "(id_project_id a, id_name a) = (id_project_id b, id_name b)"
    then obtain r t where r: "r \<in> set (identities db)" "a = (if id_id r = identity_id then ?f r else r)"
      and t: "t \<in> set (identities db)" "b = (if id_id t = identity_id then ?f t else t)"
      by (auto simp: db' in_set_update_where)
    have "inj_on (\<lambda>r. (id_project_id r, id_name r)) (set (identities db))" using ok by (simp add: library_ok_def distinct_map)
    then have old: "r = t" if "(id_project_id r, id_name r) = (id_project_id t, id_name t)" using that r(1) t(1) by (blast dest: inj_onD)
    have other: "id_name x \<noteq> name" if "x \<in> set (identities db)" "id_id x \<noteq> identity_id" "id_project_id x = project_id" for x
      using free that by (auto simp: name_free_def exists_row_iff)
    consider "id_id r = identity_id" "id_id t = identity_id" | "id_id r \<noteq> identity_id" "id_id t \<noteq> identity_id"
      | "id_id r = identity_id" "id_id t \<noteq> identity_id" | "id_id r \<noteq> identity_id" "id_id t = identity_id" by blast
    then show "a = b"
    proof cases
      case 1
      with same[of r] same[of t] r t show ?thesis by simp
    next
      case 2
      with eq r t old show ?thesis by simp
    next
      case 3
      with eq r(2) t(2) same[OF r(1)] in_rows(3) have "id_name t = name" "id_project_id t = project_id" by auto
      with other[OF t(1)] 3 show ?thesis by simp
    next
      case 4
      with eq r(2) t(2) same[OF t(1)] in_rows(3) have "id_name r = name" "id_project_id r = project_id" by auto
      with other[OF r(1)] 4 show ?thesis by simp
    qed
  qed
  ultimately have names: "distinct (map (\<lambda>r. (id_project_id r, id_name r)) (identities db'))" by (simp add: distinct_map)
  have kept: "\<exists>r' \<in> set (identities db'). id_id r' = id_id r \<and> id_project_id r' = id_project_id r \<and> id_kind r' = id_kind r"
    if "r \<in> set (identities db)" for r
    unfolding db' using that by (intro bexI[of _ "if id_id r = identity_id then ?f r else r"]) (auto simp: in_set_update_where)
  show ?thesis
    by (rule library_ok_rows[OF ok, of db']) (use ok ids names kept in \<open>auto simp: db' library_ok_def\<close>)
qed

lemma check_identity_typed:
  assumes "check_identity project_id identity kind field db = Inr u"
  shows "well_typed project_id kind identity db"
  using assms by (auto simp: check_identity_def well_typed_def ensure_def split: option.splits if_splits dest!: fetch_optional_Some)

lemma update_settings_ok:
  assumes ok: "library_ok db" and typed: "settings_typed db (pipeline_id, workflow) ws"
    and saved: "save_settings pipeline_id workflow ws db = Inr db'"
  shows "library_ok db'"
proof -
  have frame: "settings_typed (db\<lparr>workflow_settings := x\<rparr>) = settings_typed db" for x
    by (simp add: fun_eq_iff settings_typed_def well_typed_def library_pipeline_project_def)
  from saved consider "db' = db\<lparr>workflow_settings := filter (\<lambda>(k, _). k \<noteq> (pipeline_id, workflow)) (workflow_settings db)\<rparr>"
    | "db' = db\<lparr>workflow_settings := AList.update (pipeline_id, workflow) ws (workflow_settings db)\<rparr>"
    by (auto simp: save_settings_def split: if_splits)
  then show ?thesis
  proof cases
    case 1
    have "distinct (map fst (filter P xs))" if "distinct (map fst xs)" for P and xs :: "((string \<times> string) \<times> PipelineWorkflowSettings) list"
      using that by (rule distinct_map_filter)
    with ok show ?thesis unfolding 1 by (auto simp: library_ok_def frame)
  next
    case 2
    have "set (AList.update k v al) \<subseteq> insert (k, v) (set al)" for k v and al :: "((string \<times> string) \<times> PipelineWorkflowSettings) list"
      by (induction al) auto
    then have "\<forall>(key, ws') \<in> set (AList.update (pipeline_id, workflow) ws (workflow_settings db)). settings_typed db key ws'"
      using ok typed unfolding library_ok_def by blast
    then show ?thesis unfolding 2 using ok by (simp add: library_ok_def frame distinct_update)
  qed
qed

lemma check_settings_typed:
  assumes "check_settings auth pipeline_id workflow ws db = Inr u"
  shows "settings_typed db (pipeline_id, workflow) ws"
proof -
  from assms obtain project_id where "library_pipeline_project db pipeline_id = Some project_id"
    and "check_identity project_id (ws_android_identity_id ws) AndroidKeystore ''android_identity_id'' db = Inr ()"
    and "check_identity project_id (ws_ios_identity_id ws) IosDistribution ''ios_identity_id'' db = Inr u"
    by (auto simp: check_settings_def and_then_eq_Inr require_pipeline_project_permission_def ok_or_eq_Inr)
  then show ?thesis by (auto simp: settings_typed_def dest: check_identity_typed)
qed

lemma library_step_ok:
  assumes step: "library_step db db'" and ok: "library_ok db"
  shows "library_ok db'"
  using step
proof cases
  case (create env now new_id auth project_id req answer)
  have "library_ok (snd (create_signing_identity env now new_id auth project_id req db))"
    unfolding create_signing_identity_def split_beta
    by (intro try_in_state[where P = library_ok] ok) (auto intro: insert_identity_ok[OF ok])
  with create show ?thesis by simp
next
  case (update env now auth project_id identity_id req answer)
  have "library_ok (snd (update_signing_identity env now auth project_id identity_id req db))"
    unfolding update_signing_identity_def
    by (intro try_in_state[where P = library_ok] ok) (auto intro: save_identity_ok[OF ok])
  with update show ?thesis by simp
next
  case (delete identity_id)
  then have unused: "\<not> picks identity_id ws" if "(k, ws) \<in> set (workflow_settings db)" for k ws
    using that by (auto simp: delete_identity_row_def list_ex_iff split: if_splits)
  from delete have db': "db' = db\<lparr>identities := filter (\<lambda>r. id_id r \<noteq> identity_id) (identities db)\<rparr>"
    by (auto simp: delete_identity_row_def split: if_splits)
  show ?thesis unfolding db'
    by (rule library_ok_rows[OF ok]) (use ok unused in \<open>auto simp: library_ok_def intro!: distinct_map_filter\<close>)
next
  case (settings auth pipeline_id workflow ws answer)
  have "library_ok (snd (update_pipeline_workflow_settings auth pipeline_id workflow ws db))"
    unfolding update_pipeline_workflow_settings_def
    by (intro try_in_state[where P = library_ok] ok) (auto intro: update_settings_ok[OF ok] dest: check_settings_typed)
  with settings show ?thesis by simp
next
  case (drop_pipeline pid)
  have "settings_typed db' key ws" if "settings_typed db key ws" "fst key \<noteq> pid" for key ws
  proof -
    have "fetch_optional (\<lambda>p. pl_id p = fst key) (filter (\<lambda>p. pl_id p \<noteq> pid) ps) = fetch_optional (\<lambda>p. pl_id p = fst key) ps" for ps :: "pipeline list"
      using that(2) by (induction ps) (auto simp: fetch_optional_def)
    with that(1) show ?thesis by (simp add: settings_typed_def drop_pipeline library_pipeline_project_def well_typed_def)
  qed
  with ok show ?thesis by (auto simp: drop_pipeline library_ok_def intro!: distinct_map_filter)
next
  case other
  then show ?thesis by (intro library_ok_rows[OF ok]) (use ok in \<open>auto simp: library_ok_def\<close>)
qed

interpretation libraries: invariant_of library_step library_ok
  by unfold_locales (rule library_step_ok)

lemma bind_picked:
  assumes "well_typed project_id kind picked db" and "distinct (map id_id (identities db))" and "picked = None \<Longrightarrow> named = None"
  shows "bind_identity project_id workflow platform kind picked named False db = Inr picked"
proof (cases picked)
  case None
  with assms(3) show ?thesis by (simp add: bind_identity_def)
next
  case (Some i)
  with assms(1) obtain r where r: "r \<in> set (identities db)" "id_id r = i" "id_project_id r = project_id" "parse_kind (id_kind r) = kind"
    by (auto simp: well_typed_def)
  have "fetch_optional (\<lambda>r. id_project_id r = project_id \<and> id_id r = i) (identities db) = Some r"
  proof (cases "fetch_optional (\<lambda>r. id_project_id r = project_id \<and> id_id r = i) (identities db)")
    case None
    with r show ?thesis by (auto simp: fetch_optional_None)
  next
    case (Some x)
    from fetch_optional_Some[OF this] r assms(2) have "x = r" by (metis key_unique)
    with Some show ?thesis by simp
  qed
  with Some r(2,4) show ?thesis by (simp add: bind_identity_def)
qed


subsection \<open>Accepted distribution identities\<close>

definition inspected_as :: "library_env \<Rightarrow> string option \<Rightarrow> IosExportMethod option \<Rightarrow> IosProfileInput \<Rightarrow> bool" where
  "inspected_as env team export p \<longleftrightarrow>
     (\<exists>bytes i. le_base64 env (trim (ip_profile_base64 p)) = Some bytes \<and> le_inspect_profile env bytes = Inr i \<and>
        in_export_method i \<noteq> None \<and> in_export_method i = export \<and> (in_team_id i = None \<or> in_team_id i = team))"

lemma add_profile_Inr:
  assumes "add_profile env (n, p) (team, export, profiles, summaries) = Inr (team', export', profiles', summaries')"
    and "map rp_bundle_id profiles = map sp_bundle_id summaries"
  shows "inspected_as env team' export' p" and "team \<noteq> None \<Longrightarrow> team' = team" and "export \<noteq> None \<Longrightarrow> export' = export"
    and "map rp_bundle_id profiles' = map sp_bundle_id summaries'"
    and "distinct (map rp_bundle_id profiles) \<Longrightarrow> distinct (map rp_bundle_id profiles')"
    and "length profiles' = Suc (length profiles)"
proof -
  let ?field = "''ios.profiles['' @ show_nat n @ '']''"
  obtain bytes i how filename where
    b: "decode env (ip_profile_base64 p) (?field @ ''.profile_base64'') MAX_PROFILE_BYTES = Inr bytes"
    and i: "le_inspect_profile env bytes = Inr i" and m: "in_export_method i = Some how"
    and e: "export \<in> {None, Some how}" and t: "in_team_id i = None \<or> team = None \<or> team = in_team_id i"
    and fresh: "\<not> list_ex (\<lambda>s. sp_bundle_id s = in_bundle_id i) summaries"
    and out: "team' = (if in_team_id i = None then team else in_team_id i)" "export' = Some how"
      "profiles' = profiles @ [\<lparr>rp_bundle_id = in_bundle_id i, rp_profile_filename = filename,
            rp_profile_base64 = trim (ip_profile_base64 p), rp_profile_uuid = in_profile_uuid i,
            rp_profile_name = in_profile_name i\<rparr>]"
      "summaries' = summaries @ [\<lparr>sp_bundle_id = in_bundle_id i, sp_profile_name = in_profile_name i,
            sp_profile_uuid = in_profile_uuid i, sp_expires_at = in_expires_at i\<rparr>]"
    using assms(1) unfolding add_profile_def Let_def prod.case and_then_eq_Inr
    apply (elim exE conjE)
    subgoal for bytes i how u v w filename
      by (rule that[of bytes i how filename]) (auto simp: ok_or_eq_Inr split: sum.splits)
    done
  from b have "le_base64 env (trim (ip_profile_base64 p)) = Some bytes"
    by (auto simp: decode_def and_then_eq_Inr ok_or_eq_Inr split: if_splits)
  with i m t out(1,2) show "inspected_as env team' export' p" by (auto simp: inspected_as_def)
  from t out(1) show "team \<noteq> None \<Longrightarrow> team' = team" by auto
  from e out(2) show "export \<noteq> None \<Longrightarrow> export' = export" by auto
  from out(3,4) assms(2) show "map rp_bundle_id profiles' = map sp_bundle_id summaries'" "length profiles' = Suc (length profiles)"
    by simp_all
  have "in_bundle_id i \<notin> set (map sp_bundle_id summaries)" using fresh by (auto simp: list_ex_iff)
  then have "in_bundle_id i \<notin> set (map rp_bundle_id profiles)" unfolding assms(2) .
  then show "distinct (map rp_bundle_id profiles) \<Longrightarrow> distinct (map rp_bundle_id profiles')" by (simp add: out(3))
qed

lemma add_profiles_Inr:
  assumes "add_profiles env ps (team, export, profiles, summaries) = Inr (team', export', profiles', summaries')"
    and "map rp_bundle_id profiles = map sp_bundle_id summaries" and "distinct (map rp_bundle_id profiles)"
  shows "(\<forall>p \<in> snd ` set ps. inspected_as env team' export' p) \<and> (team \<noteq> None \<longrightarrow> team' = team) \<and>
    (export \<noteq> None \<longrightarrow> export' = export) \<and> distinct (map rp_bundle_id profiles') \<and>
    length profiles' = length profiles + length ps"
  using assms
proof (induction ps arbitrary: team export profiles summaries)
  case (Cons p ps)
  obtain n q where p: "p = (n, q)" by fastforce
  from Cons.prems(1) obtain t1 e1 ps1 s1 where first: "add_profile env (n, q) (team, export, profiles, summaries) = Inr (t1, e1, ps1, s1)"
    and rest: "add_profiles env ps (t1, e1, ps1, s1) = Inr (team', export', profiles', summaries')"
    by (auto simp: p and_then_eq_Inr)
  note one = add_profile_Inr[OF first Cons.prems(2)]
  note more = Cons.IH[OF rest one(4) one(5)[OF Cons.prems(3)]]
  have "inspected_as env team' export' q"
  proof -
    from one(1) obtain bytes i where "le_base64 env (trim (ip_profile_base64 q)) = Some bytes" "le_inspect_profile env bytes = Inr i"
      "in_export_method i \<noteq> None" "in_export_method i = e1" "in_team_id i = None \<or> in_team_id i = t1"
      by (auto simp: inspected_as_def)
    with more show ?thesis unfolding inspected_as_def by (intro exI[of _ bytes] exI[of _ i]) auto
  qed
  with more one(2,3,6) show ?case by (auto simp: p)
qed simp

text \<open>An accepted iOS identity is consistent: it holds one provisioning profile per bundle id, at most 32 and at
  least one, one for every file that was sent, and every one of them was reported as a distribution profile of
  the way of exporting and, where it names a team, of the team the identity is stored with.\<close>

theorem ios_identity_consistent:
  assumes "ios_material env input = Inr (m, summary)"
  shows "\<exists>team how profiles. m = Material_Ios team how (trim (io_p12_filename input)) (trim (io_p12_base64 input))
      (io_p12_password input) profiles \<and>
    su_team_id summary = Some team \<and> su_export_method summary = Some how \<and>
    distinct (map rp_bundle_id profiles) \<and> length profiles = length (io_profiles input) \<and>
    1 \<le> length profiles \<and> length profiles \<le> 32 \<and>
    (\<forall>p \<in> set (io_profiles input). inspected_as env (Some team) (Some how) p)"
proof -
  from assms obtain team export profiles summaries where size: "io_profiles input \<noteq> []" "length (io_profiles input) \<le> 32"
    and added: "add_profiles env (enumerate 0 (io_profiles input)) (None, None, [], []) = Inr (Some team, export, profiles, summaries)"
    and m: "m = Material_Ios team (unwrap_or AdHoc export) (trim (io_p12_filename input)) (trim (io_p12_base64 input))
        (io_p12_password input) profiles"
    and s: "su_team_id summary = Some team" "su_export_method summary = Some (unwrap_or AdHoc export)"
    by (auto simp: ios_material_def and_then_eq_Inr ok_or_eq_Inr required_def MAX_PROFILES_def Let_def split: if_splits)
  note all = add_profiles_Inr[OF added, simplified]
  have "snd ` set (enumerate 0 (io_profiles input)) = set (io_profiles input)"
    by (metis list.set_map map_snd_enumerate)
  with all have every: "\<forall>p \<in> set (io_profiles input). inspected_as env (Some team) export p" by (metis imageE)
  with size(1) obtain how where how: "export = Some how"
    by (cases "io_profiles input") (auto simp: inspected_as_def)
  from all every size m s how show ?thesis
    by (intro exI[of _ team] exI[of _ how] exI[of _ profiles]) (auto simp: Suc_le_eq)
qed

subsection \<open>Witnesses\<close>

definition sample_owner :: SessionInfo where
  "sample_owner = \<lparr>au_user_id = ''u1'', au_email = ''o@x'', au_oidc_subject = ''s'', au_role = ''owner'', au_expires_at = 0,
     au_auth_source = Session\<rparr>"

definition sample_keystore :: identity_row where
  "sample_keystore = \<lparr>id_id = ''k1'', id_project_id = ''p1'', id_name = ''store'', id_kind = ''android_keystore'',
     id_summary = \<lparr>su_filename = None, su_key_alias = None, su_team_id = None, su_export_method = None, su_expires_at = None,
       su_profiles = []\<rparr>, id_material_encrypted = ''x'', id_created_by = ''u1'', id_updated_by = ''u1'', id_created_at = 0,
     id_updated_at = 0\<rparr>"

definition sample_library :: library_db where
  "sample_library = \<lparr>lcore = empty_core\<lparr>pipelines := [\<lparr>pl_id = ''pl1'', pl_project_id = ''p1'', pl_max_concurrent = None,
       pl_cancel_previous = True, pl_timeout_minutes = 60,
       pl_approval = \<lparr>ap_required = False, ap_events = [], ap_expires_after_hours = None\<rparr>\<rparr>]\<rparr>,
     identities = [sample_keystore], workflow_settings = [], pipeline_names = [(''pl1'', ''Coin'')], build_bindings = []\<rparr>"

definition sample_settings :: PipelineWorkflowSettings where
  "sample_settings = default_settings\<lparr>ws_android_identity_id := Some ''k1'', ws_approval_required := Some True\<rparr>"

lemma sample_save:
  "update_pipeline_workflow_settings sample_owner ''pl1'' ''release'' sample_settings sample_library =
     (Inr sample_settings, sample_library\<lparr>workflow_settings := [((''pl1'', ''release''), sample_settings)]\<rparr>)"
  by (simp add: update_pipeline_workflow_settings_def check_settings_def require_pipeline_project_permission_def
      library_pipeline_project_def sample_library_def fetch_optional_def resolve_effective_project_role_def sample_owner_def
      check_project_permission_def require_project_def load_workflow_settings_def check_identity_def sample_settings_def
      default_settings_def sample_keystore_def parse_kind_def save_settings_def identity_exists_def exists_row_def
      is_valid_workflow_name_def is_valid_identifier_def is_ascii_alphanumeric_def is_ascii_alphabetic_def
      is_ascii_lowercase_def require_project_permission_def)


definition sample_library_env :: library_env where
  "sample_library_env = \<lparr>le_base64 = Some, le_encrypt = (\<lambda>_. Some ''x''), le_decrypt = (\<lambda>_. Inl (library_store_error [])),
     le_inspect_p12 = (\<lambda>_ _. Inr None),
     le_inspect_profile = (\<lambda>b. Inr \<lparr>in_bundle_id = b, in_profile_uuid = None, in_profile_name = None,
       in_team_id = (if b = ''app'' then Some ''T1'' else None), in_expires_at = None, in_export_method = Some Export_AppStore,
       in_distribution = ''app_store''\<rparr>)\<rparr>"

definition sample_distribution :: IosDistributionInput where
  "sample_distribution = \<lparr>io_p12_filename = ''c.p12'', io_p12_base64 = ''AA'', io_p12_password = ''pw'',
     io_profiles = [\<lparr>ip_profile_filename = ''a'', ip_profile_base64 = ''app''\<rparr>, \<lparr>ip_profile_filename = ''b'', ip_profile_base64 = ''ext''\<rparr>]\<rparr>"

theorem ios_identity_consistent_witness:
  "\<exists>m summary. ios_material sample_library_env sample_distribution = Inr (m, summary) \<and>
     mi_team_id m = ''T1'' \<and> su_export_method summary = Some Export_AppStore \<and> length (mi_profiles m) = 2"
proof -
  obtain m summary where run: "ios_material sample_library_env sample_distribution = Inr (m, summary)"
    and team: "mi_team_id m = ''T1''" "su_export_method summary = Some Export_AppStore"
    by (simp add: ios_material_def sample_library_env_def sample_distribution_def decode_def required_def trim_def is_ws_def
        MAX_P12_BYTES_def MAX_PROFILES_def MAX_PROFILE_BYTES_def add_profile_def Let_def ensure_def)
  from ios_identity_consistent[OF run] run team show ?thesis
    by (intro exI[of _ m] exI[of _ summary]) (auto simp: sample_distribution_def)
qed

end
