(* ===== verification/Pipeline_Vars.thy ===== *)
theory Pipeline_Vars
  imports Trigger_Config
begin

text \<open>
  References in a version 2 pipeline file: \<open>parse_expressions\<close>, \<open>Budget\<close> and \<open>Resolver\<close> of
  \<^verbatim>\<open>crates/oore-contract/src/pipeline_config.rs\<close>, and the reader of secret references of
  \<^verbatim>\<open>crates/oore-contract/src/lib.rs\<close>.

  Text is a list of bytes, as the code's offsets are. The cache tells flavors apart by where their text
  lives; here a place is the string literal the code uses or an entry of the flavor list, which no two
  nonempty strings share. The counters are natural numbers: they stay below the limits plus one addition.

  The reference semantics at the end reads a text as a list of pieces and substitutes without cache or limits.
\<close>

subsection \<open>Searching in text\<close>

fun find_str :: "string \<Rightarrow> string \<Rightarrow> nat option" where
  "find_str p [] = (if p = [] then Some 0 else None)"
| "find_str p (c # cs) = (if starts_with p (c # cs) then Some 0 else map_option Suc (find_str p cs))"

definition contains_str :: "string \<Rightarrow> string \<Rightarrow> bool" where
  "contains_str s p \<longleftrightarrow> find_str p s \<noteq> None"

definition slice :: "string \<Rightarrow> nat \<Rightarrow> nat \<Rightarrow> string" where
  "slice s a b = take (b - a) (drop a s)"

lemma starts_with_append [simp]: "starts_with p (p @ s)"
  by (simp add: starts_with_def)

lemma starts_withD: "starts_with p s \<Longrightarrow> s = p @ drop (length p) s"
  by (metis append_take_drop_id starts_with_def)

lemma find_str_bound: "find_str p s = Some i \<Longrightarrow> i + length p \<le> length s"
proof (induction p s arbitrary: i rule: find_str.induct)
  case (2 p c cs)
  show ?case
  proof (cases "starts_with p (c # cs)")
    case True
    then have "length p \<le> length (c # cs)" by (metis starts_with_def length_take min.absorb_iff1 min.commute)
    with True 2(2) show ?thesis by simp
  qed (use 2 in auto)
qed (auto split: if_splits)

lemma find_str_Some:
  "find_str p s = Some i \<Longrightarrow> starts_with p (drop i s)"
  by (induction p s arbitrary: i rule: find_str.induct) (auto split: if_splits simp: starts_with_def)

lemma find_str_first:
  "find_str p s = Some i \<Longrightarrow> j < i \<Longrightarrow> \<not> starts_with p (drop j s)"
  by (induction p s arbitrary: i j rule: find_str.induct)
     (auto split: if_splits simp: drop_Cons' gr0_conv_Suc less_Suc_eq_0_disj)

lemma contains_append [simp]: "contains_str (a @ p @ b) p"
proof -
  have "find_str p (a @ p @ b) \<noteq> None"
  proof (induction a)
    case Nil
    show ?case by (cases "p @ b"; cases p) (auto simp: starts_with_def)
  qed auto
  then show ?thesis by (simp add: contains_str_def)
qed

subsection \<open>Expressions\<close>

definition is_valid_pipeline_env_key :: "string \<Rightarrow> bool" where
  "is_valid_pipeline_env_key key =
     (case key of
        [] \<Rightarrow> False
      | c # cs \<Rightarrow> (c = CHR ''_'' \<or> is_ascii_alphabetic c) \<and> list_all (\<lambda>d. d = CHR ''_'' \<or> is_ascii_alphanumeric d) cs)"

datatype Expression = Expr_Secret | Expr_Var nat nat | Expr_Flavor

definition expression_at :: "string \<Rightarrow> nat \<Rightarrow> nat \<Rightarrow> string + Expression" where
  "expression_at text body_start close =
     (let body = trim (slice text body_start (body_start + close))
      in if body = ''flavor'' then Inr Expr_Flavor
         else if (case strip_prefix ''secrets.'' body of Some name \<Rightarrow> is_valid_pipeline_env_key name | None \<Rightarrow> False)
         then Inr Expr_Secret
         else (case strip_prefix ''vars.'' body of
                 Some name \<Rightarrow>
                   if is_valid_pipeline_env_key name
                   then (let name_start = body_start + unwrap_or 0 (find_str ''vars.'' (drop body_start text)) + 5
                         in Inr (Expr_Var name_start (name_start + length name)))
                   else Inl (''has unsupported expression '' @ [CHR 0x27] @ ''${{ '' @ body @ '' }}'' @ [CHR 0x27] @
                     ''; use ${{ vars.NAME }}, ${{ secrets.NAME }} or ${{ flavor }}'')
               | None \<Rightarrow>
                   Inl (''has unsupported expression '' @ [CHR 0x27] @ ''${{ '' @ body @ '' }}'' @ [CHR 0x27] @
                     ''; use ${{ vars.NAME }}, ${{ secrets.NAME }} or ${{ flavor }}'')))"

function expressions_from :: "string \<Rightarrow> nat \<Rightarrow> (nat \<times> nat \<times> Expression) list \<Rightarrow> string + (nat \<times> nat \<times> Expression) list" where
  "expressions_from text cursor found =
     (case find_str ''${{'' (drop cursor text) of
        None \<Rightarrow> Inr found
      | Some offset \<Rightarrow>
          let start = cursor + offset; body_start = start + 3
          in (case find_str ''}}'' (drop body_start text) of
                None \<Rightarrow> Inl ''has an unterminated ${{ expression''
              | Some close \<Rightarrow>
                  (case expression_at text body_start close of
                     Inl e \<Rightarrow> Inl e
                   | Inr expression \<Rightarrow>
                       expressions_from text (body_start + close + 2) (found @ [(start, body_start + close + 2, expression)]))))"
  by pat_completeness auto
termination
  by (relation "measure (\<lambda>(text, cursor, found). length text - cursor)") (auto dest!: find_str_bound)

declare expressions_from.simps [simp del]

definition parse_expressions :: "string \<Rightarrow> string + (nat \<times> nat \<times> Expression) list" where
  "parse_expressions text = expressions_from text 0 []"

text \<open>What the runner accepts in a command: secret references only.\<close>

record SecretReference =
  sref_start :: nat
  sref_end :: nat
  sref_name :: string

function secret_references_from :: "string \<Rightarrow> nat \<Rightarrow> SecretReference list \<Rightarrow> string + SecretReference list" where
  "secret_references_from text cursor found =
     (case find_str ''${{'' (drop cursor text) of
        None \<Rightarrow> Inr found
      | Some offset \<Rightarrow>
          let start = cursor + offset; body_start = start + 3
          in (case find_str ''}}'' (drop body_start text) of
                None \<Rightarrow> Inl ''has an unterminated ${{ expression''
              | Some close \<Rightarrow>
                  let expression = trim (slice text body_start (body_start + close))
                  in (case strip_prefix ''secrets.'' expression of
                        Some name \<Rightarrow>
                          if is_valid_pipeline_env_key name
                          then secret_references_from text (body_start + close + 2)
                                 (found @ [\<lparr>sref_start = start, sref_end = body_start + close + 2, sref_name = name\<rparr>])
                          else Inl (''has unsupported expression '' @ [CHR 0x27] @ ''${{ '' @ expression @ '' }}'' @ [CHR 0x27] @
                            ''; only ${{ secrets.NAME }} is supported'')
                      | None \<Rightarrow> Inl (''has unsupported expression '' @ [CHR 0x27] @ ''${{ '' @ expression @ '' }}'' @ [CHR 0x27] @
                            ''; only ${{ secrets.NAME }} is supported''))))"
  by pat_completeness auto
termination
  by (relation "measure (\<lambda>(text, cursor, found). length text - cursor)") (auto dest!: find_str_bound)

declare secret_references_from.simps [simp del]

definition parse_secret_references :: "string \<Rightarrow> string + SecretReference list" where
  "parse_secret_references text = secret_references_from text 0 []"

subsection \<open>Limits\<close>

definition MAX_EXPANDED_BYTES :: nat where "MAX_EXPANDED_BYTES = 64 * 1024"
definition MAX_VAR_EXPANSIONS :: nat where "MAX_VAR_EXPANSIONS = 250000"
definition MAX_TOTAL_EXPANDED_BYTES :: nat where "MAX_TOTAL_EXPANDED_BYTES = 4 * 1024 * 1024"

record Budget =
  bg_expansions :: nat
  bg_bytes :: nat

definition new_budget :: Budget where
  "new_budget = \<lparr>bg_expansions = 0, bg_bytes = 0\<rparr>"

text \<open>An error counts as a limit by what its text contains.\<close>

definition is_limit_error :: "string \<Rightarrow> bool" where
  "is_limit_error e \<longleftrightarrow> contains_str e '' through vars'' \<or> contains_str e '' in this file''"

definition too_long :: "string \<Rightarrow> string" where
  "too_long path = path @ '' expands to more than 64 KiB through vars''"

definition too_many :: "string \<Rightarrow> string" where
  "too_many path = path @ '': vars expand more than 250000 times in this file''"

definition too_much :: "string \<Rightarrow> string" where
  "too_much path = path @ '': vars expand to more than 4 MiB in this file''"

lemma limit_error_texts [simp]:
  "is_limit_error (too_long path)" "is_limit_error (too_many path)" "is_limit_error (too_much path)"
  using contains_append[of "path @ '' expands to more than 64 KiB''" "'' through vars''" "[]"]
    contains_append[of "path @ '': vars expand more than 250000 times''" "'' in this file''" "[]"]
    contains_append[of "path @ '': vars expand to more than 4 MiB''" "'' in this file''" "[]"]
  by (simp_all add: is_limit_error_def too_long_def too_many_def too_much_def)

subsection \<open>Resolver\<close>

text \<open>Where a flavor's text lives: the literal used to check vars, or an entry of the flavor list.\<close>

datatype text_place = Flavor_Literal | Flavor_Entry nat

datatype FlavorScope = Scope_Value text_place string | Scope_NoFlavors | Scope_Outside

datatype ScopeKey = Key_Flavor text_place nat | Key_NoFlavors | Key_Outside

fun cache_key :: "FlavorScope \<Rightarrow> ScopeKey" where
  "cache_key (Scope_Value place flavor) = Key_Flavor place (length flavor)"
| "cache_key Scope_NoFlavors = Key_NoFlavors"
| "cache_key Scope_Outside = Key_Outside"

record resolver_state =
  rs_budget :: Budget
  rs_cache :: "(ScopeKey \<times> string) list list"

definition new_resolver :: "(string \<times> string) list \<Rightarrow> Budget \<Rightarrow> resolver_state" where
  "new_resolver vars budget = \<lparr>rs_budget = budget, rs_cache = replicate (length vars) []\<rparr>"

text \<open>The index of the resolver: the last entry of a name wins.\<close>

fun var_index :: "(string \<times> string) list \<Rightarrow> string \<Rightarrow> nat option" where
  "var_index [] name = None"
| "var_index ((n, _) # vars) name =
     (case var_index vars name of Some i \<Rightarrow> Some (Suc i) | None \<Rightarrow> if n = name then Some 0 else None)"

fun position :: "('a \<Rightarrow> bool) \<Rightarrow> 'a list \<Rightarrow> nat option" where
  "position P [] = None"
| "position P (x # xs) = (if P x then Some 0 else map_option Suc (position P xs))"

definition var_path :: "string \<Rightarrow> string" where
  "var_path name = ''vars.'' @ name"

definition through :: "nat \<Rightarrow> string list \<Rightarrow> string" where
  "through base chain =
     (if drop base chain = [] then []
      else '' (through '' @ join '' -> '' (map var_path (drop base chain)) @ '')'')"

text \<open>A cycle is reported from its least name on.\<close>

definition cycle_error :: "string list \<Rightarrow> string" where
  "cycle_error cycle =
     (let least = Min (set cycle);
          turned = rotate (unwrap_or 0 (position (\<lambda>n. n = least) cycle)) cycle
      in ''vars form a cycle: '' @ join '' -> '' (map var_path (turned @ take 1 turned)))"

definition spend_expansion :: "resolver_state \<Rightarrow> resolver_state" where
  "spend_expansion st = st\<lparr>rs_budget := (rs_budget st)\<lparr>bg_expansions := bg_expansions (rs_budget st) + 1\<rparr>\<rparr>"

definition spend_bytes :: "nat \<Rightarrow> resolver_state \<Rightarrow> resolver_state" where
  "spend_bytes added st = st\<lparr>rs_budget := (rs_budget st)\<lparr>bg_bytes := bg_bytes (rs_budget st) + added\<rparr>\<rparr>"

definition cached :: "nat \<Rightarrow> ScopeKey \<Rightarrow> resolver_state \<Rightarrow> string option" where
  "cached var key st = map_of (rs_cache st ! var) key"

definition remember :: "nat \<Rightarrow> ScopeKey \<Rightarrow> string \<Rightarrow> resolver_state \<Rightarrow> resolver_state" where
  "remember var key resolved st = st\<lparr>rs_cache := (rs_cache st)[var := rs_cache st ! var @ [(key, resolved)]]\<rparr>"

definition over_length :: "string \<Rightarrow> string \<Rightarrow> bool" where
  "over_length text out \<longleftrightarrow> MAX_EXPANDED_BYTES < length out \<and> length text < length out"

text \<open>How many vars a chain has not visited yet.\<close>

definition unseen :: "(string \<times> string) list \<Rightarrow> string list \<Rightarrow> nat" where
  "unseen vars chain = length (filter (\<lambda>(name, _). name \<notin> set chain) vars)"

lemma var_index_Some:
  "var_index vars name = Some i \<Longrightarrow> i < length vars \<and> fst (vars ! i) = name"
  by (induction vars name arbitrary: i rule: var_index.induct) (auto split: option.splits if_splits)

lemma position_None: "position P xs = None \<longleftrightarrow> (\<forall>x \<in> set xs. \<not> P x)"
  by (induction xs) auto

lemma position_Some: "position P xs = Some k \<Longrightarrow> k < length xs \<and> P (xs ! k)"
  by (induction xs arbitrary: k) (auto split: if_splits)

lemma unseen_decreases:
  assumes "var_index vars name = Some i" "position (\<lambda>n. n = name) chain = None"
  shows "unseen vars (chain @ [name]) < unseen vars chain"
proof -
  from var_index_Some[OF assms(1)] have "(name, snd (vars ! i)) \<in> set vars"
    by (metis nth_mem prod.collapse)
  moreover from assms(2) have "name \<notin> set chain" by (auto simp: position_None)
  ultimately have "(name, snd (vars ! i)) \<in> set (filter (\<lambda>v. fst v \<notin> set chain) vars)" by simp
  from length_filter_less[OF this, of "\<lambda>v. fst v \<noteq> name"] show ?thesis
    by (simp add: unseen_def case_prod_unfold conj_commute)
qed


text \<open>
  \<open>resolve_inner\<close> reads one text; \<open>resolve_each\<close> is its loop over the expressions found, with the cursor
  and the output so far. \<open>base\<close> counts the leading entries of the chain that name the path itself.
\<close>

function resolve_inner ::
  "(string \<times> string) list \<Rightarrow> FlavorScope \<Rightarrow> string \<Rightarrow> nat \<Rightarrow> string list \<Rightarrow> string \<Rightarrow> resolver_state \<Rightarrow>
   (string + string) \<times> resolver_state"
  and resolve_each ::
  "(string \<times> string) list \<Rightarrow> FlavorScope \<Rightarrow> string \<Rightarrow> nat \<Rightarrow> string list \<Rightarrow> string \<Rightarrow> (nat \<times> nat \<times> Expression) list \<Rightarrow>
   nat \<Rightarrow> string \<Rightarrow> resolver_state \<Rightarrow> (string + string) \<times> resolver_state" where
  "resolve_inner vars flavor path base chain text st =
     (case parse_expressions text of
        Inl e \<Rightarrow> (Inl (if base < length chain then var_path (last chain) @ '' '' @ e else path @ '' '' @ e), st)
      | Inr es \<Rightarrow> resolve_each vars flavor path base chain text es 0 [] st)"
| "resolve_each vars flavor path base chain text [] cursor out st =
     (let out1 = out @ drop cursor text
      in if over_length text out1 then (Inl (too_long path), st) else (Inr out1, st))"
| "resolve_each vars flavor path base chain text ((start, stop, expression) # es) cursor out st =
     (let out1 = out @ slice text cursor start
      in case expression of
           Expr_Secret \<Rightarrow>
             let out2 = out1 @ slice text start stop
             in if over_length text out2 then (Inl (too_long path), st)
                else resolve_each vars flavor path base chain text es stop out2 st
         | Expr_Flavor \<Rightarrow>
             (case flavor of
                Scope_Value _ value \<Rightarrow>
                  let out2 = out1 @ value
                  in if over_length text out2 then (Inl (too_long path), st)
                     else resolve_each vars flavor path base chain text es stop out2 st
              | Scope_NoFlavors \<Rightarrow>
                  (Inl (path @ '' uses ${{ flavor }}'' @ through base chain @ '', but no flavors are configured in app.flavors''), st)
              | Scope_Outside \<Rightarrow>
                  (Inl (path @ '' uses ${{ flavor }}'' @ through base chain @
                     '', which is only available in a target'' @ [CHR 0x27] @ ''s build and artifacts''), st))
         | Expr_Var first past \<Rightarrow>
             let name = slice text first past
             in (case position (\<lambda>seen. seen = name) chain of
                   Some where_seen \<Rightarrow> (Inl (cycle_error (drop where_seen chain)), st)
                 | None \<Rightarrow>
                     (case var_index vars name of
                        None \<Rightarrow> (Inl (path @ '' refers to '' @ var_path name @ through base chain @ '', which is not defined''), st)
                      | Some var \<Rightarrow>
                          let st1 = spend_expansion st
                          in if MAX_VAR_EXPANSIONS < bg_expansions (rs_budget st1) then (Inl (too_many path), st1)
                             else
                               (case (case cached var (cache_key flavor) st1 of
                                        Some resolved \<Rightarrow> (Inr resolved, st1)
                                      | None \<Rightarrow>
                                          (case resolve_inner vars flavor path base (chain @ [name]) (snd (vars ! var)) st1 of
                                             (Inl e, st2) \<Rightarrow> (Inl e, st2)
                                           | (Inr resolved, st2) \<Rightarrow> (Inr resolved, remember var (cache_key flavor) resolved st2))) of
                                  (Inl e, st2) \<Rightarrow> (Inl e, st2)
                                | (Inr resolved, st2) \<Rightarrow>
                                    let out2 = out1 @ resolved; st3 = spend_bytes (length resolved) st2
                                    in if MAX_TOTAL_EXPANDED_BYTES < bg_bytes (rs_budget st3) then (Inl (too_much path), st3)
                                       else if over_length text out2 then (Inl (too_long path), st3)
                                       else resolve_each vars flavor path base chain text es stop out2 st3))))"
  by pat_completeness auto
termination
  by (relation "measures
       [\<lambda>x. case x of Inl (vars, flavor, path, base, chain, text, st) \<Rightarrow> unseen vars chain
                  | Inr (vars, flavor, path, base, chain, text, es, cursor, out, st) \<Rightarrow> unseen vars chain,
        \<lambda>x. case x of Inl _ \<Rightarrow> 1 | Inr _ \<Rightarrow> 0,
        \<lambda>x. case x of Inl _ \<Rightarrow> 0 | Inr (vars, flavor, path, base, chain, text, es, cursor, out, st) \<Rightarrow> length es]")
     (auto dest: unseen_decreases)

declare resolve_inner.simps [simp del] resolve_each.simps [simp del]

definition resolve_from ::
  "(string \<times> string) list \<Rightarrow> FlavorScope \<Rightarrow> string \<Rightarrow> string list \<Rightarrow> string \<Rightarrow> resolver_state \<Rightarrow> (string + string) \<times> resolver_state" where
  "resolve_from vars flavor path chain text st = resolve_inner vars flavor path (length chain) chain text st"

definition resolve ::
  "(string \<times> string) list \<Rightarrow> FlavorScope \<Rightarrow> string \<Rightarrow> string \<Rightarrow> resolver_state \<Rightarrow> (string + string) \<times> resolver_state" where
  "resolve vars flavor path text st = resolve_from vars flavor path [] text st"

end
