(* ===== verification/Pipeline_Expansion.thy ===== *)
theory Pipeline_Expansion
  imports Pipeline_Vars
begin

text \<open>
  What resolving a text means, without offsets, cache or limits: a text is a list of pieces and each
  reference is replaced by what it stands for. The resolver of \<open>Pipeline_Vars\<close> is proved to give exactly this,
  or to report one of its limits.
\<close>

subsection \<open>Reference semantics\<close>

datatype piece = Lit string | Secret_Ref string | Flavor_Ref | Var_Ref string

definition reference :: "string \<Rightarrow> piece option" where
  "reference raw =
     (let body = trim raw
      in if body = ''flavor'' then Some Flavor_Ref
         else if starts_with ''secrets.'' body \<and> is_valid_pipeline_env_key (drop (length ''secrets.'') body) then Some (Secret_Ref (''${{'' @ raw @ ''}}''))
         else if starts_with ''vars.'' body \<and> is_valid_pipeline_env_key (drop (length ''vars.'') body) then Some (Var_Ref (drop (length ''vars.'') body))
         else None)"

function pieces :: "string \<Rightarrow> piece list option" where
  "pieces text =
     (case find_str ''${{'' text of
        None \<Rightarrow> Some [Lit text]
      | Some i \<Rightarrow>
          let rest = drop (i + 3) text
          in (case find_str ''}}'' rest of
                None \<Rightarrow> None
              | Some close \<Rightarrow>
                  (case reference (take close rest) of
                     None \<Rightarrow> None
                   | Some r \<Rightarrow> map_option (\<lambda>ps. Lit (take i text) # r # ps) (pieces (drop (close + 2) rest)))))"
  by pat_completeness auto
termination
  by (relation "measure length") (auto dest!: find_str_bound)

declare pieces.simps [simp del]

definition var_value :: "(string \<times> string) list \<Rightarrow> string \<Rightarrow> string option" where
  "var_value vars name = map_option (\<lambda>i. snd (vars ! i)) (var_index vars name)"

text \<open>The text after at most \<open>n\<close> levels of references.\<close>

fun expand :: "nat \<Rightarrow> (string \<times> string) list \<Rightarrow> string option \<Rightarrow> string \<Rightarrow> string option" where
  "expand 0 vars flavor text = None"
| "expand (Suc n) vars flavor text =
     (case pieces text of
        None \<Rightarrow> None
      | Some ps \<Rightarrow>
          map_option concat (those (map (\<lambda>p. case p of
             Lit s \<Rightarrow> Some s
           | Secret_Ref s \<Rightarrow> Some s
           | Flavor_Ref \<Rightarrow> flavor
           | Var_Ref name \<Rightarrow> (case var_value vars name of None \<Rightarrow> None | Some v \<Rightarrow> expand n vars flavor v)) ps)))"

definition expands :: "(string \<times> string) list \<Rightarrow> string option \<Rightarrow> string \<Rightarrow> string \<Rightarrow> bool" where
  "expands vars flavor text out \<longleftrightarrow> (\<exists>n. expand n vars flavor text = Some out)"

definition piece_value :: "nat \<Rightarrow> (string \<times> string) list \<Rightarrow> string option \<Rightarrow> piece \<Rightarrow> string option" where
  "piece_value n vars flavor p =
     (case p of
        Lit s \<Rightarrow> Some s
      | Secret_Ref s \<Rightarrow> Some s
      | Flavor_Ref \<Rightarrow> flavor
      | Var_Ref name \<Rightarrow> (case var_value vars name of None \<Rightarrow> None | Some v \<Rightarrow> expand n vars flavor v))"

lemma piece_value_simps [simp]:
  "piece_value n vars flavor (Lit s) = Some s"
  "piece_value n vars flavor (Secret_Ref s) = Some s"
  "piece_value n vars flavor Flavor_Ref = flavor"
  "piece_value n vars flavor (Var_Ref name) =
     (case var_value vars name of None \<Rightarrow> None | Some v \<Rightarrow> expand n vars flavor v)"
  by (simp_all add: piece_value_def)

lemma expand_Suc:
  "expand (Suc n) vars flavor text =
     Option.bind (pieces text) (\<lambda>ps. map_option concat (those (map (piece_value n vars flavor) ps)))"
  by (simp add: piece_value_def[abs_def] split: option.splits)

declare expand.simps(2) [simp del]

fun flavor_text :: "FlavorScope \<Rightarrow> string option" where
  "flavor_text (Scope_Value _ value) = Some value"
| "flavor_text Scope_NoFlavors = None"
| "flavor_text Scope_Outside = None"

subsection \<open>More levels change nothing\<close>

lemma those_mono:
  assumes "those (map f ps) = Some ws" "\<And>p w. p \<in> set ps \<Longrightarrow> f p = Some w \<Longrightarrow> g p = Some w"
  shows "those (map g ps) = Some ws"
  using assms by (induction ps arbitrary: ws) (auto split: option.splits)

lemma those_Some_nth:
  "those xs = Some ys \<longleftrightarrow> xs = map Some ys"
  by (induction xs arbitrary: ys) (auto split: option.splits)

lemma expand_mono: "expand n vars flavor s = Some out \<Longrightarrow> n \<le> m \<Longrightarrow> expand m vars flavor s = Some out"
proof (induction n arbitrary: m s out)
  case (Suc n)
  from Suc.prems(2) obtain m' where m: "m = Suc m'" "n \<le> m'" by (cases m) auto
  from Suc.prems(1) obtain ps ws where "pieces s = Some ps"
    and ws: "those (map (piece_value n vars flavor) ps) = Some ws" and "out = concat ws"
    by (auto simp: expand_Suc bind_eq_Some_conv)
  moreover have "those (map (piece_value m' vars flavor) ps) = Some ws"
    using ws Suc.IH[OF _ m(2)] by (elim those_mono) (auto simp: piece_value_def split: piece.splits option.splits)
  ultimately show ?case by (simp add: m(1) expand_Suc)
qed simp

lemma expand_agree:
  assumes "expand n vars flavor s = Some a" "expand m vars flavor s = Some b"
  shows "a = b"
  using expand_mono[OF assms(1), of "max n m"] expand_mono[OF assms(2), of "max n m"] by simp

lemma piece_value_mono:
  "piece_value n vars flavor p = Some w \<Longrightarrow> n \<le> m \<Longrightarrow> piece_value m vars flavor p = Some w"
  by (cases p) (auto split: option.splits dest: expand_mono[of n vars flavor _ _ m])

lemma expands_unique: "expands vars flavor s a \<Longrightarrow> expands vars flavor s b \<Longrightarrow> a = b"
  by (auto simp: expands_def dest: expand_agree)

subsection \<open>Offsets and pieces\<close>

definition piece_of :: "string \<Rightarrow> nat \<Rightarrow> nat \<Rightarrow> Expression \<Rightarrow> piece" where
  "piece_of s start stop e =
     (case e of Expr_Secret \<Rightarrow> Secret_Ref (slice s start stop)
      | Expr_Flavor \<Rightarrow> Flavor_Ref
      | Expr_Var first past \<Rightarrow> Var_Ref (slice s first past))"

fun as_pieces :: "string \<Rightarrow> nat \<Rightarrow> (nat \<times> nat \<times> Expression) list \<Rightarrow> piece list" where
  "as_pieces s cursor [] = [Lit (drop cursor s)]"
| "as_pieces s cursor ((start, stop, e) # es) =
     Lit (slice s cursor start) #
     piece_of s start stop e # as_pieces s stop es"

lemma trim_split: "\<exists>a b. s = a @ trim s @ b \<and> (\<forall>c \<in> set a. is_ws c) \<and> a = takeWhile is_ws s"
proof -
  let ?m = "dropWhile is_ws s"
  have "s = takeWhile is_ws s @ ?m" by simp
  moreover have "?m = trim s @ rev (takeWhile is_ws (rev ?m))"
    by (simp add: trim_def) (metis rev_append rev_rev_ident takeWhile_dropWhile_id)
  ultimately show ?thesis by (metis set_takeWhileD)
qed

lemma find_str_after:
  assumes "\<forall>c \<in> set a. c \<noteq> hd p" "p \<noteq> []" "starts_with p s"
  shows "find_str p (a @ s) = Some (length a)"
  using assms
proof (induction a)
  case Nil
  then show ?case by (cases s) (auto simp: starts_with_def)
next
  case (Cons c a)
  then have "\<not> starts_with p (c # a @ s)" by (cases p) (auto simp: starts_with_def)
  with Cons show ?case by simp
qed

lemma var_name_slice:
  assumes "trim (slice s b (b + n)) = ''vars.'' @ name" "b + n \<le> length s"
  shows "find_str ''vars.'' (drop b s) \<noteq> None"
    and "slice s (b + the (find_str ''vars.'' (drop b s)) + 5) (b + the (find_str ''vars.'' (drop b s)) + 5 + length name) = name"
proof -
  from trim_split[of "slice s b (b + n)"] obtain x y where
    sp: "slice s b (b + n) = x @ (''vars.'' @ name) @ y" and ws: "\<forall>c \<in> set x. is_ws c"
    unfolding assms(1) by blast
  have d: "drop b s = x @ (''vars.'' @ name @ y @ drop (b + n) s)"
  proof -
    have "drop b s = slice s b (b + n) @ drop n (drop b s)" by (simp add: slice_def del: drop_drop)
    then show ?thesis by (simp add: sp add.commute)
  qed
  have f: "find_str ''vars.'' (drop b s) = Some (length x)"
  proof -
    have "\<not> is_ws (CHR ''v'')" by (simp add: is_ws_def)
    with ws have "\<forall>c \<in> set x. c \<noteq> CHR ''v''" by blast
    then show ?thesis unfolding d by (intro find_str_after) (simp_all add: starts_with_def)
  qed
  then show "find_str ''vars.'' (drop b s) \<noteq> None" by simp
  have "drop (b + length x + 5) s = drop 5 (drop (length x) (drop b s))"
    unfolding drop_drop by (rule arg_cong[where f = "\<lambda>k. drop k s"]) simp
  also have "\<dots> = name @ y @ drop (b + n) s" unfolding d by simp
  finally show "slice s (b + the (find_str ''vars.'' (drop b s)) + 5)
      (b + the (find_str ''vars.'' (drop b s)) + 5 + length name) = name"
    by (simp add: f slice_def)
qed

lemma expression_piece:
  assumes "starts_with ''${{'' (drop start s)" "find_str ''}}'' (drop (start + 3) s) = Some close"
  shows "reference (slice s (start + 3) (start + 3 + close)) =
    (case expression_at s (start + 3) close of Inl _ \<Rightarrow> None | Inr e \<Rightarrow> Some (piece_of s start (start + 3 + close + 2) e))"
proof -
  let ?raw = "slice s (start + 3) (start + 3 + close)"
  from find_str_bound[OF assms(2)] have len: "start + 3 + close \<le> length s" by simp
  have whole: "slice s start (start + 3 + close + 2) = ''${{'' @ ?raw @ ''}}''"
  proof -
    have raw: "length ?raw = close" using len by (simp add: slice_def)
    from starts_withD[OF find_str_Some[OF assms(2)]] obtain rest where
      "drop close (drop (start + 3) s) = ''}}'' @ rest" by metis
    then have "drop (start + 3) s = ?raw @ ''}}'' @ rest"
      unfolding slice_def by (metis add_diff_cancel_left' append_take_drop_id)
    with starts_withD[OF assms(1)] have "drop start s = ''${{'' @ ?raw @ ''}}'' @ rest"
      by (simp add: numeral_3_eq_3)
    then have "take (length (''${{'' @ ?raw @ ''}}'')) (drop start s) = ''${{'' @ ?raw @ ''}}''"
      by (metis append_eq_conv_conj append_assoc)
    moreover have "length (''${{'' @ ?raw @ ''}}'') = start + 3 + close + 2 - start" by (simp add: raw)
    ultimately show ?thesis unfolding slice_def[of s start] by (simp only:)
  qed
  have var: "slice s n1 (n1 + length name) = name"
    if "trim ?raw = ''vars.'' @ name" "n1 = start + 3 + unwrap_or 0 (find_str ''vars.'' (drop (start + 3) s)) + 5" for name n1
    using var_name_slice[OF that(1) len] that(2) by (cases "find_str ''vars.'' (drop (start + 3) s)") simp_all
  show ?thesis
  proof (cases "strip_prefix ''vars.'' (trim ?raw)")
    case (Some name)
    then have raw: "trim ?raw = ''vars.'' @ name" by (simp add: strip_prefix_Some)
    show ?thesis
      using var[OF raw refl] by (simp add: reference_def expression_at_def Let_def raw piece_of_def strip_prefix_def starts_with_def)
  next
    case None
    then have no: "\<not> starts_with ''vars.'' (trim ?raw)" by (auto simp: strip_prefix_def split: if_splits)
    with None show ?thesis
      by (cases "strip_prefix ''secrets.'' (trim ?raw)")
         (auto simp: reference_def expression_at_def Let_def piece_of_def whole[simplified] strip_prefix_def split: if_splits)
  qed
qed

lemma expressions_from_found:
  "expressions_from s cursor found = map_sum id ((@) found) (expressions_from s cursor [])"
proof (induction "length s - cursor" arbitrary: cursor found rule: less_induct)
  case less
  show ?case
  proof (cases "find_str ''${{'' (drop cursor s)")
    case None
    then show ?thesis by (simp add: expressions_from.simps)
  next
    case start: (Some offset)
    show ?thesis
    proof (cases "find_str ''}}'' (drop (cursor + offset + 3) s)")
      case None
      with start show ?thesis by (simp add: expressions_from.simps Let_def)
    next
      case close: (Some close)
      let ?next = "cursor + offset + 3 + close + 2"
      from find_str_bound[OF close] have "length s - ?next < length s - cursor" by simp
      note ih = less[OF this]
      show ?thesis
      proof (cases "expression_at s (cursor + offset + 3) close")
        case (Inl e)
        with start close show ?thesis by (simp add: expressions_from.simps[of s cursor] Let_def)
      next
        case (Inr e)
        let ?x = "(cursor + offset, ?next, e)"
        have "expressions_from s cursor fs = expressions_from s ?next (fs @ [?x])" for fs
          using start close Inr by (simp add: expressions_from.simps[of s cursor] Let_def)
        then show ?thesis
          by (simp only: ih[of "found @ [?x]"] ih[of "[?x]"] append_Nil) (cases "expressions_from s ?next []"; simp)
      qed
    qed
  qed
qed

lemma pieces_parse:
  "pieces (drop cursor s) = (case expressions_from s cursor [] of Inl _ \<Rightarrow> None | Inr es \<Rightarrow> Some (as_pieces s cursor es))"
proof (induction "length s - cursor" arbitrary: cursor rule: less_induct)
  case less
  show ?case
  proof (cases "find_str ''${{'' (drop cursor s)")
    case None
    then show ?thesis by (simp add: expressions_from.simps pieces.simps)
  next
    case start: (Some offset)
    show ?thesis
    proof (cases "find_str ''}}'' (drop (cursor + offset + 3) s)")
      case None
      with start show ?thesis
        by (simp add: expressions_from.simps[of s cursor] pieces.simps[of "drop cursor s"] Let_def ac_simps)
    next
      case close: (Some close)
      let ?start = "cursor + offset" and ?next = "cursor + offset + 3 + close + 2"
      from find_str_bound[OF close] have "length s - ?next < length s - cursor" by simp
      note ih = less[OF this]
      from find_str_Some[OF start] have dollar: "starts_with ''${{'' (drop ?start s)" by (simp add: add.commute)
      have raw: "take close (drop (offset + 3) (drop cursor s)) = slice s (?start + 3) (?start + 3 + close)"
        by (simp add: slice_def ac_simps)
      have body: "find_str ''}}'' (drop (offset + 3) (drop cursor s)) = Some close"
        "drop (close + 2) (drop (offset + 3) (drop cursor s)) = drop ?next s"
        using close by (simp_all add: ac_simps)
      note ref = expression_piece[OF dollar close]
      show ?thesis
      proof (cases "expression_at s (?start + 3) close")
        case (Inl e)
        with start close ref show ?thesis
          unfolding pieces.simps[of "drop cursor s"] by (simp add: expressions_from.simps[of s cursor] Let_def body raw del: drop_drop add_2_eq_Suc')
      next
        case (Inr e)
        have "expressions_from s cursor [] = map_sum id ((@) [(?start, ?next, e)]) (expressions_from s ?next [])"
          unfolding expressions_from.simps[of s cursor] using start close Inr
          by (simp add: Let_def expressions_from_found[of s _ "[_]"])
        moreover have "pieces (drop cursor s) = map_option (\<lambda>ps. Lit (take offset (drop cursor s)) # piece_of s ?start ?next e # ps)
            (pieces (drop ?next s))"
          unfolding pieces.simps[of "drop cursor s"] using start ref Inr by (simp add: Let_def body raw del: drop_drop add_2_eq_Suc')
        moreover have "take offset (drop cursor s) = slice s cursor ?start" by (simp add: slice_def)
        ultimately show ?thesis by (simp only: ih) (cases "expressions_from s ?next []"; simp)
      qed
    qed
  qed
qed

corollary pieces_expressions:
  "pieces s = (case parse_expressions s of Inl _ \<Rightarrow> None | Inr es \<Rightarrow> Some (as_pieces s 0 es))"
  using pieces_parse[of 0 s] by (simp add: parse_expressions_def)

subsection \<open>The resolver as a relation\<close>

text \<open>One rule for every way the resolver goes on or stops, so that each property is an induction over the rules.\<close>

definition plain_text :: "FlavorScope \<Rightarrow> string \<Rightarrow> nat \<Rightarrow> nat \<Rightarrow> Expression \<Rightarrow> string option" where
  "plain_text flavor s start stop e =
     (case e of Expr_Secret \<Rightarrow> Some (slice s start stop) | Expr_Flavor \<Rightarrow> flavor_text flavor | Expr_Var _ _ \<Rightarrow> None)"

inductive
  runs_inner :: "(string \<times> string) list \<Rightarrow> FlavorScope \<Rightarrow> string \<Rightarrow> nat \<Rightarrow> string list \<Rightarrow> string \<Rightarrow> resolver_state \<Rightarrow>
     string + string \<Rightarrow> resolver_state \<Rightarrow> bool" and
  runs_each :: "(string \<times> string) list \<Rightarrow> FlavorScope \<Rightarrow> string \<Rightarrow> nat \<Rightarrow> string list \<Rightarrow> string \<Rightarrow> (nat \<times> nat \<times> Expression) list \<Rightarrow>
     nat \<Rightarrow> string \<Rightarrow> resolver_state \<Rightarrow> string + string \<Rightarrow> resolver_state \<Rightarrow> bool" and
  runs_var :: "(string \<times> string) list \<Rightarrow> FlavorScope \<Rightarrow> string \<Rightarrow> nat \<Rightarrow> string list \<Rightarrow> string \<Rightarrow> nat \<Rightarrow> resolver_state \<Rightarrow>
     string + string \<Rightarrow> resolver_state \<Rightarrow> bool"
  for vars flavor path base where
  unreadable: "parse_expressions s = Inl e \<Longrightarrow> m = (if base < length chain then var_path (last chain) @ '' '' @ e else path @ '' '' @ e) \<Longrightarrow>
    runs_inner vars flavor path base chain s st (Inl m) st"
| readable: "parse_expressions s = Inr es \<Longrightarrow> runs_each vars flavor path base chain s es 0 [] st r st' \<Longrightarrow>
    runs_inner vars flavor path base chain s st r st'"
| finished: "\<not> over_length s (out @ drop cursor s) \<Longrightarrow>
    runs_each vars flavor path base chain s [] cursor out st (Inr (out @ drop cursor s)) st"
| finished_long: "over_length s (out @ drop cursor s) \<Longrightarrow>
    runs_each vars flavor path base chain s [] cursor out st (Inl (too_long path)) st"
| plain: "plain_text flavor s start stop e = Some w \<Longrightarrow> out1 = out @ slice s cursor start @ w \<Longrightarrow> \<not> over_length s out1 \<Longrightarrow>
    runs_each vars flavor path base chain s es stop out1 st r st' \<Longrightarrow>
    runs_each vars flavor path base chain s ((start, stop, e) # es) cursor out st r st'"
| plain_long: "plain_text flavor s start stop e = Some w \<Longrightarrow> over_length s (out @ slice s cursor start @ w) \<Longrightarrow>
    runs_each vars flavor path base chain s ((start, stop, e) # es) cursor out st (Inl (too_long path)) st"
| no_flavor: "flavor_text flavor = None \<Longrightarrow>
    m = path @ '' uses ${{ flavor }}'' @ through base chain @
      (if flavor = Scope_NoFlavors then '', but no flavors are configured in app.flavors''
       else '', which is only available in a target'' @ [CHR 0x27] @ ''s build and artifacts'') \<Longrightarrow>
    runs_each vars flavor path base chain s ((start, stop, Expr_Flavor) # es) cursor out st (Inl m) st"
| cycle: "name = slice s first past \<Longrightarrow> position (\<lambda>seen. seen = name) chain = Some k \<Longrightarrow> m = cycle_error (drop k chain) \<Longrightarrow>
    runs_each vars flavor path base chain s ((start, stop, Expr_Var first past) # es) cursor out st (Inl m) st"
| unknown_var: "name = slice s first past \<Longrightarrow> name \<notin> set chain \<Longrightarrow> var_index vars name = None \<Longrightarrow>
    m = path @ '' refers to '' @ var_path name @ through base chain @ '', which is not defined'' \<Longrightarrow>
    runs_each vars flavor path base chain s ((start, stop, Expr_Var first past) # es) cursor out st (Inl m) st"
| many: "name = slice s first past \<Longrightarrow> name \<notin> set chain \<Longrightarrow> var_index vars name = Some var \<Longrightarrow> st1 = spend_expansion st \<Longrightarrow>
    MAX_VAR_EXPANSIONS < bg_expansions (rs_budget st1) \<Longrightarrow>
    runs_each vars flavor path base chain s ((start, stop, Expr_Var first past) # es) cursor out st (Inl (too_many path)) st1"
| var_error: "name = slice s first past \<Longrightarrow> name \<notin> set chain \<Longrightarrow> var_index vars name = Some var \<Longrightarrow> st1 = spend_expansion st \<Longrightarrow>
    bg_expansions (rs_budget st1) \<le> MAX_VAR_EXPANSIONS \<Longrightarrow>
    runs_var vars flavor path base (chain @ [name]) (snd (vars ! var)) var st1 (Inl e) st2 \<Longrightarrow>
    runs_each vars flavor path base chain s ((start, stop, Expr_Var first past) # es) cursor out st (Inl e) st2"
| var_much: "name = slice s first past \<Longrightarrow> name \<notin> set chain \<Longrightarrow> var_index vars name = Some var \<Longrightarrow> st1 = spend_expansion st \<Longrightarrow>
    bg_expansions (rs_budget st1) \<le> MAX_VAR_EXPANSIONS \<Longrightarrow>
    runs_var vars flavor path base (chain @ [name]) (snd (vars ! var)) var st1 (Inr w) st2 \<Longrightarrow>
    st3 = spend_bytes (length w) st2 \<Longrightarrow> MAX_TOTAL_EXPANDED_BYTES < bg_bytes (rs_budget st3) \<Longrightarrow>
    runs_each vars flavor path base chain s ((start, stop, Expr_Var first past) # es) cursor out st (Inl (too_much path)) st3"
| var_long: "name = slice s first past \<Longrightarrow> name \<notin> set chain \<Longrightarrow> var_index vars name = Some var \<Longrightarrow> st1 = spend_expansion st \<Longrightarrow>
    bg_expansions (rs_budget st1) \<le> MAX_VAR_EXPANSIONS \<Longrightarrow>
    runs_var vars flavor path base (chain @ [name]) (snd (vars ! var)) var st1 (Inr w) st2 \<Longrightarrow>
    st3 = spend_bytes (length w) st2 \<Longrightarrow> bg_bytes (rs_budget st3) \<le> MAX_TOTAL_EXPANDED_BYTES \<Longrightarrow>
    over_length s (out @ slice s cursor start @ w) \<Longrightarrow>
    runs_each vars flavor path base chain s ((start, stop, Expr_Var first past) # es) cursor out st (Inl (too_long path)) st3"
| var: "name = slice s first past \<Longrightarrow> name \<notin> set chain \<Longrightarrow> var_index vars name = Some var \<Longrightarrow> st1 = spend_expansion st \<Longrightarrow>
    bg_expansions (rs_budget st1) \<le> MAX_VAR_EXPANSIONS \<Longrightarrow>
    runs_var vars flavor path base (chain @ [name]) (snd (vars ! var)) var st1 (Inr w) st2 \<Longrightarrow>
    st3 = spend_bytes (length w) st2 \<Longrightarrow> bg_bytes (rs_budget st3) \<le> MAX_TOTAL_EXPANDED_BYTES \<Longrightarrow>
    out1 = out @ slice s cursor start @ w \<Longrightarrow> \<not> over_length s out1 \<Longrightarrow>
    runs_each vars flavor path base chain s es stop out1 st3 r st' \<Longrightarrow>
    runs_each vars flavor path base chain s ((start, stop, Expr_Var first past) # es) cursor out st r st'"
| hit: "cached var (cache_key flavor) st = Some w \<Longrightarrow> runs_var vars flavor path base chain v var st (Inr w) st"
| miss_error: "cached var (cache_key flavor) st = None \<Longrightarrow> runs_inner vars flavor path base chain v st (Inl e) st1 \<Longrightarrow>
    runs_var vars flavor path base chain v var st (Inl e) st1"
| miss: "cached var (cache_key flavor) st = None \<Longrightarrow> runs_inner vars flavor path base chain v st (Inr w) st1 \<Longrightarrow>
    runs_var vars flavor path base chain v var st (Inr w) (remember var (cache_key flavor) w st1)"

definition var_run ::
  "(string \<times> string) list \<Rightarrow> FlavorScope \<Rightarrow> string \<Rightarrow> nat \<Rightarrow> string list \<Rightarrow> string \<Rightarrow> nat \<Rightarrow> resolver_state \<Rightarrow>
   (string + string) \<times> resolver_state" where
  "var_run vars flavor path base chain v var st =
     (case cached var (cache_key flavor) st of
        Some w \<Rightarrow> (Inr w, st)
      | None \<Rightarrow>
          (case resolve_inner vars flavor path base chain v st of
             (Inl e, st2) \<Rightarrow> (Inl e, st2)
           | (Inr w, st2) \<Rightarrow> (Inr w, remember var (cache_key flavor) w st2)))"

lemma resolve_each_var:
  assumes "slice s first past \<notin> set chain" "var_index vars (slice s first past) = Some var"
    "bg_expansions (rs_budget (spend_expansion st)) \<le> MAX_VAR_EXPANSIONS"
    "var_run vars flavor path base (chain @ [slice s first past]) (snd (vars ! var)) var (spend_expansion st) = (r, st2)"
  shows "resolve_each vars flavor path base chain s ((start, stop, Expr_Var first past) # es) cursor out st =
    (case r of Inl e \<Rightarrow> (Inl e, st2) | Inr w \<Rightarrow>
       (if MAX_TOTAL_EXPANDED_BYTES < bg_bytes (rs_budget (spend_bytes (length w) st2)) then (Inl (too_much path), spend_bytes (length w) st2)
        else if over_length s (out @ slice s cursor start @ w) then (Inl (too_long path), spend_bytes (length w) st2)
        else resolve_each vars flavor path base chain s es stop (out @ slice s cursor start @ w) (spend_bytes (length w) st2)))"
proof -
  from assms(1) have "position (\<lambda>seen. seen = slice s first past) chain = None" by (auto simp: position_None)
  with assms show ?thesis by (simp add: resolve_each.simps Let_def var_run_def not_less split: sum.splits)
qed

lemma runs_var_step:
  assumes "position (\<lambda>seen. seen = slice s first past) chain = None" "var_index vars (slice s first past) = Some var"
    "bg_expansions (rs_budget (spend_expansion st)) \<le> MAX_VAR_EXPANSIONS"
    "runs_var vars flavor path base (chain @ [slice s first past]) (snd (vars ! var)) var (spend_expansion st) rv st2"
    "res = (case rv of Inl e \<Rightarrow> (Inl e, st2) | Inr w \<Rightarrow>
       (if MAX_TOTAL_EXPANDED_BYTES < bg_bytes (rs_budget (spend_bytes (length w) st2)) then (Inl (too_much path), spend_bytes (length w) st2)
        else if over_length s (out @ slice s cursor start @ w) then (Inl (too_long path), spend_bytes (length w) st2)
        else resolve_each vars flavor path base chain s es stop (out @ slice s cursor start @ w) (spend_bytes (length w) st2)))"
    "\<And>w. rv = Inr w \<Longrightarrow> \<not> MAX_TOTAL_EXPANDED_BYTES < bg_bytes (rs_budget (spend_bytes (length w) st2)) \<Longrightarrow>
       \<not> over_length s (out @ slice s cursor start @ w) \<Longrightarrow> runs_each vars flavor path base chain s es stop (out @ slice s cursor start @ w) (spend_bytes (length w) st2)
       (fst (resolve_each vars flavor path base chain s es stop (out @ slice s cursor start @ w) (spend_bytes (length w) st2)))
       (snd (resolve_each vars flavor path base chain s es stop (out @ slice s cursor start @ w) (spend_bytes (length w) st2)))"
  shows "runs_each vars flavor path base chain s ((start, stop, Expr_Var first past) # es) cursor out st (fst res) (snd res)"
proof -
  have name: "slice s first past \<notin> set chain" using assms(1) by (auto simp: position_None)
  show ?thesis
  proof (cases rv)
    case (Inl e)
    with assms(4,5) show ?thesis using var_error[OF refl name assms(2) refl assms(3)] by simp
  next
    case (Inr w)
    note here = name assms(2) refl assms(3) assms(4)[unfolded Inr]
    show ?thesis
      using var_much[OF refl here refl] var_long[OF refl here refl] var[OF refl here refl _ refl _ assms(6)[OF Inr]]
      by (auto simp: assms(5) Inr not_less)
  qed
qed

lemma resolver_runs:
  "runs_inner vars flavor path base chain s st (fst (resolve_inner vars flavor path base chain s st))
     (snd (resolve_inner vars flavor path base chain s st))"
  "runs_each vars flavor path base chain s es cursor out st (fst (resolve_each vars flavor path base chain s es cursor out st))
     (snd (resolve_each vars flavor path base chain s es cursor out st))"
proof (induction vars flavor path base chain s st and vars flavor path base chain s es cursor out st
    rule: resolve_inner_resolve_each.induct)
  case (1 vars flavor path base chain s st)
  then show ?case
    by (cases "parse_expressions s") (auto simp: resolve_inner.simps intro: unreadable readable)
next
  case (2 vars flavor path base chain s cursor out st)
  then show ?case by (auto simp: resolve_each.simps Let_def intro: finished finished_long)
next
  case (3 vars flavor path base chain s start stop e es cursor out st)
  show ?case
  proof (cases e)
    case Expr_Secret
    have "plain_text flavor s start stop e = Some (slice s start stop)" by (simp add: plain_text_def Expr_Secret)
    from plain[OF this refl] plain_long[OF this] 3(1)[OF refl Expr_Secret refl] show ?thesis
      by (auto simp: resolve_each.simps Let_def Expr_Secret)
  next
    case Expr_Flavor
    show ?thesis
    proof (cases "flavor_text flavor")
      case None
      from no_flavor[OF None refl] show ?thesis by (cases flavor) (use None in \<open>auto simp: resolve_each.simps Let_def Expr_Flavor\<close>)
    next
      case (Some w)
      then obtain place where fl: "flavor = Scope_Value place w" by (cases flavor) auto
      from Some have "plain_text flavor s start stop e = Some w" by (simp add: plain_text_def Expr_Flavor)
      from plain[OF this refl] plain_long[OF this] 3(4)[OF refl Expr_Flavor fl refl] show ?thesis
        by (auto simp: resolve_each.simps Let_def Expr_Flavor fl)
    qed
  next
    case (Expr_Var first past)
    let ?name = "slice s first past" and ?st1 = "spend_expansion st"
    show ?thesis
    proof (cases "position (\<lambda>seen. seen = ?name) chain")
      case (Some k)
      then show ?thesis using cycle[OF refl Some refl] by (simp add: resolve_each.simps Let_def Expr_Var)
    next
      case fresh: None
      then have name: "?name \<notin> set chain" by (auto simp: position_None)
      show ?thesis
      proof (cases "var_index vars ?name")
        case None
        then show ?thesis using unknown_var[OF refl name None refl] fresh by (simp add: resolve_each.simps Let_def Expr_Var)
      next
        case known: (Some var)
        show ?thesis
        proof (cases "MAX_VAR_EXPANSIONS < bg_expansions (rs_budget ?st1)")
          case True
          then show ?thesis using many[OF refl name known refl True] fresh known
            by (simp add: resolve_each.simps Let_def Expr_Var)
        next
          case False
          let ?rv = "var_run vars flavor path base (chain @ [?name]) (snd (vars ! var)) var ?st1"
          note here = refl Expr_Var refl fresh known refl False
          have val: "runs_var vars flavor path base (chain @ [?name]) (snd (vars ! var)) var ?st1 (fst ?rv) (snd ?rv)"
          proof (cases "cached var (cache_key flavor) ?st1")
            case (Some w)
            then show ?thesis by (simp add: hit var_run_def)
          next
            case None
            from 3(2)[OF here None] miss_error[OF None] miss[OF None] show ?thesis
              by (auto simp: None var_run_def split: prod.splits sum.splits)
          qed
          obtain r st2 where rv: "?rv = (r, st2)" by (cases ?rv)
          from False have le: "bg_expansions (rs_budget ?st1) \<le> MAX_VAR_EXPANSIONS" by simp
          show ?thesis unfolding Expr_Var
          proof (rule runs_var_step[OF fresh known le val[unfolded rv fst_conv snd_conv] resolve_each_var[OF name known le rv]])
            fix w
            assume "r = Inr w" "\<not> MAX_TOTAL_EXPANDED_BYTES < bg_bytes (rs_budget (spend_bytes (length w) st2))"
              "\<not> over_length s (out @ slice s cursor start @ w)"
            with 3(3)[OF here rv[unfolded var_run_def, symmetric]] show "runs_each vars flavor path base chain s es stop (out @ slice s cursor start @ w)
                (spend_bytes (length w) st2)
                (fst (resolve_each vars flavor path base chain s es stop (out @ slice s cursor start @ w) (spend_bytes (length w) st2)))
                (snd (resolve_each vars flavor path base chain s es stop (out @ slice s cursor start @ w) (spend_bytes (length w) st2)))"
              by simp
          qed
        qed
      qed
    qed
  qed
qed

subsection \<open>What the resolver returns is the expansion\<close>

text \<open>A place in memory holds one text of a given length, so scopes that share a cache entry have the same flavor.\<close>

definition places_agree :: "FlavorScope set \<Rightarrow> bool" where
  "places_agree scopes \<longleftrightarrow> (\<forall>place x y. Scope_Value place x \<in> scopes \<longrightarrow> Scope_Value place y \<in> scopes \<longrightarrow> length x = length y \<longrightarrow> x = y)"

lemma same_key_same_text:
  "places_agree scopes \<Longrightarrow> a \<in> scopes \<Longrightarrow> b \<in> scopes \<Longrightarrow> cache_key a = cache_key b \<Longrightarrow> flavor_text a = flavor_text b"
  by (cases a; cases b) (auto simp: places_agree_def)

definition cache_ok :: "(string \<times> string) list \<Rightarrow> FlavorScope set \<Rightarrow> resolver_state \<Rightarrow> bool" where
  "cache_ok vars scopes st \<longleftrightarrow> length (rs_cache st) = length vars \<and>
     (\<forall>scope \<in> scopes. \<forall>i < length vars. \<forall>w. cached i (cache_key scope) st = Some w \<longrightarrow>
        expands vars (flavor_text scope) (snd (vars ! i)) w)"

lemma cache_ok_spend [simp]:
  "cache_ok vars scopes (spend_expansion st) = cache_ok vars scopes st"
  "cache_ok vars scopes (spend_bytes n st) = cache_ok vars scopes st"
  by (simp_all add: cache_ok_def spend_expansion_def spend_bytes_def cached_def)

lemma cached_remember:
  "var < length (rs_cache st) \<Longrightarrow> cached i k (remember var key w st) =
     (if i = var \<and> k = key \<and> cached i k st = None then Some w else cached i k st)"
  by (auto simp: cached_def remember_def map_add_def nth_list_update split: option.splits)

lemma cache_ok_remember:
  assumes "places_agree scopes" "flavor \<in> scopes" "cache_ok vars scopes st" "var < length vars"
    "expands vars (flavor_text flavor) (snd (vars ! var)) w"
  shows "cache_ok vars scopes (remember var (cache_key flavor) w st)"
proof -
  from assms(3) have len: "length (rs_cache st) = length vars" by (simp add: cache_ok_def)
  show ?thesis unfolding cache_ok_def
  proof (intro conjI ballI allI impI)
    fix scope i w'
    assume scope: "scope \<in> scopes" and i: "i < length vars"
      and c: "cached i (cache_key scope) (remember var (cache_key flavor) w st) = Some w'"
    have "var < length (rs_cache st)" using assms(4) len by simp
    note c = c[unfolded cached_remember[OF this]]
    show "expands vars (flavor_text scope) (snd (vars ! i)) w'"
    proof (cases "i = var \<and> cache_key scope = cache_key flavor \<and> cached i (cache_key scope) st = None")
      case True
      with assms(1,2) scope have "flavor_text scope = flavor_text flavor" using same_key_same_text by metis
      moreover from True c have "w' = w" by (metis option.inject)
      ultimately show ?thesis using True assms(5) by simp
    next
      case False
      from c[unfolded if_not_P[OF False]] have "cached i (cache_key scope) st = Some w'" .
      with assms(3) scope i show ?thesis unfolding cache_ok_def by blast
    qed
  qed (simp add: len remember_def)
qed

lemma cache_ok_new [simp]: "cache_ok vars scopes (new_resolver vars budget)"
  by (auto simp: cache_ok_def new_resolver_def cached_def)

lemma pieces_value_Cons:
  assumes "piece_value n vars f p = Some w" "those (map (piece_value m vars f) ps) = Some ws"
  shows "those (map (piece_value (max n m) vars f) (p # ps)) = Some (w # ws)"
proof -
  have "those (map (piece_value (max n m) vars f) ps) = Some ws"
    using assms(2) by (rule those_mono) (erule piece_value_mono, simp)
  with assms(1) piece_value_mono[of n vars f p w "max n m"] show ?thesis by simp
qed

lemma plain_piece:
  "plain_text flavor s start stop e = Some w \<Longrightarrow> piece_value n vars (flavor_text flavor) (piece_of s start stop e) = Some w"
  by (cases e) (auto simp: plain_text_def piece_of_def)

lemma runs_sound:
  fixes flavor :: FlavorScope
  assumes scopes: "places_agree scopes" "flavor \<in> scopes"
  shows "runs_inner vars flavor path base chain s st r st' \<Longrightarrow> cache_ok vars scopes st \<Longrightarrow>
      cache_ok vars scopes st' \<and> (\<forall>out. r = Inr out \<longrightarrow> expands vars (flavor_text flavor) s out)"
    and "runs_each vars flavor path base chain s es cursor out st r st' \<Longrightarrow> cache_ok vars scopes st \<Longrightarrow>
      cache_ok vars scopes st' \<and> (\<forall>res. r = Inr res \<longrightarrow>
        (\<exists>n ws. those (map (piece_value n vars (flavor_text flavor)) (as_pieces s cursor es)) = Some ws \<and> res = out @ concat ws))"
    and "runs_var vars flavor path base chain v var st r st' \<Longrightarrow> cache_ok vars scopes st \<Longrightarrow>
      var < length vars \<Longrightarrow> v = snd (vars ! var) \<Longrightarrow>
      cache_ok vars scopes st' \<and> (\<forall>w. r = Inr w \<longrightarrow> expands vars (flavor_text flavor) v w)"
proof (induction rule: runs_inner_runs_each_runs_var.inducts)
  case (readable s es chain st r st')
  show ?case
  proof (intro conjI allI impI)
    show "cache_ok vars scopes st'" using readable by blast
    fix out assume "r = Inr out"
    with readable obtain n ws where "those (map (piece_value n vars (flavor_text flavor)) (as_pieces s 0 es)) = Some ws" "out = concat ws"
      by auto
    with \<open>parse_expressions s = Inr es\<close> have "expand (Suc n) vars (flavor_text flavor) s = Some out" by (simp add: expand_Suc pieces_expressions)
    then show "expands vars (flavor_text flavor) s out" unfolding expands_def by blast
  qed
next
  case (plain s start stop e w out1 out cursor chain es st r st')
  show ?case
  proof (intro conjI allI impI)
    show "cache_ok vars scopes st'" using plain by blast
    fix res assume "r = Inr res"
    with plain obtain n ws where ws: "those (map (piece_value n vars (flavor_text flavor)) (as_pieces s stop es)) = Some ws"
      and res: "res = out1 @ concat ws" by blast
    from pieces_value_Cons[OF plain_piece[OF \<open>plain_text flavor s start stop e = Some w\<close>, of n] ws]
    have "those (map (piece_value n vars (flavor_text flavor)) (as_pieces s cursor ((start, stop, e) # es))) =
        Some (slice s cursor start # w # ws)" by simp
    then show "\<exists>n ws. those (map (piece_value n vars (flavor_text flavor)) (as_pieces s cursor ((start, stop, e) # es))) = Some ws \<and>
        res = out @ concat ws"
      by (intro exI[of _ n] exI[of _ "slice s cursor start # w # ws"] conjI) (use plain.hyps res in \<open>simp_all\<close>)
  qed
next
  case (var name s first past chain var st1 st w st2 st3 out1 out cursor start es stop r st')
  from var_index_Some[OF \<open>var_index vars name = Some var\<close>] have index: "var < length vars" by blast
  have c1: "cache_ok vars scopes st1" using var.prems var.hyps by simp
  from var.IH c1 index have c2: "cache_ok vars scopes st2" and "expands vars (flavor_text flavor) (snd (vars ! var)) w" by blast+
  then obtain n where n: "expand n vars (flavor_text flavor) (snd (vars ! var)) = Some w" unfolding expands_def by blast
  have c3: "cache_ok vars scopes st3" using var.hyps c2 by simp
  show ?case
  proof (intro conjI allI impI)
    show "cache_ok vars scopes st'" using var.IH c3 by blast
    fix res assume "r = Inr res"
    with var.IH c3 obtain m ws where ws: "those (map (piece_value m vars (flavor_text flavor)) (as_pieces s stop es)) = Some ws"
      and res: "res = out1 @ concat ws" by blast
    have "piece_value n vars (flavor_text flavor) (piece_of s start stop (Expr_Var first past)) = Some w"
      using n \<open>name = slice s first past\<close> \<open>var_index vars name = Some var\<close> by (simp add: piece_of_def var_value_def)
    from pieces_value_Cons[OF this ws]
    have "those (map (piece_value (max n m) vars (flavor_text flavor)) (as_pieces s cursor ((start, stop, Expr_Var first past) # es))) =
        Some (slice s cursor start # w # ws)" by simp
    then show "\<exists>n ws. those (map (piece_value n vars (flavor_text flavor)) (as_pieces s cursor ((start, stop, Expr_Var first past) # es))) = Some ws \<and>
        res = out @ concat ws"
      by (intro exI[of _ "max n m"] exI[of _ "slice s cursor start # w # ws"] conjI) (use var.hyps res in \<open>simp_all\<close>)
  qed
next
  case (miss var st chain v w st1)
  then show ?case using cache_ok_remember[OF scopes] by blast
next
  case (hit var st w chain v)
  then show ?case using scopes(2) by (auto simp: cache_ok_def)
qed (auto dest: var_index_Some)

subsection \<open>Only a limit stops a text that expands\<close>

definition limit_errors :: "string \<Rightarrow> string set" where
  "limit_errors path = {too_long path, too_many path, too_much path}"

text \<open>A chain leads to the text: whatever its vars need, the text needs no more.\<close>

definition chain_ok :: "(string \<times> string) list \<Rightarrow> string option \<Rightarrow> string list \<Rightarrow> string \<Rightarrow> bool" where
  "chain_ok vars f chain s \<longleftrightarrow> (\<forall>c \<in> set chain. \<forall>v n. var_value vars c = Some v \<longrightarrow> expand n vars f v \<noteq> None \<longrightarrow>
     (\<exists>m \<le> n. expand m vars f s \<noteq> None))"

definition pieces_ok :: "(string \<times> string) list \<Rightarrow> string option \<Rightarrow> string \<Rightarrow> piece list \<Rightarrow> bool" where
  "pieces_ok vars f s ps \<longleftrightarrow> (\<forall>n. expand (Suc n) vars f s \<noteq> None \<longrightarrow> list_all (\<lambda>p. piece_value n vars f p \<noteq> None) ps)"

lemma expand_pieces_ok:
  "pieces s = Some ps \<Longrightarrow> pieces_ok vars f s ps"
proof -
  have "those (map g ps) = Some ws \<Longrightarrow> list_all (\<lambda>p. g p \<noteq> None) ps" for g :: "piece \<Rightarrow> string option" and ws ps
    by (induction ps arbitrary: ws) (auto split: option.splits)
  then show "pieces s = Some ps \<Longrightarrow> ?thesis"
    unfolding pieces_ok_def by (auto simp: expand_Suc bind_eq_Some_conv)
qed

lemma pieces_ok_var:
  assumes "pieces_ok vars f s (p # Var_Ref name # ps)" "expand n vars f s \<noteq> None"
  obtains m v where "n = Suc m" "var_value vars name = Some v" "expand m vars f v \<noteq> None"
proof -
  from assms(2) obtain m where n: "n = Suc m" by (cases n) auto
  with assms(2) have "list_all (\<lambda>p. piece_value m vars f p \<noteq> None) (p # Var_Ref name # ps)"
    using assms(1)[unfolded pieces_ok_def] by blast
  then have "piece_value m vars f (Var_Ref name) \<noteq> None" by simp
  then show thesis using that[OF n] by (cases "var_value vars name") auto
qed

lemma chain_ok_extend:
  assumes "chain_ok vars f chain s" "pieces_ok vars f s (p # Var_Ref name # ps)" "var_value vars name = Some v"
  shows "chain_ok vars f (chain @ [name]) v"
  unfolding chain_ok_def
proof (intro ballI allI impI)
  fix c v' n assume c: "c \<in> set (chain @ [name])" and v': "var_value vars c = Some v'" and n: "expand n vars f v' \<noteq> None"
  show "\<exists>m \<le> n. expand m vars f v \<noteq> None"
  proof (cases "c \<in> set chain")
    case True
    with assms(1) v' n obtain k where k: "k \<le> n" "expand k vars f s \<noteq> None" unfolding chain_ok_def by blast
    from pieces_ok_var[OF assms(2) k(2)] assms(3) obtain m where "k = Suc m" "expand m vars f v \<noteq> None" by (metis option.inject)
    with k(1) show ?thesis by (intro exI[of _ m]) simp
  next
    case False
    with c v' n assms(3) show ?thesis by auto
  qed
qed

lemma no_cycle:
  assumes "chain_ok vars f chain s" "pieces_ok vars f s (p # Var_Ref name # ps)" "expand n vars f s \<noteq> None"
  shows "name \<notin> set chain"
proof
  assume in_chain: "name \<in> set chain"
  define n where "n = (LEAST n. expand n vars f s \<noteq> None)"
  have n: "expand n vars f s \<noteq> None" unfolding n_def using assms(3) by (rule LeastI)
  from pieces_ok_var[OF assms(2) n] obtain m v where m: "n = Suc m" "var_value vars name = Some v" "expand m vars f v \<noteq> None" .
  with assms(1) in_chain obtain k where "k \<le> m" "expand k vars f s \<noteq> None" unfolding chain_ok_def by blast
  moreover from this(2) have "n \<le> k" unfolding n_def by (rule Least_le)
  ultimately show False using m(1) by simp
qed

lemma pieces_ok_tail: "pieces_ok vars f s (p # q # ps) \<Longrightarrow> pieces_ok vars f s ps"
  by (auto simp: pieces_ok_def)

lemma runs_stop:
  "runs_inner vars flavor path base chain s st r st' \<Longrightarrow> chain_ok vars (flavor_text flavor) chain s \<Longrightarrow>
     expand n vars (flavor_text flavor) s \<noteq> None \<Longrightarrow> r = Inl e \<Longrightarrow> e \<in> limit_errors path"
  "runs_each vars flavor path base chain s es cursor out st r st' \<Longrightarrow> chain_ok vars (flavor_text flavor) chain s \<Longrightarrow>
     pieces_ok vars (flavor_text flavor) s (as_pieces s cursor es) \<Longrightarrow>
     expand n vars (flavor_text flavor) s \<noteq> None \<Longrightarrow> r = Inl e \<Longrightarrow> e \<in> limit_errors path"
  "runs_var vars flavor path base chain v var st r st' \<Longrightarrow> chain_ok vars (flavor_text flavor) chain v \<Longrightarrow>
     expand n vars (flavor_text flavor) v \<noteq> None \<Longrightarrow> r = Inl e \<Longrightarrow> e \<in> limit_errors path"
proof (induction arbitrary: n e and n e and n e rule: runs_inner_runs_each_runs_var.inducts)
  case (unreadable s err m chain st)
  then show ?case by (cases n) (auto simp: expand_Suc pieces_expressions)
next
  case (readable s es chain st r st')
  then show ?case using expand_pieces_ok[of s "as_pieces s 0 es" vars "flavor_text flavor"] by (auto simp: pieces_expressions)
next
  case (no_flavor m chain s start stop es cursor out st)
  then show ?case by (cases n) (auto simp: pieces_ok_def piece_of_def)
next
  case (cycle name s first past chain k m start stop es cursor out st)
  from position_Some[OF \<open>position _ chain = Some k\<close>] have "name \<in> set chain" by (auto dest: nth_mem)
  with no_cycle[OF cycle.prems(1), of _ name _ n] cycle.prems \<open>name = slice s first past\<close> show ?case by (simp add: piece_of_def)
next
  case (unknown_var name s first past chain m start stop es cursor out st)
  have "pieces_ok vars (flavor_text flavor) s (Lit (slice s cursor start) # Var_Ref name # as_pieces s stop es)"
    using unknown_var.prems \<open>name = slice s first past\<close> by (simp add: piece_of_def)
  from pieces_ok_var[OF this unknown_var.prems(3)] \<open>var_index vars name = None\<close> show ?case
    by (metis var_value_def option.map(1) option.distinct(1))
next
  case (var_error name s first past chain var st1 st err st2 start stop es cursor out)
  have p: "pieces_ok vars (flavor_text flavor) s (Lit (slice s cursor start) # Var_Ref name # as_pieces s stop es)"
    using var_error.prems \<open>name = slice s first past\<close> by (simp add: piece_of_def)
  have v: "var_value vars name = Some (snd (vars ! var))" using \<open>var_index vars name = Some var\<close> by (simp add: var_value_def)
  from pieces_ok_var[OF p var_error.prems(3)] v obtain m where "expand m vars (flavor_text flavor) (snd (vars ! var)) \<noteq> None"
    by (metis option.inject)
  with var_error.IH chain_ok_extend[OF var_error.prems(1) p v] var_error.prems(4) show ?case by blast
qed (auto simp: limit_errors_def dest: pieces_ok_tail)

subsection \<open>Bounds\<close>

definition budget_within :: "resolver_state \<Rightarrow> bool" where
  "budget_within st \<longleftrightarrow> bg_expansions (rs_budget st) \<le> MAX_VAR_EXPANSIONS \<and> bg_bytes (rs_budget st) \<le> MAX_TOTAL_EXPANDED_BYTES"

lemma remember_budget [simp]: "rs_budget (remember var key w st) = rs_budget st"
  by (simp add: remember_def)

lemma runs_length:
  "runs_inner vars flavor path base chain s st r st' \<Longrightarrow> r = Inr out \<Longrightarrow> length out \<le> max MAX_EXPANDED_BYTES (length s)"
  "runs_each vars flavor path base chain s es cursor acc st r st' \<Longrightarrow> r = Inr out \<Longrightarrow> length out \<le> max MAX_EXPANDED_BYTES (length s)"
  "runs_var vars flavor path base chain v var st r st' \<Longrightarrow> True"
  by (induction arbitrary: out and out rule: runs_inner_runs_each_runs_var.inducts) (auto simp: over_length_def)

lemma runs_within:
  "runs_inner vars flavor path base chain s st r st' \<Longrightarrow> budget_within st \<Longrightarrow> r = Inr out \<Longrightarrow> budget_within st'"
  "runs_each vars flavor path base chain s es cursor acc st r st' \<Longrightarrow> budget_within st \<Longrightarrow> r = Inr out \<Longrightarrow> budget_within st'"
  "runs_var vars flavor path base chain v var st r st' \<Longrightarrow> budget_within st \<Longrightarrow> r = Inr out \<Longrightarrow> budget_within st'"
  by (induction arbitrary: out and out and out rule: runs_inner_runs_each_runs_var.inducts)
     (auto simp: budget_within_def spend_expansion_def spend_bytes_def)

subsection \<open>The relation is the function\<close>

lemma runs_resolve:
  "runs_inner vars flavor path base chain s st r st' \<Longrightarrow> resolve_inner vars flavor path base chain s st = (r, st')"
  "runs_each vars flavor path base chain s es cursor out st r st' \<Longrightarrow>
     resolve_each vars flavor path base chain s es cursor out st = (r, st')"
  "runs_var vars flavor path base chain v var st r st' \<Longrightarrow>
     var_run vars flavor path base chain v var st = (r, st')"
proof (induction rule: runs_inner_runs_each_runs_var.inducts)
  case (plain s start stop e w out1 out cursor chain es st r st')
  then show ?case by (cases e; cases flavor) (auto simp: resolve_each.simps plain_text_def Let_def)
next
  case (plain_long s start stop e w out cursor chain es st)
  then show ?case by (cases e; cases flavor) (auto simp: resolve_each.simps plain_text_def Let_def)
next
  case (no_flavor m chain s start stop es cursor out st)
  then show ?case by (cases flavor) (auto simp: resolve_each.simps Let_def)
next
  case (unknown_var name s first past chain m start stop es cursor out st)
  then have "position (\<lambda>seen. seen = name) chain = None" by (auto simp: position_None)
  with unknown_var show ?case by (simp add: resolve_each.simps Let_def)
next
  case (many name s first past chain var st1 st start stop es cursor out)
  then have "position (\<lambda>seen. seen = name) chain = None" by (auto simp: position_None)
  with many show ?case by (simp add: resolve_each.simps Let_def)
next
  case (var_error name s first past chain var st1 st e st2 start stop es cursor out)
  then show ?case by (simp add: resolve_each_var not_less)
next
  case (var_much name s first past chain var st1 st w st2 st3 start stop es cursor out)
  then show ?case by (simp add: resolve_each_var not_less)
next
  case (var_long name s first past chain var st1 st w st2 st3 out cursor start stop es)
  then show ?case by (simp add: resolve_each_var not_less)
next
  case (var name s first past chain var st1 st w st2 st3 out1 out cursor start es stop r st')
  then show ?case by (simp add: resolve_each_var not_less)
qed (auto simp: resolve_inner.simps resolve_each.simps Let_def var_run_def)

lemma runs_iff: "runs_inner vars flavor path base chain s st r st' \<longleftrightarrow> resolve_inner vars flavor path base chain s st = (r, st')"
proof
  assume "resolve_inner vars flavor path base chain s st = (r, st')"
  with resolver_runs(1)[of vars flavor path base chain s st] show "runs_inner vars flavor path base chain s st r st'" by simp
qed (rule runs_resolve(1))

subsection \<open>A smaller budget\<close>

text \<open>A run that met no limit goes the same way when less of the budget is spent and the cache agrees on the
  scopes in use.\<close>

definition less_spent :: "ScopeKey set \<Rightarrow> resolver_state \<Rightarrow> resolver_state \<Rightarrow> bool" where
  "less_spent keys st st2 \<longleftrightarrow>
     bg_expansions (rs_budget st2) \<le> bg_expansions (rs_budget st) \<and> bg_bytes (rs_budget st2) \<le> bg_bytes (rs_budget st) \<and>
     length (rs_cache st2) = length (rs_cache st) \<and>
     (\<forall>i < length (rs_cache st). \<forall>k \<in> keys. cached i k st2 = cached i k st)"

lemma less_spent_expansion: "less_spent keys st st2 \<Longrightarrow> less_spent keys (spend_expansion st) (spend_expansion st2)"
  by (simp add: less_spent_def spend_expansion_def cached_def)

lemma less_spent_bytes: "less_spent keys st st2 \<Longrightarrow> less_spent keys (spend_bytes n st) (spend_bytes n st2)"
  by (simp add: less_spent_def spend_bytes_def cached_def)

lemma less_spent_remember:
  "less_spent keys st st2 \<Longrightarrow> var < length (rs_cache st) \<Longrightarrow> less_spent keys (remember var key w st) (remember var key w st2)"
  by (auto simp: less_spent_def cached_remember) (simp_all add: remember_def)

definition no_limit :: "string + string \<Rightarrow> bool" where
  "no_limit r \<longleftrightarrow> (\<forall>e. r = Inl e \<longrightarrow> \<not> is_limit_error e)"

lemma no_limit_simps [simp]: "no_limit (Inr out)" "no_limit (Inl e) = (\<not> is_limit_error e)"
  by (auto simp: no_limit_def)

lemma runs_cache_length:
  "runs_inner vars flavor path base chain s st r st' \<Longrightarrow> length (rs_cache st') = length (rs_cache st)"
  "runs_each vars flavor path base chain s es cursor out st r st' \<Longrightarrow> length (rs_cache st') = length (rs_cache st)"
  "runs_var vars flavor path base chain v var st r st' \<Longrightarrow> length (rs_cache st') = length (rs_cache st)"
  by (induction rule: runs_inner_runs_each_runs_var.inducts) (auto simp: spend_expansion_def spend_bytes_def remember_def)

lemma runs_less_spent:
  assumes key: "cache_key flavor \<in> keys"
  shows "runs_inner vars flavor path base chain s st r st' \<Longrightarrow> less_spent keys st st2 \<Longrightarrow> length (rs_cache st) = length vars \<Longrightarrow> no_limit r \<Longrightarrow>
      \<exists>st2'. runs_inner vars flavor path base chain s st2 r st2' \<and> less_spent keys st' st2'"
    and "runs_each vars flavor path base chain s es cursor out st r st' \<Longrightarrow> less_spent keys st st2 \<Longrightarrow> length (rs_cache st) = length vars \<Longrightarrow> no_limit r \<Longrightarrow>
      \<exists>st2'. runs_each vars flavor path base chain s es cursor out st2 r st2' \<and> less_spent keys st' st2'"
    and "runs_var vars flavor path base chain v var st r st' \<Longrightarrow> less_spent keys st st2 \<Longrightarrow> length (rs_cache st) = length vars \<Longrightarrow> no_limit r \<Longrightarrow>
      var < length vars \<Longrightarrow> \<exists>st2'. runs_var vars flavor path base chain v var st2 r st2' \<and> less_spent keys st' st2'"
proof (induction arbitrary: st2 and st2 and st2 rule: runs_inner_runs_each_runs_var.inducts)
  case (unreadable s e m chain st)
  then show ?case using runs_inner_runs_each_runs_var.unreadable by blast
next
  case (readable s es chain st r st')
  then show ?case using runs_inner_runs_each_runs_var.readable by blast
next
  case (no_flavor m chain s start stop es cursor out st)
  then show ?case using runs_inner_runs_each_runs_var.no_flavor by blast
next
  case (cycle name s first past chain k m start stop es cursor out st)
  then show ?case using runs_inner_runs_each_runs_var.cycle by blast
next
  case (unknown_var name s first past chain m start stop es cursor out st)
  then show ?case using runs_inner_runs_each_runs_var.unknown_var by blast
next
  case (var_error name s first past chain var st1 st e st3 start stop es cursor out)
  have "less_spent keys st1 (spend_expansion st2)" using var_error.prems var_error.hyps less_spent_expansion by simp
  moreover have "length (rs_cache st1) = length vars" using var_error.prems var_error.hyps by (simp add: spend_expansion_def)
  moreover have "var < length vars" using \<open>var_index vars name = Some var\<close> var_index_Some by blast
  moreover have "bg_expansions (rs_budget (spend_expansion st2)) \<le> MAX_VAR_EXPANSIONS"
    using calculation(1) var_error.hyps unfolding less_spent_def by linarith
  ultimately show ?case
    using var_error.IH var_error.hyps(1,2) \<open>var_index vars name = Some var\<close> var_error.prems runs_inner_runs_each_runs_var.var_error by metis
next
  case (var name s first past chain var st1 st w st3 st4 out1 out cursor start es stop r st')
  let ?a = "spend_expansion st2"
  have a: "less_spent keys st1 ?a" using var.prems var.hyps less_spent_expansion by simp
  have l1: "length (rs_cache st1) = length vars" using var.prems var.hyps by (simp add: spend_expansion_def)
  have i: "var < length vars" using \<open>var_index vars name = Some var\<close> var_index_Some by blast
  have le: "bg_expansions (rs_budget ?a) \<le> MAX_VAR_EXPANSIONS" using a var.hyps unfolding less_spent_def by linarith
  from var.IH a l1 i obtain b where b: "runs_var vars flavor path base (chain @ [name]) (snd (vars ! var)) var ?a (Inr w) b" "less_spent keys st3 b"
    by (metis no_limit_simps(1))
  let ?c = "spend_bytes (length w) b"
  have c: "less_spent keys st4 ?c" using b(2) var.hyps less_spent_bytes by simp
  have le2: "bg_bytes (rs_budget ?c) \<le> MAX_TOTAL_EXPANDED_BYTES" using c var.hyps unfolding less_spent_def by linarith
  have "length (rs_cache st4) = length vars"
    using runs_cache_length(3) var.IH l1 var.hyps by (metis spend_bytes_def resolver_state.select_convs(2) resolver_state.surjective resolver_state.update_convs(1))
  with var.IH c var.prems(3) obtain d where "runs_each vars flavor path base chain s es stop out1 ?c r d" "less_spent keys st' d"
    by metis
  then show ?case using runs_inner_runs_each_runs_var.var[OF var.hyps(1,2) \<open>var_index vars name = Some var\<close> refl le b(1) refl le2] var.hyps by blast
next
  case (hit var st w chain v)
  then show ?case using key by (auto simp: less_spent_def intro!: runs_inner_runs_each_runs_var.hit exI[of _ st2])
next
  case (miss_error var st chain v e st1)
  from miss_error.prems key have none: "cached var (cache_key flavor) st2 = None"
    using \<open>cached var (cache_key flavor) st = None\<close> by (simp add: less_spent_def)
  from miss_error.IH miss_error.prems obtain st2' where "runs_inner vars flavor path base chain v st2 (Inl e) st2'" "less_spent keys st1 st2'"
    by blast
  with runs_inner_runs_each_runs_var.miss_error[OF none] show ?case by blast
next
  case (miss var st chain v w st1)
  from miss.prems key have none: "cached var (cache_key flavor) st2 = None"
    using \<open>cached var (cache_key flavor) st = None\<close> by (simp add: less_spent_def)
  from miss.IH miss.prems obtain st2' where run: "runs_inner vars flavor path base chain v st2 (Inr w) st2'" and less: "less_spent keys st1 st2'"
    by (metis no_limit_simps(1))
  have "var < length (rs_cache st1)" using runs_cache_length(1) miss.IH miss.prems by metis
  with runs_inner_runs_each_runs_var.miss[OF none run] less_spent_remember[OF less] show ?case by blast
qed (auto intro: runs_inner_runs_each_runs_var.intros)

subsection \<open>The resolver\<close>

lemma resolve_runs: "resolve vars flavor path s st = (r, st') \<longleftrightarrow> runs_inner vars flavor path 0 [] s st r st'"
  by (simp add: runs_iff resolve_def resolve_from_def)

lemma resolve_less_spent:
  assumes "resolve vars flavor path s st = (r, st')" "less_spent keys st st2" "length (rs_cache st) = length vars"
    "no_limit r" "cache_key flavor \<in> keys"
  obtains st2' where "resolve vars flavor path s st2 = (r, st2')" "less_spent keys st' st2'"
  using runs_less_spent(1)[OF assms(5), of vars path 0 "[]" s st r st' st2] assms(1-4) by (auto simp: resolve_runs)

lemma resolve_cache_length:
  "resolve_from vars flavor path chain s st = (r, st') \<Longrightarrow> length (rs_cache st') = length (rs_cache st)"
  using runs_cache_length(1) by (simp add: resolve_from_def runs_iff[symmetric])

text \<open>Texts resolved one after the other, as the plan of a workflow does.\<close>

fun resolve_all ::
  "(string \<times> string) list \<Rightarrow> (FlavorScope \<times> string \<times> string) list \<Rightarrow> resolver_state \<Rightarrow> (string + string) list \<times> resolver_state" where
  "resolve_all vars [] st = ([], st)"
| "resolve_all vars ((flavor, path, s) # requests) st =
     (let (r, st1) = resolve vars flavor path s st; (rs, st2) = resolve_all vars requests st1 in (r # rs, st2))"

definition answers_as_expanded :: "(string \<times> string) list \<Rightarrow> FlavorScope \<times> string \<times> string \<Rightarrow> string + string \<Rightarrow> bool" where
  "answers_as_expanded vars = (\<lambda>(flavor, path, s) r.
     case r of
       Inr out \<Rightarrow> expands vars (flavor_text flavor) s out \<and> length out \<le> max MAX_EXPANDED_BYTES (length s)
     | Inl e \<Rightarrow> (\<nexists>out. expands vars (flavor_text flavor) s out) \<or> e \<in> limit_errors path)"

lemma resolve_answers:
  assumes "places_agree scopes" "flavor \<in> scopes" "cache_ok vars scopes st" "resolve vars flavor path s st = (r, st')"
  shows "answers_as_expanded vars (flavor, path, s) r \<and> cache_ok vars scopes st'"
proof -
  from assms(4) have run: "runs_inner vars flavor path 0 [] s st r st'" by (simp add: resolve_runs)
  note sound = runs_sound(1)[OF assms(1,2) run assms(3)]
  note len = runs_length(1)[OF run]
  have stop: "r = Inl e \<Longrightarrow> expands vars (flavor_text flavor) s out \<Longrightarrow> e \<in> limit_errors path" for e out
    using runs_stop(1)[OF run] by (auto simp: chain_ok_def expands_def)
  show ?thesis using sound len stop unfolding answers_as_expanded_def by (auto split: sum.splits)
qed

lemma resolve_all_answers:
  "places_agree scopes \<Longrightarrow> fst ` set requests \<subseteq> scopes \<Longrightarrow> cache_ok vars scopes st \<Longrightarrow>
     list_all2 (answers_as_expanded vars) requests (fst (resolve_all vars requests st))"
proof (induction vars requests st rule: resolve_all.induct)
  case (2 vars flavor path s requests st)
  obtain r st1 where r: "resolve vars flavor path s st = (r, st1)" by (cases "resolve vars flavor path s st")
  from 2 r have "answers_as_expanded vars (flavor, path, s) r \<and> cache_ok vars scopes st1" by (intro resolve_answers) auto
  with 2 r show ?case by (auto simp: Let_def split: prod.splits)
qed simp

lemmas resolver_eval = resolve_def resolve_from_def resolve_inner.simps resolve_each.simps parse_expressions_def
  expressions_from.simps expression_at_def is_valid_pipeline_env_key_def trim_def is_ws_def starts_with_def strip_prefix_def
  slice_def over_length_def spend_expansion_def spend_bytes_def cached_def remember_def new_resolver_def new_budget_def Let_def
  MAX_EXPANDED_BYTES_def MAX_VAR_EXPANSIONS_def MAX_TOTAL_EXPANDED_BYTES_def is_ascii_alphabetic_def is_ascii_alphanumeric_def
  is_ascii_lowercase_def is_ascii_uppercase_def is_ascii_digit_def

text \<open>
  C28. Resolving texts one after the other, with the shared cache and budget, gives for each text what plain substitution
  of its references gives, never longer than 64 KiB unless the text itself is; an error is reported only
  for a text that has no expansion (an unknown var, a cycle, a bad expression, a missing flavor) or when a limit is reached.
\<close>

theorem resolver_expands:
  assumes "places_agree (fst ` set requests)"
  shows "list_all2 (answers_as_expanded vars) requests (fst (resolve_all vars requests (new_resolver vars budget)))"
  by (rule resolve_all_answers[OF assms]) simp_all

theorem resolver_expands_witness:
  "expands [(''A'', ''x${{ vars.B }}''), (''B'', ''${{flavor}}!'')] (Some ''dev'') ''go ${{ vars.A }} ${{ vars.A }}'' ''go xdev! xdev!''"
proof -
  let ?vars = "[(''A'', ''x${{ vars.B }}''), (''B'', ''${{flavor}}!'')]"
  let ?scope = "Scope_Value (Flavor_Entry 0) ''dev''" and ?run = "''go ${{ vars.A }} ${{ vars.A }}''"
  have "fst (resolve_all ?vars [(?scope, ''targets.ios.build'', ?run)] (new_resolver ?vars new_budget)) = [Inr ''go xdev! xdev!'']"
    by (simp add: resolver_eval)
  moreover have "places_agree (fst ` set [(?scope, ''targets.ios.build'', ?run)])" by (simp add: places_agree_def)
  ultimately show ?thesis
    using resolver_expands[of "[(?scope, ''targets.ios.build'', ?run)]" ?vars new_budget] by (simp add: answers_as_expanded_def)
qed

end
