(* ===== verification/Pipeline_File.thy ===== *)
theory Pipeline_File
  imports Pipeline_Expansion Signing_Library App_Store
begin

text \<open>
  The version 2 pipeline file of \<^verbatim>\<open>crates/oore-contract/src/pipeline_config.rs\<close>: its data, the checks a file
  passes before it is accepted, and the lowering of one workflow to the plan a build runs, with the
  validators of \<^verbatim>\<open>crates/oore-contract/src/lib.rs\<close> it calls.

  A decoded file is the starting point; YAML is read by other code, which keeps the order of a mapping and rejects
  a repeated key. Text is ASCII, so that its length in bytes is its length in characters.
\<close>

subsection \<open>Data\<close>

datatype StepPhase = PreBuild | Build | PostBuild

datatype BuildIsolation = Iso_Host | Iso_Vm

record PlanStep =
  ps_name :: string
  ps_phase :: StepPhase
  ps_run :: string
  ps_source :: string
  ps_platform :: "BuildPlatform option"
  ps_flavor :: "string option"
  ps_test_report :: "string option"

record PlayPublishSpec =
  pp_track :: string
  pp_rollout :: "f64 option"
  pp_draft :: "bool option"
  pp_service_account :: "string option"

record TestflightPublishSpec =
  tf_group :: string

record AppStorePublishSpec =
  asp_destination :: AppStoreDestination
  asp_groups :: "string list"
  asp_submit_for_review :: "bool option"
  asp_phased_release :: "bool option"

record PublishSpec =
  pb_play :: "PlayPublishSpec option"
  pb_testflight :: "TestflightPublishSpec option"
  pb_app_store :: "AppStorePublishSpec option"

datatype TargetPublish = Publish_Off | Publish_On PublishSpec

fun publish_spec :: "TargetPublish \<Rightarrow> PublishSpec option" where
  "publish_spec Publish_Off = None"
| "publish_spec (Publish_On spec) = Some spec"

record TargetSpec =
  ta_build :: "string option"
  ta_artifacts :: "string list option"
  ta_publish :: "TargetPublish option"
  ta_budgets :: "SizeBudget option"

record InlineStep =
  inl_name :: string
  inl_run :: string
  inl_reports :: "string option"

datatype StepEntry = Step_Build | Step_Ref string | Step_Inline InlineStep

record WorkflowSpec =
  wf_on :: "TriggerSpec option"
  wf_targets :: "(BuildPlatform \<times> TargetSpec) list option"
  wf_flavors :: "string list option"
  wf_steps :: "StepEntry list option"
  wf_env :: "(string \<times> string) list"
  wf_vars :: "(string \<times> string) list"
  wf_signing :: "SigningSpec option"

record AppSpec =
  ap_flutter :: "string option"
  ap_flavors :: "string list"

record ConfigV2 =
  v2_version :: nat
  v2_name :: "string option"
  v2_app :: AppSpec
  v2_targets :: "(BuildPlatform \<times> TargetSpec) list"
  v2_steps :: "StepEntry list option"
  v2_env :: "(string \<times> string) list"
  v2_vars :: "(string \<times> string) list"
  v2_on :: "TriggerSpec option"
  v2_workflows :: "(string \<times> WorkflowSpec) list"
  v2_signing :: SigningSpec
  v2_runs_on :: "string list"
  v2_isolation :: BuildIsolation
  v2_build_number_offset :: int

record 'a PlannedPublish =
  pd_spec :: 'a
  pd_source :: string
  pd_error :: "string option"

record PlanPublish =
  pub_play :: "PlayPublishSpec PlannedPublish option"
  pub_testflight :: "TestflightPublishSpec PlannedPublish option"
  pub_app_store :: "AppStorePublishSpec PlannedPublish option"

record PipelineEnvVar =
  ev_key :: string
  ev_value :: string

record PipelinePlan =
  plan_workflow :: "string option"
  plan_platforms :: "BuildPlatform list"
  plan_flutter_version :: "string option"
  plan_steps :: "PlanStep list"
  plan_env :: "PipelineEnvVar list"
  plan_artifact_patterns :: "string list"
  plan_build_number_offset :: int
  plan_runs_on :: "string list"
  plan_isolation :: BuildIsolation
  plan_publish :: PlanPublish
  plan_signing :: SigningSpec
  plan_size_budgets :: "TargetSizeBudget list"

definition no_publish :: PlanPublish where
  "no_publish = \<lparr>pub_play = None, pub_testflight = None, pub_app_store = None\<rparr>"

definition needs_app_store_export :: "PlanPublish \<Rightarrow> bool" where
  "needs_app_store_export p \<longleftrightarrow> pub_testflight p \<noteq> None \<or> pub_app_store p \<noteq> None"

definition no_signing :: SigningSpec where
  "no_signing = \<lparr>sg_android = None, sg_ios = None\<rparr>"

definition overlaid :: "SigningSpec \<Rightarrow> SigningSpec option \<Rightarrow> SigningSpec" where
  "overlaid base over =
     (let over = unwrap_or no_signing over
      in \<lparr>sg_android = (case sg_android over of Some n \<Rightarrow> Some n | None \<Rightarrow> sg_android base),
         sg_ios = (case sg_ios over of Some n \<Rightarrow> Some n | None \<Rightarrow> sg_ios base)\<rparr>)"

primrec platform_key :: "BuildPlatform \<Rightarrow> string" where
  "platform_key Android = ''android''"
| "platform_key Ios = ''ios''"
| "platform_key Macos = ''macos''"

primrec platform_title :: "BuildPlatform \<Rightarrow> string" where
  "platform_title Android = ''Android''"
| "platform_title Ios = ''iOS''"
| "platform_title Macos = ''macOS''"

abbreviation squoted :: "string \<Rightarrow> string" where
  "squoted s \<equiv> Runner_Labels.quoted s"

subsection \<open>Validators\<close>

definition bad_path_segment :: "string \<Rightarrow> bool" where
  "bad_path_segment path \<longleftrightarrow> list_ex (\<lambda>part. part \<in> {[], ''.'', ''..''}) (split_on (CHR ''/'') path)"

definition validate_artifact_pattern :: "string \<Rightarrow> string option" where
  "validate_artifact_pattern raw =
     (let pattern = trim raw
      in if pattern = [] then Some ''must not be empty''
         else if length pattern > 512 then Some ''is too long (max 512 chars)''
         else if CHR ''*'' \<notin> set pattern \<and> CHR ''?'' \<notin> set pattern
         then Some (''must contain '' @ squoted ''*'' @ '' or '' @ squoted ''?'')
         else if CHR 0x5C \<in> set pattern \<or> starts_with ''/'' pattern
         then Some (''must be a workspace-relative path using '' @ squoted ''/'' @ '' separators'')
         else if bad_path_segment pattern
         then Some (''must not contain empty, '' @ squoted ''.'' @ '' or '' @ squoted ''..'' @ '' path segments'')
         else None)"

definition validate_repository_config_path :: "string \<Rightarrow> string option" where
  "validate_repository_config_path raw =
     (let path = trim raw
      in if path = [] then Some ''must not be empty''
         else if length path > 512 then Some ''is too long (max 512 chars)''
         else if starts_with ''/'' path then Some ''must be a repository-relative path''
         else if CHR 0x5C \<in> set path then Some (''must use '' @ squoted ''/'' @ '' separators'')
         else if bad_path_segment path
         then Some (''must not contain empty, '' @ squoted ''.'' @ '' or '' @ squoted ''..'' @ '' path segments'')
         else None)"

definition MAX_STORE_VERSION_CODE :: int where "MAX_STORE_VERSION_CODE = 2100000000"

definition validate_build_number_offset :: "int \<Rightarrow> string option" where
  "validate_build_number_offset offset =
     (if 0 \<le> offset \<and> offset < MAX_STORE_VERSION_CODE then None
      else Some (''must be between 0 and '' @ show_int (MAX_STORE_VERSION_CODE - 1)))"

definition is_valid_play_track :: "string \<Rightarrow> bool" where
  "is_valid_play_track track \<longleftrightarrow>
     track \<noteq> [] \<and> length track \<le> 128 \<and>
     list_all (\<lambda>c. is_ascii_alphanumeric c \<or> c \<in> {CHR ''-'', CHR ''_'', CHR '':''}) track"

definition MAX_SECRET_NAME_LENGTH :: nat where "MAX_SECRET_NAME_LENGTH = 128"

definition validate_secret_name :: "string \<Rightarrow> string option" where
  "validate_secret_name name =
     (if name = [] then Some ''must not be empty''
      else if length name > MAX_SECRET_NAME_LENGTH then Some (''is too long (max '' @ show_nat MAX_SECRET_NAME_LENGTH @ '' chars)'')
      else if \<not> is_valid_pipeline_env_key name then Some ''must match [A-Za-z_][A-Za-z0-9_]*''
      else None)"

definition default_artifact_patterns_for_platforms :: "BuildPlatform list \<Rightarrow> string list" where
  "default_artifact_patterns_for_platforms platforms =
     (if Android \<in> set platforms then [''build/app/outputs/flutter-apk/*.apk'', ''build/app/outputs/bundle/**/*.aab''] else []) @
     (if Ios \<in> set platforms then [''build/ios/ipa/*.ipa''] else []) @
     (if Macos \<in> set platforms then [''build/macos/Build/Products/Release/*.app''] else [])"

subsection \<open>Sizes\<close>

definition MAX_STEP_NAME_LENGTH :: nat where "MAX_STEP_NAME_LENGTH = 100"
definition MAX_WORKFLOWS :: nat where "MAX_WORKFLOWS = 32"
definition MAX_FLAVORS :: nat where "MAX_FLAVORS = 32"
definition MAX_STEPS :: nat where "MAX_STEPS = 100"
definition MAX_ARTIFACT_PATTERNS :: nat where "MAX_ARTIFACT_PATTERNS = 64"
definition MAX_ENV_ENTRIES :: nat where "MAX_ENV_ENTRIES = 128"
definition MAX_VARS :: nat where "MAX_VARS = 128"
definition MAX_TRIGGER_PATTERNS :: nat where "MAX_TRIGGER_PATTERNS = 64"
definition MAX_COMMAND_BYTES :: nat where "MAX_COMMAND_BYTES = 32 * 1024"
definition MAX_RAW_PATTERN_BYTES :: nat where "MAX_RAW_PATTERN_BYTES = 2048"
definition MAX_ERRORS :: nat where "MAX_ERRORS = 50"
definition MAX_TESTFLIGHT_GROUP_LENGTH :: nat where "MAX_TESTFLIGHT_GROUP_LENGTH = 128"

definition count_error :: "string \<Rightarrow> nat \<Rightarrow> nat \<Rightarrow> string \<Rightarrow> string list" where
  "count_error path len maximum what =
     (if maximum < len then [path @ '' has '' @ show_nat len @ '' '' @ what @ ''; the limit is '' @ show_nat maximum] else [])"

abbreviation indexed :: "string \<Rightarrow> nat \<Rightarrow> string" where
  "indexed path i \<equiv> path @ ''['' @ show_nat i @ '']''"

abbreviation workflow_path :: "string \<Rightarrow> string" where
  "workflow_path name \<equiv> ''workflows.'' @ name"

definition workflow_counts :: "string \<times> WorkflowSpec \<Rightarrow> string list" where
  "workflow_counts = (\<lambda>(name, wf). let path = workflow_path name in
     (case wf_flavors wf of Some flavors \<Rightarrow> count_error (path @ ''.flavors'') (length flavors) MAX_FLAVORS ''flavors'' | None \<Rightarrow> []) @
     count_error (path @ ''.env'') (length (wf_env wf)) MAX_ENV_ENTRIES ''entries'' @
     count_error (path @ ''.vars'') (length (wf_vars wf)) MAX_VARS ''vars'' @
     (case wf_steps wf of Some entries \<Rightarrow> count_error (path @ ''.steps'') (length entries) MAX_STEPS ''steps'' | None \<Rightarrow> []))"

definition size_targets :: "ConfigV2 \<Rightarrow> (string \<times> TargetSpec) list" where
  "size_targets config =
     map (\<lambda>(platform, target). (''targets.'' @ platform_key platform, target)) (v2_targets config) @
     concat (map (\<lambda>(name, wf). case wf_targets wf of None \<Rightarrow> []
         | Some overrides \<Rightarrow> map (\<lambda>(platform, target). (workflow_path name @ ''.targets.'' @ platform_key platform, target)) overrides)
       (take MAX_WORKFLOWS (v2_workflows config)))"

definition size_steps :: "ConfigV2 \<Rightarrow> (string \<times> StepEntry list) list" where
  "size_steps config =
     (case v2_steps config of Some entries \<Rightarrow> [(''steps'', entries)] | None \<Rightarrow> []) @
     concat (map (\<lambda>(name, wf). case wf_steps wf of Some entries \<Rightarrow> [(workflow_path name @ ''.steps'', entries)] | None \<Rightarrow> [])
       (take MAX_WORKFLOWS (v2_workflows config)))"

definition size_triggers :: "ConfigV2 \<Rightarrow> (string \<times> TriggerSpec) list" where
  "size_triggers config =
     (case v2_on config of Some trigger \<Rightarrow> [(''on'', trigger)] | None \<Rightarrow> []) @
     concat (map (\<lambda>(name, wf). case wf_on wf of Some trigger \<Rightarrow> [(workflow_path name @ ''.on'', trigger)] | None \<Rightarrow> [])
       (take MAX_WORKFLOWS (v2_workflows config)))"

definition target_sizes :: "string \<times> TargetSpec \<Rightarrow> string list" where
  "target_sizes = (\<lambda>(path, target).
     (case ta_build target of
        Some build \<Rightarrow> if MAX_COMMAND_BYTES < length build then [path @ ''.build is longer than 32 KiB''] else []
      | None \<Rightarrow> []) @
     (case ta_artifacts target of
        None \<Rightarrow> []
      | Some patterns \<Rightarrow>
          if MAX_ARTIFACT_PATTERNS < length patterns
          then [path @ ''.artifacts has '' @ show_nat (length patterns) @ '' patterns; the limit is '' @ show_nat MAX_ARTIFACT_PATTERNS]
          else (case position (\<lambda>p. MAX_RAW_PATTERN_BYTES < length p) patterns of
                  Some i \<Rightarrow> [indexed (path @ ''.artifacts'') i @ '' is longer than '' @ show_nat MAX_RAW_PATTERN_BYTES @ '' characters'']
                | None \<Rightarrow> [])))"

definition step_sizes :: "string \<times> StepEntry list \<Rightarrow> string list" where
  "step_sizes = (\<lambda>(path, entries). concat (map (\<lambda>(i, entry).
     case entry of
       Step_Inline step \<Rightarrow> if MAX_COMMAND_BYTES < length (inl_run step) then [indexed path i @ ''.run is longer than 32 KiB''] else []
     | _ \<Rightarrow> []) (take MAX_STEPS (enumerate 0 entries))))"

definition branch_count :: "BranchTrigger option \<Rightarrow> nat" where
  "branch_count trigger = (case trigger of Some (Branches branches) \<Rightarrow> length branches | _ \<Rightarrow> 0)"

definition trigger_sizes :: "string \<times> TriggerSpec \<Rightarrow> string list" where
  "trigger_sizes = (\<lambda>(path, trigger). concat (map (\<lambda>(field, len). count_error (path @ ''.'' @ field) len MAX_TRIGGER_PATTERNS ''patterns'')
     [(''push.branches'', branch_count (ts_push trigger)), (''pull_request.branches'', branch_count (ts_pull_request trigger)),
      (''tag'', length (ts_tag trigger)), (''paths'', length (ts_paths trigger))]))"

definition size_errors :: "ConfigV2 \<Rightarrow> string list" where
  "size_errors config = take MAX_ERRORS (
     count_error ''workflows'' (length (v2_workflows config)) MAX_WORKFLOWS ''workflows'' @
     count_error ''app.flavors'' (length (ap_flavors (v2_app config))) MAX_FLAVORS ''flavors'' @
     count_error ''env'' (length (v2_env config)) MAX_ENV_ENTRIES ''entries'' @
     count_error ''vars'' (length (v2_vars config)) MAX_VARS ''vars'' @
     (case v2_steps config of Some entries \<Rightarrow> count_error ''steps'' (length entries) MAX_STEPS ''steps'' | None \<Rightarrow> []) @
     concat (map workflow_counts (take MAX_WORKFLOWS (v2_workflows config))) @
     concat (map target_sizes (size_targets config)) @
     concat (map step_sizes (size_steps config)) @
     concat (map trigger_sizes (size_triggers config)))"

subsection \<open>Shape\<close>

fun flavor_errors :: "string \<Rightarrow> string list option \<Rightarrow> string set \<Rightarrow> nat \<Rightarrow> string list \<Rightarrow> string list" where
  "flavor_errors path allowed seen i [] = []"
| "flavor_errors path allowed seen i (flavor # flavors) =
     (if \<not> is_valid_identifier flavor
      then (indexed path i @ '' must start with a letter or digit and use only letters, digits, '' @ squoted ''-'' @ '' and '' @
             squoted ''_'' @ '' (max 64 chars)'') # flavor_errors path allowed seen (Suc i) flavors
      else if flavor \<in> seen
      then (path @ '' contains duplicate flavor '' @ squoted flavor) # flavor_errors path allowed seen (Suc i) flavors
      else if (case allowed of Some names \<Rightarrow> flavor \<notin> set names | None \<Rightarrow> False)
      then (indexed path i @ '' '' @ squoted flavor @ '' is not one of app.flavors'') #
             flavor_errors path allowed (insert flavor seen) (Suc i) flavors
      else flavor_errors path allowed (insert flavor seen) (Suc i) flavors)"

definition check_flavor_list :: "string \<Rightarrow> string list \<Rightarrow> string list option \<Rightarrow> string list" where
  "check_flavor_list path flavors allowed =
     flavor_errors path allowed {} 0 flavors @
     (if allowed \<noteq> None \<and> flavors = [] then [path @ '' must not be empty; omit it to build every flavor''] else [])"

definition kind_platform :: "string \<Rightarrow> BuildPlatform option" where
  "kind_platform kind = (if kind = ''aab'' \<or> kind = ''apk'' then Some Android else if kind = ''ipa'' then Some Ios else None)"

definition check_budgets :: "string \<Rightarrow> BuildPlatform \<Rightarrow> SizeBudget \<Rightarrow> string list" where
  "check_budgets field platform budgets =
     validate_at budgets field @
     concat (map (\<lambda>rule. case kind_platform (br_kind rule) of
        Some p \<Rightarrow> if p \<noteq> platform
                  then [field @ '' kind '' @ squoted (br_kind rule) @ '' is only built by the '' @ platform_key p @ '' target''] else []
      | None \<Rightarrow> []) (sb_rules budgets))"

definition check_play :: "string \<Rightarrow> BuildPlatform \<Rightarrow> PlayPublishSpec \<Rightarrow> string list" where
  "check_play path platform play =
     (if platform \<noteq> Android then [path @ ''.publish.play is only available for android''] else []) @
     (if trim (pp_track play) = [] then [path @ ''.publish.play.track must not be empty''] else []) @
     (case pp_rollout play of
        Some rollout \<Rightarrow>
          if \<not> (f64_less (Finite 0) rollout \<and> f64_le rollout (Finite 1))
          then [path @ ''.publish.play.rollout must be greater than 0 and at most 1 (0.05 is 5%)''] else []
      | None \<Rightarrow> [])"

definition check_app_store :: "string \<Rightarrow> BuildPlatform \<Rightarrow> PublishSpec \<Rightarrow> AppStorePublishSpec \<Rightarrow> string list" where
  "check_app_store path platform pub spec =
     (if platform \<noteq> Ios then [path @ ''.publish.app_store is only available for ios''] else []) @
     (if pb_testflight pub \<noteq> None
      then [path @ ''.publish sets both testflight and app_store; use app_store with destination testflight''] else []) @
     (case asp_destination spec of
        Testflight \<Rightarrow>
          if asp_submit_for_review spec \<noteq> None \<or> asp_phased_release spec \<noteq> None
          then [path @ ''.publish.app_store.submit_for_review and phased_release apply to destination app_store only''] else []
      | Dest_AppStore \<Rightarrow>
          if asp_groups spec \<noteq> [] then [path @ ''.publish.app_store.groups applies to destination testflight only''] else []) @
     (if list_ex (\<lambda>group. trim group = []) (asp_groups spec)
      then [path @ ''.publish.app_store.groups must not hold empty names''] else [])"

definition check_publish :: "string \<Rightarrow> BuildPlatform \<Rightarrow> PublishSpec \<Rightarrow> string list" where
  "check_publish path platform pub =
     (case pb_play pub of Some play \<Rightarrow> check_play path platform play | None \<Rightarrow> []) @
     (case pb_testflight pub of
        Some testflight \<Rightarrow>
          (if platform \<noteq> Ios then [path @ ''.publish.testflight is only available for ios''] else []) @
          (if trim (tf_group testflight) = [] then [path @ ''.publish.testflight.group must not be empty''] else [])
      | None \<Rightarrow> []) @
     (case pb_play pub of
        Some play \<Rightarrow>
          (case pp_service_account play of
             Some name \<Rightarrow>
               if validate_secret_name (trim name) \<noteq> None
               then [path @ ''.publish.play.service_account must be a secret name such as PLAY_SERVICE_ACCOUNT''] else []
           | None \<Rightarrow> [])
      | None \<Rightarrow> []) @
     (case pb_app_store pub of Some spec \<Rightarrow> check_app_store path platform pub spec | None \<Rightarrow> []) @
     (if pb_play pub = None \<and> pb_testflight pub = None \<and> pb_app_store pub = None
      then [path @ ''.publish must set play, testflight or app_store''] else [])"

definition check_target :: "string \<Rightarrow> BuildPlatform \<Rightarrow> TargetSpec \<Rightarrow> string list" where
  "check_target path platform target =
     (case ta_build target of Some build \<Rightarrow> if trim build = [] then [path @ ''.build must not be empty''] else [] | None \<Rightarrow> []) @
     (case ta_artifacts target of
        Some artifacts \<Rightarrow> if artifacts = [] then [path @ ''.artifacts must not be empty; omit it to use the platform defaults''] else []
      | None \<Rightarrow> []) @
     (case ta_budgets target of Some budgets \<Rightarrow> check_budgets (path @ ''.budgets'') platform budgets | None \<Rightarrow> []) @
     (case Option.bind (ta_publish target) publish_spec of Some pub \<Rightarrow> check_publish path platform pub | None \<Rightarrow> [])"

definition ends_with :: "string \<Rightarrow> string \<Rightarrow> bool" where
  "ends_with suffix s \<longleftrightarrow> starts_with (rev suffix) (rev s)"

definition check_reports :: "string \<Rightarrow> string \<Rightarrow> string list" where
  "check_reports entry_path raw =
     (let tests = trim raw
      in case validate_repository_config_path tests of
           Some e \<Rightarrow> [entry_path @ ''.reports.tests '' @ e]
         | None \<Rightarrow>
             if ends_with ''.json'' tests \<or> ends_with ''.xml'' tests then []
             else [entry_path @ ''.reports.tests must be a .json (dart test) or .xml (JUnit) file''])"

definition shared_step :: "StepEntry list \<Rightarrow> string \<Rightarrow> bool" where
  "shared_step shared name =
     list_ex (\<lambda>entry. case entry of Step_Inline step \<Rightarrow> trim (inl_name step) = trim name | _ \<Rightarrow> False) shared"

fun step_errors :: "string \<Rightarrow> StepEntry list option \<Rightarrow> nat \<Rightarrow> string set \<Rightarrow> nat \<Rightarrow> StepEntry list \<Rightarrow> string list" where
  "step_errors path shared seen_builds names i [] = []"
| "step_errors path shared seen_builds names i (Step_Build # entries) =
     (if seen_builds = 1 then [indexed path i @ '': build may appear only once''] else []) @
     step_errors path shared (seen_builds + 1) names (Suc i) entries"
| "step_errors path shared seen_builds names i (Step_Ref name # entries) =
     (case shared of
        None \<Rightarrow>
          (indexed path i @ '': '' @ squoted name @ '' is not a step; give a step as `name` and `run`, or use `build` to place the targets'') #
          step_errors path shared seen_builds names (Suc i) entries
      | Some steps \<Rightarrow>
          if \<not> shared_step steps name
          then (indexed path i @ '' refers to step '' @ squoted name @ '', which is not defined in the top-level steps'') #
               step_errors path shared seen_builds names (Suc i) entries
          else if trim name \<in> names
          then (indexed path i @ '': step '' @ squoted name @ '' appears more than once'') #
               step_errors path shared seen_builds names (Suc i) entries
          else step_errors path shared seen_builds (insert (trim name) names) (Suc i) entries)"
| "step_errors path shared seen_builds names i (Step_Inline step # entries) =
     (let entry_path = indexed path i; name = trim (inl_name step);
          bad = (if name = [] then Some (entry_path @ ''.name must not be empty'')
                 else if MAX_STEP_NAME_LENGTH < length name
                 then Some (entry_path @ ''.name is too long (max '' @ show_nat MAX_STEP_NAME_LENGTH @ '' chars)'')
                 else if list_ex is_control name then Some (entry_path @ ''.name must be a single line'')
                 else if name \<in> names then Some (entry_path @ '' name '' @ squoted name @ '' is used by another step'')
                 else None)
      in (case bad of Some e \<Rightarrow> [e] | None \<Rightarrow> []) @
         (if trim (inl_run step) = [] then [entry_path @ ''.run must not be empty''] else []) @
         (case inl_reports step of Some tests \<Rightarrow> check_reports entry_path tests | None \<Rightarrow> []) @
         step_errors path shared seen_builds (if bad = None then insert name names else names) (Suc i) entries)"

definition check_steps :: "string \<Rightarrow> StepEntry list \<Rightarrow> StepEntry list option \<Rightarrow> string list" where
  "check_steps path steps shared = step_errors path shared 0 {} 0 steps"

definition check_keys :: "string \<Rightarrow> (string \<times> string) list \<Rightarrow> string list" where
  "check_keys path entries = concat (map (\<lambda>(key, _).
     if is_valid_pipeline_env_key key then [] else [path @ ''.'' @ key @ '' must match [A-Za-z_][A-Za-z0-9_]*'']) entries)"

definition empty_entries :: "string \<Rightarrow> string list \<Rightarrow> string list" where
  "empty_entries path entries = concat (map (\<lambda>(i, entry).
     if trim entry = [] then [indexed path i @ '' must not be empty''] else []) (enumerate 0 entries))"

definition check_triggers :: "string \<Rightarrow> TriggerSpec \<Rightarrow> string list" where
  "check_triggers path trigger =
     concat (map (\<lambda>(field, branch). case branch of
         Some (Branches branches) \<Rightarrow>
           (if branches = []
            then [path @ ''.'' @ field @ ''.branches must not be empty; use `'' @ field @ '': true` for every branch''] else []) @
           empty_entries (path @ ''.'' @ field @ ''.branches'') branches
       | _ \<Rightarrow> []) [(''push'', ts_push trigger), (''pull_request'', ts_pull_request trigger)]) @
     empty_entries (path @ ''.tag'') (ts_tag trigger) @
     empty_entries (path @ ''.paths'') (ts_paths trigger)"

definition workflow_shape_errors :: "ConfigV2 \<Rightarrow> string \<times> WorkflowSpec \<Rightarrow> string list" where
  "workflow_shape_errors config = (\<lambda>(name, wf). let path = workflow_path name in
     (if is_valid_identifier name then []
      else [path @ '': workflow names must start with a letter or digit and use only letters, digits, '' @ squoted ''-'' @ '' and '' @
              squoted ''_'' @ '' (max 64 chars)'']) @
     (case wf_on wf of Some trigger \<Rightarrow> check_triggers (path @ ''.on'') trigger | None \<Rightarrow> []) @
     (case wf_targets wf of
        Some targets \<Rightarrow>
          (if targets = [] then [path @ ''.targets must not be empty''] else []) @
          concat (map (\<lambda>(platform, target). let target_path = path @ ''.targets.'' @ platform_key platform in
            (if ta_build target = None \<and> map_of (v2_targets config) platform = None
             then [target_path @ '' needs a build command, because there is no top-level targets.'' @ platform_key platform] else []) @
            check_target target_path platform target) targets)
      | None \<Rightarrow> []) @
     (case wf_flavors wf of
        Some flavors \<Rightarrow> check_flavor_list (path @ ''.flavors'') flavors (Some (ap_flavors (v2_app config))) | None \<Rightarrow> []) @
     (case wf_steps wf of
        Some steps \<Rightarrow> check_steps (path @ ''.steps'') steps (Some (unwrap_or [] (v2_steps config))) | None \<Rightarrow> []) @
     check_keys (path @ ''.env'') (wf_env wf) @
     check_keys (path @ ''.vars'') (wf_vars wf))"

definition shape_errors :: "ConfigV2 \<Rightarrow> string list" where
  "shape_errors config =
     (case ap_flutter (v2_app config) of Some v \<Rightarrow> if trim v = [] then [''app.flutter must not be empty''] else [] | None \<Rightarrow> []) @
     check_flavor_list ''app.flavors'' (ap_flavors (v2_app config)) None @
     (if v2_targets config = [] \<and>
         \<not> list_ex (\<lambda>(_, wf). case wf_targets wf of Some targets \<Rightarrow> targets \<noteq> [] | None \<Rightarrow> False) (v2_workflows config)
      then [''targets must define at least one of android, ios or macos''] else []) @
     concat (map (\<lambda>(platform, target). let path = ''targets.'' @ platform_key platform in
        (if ta_build target = None then [path @ ''.build is required''] else []) @ check_target path platform target) (v2_targets config)) @
     (case v2_steps config of Some steps \<Rightarrow> check_steps ''steps'' steps None | None \<Rightarrow> []) @
     check_keys ''env'' (v2_env config) @
     check_keys ''vars'' (v2_vars config) @
     (case v2_on config of Some trigger \<Rightarrow> check_triggers ''on'' trigger | None \<Rightarrow> []) @
     concat (map (workflow_shape_errors config) (v2_workflows config)) @
     (case validate_build_number_offset (v2_build_number_offset config) of Some e \<Rightarrow> [''build_number_offset '' @ e] | None \<Rightarrow> []) @
     (case normalize_runner_labels (v2_runs_on config) of Inl e \<Rightarrow> [''runs_on '' @ e] | Inr _ \<Rightarrow> [])"

subsection \<open>Choosing a workflow\<close>

definition v2_workflow_names :: "ConfigV2 \<Rightarrow> string list" where
  "v2_workflow_names config = map fst (v2_workflows config)"

definition select_workflow :: "ConfigV2 \<Rightarrow> string option \<Rightarrow> string + (string \<times> WorkflowSpec) option" where
  "select_workflow config name =
     (let names = join '', '' (v2_workflow_names config)
      in case name of
           Some name \<Rightarrow>
             (case fetch_optional (\<lambda>w. fst w = name) (v2_workflows config) of
                Some w \<Rightarrow> Inr (Some w)
              | None \<Rightarrow>
                  Inl (if v2_workflows config = []
                       then ''workflow '' @ squoted name @ '' is not defined; this file defines no workflows''
                       else ''workflow '' @ squoted name @ '' is not defined; this file defines ['' @ names @ '']''))
         | None \<Rightarrow>
             (case v2_workflows config of
                [] \<Rightarrow> Inr None
              | [w] \<Rightarrow> Inr (Some w)
              | _ \<Rightarrow> Inl (''this file defines workflows ['' @ names @ '']; choose one for the pipeline'')))"

definition v2_triggers :: "ConfigV2 \<Rightarrow> string option \<Rightarrow> TriggerSpec option" where
  "v2_triggers config workflow =
     (let selected = (case workflow of
            Some name \<Rightarrow> map_of (v2_workflows config) name
          | None \<Rightarrow> (case v2_workflows config of [(_, only)] \<Rightarrow> Some only | _ \<Rightarrow> None))
      in case Option.bind selected wf_on of Some s \<Rightarrow> Some s | None \<Rightarrow> v2_on config)"

subsection \<open>Lowering\<close>

definition push_unique :: "string list \<Rightarrow> string \<Rightarrow> string list" where
  "push_unique errors e = (if length errors < MAX_ERRORS \<and> e \<notin> set errors then errors @ [e] else errors)"

text \<open>The vars of a workflow replace the top-level ones by name; so do its env entries. Each keeps the path it came from.\<close>

fun put_entry :: "string \<times> string \<times> string \<Rightarrow> (string \<times> string \<times> string) list \<Rightarrow> (string \<times> string \<times> string) list" where
  "put_entry (k, v, p) [] = [(k, v, p)]"
| "put_entry (k, v, p) ((k', v', p') # entries) =
     (if k' = k then (k, v, p) # entries else (k', v', p') # put_entry (k, v, p) entries)"

definition overlay :: "string \<Rightarrow> string \<Rightarrow> (string \<times> string) list \<Rightarrow> (string \<times> string) list \<Rightarrow> (string \<times> string \<times> string) list" where
  "overlay field prefix base over =
     fold put_entry (map (\<lambda>(k, v). (k, v, prefix @ field @ k)) over) (map (\<lambda>(k, v). (k, v, field @ k)) base)"

record EffectiveTarget =
  et_platform :: BuildPlatform
  et_build :: string
  et_build_source :: string
  et_artifacts :: "(string list \<times> string) option"
  et_publish :: "(PublishSpec \<times> string) option"
  et_budgets :: "(SizeBudget \<times> string) option"

definition either_from :: "'a option \<Rightarrow> string \<Rightarrow> 'a option \<Rightarrow> string \<Rightarrow> ('a \<times> string) option" where
  "either_from own own_path base base_path =
     (case own of Some x \<Rightarrow> Some (x, own_path) | None \<Rightarrow> map_option (\<lambda>x. (x, base_path)) base)"

definition override_target :: "ConfigV2 \<Rightarrow> string \<Rightarrow> BuildPlatform \<times> TargetSpec \<Rightarrow> string + EffectiveTarget" where
  "override_target config prefix = (\<lambda>(platform, spec).
     let key = platform_key platform; base = map_of (v2_targets config) platform;
         own = prefix @ ''targets.'' @ key; top = ''targets.'' @ key
     in case either_from (ta_build spec) (own @ ''.build'') (Option.bind base ta_build) (top @ ''.build'') of
          None \<Rightarrow> Inl (own @ '' needs a build command, because there is no top-level targets.'' @ key)
        | Some (build, source) \<Rightarrow>
            Inr \<lparr>et_platform = platform, et_build = build, et_build_source = source,
              et_artifacts = either_from (ta_artifacts spec) (own @ ''.artifacts'') (Option.bind base ta_artifacts) (top @ ''.artifacts''),
              et_publish = (case ta_publish spec of
                  Some p \<Rightarrow> map_option (\<lambda>p. (p, own @ ''.publish'')) (publish_spec p)
                | None \<Rightarrow>
                    if ta_build spec = None
                    then map_option (\<lambda>p. (p, top @ ''.publish'')) (Option.bind (Option.bind base ta_publish) publish_spec)
                    else None),
              et_budgets = either_from (ta_budgets spec) (own @ ''.budgets'') (Option.bind base ta_budgets) (top @ ''.budgets'')\<rparr>)"

definition top_target :: "BuildPlatform \<times> TargetSpec \<Rightarrow> EffectiveTarget option" where
  "top_target = (\<lambda>(platform, spec). let top = ''targets.'' @ platform_key platform in
     map_option (\<lambda>build.
       \<lparr>et_platform = platform, et_build = build, et_build_source = top @ ''.build'',
        et_artifacts = map_option (\<lambda>a. (a, top @ ''.artifacts'')) (ta_artifacts spec),
        et_publish = map_option (\<lambda>p. (p, top @ ''.publish'')) (Option.bind (ta_publish spec) publish_spec),
        et_budgets = map_option (\<lambda>b. (b, top @ ''.budgets'')) (ta_budgets spec)\<rparr>) (ta_build spec))"

text \<open>Targets in order, and the errors of those that cannot be built.\<close>

definition effective_targets :: "ConfigV2 \<Rightarrow> string \<Rightarrow> WorkflowSpec option \<Rightarrow> EffectiveTarget list \<times> string list" where
  "effective_targets config prefix workflow =
     (case Option.bind workflow wf_targets of
        Some overrides \<Rightarrow>
          (let rs = map (override_target config prefix) overrides
           in (List.map_filter (\<lambda>r. case r of Inr t \<Rightarrow> Some t | Inl _ \<Rightarrow> None) rs,
               List.map_filter (\<lambda>r. case r of Inl e \<Rightarrow> Some e | Inr _ \<Rightarrow> None) rs))
      | None \<Rightarrow> (List.map_filter top_target (v2_targets config), []))"

definition narrow_targets :: "BuildPlatform list option \<Rightarrow> EffectiveTarget list \<Rightarrow> EffectiveTarget list \<times> string list" where
  "narrow_targets selected targets =
     (case selected of
        None \<Rightarrow> (targets, [])
      | Some platforms \<Rightarrow>
          if platforms = [] then (targets, [''selected_platforms must include at least one target''])
          else if \<not> distinct platforms \<or> list_ex (\<lambda>p. p \<notin> et_platform ` set targets) platforms
          then (targets, [''selected_platforms must be unique and configured by the workflow''])
          else (filter (\<lambda>t. et_platform t \<in> set platforms) targets, []))"

definition flavor_scopes :: "string list \<Rightarrow> (string option \<times> FlavorScope) list" where
  "flavor_scopes flavors =
     (if flavors = [] then [(None, Scope_NoFlavors)]
      else map (\<lambda>(i, flavor). (Some flavor, Scope_Value (Flavor_Entry i) flavor)) (enumerate 0 flavors))"

text \<open>The errors collected and the resolver. A step of a loop gives what it adds, or ends the lowering.\<close>

record lower_state =
  lo_errors :: "string list"
  lo_resolver :: resolver_state

definition resolve_in ::
  "(string \<times> string) list \<Rightarrow> FlavorScope \<Rightarrow> string \<Rightarrow> string \<Rightarrow> lower_state \<Rightarrow> (string + string) \<times> lower_state" where
  "resolve_in vars scope path value st =
     (case resolve vars scope path value (lo_resolver st) of (r, rs) \<Rightarrow> (r, st\<lparr>lo_resolver := rs\<rparr>))"

definition note_error :: "string \<Rightarrow> lower_state \<Rightarrow> lower_state" where
  "note_error e st = st\<lparr>lo_errors := push_unique (lo_errors st) e\<rparr>"

definition report_error :: "string \<Rightarrow> lower_state \<Rightarrow> (string list + 'b list) \<times> lower_state" where
  "report_error e st = (if is_limit_error e then (Inl [e], st) else (Inr [], note_error e st))"

fun each_out :: "('a \<Rightarrow> 's \<Rightarrow> ('e + 'b list) \<times> 's) \<Rightarrow> 'a list \<Rightarrow> 's \<Rightarrow> ('e + 'b list) \<times> 's" where
  "each_out f [] st = (Inr [], st)"
| "each_out f (x # xs) st =
     (case f x st of
        (Inl e, st1) \<Rightarrow> (Inl e, st1)
      | (Inr ys, st1) \<Rightarrow> (case each_out f xs st1 of (Inl e, st2) \<Rightarrow> (Inl e, st2) | (Inr zs, st2) \<Rightarrow> (Inr (ys @ zs), st2)))"

subsection \<open>Store uploads of a plan\<close>

text \<open>A value of \<open>publish\<close> with its vars resolved; no secret may be left in it.\<close>

definition publish_value ::
  "(string \<times> string) list \<Rightarrow> string \<Rightarrow> string \<Rightarrow> string \<Rightarrow> lower_state \<Rightarrow> (string + string) \<times> lower_state" where
  "publish_value vars path value field st =
     (let field_path = path @ ''.'' @ field
      in case resolve_in vars Scope_Outside field_path value st of
           (Inl e, st1) \<Rightarrow> (Inl e, st1)
         | (Inr raw, st1) \<Rightarrow>
             let resolved = trim raw
             in (if contains_str resolved ''${{''
                 then Inl (field_path @ '' cannot use ${{ secrets.NAME }}; only vars are resolved here'')
                 else if resolved = [] then Inl (field_path @ '' is empty once its vars are resolved'')
                 else Inr resolved, st1))"

text \<open>An upload whose error is a limit ends the lowering; any other error stays with the upload.\<close>

definition planned :: "'a \<Rightarrow> string \<Rightarrow> string option \<Rightarrow> lower_state \<Rightarrow> (string list + 'a PlannedPublish) \<times> lower_state" where
  "planned spec source problem st =
     (case problem of
        Some e \<Rightarrow> if is_limit_error e then (Inl [e], st) else (Inr \<lparr>pd_spec = spec, pd_source = source, pd_error = problem\<rparr>, st)
      | None \<Rightarrow> (Inr \<lparr>pd_spec = spec, pd_source = source, pd_error = problem\<rparr>, st))"

definition plan_play ::
  "(string \<times> string) list \<Rightarrow> string \<Rightarrow> string option \<Rightarrow> PlayPublishSpec \<Rightarrow> lower_state \<Rightarrow>
   (string list + PlayPublishSpec PlannedPublish) \<times> lower_state" where
  "plan_play vars path flavor_error play st =
     (case publish_value vars path (pp_track play) ''play.track'' st of
        (Inl e, st1) \<Rightarrow> planned (play\<lparr>pp_track := trim (pp_track play)\<rparr>) (path @ ''.play'') (Some e) st1
      | (Inr track, st1) \<Rightarrow>
          planned (play\<lparr>pp_track := track\<rparr>) (path @ ''.play'')
            (if is_valid_play_track track then flavor_error
             else Some (path @ ''.play.track '' @ squoted track @ '' must be internal, closed, open, production, or a custom track name'')) st1)"

definition plan_testflight ::
  "(string \<times> string) list \<Rightarrow> string \<Rightarrow> string option \<Rightarrow> TestflightPublishSpec \<Rightarrow> lower_state \<Rightarrow>
   (string list + TestflightPublishSpec PlannedPublish) \<times> lower_state" where
  "plan_testflight vars path flavor_error testflight st =
     (case publish_value vars path (tf_group testflight) ''testflight.group'' st of
        (Inl e, st1) \<Rightarrow> planned \<lparr>tf_group = trim (tf_group testflight)\<rparr> (path @ ''.testflight'') (Some e) st1
      | (Inr g, st1) \<Rightarrow>
          planned \<lparr>tf_group = g\<rparr> (path @ ''.testflight'')
            (if CHR '','' \<in> set g
             then Some (path @ ''.testflight.group '' @ squoted g @ '' must be one group name, without commas'')
             else if to_ascii_lowercase g = ''app_store'' then Some (path @ ''.testflight.group cannot be named app_store'')
             else if MAX_TESTFLIGHT_GROUP_LENGTH < length g
             then Some (path @ ''.testflight.group is longer than '' @ show_nat MAX_TESTFLIGHT_GROUP_LENGTH @ '' characters'')
             else flavor_error) st1)"

text \<open>The groups that can be used and the first problem.\<close>

fun plan_groups ::
  "(string \<times> string) list \<Rightarrow> string \<Rightarrow> nat \<Rightarrow> string list \<Rightarrow> string list \<times> string option \<Rightarrow> lower_state \<Rightarrow>
   (string list \<times> string option) \<times> lower_state" where
  "plan_groups vars path i [] acc st = (acc, st)"
| "plan_groups vars path i (raw # groups) (good, problem) st =
     (let field = indexed ''app_store.groups'' i; first = (\<lambda>e. Some (unwrap_or e problem))
      in case publish_value vars path raw field st of
           (Inl e, st1) \<Rightarrow> plan_groups vars path (Suc i) groups (good, first e) st1
         | (Inr g, st1) \<Rightarrow>
             plan_groups vars path (Suc i) groups
               (if CHR '','' \<in> set g
                then (good, first (path @ ''.'' @ field @ '' '' @ squoted g @ '' must be one group name, without commas''))
                else if MAX_TESTFLIGHT_GROUP_LENGTH < length g
                then (good, first (path @ ''.'' @ field @ '' is longer than '' @ show_nat MAX_TESTFLIGHT_GROUP_LENGTH @ '' characters''))
                else (good @ [g], problem)) st1)"

definition plan_app_store ::
  "(string \<times> string) list \<Rightarrow> string \<Rightarrow> string option \<Rightarrow> AppStorePublishSpec \<Rightarrow> lower_state \<Rightarrow>
   (string list + AppStorePublishSpec PlannedPublish) \<times> lower_state" where
  "plan_app_store vars path flavor_error spec st =
     (case plan_groups vars path 0 (asp_groups spec) ([], None) st of
        ((groups, problem), st1) \<Rightarrow>
          planned (spec\<lparr>asp_groups := groups\<rparr>) (path @ ''.app_store'') (case problem of Some e \<Rightarrow> Some e | None \<Rightarrow> flavor_error) st1)"

definition flavors_problem :: "string \<Rightarrow> WorkflowSpec option \<Rightarrow> string list \<Rightarrow> string \<Rightarrow> string option" where
  "flavors_problem prefix workflow flavors path =
     (if 1 < length flavors
      then Some (path @ '' uploads one build, but '' @
        (if Option.bind workflow wf_flavors \<noteq> None then prefix @ ''flavors'' else ''app.flavors'') @ '' builds '' @
        show_nat (length flavors) @ '' flavors ('' @ join '', '' flavors @ ''); narrow it with `flavors: [<one flavor>]` on the workflow'')
      else None)"

text \<open>One store of one target, kept in the plan so far.\<close>

definition with_store ::
  "'a option \<Rightarrow> ('a \<Rightarrow> lower_state \<Rightarrow> (string list + 'b) \<times> lower_state) \<Rightarrow> ('b \<Rightarrow> PlanPublish \<Rightarrow> PlanPublish) \<Rightarrow>
   (string list + PlanPublish) \<times> lower_state \<Rightarrow> (string list + PlanPublish) \<times> lower_state" where
  "with_store spec plan_one put r =
     (case (spec, r) of
        (Some x, (Inr pub, st)) \<Rightarrow> (case plan_one x st of (Inl e, st1) \<Rightarrow> (Inl e, st1) | (Inr y, st1) \<Rightarrow> (Inr (put y pub), st1))
      | _ \<Rightarrow> r)"

definition target_uploads ::
  "(string \<times> string) list \<Rightarrow> (string \<Rightarrow> string option) \<Rightarrow> EffectiveTarget \<Rightarrow> (string list + PlanPublish) \<times> lower_state \<Rightarrow>
   (string list + PlanPublish) \<times> lower_state" where
  "target_uploads vars flavor_error target r =
     (case et_publish target of
        None \<Rightarrow> r
      | Some (spec, path) \<Rightarrow>
          let fe = flavor_error path;
              r1 = with_store (pb_play spec) (plan_play vars path fe) (\<lambda>p pub. pub\<lparr>pub_play := Some p\<rparr>) r;
              r2 = with_store (pb_testflight spec) (plan_testflight vars path fe) (\<lambda>p pub. pub\<lparr>pub_testflight := Some p\<rparr>) r1
          in with_store (pb_app_store spec) (plan_app_store vars path fe) (\<lambda>p pub. pub\<lparr>pub_app_store := Some p\<rparr>) r2)"

subsection \<open>Steps, environment and artifacts of a plan\<close>

definition build_step ::
  "(string \<times> string) list \<Rightarrow> EffectiveTarget \<times> string option \<times> FlavorScope \<Rightarrow> lower_state \<Rightarrow> (string list + PlanStep list) \<times> lower_state" where
  "build_step vars = (\<lambda>(target, flavor, scope) st.
     let name = ''Build '' @ platform_title (et_platform target) @ (case flavor of Some f \<Rightarrow> '' ('' @ f @ '')'' | None \<Rightarrow> [])
     in case resolve_in vars scope (et_build_source target) (et_build target) st of
          (Inl e, st1) \<Rightarrow> report_error e st1
        | (Inr run, st1) \<Rightarrow>
            (Inr [\<lparr>ps_name = name, ps_phase = Build, ps_run = trim run, ps_source = et_build_source target,
                   ps_platform = Some (et_platform target), ps_flavor = flavor, ps_test_report = None\<rparr>], st1))"

record step_state =
  ss_placed :: bool
  ss_names :: "string set"
  ss_pending :: "PlanStep list"
  ss_lower :: lower_state

definition find_shared :: "StepEntry list \<Rightarrow> string \<Rightarrow> (nat \<times> InlineStep) option" where
  "find_shared shared name =
     Option.bind (fetch_optional (\<lambda>(i, entry). case entry of Step_Inline step \<Rightarrow> trim (inl_name step) = trim name | _ \<Rightarrow> False)
        (enumerate 0 shared))
       (\<lambda>(i, entry). case entry of Step_Inline step \<Rightarrow> Some (i, step) | _ \<Rightarrow> None)"

definition inline_step ::
  "(string \<times> string) list \<Rightarrow> string set \<Rightarrow> string \<Rightarrow> InlineStep \<times> string \<Rightarrow> step_state \<Rightarrow> (string list + PlanStep list) \<times> step_state" where
  "inline_step vars build_names entry_path = (\<lambda>(step, source) st.
     let name = trim (inl_name step)
     in if name \<in> ss_names st
        then (Inr [], st\<lparr>ss_lower := note_error (entry_path @ '' name '' @ squoted name @
               (if name \<in> build_names then '' is the name of a target build step'' else '' is used by another step'')) (ss_lower st)\<rparr>)
        else
          let run_path = source @ ''.run''; st1 = st\<lparr>ss_names := insert name (ss_names st)\<rparr>
          in (case resolve_in vars Scope_Outside run_path (inl_run step) (ss_lower st1) of
                (Inl e, lo) \<Rightarrow> (case report_error e lo of (r, lo1) \<Rightarrow> (r, st1\<lparr>ss_lower := lo1\<rparr>))
              | (Inr run, lo) \<Rightarrow>
                  (Inr [\<lparr>ps_name = name, ps_phase = (if ss_placed st1 then PostBuild else PreBuild), ps_run = trim run,
                         ps_source = run_path, ps_platform = None, ps_flavor = None,
                         ps_test_report = map_option trim (inl_reports step)\<rparr>], st1\<lparr>ss_lower := lo\<rparr>)))"

definition lower_entry ::
  "(string \<times> string) list \<Rightarrow> StepEntry list \<Rightarrow> string set \<Rightarrow> string \<Rightarrow> nat \<times> StepEntry \<Rightarrow> step_state \<Rightarrow> (string list + PlanStep list) \<times> step_state" where
  "lower_entry vars shared build_names entries_path = (\<lambda>(i, entry) st.
     case entry of
       Step_Build \<Rightarrow> (Inr (ss_pending st), st\<lparr>ss_placed := True, ss_pending := []\<rparr>)
     | Step_Inline step \<Rightarrow> inline_step vars build_names (indexed entries_path i) (step, indexed entries_path i) st
     | Step_Ref name \<Rightarrow>
         (case find_shared shared name of
            None \<Rightarrow> (Inr [], st)
          | Some (j, step) \<Rightarrow> inline_step vars build_names (indexed entries_path i) (step, indexed ''steps'' j) st))"

definition lower_env :: "(string \<times> string) list \<Rightarrow> string \<times> string \<times> string \<Rightarrow> lower_state \<Rightarrow> (string list + PipelineEnvVar list) \<times> lower_state" where
  "lower_env vars = (\<lambda>(key, value, path) st.
     case resolve_in vars Scope_Outside path value st of
       (Inl e, st1) \<Rightarrow> report_error e st1
     | (Inr v, st1) \<Rightarrow> (Inr [\<lparr>ev_key = trim key, ev_value = trim v\<rparr>], st1))"

definition lower_pattern :: "(string \<times> string) list \<Rightarrow> string \<times> string \<times> FlavorScope \<Rightarrow> lower_state \<Rightarrow> (string list + string list) \<times> lower_state" where
  "lower_pattern vars = (\<lambda>(path, pattern, scope) st.
     case resolve_in vars scope path pattern st of
       (Inl e, st1) \<Rightarrow> report_error e st1
     | (Inr raw, st1) \<Rightarrow>
         let resolved = trim raw
         in if contains_str resolved ''${{''
            then (Inr [], note_error (path @ '' cannot use ${{ secrets.NAME }}; artifact patterns are matched as written'') st1)
            else (case validate_artifact_pattern resolved of
                    Some e \<Rightarrow> (Inr [], note_error (path @ '' '' @ e) st1)
                  | None \<Rightarrow> (Inr [resolved], st1)))"

definition target_patterns :: "(string option \<times> FlavorScope) list \<Rightarrow> EffectiveTarget \<Rightarrow> (string \<times> string \<times> FlavorScope) list" where
  "target_patterns scopes target =
     (let (patterns, path) = (case et_artifacts target of
            Some (patterns, path) \<Rightarrow> (patterns, path)
          | None \<Rightarrow> (default_artifact_patterns_for_platforms [et_platform target], []))
      in concat (map (\<lambda>(i, pattern). map (\<lambda>(_, scope). (indexed path i, pattern, scope)) scopes) (enumerate 0 patterns)))"

text \<open>Of equal patterns the first is kept.\<close>

definition keep_first :: "string list \<Rightarrow> string list" where
  "keep_first xs = rev (remdups (rev xs))"

subsection \<open>The plan of a workflow\<close>

text \<open>Vars are checked with a flavor that stands for any; a limit ends the check.\<close>

fun check_vars :: "(string \<times> string) list \<Rightarrow> (string \<times> string \<times> string) list \<Rightarrow> lower_state \<Rightarrow> lower_state" where
  "check_vars vars [] st = st"
| "check_vars vars ((name, value, path) # entries) st =
     (case resolve_from vars (Scope_Value Flavor_Literal ''flavor'') path [name] value (lo_resolver st) of
        (Inr _, rs) \<Rightarrow> check_vars vars entries (st\<lparr>lo_resolver := rs\<rparr>)
      | (Inl e, rs) \<Rightarrow>
          let st1 = note_error e (st\<lparr>lo_resolver := rs\<rparr>) in if is_limit_error e then st1 else check_vars vars entries st1)"

definition workflow_prefix :: "(string \<times> WorkflowSpec) option \<Rightarrow> string" where
  "workflow_prefix selected = (case selected of Some (name, _) \<Rightarrow> ''workflows.'' @ name @ ''.'' | None \<Rightarrow> [])"

text \<open>The parts of a plan that resolve references, in the order the code resolves them.\<close>

definition lower_steps ::
  "(string \<times> string) list \<Rightarrow> StepEntry list \<Rightarrow> StepEntry list \<Rightarrow> string \<Rightarrow> PlanStep list \<Rightarrow> lower_state \<Rightarrow>
   (string list + PlanStep list) \<times> lower_state" where
  "lower_steps vars shared entries entries_path build_steps st =
     (let build_names = ps_name ` set build_steps
      in case each_out (lower_entry vars shared build_names entries_path) (enumerate 0 entries)
                \<lparr>ss_placed = False, ss_names = build_names, ss_pending = build_steps, ss_lower = st\<rparr> of
           (Inl e, ss) \<Rightarrow> (Inl e, ss_lower ss)
         | (Inr steps, ss) \<Rightarrow> (Inr (steps @ (if ss_placed ss then [] else ss_pending ss)), ss_lower ss))"

definition lower_parts ::
  "ConfigV2 \<Rightarrow> (string \<times> WorkflowSpec) option \<Rightarrow> (string \<times> string) list \<Rightarrow> string list \<Rightarrow> EffectiveTarget list \<Rightarrow> lower_state \<Rightarrow>
   (string list + PlanPublish \<times> PlanStep list \<times> PipelineEnvVar list \<times> string list) \<times> lower_state" where
  "lower_parts config selected vars flavors targets st =
     (let workflow = map_option snd selected; prefix = workflow_prefix selected; scopes = flavor_scopes flavors;
          shared = unwrap_or [] (v2_steps config);
          (entries, entries_path) = (case Option.bind workflow wf_steps of
             Some steps \<Rightarrow> (steps, prefix @ ''steps'') | None \<Rightarrow> (shared, ''steps''))
      in case fold (target_uploads vars (flavors_problem prefix workflow flavors)) targets (Inr no_publish, st) of
           (Inl e, st1) \<Rightarrow> (Inl e, st1)
         | (Inr pub, st1) \<Rightarrow>
             (case each_out (build_step vars) (concat (map (\<lambda>t. map (\<lambda>fs. (t, fs)) scopes) targets)) st1 of
                (Inl e, st2) \<Rightarrow> (Inl e, st2)
              | (Inr built, st2) \<Rightarrow>
                  (case lower_steps vars shared entries entries_path built st2 of
                     (Inl e, st3) \<Rightarrow> (Inl e, st3)
                   | (Inr steps, st3) \<Rightarrow>
                       (case each_out (lower_env vars)
                               (overlay ''env.'' prefix (v2_env config) (case workflow of Some w \<Rightarrow> wf_env w | None \<Rightarrow> [])) st3 of
                          (Inl e, st4) \<Rightarrow> (Inl e, st4)
                        | (Inr env, st4) \<Rightarrow>
                            (case each_out (lower_pattern vars) (concat (map (target_patterns scopes) targets)) st4 of
                               (Inl e, st5) \<Rightarrow> (Inl e, st5)
                             | (Inr patterns, st5) \<Rightarrow> (Inr (pub, steps, env, keep_first patterns), st5))))))"

definition effective_flavors :: "ConfigV2 \<Rightarrow> WorkflowSpec option \<Rightarrow> string list" where
  "effective_flavors config workflow = unwrap_or (ap_flavors (v2_app config)) (Option.bind workflow wf_flavors)"

definition lower ::
  "ConfigV2 \<Rightarrow> string option \<Rightarrow> BuildPlatform list option \<Rightarrow> Budget \<Rightarrow> bool \<Rightarrow> (string list + PipelinePlan) \<times> Budget" where
  "lower config workflow_name selected_platforms budget validate_vars =
     (case select_workflow config workflow_name of
        Inl e \<Rightarrow> (Inl [e], budget)
      | Inr selected \<Rightarrow>
          let workflow = map_option snd selected; prefix = workflow_prefix selected;
              entries = overlay ''vars.'' prefix (v2_vars config) (case workflow of Some w \<Rightarrow> wf_vars w | None \<Rightarrow> []);
              vars = map (\<lambda>(k, v, _). (k, v)) entries;
              st0 = \<lparr>lo_errors = [], lo_resolver = new_resolver vars budget\<rparr>;
              st1 = (if validate_vars then check_vars vars entries st0 else st0)
          in if lo_errors st1 \<noteq> [] then (Inl (lo_errors st1), rs_budget (lo_resolver st1))
             else
               let (all_targets, target_errors) = effective_targets config prefix workflow;
                   (targets, selection_errors) = narrow_targets selected_platforms all_targets;
                   st2 = st1\<lparr>lo_errors := target_errors @ selection_errors\<rparr>
               in (case lower_parts config selected vars (effective_flavors config workflow) targets st2 of
                     (Inl es, st3) \<Rightarrow> (Inl es, rs_budget (lo_resolver st3))
                   | (Inr (pub, steps, env, patterns), st3) \<Rightarrow>
                       (if lo_errors st3 \<noteq> [] then Inl (lo_errors st3)
                        else Inr \<lparr>plan_workflow = map_option fst selected, plan_platforms = map et_platform targets,
                          plan_flutter_version = map_option trim (ap_flutter (v2_app config)), plan_steps = steps, plan_env = env,
                          plan_artifact_patterns = patterns, plan_build_number_offset = v2_build_number_offset config,
                          plan_runs_on = (case normalize_runner_labels (v2_runs_on config) of Inr labels \<Rightarrow> labels | Inl _ \<Rightarrow> []),
                          plan_isolation = v2_isolation config, plan_publish = pub,
                          plan_signing = overlaid (v2_signing config) (Option.bind workflow wf_signing),
                          plan_size_budgets = List.map_filter (\<lambda>t. map_option (\<lambda>(b, source).
                            \<lparr>tb_platform = et_platform t, tb_source = source, tb_budget = b\<rparr>) (et_budgets t)) targets\<rparr>,
                        rs_budget (lo_resolver st3))))"

definition newline :: string where
  "newline = [CHR 0x0A]"

definition plan_v2 :: "ConfigV2 \<Rightarrow> string option \<Rightarrow> BuildPlatform list option \<Rightarrow> string + PipelinePlan" where
  "plan_v2 config workflow selected =
     (case fst (lower config workflow selected new_budget False) of Inl es \<Rightarrow> Inl (join newline es) | Inr p \<Rightarrow> Inr p)"

subsection \<open>Accepting a file\<close>

text \<open>Every workflow is lowered with one budget; vars are checked where a workflow changes them.\<close>

definition validates_vars :: "ConfigV2 \<Rightarrow> nat \<times> string option \<Rightarrow> bool" where
  "validates_vars config = (\<lambda>(i, workflow).
     i = 0 \<or> (case Option.bind workflow (map_of (v2_workflows config)) of Some w \<Rightarrow> wf_vars w \<noteq> [] | None \<Rightarrow> False))"

fun lower_workflows :: "ConfigV2 \<Rightarrow> (nat \<times> string option) list \<Rightarrow> Budget \<Rightarrow> string list \<Rightarrow> string list" where
  "lower_workflows config [] budget errors = errors"
| "lower_workflows config (w # ws) budget errors =
     (case lower config (snd w) None budget (validates_vars config w) of
        (Inr _, budget1) \<Rightarrow> lower_workflows config ws budget1 errors
      | (Inl es, budget1) \<Rightarrow>
          let errors1 = fold (\<lambda>e acc. push_unique acc e) es errors
          in if list_ex is_limit_error es then errors1 else lower_workflows config ws budget1 errors1)"

definition planned_workflows :: "ConfigV2 \<Rightarrow> string option list" where
  "planned_workflows config = (if v2_workflows config = [] then [None] else map Some (v2_workflow_names config))"

definition parse_v2 :: "ConfigV2 \<Rightarrow> string + ConfigV2" where
  "parse_v2 config =
     (if v2_version config \<noteq> 2 then Inl (''unsupported config version '' @ show_nat (v2_version config) @ '', expected 2'')
      else if size_errors config \<noteq> [] then Inl (join newline (size_errors config))
      else
        let errors = (if shape_errors config \<noteq> [] then shape_errors config
                      else lower_workflows config (enumerate 0 (planned_workflows config)) new_budget [])
        in if errors \<noteq> [] then Inl (join newline errors)
           else (case normalize_runner_labels (v2_runs_on config) of
                   Inl e \<Rightarrow> Inl e
                 | Inr labels \<Rightarrow> Inr (config\<lparr>v2_runs_on := labels\<rparr>)))"

end
