(* ===== verification/Pipeline_Plans.thy ===== *)
theory Pipeline_Plans
  imports Pipeline_File
begin

text \<open>
  What an accepted version 2 file guarantees. Its workflows were lowered once, together, with the vars
  checked; a build lowers one of them later, alone. Both runs go the same way, because the later one starts
  with an unspent budget and the same cache on every scope that a plan uses.
\<close>

subsection \<open>Runs in step\<close>

definition keeps_pace :: "('s \<Rightarrow> 's \<Rightarrow> bool) \<Rightarrow> ('s \<Rightarrow> ('e + 'b) \<times> 's) \<Rightarrow> bool" where
  "keeps_pace same f \<longleftrightarrow>
     (\<forall>st st2 y st'. same st st2 \<longrightarrow> f st = (Inr y, st') \<longrightarrow> (\<exists>st2'. f st2 = (Inr y, st2') \<and> same st' st2'))"

lemma keeps_paceI:
  "(\<And>st st2 y st'. same st st2 \<Longrightarrow> f st = (Inr y, st') \<Longrightarrow> \<exists>st2'. f st2 = (Inr y, st2') \<and> same st' st2') \<Longrightarrow> keeps_pace same f"
  by (auto simp: keeps_pace_def)

lemma keeps_paceE:
  assumes "keeps_pace same f" "same st st2" "f st = (Inr y, st')"
  obtains st2' where "f st2 = (Inr y, st2')" "same st' st2'"
  using assms unfolding keeps_pace_def by blast

lemma keeps_pace_each_out:
  "(\<And>x. x \<in> set xs \<Longrightarrow> keeps_pace same (f x)) \<Longrightarrow> keeps_pace same (each_out f xs)"
proof (induction xs)
  case Nil
  then show ?case by (auto intro: keeps_paceI)
next
  case (Cons x xs)
  show ?case
  proof (rule keeps_paceI)
    fix st st2 y st' assume same: "same st st2" and run: "each_out f (x # xs) st = (Inr y, st')"
    then obtain ys st1 zs where 1: "f x st = (Inr ys, st1)" and 2: "each_out f xs st1 = (Inr zs, st')" and y: "y = ys @ zs"
      by (auto split: prod.splits sum.splits)
    from Cons.prems[of x] same 1 obtain s1 where s1: "f x st2 = (Inr ys, s1)" "same st1 s1" by (auto elim: keeps_paceE)
    from Cons s1(2) 2 obtain s2 where "each_out f xs s1 = (Inr zs, s2)" "same st' s2" by (auto elim!: keeps_paceE)
    with s1 y show "\<exists>st2'. each_out f (x # xs) st2 = (Inr y, st2') \<and> same st' st2'" by simp
  qed
qed

definition in_step :: "(string \<times> string) list \<Rightarrow> ScopeKey set \<Rightarrow> lower_state \<Rightarrow> lower_state \<Rightarrow> bool" where
  "in_step vars keys st st2 \<longleftrightarrow> lo_errors st2 = lo_errors st \<and> less_spent keys (lo_resolver st) (lo_resolver st2) \<and>
     length (rs_cache (lo_resolver st)) = length vars"

lemma resolve_in_step:
  assumes "in_step vars keys st st2" "resolve_in vars scope path value st = (r, st')" "no_limit r" "cache_key scope \<in> keys"
  obtains st2' where "resolve_in vars scope path value st2 = (r, st2')" "in_step vars keys st' st2'"
proof -
  from assms(2) obtain rs where rs: "resolve vars scope path value (lo_resolver st) = (r, rs)" and st': "st' = st\<lparr>lo_resolver := rs\<rparr>"
    by (auto simp: resolve_in_def split: prod.splits)
  from assms(1) have same: "less_spent keys (lo_resolver st) (lo_resolver st2)" "length (rs_cache (lo_resolver st)) = length vars"
    by (auto simp: in_step_def)
  obtain rs2 where rs2: "resolve vars scope path value (lo_resolver st2) = (r, rs2)" "less_spent keys rs rs2"
    using resolve_less_spent[OF rs same assms(3,4)] by blast
  moreover have "length (rs_cache rs) = length vars"
    using resolve_cache_length[of vars scope path "[]" "value"] rs assms(1) by (simp add: resolve_def in_step_def)
  ultimately show thesis
    using that[of "st2\<lparr>lo_resolver := rs2\<rparr>"] assms(1) st' by (simp add: resolve_in_def in_step_def)
qed

lemma report_no_limit: "report_error e st = (Inr ys, st') \<Longrightarrow> \<not> is_limit_error e \<and> ys = [] \<and> st' = note_error e st"
  by (auto simp: report_error_def split: if_splits)

lemma in_step_note: "in_step vars keys st st2 \<Longrightarrow> in_step vars keys (note_error e st) (note_error e st2)"
  by (simp add: in_step_def note_error_def)

lemma report_in_step:
  assumes "report_error e st = (Inr ys, st')" "in_step vars keys st st2"
  shows "\<exists>st2'. report_error e st2 = (Inr ys, st2') \<and> in_step vars keys st' st2'"
  using report_no_limit[OF assms(1)] in_step_note[OF assms(2)] by (simp add: report_error_def)

lemma resolve_then_pace:
  assumes key: "cache_key scope \<in> keys" and g: "\<And>v. keeps_pace (in_step vars keys) (g v)"
  shows "keeps_pace (in_step vars keys) (\<lambda>st. case resolve_in vars scope path value st of
    (Inl e, st1) \<Rightarrow> report_error e st1 | (Inr v, st1) \<Rightarrow> g v st1)"
proof (rule keeps_paceI)
  fix st st2 y st'
  assume same: "in_step vars keys st st2"
    and run: "(case resolve_in vars scope path value st of (Inl e, st1) \<Rightarrow> report_error e st1 | (Inr v, st1) \<Rightarrow> g v st1) = (Inr y, st')"
  obtain r st1 where r: "resolve_in vars scope path value st = (r, st1)" by fastforce
  have "no_limit r" using run r report_no_limit by (auto simp: no_limit_def split: sum.splits)
  then obtain s1 where s1: "resolve_in vars scope path value st2 = (r, s1)" "in_step vars keys st1 s1"
    using resolve_in_step[OF same r] key by blast
  show "\<exists>st2'. (case resolve_in vars scope path value st2 of (Inl e, st1) \<Rightarrow> report_error e st1 | (Inr v, st1) \<Rightarrow> g v st1) = (Inr y, st2') \<and>
      in_step vars keys st' st2'"
  proof (cases r)
    case (Inl e)
    with run r s1 show ?thesis using report_in_step[of e st1 y st' vars keys s1] by simp
  next
    case (Inr v)
    with run r s1 show ?thesis by (auto intro: keeps_paceE[OF g])
  qed
qed

lemma keeps_pace_pure [simp]: "keeps_pace same (\<lambda>st. (Inr y, st))"
  by (auto simp: keeps_pace_def)

lemma keeps_pace_note [simp]: "keeps_pace (in_step vars keys) (\<lambda>st. (Inr y, note_error e st))"
  by (auto simp: keeps_pace_def in_step_note)

lemma build_step_pace:
  "cache_key scope \<in> keys \<Longrightarrow> keeps_pace (in_step vars keys) (build_step vars (target, flavor, scope))"
  unfolding build_step_def prod.case Let_def by (rule resolve_then_pace) simp_all

lemma lower_env_pace: "Key_Outside \<in> keys \<Longrightarrow> keeps_pace (in_step vars keys) (lower_env vars (key, value, path))"
  unfolding lower_env_def prod.case by (rule resolve_then_pace) simp_all

lemma lower_pattern_pace: "cache_key scope \<in> keys \<Longrightarrow> keeps_pace (in_step vars keys) (lower_pattern vars (path, pattern, scope))"
  unfolding lower_pattern_def prod.case Let_def
proof (rule resolve_then_pace)
  fix raw
  show "keeps_pace (in_step vars keys) (\<lambda>st1. if contains_str (trim raw) ''${{''
      then (Inr [], note_error (path @ '' cannot use ${{ secrets.NAME }}; artifact patterns are matched as written'') st1)
      else case validate_artifact_pattern (trim raw) of None \<Rightarrow> (Inr [trim raw], st1) | Some e \<Rightarrow> (Inr [], note_error (path @ '' '' @ e) st1))"
    by (cases "contains_str (trim raw) ''${{''"; cases "validate_artifact_pattern (trim raw)") simp_all
qed

text \<open>Steps.\<close>

definition steps_in_step :: "(string \<times> string) list \<Rightarrow> ScopeKey set \<Rightarrow> step_state \<Rightarrow> step_state \<Rightarrow> bool" where
  "steps_in_step vars keys ss ss2 \<longleftrightarrow> ss_placed ss2 = ss_placed ss \<and> ss_names ss2 = ss_names ss \<and> ss_pending ss2 = ss_pending ss \<and>
     in_step vars keys (ss_lower ss) (ss_lower ss2)"

lemma steps_in_step_note:
  "steps_in_step vars keys ss ss2 \<Longrightarrow>
     steps_in_step vars keys (ss\<lparr>ss_lower := note_error e (ss_lower ss)\<rparr>) (ss2\<lparr>ss_lower := note_error e (ss_lower ss2)\<rparr>)"
  by (simp add: steps_in_step_def in_step_note)

lemma inline_step_pace:
  assumes "Key_Outside \<in> keys"
  shows "keeps_pace (steps_in_step vars keys) (inline_step vars names path (step, source))"
proof (rule keeps_paceI)
  fix ss ss2 y ss'
  assume same: "steps_in_step vars keys ss ss2" and run: "inline_step vars names path (step, source) ss = (Inr y, ss')"
  let ?g = "\<lambda>v lo. (Inr [\<lparr>ps_name = trim (inl_name step), ps_phase = (if ss_placed ss then PostBuild else PreBuild), ps_run = trim v,
      ps_source = source @ ''.run'', ps_platform = None, ps_flavor = None, ps_test_report = map_option trim (inl_reports step)\<rparr>], lo)"
  let ?f = "\<lambda>lo. case resolve_in vars Scope_Outside (source @ ''.run'') (inl_run step) lo of
      (Inl e, lo1) \<Rightarrow> report_error e lo1 | (Inr v, lo1) \<Rightarrow> ?g v lo1"
  have pace: "keeps_pace (in_step vars keys) ?f" by (rule resolve_then_pace) (use assms in simp_all)
  show "\<exists>ss2'. inline_step vars names path (step, source) ss2 = (Inr y, ss2') \<and> steps_in_step vars keys ss' ss2'"
  proof (cases "trim (inl_name step) \<in> ss_names ss")
    case True
    let ?m = "path @ '' name '' @ squoted (trim (inl_name step)) @
        (if trim (inl_name step) \<in> names then '' is the name of a target build step'' else '' is used by another step'')"
    have unfold: "inline_step vars names path (step, source) s = (Inr [], s\<lparr>ss_lower := note_error ?m (ss_lower s)\<rparr>)"
      if "ss_names s = ss_names ss" for s
      using True that unfolding inline_step_def prod.case Let_def by (simp only: if_True)
    from run unfold[of ss] have y: "y = []" "ss' = ss\<lparr>ss_lower := note_error ?m (ss_lower ss)\<rparr>" by (simp_all del: append_assoc)
    from same have "ss_names ss2 = ss_names ss" by (simp add: steps_in_step_def)
    note unfold[OF this]
    moreover have "steps_in_step vars keys ss' (ss2\<lparr>ss_lower := note_error ?m (ss_lower ss2)\<rparr>)"
      unfolding y(2) by (rule steps_in_step_note[OF same])
    ultimately show ?thesis using y(1) by blast
  next
    case False
    have unfold: "inline_step vars names path (step, source) s = (case ?f (ss_lower s) of (r, lo) \<Rightarrow>
        (r, s\<lparr>ss_names := insert (trim (inl_name step)) (ss_names s), ss_lower := lo\<rparr>))"
      if "ss_names s = ss_names ss" "ss_placed s = ss_placed ss" for s
      using False that by (auto simp: inline_step_def Let_def split: prod.splits sum.splits)
    from run unfold[of ss] obtain lo where lo: "?f (ss_lower ss) = (Inr y, lo)"
      and ss': "ss' = ss\<lparr>ss_names := insert (trim (inl_name step)) (ss_names ss), ss_lower := lo\<rparr>"
      by (auto split: prod.splits)
    from same have "in_step vars keys (ss_lower ss) (ss_lower ss2)" by (simp add: steps_in_step_def)
    from keeps_paceE[OF pace this lo] obtain lo2 where lo2: "?f (ss_lower ss2) = (Inr y, lo2)" "in_step vars keys lo lo2" .
    from same have eq: "ss_names ss2 = ss_names ss" "ss_placed ss2 = ss_placed ss" by (simp_all add: steps_in_step_def)
    show ?thesis unfolding unfold[OF eq] lo2(1) using same lo2(2) by (simp add: ss' steps_in_step_def)
  qed
qed

lemma lower_entry_pace:
  assumes "Key_Outside \<in> keys"
  shows "keeps_pace (steps_in_step vars keys) (lower_entry vars shared names path (i, entry))"
proof (cases entry)
  case Step_Build
  then show ?thesis by (auto simp: lower_entry_def keeps_pace_def steps_in_step_def)
next
  case (Step_Ref name)
  have "keeps_pace (steps_in_step vars keys) (\<lambda>st. (Inr [], st))" by (auto simp: keeps_pace_def)
  with Step_Ref show ?thesis
    using inline_step_pace[OF assms, of vars names "indexed path i"] by (cases "find_shared shared name") (auto simp: lower_entry_def)
next
  case (Step_Inline step)
  then show ?thesis using inline_step_pace[OF assms, of vars names "indexed path i"] by (simp add: lower_entry_def)
qed

subsection \<open>The parts of a plan\<close>

lemma keeps_pace_bind:
  assumes f: "keeps_pace same f" and g: "\<And>y. keeps_pace same (g y)"
  shows "keeps_pace same (\<lambda>st. case f st of (Inl e, st1) \<Rightarrow> (Inl e, st1) | (Inr y, st1) \<Rightarrow> g y st1)"
proof (rule keeps_paceI)
  fix st st2 y st'
  assume same: "same st st2" and run: "(case f st of (Inl e, st1) \<Rightarrow> (Inl e, st1) | (Inr y, st1) \<Rightarrow> g y st1) = (Inr y, st')"
  then obtain z st1 where z: "f st = (Inr z, st1)" "g z st1 = (Inr y, st')" by (auto split: prod.splits sum.splits)
  from keeps_paceE[OF f same z(1)] obtain s1 where s1: "f st2 = (Inr z, s1)" "same st1 s1" .
  from keeps_paceE[OF g s1(2) z(2)] obtain s2 where "g z s1 = (Inr y, s2)" "same st' s2" .
  with s1(1) show "\<exists>st2'. (case f st2 of (Inl e, st1) \<Rightarrow> (Inl e, st1) | (Inr y, st1) \<Rightarrow> g y st1) = (Inr y, st2') \<and> same st' st2'"
    by simp
qed

text \<open>A step that passes an earlier error on.\<close>

lemma keeps_pace_through:
  assumes f: "keeps_pace same f" and h: "\<And>r. keeps_pace same (\<lambda>st. h (r, st))" and stop: "\<And>e st. isl (fst (h (Inl e, st)))"
  shows "keeps_pace same (\<lambda>st. h (f st))"
proof (rule keeps_paceI)
  fix st st2 y st'
  assume same: "same st st2" and run: "h (f st) = (Inr y, st')"
  obtain r st1 where r: "f st = (r, st1)" by fastforce
  show "\<exists>st2'. h (f st2) = (Inr y, st2') \<and> same st' st2'"
  proof (cases r)
    case (Inl e)
    with run r stop[of e st1] show ?thesis by simp
  next
    case (Inr z)
    with r have "f st = (Inr z, st1)" by simp
    from keeps_paceE[OF f same this] obtain s1 where s1: "f st2 = (Inr z, s1)" "same st1 s1" .
    from run r Inr have "h (Inr z, st1) = (Inr y, st')" by simp
    from keeps_paceE[OF h s1(2) this] obtain s2 where "h (Inr z, s1) = (Inr y, s2)" "same st' s2" .
    with s1(1) show ?thesis by auto
  qed
qed

lemma publish_value_step:
  assumes "in_step vars keys st st2" "publish_value vars path value field st = (r, st')" "no_limit r" "Key_Outside \<in> keys"
  obtains st2' where "publish_value vars path value field st2 = (r, st2')" "in_step vars keys st' st2'"
proof -
  obtain q st1 where q: "resolve_in vars Scope_Outside (path @ ''.'' @ field) value st = (q, st1)" by fastforce
  with assms(2,3) have "no_limit q" "st' = st1" by (auto simp: publish_value_def Let_def no_limit_def split: sum.splits)
  moreover from resolve_in_step[OF assms(1) q] \<open>no_limit q\<close> assms(4) obtain s1
    where "resolve_in vars Scope_Outside (path @ ''.'' @ field) value st2 = (q, s1)" "in_step vars keys st1 s1" by auto
  ultimately show thesis using that[of s1] assms(2) q by (auto simp: publish_value_def Let_def split: sum.splits)
qed

lemma planned_Inr: "planned spec source problem st = (Inr y, st') \<Longrightarrow> (\<forall>e. problem = Some e \<longrightarrow> \<not> is_limit_error e) \<and> st' = st"
  by (auto simp: planned_def split: option.splits if_splits)

lemma planned_pace: "keeps_pace same (planned spec source problem)"
  by (auto simp: keeps_pace_def planned_def split: option.splits)

lemma publish_then_pace:
  assumes "Key_Outside \<in> keys" and g: "\<And>v. keeps_pace (in_step vars keys) (g v)"
  shows "keeps_pace (in_step vars keys) (\<lambda>st. case publish_value vars path value field st of
    (Inl e, st1) \<Rightarrow> planned spec source (Some e) st1 | (Inr v, st1) \<Rightarrow> g v st1)"
proof (rule keeps_paceI)
  fix st st2 y st'
  assume same: "in_step vars keys st st2"
    and run: "(case publish_value vars path value field st of (Inl e, st1) \<Rightarrow> planned spec source (Some e) st1 | (Inr v, st1) \<Rightarrow> g v st1) = (Inr y, st')"
  obtain r st1 where r: "publish_value vars path value field st = (r, st1)" by fastforce
  have "no_limit r" using run r planned_Inr by (fastforce simp: no_limit_def split: sum.splits)
  from publish_value_step[OF same r this assms(1)] obtain s1
    where s1: "publish_value vars path value field st2 = (r, s1)" "in_step vars keys st1 s1" .
  show "\<exists>st2'. (case publish_value vars path value field st2 of (Inl e, st1) \<Rightarrow> planned spec source (Some e) st1 | (Inr v, st1) \<Rightarrow> g v st1) = (Inr y, st2') \<and>
      in_step vars keys st' st2'"
  proof (cases r)
    case (Inl e)
    with run r have "planned spec source (Some e) st1 = (Inr y, st')" by simp
    from keeps_paceE[OF planned_pace[of "in_step vars keys"] s1(2) this] obtain s2 where "planned spec source (Some e) s1 = (Inr y, s2)" "in_step vars keys st' s2" .
    with s1(1) Inl show ?thesis by simp
  next
    case (Inr v)
    with run r have "g v st1 = (Inr y, st')" by simp
    from keeps_paceE[OF g s1(2) this] obtain s2 where "g v s1 = (Inr y, s2)" "in_step vars keys st' s2" .
    with s1(1) Inr show ?thesis by simp
  qed
qed

lemma plan_play_pace: "Key_Outside \<in> keys \<Longrightarrow> keeps_pace (in_step vars keys) (plan_play vars path fe play)"
  unfolding plan_play_def by (rule publish_then_pace) (simp_all add: planned_pace)

lemma plan_testflight_pace: "Key_Outside \<in> keys \<Longrightarrow> keeps_pace (in_step vars keys) (plan_testflight vars path fe spec)"
  unfolding plan_testflight_def by (rule publish_then_pace) (simp_all add: planned_pace)

lemma plan_app_store_pace:
  assumes "Key_Outside \<in> keys" "length (asp_groups spec) \<le> 1"
  shows "keeps_pace (in_step vars keys) (plan_app_store vars path fe spec)"
proof (cases "asp_groups spec")
  case Nil
  then have "plan_app_store vars path fe spec = planned (spec\<lparr>asp_groups := []\<rparr>) (path @ ''.app_store'') fe"
    by (simp add: plan_app_store_def fun_eq_iff)
  then show ?thesis by (simp only: planned_pace)
next
  case (Cons raw rest)
  with assms(2) have groups: "asp_groups spec = [raw]" by simp
  let ?field = "indexed ''app_store.groups'' 0"
  let ?g = "\<lambda>v. if CHR '','' \<in> set v
      then planned (spec\<lparr>asp_groups := []\<rparr>) (path @ ''.app_store'') (Some (path @ ''.'' @ ?field @ '' '' @ squoted v @ '' must be one group name, without commas''))
      else if MAX_TESTFLIGHT_GROUP_LENGTH < length v
      then planned (spec\<lparr>asp_groups := []\<rparr>) (path @ ''.app_store'') (Some (path @ ''.'' @ ?field @ '' is longer than '' @ show_nat MAX_TESTFLIGHT_GROUP_LENGTH @ '' characters''))
      else planned (spec\<lparr>asp_groups := [v]\<rparr>) (path @ ''.app_store'') fe"
  have "plan_app_store vars path fe spec st = (case publish_value vars path raw ?field st of
      (Inl e, st1) \<Rightarrow> planned (spec\<lparr>asp_groups := []\<rparr>) (path @ ''.app_store'') (Some e) st1 | (Inr v, st1) \<Rightarrow> ?g v st1)" for st
    unfolding plan_app_store_def groups plan_groups.simps Let_def
    by (cases "publish_value vars path raw ?field st"; cases "fst (publish_value vars path raw ?field st)") simp_all
  then have "plan_app_store vars path fe spec = (\<lambda>st. case publish_value vars path raw ?field st of
      (Inl e, st1) \<Rightarrow> planned (spec\<lparr>asp_groups := []\<rparr>) (path @ ''.app_store'') (Some e) st1 | (Inr v, st1) \<Rightarrow> ?g v st1)" by (rule ext)
  then show ?thesis by (simp only:) (rule publish_then_pace, rule assms, simp add: planned_pace)
qed

lemma with_store_pace:
  assumes "\<And>x. spec = Some x \<Longrightarrow> keeps_pace same (plan_one x)"
  shows "keeps_pace same (\<lambda>st. with_store spec plan_one put (r, st))"
proof (cases spec)
  case None
  then show ?thesis by (simp add: with_store_def keeps_pace_def)
next
  case (Some x)
  note one = assms[OF Some]
  show ?thesis
  proof (cases r)
    case (Inr pub)
    have "keeps_pace same (\<lambda>st. case plan_one x st of (Inl e, st1) \<Rightarrow> (Inl e, st1) | (Inr y, st1) \<Rightarrow> (Inr (put y pub), st1))"
      by (rule keeps_pace_bind[OF one]) simp
    with Some Inr show ?thesis by (simp add: with_store_def)
  qed (simp add: Some with_store_def keeps_pace_def)
qed

lemma with_store_stop: "with_store spec plan_one put (Inl e, st) = (Inl e, st)"
  by (simp add: with_store_def split: option.splits)


lemma target_uploads_pace:
  assumes "Key_Outside \<in> keys" "\<And>spec path a. et_publish target = Some (spec, path) \<Longrightarrow> pb_app_store spec = Some a \<Longrightarrow> length (asp_groups a) \<le> 1"
  shows "keeps_pace (in_step vars keys) (\<lambda>st. target_uploads vars fe target (r, st))"
proof (cases "et_publish target")
  case None
  then show ?thesis by (simp add: target_uploads_def keeps_pace_def)
next
  case (Some sp)
  obtain spec path where sp: "sp = (spec, path)" by fastforce
  let ?h1 = "with_store (pb_play spec) (plan_play vars path (fe path)) (\<lambda>p pub. pub\<lparr>pub_play := Some p\<rparr>)"
  let ?h2 = "with_store (pb_testflight spec) (plan_testflight vars path (fe path)) (\<lambda>p pub. pub\<lparr>pub_testflight := Some p\<rparr>)"
  let ?h3 = "with_store (pb_app_store spec) (plan_app_store vars path (fe path)) (\<lambda>p pub. pub\<lparr>pub_app_store := Some p\<rparr>)"
  have 1: "keeps_pace (in_step vars keys) (\<lambda>st. ?h1 (r, st))" for r by (rule with_store_pace) (rule plan_play_pace[OF assms(1)])
  have 2: "keeps_pace (in_step vars keys) (\<lambda>st. ?h2 (r, st))" for r by (rule with_store_pace) (rule plan_testflight_pace[OF assms(1)])
  have 3: "keeps_pace (in_step vars keys) (\<lambda>st. ?h3 (r, st))" for r
    by (rule with_store_pace) (rule plan_app_store_pace[OF assms(1)], rule assms(2), simp_all add: Some sp)
  have "keeps_pace (in_step vars keys) (\<lambda>st. ?h2 (?h1 (r, st)))"
    by (rule keeps_pace_through[OF 1 2]) (simp add: with_store_stop)
  then have "keeps_pace (in_step vars keys) (\<lambda>st. ?h3 (?h2 (?h1 (r, st))))"
    by (rule keeps_pace_through[OF _ 3]) (simp add: with_store_stop)
  with Some sp show ?thesis by (simp add: target_uploads_def Let_def)
qed

lemma target_uploads_stop: "target_uploads vars fe target (Inl e, st) = (Inl e, st)"
  by (simp add: target_uploads_def with_store_stop Let_def split: option.splits prod.splits)

lemma publish_targets_stop: "fold (target_uploads vars fe) targets (Inl e, st) = (Inl e, st)"
  by (induction targets) (simp_all add: target_uploads_stop)

definition one_group :: "EffectiveTarget \<Rightarrow> bool" where
  "one_group target \<longleftrightarrow> (case et_publish target of
     Some (spec, _) \<Rightarrow> (case pb_app_store spec of Some a \<Rightarrow> length (asp_groups a) \<le> 1 | None \<Rightarrow> True) | None \<Rightarrow> True)"

lemma publish_targets_pace:
  assumes "Key_Outside \<in> keys" "list_all one_group targets"
  shows "keeps_pace (in_step vars keys) (\<lambda>st. fold (target_uploads vars fe) targets (r, st))"
  using assms(2)
proof (induction targets arbitrary: r)
  case Nil
  then show ?case by (simp add: keeps_pace_def)
next
  case (Cons target targets)
  have 1: "keeps_pace (in_step vars keys) (\<lambda>st. target_uploads vars fe target (r, st))"
    using Cons.prems by (intro target_uploads_pace[OF assms(1)]) (simp add: one_group_def)
  from Cons have 2: "keeps_pace (in_step vars keys) (\<lambda>st. fold (target_uploads vars fe) targets (r, st))" for r by simp
  show ?case using keeps_pace_through[OF 1, of "fold (target_uploads vars fe) targets", OF 2] by (simp add: publish_targets_stop)
qed

lemma lower_steps_pace:
  assumes "Key_Outside \<in> keys"
  shows "keeps_pace (in_step vars keys) (lower_steps vars shared entries path built)"
proof (rule keeps_paceI)
  fix st st2 y st'
  assume same: "in_step vars keys st st2" and run: "lower_steps vars shared entries path built st = (Inr y, st')"
  let ?names = "ps_name ` set built"
  let ?init = "\<lambda>st. \<lparr>ss_placed = False, ss_names = ?names, ss_pending = built, ss_lower = st\<rparr>"
  let ?f = "each_out (lower_entry vars shared ?names path) (enumerate 0 entries)"
  have pace: "keeps_pace (steps_in_step vars keys) ?f" by (rule keeps_pace_each_out) (auto intro!: lower_entry_pace assms)
  from run obtain steps ss where f: "?f (?init st) = (Inr steps, ss)"
    and y: "y = steps @ (if ss_placed ss then [] else ss_pending ss)" "st' = ss_lower ss"
    by (auto simp: lower_steps_def Let_def split: prod.splits sum.splits)
  have "steps_in_step vars keys (?init st) (?init st2)" using same by (simp add: steps_in_step_def)
  from keeps_paceE[OF pace this f] obtain ss2 where "?f (?init st2) = (Inr steps, ss2)" "steps_in_step vars keys ss ss2" .
  then show "\<exists>st2'. lower_steps vars shared entries path built st2 = (Inr y, st2') \<and> in_step vars keys st' st2'"
    by (simp add: lower_steps_def Let_def y steps_in_step_def)
qed

definition flavor_keys :: "string list \<Rightarrow> ScopeKey set" where
  "flavor_keys flavors = insert Key_Outside (cache_key ` snd ` set (flavor_scopes flavors))"

lemma lower_parts_pace:
  assumes "list_all one_group targets"
  shows "keeps_pace (in_step vars (flavor_keys flavors)) (lower_parts config selected vars flavors targets)"
proof -
  have scope: "cache_key scope \<in> flavor_keys flavors" if "(f, scope) \<in> set (flavor_scopes flavors)" for f scope
    using that by (force simp: flavor_keys_def)
  have out: "Key_Outside \<in> flavor_keys flavors" by (simp add: flavor_keys_def)
  note parts = publish_targets_pace[OF out assms] lower_steps_pace[OF out]
  have built: "keeps_pace (in_step vars (flavor_keys flavors))
      (each_out (build_step vars) (concat (map (\<lambda>t. map (\<lambda>fs. (t, fs)) (flavor_scopes flavors)) targets)))"
    by (rule keeps_pace_each_out) (auto intro!: build_step_pace scope)
  have env: "keeps_pace (in_step vars (flavor_keys flavors)) (each_out (lower_env vars) entries)" for entries
    by (rule keeps_pace_each_out) (auto intro!: lower_env_pace out)
  have patterns: "keeps_pace (in_step vars (flavor_keys flavors))
      (each_out (lower_pattern vars) (concat (map (target_patterns (flavor_scopes flavors)) targets)))"
    by (rule keeps_pace_each_out) (auto intro!: lower_pattern_pace intro: scope simp: target_patterns_def Let_def split: prod.splits)
  show ?thesis
    unfolding lower_parts_def Let_def
    by (cases "case Option.bind (map_option snd selected) wf_steps of
          Some steps \<Rightarrow> (steps, workflow_prefix selected @ ''steps'') | None \<Rightarrow> (unwrap_or [] (v2_steps config), ''steps'')")
       (simp only: prod.case, intro keeps_pace_bind parts built env patterns keeps_pace_pure)
qed

subsection \<open>Checking vars\<close>

text \<open>A run leaves the cache of other scopes alone and spends from the budget.\<close>

lemma less_spent_refl: "less_spent keys st st"
  by (simp add: less_spent_def)

lemma less_spent_trans: "less_spent keys a b \<Longrightarrow> less_spent keys b c \<Longrightarrow> less_spent keys a c"
  by (auto simp: less_spent_def)

lemma less_spent_before:
  "less_spent keys a (spend_expansion b) \<Longrightarrow> less_spent keys a b" "less_spent keys a (spend_bytes n b) \<Longrightarrow> less_spent keys a b"
  by (simp_all add: less_spent_def spend_expansion_def spend_bytes_def cached_def)

lemma less_spent_after:
  "less_spent keys a b \<Longrightarrow> less_spent keys (spend_expansion a) b" "less_spent keys a b \<Longrightarrow> less_spent keys (spend_bytes n a) b"
  by (simp_all add: less_spent_def spend_expansion_def spend_bytes_def cached_def)

lemma less_spent_other: "key \<notin> keys \<Longrightarrow> less_spent keys (remember var key w st) st"
proof (cases "var < length (rs_cache st)")
  case True
  then show "key \<notin> keys \<Longrightarrow> ?thesis"
    by (auto simp: less_spent_def cached_def remember_def nth_list_update map_add_def split: option.splits)
qed (simp add: less_spent_def cached_def remember_def)

lemma runs_spend:
  assumes key: "cache_key flavor \<notin> keys"
  shows "runs_inner vars flavor path base chain s st r st' \<Longrightarrow> less_spent keys st' st"
    and "runs_each vars flavor path base chain s es cursor out st r st' \<Longrightarrow> less_spent keys st' st"
    and "runs_var vars flavor path base chain v var st r st' \<Longrightarrow> less_spent keys st' st"
proof (induction rule: runs_inner_runs_each_runs_var.inducts)
  case (miss var st chain v w st1)
  with less_spent_other[OF key] less_spent_trans show ?case by blast
qed (auto dest: less_spent_before intro: less_spent_refl less_spent_after less_spent_trans[OF _ less_spent_before(1)])

lemma check_vars_spend:
  assumes "Key_Flavor Flavor_Literal (length ''flavor'') \<notin> keys"
  shows "less_spent keys (lo_resolver (check_vars vars entries st)) (lo_resolver st)"
proof (induction vars entries st rule: check_vars.induct)
  case (1 vars st)
  then show ?case by (simp add: less_spent_refl)
next
  case (2 vars name v path entries st)
  obtain r rs where r: "resolve_from vars (Scope_Value Flavor_Literal ''flavor'') path [name] v (lo_resolver st) = (r, rs)" by fastforce
  with assms have rs: "less_spent keys rs (lo_resolver st)"
    by (intro runs_spend(1)) (auto simp: runs_iff resolve_from_def)
  show ?case
  proof (cases r)
    case (Inl e)
    show ?thesis
    proof (cases "is_limit_error e")
      case True
      with Inl r rs show ?thesis by (simp add: Let_def note_error_def)
    next
      case False
      with Inl r show ?thesis using less_spent_trans[OF 2(1)[OF r[symmetric] Inl refl False]] rs
        by (simp add: Let_def) (simp add: note_error_def)
    qed
  next
    case (Inr w)
    with 2(2)[OF r[symmetric] Inr] r rs show ?thesis by (auto intro: less_spent_trans)
  qed
qed

lemma literal_not_planned: "Key_Flavor Flavor_Literal n \<notin> flavor_keys flavors"
  by (auto simp: flavor_keys_def flavor_scopes_def)

lemma check_vars_cache: "length (rs_cache (lo_resolver (check_vars vars entries st))) = length (rs_cache (lo_resolver st))"
  using check_vars_spend[of "{}"] by (simp add: less_spent_def)

subsection \<open>Planning an accepted file\<close>

definition few_groups :: "TargetSpec \<Rightarrow> bool" where
  "few_groups target \<longleftrightarrow> (case Option.bind (ta_publish target) publish_spec of
     Some spec \<Rightarrow> (case pb_app_store spec of Some a \<Rightarrow> length (asp_groups a) \<le> 1 | None \<Rightarrow> True) | None \<Rightarrow> True)"

definition single_groups :: "ConfigV2 \<Rightarrow> bool" where
  "single_groups config \<longleftrightarrow> list_all (\<lambda>(_, t). few_groups t) (v2_targets config) \<and>
     list_all (\<lambda>(_, w). list_all (\<lambda>(_, t). few_groups t) (unwrap_or [] (wf_targets w))) (v2_workflows config)"

lemma top_target_groups: "few_groups t \<Longrightarrow> top_target (p, t) = Some e \<Longrightarrow> one_group e"
  by (auto simp: top_target_def one_group_def few_groups_def Let_def split: option.splits)

lemma override_target_groups:
  assumes "few_groups t" "\<And>b. map_of (v2_targets config) p = Some b \<Longrightarrow> few_groups b" "override_target config prefix (p, t) = Inr e"
  shows "one_group e"
proof -
  from assms(3) have "et_publish e = (case ta_publish t of
        Some q \<Rightarrow> map_option (\<lambda>q. (q, (prefix @ ''targets.'' @ platform_key p) @ ''.publish'')) (publish_spec q)
      | None \<Rightarrow> if ta_build t = None then map_option (\<lambda>q. (q, (''targets.'' @ platform_key p) @ ''.publish''))
          (Option.bind (Option.bind (map_of (v2_targets config) p) ta_publish) publish_spec) else None)"
    by (auto simp: override_target_def Let_def split: option.splits prod.splits)
  with assms(1,2) show ?thesis
    by (cases "map_of (v2_targets config) p"; cases "ta_publish t") (auto simp: one_group_def few_groups_def split: option.splits if_splits)
qed

lemma effective_groups:
  assumes "single_groups config" "case selected of Some (n, w) \<Rightarrow> (n, w) \<in> set (v2_workflows config) | None \<Rightarrow> True"
  shows "list_all one_group (fst (effective_targets config prefix (map_option snd selected)))"
proof -
  have top: "few_groups t" if "(p, t) \<in> set (v2_targets config)" for p t
    using assms(1) that by (auto simp: single_groups_def list_all_iff)
  show ?thesis
  proof (cases "Option.bind (map_option snd selected) wf_targets")
    case None
    then show ?thesis using top_target_groups[OF top]
      by (auto simp: effective_targets_def list_all_iff List.map_filter_def)
  next
    case (Some overrides)
    then obtain n w where w: "selected = Some (n, w)" "wf_targets w = Some overrides" by (cases selected) auto
    with assms have own: "few_groups t" if "(p, t) \<in> set overrides" for p t
      using that by (fastforce simp: single_groups_def list_all_iff)
    show ?thesis using Some own top
      by (auto simp: effective_targets_def Let_def list_all_iff List.map_filter_def split: sum.splits
          intro!: override_target_groups dest: map_of_SomeD)
  qed
qed

text \<open>A lowering that ends early says why.\<close>

definition says_why :: "('s \<Rightarrow> (string list + 'b) \<times> 's) \<Rightarrow> bool" where
  "says_why f \<longleftrightarrow> (\<forall>st st'. f st \<noteq> (Inl [], st'))"

lemma says_why_each_out: "(\<And>x. says_why (f x)) \<Longrightarrow> says_why (each_out f xs)"
proof (induction xs)
  case (Cons x xs)
  then show ?case by (auto simp: says_why_def split: prod.splits sum.splits)
qed (simp add: says_why_def)

lemma says_why_bind:
  "says_why f \<Longrightarrow> (\<And>y. says_why (g y)) \<Longrightarrow> says_why (\<lambda>st. case f st of (Inl e, st1) \<Rightarrow> (Inl e, st1) | (Inr y, st1) \<Rightarrow> g y st1)"
  by (auto simp: says_why_def split: prod.splits sum.splits)

lemma says_why_pure [simp]: "says_why (\<lambda>st. (Inr y, st))"
  by (simp add: says_why_def)

lemma report_why [simp]: "report_error e st \<noteq> (Inl [], st')"
  by (simp add: report_error_def)

lemma planned_why [simp]: "planned spec source problem st \<noteq> (Inl [], st')"
  by (auto simp: planned_def split: option.splits)

lemma parts_why:
  "says_why (build_step vars x)" "says_why (lower_env vars y)" "says_why (lower_pattern vars z)" "says_why (lower_entry vars shared names path w)"
  "says_why (plan_play vars path fe play)" "says_why (plan_testflight vars path fe testflight)" "says_why (plan_app_store vars path fe a)"
proof -
  show "says_why (build_step vars x)" by (auto simp: says_why_def build_step_def Let_def split: prod.splits sum.splits)
  show "says_why (lower_env vars y)" by (auto simp: says_why_def lower_env_def Let_def split: prod.splits sum.splits)
  show "says_why (lower_pattern vars z)" by (auto simp: says_why_def lower_pattern_def Let_def split: prod.splits sum.splits option.splits)
  have "says_why (inline_step vars names p q)" for p q
    by (auto simp: says_why_def inline_step_def Let_def split: prod.splits sum.splits)
  then show "says_why (lower_entry vars shared names path w)"
    by (cases w; cases "snd w") (auto simp: says_why_def lower_entry_def split: option.splits)
  show "says_why (plan_play vars path fe play)" "says_why (plan_testflight vars path fe testflight)" "says_why (plan_app_store vars path fe a)"
    by (auto simp: says_why_def plan_play_def plan_testflight_def plan_app_store_def split: prod.splits sum.splits)
qed

lemma with_store_why: "(\<And>x. says_why (plan_one x)) \<Longrightarrow> fst p \<noteq> Inl [] \<Longrightarrow> fst (with_store spec plan_one put p) \<noteq> Inl []"
  by (cases p; cases spec; cases "fst p") (auto simp: with_store_def says_why_def split: prod.splits sum.splits)

lemma publish_targets_why: "fst p \<noteq> Inl [] \<Longrightarrow> fst (fold (target_uploads vars fe) targets p) \<noteq> Inl []"
  by (induction targets arbitrary: p)
     (simp_all add: target_uploads_def Let_def with_store_why parts_why split: option.splits prod.splits)

lemma lower_parts_why: "says_why (lower_parts config selected vars flavors targets)"
proof -
  have pub: "says_why (\<lambda>st. fold (target_uploads vars fe) targets (Inr no_publish, st))" for fe
    unfolding says_why_def
  proof (intro allI notI)
    fix st st' assume "fold (target_uploads vars fe) targets (Inr no_publish, st) = (Inl [], st')"
    with publish_targets_why[of "(Inr no_publish, st)" vars fe targets] show False by simp
  qed
  have steps: "says_why (lower_steps vars shared entries path built)" for shared entries path built
    using says_why_each_out[of "lower_entry vars shared (ps_name ` set built) path" "enumerate 0 entries", OF parts_why(4)]
    by (auto simp: says_why_def lower_steps_def Let_def split: prod.splits sum.splits)
  show ?thesis
    unfolding lower_parts_def Let_def
    by (cases "case Option.bind (map_option snd selected) wf_steps of
          Some steps \<Rightarrow> (steps, workflow_prefix selected @ ''steps'') | None \<Rightarrow> (unwrap_or [] (v2_steps config), ''steps'')")
       (simp only: prod.case, intro says_why_bind says_why_each_out pub steps parts_why says_why_pure)
qed

lemma lower_why: "lower config name selected budget v \<noteq> (Inl [], b)"
  using lower_parts_why unfolding says_why_def lower_def Let_def
  by (auto split: sum.splits prod.splits if_splits)

lemma push_unique_Nil [simp]: "push_unique es e = [] \<longleftrightarrow> False"
  by (auto simp: push_unique_def MAX_ERRORS_def)

lemma fold_push_unique: "fold (\<lambda>e acc. push_unique acc e) es errors = [] \<Longrightarrow> es = [] \<and> errors = []"
  by (induction es arbitrary: errors) fastforce+

lemma lower_workflows_Nil:
  "lower_workflows config ws budget errors = [] \<Longrightarrow>
     errors = [] \<and> (\<forall>w \<in> set ws. \<exists>b plan b'. lower config (snd w) None b (validates_vars config w) = (Inr plan, b'))"
proof (induction config ws budget errors rule: lower_workflows.induct)
  case (2 config w ws budget errors)
  obtain r b1 where r: "lower config (snd w) None budget (validates_vars config w) = (r, b1)" by fastforce
  show ?case
  proof (cases r)
    case (Inl es)
    with r lower_why have "es \<noteq> []" by metis
    then have some: "fold (\<lambda>e acc. push_unique acc e) es errors \<noteq> []" by (auto dest: fold_push_unique)
    with Inl r 2(1)[OF r[symmetric] Inl refl] 2(3) show ?thesis by (auto simp: Let_def split: if_splits)
  next
    case (Inr plan)
    with r 2(2)[OF r[symmetric] Inr] 2(3) show ?thesis by auto
  qed
qed simp

lemma select_workflow_member: "select_workflow config name = Inr (Some (n, w)) \<Longrightarrow> (n, w) \<in> set (v2_workflows config)"
  by (auto simp: select_workflow_def Let_def dest!: fetch_optional_Some split: option.splits list.splits)

lemma lower_fresh:
  assumes "lower config name None budget v = (Inr plan, b)" "single_groups config"
  shows "\<exists>b'. lower config name None new_budget False = (Inr plan, b')"
proof -
  from assms(1) obtain selected where sel: "select_workflow config name = Inr selected"
    by (auto simp: lower_def split: sum.splits)
  define workflow where "workflow = map_option snd selected"
  define entries where "entries = overlay ''vars.'' (workflow_prefix selected) (v2_vars config) (case workflow of Some w \<Rightarrow> wf_vars w | None \<Rightarrow> [])"
  define vars where "vars = map (\<lambda>(k, v, _). (k, v)) entries"
  define flavors where "flavors = effective_flavors config workflow"
  obtain targets errors where targets: "effective_targets config (workflow_prefix selected) workflow = (targets, errors)" by fastforce
  define st0 where "st0 = \<lparr>lo_errors = [], lo_resolver = new_resolver vars budget\<rparr>"
  define st1 where "st1 = (if v then check_vars vars entries st0 else st0)"
  define s1 where "s1 = \<lparr>lo_errors = [], lo_resolver = new_resolver vars new_budget\<rparr>"
  have same: "in_step vars (flavor_keys flavors) (st1\<lparr>lo_errors := errors\<rparr>) (s1\<lparr>lo_errors := errors\<rparr>)"
  proof -
    have "less_spent (flavor_keys flavors) (lo_resolver st1) (lo_resolver st0)"
      unfolding st1_def by (simp add: less_spent_refl check_vars_spend literal_not_planned)
    moreover have "less_spent (flavor_keys flavors) (lo_resolver st0) (lo_resolver s1)"
      by (simp add: st0_def s1_def less_spent_def new_resolver_def new_budget_def cached_def)
    moreover have "length (rs_cache (lo_resolver st1)) = length vars"
      by (simp add: st1_def check_vars_cache st0_def new_resolver_def)
    ultimately show ?thesis by (auto simp: in_step_def intro: less_spent_trans)
  qed
  have groups: "list_all one_group targets"
  proof -
    have "case selected of Some (n, w) \<Rightarrow> (n, w) \<in> set (v2_workflows config) | None \<Rightarrow> True"
      using sel select_workflow_member by (auto split: option.splits)
    from effective_groups[OF assms(2) this, of "workflow_prefix selected"] targets show ?thesis by (simp add: workflow_def)
  qed
  have noerr: "lo_errors st1 = []"
    using assms(1) unfolding lower_def sel by (auto simp: Let_def workflow_def entries_def vars_def st0_def st1_def split: if_splits)
  note unfold = lower_def sel sum.case Let_def workflow_def[symmetric] entries_def[symmetric] vars_def[symmetric] flavors_def[symmetric]
    narrow_targets_def option.case targets prod.case append_Nil2
  from assms(1) obtain r st3 where parts: "lower_parts config selected vars flavors targets (st1\<lparr>lo_errors := errors\<rparr>) = (Inr r, st3)"
    unfolding unfold st0_def[symmetric] st1_def[symmetric] using noerr by (auto split: prod.splits sum.splits)
  from keeps_paceE[OF lower_parts_pace[OF groups] same parts] obtain s3
    where s3: "lower_parts config selected vars flavors targets (s1\<lparr>lo_errors := errors\<rparr>) = (Inr r, s3)" "in_step vars (flavor_keys flavors) st3 s3" .
  from s3(2) have "lo_errors s3 = lo_errors st3" by (simp add: in_step_def)
  with assms(1) show ?thesis
    unfolding unfold st0_def[symmetric] st1_def[symmetric] s1_def[symmetric] if_False using noerr parts s3(1)
    by (cases r) (auto simp: s1_def split: if_splits)
qed

lemma lower_selected: "select_workflow config n1 = select_workflow config n2 \<Longrightarrow> select_workflow config n1 = Inr selected \<Longrightarrow>
  lower config n1 platforms budget v = lower config n2 platforms budget v"
  by (simp add: lower_def)

lemma lower_normalized:
  assumes "normalize_runner_labels (v2_runs_on config) = Inr labels"
  shows "lower (config\<lparr>v2_runs_on := labels\<rparr>) name platforms budget v = lower config name platforms budget v"
proof -
  let ?c = "config\<lparr>v2_runs_on := labels\<rparr>"
  have fields: "v2_workflows ?c = v2_workflows config" "v2_targets ?c = v2_targets config" "v2_steps ?c = v2_steps config"
      "v2_env ?c = v2_env config" "v2_app ?c = v2_app config" "v2_vars ?c = v2_vars config"
      "v2_build_number_offset ?c = v2_build_number_offset config" "v2_isolation ?c = v2_isolation config"
      "v2_signing ?c = v2_signing config" "v2_runs_on ?c = labels" by simp_all
  have sel: "select_workflow ?c name = select_workflow config name"
    unfolding select_workflow_def v2_workflow_names_def fields by (rule refl)
  have targets: "effective_targets ?c prefix w = effective_targets config prefix w" for prefix w
    unfolding effective_targets_def override_target_def fields by (rule refl)
  have parts: "lower_parts ?c = lower_parts config" unfolding lower_parts_def fun_eq_iff fields by simp
  have flavors: "effective_flavors ?c = effective_flavors config" unfolding effective_flavors_def fun_eq_iff fields by simp
  have labels: "normalize_runner_labels labels = Inr labels" using normalized_labels_canonical[OF assms] by simp
  show ?thesis unfolding lower_def sel targets parts flavors fields assms labels by (rule refl)
qed

lemma select_normalized: "select_workflow (config\<lparr>v2_runs_on := labels\<rparr>) name = select_workflow config name"
proof -
  have "v2_workflows (config\<lparr>v2_runs_on := labels\<rparr>) = v2_workflows config" by simp
  then show ?thesis by (simp only: select_workflow_def v2_workflow_names_def)
qed

lemma accepted_lowered:
  assumes "parse_v2 config = Inr accepted"
  shows "\<exists>labels. normalize_runner_labels (v2_runs_on config) = Inr labels \<and> accepted = config\<lparr>v2_runs_on := labels\<rparr> \<and>
    (\<forall>w \<in> set (planned_workflows config). \<exists>b v plan b'. lower config w None b v = (Inr plan, b'))"
proof -
  from assms have "shape_errors config = []" and ws: "lower_workflows config (enumerate 0 (planned_workflows config)) new_budget [] = []"
    and "\<exists>labels. normalize_runner_labels (v2_runs_on config) = Inr labels \<and> accepted = config\<lparr>v2_runs_on := labels\<rparr>"
    unfolding parse_v2_def Let_def by (auto split: if_splits sum.splits)
  moreover have "\<exists>b v plan b'. lower config w None b v = (Inr plan, b')" if "w \<in> set (planned_workflows config)" for w
  proof -
    from that have "w \<in> snd ` set (enumerate 0 (planned_workflows config))" by (metis map_snd_enumerate set_map)
    then obtain i where "(i, w) \<in> set (enumerate 0 (planned_workflows config))" by auto
    with lower_workflows_Nil[OF ws] show ?thesis by (metis snd_conv)
  qed
  ultimately show ?thesis by blast
qed

lemma planned_selection:
  assumes "select_workflow config name = Inr selected"
  obtains w where "w \<in> set (planned_workflows config)" "select_workflow config w = Inr selected"
proof (cases "v2_workflows config = []")
  case True
  with assms have "name = None \<and> selected = None" by (auto simp: select_workflow_def Let_def fetch_optional_def split: option.splits)
  with True assms that[of None] show thesis by (simp add: planned_workflows_def)
next
  case False
  with assms obtain n w where sel: "selected = Some (n, w)" by (cases selected) (auto simp: select_workflow_def Let_def split: option.splits list.splits)
  have "select_workflow config (Some n) = Inr selected"
  proof (cases name)
    case None
    with assms sel have "v2_workflows config = [(n, w)]" by (auto simp: select_workflow_def Let_def split: list.splits)
    then show ?thesis by (simp add: sel select_workflow_def Let_def fetch_optional_def)
  next
    case (Some m)
    with assms sel have "m = n" by (auto simp: select_workflow_def Let_def dest!: fetch_optional_Some split: option.splits)
    with assms Some show ?thesis by simp
  qed
  with False that[of "Some n"] select_workflow_member[of config name n w] assms sel show thesis
    by (force simp: planned_workflows_def v2_workflow_names_def)
qed

lemma lower_plan_fields:
  "lower config name platforms budget v = (Inr plan, b) \<Longrightarrow> select_workflow config name = Inr selected \<Longrightarrow>
     plan_workflow plan = map_option fst selected \<and>
     plan_runs_on plan = (case normalize_runner_labels (v2_runs_on config) of Inr labels \<Rightarrow> labels | Inl _ \<Rightarrow> [])"
  by (auto simp: lower_def Let_def split: if_splits prod.splits sum.splits)

text \<open>
  C29. Once a version 2 file is accepted, a build can plan every workflow it can select, with the whole set of targets: the errors that planning
  can meet (an unknown var, a cycle, a bad artifact pattern, a limit) were met when the file was read. Uploads to the App Store name at
  most one group.
\<close>

theorem accepted_file_plans:
  assumes "parse_v2 config = Inr accepted" "single_groups config" "select_workflow accepted name = Inr selected"
  shows "\<exists>plan. plan_v2 accepted name None = Inr plan \<and> plan_workflow plan = map_option fst selected \<and> plan_runs_on plan = v2_runs_on accepted"
proof -
  from accepted_lowered[OF assms(1)] obtain labels where labels: "normalize_runner_labels (v2_runs_on config) = Inr labels"
    and accepted: "accepted = config\<lparr>v2_runs_on := labels\<rparr>"
    and lowered: "\<forall>w \<in> set (planned_workflows config). \<exists>b v plan b'. lower config w None b v = (Inr plan, b')" by blast
  from assms(3) select_normalized have sel: "select_workflow config name = Inr selected" by (simp only: accepted)
  from planned_selection[OF sel] obtain w where w: "w \<in> set (planned_workflows config)" "select_workflow config w = Inr selected" .
  from lowered w(1) obtain b v plan b' where "lower config w None b v = (Inr plan, b')" by blast
  from lower_fresh[OF this assms(2)] obtain b1 where "lower config w None new_budget False = (Inr plan, b1)" by blast
  with lower_selected[of config w name] w(2) sel have run: "lower config name None new_budget False = (Inr plan, b1)" by simp
  with lower_normalized[OF labels] have "plan_v2 accepted name None = Inr plan" by (simp add: plan_v2_def accepted)
  with lower_plan_fields[OF run sel] labels accepted show ?thesis by simp
qed

definition sample_target :: TargetSpec where
  "sample_target = \<lparr>ta_build = Some ''flutter build ${{ vars.A }}'', ta_artifacts = None, ta_publish = None, ta_budgets = None\<rparr>"

definition sample_config :: ConfigV2 where
  "sample_config = \<lparr>v2_version = 2, v2_name = None, v2_app = \<lparr>ap_flutter = None, ap_flavors = [''dev'']\<rparr>,
     v2_targets = [(Android, sample_target)], v2_steps = Some [Step_Inline \<lparr>inl_name = ''test'', inl_run = ''flutter test'', inl_reports = None\<rparr>, Step_Build],
     v2_env = [], v2_vars = [(''A'', ''apk ${{ flavor }}'')], v2_on = None, v2_workflows = [], v2_signing = no_signing, v2_runs_on = [], v2_isolation = Iso_Host,
     v2_build_number_offset = 0\<rparr>"

lemmas lower_eval = lower_def lower_parts_def effective_targets_def top_target_def override_target_def narrow_targets_def flavor_scopes_def
  effective_flavors_def overlay_def workflow_prefix_def target_uploads_def build_step_def lower_steps_def lower_entry_def inline_step_def lower_env_def
  lower_pattern_def target_patterns_def keep_first_def default_artifact_patterns_for_platforms_def validate_artifact_pattern_def bad_path_segment_def
  resolve_in_def note_error_def report_error_def select_workflow_def v2_workflow_names_def no_publish_def overlaid_def no_signing_def
  contains_str_def List.map_filter_def flavors_problem_def either_from_def

lemma sample_sizes: "size_errors sample_config = []"
  by (simp add: size_errors_def sample_config_def sample_target_def count_error_def size_targets_def size_steps_def size_triggers_def
      target_sizes_def step_sizes_def MAX_WORKFLOWS_def MAX_FLAVORS_def MAX_ENV_ENTRIES_def MAX_VARS_def MAX_STEPS_def MAX_COMMAND_BYTES_def)

lemma sample_shape: "shape_errors sample_config = []"
  by (simp add: shape_errors_def sample_config_def sample_target_def check_flavor_list_def check_target_def check_steps_def check_keys_def
      validate_build_number_offset_def MAX_STORE_VERSION_CODE_def is_valid_identifier_def MAX_STEP_NAME_LENGTH_def is_control_def
      is_valid_pipeline_env_key_def trim_def is_ws_def normalize_runner_labels_def is_ascii_alphabetic_def is_ascii_alphanumeric_def
      is_ascii_lowercase_def is_ascii_uppercase_def is_ascii_digit_def sort_dedup_def MAX_RUNNER_LABELS_def Let_def)

lemma sample_lowered: "isl (fst (lower sample_config None None new_budget True)) = False"
  by (simp add: lower_eval resolver_eval sample_config_def sample_target_def)

lemma sample_accepted: "parse_v2 sample_config = Inr sample_config"
proof -
  have "v2_workflows sample_config = []" "v2_version sample_config = 2" by (simp_all add: sample_config_def)
  moreover from sample_lowered obtain plan b where "lower sample_config None None new_budget True = (Inr plan, b)"
    by (cases "lower sample_config None None new_budget True"; cases "fst (lower sample_config None None new_budget True)") auto
  moreover have "normalize_runner_labels (v2_runs_on sample_config) = Inr []" "sample_config\<lparr>v2_runs_on := []\<rparr> = sample_config"
    by (simp_all add: sample_config_def normalize_runner_labels_def sort_dedup_def)
  ultimately show ?thesis by (simp add: parse_v2_def sample_sizes sample_shape planned_workflows_def validates_vars_def Let_def)
qed

theorem accepted_file_plans_witness:
  "parse_v2 sample_config = Inr sample_config \<and>
   (\<exists>plan. plan_v2 sample_config None None = Inr plan \<and> plan_workflow plan = None \<and> plan_runs_on plan = [])"
proof -
  have "single_groups sample_config" "select_workflow sample_config None = Inr None" "v2_runs_on sample_config = []"
    by (simp_all add: single_groups_def few_groups_def sample_config_def sample_target_def select_workflow_def)
  with accepted_file_plans[of sample_config sample_config None None] sample_accepted show ?thesis by simp
qed

end
