(* ===== verification/Runner_Secrets.thy ===== *)
theory Runner_Secrets
  imports Pipeline_Plans
begin

text \<open>
  Secrets on a runner, from \<^verbatim>\<open>crates/oore-runner/src/lib.rs\<close>: how references to them are put into the plan of a
  build (\<open>apply_secret_references\<close>), and how their values are kept out of its log (\<open>SecretMasker\<close> and the
  previews of commands and environment). \<open>replace_secret_references\<close> is of \<^verbatim>\<open>crates/oore-contract/src/lib.rs\<close>.
\<close>

subsection \<open>The plan a runner executes\<close>

record ResolvedExecutionPlan =
  rp_steps :: "PlanStep list"
  rp_artifact_patterns :: "string list"
  rp_env :: "PipelineEnvVar list"
  rp_secret_env :: "(string \<times> string) list"
  rp_secret_env_keys :: "string set"
  rp_build_number_offset :: int
  rp_isolation :: BuildIsolation
  rp_needs_xcode :: bool
  rp_flutter_version :: string
  rp_source :: string
  rp_publish :: PlanPublish
  rp_size_budgets :: "TargetSizeBudget list"
  rp_platforms :: "BuildPlatform list"

subsection \<open>References to secrets\<close>

fun replace_from :: "string \<Rightarrow> (string \<Rightarrow> string) \<Rightarrow> nat \<Rightarrow> SecretReference list \<Rightarrow> string" where
  "replace_from text replacement cursor [] = drop cursor text"
| "replace_from text replacement cursor (r # rs) =
     slice text cursor (sref_start r) @ replacement (sref_name r) @ replace_from text replacement (sref_end r) rs"

definition replace_secret_references :: "string \<Rightarrow> (string \<Rightarrow> string) \<Rightarrow> string + string" where
  "replace_secret_references text replacement =
     (case parse_secret_references text of Inl e \<Rightarrow> Inl e | Inr references \<Rightarrow> Inr (replace_from text replacement 0 references))"

definition secret_env_var :: "string \<Rightarrow> string" where
  "secret_env_var name = ''OORE_SECRET_'' @ name"

type_synonym secrets = "string \<Rightarrow> string option"

definition lookup_secret :: "secrets \<Rightarrow> string \<Rightarrow> string \<Rightarrow> string + string" where
  "lookup_secret secrets name path =
     (case secrets name of
        Some v \<Rightarrow> Inr v
      | None \<Rightarrow> Inl (path @ '' references secret '' @ squoted name @
          '', which is not defined for this pipeline, its project or the instance''))"

text \<open>The names a text refers to, in order.\<close>

definition referenced_names :: "string \<Rightarrow> string list" where
  "referenced_names text = (case parse_secret_references text of Inl _ \<Rightarrow> [] | Inr rs \<Rightarrow> map sref_name rs)"

text \<open>The first reference without a secret is the error.\<close>

fun first_missing :: "secrets \<Rightarrow> string \<Rightarrow> string list \<Rightarrow> string option" where
  "first_missing secrets path [] = None"
| "first_missing secrets path (name # names) =
     (case lookup_secret secrets name path of Inl e \<Rightarrow> Some e | Inr _ \<Rightarrow> first_missing secrets path names)"

fun apply_env :: "secrets \<Rightarrow> nat \<Rightarrow> PipelineEnvVar list \<Rightarrow> string set \<Rightarrow> string + PipelineEnvVar list \<times> string set" where
  "apply_env secrets i [] keys = Inr ([], keys)"
| "apply_env secrets i (pair # env) keys =
     (let path = ''env'' @ ''['' @ show_nat i @ ''].value''
      in case replace_secret_references (ev_value pair) (\<lambda>name. unwrap_or [] (secrets name)) of
           Inl e \<Rightarrow> Inl (path @ '' '' @ e)
         | Inr resolved \<Rightarrow>
             (case first_missing secrets path (referenced_names (ev_value pair)) of
                Some e \<Rightarrow> Inl e
              | None \<Rightarrow>
                  (case apply_env secrets (Suc i) env (if resolved \<noteq> ev_value pair then insert (ev_key pair) keys else keys) of
                     Inl e \<Rightarrow> Inl e
                   | Inr (env1, keys1) \<Rightarrow>
                       Inr ((if resolved \<noteq> ev_value pair then pair\<lparr>ev_value := resolved\<rparr> else pair) # env1, keys1))))"

definition shell_reference :: "string \<Rightarrow> string" where
  "shell_reference name = ''${'' @ secret_env_var name @ ''}''"

fun apply_steps :: "secrets \<Rightarrow> PlanStep list \<Rightarrow> string + PlanStep list \<times> string list" where
  "apply_steps secrets [] = Inr ([], [])"
| "apply_steps secrets (step # steps) =
     (let path = ps_source step
      in case replace_secret_references (ps_run step) shell_reference of
           Inl e \<Rightarrow> Inl (path @ '' '' @ e)
         | Inr run \<Rightarrow>
             (case first_missing secrets path (referenced_names (ps_run step)) of
                Some e \<Rightarrow> Inl e
              | None \<Rightarrow>
                  (case apply_steps secrets steps of
                     Inl e \<Rightarrow> Inl e
                   | Inr (steps1, names) \<Rightarrow> Inr (step\<lparr>ps_run := run\<rparr> # steps1, referenced_names (ps_run step) @ names))))"

definition apply_secret_references :: "ResolvedExecutionPlan \<Rightarrow> secrets \<Rightarrow> string + ResolvedExecutionPlan" where
  "apply_secret_references plan secrets =
     (case apply_env secrets 0 (rp_env plan) (rp_secret_env_keys plan) of
        Inl e \<Rightarrow> Inl e
      | Inr (env, keys) \<Rightarrow>
          (case apply_steps secrets (rp_steps plan) of
             Inl e \<Rightarrow> Inl e
           | Inr (steps, names) \<Rightarrow>
               Inr (plan\<lparr>rp_env := env, rp_secret_env_keys := keys, rp_steps := steps,
                 rp_secret_env := map (\<lambda>name. (secret_env_var name, unwrap_or [] (secrets name))) (sort_dedup names)\<rparr>)))"

subsection \<open>Masking the log\<close>

text \<open>Rust's \<open>replace\<close> for a pattern that is not empty: matches from the left, without overlaps.\<close>

function replace_all :: "string \<Rightarrow> string \<Rightarrow> string \<Rightarrow> string" where
  "replace_all pattern by text =
     (if pattern = [] then text
      else case find_str pattern text of
        None \<Rightarrow> text
      | Some i \<Rightarrow> take i text @ by @ replace_all pattern by (drop (i + length pattern) text))"
  by pat_completeness auto
termination
proof (relation "measure (\<lambda>(pattern, by, text). length text)", simp)
  fix pattern b s i assume "pattern \<noteq> []" "find_str pattern s = Some i"
  with find_str_bound[of pattern s i] show "((pattern, b, drop (i + length pattern) s), pattern, b, s) \<in> measure (\<lambda>(pattern, by, text). length text)"
    by (cases pattern) auto
qed

declare replace_all.simps [simp del]

text \<open>Rust's \<open>lines\<close>: a final line break ends the last line, and a carriage return before a break is dropped.\<close>

definition strip_cr :: "string \<Rightarrow> string" where
  "strip_cr line = (if line \<noteq> [] \<and> last line = CHR 0x0D then butlast line else line)"

definition str_lines :: "string \<Rightarrow> string list" where
  "str_lines text = (let parts = split_on (CHR 0x0A) text in
     map strip_cr (butlast parts) @ (if last parts = [] then [] else [last parts]))"

definition mask_patterns :: "string \<Rightarrow> string list" where
  "mask_patterns v =
     (if v = [] then []
      else v # (if CHR 0x0A \<in> set v then filter (\<lambda>line. 8 \<le> length line) (map trim (str_lines v)) else []))"

text \<open>Longest first; patterns of one length in their order.\<close>

definition new_masker :: "string list \<Rightarrow> string list" where
  "new_masker values = sort_key (\<lambda>p. - int (length p)) (sort_dedup (concat (map mask_patterns values)))"

definition mask_one :: "string \<Rightarrow> string \<Rightarrow> string" where
  "mask_one pattern masked = (if contains_str masked pattern then replace_all pattern ''***'' masked else masked)"

definition mask_text :: "string list \<Rightarrow> string \<Rightarrow> string" where
  "mask_text patterns text = fold mask_one patterns text"

subsection \<open>The masker hides what it is given\<close>

lemma contains_iff: "contains_str s p \<longleftrightarrow> (\<exists>a b. s = a @ p @ b)"
proof
  assume "contains_str s p"
  then obtain i where "find_str p s = Some i" by (auto simp: contains_str_def)
  from find_str_Some[OF this] have "drop i s = p @ drop (length p) (drop i s)" by (rule starts_withD)
  then have "s = take i s @ p @ drop (length p) (drop i s)" by (metis append_take_drop_id)
  then show "\<exists>a b. s = a @ p @ b" by blast
qed auto

text \<open>A pattern without the filler's character lies on one side of it.\<close>

lemma occurs_beside:
  assumes "a @ w @ b = x @ q @ y" "q \<noteq> []" "set w = {c}" "c \<notin> set q"
  shows "contains_str a q \<or> contains_str b q"
proof (cases "length x + length q \<le> length a")
  case True
  have "take (length x + length q) a = take (length x + length q) (a @ w @ b)" using True by simp
  also have "\<dots> = x @ q" by (simp add: assms(1))
  finally have "a = x @ q @ drop (length x + length q) a" by (metis append_take_drop_id append.assoc)
  then show ?thesis by (metis contains_append)
next
  case False
  show ?thesis
  proof (cases "length a + length w \<le> length x")
    case True
    have "b = drop (length a + length w) (x @ q @ y)" using assms(1)[symmetric] by simp
    also have "\<dots> = drop (length a + length w) x @ q @ y" using True by simp
    finally show ?thesis by (metis contains_append)
  next
    case inside: False
    define k where "k = max (length x) (length a)"
    have k: "length a \<le> k" "k < length a + length w" "length x \<le> k" "k < length x + length q"
      using False inside assms(2,3) by (auto simp: not_le k_def)
    have "k - length a < length w" using k by linarith
    then have "(a @ w @ b) ! k = w ! (k - length a)" using k by (simp add: nth_append)
    moreover have "w ! (k - length a) \<in> set w" using k by (intro nth_mem) linarith
    ultimately have "(a @ w @ b) ! k = c" using assms(3) by simp
    moreover have "k - length x < length q" using k by linarith
    then have "(x @ q @ y) ! k = q ! (k - length x)" using k by (simp add: nth_append)
    moreover from \<open>k - length x < length q\<close> have "q ! (k - length x) \<in> set q" by (rule nth_mem)
    ultimately show ?thesis using assms(1,4) by simp
  qed
qed

lemma contains_filled:
  "contains_str (a @ ''***'' @ b) q \<Longrightarrow> q \<noteq> [] \<Longrightarrow> CHR ''*'' \<notin> set q \<Longrightarrow> contains_str a q \<or> contains_str b q"
  using occurs_beside[of a "''***''" b _ q _ "CHR ''*''"] by (auto simp: contains_iff)

lemma contains_part: "contains_str b q \<Longrightarrow> contains_str (a @ b @ c) q"
  by (metis contains_iff append.assoc)

lemma contains_take: "contains_str (take i s) q \<Longrightarrow> contains_str s q"
  using contains_part[of "take i s" q "[]" "drop i s"] by simp

lemma contains_drop: "contains_str (drop i s) q \<Longrightarrow> contains_str s q"
  using contains_part[of "drop i s" q "take i s" "[]"] by simp

lemma replace_all_steps:
  "p = [] \<or> find_str p s = None \<Longrightarrow> replace_all p b s = s"
  "p \<noteq> [] \<Longrightarrow> find_str p s = Some i \<Longrightarrow> replace_all p b s = take i s @ b @ replace_all p b (drop (i + length p) s)"
  by (subst replace_all.simps, auto)+

lemma replace_keeps_away:
  "\<not> contains_str s q \<Longrightarrow> q \<noteq> [] \<Longrightarrow> CHR ''*'' \<notin> set q \<Longrightarrow> b = ''***'' \<Longrightarrow> \<not> contains_str (replace_all p b s) q"
proof (induction p b s rule: replace_all.induct)
  case (1 p b s)
  show ?case
  proof (cases "p = [] \<or> find_str p s = None")
    case False
    then obtain i where i: "p \<noteq> []" "find_str p s = Some i" by auto
    with 1 have "\<not> contains_str (replace_all p b (drop (i + length p) s)) q" using contains_drop by blast
    moreover from 1 have "\<not> contains_str (take i s) q" using contains_take by blast
    ultimately show ?thesis using 1 contains_filled[of "take i s"] unfolding replace_all_steps(2)[OF i] by blast
  qed (use 1 in \<open>simp add: replace_all_steps(1)\<close>)
qed

lemma before_first: "find_str p s = Some i \<Longrightarrow> p \<noteq> [] \<Longrightarrow> \<not> contains_str (take i s) p"
proof
  assume i: "find_str p s = Some i" and p: "p \<noteq> []" and "contains_str (take i s) p"
  then obtain a b where ab: "take i s = a @ p @ b" by (auto simp: contains_iff)
  then have "length a < i" using p by (metis append_take_drop_id length_append length_greater_0_conv length_take less_add_same_cancel1 min_less_iff_conj add_gr_0)
  moreover have "starts_with p (drop (length a) s)"
    using ab by (metis append_take_drop_id append.assoc append_eq_conv_conj starts_with_append)
  ultimately show False using find_str_first[OF i] by blast
qed

lemma replace_removes: "p \<noteq> [] \<Longrightarrow> CHR ''*'' \<notin> set p \<Longrightarrow> b = ''***'' \<Longrightarrow> \<not> contains_str (replace_all p b s) p"
proof (induction p b s rule: replace_all.induct)
  case (1 p b s)
  show ?case
  proof (cases "find_str p s")
    case None
    with 1 show ?thesis by (simp add: replace_all_steps(1)) (simp add: contains_str_def)
  next
    case (Some i)
    with 1 have "\<not> contains_str (replace_all p b (drop (i + length p) s)) p" by blast
    with 1 before_first[OF Some] show ?thesis using contains_filled[of "take i s"] unfolding replace_all_steps(2)[OF "1.prems"(1) Some] by blast
  qed
qed

lemma mask_one_away: "\<not> contains_str s q \<Longrightarrow> q \<noteq> [] \<Longrightarrow> CHR ''*'' \<notin> set q \<Longrightarrow> \<not> contains_str (mask_one p s) q"
  by (simp add: mask_one_def replace_keeps_away)

lemma mask_one_removes: "p \<noteq> [] \<Longrightarrow> CHR ''*'' \<notin> set p \<Longrightarrow> \<not> contains_str (mask_one p s) p"
  by (simp add: mask_one_def replace_removes)

lemma fold_mask_away: "\<not> contains_str s q \<Longrightarrow> q \<noteq> [] \<Longrightarrow> CHR ''*'' \<notin> set q \<Longrightarrow> \<not> contains_str (fold mask_one ps s) q"
  by (induction ps arbitrary: s) (simp_all add: mask_one_away)

lemma mask_text_hides: "q \<in> set patterns \<Longrightarrow> q \<noteq> [] \<Longrightarrow> CHR ''*'' \<notin> set q \<Longrightarrow> \<not> contains_str (mask_text patterns s) q"
  unfolding mask_text_def by (induction patterns arbitrary: s) (auto simp: fold_mask_away mask_one_removes)

lemma set_new_masker: "set (new_masker values) = (\<Union>v \<in> set values. set (mask_patterns v))"
  by (simp add: new_masker_def)

lemma strip_cr_chars: "set (strip_cr line) \<subseteq> set line"
  by (auto simp: strip_cr_def dest: in_set_butlastD)

lemma str_lines_chars:
  assumes "part \<in> set (str_lines v)"
  shows "set part \<subseteq> set v"
proof -
  let ?parts = "split_on (CHR 0x0A) v"
  from assms consider p where "p \<in> set (butlast ?parts)" "part = strip_cr p" | "part = last ?parts"
    by (auto simp: str_lines_def Let_def split: if_splits)
  then show ?thesis
  proof cases
    case 1
    from split_on_chars[OF in_set_butlastD[OF 1(1)]] strip_cr_chars[of p] 1(2) show ?thesis by blast
  next
    case 2
    have "last ?parts \<in> set ?parts" using split_on_not_Nil by (rule last_in_set)
    from split_on_chars[OF this] 2 show ?thesis by blast
  qed
qed

text \<open>
  C31. What the masker lets through of a log line contains no secret value, and of a secret of several lines none of its
  lines that are eight characters or longer, as long as the secret has no star, which the mask itself is made of.
\<close>

theorem log_hides_secrets:
  assumes "v \<in> set values" "v \<noteq> []" "CHR ''*'' \<notin> set v"
  shows "\<not> contains_str (mask_text (new_masker values) line) v \<and>
    (CHR 0x0A \<in> set v \<longrightarrow>
      list_all (\<lambda>part. 8 \<le> length (trim part) \<longrightarrow> \<not> contains_str (mask_text (new_masker values) line) (trim part)) (str_lines v))"
proof
  have "v \<in> set (new_masker values)" using assms by (auto simp: set_new_masker mask_patterns_def)
  with assms show "\<not> contains_str (mask_text (new_masker values) line) v" by (rule_tac mask_text_hides)
next
  have "\<not> contains_str (mask_text (new_masker values) line) (trim part)"
    if "CHR 0x0A \<in> set v" "part \<in> set (str_lines v)" "8 \<le> length (trim part)" for part
  proof (rule mask_text_hides)
    show "trim part \<in> set (new_masker values)" using assms that by (auto simp: set_new_masker mask_patterns_def)
    show "trim part \<noteq> []" using that by auto
    have "set part \<subseteq> set v" using that(2) by (rule str_lines_chars)
    then show "CHR ''*'' \<notin> set (trim part)" using assms(3) set_trim_subset[of part] by blast
  qed
  then show "CHR 0x0A \<in> set v \<longrightarrow>
      list_all (\<lambda>part. 8 \<le> length (trim part) \<longrightarrow> \<not> contains_str (mask_text (new_masker values) line) (trim part)) (str_lines v)"
    by (simp add: list_all_iff)
qed

theorem log_hides_secrets_witness:
  "mask_text (new_masker [''tok-1234'']) ''token=tok-1234 ok'' = ''token=*** ok'' \<and>
   \<not> contains_str (mask_text (new_masker [''tok-1234'']) ''token=tok-1234 ok'') ''tok-1234''"
proof
  show "mask_text (new_masker [''tok-1234'']) ''token=tok-1234 ok'' = ''token=*** ok''"
    by (simp add: mask_text_def new_masker_def mask_patterns_def sort_dedup_def mask_one_def replace_all.simps contains_str_def starts_with_def)
  show "\<not> contains_str (mask_text (new_masker [''tok-1234'']) ''token=tok-1234 ok'') ''tok-1234''"
    using log_hides_secrets[of "''tok-1234''" "[''tok-1234'']" "''token=tok-1234 ok''"] by simp
qed

subsection \<open>Secret values stay out of commands\<close>

fun references_at :: "string \<Rightarrow> nat \<Rightarrow> SecretReference list \<Rightarrow> bool" where
  "references_at s cursor [] \<longleftrightarrow> \<not> contains_str (drop cursor s) ''${{''"
| "references_at s cursor (r # rs) \<longleftrightarrow>
     \<not> contains_str (slice s cursor (sref_start r)) ''${{'' \<and> is_valid_pipeline_env_key (sref_name r) \<and> references_at s (sref_end r) rs"

lemma references_from:
  "secret_references_from s cursor found = Inr rs \<Longrightarrow> \<exists>new. rs = found @ new \<and> references_at s cursor new"
proof (induction s cursor found arbitrary: rs rule: secret_references_from.induct)
  case (1 s cursor found)
  show ?case
  proof (cases "find_str ''${{'' (drop cursor s)")
    case None
    with "1.prems" show ?thesis by (subst (asm) secret_references_from.simps) (simp add: contains_str_def)
  next
    case (Some offset)
    let ?body = "cursor + offset + 3"
    from "1.prems" Some obtain close name where close: "find_str ''}}'' (drop ?body s) = Some close"
      and name: "strip_prefix ''secrets.'' (trim (slice s ?body (?body + close))) = Some name" and ok: "is_valid_pipeline_env_key name"
      and rest: "secret_references_from s (?body + close + 2)
        (found @ [\<lparr>sref_start = cursor + offset, sref_end = ?body + close + 2, sref_name = name\<rparr>]) = Inr rs"
      by (subst (asm) secret_references_from.simps) (auto simp: Let_def split: option.splits if_splits)
    from "1.IH"[OF Some refl refl close refl name ok rest] obtain new where
      new: "rs = (found @ [\<lparr>sref_start = cursor + offset, sref_end = ?body + close + 2, sref_name = name\<rparr>]) @ new"
        "references_at s (?body + close + 2) new" by blast
    have "\<not> contains_str (slice s cursor (cursor + offset)) ''${{''"
      using before_first[OF Some] by (simp add: slice_def)
    with new ok show ?thesis by auto
  qed
qed

lemma references_parsed: "parse_secret_references s = Inr rs \<Longrightarrow> references_at s 0 rs"
  using references_from[of s 0 "[]"] by (auto simp: parse_secret_references_def)

lemma valid_key_plain: "is_valid_pipeline_env_key name \<Longrightarrow> CHR ''$'' \<notin> set name"
  by (cases name) (auto simp: is_valid_pipeline_env_key_def list_all_iff is_ascii_alphanumeric_def is_ascii_alphabetic_def
      is_ascii_lowercase_def is_ascii_uppercase_def is_ascii_digit_def dest!: bspec)

text \<open>A shell reference opens no expression, also together with the text around it.\<close>

lemma contains_reference:
  assumes "contains_str (a @ shell_reference name @ b) ''${{''" "is_valid_pipeline_env_key name"
  shows "contains_str a ''${{'' \<or> contains_str b ''${{''"
proof -
  let ?r = "shell_reference name"
  have r: "?r = CHR ''$'' # CHR ''{'' # CHR ''O'' # drop 3 ?r" "CHR ''$'' \<notin> set (drop 3 ?r)"
    using valid_key_plain[OF assms(2)] by (auto simp: shell_reference_def secret_env_var_def)
  from assms(1) obtain x y where xy: "a @ ?r @ b = x @ ''${{'' @ y" by (auto simp: contains_iff)
  show ?thesis
  proof (cases "length x + 3 \<le> length a")
    case True
    have "take (length x + 3) a = take (length x + 3) (a @ ?r @ b)" using True by simp
    also have "\<dots> = x @ ''${{''" by (simp add: xy)
    finally show ?thesis by (metis append_take_drop_id append.assoc contains_append)
  next
    case False
    show ?thesis
    proof (cases "length a + length ?r \<le> length x")
      case True
      have "b = drop (length a + length ?r) (x @ ''${{'' @ y)" using xy[symmetric] by simp
      also have "\<dots> = drop (length a + length ?r) x @ ''${{'' @ y" using True by simp
      finally show ?thesis by (metis contains_append)
    next
      case inside: False
      let ?l = "a @ ?r @ b"
      have l: "?l ! length x = CHR ''$''" "?l ! (length x + 1) = CHR ''{''" "?l ! (length x + 2) = CHR ''{''"
        unfolding xy by (simp_all add: nth_append)
      have s: "?l ! length a = CHR ''$''" "?l ! (length a + 1) = CHR ''{''" "?l ! (length a + 2) = CHR ''O''"
        by (subst r(1), simp add: nth_append)+
      consider "length x = length a" | "length x + 1 = length a" | "length x + 2 = length a" | "length x = length a + 1"
        | "length x = length a + 2" | "length a + 3 \<le> length x" using False by linarith
      then show ?thesis
      proof cases
        case 6
        have "length x - length a < length ?r" using inside 6 by linarith
        then have "?l ! length x = ?r ! (length x - length a)" using 6 by (simp add: nth_append)
        also have "\<dots> = drop 3 ?r ! (length x - length a - 3)" using inside 6 by simp
        also have "\<dots> \<in> set (drop 3 ?r)" using inside 6 by (intro nth_mem) simp
        finally show ?thesis using l(1) r(2) by simp
      qed (use l s in auto)
    qed
  qed
qed

lemma replaced_clean: "references_at s cursor rs \<Longrightarrow> \<not> contains_str (replace_from s shell_reference cursor rs) ''${{''"
  by (induction s cursor rs rule: references_at.induct) (auto dest: contains_reference)

lemma run_clean: "replace_secret_references s shell_reference = Inr run \<Longrightarrow> \<not> contains_str run ''${{''"
  by (auto simp: replace_secret_references_def dest!: references_parsed replaced_clean split: sum.splits)

lemma first_missing_dom: "dom s1 = dom s2 \<Longrightarrow> first_missing s1 path names = first_missing s2 path names"
proof (induction names)
  case (Cons n names)
  have "s1 n = None \<longleftrightarrow> s2 n = None" using Cons.prems by (metis domIff)
  with Cons show ?case by (cases "s1 n"; cases "s2 n") (simp_all add: lookup_secret_def)
qed simp

lemma replaced_error: "replace_secret_references s f = Inl e \<longleftrightarrow> replace_secret_references s g = Inl e"
  by (simp add: replace_secret_references_def split: sum.splits)

lemma apply_env_dom:
  "dom s1 = dom s2 \<Longrightarrow> apply_env s1 i env keys = Inr r \<Longrightarrow> \<exists>r2. apply_env s2 i env keys2 = Inr r2"
proof (induction env arbitrary: i keys keys2 r)
  case (Cons pair env)
  let ?path = "''env'' @ ''['' @ show_nat i @ ''].value''"
  from Cons.prems(2) obtain v1 env1 where v1: "replace_secret_references (ev_value pair) (\<lambda>name. unwrap_or [] (s1 name)) = Inr v1"
    "first_missing s1 ?path (referenced_names (ev_value pair)) = None"
    "apply_env s1 (Suc i) env (if v1 \<noteq> ev_value pair then insert (ev_key pair) keys else keys) = Inr env1"
    by (auto simp: Let_def split: sum.splits option.splits)
  obtain v2 where v2: "replace_secret_references (ev_value pair) (\<lambda>name. unwrap_or [] (s2 name)) = Inr v2"
    using v1(1) replaced_error by (metis sum.exhaust sum.distinct(1))
  from Cons.IH[OF Cons.prems(1) v1(3)] obtain r2 where
    "apply_env s2 (Suc i) env (if v2 \<noteq> ev_value pair then insert (ev_key pair) keys2 else keys2) = Inr r2" by blast
  with v2 v1(2) first_missing_dom[OF Cons.prems(1)] show ?case by (cases r2) (simp add: Let_def)
qed simp

lemma apply_steps_dom: "dom s1 = dom s2 \<Longrightarrow> apply_steps s1 steps = apply_steps s2 steps"
proof (induction steps)
  case (Cons step steps)
  note missing = first_missing_dom[OF Cons.prems]
  show ?case unfolding apply_steps.simps Let_def missing Cons.IH[OF Cons.prems] by (rule refl)
qed simp

lemma apply_steps_clean: "apply_steps s steps = Inr (steps1, names) \<Longrightarrow> list_all (\<lambda>step. \<not> contains_str (ps_run step) ''${{'') steps1"
  by (induction steps arbitrary: steps1 names) (auto simp: Let_def dest: run_clean split: sum.splits option.splits)

text \<open>
  C30. The commands of a build hold no secret value: with other values for the same secrets, the runner executes the same commands and sets the
  same variables for them; and no expression is left in a command for the shell to read.
\<close>

theorem commands_hide_secrets:
  assumes "dom s1 = dom s2" "apply_secret_references plan s1 = Inr p1"
  shows "\<exists>p2. apply_secret_references plan s2 = Inr p2 \<and> rp_steps p2 = rp_steps p1 \<and> map fst (rp_secret_env p2) = map fst (rp_secret_env p1) \<and>
    list_all (\<lambda>step. \<not> contains_str (ps_run step) ''${{'') (rp_steps p2)"
proof -
  from assms(2) obtain env keys steps names where env: "apply_env s1 0 (rp_env plan) (rp_secret_env_keys plan) = Inr (env, keys)"
    and steps: "apply_steps s1 (rp_steps plan) = Inr (steps, names)"
    and p1: "rp_steps p1 = steps" "map fst (rp_secret_env p1) = map secret_env_var (sort_dedup names)"
    by (auto simp: apply_secret_references_def split: sum.splits)
  from apply_env_dom[OF assms(1) env, of "rp_secret_env_keys plan"] obtain env2 keys2 where "apply_env s2 0 (rp_env plan) (rp_secret_env_keys plan) = Inr (env2, keys2)" by auto
  with steps apply_steps_dom[OF assms(1)] apply_steps_clean[OF steps] p1 show ?thesis by (simp add: apply_secret_references_def comp_def)
qed

definition bare_plan :: "(string \<times> string) list \<Rightarrow> string list \<Rightarrow> ResolvedExecutionPlan" where
  "bare_plan env runs = \<lparr>rp_steps = map (\<lambda>run. \<lparr>ps_name = ''build-1'', ps_phase = Build, ps_run = run, ps_source = ''commands.build[0]'',
       ps_platform = None, ps_flavor = None, ps_test_report = None\<rparr>) runs,
     rp_artifact_patterns = [], rp_env = map (\<lambda>(k, v). \<lparr>ev_key = k, ev_value = v\<rparr>) env, rp_secret_env = [], rp_secret_env_keys = {},
     rp_build_number_offset = 0, rp_isolation = Iso_Host, rp_needs_xcode = False, rp_flutter_version = ''stable'', rp_source = ''ui_fallback'',
     rp_publish = no_publish, rp_size_budgets = [], rp_platforms = []\<rparr>"

lemmas secrets_eval = apply_secret_references_def replace_secret_references_def parse_secret_references_def secret_references_from.simps
  referenced_names_def lookup_secret_def shell_reference_def secret_env_var_def is_valid_pipeline_env_key_def trim_def is_ws_def
  starts_with_def strip_prefix_def slice_def Let_def is_ascii_alphabetic_def is_ascii_alphanumeric_def is_ascii_lowercase_def
  is_ascii_uppercase_def is_ascii_digit_def sort_dedup_def

theorem commands_hide_secrets_witness:
  "\<exists>p. apply_secret_references (bare_plan [(''AUTH'', ''Bearer ${{ secrets.A }}'')] [''curl ${{secrets.A}}'']) [''A'' \<mapsto> ''second''] = Inr p \<and>
     map ps_run (rp_steps p) = [''curl ${OORE_SECRET_A}''] \<and> map fst (rp_secret_env p) = [''OORE_SECRET_A'']"
proof -
  let ?plan = "bare_plan [(''AUTH'', ''Bearer ${{ secrets.A }}'')] [''curl ${{secrets.A}}'']"
  have dom: "dom [''A'' \<mapsto> ''first''] = dom [''A'' \<mapsto> ''second'']" by simp
  obtain p1 where run: "apply_secret_references ?plan [''A'' \<mapsto> ''first''] = Inr p1"
    and p1: "map ps_run (rp_steps p1) = [''curl ${OORE_SECRET_A}'']" "map fst (rp_secret_env p1) = [''OORE_SECRET_A'']"
    by (simp add: bare_plan_def secrets_eval)
  from commands_hide_secrets[OF dom run] p1 show ?thesis by auto
qed

subsection \<open>An expression put together from parts\<close>

text \<open>A var that ends in a dollar sign, before text that starts with braces.\<close>

definition spliced_config :: ConfigV2 where
  "spliced_config = sample_config\<lparr>v2_targets := [(Android, sample_target\<lparr>ta_build := Some ''${{ vars.D }}{{ flavor }}''\<rparr>)],
     v2_vars := [(''D'', ''$'')], v2_steps := None\<rparr>"

lemma spliced_lowered:
  "\<exists>plan b. lower spliced_config None None new_budget v = (Inr plan, b) \<and> map ps_run (plan_steps plan) = [''${{ flavor }}'']"
  unfolding spliced_config_def by (cases v) (simp_all add: lower_eval resolver_eval sample_config_def sample_target_def)

lemma spliced_accepted: "parse_v2 spliced_config = Inr spliced_config"
proof -
  have "size_errors spliced_config = []"
    by (simp add: size_errors_def spliced_config_def sample_config_def sample_target_def count_error_def size_targets_def size_steps_def size_triggers_def
        target_sizes_def MAX_WORKFLOWS_def MAX_FLAVORS_def MAX_ENV_ENTRIES_def MAX_VARS_def MAX_COMMAND_BYTES_def)
  moreover have "shape_errors spliced_config = []"
    by (simp add: shape_errors_def spliced_config_def sample_config_def sample_target_def check_flavor_list_def check_target_def check_keys_def
        validate_build_number_offset_def MAX_STORE_VERSION_CODE_def is_valid_identifier_def
        is_valid_pipeline_env_key_def trim_def is_ws_def normalize_runner_labels_def is_ascii_alphabetic_def is_ascii_alphanumeric_def
        is_ascii_lowercase_def is_ascii_uppercase_def is_ascii_digit_def sort_dedup_def MAX_RUNNER_LABELS_def Let_def)
  moreover have "v2_workflows spliced_config = []" "v2_version spliced_config = 2" by (simp_all add: spliced_config_def sample_config_def)
  moreover obtain plan b where "lower spliced_config None None new_budget True = (Inr plan, b)" using spliced_lowered by blast
  moreover have "normalize_runner_labels (v2_runs_on spliced_config) = Inr []" "spliced_config\<lparr>v2_runs_on := []\<rparr> = spliced_config"
    by (simp_all add: spliced_config_def sample_config_def normalize_runner_labels_def sort_dedup_def)
  ultimately show ?thesis by (simp add: parse_v2_def planned_workflows_def validates_vars_def Let_def)
qed


subsection \<open>Previews of commands and environment\<close>

definition to_ascii_uppercase :: "string \<Rightarrow> string" where
  "to_ascii_uppercase = map (\<lambda>c. if is_ascii_lowercase c then char_of ((of_char c :: nat) - 32) else c)"

definition is_sensitive_env_key :: "string \<Rightarrow> bool" where
  "is_sensitive_env_key key \<longleftrightarrow> list_ex (contains_str (to_ascii_uppercase key))
     [''SECRET'', ''TOKEN'', ''PASSWORD'', ''CREDENTIAL'', ''PRIVATE'', ''AUTH'', ''P12'', ''PROVISION'', ''KEYCHAIN'']"

definition preview_env_value :: "string \<Rightarrow> string \<Rightarrow> string" where
  "preview_env_value key v = (if is_sensitive_env_key key then if v = [] then [] else ''***'' else v)"

definition render_step_env_preview :: "(string \<times> string) list \<Rightarrow> string" where
  "render_step_env_preview env =
     (if env = [] then ''# env: (none)''
      else ''# env: '' @ join '' '' (map (\<lambda>(key, v). key @ ''='' @ preview_env_value key v) (take 20 env) @
        (if 20 < length env then [''...(+'' @ show_nat (length env - 20) @ '' more)''] else [])))"

definition name_start :: "char \<Rightarrow> bool" where
  "name_start c \<longleftrightarrow> c = CHR ''_'' \<or> is_ascii_alphabetic c"

definition name_char :: "char \<Rightarrow> bool" where
  "name_char c \<longleftrightarrow> c = CHR ''_'' \<or> is_ascii_alphanumeric c"

text \<open>\<^verbatim>\<open>$($NAME)\<close> at the start of a text: the name and what follows.\<close>

definition legacy_reference :: "string \<Rightarrow> (string \<times> string) option" where
  "legacy_reference s =
     (case strip_prefix ''$($'' s of
        Some (c # cs) \<Rightarrow>
          if name_start c
          then (case dropWhile name_char cs of
                  d # rest \<Rightarrow> if d = CHR '')'' then Some (c # takeWhile name_char cs, rest) else None
                | [] \<Rightarrow> None)
          else None
      | _ \<Rightarrow> None)"

lemma legacy_reference_shorter: "legacy_reference s = Some (name, rest) \<Longrightarrow> length rest < length s"
proof -
  assume "legacy_reference s = Some (name, rest)"
  then obtain c cs where s: "s = ''$($'' @ c # cs" and drop: "dropWhile name_char cs = CHR '')'' # rest"
    by (auto simp: legacy_reference_def strip_prefix_Some split: option.splits list.splits if_splits)
  from arg_cong[OF drop, of length] length_dropWhile_le[of name_char cs] s show ?thesis by simp
qed

function normalize_legacy_env_syntax :: "string \<Rightarrow> string" where
  "normalize_legacy_env_syntax [] = []"
| "normalize_legacy_env_syntax (c # cs) =
     (case legacy_reference (c # cs) of
        Some (name, rest) \<Rightarrow> CHR ''$'' # name @ normalize_legacy_env_syntax rest
      | None \<Rightarrow> c # normalize_legacy_env_syntax cs)"
  by pat_completeness auto
termination
  by (relation "measure length") (auto dest: legacy_reference_shorter)

definition lookup_env_value :: "(string \<times> string) list \<Rightarrow> string \<Rightarrow> string option" where
  "lookup_env_value env key = map_option snd (find (\<lambda>(k, _). k = key) env)"

text \<open>A variable at the start of a text: its name, its spelling and what follows.\<close>

definition variable_at :: "string \<Rightarrow> (string \<times> string \<times> string) option" where
  "variable_at s =
     (case s of
        d # c # cs \<Rightarrow>
          if d \<noteq> CHR ''$'' then None
          else if c = CHR ''{''
          then (let key = takeWhile (\<lambda>x. x \<noteq> CHR ''}'') cs
                in case dropWhile (\<lambda>x. x \<noteq> CHR ''}'') cs of
                     _ # rest \<Rightarrow> if key \<noteq> [] then Some (key, ''${'' @ key @ ''}'', rest) else None
                   | [] \<Rightarrow> None)
          else if name_start c
          then Some (c # takeWhile name_char cs, CHR ''$'' # c # takeWhile name_char cs, dropWhile name_char cs)
          else None
      | _ \<Rightarrow> None)"

lemma variable_at_shorter: "variable_at s = Some (key, spelled, rest) \<Longrightarrow> length rest < length s"
proof -
  assume v: "variable_at s = Some (key, spelled, rest)"
  then obtain c cs P where s: "s = CHR ''$'' # c # cs" and rest: "length rest \<le> length (dropWhile P cs)"
    by (auto simp: variable_at_def Let_def split: list.splits if_splits)
       (metis impossible_Cons nle_le)
  with length_dropWhile_le[of P cs] show ?thesis by simp
qed

function preview_from :: "(string \<times> string) list \<Rightarrow> string \<Rightarrow> string" where
  "preview_from env [] = []"
| "preview_from env (c # cs) =
     (case variable_at (c # cs) of
        Some (key, spelled, rest) \<Rightarrow>
          (case lookup_env_value env key of Some v \<Rightarrow> preview_env_value key v | None \<Rightarrow> spelled) @ preview_from env rest
      | None \<Rightarrow> c # preview_from env cs)"
  by pat_completeness auto
termination
  by (relation "measure (\<lambda>(env, s). length s)") (auto dest: variable_at_shorter)

definition render_command_preview :: "string \<Rightarrow> (string \<times> string) list \<Rightarrow> string" where
  "render_command_preview command env = preview_from env (normalize_legacy_env_syntax command)"

definition same_preview :: "string \<times> string \<Rightarrow> string \<times> string \<Rightarrow> bool" where
  "same_preview = (\<lambda>(k, v) (k', v'). k = k' \<and> (if is_sensitive_env_key k then (v = []) = (v' = []) else v = v'))"

lemma same_preview_value: "same_preview (k, v) (k', v') \<Longrightarrow> k' = k \<and> preview_env_value k v' = preview_env_value k v"
  by (auto simp: same_preview_def preview_env_value_def split: if_splits)

lemma same_preview_lookup:
  "list_all2 same_preview env env2 \<Longrightarrow>
     map_option (preview_env_value key) (lookup_env_value env key) = map_option (preview_env_value key) (lookup_env_value env2 key)"
proof (induction rule: list_all2_induct)
  case (Cons x xs y ys)
  obtain k v k' v' where xy: "x = (k, v)" "y = (k', v')" by (cases x; cases y)
  from same_preview_value[of k v k' v'] Cons show ?case by (auto simp: xy lookup_env_value_def)
qed (simp add: lookup_env_value_def)

lemma same_preview_from: "list_all2 same_preview env env2 \<Longrightarrow> preview_from env s = preview_from env2 s"
proof (induction env s rule: preview_from.induct)
  case (2 env c cs)
  show ?case
  proof (cases "variable_at (c # cs)")
    case None
    with 2 show ?thesis by simp
  next
    case (Some v)
    obtain key spelled rest where v: "v = (key, spelled, rest)" by (cases v) auto
    with 2 Some have "preview_from env rest = preview_from env2 rest" by blast
    with same_preview_lookup[OF 2(3), of key] Some v show ?thesis
      by (cases "lookup_env_value env key"; cases "lookup_env_value env2 key") auto
  qed
qed simp

text \<open>
  The log shows nothing of a sensitive variable's value but whether it is empty: the preview of the environment and
  of a command are the same for all values of the variables whose key names a secret, token, password, credential or signing input.
\<close>

theorem previews_hide_sensitive:
  assumes "list_all2 same_preview env env2"
  shows "render_command_preview command env = render_command_preview command env2 \<and> render_step_env_preview env = render_step_env_preview env2"
proof
  show "render_command_preview command env = render_command_preview command env2"
    unfolding render_command_preview_def by (rule same_preview_from[OF assms])
  have parts: "map (\<lambda>(key, v). key @ ''='' @ preview_env_value key v) env = map (\<lambda>(key, v). key @ ''='' @ preview_env_value key v) env2"
    using assms by (induction rule: list_all2_induct) (auto dest: same_preview_value)
  then have shown: "map (\<lambda>(key, v). key @ ''='' @ preview_env_value key v) (take 20 env) = map (\<lambda>(key, v). key @ ''='' @ preview_env_value key v) (take 20 env2)"
    by (metis take_map)
  have len: "length env = length env2" using assms by (rule list_all2_lengthD)
  then have "env = [] \<longleftrightarrow> env2 = []" by auto
  with shown len show "render_step_env_preview env = render_step_env_preview env2" by (simp only: render_step_env_preview_def)
qed

theorem previews_hide_sensitive_witness:
  "render_command_preview ''curl -H $API_TOKEN ${HOST}'' [(''API_TOKEN'', ''abc''), (''HOST'', ''x'')] = ''curl -H *** x'' \<and>
   render_command_preview ''curl -H $API_TOKEN ${HOST}'' [(''API_TOKEN'', ''other''), (''HOST'', ''x'')] = ''curl -H *** x''"
proof -
  have "list_all2 same_preview [(''API_TOKEN'', ''abc''), (''HOST'', ''x'')] [(''API_TOKEN'', ''other''), (''HOST'', ''x'')]"
    by (simp add: same_preview_def is_sensitive_env_key_def contains_str_def to_ascii_uppercase_def starts_with_def is_ascii_lowercase_def)
  from previews_hide_sensitive[OF this, of "''curl -H $API_TOKEN ${HOST}''"]
  have "render_command_preview ''curl -H $API_TOKEN ${HOST}'' [(''API_TOKEN'', ''abc''), (''HOST'', ''x'')] =
      render_command_preview ''curl -H $API_TOKEN ${HOST}'' [(''API_TOKEN'', ''other''), (''HOST'', ''x'')]" by simp
  moreover have "render_command_preview ''curl -H $API_TOKEN ${HOST}'' [(''API_TOKEN'', ''abc''), (''HOST'', ''x'')] = ''curl -H *** x''"
    by (simp add: render_command_preview_def legacy_reference_def strip_prefix_def starts_with_def variable_at_def name_start_def name_char_def
        lookup_env_value_def preview_env_value_def is_sensitive_env_key_def contains_str_def to_ascii_uppercase_def is_ascii_lowercase_def
        is_ascii_uppercase_def is_ascii_alphabetic_def is_ascii_alphanumeric_def is_ascii_digit_def Let_def)
  ultimately show ?thesis by simp
qed

end
