(* ===== verification/Pipeline_Steps.thy ===== *)
theory Pipeline_Steps
  imports Pipeline_Plans
begin

text \<open>
  The steps of a plan: the order of phases, one build step for each target and flavor, and names that tell the
  steps apart.
\<close>

subsection \<open>Errors stay\<close>

text \<open>An error that was noted is never dropped, so a lowering that ends without errors never noted one.\<close>

definition errors_stay :: "(lower_state \<Rightarrow> ('e + 'b) \<times> lower_state) \<Rightarrow> bool" where
  "errors_stay f \<longleftrightarrow> (\<forall>st y st'. f st = (Inr y, st') \<longrightarrow> lo_errors st' = [] \<longrightarrow> lo_errors st = [])"

lemma errors_stayD: "errors_stay f \<Longrightarrow> f st = (Inr y, st') \<Longrightarrow> lo_errors st' = [] \<Longrightarrow> lo_errors st = []"
  by (simp add: errors_stay_def)

lemma noted [simp]: "lo_errors (note_error e st) \<noteq> []"
  by (auto simp: note_error_def push_unique_def MAX_ERRORS_def)

lemma report_noted: "report_error e st = (Inr ys, st') \<Longrightarrow> lo_errors st' \<noteq> []"
  by (auto simp: report_error_def split: if_splits)

lemma resolve_in_errors [simp]: "resolve_in vars scope path value st = (r, st') \<Longrightarrow> lo_errors st' = lo_errors st"
  by (auto simp: resolve_in_def split: prod.splits)

lemma errors_stay_each_out: "(\<And>x. errors_stay (f x)) \<Longrightarrow> errors_stay (each_out f xs)"
proof (induction xs)
  case (Cons x xs)
  show ?case unfolding errors_stay_def
  proof (intro allI impI)
    fix st y st' assume run: "each_out f (x # xs) st = (Inr y, st')" and none: "lo_errors st' = []"
    then obtain ys st1 zs where "f x st = (Inr ys, st1)" "each_out f xs st1 = (Inr zs, st')" by (auto split: prod.splits sum.splits)
    with none Cons.IH Cons.prems show "lo_errors st = []" by (blast dest: errors_stayD)
  qed
qed (simp add: errors_stay_def)

lemma lower_env_stay: "errors_stay (lower_env vars x)"
  by (auto simp: errors_stay_def lower_env_def dest: report_noted split: prod.splits sum.splits)

lemma lower_pattern_stay: "errors_stay (lower_pattern vars x)"
  by (auto simp: errors_stay_def lower_pattern_def Let_def dest: report_noted split: prod.splits sum.splits option.splits if_splits)

lemma inline_step_stay:
  "inline_step vars names path x ss = (Inr y, ss') \<Longrightarrow> lo_errors (ss_lower ss') = [] \<Longrightarrow> lo_errors (ss_lower ss) = []"
  by (auto simp: inline_step_def Let_def dest: report_noted split: prod.splits sum.splits if_splits)

lemma lower_entry_stay:
  assumes "lower_entry vars shared names path (i, entry) ss = (Inr y, ss')" "lo_errors (ss_lower ss') = []"
  shows "lo_errors (ss_lower ss) = []"
  using assms by (cases entry) (auto simp: lower_entry_def dest: inline_step_stay split: option.splits)

lemma lower_entries_stay:
  "each_out (lower_entry vars shared names path) es ss = (Inr y, ss') \<Longrightarrow> lo_errors (ss_lower ss') = [] \<Longrightarrow> lo_errors (ss_lower ss) = []"
proof (induction es arbitrary: ss y)
  case (Cons e es)
  then show ?case by (cases e) (auto dest: lower_entry_stay split: prod.splits sum.splits)
qed simp

lemma lower_steps_stay: "errors_stay (lower_steps vars shared entries path built)"
  by (auto simp: errors_stay_def lower_steps_def Let_def dest!: lower_entries_stay split: prod.splits sum.splits)

subsection \<open>One build step for each target and flavor\<close>

definition build_grid :: "BuildPlatform list \<Rightarrow> string list \<Rightarrow> (BuildPlatform option \<times> string option) list" where
  "build_grid platforms flavors =
     concat (map (\<lambda>p. map (Pair (Some p)) (if flavors = [] then [None] else map Some flavors)) platforms)"

lemma scopes_flavors: "map fst (flavor_scopes flavors) = (if flavors = [] then [None] else map Some flavors)"
proof -
  have "map (\<lambda>x. Some (snd x)) (enumerate 0 flavors) = map Some (map snd (enumerate 0 flavors))" by (simp only: map_map comp_def)
  then show ?thesis by (simp add: flavor_scopes_def case_prod_unfold comp_def)
qed

lemma build_step_one:
  assumes "build_step vars (t, f, scope) st = (Inr ys, st')" "lo_errors st' = []"
  shows "\<exists>s. ys = [s] \<and> ps_phase s = Build \<and> ps_platform s = Some (et_platform t) \<and> ps_flavor s = f \<and> lo_errors st = []"
  using assms by (auto simp: build_step_def Let_def dest: report_noted split: prod.splits sum.splits)

lemma build_steps_each:
  "each_out (build_step vars) xs st = (Inr ys, st') \<Longrightarrow> lo_errors st' = [] \<Longrightarrow>
     map (\<lambda>s. (ps_platform s, ps_flavor s)) ys = map (\<lambda>(t, f, _). (Some (et_platform t), f)) xs \<and>
     list_all (\<lambda>s. ps_phase s = Build) ys \<and> lo_errors st = []"
proof (induction xs arbitrary: st ys)
  case (Cons x xs)
  obtain t f scope where x: "x = (t, f, scope)" by (cases x) auto
  from Cons.prems x obtain y1 st1 y2 where 1: "build_step vars (t, f, scope) st = (Inr y1, st1)"
    and 2: "each_out (build_step vars) xs st1 = (Inr y2, st')" and ys: "ys = y1 @ y2"
    by (auto split: prod.splits sum.splits)
  from Cons.IH[OF 2] Cons.prems have "lo_errors st1 = []" by simp
  from build_step_one[OF 1 this] Cons.IH[OF 2] Cons.prems show ?case by (auto simp: ys x)
qed simp

lemma grid_of: "map (\<lambda>(t, f, _). (Some (et_platform t), f)) (concat (map (\<lambda>t. map (\<lambda>fs. (t, fs)) (flavor_scopes flavors)) targets)) =
  build_grid (map et_platform targets) flavors"
proof (induction targets)
  case (Cons t targets)
  have "map (\<lambda>(t, f, _). (Some (et_platform t), f)) (map (\<lambda>fs. (t, fs)) (flavor_scopes flavors)) =
      map (Pair (Some (et_platform t))) (map fst (flavor_scopes flavors))"
    by (simp add: case_prod_unfold)
  with Cons show ?case by (simp add: build_grid_def scopes_flavors)
qed (simp add: build_grid_def)

subsection \<open>The other steps\<close>

definition own_steps :: "StepPhase \<Rightarrow> string set \<Rightarrow> PlanStep list \<Rightarrow> bool" where
  "own_steps phase taken steps \<longleftrightarrow>
     list_all (\<lambda>s. ps_phase s = phase \<and> ps_platform s = None) steps \<and> distinct (map ps_name steps) \<and> taken \<inter> ps_name ` set steps = {}"

lemma inline_step_own:
  assumes "inline_step vars names path x ss = (Inr y, ss')"
  shows "own_steps (if ss_placed ss then PostBuild else PreBuild) (ss_names ss) y \<and> ss_placed ss' = ss_placed ss \<and> ss_pending ss' = ss_pending ss \<and>
    ss_names ss \<union> ps_name ` set y \<subseteq> ss_names ss'"
  using assms
  by (auto simp: inline_step_def own_steps_def report_error_def Let_def split: prod.splits sum.splits if_splits)

lemma own_steps_append:
  "own_steps phase taken xs \<Longrightarrow> own_steps phase taken2 ys \<Longrightarrow> taken \<union> ps_name ` set xs \<subseteq> taken2 \<Longrightarrow> own_steps phase taken (xs @ ys)"
  unfolding own_steps_def by (auto 0 3 simp: disjoint_iff)

lemma lower_entry_own:
  assumes "lower_entry vars shared names path (i, entry) ss = (Inr y, ss')" "entry \<noteq> Step_Build"
  shows "own_steps (if ss_placed ss then PostBuild else PreBuild) (ss_names ss) y \<and> ss_placed ss' = ss_placed ss \<and> ss_pending ss' = ss_pending ss \<and>
    ss_names ss \<union> ps_name ` set y \<subseteq> ss_names ss'"
proof (cases entry)
  case (Step_Ref name)
  with assms show ?thesis
    by (cases "find_shared shared name") (auto simp: lower_entry_def own_steps_def dest: inline_step_own[unfolded own_steps_def])
qed (use assms inline_step_own in \<open>auto simp: lower_entry_def\<close>)

lemma entries_after:
  "each_out (lower_entry vars shared names path) es ss = (Inr y, ss') \<Longrightarrow> ss_placed ss \<Longrightarrow> ss_pending ss = [] \<Longrightarrow>
     own_steps PostBuild (ss_names ss) y \<and> ss_placed ss'"
proof (induction es arbitrary: ss y)
  case Nil
  then show ?case by (simp add: own_steps_def)
next
  case (Cons e es)
  obtain i entry where e: "e = (i, entry)" by fastforce
  from Cons.prems obtain y1 ss1 y2 where 1: "lower_entry vars shared names path (i, entry) ss = (Inr y1, ss1)"
    and 2: "each_out (lower_entry vars shared names path) es ss1 = (Inr y2, ss')" and y: "y = y1 @ y2"
    by (auto simp: e split: prod.splits sum.splits)
  show ?case
  proof (cases "entry = Step_Build")
    case True
    with 1 Cons.prems have "y1 = []" "ss1 = ss" by (auto simp: lower_entry_def)
    with Cons.IH[OF 2] Cons.prems y show ?thesis by simp
  next
    case False
    from lower_entry_own[OF 1 False] Cons.prems have o: "own_steps PostBuild (ss_names ss) y1" "ss_placed ss1" "ss_pending ss1 = []"
      "ss_names ss \<union> ps_name ` set y1 \<subseteq> ss_names ss1" by simp_all
    with Cons.IH[OF 2] own_steps_append[OF o(1), of "ss_names ss1" y2] show ?thesis by (simp add: y)
  qed
qed

text \<open>Steps before the build entry, the build steps, steps after it.\<close>

definition in_phases :: "string set \<Rightarrow> PlanStep list \<Rightarrow> PlanStep list \<Rightarrow> bool" where
  "in_phases taken built steps \<longleftrightarrow> (\<exists>pre post. steps = pre @ built @ post \<and> own_steps PreBuild taken pre \<and>
     own_steps PostBuild (taken \<union> ps_name ` set pre) post)"

lemma entries_in_phases:
  "each_out (lower_entry vars shared names path) es ss = (Inr y, ss') \<Longrightarrow> \<not> ss_placed ss \<Longrightarrow>
     in_phases (ss_names ss) (ss_pending ss) (y @ (if ss_placed ss' then [] else ss_pending ss'))"
proof (induction es arbitrary: ss y)
  case Nil
  then show ?case by (auto simp: in_phases_def own_steps_def intro!: exI[of _ "[]"])
next
  case (Cons e es)
  obtain i entry where e: "e = (i, entry)" by fastforce
  from Cons.prems obtain y1 ss1 y2 where 1: "lower_entry vars shared names path (i, entry) ss = (Inr y1, ss1)"
    and 2: "each_out (lower_entry vars shared names path) es ss1 = (Inr y2, ss')" and y: "y = y1 @ y2"
    by (auto simp: e split: prod.splits sum.splits)
  show ?case
  proof (cases "entry = Step_Build")
    case True
    with 1 have "y1 = ss_pending ss" and s: "ss_placed ss1" "ss_pending ss1 = []" "ss_names ss1 = ss_names ss" by (auto simp: lower_entry_def)
    with entries_after[OF 2 s(1,2)] y show ?thesis
      unfolding in_phases_def by (intro exI[of _ "[]"] exI[of _ y2]) (simp add: own_steps_def)
  next
    case False
    from lower_entry_own[OF 1 False] Cons.prems have o: "own_steps PreBuild (ss_names ss) y1" "\<not> ss_placed ss1" "ss_pending ss1 = ss_pending ss"
      "ss_names ss \<union> ps_name ` set y1 \<subseteq> ss_names ss1" by simp_all
    from Cons.IH[OF 2 o(2)] obtain pre post where p: "y2 @ (if ss_placed ss' then [] else ss_pending ss') = pre @ ss_pending ss @ post"
      "own_steps PreBuild (ss_names ss1) pre" "own_steps PostBuild (ss_names ss1 \<union> ps_name ` set pre) post" by (auto simp: in_phases_def o(3))
    have "own_steps PostBuild (ss_names ss \<union> ps_name ` set (y1 @ pre)) post" using p(3) o(4) by (auto simp: own_steps_def)
    with own_steps_append[OF o(1) p(2) o(4)] p(1) y show ?thesis
      unfolding in_phases_def by (intro exI[of _ "y1 @ pre"] exI[of _ post]) simp
  qed
qed

lemma lower_steps_in_phases:
  "lower_steps vars shared entries path built st = (Inr steps, st') \<Longrightarrow> in_phases (ps_name ` set built) built steps"
  by (auto simp: lower_steps_def Let_def dest!: entries_in_phases split: prod.splits sum.splits)

subsection \<open>The steps of a plan\<close>

lemma lower_parts_steps:
  assumes "lower_parts config selected vars flavors targets st = (Inr (pub, steps, env, patterns), st')" "lo_errors st' = []"
  shows "\<exists>built. map (\<lambda>s. (ps_platform s, ps_flavor s)) built = build_grid (map et_platform targets) flavors \<and>
    list_all (\<lambda>s. ps_phase s = Build) built \<and> in_phases (ps_name ` set built) built steps"
proof -
  from assms(1) obtain st1 built st2 shared entries path st3 es st4 ps where
    built: "each_out (build_step vars) (concat (map (\<lambda>t. map (\<lambda>fs. (t, fs)) (flavor_scopes flavors)) targets)) st1 = (Inr built, st2)"
    and steps: "lower_steps vars shared entries path built st2 = (Inr steps, st3)"
    and env: "each_out (lower_env vars) es st3 = (Inr env, st4)"
    and patterns: "each_out (lower_pattern vars) (concat (map (target_patterns (flavor_scopes flavors)) targets)) st4 = (Inr ps, st')"
    unfolding lower_parts_def Let_def by (auto split: prod.splits sum.splits)
  from errors_stayD[OF errors_stay_each_out[OF lower_pattern_stay] patterns assms(2)] have "lo_errors st4 = []" .
  from errors_stayD[OF errors_stay_each_out[OF lower_env_stay] env this] have "lo_errors st3 = []" .
  from errors_stayD[OF lower_steps_stay steps this] have "lo_errors st2 = []" .
  from build_steps_each[OF built this] lower_steps_in_phases[OF steps] show ?thesis by (auto simp: grid_of)
qed

lemma lowered_in_phases:
  assumes "select_workflow config name = Inr selected" "lower config name platforms budget v = (Inr plan, b)"
  shows "\<exists>pre built post. plan_steps plan = pre @ built @ post \<and>
    list_all (\<lambda>s. ps_phase s = PreBuild) pre \<and> list_all (\<lambda>s. ps_phase s = Build) built \<and> list_all (\<lambda>s. ps_phase s = PostBuild) post \<and>
    map (\<lambda>s. (ps_platform s, ps_flavor s)) built = build_grid (plan_platforms plan) (effective_flavors config (map_option snd selected)) \<and>
    distinct (map ps_name (pre @ post)) \<and> ps_name ` set built \<inter> ps_name ` set (pre @ post) = {}"
proof -
  from assms obtain vars targets st st' env patterns pub where
    parts: "lower_parts config selected vars (effective_flavors config (map_option snd selected)) targets st = (Inr (pub, plan_steps plan, env, patterns), st')"
    and "lo_errors st' = []" and platforms: "plan_platforms plan = map et_platform targets"
    by (auto simp: lower_def Let_def split: if_splits prod.splits sum.splits)
  from lower_parts_steps[OF this(1,2)] obtain built pre post where
    "map (\<lambda>s. (ps_platform s, ps_flavor s)) built = build_grid (plan_platforms plan) (effective_flavors config (map_option snd selected))"
    "list_all (\<lambda>s. ps_phase s = Build) built" "plan_steps plan = pre @ built @ post" "own_steps PreBuild (ps_name ` set built) pre"
    "own_steps PostBuild (ps_name ` set built \<union> ps_name ` set pre) post" by (auto simp: in_phases_def platforms)
  then show ?thesis by (intro exI[of _ pre] exI[of _ built] exI[of _ post]) (auto simp: own_steps_def list_all_iff)
qed

text \<open>
  The steps of a plan run in phases: the steps before the build entry, then one build step for each planned target
  and flavor in the order of the file, then the steps after it; every step outside the builds has a name of its own.
\<close>

theorem plan_runs_in_phases:
  assumes "select_workflow config name = Inr selected" "lower config name platforms budget v = (Inr plan, b)"
  shows "\<exists>pre built post. plan_steps plan = pre @ built @ post \<and>
    list_all (\<lambda>s. ps_phase s = PreBuild) pre \<and> list_all (\<lambda>s. ps_phase s = Build) built \<and> list_all (\<lambda>s. ps_phase s = PostBuild) post \<and>
    map (\<lambda>s. (ps_platform s, ps_flavor s)) built = build_grid (plan_platforms plan) (effective_flavors config (map_option snd selected)) \<and>
    distinct (map ps_name (pre @ post)) \<and> ps_name ` set built \<inter> ps_name ` set (pre @ post) = {}"
  by (rule lowered_in_phases[OF assms])

theorem plan_runs_in_phases_witness:
  "\<exists>plan pre built post. fst (lower sample_config None None new_budget True) = Inr plan \<and> plan_steps plan = pre @ built @ post \<and>
     list_all (\<lambda>s. ps_phase s = PreBuild) pre \<and> list_all (\<lambda>s. ps_phase s = PostBuild) post \<and>
     map (\<lambda>s. (ps_platform s, ps_flavor s)) built = [(Some Android, Some ''dev'')]"
proof -
  from sample_lowered obtain plan b where run: "lower sample_config None None new_budget True = (Inr plan, b)"
    by (cases "lower sample_config None None new_budget True"; cases "fst (lower sample_config None None new_budget True)") auto
  have sel: "select_workflow sample_config None = Inr None" by (simp add: select_workflow_def sample_config_def)
  have flavors: "effective_flavors sample_config (map_option snd None) = [''dev'']" by (simp add: effective_flavors_def sample_config_def)
  have "plan_platforms plan = [Android]"
    using arg_cong[OF run, of fst] by (auto simp: lower_eval resolver_eval sample_config_def sample_target_def)
  then have grid: "build_grid (plan_platforms plan) (effective_flavors sample_config (map_option snd None)) = [(Some Android, Some ''dev'')]"
    by (simp add: build_grid_def flavors del: option.map)
  show ?thesis using plan_runs_in_phases[OF sel run] unfolding grid using run by (metis fst_conv)
qed

end
