(* ===== verification/Repository_Plans.thy ===== *)
theory Repository_Plans
  imports Runner_Secrets Pipeline_Steps
begin

text \<open>
  Version 1 files and the settings form of \<^verbatim>\<open>crates/oore-contract/src\<close> (\<^verbatim>\<open>lib.rs\<close>, \<^verbatim>\<open>pipeline_config.rs\<close>):
  the execution configuration, its checks, its plan, and \<open>RepositoryConfig\<close>, which is a file of either version.

  The YAML reader is other code: a file is given as what it decodes to, the version it declares and the
  document of each version, with the reader's error where it has none.
\<close>

subsection \<open>Execution configuration\<close>

record PipelineCommandStages =
  cs_pre_build :: "string list"
  cs_build :: "string list"
  cs_post_build :: "string list"

record PlatformBuildArgs =
  pa_android :: "string list"
  pa_ios :: "string list"
  pa_macos :: "string list"

record PlatformBuildCommands =
  pk_android :: "string option"
  pk_ios :: "string option"
  pk_macos :: "string option"

record PipelineExecutionConfig =
  ec_platforms :: "BuildPlatform list"
  ec_flutter_version :: "string option"
  ec_commands :: PipelineCommandStages
  ec_platform_build_args :: PlatformBuildArgs
  ec_platform_commands :: PlatformBuildCommands
  ec_env :: "PipelineEnvVar list"
  ec_artifact_patterns :: "string list"
  ec_build_number_offset :: int
  ec_runs_on :: "string list"
  ec_isolation :: BuildIsolation

definition no_commands :: PipelineCommandStages where
  "no_commands = \<lparr>cs_pre_build = [], cs_build = [], cs_post_build = []\<rparr>"

definition no_build_args :: PlatformBuildArgs where
  "no_build_args = \<lparr>pa_android = [], pa_ios = [], pa_macos = []\<rparr>"

definition no_platform_commands :: PlatformBuildCommands where
  "no_platform_commands = \<lparr>pk_android = None, pk_ios = None, pk_macos = None\<rparr>"

definition default_artifact_patterns :: "string list" where
  "default_artifact_patterns = [''build/app/outputs/flutter-apk/*.apk'']"

definition default_execution_config :: PipelineExecutionConfig where
  "default_execution_config = \<lparr>ec_platforms = [Android], ec_flutter_version = None, ec_commands = no_commands,
     ec_platform_build_args = no_build_args, ec_platform_commands = no_platform_commands, ec_env = [],
     ec_artifact_patterns = default_artifact_patterns, ec_build_number_offset = 0, ec_runs_on = [], ec_isolation = Iso_Host\<rparr>"

primrec platform_args :: "PlatformBuildArgs \<Rightarrow> BuildPlatform \<Rightarrow> string list" where
  "platform_args args Android = pa_android args"
| "platform_args args Ios = pa_ios args"
| "platform_args args Macos = pa_macos args"

primrec platform_command :: "PlatformBuildCommands \<Rightarrow> BuildPlatform \<Rightarrow> string option" where
  "platform_command commands Android = pk_android commands"
| "platform_command commands Ios = pk_ios commands"
| "platform_command commands Macos = pk_macos commands"

definition all_platforms :: "BuildPlatform list" where
  "all_platforms = [Android, Ios, Macos]"

subsection \<open>Checks of a version 1 file\<close>

definition reference_errors :: "string \<Rightarrow> string list \<Rightarrow> string list" where
  "reference_errors path entries = concat (map (\<lambda>(i, entry).
     case parse_secret_references entry of Inl e \<Rightarrow> [indexed path i @ '' '' @ e] | Inr _ \<Rightarrow> []) (enumerate 0 entries))"

definition secret_expression_errors :: "PipelineExecutionConfig \<Rightarrow> string list" where
  "secret_expression_errors config =
     reference_errors ''commands.pre_build'' (cs_pre_build (ec_commands config)) @
     reference_errors ''commands.build'' (cs_build (ec_commands config)) @
     reference_errors ''commands.post_build'' (cs_post_build (ec_commands config)) @
     concat (map (\<lambda>p. reference_errors (''platform_build_args.'' @ platform_key p) (platform_args (ec_platform_build_args config) p)) all_platforms) @
     concat (map (\<lambda>p. case platform_command (ec_platform_commands config) p of
         Some command \<Rightarrow> (case parse_secret_references command of
             Inl e \<Rightarrow> [''platform_commands.'' @ platform_key p @ '' '' @ e] | Inr _ \<Rightarrow> [])
       | None \<Rightarrow> []) all_platforms) @
     concat (map (\<lambda>(i, entry). case parse_secret_references (ev_value entry) of
         Inl e \<Rightarrow> [''env['' @ show_nat i @ ''].value '' @ e] | Inr _ \<Rightarrow> []) (enumerate 0 (ec_env config)))"

fun env_key_errors :: "string set \<Rightarrow> nat \<Rightarrow> PipelineEnvVar list \<Rightarrow> string list" where
  "env_key_errors seen i [] = []"
| "env_key_errors seen i (entry # env) =
     (let key = trim (ev_key entry)
      in if \<not> is_valid_pipeline_env_key key
         then (''env['' @ show_nat i @ ''].key must match [A-Za-z_][A-Za-z0-9_]*'') # env_key_errors seen (Suc i) env
         else if key \<in> seen then (''env contains duplicate key '' @ squoted key) # env_key_errors seen (Suc i) env
         else env_key_errors (insert key seen) (Suc i) env)"

definition command_errors :: "string \<Rightarrow> string list \<Rightarrow> string list" where
  "command_errors stage commands = concat (map (\<lambda>(i, command).
     if trim command = [] then [indexed (''commands.'' @ stage) i @ '' must not be empty''] else []) (enumerate 0 commands))"

definition validate_repository_execution_config :: "PipelineExecutionConfig \<Rightarrow> string list" where
  "validate_repository_execution_config config =
     (if ec_platforms config = [] then [''platforms must include at least one target''] else []) @
     command_errors ''pre_build'' (cs_pre_build (ec_commands config)) @
     command_errors ''build'' (cs_build (ec_commands config)) @
     command_errors ''post_build'' (cs_post_build (ec_commands config)) @
     concat (map (\<lambda>(i, pattern). case validate_artifact_pattern pattern of
         Some e \<Rightarrow> [indexed ''artifacts.patterns'' i @ '' '' @ e] | None \<Rightarrow> []) (enumerate 0 (ec_artifact_patterns config))) @
     (case validate_build_number_offset (ec_build_number_offset config) of Some e \<Rightarrow> [''build_number_offset '' @ e] | None \<Rightarrow> []) @
     (case normalize_runner_labels (ec_runs_on config) of Inl e \<Rightarrow> [''runs_on '' @ e] | Inr _ \<Rightarrow> []) @
     env_key_errors {} 0 (ec_env config) @
     secret_expression_errors config"

record RepositoryPipelineConfig =
  rc_version :: nat
  rc_config :: PipelineExecutionConfig
  rc_artifacts :: "string list option"

text \<open>The fields of the file but its version and \<open>artifacts\<close> are those of the execution configuration.\<close>

definition parse_v1 :: "RepositoryPipelineConfig \<Rightarrow> string + PipelineExecutionConfig" where
  "parse_v1 parsed =
     (if rc_version parsed \<noteq> 1 then Inl (''unsupported config version '' @ show_nat (rc_version parsed) @ '', expected 1'')
      else
        let config = (rc_config parsed)\<lparr>ec_artifact_patterns :=
              (case rc_artifacts parsed of Some patterns \<Rightarrow> patterns
               | None \<Rightarrow> default_artifact_patterns_for_platforms (ec_platforms (rc_config parsed)))\<rparr>;
            errors = validate_repository_execution_config config
        in if errors = []
           then (case normalize_runner_labels (ec_runs_on config) of Inl e \<Rightarrow> Inl e | Inr labels \<Rightarrow> Inr (config\<lparr>ec_runs_on := labels\<rparr>))
           else Inl (join newline errors))"

subsection \<open>The plan of an execution configuration\<close>

definition select_v1_platforms :: "PipelineExecutionConfig \<Rightarrow> BuildPlatform list \<Rightarrow> string + PipelineExecutionConfig" where
  "select_v1_platforms config selected =
     (if selected = [] then Inl ''selected_platforms must include at least one target''
      else if \<not> distinct selected \<or> list_ex (\<lambda>p. p \<notin> set (ec_platforms config)) selected
      then Inl ''selected_platforms must be unique and configured by the workflow''
      else if length selected < length (ec_platforms config) \<and> cs_build (ec_commands config) \<noteq> []
      then Inl ''Per-run platform selection requires platform_commands or default platform commands; shared commands.build cannot be filtered safely''
      else Inr (config\<lparr>ec_platforms := selected\<rparr>))"

definition build_default_command_with_args :: "string \<Rightarrow> string list \<Rightarrow> string" where
  "build_default_command_with_args base args = (if args = [] then base else base @ '' '' @ join '' '' args)"

primrec default_build :: "BuildPlatform \<Rightarrow> string" where
  "default_build Android = ''flutter build apk --release''"
| "default_build Ios = ''flutter build ios --release --no-codesign''"
| "default_build Macos = ''flutter build macos --release''"

definition default_platform_command :: "BuildPlatform \<Rightarrow> PlatformBuildCommands \<Rightarrow> PlatformBuildArgs \<Rightarrow> string" where
  "default_platform_command platform overrides args =
     unwrap_or (build_default_command_with_args (default_build platform) (platform_args args platform)) (platform_command overrides platform)"

definition default_play_bundle_command :: "PlatformBuildArgs \<Rightarrow> string" where
  "default_play_bundle_command args =
     build_default_command_with_args ''flutter build appbundle --release'' (filter (\<lambda>arg. arg \<noteq> ''--split-per-abi'') (pa_android args))"

type_synonym lowered = "string \<times> string \<times> BuildPlatform option"

definition user_commands :: "string \<Rightarrow> string list \<Rightarrow> lowered list" where
  "user_commands stage commands = map (\<lambda>(i, run). (run, indexed (''commands.'' @ stage) i, None)) (enumerate 0 commands)"

definition platform_builds :: "PipelineExecutionConfig \<Rightarrow> bool \<Rightarrow> BuildPlatform \<Rightarrow> lowered list" where
  "platform_builds config build_play_bundle platform =
     (let overridden = platform_command (ec_platform_commands config) platform \<noteq> None
      in (default_platform_command platform (ec_platform_commands config) (ec_platform_build_args config),
          if overridden then ''platform_commands.'' @ platform_key platform else ''default'', Some platform) #
         (if build_play_bundle \<and> platform = Android \<and> \<not> overridden
          then [(default_play_bundle_command (ec_platform_build_args config), ''default'', Some Android)] else []))"

primrec phase_as_str :: "StepPhase \<Rightarrow> string" where
  "phase_as_str PreBuild = ''pre_build''"
| "phase_as_str Build = ''build''"
| "phase_as_str PostBuild = ''post_build''"

definition stage_steps :: "StepPhase \<Rightarrow> lowered list \<Rightarrow> PlanStep list" where
  "stage_steps phase commands = map (\<lambda>(i, run, source, platform).
     \<lparr>ps_name = phase_as_str phase @ ''-'' @ show_nat (i + 1), ps_phase = phase, ps_run = run, ps_source = source, ps_platform = platform,
      ps_flavor = None, ps_test_report = None\<rparr>) (enumerate 0 commands)"

definition plan_execution_config :: "PipelineExecutionConfig \<Rightarrow> bool \<Rightarrow> bool \<Rightarrow> PipelinePlan" where
  "plan_execution_config config include_defaults build_play_bundle =
     (let pre_build = (if include_defaults \<and> ec_platforms config \<noteq> [] then [(''flutter pub get'', ''default'', None)] else []) @
            user_commands ''pre_build'' (cs_pre_build (ec_commands config));
          build = (if include_defaults then concat (map (platform_builds config build_play_bundle) (ec_platforms config)) else []) @
            user_commands ''build'' (cs_build (ec_commands config));
          post_build = user_commands ''post_build'' (cs_post_build (ec_commands config))
      in \<lparr>plan_workflow = None, plan_platforms = ec_platforms config, plan_flutter_version = ec_flutter_version config,
          plan_steps = stage_steps PreBuild pre_build @ stage_steps Build build @ stage_steps PostBuild post_build,
          plan_env = ec_env config, plan_artifact_patterns = ec_artifact_patterns config,
          plan_build_number_offset = ec_build_number_offset config, plan_runs_on = ec_runs_on config, plan_isolation = ec_isolation config,
          plan_publish = no_publish, plan_signing = no_signing, plan_size_budgets = []\<rparr>)"

text \<open>The plan in the version 1 shape.\<close>

definition plan_commands :: "PipelinePlan \<Rightarrow> StepPhase \<Rightarrow> string list" where
  "plan_commands plan phase = map ps_run (filter (\<lambda>s. ps_phase s = phase) (plan_steps plan))"

definition joined_command :: "PipelinePlan \<Rightarrow> BuildPlatform \<Rightarrow> string option" where
  "joined_command plan platform =
     (let runs = map ps_run (filter (\<lambda>s. ps_phase s = Build \<and> ps_platform s = Some platform) (plan_steps plan))
      in if runs = [] then None else Some (join '' && '' runs))"

definition to_execution_config :: "PipelinePlan \<Rightarrow> PipelineExecutionConfig" where
  "to_execution_config plan = \<lparr>ec_platforms = plan_platforms plan, ec_flutter_version = plan_flutter_version plan,
     ec_commands = \<lparr>cs_pre_build = plan_commands plan PreBuild,
       cs_build = map ps_run (filter (\<lambda>s. ps_phase s = Build \<and> ps_platform s = None) (plan_steps plan)),
       cs_post_build = plan_commands plan PostBuild\<rparr>,
     ec_platform_build_args = no_build_args,
     ec_platform_commands = \<lparr>pk_android = joined_command plan Android, pk_ios = joined_command plan Ios, pk_macos = joined_command plan Macos\<rparr>,
     ec_env = plan_env plan, ec_artifact_patterns = plan_artifact_patterns plan, ec_build_number_offset = plan_build_number_offset plan,
     ec_runs_on = plan_runs_on plan, ec_isolation = plan_isolation plan\<rparr>"

subsection \<open>A file of either version\<close>

datatype RepositoryConfig = V1 PipelineExecutionConfig | V2 ConfigV2

text \<open>What the version field holds: nothing a number can be read from, text, a number that is written with a fraction or a sign, a whole number.\<close>

datatype declared_version = Version_None | Version_Text string | Version_Fraction rat | Version_Whole nat

record repository_file =
  fl_version :: declared_version
  fl_v1 :: "string + RepositoryPipelineConfig"
  fl_v2 :: "string + ConfigV2"

definition parse_either :: "repository_file \<Rightarrow> nat option \<Rightarrow> string + RepositoryConfig" where
  "parse_either file version =
     (case version of
        Some n \<Rightarrow>
          if n = 2
          then (case fl_v2 file of Inl e \<Rightarrow> Inl (''YAML parse error: '' @ e)
                | Inr config \<Rightarrow> (case parse_v2 config of Inl e \<Rightarrow> Inl e | Inr c \<Rightarrow> Inr (V2 c)))
          else if n = 1
          then (case fl_v1 file of Inl e \<Rightarrow> Inl (''YAML parse error: '' @ e)
                | Inr parsed \<Rightarrow> (case parse_v1 parsed of Inl e \<Rightarrow> Inl e | Inr c \<Rightarrow> Inr (V1 c)))
          else Inl (''unsupported config version '' @ show_nat n @ '', expected 1 or 2'')
      | None \<Rightarrow>
          (case fl_v1 file of Inl e \<Rightarrow> Inl (''YAML parse error: '' @ e)
           | Inr parsed \<Rightarrow> (case parse_v1 parsed of Inl e \<Rightarrow> Inl e | Inr c \<Rightarrow> Inr (V1 c))))"

definition parse_repository_config :: "repository_file \<Rightarrow> string + RepositoryConfig" where
  "parse_repository_config file =
     (case fl_version file of
        Version_Text text \<Rightarrow>
          if trim text \<in> {''1'', ''2''} then Inl (''version must be a number; write `version: '' @ trim text @ ''` without quotes'')
          else parse_either file None
      | Version_Fraction q \<Rightarrow>
          if q = 1 \<or> q = 2 then Inl (''version must be a whole number; write `version: '' @ show_int \<lfloor>q\<rfloor> @ ''`'')
          else parse_either file None
      | Version_Whole n \<Rightarrow> parse_either file (Some n)
      | Version_None \<Rightarrow> parse_either file None)"

fun config_version :: "RepositoryConfig \<Rightarrow> nat" where
  "config_version (V1 _) = 1"
| "config_version (V2 _) = 2"

fun config_runs_on :: "RepositoryConfig \<Rightarrow> string list" where
  "config_runs_on (V1 config) = ec_runs_on config"
| "config_runs_on (V2 config) = v2_runs_on config"

fun config_workflow_names :: "RepositoryConfig \<Rightarrow> string list" where
  "config_workflow_names (V1 _) = []"
| "config_workflow_names (V2 config) = v2_workflow_names config"

record PlanRequest =
  pr_workflow :: "string option"
  pr_selected_platforms :: "BuildPlatform list option"
  pr_build_play_bundle :: bool

fun config_plan :: "RepositoryConfig \<Rightarrow> PlanRequest \<Rightarrow> string + PipelinePlan" where
  "config_plan (V1 config) request =
     (case pr_workflow request of
        Some workflow \<Rightarrow> Inl (''workflow '' @ squoted workflow @ '' was requested, but workflows need `version: 2`'')
      | None \<Rightarrow>
          (case (case pr_selected_platforms request of Some selected \<Rightarrow> select_v1_platforms config selected | None \<Rightarrow> Inr config) of
             Inl e \<Rightarrow> Inl e
           | Inr c \<Rightarrow> Inr (plan_execution_config c (cs_build (ec_commands c) = []) (pr_build_play_bundle request))))"
| "config_plan (V2 config) request = plan_v2 config (pr_workflow request) (pr_selected_platforms request)"

fun config_triggers :: "RepositoryConfig \<Rightarrow> string option \<Rightarrow> TriggerSpec option" where
  "config_triggers (V1 _) workflow = None"
| "config_triggers (V2 config) workflow = v2_triggers config workflow"

subsection \<open>Steps run in phases\<close>

primrec phase_rank :: "StepPhase \<Rightarrow> nat" where
  "phase_rank PreBuild = 0"
| "phase_rank Build = 1"
| "phase_rank PostBuild = 2"

definition phases_in_order :: "PlanStep list \<Rightarrow> bool" where
  "phases_in_order steps \<longleftrightarrow> sorted (map (phase_rank \<circ> ps_phase) steps)"

lemma phases_in_order_append:
  assumes "list_all (\<lambda>s. ps_phase s = PreBuild) pre" "list_all (\<lambda>s. ps_phase s = Build) built" "list_all (\<lambda>s. ps_phase s = PostBuild) post"
  shows "phases_in_order (pre @ built @ post)"
proof -
  have same: "sorted (map (phase_rank \<circ> ps_phase) xs)" if "list_all (\<lambda>s. ps_phase s = p) xs" for p xs
    using that by (induction xs) (auto simp: list_all_iff)
  show ?thesis using same[OF assms(1)] same[OF assms(2)] same[OF assms(3)] assms
    by (auto simp: phases_in_order_def sorted_append list_all_iff)
qed

lemma stage_steps_phase: "list_all (\<lambda>s. ps_phase s = phase) (stage_steps phase commands)"
  by (auto simp: stage_steps_def list_all_iff)

lemma plan_execution_phases: "phases_in_order (plan_steps (plan_execution_config config include_defaults bundle))"
  unfolding plan_execution_config_def Let_def PipelinePlan.simps
  by (intro phases_in_order_append stage_steps_phase)

lemma plan_v2_phases:
  assumes "plan_v2 config workflow selected = Inr plan"
  shows "phases_in_order (plan_steps plan)"
proof -
  from assms obtain b where low: "lower config workflow selected new_budget False = (Inr plan, b)"
    by (cases "lower config workflow selected new_budget False") (auto simp: plan_v2_def split: sum.splits)
  then obtain chosen where "select_workflow config workflow = Inr chosen" by (auto simp: lower_def split: sum.splits)
  from lowered_in_phases[OF this low] show ?thesis by (metis phases_in_order_append)
qed

lemma config_plan_phases: "config_plan config request = Inr plan \<Longrightarrow> phases_in_order (plan_steps plan)"
  by (cases config) (auto simp: plan_execution_phases plan_v2_phases split: option.splits sum.splits)

subsection \<open>References of a version 1 file\<close>

text \<open>Reading references from the front of a text.\<close>

function references_ok :: "string \<Rightarrow> bool" where
  "references_ok s =
     (case find_str ''${{'' s of
        None \<Rightarrow> True
      | Some i \<Rightarrow>
          (case find_str ''}}'' (drop (i + 3) s) of
             None \<Rightarrow> False
           | Some close \<Rightarrow>
               (case strip_prefix ''secrets.'' (trim (take close (drop (i + 3) s))) of
                  Some name \<Rightarrow> is_valid_pipeline_env_key name \<and> references_ok (drop (i + close + 5) s)
                | None \<Rightarrow> False)))"
  by pat_completeness auto
termination
  by (relation "measure length") (auto dest!: find_str_bound)

declare references_ok.simps [simp del]

lemma references_ok_from: "isl (secret_references_from s cursor found) \<longleftrightarrow> \<not> references_ok (drop cursor s)"
proof (induction s cursor found rule: secret_references_from.induct)
  case (1 s cursor found)
  show ?case
  proof (cases "find_str ''${{'' (drop cursor s)")
    case None
    then show ?thesis by (subst secret_references_from.simps, subst references_ok.simps) simp
  next
    case (Some i)
    show ?thesis
    proof (cases "find_str ''}}'' (drop (cursor + i + 3) s)")
      case None
      with Some show ?thesis by (subst secret_references_from.simps, subst references_ok.simps) (simp add: Let_def add_ac)
    next
      case close: (Some close)
      show ?thesis
      proof (cases "strip_prefix ''secrets.'' (trim (take close (drop (cursor + i + 3) s)))")
        case None
        with Some close show ?thesis
          by (subst secret_references_from.simps, subst references_ok.simps) (simp add: Let_def slice_def add_ac)
      next
        case name: (Some name)
        show ?thesis
        proof (cases "is_valid_pipeline_env_key name")
          case True
          have "isl (secret_references_from s (cursor + i + 3 + close + 2) (found @ [\<lparr>sref_start = cursor + i, sref_end = cursor + i + 3 + close + 2, sref_name = name\<rparr>])) \<longleftrightarrow>
              \<not> references_ok (drop (cursor + i + 3 + close + 2) s)"
            by (rule "1.IH"[OF Some refl refl close refl _ True]) (simp add: slice_def name)
          with Some close name True show ?thesis
            by (subst secret_references_from.simps, subst references_ok.simps) (simp add: Let_def slice_def add_ac)
        next
          case False
          with Some close name show ?thesis
            by (subst secret_references_from.simps, subst references_ok.simps) (simp add: Let_def slice_def add_ac)
        qed
      qed
    qed
  qed
qed

lemma references_ok_parse: "references_ok s \<longleftrightarrow> \<not> isl (parse_secret_references s)"
  using references_ok_from[of s 0 "[]"] by (simp add: parse_secret_references_def)

text \<open>Texts joined by a space: an expression of one does not reach into the other.\<close>

lemma find_str_prefix:
  assumes "find_str p a = Some i"
  shows "find_str p (a @ b) = Some i"
  using assms
proof (induction p a arbitrary: i rule: find_str.induct)
  case (1 p)
  then show ?case by (cases b) (auto simp: starts_with_def split: if_splits)
next
  case (2 p c cs)
  show ?case
  proof (cases "starts_with p (c # cs)")
    case True
    then have "starts_with p ((c # cs) @ b)" by (metis starts_withD append.assoc starts_with_append)
    with True 2 show ?thesis by simp
  next
    case False
    with 2(2) obtain j where j: "i = Suc j" "find_str p cs = Some j" by auto
    from find_str_bound[OF j(2)] have "length p \<le> length cs" by simp
    then have "take (length p) ((c # cs) @ b) = take (length p) (c # cs)" by (simp only: take_append) simp
    then have "\<not> starts_with p ((c # cs) @ b)" using False by (simp only: starts_with_def) simp
    with 2(1)[OF False j(2)] j(1) show ?thesis by simp
  qed
qed

lemma find_str_beyond:
  assumes "find_str p a = None" "c \<notin> set p" "p \<noteq> []"
  shows "find_str p (a @ c # b) = map_option ((+) (length a + 1)) (find_str p b)"
  using assms(1)
proof (induction a)
  case Nil
  have "\<not> starts_with p (c # b)" using assms(2,3) by (cases p) (auto simp: starts_with_def)
  then show ?case by (cases "find_str p b") simp_all
next
  case (Cons x a)
  from Cons.prems have "\<not> starts_with p (x # a)" "find_str p a = None" by (auto split: if_splits)
  moreover have "\<not> starts_with p (x # a @ c # b)"
  proof
    assume s: "starts_with p (x # a @ c # b)"
    show False
    proof (cases "length p \<le> length (x # a)")
      case True
      then have "take (length p) ((x # a) @ c # b) = take (length p) (x # a)" by (simp only: take_append) simp
      with s \<open>\<not> starts_with p (x # a)\<close> show False by (simp add: starts_with_def)
    next
      case False
      then have "c \<in> set (take (length p) ((x # a) @ c # b))" by (simp only: take_append) (simp add: take_Cons' )
      with s assms(2) show False by (simp add: starts_with_def)
    qed
  qed
  ultimately show ?case using Cons.IH by (cases "find_str p b") simp_all
qed

lemma references_ok_joined: "references_ok a \<Longrightarrow> references_ok b \<Longrightarrow> references_ok (a @ '' '' @ b)"
proof (induction a rule: references_ok.induct)
  case (1 a)
  show ?case
  proof (cases "find_str ''${{'' a")
    case None
    have beyond: "find_str ''${{'' (a @ '' '' @ b) = map_option ((+) (length a + 1)) (find_str ''${{'' b)"
      using find_str_beyond[OF None, of "CHR '' ''" b] by simp
    show ?thesis
    proof (cases "find_str ''${{'' b")
      case none: None
      with beyond show ?thesis by (subst references_ok.simps) simp
    next
      case (Some i)
      have dn: "drop (length a + 1 + n) (a @ '' '' @ b) = drop n b" for n by simp
      have d: "drop (length a + 1 + i + 3) (a @ '' '' @ b) = drop (i + 3) b"
        "\<And>close. drop (length a + 1 + i + close + 5) (a @ '' '' @ b) = drop (i + close + 5) b"
        using dn[of "i + 3"] dn[of "i + _ + 5"] by (simp_all only: add.assoc)
      from 1(3) Some obtain close name where "find_str ''}}'' (drop (i + 3) b) = Some close"
        "strip_prefix ''secrets.'' (trim (take close (drop (i + 3) b))) = Some name" "is_valid_pipeline_env_key name"
        "references_ok (drop (i + close + 5) b)"
        by (subst (asm) references_ok.simps) (auto split: option.splits)
      moreover from beyond Some have "find_str ''${{'' (a @ '' '' @ b) = Some (length a + 1 + i)" by simp
      ultimately show ?thesis by (subst references_ok.simps) (simp only: option.case d simp_thms)
    qed
  next
    case (Some i)
    from 1(2) Some obtain close name where close: "find_str ''}}'' (drop (i + 3) a) = Some close"
      and name: "strip_prefix ''secrets.'' (trim (take close (drop (i + 3) a))) = Some name" "is_valid_pipeline_env_key name"
      and rest: "references_ok (drop (i + close + 5) a)"
      by (subst (asm) references_ok.simps) (auto split: option.splits)
    from find_str_bound[OF Some] find_str_bound[OF close] have len: "i + 3 \<le> length a" "i + close + 5 \<le> length a" by simp_all
    have d: "drop (i + 3) (a @ '' '' @ b) = drop (i + 3) a @ '' '' @ b" "drop (i + close + 5) (a @ '' '' @ b) = drop (i + close + 5) a @ '' '' @ b"
      "take close (drop (i + 3) a @ '' '' @ b) = take close (drop (i + 3) a)" using len by simp_all
    from 1(1)[OF Some close name(1)] rest 1(3) have "references_ok (drop (i + close + 5) a @ '' '' @ b)" by simp
    with name show ?thesis
      by (subst references_ok.simps) (simp only: find_str_prefix[OF Some] find_str_prefix[OF close] d option.case simp_thms)
  qed
qed

lemma enumerated: "(i, x) \<in> set (enumerate n xs) \<Longrightarrow> x \<in> set xs"
  by (metis map_snd_enumerate set_map image_eqI snd_conv)

lemma no_reference_errors: "reference_errors path entries = [] \<Longrightarrow> e \<in> set entries \<Longrightarrow> references_ok e"
proof -
  assume none: "reference_errors path entries = []" and "e \<in> set entries"
  then obtain i where "(i, e) \<in> set (enumerate 0 entries)" by (metis map_snd_enumerate set_map imageE prod.collapse)
  with none show ?thesis by (fastforce simp: reference_errors_def references_ok_parse split: sum.splits)
qed

lemma references_ok_join: "list_all references_ok args \<Longrightarrow> args \<noteq> [] \<Longrightarrow> references_ok (join '' '' args)"
proof (induction args rule: induct_list012)
  case (3 x y zs)
  then show ?case using references_ok_joined[of x "join '' '' (y # zs)"] by simp
qed simp_all

lemma default_command_ok: "references_ok base \<Longrightarrow> list_all references_ok args \<Longrightarrow> references_ok (build_default_command_with_args base args)"
  using references_ok_joined[OF _ references_ok_join[of args], of base] by (simp add: build_default_command_with_args_def)

lemma default_texts_ok:
  "references_ok (default_build p)" "references_ok ''flutter build appbundle --release''" "references_ok ''flutter pub get''"
  by (cases p) (simp_all add: references_ok.simps starts_with_def)

definition references_checked :: "PipelineExecutionConfig \<Rightarrow> bool" where
  "references_checked config \<longleftrightarrow>
     list_all references_ok (cs_pre_build (ec_commands config) @ cs_build (ec_commands config) @ cs_post_build (ec_commands config)) \<and>
     (\<forall>p. list_all references_ok (platform_args (ec_platform_build_args config) p) \<and>
        (\<forall>command. platform_command (ec_platform_commands config) p = Some command \<longrightarrow> references_ok command)) \<and>
     list_all references_ok (map ev_value (ec_env config))"

lemma checked_references: "secret_expression_errors config = [] \<Longrightarrow> references_checked config"
proof -
  assume none: "secret_expression_errors config = []"
  have p: "p \<in> set all_platforms" for p by (cases p) (simp_all add: all_platforms_def)
  have env: "references_ok (ev_value x)" if "x \<in> set (ec_env config)" for x
  proof -
    from that obtain i where "(i, x) \<in> set (enumerate 0 (ec_env config))" by (metis map_snd_enumerate set_map imageE prod.collapse)
    with none show ?thesis by (fastforce simp: secret_expression_errors_def references_ok_parse split: sum.splits)
  qed
  have commands: "(case platform_command (ec_platform_commands config) q of
         Some command \<Rightarrow> (case parse_secret_references command of
             Inl e \<Rightarrow> [''platform_commands.'' @ platform_key q @ '' '' @ e] | Inr _ \<Rightarrow> []) | None \<Rightarrow> []) = []" for q
    using none p[of q] unfolding secret_expression_errors_def by (simp only: append_is_Nil_conv concat_eq_Nil_conv) force
  have "references_ok command" if "platform_command (ec_platform_commands config) q = Some command" for q command
    using commands[of q] that by (cases "parse_secret_references command") (simp_all add: references_ok_parse)
  moreover have "references_ok e" if "e \<in> set (platform_args (ec_platform_build_args config) q)" for q e
    using none p[of q] no_reference_errors[OF _ that] by (auto simp: secret_expression_errors_def)
  ultimately show ?thesis using none env no_reference_errors
    by (auto simp: references_checked_def secret_expression_errors_def list_all_iff)
qed

lemma platform_builds_ok: "references_checked config \<Longrightarrow> (run, source, p) \<in> set (platform_builds config bundle q) \<Longrightarrow> references_ok run"
proof -
  assume checked: "references_checked config" and run: "(run, source, p) \<in> set (platform_builds config bundle q)"
  have "references_ok (default_platform_command q (ec_platform_commands config) (ec_platform_build_args config))"
    using checked default_command_ok[OF default_texts_ok(1)]
    by (cases "platform_command (ec_platform_commands config) q") (auto simp: default_platform_command_def references_checked_def)
  moreover have "list_all references_ok (pa_android (ec_platform_build_args config))"
    using checked by (auto simp: references_checked_def dest: spec[of _ Android])
  then have "references_ok (default_play_bundle_command (ec_platform_build_args config))"
    unfolding default_play_bundle_command_def by (intro default_command_ok default_texts_ok) (simp add: list_all_iff)
  ultimately show ?thesis using run by (auto simp: platform_builds_def Let_def split: if_splits)
qed

lemma user_commands_run: "(run, source, p) \<in> set (user_commands stage commands) \<Longrightarrow> run \<in> set commands"
  by (auto simp: user_commands_def dest: enumerated)

lemma plan_steps_ok:
  assumes "references_checked config" "step \<in> set (plan_steps (plan_execution_config config include_defaults bundle))"
  shows "references_ok (ps_run step)"
proof -
  have stage: "\<exists>source p. (ps_run s, source, p) \<in> set commands" if "s \<in> set (stage_steps phase commands)" for s phase commands
    using that by (fastforce simp: stage_steps_def dest: enumerated)
  have user: "references_ok r" if "r \<in> set (cs_pre_build (ec_commands config)) \<union> set (cs_build (ec_commands config)) \<union> set (cs_post_build (ec_commands config))" for r
    using assms(1) that by (auto simp: references_checked_def list_all_iff)
  from assms(2) show ?thesis
    by (auto simp: plan_execution_config_def Let_def dest!: stage user_commands_run platform_builds_ok[OF assms(1)] split: if_splits)
       (simp_all add: default_texts_ok user)
qed

text \<open>With every reference readable and every name known, putting secrets into a plan succeeds.\<close>

definition secrets_known :: "secrets \<Rightarrow> string list \<Rightarrow> bool" where
  "secrets_known secrets texts \<longleftrightarrow> list_all (\<lambda>t. list_all (\<lambda>n. secrets n \<noteq> None) (referenced_names t)) texts"

lemma first_missing_known: "list_all (\<lambda>n. secrets n \<noteq> None) names \<Longrightarrow> first_missing secrets path names = None"
  by (induction names) (auto simp: lookup_secret_def)

lemma replace_ok: "references_ok t \<Longrightarrow> \<exists>r. replace_secret_references t f = Inr r"
  by (auto simp: references_ok_parse replace_secret_references_def split: sum.splits)

lemma apply_env_known:
  "list_all references_ok (map ev_value env) \<Longrightarrow> secrets_known secrets (map ev_value env) \<Longrightarrow> \<exists>r. apply_env secrets i env keys = Inr r"
proof (induction env arbitrary: i keys)
  case (Cons x env)
  obtain v where v: "replace_secret_references (ev_value x) (\<lambda>name. unwrap_or [] (secrets name)) = Inr v" using Cons.prems(1) replace_ok by auto
  from Cons obtain env1 keys1 where "apply_env secrets (Suc i) env (if v \<noteq> ev_value x then insert (ev_key x) keys else keys) = Inr (env1, keys1)"
    by (fastforce simp: secrets_known_def)
  with v Cons.prems(2) show ?case by (simp add: Let_def secrets_known_def first_missing_known)
qed simp

lemma apply_steps_known:
  "list_all references_ok (map ps_run steps) \<Longrightarrow> secrets_known secrets (map ps_run steps) \<Longrightarrow> \<exists>r. apply_steps secrets steps = Inr r"
proof (induction steps)
  case (Cons x steps)
  obtain v where v: "replace_secret_references (ps_run x) shell_reference = Inr v" using Cons.prems(1) replace_ok by auto
  from Cons obtain steps1 names where "apply_steps secrets steps = Inr (steps1, names)" by (fastforce simp: secrets_known_def)
  with v Cons.prems(2) show ?case by (simp add: Let_def secrets_known_def first_missing_known)
qed simp

lemma v1_accepted_checked:
  assumes "parse_v1 parsed = Inr config"
  shows "references_checked config"
proof -
  from assms obtain c labels where "secret_expression_errors c = []" "config = c\<lparr>ec_runs_on := labels\<rparr>"
    by (auto simp: parse_v1_def Let_def validate_repository_execution_config_def split: if_splits sum.splits)
  with checked_references[of c] show ?thesis by (simp add: references_checked_def)
qed

text \<open>
  Once a version 1 file is accepted, its references can fail a build only for a secret that does not exist: every
  command and environment value of every plan of it can be read by the runner, also where build arguments are joined to a default command.
\<close>

theorem v1_secrets_apply:
  assumes "parse_v1 parsed = Inr config" "config_plan (V1 config) request = Inr plan"
    and "secrets_known secrets (map ps_run (plan_steps plan) @ map ev_value (plan_env plan))"
    and "rp_steps resolved = plan_steps plan" "rp_env resolved = plan_env plan"
  shows "\<exists>p. apply_secret_references resolved secrets = Inr p"
proof -
  from assms(2) obtain c where plan: "plan = plan_execution_config c (cs_build (ec_commands c) = []) (pr_build_play_bundle request)"
    and c: "\<exists>ps. c = config\<lparr>ec_platforms := ps\<rparr>"
    by (auto simp: select_v1_platforms_def split: option.splits sum.splits if_splits) (metis PipelineExecutionConfig.surjective PipelineExecutionConfig.update_convs(1))
  from v1_accepted_checked[OF assms(1)] c have checked: "references_checked c" by (auto simp: references_checked_def)
  have "plan_env plan = ec_env c" by (simp add: plan plan_execution_config_def Let_def)
  with checked have env: "list_all references_ok (map ev_value (plan_env plan))" by (simp add: references_checked_def)
  have steps: "list_all references_ok (map ps_run (plan_steps plan))" using plan_steps_ok[OF checked] by (simp add: plan list_all_iff)
  from assms(3) have known: "secrets_known secrets (map ev_value (plan_env plan))" "secrets_known secrets (map ps_run (plan_steps plan))"
    by (simp_all add: secrets_known_def)
  from apply_env_known[OF env known(1), of 0 "rp_secret_env_keys resolved"] apply_steps_known[OF steps known(2)] assms(4,5)
  show ?thesis by (auto simp: apply_secret_references_def)
qed

definition sample_v1 :: RepositoryPipelineConfig where
  "sample_v1 = \<lparr>rc_version = 1, rc_config = default_execution_config\<lparr>ec_platform_build_args := no_build_args\<lparr>pa_android := [''--dart-define=K=${{ secrets.A }}'']\<rparr>\<rparr>,
     rc_artifacts = None\<rparr>"

lemma sample_v1_accepted:
  "\<exists>config. parse_v1 sample_v1 = Inr config \<and>
     map ps_run (plan_steps (plan_execution_config config (cs_build (ec_commands config) = []) False)) =
       [''flutter pub get'', ''flutter build apk --release --dart-define=K=${{ secrets.A }}''] \<and> plan_env (plan_execution_config config (cs_build (ec_commands config) = []) False) = []"
  by (simp add: parse_v1_def sample_v1_def default_execution_config_def no_build_args_def no_commands_def no_platform_commands_def
      validate_repository_execution_config_def command_errors_def default_artifact_patterns_for_platforms_def validate_artifact_pattern_def
      bad_path_segment_def validate_build_number_offset_def MAX_STORE_VERSION_CODE_def normalize_runner_labels_def MAX_RUNNER_LABELS_def
      secret_expression_errors_def reference_errors_def all_platforms_def plan_execution_config_def platform_builds_def default_platform_command_def
      build_default_command_with_args_def stage_steps_def user_commands_def secrets_eval)

theorem v1_secrets_apply_witness:
  "\<exists>config plan p. parse_v1 sample_v1 = Inr config \<and>
     config_plan (V1 config) \<lparr>pr_workflow = None, pr_selected_platforms = None, pr_build_play_bundle = False\<rparr> = Inr plan \<and>
     apply_secret_references ((bare_plan [] [])\<lparr>rp_steps := plan_steps plan\<rparr>) [''A'' \<mapsto> ''v''] = Inr p"
proof -
  let ?request = "\<lparr>pr_workflow = None, pr_selected_platforms = None, pr_build_play_bundle = False\<rparr>"
  from sample_v1_accepted obtain config where config: "parse_v1 sample_v1 = Inr config"
    and runs: "map ps_run (plan_steps (plan_execution_config config (cs_build (ec_commands config) = []) False)) =
       [''flutter pub get'', ''flutter build apk --release --dart-define=K=${{ secrets.A }}'']"
    and env: "plan_env (plan_execution_config config (cs_build (ec_commands config) = []) False) = []" by (elim exE conjE) (rule that)
  let ?plan = "plan_execution_config config (cs_build (ec_commands config) = []) False"
  have plan: "config_plan (V1 config) ?request = Inr ?plan" by simp
  have known: "secrets_known [''A'' \<mapsto> ''v''] (map ps_run (plan_steps ?plan) @ map ev_value (plan_env ?plan))"
    unfolding runs env by (simp add: secrets_known_def secrets_eval)
  from v1_secrets_apply[OF config plan known, of "(bare_plan [] [])\<lparr>rp_steps := plan_steps ?plan\<rparr>"] env
  have "\<exists>p. apply_secret_references ((bare_plan [] [])\<lparr>rp_steps := plan_steps ?plan\<rparr>) [''A'' \<mapsto> ''v''] = Inr p" by (simp add: bare_plan_def)
  with config plan show ?thesis by blast
qed

text \<open>A configuration with its own build commands is what its plan shows.\<close>

lemma stage_filter: "filter (\<lambda>s. ps_phase s = phase \<and> P (ps_platform s)) (stage_steps phase2 commands) =
  (if phase2 = phase then filter (\<lambda>s. P (ps_platform s)) (stage_steps phase2 commands) else [])"
  using stage_steps_phase[of phase2 commands] by (auto simp: list_all_iff intro!: filter_cong)

lemma stage_user_runs: "map ps_run (stage_steps phase (user_commands stage commands)) = commands"
proof -
  have "map ps_run (stage_steps phase xs) = map fst xs" for xs
  proof -
    have "map ps_run (stage_steps phase xs) = map (fst \<circ> snd) (enumerate 0 xs)" by (auto simp: stage_steps_def)
    then show ?thesis by (metis map_map map_snd_enumerate)
  qed
  moreover have "map fst (user_commands stage commands) = map snd (enumerate 0 commands)"
    unfolding user_commands_def map_map by (rule map_cong) auto
  ultimately show ?thesis by simp
qed

lemma stage_user_platform: "s \<in> set (stage_steps phase (user_commands stage commands)) \<Longrightarrow> ps_platform s = None"
  by (auto simp: stage_steps_def user_commands_def dest!: enumerated)

lemma plan_shows_config:
  assumes "cs_build (ec_commands config) \<noteq> []"
    "config_plan (V1 config) \<lparr>pr_workflow = None, pr_selected_platforms = None, pr_build_play_bundle = b\<rparr> = Inr plan"
  shows "to_execution_config plan = config\<lparr>ec_platform_build_args := no_build_args, ec_platform_commands := no_platform_commands\<rparr>"
proof -
  have plan: "plan = plan_execution_config config False b" using assms by simp
  let ?c = "ec_commands config"
  have steps: "plan_steps plan = stage_steps PreBuild (user_commands ''pre_build'' (cs_pre_build ?c)) @
      stage_steps Build (user_commands ''build'' (cs_build ?c)) @ stage_steps PostBuild (user_commands ''post_build'' (cs_post_build ?c))"
    by (simp add: plan plan_execution_config_def Let_def)
  have pre: "plan_commands plan PreBuild = cs_pre_build ?c" and post: "plan_commands plan PostBuild = cs_post_build ?c"
    unfolding plan_commands_def steps using stage_filter[where P = "\<lambda>_. True"] by (simp_all add: stage_user_runs)
  have build: "map ps_run (filter (\<lambda>s. ps_phase s = Build \<and> ps_platform s = None) (plan_steps plan)) = cs_build ?c"
    unfolding steps using stage_filter[where P = "\<lambda>p. p = None"] stage_user_platform by (simp add: stage_user_runs)
  have none: "joined_command plan p = None" for p
    unfolding joined_command_def steps Let_def using stage_filter[where P = "\<lambda>q. q = Some p"] stage_user_platform by auto
  show ?thesis using pre post build none
    by (simp add: to_execution_config_def no_platform_commands_def) (simp add: plan plan_execution_config_def Let_def)
qed

end
