(* ===== verification/Webhook_Builds.thy ===== *)
theory Webhook_Builds
  imports Webhook_Queue Signing_Library Schedule_Runs Build_Guarantees Repository_Plans
begin

text \<open>
  From a delivery to builds: \<open>trigger_build_from_webhook\<close> of \<^verbatim>\<open>builds.rs\<close> and the worker of
  \<^verbatim>\<open>integrations/webhooks.rs\<close>.

  What the source host answers is a parameter (the file of a pipeline at a revision, the files changed
  between two revisions), as are the
  generated build ids and the errors of the database. \<open>t_library\<close> is read for identities and workflow settings only; the
  build tables are those of \<open>t_hooks\<close>. The refresh of cached config files after a push is not modelled: it runs in the
  background and touches none of these tables. The text of a failure that is not retried is shortened to its message.
\<close>

subsection \<open>Files and triggers\<close>

datatype PipelineFile = File_Missing | File_Invalid string string | File_Parsed string RepositoryConfig

primrec status_text :: "status_code \<Rightarrow> string" where
  "status_text BAD_REQUEST = ''400 Bad Request''"
| "status_text UNAUTHORIZED = ''401 Unauthorized''"
| "status_text FORBIDDEN = ''403 Forbidden''"
| "status_text NOT_FOUND = ''404 Not Found''"
| "status_text CONFLICT = ''409 Conflict''"
| "status_text GONE = ''410 Gone''"
| "status_text PAYLOAD_TOO_LARGE = ''413 Payload Too Large''"
| "status_text TOO_MANY_REQUESTS = ''429 Too Many Requests''"
| "status_text INTERNAL_SERVER_ERROR = ''500 Internal Server Error''"
| "status_text BAD_GATEWAY = ''502 Bad Gateway''"
| "status_text SERVICE_UNAVAILABLE = ''503 Service Unavailable''"

definition pipeline_file_at ::
  "(string \<Rightarrow> string \<Rightarrow> string \<Rightarrow> PipelineFile option api_result) \<Rightarrow> string \<Rightarrow> string \<Rightarrow> string \<Rightarrow> string + RepositoryConfig option" where
  "pipeline_file_at load_pipeline_file project_id config_path commit_sha =
     (case load_pipeline_file project_id config_path commit_sha of
        Inr (Some (File_Parsed _ config)) \<Rightarrow> Inr (Some config)
      | Inr _ \<Rightarrow> Inr None
      | Inl e \<Rightarrow> Inl (status_text (err_status e) @ '': '' @ err_message e))"

datatype ChangeSet = Change_Unknown | Change_Files "string list" | Change_Compare string string

record WebhookBuildTrigger =
  tr_webhook_id :: string
  tr_integration_id :: string
  tr_repo_full_name :: string
  tr_event_type :: string
  tr_branch :: "string option"
  tr_tag :: "string option"
  tr_target_branch :: "string option"
  tr_commit_sha :: "string option"
  tr_actor :: "string option"
  tr_changes :: ChangeSet

record hook_pipeline =
  hp_id :: string
  hp_enabled :: bool
  hp_config_path :: string
  hp_trigger_config :: "TriggerConfig option"
  hp_workflow :: "string option"
  hp_runs_on :: "string list"

record trigger_db =
  t_hooks :: hook_db
  t_library :: library_db
  t_pipelines :: "hook_pipeline list"

abbreviation tcore :: "trigger_db \<Rightarrow> daemon" where
  "tcore db \<equiv> hcore (t_hooks db)"

definition set_tables :: "daemon \<Rightarrow> trigger_db \<Rightarrow> trigger_db" where
  "set_tables tables db = db\<lparr>t_hooks := (t_hooks db)\<lparr>hcore := tables\<rparr>\<rparr>"

definition update_queue :: "(hook_db \<Rightarrow> hook_db) \<Rightarrow> trigger_db \<Rightarrow> trigger_db" where
  "update_queue f db = db\<lparr>t_hooks := f (t_hooks db)\<rparr>"

record trigger_env =
  tv_load_file :: "string \<Rightarrow> string \<Rightarrow> string \<Rightarrow> PipelineFile option api_result"
  tv_changed_files :: "string \<Rightarrow> string \<Rightarrow> string \<Rightarrow> string list option"
  tv_interrupt :: "string \<Rightarrow> nat \<Rightarrow> sqlite_error option"
  tv_event_fails :: "string \<Rightarrow> bool"
  tv_new_id :: "string \<Rightarrow> string option \<Rightarrow> string"

definition default_trigger_config :: TriggerConfig where
  "default_trigger_config = \<lparr>tc_events = [], tc_branches = [], tc_tags = [], tc_paths = [], tc_paths_ignore = [], tc_schedules = []\<rparr>"

text \<open>Tag pushes arrive as \<open>push\<close> on GitHub and are stored and filtered as \<open>tag_push\<close>.\<close>

definition stored_event :: "WebhookBuildTrigger \<Rightarrow> string" where
  "stored_event t = (if tr_tag t \<noteq> None then ''tag_push'' else tr_event_type t)"

definition file_event :: "WebhookBuildTrigger \<Rightarrow> TriggerEvent option" where
  "file_event t =
     (case tr_tag t of
        Some tag \<Rightarrow> Some (Event_Tag tag)
      | None \<Rightarrow>
          if normalize_event (stored_event t) = ''push'' then map_option Event_Push (tr_branch t)
          else if normalize_event (stored_event t) = ''pull_request'' then Some (Event_PullRequest (tr_target_branch t))
          else None)"

text \<open>The revision, when there is one.\<close>

definition revision :: "WebhookBuildTrigger \<Rightarrow> string option" where
  "revision t = (case tr_commit_sha t of Some sha \<Rightarrow> if sha = [] then None else Some sha | None \<Rightarrow> None)"

subsection \<open>Which workflows of a pipeline\<close>

text \<open>What the loop carries: the tables, the builds created, the comparison made at most once, the files read so far
  and the first pipeline that could not be matched.\<close>

record trigger_state =
  tg_db :: trigger_db
  tg_created :: "string list"
  tg_compared :: "string list option option"
  tg_files :: "((string \<times> string) \<times> (string + RepositoryConfig option)) list"
  tg_deferred :: "api_error option"

definition read_file ::
  "trigger_env \<Rightarrow> string \<Rightarrow> string \<Rightarrow> string \<Rightarrow> trigger_state \<Rightarrow> (string + RepositoryConfig option) \<times> trigger_state" where
  "read_file env project_id config_path sha st =
     (let key = (project_id, trim config_path)
      in case map_of (tg_files st) key of
           Some r \<Rightarrow> (r, st)
         | None \<Rightarrow>
             let r = pipeline_file_at (tv_load_file env) project_id config_path sha
             in (r, st\<lparr>tg_files := (key, r) # tg_files st\<rparr>))"

definition source_unavailable :: "string \<Rightarrow> api_error" where
  "source_unavailable e = ApiError BAD_GATEWAY ''source_unavailable''
     (''Could not read the pipeline file to match its triggers: '' @ e)"

text \<open>Each workflow this event may start with its \<open>on\<close>; \<open>None\<close> skips the pipeline.\<close>

definition candidates ::
  "trigger_env \<Rightarrow> WebhookBuildTrigger \<Rightarrow> string \<Rightarrow> hook_pipeline \<Rightarrow> trigger_state \<Rightarrow>
   (string option \<times> TriggerSpec option) list option \<times> trigger_state" where
  "candidates env t project_id hp st =
     (case (revision t, file_event t) of
        (Some sha, Some _) \<Rightarrow>
          (case read_file env project_id (hp_config_path hp) sha st of
             (Inr (Some config), st1) \<Rightarrow>
               (Some (case hp_workflow hp of
                        Some name \<Rightarrow> [(Some name, config_triggers config (Some name))]
                      | None \<Rightarrow>
                          if 1 < length (config_workflow_names config)
                          then map (\<lambda>name. (Some name, config_triggers config (Some name))) (config_workflow_names config)
                          else [(None, config_triggers config None)]), st1)
           | (Inr None, st1) \<Rightarrow> (Some [(hp_workflow hp, None)], st1)
           | (Inl e, st1) \<Rightarrow>
               if hp_workflow hp \<noteq> None
               then (None, st1\<lparr>tg_deferred := Some (unwrap_or (source_unavailable e) (tg_deferred st1))\<rparr>)
               else (Some [(None, None)], st1))
      | (Some sha, None) \<Rightarrow> (if hp_workflow hp \<noteq> None then None else Some [(None, None)], st)
      | _ \<Rightarrow> (Some [(hp_workflow hp, None)], st))"

subsection \<open>One build\<close>

text \<open>The changed files, asked for at most once in a delivery.\<close>

definition changed_files_of ::
  "trigger_env \<Rightarrow> WebhookBuildTrigger \<Rightarrow> string \<Rightarrow> trigger_state \<Rightarrow> string list option \<times> trigger_state" where
  "changed_files_of env t repository_id st =
     (case tr_changes t of
        Change_Unknown \<Rightarrow> (None, st)
      | Change_Files files \<Rightarrow> (Some files, st)
      | Change_Compare base head \<Rightarrow>
          (case tg_compared st of
             Some files \<Rightarrow> (files, st)
           | None \<Rightarrow>
               let files = tv_changed_files env repository_id base head in (files, st\<lparr>tg_compared := Some files\<rparr>)))"

definition ref_matches :: "WebhookBuildTrigger \<Rightarrow> TriggerConfig \<Rightarrow> TriggerSpec option \<Rightarrow> bool" where
  "ref_matches t config file_on =
     (case file_on of
        Some spec \<Rightarrow> (case file_event t of None \<Rightarrow> False | Some event \<Rightarrow> spec_matches_ref spec event)
      | None \<Rightarrow> should_trigger config (stored_event t) (tr_branch t) (tr_tag t))"

text \<open>The signing names and the kind of upload the file plans for the workflow; a file that does not plan has none.\<close>

definition planned_signing :: "RepositoryConfig \<Rightarrow> string option \<Rightarrow> (SigningSpec \<times> bool) option" where
  "planned_signing config workflow =
     (case config_plan config \<lparr>pr_workflow = workflow, pr_selected_platforms = None, pr_build_play_bundle = False\<rparr> of
        Inr plan \<Rightarrow> Some (plan_signing plan, needs_app_store_export (plan_publish plan))
      | Inl _ \<Rightarrow> None)"

definition workflow_binding ::
  "library_db \<Rightarrow> string \<Rightarrow> string \<Rightarrow> RepositoryConfig option \<Rightarrow> string option \<Rightarrow> string + WorkflowBinding" where
  "workflow_binding library project_id pipeline_id file workflow =
     (let (signing, app_store) = unwrap_or (\<lparr>sg_android = None, sg_ios = None\<rparr>, False)
            (Option.bind file (\<lambda>config. planned_signing config workflow))
      in resolve_workflow_binding project_id pipeline_id workflow signing app_store library)"

definition hook_snapshot :: "hook_pipeline \<Rightarrow> pipeline \<Rightarrow> string \<Rightarrow> string option \<Rightarrow> config_snapshot" where
  "hook_snapshot hp pl repository_id workflow =
     \<lparr>cs_repository_id = Some repository_id, cs_runs_on = scheduling_labels (hp_runs_on hp),
      cs_timeout_secs = Some (gate_timeout_minutes (Some (pl_timeout_minutes pl)) * 60), cs_workflow = workflow,
      cs_retry_steps = None, cs_file_size_budgets = None\<rparr>"

definition hook_binds ::
  "int \<Rightarrow> WebhookBuildTrigger \<Rightarrow> string \<Rightarrow> string \<Rightarrow> hook_pipeline \<Rightarrow> pipeline \<Rightarrow> string \<Rightarrow> string option \<Rightarrow> bool \<Rightarrow> build_insert_binds" where
  "hook_binds now t build_id project_id hp pl repository_id workflow approval_required =
     \<lparr>bi_build_id = build_id, bi_project_id = project_id, bi_pipeline_id = hp_id hp, bi_actor = tr_actor t,
      bi_event_type = Some (stored_event t), bi_trigger_ref = (if tr_tag t \<noteq> None then tr_tag t else tr_branch t),
      bi_commit_sha = tr_commit_sha t, bi_branch = tr_branch t, bi_changelog = None,
      bi_config_snapshot = hook_snapshot hp pl repository_id workflow, bi_webhook_id = Some (tr_webhook_id t), bi_now = now,
      bi_trigger_type = ''webhook'', bi_source_build_id = None, bi_cancel_previous = pl_cancel_previous pl,
      bi_approval_required = approval_required\<rparr>"

text \<open>The insert, the snapshot's binding and the first event; an error ends the whole delivery.\<close>

definition start_build ::
  "trigger_env \<Rightarrow> build_insert_binds \<Rightarrow> string option \<times> WorkflowBinding \<Rightarrow> trigger_state \<Rightarrow> api_error option \<times> trigger_state" where
  "start_build env binds binding st =
     (let bid = bi_build_id binds in
      case insert_build_with_retry (tv_interrupt env bid) (\<lambda>_. tcore (tg_db st)) binds of
        Inl e \<Rightarrow> (Some e, st)
      | Inr (False, tables) \<Rightarrow> (None, st\<lparr>tg_db := set_tables tables (tg_db st)\<rparr>)
      | Inr (True, tables) \<Rightarrow>
          let db1 = set_tables tables (tg_db st);
              db2 = db1\<lparr>t_library := (t_library db1)\<lparr>build_bindings := (bid, binding) # build_bindings (t_library db1)\<rparr>\<rparr>
          in if tv_event_fails env bid
             then (Some (ApiError INTERNAL_SERVER_ERROR ''store_error'' ''Failed to record build event''), st\<lparr>tg_db := db2\<rparr>)
             else
               let tables1 = record_initial_event (bi_now binds) bid (bi_actor binds)
                     (initial_event_reason (''webhook: '' @ unwrap_or [] (bi_event_type binds)) (bi_approval_required binds)) tables;
                   tables2 = (if bi_approval_required binds
                     then write_audit_log None ''build_approval_requested'' ''build'' (Some bid) [(''build_id'', Some bid)] tables1
                     else tables1)
               in (None, st\<lparr>tg_db := set_tables tables2 db2, tg_created := tg_created st @ [bid]\<rparr>))"

definition run_candidate ::
  "trigger_env \<Rightarrow> int \<Rightarrow> WebhookBuildTrigger \<Rightarrow> string \<Rightarrow> string \<Rightarrow> hook_pipeline \<Rightarrow> pipeline \<Rightarrow>
   string option \<times> TriggerSpec option \<Rightarrow> trigger_state \<Rightarrow> api_error option \<times> trigger_state" where
  "run_candidate env now t project_id repository_id hp pl = (\<lambda>(workflow, file_on) st.
     let config = unwrap_or default_trigger_config (hp_trigger_config hp) in
     if \<not> ref_matches t config file_on \<or> revision t = None then (None, st)
     else
       let filtered = (tr_tag t = None \<and>
             (case file_on of Some spec \<Rightarrow> spec_has_path_filters spec | None \<Rightarrow> has_path_filters config));
           (files, st1) = (if filtered then changed_files_of env t repository_id st else (None, st))
       in if filtered \<and> \<not> (case file_on of Some spec \<Rightarrow> spec_paths_match spec files | None \<Rightarrow> paths_match config files)
          then (None, st1)
          else
            let file = (case map_of (tg_files st1) (project_id, trim (hp_config_path hp)) of
                          Some (Inr f) \<Rightarrow> f | _ \<Rightarrow> None);
                (binding_error, binding) =
                  (case workflow_binding (t_library (tg_db st1)) project_id (hp_id hp) file workflow of
                     Inr b \<Rightarrow> (None, b) | Inl message \<Rightarrow> (Some message, default_binding));
                approval_required = unwrap_or
                  (approval_applies_to (pl_approval pl) (normalize_event (stored_event t))) (wb_approval_required binding)
            in start_build env
                 (hook_binds now t (tv_new_id env (hp_id hp) workflow) project_id hp pl repository_id workflow approval_required)
                 (binding_error, binding) st1)"

subsection \<open>All projects, pipelines and workflows\<close>

text \<open>A loop that ends at the first error.\<close>

fun each :: "('x \<Rightarrow> 's \<Rightarrow> 'e option \<times> 's) \<Rightarrow> 'x list \<Rightarrow> 's \<Rightarrow> 'e option \<times> 's" where
  "each f [] st = (None, st)"
| "each f (x # xs) st = (case f x st of (Some e, st1) \<Rightarrow> (Some e, st1) | (None, st1) \<Rightarrow> each f xs st1)"

definition run_pipeline ::
  "trigger_env \<Rightarrow> int \<Rightarrow> WebhookBuildTrigger \<Rightarrow> string \<Rightarrow> string \<Rightarrow> hook_pipeline \<times> pipeline \<Rightarrow> trigger_state \<Rightarrow>
   api_error option \<times> trigger_state" where
  "run_pipeline env now t project_id repository_id = (\<lambda>(hp, pl) st.
     case candidates env t project_id hp st of
       (None, st1) \<Rightarrow> (None, st1)
     | (Some cs, st1) \<Rightarrow> each (run_candidate env now t project_id repository_id hp pl) cs st1)"

text \<open>The enabled pipelines of a project, with both parts of their row.\<close>

definition enabled_pipelines :: "string \<Rightarrow> trigger_db \<Rightarrow> (hook_pipeline \<times> pipeline) list" where
  "enabled_pipelines project_id db =
     List.map_filter (\<lambda>pl.
       if pl_project_id pl = project_id
       then map_option (\<lambda>hp. (hp, pl)) (fetch_optional (\<lambda>hp. hp_id hp = pl_id pl \<and> hp_enabled hp) (t_pipelines db))
       else None) (pipelines (tcore db))"

text \<open>The projects linked to the repository, with its id and clone URL.\<close>

definition linked_projects :: "WebhookBuildTrigger \<Rightarrow> trigger_db \<Rightarrow> (string \<times> string \<times> string option) list" where
  "linked_projects t db =
     concat (map (\<lambda>p.
       map (\<lambda>r. (p_id p, sr_id r, Option.bind (map_of (repo_details (t_hooks db)) (sr_id r)) rd_repo_url))
         (filter (\<lambda>r. p_repository_id p = Some (sr_id r) \<and> sr_integration_id r = tr_integration_id t \<and>
                      sr_full_name r = tr_repo_full_name t) (repositories (tcore db)))) (projects (tcore db)))"

definition run_project ::
  "trigger_env \<Rightarrow> int \<Rightarrow> WebhookBuildTrigger \<Rightarrow> string \<times> string \<times> string option \<Rightarrow> trigger_state \<Rightarrow> api_error option \<times> trigger_state" where
  "run_project env now t = (\<lambda>(project_id, repository_id, repo_url) st.
     case repo_url of
       None \<Rightarrow> (None, st)
     | Some raw \<Rightarrow>
         if trim raw = [] then (None, st)
         else each (run_pipeline env now t project_id repository_id) (enabled_pipelines project_id (tg_db st)) st)"

definition trigger_build_from_webhook ::
  "trigger_env \<Rightarrow> int \<Rightarrow> WebhookBuildTrigger \<Rightarrow> trigger_db \<Rightarrow> string list api_result \<times> trigger_db" where
  "trigger_build_from_webhook env now t db =
     (case each (run_project env now t) (linked_projects t db)
             \<lparr>tg_db = db, tg_created = [], tg_compared = None, tg_files = [], tg_deferred = None\<rparr> of
        (Some e, st) \<Rightarrow> (Inl e, tg_db st)
      | (None, st) \<Rightarrow>
          (case tg_deferred st of Some e \<Rightarrow> Inl e | None \<Rightarrow> Inr (tg_created st), tg_db st))"

subsection \<open>The worker\<close>

definition registered_target_repository_matches :: "hook_db \<Rightarrow> string \<Rightarrow> string \<Rightarrow> string \<Rightarrow> bool" where
  "registered_target_repository_matches db integration_id external_id full_name =
     exists_row (\<lambda>r. sr_integration_id r = integration_id \<and> sr_full_name r = full_name \<and>
       map_option rd_external_id (map_of (repo_details db) (sr_id r)) = Some external_id) (repositories (hcore db))"

definition event_changes :: "NormalizedWebhookEvent \<Rightarrow> ChangeSet" where
  "event_changes event =
     (case we_changed_files event of
        Some files \<Rightarrow> Change_Files files
      | None \<Rightarrow>
          (case (we_compare_base event, we_commit_sha event) of
             (Some base, Some head) \<Rightarrow> Change_Compare base head
           | _ \<Rightarrow> Change_Unknown))"

definition trigger_of :: "string \<Rightarrow> NormalizedWebhookEvent \<Rightarrow> string \<Rightarrow> WebhookBuildTrigger" where
  "trigger_of webhook_id event repo =
     \<lparr>tr_webhook_id = webhook_id, tr_integration_id = we_integration_id event, tr_repo_full_name = repo,
      tr_event_type = we_event_type event, tr_branch = we_branch event, tr_tag = we_tag event,
      tr_target_branch = we_target_branch event, tr_commit_sha = we_commit_sha event, tr_actor = we_actor event,
      tr_changes = event_changes event\<rparr>"

text \<open>\<open>Inl\<close> is the error the worker records for a retry.\<close>

definition process_webhook_event ::
  "trigger_env \<Rightarrow> int \<Rightarrow> string \<Rightarrow> NormalizedWebhookEvent \<Rightarrow> trigger_db \<Rightarrow> (string + unit) \<times> trigger_db" where
  "process_webhook_event env now webhook_id event db =
     (let decision = webhook_trigger_decision
            (registered_target_repository_matches (t_hooks db) (we_integration_id event)) event
      in case (decision, we_repository_full_name event) of
           (Ignore reason, _) \<Rightarrow> (Inr (), update_queue (mark_ignored now webhook_id reason) db)
         | (Trigger, Some repo) \<Rightarrow>
             (case trigger_build_from_webhook env now (trigger_of webhook_id event repo) db of
                (Inr _, db1) \<Rightarrow> (Inr (), update_queue (mark_processed now webhook_id) db1)
              | (Inl e, db1) \<Rightarrow>
                  if is_server_error (err_status e)
                  then (Inl (''failed to trigger builds: '' @ err_message e), db1)
                  else (Inr (), update_queue (mark_failed now webhook_id (err_message e)) db1))
         | _ \<Rightarrow> (Inr (), update_queue (mark_processed now webhook_id) db))"

definition claimed_row :: "string \<Rightarrow> hook_db \<Rightarrow> (webhook_row \<times> integration_row) option" where
  "claimed_row webhook_id db =
     Option.bind (fetch_optional (\<lambda>w. unsettled webhook_id w \<and> wh_processing_started_at w \<noteq> None) (hook_rows db))
      (\<lambda>w. map_option (\<lambda>i. (w, i)) (fetch_optional (\<lambda>i. ig_id i = wh_integration_id w) (integration_rows db)))"

definition row_event :: "hook_db \<Rightarrow> webhook_row \<Rightarrow> integration_row \<Rightarrow> string + NormalizedWebhookEvent" where
  "row_event db w i =
     (case ig_provider i of
        Github \<Rightarrow> Inr (normalize_github_event (wh_event_type w) (wh_delivery_id w) (wh_integration_id w) (wh_payload w))
      | Gitlab \<Rightarrow>
          and_then (ok_or ''GitLab webhook has no project ID'' (json_id (pointer [''project'', ''id''] (wh_payload w))))
           (\<lambda>external_id. and_then (ok_or ''no rows returned by a query that expected to return at least one row''
                (fetch_optional (\<lambda>r. sr_integration_id r = wh_integration_id w \<and>
                   map_option rd_external_id (map_of (repo_details db) (sr_id r)) = Some external_id) (repositories (hcore db))))
           (\<lambda>r. Inr (normalize_gitlab_event (wh_event_type w) (wh_delivery_id w) (wh_integration_id w) (sr_full_name r) (wh_payload w))))
      | provider \<Rightarrow> Inl (''unsupported webhook provider: '' @ scm_provider_to_string provider))"

definition process_claimed_webhook ::
  "trigger_env \<Rightarrow> int \<Rightarrow> string \<Rightarrow> trigger_db \<Rightarrow> (string + unit) \<times> trigger_db" where
  "process_claimed_webhook env now webhook_id db =
     (case claimed_row webhook_id (t_hooks db) of
        None \<Rightarrow> (Inr (), db)
      | Some (w, i) \<Rightarrow>
          try_in db (row_event (t_hooks db) w i) (\<lambda>event. process_webhook_event env now webhook_id event db))"

text \<open>One round of the worker: a claim, the work, and the error if there was one. \<open>None\<close> when nothing waits.\<close>

definition work_round :: "trigger_env \<Rightarrow> int \<Rightarrow> trigger_db \<Rightarrow> string option \<times> trigger_db" where
  "work_round env now db =
     (case claim_next_webhook now (t_hooks db) of
        (None, _) \<Rightarrow> (None, db)
      | (Some wid, hooks) \<Rightarrow>
          (case process_claimed_webhook env now wid (db\<lparr>t_hooks := hooks\<rparr>) of
             (Inr _, db1) \<Rightarrow> (Some wid, db1)
           | (Inl message, db1) \<Rightarrow> (Some wid, update_queue (record_webhook_processing_error now wid message) db1)))"

end
