(* ===== verification/Webhook_Guarantees.thy ===== *)
theory Webhook_Guarantees
  imports Webhook_Builds
begin

text \<open>
  What a delivery may and may not start: only trusted revisions, each workflow of a pipeline at most once
  however often the delivery is retried; and two ways in which starting several workflows goes wrong.
\<close>

subsection \<open>Builds and their claims\<close>

text \<open>A build that came from a delivery holds the claim of its pipeline and workflow.\<close>

definition claim_key :: "webhook_claim \<Rightarrow> string \<times> string \<times> string" where
  "claim_key c = (wc_webhook_id c, wc_pipeline_id c, wc_workflow c)"

definition origin :: "build \<Rightarrow> string \<times> string option \<times> string \<times> string" where
  "origin b = (b_id b, b_webhook_id b, b_pipeline_id b, unwrap_or [] (cs_workflow (b_snapshot b)))"

definition claimed :: "webhook_claim list \<Rightarrow> build \<Rightarrow> bool" where
  "claimed cs b \<longleftrightarrow>
     (\<forall>w. b_webhook_id b = Some w \<longrightarrow>
        (\<exists>c \<in> set cs. claim_key c = (w, b_pipeline_id b, unwrap_or [] (cs_workflow (b_snapshot b))) \<and> wc_build_id c = b_id b))"

definition claims_ok :: "daemon \<Rightarrow> bool" where
  "claims_ok db \<longleftrightarrow> store_inv db \<and> distinct (map claim_key (webhook_build_claims db)) \<and>
     list_all (claimed (webhook_build_claims db)) (builds db)"

lemma claimed_cong: "origin b' = origin b \<Longrightarrow> claimed cs b \<Longrightarrow> claimed cs b'"
  by (auto simp: claimed_def origin_def)

lemma row_step_origin: "row_step b b' \<Longrightarrow> origin b' = origin b"
  by (induction rule: row_step.induct)
    (auto simp: origin_def transition_columns_def cancel_columns_def approval_columns_def store_results_def Let_def
      split: option.splits)

lemma row_steps_origin: "row_step\<^sup>*\<^sup>* b b' \<Longrightarrow> origin b' = origin b"
  by (induction rule: rtranclp_induct) (simp_all add: row_step_origin)

lemma daemon_step_origin:
  assumes "daemon_step db db'" and inv: "store_inv db" and b': "b' \<in> set (builds db')"
    and old: "b_id b' \<in> b_id ` set (builds db)"
  shows "\<exists>b \<in> set (builds db). origin b' = origin b"
  using assms(1)
proof cases
  case quiet
  from quiet_step_rows[OF this b'] old show ?thesis
    by (auto simp: from_row_def new_row_def dest: row_steps_origin)
next
  case (claim now bid rid actor h ok)
  show ?thesis
  proof (cases ok)
    case False
    with claim have "db' = db"
      by (auto simp: claim_eligible_direct_runner_build_def Let_def split: if_splits)
    with b' show ?thesis by auto
  next
    case True
    with claim have run: "claim_eligible_direct_runner_build now bid rid actor h db = Inr (True, db')" by simp
    obtain r where "builds db' = update_where (\<lambda>b. b_id b = bid \<and> eligible db rid b)
        (assign_columns now rid h) (builds db)"
      by (rule claim_effect[OF inv run])
    with b' obtain b where "b \<in> set (builds db)"
      "b' = (if b_id b = bid \<and> eligible db rid b then assign_columns now rid h b else b)"
      by (auto simp only: in_set_update_where)
    then show ?thesis by (intro bexI[of _ b]) (auto simp: origin_def assign_columns_def)
  qed
qed

text \<open>
  An insert of any kind, or another transaction of the daemon: of those none writes the claims and none adds a build.
\<close>

inductive table_step :: "daemon \<Rightarrow> daemon \<Rightarrow> bool" where
  insert: "execute_build_insert b db = Inr (ok, db') \<Longrightarrow> table_step db db'"
| elsewhere: "daemon_step db db' \<Longrightarrow> webhook_build_claims db' = webhook_build_claims db \<Longrightarrow>
    b_id ` set (builds db') \<subseteq> b_id ` set (builds db) \<Longrightarrow> table_step db db'"

lemma supersede_claims [simp]: "webhook_build_claims (supersede b row db) = webhook_build_claims db"
  by (auto simp: supersede_def cancel_rows_def split: option.splits)

lemma supersede_origin: "b' \<in> set (builds (supersede b row db)) \<Longrightarrow> \<exists>r \<in> set (builds db). origin b' = origin r"
  by (auto simp: supersede_def cancel_rows_def in_set_update_where cancel_columns_def origin_def
      split: option.splits if_splits)

lemma inserted_origin:
  "origin (inserted_row b rows) = (bi_build_id b, bi_webhook_id b, bi_pipeline_id b, unwrap_or [] (cs_workflow (bi_config_snapshot b)))"
  by (simp add: origin_def inserted_row_def)

lemma insert_claims_ok:
  assumes ok: "claims_ok db" and run: "execute_build_insert b db = Inr (inserted, db')"
  shows "claims_ok db'"
proof -
  have inv: "store_inv db'" using ok execute_build_insert_inv[OF _ run] by (simp add: claims_ok_def)
  let ?row = "inserted_row b (builds db)" and ?wf = "unwrap_or [] (cs_workflow (bi_config_snapshot b))"
  let ?rows = "builds db @ [?row]"
  have cases: "db' = db \<or> (case bi_webhook_id b of
       None \<Rightarrow> db' = supersede b ?row (db\<lparr>builds := ?rows\<rparr>)
     | Some w \<Rightarrow> \<not> exists_row (\<lambda>c. wc_webhook_id c = w \<and> wc_pipeline_id c = bi_pipeline_id b \<and> wc_workflow c = ?wf) (webhook_build_claims db) \<and>
         db' = supersede b ?row (db\<lparr>builds := ?rows, webhook_build_claims := webhook_build_claims db @
           [\<lparr>wc_webhook_id = w, wc_pipeline_id = bi_pipeline_id b, wc_workflow = ?wf, wc_build_id = bi_build_id b\<rparr>]\<rparr>))"
    using run unfolding execute_build_insert_def Let_def by (simp split: if_splits option.splits)
  consider "db' = db"
    | "bi_webhook_id b = None" "db' = supersede b ?row (db\<lparr>builds := ?rows\<rparr>)"
    | w where "bi_webhook_id b = Some w" "(w, bi_pipeline_id b, ?wf) \<notin> claim_key ` set (webhook_build_claims db)"
      "db' = supersede b ?row (db\<lparr>builds := ?rows, webhook_build_claims := webhook_build_claims db @
         [\<lparr>wc_webhook_id = w, wc_pipeline_id = bi_pipeline_id b, wc_workflow = ?wf, wc_build_id = bi_build_id b\<rparr>]\<rparr>)"
  proof (cases "bi_webhook_id b")
    case None
    with cases that(1,2) show thesis by auto
  next
    case (Some w)
    have "(w, bi_pipeline_id b, ?wf) \<notin> claim_key ` set cs"
      if "\<not> exists_row (\<lambda>c. wc_webhook_id c = w \<and> wc_pipeline_id c = bi_pipeline_id b \<and> wc_workflow c = ?wf) cs" for cs
      using that by (auto simp: exists_row_iff claim_key_def)
    with cases Some that(1) that(3)[OF Some] show thesis by auto
  qed
  then show ?thesis
  proof cases
    case 1
    with ok show ?thesis by simp
  next
    case 2
    have "claimed (webhook_build_claims db) b'" if "b' \<in> set (builds db')" for b'
    proof -
      from supersede_origin that 2(2) obtain r where r: "r \<in> set ?rows" "origin b' = origin r" by fastforce
      have "claimed (webhook_build_claims db) r"
        using r(1) ok 2(1) inserted_origin[of b "builds db"] by (auto simp: claims_ok_def list_all_iff claimed_def origin_def)
      with r(2) show ?thesis by (rule claimed_cong)
    qed
    with ok inv 2(2) show ?thesis by (simp add: claims_ok_def list_all_iff)
  next
    case (3 w)
    have "claimed (webhook_build_claims db') b'" if "b' \<in> set (builds db')" for b'
    proof -
      from supersede_origin that 3(3) obtain r where r: "r \<in> set ?rows" "origin b' = origin r" by fastforce
      have "claimed (webhook_build_claims db') r"
        using r(1) ok 3(1,3) inserted_origin[of b "builds db"]
        by (auto simp: claims_ok_def list_all_iff claimed_def origin_def claim_key_def)
      with r(2) show ?thesis by (rule claimed_cong)
    qed
    with ok inv 3(2,3) show ?thesis by (auto simp: claims_ok_def list_all_iff claim_key_def)
  qed
qed

lemma table_step_ok: "table_step db db' \<Longrightarrow> claims_ok db \<Longrightarrow> claims_ok db'"
proof (induction rule: table_step.induct)
  case (insert b db ok db')
  then show ?case by (blast intro: insert_claims_ok)
next
  case (elsewhere db db')
  then have inv: "store_inv db" and "store_inv db'" by (auto simp: claims_ok_def intro: daemon_step_inv)
  moreover have "claimed (webhook_build_claims db) b'" if "b' \<in> set (builds db')" for b'
    using daemon_step_origin[OF elsewhere(1) inv that] elsewhere(3,4) that
    by (auto simp: claims_ok_def list_all_iff intro: claimed_cong)
  ultimately show ?case using elsewhere by (simp add: claims_ok_def list_all_iff)
qed

interpretation claims: invariant_of table_step claims_ok
  by unfold_locales (rule table_step_ok)

subsection \<open>A delivery is a run of transactions\<close>

lemma each_run:
  assumes "\<And>x st. R\<^sup>*\<^sup>* (g st) (g (snd (f x st)))"
  shows "R\<^sup>*\<^sup>* (g st) (g (snd (each f xs st)))"
proof (induction xs arbitrary: st)
  case (Cons x xs)
  obtain e st1 where x: "f x st = (e, st1)" by fastforce
  have "R\<^sup>*\<^sup>* (g st) (g st1)" using assms[of st x] x by simp
  also have "R\<^sup>*\<^sup>* (g st1) (g (snd (each f xs st1)))" by (rule Cons.IH)
  finally show ?case using x \<open>R\<^sup>*\<^sup>* (g st) (g st1)\<close> by (cases e) simp_all
qed simp

lemma tables_simps [simp]: "tcore (set_tables tables db) = tables" "t_library (set_tables tables db) = t_library db"
  by (simp_all add: set_tables_def)

lemma read_file_db [simp]: "tg_db (snd (read_file env p c sha st)) = tg_db st"
  "tg_created (snd (read_file env p c sha st)) = tg_created st"
  by (simp_all add: read_file_def Let_def split: option.splits)

lemma candidates_db [simp]: "tg_db (snd (candidates env t p hp st)) = tg_db st"
  "tg_created (snd (candidates env t p hp st)) = tg_created st"
proof -
  have "tg_db st1 = tg_db st \<and> tg_created st1 = tg_created st" if "read_file env p (hp_config_path hp) sha st = (r, st1)" for sha r st1
    using read_file_db[of env p "hp_config_path hp" sha st] that by simp
  then show "tg_db (snd (candidates env t p hp st)) = tg_db st" "tg_created (snd (candidates env t p hp st)) = tg_created st"
    by (auto simp: candidates_def split: option.splits prod.splits sum.splits)
qed

lemma changed_files_of_db [simp]: "tg_db (snd (changed_files_of env t r st)) = tg_db st"
  "tg_created (snd (changed_files_of env t r st)) = tg_created st" "tg_files (snd (changed_files_of env t r st)) = tg_files st"
  by (simp_all add: changed_files_of_def Let_def split: ChangeSet.splits option.splits)

lemma insert_build_with_retry_Inr:
  "insert_build_with_retry interrupt (\<lambda>_. db) b = Inr (ok, db') \<Longrightarrow> execute_build_insert b db = Inr (ok, db')"
  by (auto simp: insert_build_with_retry_def dest: insert_attempts_Inr)

lemma first_event_run:
  assumes "exists_row (\<lambda>b. b_id b = bid) (builds db)"
  shows "table_step\<^sup>*\<^sup>* db (record_initial_event now bid actor reason db)"
    and "table_step\<^sup>*\<^sup>* db (write_audit_log a x k rid d (record_initial_event now bid actor reason db))"
proof -
  let ?db1 = "record_initial_event now bid actor reason db"
  have "table_step db ?db1"
    by (intro table_step.elsewhere daemon_step.quiet quiet_step.initial_event assms) (simp_all add: record_initial_event_def)
  then show "table_step\<^sup>*\<^sup>* db ?db1" ..
  moreover have "table_step ?db1 (write_audit_log a x k rid d ?db1)"
    by (intro table_step.elsewhere daemon_step.quiet quiet_step.other) (simp_all add: write_audit_log_def)
  ultimately show "table_step\<^sup>*\<^sup>* db (write_audit_log a x k rid d ?db1)" by (rule rtranclp.rtrancl_into_rtrancl)
qed

lemma same_builds: "builds (record_initial_event now bid actor reason db) = builds db"
  "builds (write_audit_log a x k rid d db) = builds db"
  by (simp_all add: record_initial_event_def write_audit_log_def)

text \<open>What one attempt at a build does: nothing, a refused insert, or a new build with its events.\<close>

lemma start_build_cases:
  obtains e where "start_build env binds x st = (Some e, st)"
  | tables where "execute_build_insert binds (tcore (tg_db st)) = Inr (False, tables)"
      "start_build env binds x st = (None, st\<lparr>tg_db := set_tables tables (tg_db st)\<rparr>)"
  | tables tables' e where "execute_build_insert binds (tcore (tg_db st)) = Inr (True, tables)"
      "tcore (tg_db (snd (start_build env binds x st))) = tables'" "fst (start_build env binds x st) = e"
      "tables' = tables \<and> e \<noteq> None \<and> tg_created (snd (start_build env binds x st)) = tg_created st \<or>
       e = None \<and> builds tables' = builds tables \<and> table_step\<^sup>*\<^sup>* tables tables' \<and>
       tg_created (snd (start_build env binds x st)) = tg_created st @ [bi_build_id binds]"
proof (cases "insert_build_with_retry (tv_interrupt env (bi_build_id binds)) (\<lambda>_. tcore (tg_db st)) binds")
  case (Inl e)
  then have "start_build env binds x st = (Some e, st)" by (simp add: start_build_def)
  then show ?thesis by (rule that(1))
next
  case (Inr r)
  then obtain ok tables where r: "r = (ok, tables)" and ins: "execute_build_insert binds (tcore (tg_db st)) = Inr (ok, tables)"
    by (cases r) (auto dest: insert_build_with_retry_Inr)
  show ?thesis
  proof (cases ok)
    case False
    with Inr r ins show ?thesis by (intro that(2)[of tables]) (simp_all add: start_build_def)
  next
    case True
    then have row: "exists_row (\<lambda>b. b_id b = bi_build_id binds) (builds tables)" using execute_insert_rows(1)[OF ins] by simp
    show ?thesis
    proof (cases "tv_event_fails env (bi_build_id binds)")
      case fails: True
      with Inr r True ins show ?thesis by (intro that(3)[of tables, OF _ refl refl]) (auto simp: start_build_def Let_def)
    next
      case False
      with Inr r True ins show ?thesis
        by (intro that(3)[of tables, OF _ refl refl])
          (auto simp: start_build_def Let_def same_builds intro: first_event_run[OF row])
    qed
  qed
qed

lemma start_build_run: "table_step\<^sup>*\<^sup>* (tcore (tg_db st)) (tcore (tg_db (snd (start_build env binds x st))))"
proof (cases rule: start_build_cases[of env binds x st])
  case (2 tables)
  then have "table_step (tcore (tg_db st)) tables" by (blast intro: table_step.insert)
  with 2(2) show ?thesis by simp
next
  case (3 tables tables' e)
  then have "table_step (tcore (tg_db st)) tables" by (blast intro: table_step.insert)
  with 3(2,4) show ?thesis by (auto intro: converse_rtranclp_into_rtranclp)
qed simp

text \<open>A candidate that is not filtered out is one attempt at a build.\<close>

lemma run_candidate_cases:
  obtains "tg_db (snd (run_candidate env now t project_id repository_id hp pl c st)) = tg_db st"
      "tg_created (snd (run_candidate env now t project_id repository_id hp pl c st)) = tg_created st"
      "fst (run_candidate env now t project_id repository_id hp pl c st) = None"
  | st1 cfg binding_error binding approval where
      "tg_db st1 = tg_db st" "tg_created st1 = tg_created st" "tg_files st1 = tg_files st"
      "cfg = (case map_of (tg_files st) (project_id, trim (hp_config_path hp)) of Some (Inr f) \<Rightarrow> f | _ \<Rightarrow> None)"
      "(binding_error, binding) = (case workflow_binding (t_library (tg_db st)) project_id (hp_id hp) cfg (fst c) of
         Inr b \<Rightarrow> (None, b) | Inl message \<Rightarrow> (Some message, default_binding))"
      "approval = unwrap_or (approval_applies_to (pl_approval pl) (normalize_event (stored_event t))) (wb_approval_required binding)"
      "run_candidate env now t project_id repository_id hp pl c st =
         start_build env (hook_binds now t (tv_new_id env (hp_id hp) (fst c)) project_id hp pl repository_id (fst c) approval)
           (binding_error, binding) st1"
proof -
  obtain workflow file_on where c: "c = (workflow, file_on)" by fastforce
  let ?config = "unwrap_or default_trigger_config (hp_trigger_config hp)"
  let ?filtered = "tr_tag t = None \<and> (case file_on of Some spec \<Rightarrow> spec_has_path_filters spec | None \<Rightarrow> has_path_filters ?config)"
  obtain files st1 where f: "(if ?filtered then changed_files_of env t repository_id st else (None, st)) = (files, st1)" by fastforce
  then have same: "tg_db st1 = tg_db st" "tg_created st1 = tg_created st" "tg_files st1 = tg_files st"
    by (metis changed_files_of_db snd_conv)+
  let ?cfg = "case map_of (tg_files st) (project_id, trim (hp_config_path hp)) of Some (Inr f) \<Rightarrow> f | _ \<Rightarrow> None"
  obtain binding_error binding where b: "(case workflow_binding (t_library (tg_db st)) project_id (hp_id hp) ?cfg workflow of
      Inr b \<Rightarrow> (None, b) | Inl message \<Rightarrow> (Some message, default_binding)) = (binding_error, binding)" by fastforce
  let ?build = "start_build env (hook_binds now t (tv_new_id env (hp_id hp) workflow) project_id hp pl repository_id workflow
      (unwrap_or (approval_applies_to (pl_approval pl) (normalize_event (stored_event t))) (wb_approval_required binding)))
      (binding_error, binding) st1"
  have eq: "run_candidate env now t project_id repository_id hp pl c st =
      (if \<not> ref_matches t ?config file_on \<or> revision t = None then (None, st)
       else if ?filtered \<and> \<not> (case file_on of Some spec \<Rightarrow> spec_paths_match spec files | None \<Rightarrow> paths_match ?config files)
       then (None, st1) else ?build)"
    unfolding run_candidate_def Let_def c prod.case f same b by (rule refl)
  consider "run_candidate env now t project_id repository_id hp pl c st = (None, st)"
    | "run_candidate env now t project_id repository_id hp pl c st = (None, st1)"
    | "run_candidate env now t project_id repository_id hp pl c st = ?build"
    unfolding eq by presburger
  then show thesis
  proof cases
    case 3
    with b c same show thesis by (intro that(2)[OF same refl]) simp_all
  qed (simp_all add: that(1) same)
qed

lemma run_candidate_run:
  "table_step\<^sup>*\<^sup>* (tcore (tg_db st)) (tcore (tg_db (snd (run_candidate env now t p r hp pl c st))))"
proof (cases rule: run_candidate_cases[of env now t p r hp pl c st])
  case (2 st1 cfg binding_error binding approval)
  then show ?thesis using start_build_run[of st1] by simp
qed simp

lemma run_pipeline_run:
  "table_step\<^sup>*\<^sup>* (tcore (tg_db st)) (tcore (tg_db (snd (run_pipeline env now t p r x st))))"
proof -
  obtain hp pl where x: "x = (hp, pl)" by fastforce
  obtain cs st1 where c: "candidates env t p hp st = (cs, st1)" by fastforce
  then have "tg_db st1 = tg_db st" using candidates_db(1)[of env t p hp st] by simp
  moreover have "table_step\<^sup>*\<^sup>* (tcore (tg_db st1)) (tcore (tg_db (snd (each (run_candidate env now t p r hp pl) l st1))))" for l
    by (rule each_run[where g = "\<lambda>st. tcore (tg_db st)"]) (rule run_candidate_run)
  ultimately show ?thesis using c by (cases cs) (simp_all add: run_pipeline_def x)
qed

lemma run_project_run:
  "table_step\<^sup>*\<^sup>* (tcore (tg_db st)) (tcore (tg_db (snd (run_project env now t x st))))"
proof -
  obtain p r url where x: "x = (p, r, url)" by (cases x) auto
  have "table_step\<^sup>*\<^sup>* (tcore (tg_db st)) (tcore (tg_db (snd (each (run_pipeline env now t p r) l st))))" for l
    by (rule each_run[where g = "\<lambda>st. tcore (tg_db st)"]) (rule run_pipeline_run)
  then show ?thesis by (cases url) (simp_all add: run_project_def x)
qed

lemma trigger_run: "table_step\<^sup>*\<^sup>* (tcore db) (tcore (snd (trigger_build_from_webhook env now t db)))"
proof -
  let ?st = "\<lparr>tg_db = db, tg_created = [], tg_compared = None, tg_files = [], tg_deferred = None\<rparr>"
  have "table_step\<^sup>*\<^sup>* (tcore (tg_db ?st)) (tcore (tg_db (snd (each (run_project env now t) (linked_projects t db) ?st))))"
    by (rule each_run[where g = "\<lambda>st. tcore (tg_db st)"]) (rule run_project_run)
  then show ?thesis
    by (cases "each (run_project env now t) (linked_projects t db) ?st"; cases "fst (each (run_project env now t) (linked_projects t db) ?st)")
      (simp_all add: trigger_build_from_webhook_def)
qed

subsection \<open>Retries build once\<close>

text \<open>The worker on any delivery, with any answers of the hosts and of the database, between all other transactions.\<close>

inductive work_step :: "trigger_db \<Rightarrow> trigger_db \<Rightarrow> bool" where
  work: "work_round env now db = (taken, db') \<Longrightarrow> work_step db db'"
| process: "process_claimed_webhook env now wid db = (answer, db') \<Longrightarrow> work_step db db'"
| tables: "table_step (tcore db) (tcore db') \<Longrightarrow> work_step db db'"
| other: "tcore db' = tcore db \<Longrightarrow> work_step db db'"

lemma queue_core [simp]:
  "hcore (mark_ignored now wid r db) = hcore db" "hcore (mark_failed now wid r db) = hcore db"
  "hcore (mark_processed now wid db) = hcore db" "hcore (record_webhook_processing_error now wid r db) = hcore db"
  "hcore (snd (claim_next_webhook now db)) = hcore db"
  by (simp_all add: mark_ignored_def mark_failed_def mark_processed_def record_webhook_processing_error_def
      claim_next_webhook_def update_hooks_def split: list.splits)

lemma update_queue_core [simp]: "tcore (update_queue f db) = hcore (f (t_hooks db))"
  by (simp add: update_queue_def)

text \<open>Processing an event is a run of the build tables, and does nothing to them unless the event is to trigger.\<close>

lemma process_event_run:
  "table_step\<^sup>*\<^sup>* (tcore db) (tcore (snd (process_webhook_event env now wid event db)))"
  "webhook_trigger_decision (registered_target_repository_matches (t_hooks db) (we_integration_id event)) event \<noteq> Trigger \<Longrightarrow>
     tcore (snd (process_webhook_event env now wid event db)) = tcore db"
proof -
  let ?d = "webhook_trigger_decision (registered_target_repository_matches (t_hooks db) (we_integration_id event)) event"
  have trigger: "table_step\<^sup>*\<^sup>* (tcore db) (tcore (snd (process_webhook_event env now wid event db)))"
    if "?d = Trigger" "we_repository_full_name event = Some repo" for repo
  proof -
    obtain r db1 where "trigger_build_from_webhook env now (trigger_of wid event repo) db = (r, db1)" by fastforce
    with trigger_run[of db env now "trigger_of wid event repo"] that show ?thesis
      by (cases r) (simp_all add: process_webhook_event_def Let_def)
  qed
  have rest: "tcore (snd (process_webhook_event env now wid event db)) = tcore db"
    if "?d \<noteq> Trigger \<or> we_repository_full_name event = None"
    using that by (cases ?d; cases "we_repository_full_name event") (auto simp: process_webhook_event_def Let_def)
  from trigger rest show "table_step\<^sup>*\<^sup>* (tcore db) (tcore (snd (process_webhook_event env now wid event db)))"
    by (cases ?d; cases "we_repository_full_name event") auto
  from rest show "?d \<noteq> Trigger \<Longrightarrow> tcore (snd (process_webhook_event env now wid event db)) = tcore db" by simp
qed

lemma process_claimed_run: "table_step\<^sup>*\<^sup>* (tcore db) (tcore (snd (process_claimed_webhook env now wid db)))"
proof (cases "claimed_row wid (t_hooks db)")
  case (Some wi)
  obtain w i where "wi = (w, i)" by fastforce
  with Some process_event_run(1) show ?thesis
    by (cases "row_event (t_hooks db) w i") (simp_all add: process_claimed_webhook_def)
qed (simp add: process_claimed_webhook_def)

lemma work_step_ok: "work_step db db' \<Longrightarrow> claims_ok (tcore db) \<Longrightarrow> claims_ok (tcore db')"
proof (induction rule: work_step.induct)
  case (work env now db taken db')
  obtain c hooks where c: "claim_next_webhook now (t_hooks db) = (c, hooks)" by fastforce
  then have h: "hcore hooks = tcore db" using queue_core(5)[of now "t_hooks db"] by simp
  show ?case
  proof (cases c)
    case None
    with work c show ?thesis by (simp add: work_round_def)
  next
    case (Some wid)
    let ?db = "db\<lparr>t_hooks := hooks\<rparr>"
    obtain r db1 where r: "process_claimed_webhook env now wid ?db = (r, db1)" by fastforce
    have "claims_ok (tcore db1)"
      using claims.run_inv[OF process_claimed_run[of ?db env now wid]] work(2) h r by simp
    with work(1) c Some r show ?thesis by (cases r) (auto simp: work_round_def)
  qed
next
  case (process env now wid db answer db')
  then show ?case using claims.run_inv[OF process_claimed_run[of db env now wid]] by simp
next
  case (tables db db')
  then show ?case by (blast intro: table_step_ok)
qed simp

interpretation workers: invariant_of work_step "\<lambda>db. claims_ok (tcore db)"
  by unfold_locales (rule work_step_ok)

text \<open>C22. Retrying is safe. However often and however interrupted a delivery is processed, and whatever the daemon does in
  between, it has at most one build for each pipeline and workflow.\<close>

theorem webhook_builds_once:
  assumes "claims_ok (tcore db)" and "work_step\<^sup>*\<^sup>* db db'"
    and "b \<in> set (builds (tcore db'))" and "b' \<in> set (builds (tcore db'))"
    and "b_webhook_id b = Some wid" and "b_webhook_id b' = Some wid" and "b_pipeline_id b = b_pipeline_id b'"
    and "unwrap_or [] (cs_workflow (b_snapshot b)) = unwrap_or [] (cs_workflow (b_snapshot b'))"
  shows "b = b'"
proof -
  have ok: "claims_ok (tcore db')" using workers.run_inv[OF assms(2,1)] .
  then obtain c c' where c: "c \<in> set (webhook_build_claims (tcore db'))" "wc_build_id c = b_id b"
    "claim_key c = (wid, b_pipeline_id b, unwrap_or [] (cs_workflow (b_snapshot b)))"
    and c': "c' \<in> set (webhook_build_claims (tcore db'))" "wc_build_id c' = b_id b'"
    "claim_key c' = (wid, b_pipeline_id b', unwrap_or [] (cs_workflow (b_snapshot b')))"
    using assms(3-6) unfolding claims_ok_def list_all_iff claimed_def by metis
  have "c = c'" using ok c c' assms(7,8) by (metis claims_ok_def key_unique)
  with c c' have "b_id b = b_id b'" by simp
  moreover have "distinct (map b_id (builds (tcore db')))" using ok by (simp add: claims_ok_def store_inv_def)
  ultimately show ?thesis using assms(3,4) by (metis key_unique)
qed

subsection \<open>Only trusted revisions\<close>

definition trusted_revision :: "hook_db \<Rightarrow> NormalizedWebhookEvent \<Rightarrow> bool" where
  "trusted_revision db event \<longleftrightarrow>
     \<not> no_revision (we_commit_sha event) \<and>
     (let registered = registered_target_repository_matches db (we_integration_id event)
      in if we_event_type event \<in> {''push'', ''Push Hook'', ''Tag Push Hook''}
         then \<not> is_ref_deletion (we_payload event) \<and>
           (\<forall>x n. we_repository_external_id event = Some x \<longrightarrow> we_repository_full_name event = Some n \<longrightarrow> registered x n)
         else we_event_type event \<in> {''pull_request'', ''Merge Request Hook''} \<and>
           (\<exists>x n. we_repository_external_id event = Some x \<and> we_source_repository_external_id event = Some x \<and>
              we_target_repository_external_id event = Some x \<and> we_repository_full_name event = Some n \<and> registered x n))"

lemma change_decision_Trigger:
  assumes "change_decision registered what event = Trigger"
  shows "\<not> no_revision (we_commit_sha event) \<and> (\<exists>x n. we_repository_external_id event = Some x \<and>
    we_source_repository_external_id event = Some x \<and> we_target_repository_external_id event = Some x \<and>
    we_repository_full_name event = Some n \<and> registered x n)"
  using assms by (auto simp: change_decision_def split: if_splits option.splits)

lemma decision_Trigger:
  assumes "webhook_trigger_decision (registered_target_repository_matches db (we_integration_id event)) event = Trigger"
  shows "trusted_revision db event"
proof -
  consider "we_event_type event \<in> {''push'', ''Push Hook'', ''Tag Push Hook''}"
      "push_decision (registered_target_repository_matches db (we_integration_id event)) event = Trigger"
    | what where "we_event_type event \<notin> {''push'', ''Push Hook'', ''Tag Push Hook''}"
      "we_event_type event \<in> {''pull_request'', ''Merge Request Hook''}"
      "change_decision (registered_target_repository_matches db (we_integration_id event)) what event = Trigger"
    using assms unfolding webhook_trigger_decision_def by (auto split: if_splits)
  then show ?thesis
  proof cases
    case 1
    then show ?thesis
      by (auto simp: trusted_revision_def push_decision_def Let_def split: if_splits option.splits)
  next
    case (2 what)
    with change_decision_Trigger[OF 2(3)] show ?thesis unfolding trusted_revision_def Let_def by auto
  qed
qed


subsection \<open>Several workflows of one pipeline\<close>

text \<open>A candidate either starts nothing or inserts its build.\<close>

lemma candidate_created:
  assumes "run_candidate env now t project_id repository_id hp pl c st = (None, st')"
  obtains "tg_created st' = tg_created st"
  | approval tables binding where "tg_created st' = tg_created st @ [tv_new_id env (hp_id hp) (fst c)]"
      "execute_build_insert (hook_binds now t (tv_new_id env (hp_id hp) (fst c)) project_id hp pl repository_id (fst c) approval)
         (tcore (tg_db st)) = Inr (True, tables)" "builds (tcore (tg_db st')) = builds tables"
      "approval = unwrap_or (approval_applies_to (pl_approval pl) (normalize_event (stored_event t))) (wb_approval_required binding)"
      "\<forall>message. workflow_binding (t_library (tg_db st)) project_id (hp_id hp)
         (case map_of (tg_files st) (project_id, trim (hp_config_path hp)) of Some (Inr f) \<Rightarrow> f | _ \<Rightarrow> None) (fst c) = Inl message \<longrightarrow>
       binding = default_binding"
proof (cases rule: run_candidate_cases[of env now t project_id repository_id hp pl c st])
  case 1
  with assms that(1) show thesis by simp
next
  case (2 st1 cfg binding_error binding approval)
  let ?binds = "hook_binds now t (tv_new_id env (hp_id hp) (fst c)) project_id hp pl repository_id (fst c) approval"
  have run: "start_build env ?binds (binding_error, binding) st1 = (None, st')" using 2 assms by simp
  show thesis
  proof (cases rule: start_build_cases[of env ?binds "(binding_error, binding)" st1])
    case (1 e)
    with run show thesis by simp
  next
    case (2 tables)
    with run \<open>tg_created st1 = tg_created st\<close> show thesis by (intro that(1)) auto
  next
    case (3 tables tables' e)
    with run 2 show thesis
      by (intro that(2)[of approval tables binding]) (auto simp: hook_binds_def)
  qed
qed

lemma insert_rows:
  assumes "execute_build_insert b db = Inr (True, db')"
  shows "bi_build_id b \<notin> b_id ` set (builds db)" and
    "\<exists>sel. builds db' = update_where sel (cancel_columns (bi_now b)) (builds db @ [inserted_row b (builds db)]) \<and>
      (\<forall>r. sel r \<longleftrightarrow> bi_cancel_previous b \<and> (\<exists>branch. bi_branch b = Some branch \<and> branch \<noteq> [] \<and>
         superseded b branch (next_build_number (bi_project_id b) (builds db)) r))"
proof -
  from execute_insert_cases[OF assms] obtain w where fresh: "bi_build_id b \<notin> b_id ` set (builds db)"
    and db': "db' = supersede b (inserted_row b (builds db)) (db\<lparr>builds := builds db @ [inserted_row b (builds db)], webhook_build_claims := w\<rparr>)"
    by blast
  then show "bi_build_id b \<notin> b_id ` set (builds db)" by simp
  let ?sel = "\<lambda>r. bi_cancel_previous b \<and> (\<exists>branch. bi_branch b = Some branch \<and> branch \<noteq> [] \<and>
         superseded b branch (next_build_number (bi_project_id b) (builds db)) r)"
  have number: "b_build_number (inserted_row b (builds db)) = next_build_number (bi_project_id b) (builds db)"
    by (simp add: inserted_row_def)
  have "builds db' = update_where ?sel (cancel_columns (bi_now b)) (builds db @ [inserted_row b (builds db)])"
    unfolding db' by (cases "bi_branch b") (auto simp: supersede_def cancel_rows_def number update_where_def)
  then show "\<exists>sel. builds db' = update_where sel (cancel_columns (bi_now b)) (builds db @ [inserted_row b (builds db)]) \<and>
      (\<forall>r. sel r \<longleftrightarrow> ?sel r)" by (intro exI[of _ ?sel]) simp
qed

lemma inserted_stays:
  assumes "execute_build_insert b db = Inr (True, db')"
  shows "inserted_row b (builds db) \<in> set (builds db')"
proof -
  from insert_rows(2)[OF assms] obtain sel where rows: "builds db' = update_where sel (cancel_columns (bi_now b)) (builds db @ [inserted_row b (builds db)])"
    and sel: "\<And>r. sel r \<longleftrightarrow> bi_cancel_previous b \<and> (\<exists>branch. bi_branch b = Some branch \<and> branch \<noteq> [] \<and>
         superseded b branch (next_build_number (bi_project_id b) (builds db)) r)" by blast
  have "\<not> sel (inserted_row b (builds db))" by (simp add: sel superseded_def inserted_row_def)
  then show ?thesis unfolding rows by (auto simp: in_set_update_where)
qed

text \<open>C25. Workflows started side by side cancel each other. When one event starts two workflows of a pipeline that cancels
  previous builds on a branch, the second build cancels the first, although both were started by the same delivery.\<close>

theorem fan_out_cancels_siblings:
  assumes run: "each (run_candidate env now t project_id repository_id hp pl) [c1, c2] st = (None, st2)"
    and created: "tg_created st2 = tg_created st @ [tv_new_id env (hp_id hp) (fst c1), tv_new_id env (hp_id hp) (fst c2)]"
    and cancel: "pl_cancel_previous pl" and branch: "tr_branch t = Some branch" "branch \<noteq> []"
  shows "\<exists>b \<in> set (builds (tcore (tg_db st2))). b_id b = tv_new_id env (hp_id hp) (fst c1) \<and> b_status b = Canceled"
proof -
  let ?binds = "\<lambda>c. hook_binds now t (tv_new_id env (hp_id hp) (fst c)) project_id hp pl repository_id (fst c)"
  from run obtain st1 where r1: "run_candidate env now t project_id repository_id hp pl c1 st = (None, st1)"
    and r2: "run_candidate env now t project_id repository_id hp pl c2 st1 = (None, st2)"
    by (auto split: prod.splits option.splits)
  have grows: "length (tg_created s') \<le> Suc (length (tg_created s))"
    if "run_candidate env now t project_id repository_id hp pl c s = (None, s')" for c s s'
    by (cases rule: candidate_created[OF that]) auto
  obtain a1 tables1 where
    i1: "execute_build_insert (?binds c1 a1) (tcore (tg_db st)) = Inr (True, tables1)" "builds (tcore (tg_db st1)) = builds tables1"
  proof (cases rule: candidate_created[OF r1])
    case 1
    with grows[OF r2] created show thesis by simp
  qed (rule that)
  obtain a2 tables2 where
    i2: "execute_build_insert (?binds c2 a2) (tcore (tg_db st1)) = Inr (True, tables2)" "builds (tcore (tg_db st2)) = builds tables2"
  proof (cases rule: candidate_created[OF r2])
    case 1
    with grows[OF r1] created show thesis by simp
  qed (rule that)
  let ?row = "inserted_row (?binds c1 a1) (builds (tcore (tg_db st)))"
  have row: "?row \<in> set (builds (tcore (tg_db st1)))" using inserted_stays[OF i1(1)] i1(2) by simp
  from insert_rows[OF i2(1)] obtain sel where
    rows: "builds tables2 = update_where sel (cancel_columns now) (builds (tcore (tg_db st1)) @ [inserted_row (?binds c2 a2) (builds (tcore (tg_db st1)))])"
    and sel: "\<And>r. superseded (?binds c2 a2) branch (next_build_number project_id (builds (tcore (tg_db st1)))) r \<Longrightarrow> sel r"
    and fresh: "tv_new_id env (hp_id hp) (fst c2) \<notin> b_id ` set (builds (tcore (tg_db st1)))"
    using cancel branch by (auto simp: hook_binds_def)
  have "b_build_number ?row < next_build_number project_id (builds (tcore (tg_db st1)))"
    using next_build_number_greater[OF row] by (simp add: inserted_row_def hook_binds_def)
  moreover have "tv_new_id env (hp_id hp) (fst c1) \<noteq> tv_new_id env (hp_id hp) (fst c2)"
  proof -
    have "b_id ?row \<in> b_id ` set (builds (tcore (tg_db st1)))" using row by (rule imageI)
    with fresh show ?thesis by (auto simp: inserted_row_def hook_binds_def)
  qed
  ultimately have "sel ?row"
    using branch by (intro sel) (auto simp: superseded_def inserted_row_def hook_binds_def hook_snapshot_def sql_eq_def)
  with row have "cancel_columns now ?row \<in> set (builds tables2)" unfolding rows by (auto simp: in_set_update_where)
  then show ?thesis unfolding i2(2) by (rule bexI[rotated]) (simp add: cancel_columns_def inserted_row_def hook_binds_def)
qed

text \<open>C26. A broken signing reference drops the approval of a workflow. When the settings of a workflow require approval, the
  pipeline's own policy does not, and the file names a signing identity that cannot be resolved, the build a delivery
  starts for the workflow does not wait for approval.\<close>

theorem broken_signing_skips_approval:
  assumes run: "run_candidate env now t project_id repository_id hp pl (Some workflow, file_on) st = (None, st')"
    and created: "tg_created st' \<noteq> tg_created st"
    and settings: "load_workflow_settings (hp_id hp) workflow (t_library (tg_db st)) = Some ws" "ws_approval_required ws = Some True"
    and broken: "workflow_binding (t_library (tg_db st)) project_id (hp_id hp)
      (case map_of (tg_files st) (project_id, trim (hp_config_path hp)) of Some (Inr f) \<Rightarrow> f | _ \<Rightarrow> None) (Some workflow) = Inl message"
    and policy: "\<not> approval_applies_to (pl_approval pl) (normalize_event (stored_event t))"
  shows "\<exists>b \<in> set (builds (tcore (tg_db st'))). b_id b = tv_new_id env (hp_id hp) (Some workflow) \<and>
    b_pipeline_id b = hp_id hp \<and> cs_workflow (b_snapshot b) = Some workflow \<and> b_status b = Queued \<and> b_approval_state b = None"
proof (cases rule: candidate_created[OF run])
  case 1
  with created show ?thesis by simp
next
  case (2 approval tables binding)
  have "binding = default_binding" using 2(5) broken by simp
  with 2(4) policy have "\<not> approval" by (simp add: default_binding_def)
  with inserted_stays[OF 2(2)] 2(3) show ?thesis
    by (intro bexI[where x = "inserted_row (hook_binds now t (tv_new_id env (hp_id hp) (Some workflow)) project_id hp pl repository_id
        (Some workflow) approval) (builds (tcore (tg_db st)))"])
      (simp_all add: inserted_row_def hook_binds_def hook_snapshot_def)
qed

subsection \<open>Witnesses\<close>

definition sample_spec :: TriggerSpec where
  "sample_spec = \<lparr>ts_push = Some AllBranches, ts_pull_request = None, ts_tag = [], ts_paths = []\<rparr>"

definition sample_workflow :: WorkflowSpec where
  "sample_workflow = \<lparr>wf_on = Some sample_spec, wf_targets = None, wf_flavors = None, wf_steps = None, wf_env = [], wf_vars = [], wf_signing = None\<rparr>"

definition sample_file :: "string list \<Rightarrow> SigningSpec \<Rightarrow> ConfigV2" where
  "sample_file names sign = sample_config\<lparr>v2_workflows := map (\<lambda>n. (n, sample_workflow)) names, v2_signing := sign\<rparr>"

lemma sample_file_names: "v2_workflow_names (sample_file names sign) = names"
  by (simp add: v2_workflow_names_def sample_file_def comp_def)

lemma sample_file_triggers: "n \<in> set names \<Longrightarrow> v2_triggers (sample_file names sign) (Some n) = Some sample_spec"
  by (induction names) (auto simp: v2_triggers_def sample_file_def sample_workflow_def split: option.splits)

lemma sample_file_selected: "n \<in> set names \<Longrightarrow> select_workflow (sample_file names sign) (Some n) = Inr (Some (n, sample_workflow))"
proof -
  assume "n \<in> set names"
  then have "fetch_optional (\<lambda>w. fst w = n) (v2_workflows (sample_file names sign)) = Some (n, sample_workflow)"
    unfolding sample_file_def fetch_optional_def by (induction names) auto
  then show ?thesis by (simp add: select_workflow_def Let_def)
qed

lemma sample_file_signing: "n \<in> set names \<Longrightarrow> planned_signing (V2 (sample_file names sign)) (Some n) = Some (sign, False)"
proof -
  assume "n \<in> set names"
  note sel = sample_file_selected[OF this]
  have "\<exists>plan b. lower (sample_file names sign) (Some n) None new_budget False = (Inr plan, b) \<and> plan_signing plan = sign \<and> plan_publish plan = no_publish"
    unfolding lower_def sel sum.case unfolding sample_file_def sample_workflow_def
    by (simp add: lower_eval resolver_eval sample_config_def sample_target_def)
  then show ?thesis by (auto simp: planned_signing_def plan_v2_def needs_app_store_export_def no_publish_def)
qed

definition sample_trigger_env :: trigger_env where
  "sample_trigger_env = \<lparr>tv_load_file = (\<lambda>_ _ _. Inr (Some (File_Parsed ''.oore.yaml''
       (V2 (sample_file [''adhoc'', ''release''] no_signing))))),
     tv_changed_files = (\<lambda>_ _ _. None), tv_interrupt = (\<lambda>_ _. None), tv_event_fails = (\<lambda>_. False),
     tv_new_id = (\<lambda>_ w. unwrap_or [] w)\<rparr>"

definition sample_pipeline :: pipeline where
  "sample_pipeline = \<lparr>pl_id = ''pl1'', pl_project_id = ''p1'', pl_max_concurrent = None, pl_cancel_previous = True,
     pl_timeout_minutes = 60, pl_approval = \<lparr>ap_required = False, ap_events = [], ap_expires_after_hours = None\<rparr>\<rparr>"

definition sample_hook_pipeline :: hook_pipeline where
  "sample_hook_pipeline = \<lparr>hp_id = ''pl1'', hp_enabled = True, hp_config_path = ''.oore.yaml'', hp_trigger_config = None,
     hp_workflow = None, hp_runs_on = []\<rparr>"

definition sample_repositories :: daemon where
  "sample_repositories = empty_core\<lparr>projects := [\<lparr>p_id = ''p1'', p_repository_id = Some ''r1'', p_default_branch = None\<rparr>],
     repositories := [\<lparr>sr_id = ''r1'', sr_integration_id = ''i1'', sr_provider = Github, sr_full_name = ''acme/app''\<rparr>],
     pipelines := [sample_pipeline]\<rparr>"

definition sample_trigger_db :: trigger_db where
  "sample_trigger_db = \<lparr>t_hooks = sample_queue\<lparr>hcore := sample_repositories,
       repo_details := [(''r1'', \<lparr>rd_external_id = ''7'', rd_repo_url = Some ''https://h/acme/app.git''\<rparr>)]\<rparr>,
     t_library = sample_library, t_pipelines = [sample_hook_pipeline]\<rparr>"

definition sample_push :: WebhookBuildTrigger where
  "sample_push = \<lparr>tr_webhook_id = ''w1'', tr_integration_id = ''i1'', tr_repo_full_name = ''acme/app'', tr_event_type = ''push'',
     tr_branch = Some ''main'', tr_tag = None, tr_target_branch = None, tr_commit_sha = Some ''abc'', tr_actor = None,
     tr_changes = Change_Unknown\<rparr>"

definition sample_loop :: trigger_state where
  "sample_loop = \<lparr>tg_db = sample_trigger_db, tg_created = [], tg_compared = None, tg_files = [], tg_deferred = None\<rparr>"

definition sample_broken_file :: ConfigV2 where
  "sample_broken_file = sample_file [''release''] \<lparr>sg_android = Some ''gone'', sg_ios = None\<rparr>"

definition sample_gated_loop :: trigger_state where
  "sample_gated_loop = sample_loop\<lparr>tg_db := sample_trigger_db\<lparr>t_library := sample_library\<lparr>workflow_settings :=
       [((''pl1'', ''release''), default_settings\<lparr>ws_approval_required := Some True\<rparr>)]\<rparr>\<rparr>,
     tg_files := [((''p1'', ''.oore.yaml''), Inr (Some (V2 sample_broken_file)))]\<rparr>"

lemma sample_broken_signing: "planned_signing (V2 sample_broken_file) (Some ''release'') = Some (\<lparr>sg_android = Some ''gone'', sg_ios = None\<rparr>, False)"
  unfolding sample_broken_file_def by (rule sample_file_signing) simp

lemmas sample_run_simps = run_candidate_def ref_matches_def file_event_def stored_event_def normalize_event_def
  to_ascii_lowercase_def to_ascii_lower_def is_ascii_uppercase_def revision_def spec_has_path_filters_def
  workflow_binding_def resolve_workflow_binding_def load_workflow_settings_def bind_identity_def default_settings_def
  approval_applies_to_def start_build_def insert_build_with_retry_def insert_attempts.simps execute_build_insert_def
  insert_allowed_def hook_binds_def hook_snapshot_def empty_core_def exists_row_def sql_eq_def inserted_row_def
  next_build_number_def supersede_def cancel_rows_def superseded_def cancel_columns_def set_tables_def
  record_initial_event_def build_event_row_def Let_def

lemmas sample_simps = sample_push_def sample_spec_def sample_loop_def sample_trigger_env_def sample_trigger_db_def
  sample_library_def sample_hook_pipeline_def sample_pipeline_def sample_repositories_def sample_gated_loop_def
  sample_broken_signing sample_keystore_def

lemma sample_candidates:
  "fst (each (run_candidate sample_trigger_env 1000 sample_push ''p1'' ''r1'' sample_hook_pipeline sample_pipeline)
     [(Some ''adhoc'', Some sample_spec), (Some ''release'', Some sample_spec)] sample_loop) = None \<and>
   tg_created (snd (each (run_candidate sample_trigger_env 1000 sample_push ''p1'' ''r1'' sample_hook_pipeline sample_pipeline)
     [(Some ''adhoc'', Some sample_spec), (Some ''release'', Some sample_spec)] sample_loop)) = [''adhoc'', ''release'']"
  by (simp add: sample_run_simps sample_simps)

theorem fan_out_cancels_siblings_witness:
  "\<exists>b \<in> set (builds (tcore (tg_db (snd (each
       (run_candidate sample_trigger_env 1000 sample_push ''p1'' ''r1'' sample_hook_pipeline sample_pipeline)
       [(Some ''adhoc'', Some sample_spec), (Some ''release'', Some sample_spec)] sample_loop))))).
     b_id b = ''adhoc'' \<and> b_status b = Canceled"
proof -
  let ?run = "each (run_candidate sample_trigger_env 1000 sample_push ''p1'' ''r1'' sample_hook_pipeline sample_pipeline)
    [(Some ''adhoc'', Some sample_spec), (Some ''release'', Some sample_spec)] sample_loop"
  have "?run = (None, snd ?run)" using sample_candidates by (metis prod.collapse)
  from fan_out_cancels_siblings[OF this, of "''main''"] sample_candidates show ?thesis
    by (simp add: sample_trigger_env_def sample_pipeline_def sample_push_def sample_loop_def)
qed

lemma sample_broken:
  "workflow_binding (t_library (tg_db sample_gated_loop)) ''p1'' ''pl1''
     (Some (V2 sample_broken_file)) (Some ''release'') =
   Inl (''workflow release signs android with '' @ CHR 0x27 # ''gone'' @ CHR 0x27 # '', which is not in the project'' @ CHR 0x27 #
     ''s signing identities; add it under Project settings > Signing, or fix signing.android'')"
  by (simp add: workflow_binding_def resolve_workflow_binding_def load_workflow_settings_def bind_identity_def default_settings_def
      fetch_optional_def binding_scope_def trim_def is_ws_def sample_simps)

lemma sample_gated:
  "fst (run_candidate sample_trigger_env 1000 sample_push ''p1'' ''r1'' sample_hook_pipeline sample_pipeline
     (Some ''release'', Some sample_spec) sample_gated_loop) = None \<and>
   tg_created (snd (run_candidate sample_trigger_env 1000 sample_push ''p1'' ''r1'' sample_hook_pipeline sample_pipeline
     (Some ''release'', Some sample_spec) sample_gated_loop)) = [''release'']"
  by (simp add: sample_run_simps sample_simps fetch_optional_def default_binding_def trim_def is_ws_def)

theorem broken_signing_skips_approval_witness:
  "\<exists>b \<in> set (builds (tcore (tg_db (snd (run_candidate sample_trigger_env 1000 sample_push ''p1'' ''r1'' sample_hook_pipeline
       sample_pipeline (Some ''release'', Some sample_spec) sample_gated_loop))))).
     b_id b = ''release'' \<and> b_status b = Queued \<and> b_approval_state b = None"
proof -
  let ?run = "run_candidate sample_trigger_env 1000 sample_push ''p1'' ''r1'' sample_hook_pipeline sample_pipeline
    (Some ''release'', Some sample_spec) sample_gated_loop"
  have run: "?run = (None, snd ?run)" using sample_gated by (metis prod.collapse)
  have "tg_created (snd ?run) \<noteq> tg_created sample_gated_loop" using sample_gated by (simp add: sample_gated_loop_def sample_loop_def)
  moreover have "load_workflow_settings (hp_id sample_hook_pipeline) ''release'' (t_library (tg_db sample_gated_loop)) =
      Some (default_settings\<lparr>ws_approval_required := Some True\<rparr>)"
    by (simp add: load_workflow_settings_def sample_simps)
  moreover have "(case map_of (tg_files sample_gated_loop) (''p1'', trim (hp_config_path sample_hook_pipeline)) of
      Some (Inr f) \<Rightarrow> f | _ \<Rightarrow> None) = Some (V2 sample_broken_file)"
    by (simp add: sample_gated_loop_def sample_hook_pipeline_def trim_def is_ws_def)
  moreover have "\<not> approval_applies_to (pl_approval sample_pipeline) e" for e by (simp add: approval_applies_to_def sample_pipeline_def)
  ultimately show ?thesis
    using broken_signing_skips_approval[OF run, of "default_settings\<lparr>ws_approval_required := Some True\<rparr>"] sample_broken
    by (auto simp: sample_hook_pipeline_def sample_trigger_env_def)
qed

lemma empty_claims_ok: "claims_ok sample_repositories"
  by (simp add: claims_ok_def sample_repositories_def empty_core_def store_inv_def)

theorem webhook_builds_once_witness:
  "\<exists>tables tables'. execute_build_insert (hook_binds 1000 sample_push ''b1'' ''p1'' sample_hook_pipeline sample_pipeline ''r1''
       (Some ''release'') False) sample_repositories = Inr (True, tables) \<and>
     execute_build_insert (hook_binds 1030 sample_push ''b2'' ''p1'' sample_hook_pipeline sample_pipeline ''r1''
       (Some ''release'') False) tables = Inr (False, tables') \<and>
     (\<exists>!b. b \<in> set (builds tables') \<and> b_webhook_id b = Some ''w1'' \<and> b_pipeline_id b = ''pl1'' \<and>
        unwrap_or [] (cs_workflow (b_snapshot b)) = ''release'')"
proof -
  let ?binds = "\<lambda>now bid. hook_binds now sample_push bid ''p1'' sample_hook_pipeline sample_pipeline ''r1'' (Some ''release'') False"
  let ?db = "\<lambda>tables. set_tables tables sample_trigger_db"
  have "\<exists>tables. execute_build_insert (?binds 1000 ''b1'') sample_repositories = Inr (True, tables) \<and>
      (\<exists>tables'. execute_build_insert (?binds 1030 ''b2'') tables = Inr (False, tables'))"
    by (simp add: sample_run_simps sample_simps)
  then obtain tables tables' where first: "execute_build_insert (?binds 1000 ''b1'') sample_repositories = Inr (True, tables)"
    and again: "execute_build_insert (?binds 1030 ''b2'') tables = Inr (False, tables')" by blast
  from again have same: "tables' = tables" by (auto simp: execute_build_insert_def Let_def split: if_splits option.splits)
  have "work_step (?db sample_repositories) (?db tables)" "work_step (?db tables) (?db tables')"
    by (rule work_step.tables, simp, rule table_step.insert, rule first, rule work_step.tables, simp, rule table_step.insert, rule again)
  then have run: "work_step\<^sup>*\<^sup>* (?db sample_repositories) (?db tables')" by auto
  have ok: "claims_ok (tcore (?db sample_repositories))" using empty_claims_ok by simp
  let ?row = "inserted_row (?binds 1000 ''b1'') (builds sample_repositories)"
  have row: "?row \<in> set (builds tables')" using inserted_stays[OF first] same by simp
  have cols: "b_webhook_id ?row = Some ''w1''" "b_pipeline_id ?row = ''pl1''" "unwrap_or [] (cs_workflow (b_snapshot ?row)) = ''release''"
    by (simp_all add: inserted_row_def hook_binds_def hook_snapshot_def sample_simps)
  have "\<exists>!b. b \<in> set (builds tables') \<and> b_webhook_id b = Some ''w1'' \<and> b_pipeline_id b = ''pl1'' \<and>
        unwrap_or [] (cs_workflow (b_snapshot b)) = ''release''"
  proof (rule ex1I[of _ ?row])
    show "?row \<in> set (builds tables') \<and> b_webhook_id ?row = Some ''w1'' \<and> b_pipeline_id ?row = ''pl1'' \<and>
        unwrap_or [] (cs_workflow (b_snapshot ?row)) = ''release''" using row cols by blast
    fix b assume b: "b \<in> set (builds tables') \<and> b_webhook_id b = Some ''w1'' \<and> b_pipeline_id b = ''pl1'' \<and>
        unwrap_or [] (cs_workflow (b_snapshot b)) = ''release''"
    show "b = ?row"
      by (rule webhook_builds_once[OF ok run, where wid = "''w1''"]) (use b row cols in \<open>simp_all only: tables_simps\<close>)
  qed
  with first again show ?thesis by blast
qed

definition sample_claimed_db :: trigger_db where
  "sample_claimed_db = sample_trigger_db\<lparr>t_hooks := (t_hooks sample_trigger_db)\<lparr>hook_rows :=
     [(received_row ''w1'' ''i1'' ''d1'' ''push'' sample_payload 1000)\<lparr>wh_processing_started_at := Some 1001, wh_processing_attempts := 1\<rparr>]\<rparr>\<rparr>"

lemma sample_event:
  "normalize_github_event ''push'' ''d1'' ''i1'' sample_payload =
     \<lparr>we_provider = ''github'', we_event_type = ''push'', we_delivery_id = ''d1'', we_integration_id = ''i1'',
      we_repository_full_name = Some ''acme/app'', we_repository_external_id = Some ''7'',
      we_source_repository_external_id = None, we_target_repository_external_id = None, we_action = None,
      we_change_number = None, we_branch = Some ''main'', we_tag = None, we_commit_sha = Some ''abc'',
      we_previous_commit_sha = None, we_changed_files = None, we_compare_base = None, we_target_branch = None,
      we_actor = None, we_payload = sample_payload\<rparr>"
proof -
  have "show_nat 7 = ''7''" by code_simp
  then show ?thesis
    by (simp add: normalize_github_event_def Let_def sample_payload_def jstr_def json_id_def git_ref_def strip_prefix_def
        starts_with_def push_changed_files_def trim_def is_ws_def)
qed

lemma sample_processed:
  "builds (tcore (snd (process_claimed_webhook sample_trigger_env 1002 ''w1'' sample_claimed_db))) \<noteq> []"
proof -
  have row: "claimed_row ''w1'' (t_hooks sample_claimed_db) = Some (hd (hook_rows (t_hooks sample_claimed_db)),
      \<lparr>ig_id = ''i1'', ig_provider = Github, ig_status = ''active''\<rparr>)"
    by (simp add: claimed_row_def sample_claimed_db_def fetch_optional_def unsettled_def received_row_def sample_trigger_db_def
        sample_queue_def sample_hooks_def)
  have event: "row_event (t_hooks sample_claimed_db) (hd (hook_rows (t_hooks sample_claimed_db)))
      \<lparr>ig_id = ''i1'', ig_provider = Github, ig_status = ''active''\<rparr> = Inr (normalize_github_event ''push'' ''d1'' ''i1'' sample_payload)"
    by (simp add: row_event_def sample_claimed_db_def received_row_def)
  have decision: "webhook_trigger_decision (registered_target_repository_matches (t_hooks sample_claimed_db) ''i1'')
      (normalize_github_event ''push'' ''d1'' ''i1'' sample_payload) = Trigger"
    unfolding sample_event
    by (simp add: webhook_trigger_decision_def push_decision_def is_ref_deletion_def jstr_def sample_payload_def
        no_revision_def registered_target_repository_matches_def exists_row_def sample_claimed_db_def sample_simps)
  have "builds (tcore (snd (trigger_build_from_webhook sample_trigger_env 1002
      (trigger_of ''w1'' (normalize_github_event ''push'' ''d1'' ''i1'' sample_payload) ''acme/app'') sample_claimed_db))) \<noteq> []"
    by (simp add: sample_event trigger_of_def event_changes_def trigger_build_from_webhook_def linked_projects_def run_project_def
        enabled_pipelines_def map_filter_def run_pipeline_def candidates_def read_file_def pipeline_file_at_def sample_file_names sample_file_triggers sample_file_signing no_signing_def
        fetch_optional_def trim_def is_ws_def sample_claimed_db_def sample_run_simps sample_simps)
  with row event decision show ?thesis
    by (cases "trigger_build_from_webhook sample_trigger_env 1002
      (trigger_of ''w1'' (normalize_github_event ''push'' ''d1'' ''i1'' sample_payload) ''acme/app'') sample_claimed_db"; cases "fst (trigger_build_from_webhook sample_trigger_env 1002
      (trigger_of ''w1'' (normalize_github_event ''push'' ''d1'' ''i1'' sample_payload) ''acme/app'') sample_claimed_db)")
      (auto simp: process_claimed_webhook_def process_webhook_event_def Let_def sample_event)
qed


end
