(* ===== verification/Runner_Plans.thy ===== *)
theory Runner_Plans
  imports Repository_Plans
begin

text \<open>
  How a runner comes to the plan it executes, and when it must stop, from \<^verbatim>\<open>crates/oore-runner/src/lib.rs\<close>: the checks of
  the settings form's configuration, \<open>resolve_execution_plan\<close>, the check of the host's Flutter, and
  \<open>BuildAuthorityState\<close> with \<open>check_build_active\<close>; and how a file's uploads change the pipeline's publish settings
  (\<open>PlanPublish::apply\<close> of \<^verbatim>\<open>crates/oore-contract/src/pipeline_config.rs\<close>).

  The file system and the JSON reader are other code: a workspace is given as what reading it gives, a job's
  snapshot as its decoded fields.
\<close>

subsection \<open>Checks of the settings form's configuration\<close>

fun validate_command_list :: "string \<Rightarrow> nat \<Rightarrow> string list \<Rightarrow> string + string list" where
  "validate_command_list path i [] = Inr []"
| "validate_command_list path i (command # commands) =
     (if trim command = [] then Inl (indexed path i @ '' must not be empty'')
      else case validate_command_list path (Suc i) commands of Inl e \<Rightarrow> Inl e | Inr cs \<Rightarrow> Inr (trim command # cs))"

definition normalize_flutter_version :: "string option \<Rightarrow> string \<Rightarrow> string + string option" where
  "normalize_flutter_version v field_path =
     (case v of
        None \<Rightarrow> Inr None
      | Some raw \<Rightarrow> if trim raw = [] then Inl (field_path @ '' must not be empty'') else Inr (Some (trim raw)))"

fun validate_artifact_patterns :: "nat \<Rightarrow> string list \<Rightarrow> string + string list" where
  "validate_artifact_patterns i [] = Inr []"
| "validate_artifact_patterns i (pattern # patterns) =
     (case validate_artifact_pattern (trim pattern) of
        Some e \<Rightarrow> Inl (indexed ''artifacts.patterns'' i @ '' '' @ e)
      | None \<Rightarrow> (case validate_artifact_patterns (Suc i) patterns of Inl e \<Rightarrow> Inl e | Inr ps \<Rightarrow> Inr (trim pattern # ps)))"

definition validate_platform_command :: "string option \<Rightarrow> string \<Rightarrow> string + string option" where
  "validate_platform_command command path =
     (case command of
        None \<Rightarrow> Inr None
      | Some v \<Rightarrow> if trim v = [] then Inl (path @ '' must not be empty when provided'') else Inr (Some (trim v)))"

fun validate_env_vars :: "string set \<Rightarrow> nat \<Rightarrow> PipelineEnvVar list \<Rightarrow> string + PipelineEnvVar list" where
  "validate_env_vars seen i [] = Inr []"
| "validate_env_vars seen i (pair # env) =
     (let key = trim (ev_key pair); path = ''env['' @ show_nat i @ '']''
      in if key = [] then Inl (path @ ''.key must not be empty'')
         else if \<not> is_valid_pipeline_env_key key then Inl (path @ ''.key must match [A-Za-z_][A-Za-z0-9_]*'')
         else if key \<in> seen then Inl (''env contains duplicate key '' @ squoted key)
         else (case validate_env_vars (insert key seen) (Suc i) env of
                 Inl e \<Rightarrow> Inl e | Inr vs \<Rightarrow> Inr (\<lparr>ev_key = key, ev_value = trim (ev_value pair)\<rparr> # vs)))"

definition normalize_execution_config :: "PipelineExecutionConfig \<Rightarrow> string + PipelineExecutionConfig" where
  "normalize_execution_config config =
     (if ec_platforms config = [] then Inl ''platforms must include at least one target''
      else
        and_then (validate_command_list ''commands.pre_build'' 0 (cs_pre_build (ec_commands config))) (\<lambda>pre_build.
        and_then (validate_command_list ''commands.build'' 0 (cs_build (ec_commands config))) (\<lambda>build.
        and_then (validate_command_list ''commands.post_build'' 0 (cs_post_build (ec_commands config))) (\<lambda>post_build.
        and_then (validate_command_list ''platform_build_args.android'' 0 (pa_android (ec_platform_build_args config))) (\<lambda>android_args.
        and_then (validate_command_list ''platform_build_args.ios'' 0 (pa_ios (ec_platform_build_args config))) (\<lambda>ios_args.
        and_then (validate_command_list ''platform_build_args.macos'' 0 (pa_macos (ec_platform_build_args config))) (\<lambda>macos_args.
        and_then (validate_platform_command (pk_android (ec_platform_commands config)) ''platform_commands.android'') (\<lambda>android.
        and_then (validate_platform_command (pk_ios (ec_platform_commands config)) ''platform_commands.ios'') (\<lambda>ios.
        and_then (validate_platform_command (pk_macos (ec_platform_commands config)) ''platform_commands.macos'') (\<lambda>macos.
        and_then (validate_env_vars {} 0 (ec_env config)) (\<lambda>env.
        and_then (validate_artifact_patterns 0 (ec_artifact_patterns config)) (\<lambda>patterns.
        and_then (normalize_flutter_version (ec_flutter_version config) ''flutter_version'') (\<lambda>flutter_version.
        case validate_build_number_offset (ec_build_number_offset config) of
          Some e \<Rightarrow> Inl (''build_number_offset '' @ e)
        | None \<Rightarrow>
            (case normalize_runner_labels (ec_runs_on config) of
               Inl e \<Rightarrow> Inl (''runs_on '' @ e)
             | Inr runs_on \<Rightarrow>
                 Inr \<lparr>ec_platforms = ec_platforms config, ec_flutter_version = flutter_version,
                   ec_commands = \<lparr>cs_pre_build = pre_build, cs_build = build, cs_post_build = post_build\<rparr>,
                   ec_platform_build_args = \<lparr>pa_android = android_args, pa_ios = ios_args, pa_macos = macos_args\<rparr>,
                   ec_platform_commands = \<lparr>pk_android = android, pk_ios = ios, pk_macos = macos\<rparr>,
                   ec_env = env, ec_artifact_patterns = patterns, ec_build_number_offset = ec_build_number_offset config,
                   ec_runs_on = runs_on, ec_isolation = ec_isolation config\<rparr>))))))))))))))"

subsection \<open>The plan of a job\<close>

record job_snapshot =
  sn_config_path_explicit :: "bool option"
  sn_config_path :: "string option"
  sn_workflow :: "string option"
  sn_runner_labels :: "string list option"
  sn_selected_platforms :: "string + BuildPlatform list option"
  sn_ui_execution_config :: "(string + PipelineExecutionConfig) option"

datatype config_file = File_Absent | File_Unresolved string | File_Outside | File_Unreadable string | File_Content repository_file

datatype fvmrc_file = Fvm_Absent | Fvm_Unreadable string | Fvm_Text string

record workspace_files =
  wk_path :: string
  wk_resolved :: "string option"
  wk_fvmrc :: fvmrc_file
  wk_file :: "string \<Rightarrow> config_file"

record json_reader =
  js_flutter_field :: "string \<Rightarrow> string + string"
  js_string :: "string \<Rightarrow> string + string"

definition in_workspace :: "workspace_files \<Rightarrow> string \<Rightarrow> string" where
  "in_workspace ws rel = wk_path ws @ ''/'' @ rel"

definition read_fvmrc_version :: "json_reader \<Rightarrow> workspace_files \<Rightarrow> string + string option" where
  "read_fvmrc_version json ws =
     (let path = in_workspace ws ''.fvmrc''
      in case wk_fvmrc ws of
           Fvm_Absent \<Rightarrow> Inr None
         | Fvm_Unreadable e \<Rightarrow> Inl (''failed to read '' @ path @ '': '' @ e)
         | Fvm_Text raw \<Rightarrow>
             let trimmed = trim raw
             in if trimmed = [] then Inl (path @ '' is empty'')
                else if starts_with ''{'' trimmed
                then (case js_flutter_field json trimmed of
                        Inl e \<Rightarrow> Inl (''failed to parse '' @ path @ '' as JSON object with '' @ squoted ''flutter'' @ '': '' @ e)
                      | Inr v \<Rightarrow> normalize_flutter_version (Some v) ''.fvmrc.flutter'')
                else if starts_with [CHR 0x22] trimmed
                then (case js_string json trimmed of
                        Inl e \<Rightarrow> Inl (''failed to parse '' @ path @ '' as JSON string: '' @ e)
                      | Inr v \<Rightarrow> normalize_flutter_version (Some v) ''.fvmrc'')
                else normalize_flutter_version (Some trimmed) ''.fvmrc'')"

definition AUTO_CONFIG_PATHS :: "string list" where
  "AUTO_CONFIG_PATHS = [''.oore.yaml'', ''.oore.yml'']"

definition DEFAULT_FLUTTER_VERSION :: string where
  "DEFAULT_FLUTTER_VERSION = ''stable''"

definition candidate_paths :: "job_snapshot \<Rightarrow> string + string list" where
  "candidate_paths snapshot =
     (let path = trim (unwrap_or ''.oore.yaml'' (sn_config_path snapshot))
      in if unwrap_or False (sn_config_path_explicit snapshot) \<and> path \<noteq> ''.oore.yaml''
         then (case validate_repository_config_path path of
                 Some e \<Rightarrow> Inl (''Invalid explicit repository config path: '' @ e) | None \<Rightarrow> Inr [path])
         else Inr AUTO_CONFIG_PATHS)"

definition require_runner_labels :: "string list \<Rightarrow> job_snapshot \<Rightarrow> string \<Rightarrow> string option" where
  "require_runner_labels runs_on snapshot config_path =
     (case sn_runner_labels snapshot of
        None \<Rightarrow> None
      | Some labels \<Rightarrow>
          let missing = missing_runner_labels runs_on labels
          in if missing = [] then None
             else Some (config_path @ '' sets runs_on ['' @ join '', '' runs_on @ ''], but this runner lacks ['' @ join '', '' missing @
               '']. Set the same runs_on on the pipeline so the scheduler picks a matching runner''))"

definition selected_platforms :: "job_snapshot \<Rightarrow> string + BuildPlatform list option" where
  "selected_platforms snapshot =
     (case sn_selected_platforms snapshot of Inl e \<Rightarrow> Inl (''Invalid selected_platforms in snapshot: '' @ e) | Inr s \<Rightarrow> Inr s)"

definition load_ui_execution_config :: "job_snapshot \<Rightarrow> string + PipelineExecutionConfig" where
  "load_ui_execution_config snapshot =
     (case sn_ui_execution_config snapshot of
        None \<Rightarrow> Inr default_execution_config
      | Some (Inl e) \<Rightarrow> Inl (''Invalid ui_execution_config in snapshot: '' @ e)
      | Some (Inr config) \<Rightarrow> normalize_execution_config config)"

definition needs_xcode :: "BuildPlatform list \<Rightarrow> bool" where
  "needs_xcode platforms \<longleftrightarrow> list_ex (\<lambda>p. p = Ios \<or> p = Macos) platforms"

definition resolved_plan :: "PipelinePlan \<Rightarrow> string option \<Rightarrow> string \<Rightarrow> ResolvedExecutionPlan" where
  "resolved_plan plan fvmrc source = \<lparr>rp_steps = plan_steps plan, rp_artifact_patterns = plan_artifact_patterns plan, rp_env = plan_env plan,
     rp_secret_env = [], rp_secret_env_keys = {}, rp_build_number_offset = plan_build_number_offset plan, rp_isolation = plan_isolation plan,
     rp_needs_xcode = needs_xcode (plan_platforms plan),
     rp_flutter_version = (case fvmrc of Some v \<Rightarrow> v | None \<Rightarrow> unwrap_or DEFAULT_FLUTTER_VERSION (plan_flutter_version plan)),
     rp_source = source, rp_publish = plan_publish plan, rp_size_budgets = plan_size_budgets plan, rp_platforms = plan_platforms plan\<rparr>"

definition plan_from_file ::
  "workspace_files \<Rightarrow> job_snapshot \<Rightarrow> bool \<Rightarrow> string option \<Rightarrow> string \<Rightarrow> repository_file \<Rightarrow> string + ResolvedExecutionPlan" where
  "plan_from_file ws snapshot build_play_bundle fvmrc rel file =
     (case parse_repository_config file of
        Inl e \<Rightarrow> Inl (''Invalid pipeline config in '' @ in_workspace ws rel @ '': '' @ e)
      | Inr config \<Rightarrow>
          (case require_runner_labels (config_runs_on config) snapshot rel of
             Some e \<Rightarrow> Inl e
           | None \<Rightarrow>
               and_then (selected_platforms snapshot) (\<lambda>selected.
                 case config_plan config \<lparr>pr_workflow = sn_workflow snapshot, pr_selected_platforms = selected,
                        pr_build_play_bundle = build_play_bundle\<rparr> of
                   Inl e \<Rightarrow> Inl (rel @ '': '' @ e)
                 | Inr plan \<Rightarrow> Inr (resolved_plan plan fvmrc (''file:'' @ in_workspace ws rel)))))"

text \<open>Without a file, the settings form's configuration; its plan uploads nothing of its own.\<close>

definition plan_from_settings :: "job_snapshot \<Rightarrow> bool \<Rightarrow> string option \<Rightarrow> string + ResolvedExecutionPlan" where
  "plan_from_settings snapshot build_play_bundle fvmrc =
     and_then (load_ui_execution_config snapshot) (\<lambda>config.
     and_then (selected_platforms snapshot) (\<lambda>selected.
     and_then (case selected of Some s \<Rightarrow> select_v1_platforms config s | None \<Rightarrow> Inr config) (\<lambda>fallback.
       Inr (resolved_plan (plan_execution_config fallback True build_play_bundle) fvmrc ''ui_fallback''))))"

fun plan_from ::
  "workspace_files \<Rightarrow> job_snapshot \<Rightarrow> bool \<Rightarrow> string option \<Rightarrow> string list \<Rightarrow> string + ResolvedExecutionPlan" where
  "plan_from ws snapshot build_play_bundle fvmrc [] = plan_from_settings snapshot build_play_bundle fvmrc"
| "plan_from ws snapshot build_play_bundle fvmrc (rel # paths) =
     (case wk_file ws rel of
        File_Absent \<Rightarrow> plan_from ws snapshot build_play_bundle fvmrc paths
      | File_Unresolved e \<Rightarrow> Inl (''Failed to resolve repository config file '' @ in_workspace ws rel @ '': '' @ e)
      | File_Outside \<Rightarrow> Inl (''Repository config path resolves outside the build workspace: '' @ in_workspace ws rel)
      | File_Unreadable e \<Rightarrow> Inl (''Failed to read config file '' @ in_workspace ws rel @ '': '' @ e)
      | File_Content file \<Rightarrow> plan_from_file ws snapshot build_play_bundle fvmrc rel file)"

definition resolve_execution_plan :: "json_reader \<Rightarrow> workspace_files \<Rightarrow> job_snapshot \<Rightarrow> bool \<Rightarrow> string + ResolvedExecutionPlan" where
  "resolve_execution_plan json ws snapshot build_play_bundle =
     and_then (candidate_paths snapshot) (\<lambda>paths.
     and_then (read_fvmrc_version json ws) (\<lambda>fvmrc.
       case wk_resolved ws of
         Some e \<Rightarrow> Inl (''Failed to resolve build workspace: '' @ e)
       | None \<Rightarrow> plan_from ws snapshot build_play_bundle fvmrc paths))"

subsection \<open>Where a plan comes from\<close>

lemma plan_from_file_Inr:
  assumes "plan_from_file ws snapshot bundle fvmrc rel f = Inr plan"
  obtains config selected p where "parse_repository_config f = Inr config" "require_runner_labels (config_runs_on config) snapshot rel = None"
    "config_plan config \<lparr>pr_workflow = sn_workflow snapshot, pr_selected_platforms = selected, pr_build_play_bundle = bundle\<rparr> = Inr p"
    "plan = resolved_plan p fvmrc (''file:'' @ in_workspace ws rel)"
proof -
  from assms obtain config where 1: "parse_repository_config f = Inr config" by (auto simp: plan_from_file_def split: sum.splits)
  with assms have 2: "require_runner_labels (config_runs_on config) snapshot rel = None" by (auto simp: plan_from_file_def split: option.splits)
  from assms 1 2 obtain selected where 3: "(case config_plan config
      \<lparr>pr_workflow = sn_workflow snapshot, pr_selected_platforms = selected, pr_build_play_bundle = bundle\<rparr> of
        Inl e \<Rightarrow> Inl (rel @ '': '' @ e) | Inr plan \<Rightarrow> Inr (resolved_plan plan fvmrc (''file:'' @ in_workspace ws rel))) = Inr plan"
    by (auto simp: plan_from_file_def and_then_eq_Inr)
  then obtain p where "config_plan config \<lparr>pr_workflow = sn_workflow snapshot, pr_selected_platforms = selected, pr_build_play_bundle = bundle\<rparr> = Inr p"
    by (cases "config_plan config \<lparr>pr_workflow = sn_workflow snapshot, pr_selected_platforms = selected, pr_build_play_bundle = bundle\<rparr>") simp_all
  with 3 that[OF 1 2] show thesis by simp
qed

lemma plan_from_origin:
  "plan_from ws snapshot bundle fvmrc paths = Inr plan \<Longrightarrow>
     phases_in_order (rp_steps plan) \<and>
     ((\<exists>rel file config. rel \<in> set paths \<and> wk_file ws rel = File_Content file \<and> parse_repository_config file = Inr config \<and>
         rp_source plan = ''file:'' @ in_workspace ws rel \<and>
         (\<forall>labels. sn_runner_labels snapshot = Some labels \<longrightarrow> set (config_runs_on config) \<subseteq> set labels)) \<or>
      list_all (\<lambda>rel. wk_file ws rel = File_Absent) paths \<and> rp_source plan = ''ui_fallback'' \<and> rp_publish plan = no_publish)"
proof (induction paths)
  case Nil
  then show ?case
    by (auto simp: plan_from_settings_def and_then_eq_Inr resolved_plan_def plan_execution_phases)
       (simp_all add: plan_execution_config_def Let_def)
next
  case (Cons rel paths)
  show ?case
  proof (cases "wk_file ws rel")
    case File_Absent
    with Cons show ?thesis by auto
  next
    case (File_Content f)
    with Cons.prems have "plan_from_file ws snapshot bundle fvmrc rel f = Inr plan" by simp
    then obtain config selected p where "parse_repository_config f = Inr config" "require_runner_labels (config_runs_on config) snapshot rel = None"
      "config_plan config \<lparr>pr_workflow = sn_workflow snapshot, pr_selected_platforms = selected, pr_build_play_bundle = bundle\<rparr> = Inr p"
      "plan = resolved_plan p fvmrc (''file:'' @ in_workspace ws rel)" by (rule plan_from_file_Inr)
    moreover from this(2) have "set (config_runs_on config) \<subseteq> set labels" if "sn_runner_labels snapshot = Some labels" for labels
      using that by (auto simp: require_runner_labels_def Let_def no_missing_labels split: if_splits)
    ultimately show ?thesis using File_Content config_plan_phases by (auto simp: resolved_plan_def)
  qed (use Cons.prems in simp_all)
qed

lemma resolve_plan_from:
  "resolve_execution_plan json ws snapshot bundle = Inr plan \<Longrightarrow>
     \<exists>paths fvmrc. candidate_paths snapshot = Inr paths \<and> plan_from ws snapshot bundle fvmrc paths = Inr plan"
  by (auto simp: resolve_execution_plan_def and_then_eq_Inr split: option.splits)


definition sample_snapshot :: job_snapshot where
  "sample_snapshot = \<lparr>sn_config_path_explicit = Some True, sn_config_path = Some ''.oore.yaml'', sn_workflow = None,
     sn_runner_labels = Some [''macos''], sn_selected_platforms = Inr None, sn_ui_execution_config = None\<rparr>"

definition sample_json :: json_reader where
  "sample_json = \<lparr>js_flutter_field = (\<lambda>_. Inl ''no JSON''), js_string = (\<lambda>_. Inl ''no JSON'')\<rparr>"

definition sample_workspace :: workspace_files where
  "sample_workspace = \<lparr>wk_path = ''/w'', wk_resolved = None, wk_fvmrc = Fvm_Text ''3.22.0'', wk_file = (\<lambda>rel.
     if rel = ''.oore.yml'' then File_Content \<lparr>fl_version = Version_Whole 2, fl_v1 = Inl ''unknown field'', fl_v2 = Inr sample_config\<rparr>
     else File_Absent)\<rparr>"

lemma sample_runs_on: "v2_runs_on sample_config = []"
  by (simp add: sample_config_def)

lemma sample_planned: "\<exists>p. plan_v2 sample_config None None = Inr p"
proof -
  from sample_lowered obtain plan b where "lower sample_config None None new_budget True = (Inr plan, b)"
    by (cases "lower sample_config None None new_budget True"; cases "fst (lower sample_config None None new_budget True)") auto
  moreover have "single_groups sample_config" by (simp add: single_groups_def few_groups_def sample_config_def sample_target_def)
  ultimately show ?thesis using lower_fresh by (fastforce simp: plan_v2_def)
qed


end
