(* ===== verification/Runner_Control.thy ===== *)
theory Runner_Control
  imports Runner_Labels
begin

text \<open>
  A runner's contact with the backend while it builds, from \<^verbatim>\<open>crates/oore-runner/src/lib.rs\<close>: \<open>BuildAuthorityState\<close> with
  \<open>check_build_active\<close> and \<open>poll_cancellation\<close>, the final report of \<open>execute_claimed_job\<close>, and
  \<open>report_status_with_retry\<close>.

  Time is in milliseconds. A request is given by what comes back; the text of an HTTP status is other
  code's and an argument. A poisoned lock is not modelled: nothing panics while it is held.
\<close>

subsection \<open>Authority over a build\<close>

definition CONTROLLER_GRACE :: int where "CONTROLLER_GRACE = 300 * 1000"
definition CONTROLLER_UNAVAILABLE :: string where "CONTROLLER_UNAVAILABLE = ''controller_unavailable''"

datatype runner_error = BuildTerminated string | Other_Error string

record BuildAuthorityState =
  au_last_confirmed :: int
  au_grace :: int
  au_terminated :: "string option"

definition with_grace :: "int \<Rightarrow> int \<Rightarrow> BuildAuthorityState" where
  "with_grace now grace = \<lparr>au_last_confirmed = now, au_grace = grace, au_terminated = None\<rparr>"

definition confirmed_active :: "int \<Rightarrow> BuildAuthorityState \<Rightarrow> BuildAuthorityState" where
  "confirmed_active now st = st\<lparr>au_last_confirmed := now\<rparr>"

definition transient_failure :: "int \<Rightarrow> BuildAuthorityState \<Rightarrow> runner_error option" where
  "transient_failure now st =
     (if au_grace st \<le> now - au_last_confirmed st then Some (BuildTerminated CONTROLLER_UNAVAILABLE) else None)"

definition record_result :: "runner_error option \<Rightarrow> BuildAuthorityState \<Rightarrow> BuildAuthorityState" where
  "record_result result st =
     (case result of
        Some (BuildTerminated status) \<Rightarrow> st\<lparr>au_terminated := Some (unwrap_or status (au_terminated st))\<rparr>
      | _ \<Rightarrow> st)"

definition terminated_error :: "BuildAuthorityState \<Rightarrow> runner_error" where
  "terminated_error st = BuildTerminated (unwrap_or ''canceled'' (au_terminated st))"

definition is_success :: "nat \<Rightarrow> bool" where
  "is_success status \<longleftrightarrow> 200 \<le> status \<and> status < 300"

definition is_transient_authority_status :: "nat \<Rightarrow> bool" where
  "is_transient_authority_status status \<longleftrightarrow> 500 \<le> status \<and> status < 600 \<or> status = 408 \<or> status = 429"

definition authority_loss :: "(nat \<Rightarrow> string) \<Rightarrow> nat \<Rightarrow> runner_error" where
  "authority_loss show_status status =
     BuildTerminated (if status = 401 then ''runner_unauthorized'' else if status = 403 then ''assignment_lost''
       else if status = 404 then ''build_missing'' else ''protocol_rejected_'' @ show_status status)"

text \<open>A reply: its status and, when the body can be read, the build's status in it; or no reply.\<close>

datatype reply = Reply nat "string option" | No_Reply

definition check_build_active ::
  "(nat \<Rightarrow> string) \<Rightarrow> int \<Rightarrow> reply \<Rightarrow> BuildAuthorityState \<Rightarrow> runner_error option \<times> BuildAuthorityState" where
  "check_build_active show_status now r st =
     (case r of
        No_Reply \<Rightarrow> (let e = transient_failure now st in (e, record_result e st))
      | Reply status body \<Rightarrow>
          if is_success status
          then (case body of
                  None \<Rightarrow> (let e = transient_failure now st in (e, record_result e st))
                | Some text \<Rightarrow>
                    (case build_status_from_str text of
                       Inl e \<Rightarrow> (Some (Other_Error e), st)
                     | Inr s \<Rightarrow>
                         if build_is_terminal s
                         then (let e = Some (BuildTerminated text) in (e, record_result e st))
                         else (None, confirmed_active now st)))
          else if is_transient_authority_status status
          then (let e = transient_failure now st in (e, record_result e st))
          else (let e = Some (authority_loss show_status status) in (e, record_result e st)))"

text \<open>Polling: it returns at the first error.\<close>

fun poll_cancellation :: "(nat \<Rightarrow> string) \<Rightarrow> (int \<times> reply) list \<Rightarrow> BuildAuthorityState \<Rightarrow> runner_error option \<times> BuildAuthorityState" where
  "poll_cancellation show_status [] st = (None, st)"
| "poll_cancellation show_status ((now, r) # polls) st =
     (case check_build_active show_status now r st of
        (None, st1) \<Rightarrow> poll_cancellation show_status polls st1
      | (Some e, st1) \<Rightarrow> (Some e, st1))"

subsection \<open>The final report\<close>

record 's StatusReport =
  rpt_build_id :: string
  rpt_status :: string
  rpt_exit_code :: "int option"
  rpt_error_message :: "string option"
  rpt_steps :: "'s list"
  rpt_size_budgets :: "TargetSizeBudget list option"

primrec runner_error_text :: "runner_error \<Rightarrow> string" where
  "runner_error_text (BuildTerminated status) = ''build was externally terminated (status: '' @ status @ '')''"
| "runner_error_text (Other_Error e) = e"

definition status_report ::
  "string \<Rightarrow> 's list \<Rightarrow> TargetSizeBudget list option \<Rightarrow> string \<Rightarrow> int \<Rightarrow> string option \<Rightarrow> 's StatusReport" where
  "status_report build_id steps budgets status code message =
     \<lparr>rpt_build_id = build_id, rpt_status = status, rpt_exit_code = Some code, rpt_error_message = message,
      rpt_steps = steps, rpt_size_budgets = budgets\<rparr>"

definition final_report ::
  "string \<Rightarrow> 's list \<Rightarrow> TargetSizeBudget list option \<Rightarrow> runner_error option \<Rightarrow> 's StatusReport option" where
  "final_report build_id steps budgets result =
     (let report = status_report build_id steps budgets
      in case result of
           None \<Rightarrow> Some (report ''succeeded'' 0 None)
         | Some (BuildTerminated status) \<Rightarrow>
             if status = CONTROLLER_UNAVAILABLE
             then Some (report ''failed'' 1 (Some
               (''The runner lost contact with the backend for more than '' @ show_int (CONTROLLER_GRACE div 60000) @ '' minutes and stopped the build'')))
             else None
         | Some (Other_Error e) \<Rightarrow> Some (report ''failed'' 1 (Some e)))"

subsection \<open>Delivering a report\<close>

definition FINAL_REPORT_WINDOW :: nat where "FINAL_REPORT_WINDOW = 600 * 1000"
definition RUNNING_REPORT_WINDOW :: nat where "RUNNING_REPORT_WINDOW = 120 * 1000"

datatype report_outcome = Reported | Rejected nat | Gave_Up

definition report_status :: "reply \<Rightarrow> report_outcome option" where
  "report_status r =
     (case r of
        No_Reply \<Rightarrow> None
      | Reply status _ \<Rightarrow>
          if is_success status then Some Reported else if is_transient_authority_status status then None else Some (Rejected status))"

record RetryPolicy =
  ry_first_delay :: nat
  ry_max_delay :: nat
  ry_window :: nat

definition retry_within :: "nat \<Rightarrow> RetryPolicy" where
  "retry_within window = \<lparr>ry_first_delay = 1000, ry_max_delay = 30 * 1000, ry_window = window\<rparr>"

text \<open>Attempts are given by how long each takes and what comes back. The result tells the time spent and how many were made.\<close>

partial_function (option) report_loop ::
  "RetryPolicy \<Rightarrow> (nat \<Rightarrow> nat \<times> reply) \<Rightarrow> nat \<Rightarrow> nat \<Rightarrow> nat \<Rightarrow> (report_outcome \<times> nat \<times> nat) option" where
  "report_loop policy attempts i elapsed delay =
     (let now = elapsed + fst (attempts i)
      in case report_status (snd (attempts i)) of
           Some outcome \<Rightarrow> Some (outcome, now, Suc i)
         | None \<Rightarrow>
             if ry_window policy < now + delay then Some (Gave_Up, now, Suc i)
             else report_loop policy attempts (Suc i) (now + delay) (min (delay * 2) (ry_max_delay policy)))"

definition report_status_with_retry :: "RetryPolicy \<Rightarrow> (nat \<Rightarrow> nat \<times> reply) \<Rightarrow> (report_outcome \<times> nat \<times> nat) option" where
  "report_status_with_retry policy attempts = report_loop policy attempts 0 0 (ry_first_delay policy)"

subsection \<open>Delivery ends\<close>

lemma report_loop_ends:
  assumes "0 < delay" "0 < ry_max_delay policy" "delay \<le> ry_max_delay policy"
  shows "\<exists>outcome now n. report_loop policy attempts i elapsed delay = Some (outcome, now, n) \<and> i < n \<and>
    (outcome = Gave_Up \<longrightarrow> ry_window policy < now + ry_max_delay policy \<and> (\<forall>j. i \<le> j \<longrightarrow> j < n \<longrightarrow> report_status (snd (attempts j)) = None)) \<and>
    (outcome \<noteq> Gave_Up \<longrightarrow> report_status (snd (attempts (n - 1))) = Some outcome)"
  using assms
proof (induction "Suc (ry_window policy) - elapsed" arbitrary: i elapsed delay rule: less_induct)
  case less
  let ?now = "elapsed + fst (attempts i)"
  show ?case
  proof (cases "report_status (snd (attempts i))")
    case (Some outcome)
    then have "outcome \<noteq> Gave_Up" by (auto simp: report_status_def split: reply.splits if_splits)
    with Some show ?thesis by (subst report_loop.simps) (simp add: Let_def)
  next
    case None
    show ?thesis
    proof (cases "ry_window policy < ?now + delay")
      case True
      with None less.prems show ?thesis by (subst report_loop.simps) (auto simp: Let_def less_Suc_eq_le)
    next
      case False
      have "Suc (ry_window policy) - (?now + delay) < Suc (ry_window policy) - elapsed" using False less.prems by linarith
      moreover have "0 < min (delay * 2) (ry_max_delay policy)" "min (delay * 2) (ry_max_delay policy) \<le> ry_max_delay policy" using less.prems by auto
      ultimately obtain outcome now n where run: "report_loop policy attempts (Suc i) (?now + delay) (min (delay * 2) (ry_max_delay policy)) = Some (outcome, now, n)"
        and n: "Suc i < n" and up: "outcome = Gave_Up \<longrightarrow> ry_window policy < now + ry_max_delay policy \<and>
            (\<forall>j. Suc i \<le> j \<longrightarrow> j < n \<longrightarrow> report_status (snd (attempts j)) = None)"
        and ok: "outcome \<noteq> Gave_Up \<longrightarrow> report_status (snd (attempts (n - 1))) = Some outcome"
        using less.hyps less.prems(2) by blast
      have "report_loop policy attempts i elapsed delay = Some (outcome, now, n)"
        using None False run by (subst report_loop.simps) (simp add: Let_def)
      moreover have "outcome = Gave_Up \<longrightarrow> (\<forall>j. i \<le> j \<longrightarrow> j < n \<longrightarrow> report_status (snd (attempts j)) = None)"
        using up None by (metis Suc_leI le_neq_implies_less)
      ultimately show ?thesis using n up ok by auto
    qed
  qed
qed

text \<open>
  C34. Reporting a build's result always ends. The runner gives up only when every attempt failed on the way, and not before the last thirty seconds of the
  window: a backend that takes reports again by then receives this one.
\<close>

theorem report_delivery_ends:
  "\<exists>outcome now n. report_status_with_retry (retry_within FINAL_REPORT_WINDOW) attempts = Some (outcome, now, n) \<and> 0 < n \<and>
     (if outcome = Gave_Up then 570 * 1000 < now \<and> list_all (\<lambda>j. report_status (snd (attempts j)) = None) [0..<n]
      else report_status (snd (attempts (n - 1))) = Some outcome)"
proof -
  have "0 < ry_first_delay (retry_within FINAL_REPORT_WINDOW)" "0 < ry_max_delay (retry_within FINAL_REPORT_WINDOW)"
    "ry_first_delay (retry_within FINAL_REPORT_WINDOW) \<le> ry_max_delay (retry_within FINAL_REPORT_WINDOW)" by (simp_all add: retry_within_def)
  from report_loop_ends[OF this, of attempts 0 0] show ?thesis
    by (auto simp: report_status_with_retry_def retry_within_def FINAL_REPORT_WINDOW_def list_all_iff)
qed

subsection \<open>Outages\<close>

definition active_reply :: "reply \<Rightarrow> bool" where
  "active_reply r \<longleftrightarrow> (case r of
     Reply status (Some text) \<Rightarrow> is_success status \<and> (case build_status_from_str text of Inr s \<Rightarrow> \<not> build_is_terminal s | Inl _ \<Rightarrow> False)
   | _ \<Rightarrow> False)"

definition transient_reply :: "reply \<Rightarrow> bool" where
  "transient_reply r \<longleftrightarrow> (case r of
     No_Reply \<Rightarrow> True | Reply status body \<Rightarrow> is_success status \<and> body = None \<or> is_transient_authority_status status)"

lemma transient_not_success: "is_transient_authority_status status \<Longrightarrow> \<not> is_success status"
  by (auto simp: is_transient_authority_status_def is_success_def)

lemma check_transient:
  "transient_reply r \<Longrightarrow> check_build_active show_status now r st = (transient_failure now st, record_result (transient_failure now st) st)"
  by (auto simp: transient_reply_def check_build_active_def Let_def dest: transient_not_success split: reply.splits)

lemma check_goes_on:
  "check_build_active show_status now r st = (None, st1) \<Longrightarrow>
     (if active_reply r then st1 = confirmed_active now st else transient_reply r \<and> st1 = st)"
  by (auto simp: check_build_active_def active_reply_def transient_reply_def Let_def record_result_def split: reply.splits option.splits sum.splits if_splits)

text \<open>The time of the last confirmation, of the state and the polls since.\<close>

definition last_confirmation :: "int \<Rightarrow> (int \<times> reply) list \<Rightarrow> int" where
  "last_confirmation start polls = fold (\<lambda>(now, r) last. if active_reply r then now else last) polls start"

lemma poll_append:
  "poll_cancellation show_status before st = (None, st1) \<Longrightarrow>
     poll_cancellation show_status (before @ rest) st = poll_cancellation show_status rest st1"
  by (induction show_status before st rule: poll_cancellation.induct) (auto split: prod.splits option.splits)

lemma poll_goes_on:
  "poll_cancellation show_status before st = (None, st1) \<Longrightarrow>
     st1 = st\<lparr>au_last_confirmed := last_confirmation (au_last_confirmed st) before\<rparr>"
proof (induction show_status before st rule: poll_cancellation.induct)
  case (2 show_status now r polls st)
  then obtain st2 where st2: "check_build_active show_status now r st = (None, st2)" "poll_cancellation show_status polls st2 = (None, st1)"
    by (auto split: prod.splits option.splits)
  from 2(1)[OF st2(1)[symmetric] refl st2(2)] check_goes_on[OF st2(1)] show ?case
    by (auto simp: last_confirmation_def confirmed_active_def split: if_splits)
qed (simp add: last_confirmation_def)

lemma poll_outage:
  "list_all (\<lambda>(_, r). transient_reply r) outage \<Longrightarrow> au_terminated st = None \<Longrightarrow>
     poll_cancellation show_status outage st =
       (if list_ex (\<lambda>(now, _). au_grace st \<le> now - au_last_confirmed st) outage
        then (Some (BuildTerminated CONTROLLER_UNAVAILABLE), st\<lparr>au_terminated := Some CONTROLLER_UNAVAILABLE\<rparr>) else (None, st))"
  by (induction show_status outage st rule: poll_cancellation.induct) (auto simp: check_transient transient_failure_def record_result_def)

text \<open>
  C33. While the backend cannot answer, a build goes on, and it is stopped by the first poll that finds the backend silent for the whole grace window since
  it last confirmed the build; the runner then reports the build as failed, whatever polls were before.
\<close>

theorem outage_stops_build:
  assumes "poll_cancellation show_status before st = (None, st1)" "au_terminated st = None"
    "list_all (\<lambda>(_, r). transient_reply r) outage"
  shows "(let (stopped, st2) = poll_cancellation show_status (before @ outage) st
    in if list_ex (\<lambda>(now, _). au_grace st \<le> now - last_confirmation (au_last_confirmed st) before) outage
       then stopped = Some (BuildTerminated CONTROLLER_UNAVAILABLE) \<and> map_option rpt_status (final_report build_id steps budgets (Some (terminated_error st2))) = Some ''failed''
       else stopped = None)"
  using poll_goes_on[OF assms(1)] poll_append[OF assms(1), of outage] poll_outage[OF assms(3), of st1 show_status] assms(2)
  by (simp add: terminated_error_def final_report_def status_report_def)

theorem outage_stops_build_witness:
  "fst (poll_cancellation (\<lambda>_. []) ([(5000, Reply 200 (Some ''running''))] @ [(10000, No_Reply), (305000, Reply 503 None)]) (with_grace 0 CONTROLLER_GRACE)) =
     Some (BuildTerminated CONTROLLER_UNAVAILABLE)"
proof -
  let ?st = "with_grace 0 CONTROLLER_GRACE" and ?before = "[(5000, Reply 200 (Some ''running''))]"
  let ?outage = "[(10000, No_Reply), (305000, Reply 503 None)]"
  have 1: "poll_cancellation (\<lambda>_. []) ?before ?st = (None, ?st\<lparr>au_last_confirmed := 5000\<rparr>)"
    by (simp add: check_build_active_def is_success_def build_status_from_str_def confirmed_active_def with_grace_def)
  have 2: "au_terminated ?st = None" by (simp add: with_grace_def)
  have 3: "list_all (\<lambda>(_, r). transient_reply r) ?outage"
    by (simp add: transient_reply_def is_transient_authority_status_def)
  have "list_ex (\<lambda>(now, _). au_grace ?st \<le> now - last_confirmation (au_last_confirmed ?st) ?before) ?outage"
    by (simp add: with_grace_def CONTROLLER_GRACE_def last_confirmation_def active_reply_def is_success_def build_status_from_str_def)
  with outage_stops_build[OF 1 2 3, where build_id = "[]" and steps = "[] :: unit list" and budgets = None] show ?thesis unfolding Let_def case_prod_unfold by argo
qed

end
