(* ===== verification/Publish_Settings.thy ===== *)
theory Publish_Settings
  imports Pipeline_File Releases
begin

text \<open>
  The Google Play publish settings of a pipeline (\<^verbatim>\<open>crates/oore-contract/src/lib.rs\<close>), and how the uploads a version 2 file names are applied to the
  publish settings a runner fetched (\<open>PlanPublish::apply\<close> of \<^verbatim>\<open>crates/oore-contract/src/pipeline_config.rs\<close>).

  How a number is shown in a note is the standard library's and an argument.
\<close>

subsection \<open>Settings\<close>

datatype GooglePlayReleaseNotesSource = Notes_None | Notes_Changelog | Notes_RepoFiles

record GooglePlayPublishConfig =
  gp_enabled :: bool
  gp_service_account_secret :: string
  gp_package_name :: "string option"
  gp_track :: string
  gp_rollout_percent :: "f64 option"
  gp_draft :: bool
  gp_release_notes :: GooglePlayReleaseNotesSource
  gp_release_notes_locale :: string
  gp_release_notes_dir :: "string option"
  gp_upload_mapping :: bool
  gp_in_app_update_priority :: "nat option"
  gp_rollout_policy :: "ReleasePolicy option"

definition from_file_defaults :: GooglePlayPublishConfig where
  "from_file_defaults = \<lparr>gp_enabled = True, gp_service_account_secret = [], gp_package_name = None, gp_track = ''internal'',
     gp_rollout_percent = None, gp_draft = False, gp_release_notes = Notes_Changelog, gp_release_notes_locale = ''en-US'',
     gp_release_notes_dir = None, gp_upload_mapping = True, gp_in_app_update_priority = None, gp_rollout_policy = None\<rparr>"

definition valid_package_name :: "string \<Rightarrow> bool" where
  "valid_package_name package \<longleftrightarrow>
     (let parts = split_on (CHR ''.'') package
      in 2 \<le> length parts \<and>
         list_all (\<lambda>part. case part of [] \<Rightarrow> False
           | c # _ \<Rightarrow> is_ascii_alphabetic c \<and> list_all (\<lambda>d. is_ascii_alphanumeric d \<or> d = CHR ''_'') part) parts)"

definition staged :: "f64 option \<Rightarrow> bool" where
  "staged percent \<longleftrightarrow> (case percent of Some p \<Rightarrow> f64_less p (Finite 100) | None \<Rightarrow> False)"

definition rollout_errors :: "GooglePlayPublishConfig \<Rightarrow> string list" where
  "rollout_errors config =
     (case gp_rollout_percent config of
        None \<Rightarrow> []
      | Some percent \<Rightarrow>
          if \<not> (f64_less (Finite 0) percent \<and> f64_le percent (Finite 100))
          then [''rollout_percent must be greater than 0 and at most 100'']
          else if f64_less percent (Finite 100) \<and> trim (gp_track config) = ''internal''
          then [''the internal track does not support staged rollouts'']
          else if f64_less percent (Finite 100) \<and> gp_draft config
          then [''a draft release cannot have a staged rollout''] else [])"

definition validate_google_play_publish_config :: "GooglePlayPublishConfig \<Rightarrow> string list" where
  "validate_google_play_publish_config config =
     (case validate_secret_name (trim (gp_service_account_secret config)) of Some e \<Rightarrow> [''service_account_secret '' @ e] | None \<Rightarrow> []) @
     (case gp_package_name config of
        Some package \<Rightarrow> if valid_package_name package then []
          else [''package_name must be an Android application id such as com.example.app'']
      | None \<Rightarrow> []) @
     (if is_valid_play_track (trim (gp_track config)) then []
      else [''track must be internal, closed, open, production, or a custom track name'']) @
     rollout_errors config @
     (case gp_rollout_policy config of
        Some policy \<Rightarrow>
          (case policy_validate policy of Inl e \<Rightarrow> [e] | Inr _ \<Rightarrow> []) @ (case policy_validate_gate policy of Inl e \<Rightarrow> [e] | Inr _ \<Rightarrow> [])
      | None \<Rightarrow> []) @
     (if trim (gp_release_notes_locale config) = [] \<or> 16 < length (gp_release_notes_locale config)
      then [''release_notes_locale must be a Play language code such as en-US''] else []) @
     (if gp_release_notes config = Notes_RepoFiles
      then (case gp_release_notes_dir config of
              Some dir \<Rightarrow> (case validate_repository_config_path dir of Some e \<Rightarrow> [''release_notes_dir '' @ e] | None \<Rightarrow> [])
            | None \<Rightarrow> [''release_notes_dir is required for repo_files release notes''])
      else []) @
     (if (case gp_in_app_update_priority config of Some p \<Rightarrow> 5 < p | None \<Rightarrow> False)
      then [''in_app_update_priority must be between 0 and 5''] else [])"

subsection \<open>Applying a file's uploads\<close>

record RunnerPublishPlan =
  rn_changelog :: "string option"
  rn_google_play :: "GooglePlayPublishConfig option"
  rn_app_store :: "RunnerAppStorePublishPlan option"
  rn_disabled :: bool

record EffectivePublish =
  ef_changelog :: "string option"
  ef_google_play :: "string + GooglePlayPublishConfig option"
  ef_app_store :: "string + RunnerAppStorePublishPlan option"
  ef_notes :: "string list"

fun f64_round :: "f64 \<Rightarrow> f64" where
  "f64_round (Finite x) = Finite (of_int (round_half_away x))"
| "f64_round x = x"

definition play_rollout_percent :: "f64 \<Rightarrow> f64" where
  "play_rollout_percent rollout = f64_scale (1 / 1000000) (f64_round (f64_scale 1000000 (f64_scale 100 rollout)))"

definition under_100 :: "f64 option \<Rightarrow> f64 option" where
  "under_100 percent = (if staged percent then percent else None)"

text \<open>Settings with the file's track, rollout, draft and service account, fitted to what Google Play allows.\<close>

definition fit_play :: "(f64 \<Rightarrow> string) \<Rightarrow> PlayPublishSpec \<Rightarrow> GooglePlayPublishConfig \<Rightarrow> GooglePlayPublishConfig \<times> string list" where
  "fit_play show_f64 spec settings =
     (let config = settings\<lparr>gp_enabled := True, gp_track := pp_track spec,
            gp_rollout_percent := (case pp_rollout spec of Some r \<Rightarrow> under_100 (Some (play_rollout_percent r)) | None \<Rightarrow> gp_rollout_percent settings),
            gp_draft := unwrap_or (gp_draft settings) (pp_draft spec),
            gp_service_account_secret := unwrap_or (gp_service_account_secret settings) (pp_service_account spec)\<rparr>
      in case under_100 (gp_rollout_percent config) of
           None \<Rightarrow> (config, [])
         | Some percent \<Rightarrow>
             if gp_draft config
             then (config\<lparr>gp_rollout_percent := None\<rparr>, [''A draft has no staged rollout; ignoring the '' @ show_f64 percent @ ''% rollout''])
             else if gp_track config = ''internal''
             then (config\<lparr>gp_rollout_percent := None\<rparr>,
               [''The internal track has no staged rollouts; releasing to every internal tester instead of '' @ show_f64 percent @ ''%''])
             else (config, []))"

definition play_from_file :: "PlayPublishSpec \<Rightarrow> string \<Rightarrow> GooglePlayPublishConfig" where
  "play_from_file spec secret = from_file_defaults\<lparr>gp_enabled := True, gp_service_account_secret := secret, gp_track := pp_track spec,
     gp_rollout_percent := (case pp_rollout spec of
        Some r \<Rightarrow> if pp_track spec \<noteq> ''internal'' then under_100 (Some (play_rollout_percent r)) else None | None \<Rightarrow> None),
     gp_draft := unwrap_or False (pp_draft spec)\<rparr>"

definition apply_play ::
  "(f64 \<Rightarrow> string) \<Rightarrow> PlayPublishSpec PlannedPublish option \<Rightarrow> GooglePlayPublishConfig option \<Rightarrow> (string + GooglePlayPublishConfig option) \<times> string list" where
  "apply_play show_f64 upload settings =
     (case upload of
        None \<Rightarrow> (Inr settings, [])
      | Some play \<Rightarrow>
          (case pd_error play of
             Some e \<Rightarrow> (Inl e, [])
           | None \<Rightarrow>
               (case settings of
                  Some config \<Rightarrow> (case fit_play show_f64 (pd_spec play) config of (c, notes) \<Rightarrow> (Inr (Some c), notes))
                | None \<Rightarrow>
                    (case pp_service_account (pd_spec play) of
                       Some secret \<Rightarrow> (Inr (Some (play_from_file (pd_spec play) secret)), [])
                     | None \<Rightarrow> (Inl (pd_source play @ '' publishes with the pipeline'' @ [CHR 0x27] @ ''s Google Play settings, which are off. Name the service account secret with `service_account`, or in the pipeline'' @
                         [CHR 0x27] @ ''s Publish settings turn on Google Play'' @ [CHR 0x27] @ ''s '' @ [CHR 0x22] @ ''Upload after each build'' @ [CHR 0x22] @
                         '' and set its service account secret; the file'' @ [CHR 0x27] @ ''s track, rollout and draft replace the settings'' @ [CHR 0x27] @ '' own''), [])))))"

text \<open>The older \<open>testflight\<close> is \<open>app_store\<close> with destination testflight.\<close>

definition app_store_spec :: "PlanPublish \<Rightarrow> AppStorePublishSpec PlannedPublish option" where
  "app_store_spec p =
     (case pub_testflight p of
        Some t \<Rightarrow> Some \<lparr>pd_spec = \<lparr>asp_destination = Testflight, asp_groups = [tf_group (pd_spec t)], asp_submit_for_review = None, asp_phased_release = None\<rparr>,
          pd_source = pd_source t, pd_error = pd_error t\<rparr>
      | None \<Rightarrow> pub_app_store p)"

definition fit_app_store :: "AppStorePublishSpec \<Rightarrow> AppStorePublishConfig \<Rightarrow> AppStorePublishConfig" where
  "fit_app_store spec config =
     (let c = config\<lparr>ac_enabled := True, ac_destination := asp_destination spec\<rparr>
      in case asp_destination spec of
           Testflight \<Rightarrow> c\<lparr>ac_testflight_groups := (if asp_groups spec = [] then ac_testflight_groups c else asp_groups spec),
             ac_submit_for_review := False, ac_phased_release := False\<rparr>
         | Dest_AppStore \<Rightarrow> c\<lparr>ac_submit_for_review := unwrap_or (ac_submit_for_review c) (asp_submit_for_review spec),
             ac_phased_release := unwrap_or (ac_phased_release c) (asp_phased_release spec)\<rparr>)"

definition apply_app_store ::
  "AppStorePublishSpec PlannedPublish option \<Rightarrow> RunnerAppStorePublishPlan option \<Rightarrow> string + RunnerAppStorePublishPlan option" where
  "apply_app_store upload settings =
     (case upload of
        None \<Rightarrow> Inr settings
      | Some p \<Rightarrow>
          (case pd_error p of
             Some e \<Rightarrow> Inl e
           | None \<Rightarrow>
               (case settings of
                  Some plan \<Rightarrow>
                    (let c = fit_app_store (pd_spec p) (pp_config plan)
                     in if ac_destination c = Testflight \<and> ac_testflight_groups c = []
                        then Inl (pd_source p @ '' publishes to TestFlight, but neither the file nor the pipeline'' @ [CHR 0x27] @ ''s App Store settings name a group; set `groups`'')
                        else Inr (Some (plan\<lparr>pp_config := c\<rparr>)))
                | None \<Rightarrow> Inl (pd_source p @ '' publishes with the pipeline'' @ [CHR 0x27] @
                    ''s App Store Connect settings, which are not set up. In the pipeline'' @ [CHR 0x27] @ ''s Publish settings, turn on App Store Connect, and in its iOS signing settings export App Store IPAs with an App Store Connect API key; the file'' @
                    [CHR 0x27] @ ''s settings replace the settings'' @ [CHR 0x27] @ '' destination, groups and review options''))))"

definition apply_publish :: "(f64 \<Rightarrow> string) \<Rightarrow> PlanPublish \<Rightarrow> RunnerPublishPlan \<Rightarrow> EffectivePublish" where
  "apply_publish show_f64 p settings =
     (if rn_disabled settings
      then \<lparr>ef_changelog = rn_changelog settings, ef_google_play = Inr None, ef_app_store = Inr None,
        ef_notes = [''Publishing is off for this workflow in the pipeline'' @ [CHR 0x27] @ ''s workflow settings'']\<rparr>
      else
        let (google_play, notes) = apply_play show_f64 (pub_play p) (rn_google_play settings)
        in \<lparr>ef_changelog = rn_changelog settings, ef_google_play = google_play,
             ef_app_store = apply_app_store (app_store_spec p) (rn_app_store settings), ef_notes = notes\<rparr>)"

text \<open>Status and user fraction of the first release of an upload.\<close>

datatype ReleaseStatus = Status_Completed | Status_InProgress | Status_Draft | Status_Halted

definition release_status :: "GooglePlayPublishConfig \<Rightarrow> ReleaseStatus \<times> f64 option" where
  "release_status config =
     (if gp_draft config then (Status_Draft, None)
      else case under_100 (gp_rollout_percent config) of
        Some percent \<Rightarrow> (Status_InProgress, Some (f64_scale (1 / 100) percent))
      | None \<Rightarrow> (Status_Completed, None))"

subsection \<open>What an upload runs with\<close>

lemma staged_under_100: "under_100 percent = Some p \<longleftrightarrow> percent = Some p \<and> staged percent"
  by (auto simp: under_100_def)

lemma under_100_None: "under_100 percent = None \<longleftrightarrow> \<not> staged percent"
  by (cases percent) (auto simp: under_100_def staged_def)

lemma fit_play_rules:
  assumes "fit_play show_f64 spec settings = (c, notes)"
  shows "gp_enabled c \<and> gp_track c = pp_track spec \<and> (staged (gp_rollout_percent c) \<longrightarrow> \<not> gp_draft c \<and> gp_track c \<noteq> ''internal'') \<and>
    gp_draft c = unwrap_or (gp_draft settings) (pp_draft spec) \<and> gp_package_name c = gp_package_name settings \<and>
    gp_rollout_policy c = gp_rollout_policy settings"
  using assms
  by (auto simp: fit_play_def Let_def under_100_None staged_def staged_under_100 split: option.splits if_splits)

text \<open>
  C35. With Google Play set up in the pipeline's settings, a file's upload is on, goes to the file's track, and never asks for a staged rollout of a draft or
  of the internal track; the settings keep the package and the rollout policy. Nothing uploads where the workflow has publishing off.
\<close>

theorem file_upload_fits_play:
  assumes "pub_play p = Some play" "pd_error play = None" "rn_google_play settings = Some config"
  shows "(if rn_disabled settings then ef_google_play (apply_publish show_f64 p settings) = Inr None \<and> ef_app_store (apply_publish show_f64 p settings) = Inr None
    else (\<exists>c. ef_google_play (apply_publish show_f64 p settings) = Inr (Some c) \<and> gp_enabled c \<and> gp_track c = pp_track (pd_spec play) \<and>
      (gp_draft c \<or> gp_track c = ''internal'' \<longrightarrow> \<not> staged (gp_rollout_percent c)) \<and>
      gp_package_name c = gp_package_name config \<and> gp_rollout_policy c = gp_rollout_policy config))"
proof (cases "rn_disabled settings")
  case True
  then show ?thesis by (simp add: apply_publish_def)
next
  case False
  obtain c ns where fit: "fit_play show_f64 (pd_spec play) config = (c, ns)" by fastforce
  with False assms have "ef_google_play (apply_publish show_f64 p settings) = Inr (Some c)" by (simp add: apply_publish_def apply_play_def)
  with False fit_play_rules[OF fit] show ?thesis by auto
qed

definition half_draft :: PlayPublishSpec where
  "half_draft = \<lparr>pp_track = ''production'', pp_rollout = Some (Finite (1 / 2)), pp_draft = Some True, pp_service_account = Some ''PLAY''\<rparr>"

definition half_draft_plan :: PlanPublish where
  "half_draft_plan = no_publish\<lparr>pub_play := Some \<lparr>pd_spec = half_draft, pd_source = ''targets.android.publish.play'', pd_error = None\<rparr>\<rparr>"

definition bare_settings :: "GooglePlayPublishConfig option \<Rightarrow> RunnerPublishPlan" where
  "bare_settings play = \<lparr>rn_changelog = None, rn_google_play = play, rn_app_store = None, rn_disabled = False\<rparr>"

lemma half_percent: "play_rollout_percent (Finite (1 / 2)) = Finite 50"
  unfolding play_rollout_percent_def by code_simp

theorem file_upload_fits_play_witness:
  "\<exists>c. ef_google_play (apply_publish (\<lambda>_. ''50'') half_draft_plan (bare_settings (Some from_file_defaults))) = Inr (Some c) \<and> gp_draft c \<and>
     gp_rollout_percent c = None"
proof -
  have p: "pub_play half_draft_plan = Some \<lparr>pd_spec = half_draft, pd_source = ''targets.android.publish.play'', pd_error = None\<rparr>"
    by (simp add: half_draft_plan_def)
  have "ef_google_play (apply_publish (\<lambda>_. ''50'') half_draft_plan (bare_settings (Some from_file_defaults))) =
      Inr (Some (fst (fit_play (\<lambda>_. ''50'') half_draft from_file_defaults)))"
    by (simp add: apply_publish_def apply_play_def bare_settings_def p split: prod.splits)
  moreover have "gp_draft (fst (fit_play (\<lambda>_. ''50'') half_draft from_file_defaults))"
    using fit_play_rules[of "\<lambda>_. ''50''" half_draft from_file_defaults] by (cases "fit_play (\<lambda>_. ''50'') half_draft from_file_defaults") (simp add: half_draft_def)
  ultimately show ?thesis
    using file_upload_fits_play[OF p, of "bare_settings (Some from_file_defaults)" from_file_defaults "\<lambda>_. ''50''"]
    by (auto simp: bare_settings_def staged_def fit_play_def half_draft_def half_percent under_100_def Let_def)
qed

text \<open>
  Without settings the rule is not applied: a file that names its service account, a draft and a staged rollout gives an upload with both, which the checks
  of the settings form refuse; the note that the rollout is ignored is not written.
\<close>

theorem draft_keeps_rollout_without_settings:
  "\<exists>c. ef_google_play (apply_publish show_f64 half_draft_plan (bare_settings None)) = Inr (Some c) \<and>
     ef_notes (apply_publish show_f64 half_draft_plan (bare_settings None)) = [] \<and> gp_draft c \<and> gp_rollout_percent c = Some (Finite 50) \<and>
     rollout_errors c = [''a draft release cannot have a staged rollout'']"
  by (simp add: apply_publish_def apply_play_def bare_settings_def half_draft_plan_def half_draft_def play_from_file_def half_percent under_100_def staged_def
      rollout_errors_def trim_def is_ws_def)

end
