(* ===== verification/Spec2Isabelle.thy ===== *)
theory Spec2Isabelle
  imports
    Sweep_Guarantees App_Store_Guarantees Environment_Guarantees Account_Guarantees
    Artifact_Tokens Oidc_Admission Project_Members Schedule_Runs Webhook_Guarantees Runner_Plans
    Runner_Control Publish_Settings
begin

text \<open>
  A verification library for the control plane of oore.build, a self-hosted build service for mobile
  apps. The daemon \<^verbatim>\<open>oored\<close> keeps projects, pipelines, builds, releases and accounts in SQLite
  tables and serves an HTTP API; runners poll it for builds, report status and upload artifacts;
  background monitors requeue, expire, time out and clean up; store monitors follow releases at Apple
  and Google. The shared types are in \<^verbatim>\<open>crates/oore-contract\<close>. Paths below are relative to
  \<^verbatim>\<open>crates/oored/src\<close> unless they name a crate.

  \<^bold>\<open>How the model reads.\<close> A table is a list of rows, a row a record, a text column with a fixed
  vocabulary the datatype it parses to. A handler is a function of the clock, the caller, the request and
  the tables; it returns the answer (\<open>Inl\<close> an API error, \<open>Inr\<close> a result) and the new tables, with the
  guards and early returns in the order of the code. Generated identifiers and tokens are arguments.
  Third-party code is a parameter: token hashing, the Casbin decision, decryption, URL encoding, the stores.
  Where a handler reads first and writes later outside one transaction, the write is a step of its own,
  so that theorems about step relations cover every interleaving. A failed SQL statement is modelled
  where a constraint can fail; a failing disk is not.

  \<^bold>\<open>Shared theories.\<close>
  \<^item> \<open>Oore_Prelude\<close>: API errors, result plumbing (\<open>and_then\<close>, \<open>try_in\<close>, \<open>ensure\<close>), byte strings, table
    operations (\<open>update_where\<close>, \<open>fetch_optional\<close>, \<open>rows_affected\<close>) and the locales \<open>invariant_of\<close>,
    \<open>progress_of\<close> and \<open>sweep\<close> that carry a property of one step to runs and to monitor passes.
  \<^item> \<open>Ieee_Float\<close>: the double arithmetic of rollout fractions, with rounding and overflow.
  \<^item> \<open>Contract_Enums\<close>: every stored enumeration of \<^verbatim>\<open>oore-contract/src/lib.rs\<close> with \<open>Display\<close> and
    \<open>FromStr\<close>, the setup, build and release state machines, and the locale \<open>text_codec\<close> of a text column.

  \<^bold>\<open>Builds.\<close>
  \<^item> \<open>Glob_Match\<close>, \<open>Trigger_Config\<close>: the glob loops, proved to end and to compute a declarative relation, and
    the trigger rules of pipelines and workflow files.
  \<^item> \<open>Runner_Labels\<close>, \<open>Project_Rbac\<close>: labels, disk pressure and size budgets; project roles and permissions
    (\<^verbatim>\<open>project_rbac.rs\<close>).
  \<^item> \<open>Build_Store\<close> (\<^verbatim>\<open>builds.rs\<close>): the optimistic transition, the insert with superseding and at most
    ten attempts, cancellation and approval. \<open>Runner_Claims\<close> (\<^verbatim>\<open>runners.rs\<close>): authentication,
    heartbeat, claim, signing grant, status reports. \<open>Build_Monitors\<close> (\<^verbatim>\<open>background.rs\<close>,
    \<^verbatim>\<open>scheduler.rs\<close>, \<^verbatim>\<open>operator.rs\<close>): one pass of each monitor, source changes, the maintenance barrier.
  \<^item> \<open>Build_Lifecycle\<close>: all of these as runs of one step relation, with the invariant of the build tables.
    \<open>Build_Guarantees\<close>, \<open>Queue_Guarantees\<close>, \<open>Sweep_Guarantees\<close>: what follows for users, races included.

  \<^bold>\<open>Releases.\<close>
  \<^item> \<open>Releases\<close> (\<^verbatim>\<open>releases.rs\<close>), \<open>Release_Lifecycle\<close>, \<open>Release_Guarantees\<close>: rollouts, their history,
    schedule, approval and crash guard, and the refinement of an abstract machine of states and fractions.
  \<^item> \<open>App_Store_Connect\<close>, \<open>App_Store\<close>, \<open>App_Store_Guarantees\<close>: Apple's client, uploads, the staged monitor,
    controls and promotion. A poll looks at most twice at Apple in a row (\<open>poll_rounds\<close>), as the code does.
  \<^item> \<open>Environments\<close>, \<open>Environment_Guarantees\<close> (\<^verbatim>\<open>environments.rs\<close>): who may approve, and promotions from the
    request to the recorded outcome.

  \<^bold>\<open>Accounts and artifacts.\<close>
  \<^item> \<open>Accounts\<close> (\<^verbatim>\<open>session.rs\<close>, \<^verbatim>\<open>api_tokens.rs\<close>, \<^verbatim>\<open>users.rs\<close>, \<^verbatim>\<open>extractors.rs\<close>), \<open>Logins\<close>
    (\<^verbatim>\<open>auth.rs\<close>, \<^verbatim>\<open>local_recovery.rs\<close>), \<open>Account_Guarantees\<close>: who is let in, with which role, and that
    revoked credentials and spent capabilities stay dead under any interleaving.
  \<^item> \<open>Artifact_Tokens\<close> (\<^verbatim>\<open>artifact_tokens.rs\<close>): download links, with racing single-use downloads.
  \<^item> \<open>Oidc_Admission\<close> (\<^verbatim>\<open>auth.rs\<close>): the store of logins that wait for the identity provider, with its limits.
  \<^item> \<open>Project_Members\<close> (\<^verbatim>\<open>project_members.rs\<close>): membership, the last maintainer and the named approvers.

  \<^bold>\<open>What starts builds.\<close>
  \<^item> \<open>Cron_Schedules\<close>, \<open>Schedule_Runs\<close> (\<^verbatim>\<open>pipeline_schedules.rs\<close>): cron expressions as bit sets of machine words,
    the claim of due runs and the builds they start, under overlapping ticks.
  \<^item> \<open>Webhook_Events\<close>, \<open>Webhook_Intake\<close>, \<open>Webhook_Queue\<close> (\<^verbatim>\<open>integrations/webhooks.rs\<close>): events read from
    the providers' JSON, which revisions are trusted, the receivers with their secrets and signatures, and the
    queue of deliveries with leases and attempts.
  \<^item> \<open>Webhook_Builds\<close>, \<open>Webhook_Guarantees\<close> (\<^verbatim>\<open>builds.rs\<close>): the builds a delivery starts, over every linked
    project, enabled pipeline and workflow, and what holds of them when deliveries are processed again.
  \<^item> \<open>Signing_Library\<close> (\<^verbatim>\<open>signing_identities.rs\<close>): signing identities of a project, the settings of a
    workflow that pick them and what a build is bound to. \<open>Byte_Compare\<close> holds the comparison of secrets.

  \<^bold>\<open>Pipeline files.\<close> Text is a list of bytes; a file is what the YAML reader makes of it.
  \<^item> \<open>Pipeline_Vars\<close>, \<open>Pipeline_Expansion\<close> (\<^verbatim>\<open>oore-contract/src/pipeline_config.rs\<close>): expressions, and the resolver of vars
    with its cache, its cycle check and the limits of one file; it is total, and proved to agree with plain substitution.
  \<^item> \<open>Pipeline_File\<close> (\<^verbatim>\<open>pipeline_config.rs\<close>, validators of \<^verbatim>\<open>lib.rs\<close>): version 2 files, their size and shape checks, and the
    lowering of a workflow to a plan, which \<open>parse_v2\<close> runs for every workflow and \<open>plan_v2\<close> for one. \<open>Pipeline_Plans\<close>: an accepted
    file can be planned, by simulation of the two runs of \<open>lower\<close> under different budgets. \<open>Pipeline_Steps\<close>: the steps run in phases.
  \<^item> \<open>Repository_Plans\<close>: version 1 files and form settings, and a file of either version (\<open>RepositoryConfig\<close>). The builds of
    \<open>Webhook_Builds\<close> take the triggers, workflows and signing of a file from here.
  \<^item> \<open>Publish_Settings\<close>: Google Play settings, and a file's uploads applied to the settings of a pipeline.

  \<^bold>\<open>The runner\<close> (\<^verbatim>\<open>oore-runner/src/lib.rs\<close>).
  \<^item> \<open>Runner_Secrets\<close>: secret references of a plan, the masker of logs and the previews of commands: what they keep hidden.
  \<^item> \<open>Runner_Plans\<close>: which file or settings a job is planned from.
  \<^item> \<open>Runner_Control\<close>: polling for cancellation, the grace window of an outage, and the delivery of the final report, a loop that
    is a partial function proved to return for every sequence of replies.

  \<^bold>\<open>Not modelled.\<close> Network and process code: the HTTP clients of GitHub, GitLab, Google Play and identity
  providers, object storage, the execution of steps on a runner (checkout, processes, virtual machines, caches),
  the command line tool and its installers, log streaming, message rendering. Certificates and key handling.
  Import, export and migration of pipeline files. Read-only list and statistics handlers. JSON and YAML decoding,
  which third-party code does: a decoded value is the starting point.
\<close>

end
